(* ===== verification/Prelude.thy ===== *)
theory Prelude
  imports Main "HOL-Library.Word" "HOL-Library.List_Lexorder" "HOL-Library.Char_ord"
    "HOL-Library.Product_Lexorder"
begin

text \<open>
  Shared vocabulary of the development: the machine integers of the Rust source and their
  saturating operations, results as sums, the slice and iterator functions the source calls
  (\<open>clamp\<close>, \<open>max_by_key\<close>, \<open>min_by_key\<close>, \<open>windows(2)\<close>, \<open>collect\<close> into a
  \<open>Result\<close>), the ordered maps and sets of \<open>std::collections\<close> with the contract they are
  used under (the locale \<open>ordered_map\<close>), and the generic theory of a component that keeps an
  invariant over a stream of events (the locale \<open>invariant_machine\<close>).
\<close>

section \<open>Collections of simplification rules\<close>

named_theorems machine_int \<open>reading saturating and wrapping operations as arithmetic\<close>
named_theorems validation \<open>when a validator reports no issue\<close>

section \<open>Machine integers\<close>

type_synonym u8 = "8 word"
type_synonym u16 = "16 word"
type_synonym u32 = "32 word"
type_synonym u64 = "64 word"
type_synonym i8 = int
type_synonym i32 = int
type_synonym i64 = int
type_synonym usize = nat

text \<open>Signed 64-bit subtraction as compiled for release: two's complement wrap-around.\<close>

definition wrap_i64 :: "int \<Rightarrow> i64" where
  "wrap_i64 x = (x + 2 ^ 63) mod 2 ^ 64 - 2 ^ 63"

definition i64_sub :: "i64 \<Rightarrow> i64 \<Rightarrow> i64" where
  "i64_sub a b = wrap_i64 (a - b)"

lemma wrap_i64_id [machine_int]:
  assumes "- (2 ^ 63) \<le> x" and "x < 2 ^ 63"
  shows "wrap_i64 x = x"
proof -
  have "(x + 2 ^ 63) mod 2 ^ 64 = x + 2 ^ 63"
    using assms by (intro mod_pos_pos_trivial) auto
  then show ?thesis by (simp add: wrap_i64_def)
qed

definition u64_saturating_add :: "u64 \<Rightarrow> u64 \<Rightarrow> u64" where
  "u64_saturating_add a b = (if uint a + uint b < 2 ^ 64 then a + b else - 1)"

definition u64_saturating_sub :: "u64 \<Rightarrow> u64 \<Rightarrow> u64" where
  "u64_saturating_sub a b = (if b \<le> a then a - b else 0)"

definition u64_saturating_mul :: "u64 \<Rightarrow> u64 \<Rightarrow> u64" where
  "u64_saturating_mul a b = (if uint a * uint b < 2 ^ 64 then a * b else - 1)"

definition u64_abs_diff :: "u64 \<Rightarrow> u64 \<Rightarrow> u64" where
  "u64_abs_diff a b = (if a \<le> b then b - a else a - b)"

definition u64_is_multiple_of :: "u64 \<Rightarrow> u64 \<Rightarrow> bool" where
  "u64_is_multiple_of a b = (if b = 0 then a = 0 else a mod b = 0)"

definition u64_from_bool :: "bool \<Rightarrow> u64" where
  "u64_from_bool b = (if b then 1 else 0)"

lemma unat_u64_bound [simp]: "unat (w :: u64) < 18446744073709551616"
  using unsigned_less [of w] by simp

lemma unat_u64_max [simp]: "unat (- 1 :: u64) = 18446744073709551615"
  by (simp add: unsigned_minus_1_eq_mask mask_eq_exp_minus_1)

lemma uint_unat_sum: "int (unat a + unat b) = uint (a :: u64) + uint (b :: u64)"
  by simp

lemma uint_unat_prod: "int (unat a * unat b) = uint (a :: u64) * uint (b :: u64)"
  by simp

lemma unat_saturating_add [machine_int]:
  "unat (u64_saturating_add a b) = min (unat a + unat b) 18446744073709551615"
proof -
  have "uint a + uint b < 2 ^ 64 \<longleftrightarrow> unat a + unat b < 18446744073709551616"
    unfolding uint_unat_sum [symmetric] of_nat_less_iff [where 'a = int, symmetric] by simp
  then show ?thesis by (auto simp: u64_saturating_add_def unat_word_ariths)
qed

lemma unat_saturating_sub [machine_int]:
  "unat (u64_saturating_sub a b) = unat a - unat b"
  by (auto simp: u64_saturating_sub_def unat_sub word_le_nat_alt)

lemma unat_saturating_mul [machine_int]:
  "unat (u64_saturating_mul a b) = min (unat a * unat b) 18446744073709551615"
proof -
  have "uint a * uint b < 2 ^ 64 \<longleftrightarrow> unat a * unat b < 18446744073709551616"
    unfolding uint_unat_prod [symmetric] of_nat_less_iff [where 'a = int, symmetric] by simp
  then show ?thesis by (auto simp: u64_saturating_mul_def unat_word_ariths)
qed

lemma saturating_sub_self [simp]: "u64_saturating_sub a a = 0"
  by (simp add: u64_saturating_sub_def)

lemma saturating_add_ge: "a \<le> u64_saturating_add a b"
  using unat_u64_bound [of a] by (simp add: word_le_nat_alt machine_int del: unat_u64_bound)

lemma is_multiple_of_unat [machine_int]:
  "b \<noteq> 0 \<Longrightarrow> u64_is_multiple_of a b \<longleftrightarrow> unat b dvd unat a"
  by (simp add: u64_is_multiple_of_def dvd_eq_mod_eq_0 unat_eq_zero unat_mod_distrib
      flip: unat_eq_zero)

section \<open>Results\<close>

type_synonym ('e, 'a) result = "'e + 'a"

definition rbind :: "('e, 'a) result \<Rightarrow> ('a \<Rightarrow> ('e, 'b) result) \<Rightarrow> ('e, 'b) result" where
  "rbind r f = (case r of Inl e \<Rightarrow> Inl e | Inr a \<Rightarrow> f a)"

lemma rbind_simps [simp]: "rbind (Inl e) f = Inl e" "rbind (Inr a) f = f a"
  by (simp_all add: rbind_def)

lemma rbind_Inr_iff: "rbind r f = Inr b \<longleftrightarrow> (\<exists>a. r = Inr a \<and> f a = Inr b)"
  by (cases r) auto

lemma rbind_InrE:
  assumes "rbind r f = Inr b"
  obtains a where "r = Inr a" and "f a = Inr b"
  using assms by (auto simp: rbind_Inr_iff)

definition ok_or :: "'e \<Rightarrow> 'a option \<Rightarrow> ('e, 'a) result" where
  "ok_or e x = (case x of None \<Rightarrow> Inl e | Some a \<Rightarrow> Inr a)"

lemma ok_or_simps [simp]: "ok_or e None = Inl e" "ok_or e (Some a) = Inr a"
  by (simp_all add: ok_or_def)

lemma ok_or_Inr_iff [simp]: "ok_or e x = Inr a \<longleftrightarrow> x = Some a"
  by (cases x) auto

definition map_err :: "('e \<Rightarrow> 'f) \<Rightarrow> ('e, 'a) result \<Rightarrow> ('f, 'a) result" where
  "map_err g r = (case r of Inl e \<Rightarrow> Inl (g e) | Inr a \<Rightarrow> Inr a)"

lemma map_err_simps [simp]: "map_err g (Inl e) = Inl (g e)" "map_err g (Inr a) = Inr a"
  by (simp_all add: map_err_def)

lemma map_err_Inr_iff [simp]: "map_err g r = Inr a \<longleftrightarrow> r = Inr a"
  by (cases r) auto

text \<open>\<open>iter.map(f).collect::<Result<Vec<_>, _>>()\<close>: the first error wins.\<close>

fun try_map :: "('a \<Rightarrow> ('e, 'b) result) \<Rightarrow> 'a list \<Rightarrow> ('e, 'b list) result" where
  "try_map f [] = Inr []"
| "try_map f (x # xs) = rbind (f x) (\<lambda>y. rbind (try_map f xs) (\<lambda>ys. Inr (y # ys)))"

lemma try_map_Inr_iff:
  "try_map f xs = Inr ys \<longleftrightarrow> list_all2 (\<lambda>x y. f x = Inr y) xs ys"
  by (induction xs arbitrary: ys) (auto simp: rbind_Inr_iff list_all2_Cons1)

lemma try_map_total: "(\<And>x. x \<in> set xs \<Longrightarrow> \<exists>y. f x = Inr y) \<Longrightarrow> \<exists>ys. try_map f xs = Inr ys"
proof (induction xs)
  case (Cons x xs)
  from Cons.prems [of x] obtain y where "f x = Inr y" by auto
  moreover from Cons obtain ys where "try_map f xs = Inr ys" by (metis list.set_intros(2))
  ultimately show ?case by simp
qed simp

text \<open>A loop with \<open>?\<close> in its body and state threaded through it.\<close>

fun try_fold :: "('s \<Rightarrow> 'a \<Rightarrow> ('e, 's) result) \<Rightarrow> 's \<Rightarrow> 'a list \<Rightarrow> ('e, 's) result" where
  "try_fold f s [] = Inr s"
| "try_fold f s (x # xs) = rbind (f s x) (\<lambda>s'. try_fold f s' xs)"

lemma try_fold_inv:
  assumes "try_fold f s xs = Inr t" and "P s"
    and "\<And>s x s'. P s \<Longrightarrow> x \<in> set xs \<Longrightarrow> f s x = Inr s' \<Longrightarrow> P s'"
  shows "P t"
  using assms
proof (induction xs arbitrary: s)
  case (Cons x xs)
  from Cons.prems(1) obtain s' where s': "f s x = Inr s'" and "try_fold f s' xs = Inr t"
    by (auto simp: rbind_Inr_iff)
  then show ?case
    using Cons.prems(2) by (intro Cons.IH [of s']) (auto intro: Cons.prems(3))
qed simp

lemma try_fold_Inl: "try_fold f s xs = Inl e \<Longrightarrow> \<exists>s x. x \<in> set xs \<and> f s x = Inl e"
  by (induction xs arbitrary: s) (auto simp: rbind_def split: sum.splits; blast)+

lemma try_fold_total:
  "(\<And>s x. x \<in> set xs \<Longrightarrow> \<exists>s'. f s x = Inr s') \<Longrightarrow> \<exists>t. try_fold f s xs = Inr t"
proof (induction xs arbitrary: s)
  case (Cons x xs)
  from Cons.prems [of x s] obtain s' where "f s x = Inr s'" by auto
  with Cons.IH [of s'] Cons.prems show ?case by simp
qed simp

section \<open>Slices and iterators\<close>

definition clamp :: "'a::linorder \<Rightarrow> 'a \<Rightarrow> 'a \<Rightarrow> 'a" where
  "clamp lo hi x = (if x < lo then lo else if hi < x then hi else x)"

lemma clamp_bounds: "lo \<le> hi \<Longrightarrow> lo \<le> clamp lo hi x \<and> clamp lo hi x \<le> hi"
  by (auto simp: clamp_def)

lemma clamp_ge: "lo \<le> hi \<Longrightarrow> lo \<le> clamp lo hi x"
  by (auto simp: clamp_def)

lemma clamp_le: "lo \<le> hi \<Longrightarrow> clamp lo hi x \<le> hi"
  by (auto simp: clamp_def)

lemma clamp_id: "lo \<le> x \<Longrightarrow> x \<le> hi \<Longrightarrow> clamp lo hi x = x"
  by (auto simp: clamp_def)

text \<open>\<open>Iterator::min\<close>, \<open>max\<close>, and the keyed variants: the first minimum, the last maximum.\<close>

fun min_by_key :: "('a \<Rightarrow> 'b::linorder) \<Rightarrow> 'a list \<Rightarrow> 'a option" where
  "min_by_key f [] = None"
| "min_by_key f (x # xs) =
     (case min_by_key f xs of None \<Rightarrow> Some x
      | Some y \<Rightarrow> if f x \<le> f y then Some x else Some y)"

fun max_by_key :: "('a \<Rightarrow> 'b::linorder) \<Rightarrow> 'a list \<Rightarrow> 'a option" where
  "max_by_key f [] = None"
| "max_by_key f (x # xs) =
     (case max_by_key f xs of None \<Rightarrow> Some x
      | Some y \<Rightarrow> if f y < f x then Some x else Some y)"

definition list_min :: "'a::linorder list \<Rightarrow> 'a option" where
  "list_min = min_by_key (\<lambda>x. x)"

definition list_max :: "'a::linorder list \<Rightarrow> 'a option" where
  "list_max = max_by_key (\<lambda>x. x)"

lemma min_by_key_None [simp]: "min_by_key f xs = None \<longleftrightarrow> xs = []"
  by (cases xs) (auto split: option.splits)

lemma max_by_key_None [simp]: "max_by_key f xs = None \<longleftrightarrow> xs = []"
  by (cases xs) (auto split: option.splits)

lemma min_by_key_Some:
  "min_by_key f xs = Some y \<Longrightarrow> y \<in> set xs \<and> (\<forall>x \<in> set xs. f y \<le> f x)"
  by (induction xs arbitrary: y) (fastforce split: option.splits if_splits)+

lemma max_by_key_Some:
  "max_by_key f xs = Some y \<Longrightarrow> y \<in> set xs \<and> (\<forall>x \<in> set xs. f x \<le> f y)"
  by (induction xs arbitrary: y) (fastforce split: option.splits if_splits)+

lemma list_min_Some: "list_min xs = Some y \<Longrightarrow> y \<in> set xs \<and> (\<forall>x \<in> set xs. y \<le> x)"
  unfolding list_min_def by (drule min_by_key_Some) simp

lemma list_max_Some: "list_max xs = Some y \<Longrightarrow> y \<in> set xs \<and> (\<forall>x \<in> set xs. x \<le> y)"
  unfolding list_max_def by (drule max_by_key_Some) simp

lemma list_min_max_None [simp]:
  "list_min xs = None \<longleftrightarrow> xs = []" "list_max xs = None \<longleftrightarrow> xs = []"
  by (simp_all add: list_min_def list_max_def)

text \<open>\<open>[Some(a), b, c].into_iter().flatten()\<close>.\<close>

definition flatten :: "'a option list \<Rightarrow> 'a list" where
  "flatten xs = concat (map (\<lambda>x. case x of None \<Rightarrow> [] | Some a \<Rightarrow> [a]) xs)"

lemma flatten_simps [simp]:
  "flatten [] = []" "flatten (None # xs) = flatten xs" "flatten (Some a # xs) = a # flatten xs"
  by (simp_all add: flatten_def)

definition last_opt :: "'a list \<Rightarrow> 'a option" where
  "last_opt xs = (if xs = [] then None else Some (last xs))"

definition first_opt :: "'a list \<Rightarrow> 'a option" where
  "first_opt xs = (case xs of [] \<Rightarrow> None | x # _ \<Rightarrow> Some x)"

lemma last_opt_Some: "last_opt xs = Some x \<Longrightarrow> x \<in> set xs"
  by (auto simp: last_opt_def split: if_splits)

lemma first_opt_Some: "first_opt xs = Some x \<Longrightarrow> x \<in> set xs"
  by (auto simp: first_opt_def split: list.splits)

definition or_else :: "'a option \<Rightarrow> 'a option \<Rightarrow> 'a option" where
  "or_else x y = (case x of None \<Rightarrow> y | Some _ \<Rightarrow> x)"

lemma or_else_simps [simp]: "or_else None y = y" "or_else (Some a) y = Some a"
  by (simp_all add: or_else_def)

lemma or_else_Some_iff: "or_else x y = Some a \<longleftrightarrow> x = Some a \<or> x = None \<and> y = Some a"
  by (cases x) auto

definition unwrap_or :: "'a \<Rightarrow> 'a option \<Rightarrow> 'a" where
  "unwrap_or d x = (case x of None \<Rightarrow> d | Some a \<Rightarrow> a)"

lemma unwrap_or_simps [simp]: "unwrap_or d None = d" "unwrap_or d (Some a) = a"
  by (simp_all add: unwrap_or_def)

definition filter_opt :: "('a \<Rightarrow> bool) \<Rightarrow> 'a option \<Rightarrow> 'a option" where
  "filter_opt P x = (case x of None \<Rightarrow> None | Some a \<Rightarrow> if P a then Some a else None)"

lemma filter_opt_Some_iff: "filter_opt P x = Some a \<longleftrightarrow> x = Some a \<and> P a"
  by (auto simp: filter_opt_def split: option.splits)

definition windows2 :: "'a list \<Rightarrow> ('a \<times> 'a) list" where
  "windows2 xs = zip xs (tl xs)"

lemma windows2_simps [simp]:
  "windows2 [] = []" "windows2 [x] = []" "windows2 (x # y # xs) = (x, y) # windows2 (y # xs)"
  by (simp_all add: windows2_def)

lemma windows2_set: "p \<in> set (windows2 xs) \<Longrightarrow> fst p \<in> set xs \<and> snd p \<in> set xs"
  by (cases p, cases xs) (auto simp: windows2_def dest: set_zip_leftD set_zip_rightD)

definition enumerate_list :: "'a list \<Rightarrow> (nat \<times> 'a) list" where
  "enumerate_list xs = zip [0..<length xs] xs"

lemma enumerate_list_snd [simp]: "map snd (enumerate_list xs) = xs"
  by (simp add: enumerate_list_def)

lemma enumerate_list_set: "x \<in> set xs \<longleftrightarrow> (\<exists>i. (i, x) \<in> set (enumerate_list xs))"
proof -
  have "set xs = snd ` set (enumerate_list xs)"
    by (metis enumerate_list_snd list.set_map)
  then show ?thesis by force
qed

lemma enumerate_list_nth:
  "(i, x) \<in> set (enumerate_list xs) \<longleftrightarrow> i < length xs \<and> x = xs ! i"
  by (auto simp: enumerate_list_def set_zip) (metis nth_upt plus_nat.add_0)

text \<open>\<open>slice.iter().position(p)\<close>.\<close>

fun position :: "('a \<Rightarrow> bool) \<Rightarrow> 'a list \<Rightarrow> nat option" where
  "position p [] = None"
| "position p (x # xs) = (if p x then Some 0 else map_option Suc (position p xs))"

lemma find_Some_mem: "List.find p xs = Some x \<Longrightarrow> x \<in> set xs \<and> p x"
  by (induction xs) (auto split: if_splits)

lemma find_None_all: "List.find p xs = None \<longleftrightarrow> (\<forall>x \<in> set xs. \<not> p x)"
  by (induction xs) auto

definition rfind :: "('a \<Rightarrow> bool) \<Rightarrow> 'a list \<Rightarrow> 'a option" where
  "rfind p xs = List.find p (rev xs)"

lemma rfind_Some_mem: "rfind p xs = Some x \<Longrightarrow> x \<in> set xs \<and> p x"
  by (auto simp: rfind_def dest: find_Some_mem)

lemma rfind_None_all: "rfind p xs = None \<longleftrightarrow> (\<forall>x \<in> set xs. \<not> p x)"
  by (simp add: rfind_def find_None_all)

lemma rfind_last:
  assumes "sorted (map f xs)" and "rfind p xs = Some x" and "y \<in> set xs" and "p y"
  shows "f y \<le> f x"
  using assms
proof (induction xs rule: rev_induct)
  case Nil
  then show ?case by simp
next
  case (snoc z zs)
  then show ?case
    by (auto simp: rfind_def sorted_append split: if_splits)
qed

section \<open>Ordered maps\<close>

text \<open>
  A \<open>BTreeMap\<close> is the association list of its entries in key order. \<open>bt_wf\<close> says that
  the list is one; every operation below keeps it, and iteration is iteration over the list.
\<close>

type_synonym ('k, 'v) btree = "('k \<times> 'v) list"

definition bt_get :: "('k, 'v) btree \<Rightarrow> 'k \<Rightarrow> 'v option" where
  "bt_get m k = map_of m k"

fun bt_insert :: "'k::linorder \<Rightarrow> 'v \<Rightarrow> ('k, 'v) btree \<Rightarrow> ('k, 'v) btree" where
  "bt_insert k v [] = [(k, v)]"
| "bt_insert k v (e # m) =
     (if k = fst e then (k, v) # m
      else if k < fst e then (k, v) # e # m
      else e # bt_insert k v m)"

definition bt_remove :: "'k \<Rightarrow> ('k, 'v) btree \<Rightarrow> ('k, 'v) btree" where
  "bt_remove k m = filter (\<lambda>e. fst e \<noteq> k) m"

definition bt_contains :: "('k, 'v) btree \<Rightarrow> 'k \<Rightarrow> bool" where
  "bt_contains m k = (bt_get m k \<noteq> None)"

definition bt_keys :: "('k, 'v) btree \<Rightarrow> 'k list" where
  "bt_keys m = map fst m"

definition bt_values :: "('k, 'v) btree \<Rightarrow> 'v list" where
  "bt_values m = map snd m"

definition bt_retain :: "('k \<Rightarrow> 'v \<Rightarrow> bool) \<Rightarrow> ('k, 'v) btree \<Rightarrow> ('k, 'v) btree" where
  "bt_retain p m = filter (\<lambda>e. p (fst e) (snd e)) m"

definition bt_wf :: "('k::linorder, 'v) btree \<Rightarrow> bool" where
  "bt_wf m = sorted_wrt (<) (map fst m)"

text \<open>\<open>map.extend(entries)\<close> and \<open>collect::<BTreeMap<_, _>>()\<close>: a later entry replaces an earlier one.\<close>

definition bt_extend :: "('k::linorder, 'v) btree \<Rightarrow> ('k \<times> 'v) list \<Rightarrow> ('k, 'v) btree" where
  "bt_extend m xs = fold (\<lambda>e. bt_insert (fst e) (snd e)) xs m"

definition bt_collect :: "('k::linorder \<times> 'v) list \<Rightarrow> ('k, 'v) btree" where
  "bt_collect xs = bt_extend [] xs"

lemma bt_get_Nil [simp]: "bt_get [] k = None"
  by (simp add: bt_get_def)

lemma bt_get_Cons: "bt_get (e # m) k = (if fst e = k then Some (snd e) else bt_get m k)"
  by (cases e) (auto simp: bt_get_def)

lemma bt_get_insert: "bt_get (bt_insert k v m) = (bt_get m)(k \<mapsto> v)"
  by (induction m) (auto simp: fun_eq_iff bt_get_Cons)

lemma bt_get_remove: "bt_get (bt_remove k m) = (bt_get m)(k := None)"
  unfolding bt_remove_def by (induction m) (auto simp: fun_eq_iff bt_get_Cons)

lemma bt_get_Some_mem: "bt_get m k = Some v \<Longrightarrow> (k, v) \<in> set m"
  by (simp add: bt_get_def map_of_SomeD)

lemma bt_keys_insert: "set (bt_keys (bt_insert k v m)) = insert k (set (bt_keys m))"
  by (induction m) (auto simp: bt_keys_def)

lemma bt_contains_iff: "bt_contains m k \<longleftrightarrow> k \<in> set (bt_keys m)"
  by (simp add: bt_contains_def bt_keys_def bt_get_def map_of_eq_None_iff)

lemma bt_wf_Nil [simp]: "bt_wf []"
  by (simp add: bt_wf_def)

lemma bt_wf_insert: "bt_wf m \<Longrightarrow> bt_wf (bt_insert k v m)"
proof (induction m)
  case Nil
  then show ?case by (simp add: bt_wf_def)
next
  case (Cons e m)
  have "set (map fst (bt_insert k v m)) = insert k (set (map fst m))"
    using bt_keys_insert [of k v m] by (simp add: bt_keys_def)
  with Cons show ?case by (auto simp: bt_wf_def)
qed

lemma bt_wf_filter: "bt_wf m \<Longrightarrow> bt_wf (filter p m)"
proof (induction m)
  case (Cons e m)
  then show ?case by (auto simp: bt_wf_def)
qed (simp add: bt_wf_def)

lemma bt_wf_remove: "bt_wf m \<Longrightarrow> bt_wf (bt_remove k m)"
  by (simp add: bt_remove_def bt_wf_filter)

lemma bt_wf_mem_get:
  assumes "bt_wf m" and "(k, v) \<in> set m"
  shows "bt_get m k = Some v"
proof -
  have "distinct (map fst m)"
    using assms(1) by (simp add: bt_wf_def strict_sorted_iff)
  with assms(2) show ?thesis by (simp add: bt_get_def)
qed

text \<open>
  What the clients of \<open>BTreeMap\<close> rely on. The lemmas about loops that insert one entry per
  element are proved once here and used wherever the code builds a map in a loop.
\<close>

locale ordered_map =
  fixes empty :: 'm
    and ins :: "'k::linorder \<Rightarrow> 'v \<Rightarrow> 'm \<Rightarrow> 'm"
    and del :: "'k \<Rightarrow> 'm \<Rightarrow> 'm"
    and look :: "'m \<Rightarrow> 'k \<Rightarrow> 'v option"
    and wf :: "'m \<Rightarrow> bool"
  assumes look_empty: "look empty k = None"
    and look_ins: "look (ins k v m) = (look m)(k \<mapsto> v)"
    and look_del: "look (del k m) = (look m)(k := None)"
    and wf_empty: "wf empty"
    and wf_ins: "wf m \<Longrightarrow> wf (ins k v m)"
    and wf_del: "wf m \<Longrightarrow> wf (del k m)"
begin

lemma look_ins_same: "look (ins k v m) k = Some v"
  by (simp add: look_ins)

lemma look_ins_other: "k \<noteq> j \<Longrightarrow> look (ins k v m) j = look m j"
  by (simp add: look_ins)

lemma wf_fold_ins: "wf m \<Longrightarrow> wf (fold (\<lambda>x. ins (f x) (g x)) xs m)"
  by (induction xs arbitrary: m) (auto intro: wf_ins)

lemma fold_ins_source:
  "look (fold (\<lambda>x. ins (f x) (g x)) xs m) k = Some v \<Longrightarrow>
   (\<exists>x \<in> set xs. f x = k \<and> g x = v) \<or> look m k = Some v"
proof (induction xs arbitrary: m)
  case Nil
  then show ?case by simp
next
  case (Cons x xs)
  from Cons.prems have "look (fold (\<lambda>x. ins (f x) (g x)) xs (ins (f x) (g x) m)) k = Some v"
    by simp
  then show ?case
    by (auto simp: look_ins split: if_splits dest: Cons.IH)
qed

lemma fold_ins_frame:
  "k \<notin> f ` set xs \<Longrightarrow> look (fold (\<lambda>x. ins (f x) (g x)) xs m) k = look m k"
  by (induction xs arbitrary: m) (auto simp: look_ins)

lemma fold_ins_hit:
  "k \<in> f ` set xs \<Longrightarrow> \<exists>x \<in> set xs. f x = k \<and> look (fold (\<lambda>x. ins (f x) (g x)) xs m) k = Some (g x)"
proof (induction xs arbitrary: m)
  case Nil
  then show ?case by simp
next
  case (Cons x xs)
  show ?case
  proof (cases "k \<in> f ` set xs")
    case True
    with Cons.IH show ?thesis by force
  next
    case False
    with Cons.prems have "f x = k" by auto
    with False show ?thesis by (simp add: fold_ins_frame look_ins)
  qed
qed

end

interpretation bt: ordered_map "[]" bt_insert bt_remove bt_get bt_wf
  by unfold_locales
    (simp_all add: bt_get_insert bt_get_remove bt_wf_insert bt_wf_remove)

lemmas bt_specs = bt.look_ins bt.look_del bt.look_empty bt_contains_def

section \<open>Components that keep an invariant\<close>

text \<open>
  The stateful parts of the policy core (the thermal guard, the load detector, the sampler,
  the energy bucket, the governor) are all an initial state and a total or partial step.
  Whatever every step keeps holds after every sequence of steps.
\<close>

locale invariant_machine =
  fixes step :: "'s \<Rightarrow> 'e \<Rightarrow> 's"
    and inv :: "'s \<Rightarrow> bool"
  assumes step_inv: "inv s \<Longrightarrow> inv (step s e)"
begin

lemma run_inv: "inv s \<Longrightarrow> inv (fold (\<lambda>e s. step s e) es s)"
  by (induction es arbitrary: s) (auto intro: step_inv)

lemma run_take_inv: "inv s \<Longrightarrow> inv (fold (\<lambda>e s. step s e) (take n es) s)"
  by (rule run_inv)

end

end
