(* ===== verification/F64.thy ===== *)
theory F64
  imports Complex_Main Prelude
begin

text \<open>
  The \<open>f64\<close> arithmetic of the source: IEEE 754 binary64 with round-to-nearest, ties to even.
  A finite value is the rational it denotes, and every operation computes the exact rational
  result and rounds it once with \<open>f64_round\<close>, so the model keeps rounding, overflow to
  infinity, gradual underflow and NaN. Two things are not distinguished: the sign of zero and
  the sign and payload of NaN. No branch of the modelled code depends on either.
\<close>

section \<open>Values and their total order\<close>

datatype f64 = NegInf | Fin rat | PosInf | NaN

text \<open>
  \<open>f64::total_cmp\<close> orders every value, NaN last; it is the \<open>linorder\<close> of the type, so that
  sorting by it is the library's sorting. The operators \<open><\<close> and \<open><=\<close> of the source are the
  partial \<open>f64_lt\<close> and \<open>f64_le\<close> below.
\<close>

fun f64_rank :: "f64 \<Rightarrow> nat" where
  "f64_rank NegInf = 0"
| "f64_rank (Fin _) = 1"
| "f64_rank PosInf = 2"
| "f64_rank NaN = 3"

fun f64_fin :: "f64 \<Rightarrow> rat" where
  "f64_fin (Fin a) = a"
| "f64_fin _ = 0"

instantiation f64 :: linorder
begin

definition less_eq_f64 :: "f64 \<Rightarrow> f64 \<Rightarrow> bool" where
  "less_eq_f64 a b = ((f64_rank a, f64_fin a) \<le> (f64_rank b, f64_fin b))"

definition less_f64 :: "f64 \<Rightarrow> f64 \<Rightarrow> bool" where
  "less_f64 a b = ((f64_rank a, f64_fin a) < (f64_rank b, f64_fin b))"

instance
proof
  fix x y z :: f64
  show "(x < y) = (x \<le> y \<and> \<not> y \<le> x)"
    unfolding less_f64_def less_eq_f64_def by (rule less_le_not_le)
  show "x \<le> x" unfolding less_eq_f64_def by (rule order_refl)
  show "x \<le> z" if "x \<le> y" and "y \<le> z"
    using that unfolding less_eq_f64_def by (rule order_trans)
  show "x \<le> y \<or> y \<le> x" unfolding less_eq_f64_def by (rule linear)
  show "x = y" if "x \<le> y" and "y \<le> x"
  proof -
    have "(f64_rank x, f64_fin x) = (f64_rank y, f64_fin y)"
      using that unfolding less_eq_f64_def by (rule order_antisym)
    then show ?thesis by (cases x; cases y) auto
  qed
qed

end

lemma f64_order_simps [simp]:
  "Fin a \<le> Fin b \<longleftrightarrow> a \<le> b" "Fin a < Fin b \<longleftrightarrow> a < b"
  "NegInf \<le> x" "\<not> x < NegInf" "NegInf < Fin a" "NegInf < PosInf" "\<not> Fin a \<le> NegInf"
  "Fin a \<le> PosInf" "Fin a < PosInf" "\<not> PosInf \<le> Fin a" "\<not> PosInf < Fin a"
  "\<not> PosInf \<le> NegInf" "x \<le> NaN" "\<not> NaN < x"
  by (cases x; simp add: less_eq_f64_def less_f64_def less_eq_prod_simp less_prod_simp)+

definition f64_lt :: "f64 \<Rightarrow> f64 \<Rightarrow> bool" where
  "f64_lt a b = (a \<noteq> NaN \<and> b \<noteq> NaN \<and> a < b)"

definition f64_le :: "f64 \<Rightarrow> f64 \<Rightarrow> bool" where
  "f64_le a b = (a \<noteq> NaN \<and> b \<noteq> NaN \<and> a \<le> b)"

definition f64_is_finite :: "f64 \<Rightarrow> bool" where
  "f64_is_finite a = (case a of Fin _ \<Rightarrow> True | _ \<Rightarrow> False)"

lemma f64_is_finite_simps [simp]:
  "f64_is_finite (Fin a)" "\<not> f64_is_finite NaN" "\<not> f64_is_finite PosInf" "\<not> f64_is_finite NegInf"
  by (simp_all add: f64_is_finite_def)

lemma f64_is_finiteE:
  assumes "f64_is_finite x"
  obtains a where "x = Fin a"
  using assms by (cases x) auto

lemma f64_cmp_Fin [simp]:
  "f64_le (Fin a) (Fin b) \<longleftrightarrow> a \<le> b" "f64_lt (Fin a) (Fin b) \<longleftrightarrow> a < b"
  by (simp_all add: f64_le_def f64_lt_def)

lemma f64_le_trans [trans]: "f64_le a b \<Longrightarrow> f64_le b c \<Longrightarrow> f64_le a c"
  by (auto simp: f64_le_def)

lemma f64_le_refl: "f64_le a a \<longleftrightarrow> a \<noteq> NaN"
  by (simp add: f64_le_def)

lemma f64_lt_imp_le: "f64_lt a b \<Longrightarrow> f64_le a b"
  by (auto simp: f64_le_def f64_lt_def)

lemma f64_not_lt: "a \<noteq> NaN \<Longrightarrow> b \<noteq> NaN \<Longrightarrow> \<not> f64_lt a b \<longleftrightarrow> f64_le b a"
  by (auto simp: f64_le_def f64_lt_def)

section \<open>Rounding\<close>

function bit_length :: "int \<Rightarrow> int" where
  "bit_length n = (if n \<le> 0 then 0 else 1 + bit_length (n div 2))"
  by pat_completeness auto
termination
  by (relation "measure nat") auto

declare bit_length.simps [simp del]

definition pow2 :: "int \<Rightarrow> rat" where
  "pow2 e = (if 0 \<le> e then 2 ^ nat e else 1 / 2 ^ nat (- e))"

text \<open>The binary exponent of a positive rational: the \<open>e\<close> with \<open>2\<^sup>e \<le> x < 2\<^sup>e\<^sup>+\<^sup>1\<close>.\<close>

definition ilog2 :: "rat \<Rightarrow> int" where
  "ilog2 x = (let pq = quotient_of x;
                  d = bit_length (fst pq) - bit_length (snd pq)
              in if pow2 d \<le> x then d else d - 1)"

definition round_half_even :: "rat \<Rightarrow> int" where
  "round_half_even x =
     (let f = \<lfloor>x\<rfloor>; d = x - of_int f
      in if d < 1 / 2 then f else if 1 / 2 < d then f + 1 else if even f then f else f + 1)"

text \<open>
  53 significant bits, least exponent \<open>-1022\<close> (below it the spacing stays at \<open>2\<^sup>-\<^sup>1\<^sup>0\<^sup>7\<^sup>4\<close>),
  overflow at \<open>2\<^sup>1\<^sup>0\<^sup>2\<^sup>4\<close>.
\<close>

definition f64_quantum :: "rat \<Rightarrow> rat" where
  "f64_quantum x = pow2 (max (ilog2 \<bar>x\<bar>) (- 1022) - 52)"

definition f64_round :: "rat \<Rightarrow> f64" where
  "f64_round x =
     (if x = 0 then Fin 0
      else let q = f64_quantum x; r = of_int (round_half_even (x / q)) * q
           in if r \<noteq> 0 \<and> 1024 \<le> ilog2 \<bar>r\<bar> then (if 0 < r then PosInf else NegInf) else Fin r)"

text \<open>A value the type can hold: rounding leaves it alone.\<close>

definition is_f64 :: "f64 \<Rightarrow> bool" where
  "is_f64 a = (case a of Fin x \<Rightarrow> f64_round x = Fin x | _ \<Rightarrow> True)"

lemma pow2_pos [simp]: "0 < pow2 e"
  by (simp add: pow2_def)

lemma pow2_nonneg [simp]: "0 \<le> pow2 e"
  by (simp add: pow2_def)

lemma f64_quantum_pos [simp]: "0 < f64_quantum x"
  by (simp add: f64_quantum_def)

lemma round_half_even_nonneg: "0 \<le> x \<Longrightarrow> 0 \<le> round_half_even x"
  by (auto simp: round_half_even_def Let_def)

lemma f64_round_zero [simp]: "f64_round 0 = Fin 0"
  by (simp add: f64_round_def)

lemma f64_round_not_NaN [simp]: "f64_round x \<noteq> NaN"
  by (simp add: f64_round_def Let_def)

lemma f64_round_nonneg: "0 \<le> x \<Longrightarrow> f64_le (Fin 0) (f64_round x)"
proof -
  assume x: "0 \<le> x"
  let ?q = "f64_quantum x"
  have "0 \<le> x / ?q" using x by (simp add: less_imp_le)
  then have "0 \<le> round_half_even (x / ?q)" by (rule round_half_even_nonneg)
  then have r: "0 \<le> of_int (round_half_even (x / ?q)) * ?q" by (simp add: less_imp_le)
  then show ?thesis by (auto simp: f64_round_def Let_def f64_le_def)
qed

section \<open>Arithmetic\<close>

fun f64_neg :: "f64 \<Rightarrow> f64" where
  "f64_neg (Fin a) = Fin (- a)"
| "f64_neg PosInf = NegInf"
| "f64_neg NegInf = PosInf"
| "f64_neg NaN = NaN"

fun f64_add :: "f64 \<Rightarrow> f64 \<Rightarrow> f64" where
  "f64_add (Fin a) (Fin b) = f64_round (a + b)"
| "f64_add NaN _ = NaN"
| "f64_add _ NaN = NaN"
| "f64_add (Fin _) b = b"
| "f64_add a (Fin _) = a"
| "f64_add PosInf PosInf = PosInf"
| "f64_add NegInf NegInf = NegInf"
| "f64_add _ _ = NaN"

definition f64_sub :: "f64 \<Rightarrow> f64 \<Rightarrow> f64" where
  "f64_sub a b = f64_add a (f64_neg b)"

definition f64_sgn :: "f64 \<Rightarrow> rat" where
  "f64_sgn a = (case a of Fin x \<Rightarrow> sgn x | PosInf \<Rightarrow> 1 | NegInf \<Rightarrow> - 1 | NaN \<Rightarrow> 0)"

definition f64_inf_of :: "rat \<Rightarrow> f64" where
  "f64_inf_of s = (if 0 < s then PosInf else if s < 0 then NegInf else NaN)"

definition f64_mul :: "f64 \<Rightarrow> f64 \<Rightarrow> f64" where
  "f64_mul a b =
     (case (a, b) of
        (Fin x, Fin y) \<Rightarrow> f64_round (x * y)
      | _ \<Rightarrow> if a = NaN \<or> b = NaN then NaN else f64_inf_of (f64_sgn a * f64_sgn b))"

definition f64_div :: "f64 \<Rightarrow> f64 \<Rightarrow> f64" where
  "f64_div a b =
     (if a = NaN \<or> b = NaN then NaN
      else case b of
        Fin y \<Rightarrow>
          (case a of
             Fin x \<Rightarrow> if y = 0 then f64_inf_of (sgn x) else f64_round (x / y)
           | _ \<Rightarrow> if y = 0 then a else f64_inf_of (f64_sgn a * sgn y))
      | _ \<Rightarrow> (case a of Fin _ \<Rightarrow> Fin 0 | _ \<Rightarrow> NaN))"

text \<open>\<open>a.mul_add(b, c)\<close>: one rounding of \<open>a * b + c\<close>.\<close>

definition f64_mul_add :: "f64 \<Rightarrow> f64 \<Rightarrow> f64 \<Rightarrow> f64" where
  "f64_mul_add a b c =
     (case (a, b, c) of
        (Fin x, Fin y, Fin z) \<Rightarrow> f64_round (x * y + z)
      | (Fin x, Fin y, _) \<Rightarrow> c
      | _ \<Rightarrow> f64_add (f64_mul a b) c)"

text \<open>\<open>f64::max\<close> and \<open>min\<close> return the other operand when one is NaN; \<open>clamp\<close> keeps NaN.\<close>

definition f64_max :: "f64 \<Rightarrow> f64 \<Rightarrow> f64" where
  "f64_max a b = (if a = NaN then b else if b = NaN then a else max a b)"

definition f64_min :: "f64 \<Rightarrow> f64 \<Rightarrow> f64" where
  "f64_min a b = (if a = NaN then b else if b = NaN then a else min a b)"

definition f64_clamp :: "f64 \<Rightarrow> f64 \<Rightarrow> f64 \<Rightarrow> f64" where
  "f64_clamp lo hi x = (if f64_lt x lo then lo else if f64_lt hi x then hi else x)"

text \<open>
  \<open>f64::clamp\<close> panics unless \<open>lo <= hi\<close>; where the bounds are not literals the model uses
  the checked form, with \<open>None\<close> for the panic.
\<close>

definition f64_clamp_checked :: "f64 \<Rightarrow> f64 \<Rightarrow> f64 \<Rightarrow> f64 option" where
  "f64_clamp_checked lo hi x = (if f64_le lo hi then Some (f64_clamp lo hi x) else None)"

text \<open>\<open>powi\<close> as the compiler runtime computes it, by repeated squaring.\<close>

function powi_loop :: "f64 \<Rightarrow> f64 \<Rightarrow> nat \<Rightarrow> f64" where
  "powi_loop r a n =
     (let r' = (if odd n then f64_mul r a else r)
      in if n div 2 = 0 then r' else powi_loop r' (f64_mul a a) (n div 2))"
  by pat_completeness auto
termination
  by (relation "measure (\<lambda>(r, a, n). n)") auto

declare powi_loop.simps [simp del]

definition f64_powi :: "f64 \<Rightarrow> nat \<Rightarrow> f64" where
  "f64_powi a n = powi_loop (Fin 1) a n"

text \<open>Integer conversions (\<open>as f64\<close>, \<open>f64::from\<close>) and decimal literals round once.\<close>

definition f64_of_int :: "int \<Rightarrow> f64" where
  "f64_of_int n = f64_round (of_int n)"

definition f64_lit :: "rat \<Rightarrow> f64" where
  "f64_lit x = f64_round x"

definition f64_epsilon :: f64 where
  "f64_epsilon = Fin (pow2 (- 52))"

text \<open>\<open>Duration::from_millis(ms).as_secs_f64()\<close>: whole seconds plus the nanoseconds over a billion.\<close>

definition millis_as_secs_f64 :: "u64 \<Rightarrow> f64" where
  "millis_as_secs_f64 ms =
     f64_add (f64_of_int (uint ms div 1000))
       (f64_div (f64_of_int (uint ms mod 1000 * 1000000)) (f64_of_int 1000000000))"

section \<open>What the components use\<close>

lemma f64_neg_NaN [simp]: "f64_neg a = NaN \<longleftrightarrow> a = NaN"
  by (cases a) auto

lemma f64_clamp_bounds:
  assumes "f64_le lo hi" and "x \<noteq> NaN"
  shows "f64_le lo (f64_clamp lo hi x) \<and> f64_le (f64_clamp lo hi x) hi"
  using assms by (auto simp: f64_clamp_def f64_le_def f64_lt_def)

lemma f64_clamp_id: "f64_le lo x \<Longrightarrow> f64_le x hi \<Longrightarrow> f64_clamp lo hi x = x"
  by (auto simp: f64_clamp_def f64_le_def f64_lt_def)

lemma f64_clamp_Fin_bounds:
  assumes "a \<le> b"
  shows "\<exists>c. f64_clamp (Fin a) (Fin b) x = (if x = NaN then NaN else Fin c) \<and> a \<le> c \<and> c \<le> b"
  using assms by (cases x) (auto simp: f64_clamp_def f64_lt_def intro: exI [of _ a] exI [of _ b])

lemma f64_min_le1: "a \<noteq> NaN \<Longrightarrow> b \<noteq> NaN \<Longrightarrow> f64_le (f64_min a b) a"
  by (auto simp: f64_min_def f64_le_def min_def)

lemma f64_min_le2: "b \<noteq> NaN \<Longrightarrow> f64_le (f64_min a b) b"
  by (auto simp: f64_min_def f64_le_def min_def)

lemma f64_min_not_NaN: "b \<noteq> NaN \<Longrightarrow> f64_min a b \<noteq> NaN"
  by (auto simp: f64_min_def min_def)

lemma f64_of_int_nonneg: "0 \<le> n \<Longrightarrow> f64_le (Fin 0) (f64_of_int n)"
  unfolding f64_of_int_def by (rule f64_round_nonneg) simp

end
