(* ===== verification/Domain.thy ===== *)
theory Domain
  imports F64
begin

text \<open>
  \<open>crates/uperf-core/src/domain.rs\<close>: units, identities and scheduler state. A unit newtype
  (\<open>Hertz\<close>, \<open>MonotonicMillis\<close>) is its machine integer; a \<open>TargetId\<close> is its string, and
  \<open>TargetId_new\<close> the validating constructor every value of the type has passed.
\<close>

section \<open>Units\<close>

type_synonym hertz = u64
type_synonym milli_celsius = i64
type_synonym monotonic_millis = u64
type_synonym cpu_id = u32
type_synonym process_id = u32
type_synonym user_id = u32

definition millis_saturating_add :: "monotonic_millis \<Rightarrow> u64 \<Rightarrow> monotonic_millis" where
  "millis_saturating_add self duration_ms = u64_saturating_add self duration_ms"

definition saturating_duration_since :: "monotonic_millis \<Rightarrow> monotonic_millis \<Rightarrow> u64" where
  "saturating_duration_since self earlier = u64_saturating_sub self earlier"

lemma unat_duration_since [machine_int]:
  "unat (saturating_duration_since a b) = unat a - unat b"
  by (simp add: saturating_duration_since_def machine_int)

section \<open>Target identifiers\<close>

type_synonym target_id = string

datatype invalid_target_id = InvalidTargetId string

definition is_ascii_alphanumeric :: "char \<Rightarrow> bool" where
  "is_ascii_alphanumeric c =
     ((CHR ''0'' \<le> c \<and> c \<le> CHR ''9'') \<or> (CHR ''A'' \<le> c \<and> c \<le> CHR ''Z'')
      \<or> (CHR ''a'' \<le> c \<and> c \<le> CHR ''z''))"

definition TargetId_MAX_LEN :: usize where
  "TargetId_MAX_LEN = 64"

definition target_id_byte :: "char \<Rightarrow> bool" where
  "target_id_byte c = (is_ascii_alphanumeric c \<or> c = CHR ''.'' \<or> c = CHR ''_'' \<or> c = CHR ''-'')"

definition TargetId_new :: "string \<Rightarrow> (invalid_target_id, target_id) result" where
  "TargetId_new value =
     (let valid = (value \<noteq> [] \<and> length value \<le> TargetId_MAX_LEN
                   \<and> (case value of [] \<Rightarrow> False
                      | c # rest \<Rightarrow> is_ascii_alphanumeric c \<and> list_all target_id_byte rest))
      in if valid then Inr value else Inl (InvalidTargetId value))"

section \<open>CPU sets\<close>

text \<open>A \<open>BTreeSet<CpuId>\<close> is the list of its members in increasing order.\<close>

type_synonym cpu_set = "cpu_id list"

fun CpuSet_insert :: "cpu_id \<Rightarrow> cpu_set \<Rightarrow> cpu_set" where
  "CpuSet_insert cpu [] = [cpu]"
| "CpuSet_insert cpu (c # cs) =
     (if cpu < c then cpu # c # cs else if cpu = c then c # cs else c # CpuSet_insert cpu cs)"

definition CpuSet_from_ids :: "cpu_id list \<Rightarrow> cpu_set" where
  "CpuSet_from_ids ids = fold CpuSet_insert ids []"

definition CpuSet_is_empty :: "cpu_set \<Rightarrow> bool" where
  "CpuSet_is_empty self = (self = [])"

definition CpuSet_intersection :: "cpu_set \<Rightarrow> cpu_set \<Rightarrow> cpu_set" where
  "CpuSet_intersection self other = filter (\<lambda>c. c \<in> set other) self"

definition CpuSet_is_disjoint :: "cpu_set \<Rightarrow> cpu_set \<Rightarrow> bool" where
  "CpuSet_is_disjoint self other = list_all (\<lambda>c. c \<notin> set other) self"

definition CpuSet_is_subset :: "cpu_set \<Rightarrow> cpu_set \<Rightarrow> bool" where
  "CpuSet_is_subset self other = list_all (\<lambda>c. c \<in> set other) self"

definition cpu_set_wf :: "cpu_set \<Rightarrow> bool" where
  "cpu_set_wf s = sorted_wrt (<) s"

lemma CpuSet_insert_set: "set (CpuSet_insert c s) = insert c (set s)"
  by (induction s) auto

lemma CpuSet_insert_wf: "cpu_set_wf s \<Longrightarrow> cpu_set_wf (CpuSet_insert c s)"
  by (induction s) (auto simp: cpu_set_wf_def CpuSet_insert_set)

lemma CpuSet_from_ids_spec:
  "set (CpuSet_from_ids ids) = set ids \<and> cpu_set_wf (CpuSet_from_ids ids)"
proof -
  have "set (fold CpuSet_insert ids s) = set ids \<union> set s \<and>
        (cpu_set_wf s \<longrightarrow> cpu_set_wf (fold CpuSet_insert ids s))" for s
    by (induction ids arbitrary: s) (auto simp: CpuSet_insert_set CpuSet_insert_wf)
  from this [of "[]"] show ?thesis by (simp add: CpuSet_from_ids_def cpu_set_wf_def)
qed

lemma CpuSet_relations:
  "CpuSet_is_disjoint a b \<longleftrightarrow> set a \<inter> set b = {}"
  "CpuSet_is_subset a b \<longleftrightarrow> set a \<subseteq> set b"
  "set (CpuSet_intersection a b) = set a \<inter> set b"
  by (auto simp: CpuSet_is_disjoint_def CpuSet_is_subset_def CpuSet_intersection_def list_all_iff)

section \<open>Processes\<close>

datatype process_identity =
  ProcessIdentity (pi_pid: process_id) (pi_start_time_ticks: u64) (pi_uid: user_id)

definition process_identity_key :: "process_identity \<Rightarrow> process_id \<times> u64 \<times> user_id" where
  "process_identity_key p = (pi_pid p, pi_start_time_ticks p, pi_uid p)"

lemma process_identity_key_inj: "process_identity_key p = process_identity_key q \<Longrightarrow> p = q"
  by (cases p; cases q) (simp add: process_identity_key_def)

instantiation process_identity :: linorder
begin

definition less_eq_process_identity :: "process_identity \<Rightarrow> process_identity \<Rightarrow> bool" where
  "less_eq_process_identity p q = (process_identity_key p \<le> process_identity_key q)"

definition less_process_identity :: "process_identity \<Rightarrow> process_identity \<Rightarrow> bool" where
  "less_process_identity p q = (process_identity_key p < process_identity_key q)"

instance
  by standard
    (auto simp: less_eq_process_identity_def less_process_identity_def
      dest: process_identity_key_inj order_antisym)

end

record process_info =
  identity :: process_identity
  owner_control_safe :: bool
  comm :: string
  executable :: "string option"
  desktop_id :: "string option"

section \<open>Sensors and frequencies\<close>

datatype sensor_health = Healthy | Stale | Unavailable

record thermal_reading =
  temperature :: "milli_celsius option"
  sampled_at :: monotonic_millis
  health :: sensor_health

record frequency_limits =
  min_hz :: hertz
  max_hz :: hertz

datatype invalid_frequency_limits = Reversed hertz hertz

definition FrequencyLimits_new ::
  "hertz \<Rightarrow> hertz \<Rightarrow> (invalid_frequency_limits, frequency_limits) result" where
  "FrequencyLimits_new mn mx =
     (if mn \<le> mx then Inr \<lparr>min_hz = mn, max_hz = mx\<rparr> else Inl (Reversed mn mx))"

definition limits_is_valid :: "frequency_limits \<Rightarrow> bool" where
  "limits_is_valid self = (min_hz self \<le> max_hz self)"

record observed_frequency =
  of_limits :: frequency_limits
  of_current :: "hertz option"

record observed_state =
  timestamp :: monotonic_millis
  cpu_loads :: "(cpu_id, f64) btree"
  observed_frequencies :: "(target_id, observed_frequency) btree"
  observed_thermal :: "(string, thermal_reading) btree"

section \<open>Task plans\<close>

datatype scheduling_class = Other | Batch | IdleClass | Fifo

datatype scalar_setting_value = ScalarInteger i64 | ScalarString string | ScalarCpuList cpu_set

record task_plan =
  affinity :: "cpu_set option"
  nice :: "i8 option"
  tp_scheduling_class :: "scheduling_class option"
  rt_priority :: "u8 option"
  uclamp_min :: "u16 option"
  uclamp_max :: "u16 option"

section \<open>Properties\<close>

text \<open>
  a validated target identifier is 1 to 64 bytes, starts with a letter or digit and has no
  path separator, so it can be used as one file name and never as a traversal.
\<close>

theorem target_id_is_file_name:
  assumes "TargetId_new s = Inr tid"
  shows "tid = s \<and> 1 \<le> length tid \<and> length tid \<le> 64 \<and> is_ascii_alphanumeric (hd tid)
    \<and> CHR ''/'' \<notin> set tid \<and> tid \<noteq> ''.'' \<and> tid \<noteq> ''..''"
proof -
  have sep: "\<not> is_ascii_alphanumeric CHR ''/''" "\<not> is_ascii_alphanumeric CHR ''.''" "\<not> target_id_byte CHR ''/''"
    by code_simp+
  from assms show ?thesis
    using sep by (cases s) (auto simp: TargetId_new_def TargetId_MAX_LEN_def list_all_iff Suc_le_eq split: if_splits)
qed

lemma target_id_example: "TargetId_new ''cpu-policy0'' = Inr ''cpu-policy0''"
  by code_simp

theorem target_id_is_file_name_witness:
  "''cpu-policy0'' = ''cpu-policy0'' \<and> 1 \<le> length ''cpu-policy0'' \<and> length ''cpu-policy0'' \<le> 64
   \<and> is_ascii_alphanumeric (hd ''cpu-policy0'') \<and> CHR ''/'' \<notin> set ''cpu-policy0''
   \<and> ''cpu-policy0'' \<noteq> ''.'' \<and> ''cpu-policy0'' \<noteq> ''..''"
  by (rule target_id_is_file_name [OF target_id_example])

end
