(* ===== verification/Scenes.thy ===== *)
theory Scenes
  imports Domain
begin

text \<open>
  The vocabulary of \<open>crates/uperf-core/src/policy.rs\<close>: profiles, modes, scenes and the set of
  active hints. Hints are keyed by scene and carry an optional expiry; the dominant scene of a
  moment is the active one of the highest priority.
\<close>

section \<open>Profiles and modes\<close>

datatype profile_id = Powersave | Balance | Performance

datatype mode_selection = Auto | Forced profile_id

fun profile_id_to_string :: "profile_id \<Rightarrow> string" where
  "profile_id_to_string Powersave = ''powersave''"
| "profile_id_to_string Balance = ''balance''"
| "profile_id_to_string Performance = ''performance''"

fun resolve_effective_profile ::
  "mode_selection \<Rightarrow> profile_id option \<Rightarrow> profile_id \<Rightarrow> profile_id" where
  "resolve_effective_profile (Forced profile) app_profile default_profile = profile"
| "resolve_effective_profile Auto (Some profile) default_profile = profile"
| "resolve_effective_profile Auto None default_profile = default_profile"

section \<open>Scenes\<close>

datatype scene = Idle | Touch | Trigger | Gesture | Junk | Boost | Switch | Wake

fun priority :: "scene \<Rightarrow> nat" where
  "priority Idle = 0"
| "priority Boost = 1"
| "priority Touch = 2"
| "priority Trigger = 3"
| "priority Gesture = 4"
| "priority Junk = 5"
| "priority Switch = 6"
| "priority Wake = 7"

fun scene_to_string :: "scene \<Rightarrow> string" where
  "scene_to_string Idle = ''idle''"
| "scene_to_string Touch = ''touch''"
| "scene_to_string Trigger = ''trigger''"
| "scene_to_string Gesture = ''gesture''"
| "scene_to_string Junk = ''junk''"
| "scene_to_string Boost = ''boost''"
| "scene_to_string Switch = ''switch''"
| "scene_to_string Wake = ''wake''"

text \<open>The derived \<open>Ord\<close> of the enum is its declaration order, not the priority.\<close>

fun scene_index :: "scene \<Rightarrow> nat" where
  "scene_index Idle = 0"
| "scene_index Touch = 1"
| "scene_index Trigger = 2"
| "scene_index Gesture = 3"
| "scene_index Junk = 4"
| "scene_index Boost = 5"
| "scene_index Switch = 6"
| "scene_index Wake = 7"

lemma scene_index_inj: "scene_index a = scene_index b \<Longrightarrow> a = b"
  by (cases a; cases b) simp_all

lemma priority_inj: "priority a = priority b \<Longrightarrow> a = b"
  by (cases a; cases b) simp_all

instantiation scene :: linorder
begin

definition less_eq_scene :: "scene \<Rightarrow> scene \<Rightarrow> bool" where
  "less_eq_scene a b = (scene_index a \<le> scene_index b)"

definition less_scene :: "scene \<Rightarrow> scene \<Rightarrow> bool" where
  "less_scene a b = (scene_index a < scene_index b)"

instance
  by standard (auto simp: less_eq_scene_def less_scene_def dest: scene_index_inj)

end

datatype scheduler_scene = Background | Foreground | SchedIdle | SchedTouch | SchedBoost

fun scheduler_scene_to_string :: "scheduler_scene \<Rightarrow> string" where
  "scheduler_scene_to_string Background = ''background''"
| "scheduler_scene_to_string Foreground = ''foreground''"
| "scheduler_scene_to_string SchedIdle = ''idle''"
| "scheduler_scene_to_string SchedTouch = ''touch''"
| "scheduler_scene_to_string SchedBoost = ''boost''"

fun scheduler_scene_index :: "scheduler_scene \<Rightarrow> nat" where
  "scheduler_scene_index Background = 0"
| "scheduler_scene_index Foreground = 1"
| "scheduler_scene_index SchedIdle = 2"
| "scheduler_scene_index SchedTouch = 3"
| "scheduler_scene_index SchedBoost = 4"

lemma scheduler_scene_index_inj: "scheduler_scene_index a = scheduler_scene_index b \<Longrightarrow> a = b"
  by (cases a; cases b) simp_all

instantiation scheduler_scene :: linorder
begin

definition less_eq_scheduler_scene :: "scheduler_scene \<Rightarrow> scheduler_scene \<Rightarrow> bool" where
  "less_eq_scheduler_scene a b = (scheduler_scene_index a \<le> scheduler_scene_index b)"

definition less_scheduler_scene :: "scheduler_scene \<Rightarrow> scheduler_scene \<Rightarrow> bool" where
  "less_scheduler_scene a b = (scheduler_scene_index a < scheduler_scene_index b)"

instance
  by standard
    (auto simp: less_eq_scheduler_scene_def less_scheduler_scene_def
      dest: scheduler_scene_index_inj)

end

fun scheduler_scene_for :: "scene \<Rightarrow> scheduler_scene" where
  "scheduler_scene_for Idle = SchedIdle"
| "scheduler_scene_for Touch = SchedTouch"
| "scheduler_scene_for Trigger = SchedTouch"
| "scheduler_scene_for Gesture = SchedTouch"
| "scheduler_scene_for Junk = SchedTouch"
| "scheduler_scene_for Boost = SchedBoost"
| "scheduler_scene_for Switch = SchedBoost"
| "scheduler_scene_for Wake = SchedBoost"

section \<open>Hints\<close>

record hint =
  hint_scene :: scene
  activated_at :: monotonic_millis
  expires_at :: "monotonic_millis option"

definition hint_persistent :: "scene \<Rightarrow> monotonic_millis \<Rightarrow> hint" where
  "hint_persistent s now = \<lparr>hint_scene = s, activated_at = now, expires_at = None\<rparr>"

definition hint_with_ttl :: "scene \<Rightarrow> monotonic_millis \<Rightarrow> u64 \<Rightarrow> hint" where
  "hint_with_ttl s now duration_ms =
     \<lparr>hint_scene = s, activated_at = now, expires_at = Some (millis_saturating_add now duration_ms)\<rparr>"

definition is_active_at :: "hint \<Rightarrow> monotonic_millis \<Rightarrow> bool" where
  "is_active_at self now = (case expires_at self of None \<Rightarrow> True | Some e \<Rightarrow> now < e)"

type_synonym hint_set = "(scene, hint) btree"

definition HintSet_new :: hint_set where
  "HintSet_new = []"

definition activate :: "hint_set \<Rightarrow> hint \<Rightarrow> hint_set" where
  "activate self h = (if hint_scene h \<noteq> Idle then bt_insert (hint_scene h) h self else self)"

definition deactivate :: "hint_set \<Rightarrow> scene \<Rightarrow> hint_set \<times> hint option" where
  "deactivate self s = (bt_remove s self, bt_get self s)"

definition expire :: "hint_set \<Rightarrow> monotonic_millis \<Rightarrow> hint_set \<times> bool" where
  "expire self now =
     (let before = length self;
          self' = bt_retain (\<lambda>_ h. is_active_at h now) self
      in (self', length self' \<noteq> before))"

definition contains_active :: "hint_set \<Rightarrow> scene \<Rightarrow> monotonic_millis \<Rightarrow> bool" where
  "contains_active self s now =
     (case bt_get self s of None \<Rightarrow> False | Some h \<Rightarrow> is_active_at h now)"

definition dominant_at_excluding :: "hint_set \<Rightarrow> monotonic_millis \<Rightarrow> scene set \<Rightarrow> scene" where
  "dominant_at_excluding self now excluded =
     (case max_by_key (\<lambda>h. priority (hint_scene h))
             (filter (\<lambda>h. is_active_at h now \<and> hint_scene h \<notin> excluded) (bt_values self)) of
        None \<Rightarrow> Idle
      | Some h \<Rightarrow> hint_scene h)"

definition dominant_at :: "hint_set \<Rightarrow> monotonic_millis \<Rightarrow> scene" where
  "dominant_at self now = dominant_at_excluding self now {}"

section \<open>Invariant and operations\<close>

text \<open>
  Every hint is stored under its own scene, the keys are in order, and \<open>Idle\<close> is never stored.
\<close>

definition hint_set_wf :: "hint_set \<Rightarrow> bool" where
  "hint_set_wf hs = (bt_wf hs \<and> list_all (\<lambda>e. fst e = hint_scene (snd e) \<and> fst e \<noteq> Idle) hs)"

datatype hint_op = Activate hint | Deactivate scene | Expire monotonic_millis

fun hint_step :: "hint_set \<Rightarrow> hint_op \<Rightarrow> hint_set" where
  "hint_step hs (Activate h) = activate hs h"
| "hint_step hs (Deactivate s) = fst (deactivate hs s)"
| "hint_step hs (Expire now) = fst (expire hs now)"

lemma bt_insert_set: "set (bt_insert k v m) \<subseteq> insert (k, v) (set m)"
  by (induction m) auto

lemma hint_step_wf: "hint_set_wf hs \<Longrightarrow> hint_set_wf (hint_step hs ev)"
proof (cases ev)
  case (Activate h)
  assume wf: "hint_set_wf hs"
  have "set (bt_insert (hint_scene h) h hs) \<subseteq> insert (hint_scene h, h) (set hs)"
    by (rule bt_insert_set)
  with wf Activate show ?thesis
    by (auto simp: hint_set_wf_def activate_def list_all_iff bt_wf_insert)
qed (auto simp: hint_set_wf_def deactivate_def expire_def bt_remove_def bt_retain_def Let_def
      list_all_iff bt_wf_filter)

interpretation hints: invariant_machine hint_step hint_set_wf
  by unfold_locales (rule hint_step_wf)

lemma hint_set_wf_get:
  assumes "hint_set_wf hs"
  shows "h \<in> set (bt_values hs) \<longleftrightarrow> bt_get hs (hint_scene h) = Some h"
proof
  assume "h \<in> set (bt_values hs)"
  then obtain s where "(s, h) \<in> set hs" by (auto simp: bt_values_def)
  with assms show "bt_get hs (hint_scene h) = Some h"
    by (metis (mono_tags, lifting) bt_wf_mem_get fst_conv hint_set_wf_def list_all_iff snd_conv)
next
  assume "bt_get hs (hint_scene h) = Some h"
  then show "h \<in> set (bt_values hs)" by (force simp: bt_values_def dest: bt_get_Some_mem)
qed

lemma contains_active_iff:
  assumes "hint_set_wf hs"
  shows "contains_active hs s now \<longleftrightarrow>
    (\<exists>h \<in> set (bt_values hs). hint_scene h = s \<and> is_active_at h now)"
proof -
  have "bt_get hs s = Some h \<Longrightarrow> hint_scene h = s" for h
    using assms by (auto simp: hint_set_wf_def list_all_iff dest!: bt_get_Some_mem)
  then show ?thesis
    using hint_set_wf_get [OF assms] by (auto simp: contains_active_def split: option.splits)
qed

lemma contains_active_not_Idle: "hint_set_wf hs \<Longrightarrow> \<not> contains_active hs Idle now"
  by (auto simp: contains_active_def hint_set_wf_def list_all_iff split: option.splits
      dest!: bt_get_Some_mem)

lemma dominant_Some:
  assumes "hint_set_wf hs" and "contains_active hs s now" and "s \<notin> X"
  shows "contains_active hs (dominant_at_excluding hs now X) now
    \<and> dominant_at_excluding hs now X \<notin> X
    \<and> priority s \<le> priority (dominant_at_excluding hs now X)"
proof -
  let ?l = "filter (\<lambda>h. is_active_at h now \<and> hint_scene h \<notin> X) (bt_values hs)"
  from assms contains_active_iff [OF assms(1)] obtain h0
    where h0: "h0 \<in> set ?l" and s: "hint_scene h0 = s" by auto
  then obtain h where h: "max_by_key (\<lambda>h. priority (hint_scene h)) ?l = Some h"
    by (cases "max_by_key (\<lambda>h. priority (hint_scene h)) ?l") (auto simp: filter_empty_conv)
  with max_by_key_Some [OF h] h0 s show ?thesis
    using contains_active_iff [OF assms(1)] by (auto simp: dominant_at_excluding_def)
qed

lemma dominant_None:
  assumes "hint_set_wf hs" and "\<And>s. s \<notin> X \<Longrightarrow> \<not> contains_active hs s now"
  shows "dominant_at_excluding hs now X = Idle"
proof -
  have "filter (\<lambda>h. is_active_at h now \<and> hint_scene h \<notin> X) (bt_values hs) = []"
    using assms(2) contains_active_iff [OF assms(1)] by (auto simp: filter_empty_conv)
  then show ?thesis by (simp add: dominant_at_excluding_def)
qed

section \<open>Properties\<close>

text \<open>The hint sets the daemon can hold: any history of activations, removals and expiries.\<close>

definition hint_history :: "hint_op list \<Rightarrow> hint_set" where
  "hint_history ops = fold (\<lambda>e s. hint_step s e) ops HintSet_new"

lemma hint_history_wf: "hint_set_wf (hint_history ops)"
proof -
  have "hint_set_wf HintSet_new" by (simp add: hint_set_wf_def HintSet_new_def)
  then show ?thesis unfolding hint_history_def by (rule hints.run_inv)
qed

text \<open>
  after any history of hints, the scene the policy acts on is the active scene of highest
  priority: when a scene is active, the dominant one is active too and at least as urgent.
\<close>

theorem dominant_scene_is_most_urgent:
  assumes "contains_active (hint_history ops) s now"
  shows "contains_active (hint_history ops) (dominant_at (hint_history ops) now) now
         \<and> priority s \<le> priority (dominant_at (hint_history ops) now)"
  using dominant_Some [OF hint_history_wf assms, of "{}"] by (simp add: dominant_at_def)

theorem dominant_scene_is_most_urgent_witness:
  "contains_active (hint_history [Activate (hint_with_ttl Touch 10 100), Activate (hint_with_ttl Boost 20 50)])
     (dominant_at (hint_history [Activate (hint_with_ttl Touch 10 100), Activate (hint_with_ttl Boost 20 50)]) 60) 60
   \<and> priority Touch
     \<le> priority (dominant_at (hint_history [Activate (hint_with_ttl Touch 10 100), Activate (hint_with_ttl Boost 20 50)]) 60)"
  by (rule dominant_scene_is_most_urgent) code_simp

text \<open>
  the policy falls back to the idle scene exactly when no hint is active.
\<close>

theorem dominant_idle_iff_no_hint:
  "dominant_at (hint_history ops) now = Idle \<longleftrightarrow> (\<nexists>s. contains_active (hint_history ops) s now)"
proof
  assume idle: "dominant_at (hint_history ops) now = Idle"
  show "\<nexists>s. contains_active (hint_history ops) s now"
  proof
    assume "\<exists>s. contains_active (hint_history ops) s now"
    then obtain s where "contains_active (hint_history ops) s now" by blast
    from dominant_Some [OF hint_history_wf this, of "{}"] idle contains_active_not_Idle [OF hint_history_wf]
    show False by (simp add: dominant_at_def)
  qed
next
  assume "\<nexists>s. contains_active (hint_history ops) s now"
  then show "dominant_at (hint_history ops) now = Idle"
    unfolding dominant_at_def by (intro dominant_None hint_history_wf) blast
qed

lemma is_active_at_earlier: "is_active_at h later \<Longrightarrow> now \<le> later \<Longrightarrow> is_active_at h now"
  by (auto simp: is_active_at_def split: option.splits)

text \<open>
  dropping expired hints is invisible to the policy: the dominant scene, with or without
  excluded scenes, is the same before and after, now and at every later time.
\<close>

theorem expire_is_invisible:
  assumes "now \<le> later"
  shows "dominant_at_excluding (fst (expire hs now)) later X = dominant_at_excluding hs later X"
proof -
  have "filter (\<lambda>h. is_active_at h later \<and> hint_scene h \<notin> X) (bt_values (fst (expire hs now)))
      = filter (\<lambda>h. is_active_at h later \<and> hint_scene h \<notin> X) (bt_values hs)"
    unfolding expire_def bt_retain_def bt_values_def Let_def
    by (induction hs) (auto simp: is_active_at_earlier [OF _ assms])
  then show ?thesis by (simp add: dominant_at_excluding_def)
qed

theorem expire_is_invisible_witness:
  "dominant_at_excluding (fst (expire (hint_history [Activate (hint_with_ttl Touch 10 100)]) 50)) 60 {}
   = dominant_at_excluding (hint_history [Activate (hint_with_ttl Touch 10 100)]) 60 {}"
  by (rule expire_is_invisible) simp

end
