(* ===== verification/Text.thy ===== *)
theory Text
  imports Prelude
begin

text \<open>
  What the source uses of \<open>str\<close>, \<open>char\<close> and \<open>Path\<close>. A Rust string is its UTF-8 bytes, a
  HOL \<open>string\<close>; \<open>chars\<close> decodes it into code points, and \<open>trim\<close>, \<open>is_control\<close> and the
  byte length of a trimmed string work on those. Decimal formatting and the Unix rules of
  \<open>Path::components\<close> complete what the validators need.
\<close>

section \<open>Characters\<close>

definition byte_of :: "char \<Rightarrow> int" where
  "byte_of c = of_char c"

text \<open>
  Decoding of well-formed UTF-8, which Rust guarantees for every \<open>String\<close>: the lead byte says
  how many continuation bytes follow.
\<close>

fun chars :: "string \<Rightarrow> int list" where
  "chars [] = []"
| "chars (a # b # c # d # s) =
     (if byte_of a < 128 then byte_of a # chars (b # c # d # s)
      else if byte_of a < 224 then (byte_of a mod 32 * 64 + byte_of b mod 64) # chars (c # d # s)
      else if byte_of a < 240
        then (byte_of a mod 16 * 4096 + byte_of b mod 64 * 64 + byte_of c mod 64) # chars (d # s)
      else (byte_of a mod 8 * 262144 + byte_of b mod 64 * 4096 + byte_of c mod 64 * 64
            + byte_of d mod 64) # chars s)"
| "chars (a # b # c # s) =
     (if byte_of a < 128 then byte_of a # chars (b # c # s)
      else if byte_of a < 224 then (byte_of a mod 32 * 64 + byte_of b mod 64) # chars (c # s)
      else (byte_of a mod 16 * 4096 + byte_of b mod 64 * 64 + byte_of c mod 64) # chars s)"
| "chars (a # b # s) =
     (if byte_of a < 128 then byte_of a # chars (b # s)
      else (byte_of a mod 32 * 64 + byte_of b mod 64) # chars s)"
| "chars (a # s) = byte_of a # chars s"

definition utf8_width :: "int \<Rightarrow> nat" where
  "utf8_width c = (if c < 128 then 1 else if c < 2048 then 2 else if c < 65536 then 3 else 4)"

definition utf8_len :: "int list \<Rightarrow> nat" where
  "utf8_len cs = sum_list (map utf8_width cs)"

text \<open>\<open>char::is_control\<close> is the category Cc; \<open>char::is_whitespace\<close> the property White_Space.\<close>

definition is_control :: "int \<Rightarrow> bool" where
  "is_control c = (c < 32 \<or> (127 \<le> c \<and> c < 160))"

definition is_whitespace :: "int \<Rightarrow> bool" where
  "is_whitespace c =
     ((9 \<le> c \<and> c \<le> 13) \<or> c = 32 \<or> c = 133 \<or> c = 160 \<or> c = 5760 \<or> (8192 \<le> c \<and> c \<le> 8202)
      \<or> c = 8232 \<or> c = 8233 \<or> c = 8239 \<or> c = 8287 \<or> c = 12288)"

definition trim :: "int list \<Rightarrow> int list" where
  "trim cs = rev (dropWhile is_whitespace (rev (dropWhile is_whitespace cs)))"

section \<open>Decimal formatting\<close>

function show_int :: "int \<Rightarrow> string" where
  "show_int n =
     (if n < 0 then CHR ''-'' # show_int (- n)
      else if n < 10 then [''0123456789'' ! nat n]
      else show_int (n div 10) @ [''0123456789'' ! nat (n mod 10)])"
  by pat_completeness auto
termination
  by (relation "measure (\<lambda>n. if n < 0 then Suc (nat (- n)) else nat n)") auto

declare show_int.simps [simp del]

definition show_nat :: "nat \<Rightarrow> string" where
  "show_nat n = show_int (int n)"

text \<open>\<open>format!("{base}[{index}]")\<close> and \<open>format!("{base}.{field}")\<close>.\<close>

definition at_index :: "string \<Rightarrow> nat \<Rightarrow> string" where
  "at_index base i = base @ ''['' @ show_nat i @ '']''"

definition dot :: "string \<Rightarrow> string \<Rightarrow> string" where
  "dot base field = base @ ''.'' @ field"

section \<open>Unix paths\<close>

datatype component = RootDir | CurDir | ParentDir | Normal string

fun split_slash :: "string \<Rightarrow> string \<Rightarrow> string list" where
  "split_slash acc [] = [rev acc]"
| "split_slash acc (c # s) =
     (if c = CHR ''/'' then rev acc # split_slash [] s else split_slash (c # acc) s)"

text \<open>
  Repeated separators and a \<open>.\<close> that is not the first component of a relative path are
  dropped; a \<open>..\<close> is kept.
\<close>

definition has_root :: "string \<Rightarrow> bool" where
  "has_root p = (case p of [] \<Rightarrow> False | c # _ \<Rightarrow> c = CHR ''/'')"

definition component_of :: "string \<Rightarrow> component" where
  "component_of s = (if s = ''..'' then ParentDir else Normal s)"

definition path_components :: "string \<Rightarrow> component list" where
  "path_components p =
     (let parts = split_slash [] p;
          body = map component_of (filter (\<lambda>s. s \<noteq> [] \<and> s \<noteq> ''.'') parts)
      in if has_root p then RootDir # body
         else if hd parts = ''.'' then CurDir # body
         else body)"

definition path_is_absolute :: "string \<Rightarrow> bool" where
  "path_is_absolute p = has_root p"

fun comps_start_with :: "component list \<Rightarrow> component list \<Rightarrow> bool" where
  "comps_start_with xs [] = True"
| "comps_start_with [] (y # ys) = False"
| "comps_start_with (x # xs) (y # ys) = (x = y \<and> comps_start_with xs ys)"

definition path_starts_with :: "string \<Rightarrow> string \<Rightarrow> bool" where
  "path_starts_with p base = comps_start_with (path_components p) (path_components base)"

lemma split_slash_nonempty [simp]: "split_slash acc s \<noteq> []"
  by (induction s arbitrary: acc) auto

lemma comps_start_with_iff: "comps_start_with xs ys \<longleftrightarrow> (\<exists>zs. xs = ys @ zs)"
  by (induction xs ys rule: comps_start_with.induct) auto

end
