(* ===== verification/Frequency.thy ===== *)
theory Frequency
  imports Scenes Text
begin

text \<open>
  \<open>crates/uperf-core/src/policy.rs\<close>, the frequency model: \<open>FrequencyPolicy::validate\<close>, the
  errors of the policy layer, and \<open>constrain_frequency_limits\<close>, which applies the hardware,
  administrator and thermal caps to a requested pair and snaps it to supported operating
  points.
\<close>

section \<open>Errors\<close>

text \<open>
  A validation issue names the offending path and says what is wrong. A message that formats
  a float, quotes the regex engine or escapes a string with \<open>{:?}\<close> keeps its arguments instead
  of the rendered text.
\<close>

datatype message = Msg string | RatioMsg f64 f64 | RegexMsg string | UnknownGroupMsg string

record validation_issue =
  issue_path :: string
  issue_message :: message

datatype policy_error =
    InvalidHardwareLimits frequency_limits
  | InvalidFrequencyModel
  | OppOutsideHardwareLimits
  | InvalidFrequencyQuantum
  | NoOppAtOrBelowCap hertz
  | ReversedRequest frequency_limits
  | InvalidLoadInput string
  | MissingProfile profile_id
  | MissingThermalCap target_id
  | MissingTaskProfile string
  | InvalidMatcherRegex string
  | InvalidConfiguration "validation_issue list"
  | EnergyGovernor string
  | MissingPowerBudget profile_id

section \<open>The frequency model of a target\<close>

record frequency_policy =
  hardware_limits :: frequency_limits
  fp_floor :: hertz
  fp_reference :: hertz
  fp_efficient_cap :: hertz
  hertz_per_unit :: u64
  available_frequencies :: "hertz list"

definition FrequencyPolicy_validate :: "frequency_policy \<Rightarrow> (policy_error, unit) result" where
  "FrequencyPolicy_validate self =
     (let hw = hardware_limits self
      in if \<not> limits_is_valid hw then Inl (InvalidHardwareLimits hw)
         else if \<not> (min_hz hw \<le> fp_floor self \<and> fp_floor self \<le> fp_reference self
                    \<and> fp_reference self \<le> max_hz hw \<and> fp_floor self \<le> fp_efficient_cap self
                    \<and> fp_efficient_cap self \<le> max_hz hw)
         then Inl InvalidFrequencyModel
         else if hertz_per_unit self = 0
              \<or> list_ex (\<lambda>f. \<not> u64_is_multiple_of f (hertz_per_unit self))
                  ([min_hz hw, max_hz hw, fp_floor self, fp_reference self, fp_efficient_cap self]
                   @ available_frequencies self)
         then Inl InvalidFrequencyQuantum
         else if list_ex (\<lambda>f. f < min_hz hw \<or> max_hz hw < f) (available_frequencies self)
         then Inl OppOutsideHardwareLimits
         else Inr ())"

section \<open>Constraining a request\<close>

definition quantize_down :: "hertz \<Rightarrow> u64 \<Rightarrow> hertz" where
  "quantize_down value quantum = value div quantum * quantum"

definition quantize_up :: "hertz \<Rightarrow> u64 \<Rightarrow> hertz" where
  "quantize_up value quantum =
     (let quotient = value div quantum;
          rounded = u64_saturating_add quotient
                      (u64_from_bool (\<not> u64_is_multiple_of value quantum))
      in u64_saturating_mul rounded quantum)"

definition snap_up :: "hertz list \<Rightarrow> hertz \<Rightarrow> hertz option" where
  "snap_up opps requested = list_min (filter (\<lambda>f. requested \<le> f) opps)"

definition snap_down :: "hertz list \<Rightarrow> hertz \<Rightarrow> hertz option" where
  "snap_down opps requested = list_max (filter (\<lambda>f. f \<le> requested) opps)"

text \<open>The OPPs inside the hardware window, sorted and without duplicates.\<close>

definition supported_opps :: "frequency_limits \<Rightarrow> hertz list \<Rightarrow> hertz list" where
  "supported_opps hardware available =
     remdups_adj (sort (filter (\<lambda>f. min_hz hardware \<le> f \<and> f \<le> max_hz hardware) available))"

definition hard_cap_of :: "frequency_limits \<Rightarrow> hertz option \<Rightarrow> hertz option \<Rightarrow> hertz" where
  "hard_cap_of hardware administrator_cap thermal_cap =
     clamp (min_hz hardware) (max_hz hardware)
       (unwrap_or (max_hz hardware)
          (list_min (flatten [Some (max_hz hardware), administrator_cap, thermal_cap])))"

text \<open>The maximum is snapped downward first, then the minimum upward but never past it.\<close>

definition snapped_max ::
  "hertz list \<Rightarrow> frequency_limits \<Rightarrow> hertz \<Rightarrow> u64 \<Rightarrow> (policy_error, hertz) result" where
  "snapped_max opps hardware unsnapped_max quantum =
     (if opps = [] then Inr (max (quantize_down unsnapped_max quantum) (min_hz hardware))
      else ok_or (NoOppAtOrBelowCap unsnapped_max) (snap_down opps unsnapped_max))"

definition snapped_min :: "hertz list \<Rightarrow> hertz \<Rightarrow> hertz \<Rightarrow> u64 \<Rightarrow> hertz" where
  "snapped_min opps mx unsnapped_min quantum =
     (if opps = [] then min (quantize_up unsnapped_min quantum) mx
      else unwrap_or mx (filter_opt (\<lambda>f. f \<le> mx) (snap_up opps unsnapped_min)))"

definition constrain_frequency_limits ::
  "frequency_limits \<Rightarrow> frequency_limits \<Rightarrow> hertz option \<Rightarrow> hertz option \<Rightarrow> hertz list \<Rightarrow> u64
   \<Rightarrow> (policy_error, frequency_limits) result" where
  "constrain_frequency_limits requested hardware administrator_cap thermal_cap available quantum =
     (if \<not> limits_is_valid hardware then Inl (InvalidHardwareLimits hardware)
      else if \<not> limits_is_valid requested then Inl (ReversedRequest requested)
      else if quantum = 0 \<or> \<not> u64_is_multiple_of (min_hz hardware) quantum
              \<or> \<not> u64_is_multiple_of (max_hz hardware) quantum
      then Inl InvalidFrequencyQuantum
      else let hard_cap = hard_cap_of hardware administrator_cap thermal_cap;
               opps = supported_opps hardware available;
               unsnapped_max = clamp (min_hz hardware) hard_cap (max_hz requested)
           in rbind (snapped_max opps hardware unsnapped_max quantum)
                (\<lambda>mx. let unsnapped_min = clamp (min_hz hardware) mx (min_hz requested)
                       in Inr \<lparr>min_hz = snapped_min opps mx unsnapped_min quantum, max_hz = mx\<rparr>))"

section \<open>Lemmas\<close>

lemma snap_up_Some:
  assumes "snap_up opps r = Some f"
  shows "f \<in> set opps" and "r \<le> f" and "g \<in> set opps \<Longrightarrow> r \<le> g \<Longrightarrow> f \<le> g"
  using list_min_Some [OF assms [unfolded snap_up_def]] by auto

lemma snap_down_Some:
  assumes "snap_down opps r = Some f"
  shows "f \<in> set opps" and "f \<le> r" and "g \<in> set opps \<Longrightarrow> g \<le> r \<Longrightarrow> g \<le> f"
  using list_max_Some [OF assms [unfolded snap_down_def]] by auto

lemma snap_None:
  "snap_up opps r = None \<longleftrightarrow> (\<forall>f \<in> set opps. f < r)"
  "snap_down opps r = None \<longleftrightarrow> (\<forall>f \<in> set opps. r < f)"
  by (auto simp: snap_up_def snap_down_def filter_empty_conv)

lemma snap_up_mem: "f \<in> set opps \<Longrightarrow> snap_up opps f = Some f"
proof -
  assume f: "f \<in> set opps"
  then obtain g where g: "snap_up opps f = Some g"
    by (cases "snap_up opps f") (auto simp: snap_None)
  from snap_up_Some(2) [OF g] snap_up_Some(3) [OF g f] g show ?thesis by auto
qed

lemma snap_down_mem: "f \<in> set opps \<Longrightarrow> snap_down opps f = Some f"
proof -
  assume f: "f \<in> set opps"
  then obtain g where g: "snap_down opps f = Some g"
    by (cases "snap_down opps f") (auto simp: snap_None)
  from snap_down_Some(2) [OF g] snap_down_Some(3) [OF g f] g show ?thesis by auto
qed

lemma supported_opps_set:
  "set (supported_opps hw available) = {f \<in> set available. min_hz hw \<le> f \<and> f \<le> max_hz hw}"
  by (auto simp: supported_opps_def)

lemma hard_cap_bounds:
  assumes "limits_is_valid hw"
  shows "min_hz hw \<le> hard_cap_of hw a t" and "hard_cap_of hw a t \<le> max_hz hw"
  using assms by (auto simp: hard_cap_of_def limits_is_valid_def clamp_def)

lemma hard_cap_le_cap:
  assumes "limits_is_valid hw" and "c \<in> set (flatten [a, t])"
  shows "hard_cap_of hw a t \<le> max c (min_hz hw)"
proof -
  let ?m = "list_min (flatten [Some (max_hz hw), a, t])"
  obtain m where m: "?m = Some m" by (cases ?m) auto
  have "m \<le> c" using list_min_Some [OF m] assms(2) by auto
  with m assms(1) show ?thesis
    by (auto simp: hard_cap_of_def clamp_def limits_is_valid_def max_def)
qed

lemma unat_quantize_down:
  "unat (quantize_down v q) = unat v div unat q * unat q"
proof -
  have "unat v div unat q * unat q < 2 ^ 64"
    using le_less_trans [OF div_times_less_eq_dividend unat_u64_bound [of v]] by simp
  then show ?thesis
    by (simp add: quantize_down_def unat_mult_lem [THEN iffD1] unat_div_distrib)
qed

lemma quantize_down_le: "quantize_down v q \<le> v"
  by (simp add: word_le_nat_alt unat_quantize_down)

lemma quantize_down_multiple: "q \<noteq> 0 \<Longrightarrow> u64_is_multiple_of (quantize_down v q) q"
  by (simp add: machine_int unat_quantize_down)

lemma quantize_up_multiple:
  assumes q: "q \<noteq> 0" and bound: "quantize_up v q \<noteq> - 1"
  shows "u64_is_multiple_of (quantize_up v q) q"
proof -
  let ?r = "u64_saturating_add (v div q) (u64_from_bool (\<not> u64_is_multiple_of v q))"
  have "unat ?r * unat q < 18446744073709551616"
  proof (rule ccontr)
    assume "\<not> ?thesis"
    then have "uint ?r * uint q \<ge> 2 ^ 64"
      unfolding uint_unat_prod [symmetric] by (simp del: of_nat_mult)
    then show False using bound by (simp add: quantize_up_def Let_def u64_saturating_mul_def)
  qed
  then have "unat (quantize_up v q) = unat ?r * unat q"
    by (simp add: quantize_up_def Let_def machine_int)
  then show ?thesis using q by (simp add: machine_int)
qed

lemma quantize_up_ge:
  assumes q: "q \<noteq> 0"
  shows "v \<le> quantize_up v q"
proof -
  let ?b = "u64_from_bool (\<not> u64_is_multiple_of v q)"
  have q': "0 < unat q" using q by (simp add: unat_gt_0)
  have "unat v < Suc (unat v div unat q) * unat q"
    by (rule dividend_less_div_times [OF q', THEN less_le_trans]) simp
  then have "unat v \<le> (unat v div unat q + unat ?b) * unat q"
    using q by (auto simp: u64_from_bool_def machine_int dvd_div_mult_self)
  moreover have "unat v div unat q + unat ?b \<le> 18446744073709551615 \<or>
      18446744073709551615 \<le> unat v div unat q + unat ?b" by linarith
  moreover have "18446744073709551615 \<le> 18446744073709551615 * unat q" using q' by simp
  ultimately show ?thesis
    using unat_u64_bound [of v] q'
    by (auto simp: word_le_nat_alt quantize_up_def Let_def machine_int unat_div min_def
        simp del: unat_u64_bound)
qed

lemma snapped_max_bounds:
  assumes "snapped_max opps hw u q = Inr m" and "min_hz hw \<le> u"
    and "\<And>f. f \<in> set opps \<Longrightarrow> min_hz hw \<le> f"
  shows "min_hz hw \<le> m" and "m \<le> u"
  using assms order_trans [OF quantize_down_le, of u u q]
  by (auto simp: snapped_max_def split: if_splits dest: snap_down_Some)

lemma snapped_max_supported:
  assumes "snapped_max opps hw u q = Inr m" and "q \<noteq> 0" and "u64_is_multiple_of (min_hz hw) q"
  shows "if opps = [] then u64_is_multiple_of m q else m \<in> set opps"
  using assms by (auto simp: snapped_max_def max_def quantize_down_multiple dest: snap_down_Some)

lemma snapped_min_le: "snapped_min opps mx u q \<le> mx"
  by (auto simp: snapped_min_def unwrap_or_def filter_opt_def split: option.splits)

lemma snapped_min_ge: "u \<le> mx \<Longrightarrow> q \<noteq> 0 \<Longrightarrow> u \<le> snapped_min opps mx u q"
  by (auto simp: snapped_min_def unwrap_or_def filter_opt_def quantize_up_ge split: option.splits
      dest: snap_up_Some)

lemma snapped_min_supported:
  assumes "q \<noteq> 0" and "if opps = [] then u64_is_multiple_of mx q else mx \<in> set opps"
  shows "if opps = [] then u64_is_multiple_of (snapped_min opps mx u q) q
         else snapped_min opps mx u q \<in> set opps"
proof (cases "opps = []")
  case True
  have "quantize_up u q \<le> mx \<Longrightarrow> quantize_up u q = - 1 \<Longrightarrow> mx = - 1"
    by (metis word_order.extremum_uniqueI)
  with True assms show ?thesis
    by (cases "quantize_up u q = - 1") (auto simp: snapped_min_def min_def quantize_up_multiple)
next
  case False
  with assms show ?thesis
    by (auto simp: snapped_min_def unwrap_or_def filter_opt_def split: option.splits
        dest: snap_up_Some)
qed

lemma constrain_InrE:
  assumes "constrain_frequency_limits req hw a t av q = Inr l"
  obtains "limits_is_valid hw" and "limits_is_valid req" and "q \<noteq> 0"
    and "u64_is_multiple_of (min_hz hw) q" and "u64_is_multiple_of (max_hz hw) q"
    and "snapped_max (supported_opps hw av) hw
           (clamp (min_hz hw) (hard_cap_of hw a t) (max_hz req)) q = Inr (max_hz l)"
    and "min_hz l = snapped_min (supported_opps hw av) (max_hz l)
           (clamp (min_hz hw) (max_hz l) (min_hz req)) q"
  using assms
  by (auto simp: constrain_frequency_limits_def Let_def rbind_Inr_iff split: if_splits)

lemma constrain_max_bounds:
  assumes "constrain_frequency_limits req hw a t av q = Inr l"
  shows "min_hz hw \<le> max_hz l \<and> max_hz l \<le> hard_cap_of hw a t"
  using assms
proof (rule constrain_InrE)
  let ?u = "clamp (min_hz hw) (hard_cap_of hw a t) (max_hz req)"
  assume hw: "limits_is_valid hw"
    and m: "snapped_max (supported_opps hw av) hw ?u q = Inr (max_hz l)"
  have "min_hz hw \<le> ?u" and "?u \<le> hard_cap_of hw a t"
    using clamp_bounds [OF hard_cap_bounds(1) [OF hw]] by blast+
  with snapped_max_bounds [OF m] show ?thesis by (auto simp: supported_opps_set)
qed

lemma constrain_min_bounds:
  assumes c: "constrain_frequency_limits req hw a t av q = Inr l"
  shows "min_hz hw \<le> min_hz l \<and> min_hz l \<le> max_hz l"
  using c
proof (rule constrain_InrE)
  let ?u = "clamp (min_hz hw) (max_hz l) (min_hz req)"
  assume q: "q \<noteq> 0" and mn: "min_hz l = snapped_min (supported_opps hw av) (max_hz l) ?u q"
  have "min_hz hw \<le> ?u" and "?u \<le> max_hz l"
    using clamp_bounds constrain_max_bounds [OF c] by blast+
  with snapped_min_le snapped_min_ge [OF _ q] mn show ?thesis by (metis order_trans)
qed

lemma constrain_supported:
  assumes "constrain_frequency_limits req hw a t av q = Inr l"
  shows "if supported_opps hw av = []
         then u64_is_multiple_of (max_hz l) q \<and> u64_is_multiple_of (min_hz l) q
         else max_hz l \<in> set av \<and> min_hz l \<in> set av"
  using assms
proof (rule constrain_InrE)
  let ?o = "supported_opps hw av"
  assume q: "q \<noteq> 0" "u64_is_multiple_of (min_hz hw) q"
    and m: "snapped_max ?o hw (clamp (min_hz hw) (hard_cap_of hw a t) (max_hz req)) q = Inr (max_hz l)"
    and mn: "min_hz l = snapped_min ?o (max_hz l) (clamp (min_hz hw) (max_hz l) (min_hz req)) q"
  from snapped_max_supported [OF m q]
  have mx: "if ?o = [] then u64_is_multiple_of (max_hz l) q else max_hz l \<in> set ?o" .
  from snapped_min_supported [OF q(1) mx] mx mn show ?thesis
    by (auto simp: supported_opps_set split: if_splits)
qed

section \<open>Properties\<close>

lemma quantize_multiple_id:
  assumes "q \<noteq> 0" and "u64_is_multiple_of v q"
  shows "quantize_down v q = v" and "quantize_up v q = v"
proof -
  have d: "unat q dvd unat v" using assms by (simp add: machine_int)
  have "unat (quantize_down v q) = unat v" using d by (simp add: unat_quantize_down)
  then show "quantize_down v q = v" by (rule unsigned_word_eqI)
  let ?m = "18446744073709551615 :: nat"
  have v: "unat v div unat q * unat q = unat v" using d by (rule dvd_div_mult_self)
  have bound: "unat v \<le> ?m" using unat_u64_bound [of v] by linarith
  then have "unat v div unat q \<le> ?m" using div_le_dividend [of "unat v" "unat q"] by linarith
  then have "unat (quantize_up v q) = unat v"
    using v bound assms(2)
    by (simp add: quantize_up_def machine_int u64_from_bool_def unat_div del: unat_u64_bound)
  then show "quantize_up v q = v" by (rule unsigned_word_eqI)
qed

text \<open>
  C10: whatever is requested, limits that \<open>constrain_frequency_limits\<close> returns are in order, stay
  inside the hardware window and do not exceed any administrator or thermal cap; a cap below the
  hardware minimum leaves the hardware minimum.
\<close>

theorem constrain_limits_safe:
  assumes "constrain_frequency_limits req hw a t av q = Inr l"
  shows "min_hz hw \<le> min_hz l \<and> min_hz l \<le> max_hz l \<and> max_hz l \<le> max_hz hw
    \<and> (\<forall>cap \<in> set (flatten [a, t]). max_hz l \<le> max cap (min_hz hw))"
proof -
  from assms have hw: "limits_is_valid hw" by (rule constrain_InrE)
  note mx = constrain_max_bounds [OF assms] and mn = constrain_min_bounds [OF assms]
  have "max_hz l \<le> max cap (min_hz hw)" if "cap \<in> set (flatten [a, t])" for cap
    using order_trans [OF _ hard_cap_le_cap [OF hw that]] mx by blast
  with mx mn order_trans [OF _ hard_cap_bounds(2) [OF hw]] show ?thesis by blast
qed

lemma constrain_example:
  "constrain_frequency_limits \<lparr>min_hz = 500, max_hz = 9000\<rparr> \<lparr>min_hz = 1000, max_hz = 3000\<rparr> (Some 2500) None
     [1000, 2000, 3000] 1 = Inr \<lparr>min_hz = 1000, max_hz = 2000\<rparr>"
  by code_simp

theorem constrain_limits_safe_witness:
  "constrain_frequency_limits \<lparr>min_hz = 500, max_hz = 9000\<rparr> \<lparr>min_hz = 1000, max_hz = 3000\<rparr> (Some 2500) None
     [1000, 2000, 3000] 1 = Inr \<lparr>min_hz = 1000, max_hz = 2000\<rparr>
   \<and> list_all (\<lambda>cap. max_hz \<lparr>min_hz = 1000, max_hz = 2000\<rparr> \<le> max cap (min_hz \<lparr>min_hz = 1000, max_hz = 3000\<rparr>))
        (flatten [Some 2500, None])"
  unfolding list_all_iff
  using constrain_limits_safe [OF constrain_example] by (intro conjI constrain_example) (elim conjE)

text \<open>
  both limits are operating points the kernel listed when it lists any inside the hardware
  window, and multiples of the kernel's unit otherwise.
\<close>

theorem constrain_snaps_to_supported:
  assumes "constrain_frequency_limits req hw a t av q = Inr l"
  shows "if supported_opps hw av = []
         then u64_is_multiple_of (max_hz l) q \<and> u64_is_multiple_of (min_hz l) q
         else max_hz l \<in> set av \<and> min_hz l \<in> set av"
  using assms by (rule constrain_supported)

theorem constrain_snaps_to_supported_witness:
  "if supported_opps \<lparr>min_hz = 1000, max_hz = 3000\<rparr> [1000, 2000, 3000] = []
   then u64_is_multiple_of (max_hz \<lparr>min_hz = 1000, max_hz = 2000\<rparr>) 1
     \<and> u64_is_multiple_of (min_hz \<lparr>min_hz = 1000, max_hz = 2000\<rparr>) 1
   else max_hz \<lparr>min_hz = 1000, max_hz = 2000\<rparr> \<in> set [1000, 2000, 3000]
     \<and> min_hz \<lparr>min_hz = 1000, max_hz = 2000\<rparr> \<in> set [1000, 2000, 3000]"
  by (rule constrain_snaps_to_supported [OF constrain_example])

text \<open>
  the maximum is the best supported one: no listed operating point inside the hardware window
  lies above it and still within the request and the caps.
\<close>

theorem constrain_max_greatest:
  assumes "constrain_frequency_limits req hw a t av q = Inr l" and "f \<in> set av"
    and "min_hz hw \<le> f" and "f \<le> hard_cap_of hw a t" and "f \<le> max_hz req"
  shows "f \<le> max_hz l"
  using assms(1)
proof (rule constrain_InrE)
  let ?u = "clamp (min_hz hw) (hard_cap_of hw a t) (max_hz req)"
  assume hw: "limits_is_valid hw" and m: "snapped_max (supported_opps hw av) hw ?u q = Inr (max_hz l)"
  have f: "f \<in> set (supported_opps hw av)"
    using assms order_trans [OF _ hard_cap_bounds(2) [OF hw]] by (auto simp: supported_opps_set)
  moreover have "f \<le> ?u" using assms by (auto simp: clamp_def)
  ultimately show ?thesis
    using m by (auto simp: snapped_max_def split: if_splits dest: snap_down_Some(3))
qed

theorem constrain_max_greatest_witness: "(2000 :: hertz) \<le> max_hz \<lparr>min_hz = 1000, max_hz = 2000\<rparr>"
  by (rule constrain_max_greatest [OF constrain_example, of 2000])
    (simp_all add: hard_cap_of_def list_min_def clamp_def)

text \<open>
  constraining is idempotent: limits that came out of it go through unchanged under the same
  caps, so re-applying a plan never moves it.
\<close>

theorem constrain_idempotent:
  assumes "constrain_frequency_limits req hw a t av q = Inr l"
  shows "constrain_frequency_limits l hw a t av q = Inr l"
  using assms
proof (rule constrain_InrE)
  assume hw: "limits_is_valid hw" and q: "q \<noteq> 0" "u64_is_multiple_of (min_hz hw) q" "u64_is_multiple_of (max_hz hw) q"
  note mx = constrain_max_bounds [OF assms] and mn = constrain_min_bounds [OF assms]
  note sup = constrain_supported [OF assms]
  have u: "clamp (min_hz hw) (hard_cap_of hw a t) (max_hz l) = max_hz l"
    "clamp (min_hz hw) (max_hz l) (min_hz l) = min_hz l"
    using mx mn by (simp_all add: clamp_id)
  have mem: "supported_opps hw av \<noteq> [] \<Longrightarrow> max_hz l \<in> set (supported_opps hw av) \<and> min_hz l \<in> set (supported_opps hw av)"
    using sup mx mn order_trans [OF _ hard_cap_bounds(2) [OF hw]] order_trans [of "min_hz l" "max_hz l"]
    by (auto simp: supported_opps_set)
  have "snapped_max (supported_opps hw av) hw (max_hz l) q = Inr (max_hz l)"
    using mem sup mx q by (auto simp: snapped_max_def snap_down_mem quantize_multiple_id max_def)
  moreover have "snapped_min (supported_opps hw av) (max_hz l) (min_hz l) q = min_hz l"
    using mem sup mn q
    by (auto simp: snapped_min_def snap_up_mem filter_opt_def quantize_multiple_id min_def)
  ultimately show ?thesis
    using hw q mn u by (simp add: constrain_frequency_limits_def limits_is_valid_def Let_def)
qed

theorem constrain_idempotent_witness:
  "constrain_frequency_limits \<lparr>min_hz = 1000, max_hz = 2000\<rparr> \<lparr>min_hz = 1000, max_hz = 3000\<rparr> (Some 2500) None
     [1000, 2000, 3000] 1 = Inr \<lparr>min_hz = 1000, max_hz = 2000\<rparr>"
  by (rule constrain_idempotent [OF constrain_example])

text \<open>
  constraining succeeds exactly when the hardware window and the request are in order, the
  window is expressible in the kernel's unit, and either no operating point is listed inside the
  window or one of them is at or below the clamped maximum.
\<close>

theorem constrain_succeeds_iff:
  "(\<exists>l. constrain_frequency_limits req hw a t av q = Inr l) \<longleftrightarrow>
   limits_is_valid hw \<and> limits_is_valid req \<and> q \<noteq> 0
   \<and> u64_is_multiple_of (min_hz hw) q \<and> u64_is_multiple_of (max_hz hw) q
   \<and> (supported_opps hw av = [] \<or>
      (\<exists>f \<in> set (supported_opps hw av). f \<le> clamp (min_hz hw) (hard_cap_of hw a t) (max_hz req)))"
proof -
  let ?u = "clamp (min_hz hw) (hard_cap_of hw a t) (max_hz req)"
  have "(\<exists>m. snapped_max (supported_opps hw av) hw ?u q = Inr m) \<longleftrightarrow>
      supported_opps hw av = [] \<or> (\<exists>f \<in> set (supported_opps hw av). f \<le> ?u)"
    using snap_None(2) [of "supported_opps hw av" ?u]
    by (cases "snap_down (supported_opps hw av) ?u") (auto simp: snapped_max_def not_less)
  then show ?thesis
    by (auto simp: constrain_frequency_limits_def Let_def rbind_Inr_iff)
qed

end
