(* ===== verification/Config.thy ===== *)
theory Config
  imports Frequency
begin

text \<open>
  The documents of \<open>crates/uperf-core/src/config.rs\<close>: device, policy and application rules,
  with the defaults serde fills in and the pure functions that combine them. Their validators
  are in \<open>Validate\<close>. Field names carry a prefix for their struct, since HOL record fields are
  global.
\<close>

section \<open>Limits\<close>

definition CONFIG_SCHEMA_VERSION :: u32 where "CONFIG_SCHEMA_VERSION = 2"
definition MAX_CONFIG_FILE_BYTES :: usize where "MAX_CONFIG_FILE_BYTES = 1024 * 1024"
definition MAX_CPU_POLICIES :: usize where "MAX_CPU_POLICIES = 256"
definition MAX_DEVFREQ_TARGETS :: usize where "MAX_DEVFREQ_TARGETS = 256"
definition MAX_SCALAR_TARGETS :: usize where "MAX_SCALAR_TARGETS = 256"
definition MAX_THERMAL_ZONES :: usize where "MAX_THERMAL_ZONES = 256"
definition MAX_DEVFREQ_COMPATIBLE_STRINGS :: usize where "MAX_DEVFREQ_COMPATIBLE_STRINGS = 64"
definition MAX_PROFILE_CONFIGS :: usize where "MAX_PROFILE_CONFIGS = 8"
definition MAX_TASK_PROFILES :: usize where "MAX_TASK_PROFILES = 256"
definition MAX_PROCESS_RULES :: usize where "MAX_PROCESS_RULES = 1024"
definition MAX_THREAD_RULES_PER_PROCESS :: usize where "MAX_THREAD_RULES_PER_PROCESS = 256"
definition MAX_TOTAL_THREAD_RULES :: usize where "MAX_TOTAL_THREAD_RULES = 4096"
definition MAX_CGROUP_CLASSES :: usize where "MAX_CGROUP_CLASSES = 256"
definition MAX_APP_RULES :: usize where "MAX_APP_RULES = 4096"
definition MAX_FOCUS_PROTECTED :: usize where "MAX_FOCUS_PROTECTED = 256"
definition MAX_FIFO_PRIORITY :: u8 where "MAX_FIFO_PRIORITY = 50"

section \<open>Device documents\<close>

record device_match =
  dm_compatible :: "string option"
  dm_product_name :: "string option"

record measured_opp_config =
  mo_frequency_hz :: hertz
  mo_relative_capacity :: u32
  mo_power_mw_per_core :: u32

record reference_curve =
  rc_relative_performance :: u32
  rc_typical_power_mw_per_core :: u32
  rc_typical_frequency_hz :: hertz
  rc_sweet_frequency_hz :: hertz
  rc_plain_frequency_hz :: hertz
  rc_free_frequency_hz :: hertz

datatype cpu_energy_model_config =
    ReferenceCurveV1 reference_curve
  | MeasuredOppV1 "measured_opp_config list"

datatype scalar_target_domain_config =
    IntegerRange i64 i64
  | IntegerEnum "i64 list"
  | StringEnum "string list"
  | CpuList cpu_set bool

record scalar_target_config =
  st_id :: target_id
  st_path :: string
  st_domain :: scalar_target_domain_config

record cpu_policy_config =
  cp_id :: target_id
  cp_related_cpus :: cpu_set
  cp_sysfs_path :: "string option"
  cp_floor_hz :: hertz
  cp_reference_hz :: hertz
  cp_efficient_cap_hz :: hertz
  cp_admin_cap_hz :: "hertz option"
  cp_critical_cap_hz :: "hertz option"
  cp_sensor_failure_cap_hz :: "hertz option"
  cp_energy_model :: "cpu_energy_model_config option"

record devfreq_target_config =
  dt_id :: target_id
  dt_device_name :: string
  dt_compatible :: "string list"
  dt_sysfs_path :: "string option"
  dt_manual_only :: bool
  dt_admin_cap_hz :: "hertz option"
  dt_critical_cap_hz :: "hertz option"
  dt_sensor_failure_cap_hz :: "hertz option"

record thermal_zone_config =
  tz_id :: string
  tz_zone_type :: string
  tz_sysfs_path :: "string option"
  tz_warning :: milli_celsius
  tz_throttled :: milli_celsius
  tz_critical :: milli_celsius
  tz_hysteresis :: milli_celsius
  tz_dwell_ms :: u64
  tz_stale_after_ms :: u64

record device_config =
  dc_schema_version :: u32
  dc_device_id :: string
  dc_device_match :: "device_match option"
  dc_cpu_groups :: "(string, cpu_set) btree"
  dc_cpu_policies :: "cpu_policy_config list"
  dc_devfreq_targets :: "devfreq_target_config list"
  dc_scalar_targets :: "scalar_target_config list"
  dc_thermal_zones :: "thermal_zone_config list"

section \<open>Policy documents\<close>

record power_budget_config =
  pb_slow_limit_power_mw :: u32
  pb_fast_limit_power_mw :: u32
  pb_fast_limit_capacity_mj :: u32
  pb_fast_limit_recover_scale :: f64

record power_budget_patch =
  pp_slow_limit_power_mw :: "u32 option"
  pp_fast_limit_power_mw :: "u32 option"
  pp_fast_limit_capacity_mj :: "u32 option"
  pp_fast_limit_recover_scale :: "f64 option"

record scene_patch =
  sp_margin :: "f64 option"
  sp_burst :: "f64 option"
  sp_limit_efficiency :: "bool option"
  sp_power_budget :: "power_budget_patch option"
  sp_scalar_values :: "(target_id, scalar_setting_value) btree"

record profile_config =
  pc_id :: profile_id
  pc_margin :: f64
  pc_burst :: f64
  pc_limit_efficiency :: bool
  pc_power_budget :: "power_budget_config option"
  pc_scalar_values :: "(target_id, scalar_setting_value) btree"
  pc_scenes :: "(scene, scene_patch) btree"

record governor_config =
  gc_active_sample_ms :: u64
  gc_idle_sample_ms :: u64
  gc_active_load_threshold :: f64
  gc_idle_load_threshold :: f64
  gc_predict_threshold :: f64
  gc_ramp_latency_ms :: u64
  gc_min_opp_residency_ms :: u64

definition GovernorConfig_default :: governor_config where
  "GovernorConfig_default =
     \<lparr>gc_active_sample_ms = 20, gc_idle_sample_ms = 80,
      gc_active_load_threshold = f64_lit (30 / 100), gc_idle_load_threshold = f64_lit (15 / 100),
      gc_predict_threshold = f64_lit (15 / 100), gc_ramp_latency_ms = 100,
      gc_min_opp_residency_ms = 10\<rparr>"

record load_config =
  lc_enabled :: bool
  lc_sample_interval_ms :: u64
  lc_ema_time_constant_ms :: u64
  lc_heavy_enter :: f64
  lc_heavy_exit :: f64
  lc_heavy_dwell_ms :: u64

definition LoadConfig_default :: load_config where
  "LoadConfig_default =
     \<lparr>lc_enabled = True, lc_sample_interval_ms = 250, lc_ema_time_constant_ms = 500,
      lc_heavy_enter = f64_lit (60 / 100), lc_heavy_exit = f64_lit (20 / 100),
      lc_heavy_dwell_ms = 1000\<rparr>"

record thermal_policy_config =
  tpc_sample_interval_ms :: u64

definition ThermalPolicyConfig_default :: thermal_policy_config where
  "ThermalPolicyConfig_default = \<lparr>tpc_sample_interval_ms = 250\<rparr>"

record input_config =
  ic_enabled :: bool
  ic_trigger_duration_ms :: u64
  ic_gesture_duration_ms :: u64
  ic_switch_duration_ms :: u64
  ic_wake_duration_ms :: u64
  ic_swipe_distance :: f64
  ic_edge_width :: f64

definition InputConfig_default :: input_config where
  "InputConfig_default =
     \<lparr>ic_enabled = True, ic_trigger_duration_ms = 30, ic_gesture_duration_ms = 100,
      ic_switch_duration_ms = 400, ic_wake_duration_ms = 500,
      ic_swipe_distance = f64_lit (3 / 100), ic_edge_width = f64_lit (3 / 100)\<rparr>"

record workload_matcher =
  wm_executable :: "string option"
  wm_desktop_id :: "string option"
  wm_comm_regex :: "string option"

record task_profile_config =
  tpr_id :: string
  tpr_affinity_group :: "string option"
  tpr_plan :: task_plan
  tpr_scenes :: "(scheduler_scene, task_plan) btree"

datatype thread_selector = Leader | CommRegex string

record thread_rule_config =
  tr_selector :: thread_selector
  tr_task_profile :: string

record process_rule_config =
  pr_name :: string
  pr_matcher :: workload_matcher
  pr_task_profile :: "string option"
  pr_cgroup_class :: "string option"
  pr_threads :: "thread_rule_config list"

record cgroup_class_config =
  cg_id :: string
  cg_allowed_cpu_group :: "string option"
  cg_allowed_cpus :: cpu_set
  cg_cpu_weight :: u16

record focus_config =
  fc_enabled :: bool
  fc_task_profile :: "string option"
  fc_lease_ttl_ms :: u64
  fc_debounce_ms :: u64
  fc_protected :: "workload_matcher list"

definition FocusConfig_default :: focus_config where
  "FocusConfig_default =
     \<lparr>fc_enabled = False, fc_task_profile = None, fc_lease_ttl_ms = 15000, fc_debounce_ms = 150,
      fc_protected = []\<rparr>"

record realtime_scheduler_config =
  rt_enabled :: bool
  rt_max_priority :: u8
  rt_housekeeping_cpus :: cpu_set

definition RealtimeSchedulerConfig_default :: realtime_scheduler_config where
  "RealtimeSchedulerConfig_default =
     \<lparr>rt_enabled = False, rt_max_priority = 20, rt_housekeeping_cpus = []\<rparr>"

record session_profile_config =
  ss_display_blanked_profile :: "profile_id option"
  ss_locked_profile :: "profile_id option"

record scheduler_config =
  sc_enabled :: bool
  sc_task_profiles :: "task_profile_config list"
  sc_process_rules :: "process_rule_config list"
  sc_cgroup_classes :: "cgroup_class_config list"
  sc_focus :: focus_config
  sc_realtime :: realtime_scheduler_config

definition SchedulerConfig_default :: scheduler_config where
  "SchedulerConfig_default =
     \<lparr>sc_enabled = False, sc_task_profiles = [], sc_process_rules = [], sc_cgroup_classes = [],
      sc_focus = FocusConfig_default, sc_realtime = RealtimeSchedulerConfig_default\<rparr>"

record policy_config =
  pol_schema_version :: u32
  pol_default_profile :: profile_id
  pol_profiles :: "profile_config list"
  pol_load :: load_config
  pol_governor :: governor_config
  pol_thermal :: thermal_policy_config
  pol_input :: input_config
  pol_scheduler :: scheduler_config
  pol_session :: "session_profile_config option"

definition policy_profile :: "policy_config \<Rightarrow> profile_id \<Rightarrow> profile_config option" where
  "policy_profile self pid = List.find (\<lambda>profile. pc_id profile = pid) (pol_profiles self)"

section \<open>Application rules\<close>

record app_rule =
  ar_id :: string
  ar_enabled :: bool
  ar_priority :: i32
  ar_matcher :: workload_matcher
  ar_profile :: profile_id

record apps_config =
  ac_schema_version :: u32
  ac_rules :: "app_rule list"

text \<open>Enabled rules, by descending priority; equal priorities keep document order.\<close>

definition ordered_enabled_rules :: "apps_config \<Rightarrow> app_rule list" where
  "ordered_enabled_rules self =
     (let rules = filter (\<lambda>e. ar_enabled (snd e)) (enumerate_list (ac_rules self))
      in map snd (sort_key (\<lambda>e. (- ar_priority (snd e), fst e)) rules))"

record config_bundle =
  cb_device :: device_config
  cb_policy :: policy_config

section \<open>Combining documents\<close>

definition merge_task_plan :: "task_plan \<Rightarrow> task_plan \<Rightarrow> task_plan" where
  "merge_task_plan base patch =
     \<lparr>affinity = or_else (affinity patch) (affinity base),
      nice = or_else (nice patch) (nice base),
      tp_scheduling_class = or_else (tp_scheduling_class patch) (tp_scheduling_class base),
      rt_priority = or_else (rt_priority patch) (rt_priority base),
      uclamp_min = or_else (uclamp_min patch) (uclamp_min base),
      uclamp_max = or_else (uclamp_max patch) (uclamp_max base)\<rparr>"

text \<open>Each field of the budget comes from the patch or else from the base; a field with neither is \<open>None\<close> overall.\<close>

definition resolve_power_budget ::
  "power_budget_config option \<Rightarrow> power_budget_patch \<Rightarrow> power_budget_config option" where
  "resolve_power_budget base patch =
     (case or_else (pp_slow_limit_power_mw patch) (map_option pb_slow_limit_power_mw base) of
        None \<Rightarrow> None
      | Some slow \<Rightarrow>
     (case or_else (pp_fast_limit_power_mw patch) (map_option pb_fast_limit_power_mw base) of
        None \<Rightarrow> None
      | Some fast \<Rightarrow>
     (case or_else (pp_fast_limit_capacity_mj patch) (map_option pb_fast_limit_capacity_mj base) of
        None \<Rightarrow> None
      | Some capacity \<Rightarrow>
     (case or_else (pp_fast_limit_recover_scale patch) (map_option pb_fast_limit_recover_scale base) of
        None \<Rightarrow> None
      | Some scale \<Rightarrow>
          Some \<lparr>pb_slow_limit_power_mw = slow, pb_fast_limit_power_mw = fast,
                pb_fast_limit_capacity_mj = capacity, pb_fast_limit_recover_scale = scale\<rparr>))))"

lemma resolve_power_budget_total: "resolve_power_budget (Some base) patch \<noteq> None"
  by (auto simp: resolve_power_budget_def or_else_def split: option.splits)

lemma merge_task_plan_sel [simp]:
  "affinity (merge_task_plan b p) = or_else (affinity p) (affinity b)"
  "nice (merge_task_plan b p) = or_else (nice p) (nice b)"
  "tp_scheduling_class (merge_task_plan b p) = or_else (tp_scheduling_class p) (tp_scheduling_class b)"
  "rt_priority (merge_task_plan b p) = or_else (rt_priority p) (rt_priority b)"
  "uclamp_min (merge_task_plan b p) = or_else (uclamp_min p) (uclamp_min b)"
  "uclamp_max (merge_task_plan b p) = or_else (uclamp_max p) (uclamp_max b)"
  by (simp_all add: merge_task_plan_def)

lemma or_else_assoc: "or_else (or_else a b) c = or_else a (or_else b c)"
  by (cases a) simp_all

lemma merge_task_plan_assoc:
  "merge_task_plan a (merge_task_plan b c) = merge_task_plan (merge_task_plan a b) c"
  by (simp add: merge_task_plan_def or_else_assoc)

subsection \<open>The order of application rules\<close>

lemma ordered_enabled_rules_set:
  "set (ordered_enabled_rules cfg) = {r \<in> set (ac_rules cfg). ar_enabled r}"
proof -
  have "set (ac_rules cfg) = snd ` set (enumerate_list (ac_rules cfg))"
    by (metis enumerate_list_snd list.set_map)
  then show ?thesis by (auto simp: ordered_enabled_rules_def Let_def)
qed

lemma ordered_enabled_rules_sorted:
  "sorted_wrt (\<lambda>a b. ar_priority b \<le> ar_priority a) (ordered_enabled_rules cfg)"
proof -
  let ?k = "\<lambda>e. (- ar_priority (snd e), fst e)"
  let ?es = "sort_key ?k (filter (\<lambda>e. ar_enabled (snd e)) (enumerate_list (ac_rules cfg)))"
  have "sorted_wrt (\<lambda>a b. ?k a \<le> ?k b) ?es"
    using sorted_sort_key [of ?k] by (simp add: sorted_wrt_map)
  then have "sorted_wrt (\<lambda>a b. ar_priority (snd b) \<le> ar_priority (snd a)) ?es"
    by (rule sorted_wrt_mono_rel [rotated]) (auto simp: less_eq_prod_simp)
  then show ?thesis by (simp add: ordered_enabled_rules_def Let_def sorted_wrt_map)
qed

end
