(* ===== verification/Load.thy ===== *)
theory Load
  imports Config
begin

text \<open>
  The load part of \<open>policy.rs\<close>: the time-weighted moving average and the hysteretic
  heavy-load detector. The exponential function of the platform's math library is the
  parameter \<open>exp_f\<close>; Rust leaves its precision unspecified.
\<close>

section \<open>Moving average\<close>

definition validate_non_negative_finite :: "string \<Rightarrow> f64 \<Rightarrow> (policy_error, unit) result" where
  "validate_non_negative_finite field value =
     (if f64_is_finite value \<and> f64_le (Fin 0) value then Inr () else Inl (InvalidLoadInput field))"

definition time_weighted_ema ::
  "(f64 \<Rightarrow> f64) \<Rightarrow> f64 \<Rightarrow> f64 \<Rightarrow> u64 \<Rightarrow> u64 \<Rightarrow> (policy_error, f64) result" where
  "time_weighted_ema exp_f previous sample elapsed_ms time_constant_ms =
     rbind (validate_non_negative_finite ''previous'' previous) (\<lambda>_.
     rbind (validate_non_negative_finite ''sample'' sample) (\<lambda>_.
       if time_constant_ms = 0 then Inl (InvalidLoadInput ''time_constant_ms'')
       else let elapsed = millis_as_secs_f64 elapsed_ms;
                time_constant = millis_as_secs_f64 time_constant_ms;
                alpha = f64_sub (Fin 1) (exp_f (f64_div (f64_neg elapsed) time_constant))
            in Inr (f64_add previous (f64_mul alpha (f64_sub sample previous)))))"

section \<open>Heavy-load detector\<close>

datatype heavy_load_state = LoadIdle | Heavy

record heavy_load_detector =
  hl_ema :: "f64 option"
  hl_state :: heavy_load_state
  below_exit_since :: "monotonic_millis option"

definition HeavyLoadDetector_default :: heavy_load_detector where
  "HeavyLoadDetector_default = \<lparr>hl_ema = None, hl_state = LoadIdle, below_exit_since = None\<rparr>"

text \<open>The state change once the new average is known.\<close>

definition heavy_load_transition ::
  "heavy_load_detector \<Rightarrow> f64 \<Rightarrow> monotonic_millis \<Rightarrow> load_config \<Rightarrow> heavy_load_detector" where
  "heavy_load_transition self ema now config =
     (case hl_state self of
        LoadIdle \<Rightarrow>
          if f64_le (lc_heavy_enter config) ema
          then self\<lparr>hl_state := Heavy, below_exit_since := None\<rparr>
          else self
      | Heavy \<Rightarrow>
          if f64_le ema (lc_heavy_exit config)
          then let below_since = unwrap_or now (below_exit_since self);
                   self' = self\<lparr>below_exit_since := Some below_since\<rparr>
               in if lc_heavy_dwell_ms config \<le> saturating_duration_since now below_since
                  then self'\<lparr>hl_state := LoadIdle, below_exit_since := None\<rparr>
                  else self'
          else self\<lparr>below_exit_since := None\<rparr>)"

text \<open>An error leaves the detector as it was: every check precedes the first assignment.\<close>

definition HeavyLoadDetector_update ::
  "(f64 \<Rightarrow> f64) \<Rightarrow> heavy_load_detector \<Rightarrow> f64 \<Rightarrow> u64 \<Rightarrow> monotonic_millis \<Rightarrow> load_config
   \<Rightarrow> (policy_error, heavy_load_detector \<times> heavy_load_state) result" where
  "HeavyLoadDetector_update exp_f self sample elapsed_ms now config =
     rbind (validate_non_negative_finite ''sample'' sample) (\<lambda>_.
     rbind (validate_non_negative_finite ''enter'' (lc_heavy_enter config)) (\<lambda>_.
     rbind (validate_non_negative_finite ''exit'' (lc_heavy_exit config)) (\<lambda>_.
     rbind (case hl_ema self of
              None \<Rightarrow> Inr sample
            | Some previous \<Rightarrow>
                time_weighted_ema exp_f previous sample elapsed_ms (lc_ema_time_constant_ms config))
       (\<lambda>ema. let self' = heavy_load_transition (self\<lparr>hl_ema := Some ema\<rparr>) ema now config
               in Inr (self', hl_state self')))))"

section \<open>Lemmas\<close>

text \<open>The exit timer runs only while the detector is heavy.\<close>

definition heavy_load_wf :: "heavy_load_detector \<Rightarrow> bool" where
  "heavy_load_wf d = (hl_state d = LoadIdle \<longrightarrow> below_exit_since d = None)"

lemma heavy_load_transition_wf:
  "heavy_load_wf d \<Longrightarrow> heavy_load_wf (heavy_load_transition d ema now config)"
  by (auto simp: heavy_load_wf_def heavy_load_transition_def Let_def split: heavy_load_state.splits)

text \<open>A stream of averages, as the successful updates produce them.\<close>

definition heavy_load_step ::
  "load_config \<Rightarrow> heavy_load_detector \<Rightarrow> f64 \<times> monotonic_millis \<Rightarrow> heavy_load_detector" where
  "heavy_load_step config d e =
     heavy_load_transition (d\<lparr>hl_ema := Some (fst e)\<rparr>) (fst e) (snd e) config"

interpretation heavy: invariant_machine "heavy_load_step config" heavy_load_wf for config
  by unfold_locales (auto simp: heavy_load_step_def heavy_load_wf_def
      intro!: heavy_load_transition_wf [unfolded heavy_load_wf_def, rule_format])

lemma HeavyLoadDetector_update_step:
  assumes "HeavyLoadDetector_update exp_f d sample elapsed now config = Inr (d', st)"
  obtains ema where "d' = heavy_load_step config d (ema, now)" and "st = hl_state d'"
    and "hl_ema d' = Some ema"
proof -
  from assms obtain ema where
    d': "d' = heavy_load_transition (d\<lparr>hl_ema := Some ema\<rparr>) ema now config" and "st = hl_state d'"
    by (auto simp: HeavyLoadDetector_update_def rbind_Inr_iff Let_def)
  moreover from d' have "hl_ema d' = Some ema"
    by (auto simp: heavy_load_transition_def Let_def split: heavy_load_state.splits)
  ultimately show thesis using that by (simp add: heavy_load_step_def)
qed

lemma heavy_load_exit_needs_dwell:
  assumes "hl_state d = Heavy" and "hl_state (heavy_load_step config d (ema, now)) = LoadIdle"
  shows "f64_le ema (lc_heavy_exit config)"
    and "lc_heavy_dwell_ms config \<le> saturating_duration_since now (unwrap_or now (below_exit_since d))"
  using assms
  by (auto simp: heavy_load_step_def heavy_load_transition_def Let_def split: if_splits)

lemma heavy_load_above_exit_resets:
  assumes "\<not> f64_le ema (lc_heavy_exit config)"
  shows "below_exit_since (heavy_load_step config d (ema, now)) = None \<or> hl_state d = LoadIdle"
  using assms
  by (auto simp: heavy_load_step_def heavy_load_transition_def split: heavy_load_state.splits)

section \<open>Properties\<close>

text \<open>
  a detector that reports heavy load leaves that state only when the average is at or below
  the exit threshold and has been there, uninterrupted, since a time at least the dwell ago.
\<close>

theorem heavy_load_exit_debounced:
  assumes "HeavyLoadDetector_update exp_f d sample elapsed now config = Inr (d', LoadIdle)"
    and "hl_state d = Heavy"
  shows "\<exists>ema. hl_ema d' = Some ema \<and> f64_le ema (lc_heavy_exit config)
    \<and> lc_heavy_dwell_ms config \<le> saturating_duration_since now (unwrap_or now (below_exit_since d))"
  using assms(1)
proof (rule HeavyLoadDetector_update_step)
  fix ema assume d': "d' = heavy_load_step config d (ema, now)" and st: "LoadIdle = hl_state d'"
    and ema: "hl_ema d' = Some ema"
  from heavy_load_exit_needs_dwell [OF assms(2), of config ema now] d' st ema show ?thesis by auto
qed

definition heavy_example :: heavy_load_detector where
  "heavy_example = \<lparr>hl_ema = None, hl_state = Heavy, below_exit_since = Some 1000\<rparr>"

theorem heavy_load_exit_debounced_witness:
  "\<exists>ema. hl_ema (fst (case HeavyLoadDetector_update (\<lambda>x. x) heavy_example (Fin 0) 250 3000 LoadConfig_default of
          Inr r \<Rightarrow> r | Inl _ \<Rightarrow> (heavy_example, Heavy))) = Some ema
    \<and> f64_le ema (lc_heavy_exit LoadConfig_default)
    \<and> lc_heavy_dwell_ms LoadConfig_default
        \<le> saturating_duration_since 3000 (unwrap_or 3000 (below_exit_since heavy_example))"
proof -
  have "HeavyLoadDetector_update (\<lambda>x. x) heavy_example (Fin 0) 250 3000 LoadConfig_default
      = Inr (\<lparr>hl_ema = Some (Fin 0), hl_state = LoadIdle, below_exit_since = None\<rparr>, LoadIdle)" by code_simp
  note run = this
  have "hl_state heavy_example = Heavy" by (simp add: heavy_example_def)
  from heavy_load_exit_debounced [OF run this] show ?thesis unfolding run by simp
qed

text \<open>
  along any stream of averages a detector that is not heavy has no exit timer running, so a
  later exit is always timed from a sample taken while heavy.
\<close>

theorem heavy_load_timer_only_when_heavy:
  "hl_state (fold (\<lambda>e d. heavy_load_step config d e) es HeavyLoadDetector_default) = Heavy
   \<or> below_exit_since (fold (\<lambda>e d. heavy_load_step config d e) es HeavyLoadDetector_default) = None"
proof -
  let ?d = HeavyLoadDetector_default
  have "heavy_load_wf ?d" by (simp add: heavy_load_wf_def HeavyLoadDetector_default_def)
  from heavy.run_inv [OF this, of config es] show ?thesis
    by (cases "hl_state (fold (\<lambda>e d. heavy_load_step config d e) es ?d)") (auto simp: heavy_load_wf_def)
qed

end
