(* ===== verification/Thermal.thy ===== *)
theory Thermal
  imports Config
begin

text \<open>
  The thermal guard of \<open>policy.rs\<close>: a debounced, hysteretic classification of one sensor.
  Bad readings degrade it at once and critical ones are never debounced.
\<close>

section \<open>States and thresholds\<close>

datatype thermal_state = ThermalNormal | Warning | Throttled | Critical | Degraded

fun thermal_index :: "thermal_state \<Rightarrow> nat" where
  "thermal_index ThermalNormal = 0"
| "thermal_index Warning = 1"
| "thermal_index Throttled = 2"
| "thermal_index Critical = 3"
| "thermal_index Degraded = 4"

lemma thermal_index_inj: "thermal_index a = thermal_index b \<Longrightarrow> a = b"
  by (cases a; cases b) simp_all

instantiation thermal_state :: linorder
begin

definition less_eq_thermal_state :: "thermal_state \<Rightarrow> thermal_state \<Rightarrow> bool" where
  "less_eq_thermal_state a b = (thermal_index a \<le> thermal_index b)"

definition less_thermal_state :: "thermal_state \<Rightarrow> thermal_state \<Rightarrow> bool" where
  "less_thermal_state a b = (thermal_index a < thermal_index b)"

instance
  by standard
    (auto simp: less_eq_thermal_state_def less_thermal_state_def dest: thermal_index_inj)

end

record thermal_thresholds =
  th_warning :: milli_celsius
  th_throttled :: milli_celsius
  th_critical :: milli_celsius
  th_hysteresis :: milli_celsius
  th_dwell_ms :: u64
  th_stale_after_ms :: u64

definition thresholds_from_zone :: "thermal_zone_config \<Rightarrow> thermal_thresholds" where
  "thresholds_from_zone value =
     \<lparr>th_warning = tz_warning value, th_throttled = tz_throttled value,
      th_critical = tz_critical value, th_hysteresis = tz_hysteresis value,
      th_dwell_ms = tz_dwell_ms value, th_stale_after_ms = tz_stale_after_ms value\<rparr>"

definition classify_temperature :: "milli_celsius \<Rightarrow> thermal_thresholds \<Rightarrow> thermal_state" where
  "classify_temperature temp thresholds =
     (if th_critical thresholds \<le> temp then Critical
      else if th_throttled thresholds \<le> temp then Throttled
      else if th_warning thresholds \<le> temp then Warning
      else ThermalNormal)"

definition worst_thermal_state :: "thermal_state list \<Rightarrow> thermal_state" where
  "worst_thermal_state states = unwrap_or Degraded (max_by_key thermal_index states)"

section \<open>The guard\<close>

record thermal_guard =
  tg_thresholds :: thermal_thresholds
  tg_state :: thermal_state
  tg_pending :: "(thermal_state \<times> monotonic_millis) option"

definition ThermalGuard_new :: "thermal_thresholds \<Rightarrow> thermal_guard" where
  "ThermalGuard_new thresholds =
     \<lparr>tg_thresholds = thresholds, tg_state = ThermalNormal, tg_pending = None\<rparr>"

definition recovery_threshold :: "thermal_thresholds \<Rightarrow> thermal_state \<Rightarrow> milli_celsius option" where
  "recovery_threshold thresholds state =
     (case state of
        Critical \<Rightarrow> Some (th_critical thresholds)
      | Throttled \<Rightarrow> Some (th_throttled thresholds)
      | Warning \<Rightarrow> Some (th_warning thresholds)
      | ThermalNormal \<Rightarrow> None
      | Degraded \<Rightarrow> None)"

definition candidate_state :: "thermal_guard \<Rightarrow> milli_celsius \<Rightarrow> thermal_state" where
  "candidate_state self temp =
     (let raw = classify_temperature temp (tg_thresholds self)
      in if tg_state self \<le> raw \<or> tg_state self = Degraded then raw
         else case recovery_threshold (tg_thresholds self) (tg_state self) of
           None \<Rightarrow> raw
         | Some threshold \<Rightarrow>
             if temp < i64_sub threshold (th_hysteresis (tg_thresholds self)) then raw
             else tg_state self)"

definition reading_unusable :: "thermal_guard \<Rightarrow> monotonic_millis \<Rightarrow> thermal_reading \<Rightarrow> bool" where
  "reading_unusable self now reading =
     (health reading \<noteq> Healthy
      \<or> now < sampled_at reading
      \<or> th_stale_after_ms (tg_thresholds self) < saturating_duration_since now (sampled_at reading)
      \<or> temperature reading = None)"

text \<open>The debounce of a candidate that is neither critical nor the current state.\<close>

definition debounce :: "thermal_guard \<Rightarrow> monotonic_millis \<Rightarrow> thermal_state \<Rightarrow> thermal_guard" where
  "debounce self now candidate =
     (let settled = self\<lparr>tg_state := candidate, tg_pending := None\<rparr>;
          waiting = (if th_dwell_ms (tg_thresholds self) = 0 then settled
                     else self\<lparr>tg_pending := Some (candidate, now)\<rparr>)
      in case tg_pending self of
           Some (pending, since) \<Rightarrow>
             if pending = candidate
             then if th_dwell_ms (tg_thresholds self) \<le> saturating_duration_since now since
                  then settled else self
             else waiting
         | None \<Rightarrow> waiting)"

definition ThermalGuard_update ::
  "thermal_guard \<Rightarrow> monotonic_millis \<Rightarrow> thermal_reading \<Rightarrow> thermal_guard" where
  "ThermalGuard_update self now reading =
     (if reading_unusable self now reading
      then self\<lparr>tg_state := Degraded, tg_pending := None\<rparr>
      else case temperature reading of
        None \<Rightarrow> self\<lparr>tg_state := Degraded, tg_pending := None\<rparr>
      | Some temp \<Rightarrow>
          let candidate = candidate_state self temp
          in if candidate = Critical then self\<lparr>tg_state := Critical, tg_pending := None\<rparr>
             else if candidate = tg_state self then self\<lparr>tg_pending := None\<rparr>
             else debounce self now candidate)"

section \<open>Lemmas\<close>

text \<open>A pending change is always to another state, and never to a state that is not debounced.\<close>

definition thermal_guard_wf :: "thermal_guard \<Rightarrow> bool" where
  "thermal_guard_wf g =
     (case tg_pending g of None \<Rightarrow> True
      | Some (c, _) \<Rightarrow> c \<noteq> tg_state g \<and> c \<noteq> Critical \<and> c \<noteq> Degraded)"

definition thermal_step :: "thermal_guard \<Rightarrow> monotonic_millis \<times> thermal_reading \<Rightarrow> thermal_guard" where
  "thermal_step g e = ThermalGuard_update g (fst e) (snd e)"

lemma classify_not_Degraded [simp]: "classify_temperature temp th \<noteq> Degraded"
  by (simp add: classify_temperature_def)

lemma candidate_not_Degraded: "candidate_state g temp \<noteq> Degraded"
  by (auto simp: candidate_state_def Let_def split: option.splits if_splits thermal_state.splits)

lemma debounce_wf:
  assumes "c \<noteq> Critical" and "c \<noteq> Degraded" and "c \<noteq> tg_state g" and "thermal_guard_wf g"
  shows "thermal_guard_wf (debounce g now c)"
  using assms by (auto simp: debounce_def thermal_guard_wf_def Let_def split: option.splits)

lemma thermal_guard_wf_settled [simp]: "thermal_guard_wf (g\<lparr>tg_state := s, tg_pending := None\<rparr>)"
  by (simp add: thermal_guard_wf_def)

lemma thermal_guard_wf_cleared [simp]: "thermal_guard_wf (g\<lparr>tg_pending := None\<rparr>)"
  by (simp add: thermal_guard_wf_def)

lemma thermal_guard_update_wf:
  "thermal_guard_wf g \<Longrightarrow> thermal_guard_wf (ThermalGuard_update g now reading)"
  by (auto simp: ThermalGuard_update_def Let_def candidate_not_Degraded debounce_wf
      split: option.splits)

lemma thermal_guard_update_thresholds [simp]:
  "tg_thresholds (ThermalGuard_update g now reading) = tg_thresholds g"
  by (auto simp: ThermalGuard_update_def debounce_def Let_def split: option.splits)

interpretation thermal: invariant_machine thermal_step thermal_guard_wf
  by unfold_locales (simp add: thermal_step_def thermal_guard_update_wf)

lemma thermal_guard_new_wf: "thermal_guard_wf (ThermalGuard_new th)"
  by (simp add: thermal_guard_wf_def ThermalGuard_new_def)

lemma debounce_state:
  "tg_state (debounce g now c) = c \<or> tg_state (debounce g now c) = tg_state g"
  by (auto simp: debounce_def Let_def split: option.splits)

text \<open>A change of state that is neither to \<open>Critical\<close> nor to \<open>Degraded\<close> has waited out the dwell.\<close>

lemma debounce_changes_after_dwell:
  assumes "tg_state (debounce g now c) \<noteq> tg_state g"
  shows "tg_state (debounce g now c) = c \<and>
    (th_dwell_ms (tg_thresholds g) = 0 \<or>
     (\<exists>since. tg_pending g = Some (c, since) \<and>
        th_dwell_ms (tg_thresholds g) \<le> saturating_duration_since now since))"
  using assms by (auto simp: debounce_def Let_def split: option.splits if_splits)

lemma worst_thermal_state_upper:
  "s \<in> set states \<Longrightarrow> s \<le> worst_thermal_state states"
  using max_by_key_Some [of thermal_index states]
  by (cases "max_by_key thermal_index states")
    (auto simp: worst_thermal_state_def less_eq_thermal_state_def)

section \<open>Traces of the guard\<close>

type_synonym thermal_event = "monotonic_millis \<times> thermal_reading"

definition thermal_run :: "thermal_thresholds \<Rightarrow> thermal_event list \<Rightarrow> thermal_guard" where
  "thermal_run th es = fold (\<lambda>e g. thermal_step g e) es (ThermalGuard_new th)"

lemma thermal_run_snoc [simp]: "thermal_run th (es @ [e]) = thermal_step (thermal_run th es) e"
  by (simp add: thermal_run_def)

lemma thermal_run_Nil [simp]: "thermal_run th [] = ThermalGuard_new th"
  by (simp add: thermal_run_def)

lemma thermal_run_thresholds [simp]: "tg_thresholds (thermal_run th es) = th"
  by (induction es rule: rev_induct) (simp_all add: ThermalGuard_new_def thermal_step_def)

text \<open>What a usable reading asks for, seen from a state of the guard.\<close>

definition asks_for :: "thermal_guard \<Rightarrow> thermal_event \<Rightarrow> thermal_state \<Rightarrow> bool" where
  "asks_for g e c =
     (\<not> reading_unusable g (fst e) (snd e)
      \<and> (case temperature (snd e) of None \<Rightarrow> False | Some temp \<Rightarrow> candidate_state g temp = c))"

lemma asks_for_cong:
  assumes "tg_state g = tg_state g'" and "tg_thresholds g = tg_thresholds g'"
  shows "asks_for g e c = asks_for g' e c"
  unfolding asks_for_def candidate_state_def reading_unusable_def assms ..

lemma thermal_step_pending:
  assumes "tg_pending (thermal_step g e) = Some (c, since)"
  shows "tg_state (thermal_step g e) = tg_state g \<and> asks_for g e c
    \<and> (tg_pending g = Some (c, since) \<or> since = fst e)"
  using assms
  by (auto simp: thermal_step_def ThermalGuard_update_def asks_for_def debounce_def Let_def reading_unusable_def
      split: if_splits option.splits prod.splits)

lemma thermal_step_change:
  assumes "tg_state (thermal_step g e) \<noteq> tg_state g" and "tg_state (thermal_step g e) = c"
    and "c \<noteq> Critical" and "c \<noteq> Degraded" and "th_dwell_ms (tg_thresholds g) \<noteq> 0"
  shows "\<exists>since. tg_pending g = Some (c, since) \<and> asks_for g e c
    \<and> th_dwell_ms (tg_thresholds g) \<le> saturating_duration_since (fst e) since"
proof -
  from assms obtain temp where temp: "temperature (snd e) = Some temp"
    and usable: "\<not> reading_unusable g (fst e) (snd e)"
    and deb: "thermal_step g e = debounce g (fst e) (candidate_state g temp)"
    by (auto simp: thermal_step_def ThermalGuard_update_def Let_def split: if_splits option.splits)
  from debounce_changes_after_dwell [of g "fst e" "candidate_state g temp"] assms deb temp usable show ?thesis
    by (auto simp: asks_for_def)
qed

text \<open>A pending change was asked for by every reading since the one that started it.\<close>

lemma pending_trace:
  assumes "tg_pending (thermal_run th es) = Some (c, since)"
  shows "\<exists>us v vs. es = us @ v # vs \<and> fst v = since \<and> tg_state (thermal_run th us) = tg_state (thermal_run th es)
    \<and> (\<forall>e \<in> set (v # vs). asks_for (thermal_run th us) e c)"
  using assms
proof (induction es rule: rev_induct)
  case Nil
  then show ?case by (simp add: ThermalGuard_new_def)
next
  case (snoc e es)
  let ?g = "thermal_run th es"
  from snoc.prems have st: "tg_state (thermal_step ?g e) = tg_state ?g" and ask: "asks_for ?g e c"
    and since: "tg_pending ?g = Some (c, since) \<or> since = fst e"
    using thermal_step_pending by simp_all
  show ?case
  proof (cases "since = fst e")
    case True
    with st ask have "es @ [e] = es @ e # [] \<and> fst e = since
        \<and> tg_state ?g = tg_state (thermal_run th (es @ [e])) \<and> (\<forall>x \<in> set [e]. asks_for ?g x c)" by simp
    then show ?thesis by blast
  next
    case False
    then obtain us v vs where split: "es = us @ v # vs" "fst v = since"
      and same: "tg_state (thermal_run th us) = tg_state ?g"
      and all: "\<forall>x \<in> set (v # vs). asks_for (thermal_run th us) x c"
      using since snoc.IH by blast
    have "asks_for (thermal_run th us) e c" using ask asks_for_cong [OF same] by simp
    with all have all': "\<forall>x \<in> set (v # (vs @ [e])). asks_for (thermal_run th us) x c" by simp
    have "tg_state (thermal_run th us) = tg_state (thermal_run th (es @ [e]))" using same st by simp
    moreover have "es @ [e] = us @ v # (vs @ [e])" using split(1) by simp
    ultimately show ?thesis using split(2) all' by blast
  qed
qed

section \<open>Properties\<close>

text \<open>
  C11: at the end of any trace, a last reading that is unhealthy, missing, from the future or older
  than the zone allows leaves the guard in the degraded state, and a fresh healthy one at or above
  the critical threshold leaves it in the critical state, whatever came before.
\<close>

theorem thermal_fail_safe:
  assumes "g = thermal_run th (es @ [(now, reading)])"
  shows "(health reading \<noteq> Healthy \<or> temperature reading = None \<or> unat now < unat (sampled_at reading)
            \<or> unat (th_stale_after_ms th) < unat now - unat (sampled_at reading) \<longrightarrow> tg_state g = Degraded)
   \<and> (health reading = Healthy \<and> temperature reading = Some temp \<and> unat (sampled_at reading) \<le> unat now
        \<and> unat now - unat (sampled_at reading) \<le> unat (th_stale_after_ms th) \<and> th_critical th \<le> temp
        \<longrightarrow> tg_state g = Critical)"
proof -
  let ?g = "thermal_run th es"
  have "th_critical th \<le> temp \<Longrightarrow> candidate_state ?g temp = Critical"
    by (cases "tg_state ?g")
      (auto simp: candidate_state_def classify_temperature_def less_eq_thermal_state_def)
  moreover have "reading_unusable ?g now reading \<longleftrightarrow> health reading \<noteq> Healthy \<or> temperature reading = None
      \<or> unat now < unat (sampled_at reading) \<or> unat (th_stale_after_ms th) < unat now - unat (sampled_at reading)"
    by (auto simp: reading_unusable_def word_less_nat_alt machine_int)
  ultimately show ?thesis by (simp add: assms thermal_step_def ThermalGuard_update_def)
qed

definition zone_example :: thermal_thresholds where
  "zone_example = \<lparr>th_warning = 70000, th_throttled = 80000, th_critical = 90000, th_hysteresis = 5000,
                   th_dwell_ms = 1000, th_stale_after_ms = 2000\<rparr>"

definition hot :: "milli_celsius \<Rightarrow> monotonic_millis \<Rightarrow> thermal_event" where
  "hot temp now = (now, \<lparr>temperature = Some temp, sampled_at = now, health = Healthy\<rparr>)"

theorem thermal_fail_safe_witness:
  "tg_state (thermal_run zone_example [hot 20000 1000, hot 95000 5000]) = Critical
   \<and> tg_state (thermal_run zone_example [hot 20000 1000, (9000, snd (hot 20000 5000))]) = Degraded"
proof -
  have "tg_state (thermal_run zone_example ([hot 20000 1000] @ [(5000, snd (hot 95000 5000))])) = Critical"
    using thermal_fail_safe [where g = "thermal_run zone_example ([hot 20000 1000] @ [(5000, snd (hot 95000 5000))])"
        and temp = 95000, OF refl]
    by (simp add: hot_def zone_example_def)
  moreover have "tg_state (thermal_run zone_example ([hot 20000 1000] @ [(9000, snd (hot 20000 5000))])) = Degraded"
    using thermal_fail_safe [where g = "thermal_run zone_example ([hot 20000 1000] @ [(9000, snd (hot 20000 5000))])",
        OF refl]
    by (simp add: hot_def zone_example_def)
  ultimately show ?thesis by (simp add: hot_def)
qed

text \<open>
  along any trace of a guard with a dwell, a change to a state other than critical or degraded
  was asked for by every reading of a stretch that ends with the current one and began at least
  the dwell ago; nothing shorter changes the state.
\<close>

theorem thermal_change_needs_dwell:
  assumes "tg_state (thermal_run th (es @ [e])) = c" and "tg_state (thermal_run th es) \<noteq> c"
    and "c \<noteq> Critical" and "c \<noteq> Degraded" and "th_dwell_ms th \<noteq> 0"
  shows "\<exists>us v vs. es = us @ v # vs \<and> th_dwell_ms th \<le> saturating_duration_since (fst e) (fst v)
    \<and> (\<forall>x \<in> set (v # vs @ [e]). asks_for (thermal_run th us) x c)"
proof -
  let ?g = "thermal_run th es"
  from thermal_step_change [of ?g e c] assms obtain since where p: "tg_pending ?g = Some (c, since)"
    and ask: "asks_for ?g e c" and dwell: "th_dwell_ms th \<le> saturating_duration_since (fst e) since" by auto
  from pending_trace [OF p] obtain us v vs where split: "es = us @ v # vs" "fst v = since"
    and same: "tg_state (thermal_run th us) = tg_state ?g"
    and all: "\<forall>x \<in> set (v # vs). asks_for (thermal_run th us) x c" by blast
  have "asks_for (thermal_run th us) e c" using ask asks_for_cong [OF same] by simp
  with split all dwell have "es = us @ v # vs \<and> th_dwell_ms th \<le> saturating_duration_since (fst e) (fst v)
      \<and> (\<forall>x \<in> set (v # vs @ [e]). asks_for (thermal_run th us) x c)" by simp
  then show ?thesis by blast
qed

theorem thermal_change_needs_dwell_witness:
  "\<exists>us v vs. [hot 75000 1000] = us @ v # vs
     \<and> th_dwell_ms zone_example \<le> saturating_duration_since (fst (hot 75000 2000)) (fst v)
     \<and> (\<forall>x \<in> set (v # vs @ [hot 75000 2000]). asks_for (thermal_run zone_example us) x Warning)"
proof (rule thermal_change_needs_dwell)
  show "tg_state (thermal_run zone_example ([hot 75000 1000] @ [hot 75000 2000])) = Warning"
    and "tg_state (thermal_run zone_example [hot 75000 1000]) \<noteq> Warning"
    and "th_dwell_ms zone_example \<noteq> 0" by code_simp+
qed simp_all

text \<open>
  the guard steps down from a state only when the temperature is below that state's threshold
  by more than the hysteresis; with the thresholds of a valid zone the subtraction never wraps.
\<close>

theorem thermal_recovery_needs_hysteresis:
  assumes "candidate_state g temp < tg_state g" and "recovery_threshold (tg_thresholds g) (tg_state g) = Some threshold"
    and "0 \<le> threshold" and "threshold \<le> 250000" and "0 \<le> th_hysteresis (tg_thresholds g)"
    and "th_hysteresis (tg_thresholds g) \<le> 250000"
  shows "temp < threshold - th_hysteresis (tg_thresholds g)"
proof -
  have "i64_sub threshold (th_hysteresis (tg_thresholds g)) = threshold - th_hysteresis (tg_thresholds g)"
    using assms by (simp add: i64_sub_def wrap_i64_id)
  moreover have "tg_state g \<noteq> Degraded" using assms(2) by (auto simp: recovery_threshold_def)
  ultimately show ?thesis
    using assms(1,2) by (auto simp: candidate_state_def Let_def not_le split: if_splits)
qed

theorem thermal_recovery_needs_hysteresis_witness:
  "(60000 :: int) < 70000 - th_hysteresis (tg_thresholds \<lparr>tg_thresholds = zone_example, tg_state = Warning, tg_pending = None\<rparr>)"
proof (rule thermal_recovery_needs_hysteresis)
  show "candidate_state \<lparr>tg_thresholds = zone_example, tg_state = Warning, tg_pending = None\<rparr> 60000
      < tg_state \<lparr>tg_thresholds = zone_example, tg_state = Warning, tg_pending = None\<rparr>" by code_simp
qed (simp_all add: recovery_threshold_def zone_example_def)

text \<open>
  the worst state of several zones bounds each of them, is the state of one of them, and is
  degraded when there is no zone at all.
\<close>

theorem worst_thermal_state_is_maximum:
  "(states = [] \<and> worst_thermal_state states = Degraded)
   \<or> (worst_thermal_state states \<in> set states \<and> list_all (\<lambda>s. s \<le> worst_thermal_state states) states)"
proof (cases "max_by_key thermal_index states")
  case None
  then show ?thesis by (simp add: worst_thermal_state_def)
next
  case (Some s)
  with max_by_key_Some [OF Some] worst_thermal_state_upper [of _ states] show ?thesis
    by (auto simp: worst_thermal_state_def list_all_iff)
qed

lemma thermal_step_waits:
  assumes "tg_state g \<noteq> candidate_state g x" and "candidate_state g x \<noteq> Critical"
    and "th_dwell_ms (tg_thresholds g) \<noteq> 0" and "\<forall>since. tg_pending g \<noteq> Some (candidate_state g x, since)"
  shows "thermal_step g (hot x n) = g\<lparr>tg_pending := Some (candidate_state g x, n)\<rparr>"
proof -
  have "\<not> reading_unusable g n (snd (hot x n))"
    by (simp add: reading_unusable_def hot_def saturating_duration_since_def)
  then have "thermal_step g (hot x n) = debounce g n (candidate_state g x)"
    using assms(1,2) by (auto simp: thermal_step_def ThermalGuard_update_def Let_def hot_def)
  with assms(3,4) show ?thesis
    by (cases "tg_pending g") (auto simp: debounce_def Let_def)
qed

lemma alternating_keeps_normal:
  assumes "th_dwell_ms th \<noteq> 0" and "th_warning th \<le> w" and "w < th_throttled th"
    and "th_throttled th \<le> t" and "t < th_critical th"
  shows "tg_state (thermal_run th (concat (map (\<lambda>(a, b). [hot w a, hot t b]) ts))) = ThermalNormal
    \<and> (\<forall>since. tg_pending (thermal_run th (concat (map (\<lambda>(a, b). [hot w a, hot t b]) ts))) \<noteq> Some (Warning, since))"
proof (induction ts rule: rev_induct)
  case Nil
  then show ?case by (simp add: ThermalGuard_new_def)
next
  case (snoc ab ts)
  obtain a b where ab: "ab = (a, b)" by (cases ab)
  let ?es = "concat (map (\<lambda>(a, b). [hot w a, hot t b]) ts)"
  define g where "g = thermal_run th ?es"
  have g: "tg_state g = ThermalNormal" "\<And>since. tg_pending g \<noteq> Some (Warning, since)" "tg_thresholds g = th"
    using snoc.IH by (auto simp: g_def)
  have cand: "candidate_state k w = Warning" "candidate_state k t = Throttled"
    if "tg_state k = ThermalNormal" "tg_thresholds k = th" for k
    using that assms by (simp_all add: candidate_state_def classify_temperature_def less_eq_thermal_state_def)
  have "thermal_step g (hot w a) = g\<lparr>tg_pending := Some (Warning, a)\<rparr>"
    using thermal_step_waits [of g w a] g cand [of g] assms(1) by simp
  moreover have "thermal_step (g\<lparr>tg_pending := Some (Warning, a)\<rparr>) (hot t b) = g\<lparr>tg_pending := Some (Throttled, b)\<rparr>"
    using thermal_step_waits [of "g\<lparr>tg_pending := Some (Warning, a)\<rparr>" t b] g
      cand [of "g\<lparr>tg_pending := Some (Warning, a)\<rparr>"] assms(1) by simp
  ultimately have "thermal_run th (concat (map (\<lambda>(a, b). [hot w a, hot t b]) (ts @ [ab])))
      = g\<lparr>tg_pending := Some (Throttled, b)\<rparr>"
    by (simp add: thermal_run_def g_def ab)
  with g(1) show ?case by simp
qed

text \<open>
  C40: readings that alternate between the warning and the throttled band keep restarting the
  debounce: however long they continue, a guard that started normal stays normal although every
  reading is above the warning threshold.
\<close>

theorem thermal_alternation_starves:
  assumes "th_dwell_ms th \<noteq> 0" and "th_warning th \<le> w" and "w < th_throttled th"
    and "th_throttled th \<le> t" and "t < th_critical th"
  shows "tg_state (thermal_run th (concat (map (\<lambda>(a, b). [hot w a, hot t b]) ts))) = ThermalNormal"
  using alternating_keeps_normal [OF assms] by blast

theorem thermal_alternation_starves_witness:
  "tg_state (thermal_run zone_example (concat (map (\<lambda>(a, b). [hot 75000 a, hot 85000 b]) [(1000, 1250), (1500, 1750), (90000, 90250)])))
   = ThermalNormal"
  by (rule thermal_alternation_starves) (simp_all add: zone_example_def)

end
