(* ===== verification/F64_Round.thy ===== *)
theory F64_Round
  imports F64
begin

text \<open>
  Correctness of the rounding function: the binary exponent is exact, an integer of 64 bits
  never overflows, rounding is monotone, and a value that is already representable is not
  changed.
\<close>

section \<open>Powers of two\<close>

lemma pow2_power_int: "pow2 e = power_int 2 e"
  by (simp add: pow2_def power_int_def inverse_eq_divide power_one_over)

lemma pow2_add: "pow2 (a + b) = pow2 a * pow2 b"
  by (simp add: pow2_power_int power_int_add)

lemma pow2_Suc: "pow2 (e + 1) = 2 * pow2 e"
  by (simp add: pow2_add) (simp add: pow2_def)

lemma pow2_mono: "a \<le> b \<Longrightarrow> pow2 a \<le> pow2 b"
  unfolding pow2_power_int by (rule power_int_increasing) auto

lemma pow2_less_cancel: "pow2 a < pow2 b \<Longrightarrow> a < b"
  using pow2_mono [of b a] by (meson leD not_le)

lemma pow2_0 [simp]: "pow2 0 = 1"
  by (simp add: pow2_def)

section \<open>The binary exponent\<close>

lemma bit_length_nonneg: "0 \<le> bit_length n"
  by (induction n rule: bit_length.induct) (subst bit_length.simps, auto)

lemma bit_length_spec:
  "0 < n \<Longrightarrow> pow2 (bit_length n - 1) \<le> of_int n \<and> of_int n < pow2 (bit_length n)"
proof (induction n rule: bit_length.induct)
  case (1 n)
  show ?case
  proof (cases "n = 1")
    case True
    then show ?thesis by (simp add: bit_length.simps [of 1] bit_length.simps [of 0] pow2_def)
  next
    case False
    with "1.prems" have pos: "0 < n div 2" by (simp add: pos_imp_zdiv_pos_iff)
    let ?b = "bit_length (n div 2)"
    have IH: "pow2 (?b - 1) \<le> of_int (n div 2)" "of_int (n div 2) < pow2 ?b"
      using "1.IH" "1.prems" pos by auto
    have b: "0 < ?b"
      using pos bit_length_nonneg [of "n div 2 div 2"] by (subst bit_length.simps) auto
    have n: "2 * (n div 2) \<le> n" "n < 2 * (n div 2) + 2" by auto
    have "pow2 ?b = 2 * pow2 (?b - 1)" using pow2_Suc [of "?b - 1"] by simp
    also have "\<dots> \<le> of_int n" using IH(1) n(1) by linarith
    finally have lo: "pow2 ?b \<le> of_int n" .
    have "pow2 ?b = of_int (2 ^ nat ?b)" using b by (simp add: pow2_def)
    then have "n div 2 + 1 \<le> 2 ^ nat ?b" using IH(2) by linarith
    then have "of_int n < 2 * pow2 ?b" using n(2) \<open>pow2 ?b = of_int (2 ^ nat ?b)\<close> by linarith
    with lo "1.prems" show ?thesis
      using pow2_Suc [of ?b] by (simp add: bit_length.simps [of n] add.commute)
  qed
qed

lemma ilog2_spec:
  assumes x: "0 < x"
  shows "pow2 (ilog2 x) \<le> x" and "x < pow2 (ilog2 x + 1)"
proof -
  obtain p q where pq: "quotient_of x = (p, q)" by force
  then have q: "0 < q" and xpq: "x = of_int p / of_int q"
    by (auto dest: quotient_of_denom_pos quotient_of_div)
  with x have p: "0 < p" by (simp add: zero_less_divide_iff)
  let ?d = "bit_length p - bit_length q"
  note P = bit_length_spec [OF p] and Q = bit_length_spec [OF q]
  have q': "0 < (of_int q :: rat)" using q by simp
  have "pow2 (?d - 1) * of_int q \<le> pow2 (?d - 1) * pow2 (bit_length q)"
    using Q by (intro mult_left_mono) auto
  also have "\<dots> = pow2 (bit_length p - 1)" by (simp flip: pow2_add add: algebra_simps)
  also have "\<dots> \<le> of_int p" using P by blast
  finally have lo: "pow2 (?d - 1) \<le> x" using q' by (simp add: xpq pos_le_divide_eq)
  have "of_int p < pow2 (bit_length p)" using P by blast
  also have "\<dots> = pow2 (?d + 1) * pow2 (bit_length q - 1)" by (simp flip: pow2_add)
  also have "\<dots> \<le> pow2 (?d + 1) * of_int q" using Q by (intro mult_left_mono) auto
  finally have hi: "x < pow2 (?d + 1)" using q' by (simp add: xpq pos_divide_less_eq)
  show "pow2 (ilog2 x) \<le> x" and "x < pow2 (ilog2 x + 1)"
    using lo hi by (auto simp: ilog2_def pq Let_def)
qed

lemma ilog2_eqI:
  assumes "pow2 e \<le> x" and "x < pow2 (e + 1)"
  shows "ilog2 x = e"
proof -
  have "0 < x" using assms(1) pow2_pos [of e] by linarith
  note s = ilog2_spec [OF this]
  have "pow2 e < pow2 (ilog2 x + 1)" and "pow2 (ilog2 x) < pow2 (e + 1)"
    using assms s by linarith+
  then show ?thesis by (auto dest!: pow2_less_cancel)
qed

lemma ilog2_mono: "0 < x \<Longrightarrow> x \<le> y \<Longrightarrow> ilog2 x \<le> ilog2 y"
proof -
  assume x: "0 < x" and xy: "x \<le> y"
  have "pow2 (ilog2 x) < pow2 (ilog2 y + 1)"
    using ilog2_spec(1) [OF x] ilog2_spec(2) [of y] x xy by linarith
  then show ?thesis by (auto dest!: pow2_less_cancel)
qed

section \<open>Rounding to an integer\<close>

lemma round_half_even_int [simp]: "round_half_even (of_int n) = n"
  by (simp add: round_half_even_def)

lemma round_half_even_mono:
  assumes "x \<le> y"
  shows "round_half_even x \<le> round_half_even y"
proof (cases "\<lfloor>x\<rfloor> = \<lfloor>y\<rfloor>")
  case True
  then have "x - of_int \<lfloor>x\<rfloor> \<le> y - of_int \<lfloor>y\<rfloor>" using assms by simp
  with True show ?thesis by (auto simp: round_half_even_def Let_def)
next
  case False
  then have "\<lfloor>x\<rfloor> + 1 \<le> \<lfloor>y\<rfloor>" using floor_mono [OF assms] by linarith
  moreover have "round_half_even x \<le> \<lfloor>x\<rfloor> + 1" and "\<lfloor>y\<rfloor> \<le> round_half_even y"
    by (simp_all add: round_half_even_def Let_def)
  ultimately show ?thesis by linarith
qed

lemma round_half_even_minus: "round_half_even (- x) = - round_half_even x"
proof (cases "of_int \<lfloor>x\<rfloor> = x")
  case True
  then show ?thesis by (metis of_int_minus round_half_even_int)
next
  case False
  then have f: "\<lfloor>- x\<rfloor> = - \<lfloor>x\<rfloor> - 1"
    using floor_correct [of x] by (intro floor_unique) (simp_all add: less_le)
  show ?thesis
    by (auto simp: round_half_even_def Let_def f)
qed

section \<open>Rounding to a double\<close>

text \<open>The rounded value before the overflow check.\<close>

definition round_value :: "rat \<Rightarrow> rat" where
  "round_value x = of_int (round_half_even (x / f64_quantum x)) * f64_quantum x"

definition overflows :: "rat \<Rightarrow> bool" where
  "overflows r = (r \<noteq> 0 \<and> 1024 \<le> ilog2 \<bar>r\<bar>)"

lemma f64_round_alt:
  "f64_round x =
     (if overflows (round_value x) then (if 0 < round_value x then PosInf else NegInf)
      else Fin (round_value x))"
  by (simp add: f64_round_def overflows_def round_value_def Let_def round_half_even_def)

lemma round_value_minus: "round_value (- x) = - round_value x"
  by (simp add: round_value_def f64_quantum_def round_half_even_minus)

lemma round_value_zero [simp]: "round_value 0 = 0"
  by (simp add: round_value_def round_half_even_def)

lemma round_value_le_iff:
  assumes "of_int n * f64_quantum x = b" and "x \<le> b"
  shows "round_value x \<le> b"
proof -
  have "x / f64_quantum x \<le> of_int n"
    using assms by (simp add: pos_divide_le_eq)
  then have "round_half_even (x / f64_quantum x) \<le> n"
    using round_half_even_mono [of _ "of_int n"] by simp
  then show ?thesis
    using assms(1) unfolding round_value_def by (metis f64_quantum_pos mult_right_mono less_imp_le of_int_le_iff)
qed

lemma round_value_ge_iff:
  assumes "of_int n * f64_quantum x = b" and "b \<le> x"
  shows "b \<le> round_value x"
proof -
  have "of_int n \<le> x / f64_quantum x"
    using assms by (simp add: pos_le_divide_eq)
  then have "n \<le> round_half_even (x / f64_quantum x)"
    using round_half_even_mono [of "of_int n"] by simp
  then show ?thesis
    using assms(1) unfolding round_value_def by (metis f64_quantum_pos mult_right_mono less_imp_le of_int_le_iff)
qed

abbreviation exponent :: "rat \<Rightarrow> int" where
  "exponent x \<equiv> max (ilog2 \<bar>x\<bar>) (- 1022)"

lemma quantum_scale: "of_int (2 ^ n) * f64_quantum x = pow2 (exponent x - 52 + int n)"
  by (simp add: f64_quantum_def pow2_add) (simp add: pow2_def)

lemma round_value_binade:
  assumes "0 < x"
  shows "round_value x \<le> pow2 (exponent x + 1)"
    and "- 1022 \<le> ilog2 x \<Longrightarrow> pow2 (exponent x) \<le> round_value x"
proof -
  note s = ilog2_spec [OF assms]
  have "x \<le> pow2 (exponent x + 1)"
    using s(2) pow2_mono [of "ilog2 x + 1" "exponent x + 1"] assms by simp
  then show "round_value x \<le> pow2 (exponent x + 1)"
    using quantum_scale [of 53 x] by (intro round_value_le_iff [of "2 ^ 53"]) (simp_all add: add.commute)
  assume "- 1022 \<le> ilog2 x"
  then have "pow2 (exponent x) \<le> x" using s(1) assms by (simp add: max_def)
  then show "pow2 (exponent x) \<le> round_value x"
    using quantum_scale [of 52 x] by (intro round_value_ge_iff [of "2 ^ 52"]) simp_all
qed

lemma round_value_mono_pos:
  assumes x: "0 < x" and xy: "x \<le> y"
  shows "round_value x \<le> round_value y"
proof (cases "exponent x = exponent y")
  case True
  then have q: "f64_quantum x = f64_quantum y" by (simp add: f64_quantum_def)
  have "x / f64_quantum y \<le> y / f64_quantum y" using xy by (simp add: divide_right_mono less_imp_le)
  then have "round_half_even (x / f64_quantum y) \<le> round_half_even (y / f64_quantum y)"
    by (rule round_half_even_mono)
  then show ?thesis by (simp add: round_value_def q mult_right_mono less_imp_le)
next
  case False
  have y: "0 < y" using x xy by simp
  have "ilog2 \<bar>x\<bar> \<le> ilog2 \<bar>y\<bar>" using x xy by (simp add: ilog2_mono)
  with False have e: "exponent x + 1 \<le> exponent y" and ly: "- 1022 \<le> ilog2 y"
    using y by (auto simp: max_def split: if_splits)
  have "round_value x \<le> pow2 (exponent x + 1)" by (rule round_value_binade(1) [OF x])
  also have "\<dots> \<le> pow2 (exponent y)" by (rule pow2_mono [OF e])
  also have "\<dots> \<le> round_value y" by (rule round_value_binade(2) [OF y ly])
  finally show ?thesis .
qed

lemma round_value_nonneg: "0 \<le> x \<Longrightarrow> 0 \<le> round_value x"
  by (simp add: round_value_def round_half_even_nonneg less_imp_le)

lemma round_value_mono: "x \<le> y \<Longrightarrow> round_value x \<le> round_value y"
proof -
  assume xy: "x \<le> y"
  consider "0 < x" | "x \<le> 0" "0 \<le> y" | "y < 0" by linarith
  then show ?thesis
  proof cases
    case 1
    then show ?thesis using xy by (rule round_value_mono_pos)
  next
    case 2
    then show ?thesis
      using round_value_nonneg [of "- x"] round_value_nonneg [of y] by (simp add: round_value_minus)
  next
    case 3
    then have "round_value (- y) \<le> round_value (- x)" using xy by (intro round_value_mono_pos) auto
    then show ?thesis by (simp add: round_value_minus)
  qed
qed

lemma overflows_mono: "0 < a \<Longrightarrow> a \<le> b \<Longrightarrow> overflows a \<Longrightarrow> overflows b"
  using ilog2_mono [of a b] by (auto simp: overflows_def)

lemma overflows_minus [simp]: "overflows (- r) = overflows r"
  by (simp add: overflows_def)

lemma overflows_nonzero: "overflows r \<Longrightarrow> r \<noteq> 0"
  by (simp add: overflows_def)

text \<open>Rounding preserves the order of the exact results.\<close>

lemma f64_round_mono:
  assumes "x \<le> y"
  shows "f64_le (f64_round x) (f64_round y)"
proof -
  let ?a = "round_value x" and ?b = "round_value y"
  have ab: "?a \<le> ?b" by (rule round_value_mono [OF assms])
  have "overflows ?a \<Longrightarrow> 0 < ?a \<Longrightarrow> overflows ?b \<and> 0 < ?b"
    using overflows_mono [of ?a ?b] ab by auto
  moreover have "overflows ?b \<Longrightarrow> \<not> 0 < ?b \<Longrightarrow> overflows ?a \<and> \<not> 0 < ?a"
    using overflows_mono [of "- ?b" "- ?a"] overflows_nonzero [of ?b] ab by auto
  ultimately show ?thesis using ab by (auto simp: f64_round_alt f64_le_def)
qed

lemma f64_round_finite:
  assumes "\<bar>x\<bar> < pow2 1023"
  shows "\<exists>r. f64_round x = Fin r"
proof (cases "x = 0")
  case False
  let ?r = "round_value \<bar>x\<bar>"
  have x: "0 < \<bar>x\<bar>" using False by simp
  have "pow2 (ilog2 \<bar>x\<bar>) < pow2 1023"
    using ilog2_spec(1) [OF x] assms by linarith
  then have "exponent \<bar>x\<bar> + 1 \<le> 1023" by (auto dest: pow2_less_cancel)
  then have r: "?r \<le> pow2 1023"
    using round_value_binade(1) [OF x] pow2_mono [of "exponent \<bar>x\<bar> + 1" 1023] by simp
  have "\<not> overflows ?r"
  proof
    assume o: "overflows ?r"
    then have pos: "0 < ?r" using round_value_nonneg [of "\<bar>x\<bar>"] by (auto simp: overflows_def)
    then have "pow2 1024 \<le> ?r"
      using ilog2_spec(1) [OF pos] o pow2_mono [of 1024 "ilog2 ?r"] by (auto simp: overflows_def)
    then have "pow2 1024 \<le> pow2 1023" using r by linarith
    then show False by (simp add: pow2_less_cancel not_le pow2_Suc [of 1023, simplified])
  qed
  then have "\<not> overflows (round_value x)"
    by (cases "0 \<le> x") (auto simp: round_value_minus)
  then show ?thesis by (simp add: f64_round_alt)
qed simp

lemma f64_of_int_finite:
  assumes "\<bar>n\<bar> < 2 ^ 64"
  shows "\<exists>r. f64_of_int n = Fin r"
  unfolding f64_of_int_def
proof (rule f64_round_finite)
  have "\<bar>of_int n :: rat\<bar> < of_int (2 ^ 64)" using assms by (simp only: of_int_abs [symmetric] of_int_less_iff)
  also have "of_int (2 ^ 64) = pow2 64" by (simp add: pow2_def)
  also have "pow2 64 \<le> pow2 1023" by (rule pow2_mono) simp
  finally show "\<bar>of_int n :: rat\<bar> < pow2 1023" .
qed

text \<open>A representable lower bound survives rounding.\<close>

lemma f64_round_ge_representable:
  assumes "is_f64 (Fin a)" and "a \<le> x"
  shows "f64_le (Fin a) (f64_round x)"
  using f64_round_mono [OF assms(2)] assms(1) by (simp add: is_f64_def)

lemma f64_round_le_representable:
  assumes "is_f64 (Fin a)" and "x \<le> a"
  shows "f64_le (f64_round x) (Fin a)"
  using f64_round_mono [OF assms(2)] assms(1) by (simp add: is_f64_def)

text \<open>The sum of a double and a nonnegative one is not below it.\<close>

lemma f64_add_ge:
  assumes "is_f64 a" and "a \<noteq> NaN" and "f64_le (Fin 0) b" and "a \<noteq> NegInf"
  shows "f64_le a (f64_add a b)"
proof (cases "f64_is_finite a \<and> f64_is_finite b")
  case True
  then obtain x y where "a = Fin x" and "b = Fin y" by (auto elim!: f64_is_finiteE)
  with assms show ?thesis by (auto intro: f64_round_ge_representable)
next
  case False
  with assms show ?thesis by (cases a; cases b) (auto simp: f64_le_def)
qed

lemma f64_mul_nonneg:
  assumes "f64_le (Fin 0) a" and "f64_is_finite b" and "f64_le (Fin 0) b" and "a \<noteq> PosInf"
  shows "f64_le (Fin 0) (f64_mul a b)"
  using assms
  by (cases a; cases b) (auto simp: f64_mul_def f64_round_nonneg f64_le_def [of _ NegInf])

lemma f64_mul_comm: "f64_mul a b = f64_mul b a"
  by (cases a; cases b) (simp_all add: f64_mul_def mult.commute)

lemma is_f64_2_64: "is_f64 (Fin 18446744073709551616)"
  by code_simp

lemma f64_of_int_bounds:
  assumes "0 \<le> n" and "n < 2 ^ 64"
  shows "\<exists>r. f64_of_int n = Fin r \<and> 0 \<le> r \<and> r \<le> 18446744073709551616"
proof -
  from assms obtain r where r: "f64_of_int n = Fin r" using f64_of_int_finite [of n] by auto
  have "(of_int n :: rat) \<le> of_int (2 ^ 64)" using assms(2) by (simp only: of_int_le_iff)
  then have "f64_le (f64_of_int n) (Fin 18446744073709551616)"
    unfolding f64_of_int_def using is_f64_2_64 by (intro f64_round_le_representable) simp_all
  with r f64_of_int_nonneg [OF assms(1)] show ?thesis by simp
qed

text \<open>A quotient of a nonnegative double by one that is at least one stays below the dividend.\<close>

lemma f64_div_finite:
  assumes "0 \<le> a" and "1 \<le> b" and "is_f64 (Fin a)"
  shows "\<exists>r. f64_div (Fin a) (Fin b) = Fin r \<and> 0 \<le> r \<and> r \<le> a"
proof -
  have "0 \<le> a / b" and "a / b \<le> a"
    using assms mult_left_mono [of 1 b a] by (simp_all add: pos_divide_le_eq)
  then have "f64_le (Fin 0) (f64_round (a / b))" and "f64_le (f64_round (a / b)) (Fin a)"
    using assms(3) by (auto intro: f64_round_nonneg f64_round_le_representable)
  with assms(2) show ?thesis by (cases "f64_round (a / b)") (auto simp: f64_div_def f64_le_def)
qed

end
