(* ===== verification/Energy_Model.thy ===== *)
theory Energy_Model
  imports Config F64_Round
begin

text \<open>
  The energy model of \<open>crates/uperf-core/src/energy.rs\<close>: a configured model expanded onto the
  OPPs the running kernel exposes, and the sparse list of control OPPs the governor works on.
\<close>

section \<open>Model data\<close>

record energy_opp =
  eo_frequency_hz :: hertz
  eo_performance :: f64
  eo_power_mw_per_core :: f64

definition cost_mw_per_performance :: "energy_opp \<Rightarrow> f64" where
  "cost_mw_per_performance self = f64_div (eo_power_mw_per_core self) (eo_performance self)"

record energy_model =
  em_opps :: "energy_opp list"
  em_control_opps :: "energy_opp list"
  em_performance_per_hz :: f64
  em_free_frequency_hz :: hertz
  em_sweet_frequency_hz :: hertz
  em_plain_frequency_hz :: hertz

datatype energy_model_error =
    InsufficientOpps
  | InvalidValue string
  | InvalidCurveOrdering
  | MissingMeasuredOpp hertz

definition hertz_as_f64 :: "hertz \<Rightarrow> f64" where
  "hertz_as_f64 value = f64_of_int (uint value)"

section \<open>Queries\<close>

definition opp_at_or_below :: "energy_model \<Rightarrow> hertz \<Rightarrow> energy_opp option" where
  "opp_at_or_below self cap = rfind (\<lambda>opp. eo_frequency_hz opp \<le> cap) (em_opps self)"

definition first_opp_meeting_performance :: "energy_model \<Rightarrow> f64 \<Rightarrow> energy_opp option" where
  "first_opp_meeting_performance self performance =
     or_else (List.find (\<lambda>opp. f64_le performance (eo_performance opp)) (em_control_opps self))
       (last_opt (em_control_opps self))"

section \<open>Expansion of a reference curve\<close>

text \<open>The nearest frequency; of two equally near ones the lower.\<close>

definition snap_frequency_nearest :: "hertz list \<Rightarrow> hertz \<Rightarrow> hertz" where
  "snap_frequency_nearest opps requested =
     unwrap_or requested
       (min_by_key (\<lambda>f. u64_saturating_add (u64_saturating_mul (u64_abs_diff f requested) 2)
                          (u64_from_bool (requested < f))) opps)"

definition interpolate_hertz :: "hertz \<Rightarrow> hertz \<Rightarrow> u64 \<Rightarrow> u64 \<Rightarrow> hertz" where
  "interpolate_hertz lower upper part parts =
     lower + u64_saturating_sub upper lower * part div parts"

definition control_targets :: "hertz \<Rightarrow> hertz \<Rightarrow> hertz \<Rightarrow> hertz \<Rightarrow> hertz list" where
  "control_targets free plain sweet maximum =
     [free, plain]
     @ map (\<lambda>part. interpolate_hertz plain sweet part 3) [1, 2, 3]
     @ map (\<lambda>part. interpolate_hertz sweet maximum part 4) [1, 2, 3, 4]"

definition select_control_opp ::
  "energy_opp list \<Rightarrow> hertz \<Rightarrow> energy_opp list \<Rightarrow> energy_opp list" where
  "select_control_opp opps target selected =
     (let snapped = snap_frequency_nearest (map eo_frequency_hz opps) target
      in if (case last_opt selected of None \<Rightarrow> True | Some previous \<Rightarrow> eo_frequency_hz previous < snapped)
         then case List.find (\<lambda>opp. eo_frequency_hz opp = snapped) opps of
                Some opp \<Rightarrow> selected @ [opp]
              | None \<Rightarrow> selected
         else selected)"

definition sparse_reference_control_opps ::
  "energy_opp list \<Rightarrow> hertz \<Rightarrow> hertz \<Rightarrow> hertz \<Rightarrow> energy_opp list" where
  "sparse_reference_control_opps opps free plain sweet =
     (let maximum = (case last_opt opps of None \<Rightarrow> sweet | Some opp \<Rightarrow> eo_frequency_hz opp)
      in fold (select_control_opp opps) (control_targets free plain sweet maximum) [])"

definition curve_opp :: "reference_curve \<Rightarrow> hertz \<Rightarrow> energy_opp" where
  "curve_opp rc frequency_hz =
     (let typical_frequency = hertz_as_f64 (rc_typical_frequency_hz rc);
          a3 = f64_div (f64_of_int (uint (rc_typical_power_mw_per_core rc))) (f64_powi typical_frequency 3);
          a2 = f64_mul a3 (hertz_as_f64 (rc_sweet_frequency_hz rc));
          a1 = f64_mul a2 (hertz_as_f64 (rc_plain_frequency_hz rc));
          performance_scale = f64_div (f64_of_int (uint (rc_relative_performance rc))) (Fin 100);
          frequency = hertz_as_f64 frequency_hz;
          power = (if frequency_hz \<le> rc_plain_frequency_hz rc then f64_mul a1 frequency
                   else if frequency_hz \<le> rc_sweet_frequency_hz rc
                     then f64_mul a2 (f64_powi frequency 2)
                   else f64_mul a3 (f64_powi frequency 3))
      in \<lparr>eo_frequency_hz = frequency_hz, eo_performance = f64_mul frequency performance_scale,
          eo_power_mw_per_core = power\<rparr>)"

definition expand_reference_curve ::
  "reference_curve \<Rightarrow> hertz list \<Rightarrow> (energy_model_error, energy_model) result" where
  "expand_reference_curve rc frequencies =
     (if rc_relative_performance rc = 0 then Inl (InvalidValue ''relative_performance'')
      else if rc_typical_power_mw_per_core rc = 0
        then Inl (InvalidValue ''typical_power_mw_per_core'')
      else if \<not> (rc_free_frequency_hz rc \<le> rc_plain_frequency_hz rc
                 \<and> rc_plain_frequency_hz rc \<le> rc_sweet_frequency_hz rc
                 \<and> rc_sweet_frequency_hz rc \<le> rc_typical_frequency_hz rc)
        then Inl InvalidCurveOrdering
      else let free = snap_frequency_nearest frequencies (rc_free_frequency_hz rc);
               plain = snap_frequency_nearest frequencies (rc_plain_frequency_hz rc);
               sweet = snap_frequency_nearest frequencies (rc_sweet_frequency_hz rc);
               opps = map (curve_opp rc) frequencies
           in Inr \<lparr>em_opps = opps,
                   em_control_opps = sparse_reference_control_opps opps free plain sweet,
                   em_performance_per_hz = f64_div (f64_of_int (uint (rc_relative_performance rc))) (Fin 100),
                   em_free_frequency_hz = free, em_sweet_frequency_hz = sweet,
                   em_plain_frequency_hz = plain\<rparr>)"

section \<open>Expansion of measured points\<close>

text \<open>
  \<open>binary_search_by_key\<close> on the sorted points finds the point of a frequency when there is one;
  the validators reject duplicate frequencies, so it is the first one.
\<close>

definition measured_opp ::
  "measured_opp_config list \<Rightarrow> hertz \<Rightarrow> (energy_model_error, energy_opp) result" where
  "measured_opp points frequency_hz =
     (case List.find (\<lambda>point. mo_frequency_hz point = frequency_hz) points of
        None \<Rightarrow> Inl (MissingMeasuredOpp frequency_hz)
      | Some point \<Rightarrow>
          if mo_relative_capacity point = 0 then Inl (InvalidValue ''relative_capacity'')
          else if mo_power_mw_per_core point = 0 then Inl (InvalidValue ''power_mw_per_core'')
          else Inr \<lparr>eo_frequency_hz = frequency_hz,
                    eo_performance = f64_of_int (uint (mo_relative_capacity point)),
                    eo_power_mw_per_core = f64_of_int (uint (mo_power_mw_per_core point))\<rparr>)"

text \<open>\<open>min_by\<close> with \<open>partial_cmp\<close>: a later element replaces the best so far only when strictly cheaper.\<close>

definition cheapest_opp :: "energy_opp list \<Rightarrow> energy_opp option" where
  "cheapest_opp opps =
     (case opps of [] \<Rightarrow> None
      | opp # rest \<Rightarrow>
          Some (fold (\<lambda>y best. if f64_lt (cost_mw_per_performance y) (cost_mw_per_performance best)
                               then y else best) rest opp))"

definition expand_measured_opps ::
  "measured_opp_config list \<Rightarrow> hertz list \<Rightarrow> (energy_model_error, energy_model) result" where
  "expand_measured_opps points frequencies =
     rbind (try_map (measured_opp (sort_key mo_frequency_hz points)) frequencies) (\<lambda>opps.
       let free = (case cheapest_opp opps of None \<Rightarrow> 0 | Some opp \<Rightarrow> eo_frequency_hz opp);
           per_hz = (case last_opt opps of None \<Rightarrow> Fin 0
                     | Some opp \<Rightarrow> f64_div (eo_performance opp) (hertz_as_f64 (eo_frequency_hz opp)))
       in Inr \<lparr>em_opps = opps, em_control_opps = opps, em_performance_per_hz = per_hz,
               em_free_frequency_hz = free, em_sweet_frequency_hz = free,
               em_plain_frequency_hz = free\<rparr>)"

definition EnergyModel_from_config ::
  "cpu_energy_model_config \<Rightarrow> hertz list \<Rightarrow> (energy_model_error, energy_model) result" where
  "EnergyModel_from_config config available_opps =
     (let frequencies = remdups_adj (sort available_opps)
      in if length frequencies < 2 then Inl InsufficientOpps
         else case config of
           ReferenceCurveV1 rc \<Rightarrow> expand_reference_curve rc frequencies
         | MeasuredOppV1 points \<Rightarrow> expand_measured_opps points frequencies)"

section \<open>Well-formed models\<close>

text \<open>
  The OPPs are strictly increasing in frequency, the control OPPs are some of them, also
  strictly increasing, and there is at least one of each. No performance figure is NaN or
  negative.
\<close>

definition opps_increasing :: "energy_opp list \<Rightarrow> bool" where
  "opps_increasing opps = sorted_wrt (<) (map eo_frequency_hz opps)"

definition energy_model_wf :: "energy_model \<Rightarrow> bool" where
  "energy_model_wf m =
     (em_opps m \<noteq> [] \<and> opps_increasing (em_opps m)
      \<and> em_control_opps m \<noteq> [] \<and> opps_increasing (em_control_opps m)
      \<and> set (em_control_opps m) \<subseteq> set (em_opps m)
      \<and> list_all (\<lambda>opp. f64_le (Fin 0) (eo_performance opp)) (em_opps m))"

lemma snap_frequency_nearest_mem:
  assumes "opps \<noteq> []"
  shows "snap_frequency_nearest opps r \<in> set opps"
proof -
  let ?k = "\<lambda>f. u64_saturating_add (u64_saturating_mul (u64_abs_diff f r) 2) (u64_from_bool (r < f))"
  obtain f where f: "min_by_key ?k opps = Some f"
    using assms by (cases "min_by_key ?k opps") auto
  with min_by_key_Some [OF f] show ?thesis by (simp add: snap_frequency_nearest_def)
qed

lemma opps_increasing_base [simp]: "opps_increasing []" "opps_increasing [opp]"
  by (simp_all add: opps_increasing_def)

lemma opps_increasing_append:
  assumes "opps_increasing xs" and "xs \<noteq> [] \<Longrightarrow> eo_frequency_hz (last xs) < eo_frequency_hz y"
  shows "opps_increasing (xs @ [y])"
proof (cases "xs = []")
  case False
  then have "\<forall>x \<in> set xs. eo_frequency_hz x \<le> eo_frequency_hz (last xs)"
    using assms(1)
    by (induction xs rule: rev_induct) (auto simp: opps_increasing_def sorted_wrt_append less_imp_le)
  with assms False show ?thesis
    by (auto simp: opps_increasing_def sorted_wrt_append intro: le_less_trans)
qed (simp add: opps_increasing_def)

lemma select_control_opp_inv:
  assumes "opps_increasing sel" and "set sel \<subseteq> set opps"
  shows "opps_increasing (select_control_opp opps t sel)"
    and "set (select_control_opp opps t sel) \<subseteq> set opps"
    and "sel \<noteq> [] \<Longrightarrow> select_control_opp opps t sel \<noteq> []"
  using assms
  by (auto simp: select_control_opp_def Let_def last_opt_def split: option.splits if_splits
      dest!: find_Some_mem intro!: opps_increasing_append)

lemma select_control_opp_first:
  assumes "opps \<noteq> []"
  shows "select_control_opp opps t [] \<noteq> []"
proof -
  have "snap_frequency_nearest (map eo_frequency_hz opps) t \<in> set (map eo_frequency_hz opps)"
    using assms by (intro snap_frequency_nearest_mem) simp
  then show ?thesis
    by (auto simp: select_control_opp_def last_opt_def find_None_all split: option.splits)
qed

lemma sparse_control_opps_inv:
  assumes "opps \<noteq> []"
  shows "sparse_reference_control_opps opps f p s \<noteq> []"
    and "opps_increasing (sparse_reference_control_opps opps f p s)"
    and "set (sparse_reference_control_opps opps f p s) \<subseteq> set opps"
proof -
  let ?P = "\<lambda>sel. opps_increasing sel \<and> set sel \<subseteq> set opps"
  have keep: "?P sel \<Longrightarrow> ?P (fold (select_control_opp opps) ts sel) \<and>
      (sel \<noteq> [] \<longrightarrow> fold (select_control_opp opps) ts sel \<noteq> [])" for ts sel
    by (induction ts arbitrary: sel) (auto simp: select_control_opp_inv)
  define ts where "ts = tl (control_targets f p s
    (case last_opt opps of None \<Rightarrow> s | Some opp \<Rightarrow> eo_frequency_hz opp))"
  have eq: "sparse_reference_control_opps opps f p s
      = fold (select_control_opp opps) ts (select_control_opp opps f [])"
    by (simp add: sparse_reference_control_opps_def control_targets_def ts_def Let_def)
  have "?P (select_control_opp opps f [])" and "select_control_opp opps f [] \<noteq> []"
    using select_control_opp_inv [of "[]" opps] select_control_opp_first [OF assms]
    by (auto simp: opps_increasing_def)
  with keep [of "select_control_opp opps f []" ts]
  show "sparse_reference_control_opps opps f p s \<noteq> []"
    and "opps_increasing (sparse_reference_control_opps opps f p s)"
    and "set (sparse_reference_control_opps opps f p s) \<subseteq> set opps"
    by (simp_all add: eq)
qed

lemma curve_opp_frequency [simp]: "eo_frequency_hz (curve_opp rc f) = f"
  by (simp add: curve_opp_def Let_def)

lemma hertz_as_f64_bounds: "\<exists>r. hertz_as_f64 h = Fin r \<and> 0 \<le> r \<and> r \<le> 18446744073709551616"
  unfolding hertz_as_f64_def using uint_bounded [of h] by (intro f64_of_int_bounds) auto

lemma u32_as_f64_bounds:
  "\<exists>r. f64_of_int (uint (w :: u32)) = Fin r \<and> 0 \<le> r \<and> r \<le> 18446744073709551616"
  using uint_bounded [of w] by (intro f64_of_int_bounds) auto

lemma curve_opp_performance: "f64_le (Fin 0) (eo_performance (curve_opp rc f))"
proof -
  obtain p where p: "0 \<le> p" "p \<le> 18446744073709551616"
    "f64_of_int (uint (rc_relative_performance rc)) = Fin p"
    using u32_as_f64_bounds by blast
  obtain h where h: "0 \<le> h" "hertz_as_f64 f = Fin h" using hertz_as_f64_bounds by blast
  have "f64_le (Fin 0) (f64_round (p / 100))"
    and "f64_le (f64_round (p / 100)) (Fin 18446744073709551616)"
    using p is_f64_2_64 by (auto intro: f64_round_nonneg f64_round_le_representable)
  then have "f64_le (Fin 0) (f64_mul (f64_round (p / 100)) (Fin h))"
    using h by (intro f64_mul_nonneg) (auto simp: f64_le_def)
  then show ?thesis
    using h p by (simp add: curve_opp_def Let_def f64_mul_comm f64_div_def)
qed

lemma opps_increasing_map_curve:
  "sorted_wrt (<) fs \<Longrightarrow> opps_increasing (map (curve_opp rc) fs)"
  by (simp add: opps_increasing_def comp_def)

lemma expand_reference_curve_wf:
  assumes "expand_reference_curve rc fs = Inr m" and "fs \<noteq> []" and "sorted_wrt (<) fs"
  shows "energy_model_wf m"
proof -
  have "map (curve_opp rc) fs \<noteq> []" using assms(2) by simp
  note inv = sparse_control_opps_inv [OF this]
  from assms(1) show ?thesis
    using assms(2) inv(1,2) inv(3) [THEN subsetD] opps_increasing_map_curve [OF assms(3)]
    by (fastforce simp: expand_reference_curve_def Let_def energy_model_wf_def list_all_iff
        curve_opp_performance split: if_splits)
qed

lemma measured_opp_spec:
  assumes "measured_opp points f = Inr opp"
  shows "eo_frequency_hz opp = f" and "f64_le (Fin 0) (eo_performance opp)"
  using assms
  by (auto simp: measured_opp_def f64_of_int_nonneg split: option.splits if_splits)

lemma measured_opps_frequencies:
  "list_all2 (\<lambda>f opp. measured_opp points f = Inr opp) fs opps \<Longrightarrow> map eo_frequency_hz opps = fs"
  by (induction rule: list_all2_induct) (auto dest: measured_opp_spec)

lemma expand_measured_opps_wf:
  assumes "expand_measured_opps points fs = Inr m" and "fs \<noteq> []" and "sorted_wrt (<) fs"
  shows "energy_model_wf m"
proof -
  from assms(1) obtain opps where
    l2: "list_all2 (\<lambda>f opp. measured_opp (sort_key mo_frequency_hz points) f = Inr opp) fs opps"
    and m: "em_opps m = opps" "em_control_opps m = opps"
    by (auto simp: expand_measured_opps_def rbind_Inr_iff try_map_Inr_iff Let_def)
  have f: "map eo_frequency_hz opps = fs" by (rule measured_opps_frequencies [OF l2])
  have "opps \<noteq> []" using f assms(2) by auto
  moreover have "opps_increasing opps" using f assms(3) by (simp add: opps_increasing_def)
  moreover have "list_all (\<lambda>opp. f64_le (Fin 0) (eo_performance opp)) opps"
    using l2 by (auto simp: list_all_iff in_set_conv_nth list_all2_conv_all_nth
        dest!: measured_opp_spec(2))
  ultimately show ?thesis using m by (simp add: energy_model_wf_def)
qed

lemma sorted_dedup: "sorted xs \<Longrightarrow> sorted_wrt (<) (remdups_adj xs)" for xs :: "hertz list"
  by (induction xs rule: remdups_adj.induct) (auto simp: less_le)

lemma sorted_dedup_strict: "sorted_wrt (<) (remdups_adj (sort xs))" for xs :: "hertz list"
  by (simp add: sorted_dedup)

lemma EnergyModel_from_config_wf:
  assumes "EnergyModel_from_config config available = Inr m"
  shows "energy_model_wf m"
proof -
  let ?fs = "remdups_adj (sort available)"
  have "?fs \<noteq> []" using assms by (auto simp: EnergyModel_from_config_def Let_def split: if_splits)
  with sorted_dedup_strict [of available] assms show ?thesis
    by (auto simp: EnergyModel_from_config_def Let_def split: if_splits cpu_energy_model_config.splits
        intro: expand_reference_curve_wf expand_measured_opps_wf)
qed

section \<open>Queries of a well-formed model\<close>

lemma opps_increasing_sorted: "opps_increasing opps \<Longrightarrow> sorted (map eo_frequency_hz opps)"
  by (simp add: opps_increasing_def strict_sorted_imp_sorted)

lemma opp_at_or_below_Some:
  assumes "opp_at_or_below m cap = Some opp"
  shows "opp \<in> set (em_opps m)" and "eo_frequency_hz opp \<le> cap"
  using rfind_Some_mem [OF assms [unfolded opp_at_or_below_def]] by auto

lemma opp_at_or_below_greatest:
  assumes "energy_model_wf m" and "opp_at_or_below m cap = Some opp"
    and "o' \<in> set (em_opps m)" and "eo_frequency_hz o' \<le> cap"
  shows "eo_frequency_hz o' \<le> eo_frequency_hz opp"
  using assms(1) rfind_last [OF opps_increasing_sorted assms(2) [unfolded opp_at_or_below_def] assms(3)]
    assms(4)
  by (simp add: energy_model_wf_def)

lemma first_opp_meeting_mem:
  assumes "first_opp_meeting_performance m p = Some opp"
  shows "opp \<in> set (em_control_opps m)"
  using assms
  by (auto simp: first_opp_meeting_performance_def or_else_Some_iff dest: find_Some_mem last_opt_Some)

lemma first_opp_meeting_total:
  "energy_model_wf m \<Longrightarrow> \<exists>opp. first_opp_meeting_performance m p = Some opp"
  by (auto simp: first_opp_meeting_performance_def or_else_def last_opt_def energy_model_wf_def
      split: option.splits)

section \<open>Properties\<close>

lemma cheapest_opp_mem: "cheapest_opp opps = Some opp \<Longrightarrow> opp \<in> set opps"
proof -
  have "fold (\<lambda>y best. if f64_lt (cost_mw_per_performance y) (cost_mw_per_performance best) then y else best) ys b
      \<in> insert b (set ys)" for ys b
  proof (induction ys arbitrary: b)
    case (Cons y ys)
    then show ?case by (auto split: if_splits)
  qed simp
  then show "cheapest_opp opps = Some opp \<Longrightarrow> opp \<in> set opps"
    by (auto simp: cheapest_opp_def split: list.splits)
qed

lemma from_config_frequencies:
  assumes "EnergyModel_from_config config available = Inr m"
  shows "map eo_frequency_hz (em_opps m) = remdups_adj (sort available)"
    and "{em_free_frequency_hz m, em_plain_frequency_hz m, em_sweet_frequency_hz m} \<subseteq> set available"
proof -
  let ?fs = "remdups_adj (sort available)"
  have ne: "?fs \<noteq> []" using assms by (auto simp: EnergyModel_from_config_def Let_def split: if_splits)
  have "map eo_frequency_hz (em_opps m) = ?fs
      \<and> {em_free_frequency_hz m, em_plain_frequency_hz m, em_sweet_frequency_hz m} \<subseteq> set available"
  proof (cases config)
    case (ReferenceCurveV1 rc)
    with assms ne snap_frequency_nearest_mem [OF ne] show ?thesis
      by (auto simp: EnergyModel_from_config_def expand_reference_curve_def Let_def comp_def split: if_splits)
  next
    case (MeasuredOppV1 points)
    with assms obtain opps where
      l2: "list_all2 (\<lambda>f opp. measured_opp (sort_key mo_frequency_hz points) f = Inr opp) ?fs opps"
      and m: "em_opps m = opps"
        "em_free_frequency_hz m = (case cheapest_opp opps of None \<Rightarrow> 0 | Some opp \<Rightarrow> eo_frequency_hz opp)"
        "em_plain_frequency_hz m = em_free_frequency_hz m" "em_sweet_frequency_hz m = em_free_frequency_hz m"
      by (auto simp: EnergyModel_from_config_def expand_measured_opps_def rbind_Inr_iff try_map_Inr_iff Let_def
          split: if_splits)
    have f: "map eo_frequency_hz opps = ?fs" by (rule measured_opps_frequencies [OF l2])
    have "opps \<noteq> []" using f ne by (metis list.map_disc_iff)
    then obtain opp where opp: "cheapest_opp opps = Some opp" by (cases opps) (auto simp: cheapest_opp_def)
    then have "opp \<in> set opps" by (rule cheapest_opp_mem)
    then have "eo_frequency_hz opp \<in> set ?fs" unfolding f [symmetric] by simp
    with m f opp show ?thesis by simp
  qed
  then show "map eo_frequency_hz (em_opps m) = ?fs"
    and "{em_free_frequency_hz m, em_plain_frequency_hz m, em_sweet_frequency_hz m} \<subseteq> set available" by auto
qed

text \<open>
  a model built from a configuration has one entry per distinct frequency the kernel exposes,
  in increasing order, its control points are some of those, its free, plain and sweet frequencies
  are real operating points, and no performance figure is negative or NaN.
\<close>

theorem energy_model_matches_kernel:
  assumes "EnergyModel_from_config config available = Inr m"
  shows "energy_model_wf m \<and> map eo_frequency_hz (em_opps m) = remdups_adj (sort available)
    \<and> {em_free_frequency_hz m, em_plain_frequency_hz m, em_sweet_frequency_hz m} \<subseteq> set available"
  using EnergyModel_from_config_wf [OF assms] from_config_frequencies [OF assms] by blast

definition measured_example :: cpu_energy_model_config where
  "measured_example = MeasuredOppV1
     [\<lparr>mo_frequency_hz = 1000, mo_relative_capacity = 10, mo_power_mw_per_core = 10\<rparr>,
      \<lparr>mo_frequency_hz = 2000, mo_relative_capacity = 20, mo_power_mw_per_core = 40\<rparr>]"

lemma measured_example_builds: "\<exists>m. EnergyModel_from_config measured_example [1000, 2000] = Inr m"
  by (simp add: EnergyModel_from_config_def measured_example_def expand_measured_opps_def measured_opp_def Let_def)

theorem energy_model_matches_kernel_witness:
  "\<exists>m. EnergyModel_from_config measured_example [1000, 2000] = Inr m \<and> energy_model_wf m
     \<and> map eo_frequency_hz (em_opps m) = remdups_adj (sort [1000, 2000])
     \<and> {em_free_frequency_hz m, em_plain_frequency_hz m, em_sweet_frequency_hz m} \<subseteq> set [1000, 2000]"
proof -
  obtain m where m: "EnergyModel_from_config measured_example [1000, 2000] = Inr m"
    using measured_example_builds by blast
  show ?thesis by (rule exI [of _ m], rule conjI [OF m energy_model_matches_kernel [OF m]])
qed

text \<open>
  the operating point chosen for a cap is at or below it and is the fastest such point of the
  model.
\<close>

theorem opp_at_or_below_is_best:
  assumes "energy_model_wf m" and "opp_at_or_below m cap = Some opp"
  shows "opp \<in> set (em_opps m) \<and> eo_frequency_hz opp \<le> cap
    \<and> (\<forall>o' \<in> set (em_opps m). eo_frequency_hz o' \<le> cap \<longrightarrow> eo_frequency_hz o' \<le> eo_frequency_hz opp)"
  using opp_at_or_below_Some [OF assms(2)] opp_at_or_below_greatest [OF assms] by blast

definition model_example :: energy_model where
  "model_example =
     (let opps = [\<lparr>eo_frequency_hz = 1000, eo_performance = Fin 10, eo_power_mw_per_core = Fin 10\<rparr>,
                  \<lparr>eo_frequency_hz = 2000, eo_performance = Fin 20, eo_power_mw_per_core = Fin 40\<rparr>]
      in \<lparr>em_opps = opps, em_control_opps = opps, em_performance_per_hz = Fin (1 / 128),
          em_free_frequency_hz = 1000, em_sweet_frequency_hz = 1000, em_plain_frequency_hz = 1000\<rparr>)"

lemma model_example_wf: "energy_model_wf model_example"
  by (simp add: energy_model_wf_def model_example_def opps_increasing_def Let_def)

theorem opp_at_or_below_is_best_witness:
  "\<exists>opp. opp_at_or_below model_example 1999 = Some opp \<and> opp \<in> set (em_opps model_example)
     \<and> eo_frequency_hz opp \<le> 1999
     \<and> (\<forall>o' \<in> set (em_opps model_example). eo_frequency_hz o' \<le> 1999 \<longrightarrow> eo_frequency_hz o' \<le> eo_frequency_hz opp)"
proof -
  obtain opp where opp: "opp_at_or_below model_example 1999 = Some opp"
    by (simp add: opp_at_or_below_def rfind_def model_example_def Let_def)
  show ?thesis by (rule exI [of _ opp], rule conjI [OF opp opp_at_or_below_is_best [OF model_example_wf opp]])
qed

end
