(* ===== verification/Governor_Parts.thy ===== *)
theory Governor_Parts
  imports Energy_Model
begin

text \<open>
  The building blocks of the energy governor in \<open>energy.rs\<close>: the demand predictor, the
  adaptive sampler and the PL1/PL2-style energy bucket, each with the invariant it keeps.
\<close>

section \<open>Numeric helpers\<close>

definition finite_unit :: "f64 \<Rightarrow> f64" where
  "finite_unit value = (if f64_is_finite value then f64_clamp (Fin 0) (Fin 1) value else Fin 0)"

definition reference_concurrency_scale :: "f64 \<Rightarrow> f64" where
  "reference_concurrency_scale core_count =
     (if f64_le core_count (Fin 0) then Fin 0
      else f64_div (f64_add (Fin 1) (f64_mul (f64_lit (8 / 10)) (f64_sub core_count (Fin 1)))) core_count)"

definition reference_nr_cost_penalty :: "f64 \<Rightarrow> f64" where
  "reference_nr_cost_penalty core_count =
     f64_clamp (Fin 1) (f64_lit (12 / 10))
       (f64_add (Fin 1) (f64_mul (f64_lit (1 / 10)) (f64_sub core_count (Fin 1))))"

definition usize_as_f64 :: "usize \<Rightarrow> f64" where
  "usize_as_f64 value = f64_of_int (int value)"

definition u64_as_f64 :: "u64 \<Rightarrow> f64" where
  "u64_as_f64 value = f64_of_int (uint value)"

section \<open>Demand prediction\<close>

record demand_diagnostics =
  dd_raw :: f64
  dd_ema :: f64
  dd_predicted :: f64
  dd_selected :: f64
  dd_prediction_bypassed_ramp :: bool

record demand_state =
  ds_previous_raw :: f64
  ds_predicted_performance :: f64

definition DemandState_default :: demand_state where
  "DemandState_default = \<lparr>ds_previous_raw = Fin 0, ds_predicted_performance = Fin 0\<rparr>"

definition normalize_performance :: "f64 \<Rightarrow> f64 \<Rightarrow> f64" where
  "normalize_performance maximum_performance performance =
     (if f64_lt (Fin 0) maximum_performance then finite_unit (f64_div performance maximum_performance)
      else Fin 0)"

definition update_performance ::
  "demand_state \<Rightarrow> f64 \<Rightarrow> f64 \<Rightarrow> f64 \<Rightarrow> governor_config \<Rightarrow> demand_state \<times> demand_diagnostics" where
  "update_performance self raw_input previous_final maximum_input config =
     (let raw = finite_unit raw_input;
          maximum_performance = (if f64_is_finite maximum_input then f64_max maximum_input (Fin 0) else Fin 0);
          previous_final_performance =
            (if f64_is_finite previous_final then f64_clamp (Fin 0) maximum_performance previous_final
             else maximum_performance);
          performance_load = f64_mul raw previous_final_performance;
          alpha = (if f64_lt (ds_predicted_performance self) performance_load
                   then f64_lit (98 / 100) else f64_lit (97 / 100));
          predicted_performance =
            f64_mul_add alpha (ds_predicted_performance self)
              (f64_mul (f64_sub (Fin 1) alpha) performance_load);
          delta = f64_sub raw (ds_previous_raw self);
          prediction_bypassed_ramp = f64_lt (gc_predict_threshold config) delta;
          selected_performance =
            f64_clamp (Fin 0) maximum_performance
              (if prediction_bypassed_ramp \<and> f64_lt performance_load predicted_performance
               then predicted_performance else performance_load);
          predicted = normalize_performance maximum_performance predicted_performance
      in (\<lparr>ds_previous_raw = raw, ds_predicted_performance = predicted_performance\<rparr>,
          \<lparr>dd_raw = raw, dd_ema = predicted, dd_predicted = predicted,
           dd_selected = normalize_performance maximum_performance selected_performance,
           dd_prediction_bypassed_ramp = prediction_bypassed_ramp\<rparr>))"

text \<open>\<open>None\<close> is the panic of \<open>clamp(0.0, maximum_performance)\<close> when the maximum is NaN or negative.\<close>

definition headroom_demand :: "f64 \<Rightarrow> f64 \<Rightarrow> f64 \<Rightarrow> f64 \<Rightarrow> f64" where
  "headroom_demand selected maximum_performance headroom growth =
     (let residual_headroom =
            f64_add selected (f64_mul (f64_sub maximum_performance selected) headroom);
          growth_limit = f64_mul selected (f64_max (f64_mul (Fin 8) growth) (f64_lit (11 / 10)))
      in f64_min (f64_min residual_headroom growth_limit) maximum_performance)"

definition reference_normal_demand_performance :: "f64 \<Rightarrow> f64 \<Rightarrow> f64 \<Rightarrow> f64 option" where
  "reference_normal_demand_performance selected_performance maximum_performance margin_input =
     map_option (\<lambda>selected. let margin = finite_unit margin_input
                             in headroom_demand selected maximum_performance margin margin)
       (f64_clamp_checked (Fin 0) maximum_performance selected_performance)"

definition reference_burst_demand_performance :: "f64 \<Rightarrow> f64 \<Rightarrow> f64 \<Rightarrow> f64 \<Rightarrow> f64 option" where
  "reference_burst_demand_performance selected_performance maximum_performance margin_input burst_input =
     map_option (\<lambda>selected. let margin = finite_unit margin_input; burst = finite_unit burst_input
                             in headroom_demand selected maximum_performance (f64_add margin burst)
                                  (f64_add margin (f64_mul (Fin 4) burst)))
       (f64_clamp_checked (Fin 0) maximum_performance selected_performance)"

section \<open>Adaptive sampling\<close>

datatype sampling_mode = SamplingActive | SamplingIdle

definition sampler_interval_ms :: "sampling_mode \<Rightarrow> governor_config \<Rightarrow> u64" where
  "sampler_interval_ms mode config =
     (case mode of SamplingActive \<Rightarrow> gc_active_sample_ms config | SamplingIdle \<Rightarrow> gc_idle_sample_ms config)"

definition AdaptiveSampler_update :: "sampling_mode \<Rightarrow> f64 \<Rightarrow> governor_config \<Rightarrow> sampling_mode \<times> u64" where
  "AdaptiveSampler_update mode maximum_load config =
     (let load = finite_unit maximum_load;
          mode' = (case mode of
                     SamplingIdle \<Rightarrow>
                       if f64_lt (gc_active_load_threshold config) load then SamplingActive else mode
                   | SamplingActive \<Rightarrow>
                       if f64_lt load (gc_idle_load_threshold config) then SamplingIdle else mode)
      in (mode', sampler_interval_ms mode' config))"

section \<open>Energy bucket\<close>

record energy_bucket_state =
  eb_capacity_mj :: f64
  eb_remaining_mj :: f64

definition EnergyBucketState_default :: energy_bucket_state where
  "EnergyBucketState_default = \<lparr>eb_capacity_mj = Fin 0, eb_remaining_mj = Fin 0\<rparr>"

record energy_bucket_diagnostics =
  ebd_remaining_mj :: f64
  ebd_delta_mj :: f64
  ebd_selected_limit_power_mw :: f64

definition u32_as_f64 :: "u32 \<Rightarrow> f64" where
  "u32_as_f64 value = f64_of_int (uint value)"

definition select_limit :: "f64 \<Rightarrow> power_budget_config \<Rightarrow> f64" where
  "select_limit remaining budget =
     (if f64_lt (Fin 0) remaining then u32_as_f64 (pb_fast_limit_power_mw budget)
      else u32_as_f64 (pb_slow_limit_power_mw budget))"

text \<open>The balance after the capacity of the current budget is installed, before integration.\<close>

definition rebase_bucket :: "energy_bucket_state \<Rightarrow> f64 \<Rightarrow> f64" where
  "rebase_bucket self capacity =
     (if f64_lt (eb_capacity_mj self) capacity then capacity
      else f64_clamp (f64_neg capacity) capacity (eb_remaining_mj self))"

definition bucket_delta :: "f64 \<Rightarrow> u64 \<Rightarrow> power_budget_config \<Rightarrow> f64" where
  "bucket_delta estimated_power_mw actual_dt_ms budget =
     (let delta = f64_mul (f64_sub estimated_power_mw (u32_as_f64 (pb_slow_limit_power_mw budget)))
                    (millis_as_secs_f64 actual_dt_ms)
      in if f64_lt delta (Fin 0) then f64_mul delta (pb_fast_limit_recover_scale budget) else delta)"

definition EnergyBucketState_update ::
  "energy_bucket_state \<Rightarrow> f64 \<Rightarrow> u64 \<Rightarrow> power_budget_config \<Rightarrow> bool
   \<Rightarrow> energy_bucket_state \<times> energy_bucket_diagnostics" where
  "EnergyBucketState_update self estimated_power_mw actual_dt_ms budget integrate =
     (let capacity = u32_as_f64 (pb_fast_limit_capacity_mj budget);
          rebased = rebase_bucket self capacity;
          delta_mj = (if integrate then bucket_delta estimated_power_mw actual_dt_ms budget else Fin 0);
          remaining = (if integrate then f64_clamp (f64_neg capacity) capacity (f64_sub rebased delta_mj)
                       else rebased)
      in (\<lparr>eb_capacity_mj = capacity, eb_remaining_mj = remaining\<rparr>,
          \<lparr>ebd_remaining_mj = remaining, ebd_delta_mj = delta_mj,
           ebd_selected_limit_power_mw = select_limit remaining budget\<rparr>))"

definition diagnostics_without_update ::
  "energy_bucket_state \<Rightarrow> power_budget_config \<Rightarrow> energy_bucket_diagnostics" where
  "diagnostics_without_update self budget =
     \<lparr>ebd_remaining_mj = eb_remaining_mj self, ebd_delta_mj = Fin 0,
      ebd_selected_limit_power_mw = select_limit (eb_remaining_mj self) budget\<rparr>"

section \<open>Lemmas\<close>

lemma finite_unit_range: "\<exists>u. finite_unit x = Fin u \<and> 0 \<le> u \<and> u \<le> 1"
proof (cases "f64_is_finite x")
  case True
  then have "x \<noteq> NaN" by auto
  with f64_clamp_Fin_bounds [of 0 1 x] True show ?thesis by (auto simp: finite_unit_def)
qed (auto simp: finite_unit_def)

lemma normalize_performance_range: "\<exists>u. normalize_performance m p = Fin u \<and> 0 \<le> u \<and> u \<le> 1"
  using finite_unit_range by (auto simp: normalize_performance_def)

lemma update_performance_selected:
  "\<exists>u. dd_selected (snd (update_performance s r p m c)) = Fin u \<and> 0 \<le> u \<and> u \<le> 1"
  using normalize_performance_range by (simp add: update_performance_def Let_def)

lemma headroom_demand_le:
  assumes "m \<noteq> NaN"
  shows "f64_le (headroom_demand s m h g) m"
  using assms by (auto simp: headroom_demand_def Let_def intro: f64_min_le2)

lemma u32_as_f64_fin: "\<exists>r. u32_as_f64 w = Fin r \<and> 0 \<le> r"
  using u32_as_f64_bounds [of w] by (auto simp: u32_as_f64_def)

text \<open>The balance stays within the capacity of the last budget.\<close>

definition energy_bucket_wf :: "energy_bucket_state \<Rightarrow> bool" where
  "energy_bucket_wf b =
     (f64_le (f64_neg (eb_capacity_mj b)) (eb_remaining_mj b)
      \<and> f64_le (eb_remaining_mj b) (eb_capacity_mj b))"

lemma bucket_clamp_wf:
  assumes "x \<noteq> NaN" and "0 \<le> c"
  shows "energy_bucket_wf \<lparr>eb_capacity_mj = Fin c, eb_remaining_mj = f64_clamp (f64_neg (Fin c)) (Fin c) x\<rparr>"
  using f64_clamp_bounds [of "Fin (- c)" "Fin c" x] assms by (simp add: energy_bucket_wf_def)

lemma rebase_bucket_wf:
  assumes "energy_bucket_wf b" and "0 \<le> c"
  shows "energy_bucket_wf \<lparr>eb_capacity_mj = Fin c, eb_remaining_mj = rebase_bucket b (Fin c)\<rparr>"
proof (cases "f64_lt (eb_capacity_mj b) (Fin c)")
  case True
  with assms(2) show ?thesis by (simp add: rebase_bucket_def energy_bucket_wf_def)
next
  case False
  have "eb_remaining_mj b \<noteq> NaN" using assms(1) by (auto simp: energy_bucket_wf_def f64_le_def)
  with bucket_clamp_wf [OF this assms(2)] False show ?thesis by (simp add: rebase_bucket_def)
qed

lemma rebase_bucket_finite:
  assumes "energy_bucket_wf b" and "0 \<le> c"
  shows "\<exists>r. rebase_bucket b (Fin c) = Fin r"
  using rebase_bucket_wf [OF assms]
  by (cases "rebase_bucket b (Fin c)") (auto simp: energy_bucket_wf_def f64_le_def)

lemma energy_bucket_update_wf:
  assumes wf: "energy_bucket_wf b" and delta: "bucket_delta pw dt budget \<noteq> NaN"
  shows "energy_bucket_wf (fst (EnergyBucketState_update b pw dt budget integrate))"
proof -
  obtain c where c: "u32_as_f64 (pb_fast_limit_capacity_mj budget) = Fin c" "0 \<le> c"
    using u32_as_f64_fin by blast
  obtain r where r: "rebase_bucket b (Fin c) = Fin r" using rebase_bucket_finite [OF wf c(2)] by blast
  have "f64_sub (Fin r) (bucket_delta pw dt budget) \<noteq> NaN"
    using delta by (cases "bucket_delta pw dt budget") (simp_all add: f64_sub_def)
  with bucket_clamp_wf [OF this c(2)] rebase_bucket_wf [OF wf c(2)] c r show ?thesis
    by (simp add: EnergyBucketState_update_def Let_def)
qed

lemma energy_bucket_default_wf: "energy_bucket_wf EnergyBucketState_default"
  by (simp add: energy_bucket_wf_def EnergyBucketState_default_def)

section \<open>Properties\<close>

text \<open>
  with the idle threshold below the active one the sampler is stable: sampling again under
  the same load changes neither the mode nor the interval.
\<close>

theorem sampler_stable:
  assumes "f64_lt (gc_idle_load_threshold config) (gc_active_load_threshold config)"
  shows "AdaptiveSampler_update (fst (AdaptiveSampler_update mode load config)) load config
         = AdaptiveSampler_update mode load config"
proof -
  obtain u where u: "finite_unit load = Fin u" using finite_unit_range by blast
  have "\<not> (f64_lt (gc_active_load_threshold config) (Fin u) \<and> f64_lt (Fin u) (gc_idle_load_threshold config))"
    using assms by (auto simp: f64_lt_def)
  then show ?thesis
    by (cases mode) (auto simp: AdaptiveSampler_update_def Let_def u)
qed

theorem sampler_stable_witness:
  "AdaptiveSampler_update (fst (AdaptiveSampler_update SamplingIdle (Fin (1 / 2)) GovernorConfig_default)) (Fin (1 / 2))
     GovernorConfig_default
   = AdaptiveSampler_update SamplingIdle (Fin (1 / 2)) GovernorConfig_default"
proof (rule sampler_stable)
  show "f64_lt (gc_idle_load_threshold GovernorConfig_default) (gc_active_load_threshold GovernorConfig_default)"
    by code_simp
qed

text \<open>
  the performance a cluster is asked for, in normal operation and under burst, is defined
  exactly when the maximum performance is a nonnegative number, and never exceeds that maximum.
\<close>

theorem demand_within_maximum:
  "(f64_le (Fin 0) m \<longleftrightarrow> reference_normal_demand_performance s m margin \<noteq> None)
   \<and> (f64_le (Fin 0) m \<longleftrightarrow> reference_burst_demand_performance s m margin burst \<noteq> None)
   \<and> list_all (\<lambda>d. f64_le d m)
       (flatten [reference_normal_demand_performance s m margin, reference_burst_demand_performance s m margin burst])"
proof (cases "f64_le (Fin 0) m")
  case True
  then have "m \<noteq> NaN" by (auto simp: f64_le_def)
  with True show ?thesis
    by (simp add: reference_normal_demand_performance_def reference_burst_demand_performance_def
        f64_clamp_checked_def Let_def headroom_demand_le)
next
  case False
  then show ?thesis
    by (simp add: reference_normal_demand_performance_def reference_burst_demand_performance_def
        f64_clamp_checked_def)
qed

text \<open>
  whatever the load, the history and the configuration, the share of the maximum performance
  the predictor selects lies between zero and one.
\<close>

theorem predictor_selects_unit_share:
  "\<exists>u. dd_selected (snd (update_performance state raw previous maximum config)) = Fin u \<and> 0 \<le> u \<and> u \<le> 1"
  by (rule update_performance_selected)

text \<open>
  an interval that is not integrated (suspend) neither drains nor refills the bucket: the
  result does not depend on the power or the time passed, and the bucket is unchanged while the
  configured capacity is.
\<close>

theorem suspended_interval_keeps_bucket:
  assumes "energy_bucket_wf b" and "u32_as_f64 (pb_fast_limit_capacity_mj budget) = eb_capacity_mj b"
  shows "fst (EnergyBucketState_update b pw dt budget False) = b"
proof -
  have "\<not> f64_lt (eb_capacity_mj b) (eb_capacity_mj b)" by (simp add: f64_lt_def)
  moreover have "f64_clamp (f64_neg (eb_capacity_mj b)) (eb_capacity_mj b) (eb_remaining_mj b) = eb_remaining_mj b"
    using assms(1) by (intro f64_clamp_id) (simp_all add: energy_bucket_wf_def)
  ultimately show ?thesis by (simp add: EnergyBucketState_update_def Let_def rebase_bucket_def assms(2))
qed

theorem suspended_interval_keeps_bucket_witness:
  "fst (EnergyBucketState_update \<lparr>eb_capacity_mj = Fin 50, eb_remaining_mj = Fin (- 7)\<rparr> (Fin 900) 100000
     \<lparr>pb_slow_limit_power_mw = 100, pb_fast_limit_power_mw = 200, pb_fast_limit_capacity_mj = 50,
      pb_fast_limit_recover_scale = Fin 1\<rparr> False)
   = \<lparr>eb_capacity_mj = Fin 50, eb_remaining_mj = Fin (- 7)\<rparr>"
proof (rule suspended_interval_keeps_bucket)
  show "u32_as_f64 (pb_fast_limit_capacity_mj \<lparr>pb_slow_limit_power_mw = 100, pb_fast_limit_power_mw = 200,
      pb_fast_limit_capacity_mj = 50, pb_fast_limit_recover_scale = Fin 1\<rparr>)
    = eb_capacity_mj \<lparr>eb_capacity_mj = Fin 50, eb_remaining_mj = Fin (- 7)\<rparr>" by code_simp
qed (simp add: energy_bucket_wf_def)

end
