(* ===== verification/Governor.thy ===== *)
theory Governor
  imports Governor_Parts
begin

text \<open>
  \<open>transition_governor\<close> of \<open>energy.rs\<close>: one pure step of the package energy governor. The
  function is split here at the comments of the source: preparation of every target, the burst
  override, the power budget and its cap path, the shared ramp, plan selection with dwell, the
  efficiency ceiling, and the commit into the next state.
\<close>

section \<open>State, input and output\<close>

record budgeted_opp =
  bo_floor_hz :: hertz
  bo_cap_hz :: hertz

record target_governor_state =
  tg_demand :: demand_state
  tg_budget_cap_hz :: "hertz option"
  tg_last_limits :: "frequency_limits option"
  tg_last_change_at :: "monotonic_millis option"

definition TargetGovernorState_default :: target_governor_state where
  "TargetGovernorState_default =
     \<lparr>tg_demand = DemandState_default, tg_budget_cap_hz = None, tg_last_limits = None,
      tg_last_change_at = None\<rparr>"

record cpu_target_policy =
  ct_cpus :: cpu_set
  ct_frequency :: frequency_policy
  ct_energy_model :: "energy_model option"

record prepared_target =
  pt_id :: target_id
  pt_target :: cpu_target_policy
  pt_model :: energy_model
  pt_safety_cap :: hertz
  pt_raw_load :: f64
  pt_active_load_sum :: f64
  pt_demand :: demand_diagnostics
  pt_maximum_performance :: f64
  pt_effective_demand :: f64
  pt_demanded_performance :: f64
  pt_estimated_power_mw :: f64

record governor_state =
  gs_targets :: "(target_id, target_governor_state) btree"
  gs_bucket :: energy_bucket_state
  gs_previous_timestamp :: "monotonic_millis option"
  gs_shared_ramp_elapsed_ms :: u64
  gs_budget_cursor :: "usize option"
  gs_budget_path_len :: usize

definition GovernorState_default :: governor_state where
  "GovernorState_default =
     \<lparr>gs_targets = [], gs_bucket = EnergyBucketState_default, gs_previous_timestamp = None,
      gs_shared_ramp_elapsed_ms = 0, gs_budget_cursor = None, gs_budget_path_len = 0\<rparr>"

record governor_input =
  gi_timestamp :: monotonic_millis
  gi_targets :: "(target_id, cpu_target_policy) btree"
  gi_raw_loads :: "(target_id, f64) btree"
  gi_active_load_sums :: "(target_id, f64) btree"
  gi_observed_frequencies :: "(target_id, hertz) btree"
  gi_administrator_caps :: "(target_id, hertz) btree"
  gi_thermal_caps :: "(target_id, hertz) btree"
  gi_config :: governor_config
  gi_power_budget :: power_budget_config
  gi_margin :: f64
  gi_burst :: f64
  gi_limit_efficiency :: bool
  gi_integrate_elapsed_time :: bool

record target_governor_diagnostics =
  td_raw_load :: f64
  td_active_load_sum :: f64
  td_ema_load :: f64
  td_predicted_load :: f64
  td_selected_load :: f64
  td_effective_demand :: f64
  td_prediction_bypassed_ramp :: bool
  td_estimated_power_mw :: f64
  td_requested_floor_hz :: hertz
  td_selected_floor_hz :: hertz
  td_selected_cap_hz :: hertz

record governor_diagnostics =
  gd_elapsed_ms :: u64
  gd_estimated_package_power_mw :: f64
  gd_bucket_remaining_mj :: f64
  gd_selected_package_budget_mw :: f64
  gd_bypassed_power_budget :: bool
  gd_shared_ramp_progress :: f64
  gd_targets :: "(target_id, target_governor_diagnostics) btree"

record governor_transition =
  gt_limits :: "(target_id, frequency_limits) btree"
  gt_next_state :: governor_state
  gt_diagnostics :: governor_diagnostics

text \<open>The last constructor is not an error value of the source but the panic of an \<open>f64::clamp\<close> with unordered bounds.\<close>

datatype governor_error =
    MissingEnergyModel target_id
  | NoOppBelowSafetyCap target_id
  | InvalidFrequencyPolicy target_id policy_error
  | GovernorPanic

section \<open>Preparing a target\<close>

definition safety_cap_of :: "frequency_policy \<Rightarrow> hertz option \<Rightarrow> hertz option \<Rightarrow> hertz" where
  "safety_cap_of frequency administrator_cap thermal_cap =
     unwrap_or (max_hz (hardware_limits frequency))
       (list_min (flatten [Some (max_hz (hardware_limits frequency)), administrator_cap, thermal_cap]))"

definition ratio_of_maximum :: "f64 \<Rightarrow> f64 \<Rightarrow> f64" where
  "ratio_of_maximum performance maximum_performance =
     (if f64_lt (Fin 0) maximum_performance then f64_div performance maximum_performance else Fin 0)"

definition active_load_of :: "governor_input \<Rightarrow> target_id \<Rightarrow> f64 \<Rightarrow> f64 \<Rightarrow> f64" where
  "active_load_of input tid raw_load core_count =
     (case filter_opt f64_is_finite (bt_get (gi_active_load_sums input) tid) of
        None \<Rightarrow> f64_mul raw_load core_count
      | Some value \<Rightarrow> f64_clamp (Fin 0) core_count value)"

definition estimated_power_of :: "energy_model \<Rightarrow> hertz \<Rightarrow> f64 \<Rightarrow> f64 \<Rightarrow> f64" where
  "estimated_power_of model estimate_frequency active_load_sum core_count =
     (case opp_at_or_below model estimate_frequency of
        None \<Rightarrow> Fin 0
      | Some opp \<Rightarrow> f64_mul (f64_mul (eo_power_mw_per_core opp) active_load_sum)
                      (reference_concurrency_scale core_count))"

definition prepare_target ::
  "governor_input \<Rightarrow> target_governor_state \<Rightarrow> target_id \<Rightarrow> cpu_target_policy
   \<Rightarrow> (governor_error, demand_state \<times> prepared_target) result" where
  "prepare_target input target_state tid target =
     rbind (map_err (InvalidFrequencyPolicy tid) (FrequencyPolicy_validate (ct_frequency target))) (\<lambda>_.
     rbind (ok_or (MissingEnergyModel tid) (ct_energy_model target)) (\<lambda>model.
       let safety_cap = safety_cap_of (ct_frequency target)
             (bt_get (gi_administrator_caps input) tid) (bt_get (gi_thermal_caps input) tid)
       in rbind (ok_or (NoOppBelowSafetyCap tid) (opp_at_or_below model safety_cap)) (\<lambda>maximum_opp.
       let raw_load = finite_unit (unwrap_or (Fin 0) (bt_get (gi_raw_loads input) tid));
           maximum = eo_performance maximum_opp;
           previous_opp = Option.bind (tg_last_limits target_state) (\<lambda>l. opp_at_or_below model (min_hz l));
           previous_final_performance =
             f64_min (case previous_opp of None \<Rightarrow> maximum | Some opp \<Rightarrow> eo_performance opp) maximum;
           updated = update_performance (tg_demand target_state) raw_load previous_final_performance
                       maximum (gi_config input);
           demand = snd updated
       in rbind (ok_or GovernorPanic
                   (reference_normal_demand_performance (f64_mul maximum (dd_selected demand)) maximum
                      (gi_margin input))) (\<lambda>demanded.
       let estimate_frequency = unwrap_or (fp_floor (ct_frequency target))
             (or_else (bt_get (gi_observed_frequencies input) tid)
                (map_option min_hz (tg_last_limits target_state)));
           core_count = usize_as_f64 (length (ct_cpus target));
           active = active_load_of input tid raw_load core_count
       in Inr (fst updated,
               \<lparr>pt_id = tid, pt_target = target, pt_model = model, pt_safety_cap = safety_cap,
                pt_raw_load = raw_load, pt_active_load_sum = active, pt_demand = demand,
                pt_maximum_performance = maximum,
                pt_effective_demand = ratio_of_maximum demanded maximum,
                pt_demanded_performance = demanded,
                pt_estimated_power_mw = estimated_power_of model estimate_frequency active core_count\<rparr>)))))"

text \<open>\<open>state.targets.entry(id).or_default()\<close> and an update through it.\<close>

definition target_entry :: "(target_id, target_governor_state) btree \<Rightarrow> target_id \<Rightarrow> target_governor_state" where
  "target_entry targets tid = unwrap_or TargetGovernorState_default (bt_get targets tid)"

definition update_entry ::
  "target_id \<Rightarrow> (target_governor_state \<Rightarrow> target_governor_state)
   \<Rightarrow> (target_id, target_governor_state) btree \<Rightarrow> (target_id, target_governor_state) btree" where
  "update_entry tid f targets = bt_insert tid (f (target_entry targets tid)) targets"

record preparation =
  pr_targets :: "(target_id, target_governor_state) btree"
  pr_prepared :: "prepared_target list"
  pr_package_power_mw :: f64
  pr_any_prediction_bypass :: bool

definition prepare_step ::
  "governor_input \<Rightarrow> preparation \<Rightarrow> target_id \<times> cpu_target_policy \<Rightarrow> (governor_error, preparation) result" where
  "prepare_step input acc entry =
     rbind (prepare_target input (target_entry (pr_targets acc) (fst entry)) (fst entry) (snd entry))
       (\<lambda>(demand, prepared).
          Inr \<lparr>pr_targets = update_entry (fst entry) (\<lambda>ts. ts\<lparr>tg_demand := demand\<rparr>) (pr_targets acc),
               pr_prepared = pr_prepared acc @ [prepared],
               pr_package_power_mw = f64_add (pr_package_power_mw acc) (pt_estimated_power_mw prepared),
               pr_any_prediction_bypass =
                 (pr_any_prediction_bypass acc \<or> dd_prediction_bypassed_ramp (pt_demand prepared))\<rparr>)"

definition prepare_targets :: "governor_state \<Rightarrow> governor_input \<Rightarrow> (governor_error, preparation) result" where
  "prepare_targets state input =
     try_fold (prepare_step input)
       \<lparr>pr_targets = gs_targets state, pr_prepared = [], pr_package_power_mw = Fin 0,
        pr_any_prediction_bypass = False\<rparr> (gi_targets input)"

section \<open>Burst\<close>

text \<open>Cluster indices by ascending \<open>performance_per_hz\<close>, ties by position.\<close>

definition performance_order :: "energy_model list \<Rightarrow> nat list" where
  "performance_order models =
     sort_key (\<lambda>i. (em_performance_per_hz (models ! i), i)) [0..<length models]"

definition burst_target :: "governor_input \<Rightarrow> prepared_target \<Rightarrow> prepared_target option" where
  "burst_target input prepared =
     map_option
       (\<lambda>demanded. prepared\<lparr>pt_demanded_performance := demanded,
                    pt_effective_demand := ratio_of_maximum demanded (pt_maximum_performance prepared)\<rparr>)
       (reference_burst_demand_performance
          (f64_mul (pt_maximum_performance prepared) (dd_selected (pt_demand prepared)))
          (pt_maximum_performance prepared) (gi_margin input) (gi_burst input))"

definition burst_step ::
  "governor_input \<Rightarrow> prepared_target list \<Rightarrow> nat \<Rightarrow> (governor_error, prepared_target list) result" where
  "burst_step input prepared index =
     rbind (ok_or GovernorPanic (burst_target input (prepared ! index)))
       (\<lambda>changed. Inr (prepared[index := changed]))"

definition apply_burst ::
  "governor_input \<Rightarrow> prepared_target list \<Rightarrow> (governor_error, prepared_target list) result" where
  "apply_burst input prepared =
     (if f64_lt (Fin 0) (gi_burst input)
      then try_fold (burst_step input) prepared (drop 1 (performance_order (map pt_model prepared)))
      else Inr prepared)"

section \<open>Power budget\<close>

record budget_step =
  bs_key :: f64
  bs_cluster_index :: usize
  bs_lower_hz :: hertz
  bs_upper_hz :: hertz

definition cluster_steps :: "nat \<times> prepared_target \<Rightarrow> budget_step list" where
  "cluster_steps entry =
     (let prepared = snd entry;
          controls = em_control_opps (pt_model prepared);
          first = unwrap_or (length controls - 1)
                    (position (\<lambda>opp. em_plain_frequency_hz (pt_model prepared) \<le> eo_frequency_hz opp) controls);
          penalty = reference_nr_cost_penalty (usize_as_f64 (length (ct_cpus (pt_target prepared))))
      in map (\<lambda>(lower, upper).
                \<lparr>bs_key = f64_mul (eo_power_mw_per_core lower) penalty, bs_cluster_index = fst entry,
                 bs_lower_hz = eo_frequency_hz lower, bs_upper_hz = eo_frequency_hz upper\<rparr>)
           (windows2 (drop first controls)))"

definition reference_budget_path :: "prepared_target list \<Rightarrow> budget_step list" where
  "reference_budget_path prepared =
     sort_key (\<lambda>s. (bs_key s, bs_cluster_index s, bs_lower_hz s))
       (concat (map cluster_steps (enumerate_list prepared)))"

definition set_budget_cap ::
  "target_id \<Rightarrow> hertz option \<Rightarrow> (target_id, target_governor_state) btree
   \<Rightarrow> (target_id, target_governor_state) btree" where
  "set_budget_cap tid cap = update_entry tid (\<lambda>ts. ts\<lparr>tg_budget_cap_hz := cap\<rparr>)"

definition reset_budget_path ::
  "prepared_target list \<Rightarrow> budget_step list \<Rightarrow> governor_state \<Rightarrow> governor_state" where
  "reset_budget_path prepared path state =
     (if gs_budget_path_len state \<noteq> length path
      then state\<lparr>gs_budget_path_len := length path,
                 gs_budget_cursor := (if path = [] then None else Some (length path - 1)),
                 gs_targets := fold (\<lambda>p. set_budget_cap (pt_id p)
                     (map_option eo_frequency_hz (last_opt (em_control_opps (pt_model p)))))
                   prepared (gs_targets state)\<rparr>
      else state)"

definition adjust_reference_budget_cap ::
  "governor_state \<Rightarrow> prepared_target list \<Rightarrow> budget_step list \<Rightarrow> f64 \<Rightarrow> f64 \<Rightarrow> governor_state" where
  "adjust_reference_budget_cap state prepared path estimated_power_mw budget_mw =
     (case gs_budget_cursor state of
        None \<Rightarrow> state
      | Some cursor \<Rightarrow>
          if length path \<le> cursor then state
          else let step = path ! cursor;
                   tid = pt_id (prepared ! bs_cluster_index step)
               in if f64_lt (f64_mul budget_mw (f64_lit (11 / 10))) estimated_power_mw
                  then state\<lparr>gs_targets := set_budget_cap tid (Some (bs_lower_hz step)) (gs_targets state),
                             gs_budget_cursor := Some (if 0 < cursor then cursor - 1 else cursor)\<rparr>
                  else if f64_lt estimated_power_mw (f64_mul budget_mw (f64_lit (9 / 10)))
                  then state\<lparr>gs_targets := set_budget_cap tid (Some (bs_upper_hz step)) (gs_targets state),
                             gs_budget_cursor := Some (if cursor + 1 < length path then cursor + 1 else cursor)\<rparr>
                  else state)"

text \<open>The bucket and the cap cursor stand still while the burst waiver is on.\<close>

definition apply_power_budget ::
  "governor_input \<Rightarrow> u64 \<Rightarrow> f64 \<Rightarrow> prepared_target list \<Rightarrow> governor_state
   \<Rightarrow> governor_state \<times> energy_bucket_diagnostics \<times> f64" where
  "apply_power_budget input elapsed_ms package_power_mw prepared state =
     (let path = reference_budget_path prepared;
          based = reset_budget_path prepared path state
      in if f64_lt (Fin 0) (gi_burst input)
         then (based, diagnostics_without_update (gs_bucket based) (gi_power_budget input), PosInf)
         else let updated = EnergyBucketState_update (gs_bucket based) package_power_mw elapsed_ms
                    (gi_power_budget input) (gi_integrate_elapsed_time input);
                  budget = ebd_selected_limit_power_mw (snd updated)
              in (adjust_reference_budget_cap (based\<lparr>gs_bucket := fst updated\<rparr>) prepared path
                    package_power_mw budget, snd updated, budget))"

definition budgeted_plan ::
  "bool \<Rightarrow> governor_state \<Rightarrow> prepared_target \<Rightarrow> budgeted_opp" where
  "budgeted_plan bypassed state prepared =
     (let demand_floor =
            (case first_opp_meeting_performance (pt_model prepared) (pt_demanded_performance prepared) of
               None \<Rightarrow> fp_floor (ct_frequency (pt_target prepared))
             | Some opp \<Rightarrow> eo_frequency_hz opp);
          feedback_cap = unwrap_or (pt_safety_cap prepared)
            (Option.bind (bt_get (gs_targets state) (pt_id prepared)) tg_budget_cap_hz);
          cap_hz = (if bypassed then pt_safety_cap prepared else min feedback_cap (pt_safety_cap prepared))
      in \<lparr>bo_floor_hz = min demand_floor cap_hz, bo_cap_hz = cap_hz\<rparr>)"

section \<open>Ramp\<close>

definition previous_limits :: "governor_state \<Rightarrow> prepared_target \<Rightarrow> frequency_limits option" where
  "previous_limits state prepared = Option.bind (bt_get (gs_targets state) (pt_id prepared)) tg_last_limits"

definition high_cost_increase ::
  "governor_state \<Rightarrow> prepared_target list \<Rightarrow> budgeted_opp list \<Rightarrow> bool" where
  "high_cost_increase state prepared budgeted =
     list_ex (\<lambda>(p, plan).
         em_sweet_frequency_hz (pt_model p) < bo_floor_hz plan
         \<and> (case previous_limits state p of None \<Rightarrow> fp_floor (ct_frequency (pt_target p))
            | Some l \<Rightarrow> min_hz l) < bo_floor_hz plan)
       (zip prepared budgeted)"

definition advance_ramp :: "governor_config \<Rightarrow> bool \<Rightarrow> bool \<Rightarrow> u64 \<Rightarrow> u64 \<Rightarrow> u64" where
  "advance_ramp config bypassed_ramp high_cost elapsed_ms ramp_elapsed_ms =
     (if bypassed_ramp then gc_ramp_latency_ms config
      else if high_cost then min (u64_saturating_add ramp_elapsed_ms elapsed_ms) (gc_ramp_latency_ms config)
      else 0)"

definition ramp_progress :: "governor_config \<Rightarrow> u64 \<Rightarrow> f64" where
  "ramp_progress config ramp_elapsed_ms =
     f64_clamp (Fin 0) (Fin 1)
       (if gc_ramp_latency_ms config = 0 then Fin 1
        else f64_div (u64_as_f64 ramp_elapsed_ms) (u64_as_f64 (gc_ramp_latency_ms config)))"

definition ramp_limited_floor :: "energy_model \<Rightarrow> hertz \<Rightarrow> hertz \<Rightarrow> f64 \<Rightarrow> hertz" where
  "ramp_limited_floor model requested_floor_hz cap_hz progress =
     (let controls = em_control_opps model;
          sweet = or_else (rfind (\<lambda>opp. eo_frequency_hz opp \<le> em_sweet_frequency_hz model) controls)
                    (first_opt controls);
          maximum = or_else (rfind (\<lambda>opp. eo_frequency_hz opp \<le> cap_hz) controls) (last_opt controls)
      in case (sweet, maximum) of
           (Some sweet, Some maximum) \<Rightarrow>
             let power_span = f64_sub (eo_power_mw_per_core maximum) (eo_power_mw_per_core sweet)
             in if f64_le power_span f64_epsilon then min requested_floor_hz cap_hz
                else case last_opt (filter
                       (\<lambda>opp. eo_frequency_hz opp \<le> em_sweet_frequency_hz model
                          \<or> f64_le (f64_div (f64_sub (eo_power_mw_per_core opp) (eo_power_mw_per_core sweet))
                                      power_span) progress)
                       (takeWhile (\<lambda>opp. eo_frequency_hz opp \<le> min requested_floor_hz cap_hz) controls)) of
                  None \<Rightarrow> min (eo_frequency_hz sweet) cap_hz
                | Some opp \<Rightarrow> eo_frequency_hz opp
         | _ \<Rightarrow> min requested_floor_hz cap_hz)"

section \<open>Plan selection\<close>

definition select_plan ::
  "governor_input \<Rightarrow> governor_state \<Rightarrow> bool \<Rightarrow> f64 \<Rightarrow> prepared_target \<times> budgeted_opp \<Rightarrow> budgeted_opp" where
  "select_plan input state bypassed_ramp progress entry =
     (let prepared = fst entry; budgeted = snd entry; cap = bo_cap_hz budgeted;
          requested = bo_floor_hz budgeted;
          ramped = (if bypassed_ramp \<or> requested \<le> em_sweet_frequency_hz (pt_model prepared) then requested
                    else ramp_limited_floor (pt_model prepared) requested cap progress);
          target_state = bt_get (gs_targets state) (pt_id prepared);
          last_limits = Option.bind target_state tg_last_limits;
          safety_reduction = (case last_limits of None \<Rightarrow> False | Some previous \<Rightarrow> cap < max_hz previous);
          dwell_active = (case Option.bind target_state tg_last_change_at of None \<Rightarrow> False
            | Some changed_at \<Rightarrow> saturating_duration_since (gi_timestamp input) changed_at
                                  < gc_min_opp_residency_ms (gi_config input));
          upward_change = (case last_limits of None \<Rightarrow> False | Some previous \<Rightarrow> min_hz previous < ramped);
          held = (if dwell_active \<and> upward_change \<and> \<not> safety_reduction \<and> \<not> bypassed_ramp
                  then (case last_limits of None \<Rightarrow> ramped | Some previous \<Rightarrow> min (min_hz previous) cap)
                  else ramped)
      in \<lparr>bo_floor_hz = min held cap, bo_cap_hz = cap\<rparr>)"

section \<open>Efficiency ceiling\<close>

definition efficiency_cap_of :: "energy_model \<Rightarrow> energy_model \<Rightarrow> hertz \<Rightarrow> hertz option" where
  "efficiency_cap_of low_model high_model high_floor =
     (case or_else (opp_at_or_below high_model high_floor) (first_opt (em_opps high_model)) of
        None \<Rightarrow> None
      | Some high_opp \<Rightarrow>
          map_option (\<lambda>opp. max (eo_frequency_hz opp) (em_plain_frequency_hz low_model))
            (or_else (List.find (\<lambda>opp. f64_lt (cost_mw_per_performance high_opp) (cost_mw_per_performance opp))
                        (em_control_opps low_model))
               (last_opt (em_control_opps low_model))))"

definition efficiency_step :: "energy_model list \<Rightarrow> nat \<times> nat \<Rightarrow> budgeted_opp list \<Rightarrow> budgeted_opp list" where
  "efficiency_step models pair selected =
     (let low_index = fst pair; high_index = snd pair
      in case efficiency_cap_of (models ! low_index) (models ! high_index) (bo_floor_hz (selected ! high_index)) of
           None \<Rightarrow> selected
         | Some efficiency_cap \<Rightarrow>
             let plan = selected ! low_index; cap = min (bo_cap_hz plan) efficiency_cap
             in selected[low_index := \<lparr>bo_floor_hz = min (bo_floor_hz plan) cap, bo_cap_hz = cap\<rparr>])"

definition apply_reference_efficiency_limits ::
  "energy_model list \<Rightarrow> budgeted_opp list \<Rightarrow> budgeted_opp list" where
  "apply_reference_efficiency_limits models selected =
     fold (efficiency_step models) (rev (windows2 (performance_order models))) selected"

section \<open>Commit\<close>

definition plan_limits :: "budgeted_opp \<Rightarrow> frequency_limits" where
  "plan_limits plan = \<lparr>min_hz = bo_floor_hz plan, max_hz = bo_cap_hz plan\<rparr>"

definition commit_limits :: "monotonic_millis \<Rightarrow> frequency_limits \<Rightarrow> target_governor_state \<Rightarrow> target_governor_state" where
  "commit_limits now selected ts =
     ts\<lparr>tg_last_change_at := (if tg_last_limits ts \<noteq> Some selected then Some now else tg_last_change_at ts),
        tg_last_limits := Some selected\<rparr>"

definition target_diagnostics :: "prepared_target \<Rightarrow> budgeted_opp \<Rightarrow> hertz \<Rightarrow> target_governor_diagnostics" where
  "target_diagnostics prepared plan requested_floor_hz =
     \<lparr>td_raw_load = pt_raw_load prepared, td_active_load_sum = pt_active_load_sum prepared,
      td_ema_load = dd_ema (pt_demand prepared), td_predicted_load = dd_predicted (pt_demand prepared),
      td_selected_load = dd_selected (pt_demand prepared),
      td_effective_demand = pt_effective_demand prepared,
      td_prediction_bypassed_ramp = dd_prediction_bypassed_ramp (pt_demand prepared),
      td_estimated_power_mw = pt_estimated_power_mw prepared,
      td_requested_floor_hz = requested_floor_hz,
      td_selected_floor_hz = bo_floor_hz plan, td_selected_cap_hz = bo_cap_hz plan\<rparr>"

text \<open>The three maps the final loop writes, one entry of each per target.\<close>

definition commit_states ::
  "monotonic_millis \<Rightarrow> (prepared_target \<times> budgeted_opp) list \<Rightarrow> (target_id, target_governor_state) btree
   \<Rightarrow> (target_id, target_governor_state) btree" where
  "commit_states now rows = fold (\<lambda>(p, plan). update_entry (pt_id p) (commit_limits now (plan_limits plan))) rows"

definition commit_plan :: "(prepared_target \<times> budgeted_opp) list \<Rightarrow> (target_id, frequency_limits) btree" where
  "commit_plan rows = bt_collect (map (\<lambda>(p, plan). (pt_id p, plan_limits plan)) rows)"

definition commit_diagnostics ::
  "(prepared_target \<times> budgeted_opp) list \<Rightarrow> hertz list \<Rightarrow> (target_id, target_governor_diagnostics) btree" where
  "commit_diagnostics rows requested =
     bt_collect (map (\<lambda>((p, plan), floor). (pt_id p, target_diagnostics p plan floor)) (zip rows requested))"

section \<open>The transition\<close>

definition finish_transition ::
  "governor_input \<Rightarrow> u64 \<Rightarrow> governor_state \<Rightarrow> preparation \<Rightarrow> prepared_target list \<Rightarrow> governor_transition" where
  "finish_transition input elapsed_ms state0 preparation prepared =
     (let bypassed = f64_lt (Fin 0) (gi_burst input);
          budget = apply_power_budget input elapsed_ms (pr_package_power_mw preparation) prepared state0;
          state1 = fst budget; bucket = fst (snd budget);
          budgeted = map (budgeted_plan bypassed state1) prepared;
          bypassed_ramp = (bypassed \<or> pr_any_prediction_bypass preparation);
          ramp_elapsed = advance_ramp (gi_config input) bypassed_ramp
            (high_cost_increase state1 prepared budgeted) elapsed_ms (gs_shared_ramp_elapsed_ms state1);
          state2 = state1\<lparr>gs_shared_ramp_elapsed_ms := ramp_elapsed\<rparr>;
          progress = ramp_progress (gi_config input) ramp_elapsed;
          chosen = map (select_plan input state2 bypassed_ramp progress) (zip prepared budgeted);
          plans = (if gi_limit_efficiency input
                   then apply_reference_efficiency_limits (map pt_model prepared) chosen else chosen);
          rows = zip prepared plans
      in \<lparr>gt_limits = commit_plan rows,
          gt_next_state = state2\<lparr>gs_targets := commit_states (gi_timestamp input) rows (gs_targets state2)\<rparr>,
          gt_diagnostics =
            \<lparr>gd_elapsed_ms = elapsed_ms,
             gd_estimated_package_power_mw = pr_package_power_mw preparation,
             gd_bucket_remaining_mj = ebd_remaining_mj bucket,
             gd_selected_package_budget_mw = snd (snd budget),
             gd_bypassed_power_budget = bypassed,
             gd_shared_ramp_progress = progress,
             gd_targets = commit_diagnostics rows (map bo_floor_hz budgeted)\<rparr>\<rparr>)"

definition governor_elapsed_ms :: "governor_state \<Rightarrow> governor_input \<Rightarrow> u64" where
  "governor_elapsed_ms state input =
     (case gs_previous_timestamp state of None \<Rightarrow> 0
      | Some previous \<Rightarrow> saturating_duration_since (gi_timestamp input) previous)"

definition transition_governor ::
  "governor_state \<Rightarrow> governor_input \<Rightarrow> (governor_error, governor_transition) result" where
  "transition_governor state input =
     rbind (prepare_targets state input) (\<lambda>preparation.
     rbind (apply_burst input (pr_prepared preparation)) (\<lambda>prepared.
       Inr (finish_transition input (governor_elapsed_ms state input)
              (state\<lparr>gs_targets := pr_targets preparation,
                     gs_previous_timestamp := Some (gi_timestamp input)\<rparr>)
              preparation prepared)))"

end
