(* ===== verification/Governor_Safety.thy ===== *)
theory Governor_Safety
  imports Governor
begin

text \<open>
  What one step of the energy governor guarantees: the plan of every target stays under its
  safety cap whatever the demand, the burst or the history, the step succeeds on valid targets,
  and the state it returns is well formed.
\<close>

section \<open>Preparation\<close>

text \<open>What preparation fixes about a target; the burst override keeps all of it.\<close>

definition prepared_key :: "prepared_target \<Rightarrow> target_id \<times> cpu_target_policy \<times> energy_model \<times> hertz" where
  "prepared_key p = (pt_id p, pt_target p, pt_model p, pt_safety_cap p)"

definition input_safety_cap :: "governor_input \<Rightarrow> target_id \<Rightarrow> cpu_target_policy \<Rightarrow> hertz" where
  "input_safety_cap input tid target =
     safety_cap_of (ct_frequency target) (bt_get (gi_administrator_caps input) tid)
       (bt_get (gi_thermal_caps input) tid)"

definition prepared_for :: "governor_input \<Rightarrow> target_id \<times> cpu_target_policy \<Rightarrow> prepared_target \<Rightarrow> bool" where
  "prepared_for input entry p =
     (pt_id p = fst entry \<and> pt_target p = snd entry
      \<and> ct_energy_model (snd entry) = Some (pt_model p)
      \<and> pt_safety_cap p = input_safety_cap input (fst entry) (snd entry))"

lemma prepare_targetE:
  assumes "prepare_target input ts tid target = Inr (d, p)"
  shows "prepared_for input (tid, target) p"
    and "\<exists>opp. opp_at_or_below (pt_model p) (pt_safety_cap p) = Some opp
               \<and> pt_maximum_performance p = eo_performance opp"
    and "FrequencyPolicy_validate (ct_frequency target) = Inr ()"
  using assms
  by (auto simp: prepare_target_def prepared_for_def input_safety_cap_def rbind_Inr_iff Let_def)

lemma prepare_fold:
  assumes "try_fold (prepare_step input) acc entries = Inr out"
    and "list_all2 (prepared_for input) before (pr_prepared acc)"
  shows "list_all2 (prepared_for input) (before @ entries) (pr_prepared out)"
  using assms
proof (induction entries arbitrary: acc before)
  case (Cons e entries)
  from Cons.prems(1) obtain acc' where step: "prepare_step input acc e = Inr acc'"
    and rest: "try_fold (prepare_step input) acc' entries = Inr out"
    by (auto simp: rbind_Inr_iff)
  from step obtain d p where "prepare_target input (target_entry (pr_targets acc) (fst e)) (fst e) (snd e) = Inr (d, p)"
    and "pr_prepared acc' = pr_prepared acc @ [p]"
    by (auto simp: prepare_step_def rbind_Inr_iff)
  with Cons.prems(2) have "list_all2 (prepared_for input) (before @ [e]) (pr_prepared acc')"
    by (auto intro!: list_all2_appendI dest: prepare_targetE(1))
  from Cons.IH [OF rest this] show ?case by simp
qed simp

lemma prepare_targets_prepared:
  assumes "prepare_targets state input = Inr out"
  shows "list_all2 (prepared_for input) (gi_targets input) (pr_prepared out)"
  using prepare_fold [OF assms [unfolded prepare_targets_def], of "[]"] by simp

section \<open>Burst\<close>

lemma burst_target_key: "burst_target input p = Some q \<Longrightarrow> prepared_key q = prepared_key p"
  by (auto simp: burst_target_def prepared_key_def)

lemma burst_step_key:
  assumes "burst_step input ps i = Inr qs" and "i < length ps"
  shows "map prepared_key qs = map prepared_key ps"
  using assms
  by (auto simp: burst_step_def rbind_Inr_iff map_update list_update_same_conv dest: burst_target_key)

lemma performance_order_index: "i \<in> set (performance_order ms) \<Longrightarrow> i < length ms"
  by (simp add: performance_order_def)

lemma apply_burst_key:
  assumes "apply_burst input ps = Inr qs"
  shows "map prepared_key qs = map prepared_key ps"
proof (cases "f64_lt (Fin 0) (gi_burst input)")
  case True
  let ?order = "drop 1 (performance_order (map pt_model ps))"
  have "try_fold (burst_step input) ps ?order = Inr qs"
    using assms True by (simp add: apply_burst_def)
  then show ?thesis
  proof (rule try_fold_inv)
    fix s i s' assume s: "map prepared_key s = map prepared_key ps" and i: "i \<in> set ?order"
      and step: "burst_step input s i = Inr s'"
    have "i < length ps" using i by (auto dest!: in_set_dropD performance_order_index)
    moreover have "length s = length ps" using s by (metis length_map)
    ultimately show "map prepared_key s' = map prepared_key ps"
      using burst_step_key [OF step] s by simp
  qed simp
next
  case False
  with assms show ?thesis by (simp add: apply_burst_def)
qed

lemma list_all2_key:
  assumes "map k xs = map k ys" and "\<And>e x y. k x = k y \<Longrightarrow> P e x \<Longrightarrow> P e y" and "list_all2 P es xs"
  shows "list_all2 P es ys"
proof -
  have "length xs = length ys" using assms(1) by (metis length_map)
  moreover have "k (xs ! i) = k (ys ! i)" if "i < length ys" for i
    using assms(1) that calculation by (metis nth_map)
  ultimately show ?thesis
    using assms(3) assms(2) by (auto simp: list_all2_conv_all_nth) blast
qed

lemma apply_burst_prepared:
  assumes "apply_burst input ps = Inr qs" and "list_all2 (prepared_for input) entries ps"
  shows "list_all2 (prepared_for input) entries qs"
  using apply_burst_key [OF assms(1), symmetric] _ assms(2)
  by (rule list_all2_key) (auto simp: prepared_key_def prepared_for_def)

section \<open>Plans\<close>

definition plan_ok :: "hertz \<Rightarrow> budgeted_opp \<Rightarrow> bool" where
  "plan_ok cap plan = (bo_floor_hz plan \<le> bo_cap_hz plan \<and> bo_cap_hz plan \<le> cap)"

lemma budgeted_plan_ok: "plan_ok (pt_safety_cap p) (budgeted_plan b s p)"
  by (simp add: plan_ok_def budgeted_plan_def Let_def)

lemma select_plan_ok: "plan_ok cap plan \<Longrightarrow> plan_ok cap (select_plan input s b pr (p, plan))"
  by (simp add: plan_ok_def select_plan_def Let_def)

lemma efficiency_step_ok:
  assumes "list_all2 plan_ok caps plans"
  shows "list_all2 plan_ok caps (efficiency_step ms pair plans)"
proof (cases "fst pair < length plans")
  case True
  with assms show ?thesis
    by (auto simp: efficiency_step_def Let_def plan_ok_def list_all2_conv_all_nth nth_list_update
        min_le_iff_disj split: option.splits)
next
  case False
  then have "plans[fst pair := x] = plans" for x by (simp add: list_update_beyond)
  with assms show ?thesis
    by (simp add: efficiency_step_def Let_def split: option.split)
qed

lemma efficiency_limits_ok:
  assumes "list_all2 plan_ok caps plans"
  shows "list_all2 plan_ok caps (apply_reference_efficiency_limits ms plans)"
proof -
  have "list_all2 plan_ok caps (fold (efficiency_step ms) pairs plans)" for pairs
    using assms by (induction pairs arbitrary: plans) (auto intro: efficiency_step_ok)
  then show ?thesis by (simp add: apply_reference_efficiency_limits_def)
qed

section \<open>Commit\<close>

lemma commit_plan_get:
  assumes "distinct (map (pt_id \<circ> fst) rows)" and "(p, plan) \<in> set rows"
  shows "bt_get (commit_plan rows) (pt_id p) = Some (plan_limits plan)"
proof -
  have "\<exists>x \<in> set rows. pt_id (fst x) = pt_id p \<and>
      bt_get (fold (\<lambda>r. bt_insert (pt_id (fst r)) (plan_limits (snd r))) rows []) (pt_id p)
        = Some (plan_limits (snd x))"
    using assms(2) by (intro bt.fold_ins_hit) force
  moreover have "x = (p, plan)" if "x \<in> set rows" "pt_id (fst x) = pt_id p" for x
    using assms that by (auto simp: distinct_map inj_on_def)
  ultimately show ?thesis
    by (auto simp: commit_plan_def bt_collect_def bt_extend_def fold_map comp_def case_prod_beta)
qed

lemma commit_plan_keys:
  "bt_get (commit_plan rows) tid = Some l \<Longrightarrow> \<exists>(p, plan) \<in> set rows. pt_id p = tid \<and> l = plan_limits plan"
  using bt.fold_ins_source [of "\<lambda>r. pt_id (fst r)" "\<lambda>r. plan_limits (snd r)" rows "[]" tid l]
  by (auto simp: commit_plan_def bt_collect_def bt_extend_def fold_map comp_def case_prod_beta)

section \<open>The step as a whole\<close>

lemma finish_transition_limits:
  assumes "length ps = length entries"
  shows "\<exists>plans. gt_limits (finish_transition input el st pre ps) = commit_plan (zip ps plans)
      \<and> gs_targets (gt_next_state (finish_transition input el st pre ps))
          = commit_states (gi_timestamp input) (zip ps plans)
              (gs_targets (fst (apply_power_budget input el (pr_package_power_mw pre) ps st)))
      \<and> list_all2 plan_ok (map pt_safety_cap ps) plans"
proof -
  define s1 where "s1 = fst (apply_power_budget input el (pr_package_power_mw pre) ps st)"
  define bypass where "bypass = f64_lt (Fin 0) (gi_burst input)"
  define bud where "bud = map (budgeted_plan bypass s1) ps"
  define byr where "byr = (bypass \<or> pr_any_prediction_bypass pre)"
  define ramp where "ramp = advance_ramp (gi_config input) byr (high_cost_increase s1 ps bud) el
      (gs_shared_ramp_elapsed_ms s1)"
  define s2 where "s2 = s1\<lparr>gs_shared_ramp_elapsed_ms := ramp\<rparr>"
  define chosen where "chosen = map (select_plan input s2 byr (ramp_progress (gi_config input) ramp)) (zip ps bud)"
  define plans where "plans = (if gi_limit_efficiency input
      then apply_reference_efficiency_limits (map pt_model ps) chosen else chosen)"
  have "list_all2 plan_ok (map pt_safety_cap ps) bud"
    by (simp add: bud_def list_all2_conv_all_nth budgeted_plan_ok)
  then have "list_all2 plan_ok (map pt_safety_cap ps) chosen"
    by (auto simp: chosen_def bud_def list_all2_conv_all_nth intro!: select_plan_ok)
  then have ok: "list_all2 plan_ok (map pt_safety_cap ps) plans"
    by (simp add: plans_def efficiency_limits_ok)
  have "gt_limits (finish_transition input el st pre ps) = commit_plan (zip ps plans)"
    by (simp add: finish_transition_def Let_def plans_def chosen_def s2_def ramp_def byr_def bud_def bypass_def s1_def)
  moreover have "gs_targets (gt_next_state (finish_transition input el st pre ps))
      = commit_states (gi_timestamp input) (zip ps plans) (gs_targets s1)"
    by (simp add: finish_transition_def Let_def plans_def chosen_def s2_def ramp_def byr_def bud_def bypass_def s1_def)
  ultimately show ?thesis using ok s1_def by blast
qed

lemma transition_InrE:
  assumes "transition_governor state input = Inr tr"
  obtains pre ps where "prepare_targets state input = Inr pre" and "apply_burst input (pr_prepared pre) = Inr ps"
    and "list_all2 (prepared_for input) (gi_targets input) ps"
    and "tr = finish_transition input (governor_elapsed_ms state input)
           (state\<lparr>gs_targets := pr_targets pre, gs_previous_timestamp := Some (gi_timestamp input)\<rparr>) pre ps"
proof -
  from assms obtain pre ps where pre: "prepare_targets state input = Inr pre"
    and ps: "apply_burst input (pr_prepared pre) = Inr ps"
    and tr: "tr = finish_transition input (governor_elapsed_ms state input)
           (state\<lparr>gs_targets := pr_targets pre, gs_previous_timestamp := Some (gi_timestamp input)\<rparr>) pre ps"
    by (auto simp: transition_governor_def rbind_Inr_iff)
  from pre ps apply_burst_prepared [OF ps prepare_targets_prepared [OF pre]] tr show ?thesis by (rule that)
qed

lemma commit_states_other:
  "tid \<notin> (pt_id \<circ> fst) ` set rows \<Longrightarrow> bt_get (commit_states now rows m) tid = bt_get m tid"
  by (induction rows arbitrary: m)
    (auto simp: commit_states_def update_entry_def bt.look_ins)

lemma commit_states_get:
  assumes "distinct (map (pt_id \<circ> fst) rows)" and "(p, plan) \<in> set rows"
  shows "bt_get (commit_states now rows m) (pt_id p)
         = Some (commit_limits now (plan_limits plan) (target_entry m (pt_id p)))"
  using assms
proof (induction rows arbitrary: m)
  case (Cons r rows)
  let ?m = "update_entry (pt_id (fst r)) (commit_limits now (plan_limits (snd r))) m"
  have step: "commit_states now (r # rows) m = commit_states now rows ?m"
    by (simp add: commit_states_def case_prod_beta)
  show ?case
  proof (cases "r = (p, plan)")
    case True
    then have "pt_id p \<notin> (pt_id \<circ> fst) ` set rows" using Cons.prems(1) by auto
    from commit_states_other [OF this, of now ?m] True show ?thesis
      unfolding step by (simp add: update_entry_def bt.look_ins)
  next
    case False
    then have mem: "(p, plan) \<in> set rows" using Cons.prems(2) by auto
    have "pt_id (fst r) \<notin> set (map (pt_id \<circ> fst) rows)" using Cons.prems(1) by simp
    moreover have "pt_id p \<in> set (map (pt_id \<circ> fst) rows)" using mem by (force simp: image_iff)
    ultimately have "pt_id p \<noteq> pt_id (fst r)" by metis
    then have "target_entry ?m (pt_id p) = target_entry m (pt_id p)"
      by (simp add: update_entry_def target_entry_def bt.look_ins)
    with Cons.IH [of ?m] Cons.prems(1) mem show ?thesis by (simp add: step)
  qed
qed simp

text \<open>Every target of the input has its row in the committed plan, under its safety cap.\<close>

lemma transition_plan:
  assumes tr: "transition_governor state input = Inr tr" and wf: "bt_wf (gi_targets input)"
    and target: "bt_get (gi_targets input) tid = Some target"
  obtains plan where "plan_ok (input_safety_cap input tid target) plan"
    and "bt_get (gt_limits tr) tid = Some (plan_limits plan)"
    and "Option.bind (bt_get (gs_targets (gt_next_state tr)) tid) tg_last_limits = Some (plan_limits plan)"
proof -
  from tr obtain pre ps where l2: "list_all2 (prepared_for input) (gi_targets input) ps"
    and eq: "tr = finish_transition input (governor_elapsed_ms state input)
           (state\<lparr>gs_targets := pr_targets pre, gs_previous_timestamp := Some (gi_timestamp input)\<rparr>) pre ps"
    by (rule transition_InrE)
  obtain plans m where lim: "gt_limits tr = commit_plan (zip ps plans)"
    and nxt: "gs_targets (gt_next_state tr) = commit_states (gi_timestamp input) (zip ps plans) m"
    and ok: "list_all2 plan_ok (map pt_safety_cap ps) plans"
    using finish_transition_limits [OF list_all2_lengthD [OF l2, symmetric]] unfolding eq by blast
  from ok have len: "length ps = length plans" by (auto dest: list_all2_lengthD)
  have ids: "map pt_id ps = map fst (gi_targets input)"
    using l2 by (intro nth_equalityI) (auto simp: list_all2_conv_all_nth prepared_for_def)
  then have dist: "distinct (map (pt_id \<circ> fst) (zip ps plans))"
    using wf len by (metis bt_wf_def map_fst_zip map_map strict_sorted_iff)
  obtain i where i: "i < length ps" "gi_targets input ! i = (tid, target)"
    using bt_get_Some_mem [OF target] l2 by (metis in_set_conv_nth list_all2_lengthD)
  then have p: "prepared_for input (tid, target) (ps ! i)" using l2 by (metis list_all2_nthD2)
  have mem: "(ps ! i, plans ! i) \<in> set (zip ps plans)" using i len by (auto simp: set_zip)
  have "plan_ok (input_safety_cap input tid target) (plans ! i)"
    using ok i p by (auto simp: list_all2_conv_all_nth prepared_for_def)
  moreover have "bt_get (gt_limits tr) tid = Some (plan_limits (plans ! i))"
    using commit_plan_get [OF dist mem] p by (simp add: lim prepared_for_def)
  moreover have "Option.bind (bt_get (gs_targets (gt_next_state tr)) tid) tg_last_limits
      = Some (plan_limits (plans ! i))"
    using commit_states_get [OF dist mem] p by (simp add: nxt prepared_for_def commit_limits_def)
  ultimately show ?thesis by (rule that)
qed

lemma safety_cap_bounds:
  "safety_cap_of f a t \<le> max_hz (hardware_limits f)"
  "a = Some c \<Longrightarrow> safety_cap_of f a t \<le> c"
  "t = Some c \<Longrightarrow> safety_cap_of f a t \<le> c"
proof -
  let ?caps = "flatten [Some (max_hz (hardware_limits f)), a, t]"
  obtain m where m: "list_min ?caps = Some m" by (cases "list_min ?caps") auto
  then have eq: "safety_cap_of f a t = m" by (simp add: safety_cap_of_def)
  have le: "x \<in> set ?caps \<Longrightarrow> m \<le> x" for x using list_min_Some [OF m] by blast
  show "safety_cap_of f a t \<le> max_hz (hardware_limits f)" unfolding eq by (rule le) simp
  show "a = Some c \<Longrightarrow> safety_cap_of f a t \<le> c" unfolding eq by (rule le) simp
  show "t = Some c \<Longrightarrow> safety_cap_of f a t \<le> c" unfolding eq by (rule le) (cases a; simp)
qed

section \<open>The step succeeds\<close>

definition governable :: "governor_input \<Rightarrow> target_id \<times> cpu_target_policy \<Rightarrow> bool" where
  "governable input entry =
     (FrequencyPolicy_validate (ct_frequency (snd entry)) = Inr ()
      \<and> (case ct_energy_model (snd entry) of None \<Rightarrow> False
         | Some m \<Rightarrow> energy_model_wf m
             \<and> opp_at_or_below m (input_safety_cap input (fst entry) (snd entry)) \<noteq> None))"

lemma wf_performance:
  "energy_model_wf m \<Longrightarrow> opp_at_or_below m cap = Some opp \<Longrightarrow> f64_le (Fin 0) (eo_performance opp)"
  using opp_at_or_below_Some by (auto simp: energy_model_wf_def list_all_iff)

lemma prepare_target_total:
  assumes "governable input (tid, target)"
  shows "\<exists>d p. prepare_target input ts tid target = Inr (d, p) \<and> f64_le (Fin 0) (pt_maximum_performance p)"
proof -
  from assms obtain m opp where m: "ct_energy_model target = Some m" "energy_model_wf m"
    "FrequencyPolicy_validate (ct_frequency target) = Inr ()"
    and opp: "opp_at_or_below m (input_safety_cap input tid target) = Some opp"
    by (auto simp: governable_def split: option.splits)
  from wf_performance [OF m(2) opp] m opp show ?thesis
    by (simp add: prepare_target_def Let_def input_safety_cap_def reference_normal_demand_performance_def
        f64_clamp_checked_def)
qed

definition burstable :: "prepared_target \<Rightarrow> bool" where
  "burstable p = f64_le (Fin 0) (pt_maximum_performance p)"

lemma prepare_fold_total:
  assumes "\<forall>e \<in> set entries. governable input e" and "list_all burstable (pr_prepared acc)"
  shows "\<exists>out. try_fold (prepare_step input) acc entries = Inr out \<and> list_all burstable (pr_prepared out)"
  using assms
proof (induction entries arbitrary: acc)
  case (Cons e entries)
  obtain d p where "prepare_target input (target_entry (pr_targets acc) (fst e)) (fst e) (snd e) = Inr (d, p)"
    and "burstable p"
    using prepare_target_total [of input "fst e" "snd e"] Cons.prems(1) unfolding burstable_def
    by (metis list.set_intros(1) prod.collapse)
  then obtain acc' where "prepare_step input acc e = Inr acc'" and "list_all burstable (pr_prepared acc')"
    using Cons.prems(2) by (simp add: prepare_step_def)
  with Cons.IH [of acc'] Cons.prems(1) show ?case by simp
qed simp

lemma burst_step_total:
  assumes "list_all burstable ps" and "i < length ps"
  shows "\<exists>qs. burst_step input ps i = Inr qs \<and> list_all burstable qs \<and> length qs = length ps"
proof -
  have "burstable (ps ! i)" using assms by (simp add: list_all_length)
  then obtain q where "burst_target input (ps ! i) = Some q" and "burstable q"
    by (auto simp: burst_target_def burstable_def reference_burst_demand_performance_def f64_clamp_checked_def)
  with assms show ?thesis
    by (auto simp: burst_step_def list_all_length nth_list_update)
qed

lemma apply_burst_total:
  assumes "list_all burstable ps"
  shows "\<exists>qs. apply_burst input ps = Inr qs"
proof -
  have "\<exists>qs. try_fold (burst_step input) s order = Inr qs"
    if "list_all burstable s" "\<forall>i \<in> set order. i < length s" for s order
    using that
  proof (induction order arbitrary: s)
    case (Cons i order)
    then obtain s' where "burst_step input s i = Inr s'" "list_all burstable s'" "length s' = length s"
      using burst_step_total [of s i input] by auto
    with Cons show ?case by simp
  qed simp
  moreover have "\<forall>i \<in> set (drop 1 (performance_order (map pt_model ps))). i < length ps"
    by (auto dest!: in_set_dropD performance_order_index)
  ultimately show ?thesis using assms by (simp add: apply_burst_def)
qed

lemma transition_total:
  assumes "\<forall>e \<in> set (gi_targets input). governable input e"
  shows "\<exists>tr. transition_governor state input = Inr tr"
proof -
  obtain pre where pre: "prepare_targets state input = Inr pre" "list_all burstable (pr_prepared pre)"
    using prepare_fold_total [OF assms] unfolding prepare_targets_def by force
  obtain ps where "apply_burst input (pr_prepared pre) = Inr ps" using apply_burst_total [OF pre(2)] by blast
  with pre(1) show ?thesis by (simp add: transition_governor_def)
qed

lemma prepare_fold_burstable:
  assumes "prepare_targets state input = Inr pre"
    and "\<forall>x \<in> set (gi_targets input). \<forall>m. ct_energy_model (snd x) = Some m \<longrightarrow> energy_model_wf m"
  shows "list_all burstable (pr_prepared pre)"
  using assms(1) unfolding prepare_targets_def
proof (rule try_fold_inv)
  fix acc x acc' assume acc: "list_all burstable (pr_prepared acc)" and x: "x \<in> set (gi_targets input)"
    and step: "prepare_step input acc x = Inr acc'"
  from step obtain d p where p: "prepare_target input (target_entry (pr_targets acc) (fst x)) (fst x) (snd x) = Inr (d, p)"
    and acc': "pr_prepared acc' = pr_prepared acc @ [p]" by (auto simp: prepare_step_def rbind_Inr_iff)
  have "energy_model_wf (pt_model p)"
    using assms(2) x prepare_targetE(1) [OF p] by (auto simp: prepared_for_def)
  with prepare_targetE(2) [OF p] wf_performance have "burstable p" by (auto simp: burstable_def)
  with acc acc' show "list_all burstable (pr_prepared acc')" by simp
qed simp

section \<open>Properties\<close>

text \<open>
  C4: every step of the energy governor that succeeds gives every target limits in order whose
  maximum exceeds neither the hardware maximum nor the administrator's nor the thermal cap,
  whatever the demand, the burst, the prediction, the ramp, the dwell and the history.
\<close>

theorem governor_respects_safety_caps:
  assumes "transition_governor state input = Inr tr" and "bt_wf (gi_targets input)"
    and "bt_get (gi_targets input) tid = Some target"
  shows "\<exists>l. bt_get (gt_limits tr) tid = Some l \<and> min_hz l \<le> max_hz l
    \<and> max_hz l \<le> max_hz (hardware_limits (ct_frequency target))
    \<and> (\<forall>cap. bt_get (gi_administrator_caps input) tid = Some cap \<longrightarrow> max_hz l \<le> cap)
    \<and> (\<forall>cap. bt_get (gi_thermal_caps input) tid = Some cap \<longrightarrow> max_hz l \<le> cap)"
proof -
  from assms obtain plan where ok: "plan_ok (input_safety_cap input tid target) plan"
    and get: "bt_get (gt_limits tr) tid = Some (plan_limits plan)"
    by (rule transition_plan)
  have le: "max_hz (plan_limits plan) \<le> x" if "input_safety_cap input tid target \<le> x" for x
    using ok that by (auto simp: plan_ok_def plan_limits_def)
  have "min_hz (plan_limits plan) \<le> max_hz (plan_limits plan)"
    using ok by (simp add: plan_ok_def plan_limits_def)
  with get show ?thesis
    using le safety_cap_bounds unfolding input_safety_cap_def by blast
qed

definition target_example :: cpu_target_policy where
  "target_example =
     \<lparr>ct_cpus = [0, 1],
      ct_frequency = \<lparr>hardware_limits = \<lparr>min_hz = 1000, max_hz = 2000\<rparr>, fp_floor = 1000, fp_reference = 2000,
                      fp_efficient_cap = 2000, hertz_per_unit = 1000, available_frequencies = [1000, 2000]\<rparr>,
      ct_energy_model = Some model_example\<rparr>"

definition input_example :: governor_input where
  "input_example =
     \<lparr>gi_timestamp = 100, gi_targets = [(''little'', target_example)], gi_raw_loads = [(''little'', Fin 1)],
      gi_active_load_sums = [], gi_observed_frequencies = [], gi_administrator_caps = [(''little'', 1500)],
      gi_thermal_caps = [], gi_config = GovernorConfig_default,
      gi_power_budget = \<lparr>pb_slow_limit_power_mw = 100, pb_fast_limit_power_mw = 200,
        pb_fast_limit_capacity_mj = 50, pb_fast_limit_recover_scale = Fin 1\<rparr>,
      gi_margin = Fin (1 / 4), gi_burst = Fin 0, gi_limit_efficiency = True, gi_integrate_elapsed_time = True\<rparr>"

lemma input_example_governable: "\<forall>e \<in> set (gi_targets input_example). governable input_example e"
proof -
  have "FrequencyPolicy_validate (ct_frequency target_example) = Inr ()" by code_simp
  moreover have "opp_at_or_below model_example (input_safety_cap input_example ''little'' target_example) \<noteq> None"
    by code_simp
  ultimately show ?thesis
    by (simp add: governable_def input_example_def target_example_def model_example_wf)
qed

theorem governor_respects_safety_caps_witness:
  "\<exists>tr l. transition_governor GovernorState_default input_example = Inr tr
     \<and> bt_get (gt_limits tr) ''little'' = Some l \<and> max_hz l \<le> 1500"
proof -
  obtain tr where tr: "transition_governor GovernorState_default input_example = Inr tr"
    using transition_total [OF input_example_governable] by blast
  have "bt_wf (gi_targets input_example)" and "bt_get (gi_targets input_example) ''little'' = Some target_example"
    and cap: "bt_get (gi_administrator_caps input_example) ''little'' = Some 1500"
    by (simp_all add: input_example_def bt_wf_def bt_get_def)
  from governor_respects_safety_caps [OF tr this(1,2)] cap tr show ?thesis by blast
qed

text \<open>
  C14: the governor step never fails, and in particular never panics, when every target has a valid
  frequency policy, a well-formed energy model and an operating point at or below its safety cap.
\<close>

theorem governor_step_succeeds:
  assumes "\<forall>e \<in> set (gi_targets input). governable input e"
  shows "\<exists>tr. transition_governor state input = Inr tr"
  using assms by (rule transition_total)

theorem governor_step_succeeds_witness:
  "\<exists>tr. transition_governor GovernorState_default input_example = Inr tr"
  by (rule governor_step_succeeds [OF input_example_governable])

lemma prepare_target_error:
  assumes "prepare_target input ts tid target = Inl e" and "\<forall>m. ct_energy_model target = Some m \<longrightarrow> energy_model_wf m"
  shows "(\<exists>err. e = InvalidFrequencyPolicy tid err \<and> FrequencyPolicy_validate (ct_frequency target) = Inl err)
    \<or> (e = MissingEnergyModel tid \<and> ct_energy_model target = None)
    \<or> (e = NoOppBelowSafetyCap tid \<and> (\<exists>m. ct_energy_model target = Some m
         \<and> (\<forall>opp \<in> set (em_opps m). input_safety_cap input tid target < eo_frequency_hz opp)))"
proof (cases "governable input (tid, target)")
  case True
  with prepare_target_total [OF True, of ts] assms(1) show ?thesis by auto
next
  case False
  have none: "opp_at_or_below m cap = None \<Longrightarrow> \<forall>opp \<in> set (em_opps m). cap < eo_frequency_hz opp" for m cap
    by (auto simp: opp_at_or_below_def rfind_None_all not_le)
  from False assms show ?thesis
    by (cases "FrequencyPolicy_validate (ct_frequency target)"; cases "ct_energy_model target")
      (auto simp: governable_def prepare_target_def Let_def input_safety_cap_def dest: none)
qed

text \<open>
  with well-formed models, an error of the governor step names a target of the input and its
  cause: an invalid frequency policy, a missing model, or no operating point under the safety cap.
\<close>

theorem governor_error_cause:
  assumes "transition_governor state input = Inl e"
    and "\<forall>x \<in> set (gi_targets input). \<forall>m. ct_energy_model (snd x) = Some m \<longrightarrow> energy_model_wf m"
  shows "\<exists>(tid, target) \<in> set (gi_targets input).
      (\<exists>err. e = InvalidFrequencyPolicy tid err \<and> FrequencyPolicy_validate (ct_frequency target) = Inl err)
      \<or> (e = MissingEnergyModel tid \<and> ct_energy_model target = None)
      \<or> (e = NoOppBelowSafetyCap tid \<and> (\<exists>m. ct_energy_model target = Some m
           \<and> (\<forall>opp \<in> set (em_opps m). input_safety_cap input tid target < eo_frequency_hz opp)))"
proof (cases "prepare_targets state input")
  case (Inl e')
  with assms(1) have "try_fold (prepare_step input) \<lparr>pr_targets = gs_targets state, pr_prepared = [],
      pr_package_power_mw = Fin 0, pr_any_prediction_bypass = False\<rparr> (gi_targets input) = Inl e"
    by (simp add: transition_governor_def prepare_targets_def)
  from try_fold_Inl [OF this] obtain acc x where x: "x \<in> set (gi_targets input)" "prepare_step input acc x = Inl e"
    by blast
  then have "prepare_target input (target_entry (pr_targets acc) (fst x)) (fst x) (snd x) = Inl e"
    by (auto simp: prepare_step_def rbind_def split: sum.splits)
  from prepare_target_error [OF this] assms(2) x(1) show ?thesis by (intro bexI [OF _ x(1)]) auto
next
  case (Inr pre)
  from prepare_fold_burstable [OF Inr assms(2)] obtain ps where "apply_burst input (pr_prepared pre) = Inr ps"
    using apply_burst_total by blast
  with Inr assms(1) show ?thesis by (simp add: transition_governor_def)
qed

theorem governor_error_cause_witness:
  "\<exists>(tid, target) \<in> set (gi_targets (input_example\<lparr>gi_thermal_caps := [(''little'', 500)]\<rparr>)).
      (\<exists>err. NoOppBelowSafetyCap ''little'' = InvalidFrequencyPolicy tid err
         \<and> FrequencyPolicy_validate (ct_frequency target) = Inl err)
      \<or> (NoOppBelowSafetyCap ''little'' = MissingEnergyModel tid \<and> ct_energy_model target = None)
      \<or> (NoOppBelowSafetyCap ''little'' = NoOppBelowSafetyCap tid \<and> (\<exists>m. ct_energy_model target = Some m
           \<and> (\<forall>opp \<in> set (em_opps m).
                input_safety_cap (input_example\<lparr>gi_thermal_caps := [(''little'', 500)]\<rparr>) tid target < eo_frequency_hz opp)))"
proof (rule governor_error_cause)
  have "FrequencyPolicy_validate (ct_frequency target_example) = Inr ()" by code_simp
  moreover have "opp_at_or_below model_example (safety_cap_of (ct_frequency target_example) (Some 1500) (Some 500)) = None"
    by code_simp
  ultimately show "transition_governor GovernorState_default (input_example\<lparr>gi_thermal_caps := [(''little'', 500)]\<rparr>)
      = Inl (NoOppBelowSafetyCap ''little'')"
    by (simp add: transition_governor_def prepare_targets_def prepare_step_def prepare_target_def input_example_def
        bt_get_def target_example_def)
  show "\<forall>x \<in> set (gi_targets (input_example\<lparr>gi_thermal_caps := [(''little'', 500)]\<rparr>)).
      \<forall>m. ct_energy_model (snd x) = Some m \<longrightarrow> energy_model_wf m"
    by (simp add: input_example_def target_example_def model_example_wf)
qed

end
