(* ===== verification/Governor_State.thy ===== *)
theory Governor_State
  imports Governor_Safety
begin

text \<open>
  The state the energy governor carries from step to step: the cursor on the cap path, the
  shared ramp clock and the energy bucket, and what bounds each of them.
\<close>

section \<open>What a step does to each part of the state\<close>

lemma finish_transition_state:
  fixes input el st pre ps
  defines "budget \<equiv> apply_power_budget input el (pr_package_power_mw pre) ps st"
    and "tr \<equiv> finish_transition input el st pre ps"
  shows "gs_bucket (gt_next_state tr) = gs_bucket (fst budget)"
    and "gs_budget_cursor (gt_next_state tr) = gs_budget_cursor (fst budget)"
    and "gs_budget_path_len (gt_next_state tr) = gs_budget_path_len (fst budget)"
    and "gs_previous_timestamp (gt_next_state tr) = gs_previous_timestamp (fst budget)"
    and "gd_estimated_package_power_mw (gt_diagnostics tr) = pr_package_power_mw pre"
    and "gd_bucket_remaining_mj (gt_diagnostics tr) = ebd_remaining_mj (fst (snd budget))"
    and "\<exists>b h. gs_shared_ramp_elapsed_ms (gt_next_state tr)
               = advance_ramp (gi_config input) b h el (gs_shared_ramp_elapsed_ms (fst budget))"
  by (auto simp: budget_def tr_def finish_transition_def Let_def)

section \<open>The cap path\<close>

lemma windows2_increasing:
  "opps_increasing xs \<Longrightarrow> (a, b) \<in> set (windows2 xs) \<Longrightarrow> eo_frequency_hz a < eo_frequency_hz b"
proof (induction xs rule: induct_list012)
  case (3 x y zs)
  then show ?case by (auto simp: opps_increasing_def)
qed auto

lemma opps_increasing_drop: "opps_increasing xs \<Longrightarrow> opps_increasing (drop n xs)"
  by (simp add: opps_increasing_def drop_map [symmetric] sorted_wrt_drop)

lemma budget_path_set:
  "set (reference_budget_path ps) = (\<Union>i < length ps. set (cluster_steps (i, ps ! i)))"
  by (auto simp: reference_budget_path_def enumerate_list_nth; force simp: enumerate_list_nth)

lemma budget_path_sorted:
  "sorted_wrt (\<lambda>a b. bs_key a \<le> bs_key b) (reference_budget_path ps)"
proof -
  let ?k = "\<lambda>s. (bs_key s, bs_cluster_index s, bs_lower_hz s)"
  have "sorted_wrt (\<lambda>a b. ?k a \<le> ?k b) (reference_budget_path ps)"
    unfolding reference_budget_path_def using sorted_sort_key [of ?k] by (simp add: sorted_wrt_map)
  then show ?thesis by (rule sorted_wrt_mono_rel [rotated]) (auto simp: less_eq_prod_simp)
qed

lemma budget_path_step:
  assumes "s \<in> set (reference_budget_path ps)" and "\<forall>p \<in> set ps. energy_model_wf (pt_model p)"
  shows "bs_cluster_index s < length ps"
    and "bs_lower_hz s < bs_upper_hz s"
    and "{bs_lower_hz s, bs_upper_hz s}
         \<subseteq> eo_frequency_hz ` set (em_control_opps (pt_model (ps ! bs_cluster_index s)))"
proof -
  from assms(1) obtain i where i: "i < length ps" and s: "s \<in> set (cluster_steps (i, ps ! i))"
    by (auto simp: budget_path_set)
  let ?c = "em_control_opps (pt_model (ps ! i))"
  from s obtain n a b where ab: "(a, b) \<in> set (windows2 (drop n ?c))"
    and eq: "bs_cluster_index s = i" "bs_lower_hz s = eo_frequency_hz a" "bs_upper_hz s = eo_frequency_hz b"
    by (auto simp: cluster_steps_def Let_def)
  have "opps_increasing ?c" using assms(2) i by (simp add: energy_model_wf_def)
  from windows2_increasing [OF opps_increasing_drop [OF this] ab] windows2_set [OF ab] i eq
  show "bs_cluster_index s < length ps" and "bs_lower_hz s < bs_upper_hz s"
    and "{bs_lower_hz s, bs_upper_hz s}
         \<subseteq> eo_frequency_hz ` set (em_control_opps (pt_model (ps ! bs_cluster_index s)))"
    by (auto dest: in_set_dropD)
qed

definition budget_cursor_wf :: "governor_state \<Rightarrow> bool" where
  "budget_cursor_wf s =
     (case gs_budget_cursor s of None \<Rightarrow> gs_budget_path_len s = 0 | Some c \<Rightarrow> c < gs_budget_path_len s)"

lemma reset_budget_path_wf:
  assumes "budget_cursor_wf s"
  shows "budget_cursor_wf (reset_budget_path ps path s)"
    and "gs_budget_path_len (reset_budget_path ps path s) = length path"
    and "gs_bucket (reset_budget_path ps path s) = gs_bucket s"
    and "gs_shared_ramp_elapsed_ms (reset_budget_path ps path s) = gs_shared_ramp_elapsed_ms s"
  using assms by (auto simp: reset_budget_path_def budget_cursor_wf_def)

lemma adjust_budget_wf:
  assumes "budget_cursor_wf s" and "gs_budget_path_len s = length path"
  shows "budget_cursor_wf (adjust_reference_budget_cap s ps path e b)"
    and "gs_budget_path_len (adjust_reference_budget_cap s ps path e b) = length path"
  using assms by (auto simp: adjust_reference_budget_cap_def budget_cursor_wf_def Let_def split: option.splits)

lemma adjust_budget_frame [simp]:
  "gs_bucket (adjust_reference_budget_cap s ps path e b) = gs_bucket s"
  "gs_shared_ramp_elapsed_ms (adjust_reference_budget_cap s ps path e b) = gs_shared_ramp_elapsed_ms s"
  by (auto simp: adjust_reference_budget_cap_def Let_def split: option.splits)

lemma power_budget_cursor_wf:
  assumes "budget_cursor_wf s"
  shows "budget_cursor_wf (fst (apply_power_budget input el pw ps s))"
    and "gs_budget_path_len (fst (apply_power_budget input el pw ps s)) = length (reference_budget_path ps)"
proof -
  let ?path = "reference_budget_path ps"
  note base = reset_budget_path_wf [OF assms, of ps ?path]
  have upd: "budget_cursor_wf (x\<lparr>gs_bucket := u\<rparr>) = budget_cursor_wf x" for x u
    by (simp add: budget_cursor_wf_def split: option.split)
  note step = adjust_budget_wf [of "(reset_budget_path ps ?path s)\<lparr>gs_bucket := u\<rparr>" ?path for u]
  show "budget_cursor_wf (fst (apply_power_budget input el pw ps s))"
    using base by (simp add: apply_power_budget_def Let_def step(1) upd)
  show "gs_budget_path_len (fst (apply_power_budget input el pw ps s)) = length ?path"
    using base by (simp add: apply_power_budget_def Let_def step(2) upd)
qed

lemma transition_cursor_wf:
  assumes "transition_governor state input = Inr tr" and "budget_cursor_wf state"
  shows "budget_cursor_wf (gt_next_state tr)"
proof -
  from assms(1) obtain pre ps where tr: "tr = finish_transition input (governor_elapsed_ms state input)
      (state\<lparr>gs_targets := pr_targets pre, gs_previous_timestamp := Some (gi_timestamp input)\<rparr>) pre ps"
    by (rule transition_InrE)
  have "budget_cursor_wf (state\<lparr>gs_targets := pr_targets pre, gs_previous_timestamp := Some (gi_timestamp input)\<rparr>)"
    using assms(2) by (simp add: budget_cursor_wf_def split: option.splits)
  from power_budget_cursor_wf(1) [OF this] show ?thesis
    unfolding tr budget_cursor_wf_def finish_transition_state .
qed

section \<open>The ramp clock\<close>

lemma advance_ramp_le: "advance_ramp config b h el r \<le> gc_ramp_latency_ms config"
  by (simp add: advance_ramp_def)

lemma transition_ramp_le:
  assumes "transition_governor state input = Inr tr"
  shows "gs_shared_ramp_elapsed_ms (gt_next_state tr) \<le> gc_ramp_latency_ms (gi_config input)"
  using assms
proof (rule transition_InrE)
  fix pre :: preparation and ps
  let ?st = "state\<lparr>gs_targets := pr_targets pre, gs_previous_timestamp := Some (gi_timestamp input)\<rparr>"
  let ?el = "governor_elapsed_ms state input"
  assume "tr = finish_transition input ?el ?st pre ps"
  with finish_transition_state(7) [of input ?el ?st pre ps] advance_ramp_le show ?thesis by metis
qed

text \<open>The filtered floor grows with the progress of the ramp and never exceeds the cap.\<close>

lemma sorted_last_max: "sorted (map f ys) \<Longrightarrow> y \<in> set ys \<Longrightarrow> f y \<le> f (last ys)"
  by (induction ys rule: rev_induct) (auto simp: sorted_append)

lemma last_filter_mono:
  assumes "sorted (map f xs)" and "\<And>x. x \<in> set xs \<Longrightarrow> P x \<Longrightarrow> Q x" and "filter P xs \<noteq> []"
  shows "filter Q xs \<noteq> [] \<and> f (last (filter P xs)) \<le> f (last (filter Q xs))"
proof -
  have "last (filter P xs) \<in> set (filter Q xs)"
    using last_in_set [OF assms(3)] assms(2) by auto
  moreover have "sorted (map f (filter Q xs))" using assms(1) by (simp add: sorted_filter)
  ultimately show ?thesis by (metis sorted_last_max empty_iff list.set(1))
qed

lemma sorted_map_takeWhile: "sorted (map f xs) \<Longrightarrow> sorted (map f (takeWhile P xs))"
  by (induction xs) (auto dest: set_takeWhileD)

lemma takeWhile_filter_bound:
  assumes "last_opt (filter P (takeWhile C xs)) = Some opp"
  shows "opp \<in> set xs \<and> C opp \<and> P opp"
  using last_opt_Some [OF assms] by (auto dest: set_takeWhileD)

lemma ramp_limited_floor_le_cap: "ramp_limited_floor m r cap p \<le> cap"
  by (auto simp: ramp_limited_floor_def Let_def split: option.splits dest: takeWhile_filter_bound)

lemma sweet_opp_le:
  assumes "opps_increasing xs"
    and "or_else (rfind (\<lambda>opp. eo_frequency_hz opp \<le> sweet) xs) (first_opt xs) = Some s"
    and "opp \<in> set xs" and "\<not> eo_frequency_hz opp \<le> sweet"
  shows "eo_frequency_hz s \<le> eo_frequency_hz opp"
proof (cases "rfind (\<lambda>opp. eo_frequency_hz opp \<le> sweet) xs")
  case None
  then have "first_opt xs = Some s" using assms(2) by simp
  with assms(1,3) show ?thesis
    by (cases xs) (auto simp: first_opt_def opps_increasing_def)
next
  case (Some s')
  then have "eo_frequency_hz s \<le> sweet" using assms(2) by (auto dest: rfind_Some_mem)
  with assms(4) show ?thesis by simp
qed

lemma ramp_limited_floor_mono:
  assumes "energy_model_wf m" and "f64_le p q"
  shows "ramp_limited_floor m r cap p \<le> ramp_limited_floor m r cap q"
proof -
  let ?c = "em_control_opps m"
  let ?sw = "or_else (rfind (\<lambda>opp. eo_frequency_hz opp \<le> em_sweet_frequency_hz m) ?c) (first_opt ?c)"
  let ?mx = "or_else (rfind (\<lambda>opp. eo_frequency_hz opp \<le> cap) ?c) (last_opt ?c)"
  define tw where "tw = takeWhile (\<lambda>opp. eo_frequency_hz opp \<le> min r cap) ?c"
  have inc: "opps_increasing ?c" using assms(1) by (simp add: energy_model_wf_def)
  have sorted: "sorted (map eo_frequency_hz tw)"
    using opps_increasing_sorted [OF inc] unfolding tw_def by (rule sorted_map_takeWhile)
  show ?thesis
  proof (cases "?sw = None \<or> ?mx = None")
    case True
    then show ?thesis by (auto simp: ramp_limited_floor_def Let_def split: option.split)
  next
    case False
    then obtain s x where s: "?sw = Some s" and x: "?mx = Some x" by (metis option.exhaust)
    let ?span = "f64_sub (eo_power_mw_per_core x) (eo_power_mw_per_core s)"
    define P where "P = (\<lambda>t (opp :: energy_opp). eo_frequency_hz opp \<le> em_sweet_frequency_hz m
        \<or> f64_le (f64_div (f64_sub (eo_power_mw_per_core opp) (eo_power_mw_per_core s)) ?span) t)"
    have eq: "ramp_limited_floor m r cap t = (if f64_le ?span f64_epsilon then min r cap
        else case last_opt (filter (P t) tw) of None \<Rightarrow> min (eo_frequency_hz s) cap
           | Some opp \<Rightarrow> eo_frequency_hz opp)" for t
      unfolding ramp_limited_floor_def Let_def s x tw_def P_def by simp
    have imp: "P p opp \<Longrightarrow> P q opp" for opp using assms(2) by (auto simp: P_def intro: f64_le_trans)
    show ?thesis
    proof (cases "filter (P p) tw = []")
      case False
      with last_filter_mono [OF sorted, of "P p" "P q"] imp show ?thesis by (simp add: eq last_opt_def)
    next
      case empty: True
      have "eo_frequency_hz s \<le> eo_frequency_hz opp" if "last_opt (filter (P q) tw) = Some opp" for opp
      proof -
        have opp: "opp \<in> set tw" using last_opt_Some [OF that] by simp
        then have "\<not> eo_frequency_hz opp \<le> em_sweet_frequency_hz m"
          using empty by (auto simp: filter_empty_conv P_def)
        with sweet_opp_le [OF inc s] opp show ?thesis by (auto simp: tw_def dest: set_takeWhileD)
      qed
      then show ?thesis
        using empty by (auto simp: eq last_opt_def [of "[]"] min_le_iff_disj split: option.splits)
    qed
  qed
qed

section \<open>Dwell\<close>

lemma select_plan_dwell:
  assumes "bt_get (gs_targets s) (pt_id p) = Some ts"
    and "tg_last_limits ts = Some previous" and "tg_last_change_at ts = Some changed"
    and "saturating_duration_since (gi_timestamp input) changed < gc_min_opp_residency_ms (gi_config input)"
    and "max_hz previous \<le> bo_cap_hz plan"
  shows "bo_floor_hz (select_plan input s False pr (p, plan)) \<le> min_hz previous"
  using assms by (auto simp: select_plan_def Let_def min_le_iff_disj)

section \<open>The energy bucket\<close>

lemma burst_freezes_bucket:
  assumes "transition_governor state input = Inr tr" and "f64_lt (Fin 0) (gi_burst input)"
  shows "gs_bucket (gt_next_state tr) = gs_bucket state"
  using assms(1)
proof (rule transition_InrE)
  fix pre :: preparation and ps
  let ?st = "state\<lparr>gs_targets := pr_targets pre, gs_previous_timestamp := Some (gi_timestamp input)\<rparr>"
  let ?el = "governor_elapsed_ms state input"
  assume tr: "tr = finish_transition input ?el ?st pre ps"
  have "gs_bucket (reset_budget_path ps path s) = gs_bucket s" for path s
    by (simp add: reset_budget_path_def)
  with assms(2) show ?thesis
    unfolding tr finish_transition_state by (simp add: apply_power_budget_def Let_def)
qed

lemma transition_bucket:
  assumes "transition_governor state input = Inr tr" and "\<not> f64_lt (Fin 0) (gi_burst input)"
  shows "gs_bucket (gt_next_state tr)
         = fst (EnergyBucketState_update (gs_bucket state) (gd_estimated_package_power_mw (gt_diagnostics tr))
                  (governor_elapsed_ms state input) (gi_power_budget input) (gi_integrate_elapsed_time input))"
  using assms(1)
proof (rule transition_InrE)
  fix pre :: preparation and ps
  let ?st = "state\<lparr>gs_targets := pr_targets pre, gs_previous_timestamp := Some (gi_timestamp input)\<rparr>"
  let ?el = "governor_elapsed_ms state input"
  assume tr: "tr = finish_transition input ?el ?st pre ps"
  have "gs_bucket (reset_budget_path ps path s) = gs_bucket s" for path s
    by (simp add: reset_budget_path_def)
  with assms(2) show ?thesis
    unfolding tr finish_transition_state by (simp add: apply_power_budget_def Let_def)
qed

lemma f64_round_abs_le:
  assumes "is_f64 (Fin a)" and "is_f64 (Fin (- a))" and "\<bar>x\<bar> \<le> a"
  shows "\<exists>r. f64_round x = Fin r \<and> \<bar>r\<bar> \<le> a"
proof -
  have "f64_le (Fin (- a)) (f64_round x)" and "f64_le (f64_round x) (Fin a)"
    using assms by (auto intro!: f64_round_ge_representable f64_round_le_representable)
  then show ?thesis by (cases "f64_round x") (auto simp: f64_le_def)
qed

lemma is_f64_powers:
  "is_f64 (Fin (- 18446744073709551616))"
  "is_f64 (Fin 340282366920938463463374607431768211456)"
  "is_f64 (Fin (- 340282366920938463463374607431768211456))"
  by code_simp+

lemmas f64_round_abs_2_64 = f64_round_abs_le [OF is_f64_2_64 is_f64_powers(1)]
lemmas f64_round_abs_2_128 = f64_round_abs_le [OF is_f64_powers(2,3)]

lemma is_f64_2_55: "is_f64 (Fin 36028797018963968)" "is_f64 (Fin (- 36028797018963968))"
  by code_simp+

lemma f64_of_int_abs_2_55:
  assumes "\<bar>n\<bar> \<le> 36028797018963968"
  shows "\<exists>r. f64_of_int n = Fin r \<and> \<bar>r\<bar> \<le> 36028797018963968"
proof -
  have "\<bar>of_int n :: rat\<bar> \<le> of_int 36028797018963968"
    using assms by (simp only: of_int_abs [symmetric] of_int_le_iff)
  then show ?thesis unfolding f64_of_int_def by (intro f64_round_abs_le is_f64_2_55) simp
qed

lemma millis_as_secs_bound: "\<exists>r. millis_as_secs_f64 ms = Fin r \<and> \<bar>r\<bar> \<le> 18446744073709551616"
proof -
  have ms: "0 \<le> uint ms" "uint ms < 18446744073709551616" using uint_bounded [of ms] by auto
  have "0 \<le> uint ms div 1000 \<and> uint ms div 1000 \<le> 18446744073709551616 div 1000"
    using ms by (intro conjI pos_imp_zdiv_nonneg_iff [THEN iffD2] zdiv_mono1) auto
  then have "\<bar>uint ms div 1000\<bar> \<le> 36028797018963968" by simp
  then obtain a where a: "f64_of_int (uint ms div 1000) = Fin a" "\<bar>a\<bar> \<le> 36028797018963968"
    using f64_of_int_abs_2_55 by blast
  have "0 \<le> uint ms mod 1000 \<and> uint ms mod 1000 < 1000" by simp
  then have "\<bar>uint ms mod 1000 * 1000000\<bar> \<le> 36028797018963968" by linarith
  then obtain n where n: "f64_of_int (uint ms mod 1000 * 1000000) = Fin n" "\<bar>n\<bar> \<le> 36028797018963968"
    using f64_of_int_abs_2_55 by blast
  have "\<bar>n / 1000000000\<bar> \<le> 36028797018963968" using n(2) by (simp add: abs_divide)
  then obtain b where b: "f64_round (n / 1000000000) = Fin b" "\<bar>b\<bar> \<le> 36028797018963968"
    using f64_round_abs_le [OF is_f64_2_55] by blast
  have billion: "f64_of_int 1000000000 = Fin 1000000000" by code_simp
  have "\<bar>a + b\<bar> \<le> 18446744073709551616" using a(2) b(2) by linarith
  from f64_round_abs_2_64 [OF this] show ?thesis
    by (simp add: millis_as_secs_f64_def a(1) n(1) b(1) billion f64_div_def)
qed

lemma u32_as_f64_le: "\<exists>r. u32_as_f64 w = Fin r \<and> 0 \<le> r \<and> r \<le> 18446744073709551616"
  unfolding u32_as_f64_def by (rule u32_as_f64_bounds)

text \<open>A sane power estimate and recovery scale never make the integrated energy NaN.\<close>

lemma bucket_delta_not_NaN:
  assumes "0 \<le> p" and "p \<le> 18446744073709551616" and "f64_is_finite (pb_fast_limit_recover_scale budget)"
  shows "bucket_delta (Fin p) dt budget \<noteq> NaN"
proof -
  obtain w where w: "u32_as_f64 (pb_slow_limit_power_mw budget) = Fin w" "0 \<le> w" "w \<le> 18446744073709551616"
    using u32_as_f64_le by blast
  have "\<bar>p - w\<bar> \<le> 18446744073709551616" using assms(1,2) w by linarith
  from f64_round_abs_2_64 [OF this] obtain d where d: "f64_round (p - w) = Fin d" "\<bar>d\<bar> \<le> 18446744073709551616"
    by blast
  obtain t where t: "millis_as_secs_f64 dt = Fin t" "\<bar>t\<bar> \<le> 18446744073709551616"
    using millis_as_secs_bound by blast
  have "\<bar>d * t\<bar> \<le> 18446744073709551616 * 18446744073709551616"
    unfolding abs_mult using d(2) t(2) by (intro mult_mono) auto
  from f64_round_abs_2_128 [of "d * t"] this obtain e where e: "f64_round (d * t) = Fin e" by auto
  from assms(3) obtain s where s: "pb_fast_limit_recover_scale budget = Fin s" by (rule f64_is_finiteE)
  have "f64_mul (f64_sub (Fin p) (Fin w)) (Fin t) = Fin e" by (simp add: f64_sub_def d(1) f64_mul_def e)
  then show ?thesis by (simp add: bucket_delta_def Let_def w(1) t(1) s f64_mul_def [of "Fin e"])
qed

lemma transition_bucket_wf:
  assumes "transition_governor state input = Inr tr" and "energy_bucket_wf (gs_bucket state)"
    and "gd_estimated_package_power_mw (gt_diagnostics tr) = Fin p" and "0 \<le> p" and "p \<le> 18446744073709551616"
    and "f64_is_finite (pb_fast_limit_recover_scale (gi_power_budget input))"
  shows "energy_bucket_wf (gs_bucket (gt_next_state tr))"
proof (cases "f64_lt (Fin 0) (gi_burst input)")
  case True
  with burst_freezes_bucket [OF assms(1)] assms(2) show ?thesis by simp
next
  case False
  from energy_bucket_update_wf [OF assms(2) bucket_delta_not_NaN [OF assms(4,5,6)]]
  show ?thesis unfolding transition_bucket [OF assms(1) False] assms(3) .
qed

section \<open>Runs of the governor\<close>

text \<open>A failed step leaves the state it was given: the caller keeps using it.\<close>

definition governor_step :: "governor_state \<Rightarrow> governor_input \<Rightarrow> governor_state" where
  "governor_step state input =
     (case transition_governor state input of Inl _ \<Rightarrow> state | Inr tr \<Rightarrow> gt_next_state tr)"

interpretation governor: invariant_machine governor_step budget_cursor_wf
  by unfold_locales (auto simp: governor_step_def split: sum.split intro: transition_cursor_wf)

definition bucket_event_ok :: "f64 \<times> u64 \<times> power_budget_config \<times> bool \<Rightarrow> bool" where
  "bucket_event_ok e =
     (f64_le (Fin 0) (fst e) \<and> f64_le (fst e) (Fin 18446744073709551616)
      \<and> f64_is_finite (pb_fast_limit_recover_scale (fst (snd (snd e)))))"

definition bucket_step :: "energy_bucket_state \<Rightarrow> f64 \<times> u64 \<times> power_budget_config \<times> bool \<Rightarrow> energy_bucket_state" where
  "bucket_step b e =
     (if bucket_event_ok e
      then fst (EnergyBucketState_update b (fst e) (fst (snd e)) (fst (snd (snd e))) (snd (snd (snd e)))) else b)"

lemma bucket_step_wf: "energy_bucket_wf b \<Longrightarrow> energy_bucket_wf (bucket_step b e)"
proof (cases "bucket_event_ok e")
  case True
  assume wf: "energy_bucket_wf b"
  from True obtain p where p: "fst e = Fin p" "0 \<le> p" "p \<le> 18446744073709551616"
    by (cases "fst e") (auto simp: bucket_event_ok_def f64_le_def)
  have "bucket_delta (fst e) (fst (snd e)) (fst (snd (snd e))) \<noteq> NaN"
    using True p bucket_delta_not_NaN by (simp add: bucket_event_ok_def)
  from energy_bucket_update_wf [OF wf this] True show ?thesis by (simp add: bucket_step_def)
qed (simp add: bucket_step_def)

interpretation bucket: invariant_machine bucket_step energy_bucket_wf
  by unfold_locales (rule bucket_step_wf)

section \<open>Properties\<close>

text \<open>
  C25: over any history of intervals and budget changes in which every power estimate is between
  zero and 2^64 mW and every recovery scale is finite, the balance of the energy bucket stays
  within plus or minus its capacity, and the capacity is that of the last budget.
\<close>

theorem bucket_balance_bounded:
  assumes "list_all bucket_event_ok es"
    and "b = fold (\<lambda>(p, dt, budget, integrate) b. fst (EnergyBucketState_update b p dt budget integrate)) es
               EnergyBucketState_default"
  shows "f64_le (f64_neg (eb_capacity_mj b)) (eb_remaining_mj b) \<and> f64_le (eb_remaining_mj b) (eb_capacity_mj b)
    \<and> (es \<noteq> [] \<longrightarrow> eb_capacity_mj b = u32_as_f64 (pb_fast_limit_capacity_mj (fst (snd (snd (last es))))))"
proof -
  have run: "b = fold (\<lambda>e b. bucket_step b e) es EnergyBucketState_default"
    unfolding assms(2) using assms(1)
    by (intro fold_cong) (auto simp: bucket_step_def list_all_iff fun_eq_iff)
  have "energy_bucket_wf b" unfolding run by (rule bucket.run_inv [OF energy_bucket_default_wf])
  moreover have "eb_capacity_mj b = u32_as_f64 (pb_fast_limit_capacity_mj (fst (snd (snd (last es)))))" if "es \<noteq> []"
    using that unfolding assms(2)
    by (induction es rule: rev_induct) (auto simp: EnergyBucketState_update_def Let_def)
  ultimately show ?thesis by (simp add: energy_bucket_wf_def)
qed

definition bucket_events_example :: "(f64 \<times> u64 \<times> power_budget_config \<times> bool) list" where
  "bucket_events_example =
     [(Fin 9000, 20, gi_power_budget input_example, True), (Fin 0, 500, gi_power_budget input_example, True)]"

theorem bucket_balance_bounded_witness:
  "\<exists>b. b = fold (\<lambda>(p, dt, budget, integrate) b. fst (EnergyBucketState_update b p dt budget integrate))
           bucket_events_example EnergyBucketState_default
     \<and> f64_le (f64_neg (eb_capacity_mj b)) (eb_remaining_mj b) \<and> f64_le (eb_remaining_mj b) (eb_capacity_mj b)
     \<and> (bucket_events_example \<noteq> [] \<longrightarrow>
          eb_capacity_mj b = u32_as_f64 (pb_fast_limit_capacity_mj (fst (snd (snd (last bucket_events_example))))))"
proof -
  have "list_all bucket_event_ok bucket_events_example" by code_simp
  from bucket_balance_bounded [OF this refl] show ?thesis by blast
qed

text \<open>
  C26: over any sequence of governor steps, failed ones included, the cursor on the cap path is
  inside the path, and there is no cursor exactly when the path is empty.
\<close>

theorem budget_cursor_in_path:
  "case gs_budget_cursor (fold (\<lambda>i s. governor_step s i) inputs GovernorState_default) of
     None \<Rightarrow> gs_budget_path_len (fold (\<lambda>i s. governor_step s i) inputs GovernorState_default) = 0
   | Some c \<Rightarrow> c < gs_budget_path_len (fold (\<lambda>i s. governor_step s i) inputs GovernorState_default)"
proof -
  have "budget_cursor_wf GovernorState_default" by (simp add: budget_cursor_wf_def GovernorState_default_def)
  from governor.run_inv [OF this, of inputs] show ?thesis by (simp add: budget_cursor_wf_def)
qed

text \<open>
  while burst waives the power budget the energy bucket stands still, and so does the cap
  cursor unless the path itself changed.
\<close>

theorem burst_freezes_power_budget:
  assumes "transition_governor state input = Inr tr" and "f64_lt (Fin 0) (gi_burst input)"
  shows "gs_bucket (gt_next_state tr) = gs_bucket state
    \<and> (gs_budget_path_len (gt_next_state tr) = gs_budget_path_len state
         \<longrightarrow> gs_budget_cursor (gt_next_state tr) = gs_budget_cursor state)"
proof -
  have "gs_budget_path_len (gt_next_state tr) = gs_budget_path_len state
      \<longrightarrow> gs_budget_cursor (gt_next_state tr) = gs_budget_cursor state"
    using assms(1)
  proof (rule transition_InrE)
    fix pre :: preparation and ps
    let ?st = "state\<lparr>gs_targets := pr_targets pre, gs_previous_timestamp := Some (gi_timestamp input)\<rparr>"
    assume tr: "tr = finish_transition input (governor_elapsed_ms state input) ?st pre ps"
    show ?thesis
      unfolding tr finish_transition_state using assms(2)
      by (simp add: apply_power_budget_def Let_def reset_budget_path_def)
  qed
  with burst_freezes_bucket [OF assms] show ?thesis by blast
qed

theorem burst_freezes_power_budget_witness:
  "\<exists>tr. transition_governor GovernorState_default (input_example\<lparr>gi_burst := Fin 1\<rparr>) = Inr tr
     \<and> gs_bucket (gt_next_state tr) = gs_bucket GovernorState_default"
proof -
  have "\<forall>e \<in> set (gi_targets (input_example\<lparr>gi_burst := Fin 1\<rparr>)). governable (input_example\<lparr>gi_burst := Fin 1\<rparr>) e"
    using input_example_governable by (simp add: governable_def input_safety_cap_def split: option.splits)
  then obtain tr where tr: "transition_governor GovernorState_default (input_example\<lparr>gi_burst := Fin 1\<rparr>) = Inr tr"
    using transition_total by blast
  have "f64_lt (Fin 0) (gi_burst (input_example\<lparr>gi_burst := Fin 1\<rparr>))" by simp
  from burst_freezes_power_budget [OF tr this] tr show ?thesis by blast
qed

text \<open>
  one feedback step changes the budget cap of at most one target and moves the cursor by at
  most one place.
\<close>

theorem budget_feedback_is_gradual:
  assumes "gs_budget_cursor s = Some c"
  shows "\<exists>tid c'. gs_budget_cursor (adjust_reference_budget_cap s ps path e b) = Some c'
    \<and> c \<le> c' + 1 \<and> c' \<le> c + 1
    \<and> (\<forall>k. k \<noteq> tid \<longrightarrow> bt_get (gs_targets (adjust_reference_budget_cap s ps path e b)) k = bt_get (gs_targets s) k)"
  using assms
  by (auto simp: adjust_reference_budget_cap_def Let_def set_budget_cap_def update_entry_def bt.look_ins
      intro!: exI [of _ "pt_id (ps ! bs_cluster_index (path ! c))"])

definition prepared_example :: prepared_target where
  "prepared_example =
     \<lparr>pt_id = ''little'', pt_target = target_example, pt_model = model_example, pt_safety_cap = 2000,
      pt_raw_load = Fin 1, pt_active_load_sum = Fin 1,
      pt_demand = \<lparr>dd_raw = Fin 1, dd_ema = Fin 1, dd_predicted = Fin 1, dd_selected = Fin 1,
                   dd_prediction_bypassed_ramp = False\<rparr>,
      pt_maximum_performance = Fin 20, pt_effective_demand = Fin 1, pt_demanded_performance = Fin 20,
      pt_estimated_power_mw = Fin 40\<rparr>"

definition cursor_example :: governor_state where
  "cursor_example = GovernorState_default\<lparr>gs_budget_cursor := Some 0, gs_budget_path_len := 1\<rparr>"

theorem budget_feedback_is_gradual_witness:
  "\<exists>tid c'. gs_budget_cursor (adjust_reference_budget_cap cursor_example [prepared_example]
        (reference_budget_path [prepared_example]) (Fin 900) (Fin 100)) = Some c'
    \<and> 0 \<le> c' + 1 \<and> c' \<le> 0 + 1
    \<and> (\<forall>k. k \<noteq> tid \<longrightarrow>
        bt_get (gs_targets (adjust_reference_budget_cap cursor_example [prepared_example]
          (reference_budget_path [prepared_example]) (Fin 900) (Fin 100))) k
        = bt_get (gs_targets cursor_example) k)"
  by (rule budget_feedback_is_gradual) (simp add: cursor_example_def)

text \<open>
  the cap path is ordered by cost, and each of its steps joins two control points of one
  prepared cluster, the lower below the upper.
\<close>

theorem budget_path_well_formed:
  assumes "\<forall>p \<in> set ps. energy_model_wf (pt_model p)"
  shows "sorted_wrt (\<lambda>a b. bs_key a \<le> bs_key b) (reference_budget_path ps)
    \<and> (\<forall>s \<in> set (reference_budget_path ps). bs_cluster_index s < length ps \<and> bs_lower_hz s < bs_upper_hz s
         \<and> {bs_lower_hz s, bs_upper_hz s}
             \<subseteq> eo_frequency_hz ` set (em_control_opps (pt_model (ps ! bs_cluster_index s))))"
  using budget_path_sorted budget_path_step [OF _ assms] by blast

theorem budget_path_well_formed_witness:
  "sorted_wrt (\<lambda>a b. bs_key a \<le> bs_key b) (reference_budget_path [prepared_example])
    \<and> list_all (\<lambda>s. bs_cluster_index s < length [prepared_example]
         \<and> bs_lower_hz s < bs_upper_hz s
         \<and> {bs_lower_hz s, bs_upper_hz s}
             \<subseteq> eo_frequency_hz ` set (em_control_opps (pt_model ([prepared_example] ! bs_cluster_index s))))
         (reference_budget_path [prepared_example])"
  unfolding list_all_iff
  by (rule budget_path_well_formed) (simp add: prepared_example_def model_example_wf)

text \<open>
  the ramp only delays: its floor never exceeds the cap and never falls as the ramp advances.
\<close>

theorem ramp_floor_monotone:
  assumes "energy_model_wf m" and "f64_le p q"
  shows "ramp_limited_floor m requested cap p \<le> ramp_limited_floor m requested cap q
    \<and> ramp_limited_floor m requested cap q \<le> cap"
  using ramp_limited_floor_mono [OF assms] ramp_limited_floor_le_cap by blast

theorem ramp_floor_monotone_witness:
  "ramp_limited_floor model_example 2000 2000 (Fin 0) \<le> ramp_limited_floor model_example 2000 2000 (Fin 1)
   \<and> ramp_limited_floor model_example 2000 2000 (Fin 1) \<le> 2000"
  by (rule ramp_floor_monotone [OF model_example_wf]) simp

text \<open>
  within the minimum residency of the last change, and unless the ramp is bypassed or the cap
  has come down, the selected floor does not rise above the previous one.
\<close>

theorem dwell_blocks_upward_changes:
  assumes "bt_get (gs_targets s) (pt_id p) = Some ts"
    and "tg_last_limits ts = Some previous" and "tg_last_change_at ts = Some changed"
    and "saturating_duration_since (gi_timestamp input) changed < gc_min_opp_residency_ms (gi_config input)"
    and "max_hz previous \<le> bo_cap_hz plan"
  shows "bo_floor_hz (select_plan input s False progress (p, plan)) \<le> min_hz previous"
  using assms by (rule select_plan_dwell)

definition dwell_example :: governor_state where
  "dwell_example = GovernorState_default
     \<lparr>gs_targets := [(''little'', TargetGovernorState_default
        \<lparr>tg_last_limits := Some \<lparr>min_hz = 1000, max_hz = 2000\<rparr>, tg_last_change_at := Some 95\<rparr>)]\<rparr>"

theorem dwell_blocks_upward_changes_witness:
  "bo_floor_hz (select_plan input_example dwell_example False (Fin 1)
     (prepared_example, \<lparr>bo_floor_hz = 2000, bo_cap_hz = 2000\<rparr>)) \<le> min_hz \<lparr>min_hz = 1000, max_hz = 2000\<rparr>"
proof (rule dwell_blocks_upward_changes [where ts = "TargetGovernorState_default
    \<lparr>tg_last_limits := Some \<lparr>min_hz = 1000, max_hz = 2000\<rparr>, tg_last_change_at := Some 95\<rparr>" and changed = 95])
  show "saturating_duration_since (gi_timestamp input_example) 95
      < gc_min_opp_residency_ms (gi_config input_example)" by code_simp
qed (simp_all add: dwell_example_def prepared_example_def bt_get_def)

end
