(* ===== verification/Checks.thy ===== *)
theory Checks
  imports Config
begin

text \<open>
  The small validators of \<open>crates/uperf-core/src/config.rs\<close>. A validator that pushes onto
  \<open>issues\<close> is here the function that returns the issues it pushes, in order; the rules of the
  collection \<open>validation\<close> say when it pushes none. The regex engine is a parameter: \<open>rx_new\<close> is
  \<open>Regex::new\<close>, with the text of the error on failure.
\<close>

section \<open>Issues and loops over documents\<close>

definition report :: "bool \<Rightarrow> string \<Rightarrow> message \<Rightarrow> validation_issue list" where
  "report bad path msg = (if bad then [\<lparr>issue_path = path, issue_message = msg\<rparr>] else [])"

lemma report_Nil [simp, validation]: "report bad path msg = [] \<longleftrightarrow> \<not> bad"
  by (simp add: report_def)

text \<open>\<open>for (index, x) in xs.iter().enumerate()\<close> without loop-carried state.\<close>

definition for_each :: "(nat \<Rightarrow> 'a \<Rightarrow> 'i list) \<Rightarrow> 'a list \<Rightarrow> 'i list" where
  "for_each f xs = concat (map (\<lambda>(i, x). f i x) (enumerate_list xs))"

lemma for_each_Nil [validation]: "for_each f xs = [] \<longleftrightarrow> (\<forall>i < length xs. f i (xs ! i) = [])"
proof -
  have "set (enumerate_list xs) = (\<lambda>i. (i, xs ! i)) ` {..<length xs}"
    using enumerate_list_nth [of _ _ xs] by auto
  then show ?thesis by (auto simp: for_each_def concat_eq_Nil_conv)
qed

lemma for_each_mem: "for_each f xs = [] \<Longrightarrow> x \<in> set xs \<Longrightarrow> \<exists>i. f i x = []"
  by (auto simp: for_each_Nil in_set_conv_nth)

text \<open>The same with state carried from one iteration to the next.\<close>

fun walk :: "(nat \<Rightarrow> 's \<Rightarrow> 'a \<Rightarrow> 'i list \<times> 's) \<Rightarrow> nat \<Rightarrow> 's \<Rightarrow> 'a list \<Rightarrow> 'i list \<times> 's" where
  "walk f i s [] = ([], s)"
| "walk f i s (x # xs) =
     (let r = f i s x; rest = walk f (i + 1) (snd r) xs in (fst r @ fst rest, snd rest))"

lemma walk_Nil_mem:
  "fst (walk f i s xs) = [] \<Longrightarrow> x \<in> set xs \<Longrightarrow> \<exists>j t. fst (f j t x) = []"
  by (induction xs arbitrary: i s) (auto simp: Let_def)

text \<open>
  A loop that inserts the key of every element into a set and reports a key that is already
  there. When it reports nothing, the keys are distinct and were not in the set before.
\<close>

locale unique_keys =
  fixes step :: "nat \<Rightarrow> 's \<Rightarrow> 'a \<Rightarrow> 'i list \<times> 's"
    and key :: "'a \<Rightarrow> 'k"
    and seen :: "'s \<Rightarrow> 'k set"
  assumes reports: "fst (step i s x) = [] \<Longrightarrow> key x \<notin> seen s"
    and tracks: "seen (snd (step i s x)) = insert (key x) (seen s)"
begin

lemma seen_walk: "seen (snd (walk step i s xs)) = seen s \<union> key ` set xs"
  by (induction xs arbitrary: i s) (auto simp: Let_def tracks)

lemma walk_distinct:
  "fst (walk step i s xs) = [] \<Longrightarrow> distinct (map key xs) \<and> key ` set xs \<inter> seen s = {}"
proof (induction xs arbitrary: i s)
  case (Cons x xs)
  then have "fst (step i s x) = []" and "fst (walk step (i + 1) (snd (step i s x)) xs) = []"
    by (simp_all add: Let_def)
  from reports [OF this(1)] Cons.IH [OF this(2)] show ?case by (auto simp: tracks)
qed simp

end

section \<open>Leaf validators\<close>

definition validate_schema_version :: "u32 \<Rightarrow> validation_issue list" where
  "validate_schema_version version =
     report (version \<noteq> CONFIG_SCHEMA_VERSION) ''schema_version''
       (Msg (''expected '' @ show_int (uint CONFIG_SCHEMA_VERSION) @ '', got '' @ show_int (uint version)))"

definition validate_name :: "string \<Rightarrow> string \<Rightarrow> validation_issue list" where
  "validate_name path value =
     (let trimmed = trim (chars value)
      in if trimmed = [] then report True path (Msg ''must not be empty'')
         else if 128 < utf8_len trimmed then report True path (Msg ''must not exceed 128 bytes'')
         else report (list_ex is_control trimmed) path (Msg ''must not contain control characters''))"

definition validate_collection_len :: "string \<Rightarrow> usize \<Rightarrow> usize \<Rightarrow> validation_issue list" where
  "validate_collection_len path actual maximum =
     report (maximum < actual) path
       (Msg (''must not contain more than '' @ show_nat maximum @ '' entries (got '' @ show_nat actual @ '')''))"

definition forbidden_component :: "component \<Rightarrow> bool" where
  "forbidden_component c = (c = ParentDir \<or> c = CurDir)"

definition validate_sysfs_directory :: "string \<Rightarrow> string \<Rightarrow> validation_issue list" where
  "validate_sysfs_directory path value =
     (let under_allowed_root =
            (path_starts_with value ''/sys/devices'' \<or> path_starts_with value ''/sys/class'')
      in report (\<not> path_is_absolute value \<or> list_ex forbidden_component (path_components value)
                 \<or> \<not> under_allowed_root)
           path (Msg ''must be an absolute normalized directory below /sys/devices or /sys/class''))"

definition validate_ratio :: "string \<Rightarrow> f64 \<Rightarrow> f64 \<Rightarrow> f64 \<Rightarrow> validation_issue list" where
  "validate_ratio path value minimum maximum =
     report (\<not> f64_is_finite value \<or> \<not> (f64_le minimum value \<and> f64_le value maximum)) path
       (RatioMsg minimum maximum)"

definition MAX_DURATION_MS :: u64 where
  "MAX_DURATION_MS = 24 * 60 * 60 * 1000"

definition validate_positive_duration :: "string \<Rightarrow> u64 \<Rightarrow> validation_issue list" where
  "validate_positive_duration path value =
     report (value = 0 \<or> MAX_DURATION_MS < value) path
       (Msg (''must be in 1..='' @ show_int (uint MAX_DURATION_MS) @ '' milliseconds''))"

definition finish_validation :: "validation_issue list \<Rightarrow> (validation_issue list, unit) result" where
  "finish_validation issues = (if issues = [] then Inr () else Inl issues)"

lemma finish_validation_ok [validation]: "finish_validation issues = Inr () \<longleftrightarrow> issues = []"
  by (simp add: finish_validation_def)

lemma leaf_validators_Nil [validation]:
  "validate_schema_version v = [] \<longleftrightarrow> v = CONFIG_SCHEMA_VERSION"
  "validate_collection_len p n m = [] \<longleftrightarrow> n \<le> m"
  "validate_ratio p x lo hi = [] \<longleftrightarrow> f64_is_finite x \<and> f64_le lo x \<and> f64_le x hi"
  "validate_positive_duration p d = [] \<longleftrightarrow> d \<noteq> 0 \<and> d \<le> MAX_DURATION_MS"
  by (auto simp: validate_schema_version_def validate_collection_len_def validate_ratio_def
      validate_positive_duration_def)

section \<open>Matchers and regular expressions\<close>

definition validate_regex :: "(string \<Rightarrow> (string, 'r) result) \<Rightarrow> string \<Rightarrow> string \<Rightarrow> validation_issue list" where
  "validate_regex rx_new path value =
     (if value = [] then report True path (Msg ''must not be empty'')
      else if 1024 < int (length value) then report True path (Msg ''must not exceed 1024 bytes'')
      else case rx_new value of
             Inl error \<Rightarrow> report True path (RegexMsg error)
           | Inr _ \<Rightarrow> [])"

definition validate_optional_text :: "string \<Rightarrow> string option \<Rightarrow> validation_issue list" where
  "validate_optional_text path value =
     (case value of None \<Rightarrow> [] | Some v \<Rightarrow> report (trim (chars v) = []) path (Msg ''must not be empty''))"

definition validate_matcher ::
  "(string \<Rightarrow> (string, 'r) result) \<Rightarrow> string \<Rightarrow> workload_matcher \<Rightarrow> validation_issue list" where
  "validate_matcher rx_new path matcher =
     report (wm_executable matcher = None \<and> wm_desktop_id matcher = None \<and> wm_comm_regex matcher = None)
       path (Msg ''at least one matcher field is required'')
     @ validate_optional_text (dot path ''executable'') (wm_executable matcher)
     @ validate_optional_text (dot path ''desktop_id'') (wm_desktop_id matcher)
     @ report (wm_desktop_id matcher \<noteq> None) (dot path ''desktop_id'')
         (Msg ''desktop_id matching is reserved for a future trusted desktop adapter and is unsupported in schema v2'')
     @ (case wm_comm_regex matcher of None \<Rightarrow> []
        | Some regex \<Rightarrow> validate_regex rx_new (dot path ''comm_regex'') regex)"

lemma validate_regex_ok:
  "validate_regex rx_new p v = [] \<Longrightarrow> v \<noteq> [] \<and> (\<exists>r. rx_new v = Inr r)"
  by (auto simp: validate_regex_def split: if_splits sum.splits)

text \<open>A matcher that passes selects by executable or by a pattern that compiles.\<close>

lemma validate_matcher_ok:
  assumes "validate_matcher rx_new p m = []"
  shows "wm_desktop_id m = None" and "wm_executable m \<noteq> None \<or> wm_comm_regex m \<noteq> None"
    and "wm_comm_regex m = Some v \<Longrightarrow> \<exists>r. rx_new v = Inr r"
  using assms by (auto simp: validate_matcher_def dest: validate_regex_ok)

section \<open>Application rules\<close>

definition app_rule_step ::
  "(string \<Rightarrow> (string, 'r) result) \<Rightarrow> nat \<Rightarrow> string list \<Rightarrow> app_rule \<Rightarrow> validation_issue list \<times> string list" where
  "app_rule_step rx_new index ids rule =
     (let base = at_index ''rules'' index
      in (validate_name (dot base ''id'') (ar_id rule)
          @ report (ar_id rule \<in> set ids) (dot base ''id'') (Msg ''duplicate app rule id'')
          @ validate_matcher rx_new (dot base ''matcher'') (ar_matcher rule),
          ar_id rule # ids))"

definition AppsConfig_issues :: "(string \<Rightarrow> (string, 'r) result) \<Rightarrow> apps_config \<Rightarrow> validation_issue list" where
  "AppsConfig_issues rx_new self =
     validate_schema_version (ac_schema_version self)
     @ validate_collection_len ''rules'' (length (ac_rules self)) MAX_APP_RULES
     @ fst (walk (app_rule_step rx_new) 0 [] (take MAX_APP_RULES (ac_rules self)))"

definition AppsConfig_validate ::
  "(string \<Rightarrow> (string, 'r) result) \<Rightarrow> apps_config \<Rightarrow> (validation_issue list, unit) result" where
  "AppsConfig_validate rx_new self = finish_validation (AppsConfig_issues rx_new self)"

interpretation app_rules: unique_keys "app_rule_step rx_new" ar_id set for rx_new
  by unfold_locales (simp_all add: app_rule_step_def Let_def)

lemma AppsConfig_validate_ok:
  assumes "AppsConfig_validate rx_new cfg = Inr ()"
  shows "distinct (map ar_id (ac_rules cfg))"
    and "\<forall>rule \<in> set (ac_rules cfg). \<exists>p. validate_matcher rx_new p (ar_matcher rule) = []"
proof -
  have w: "fst (walk (app_rule_step rx_new) 0 [] (ac_rules cfg)) = []"
    using assms by (auto simp: AppsConfig_validate_def AppsConfig_issues_def validation)
  from app_rules.walk_distinct [OF w] show "distinct (map ar_id (ac_rules cfg))" by simp
  show "\<forall>rule \<in> set (ac_rules cfg). \<exists>p. validate_matcher rx_new p (ar_matcher rule) = []"
    using walk_Nil_mem [OF w] by (auto simp: app_rule_step_def Let_def)
qed

section \<open>Loading a document\<close>

datatype config_load_error = TooLarge usize usize | Json string | ValidationFailed "validation_issue list"

text \<open>\<open>serde_json::from_str\<close> for the document type is the parameter \<open>from_str\<close>.\<close>

definition parse_validated ::
  "(string \<Rightarrow> (string, 'd) result) \<Rightarrow> ('d \<Rightarrow> (validation_issue list, unit) result) \<Rightarrow> string
   \<Rightarrow> (config_load_error, 'd) result" where
  "parse_validated from_str validate json =
     (if MAX_CONFIG_FILE_BYTES < length json then Inl (TooLarge (length json) MAX_CONFIG_FILE_BYTES)
      else rbind (map_err Json (from_str json)) (\<lambda>value.
           rbind (map_err ValidationFailed (validate value)) (\<lambda>_. Inr value)))"

lemma parse_validated_ok:
  assumes "parse_validated from_str validate json = Inr d"
  shows "length json \<le> MAX_CONFIG_FILE_BYTES \<and> from_str json = Inr d \<and> validate d = Inr ()"
  using assms by (auto simp: parse_validated_def rbind_Inr_iff split: if_splits)

section \<open>Properties\<close>

lemma sysfs_roots:
  "path_components ''/sys/devices'' = [RootDir, Normal ''sys'', Normal ''devices'']"
  "path_components ''/sys/class'' = [RootDir, Normal ''sys'', Normal ''class'']"
  by code_simp+

text \<open>
  a path the configuration accepts for a kernel attribute lies below \<open>/sys/devices\<close> or
  \<open>/sys/class\<close> and has no parent-directory component that could lead out again.
\<close>

theorem sysfs_path_contained:
  assumes "validate_sysfs_directory path value = []"
  shows "\<exists>root rest. path_components value = RootDir # Normal ''sys'' # Normal root # rest
    \<and> (root = ''devices'' \<or> root = ''class'') \<and> ParentDir \<notin> set rest"
proof -
  from assms have "list_all (\<lambda>c. \<not> forbidden_component c) (path_components value)"
    and "path_starts_with value ''/sys/devices'' \<or> path_starts_with value ''/sys/class''"
    by (auto simp: validate_sysfs_directory_def Let_def list_ex_iff list_all_iff)
  then show ?thesis
    by (auto simp: path_starts_with_def comps_start_with_iff sysfs_roots forbidden_component_def list_all_iff)
qed

theorem sysfs_path_contained_witness:
  "\<exists>root rest. path_components ''/sys/class/devfreq/gpu'' = RootDir # Normal ''sys'' # Normal root # rest
    \<and> (root = ''devices'' \<or> root = ''class'') \<and> ParentDir \<notin> set rest"
proof (rule sysfs_path_contained)
  show "validate_sysfs_directory ''p'' ''/sys/class/devfreq/gpu'' = []" by code_simp
qed

text \<open>
  The validator works on parsed components, so the accepted text need not be normalized, and the
  roots themselves are accepted.
\<close>

lemma sysfs_accepts_unnormalized:
  "validate_sysfs_directory p ''/sys/devices/.//cpu/'' = [] \<and> validate_sysfs_directory p ''/sys/class'' = []"
  by (simp add: validate_sysfs_directory_def path_is_absolute_def path_starts_with_def path_components_def
      has_root_def component_of_def forbidden_component_def)

text \<open>
  a document is loaded only when it is at most one mebibyte, parses, and passes its validator;
  nothing else is returned.
\<close>

theorem only_validated_documents_load:
  "parse_validated from_str validate json = Inr d \<longleftrightarrow>
   length json \<le> MAX_CONFIG_FILE_BYTES \<and> from_str json = Inr d \<and> validate d = Inr ()"
proof
  assume "parse_validated from_str validate json = Inr d"
  then show "length json \<le> MAX_CONFIG_FILE_BYTES \<and> from_str json = Inr d \<and> validate d = Inr ()"
    by (rule parse_validated_ok)
qed (simp add: parse_validated_def)

end
