(* ===== verification/Scheduler_Validation.thy ===== *)
theory Scheduler_Validation
  imports Checks
begin

text \<open>
  \<open>validate_scheduler\<close> of \<open>config.rs\<close> and its helpers: task plans and their scene patches,
  cgroup classes, the focus section and the process and thread rules.
\<close>

section \<open>Task plans\<close>

definition priority_range_text :: string where
  "priority_range_text = ''must be in 1..='' @ show_int (uint MAX_FIFO_PRIORITY)"

definition validate_task_plan :: "string \<Rightarrow> task_plan \<Rightarrow> validation_issue list" where
  "validate_task_plan path plan =
     report (case affinity plan of None \<Rightarrow> False | Some a \<Rightarrow> CpuSet_is_empty a) (dot path ''affinity'')
       (Msg ''must not be empty'')
     @ report (case nice plan of None \<Rightarrow> False | Some n \<Rightarrow> \<not> (- 20 \<le> n \<and> n \<le> 19)) (dot path ''nice'')
         (Msg ''must be in -20..=19'')
     @ report (case rt_priority plan of None \<Rightarrow> False | Some p \<Rightarrow> \<not> (1 \<le> p \<and> p \<le> MAX_FIFO_PRIORITY))
         (dot path ''rt_priority'') (Msg priority_range_text)
     @ report (case uclamp_min plan of None \<Rightarrow> False | Some m \<Rightarrow> 1024 < m) (dot path ''uclamp_min'')
         (Msg ''must not exceed 1024'')
     @ report (case uclamp_max plan of None \<Rightarrow> False | Some m \<Rightarrow> 1024 < m) (dot path ''uclamp_max'')
         (Msg ''must not exceed 1024'')
     @ report (case (uclamp_min plan, uclamp_max plan) of
                 (Some minimum, Some maximum) \<Rightarrow> maximum < minimum | _ \<Rightarrow> False)
         path (Msg ''uclamp_min must not exceed uclamp_max when both are set'')"

definition validate_fifo_plan ::
  "string \<Rightarrow> task_plan \<Rightarrow> bool \<Rightarrow> realtime_scheduler_config \<Rightarrow> validation_issue list" where
  "validate_fifo_plan path plan has_affinity_group realtime =
     report (\<not> rt_enabled realtime) (dot path ''scheduling_class'')
       (Msg ''fifo requires scheduler.realtime.enabled'')
     @ (case rt_priority plan of
          Some p \<Rightarrow> report (rt_max_priority realtime < p) (dot path ''rt_priority'')
            (Msg (''must not exceed scheduler.realtime.max_priority ('' @ show_int (uint (rt_max_priority realtime)) @ '')''))
        | None \<Rightarrow> report True (dot path ''rt_priority'') (Msg ''is required for fifo''))
     @ report (affinity plan = None \<and> \<not> has_affinity_group) (dot path ''affinity'')
         (Msg ''fifo requires an explicit affinity or affinity_group'')
     @ report (case affinity plan of None \<Rightarrow> False
               | Some a \<Rightarrow> \<not> CpuSet_is_disjoint a (rt_housekeeping_cpus realtime)) (dot path ''affinity'')
         (Msg ''fifo affinity must exclude every housekeeping CPU'')"

definition validate_effective_task_plan ::
  "string \<Rightarrow> task_plan \<Rightarrow> bool \<Rightarrow> realtime_scheduler_config \<Rightarrow> validation_issue list" where
  "validate_effective_task_plan path plan has_affinity_group realtime =
     validate_task_plan path plan
     @ (if tp_scheduling_class plan = Some Fifo then validate_fifo_plan path plan has_affinity_group realtime
        else report (rt_priority plan \<noteq> None) (dot path ''rt_priority'')
               (Msg ''is valid only when scheduling_class is fifo''))"

section \<open>Task profiles and cgroup classes\<close>

definition validate_scene_plan ::
  "string \<Rightarrow> task_profile_config \<Rightarrow> realtime_scheduler_config \<Rightarrow> scheduler_scene \<times> task_plan
   \<Rightarrow> validation_issue list" where
  "validate_scene_plan base profile realtime entry =
     (let path = dot (dot base ''scenes'') (scheduler_scene_to_string (fst entry))
      in validate_task_plan path (snd entry)
         @ validate_effective_task_plan path (merge_task_plan (tpr_plan profile) (snd entry))
             (tpr_affinity_group profile \<noteq> None) realtime)"

definition task_profile_step ::
  "realtime_scheduler_config \<Rightarrow> nat \<Rightarrow> string list \<Rightarrow> task_profile_config
   \<Rightarrow> validation_issue list \<times> string list" where
  "task_profile_step realtime index task_profiles profile =
     (let base = at_index ''scheduler.task_profiles'' index
      in (validate_name (dot base ''id'') (tpr_id profile)
          @ report (tpr_id profile \<in> set task_profiles) (dot base ''id'') (Msg ''duplicate task profile id'')
          @ (case tpr_affinity_group profile of None \<Rightarrow> []
             | Some g \<Rightarrow> validate_name (dot base ''affinity_group'') g
                 @ report (affinity (tpr_plan profile) \<noteq> None) base
                     (Msg ''affinity_group and plan.affinity are mutually exclusive''))
          @ validate_effective_task_plan (dot base ''plan'') (tpr_plan profile)
              (tpr_affinity_group profile \<noteq> None) realtime
          @ concat (map (validate_scene_plan base profile realtime) (tpr_scenes profile)),
          tpr_id profile # task_profiles))"

definition cgroup_class_step ::
  "nat \<Rightarrow> string list \<Rightarrow> cgroup_class_config \<Rightarrow> validation_issue list \<times> string list" where
  "cgroup_class_step index cgroups class =
     (let base = at_index ''scheduler.cgroup_classes'' index
      in (validate_name (dot base ''id'') (cg_id class)
          @ report (cg_id class \<in> set cgroups) (dot base ''id'') (Msg ''duplicate cgroup class id'')
          @ (case cg_allowed_cpu_group class of None \<Rightarrow> []
             | Some g \<Rightarrow> validate_name (dot base ''allowed_cpu_group'') g)
          @ report (cg_allowed_cpu_group class \<noteq> None \<and> \<not> CpuSet_is_empty (cg_allowed_cpus class)) base
              (Msg ''allowed_cpu_group and allowed_cpus are mutually exclusive'')
          @ report (cg_allowed_cpu_group class = None \<and> CpuSet_is_empty (cg_allowed_cpus class))
              (dot base ''allowed_cpus'')
              (Msg ''must contain at least one CPU when allowed_cpu_group is unset'')
          @ report (\<not> (1 \<le> cg_cpu_weight class \<and> cg_cpu_weight class \<le> 10000)) (dot base ''cpu_weight'')
              (Msg ''must be in 1..=10000''),
          cg_id class # cgroups))"

section \<open>Focus\<close>

definition validate_focus ::
  "(string \<Rightarrow> (string, 'r) result) \<Rightarrow> focus_config \<Rightarrow> string list \<Rightarrow> validation_issue list" where
  "validate_focus rx_new focus task_profiles =
     validate_collection_len ''scheduler.focus.protected'' (length (fc_protected focus)) MAX_FOCUS_PROTECTED
     @ (case fc_task_profile focus of
          Some profile \<Rightarrow> report (profile \<notin> set task_profiles) ''scheduler.focus.task_profile''
            (Msg ''references an unknown task profile'')
        | None \<Rightarrow> report (fc_enabled focus) ''scheduler.focus.task_profile''
            (Msg ''is required when focus is enabled''))
     @ report (\<not> (15000 \<le> fc_lease_ttl_ms focus \<and> fc_lease_ttl_ms focus \<le> 600000))
         ''scheduler.focus.lease_ttl_ms'' (Msg ''must be in 15000..=600000'')
     @ report (2000 < fc_debounce_ms focus) ''scheduler.focus.debounce_ms'' (Msg ''must not exceed 2000'')
     @ report (fc_lease_ttl_ms focus \<le> fc_debounce_ms focus) ''scheduler.focus.debounce_ms''
         (Msg ''must be shorter than lease_ttl_ms'')
     @ for_each (\<lambda>index matcher. validate_matcher rx_new (at_index ''scheduler.focus.protected'' index) matcher)
         (take MAX_FOCUS_PROTECTED (fc_protected focus))"

section \<open>Process rules\<close>

definition total_thread_rules :: "scheduler_config \<Rightarrow> usize" where
  "total_thread_rules config =
     fold (\<lambda>rule n. n + length (pr_threads rule)) (take MAX_PROCESS_RULES (sc_process_rules config)) 0"

definition validate_thread_rule ::
  "(string \<Rightarrow> (string, 'r) result) \<Rightarrow> string list \<Rightarrow> string \<Rightarrow> nat \<Rightarrow> thread_rule_config
   \<Rightarrow> validation_issue list" where
  "validate_thread_rule rx_new task_profiles base thread_index thread =
     (let thread_base = at_index (dot base ''threads'') thread_index
      in (case tr_selector thread of
            CommRegex pattern \<Rightarrow> validate_regex rx_new (dot thread_base ''selector.pattern'') pattern
          | Leader \<Rightarrow> [])
         @ report (tr_task_profile thread \<notin> set task_profiles) (dot thread_base ''task_profile'')
             (Msg ''references an unknown task profile''))"

definition unknown_reference :: "string \<Rightarrow> string list \<Rightarrow> string option \<Rightarrow> string \<Rightarrow> validation_issue list" where
  "unknown_reference path known reference msg =
     (case reference of None \<Rightarrow> [] | Some r \<Rightarrow> report (r \<notin> set known) path (Msg msg))"

definition process_rule_step ::
  "(string \<Rightarrow> (string, 'r) result) \<Rightarrow> string list \<Rightarrow> string list \<Rightarrow> nat \<Rightarrow> usize \<Rightarrow> process_rule_config
   \<Rightarrow> validation_issue list \<times> usize" where
  "process_rule_step rx_new task_profiles cgroups index validated_thread_rules rule =
     (let base = at_index ''scheduler.process_rules'' index;
          thread_limit = min MAX_THREAD_RULES_PER_PROCESS (MAX_TOTAL_THREAD_RULES - validated_thread_rules)
      in (validate_name (dot base ''name'') (pr_name rule)
          @ validate_matcher rx_new (dot base ''matcher'') (pr_matcher rule)
          @ unknown_reference (dot base ''task_profile'') task_profiles (pr_task_profile rule)
              ''references an unknown task profile''
          @ unknown_reference (dot base ''cgroup_class'') cgroups (pr_cgroup_class rule)
              ''references an unknown cgroup class''
          @ validate_collection_len (dot base ''threads'') (length (pr_threads rule)) MAX_THREAD_RULES_PER_PROCESS
          @ for_each (validate_thread_rule rx_new task_profiles base) (take thread_limit (pr_threads rule)),
          validated_thread_rules + min (length (pr_threads rule)) thread_limit))"

definition validate_process_rules ::
  "(string \<Rightarrow> (string, 'r) result) \<Rightarrow> scheduler_config \<Rightarrow> string list \<Rightarrow> string list \<Rightarrow> validation_issue list" where
  "validate_process_rules rx_new config task_profiles cgroups =
     validate_collection_len ''scheduler.process_rules[].threads'' (total_thread_rules config)
       MAX_TOTAL_THREAD_RULES
     @ fst (walk (process_rule_step rx_new task_profiles cgroups) 0 0
              (take MAX_PROCESS_RULES (sc_process_rules config)))"

section \<open>The scheduler section\<close>

definition validate_scheduler ::
  "(string \<Rightarrow> (string, 'r) result) \<Rightarrow> scheduler_config \<Rightarrow> validation_issue list" where
  "validate_scheduler rx_new config =
     (let realtime = sc_realtime config;
          profiles = walk (task_profile_step realtime) 0 [] (take MAX_TASK_PROFILES (sc_task_profiles config));
          classes = walk cgroup_class_step 0 [] (take MAX_CGROUP_CLASSES (sc_cgroup_classes config))
      in report (rt_enabled realtime \<and> \<not> sc_enabled config) ''scheduler.realtime.enabled''
           (Msg ''requires scheduler.enabled'')
         @ report (\<not> (1 \<le> rt_max_priority realtime \<and> rt_max_priority realtime \<le> MAX_FIFO_PRIORITY))
             ''scheduler.realtime.max_priority'' (Msg priority_range_text)
         @ report (rt_enabled realtime \<and> CpuSet_is_empty (rt_housekeeping_cpus realtime))
             ''scheduler.realtime.housekeeping_cpus''
             (Msg ''must reserve at least one CPU when realtime is enabled'')
         @ validate_collection_len ''scheduler.task_profiles'' (length (sc_task_profiles config)) MAX_TASK_PROFILES
         @ validate_collection_len ''scheduler.process_rules'' (length (sc_process_rules config)) MAX_PROCESS_RULES
         @ validate_collection_len ''scheduler.cgroup_classes'' (length (sc_cgroup_classes config)) MAX_CGROUP_CLASSES
         @ fst profiles @ fst classes
         @ validate_focus rx_new (sc_focus config) (snd profiles)
         @ validate_process_rules rx_new config (snd profiles) (snd classes))"

section \<open>What a valid scheduler section guarantees\<close>

interpretation task_profiles: unique_keys "task_profile_step realtime" tpr_id set for realtime
  by unfold_locales (simp_all add: task_profile_step_def Let_def)

interpretation cgroup_classes: unique_keys cgroup_class_step cg_id set
  by unfold_locales (simp_all add: cgroup_class_step_def Let_def)

text \<open>A plan the validators accept: every field in the range the kernel interface has.\<close>

definition task_plan_ok :: "task_plan \<Rightarrow> bool" where
  "task_plan_ok plan =
     (affinity plan \<noteq> Some []
      \<and> (case nice plan of None \<Rightarrow> True | Some n \<Rightarrow> - 20 \<le> n \<and> n \<le> 19)
      \<and> (case rt_priority plan of None \<Rightarrow> True | Some p \<Rightarrow> 1 \<le> p \<and> p \<le> MAX_FIFO_PRIORITY)
      \<and> (case uclamp_min plan of None \<Rightarrow> True | Some m \<Rightarrow> m \<le> 1024)
      \<and> (case uclamp_max plan of None \<Rightarrow> True | Some m \<Rightarrow> m \<le> 1024)
      \<and> (case (uclamp_min plan, uclamp_max plan) of (Some a, Some b) \<Rightarrow> a \<le> b | _ \<Rightarrow> True))"

lemma validate_task_plan_ok [validation]: "validate_task_plan path plan = [] \<longleftrightarrow> task_plan_ok plan"
  by (auto simp: validate_task_plan_def task_plan_ok_def CpuSet_is_empty_def not_less split: option.splits)

text \<open>
  A real-time plan is opted in, bounded in priority and kept off the housekeeping CPUs; a plan
  of another class carries no real-time priority.
\<close>

definition realtime_plan_ok :: "realtime_scheduler_config \<Rightarrow> task_plan \<Rightarrow> bool" where
  "realtime_plan_ok realtime plan =
     (if tp_scheduling_class plan = Some Fifo
      then rt_enabled realtime
           \<and> (\<exists>p. rt_priority plan = Some p \<and> p \<le> rt_max_priority realtime)
           \<and> (\<forall>a. affinity plan = Some a \<longrightarrow> set a \<inter> set (rt_housekeeping_cpus realtime) = {})
      else rt_priority plan = None)"

lemma validate_effective_task_plan_ok:
  assumes "validate_effective_task_plan path plan g realtime = []"
  shows "task_plan_ok plan" and "realtime_plan_ok realtime plan"
    and "tp_scheduling_class plan = Some Fifo \<Longrightarrow> affinity plan \<noteq> None \<or> g"
  using assms
  by (auto simp: validate_effective_task_plan_def validation validate_fifo_plan_def realtime_plan_ok_def
      CpuSet_relations split: if_splits option.splits)

lemma validate_schedulerE:
  assumes "validate_scheduler rx_new c = []"
  obtains "fst (walk (task_profile_step (sc_realtime c)) 0 [] (sc_task_profiles c)) = []"
    and "validate_focus rx_new (sc_focus c) (snd (walk (task_profile_step (sc_realtime c)) 0 [] (sc_task_profiles c))) = []"
    and "validate_process_rules rx_new c (snd (walk (task_profile_step (sc_realtime c)) 0 [] (sc_task_profiles c)))
           (snd (walk cgroup_class_step 0 [] (sc_cgroup_classes c))) = []"
    and "length (sc_process_rules c) \<le> MAX_PROCESS_RULES"
    and "1 \<le> rt_max_priority (sc_realtime c) \<and> rt_max_priority (sc_realtime c) \<le> MAX_FIFO_PRIORITY"
    and "rt_enabled (sc_realtime c) \<longrightarrow> sc_enabled c \<and> rt_housekeeping_cpus (sc_realtime c) \<noteq> []"
  using assms by (auto simp: validate_scheduler_def Let_def validation CpuSet_is_empty_def)

lemma known_task_profiles:
  "set (snd (walk (task_profile_step realtime) 0 [] ps)) = tpr_id ` set ps"
  using task_profiles.seen_walk [of realtime 0 "[]" ps] by simp

lemma known_cgroup_classes: "set (snd (walk cgroup_class_step 0 [] cs)) = cg_id ` set cs"
  using cgroup_classes.seen_walk [of 0 "[]" cs] by simp

lemma task_profile_step_ok:
  assumes "fst (task_profile_step realtime i ids p) = []"
  shows "tpr_affinity_group p \<noteq> None \<Longrightarrow> affinity (tpr_plan p) = None"
    and "\<exists>path. validate_effective_task_plan path (tpr_plan p) (tpr_affinity_group p \<noteq> None) realtime = []"
    and "(sc, patch) \<in> set (tpr_scenes p) \<Longrightarrow>
         \<exists>path. validate_effective_task_plan path (merge_task_plan (tpr_plan p) patch)
                 (tpr_affinity_group p \<noteq> None) realtime = []"
  using assms by (fastforce simp: task_profile_step_def validate_scene_plan_def Let_def split: option.splits)+

text \<open>Within the limits the walk over process rules inspects every thread rule.\<close>

lemma total_thread_rules_sum:
  "length (sc_process_rules c) \<le> MAX_PROCESS_RULES \<Longrightarrow>
   total_thread_rules c = sum_list (map (length \<circ> pr_threads) (sc_process_rules c))"
proof -
  have "fold (\<lambda>rule n. n + length (pr_threads rule)) rs n = n + sum_list (map (length \<circ> pr_threads) rs)"
    for rs :: "process_rule_config list" and n
    by (induction rs arbitrary: n) auto
  then show "length (sc_process_rules c) \<le> MAX_PROCESS_RULES \<Longrightarrow> ?thesis"
    by (simp add: total_thread_rules_def)
qed

definition process_rule_ok ::
  "(string \<Rightarrow> (string, 'r) result) \<Rightarrow> string set \<Rightarrow> process_rule_config \<Rightarrow> bool" where
  "process_rule_ok rx_new profiles rule =
     ((\<exists>p. validate_matcher rx_new p (pr_matcher rule) = [])
      \<and> (\<forall>r. pr_task_profile rule = Some r \<longrightarrow> r \<in> profiles)
      \<and> (\<forall>t \<in> set (pr_threads rule). tr_task_profile t \<in> profiles
           \<and> (\<forall>pat. tr_selector t = CommRegex pat \<longrightarrow> (\<exists>r. rx_new pat = Inr r))))"

lemma process_rule_step_ok:
  assumes "fst (process_rule_step rx_new tps cgs i n rule) = []"
    and "n + length (pr_threads rule) \<le> MAX_TOTAL_THREAD_RULES"
  shows "process_rule_ok rx_new (set tps) rule"
    and "snd (process_rule_step rx_new tps cgs i n rule) = n + length (pr_threads rule)"
proof -
  let ?limit = "min MAX_THREAD_RULES_PER_PROCESS (MAX_TOTAL_THREAD_RULES - n)"
  let ?base = "at_index ''scheduler.process_rules'' i"
  note issues = assms(1) [unfolded process_rule_step_def Let_def fst_conv append_is_Nil_conv]
  then have "length (pr_threads rule) \<le> ?limit" using assms(2) by (simp add: validation)
  then show "snd (process_rule_step rx_new tps cgs i n rule) = n + length (pr_threads rule)"
    by (simp add: process_rule_step_def Let_def)
  from \<open>length (pr_threads rule) \<le> ?limit\<close>
  have threads: "for_each (validate_thread_rule rx_new tps ?base) (pr_threads rule) = []"
    using issues by simp
  have "tr_task_profile t \<in> set tps \<and> (\<forall>pat. tr_selector t = CommRegex pat \<longrightarrow> (\<exists>r. rx_new pat = Inr r))"
    if "t \<in> set (pr_threads rule)" for t
    using for_each_mem [OF threads that]
    by (auto simp: validate_thread_rule_def Let_def dest: validate_regex_ok)
  with issues show "process_rule_ok rx_new (set tps) rule"
    by (auto simp: process_rule_ok_def unknown_reference_def)
qed

lemma process_rules_walk_ok:
  assumes "fst (walk (process_rule_step rx_new tps cgs) i n rules) = []"
    and "n + sum_list (map (length \<circ> pr_threads) rules) \<le> MAX_TOTAL_THREAD_RULES"
  shows "\<forall>rule \<in> set rules. process_rule_ok rx_new (set tps) rule"
  using assms
proof (induction rules arbitrary: i n)
  case (Cons r rules)
  from Cons.prems have step: "fst (process_rule_step rx_new tps cgs i n r) = []"
    and rest: "fst (walk (process_rule_step rx_new tps cgs) (i + 1)
        (snd (process_rule_step rx_new tps cgs i n r)) rules) = []"
    and bound: "n + length (pr_threads r) \<le> MAX_TOTAL_THREAD_RULES"
    by (simp_all add: Let_def)
  from process_rule_step_ok [OF step bound] Cons.IH [OF rest] Cons.prems(2) show ?case by simp
qed simp

lemma validate_scheduler_rules:
  assumes "validate_scheduler rx_new c = []"
  shows "\<forall>rule \<in> set (sc_process_rules c). process_rule_ok rx_new (tpr_id ` set (sc_task_profiles c)) rule"
  using assms
proof (rule validate_schedulerE)
  let ?tps = "snd (walk (task_profile_step (sc_realtime c)) 0 [] (sc_task_profiles c))"
  let ?cgs = "snd (walk cgroup_class_step 0 [] (sc_cgroup_classes c))"
  assume rules: "validate_process_rules rx_new c ?tps ?cgs = []"
    and len: "length (sc_process_rules c) \<le> MAX_PROCESS_RULES"
  from rules len have "fst (walk (process_rule_step rx_new ?tps ?cgs) 0 0 (sc_process_rules c)) = []"
    and "0 + sum_list (map (length \<circ> pr_threads) (sc_process_rules c)) \<le> MAX_TOTAL_THREAD_RULES"
    by (simp_all add: validate_process_rules_def validation total_thread_rules_sum [OF len])
  from process_rules_walk_ok [OF this] show ?thesis by (simp add: known_task_profiles)
qed

lemma validate_scheduler_focus:
  assumes "validate_scheduler rx_new c = []"
  shows "fc_task_profile (sc_focus c) = Some r \<Longrightarrow> r \<in> tpr_id ` set (sc_task_profiles c)"
    and "\<forall>m \<in> set (fc_protected (sc_focus c)). \<exists>p. validate_matcher rx_new p m = []"
proof -
  let ?tps = "snd (walk (task_profile_step (sc_realtime c)) 0 [] (sc_task_profiles c))"
  from assms have f: "validate_focus rx_new (sc_focus c) ?tps = []" by (rule validate_schedulerE)
  then show "fc_task_profile (sc_focus c) = Some r \<Longrightarrow> r \<in> tpr_id ` set (sc_task_profiles c)"
    by (auto simp: validate_focus_def known_task_profiles)
  from f have "for_each (\<lambda>i m. validate_matcher rx_new (at_index ''scheduler.focus.protected'' i) m)
      (fc_protected (sc_focus c)) = []"
    by (simp add: validate_focus_def validation)
  then show "\<forall>m \<in> set (fc_protected (sc_focus c)). \<exists>p. validate_matcher rx_new p m = []"
    by (meson for_each_mem)
qed

end
