(* ===== verification/Device_Validation.thy ===== *)
theory Device_Validation
  imports Checks
begin

text \<open>
  \<open>impl Validate for DeviceConfig\<close> and the validators it calls: frequency and energy models,
  scalar domains, thermal zones, and the identifiers shared by all frequency and scalar targets.
\<close>

section \<open>Energy and frequency models\<close>

definition zero_field :: "string \<Rightarrow> string \<times> bool \<Rightarrow> validation_issue list" where
  "zero_field base entry = report (snd entry) (dot base (fst entry)) (Msg ''must be greater than zero'')"

definition validate_measured_point ::
  "string \<Rightarrow> measured_opp_config list \<Rightarrow> nat \<Rightarrow> measured_opp_config \<Rightarrow> validation_issue list" where
  "validate_measured_point base sorted_points index point =
     (let at_point = at_index (dot base ''points'') index
      in report (mo_frequency_hz point = 0) (dot at_point ''frequency_hz'') (Msg ''must be greater than zero'')
         @ report (mo_relative_capacity point = 0) (dot at_point ''relative_capacity'')
             (Msg ''must be greater than zero'')
         @ report (mo_power_mw_per_core point = 0) (dot at_point ''power_mw_per_core'')
             (Msg ''must be greater than zero'')
         @ (if index = 0 then []
            else let previous = sorted_points ! (index - 1)
                 in report (mo_frequency_hz previous = mo_frequency_hz point) (dot base ''points'')
                      (Msg ''contains duplicate frequencies'')
                    @ report (mo_relative_capacity point < mo_relative_capacity previous) (dot base ''points'')
                        (Msg ''relative capacity must be nondecreasing with frequency'')
                    @ report (mo_power_mw_per_core point < mo_power_mw_per_core previous) (dot base ''points'')
                        (Msg ''power must be nondecreasing with frequency'')))"

definition validate_energy_model :: "cpu_energy_model_config \<Rightarrow> string \<Rightarrow> validation_issue list" where
  "validate_energy_model model base =
     (case model of
        ReferenceCurveV1 rc \<Rightarrow>
          concat (map (zero_field base)
            [(''relative_performance'', rc_relative_performance rc = 0),
             (''typical_power_mw_per_core'', rc_typical_power_mw_per_core rc = 0),
             (''typical_frequency_hz'', rc_typical_frequency_hz rc = 0),
             (''sweet_frequency_hz'', rc_sweet_frequency_hz rc = 0),
             (''plain_frequency_hz'', rc_plain_frequency_hz rc = 0),
             (''free_frequency_hz'', rc_free_frequency_hz rc = 0)])
          @ report (\<not> (rc_free_frequency_hz rc \<le> rc_plain_frequency_hz rc
                        \<and> rc_plain_frequency_hz rc \<le> rc_sweet_frequency_hz rc
                        \<and> rc_sweet_frequency_hz rc \<le> rc_typical_frequency_hz rc))
              base (Msg ''frequencies must satisfy free <= plain <= sweet <= typical'')
      | MeasuredOppV1 points \<Rightarrow>
          if \<not> (2 \<le> length points \<and> length points \<le> 256)
          then report True (dot base ''points'') (Msg ''must contain 2..=256 measured OPPs'')
          else let sorted_points = sort_key mo_frequency_hz points
               in for_each (validate_measured_point base sorted_points) sorted_points)"

definition validate_cpu_cap :: "string \<Rightarrow> hertz \<Rightarrow> string \<times> hertz option \<Rightarrow> validation_issue list" where
  "validate_cpu_cap base floor_hz entry =
     (case snd entry of None \<Rightarrow> []
      | Some value \<Rightarrow>
          report (value = 0) (dot base (fst entry)) (Msg ''must be greater than zero'')
          @ report (value < floor_hz) (dot base (fst entry)) (Msg ''must not be lower than floor_hz''))"

definition validate_cap_order :: "string \<Rightarrow> hertz option \<Rightarrow> hertz option \<Rightarrow> validation_issue list" where
  "validate_cap_order base sensor_failure_cap critical_cap =
     (case (sensor_failure_cap, critical_cap) of
        (Some sensor_failure, Some critical) \<Rightarrow>
          report (critical < sensor_failure) (dot base ''sensor_failure_cap_hz'')
            (Msg ''must not exceed critical_cap_hz'')
      | _ \<Rightarrow> [])"

definition validate_frequency_model :: "cpu_policy_config \<Rightarrow> string \<Rightarrow> validation_issue list" where
  "validate_frequency_model policy base =
     report (cp_floor_hz policy = 0) (dot base ''floor_hz'') (Msg ''must be greater than zero'')
     @ report (cp_reference_hz policy < cp_floor_hz policy \<or> cp_efficient_cap_hz policy < cp_floor_hz policy)
         base (Msg ''reference_hz and efficient_cap_hz must not be lower than floor_hz'')
     @ concat (map (validate_cpu_cap base (cp_floor_hz policy))
         [(''admin_cap_hz'', cp_admin_cap_hz policy), (''critical_cap_hz'', cp_critical_cap_hz policy),
          (''sensor_failure_cap_hz'', cp_sensor_failure_cap_hz policy)])
     @ validate_cap_order base (cp_sensor_failure_cap_hz policy) (cp_critical_cap_hz policy)
     @ (case cp_energy_model policy of None \<Rightarrow> []
        | Some model \<Rightarrow> validate_energy_model model (dot base ''energy_model''))"

section \<open>Scalar domains\<close>

definition scalar_string_bad :: "string \<Rightarrow> bool" where
  "scalar_string_bad value =
     (value = [] \<or> 4096 < int (length value)
      \<or> list_ex (\<lambda>c. is_control c \<or> c = 10 \<or> c = 13 \<or> c = 0) (chars value))"

definition validate_scalar_domain ::
  "string \<Rightarrow> scalar_target_domain_config \<Rightarrow> cpu_set \<Rightarrow> validation_issue list" where
  "validate_scalar_domain base domain configured_cpus =
     (case domain of
        IntegerRange minimum maximum \<Rightarrow>
          report (maximum < minimum) (dot base ''domain'') (Msg ''integer range minimum must not exceed maximum'')
      | IntegerEnum values \<Rightarrow>
          report (values = []) (dot base ''domain.values'') (Msg ''must not be empty'')
          @ report (length (remdups values) \<noteq> length values) (dot base ''domain.values'')
              (Msg ''must not contain duplicates'')
      | StringEnum values \<Rightarrow>
          report (values = []) (dot base ''domain.values'') (Msg ''must not be empty'')
          @ report (length (remdups values) \<noteq> length values) (dot base ''domain.values'')
              (Msg ''must not contain duplicates'')
          @ for_each (\<lambda>index value. report (scalar_string_bad value) (at_index (dot base ''domain.values'') index)
                (Msg ''must be 1..=4096 bytes and contain no control characters'')) values
      | CpuList allowed_cpus allow_empty \<Rightarrow>
          report (CpuSet_is_empty allowed_cpus) (dot base ''domain.allowed_cpus'') (Msg ''must not be empty'')
          @ report (\<not> CpuSet_is_subset allowed_cpus configured_cpus) (dot base ''domain.allowed_cpus'')
              (Msg ''references a CPU outside the device CPU policies''))"

definition scalar_value_matches_domain :: "scalar_setting_value \<Rightarrow> scalar_target_domain_config \<Rightarrow> bool" where
  "scalar_value_matches_domain value domain =
     (case (value, domain) of
        (ScalarInteger v, IntegerRange minimum maximum) \<Rightarrow> minimum \<le> v \<and> v \<le> maximum
      | (ScalarInteger v, IntegerEnum values) \<Rightarrow> v \<in> set values
      | (ScalarString v, StringEnum values) \<Rightarrow> v \<in> set values
      | (ScalarCpuList v, CpuList allowed_cpus allow_empty) \<Rightarrow>
          (allow_empty \<or> \<not> CpuSet_is_empty v) \<and> CpuSet_is_subset v allowed_cpus
      | _ \<Rightarrow> False)"

section \<open>The loops over a device document\<close>

type_synonym device_scan = "target_id list \<times> cpu_set"

definition validate_optional_path :: "string \<Rightarrow> string option \<Rightarrow> validation_issue list" where
  "validate_optional_path path value =
     (case value of None \<Rightarrow> [] | Some v \<Rightarrow> validate_sysfs_directory path v)"

definition cpu_policy_step ::
  "nat \<Rightarrow> device_scan \<Rightarrow> cpu_policy_config \<Rightarrow> validation_issue list \<times> device_scan" where
  "cpu_policy_step index scan policy =
     (let base = at_index ''cpu_policies'' index; target_ids = fst scan; used_cpus = snd scan
      in (report (cp_id policy \<in> set target_ids) (dot base ''id'') (Msg ''duplicate frequency target id'')
          @ report (CpuSet_is_empty (cp_related_cpus policy)) (dot base ''related_cpus'')
              (Msg ''must contain at least one CPU'')
          @ report (\<not> CpuSet_is_disjoint used_cpus (cp_related_cpus policy)) (dot base ''related_cpus'')
              (Msg ''overlaps a previous CPU policy'')
          @ validate_optional_path (dot base ''sysfs_path'') (cp_sysfs_path policy)
          @ validate_frequency_model policy base,
          (cp_id policy # target_ids, fold CpuSet_insert (cp_related_cpus policy) used_cpus)))"

definition validate_cpu_group :: "cpu_set \<Rightarrow> string \<times> cpu_set \<Rightarrow> validation_issue list" where
  "validate_cpu_group used_cpus entry =
     (let path = dot ''cpu_groups'' (fst entry)
      in validate_name path (fst entry)
         @ report (CpuSet_is_empty (snd entry)) path (Msg ''must contain at least one CPU'')
         @ report (\<not> CpuSet_is_subset (snd entry) used_cpus) path
             (Msg ''references a CPU outside the device CPU policies''))"

definition devfreq_step ::
  "nat \<Rightarrow> target_id list \<Rightarrow> devfreq_target_config \<Rightarrow> validation_issue list \<times> target_id list" where
  "devfreq_step index target_ids target =
     (let base = at_index ''devfreq_targets'' index
      in (report (dt_id target \<in> set target_ids) (dot base ''id'') (Msg ''duplicate frequency target id'')
          @ validate_name (dot base ''device_name'') (dt_device_name target)
          @ validate_collection_len (dot base ''compatible'') (length (dt_compatible target))
              MAX_DEVFREQ_COMPATIBLE_STRINGS
          @ for_each (\<lambda>compatible_index compatible.
                validate_name (at_index (dot base ''compatible'') compatible_index) compatible)
              (take MAX_DEVFREQ_COMPATIBLE_STRINGS (dt_compatible target))
          @ validate_optional_path (dot base ''sysfs_path'') (dt_sysfs_path target)
          @ concat (map (zero_field base)
              [(''admin_cap_hz'', dt_admin_cap_hz target = Some 0),
               (''critical_cap_hz'', dt_critical_cap_hz target = Some 0),
               (''sensor_failure_cap_hz'', dt_sensor_failure_cap_hz target = Some 0)])
          @ validate_cap_order base (dt_sensor_failure_cap_hz target) (dt_critical_cap_hz target)
          @ report (\<not> dt_manual_only target) (dot base ''manual_only'')
              (Msg ''v2 supports devfreq targets in manual-only mode''),
          dt_id target # target_ids))"

definition scalar_target_step ::
  "cpu_set \<Rightarrow> nat \<Rightarrow> target_id list \<Rightarrow> scalar_target_config \<Rightarrow> validation_issue list \<times> target_id list" where
  "scalar_target_step used_cpus index target_ids target =
     (let base = at_index ''scalar_targets'' index
      in (report (st_id target \<in> set target_ids) (dot base ''id'') (Msg ''duplicate mutation target id'')
          @ validate_sysfs_directory (dot base ''path'') (st_path target)
          @ validate_scalar_domain base (st_domain target) used_cpus,
          st_id target # target_ids))"

definition hot_threshold :: "string \<Rightarrow> string \<times> milli_celsius \<Rightarrow> validation_issue list" where
  "hot_threshold base entry =
     report (\<not> (0 \<le> snd entry \<and> snd entry \<le> 250000)) (dot base (fst entry))
       (Msg ''hot threshold must be in 0..=250000 millidegrees Celsius'')"

definition thermal_zone_step ::
  "nat \<Rightarrow> string list \<Rightarrow> thermal_zone_config \<Rightarrow> validation_issue list \<times> string list" where
  "thermal_zone_step index zone_ids zone =
     (let base = at_index ''thermal_zones'' index
      in (validate_name (dot base ''id'') (tz_id zone)
          @ validate_name (dot base ''zone_type'') (tz_zone_type zone)
          @ report (tz_id zone \<in> set zone_ids) (dot base ''id'') (Msg ''duplicate thermal zone id'')
          @ validate_optional_path (dot base ''sysfs_path'') (tz_sysfs_path zone)
          @ report (\<not> (tz_warning zone < tz_throttled zone \<and> tz_throttled zone < tz_critical zone)) base
              (Msg ''temperature thresholds must satisfy warning < throttled < critical'')
          @ concat (map (hot_threshold base)
              [(''warning'', tz_warning zone), (''throttled'', tz_throttled zone), (''critical'', tz_critical zone)])
          @ report (tz_hysteresis zone < 0) (dot base ''hysteresis'') (Msg ''must not be negative'')
          @ report (i64_sub (tz_critical zone) (tz_warning zone) \<le> tz_hysteresis zone) (dot base ''hysteresis'')
              (Msg ''must be smaller than critical - warning'')
          @ validate_positive_duration (dot base ''dwell_ms'') (tz_dwell_ms zone)
          @ validate_positive_duration (dot base ''stale_after_ms'') (tz_stale_after_ms zone),
          tz_id zone # zone_ids))"

definition DeviceConfig_issues :: "device_config \<Rightarrow> validation_issue list" where
  "DeviceConfig_issues self =
     (let cpus = walk cpu_policy_step 0 ([], []) (take MAX_CPU_POLICIES (dc_cpu_policies self));
          used_cpus = snd (snd cpus);
          devfreq = walk devfreq_step 0 (fst (snd cpus)) (take MAX_DEVFREQ_TARGETS (dc_devfreq_targets self));
          scalars = walk (scalar_target_step used_cpus) 0 (snd devfreq)
                      (take MAX_SCALAR_TARGETS (dc_scalar_targets self));
          zones = walk thermal_zone_step 0 [] (take MAX_THERMAL_ZONES (dc_thermal_zones self))
      in validate_schema_version (dc_schema_version self)
         @ validate_name ''device_id'' (dc_device_id self)
         @ validate_collection_len ''cpu_policies'' (length (dc_cpu_policies self)) MAX_CPU_POLICIES
         @ validate_collection_len ''devfreq_targets'' (length (dc_devfreq_targets self)) MAX_DEVFREQ_TARGETS
         @ validate_collection_len ''scalar_targets'' (length (dc_scalar_targets self)) MAX_SCALAR_TARGETS
         @ validate_collection_len ''thermal_zones'' (length (dc_thermal_zones self)) MAX_THERMAL_ZONES
         @ (case dc_device_match self of None \<Rightarrow> []
            | Some device_match \<Rightarrow>
                report (dm_compatible device_match = None \<and> dm_product_name device_match = None)
                  ''device_match'' (Msg ''at least one stable device matcher is required''))
         @ report (dc_cpu_policies self = []) ''cpu_policies''
             (Msg ''at least one CPU policy selector is required'')
         @ fst cpus
         @ concat (map (validate_cpu_group used_cpus) (dc_cpu_groups self))
         @ fst devfreq @ fst scalars @ fst zones)"

definition DeviceConfig_validate :: "device_config \<Rightarrow> (validation_issue list, unit) result" where
  "DeviceConfig_validate self = finish_validation (DeviceConfig_issues self)"

section \<open>What a valid device document guarantees\<close>

interpretation cpu_policies: unique_keys cpu_policy_step cp_id "\<lambda>scan. set (fst scan)"
  by unfold_locales (simp_all add: cpu_policy_step_def Let_def)

interpretation devfreq_targets: unique_keys devfreq_step dt_id set
  by unfold_locales (simp_all add: devfreq_step_def Let_def)

interpretation scalar_targets: unique_keys "scalar_target_step used" st_id set for used
  by unfold_locales (simp_all add: scalar_target_step_def Let_def)

interpretation thermal_zones: unique_keys thermal_zone_step tz_id set
  by unfold_locales (simp_all add: thermal_zone_step_def Let_def)

definition device_scan_of :: "device_config \<Rightarrow> device_scan" where
  "device_scan_of d = snd (walk cpu_policy_step 0 ([], []) (dc_cpu_policies d))"

lemma DeviceConfig_validE:
  assumes "DeviceConfig_validate d = Inr ()"
  obtains "fst (walk cpu_policy_step 0 ([], []) (dc_cpu_policies d)) = []"
    and "fst (walk devfreq_step 0 (fst (device_scan_of d)) (dc_devfreq_targets d)) = []"
    and "fst (walk (scalar_target_step (snd (device_scan_of d))) 0
           (snd (walk devfreq_step 0 (fst (device_scan_of d)) (dc_devfreq_targets d))) (dc_scalar_targets d)) = []"
    and "fst (walk thermal_zone_step 0 [] (dc_thermal_zones d)) = []"
    and "\<forall>g \<in> set (dc_cpu_groups d). validate_cpu_group (snd (device_scan_of d)) g = []"
    and "dc_cpu_policies d \<noteq> []"
  using assms
  by (auto simp: DeviceConfig_validate_def DeviceConfig_issues_def Let_def validation device_scan_of_def)

lemma used_cpus_walk:
  "set (snd (snd (walk cpu_policy_step i scan ps))) = set (snd scan) \<union> (\<Union>p \<in> set ps. set (cp_related_cpus p))"
proof (induction ps arbitrary: i scan)
  case (Cons p ps)
  have "set (fold CpuSet_insert cs s) = set cs \<union> set s" for cs s
    by (induction cs arbitrary: s) (auto simp: CpuSet_insert_set)
  with Cons show ?case by (auto simp: Let_def cpu_policy_step_def)
qed simp

lemma cpu_policy_step_ok:
  assumes "fst (cpu_policy_step i scan p) = []"
  shows "set (cp_related_cpus p) \<inter> set (snd scan) = {}" and "cp_related_cpus p \<noteq> []"
    and "\<exists>base. validate_frequency_model p base = []"
  using assms by (auto simp: cpu_policy_step_def Let_def CpuSet_relations CpuSet_is_empty_def)

lemma cpu_walk_disjoint:
  assumes "fst (walk cpu_policy_step i scan ps) = []"
  shows "(\<forall>p \<in> set ps. set (cp_related_cpus p) \<inter> set (snd scan) = {})
      \<and> sorted_wrt (\<lambda>p q. set (cp_related_cpus p) \<inter> set (cp_related_cpus q) = {}) ps"
  using assms
proof (induction ps arbitrary: i scan)
  case (Cons p ps)
  from Cons.prems have step: "fst (cpu_policy_step i scan p) = []"
    and rest: "fst (walk cpu_policy_step (i + 1) (snd (cpu_policy_step i scan p)) ps) = []"
    by (simp_all add: Let_def)
  have "set (snd scan) \<union> set (cp_related_cpus p) \<subseteq> set (snd (snd (cpu_policy_step i scan p)))"
    using used_cpus_walk [of i scan "[p]"] by (simp add: Let_def)
  with Cons.IH [OF rest] cpu_policy_step_ok(1) [OF step] show ?case by simp blast
qed simp

lemma device_used_cpus: "set (snd (device_scan_of d)) = (\<Union>p \<in> set (dc_cpu_policies d). set (cp_related_cpus p))"
  using used_cpus_walk [of 0 "([], [])" "dc_cpu_policies d"] by (simp add: device_scan_of_def)

text \<open>The identifiers of all kinds of targets are one name space.\<close>

lemma device_target_ids_distinct:
  assumes "DeviceConfig_validate d = Inr ()"
  shows "distinct (map cp_id (dc_cpu_policies d) @ map dt_id (dc_devfreq_targets d)
                   @ map st_id (dc_scalar_targets d))"
  using assms
proof (rule DeviceConfig_validE)
  let ?scan = "device_scan_of d"
  let ?dev = "walk devfreq_step 0 (fst ?scan) (dc_devfreq_targets d)"
  assume c: "fst (walk cpu_policy_step 0 ([], []) (dc_cpu_policies d)) = []" and v: "fst ?dev = []"
    and s: "fst (walk (scalar_target_step (snd ?scan)) 0 (snd ?dev) (dc_scalar_targets d)) = []"
  have "set (fst ?scan) = cp_id ` set (dc_cpu_policies d)"
    using cpu_policies.seen_walk [of 0 "([], [])"] by (simp add: device_scan_of_def)
  moreover have "set (snd ?dev) = set (fst ?scan) \<union> dt_id ` set (dc_devfreq_targets d)"
    by (rule devfreq_targets.seen_walk)
  ultimately show ?thesis
    using cpu_policies.walk_distinct [OF c] devfreq_targets.walk_distinct [OF v]
      scalar_targets.walk_distinct [OF s]
    by auto
qed

lemma validate_frequency_model_ok:
  assumes "validate_frequency_model p base = []"
  shows "0 < cp_floor_hz p" and "cp_floor_hz p \<le> cp_reference_hz p" and "cp_floor_hz p \<le> cp_efficient_cap_hz p"
    and "c \<in> set (flatten [cp_admin_cap_hz p, cp_critical_cap_hz p, cp_sensor_failure_cap_hz p])
         \<Longrightarrow> cp_floor_hz p \<le> c"
    and "cp_energy_model p = Some m \<Longrightarrow> \<exists>b. validate_energy_model m b = []"
  using assms
  by (auto simp: validate_frequency_model_def validate_cpu_cap_def word_gt_0 split: option.splits)

lemma thermal_zone_step_ok:
  assumes "fst (thermal_zone_step i ids z) = []"
  shows "0 \<le> tz_warning z" and "tz_warning z < tz_throttled z" and "tz_throttled z < tz_critical z"
    and "tz_critical z \<le> 250000" and "0 \<le> tz_hysteresis z"
    and "tz_hysteresis z < tz_critical z - tz_warning z"
    and "tz_dwell_ms z \<noteq> 0" and "tz_stale_after_ms z \<noteq> 0"
proof -
  note issues = assms [unfolded thermal_zone_step_def Let_def fst_conv append_is_Nil_conv]
  from issues show w: "0 \<le> tz_warning z" and t: "tz_warning z < tz_throttled z"
    and c: "tz_throttled z < tz_critical z" and m: "tz_critical z \<le> 250000" and "0 \<le> tz_hysteresis z"
    by (auto simp: hot_threshold_def)
  have "i64_sub (tz_critical z) (tz_warning z) = tz_critical z - tz_warning z"
    using w t c m by (simp add: i64_sub_def wrap_i64_id)
  with issues show "tz_hysteresis z < tz_critical z - tz_warning z" by simp
  from issues show "tz_dwell_ms z \<noteq> 0" and "tz_stale_after_ms z \<noteq> 0" by (simp_all add: validation)
qed

section \<open>Properties\<close>

text \<open>
  in a valid device document all frequency and scalar targets have different identifiers, every
  CPU policy names at least one CPU, and no CPU belongs to two policies.
\<close>

theorem device_targets_separate:
  assumes "DeviceConfig_validate d = Inr ()"
  shows "distinct (map cp_id (dc_cpu_policies d) @ map dt_id (dc_devfreq_targets d) @ map st_id (dc_scalar_targets d))
    \<and> (\<forall>p \<in> set (dc_cpu_policies d). cp_related_cpus p \<noteq> [])
    \<and> sorted_wrt (\<lambda>p q. set (cp_related_cpus p) \<inter> set (cp_related_cpus q) = {}) (dc_cpu_policies d)"
proof -
  from assms have w: "fst (walk cpu_policy_step 0 ([], []) (dc_cpu_policies d)) = []" by (rule DeviceConfig_validE)
  have "cp_related_cpus p \<noteq> []" if "p \<in> set (dc_cpu_policies d)" for p
    using walk_Nil_mem [OF w that] cpu_policy_step_ok(2) by blast
  with device_target_ids_distinct [OF assms] cpu_walk_disjoint [OF w] show ?thesis by blast
qed

definition measured_config :: cpu_energy_model_config where
  "measured_config = MeasuredOppV1
     [\<lparr>mo_frequency_hz = 1000, mo_relative_capacity = 10, mo_power_mw_per_core = 10\<rparr>,
      \<lparr>mo_frequency_hz = 2000, mo_relative_capacity = 20, mo_power_mw_per_core = 40\<rparr>]"

definition device_example :: device_config where
  "device_example =
     \<lparr>dc_schema_version = 2, dc_device_id = ''phone'', dc_device_match = None,
      dc_cpu_groups = [(''little'', [0]), (''big'', [1])],
      dc_cpu_policies =
        [\<lparr>cp_id = ''cpu0'', cp_related_cpus = [0], cp_sysfs_path = None, cp_floor_hz = 1000, cp_reference_hz = 2000,
          cp_efficient_cap_hz = 2000, cp_admin_cap_hz = None, cp_critical_cap_hz = Some 1500,
          cp_sensor_failure_cap_hz = Some 1000, cp_energy_model = Some measured_config\<rparr>,
         \<lparr>cp_id = ''cpu1'', cp_related_cpus = [1], cp_sysfs_path = None, cp_floor_hz = 1000, cp_reference_hz = 2000,
          cp_efficient_cap_hz = 2000, cp_admin_cap_hz = None, cp_critical_cap_hz = None,
          cp_sensor_failure_cap_hz = None, cp_energy_model = Some measured_config\<rparr>],
      dc_devfreq_targets = [], dc_scalar_targets = [],
      dc_thermal_zones =
        [\<lparr>tz_id = ''soc'', tz_zone_type = ''soc-thermal'', tz_sysfs_path = Some ''/sys/class/thermal/thermal_zone0'',
          tz_warning = 70000, tz_throttled = 80000, tz_critical = 90000, tz_hysteresis = 5000,
          tz_dwell_ms = 1000, tz_stale_after_ms = 2000\<rparr>]\<rparr>"

lemma device_example_valid: "DeviceConfig_validate device_example = Inr ()"
  by code_simp

theorem device_targets_separate_witness:
  "distinct (map cp_id (dc_cpu_policies device_example) @ map dt_id (dc_devfreq_targets device_example)
     @ map st_id (dc_scalar_targets device_example))
   \<and> list_all (\<lambda>p. cp_related_cpus p \<noteq> []) (dc_cpu_policies device_example)
   \<and> sorted_wrt (\<lambda>p q. set (cp_related_cpus p) \<inter> set (cp_related_cpus q) = {}) (dc_cpu_policies device_example)"
  unfolding list_all_iff
  by (rule device_targets_separate [OF device_example_valid])

text \<open>
  every thermal zone of a valid device has ordered, bounded thresholds, a hysteresis that keeps
  the recovery temperature within the range of a machine integer, and a positive dwell and staleness
  limit.
\<close>

theorem valid_thermal_zones:
  assumes "DeviceConfig_validate d = Inr ()" and "z \<in> set (dc_thermal_zones d)"
  shows "0 \<le> tz_warning z \<and> tz_warning z < tz_throttled z \<and> tz_throttled z < tz_critical z
    \<and> tz_critical z \<le> 250000 \<and> 0 \<le> tz_hysteresis z \<and> tz_hysteresis z < tz_critical z - tz_warning z
    \<and> tz_dwell_ms z \<noteq> 0 \<and> tz_stale_after_ms z \<noteq> 0"
proof -
  from assms(1) have "fst (walk thermal_zone_step 0 [] (dc_thermal_zones d)) = []" by (rule DeviceConfig_validE)
  from walk_Nil_mem [OF this assms(2)] obtain i ids where "fst (thermal_zone_step i ids z) = []" by blast
  from thermal_zone_step_ok [OF this] show ?thesis by simp
qed

theorem valid_thermal_zones_witness:
  "0 \<le> tz_warning (hd (dc_thermal_zones device_example))
   \<and> tz_warning (hd (dc_thermal_zones device_example)) < tz_throttled (hd (dc_thermal_zones device_example))
   \<and> tz_throttled (hd (dc_thermal_zones device_example)) < tz_critical (hd (dc_thermal_zones device_example))
   \<and> tz_critical (hd (dc_thermal_zones device_example)) \<le> 250000
   \<and> 0 \<le> tz_hysteresis (hd (dc_thermal_zones device_example))
   \<and> tz_hysteresis (hd (dc_thermal_zones device_example))
       < tz_critical (hd (dc_thermal_zones device_example)) - tz_warning (hd (dc_thermal_zones device_example))
   \<and> tz_dwell_ms (hd (dc_thermal_zones device_example)) \<noteq> 0
   \<and> tz_stale_after_ms (hd (dc_thermal_zones device_example)) \<noteq> 0"
  by (rule valid_thermal_zones [OF device_example_valid]) (simp add: device_example_def)

text \<open>
  the caps of a CPU policy of a valid device are never below its floor, and the cap for a failed
  sensor is not above the cap for a critical temperature.
\<close>

theorem valid_cpu_caps:
  assumes "DeviceConfig_validate d = Inr ()" and "p \<in> set (dc_cpu_policies d)"
  shows "0 < cp_floor_hz p \<and> cp_floor_hz p \<le> cp_reference_hz p \<and> cp_floor_hz p \<le> cp_efficient_cap_hz p
    \<and> (\<forall>c \<in> set (flatten [cp_admin_cap_hz p, cp_critical_cap_hz p, cp_sensor_failure_cap_hz p]). cp_floor_hz p \<le> c)
    \<and> (\<forall>s c. cp_sensor_failure_cap_hz p = Some s \<longrightarrow> cp_critical_cap_hz p = Some c \<longrightarrow> s \<le> c)"
proof -
  from assms(1) have "fst (walk cpu_policy_step 0 ([], []) (dc_cpu_policies d)) = []" by (rule DeviceConfig_validE)
  from walk_Nil_mem [OF this assms(2)] obtain base where base: "validate_frequency_model p base = []"
    using cpu_policy_step_ok(3) by blast
  then have "\<forall>s c. cp_sensor_failure_cap_hz p = Some s \<longrightarrow> cp_critical_cap_hz p = Some c \<longrightarrow> s \<le> c"
    by (auto simp: validate_frequency_model_def validate_cap_order_def not_less)
  with validate_frequency_model_ok [OF base] show ?thesis by blast
qed

theorem valid_cpu_caps_witness:
  "0 < cp_floor_hz (hd (dc_cpu_policies device_example))
   \<and> cp_floor_hz (hd (dc_cpu_policies device_example)) \<le> cp_reference_hz (hd (dc_cpu_policies device_example))
   \<and> cp_floor_hz (hd (dc_cpu_policies device_example)) \<le> cp_efficient_cap_hz (hd (dc_cpu_policies device_example))
   \<and> (\<forall>c \<in> set (flatten [cp_admin_cap_hz (hd (dc_cpu_policies device_example)),
        cp_critical_cap_hz (hd (dc_cpu_policies device_example)),
        cp_sensor_failure_cap_hz (hd (dc_cpu_policies device_example))]). cp_floor_hz (hd (dc_cpu_policies device_example)) \<le> c)
   \<and> (\<forall>s c. cp_sensor_failure_cap_hz (hd (dc_cpu_policies device_example)) = Some s
        \<longrightarrow> cp_critical_cap_hz (hd (dc_cpu_policies device_example)) = Some c \<longrightarrow> s \<le> c)"
  by (rule valid_cpu_caps [OF device_example_valid]) (simp add: device_example_def)

end
