(* ===== verification/Policy_Validation.thy ===== *)
theory Policy_Validation
  imports Scheduler_Validation Device_Validation
begin

text \<open>
  \<open>impl Validate for PolicyConfig\<close>, the references between the device and the policy document
  (\<open>ConfigBundle::validate_cross_references\<close>), and \<open>materialize_cpu_groups\<close>, which replaces the
  named CPU groups of a scheduler section by the CPUs of the device.
\<close>

section \<open>Governor and power budget\<close>

definition validate_governor :: "governor_config \<Rightarrow> validation_issue list" where
  "validate_governor config =
     report (\<not> (10 \<le> gc_active_sample_ms config \<and> gc_active_sample_ms config \<le> 40))
       ''governor.active_sample_ms'' (Msg ''must be in 10..=40'')
     @ report (\<not> (10 \<le> gc_idle_sample_ms config \<and> gc_idle_sample_ms config \<le> 500))
         ''governor.idle_sample_ms'' (Msg ''must be in 10..=500'')
     @ report (gc_idle_sample_ms config < gc_active_sample_ms config) ''governor''
         (Msg ''active_sample_ms must not exceed idle_sample_ms'')
     @ validate_ratio ''governor.active_load_threshold'' (gc_active_load_threshold config) f64_epsilon (Fin 1)
     @ validate_ratio ''governor.idle_load_threshold'' (gc_idle_load_threshold config) (Fin 0) (Fin 1)
     @ report (f64_le (gc_active_load_threshold config) (gc_idle_load_threshold config)) ''governor''
         (Msg ''idle_load_threshold must be less than active_load_threshold'')
     @ validate_ratio ''governor.predict_threshold'' (gc_predict_threshold config) (Fin 0) (Fin 1)
     @ report (10000 < gc_ramp_latency_ms config) ''governor.ramp_latency_ms'' (Msg ''must not exceed 10000'')
     @ report (1000 < gc_min_opp_residency_ms config) ''governor.min_opp_residency_ms''
         (Msg ''must not exceed 1000'')"

definition validate_power_budget :: "string \<Rightarrow> power_budget_config \<Rightarrow> validation_issue list" where
  "validate_power_budget path budget =
     report (pb_slow_limit_power_mw budget = 0) (dot path ''slow_limit_power_mw'')
       (Msg ''must be greater than zero'')
     @ report (pb_fast_limit_power_mw budget < pb_slow_limit_power_mw budget) (dot path ''fast_limit_power_mw'')
         (Msg ''must not be lower than slow_limit_power_mw'')
     @ validate_ratio (dot path ''fast_limit_recover_scale'') (pb_fast_limit_recover_scale budget)
         (f64_lit (1 / 10)) (Fin 10)"

section \<open>Profiles\<close>

definition validate_scene_patch ::
  "string \<Rightarrow> profile_config \<Rightarrow> scene \<times> scene_patch \<Rightarrow> validation_issue list" where
  "validate_scene_patch base profile entry =
     (let patch_path = dot (dot base ''scenes'') (scene_to_string (fst entry)); patch = snd entry
      in (case sp_margin patch of None \<Rightarrow> []
          | Some margin \<Rightarrow> validate_ratio (dot patch_path ''margin'') margin (Fin 0) (Fin 10))
         @ (case sp_burst patch of None \<Rightarrow> []
            | Some burst \<Rightarrow> validate_ratio (dot patch_path ''burst'') burst (Fin 0) (Fin 1))
         @ (case sp_power_budget patch of None \<Rightarrow> []
            | Some power_patch \<Rightarrow>
                (case resolve_power_budget (pc_power_budget profile) power_patch of
                   Some power_budget \<Rightarrow> validate_power_budget (dot patch_path ''power_budget'') power_budget
                 | None \<Rightarrow> report True (dot patch_path ''power_budget'')
                     (Msg ''a partial scene power budget requires a profile-level power_budget'')))
         @ validate_collection_len (dot patch_path ''scalar_values'') (length (sp_scalar_values patch))
             MAX_SCALAR_TARGETS)"

definition profile_step ::
  "nat \<Rightarrow> profile_id list \<Rightarrow> profile_config \<Rightarrow> validation_issue list \<times> profile_id list" where
  "profile_step index profiles profile =
     (let base = at_index ''profiles'' index
      in (report (pc_id profile \<in> set profiles) (dot base ''id'') (Msg ''duplicate profile id'')
          @ validate_ratio (dot base ''margin'') (pc_margin profile) (Fin 0) (Fin 10)
          @ validate_ratio (dot base ''burst'') (pc_burst profile) (Fin 0) (Fin 1)
          @ (case pc_power_budget profile of None \<Rightarrow> []
             | Some power_budget \<Rightarrow> validate_power_budget (dot base ''power_budget'') power_budget)
          @ validate_collection_len (dot base ''scalar_values'') (length (pc_scalar_values profile))
              MAX_SCALAR_TARGETS
          @ concat (map (validate_scene_patch base profile) (pc_scenes profile)),
          pc_id profile # profiles))"

definition session_reference :: "profile_id list \<Rightarrow> string \<times> profile_id option \<Rightarrow> validation_issue list" where
  "session_reference profiles entry =
     report (case snd entry of None \<Rightarrow> False | Some profile \<Rightarrow> profile \<notin> set profiles)
       (dot ''session'' (fst entry)) (Msg ''does not reference a configured profile'')"

definition required_profile :: "profile_id list \<Rightarrow> profile_id \<Rightarrow> validation_issue list" where
  "required_profile profiles required =
     report (required \<notin> set profiles) ''profiles''
       (Msg (''missing required `'' @ profile_id_to_string required @ ''` profile''))"

definition validate_load :: "load_config \<Rightarrow> validation_issue list" where
  "validate_load load =
     validate_positive_duration ''load.sample_interval_ms'' (lc_sample_interval_ms load)
     @ validate_positive_duration ''load.ema_time_constant_ms'' (lc_ema_time_constant_ms load)
     @ validate_ratio ''load.heavy_enter'' (lc_heavy_enter load) (Fin 0) (Fin 1)
     @ validate_ratio ''load.heavy_exit'' (lc_heavy_exit load) (Fin 0) (Fin 1)
     @ report (f64_le (lc_heavy_enter load) (lc_heavy_exit load)) ''load''
         (Msg ''heavy_exit must be less than heavy_enter'')
     @ validate_positive_duration ''load.heavy_dwell_ms'' (lc_heavy_dwell_ms load)"

definition validate_input :: "input_config \<Rightarrow> validation_issue list" where
  "validate_input input =
     validate_positive_duration ''input.trigger_duration_ms'' (ic_trigger_duration_ms input)
     @ validate_positive_duration ''input.gesture_duration_ms'' (ic_gesture_duration_ms input)
     @ validate_positive_duration ''input.switch_duration_ms'' (ic_switch_duration_ms input)
     @ validate_positive_duration ''input.wake_duration_ms'' (ic_wake_duration_ms input)
     @ validate_ratio ''input.swipe_distance'' (ic_swipe_distance input) f64_epsilon (Fin 1)
     @ validate_ratio ''input.edge_width'' (ic_edge_width input) f64_epsilon (Fin (1 / 2))"

definition PolicyConfig_issues ::
  "(string \<Rightarrow> (string, 'r) result) \<Rightarrow> policy_config \<Rightarrow> validation_issue list" where
  "PolicyConfig_issues rx_new self =
     (let scan = walk profile_step 0 [] (take MAX_PROFILE_CONFIGS (pol_profiles self)); profiles = snd scan
      in validate_schema_version (pol_schema_version self)
         @ validate_collection_len ''profiles'' (length (pol_profiles self)) MAX_PROFILE_CONFIGS
         @ fst scan
         @ report (pol_default_profile self \<notin> set profiles) ''default_profile''
             (Msg ''does not reference a configured profile'')
         @ (case pol_session self of None \<Rightarrow> []
            | Some session \<Rightarrow>
                session_reference profiles (''display_blanked_profile'', ss_display_blanked_profile session)
                @ session_reference profiles (''locked_profile'', ss_locked_profile session))
         @ concat (map (required_profile profiles) [Powersave, Balance, Performance])
         @ validate_load (pol_load self)
         @ validate_governor (pol_governor self)
         @ validate_positive_duration ''thermal.sample_interval_ms'' (tpc_sample_interval_ms (pol_thermal self))
         @ validate_input (pol_input self)
         @ validate_scheduler rx_new (pol_scheduler self))"

definition PolicyConfig_validate ::
  "(string \<Rightarrow> (string, 'r) result) \<Rightarrow> policy_config \<Rightarrow> (validation_issue list, unit) result" where
  "PolicyConfig_validate rx_new self = finish_validation (PolicyConfig_issues rx_new self)"

section \<open>References between documents\<close>

definition validate_thermal_references :: "config_bundle \<Rightarrow> validation_issue list" where
  "validate_thermal_references self =
     report (dc_thermal_zones (cb_device self) = []) ''device.thermal_zones''
       (Msg ''at least one trusted thermal zone is required'')
     @ for_each (\<lambda>index zone.
           report (tz_stale_after_ms zone < tpc_sample_interval_ms (pol_thermal (cb_policy self)))
             (dot (at_index ''device.thermal_zones'' index) ''stale_after_ms'')
             (Msg ''must not be shorter than the thermal sampling interval''))
         (dc_thermal_zones (cb_device self))"

definition validate_energy_references :: "config_bundle \<Rightarrow> validation_issue list" where
  "validate_energy_references self =
     for_each (\<lambda>index policy.
         report (cp_energy_model policy = None) (dot (at_index ''device.cpu_policies'' index) ''energy_model'')
           (Msg ''is required by the energy governor''))
       (dc_cpu_policies (cb_device self))
     @ for_each (\<lambda>index profile.
           report (pc_power_budget profile = None) (dot (at_index ''policy.profiles'' index) ''power_budget'')
             (Msg ''is required by the energy governor''))
         (pol_profiles (cb_policy self))"

definition validate_scalar_settings ::
  "string \<Rightarrow> (target_id, scalar_setting_value) btree \<Rightarrow> (target_id, scalar_target_domain_config) btree
   \<Rightarrow> validation_issue list" where
  "validate_scalar_settings path settings domains =
     concat (map (\<lambda>(tid, value).
         case bt_get domains tid of
           None \<Rightarrow> report True (dot path tid) (Msg ''references an unknown scalar target'')
         | Some domain \<Rightarrow> report (\<not> scalar_value_matches_domain value domain) (dot path tid)
             (Msg ''value is outside the configured scalar target domain'')) settings)"

definition validate_scalar_references :: "config_bundle \<Rightarrow> validation_issue list" where
  "validate_scalar_references self =
     (let domains = bt_collect (map (\<lambda>t. (st_id t, st_domain t)) (dc_scalar_targets (cb_device self)))
      in for_each (\<lambda>index profile.
           let base = at_index ''policy.profiles'' index
           in validate_scalar_settings (dot base ''scalar_values'') (pc_scalar_values profile) domains
              @ concat (map (\<lambda>(scene, patch).
                    validate_scalar_settings (dot (dot (dot base ''scenes'') (scene_to_string scene)) ''scalar_values'')
                      (sp_scalar_values patch) domains) (pc_scenes profile)))
           (pol_profiles (cb_policy self)))"

definition validate_fifo_affinity_reference ::
  "string \<Rightarrow> task_plan \<Rightarrow> cpu_set option \<Rightarrow> realtime_scheduler_config \<Rightarrow> validation_issue list" where
  "validate_fifo_affinity_reference path plan group_affinity realtime =
     (if tp_scheduling_class plan \<noteq> Some Fifo then []
      else case group_affinity of None \<Rightarrow> []
           | Some cpus \<Rightarrow> report (\<not> CpuSet_is_disjoint cpus (rt_housekeeping_cpus realtime))
               (dot path ''affinity'') (Msg ''fifo affinity must exclude every housekeeping CPU''))"

definition outside_policies :: "string \<Rightarrow> cpu_set option \<Rightarrow> cpu_set \<Rightarrow> validation_issue list" where
  "outside_policies path cpus configured_cpus =
     report (case cpus of None \<Rightarrow> False | Some c \<Rightarrow> \<not> CpuSet_is_subset c configured_cpus) path
       (Msg ''references a CPU outside the device CPU policies'')"

definition validate_profile_references ::
  "(string, cpu_set) btree \<Rightarrow> cpu_set \<Rightarrow> realtime_scheduler_config \<Rightarrow> nat \<Rightarrow> task_profile_config
   \<Rightarrow> validation_issue list" where
  "validate_profile_references cpu_groups configured_cpus realtime index profile =
     (let base = at_index ''policy.scheduler.task_profiles'' index;
          plan = tpr_plan profile;
          group_affinity = Option.bind (tpr_affinity_group profile) (bt_get cpu_groups)
      in (case tpr_affinity_group profile of None \<Rightarrow> []
          | Some g \<Rightarrow> report (bt_get cpu_groups g = None) (dot base ''affinity_group'') (UnknownGroupMsg g))
         @ outside_policies (dot base ''plan.affinity'') (affinity plan) configured_cpus
         @ validate_fifo_affinity_reference (dot base ''plan'') plan
             (if affinity plan = None then group_affinity else None) realtime
         @ concat (map (\<lambda>(scene, patch).
               let path = dot (dot base ''scenes'') (scheduler_scene_to_string scene);
                   effective = merge_task_plan plan patch
               in outside_policies (dot path ''affinity'') (affinity patch) configured_cpus
                  @ validate_fifo_affinity_reference path effective
                      (if affinity effective = None then group_affinity else None) realtime)
             (tpr_scenes profile)))"

definition validate_class_references ::
  "(string, cpu_set) btree \<Rightarrow> cpu_set \<Rightarrow> nat \<Rightarrow> cgroup_class_config \<Rightarrow> validation_issue list" where
  "validate_class_references cpu_groups configured_cpus index class =
     (let base = at_index ''policy.scheduler.cgroup_classes'' index
      in (case cg_allowed_cpu_group class of None \<Rightarrow> []
          | Some g \<Rightarrow> report (\<not> bt_contains cpu_groups g) (dot base ''allowed_cpu_group'') (UnknownGroupMsg g))
         @ outside_policies (dot base ''allowed_cpus'') (Some (cg_allowed_cpus class)) configured_cpus)"

definition validate_scheduler_references :: "config_bundle \<Rightarrow> validation_issue list" where
  "validate_scheduler_references self =
     (let configured_cpus = CpuSet_from_ids (concat (map cp_related_cpus (dc_cpu_policies (cb_device self))));
          scheduler = pol_scheduler (cb_policy self); realtime = sc_realtime scheduler;
          cpu_groups = dc_cpu_groups (cb_device self)
      in outside_policies ''policy.scheduler.realtime.housekeeping_cpus'' (Some (rt_housekeeping_cpus realtime))
           configured_cpus
         @ for_each (validate_profile_references cpu_groups configured_cpus realtime) (sc_task_profiles scheduler)
         @ for_each (validate_class_references cpu_groups configured_cpus) (sc_cgroup_classes scheduler))"

definition validate_cross_references :: "config_bundle \<Rightarrow> (validation_issue list, unit) result" where
  "validate_cross_references self =
     finish_validation (validate_thermal_references self @ validate_energy_references self
       @ validate_scalar_references self @ validate_scheduler_references self)"

section \<open>Materializing CPU groups\<close>

definition materialize_profile :: "(string, cpu_set) btree \<Rightarrow> task_profile_config \<Rightarrow> task_profile_config" where
  "materialize_profile cpu_groups profile =
     (case tpr_affinity_group profile of None \<Rightarrow> profile
      | Some g \<Rightarrow> profile\<lparr>tpr_affinity_group := None,
                          tpr_plan := (tpr_plan profile)\<lparr>affinity := bt_get cpu_groups g\<rparr>\<rparr>)"

definition materialize_class :: "(string, cpu_set) btree \<Rightarrow> cgroup_class_config \<Rightarrow> cgroup_class_config" where
  "materialize_class cpu_groups class =
     (case cg_allowed_cpu_group class of None \<Rightarrow> class
      | Some g \<Rightarrow> class\<lparr>cg_allowed_cpu_group := None,
                        cg_allowed_cpus := unwrap_or [] (bt_get cpu_groups g)\<rparr>)"

definition materialize_cpu_groups :: "config_bundle \<Rightarrow> (validation_issue list, policy_config) result" where
  "materialize_cpu_groups self =
     rbind (validate_cross_references self) (\<lambda>_.
       let policy = cb_policy self; scheduler = pol_scheduler policy; groups = dc_cpu_groups (cb_device self)
       in Inr (policy\<lparr>pol_scheduler := scheduler
            \<lparr>sc_task_profiles := map (materialize_profile groups) (sc_task_profiles scheduler),
             sc_cgroup_classes := map (materialize_class groups) (sc_cgroup_classes scheduler)\<rparr>\<rparr>))"

section \<open>What valid policy documents guarantee\<close>

interpretation profiles: unique_keys profile_step pc_id set
  by unfold_locales (simp_all add: profile_step_def Let_def)

lemma all_profiles:
  assumes "Powersave \<in> A" and "Balance \<in> A" and "Performance \<in> A"
  shows "A = UNIV"
proof -
  have "x \<in> A" for x using assms by (cases x) auto
  then show ?thesis by auto
qed

lemma PolicyConfig_validE:
  assumes "PolicyConfig_validate rx_new c = Inr ()"
  obtains "fst (walk profile_step 0 [] (pol_profiles c)) = []"
    and "pol_default_profile c \<in> pc_id ` set (pol_profiles c)"
    and "pc_id ` set (pol_profiles c) = UNIV"
    and "validate_scheduler rx_new (pol_scheduler c) = []"
    and "validate_governor (pol_governor c) = []"
    and "validate_load (pol_load c) = []"
proof -
  have seen: "set (snd (walk profile_step 0 [] ps)) = pc_id ` set ps" for ps
    using profiles.seen_walk [of 0 "[]" ps] by simp
  note issues = assms [unfolded PolicyConfig_validate_def PolicyConfig_issues_def Let_def finish_validation_ok
      append_is_Nil_conv]
  then have all: "take MAX_PROFILE_CONFIGS (pol_profiles c) = pol_profiles c" by (simp add: validation)
  from issues have "pc_id ` set (pol_profiles c) = UNIV"
    by (intro all_profiles) (simp_all add: all seen required_profile_def)
  with issues show ?thesis by (intro that) (simp_all add: all)
qed

lemma policy_profile_total:
  assumes "PolicyConfig_validate rx_new c = Inr ()"
  shows "\<exists>p \<in> set (pol_profiles c). policy_profile c pid = Some p \<and> pc_id p = pid"
  using assms
proof (rule PolicyConfig_validE)
  assume "pc_id ` set (pol_profiles c) = UNIV"
  then have "pid \<in> pc_id ` set (pol_profiles c)" by simp
  then show ?thesis
    by (cases "policy_profile c pid")
      (auto simp: policy_profile_def find_None_all dest: find_Some_mem)
qed

lemma profile_step_budget:
  assumes "fst (profile_step i ids p) = []"
  shows "pc_power_budget p = Some b \<Longrightarrow> \<exists>path. validate_power_budget path b = []"
    and "(sc, patch) \<in> set (pc_scenes p) \<Longrightarrow> sp_power_budget patch = Some pp \<Longrightarrow>
         \<exists>b path. resolve_power_budget (pc_power_budget p) pp = Some b \<and> validate_power_budget path b = []"
    and "\<exists>m b. pc_margin p = Fin m \<and> 0 \<le> m \<and> m \<le> 10 \<and> pc_burst p = Fin b \<and> 0 \<le> b \<and> b \<le> 1"
proof -
  note issues = assms [unfolded profile_step_def Let_def fst_conv append_is_Nil_conv]
  from issues show "pc_power_budget p = Some b \<Longrightarrow> \<exists>path. validate_power_budget path b = []" by auto
  from issues show "\<exists>m b. pc_margin p = Fin m \<and> 0 \<le> m \<and> m \<le> 10 \<and> pc_burst p = Fin b \<and> 0 \<le> b \<and> b \<le> 1"
    by (auto simp: validation elim!: f64_is_finiteE)
  assume "(sc, patch) \<in> set (pc_scenes p)" and pp: "sp_power_budget patch = Some pp"
  with issues have "validate_scene_patch (at_index ''profiles'' i) p (sc, patch) = []" by auto
  with pp show "\<exists>b path. resolve_power_budget (pc_power_budget p) pp = Some b \<and> validate_power_budget path b = []"
    by (auto simp: validate_scene_patch_def Let_def split: option.splits)
qed

section \<open>Plans after materialization\<close>

text \<open>The plans a task profile can yield: its own, or its own patched for a scene.\<close>

definition profile_plans :: "task_profile_config \<Rightarrow> task_plan set" where
  "profile_plans p = insert (tpr_plan p) ((\<lambda>e. merge_task_plan (tpr_plan p) (snd e)) ` set (tpr_scenes p))"

lemma realtime_plan_ok_affinity:
  assumes "realtime_plan_ok rt (plan\<lparr>affinity := a\<rparr>)"
    and "tp_scheduling_class plan = Some Fifo \<Longrightarrow> set cpus \<inter> set (rt_housekeeping_cpus rt) = {}"
  shows "realtime_plan_ok rt (plan\<lparr>affinity := Some cpus\<rparr>)"
  using assms by (auto simp: realtime_plan_ok_def split: if_splits)

lemma merge_affinity_update:
  "merge_task_plan (plan\<lparr>affinity := Some cpus\<rparr>) patch
   = (if affinity patch = None then (merge_task_plan plan patch)\<lparr>affinity := Some cpus\<rparr>
      else merge_task_plan plan patch)"
  by (auto simp: merge_task_plan_def)

lemma materialized_plan_ok:
  assumes step: "fst (task_profile_step rt i ids q) = []"
    and refs: "validate_profile_references groups cpus rt j q = []"
    and plan: "plan \<in> profile_plans (materialize_profile groups q)"
  shows "realtime_plan_ok rt plan" and "tp_scheduling_class plan = Some Fifo \<Longrightarrow> affinity plan \<noteq> None"
proof -
  have "realtime_plan_ok rt plan \<and> (tp_scheduling_class plan = Some Fifo \<longrightarrow> affinity plan \<noteq> None)"
  proof (cases "tpr_affinity_group q")
    case None
    then have "materialize_profile groups q = q" by (simp add: materialize_profile_def)
    with plan obtain path where "validate_effective_task_plan path plan False rt = []"
      using task_profile_step_ok(2,3) [OF step] None by (force simp: profile_plans_def)
    from validate_effective_task_plan_ok [OF this] show ?thesis by auto
  next
    case (Some g)
    obtain c where c: "bt_get groups g = Some c"
      using refs Some by (auto simp: validate_profile_references_def Let_def)
    have none: "affinity (tpr_plan q) = None" using task_profile_step_ok(1) [OF step] Some by simp
    have base: "realtime_plan_ok rt (tpr_plan q)"
      using task_profile_step_ok(2) [OF step] validate_effective_task_plan_ok(2) by blast
    have scene: "realtime_plan_ok rt (merge_task_plan (tpr_plan q) (snd e))" if "e \<in> set (tpr_scenes q)" for e
      using task_profile_step_ok(3) [OF step, of "fst e" "snd e"] that validate_effective_task_plan_ok(2) by force
    have fifo: "set c \<inter> set (rt_housekeeping_cpus rt) = {}"
      if "tp_scheduling_class pl = Some Fifo" "affinity pl = None"
        "pl = tpr_plan q \<or> (\<exists>e \<in> set (tpr_scenes q). pl = merge_task_plan (tpr_plan q) (snd e))" for pl
      using refs that Some c none
      by (fastforce simp: validate_profile_references_def validate_fifo_affinity_reference_def Let_def
          CpuSet_relations)
    have m: "materialize_profile groups q
        = q\<lparr>tpr_affinity_group := None, tpr_plan := (tpr_plan q)\<lparr>affinity := Some c\<rparr>\<rparr>"
      using Some c by (simp add: materialize_profile_def)
    have upd: "x\<lparr>affinity := None\<rparr> = x" if "affinity x = None" for x :: task_plan
      using that by (cases x) simp
    from plan consider "plan = (tpr_plan q)\<lparr>affinity := Some c\<rparr>"
      | e where "e \<in> set (tpr_scenes q)" "plan = merge_task_plan ((tpr_plan q)\<lparr>affinity := Some c\<rparr>) (snd e)"
      by (auto simp: profile_plans_def m)
    then show ?thesis
    proof cases
      case 1
      with realtime_plan_ok_affinity [where rt = rt and plan = "tpr_plan q" and a = None and cpus = c] base fifo [of "tpr_plan q"] none upd
      show ?thesis by auto
    next
      case (2 e)
      let ?pl = "merge_task_plan (tpr_plan q) (snd e)"
      show ?thesis
      proof (cases "affinity (snd e)")
        case None
        then have free: "affinity ?pl = None" using none by simp
        have "realtime_plan_ok rt (?pl\<lparr>affinity := Some c\<rparr>)"
        proof (rule realtime_plan_ok_affinity)
          show "realtime_plan_ok rt (?pl\<lparr>affinity := None\<rparr>)" using scene [OF 2(1)] upd [OF free] by simp
          show "set c \<inter> set (rt_housekeeping_cpus rt) = {}" if "tp_scheduling_class ?pl = Some Fifo"
            using fifo [OF that free] 2(1) by blast
        qed
        with 2 None show ?thesis by (simp add: merge_affinity_update)
      next
        case (Some a)
        with 2 scene [OF 2(1)] show ?thesis by (simp add: merge_affinity_update)
      qed
    qed
  qed
  then show "realtime_plan_ok rt plan" and "tp_scheduling_class plan = Some Fifo \<Longrightarrow> affinity plan \<noteq> None" by auto
qed

lemma materialize_cpu_groupsE:
  assumes "materialize_cpu_groups b = Inr pol"
  obtains "validate_cross_references b = Inr ()"
    and "pol_profiles pol = pol_profiles (cb_policy b)"
    and "sc_realtime (pol_scheduler pol) = sc_realtime (pol_scheduler (cb_policy b))"
    and "sc_task_profiles (pol_scheduler pol)
         = map (materialize_profile (dc_cpu_groups (cb_device b))) (sc_task_profiles (pol_scheduler (cb_policy b)))"
  using assms by (auto simp: materialize_cpu_groups_def rbind_Inr_iff Let_def)

lemma materialized_realtime_safe:
  assumes valid: "PolicyConfig_validate rx_new (cb_policy b) = Inr ()"
    and pol: "materialize_cpu_groups b = Inr pol"
    and p: "p \<in> set (sc_task_profiles (pol_scheduler pol))" and plan: "plan \<in> profile_plans p"
  shows "realtime_plan_ok (sc_realtime (pol_scheduler pol)) plan"
    and "tp_scheduling_class plan = Some Fifo \<Longrightarrow> affinity plan \<noteq> None"
proof -
  let ?s = "pol_scheduler (cb_policy b)"
  let ?groups = "dc_cpu_groups (cb_device b)"
  from pol have cross: "validate_cross_references b = Inr ()"
    and eq: "sc_realtime (pol_scheduler pol) = sc_realtime ?s"
      "sc_task_profiles (pol_scheduler pol) = map (materialize_profile ?groups) (sc_task_profiles ?s)"
    by (auto elim: materialize_cpu_groupsE)
  from p eq obtain q where q: "q \<in> set (sc_task_profiles ?s)" "p = materialize_profile ?groups q" by auto
  from valid have "validate_scheduler rx_new ?s = []" by (rule PolicyConfig_validE)
  then have "fst (walk (task_profile_step (sc_realtime ?s)) 0 [] (sc_task_profiles ?s)) = []"
    by (rule validate_schedulerE)
  from walk_Nil_mem [OF this q(1)] obtain i ids where step: "fst (task_profile_step (sc_realtime ?s) i ids q) = []"
    by blast
  from cross obtain cpus where "for_each (validate_profile_references ?groups cpus (sc_realtime ?s)) (sc_task_profiles ?s) = []"
    by (auto simp: validate_cross_references_def validation validate_scheduler_references_def Let_def)
  from for_each_mem [OF this q(1)] obtain j where refs: "validate_profile_references ?groups cpus (sc_realtime ?s) j q = []"
    by blast
  from materialized_plan_ok [OF step refs] plan q(2) eq(1)
  show "realtime_plan_ok (sc_realtime (pol_scheduler pol)) plan"
    and "tp_scheduling_class plan = Some Fifo \<Longrightarrow> affinity plan \<noteq> None" by auto
qed

section \<open>Properties\<close>

text \<open>
  a valid policy document configures every profile exactly once, and each profile has a margin
  and a burst within range.
\<close>

theorem valid_policy_profiles:
  assumes "PolicyConfig_validate rx_new c = Inr ()"
  shows "distinct (map pc_id (pol_profiles c)) \<and> (\<forall>pid. \<exists>p. policy_profile c pid = Some p \<and> pc_id p = pid
    \<and> (\<exists>m b. pc_margin p = Fin m \<and> 0 \<le> m \<and> m \<le> 10 \<and> pc_burst p = Fin b \<and> 0 \<le> b \<and> b \<le> 1))"
proof -
  from assms have w: "fst (walk profile_step 0 [] (pol_profiles c)) = []" by (rule PolicyConfig_validE)
  have "\<exists>p. policy_profile c pid = Some p \<and> pc_id p = pid
    \<and> (\<exists>m b. pc_margin p = Fin m \<and> 0 \<le> m \<and> m \<le> 10 \<and> pc_burst p = Fin b \<and> 0 \<le> b \<and> b \<le> 1)" for pid
    using policy_profile_total [OF assms, of pid] walk_Nil_mem [OF w] profile_step_budget(3) by meson
  with profiles.walk_distinct [OF w] show ?thesis by blast
qed

definition profile_example :: "profile_id \<Rightarrow> profile_config" where
  "profile_example pid =
     \<lparr>pc_id = pid, pc_margin = Fin (1 / 4), pc_burst = Fin 0, pc_limit_efficiency = True,
      pc_power_budget = Some \<lparr>pb_slow_limit_power_mw = 2000, pb_fast_limit_power_mw = 4000,
        pb_fast_limit_capacity_mj = 5000, pb_fast_limit_recover_scale = Fin 1\<rparr>,
      pc_scalar_values = [], pc_scenes = []\<rparr>"

text \<open>One real-time task profile on the \<open>big\<close> group of the device, CPU 0 kept for housekeeping.\<close>

definition scheduler_example :: scheduler_config where
  "scheduler_example =
     \<lparr>sc_enabled = True,
      sc_task_profiles =
        [\<lparr>tpr_id = ''audio'', tpr_affinity_group = Some ''big'',
          tpr_plan = \<lparr>affinity = None, nice = None, tp_scheduling_class = Some Fifo, rt_priority = Some 10,
                      uclamp_min = None, uclamp_max = None\<rparr>,
          tpr_scenes = []\<rparr>],
      sc_process_rules =
        [\<lparr>pr_name = ''pipewire'',
          pr_matcher = \<lparr>wm_executable = Some ''/usr/bin/pipewire'', wm_desktop_id = None, wm_comm_regex = None\<rparr>,
          pr_task_profile = Some ''audio'', pr_cgroup_class = None, pr_threads = []\<rparr>],
      sc_cgroup_classes = [], sc_focus = FocusConfig_default,
      sc_realtime = \<lparr>rt_enabled = True, rt_max_priority = 20, rt_housekeeping_cpus = [0]\<rparr>\<rparr>"

definition policy_example :: policy_config where
  "policy_example =
     \<lparr>pol_schema_version = 2, pol_default_profile = Balance,
      pol_profiles = [profile_example Powersave, profile_example Balance, profile_example Performance],
      pol_load = LoadConfig_default, pol_governor = GovernorConfig_default,
      pol_thermal = ThermalPolicyConfig_default, pol_input = InputConfig_default,
      pol_scheduler = scheduler_example, pol_session = None\<rparr>"

text \<open>A stand-in for the regex engine: every pattern compiles and matches itself.\<close>

definition literal_rx_new :: "string \<Rightarrow> (string, string) result" where
  "literal_rx_new pattern = Inr pattern"

lemma policy_example_valid: "PolicyConfig_validate literal_rx_new policy_example = Inr ()"
  by code_simp

theorem valid_policy_profiles_witness:
  "distinct (map pc_id (pol_profiles policy_example)) \<and> (\<forall>pid. \<exists>p. policy_profile policy_example pid = Some p \<and> pc_id p = pid
    \<and> (\<exists>m b. pc_margin p = Fin m \<and> 0 \<le> m \<and> m \<le> 10 \<and> pc_burst p = Fin b \<and> 0 \<le> b \<and> b \<le> 1))"
  by (rule valid_policy_profiles [OF policy_example_valid])

text \<open>
  C18: once the CPU groups of the device are substituted into a valid policy, every real-time plan a
  task profile can yield, patched for any scene, is enabled by configuration, has a priority of at
  most the configured maximum and at most 50, and is pinned to CPUs that exclude every housekeeping
  CPU.
\<close>

theorem fifo_plans_are_contained:
  assumes "PolicyConfig_validate rx_new (cb_policy b) = Inr ()" and "materialize_cpu_groups b = Inr pol"
    and "p \<in> set (sc_task_profiles (pol_scheduler pol))" and "plan \<in> profile_plans p"
    and "tp_scheduling_class plan = Some Fifo"
  shows "rt_enabled (sc_realtime (pol_scheduler pol))
    \<and> (\<exists>prio. rt_priority plan = Some prio \<and> prio \<le> rt_max_priority (sc_realtime (pol_scheduler pol)) \<and> prio \<le> 50)
    \<and> (\<exists>cpus. affinity plan = Some cpus \<and> set cpus \<inter> set (rt_housekeeping_cpus (sc_realtime (pol_scheduler pol))) = {})"
proof -
  note ok = materialized_realtime_safe [OF assms(1-4)]
  from assms(1) have "validate_scheduler rx_new (pol_scheduler (cb_policy b)) = []" by (rule PolicyConfig_validE)
  then have "rt_max_priority (sc_realtime (pol_scheduler (cb_policy b))) \<le> 50"
    by (rule validate_schedulerE) (simp add: MAX_FIFO_PRIORITY_def)
  moreover from assms(2) have "sc_realtime (pol_scheduler pol) = sc_realtime (pol_scheduler (cb_policy b))"
    by (rule materialize_cpu_groupsE)
  ultimately have "rt_max_priority (sc_realtime (pol_scheduler pol)) \<le> 50" by simp
  with ok assms(5) show ?thesis by (auto simp: realtime_plan_ok_def dest: order_trans)
qed

definition bundle_example :: config_bundle where
  "bundle_example = \<lparr>cb_device = device_example, cb_policy = policy_example\<rparr>"

definition materialized_example :: policy_config where
  "materialized_example = policy_example\<lparr>pol_scheduler := scheduler_example\<lparr>sc_task_profiles :=
     [\<lparr>tpr_id = ''audio'', tpr_affinity_group = None,
       tpr_plan = \<lparr>affinity = Some [1], nice = None, tp_scheduling_class = Some Fifo, rt_priority = Some 10,
                   uclamp_min = None, uclamp_max = None\<rparr>,
       tpr_scenes = []\<rparr>]\<rparr>\<rparr>"

lemma bundle_example_materializes: "materialize_cpu_groups bundle_example = Inr materialized_example"
proof -
  have "validate_cross_references bundle_example = Inr ()" by code_simp
  then show ?thesis
    by (simp add: materialize_cpu_groups_def bundle_example_def materialized_example_def policy_example_def
        scheduler_example_def device_example_def materialize_profile_def bt_get_def)
qed

theorem fifo_plans_are_contained_witness:
  "rt_enabled (sc_realtime (pol_scheduler materialized_example))
    \<and> (\<exists>prio. rt_priority (tpr_plan (hd (sc_task_profiles (pol_scheduler materialized_example)))) = Some prio
         \<and> prio \<le> rt_max_priority (sc_realtime (pol_scheduler materialized_example)) \<and> prio \<le> 50)
    \<and> (\<exists>cpus. affinity (tpr_plan (hd (sc_task_profiles (pol_scheduler materialized_example)))) = Some cpus
         \<and> set cpus \<inter> set (rt_housekeeping_cpus (sc_realtime (pol_scheduler materialized_example))) = {})"
proof (rule fifo_plans_are_contained
    [OF _ bundle_example_materializes, where p = "hd (sc_task_profiles (pol_scheduler materialized_example))"])
  show "PolicyConfig_validate literal_rx_new (cb_policy bundle_example) = Inr ()"
    by (simp add: bundle_example_def policy_example_valid)
qed (simp_all add: materialized_example_def policy_example_def profile_plans_def)

lemma scalar_settings_ok:
  assumes "validate_scalar_settings path settings domains = []" and "bt_get settings tid = Some v"
  shows "\<exists>domain. bt_get domains tid = Some domain \<and> scalar_value_matches_domain v domain"
  using assms(1) bt_get_Some_mem [OF assms(2)]
  by (fastforce simp: validate_scalar_settings_def split: option.splits)

text \<open>
  with valid references every scalar value of a profile or of one of its scenes belongs to a
  scalar target of the device and lies in the domain declared for it.
\<close>

theorem scalar_values_in_domain:
  assumes "validate_cross_references b = Inr ()" and "p \<in> set (pol_profiles (cb_policy b))"
    and "bt_get (pc_scalar_values p) tid = Some v
         \<or> (\<exists>sc patch. (sc, patch) \<in> set (pc_scenes p) \<and> bt_get (sp_scalar_values patch) tid = Some v)"
  shows "\<exists>t \<in> set (dc_scalar_targets (cb_device b)). st_id t = tid \<and> scalar_value_matches_domain v (st_domain t)"
proof -
  let ?domains = "bt_collect (map (\<lambda>t. (st_id t, st_domain t)) (dc_scalar_targets (cb_device b)))"
  from assms(1) have "validate_scalar_references b = []" by (simp add: validate_cross_references_def validation)
  from for_each_mem [OF this [unfolded validate_scalar_references_def Let_def] assms(2)] assms(3)
  obtain path settings where "validate_scalar_settings path settings ?domains = []" and "bt_get settings tid = Some v"
    by (auto simp: Let_def)
  from scalar_settings_ok [OF this] obtain domain where d: "bt_get ?domains tid = Some domain"
    and ok: "scalar_value_matches_domain v domain" by blast
  have "\<exists>x \<in> set (dc_scalar_targets (cb_device b)). st_id x = tid \<and> st_domain x = domain"
    using bt.fold_ins_source [of st_id st_domain _ "[]" tid domain] d
    by (auto simp: bt_collect_def bt_extend_def fold_map comp_def)
  with ok show ?thesis by auto
qed

definition scalar_bundle_example :: config_bundle where
  "scalar_bundle_example =
     \<lparr>cb_device = device_example\<lparr>dc_scalar_targets :=
        [\<lparr>st_id = ''swappiness'', st_path = ''/sys/class/vm/swappiness'', st_domain = IntegerRange 0 200\<rparr>]\<rparr>,
      cb_policy = policy_example\<lparr>pol_profiles :=
        [profile_example Balance\<lparr>pc_scalar_values := [(''swappiness'', ScalarInteger 60)]\<rparr>]\<rparr>\<rparr>"

theorem scalar_values_in_domain_witness:
  "\<exists>t \<in> set (dc_scalar_targets (cb_device scalar_bundle_example)). st_id t = ''swappiness''
     \<and> scalar_value_matches_domain (ScalarInteger 60) (st_domain t)"
proof (rule scalar_values_in_domain)
  show "validate_cross_references scalar_bundle_example = Inr ()" by code_simp
  show "profile_example Balance\<lparr>pc_scalar_values := [(''swappiness'', ScalarInteger 60)]\<rparr>
      \<in> set (pol_profiles (cb_policy scalar_bundle_example))" by (simp add: scalar_bundle_example_def)
qed (simp add: bt_get_def)

end
