(* ===== verification/Policy_Engine.thy ===== *)
theory Policy_Engine
  imports Governor_State Policy_Validation
begin

text \<open>
  The rest of \<open>crates/uperf-core/src/policy.rs\<close>: compiled matchers, the application rule engine,
  and \<open>PolicyEngine\<close> with its frequency and scheduler evaluations. The regex engine is a pair of
  parameters, \<open>rx_new\<close> for \<open>Regex::new\<close> and \<open>rx_is_match\<close> for \<open>Regex::is_match\<close>, on a type \<open>'r\<close>
  of compiled expressions.
\<close>

section \<open>Compiled matchers\<close>

record 'r compiled_workload_matcher =
  cm_executable :: "string option"
  cm_desktop_id :: "string option"
  cm_comm_regex :: "'r option"

definition compile_regex ::
  "(string \<Rightarrow> (string, 'r) result) \<Rightarrow> string \<Rightarrow> (policy_error, 'r) result" where
  "compile_regex rx_new pattern = map_err InvalidMatcherRegex (rx_new pattern)"

definition CompiledWorkloadMatcher_new ::
  "(string \<Rightarrow> (string, 'r) result) \<Rightarrow> workload_matcher
   \<Rightarrow> (policy_error, 'r compiled_workload_matcher) result" where
  "CompiledWorkloadMatcher_new rx_new matcher =
     rbind (case wm_comm_regex matcher of
              None \<Rightarrow> Inr None
            | Some pattern \<Rightarrow> rbind (compile_regex rx_new pattern) (\<lambda>r. Inr (Some r)))
       (\<lambda>comm_regex. Inr \<lparr>cm_executable = wm_executable matcher, cm_desktop_id = wm_desktop_id matcher,
                          cm_comm_regex = comm_regex\<rparr>)"

definition matcher_is_match ::
  "('r \<Rightarrow> string \<Rightarrow> bool) \<Rightarrow> 'r compiled_workload_matcher \<Rightarrow> process_info \<Rightarrow> bool" where
  "matcher_is_match rx_is_match self process =
     (if (case cm_executable self of None \<Rightarrow> False | Some e \<Rightarrow> executable process \<noteq> Some e) then False
      else if (case cm_desktop_id self of None \<Rightarrow> False | Some d \<Rightarrow> desktop_id process \<noteq> Some d) then False
      else (case cm_comm_regex self of None \<Rightarrow> True | Some pattern \<Rightarrow> rx_is_match pattern (comm process)))"

datatype 'r compiled_thread_selector = SelectLeader | SelectComm 'r

definition selector_is_match ::
  "('r \<Rightarrow> string \<Rightarrow> bool) \<Rightarrow> 'r compiled_thread_selector \<Rightarrow> process_info \<Rightarrow> process_info \<Rightarrow> bool" where
  "selector_is_match rx_is_match self workload thread =
     (case self of
        SelectLeader \<Rightarrow> pi_pid (identity thread) = pi_pid (identity workload)
      | SelectComm pattern \<Rightarrow> rx_is_match pattern (comm thread))"

record 'r compiled_scheduler_rule =
  cr_matcher :: "'r compiled_workload_matcher"
  cr_thread_selectors :: "'r compiled_thread_selector list"

definition compile_selector ::
  "(string \<Rightarrow> (string, 'r) result) \<Rightarrow> thread_rule_config \<Rightarrow> (policy_error, 'r compiled_thread_selector) result" where
  "compile_selector rx_new thread =
     (case tr_selector thread of
        Leader \<Rightarrow> Inr SelectLeader
      | CommRegex pattern \<Rightarrow> rbind (compile_regex rx_new pattern) (\<lambda>r. Inr (SelectComm r)))"

definition CompiledSchedulerRule_new ::
  "(string \<Rightarrow> (string, 'r) result) \<Rightarrow> process_rule_config
   \<Rightarrow> (policy_error, 'r compiled_scheduler_rule) result" where
  "CompiledSchedulerRule_new rx_new rule =
     rbind (CompiledWorkloadMatcher_new rx_new (pr_matcher rule)) (\<lambda>matcher.
     rbind (try_map (compile_selector rx_new) (pr_threads rule)) (\<lambda>selectors.
       Inr \<lparr>cr_matcher = matcher, cr_thread_selectors = selectors\<rparr>))"

section \<open>Application rules\<close>

record 'r compiled_app_rule =
  ca_matcher :: "'r compiled_workload_matcher"
  ca_profile :: profile_id

definition compile_app_rule ::
  "(string \<Rightarrow> (string, 'r) result) \<Rightarrow> app_rule \<Rightarrow> (policy_error, 'r compiled_app_rule) result" where
  "compile_app_rule rx_new rule =
     rbind (CompiledWorkloadMatcher_new rx_new (ar_matcher rule))
       (\<lambda>matcher. Inr \<lparr>ca_matcher = matcher, ca_profile = ar_profile rule\<rparr>)"

definition AppRuleEngine_new ::
  "(string \<Rightarrow> (string, 'r) result) \<Rightarrow> apps_config \<Rightarrow> (policy_error, 'r compiled_app_rule list) result" where
  "AppRuleEngine_new rx_new config =
     rbind (map_err InvalidConfiguration (AppsConfig_validate rx_new config)) (\<lambda>_.
       try_map (compile_app_rule rx_new) (ordered_enabled_rules config))"

definition match_profile ::
  "('r \<Rightarrow> string \<Rightarrow> bool) \<Rightarrow> 'r compiled_app_rule list \<Rightarrow> process_info \<Rightarrow> profile_id option" where
  "match_profile rx_is_match rules process =
     map_option ca_profile (List.find (\<lambda>rule. matcher_is_match rx_is_match (ca_matcher rule) process) rules)"

section \<open>The engine\<close>

record desired_plan =
  dp_generation :: u64
  dp_effective_profile :: profile_id
  dp_dominant_scene :: scene
  dp_frequencies :: "(target_id, frequency_limits) btree"
  dp_scalars :: "(target_id, scalar_setting_value) btree"
  dp_tasks :: "(process_identity, task_plan) btree"

record policy_input =
  pin_generation :: u64
  pin_observed :: observed_state
  pin_mode :: mode_selection
  pin_app_profile :: "profile_id option"
  pin_hints :: hint_set
  pin_cpu_targets :: "(target_id, cpu_target_policy) btree"
  pin_manual_target_policies :: "(target_id, frequency_policy) btree"
  pin_manual_overrides :: "(target_id, frequency_limits) btree"
  pin_administrator_caps :: "(target_id, hertz) btree"
  pin_thermal_caps :: "(target_id, hertz) btree"
  pin_thermal_degraded :: bool

record stateful_policy_evaluation =
  spe_desired :: desired_plan
  spe_next_governor_state :: governor_state
  spe_governor_diagnostics :: "governor_diagnostics option"

definition FOCUS_DEFAULT_RULE :: string where
  "FOCUS_DEFAULT_RULE = ''focus-default''"

datatype workload_source = Explicit | Focus

record 'r policy_engine =
  pe_config :: policy_config
  pe_scheduler_rules :: "'r compiled_scheduler_rule list"
  pe_focus_protected :: "'r compiled_workload_matcher list"

definition PolicyEngine_new ::
  "(string \<Rightarrow> (string, 'r) result) \<Rightarrow> policy_config \<Rightarrow> (policy_error, 'r policy_engine) result" where
  "PolicyEngine_new rx_new config =
     rbind (map_err InvalidConfiguration (PolicyConfig_validate rx_new config)) (\<lambda>_.
     rbind (try_map (CompiledSchedulerRule_new rx_new) (sc_process_rules (pol_scheduler config))) (\<lambda>rules.
     rbind (try_map (CompiledWorkloadMatcher_new rx_new) (fc_protected (sc_focus (pol_scheduler config))))
       (\<lambda>protected. Inr \<lparr>pe_config = config, pe_scheduler_rules = rules, pe_focus_protected = protected\<rparr>)))"

definition focus_protects :: "('r \<Rightarrow> string \<Rightarrow> bool) \<Rightarrow> 'r policy_engine \<Rightarrow> process_info \<Rightarrow> bool" where
  "focus_protects rx_is_match self process =
     list_ex (\<lambda>matcher. matcher_is_match rx_is_match matcher process) (pe_focus_protected self)"

record effective_params =
  ep_margin :: f64
  ep_burst :: f64
  ep_limit_efficiency :: bool
  ep_power_budget :: "power_budget_config option"
  ep_scalar_values :: "(target_id, scalar_setting_value) btree"

definition effective_parameters :: "profile_config \<Rightarrow> scene \<Rightarrow> effective_params" where
  "effective_parameters profile scene =
     (let patch = bt_get (pc_scenes profile) scene
      in \<lparr>ep_margin = unwrap_or (pc_margin profile) (Option.bind patch sp_margin),
          ep_burst = unwrap_or (pc_burst profile) (Option.bind patch sp_burst),
          ep_limit_efficiency = unwrap_or (pc_limit_efficiency profile) (Option.bind patch sp_limit_efficiency),
          ep_power_budget =
            (case Option.bind patch sp_power_budget of
               None \<Rightarrow> pc_power_budget profile
             | Some power_patch \<Rightarrow> resolve_power_budget (pc_power_budget profile) power_patch),
          ep_scalar_values =
            (case patch of None \<Rightarrow> pc_scalar_values profile
             | Some p \<Rightarrow> bt_extend (pc_scalar_values profile) (sp_scalar_values p))\<rparr>)"

definition required_thermal_cap :: "policy_input \<Rightarrow> target_id \<Rightarrow> (policy_error, hertz option) result" where
  "required_thermal_cap input tid =
     (let cap = bt_get (pin_thermal_caps input) tid
      in if pin_thermal_degraded input \<and> cap = None then Inl (MissingThermalCap tid) else Inr cap)"

definition cpu_override_step ::
  "policy_input \<Rightarrow> (target_id, frequency_limits) btree \<Rightarrow> target_id \<times> cpu_target_policy
   \<Rightarrow> (policy_error, (target_id, frequency_limits) btree) result" where
  "cpu_override_step input frequencies entry =
     (let tid = fst entry; frequency = ct_frequency (snd entry)
      in rbind (required_thermal_cap input tid) (\<lambda>thermal_cap.
           case bt_get (pin_manual_overrides input) tid of
             None \<Rightarrow> Inr frequencies
           | Some manual \<Rightarrow>
               rbind (constrain_frequency_limits manual (hardware_limits frequency)
                        (bt_get (pin_administrator_caps input) tid) thermal_cap
                        (available_frequencies frequency) (hertz_per_unit frequency))
                 (\<lambda>limits. Inr (bt_insert tid limits frequencies))))"

definition manual_target_step ::
  "policy_input \<Rightarrow> (target_id, frequency_limits) btree \<Rightarrow> target_id \<times> frequency_policy
   \<Rightarrow> (policy_error, (target_id, frequency_limits) btree) result" where
  "manual_target_step input frequencies entry =
     (let tid = fst entry; target = snd entry
      in if bt_contains frequencies tid then Inr frequencies
         else rbind (required_thermal_cap input tid) (\<lambda>thermal_cap.
           let administrator_cap = bt_get (pin_administrator_caps input) tid;
               manual = bt_get (pin_manual_overrides input) tid
           in if manual = None \<and> thermal_cap = None \<and> administrator_cap = None then Inr frequencies
              else rbind (FrequencyPolicy_validate target) (\<lambda>_.
                let requested = unwrap_or
                      (case bt_get (observed_frequencies (pin_observed input)) tid of
                         None \<Rightarrow> hardware_limits target | Some observed \<Rightarrow> of_limits observed) manual
                in rbind (constrain_frequency_limits requested (hardware_limits target) administrator_cap
                            thermal_cap (available_frequencies target) (hertz_per_unit target))
                     (\<lambda>limits. Inr (bt_insert tid limits frequencies)))))"

definition evaluate_base :: "policy_config \<Rightarrow> policy_input \<Rightarrow> (policy_error, desired_plan) result" where
  "evaluate_base config input =
     (let effective_profile = resolve_effective_profile (pin_mode input) (pin_app_profile input)
            (pol_default_profile config);
          now = timestamp (pin_observed input);
          dominant_scene = (if pin_thermal_degraded input then dominant_at_excluding (pin_hints input) now {Boost}
                            else dominant_at (pin_hints input) now)
      in rbind (ok_or (MissingProfile effective_profile) (policy_profile config effective_profile)) (\<lambda>profile.
         let parameters = effective_parameters profile dominant_scene
         in rbind (try_fold (cpu_override_step input) [] (pin_cpu_targets input)) (\<lambda>overridden.
            rbind (try_fold (manual_target_step input) overridden (pin_manual_target_policies input)) (\<lambda>frequencies.
              Inr \<lparr>dp_generation = pin_generation input, dp_effective_profile = effective_profile,
                   dp_dominant_scene = dominant_scene, dp_frequencies = frequencies,
                   dp_scalars = ep_scalar_values parameters, dp_tasks = []\<rparr>))))"

definition cluster_loads :: "cpu_set \<Rightarrow> (cpu_id, f64) btree \<Rightarrow> f64 list" where
  "cluster_loads cpus loads =
     map (f64_clamp (Fin 0) (Fin 1)) (filter f64_is_finite (List.map_filter (bt_get loads) cpus))"

definition max_cpu_demand :: "cpu_set \<Rightarrow> (cpu_id, f64) btree \<Rightarrow> f64" where
  "max_cpu_demand cpus loads = fold (\<lambda>load acc. f64_max acc load) (cluster_loads cpus loads) (Fin 0)"

definition summed_cpu_demand :: "cpu_set \<Rightarrow> (cpu_id, f64) btree \<Rightarrow> f64" where
  "summed_cpu_demand cpus loads = fold (\<lambda>load acc. f64_add acc load) (cluster_loads cpus loads) (Fin 0)"

definition cluster_load_views :: "policy_input \<Rightarrow> (target_id, f64) btree \<times> (target_id, f64) btree" where
  "cluster_load_views input =
     (let loads = cpu_loads (pin_observed input)
      in (bt_collect (map (\<lambda>(tid, target). (tid, max_cpu_demand (ct_cpus target) loads)) (pin_cpu_targets input)),
          bt_collect (map (\<lambda>(tid, target). (tid, summed_cpu_demand (ct_cpus target) loads)) (pin_cpu_targets input))))"

text \<open>
  \<open>GovernorError::to_string\<close>. The source of \<open>InvalidFrequencyPolicy\<close> is an error of
  \<open>FrequencyPolicy::validate\<close>, which returns only the four variants spelled out here.
\<close>

definition limits_debug :: "frequency_limits \<Rightarrow> string" where
  "limits_debug l = ''FrequencyLimits { min: Hertz('' @ show_int (uint (min_hz l)) @ ''), max: Hertz(''
     @ show_int (uint (max_hz l)) @ '') }''"

fun frequency_error_to_string :: "policy_error \<Rightarrow> string" where
  "frequency_error_to_string (InvalidHardwareLimits l) =
     ''hardware frequency limits are invalid: '' @ limits_debug l"
| "frequency_error_to_string InvalidFrequencyModel =
     ''floor, reference, and efficient cap must each lie within the hardware limits''"
| "frequency_error_to_string OppOutsideHardwareLimits = ''an OPP lies outside the hardware limits''"
| "frequency_error_to_string InvalidFrequencyQuantum =
     ''frequency values are not representable in the kernel target unit''"
| "frequency_error_to_string _ = []"

text \<open>\<open>Panicked\<close> is the panic of the governor, which no error value of the source stands for.\<close>

datatype evaluation_failure = Failed policy_error | Panicked

fun governor_failure :: "governor_error \<Rightarrow> evaluation_failure" where
  "governor_failure (MissingEnergyModel tid) =
     Failed (EnergyGovernor (''target `'' @ tid @ ''` has no energy model''))"
| "governor_failure (NoOppBelowSafetyCap tid) =
     Failed (EnergyGovernor (''target `'' @ tid @ ''` has no model OPP at or below its safety cap''))"
| "governor_failure (InvalidFrequencyPolicy tid e) =
     Failed (EnergyGovernor (''target `'' @ tid @ ''` has an invalid frequency policy: '' @ frequency_error_to_string e))"
| "governor_failure GovernorPanic = Panicked"

definition governor_input_of ::
  "policy_config \<Rightarrow> policy_input \<Rightarrow> effective_params \<Rightarrow> power_budget_config \<Rightarrow> bool \<Rightarrow> governor_input" where
  "governor_input_of config input parameters power_budget integrate_elapsed_time =
     (let views = cluster_load_views input
      in \<lparr>gi_timestamp = timestamp (pin_observed input), gi_targets = pin_cpu_targets input,
          gi_raw_loads = fst views, gi_active_load_sums = snd views,
          gi_observed_frequencies = bt_collect (List.map_filter
            (\<lambda>(tid, observed). map_option (\<lambda>current. (tid, current)) (of_current observed))
            (observed_frequencies (pin_observed input))),
          gi_administrator_caps = pin_administrator_caps input, gi_thermal_caps = pin_thermal_caps input,
          gi_config = pol_governor config, gi_power_budget = power_budget,
          gi_margin = ep_margin parameters, gi_burst = ep_burst parameters,
          gi_limit_efficiency = ep_limit_efficiency parameters,
          gi_integrate_elapsed_time = integrate_elapsed_time\<rparr>)"

definition merge_governor_limits ::
  "policy_input \<Rightarrow> (target_id, frequency_limits) btree \<Rightarrow> (target_id, frequency_limits) btree
   \<Rightarrow> (target_id, frequency_limits) btree" where
  "merge_governor_limits input limits frequencies =
     fold (\<lambda>(tid, l) m. if bt_contains (pin_manual_overrides input) tid then m else bt_insert tid l m)
       limits frequencies"

definition evaluate_stateful ::
  "policy_config \<Rightarrow> policy_input \<Rightarrow> governor_state \<Rightarrow> bool
   \<Rightarrow> (evaluation_failure, stateful_policy_evaluation) result" where
  "evaluate_stateful config input governor_state integrate_elapsed_time =
     rbind (map_err Failed (evaluate_base config input)) (\<lambda>desired.
     let pid = dp_effective_profile desired
     in rbind (ok_or (Failed (MissingProfile pid)) (policy_profile config pid)) (\<lambda>profile.
     let parameters = effective_parameters profile (dp_dominant_scene desired)
     in rbind (ok_or (Failed (MissingPowerBudget pid)) (ep_power_budget parameters)) (\<lambda>power_budget.
     rbind (map_err governor_failure
              (transition_governor governor_state
                 (governor_input_of config input parameters power_budget integrate_elapsed_time))) (\<lambda>transition.
       Inr \<lparr>spe_desired = desired\<lparr>dp_frequencies :=
              merge_governor_limits input (gt_limits transition) (dp_frequencies desired)\<rparr>,
            spe_next_governor_state = gt_next_state transition,
            spe_governor_diagnostics = Some (gt_diagnostics transition)\<rparr>))))"

section \<open>Scheduler rules\<close>

record scheduler_decision =
  sd_tasks :: "(process_identity, task_plan) btree"
  sd_cgroup_class :: "string option"
  sd_matched_rule :: "string option"

definition SchedulerDecision_default :: scheduler_decision where
  "SchedulerDecision_default = \<lparr>sd_tasks = [], sd_cgroup_class = None, sd_matched_rule = None\<rparr>"

definition effective_task_plan :: "task_profile_config \<Rightarrow> scheduler_scene \<Rightarrow> task_plan" where
  "effective_task_plan profile scheduler_scene =
     (case bt_get (tpr_scenes profile) scheduler_scene of
        None \<Rightarrow> tpr_plan profile
      | Some patch \<Rightarrow> merge_task_plan (tpr_plan profile) patch)"

definition find_task_profile :: "scheduler_config \<Rightarrow> string \<Rightarrow> (policy_error, task_profile_config) result" where
  "find_task_profile scheduler profile_id =
     ok_or (MissingTaskProfile profile_id)
       (List.find (\<lambda>profile. tpr_id profile = profile_id) (sc_task_profiles scheduler))"

definition focus_default_decision ::
  "'r policy_engine \<Rightarrow> process_info \<Rightarrow> process_info list \<Rightarrow> workload_source \<Rightarrow> scheduler_scene
   \<Rightarrow> (policy_error, scheduler_decision) result" where
  "focus_default_decision self workload threads source scheduler_scene =
     (let scheduler = pol_scheduler (pe_config self); focus = sc_focus scheduler
      in if source \<noteq> Focus \<or> \<not> fc_enabled focus then Inr SchedulerDecision_default
         else case fc_task_profile focus of
           None \<Rightarrow> Inr SchedulerDecision_default
         | Some profile_id \<Rightarrow>
             rbind (find_task_profile scheduler profile_id) (\<lambda>profile.
               let plan = effective_task_plan profile scheduler_scene;
                   same_user = filter (\<lambda>thread. pi_uid (identity thread) = pi_uid (identity workload)) threads
               in Inr \<lparr>sd_tasks = fold (\<lambda>thread. bt_insert (identity thread) plan) same_user
                         (bt_insert (identity workload) plan []),
                       sd_cgroup_class = None, sd_matched_rule = Some FOCUS_DEFAULT_RULE\<rparr>))"

text \<open>The process task profile applies to the leader before any thread rule.\<close>

definition process_tasks ::
  "scheduler_config \<Rightarrow> process_info \<Rightarrow> process_rule_config \<Rightarrow> scheduler_scene
   \<Rightarrow> (policy_error, (process_identity, task_plan) btree) result" where
  "process_tasks scheduler workload rule scheduler_scene =
     (case pr_task_profile rule of
        None \<Rightarrow> Inr []
      | Some profile_id \<Rightarrow> rbind (find_task_profile scheduler profile_id) (\<lambda>profile.
          Inr (bt_insert (identity workload) (effective_task_plan profile scheduler_scene) [])))"

definition thread_rule_step ::
  "('r \<Rightarrow> string \<Rightarrow> bool) \<Rightarrow> scheduler_config \<Rightarrow> process_info
   \<Rightarrow> (thread_rule_config \<times> 'r compiled_thread_selector) list \<Rightarrow> scheduler_scene
   \<Rightarrow> (process_identity, task_plan) btree \<Rightarrow> process_info
   \<Rightarrow> (policy_error, (process_identity, task_plan) btree) result" where
  "thread_rule_step rx_is_match scheduler workload rules scheduler_scene tasks thread =
     (if pi_uid (identity thread) \<noteq> pi_uid (identity workload) then Inr tasks
      else case List.find (\<lambda>(_, selector). selector_is_match rx_is_match selector workload thread) rules of
        None \<Rightarrow> Inr tasks
      | Some (thread_rule, _) \<Rightarrow>
          rbind (find_task_profile scheduler (tr_task_profile thread_rule)) (\<lambda>profile.
            Inr (bt_insert (identity thread) (effective_task_plan profile scheduler_scene) tasks)))"

definition evaluate_scheduler ::
  "('r \<Rightarrow> string \<Rightarrow> bool) \<Rightarrow> 'r policy_engine \<Rightarrow> process_info \<Rightarrow> process_info list \<Rightarrow> workload_source
   \<Rightarrow> scheduler_scene \<Rightarrow> (policy_error, scheduler_decision) result" where
  "evaluate_scheduler rx_is_match self workload threads source scheduler_scene =
     (let scheduler = pol_scheduler (pe_config self)
      in if \<not> sc_enabled scheduler then Inr SchedulerDecision_default
         else case List.find (\<lambda>(_, compiled). matcher_is_match rx_is_match (cr_matcher compiled) workload)
                     (zip (sc_process_rules scheduler) (pe_scheduler_rules self)) of
           None \<Rightarrow> focus_default_decision self workload threads source scheduler_scene
         | Some (rule, compiled) \<Rightarrow>
             rbind (process_tasks scheduler workload rule scheduler_scene) (\<lambda>leader_tasks.
             rbind (try_fold
                      (thread_rule_step rx_is_match scheduler workload
                         (zip (pr_threads rule) (cr_thread_selectors compiled)) scheduler_scene)
                      leader_tasks
                      (workload # filter (\<lambda>thread. identity thread \<noteq> identity workload) threads))
               (\<lambda>tasks. Inr \<lparr>sd_tasks = tasks, sd_cgroup_class = pr_cgroup_class rule,
                             sd_matched_rule = Some (pr_name rule)\<rparr>)))"

end
