(* ===== verification/Engine_Safety.thy ===== *)
theory Engine_Safety
  imports Policy_Engine
begin

text \<open>
  What \<open>PolicyEngine\<close> and \<open>AppRuleEngine\<close> guarantee on validated documents: safe frequency plans,
  complete references, first-match semantics and plans that stay within the user of the workload.
\<close>

section \<open>Frequency plans\<close>

text \<open>
  The envelope of a target: limits in order, inside the hardware window, and under every cap
  that is present. A cap below the hardware minimum cannot be honoured and leaves the minimum.
\<close>

definition within_envelope ::
  "policy_input \<Rightarrow> frequency_policy \<Rightarrow> target_id \<Rightarrow> frequency_limits \<Rightarrow> bool" where
  "within_envelope input frequency tid l =
     (min_hz l \<le> max_hz l \<and> max_hz l \<le> max_hz (hardware_limits frequency)
      \<and> (\<forall>cap \<in> set (flatten [bt_get (pin_administrator_caps input) tid, bt_get (pin_thermal_caps input) tid]).
           max_hz l \<le> max cap (min_hz (hardware_limits frequency))))"

lemma constrain_within_envelope:
  assumes "constrain_frequency_limits req (hardware_limits f)
             (bt_get (pin_administrator_caps input) tid) (bt_get (pin_thermal_caps input) tid) av q = Inr l"
  shows "within_envelope input f tid l"
proof -
  let ?a = "bt_get (pin_administrator_caps input) tid"
  let ?t = "bt_get (pin_thermal_caps input) tid"
  from assms have hw: "limits_is_valid (hardware_limits f)" by (rule constrain_InrE)
  note mx = constrain_max_bounds [OF assms] and mn = constrain_min_bounds [OF assms]
  have "max_hz l \<le> max c (min_hz (hardware_limits f))" if "c \<in> set (flatten [?a, ?t])" for c
    using mx hard_cap_le_cap [OF hw that] by (auto dest: order_trans)
  with mx mn hard_cap_bounds(2) [OF hw, of ?a ?t] show ?thesis
    by (auto simp: within_envelope_def dest: order_trans)
qed

lemma required_thermal_cap_Inr:
  "required_thermal_cap input tid = Inr cap \<Longrightarrow> cap = bt_get (pin_thermal_caps input) tid"
  by (auto simp: required_thermal_cap_def Let_def split: if_splits)

lemma cpu_override_step_get:
  assumes "cpu_override_step input m (tid, target) = Inr m'"
  shows "k \<noteq> tid \<Longrightarrow> bt_get m' k = bt_get m k"
    and "bt_contains (pin_manual_overrides input) tid \<Longrightarrow>
         \<exists>l. bt_get m' tid = Some l \<and> within_envelope input (ct_frequency target) tid l"
  using assms
  by (auto simp: cpu_override_step_def Let_def rbind_Inr_iff bt.look_ins bt_contains_def
      split: option.splits dest!: required_thermal_cap_Inr intro: constrain_within_envelope)

lemma cpu_override_fold:
  assumes "try_fold (cpu_override_step input) m targets = Inr m'" and "distinct (map fst targets)"
    and "(tid, target) \<in> set targets" and "bt_contains (pin_manual_overrides input) tid"
  shows "\<exists>l. bt_get m' tid = Some l \<and> within_envelope input (ct_frequency target) tid l"
  using assms
proof (induction targets arbitrary: m)
  case (Cons e targets)
  from Cons.prems(1) obtain m1 where m1: "cpu_override_step input m e = Inr m1"
    and rest: "try_fold (cpu_override_step input) m1 targets = Inr m'" by (auto simp: rbind_Inr_iff)
  show ?case
  proof (cases "e = (tid, target)")
    case True
    have "bt_get m' tid = bt_get m1 tid"
      using rest
    proof (rule try_fold_inv)
      fix s x s' assume "bt_get s tid = bt_get m1 tid" "x \<in> set targets" "cpu_override_step input s x = Inr s'"
      moreover have "fst x \<noteq> tid" using Cons.prems(2) True \<open>x \<in> set targets\<close> by force
      ultimately show "bt_get s' tid = bt_get m1 tid"
        using cpu_override_step_get(1) [of input s "fst x" "snd x" s' tid] by simp
    qed simp
    with cpu_override_step_get(2) [OF m1 [unfolded True] Cons.prems(4)] show ?thesis by simp
  next
    case False
    with Cons.IH [OF rest] Cons.prems show ?thesis by auto
  qed
qed simp

lemma manual_step_keeps:
  assumes "manual_target_step input m e = Inr m'" and "bt_get m k = Some l"
  shows "bt_get m' k = Some l"
  using assms
  by (auto simp: manual_target_step_def Let_def rbind_Inr_iff bt.look_ins bt_contains_def split: if_splits)

lemma manual_step_envelope:
  assumes step: "manual_target_step input m (tid, target) = Inr m'" and new: "\<not> bt_contains m tid"
    and active: "bt_contains (pin_manual_overrides input) tid \<or> bt_contains (pin_administrator_caps input) tid
         \<or> bt_contains (pin_thermal_caps input) tid"
  shows "\<exists>l. bt_get m' tid = Some l \<and> within_envelope input target tid l"
proof -
  from step new active obtain cap where cap: "required_thermal_cap input tid = Inr cap"
    by (auto simp: manual_target_step_def Let_def rbind_Inr_iff)
  note eq = required_thermal_cap_Inr [OF cap]
  from active have "\<not> (bt_get (pin_manual_overrides input) tid = None \<and> cap = None
      \<and> bt_get (pin_administrator_caps input) tid = None)" by (auto simp: bt_contains_def eq)
  with step new cap obtain req l where
    "constrain_frequency_limits req (hardware_limits target) (bt_get (pin_administrator_caps input) tid) cap
       (available_frequencies target) (hertz_per_unit target) = Inr l"
    and "m' = bt_insert tid l m"
    by (auto simp: manual_target_step_def Let_def rbind_Inr_iff)
  then show ?thesis using constrain_within_envelope unfolding eq by (auto simp: bt.look_ins)
qed

lemma evaluate_baseE:
  assumes "evaluate_base config input = Inr d"
  obtains m where "try_fold (cpu_override_step input) [] (pin_cpu_targets input) = Inr m"
    and "try_fold (manual_target_step input) m (pin_manual_target_policies input) = Inr (dp_frequencies d)"
    and "dp_effective_profile d = resolve_effective_profile (pin_mode input) (pin_app_profile input)
           (pol_default_profile config)"
    and "dp_dominant_scene d = (if pin_thermal_degraded input
           then dominant_at_excluding (pin_hints input) (timestamp (pin_observed input)) {Boost}
           else dominant_at (pin_hints input) (timestamp (pin_observed input)))"
  using assms by (auto simp: evaluate_base_def Let_def rbind_Inr_iff)

lemma evaluate_base_override:
  assumes "evaluate_base config input = Inr d" and wf: "bt_wf (pin_cpu_targets input)"
    and t: "bt_get (pin_cpu_targets input) tid = Some target" and o: "bt_contains (pin_manual_overrides input) tid"
  shows "\<exists>l. bt_get (dp_frequencies d) tid = Some l \<and> within_envelope input (ct_frequency target) tid l"
  using assms(1)
proof (rule evaluate_baseE)
  fix m assume cpu: "try_fold (cpu_override_step input) [] (pin_cpu_targets input) = Inr m"
    and man: "try_fold (manual_target_step input) m (pin_manual_target_policies input) = Inr (dp_frequencies d)"
  have "distinct (map fst (pin_cpu_targets input))" using wf by (simp add: bt_wf_def strict_sorted_iff)
  from cpu_override_fold [OF cpu this bt_get_Some_mem [OF t] o]
  obtain l where l: "bt_get m tid = Some l" "within_envelope input (ct_frequency target) tid l" by blast
  from man have "bt_get (dp_frequencies d) tid = Some l"
    by (rule try_fold_inv) (auto simp: l(1) intro: manual_step_keeps)
  with l(2) show ?thesis by blast
qed

lemma merge_governor_limits_get:
  assumes "distinct (map fst limits)"
  shows "bt_get (merge_governor_limits input limits m) tid
         = (if bt_contains (pin_manual_overrides input) tid then bt_get m tid
            else or_else (bt_get limits tid) (bt_get m tid))"
  using assms
proof (induction limits arbitrary: m)
  case (Cons e limits)
  let ?m = "if bt_contains (pin_manual_overrides input) (fst e) then m else bt_insert (fst e) (snd e) m"
  have step: "merge_governor_limits input (e # limits) m = merge_governor_limits input limits ?m"
    by (simp add: merge_governor_limits_def case_prod_beta)
  have "fst e = tid \<Longrightarrow> bt_get limits tid = None"
    using Cons.prems by (auto simp: bt_get_def map_of_eq_None_iff)
  with Cons show ?case unfolding step by (auto simp: bt.look_ins bt_get_Cons)
qed (simp add: merge_governor_limits_def)

lemma bt_wf_fold_insert: "bt_wf m \<Longrightarrow> bt_wf (fold (\<lambda>e. bt_insert (fst e) (snd e)) xs m)"
  by (rule bt.wf_fold_ins)

lemma bt_wf_collect: "bt_wf (bt_collect xs)"
  by (simp add: bt_collect_def bt_extend_def bt_wf_fold_insert)

lemma transition_limits_distinct:
  assumes "transition_governor state input = Inr tr"
  shows "distinct (map fst (gt_limits tr))"
proof -
  from assms obtain rows where "gt_limits tr = commit_plan rows"
    by (rule transition_InrE) (auto simp: finish_transition_def Let_def)
  then have "bt_wf (gt_limits tr)" by (simp add: commit_plan_def bt_wf_collect)
  then show ?thesis by (simp add: bt_wf_def strict_sorted_iff)
qed

lemma evaluate_statefulE:
  assumes "evaluate_stateful config input st integrate = Inr ev"
  obtains d tr parameters budget where "evaluate_base config input = Inr d"
    and "transition_governor st (governor_input_of config input parameters budget integrate) = Inr tr"
    and "dp_frequencies (spe_desired ev) = merge_governor_limits input (gt_limits tr) (dp_frequencies d)"
    and "dp_dominant_scene (spe_desired ev) = dp_dominant_scene d"
    and "dp_effective_profile (spe_desired ev) = dp_effective_profile d"
    and "spe_next_governor_state ev = gt_next_state tr"
  using assms by (auto simp: evaluate_stateful_def Let_def rbind_Inr_iff)

lemma governor_input_of_sel [simp]:
  "gi_targets (governor_input_of c i p b g) = pin_cpu_targets i"
  "gi_administrator_caps (governor_input_of c i p b g) = pin_administrator_caps i"
  "gi_thermal_caps (governor_input_of c i p b g) = pin_thermal_caps i"
  "gi_power_budget (governor_input_of c i p b g) = b"
  by (simp_all add: governor_input_of_def Let_def)

lemma plan_within_envelope:
  assumes "plan_ok (input_safety_cap (governor_input_of c input p b g) tid target) plan"
  shows "within_envelope input (ct_frequency target) tid (plan_limits plan)"
proof -
  let ?a = "bt_get (pin_administrator_caps input) tid"
  let ?t = "bt_get (pin_thermal_caps input) tid"
  let ?f = "ct_frequency target"
  have ok: "bo_floor_hz plan \<le> bo_cap_hz plan" "bo_cap_hz plan \<le> safety_cap_of ?f ?a ?t"
    using assms by (simp_all add: plan_ok_def input_safety_cap_def)
  have "bo_cap_hz plan \<le> cap" if "cap \<in> set (flatten [?a, ?t])" for cap
    using order_trans [OF ok(2) safety_cap_bounds(2)] order_trans [OF ok(2) safety_cap_bounds(3)] that
    by (cases ?a; cases ?t) auto
  with ok order_trans [OF ok(2) safety_cap_bounds(1)] show ?thesis
    by (auto simp: within_envelope_def plan_limits_def le_max_iff_disj)
qed

lemma evaluate_stateful_envelope:
  assumes ev: "evaluate_stateful config input st integrate = Inr ev" and wf: "bt_wf (pin_cpu_targets input)"
    and t: "bt_get (pin_cpu_targets input) tid = Some target"
  shows "\<exists>l. bt_get (dp_frequencies (spe_desired ev)) tid = Some l
             \<and> within_envelope input (ct_frequency target) tid l"
  using ev
proof (rule evaluate_statefulE)
  fix d tr parameters budget
  assume base: "evaluate_base config input = Inr d"
    and tr: "transition_governor st (governor_input_of config input parameters budget integrate) = Inr tr"
    and freq: "dp_frequencies (spe_desired ev) = merge_governor_limits input (gt_limits tr) (dp_frequencies d)"
  note get = merge_governor_limits_get [OF transition_limits_distinct [OF tr], of input "dp_frequencies d" tid]
  show ?thesis
  proof (cases "bt_contains (pin_manual_overrides input) tid")
    case True
    with evaluate_base_override [OF base wf t True] get freq show ?thesis by simp
  next
    case False
    from transition_plan [OF tr, of tid target] wf t obtain plan
      where "plan_ok (input_safety_cap (governor_input_of config input parameters budget integrate) tid target) plan"
        and "bt_get (gt_limits tr) tid = Some (plan_limits plan)" by auto
    with plan_within_envelope get freq False show ?thesis by auto
  qed
qed

section \<open>References that cannot dangle\<close>

lemma policy_profile_of_find: "policy_profile c pid = Some p \<Longrightarrow> p \<in> set (pol_profiles c) \<and> pc_id p = pid"
  by (auto simp: policy_profile_def dest: find_Some_mem)

definition reference_error :: "policy_error \<Rightarrow> bool" where
  "reference_error e = (\<exists>q. e = MissingProfile q \<or> e = MissingPowerBudget q)"

lemma frequency_errors:
  "constrain_frequency_limits req hw a t av q = Inl e \<Longrightarrow> \<not> reference_error e"
  "FrequencyPolicy_validate f = Inl e \<Longrightarrow> \<not> reference_error e"
  "required_thermal_cap input tid = Inl e \<Longrightarrow> \<not> reference_error e"
  by (auto simp: constrain_frequency_limits_def FrequencyPolicy_validate_def required_thermal_cap_def Let_def
      snapped_max_def reference_error_def ok_or_def rbind_def split: if_splits sum.splits option.splits)

lemma plan_step_errors:
  "cpu_override_step input m e = Inl err \<Longrightarrow> \<not> reference_error err"
  "manual_target_step input m e' = Inl err \<Longrightarrow> \<not> reference_error err"
  by (auto simp: cpu_override_step_def manual_target_step_def Let_def rbind_def
      split: if_splits sum.splits option.splits dest: frequency_errors)

lemma evaluate_base_errors:
  assumes "policy_profile config (resolve_effective_profile (pin_mode input) (pin_app_profile input)
             (pol_default_profile config)) = Some p"
    and "evaluate_base config input = Inl e"
  shows "\<not> reference_error e"
  using assms
  by (auto simp: evaluate_base_def Let_def rbind_def split: sum.splits dest!: try_fold_Inl dest: plan_step_errors)

lemma governor_failure_errors: "governor_failure g = Failed e \<Longrightarrow> \<not> reference_error e"
  by (cases g) (auto simp: reference_error_def)

lemma evaluate_stateful_no_dangling:
  assumes valid: "PolicyConfig_validate rx_new config = Inr ()"
    and budgets: "\<forall>p \<in> set (pol_profiles config). pc_power_budget p \<noteq> None"
    and err: "evaluate_stateful config input st integrate = Inl (Failed e)"
  shows "\<not> reference_error e"
proof -
  have prof: "\<exists>p. policy_profile config q = Some p" for q
    using policy_profile_total [OF valid] by blast
  have budget: "\<exists>b. ep_power_budget (effective_parameters p sc) = Some b"
    if "policy_profile config q = Some p" for p q sc
    using policy_profile_of_find [OF that] budgets resolve_power_budget_total
    by (fastforce simp: effective_parameters_def Let_def split: option.split)
  show ?thesis
  proof (cases "evaluate_base config input")
    case (Inl e')
    with err have "e' = e" by (simp add: evaluate_stateful_def)
    with evaluate_base_errors Inl prof show ?thesis by blast
  next
    case (Inr d)
    obtain p where p: "policy_profile config (dp_effective_profile d) = Some p" using prof by blast
    obtain b where b: "ep_power_budget (effective_parameters p (dp_dominant_scene d)) = Some b"
      using budget [OF p] by blast
    from err Inr p b show ?thesis
      by (auto simp: evaluate_stateful_def Let_def rbind_def map_err_def split: sum.splits
          dest: governor_failure_errors)
  qed
qed

section \<open>Compilation of validated rules\<close>

lemma matcher_compiles:
  assumes "validate_matcher rx_new p m = []"
  shows "\<exists>c. CompiledWorkloadMatcher_new rx_new m = Inr c"
  using validate_matcher_ok(3) [OF assms]
  by (cases "wm_comm_regex m") (auto simp: CompiledWorkloadMatcher_new_def compile_regex_def)

lemma rule_compiles:
  assumes "process_rule_ok rx_new profiles rule"
  shows "\<exists>c. CompiledSchedulerRule_new rx_new rule = Inr c"
proof -
  obtain c where "CompiledWorkloadMatcher_new rx_new (pr_matcher rule) = Inr c"
    using assms matcher_compiles unfolding process_rule_ok_def by blast
  moreover have "\<exists>s. compile_selector rx_new t = Inr s" if "t \<in> set (pr_threads rule)" for t
    using assms that
    by (cases "tr_selector t")
      (fastforce simp: process_rule_ok_def compile_selector_def compile_regex_def)+
  then obtain ss where "try_map (compile_selector rx_new) (pr_threads rule) = Inr ss"
    using try_map_total by metis
  ultimately show ?thesis by (simp add: CompiledSchedulerRule_new_def)
qed

lemma PolicyEngine_new_total:
  assumes "PolicyConfig_validate rx_new config = Inr ()"
  shows "\<exists>e. PolicyEngine_new rx_new config = Inr e \<and> pe_config e = config
             \<and> length (pe_scheduler_rules e) = length (sc_process_rules (pol_scheduler config))"
proof -
  let ?s = "pol_scheduler config"
  from assms have s: "validate_scheduler rx_new ?s = []" by (rule PolicyConfig_validE)
  have "\<exists>c. CompiledSchedulerRule_new rx_new r = Inr c" if "r \<in> set (sc_process_rules ?s)" for r
    using validate_scheduler_rules [OF s] that rule_compiles by blast
  then obtain rules where rules: "try_map (CompiledSchedulerRule_new rx_new) (sc_process_rules ?s) = Inr rules"
    using try_map_total by metis
  have "\<exists>c. CompiledWorkloadMatcher_new rx_new m = Inr c" if "m \<in> set (fc_protected (sc_focus ?s))" for m
    using validate_scheduler_focus(2) [OF s] that matcher_compiles by blast
  then obtain prot where "try_map (CompiledWorkloadMatcher_new rx_new) (fc_protected (sc_focus ?s)) = Inr prot"
    using try_map_total by metis
  moreover have "length rules = length (sc_process_rules ?s)"
    using rules by (metis try_map_Inr_iff list_all2_lengthD)
  ultimately show ?thesis using rules assms by (simp add: PolicyEngine_new_def)
qed

section \<open>Application rules\<close>

lemma AppRuleEngine_new_total:
  assumes "AppsConfig_validate rx_new config = Inr ()"
  shows "\<exists>rules. AppRuleEngine_new rx_new config = Inr rules"
proof -
  have "\<exists>c. compile_app_rule rx_new r = Inr c" if "r \<in> set (ordered_enabled_rules config)" for r
  proof -
    have "r \<in> set (ac_rules config)" using that by (simp add: ordered_enabled_rules_set)
    then obtain c where "CompiledWorkloadMatcher_new rx_new (ar_matcher r) = Inr c"
      using AppsConfig_validate_ok(2) [OF assms] matcher_compiles by blast
    then show ?thesis by (simp add: compile_app_rule_def)
  qed
  then obtain rules where "try_map (compile_app_rule rx_new) (ordered_enabled_rules config) = Inr rules"
    using try_map_total by metis
  with assms show ?thesis by (simp add: AppRuleEngine_new_def)
qed

text \<open>A rule document matches a process when the compiled matcher of the rule does.\<close>

definition rule_matches ::
  "(string \<Rightarrow> (string, 'r) result) \<Rightarrow> ('r \<Rightarrow> string \<Rightarrow> bool) \<Rightarrow> process_info \<Rightarrow> app_rule \<Rightarrow> bool" where
  "rule_matches rx_new rx_is_match process rule =
     (case CompiledWorkloadMatcher_new rx_new (ar_matcher rule) of
        Inl _ \<Rightarrow> False | Inr m \<Rightarrow> matcher_is_match rx_is_match m process)"

lemma match_profile_find:
  assumes "list_all2 (\<lambda>r c. compile_app_rule rx_new r = Inr c) rs cs"
  shows "match_profile rx_is_match cs process
         = map_option ar_profile (List.find (rule_matches rx_new rx_is_match process) rs)"
  using assms
proof (induction rule: list_all2_induct)
  case (Cons r rs c cs)
  then show ?case
    by (auto simp: match_profile_def compile_app_rule_def rule_matches_def rbind_Inr_iff)
qed (simp add: match_profile_def)

lemma find_Some_first:
  "List.find P xs = Some x \<Longrightarrow> \<exists>us vs. xs = us @ x # vs \<and> P x \<and> (\<forall>u \<in> set us. \<not> P u)"
proof (induction xs)
  case (Cons y ys)
  show ?case
  proof (cases "P y")
    case True
    with Cons.prems have "y # ys = [] @ x # ys" and "P x" by auto
    then show ?thesis by (metis empty_iff list.set(1))
  next
    case False
    with Cons obtain us vs where "ys = us @ x # vs" "P x" "\<forall>u \<in> set us. \<not> P u" by auto
    with False have "y # ys = (y # us) @ x # vs" and "\<forall>u \<in> set (y # us). \<not> P u" by auto
    with \<open>P x\<close> show ?thesis by blast
  qed
qed simp

lemma match_profile_Some:
  assumes "AppRuleEngine_new rx_new config = Inr rules" and "match_profile rx_is_match rules process = Some pid"
  obtains rule where "rule \<in> set (ac_rules config)" and "ar_enabled rule" and "ar_profile rule = pid"
    and "rule_matches rx_new rx_is_match process rule"
    and "\<forall>r \<in> set (ac_rules config). ar_enabled r \<longrightarrow> rule_matches rx_new rx_is_match process r
           \<longrightarrow> ar_priority r \<le> ar_priority rule"
proof -
  let ?M = "rule_matches rx_new rx_is_match process"
  let ?rs = "ordered_enabled_rules config"
  have "list_all2 (\<lambda>r c. compile_app_rule rx_new r = Inr c) ?rs rules"
    using assms(1) by (simp add: AppRuleEngine_new_def rbind_Inr_iff try_map_Inr_iff)
  from assms(2) [unfolded match_profile_find [OF this]] obtain rule
    where find: "List.find ?M ?rs = Some rule" and pid: "ar_profile rule = pid" by auto
  from find_Some_first [OF find] obtain us vs where rs: "?rs = us @ rule # vs" and "?M rule"
    and us: "\<forall>u \<in> set us. \<not> ?M u" by blast
  have mem: "r \<in> set ?rs \<longleftrightarrow> r \<in> set (ac_rules config) \<and> ar_enabled r" for r
    by (simp add: ordered_enabled_rules_set)
  have "ar_priority r \<le> ar_priority rule" if "r \<in> set ?rs" "?M r" for r
    using ordered_enabled_rules_sorted [of config] that us unfolding rs
    by (auto simp: sorted_wrt_append)
  with mem \<open>?M rule\<close> pid rs that show ?thesis by (metis in_set_conv_decomp)
qed

lemma match_profile_None:
  assumes "AppRuleEngine_new rx_new config = Inr rules"
  shows "match_profile rx_is_match rules process = None \<longleftrightarrow>
         (\<forall>r \<in> set (ac_rules config). ar_enabled r \<longrightarrow> \<not> rule_matches rx_new rx_is_match process r)"
proof -
  have "list_all2 (\<lambda>r c. compile_app_rule rx_new r = Inr c) (ordered_enabled_rules config) rules"
    using assms by (simp add: AppRuleEngine_new_def rbind_Inr_iff try_map_Inr_iff)
  from match_profile_find [OF this] show ?thesis
    by (auto simp: find_None_all ordered_enabled_rules_set)
qed

section \<open>Scheduler decisions\<close>

lemma effective_task_plan_profile: "effective_task_plan p sc \<in> profile_plans p"
  by (force simp: effective_task_plan_def profile_plans_def split: option.split dest: bt_get_Some_mem)

lemma find_task_profile_mem:
  "find_task_profile s pid = Inr p \<Longrightarrow> p \<in> set (sc_task_profiles s) \<and> tpr_id p = pid"
  by (auto simp: find_task_profile_def dest: find_Some_mem)

lemma find_task_profile_total:
  "pid \<in> tpr_id ` set (sc_task_profiles s) \<Longrightarrow> \<exists>p. find_task_profile s pid = Inr p"
  by (cases "List.find (\<lambda>p. tpr_id p = pid) (sc_task_profiles s)")
    (auto simp: find_task_profile_def find_None_all)

text \<open>The plans a decision may hold: for tasks of the workload's user, from configured profiles.\<close>

definition decision_entry_ok ::
  "scheduler_config \<Rightarrow> process_info \<Rightarrow> process_info list \<Rightarrow> (process_identity, task_plan) btree \<Rightarrow> bool" where
  "decision_entry_ok s workload threads tasks =
     (\<forall>k plan. bt_get tasks k = Some plan \<longrightarrow>
        k \<in> identity ` set (workload # threads) \<and> pi_uid k = pi_uid (identity workload)
        \<and> (\<exists>p \<in> set (sc_task_profiles s). plan \<in> profile_plans p))"

lemma decision_entry_insert:
  assumes "decision_entry_ok s w ths tasks" and "t = w \<or> t \<in> set ths"
    and "pi_uid (identity t) = pi_uid (identity w)" and "find_task_profile s pid = Inr p"
  shows "decision_entry_ok s w ths (bt_insert (identity t) (effective_task_plan p sc) tasks)"
proof -
  have "\<exists>q \<in> set (sc_task_profiles s). effective_task_plan p sc \<in> profile_plans q"
    using find_task_profile_mem [OF assms(4)] effective_task_plan_profile by blast
  with assms(1,2,3) show ?thesis by (auto simp: decision_entry_ok_def bt.look_ins split: if_splits)
qed

lemma thread_rule_step_ok:
  assumes "thread_rule_step rx s w rules sc tasks t = Inr tasks'" and "decision_entry_ok s w ths tasks"
    and "t = w \<or> t \<in> set ths"
  shows "decision_entry_ok s w ths tasks'"
  using assms decision_entry_insert [OF assms(2,3)]
  by (auto simp: thread_rule_step_def rbind_Inr_iff split: if_splits option.splits)

lemma focus_default_ok:
  assumes "focus_default_decision e w ths src sc = Inr d"
  shows "decision_entry_ok (pol_scheduler (pe_config e)) w ths (sd_tasks d)"
proof (cases "sd_tasks d = []")
  case True
  then show ?thesis by (simp add: decision_entry_ok_def)
next
  case False
  let ?s = "pol_scheduler (pe_config e)"
  let ?same = "filter (\<lambda>t. pi_uid (identity t) = pi_uid (identity w)) ths"
  from False assms obtain pid p where p: "find_task_profile ?s pid = Inr p"
    and d: "sd_tasks d = fold (\<lambda>t. bt_insert (identity t) (effective_task_plan p sc)) ?same
        (bt_insert (identity w) (effective_task_plan p sc) [])"
    by (auto simp: focus_default_decision_def Let_def rbind_Inr_iff SchedulerDecision_default_def
        split: if_splits option.splits)
  have "decision_entry_ok ?s w ths (fold (\<lambda>t. bt_insert (identity t) (effective_task_plan p sc)) us m)"
    if "decision_entry_ok ?s w ths m" "set us \<subseteq> set ?same" for us m
    using that
  proof (induction us arbitrary: m)
    case (Cons t us)
    then have "decision_entry_ok ?s w ths (bt_insert (identity t) (effective_task_plan p sc) m)"
      by (intro decision_entry_insert [OF _ _ _ p]) auto
    with Cons show ?case by simp
  qed simp
  moreover have "decision_entry_ok ?s w ths (bt_insert (identity w) (effective_task_plan p sc) [])"
    by (rule decision_entry_insert [OF _ _ _ p]) (simp_all add: decision_entry_ok_def)
  ultimately show ?thesis by (simp add: d)
qed

lemma process_tasks_ok:
  assumes "process_tasks s w rule sc = Inr m"
  shows "decision_entry_ok s w ths m"
proof (cases "pr_task_profile rule")
  case None
  with assms show ?thesis by (simp add: process_tasks_def decision_entry_ok_def)
next
  case (Some pid)
  with assms obtain p where p: "find_task_profile s pid = Inr p"
    and m: "m = bt_insert (identity w) (effective_task_plan p sc) []"
    by (auto simp: process_tasks_def rbind_Inr_iff)
  show ?thesis unfolding m by (rule decision_entry_insert [OF _ _ _ p]) (simp_all add: decision_entry_ok_def)
qed

lemma evaluate_scheduler_cases:
  assumes "evaluate_scheduler rx e w ths src sc = Inr d"
  obtains "sd_tasks d = []" | "focus_default_decision e w ths src sc = Inr d"
    | rule rules leader where "process_tasks (pol_scheduler (pe_config e)) w rule sc = Inr leader"
        and "try_fold (thread_rule_step rx (pol_scheduler (pe_config e)) w rules sc) leader
               (w # filter (\<lambda>t. identity t \<noteq> identity w) ths) = Inr (sd_tasks d)"
proof (cases "sc_enabled (pol_scheduler (pe_config e))")
  case False
  with assms have "sd_tasks d = []" by (auto simp: evaluate_scheduler_def SchedulerDecision_default_def)
  then show ?thesis by (rule that(1))
next
  case True
  note ev = assms [unfolded evaluate_scheduler_def Let_def, simplified True]
  show ?thesis
  proof (cases "List.find (\<lambda>(_, c). matcher_is_match rx (cr_matcher c) w)
      (zip (sc_process_rules (pol_scheduler (pe_config e))) (pe_scheduler_rules e))")
    case None
    with ev that(2) show ?thesis by simp
  next
    case (Some rc)
    with ev show ?thesis
      by (cases rc) (auto simp: rbind_Inr_iff simp del: try_fold.simps intro: that(3))
  qed
qed

lemma evaluate_scheduler_entries:
  assumes "evaluate_scheduler rx e w ths src sc = Inr d"
  shows "decision_entry_ok (pol_scheduler (pe_config e)) w ths (sd_tasks d)"
  using assms
proof (cases rule: evaluate_scheduler_cases)
  case 1
  then show ?thesis by (simp add: decision_entry_ok_def)
next
  case 2
  then show ?thesis by (rule focus_default_ok)
next
  case (3 rule rules leader)
  from 3(2) process_tasks_ok [OF 3(1)] show ?thesis
    by (rule try_fold_inv) (auto intro: thread_rule_step_ok)
qed

lemma thread_rule_step_total:
  assumes "\<forall>r \<in> set rules. tr_task_profile (fst r) \<in> tpr_id ` set (sc_task_profiles s)"
  shows "\<exists>tasks'. thread_rule_step rx s w rules sc tasks t = Inr tasks'"
proof (cases "List.find (\<lambda>(_, sel). selector_is_match rx sel w t) rules")
  case None
  then show ?thesis by (simp add: thread_rule_step_def)
next
  case (Some r)
  then obtain p where "find_task_profile s (tr_task_profile (fst r)) = Inr p"
    using assms find_Some_mem [OF Some] find_task_profile_total by blast
  with Some show ?thesis by (auto simp: thread_rule_step_def split: prod.splits)
qed

lemma process_tasks_total:
  assumes "process_rule_ok rx_new (tpr_id ` set (sc_task_profiles s)) rule"
  shows "\<exists>m. process_tasks s w rule sc = Inr m"
proof (cases "pr_task_profile rule")
  case (Some pid)
  with assms find_task_profile_total obtain p where "find_task_profile s pid = Inr p"
    by (force simp: process_rule_ok_def)
  with Some show ?thesis by (simp add: process_tasks_def)
qed (simp add: process_tasks_def)

lemma evaluate_scheduler_total:
  assumes "PolicyConfig_validate rx_new (pe_config e) = Inr ()"
  shows "\<exists>d. evaluate_scheduler rx e w ths src sc = Inr d"
proof -
  let ?s = "pol_scheduler (pe_config e)"
  from assms have s: "validate_scheduler rx_new ?s = []" by (rule PolicyConfig_validE)
  have focus: "\<exists>d. focus_default_decision e w ths src sc = Inr d"
    using validate_scheduler_focus(1) [OF s] find_task_profile_total
    by (fastforce simp: focus_default_decision_def Let_def split: option.split)
  show ?thesis
  proof (cases "List.find (\<lambda>(_, c). matcher_is_match rx (cr_matcher c) w) (zip (sc_process_rules ?s) (pe_scheduler_rules e))")
    case None
    with focus show ?thesis by (simp add: evaluate_scheduler_def Let_def)
  next
    case (Some rc)
    obtain rule c where rc: "rc = (rule, c)" by (cases rc)
    from find_Some_mem [OF Some] have "rule \<in> set (sc_process_rules ?s)" by (auto simp: rc dest: set_zip_leftD)
    with validate_scheduler_rules [OF s] have ok: "process_rule_ok rx_new (tpr_id ` set (sc_task_profiles ?s)) rule"
      by blast
    obtain m where m: "process_tasks ?s w rule sc = Inr m" using process_tasks_total [OF ok] by blast
    let ?trs = "zip (pr_threads rule) (cr_thread_selectors c)"
    have "\<forall>r \<in> set ?trs. tr_task_profile (fst r) \<in> tpr_id ` set (sc_task_profiles ?s)"
      using ok by (auto simp: process_rule_ok_def dest!: set_zip_leftD)
    note total = thread_rule_step_total [OF this]
    obtain t where "try_fold (thread_rule_step rx ?s w ?trs sc) m
        (w # filter (\<lambda>t. identity t \<noteq> identity w) ths) = Inr t"
      using try_fold_total [of _ "thread_rule_step rx ?s w ?trs sc", OF total] by blast
    with Some m show ?thesis by (simp add: evaluate_scheduler_def Let_def rc del: try_fold.simps)
  qed
qed

section \<open>Success of an evaluation\<close>

lemma evaluate_stateful_total:
  assumes "policy_profile config (resolve_effective_profile (pin_mode input) (pin_app_profile input)
             (pol_default_profile config)) = Some p"
    and "pc_power_budget p \<noteq> None"
    and "pin_manual_overrides input = []" and "pin_manual_target_policies input = []"
    and "pin_thermal_degraded input \<longrightarrow> (\<forall>e \<in> set (pin_cpu_targets input). bt_contains (pin_thermal_caps input) (fst e))"
    and "\<And>par b g. \<forall>e \<in> set (pin_cpu_targets input). governable (governor_input_of config input par b g) e"
  shows "\<exists>ev. evaluate_stateful config input st integrate = Inr ev"
proof -
  have "\<exists>cap. required_thermal_cap input (fst e) = Inr cap" if "e \<in> set (pin_cpu_targets input)" for e
    using assms(5) that by (auto simp: required_thermal_cap_def Let_def bt_contains_def)
  then have "\<exists>m'. cpu_override_step input m e = Inr m'" if "e \<in> set (pin_cpu_targets input)" for e m
    using that assms(3) by (fastforce simp: cpu_override_step_def Let_def)
  then obtain m where "try_fold (cpu_override_step input) [] (pin_cpu_targets input) = Inr m"
    using try_fold_total [of "pin_cpu_targets input" "cpu_override_step input"] by blast
  then obtain d where d: "evaluate_base config input = Inr d" and "policy_profile config (dp_effective_profile d) = Some p"
    using assms(1,4) by (auto simp: evaluate_base_def Let_def)
  moreover obtain b where "ep_power_budget (effective_parameters p (dp_dominant_scene d)) = Some b"
    using assms(2) resolve_power_budget_total
    by (fastforce simp: effective_parameters_def Let_def split: option.split)
  moreover obtain tr where "transition_governor st
      (governor_input_of config input (effective_parameters p (dp_dominant_scene d)) b integrate) = Inr tr"
    using transition_total assms(6) by (metis governor_input_of_sel(1))
  ultimately show ?thesis by (simp add: evaluate_stateful_def)
qed

section \<open>Properties\<close>


definition observed_example :: observed_state where
  "observed_example = \<lparr>timestamp = 100, cpu_loads = [(0, Fin 1), (1, Fin 0)], observed_frequencies = [],
                       observed_thermal = []\<rparr>"

definition policy_input_example :: policy_input where
  "policy_input_example =
     \<lparr>pin_generation = 1, pin_observed = observed_example, pin_mode = Auto, pin_app_profile = None,
      pin_hints = [(Boost, hint_persistent Boost 0)], pin_cpu_targets = [(''little'', target_example)],
      pin_manual_target_policies = [], pin_manual_overrides = [],
      pin_administrator_caps = [(''little'', 1500)], pin_thermal_caps = [(''little'', 1200)],
      pin_thermal_degraded = True\<rparr>"

lemma policy_input_example_evaluates:
  "\<exists>ev. evaluate_stateful policy_example policy_input_example GovernorState_default True = Inr ev"
proof (rule evaluate_stateful_total)
  show "policy_profile policy_example (resolve_effective_profile (pin_mode policy_input_example)
      (pin_app_profile policy_input_example) (pol_default_profile policy_example)) = Some (profile_example Balance)"
    by (simp add: policy_profile_def policy_example_def policy_input_example_def profile_example_def)
  show "pc_power_budget (profile_example Balance) \<noteq> None" by (simp add: profile_example_def)
  show "\<forall>e \<in> set (pin_cpu_targets policy_input_example).
      governable (governor_input_of policy_example policy_input_example par b g) e" for par b g
  proof -
    have "FrequencyPolicy_validate (ct_frequency target_example) = Inr ()" by code_simp
    moreover have "opp_at_or_below model_example (safety_cap_of (ct_frequency target_example) (Some 1500) (Some 1200)) \<noteq> None"
      by code_simp
    ultimately show ?thesis
      by (simp add: governable_def input_safety_cap_def policy_input_example_def target_example_def model_example_wf
          bt_get_def)
  qed
qed (simp_all add: policy_input_example_def bt_contains_def bt_get_def)


text \<open>
  while the sensors are degraded no evaluation acts on the boost scene, even when a boost hint
  is active.
\<close>

theorem no_boost_while_degraded:
  assumes "evaluate_stateful config input state integrate = Inr ev" and "pin_thermal_degraded input"
  shows "dp_dominant_scene (spe_desired ev) \<noteq> Boost"
proof -
  have scene: "dominant_at_excluding hs now {Boost} \<noteq> Boost" for hs now
    by (auto simp: dominant_at_excluding_def split: option.splits dest: max_by_key_Some)
  from assms(1) obtain d where base: "evaluate_base config input = Inr d"
    and eq: "dp_dominant_scene (spe_desired ev) = dp_dominant_scene d" by (rule evaluate_statefulE)
  from base assms(2) scene show ?thesis unfolding eq by (auto elim: evaluate_baseE)
qed

theorem no_boost_while_degraded_witness:
  "\<exists>ev. evaluate_stateful policy_example policy_input_example GovernorState_default True = Inr ev
     \<and> dp_dominant_scene (spe_desired ev) \<noteq> Boost"
proof -
  obtain ev where ev: "evaluate_stateful policy_example policy_input_example GovernorState_default True = Inr ev"
    using policy_input_example_evaluates by blast
  have "pin_thermal_degraded policy_input_example" by (simp add: policy_input_example_def)
  from no_boost_while_degraded [OF ev this] ev show ?thesis by blast
qed

text \<open>
  C38: with a valid policy whose references to the energy governor are complete, an evaluation never
  fails for want of a profile or of a power budget.
\<close>

theorem no_dangling_profile_or_budget:
  assumes "PolicyConfig_validate rx_new (cb_policy b) = Inr ()" and "validate_cross_references b = Inr ()"
    and "evaluate_stateful (cb_policy b) input state integrate = Inl (Failed e)"
  shows "e \<noteq> MissingProfile pid \<and> e \<noteq> MissingPowerBudget pid"
proof -
  have "\<forall>p \<in> set (pol_profiles (cb_policy b)). pc_power_budget p \<noteq> None"
  proof
    fix p assume p: "p \<in> set (pol_profiles (cb_policy b))"
    from assms(2) have "validate_energy_references b = []" by (simp add: validate_cross_references_def validation)
    then have "for_each (\<lambda>index profile. report (pc_power_budget profile = None)
        (dot (at_index ''policy.profiles'' index) ''power_budget'') (Msg ''is required by the energy governor''))
        (pol_profiles (cb_policy b)) = []" by (simp add: validate_energy_references_def)
    from for_each_mem [OF this p] show "pc_power_budget p \<noteq> None" by simp
  qed
  from evaluate_stateful_no_dangling [OF assms(1) this assms(3)] show ?thesis
    by (auto simp: reference_error_def)
qed

theorem no_dangling_profile_or_budget_witness:
  "\<exists>e. evaluate_stateful (cb_policy bundle_example) (policy_input_example\<lparr>pin_thermal_caps := []\<rparr>)
         GovernorState_default True = Inl (Failed e)
     \<and> e \<noteq> MissingProfile Balance \<and> e \<noteq> MissingPowerBudget Balance"
proof -
  have run: "evaluate_stateful (cb_policy bundle_example) (policy_input_example\<lparr>pin_thermal_caps := []\<rparr>)
      GovernorState_default True = Inl (Failed (MissingThermalCap ''little''))"
    by (simp add: evaluate_stateful_def evaluate_base_def policy_input_example_def bundle_example_def policy_example_def
        policy_profile_def profile_example_def cpu_override_step_def required_thermal_cap_def Let_def)
  have valid: "PolicyConfig_validate literal_rx_new (cb_policy bundle_example) = Inr ()"
    by (simp add: bundle_example_def policy_example_valid)
  have refs: "validate_cross_references bundle_example = Inr ()"
    using bundle_example_materializes by (rule materialize_cpu_groupsE)
  from no_dangling_profile_or_budget [OF valid refs run] run show ?thesis by blast
qed

text \<open>
  an engine built from a valid policy always comes to a scheduler decision: no rule, thread rule
  or focus default refers to a task profile that does not exist.
\<close>

theorem scheduler_always_decides:
  assumes "PolicyEngine_new rx_new config = Inr engine"
  shows "\<exists>d. evaluate_scheduler rx_is_match engine workload threads source scene = Inr d"
proof -
  from assms have "PolicyConfig_validate rx_new (pe_config engine) = Inr ()"
    by (auto simp: PolicyEngine_new_def rbind_Inr_iff)
  then show ?thesis by (rule evaluate_scheduler_total)
qed

definition workload_example :: process_info where
  "workload_example = \<lparr>identity = ProcessIdentity 42 1 1000, owner_control_safe = True, comm = ''pipewire'',
                       executable = Some ''/usr/bin/pipewire'', desktop_id = None\<rparr>"

theorem scheduler_always_decides_witness:
  "\<exists>engine d. PolicyEngine_new literal_rx_new policy_example = Inr engine
     \<and> evaluate_scheduler (=) engine workload_example [] Explicit Foreground = Inr d"
proof -
  obtain engine where engine: "PolicyEngine_new literal_rx_new policy_example = Inr engine"
    using PolicyEngine_new_total [OF policy_example_valid] by blast
  from scheduler_always_decides [OF engine] engine show ?thesis by blast
qed

text \<open>
  a scheduler decision only plans for the workload and its threads, only for tasks of the
  workload's user, and only plans that a configured task profile yields.
\<close>

theorem scheduler_stays_within_user:
  assumes "evaluate_scheduler rx_is_match engine workload threads source scene = Inr d"
    and "bt_get (sd_tasks d) k = Some plan"
  shows "k \<in> identity ` set (workload # threads) \<and> pi_uid k = pi_uid (identity workload)
    \<and> (\<exists>p \<in> set (sc_task_profiles (pol_scheduler (pe_config engine))). plan \<in> profile_plans p)"
  using evaluate_scheduler_entries [OF assms(1)] assms(2) unfolding decision_entry_ok_def by blast

definition engine_example :: "string policy_engine" where
  "engine_example =
     \<lparr>pe_config = materialized_example,
      pe_scheduler_rules = [\<lparr>cr_matcher = \<lparr>cm_executable = Some ''/usr/bin/pipewire'', cm_desktop_id = None,
        cm_comm_regex = None\<rparr>, cr_thread_selectors = []\<rparr>],
      pe_focus_protected = []\<rparr>"

theorem scheduler_stays_within_user_witness:
  "\<exists>d plan. evaluate_scheduler (=) engine_example workload_example [] Explicit Foreground = Inr d
     \<and> bt_get (sd_tasks d) (ProcessIdentity 42 1 1000) = Some plan
     \<and> ProcessIdentity 42 1 1000 \<in> identity ` set [workload_example]
     \<and> pi_uid (ProcessIdentity 42 1 1000) = pi_uid (identity workload_example)
     \<and> (\<exists>p \<in> set (sc_task_profiles (pol_scheduler (pe_config engine_example))). plan \<in> profile_plans p)"
proof -
  obtain d plan where d: "evaluate_scheduler (=) engine_example workload_example [] Explicit Foreground = Inr d"
    and plan: "bt_get (sd_tasks d) (ProcessIdentity 42 1 1000) = Some plan"
    by (simp add: evaluate_scheduler_def engine_example_def materialized_example_def policy_example_def
        scheduler_example_def matcher_is_match_def workload_example_def process_tasks_def find_task_profile_def
        thread_rule_step_def bt_get_def)
  from scheduler_stays_within_user [OF d plan] d plan show ?thesis by blast
qed

text \<open>
  for a compiled rule document the profile selected for a process is that of an enabled matching
  rule of highest priority, and none is selected exactly when no enabled rule matches.
\<close>

theorem app_rules_pick_highest_priority:
  assumes "AppRuleEngine_new rx_new config = Inr rules"
  shows "case match_profile rx_is_match rules process of
      None \<Rightarrow> (\<forall>r \<in> set (ac_rules config). ar_enabled r \<longrightarrow> \<not> rule_matches rx_new rx_is_match process r)
    | Some pid \<Rightarrow> (\<exists>rule \<in> set (ac_rules config). ar_enabled rule \<and> ar_profile rule = pid
        \<and> rule_matches rx_new rx_is_match process rule
        \<and> (\<forall>r \<in> set (ac_rules config). ar_enabled r \<longrightarrow> rule_matches rx_new rx_is_match process r
             \<longrightarrow> ar_priority r \<le> ar_priority rule))"
proof (cases "match_profile rx_is_match rules process")
  case None
  then have "\<forall>r \<in> set (ac_rules config). ar_enabled r \<longrightarrow> \<not> rule_matches rx_new rx_is_match process r"
    using match_profile_None [OF assms, of rx_is_match process] by blast
  with None show ?thesis by simp
next
  case (Some pid)
  from match_profile_Some [OF assms Some] show ?thesis unfolding Some option.case by metis
qed

definition apps_example :: apps_config where
  "apps_example =
     \<lparr>ac_schema_version = 2,
      ac_rules =
        [\<lparr>ar_id = ''any'', ar_enabled = True, ar_priority = 0,
          ar_matcher = \<lparr>wm_executable = None, wm_desktop_id = None, wm_comm_regex = Some ''pipewire''\<rparr>,
          ar_profile = Powersave\<rparr>,
         \<lparr>ar_id = ''game'', ar_enabled = True, ar_priority = 10,
          ar_matcher = \<lparr>wm_executable = Some ''/usr/bin/pipewire'', wm_desktop_id = None, wm_comm_regex = None\<rparr>,
          ar_profile = Performance\<rparr>]\<rparr>"

lemma apps_example_valid: "AppsConfig_validate literal_rx_new apps_example = Inr ()"
  by code_simp

theorem app_rules_pick_highest_priority_witness:
  "\<exists>rules. AppRuleEngine_new literal_rx_new apps_example = Inr rules
     \<and> (case match_profile (=) rules workload_example of
          None \<Rightarrow> (\<forall>r \<in> set (ac_rules apps_example). ar_enabled r \<longrightarrow> \<not> rule_matches literal_rx_new (=) workload_example r)
        | Some pid \<Rightarrow> (\<exists>rule \<in> set (ac_rules apps_example). ar_enabled rule \<and> ar_profile rule = pid
            \<and> rule_matches literal_rx_new (=) workload_example rule
            \<and> (\<forall>r \<in> set (ac_rules apps_example). ar_enabled r \<longrightarrow> rule_matches literal_rx_new (=) workload_example r
                 \<longrightarrow> ar_priority r \<le> ar_priority rule)))"
proof -
  obtain rules where rules: "AppRuleEngine_new literal_rx_new apps_example = Inr rules"
    using AppRuleEngine_new_total [OF apps_example_valid] by blast
  show ?thesis by (rule exI [of _ rules], rule conjI [OF rules app_rules_pick_highest_priority [OF rules]])
qed

text \<open>
  rules that pass validation always compile: a validated policy gives an engine and a validated
  rule document a rule list, so no \<open>InvalidMatcherRegex\<close> error can follow a successful validation.
\<close>

theorem validated_rules_compile:
  "(PolicyConfig_validate rx_new config = Inr () \<longrightarrow> (\<exists>engine. PolicyEngine_new rx_new config = Inr engine))
   \<and> (AppsConfig_validate rx_new apps = Inr () \<longrightarrow> (\<exists>rules. AppRuleEngine_new rx_new apps = Inr rules))"
  using PolicyEngine_new_total AppRuleEngine_new_total by blast

theorem validated_rules_compile_witness:
  "(\<exists>engine. PolicyEngine_new literal_rx_new policy_example = Inr engine)
   \<and> (\<exists>rules. AppRuleEngine_new literal_rx_new apps_example = Inr rules)"
  using validated_rules_compile [of literal_rx_new policy_example apps_example]
  by (simp only: policy_example_valid apps_example_valid simp_thms)

end
