(* ===== verification/Effects.thy ===== *)
theory Effects
  imports Prelude
begin

text \<open>
  Operations with effects. An operation of the actuator reads and changes the machine (files, the
  durable store, processes, the clock) and its own locked state, and may stop early with an error:
  it is a function from a state to a result and the next state. \<open>bind_act\<close> is the operator \<open>?\<close>
  followed by the rest of the body; \<open>attempt\<close> runs an operation whose error the body inspects itself
  (\<open>if let Err(error) = ...\<close>, \<open>match\<close>); \<open>each\<close> and \<open>gather\<close> are \<open>for\<close> loops with \<open>?\<close> in their
  bodies. What a state change may do is a reflexive and transitive relation (the locale
  \<open>frame\<close>): everything composed from operations within it stays within it.
\<close>

section \<open>Operations\<close>

type_synonym ('s, 'e, 'a) act = "'s \<Rightarrow> ('e, 'a) result \<times> 's"

definition ret :: "'a \<Rightarrow> ('s, 'e, 'a) act" where
  "ret a s = (Inr a, s)"

definition throw :: "'e \<Rightarrow> ('s, 'e, 'a) act" where
  "throw e s = (Inl e, s)"

definition bind_act :: "('s, 'e, 'a) act \<Rightarrow> ('a \<Rightarrow> ('s, 'e, 'b) act) \<Rightarrow> ('s, 'e, 'b) act" where
  "bind_act m f s = (case m s of (Inl e, t) \<Rightarrow> (Inl e, t) | (Inr a, t) \<Rightarrow> f a t)"

definition attempt :: "('s, 'e, 'a) act \<Rightarrow> ('s, 'f, ('e, 'a) result) act" where
  "attempt m s = (case m s of (r, t) \<Rightarrow> (Inr r, t))"

definition of_result :: "('e, 'a) result \<Rightarrow> ('s, 'e, 'a) act" where
  "of_result r s = (r, s)"

definition get_act :: "('s \<Rightarrow> 'a) \<Rightarrow> ('s, 'e, 'a) act" where
  "get_act f s = (Inr (f s), s)"

definition modify_act :: "('s \<Rightarrow> 's) \<Rightarrow> ('s, 'e, unit) act" where
  "modify_act f s = (Inr (), f s)"

fun each :: "('a \<Rightarrow> ('s, 'e, unit) act) \<Rightarrow> 'a list \<Rightarrow> ('s, 'e, unit) act" where
  "each f [] = ret ()"
| "each f (x # xs) = bind_act (f x) (\<lambda>_. each f xs)"

fun gather :: "('b \<Rightarrow> 'a \<Rightarrow> ('s, 'e, 'b) act) \<Rightarrow> 'b \<Rightarrow> 'a list \<Rightarrow> ('s, 'e, 'b) act" where
  "gather f b [] = ret b"
| "gather f b (x # xs) = bind_act (f b x) (\<lambda>b'. gather f b' xs)"

section \<open>Results\<close>

lemma bind_act_Inr_iff:
  "bind_act m f s = (Inr b, t) \<longleftrightarrow> (\<exists>a u. m s = (Inr a, u) \<and> f a u = (Inr b, t))"
  by (auto simp: bind_act_def split: prod.splits sum.splits)

lemma bind_act_InrE:
  assumes "bind_act m f s = (Inr b, t)"
  obtains a u where "m s = (Inr a, u)" and "f a u = (Inr b, t)"
  using assms by (auto simp: bind_act_Inr_iff)

lemma bind_act_Inl_iff:
  "bind_act m f s = (Inl e, t) \<longleftrightarrow>
     m s = (Inl e, t) \<or> (\<exists>a u. m s = (Inr a, u) \<and> f a u = (Inl e, t))"
  by (auto simp: bind_act_def split: prod.splits sum.splits)

lemma act_simps:
  "ret a s = (Inr a, s)" "throw e s = (Inl e, s)" "of_result r s = (r, s)"
  "get_act f s = (Inr (f s), s)" "modify_act h s = (Inr (), h s)"
  by (simp_all add: ret_def throw_def of_result_def get_act_def modify_act_def)

lemma bind_act_simps [simp]:
  "bind_act (ret a) f = f a"
  "bind_act (throw e) f = throw e"
  by (auto simp: bind_act_def fun_eq_iff act_simps)

lemma bind_get_iff [simp]: "bind_act (get_act h) f s = r \<longleftrightarrow> f (h s) s = r"
  by (simp add: bind_act_def act_simps)

lemma bind_modify_iff [simp]: "bind_act (modify_act h) g s = r \<longleftrightarrow> g () (h s) = r"
  by (simp add: bind_act_def act_simps)

lemma bind_of_result:
  "bind_act (of_result r) f s = (case r of Inl e \<Rightarrow> (Inl e, s) | Inr a \<Rightarrow> f a s)"
  by (auto simp: bind_act_def act_simps split: sum.splits)

lemma attempt_simp: "attempt m s = (Inr (fst (m s)), snd (m s))"
  by (simp add: attempt_def split: prod.splits)

lemma bind_attempt: "bind_act (attempt m) f s = f (fst (m s)) (snd (m s))"
  by (simp add: bind_act_def attempt_simp)

lemma each_append: "each f (xs @ ys) = bind_act (each f xs) (\<lambda>_. each f ys)"
  by (induction xs) (auto simp: bind_act_def fun_eq_iff act_simps split: prod.splits sum.splits)

section \<open>What an operation may change\<close>

text \<open>
  \<open>m\<close> stays within \<open>R\<close> when every run of it relates the state before to the state after, whether it
  succeeds or fails.
\<close>

definition stays :: "('s \<Rightarrow> 's \<Rightarrow> bool) \<Rightarrow> ('s, 'e, 'a) act \<Rightarrow> bool" where
  "stays R m = (\<forall>s. R s (snd (m s)))"

lemma staysD: "stays R m \<Longrightarrow> m s = (r, t) \<Longrightarrow> R s t"
  by (metis snd_conv stays_def)

lemma stays_mono: "stays R m \<Longrightarrow> (\<And>s t. R s t \<Longrightarrow> Q s t) \<Longrightarrow> stays Q m"
  by (simp add: stays_def)

locale frame =
  fixes R :: "'s \<Rightarrow> 's \<Rightarrow> bool"
  assumes refl: "R s s"
    and trans: "R s t \<Longrightarrow> R t u \<Longrightarrow> R s u"
begin

lemma pure [intro, simp]:
  "stays R (ret a)" "stays R (throw e)" "stays R (of_result r)" "stays R (get_act f)"
  by (simp_all add: stays_def act_simps refl)

lemma modify: "(\<And>s. R s (h s)) \<Longrightarrow> stays R (modify_act h)"
  by (simp add: stays_def act_simps)

lemma bind [intro]: "stays R m \<Longrightarrow> (\<And>a. stays R (f a)) \<Longrightarrow> stays R (bind_act m f)"
  unfolding stays_def bind_act_def by (auto split: prod.splits sum.splits) (metis snd_conv trans)+

lemma attempt [intro]: "stays R m \<Longrightarrow> stays R (attempt m)"
  by (simp add: stays_def attempt_simp)

lemma each [intro]: "(\<And>x. x \<in> set xs \<Longrightarrow> stays R (f x)) \<Longrightarrow> stays R (each f xs)"
  by (induction xs) auto

lemma gather [intro]: "(\<And>b x. x \<in> set xs \<Longrightarrow> stays R (f b x)) \<Longrightarrow> stays R (gather f b xs)"
  by (induction xs arbitrary: b) auto

end

section \<open>Pre- and postconditions\<close>

text \<open>
  \<open>runs P m Q E\<close>: from a state in \<open>P\<close>, \<open>m\<close> succeeds with a result and a state in \<open>Q\<close> or fails with an
  error and a state in \<open>E\<close>. Operations are total functions, so this is total correctness.
\<close>

definition runs ::
  "('s \<Rightarrow> bool) \<Rightarrow> ('s, 'e, 'a) act \<Rightarrow> ('a \<Rightarrow> 's \<Rightarrow> bool) \<Rightarrow> ('e \<Rightarrow> 's \<Rightarrow> bool) \<Rightarrow> bool" where
  "runs P m Q E = (\<forall>s. P s \<longrightarrow> (case m s of (Inr a, t) \<Rightarrow> Q a t | (Inl e, t) \<Rightarrow> E e t))"

lemma runsI:
  assumes "\<And>s a t. P s \<Longrightarrow> m s = (Inr a, t) \<Longrightarrow> Q a t" and "\<And>s e t. P s \<Longrightarrow> m s = (Inl e, t) \<Longrightarrow> E e t"
  shows "runs P m Q E"
  using assms by (auto simp: runs_def split: prod.splits sum.splits)

lemma runsD:
  assumes "runs P m Q E" and "P s"
  shows "m s = (Inr a, t) \<Longrightarrow> Q a t" and "m s = (Inl e, t) \<Longrightarrow> E e t"
  using assms by (auto simp: runs_def dest!: spec [of _ s])

lemma runs_pre: "runs P m Q E \<Longrightarrow> (\<And>s. P' s \<Longrightarrow> P s) \<Longrightarrow> runs P' m Q E"
  by (simp add: runs_def)

lemma runs_post:
  "runs P m Q E \<Longrightarrow> (\<And>a s. Q a s \<Longrightarrow> Q' a s) \<Longrightarrow> (\<And>e s. E e s \<Longrightarrow> E' e s) \<Longrightarrow> runs P m Q' E'"
  by (rule runsI) (auto dest: runsD)

lemma runs_ret: "(\<And>s. P s \<Longrightarrow> Q a s) \<Longrightarrow> runs P (ret a) Q E"
  by (simp add: runs_def act_simps)

lemma runs_throw: "(\<And>s. P s \<Longrightarrow> E e s) \<Longrightarrow> runs P (throw e) Q E"
  by (simp add: runs_def act_simps)

lemma runs_of_result:
  "(\<And>a s. P s \<Longrightarrow> r = Inr a \<Longrightarrow> Q a s) \<Longrightarrow> (\<And>e s. P s \<Longrightarrow> r = Inl e \<Longrightarrow> E e s) \<Longrightarrow> runs P (of_result r) Q E"
  by (cases r) (simp_all add: runs_def act_simps)

lemma runs_get: "(\<And>s. P s \<Longrightarrow> Q (f s) s) \<Longrightarrow> runs P (get_act f) Q E"
  by (simp add: runs_def act_simps)

lemma runs_modify: "(\<And>s. P s \<Longrightarrow> Q () (h s)) \<Longrightarrow> runs P (modify_act h) Q E"
  by (simp add: runs_def act_simps)

lemma runs_bind:
  "runs P m Q E \<Longrightarrow> (\<And>a. runs (Q a) (f a) R E) \<Longrightarrow> runs P (bind_act m f) R E"
  by (rule runsI) (auto simp: bind_act_Inr_iff bind_act_Inl_iff dest: runsD)

lemma runs_attempt:
  "runs P m Q E \<Longrightarrow> (\<And>a s. Q a s \<Longrightarrow> R (Inr a) s) \<Longrightarrow> (\<And>e s. E e s \<Longrightarrow> R (Inl e) s) \<Longrightarrow> runs P (attempt m) R F"
proof (rule runsI)
  fix s r t
  assume m: "runs P m Q E" and q: "\<And>a s. Q a s \<Longrightarrow> R (Inr a) s" and e: "\<And>e s. E e s \<Longrightarrow> R (Inl e) s"
    and "P s" and "attempt m s = (Inr r, t)"
  then have "m s = (r, t)" by (simp add: attempt_simp prod_eq_iff)
  with runsD [OF m \<open>P s\<close>] q e show "R r t" by (cases r) auto
qed (simp add: attempt_simp)

lemma runs_each:
  "(\<And>x. x \<in> set xs \<Longrightarrow> runs I (f x) (\<lambda>_. I) E) \<Longrightarrow> runs I (each f xs) (\<lambda>_. I) E"
proof (induction xs)
  case (Cons x xs)
  then show ?case by (auto intro: runs_bind [where Q = "\<lambda>_. I"])
qed (simp add: runs_ret)

lemma runs_gather:
  "(\<And>b x. x \<in> set xs \<Longrightarrow> runs (I b) (f b x) I E) \<Longrightarrow> runs (I b) (gather f b xs) I E"
proof (induction xs arbitrary: b)
  case (Cons x xs)
  then show ?case by (auto intro: runs_bind [where Q = I])
qed (simp add: runs_ret)

lemma runs_stays:
  assumes "stays R m" and "\<And>s t. P s \<Longrightarrow> R s t \<Longrightarrow> Q t"
  shows "runs P m (\<lambda>_. Q) (\<lambda>_. Q)"
  using assms by (auto intro!: runsI dest: staysD)

lemmas runs_basic = runs_ret runs_throw runs_of_result runs_get runs_modify

end
