(* ===== verification/Parsing.thy ===== *)
theory Parsing
  imports Text Domain
begin

text \<open>
  What the actuator and the adapters use of \<open>str\<close> beyond \<open>Text\<close>: trimming to a string, the
  integer parsers of the standard library, splitting, and joining. Parsing works on the code points
  of a string, like \<open>char\<close>-based functions of the source.
\<close>

section \<open>Strings from code points\<close>

definition char_of_int :: "int \<Rightarrow> char" where
  "char_of_int i = char_of (nat i)"

definition utf8_encode :: "int \<Rightarrow> string" where
  "utf8_encode c =
     (if c < 128 then [char_of_int c]
      else if c < 2048 then [char_of_int (192 + c div 64), char_of_int (128 + c mod 64)]
      else if c < 65536
        then [char_of_int (224 + c div 4096), char_of_int (128 + c div 64 mod 64), char_of_int (128 + c mod 64)]
      else [char_of_int (240 + c div 262144), char_of_int (128 + c div 4096 mod 64),
            char_of_int (128 + c div 64 mod 64), char_of_int (128 + c mod 64)])"

definition trim_str :: "string \<Rightarrow> string" where
  "trim_str s = concat (map utf8_encode (trim (chars s)))"

section \<open>Integers\<close>

definition is_digit :: "char \<Rightarrow> bool" where
  "is_digit c = (CHR ''0'' \<le> c \<and> c \<le> CHR ''9'')"

definition digit_value :: "char \<Rightarrow> int" where
  "digit_value c = byte_of c - 48"

definition digits_value :: "string \<Rightarrow> int" where
  "digits_value ds = foldl (\<lambda>n c. 10 * n + digit_value c) 0 ds"

definition parse_digits :: "string \<Rightarrow> int option" where
  "parse_digits ds = (if ds \<noteq> [] \<and> list_all is_digit ds then Some (digits_value ds) else None)"

text \<open>
  \<open>str::parse\<close> for an unsigned type with the given largest value: an optional plus sign, at least
  one digit, and no overflow. The signed parser takes a minus sign too.
\<close>

definition parse_unsigned :: "int \<Rightarrow> string \<Rightarrow> int option" where
  "parse_unsigned maximum s =
     Option.bind (parse_digits (case s of [] \<Rightarrow> [] | c # ds \<Rightarrow> if c = CHR ''+'' then ds else s))
       (\<lambda>n. if n \<le> maximum then Some n else None)"

definition parse_i64 :: "string \<Rightarrow> i64 option" where
  "parse_i64 s =
     (case s of [] \<Rightarrow> None
      | c # ds \<Rightarrow>
          if c = CHR ''-''
          then Option.bind (parse_digits ds) (\<lambda>n. if n \<le> 2 ^ 63 then Some (- n) else None)
          else parse_unsigned (2 ^ 63 - 1) s)"

definition parse_u64 :: "string \<Rightarrow> u64 option" where
  "parse_u64 s = map_option word_of_int (parse_unsigned (2 ^ 64 - 1) s)"

definition parse_u32 :: "string \<Rightarrow> u32 option" where
  "parse_u32 s = map_option word_of_int (parse_unsigned (2 ^ 32 - 1) s)"

section \<open>Splitting and joining\<close>

fun split_on :: "char \<Rightarrow> string \<Rightarrow> string \<Rightarrow> string list" where
  "split_on sep acc [] = [rev acc]"
| "split_on sep acc (c # s) =
     (if c = sep then rev acc # split_on sep [] s else split_on sep (c # acc) s)"

definition split_char :: "char \<Rightarrow> string \<Rightarrow> string list" where
  "split_char sep s = split_on sep [] s"

fun split_once :: "char \<Rightarrow> string \<Rightarrow> (string \<times> string) option" where
  "split_once sep [] = None"
| "split_once sep (c # s) =
     (if c = sep then Some ([], s) else map_option (\<lambda>(a, b). (c # a, b)) (split_once sep s))"

text \<open>\<open>u8::is_ascii_whitespace\<close>: space, tab, line feed, form feed, carriage return.\<close>

definition is_ascii_whitespace :: "char \<Rightarrow> bool" where
  "is_ascii_whitespace c = (byte_of c \<in> {9, 10, 12, 13, 32})"

fun words_on :: "string \<Rightarrow> string \<Rightarrow> string list" where
  "words_on acc [] = (if acc = [] then [] else [rev acc])"
| "words_on acc (c # s) =
     (if is_ascii_whitespace c then (if acc = [] then words_on [] s else rev acc # words_on [] s)
      else words_on (c # acc) s)"

definition split_ascii_whitespace :: "string \<Rightarrow> string list" where
  "split_ascii_whitespace s = words_on [] s"

fun join_with :: "string \<Rightarrow> string list \<Rightarrow> string" where
  "join_with sep [] = []"
| "join_with sep [s] = s"
| "join_with sep (s # t # ss) = s @ sep @ join_with sep (t # ss)"

section \<open>Decimal numbers read back\<close>

lemma show_int_digits: "0 \<le> n \<Longrightarrow> show_int n \<noteq> [] \<and> list_all is_digit (show_int n) \<and> digits_value (show_int n) = n"
proof (induction n rule: show_int.induct)
  case (1 n)
  have digit: "is_digit (''0123456789'' ! nat k) \<and> digit_value (''0123456789'' ! nat k) = k" if "0 \<le> k" "k < 10" for k :: int
  proof -
    have "k = 0 \<or> k = 1 \<or> k = 2 \<or> k = 3 \<or> k = 4 \<or> k = 5 \<or> k = 6 \<or> k = 7 \<or> k = 8 \<or> k = 9"
      using that by presburger
    then show ?thesis
      by (elim disjE) (simp_all add: is_digit_def digit_value_def byte_of_def)
  qed
  show ?case
  proof (cases "n < 10")
    case True
    with 1(3) digit [of n] show ?thesis
      by (subst (1 2 3) show_int.simps) (simp add: digits_value_def)
  next
    case False
    with 1(3) have IH: "show_int (n div 10) \<noteq> []" "list_all is_digit (show_int (n div 10))"
        "digits_value (show_int (n div 10)) = n div 10" using 1(2) by auto
    from False 1(3) IH digit [of "n mod 10"] show ?thesis
      by (subst (1 2 3) show_int.simps) (simp add: digits_value_def)
  qed
qed

lemma is_digit_not_special:
  assumes "is_digit c"
  shows "c \<noteq> CHR ''+''" and "c \<noteq> CHR ''-''" and "c \<noteq> CHR '',''" and "\<not> is_ascii_whitespace c"
    and "48 \<le> byte_of c \<and> byte_of c \<le> 57"
proof -
  from assms have "of_char (CHR ''0'') \<le> (of_char c :: nat) \<and> (of_char c :: nat) \<le> of_char (CHR ''9'')"
    by (simp add: is_digit_def less_eq_char_def)
  then have b: "48 \<le> (of_char c :: nat) \<and> (of_char c :: nat) \<le> 57" by simp
  then show "48 \<le> byte_of c \<and> byte_of c \<le> 57" unfolding byte_of_def by (metis of_nat_of_char of_nat_le_iff of_nat_numeral)
  from b show "c \<noteq> CHR ''+''" "c \<noteq> CHR ''-''" "c \<noteq> CHR '',''" by auto
  from \<open>48 \<le> byte_of c \<and> byte_of c \<le> 57\<close> show "\<not> is_ascii_whitespace c" by (simp add: is_ascii_whitespace_def)
qed

lemma parse_unsigned_show:
  assumes "0 \<le> n" and "n \<le> maximum"
  shows "parse_unsigned maximum (show_int n) = Some n"
proof -
  from show_int_digits [OF assms(1)] obtain c cs where s: "show_int n = c # cs"
    and d: "list_all is_digit (c # cs)" and v: "digits_value (c # cs) = n"
    by (cases "show_int n") auto
  from d have "is_digit c" by simp
  then have "c \<noteq> CHR ''+''" by (rule is_digit_not_special(1))
  with s d v assms(2) show ?thesis by (simp add: parse_unsigned_def parse_digits_def)
qed

end
