(* ===== verification/Platform.thy ===== *)
theory Platform
  imports Effects Parsing F64_Round
begin

text \<open>
  \<open>crates/uperf-platform/src/lib.rs\<close>: the ports between the daemon and the operating system. A trait
  is a record of its methods, each a function of the environment that answers it and of the
  arguments; the environment \<open>'w\<close> is a parameter, so a theorem about a client holds whatever the
  kernel, the other writers and the disk do between two calls. Every error keeps its variant; the
  text of a message is the template and the arguments that \<open>format!\<close> gets (\<open>message\<close>), not rendered.
\<close>

section \<open>Paths and messages\<close>

text \<open>
  Two \<open>PathBuf\<close>s are equal when their components are, so a path is the list of its components.
\<close>

type_synonym path_buf = "component list"

definition path_of :: "string \<Rightarrow> path_buf" where
  "path_of p = path_components p"

definition path_is_absolute_buf :: "path_buf \<Rightarrow> bool" where
  "path_is_absolute_buf p = (case p of [] \<Rightarrow> False | c # _ \<Rightarrow> c = RootDir)"

datatype message =
    MStr string
  | MNum int
  | MQuoted string
  | MPath path_buf
  | MFmt string "message list"
  | MJoin string "message list"

section \<open>Errors\<close>

datatype platform_error =
    PlatformIo (pe_operation: string) (pe_path: path_buf) (pe_source: string)
  | PlatformInvalidData path_buf message
  | PlatformAccessDenied path_buf message
  | PlatformUnsupported string
  | PlatformDisappeared string

type_synonym 'a platform_result = "(platform_error, 'a) result"

definition platform_io :: "string \<Rightarrow> path_buf \<Rightarrow> string \<Rightarrow> platform_error" where
  "platform_io operation path source = PlatformIo operation path source"

definition platform_invalid :: "path_buf \<Rightarrow> message \<Rightarrow> platform_error" where
  "platform_invalid path msg = PlatformInvalidData path msg"

fun platform_error_message :: "platform_error \<Rightarrow> message" where
  "platform_error_message (PlatformIo operation path source) =
     MFmt ''{operation} failed for {path}: {source}'' [MStr operation, MPath path, MStr source]"
| "platform_error_message (PlatformInvalidData path m) =
     MFmt ''invalid data in {path}: {message}'' [MPath path, m]"
| "platform_error_message (PlatformAccessDenied path m) =
     MFmt ''access to {path} was denied: {reason}'' [MPath path, m]"
| "platform_error_message (PlatformUnsupported c) =
     MFmt ''unsupported platform capability: {0}'' [MStr c]"
| "platform_error_message (PlatformDisappeared c) =
     MFmt ''resource disappeared while being observed: {0}'' [MStr c]"

section \<open>CPU time counters\<close>

record cpu_times =
  ct_user :: u64
  ct_nice :: u64
  ct_system :: u64
  ct_idle :: u64
  ct_io_wait :: u64
  ct_irq :: u64
  ct_soft_irq :: u64
  ct_steal :: u64

definition u64_checked_sub :: "u64 \<Rightarrow> u64 \<Rightarrow> u64 option" where
  "u64_checked_sub a b = (if b \<le> a then Some (a - b) else None)"

definition u64_checked_add :: "u64 \<Rightarrow> u64 \<Rightarrow> u64 option" where
  "u64_checked_add a b = (if uint a + uint b < 2 ^ 64 then Some (a + b) else None)"

definition u64_checked_mul :: "u64 \<Rightarrow> u64 \<Rightarrow> u64 option" where
  "u64_checked_mul a b = (if uint a * uint b < 2 ^ 64 then Some (a * b) else None)"

definition u64_checked_div :: "u64 \<Rightarrow> u64 \<Rightarrow> u64 option" where
  "u64_checked_div a b = (if b = 0 then None else Some (a div b))"

text \<open>\<open>checked_sub(..)?\<close> for each counter, in the order of the fields; \<open>try_fold(0, checked_add)\<close>.\<close>

definition counters :: "cpu_times \<Rightarrow> u64 list" where
  "counters c = [ct_user c, ct_nice c, ct_system c, ct_idle c, ct_io_wait c, ct_irq c, ct_soft_irq c, ct_steal c]"

fun checked_deltas :: "u64 list \<Rightarrow> u64 list \<Rightarrow> u64 list option" where
  "checked_deltas (a # as) (b # bs) =
     Option.bind (u64_checked_sub a b) (\<lambda>d. map_option ((#) d) (checked_deltas as bs))"
| "checked_deltas _ _ = Some []"

fun checked_sum :: "u64 \<Rightarrow> u64 list \<Rightarrow> u64 option" where
  "checked_sum acc [] = Some acc"
| "checked_sum acc (d # ds) = Option.bind (u64_checked_add acc d) (\<lambda>s. checked_sum s ds)"

definition utilization_since :: "cpu_times \<Rightarrow> cpu_times \<Rightarrow> f64 option" where
  "utilization_since self previous =
     Option.bind (checked_deltas (counters self) (counters previous)) (\<lambda>deltas.
     Option.bind (checked_sum 0 deltas) (\<lambda>total.
     Option.bind (u64_checked_add (deltas ! 3) (deltas ! 4)) (\<lambda>idle.
       if total = 0 \<or> total < idle then None
       else Some (f64_div (f64_of_int (uint (total - idle))) (f64_of_int (uint total))))))"

section \<open>Scheduling state and units\<close>

record scheduling_state =
  ss_affinity :: cpu_set
  ss_nice :: i8
  ss_policy :: scheduling_class
  ss_rt_priority :: "u8 option"
  ss_uclamp_min :: "u16 option"
  ss_uclamp_max :: "u16 option"

record unit_properties =
  up_cpu_weight :: "u64 option"
  up_allowed_cpus :: "cpu_set option"

datatype unit_instance_key = InvocationId "u8 list" | ControlGroup string

datatype unit_instance = UnitInstance (ui_unit: string) (ui_key: unit_instance_key)

section \<open>Ports\<close>

type_synonym ('w, 'a) port = "'w \<Rightarrow> 'a platform_result \<times> 'w"

record 'w sysfs_io =
  read_string :: "path_buf \<Rightarrow> ('w, string) port"
  write_string :: "path_buf \<Rightarrow> string \<Rightarrow> ('w, unit) port"

record 'w state_store =
  store_load :: "('w, string option) port"
  store_durable :: "string \<Rightarrow> ('w, unit) port"
  remove_durable :: "('w, unit) port"

record 'w proc_reader =
  list_processes :: "('w, process_id list) port"
  list_threads :: "process_id \<Rightarrow> ('w, process_id list) port"
  process_identity_of :: "process_id \<Rightarrow> ('w, process_info) port"

record 'w process_controller =
  read_scheduling :: "process_id \<Rightarrow> ('w, scheduling_state) port"
  write_scheduling :: "process_id \<Rightarrow> scheduling_state \<Rightarrow> ('w, scheduling_state) port"

record 'w systemd_client =
  sc_unit_for_process :: "process_id \<Rightarrow> ('w, string option) port"
  unit_instance_identity :: "string \<Rightarrow> ('w, unit_instance) port"
  sc_unit_processes :: "string \<Rightarrow> ('w, process_id list) port"
  read_unit_properties :: "string \<Rightarrow> ('w, unit_properties) port"
  write_unit_properties :: "string \<Rightarrow> unit_properties \<Rightarrow> ('w, unit_properties) port"

text \<open>The provided methods of \<open>SystemdClient\<close>, for an adapter that does not override them.\<close>

definition unit_instance_for_process_default ::
  "'w systemd_client \<Rightarrow> process_id \<Rightarrow> ('w, unit_instance option) port" where
  "unit_instance_for_process_default sd process =
     bind_act (sc_unit_for_process sd process) (\<lambda>found.
       case found of None \<Rightarrow> ret None
       | Some unit \<Rightarrow> bind_act (unit_instance_identity sd unit) (\<lambda>i. ret (Some i)))"

definition unit_instance_identity_default :: "string \<Rightarrow> ('w, unit_instance) port" where
  "unit_instance_identity_default unit = throw (PlatformUnsupported ''stable systemd unit instance identity'')"

section \<open>The machine\<close>

text \<open>
  What an operation runs against: the environment behind the ports, and the monotonic clock in
  nanoseconds. Reading the clock moves it by whatever time passed (\<open>elapsed\<close>, decided by the
  environment); \<open>thread::sleep\<close> returns no earlier than asked, and what it oversleeps is seen by the
  next reading. Records that extend this one carry the state of a component.
\<close>

record 'w world =
  w_env :: 'w
  w_now :: nat

type_synonym ('w, 'z, 'e, 'a) io = "(('w, 'z) world_scheme, 'e, 'a) act"

definition call :: "('w, 'a) port \<Rightarrow> ('w, 'z, platform_error, 'a) io" where
  "call p s = (case p (w_env s) of (r, e) \<Rightarrow> (r, s\<lparr>w_env := e\<rparr>))"

definition instant_now :: "('w \<Rightarrow> nat \<times> 'w) \<Rightarrow> ('w, 'z, 'e, nat) io" where
  "instant_now elapsed s =
     (case elapsed (w_env s) of (d, e) \<Rightarrow> (Inr (w_now s + d), s\<lparr>w_env := e, w_now := w_now s + d\<rparr>))"

definition sleep_for :: "nat \<Rightarrow> ('w, 'z, 'e, unit) io" where
  "sleep_for d = modify_act (\<lambda>s. s\<lparr>w_now := w_now s + d\<rparr>)"

section \<open>What the counters give\<close>

lemma checked_deltas_Some:
  "checked_deltas as bs = Some ds \<Longrightarrow> length as = length bs \<Longrightarrow>
   length ds = length as \<and> map unat ds = map2 (\<lambda>a b. unat a - unat b) as bs
   \<and> list_all2 (\<lambda>a b. b \<le> a) as bs"
proof (induction as bs arbitrary: ds rule: checked_deltas.induct)
  case (1 a as b bs)
  from 1(2) obtain rest where le: "b \<le> a" and rest: "checked_deltas as bs = Some rest" and ds: "ds = (a - b) # rest"
    by (auto simp: bind_eq_Some_conv u64_checked_sub_def split: if_splits)
  from 1(1) [OF _ rest] le 1(3) have "length rest = length as \<and> map unat rest = map2 (\<lambda>a b. unat a - unat b) as bs
   \<and> list_all2 (\<lambda>a b. b \<le> a) as bs" by (auto simp: u64_checked_sub_def)
  with ds le show ?case by (simp add: unat_sub)
qed auto

lemma checked_sum_Some: "checked_sum acc ds = Some t \<Longrightarrow> unat t = unat acc + sum_list (map unat ds)"
proof (induction ds arbitrary: acc)
  case (Cons d ds)
  from Cons.prems obtain s where s: "uint acc + uint d < 2 ^ 64" "s = acc + d" and t: "checked_sum s ds = Some t"
    by (auto simp: bind_eq_Some_conv u64_checked_add_def split: if_splits)
  have "unat acc + unat d < 2 ^ 64"
    using s(1) unfolding uint_unat_sum [symmetric] by (metis of_nat_less_iff of_nat_numeral of_nat_power)
  then have "unat s = unat acc + unat d" using s(2) by (simp add: unat_word_ariths)
  with Cons.IH [OF t] show ?case by simp
qed simp

end
