(* ===== verification/Actuator_Targets.thy ===== *)
theory Actuator_Targets
  imports Platform
begin

text \<open>
  \<open>crates/uperf-actuator/src/lib.rs\<close>, first part: what the actuator may touch. A frequency target
  is a pair of kernel attributes with hardware bounds and operating points; a scalar target is one
  attribute with a closed typed domain; the registry is the immutable allowlist of both, in which no
  identifier and no path is claimed twice. A recovery manifest is the copy of a target that the
  durable journal keeps, from which the exact target is rebuilt without the configuration.
\<close>

section \<open>Limits of the journal and of scalars\<close>

definition JOURNAL_SCHEMA_VERSION :: u32 where "JOURNAL_SCHEMA_VERSION = 6"
definition MAX_JOURNAL_PAYLOAD_BYTES :: usize where "MAX_JOURNAL_PAYLOAD_BYTES = 1024 * 1024"
definition MAX_JOURNAL_ENVELOPE_BYTES :: usize where "MAX_JOURNAL_ENVELOPE_BYTES = 5 * 1024 * 1024"
definition MAX_SCALAR_STRING_BYTES :: usize where "MAX_SCALAR_STRING_BYTES = 256"
definition MAX_SCALAR_CPU_ID :: u32 where "MAX_SCALAR_CPU_ID = 4095"
text \<open>Durations in nanoseconds: 50 ms and 2 ms.\<close>
definition FREQUENCY_SETTLE_TIMEOUT :: nat where "FREQUENCY_SETTLE_TIMEOUT = 50 * 1000000"
definition FREQUENCY_SETTLE_POLL_INTERVAL :: nat where "FREQUENCY_SETTLE_POLL_INTERVAL = 2 * 1000000"

section \<open>Errors\<close>

datatype actuator_error =
    InvalidTarget message
  | DuplicateTarget target_id
  | UnknownTarget target_id
  | OwnershipRequired target_id
  | DuplicateRequest message
  | InvalidLimits target_id hertz hertz
  | InvalidScalarValue target_id message
  | InvalidReadback path_buf message
  | ScalarOwnershipLost target_id
  | PlatformFailure platform_error
  | InvalidJournal message
  | DegradedError message
  | RecoveryRequired
  | TransactionError message message
  | RollbackError message
  | TaskBackendUnavailable
  | SystemdBackendUnavailable
  | ProcessIdentityChanged process_identity
  | UnitInstanceChanged string
  | LockPoisoned

definition u_num :: "'n::len word \<Rightarrow> message" where
  "u_num w = MNum (uint w)"

definition debug_identity :: "process_identity \<Rightarrow> message" where
  "debug_identity p =
     MFmt ''ProcessIdentity {{ pid: ProcessId({}), start_time_ticks: {}, uid: UserId({}) }}''
       [u_num (pi_pid p), u_num (pi_start_time_ticks p), u_num (pi_uid p)]"

fun error_message :: "actuator_error \<Rightarrow> message" where
  "error_message (InvalidTarget m) = MFmt ''invalid mutation target: {0}'' [m]"
| "error_message (DuplicateTarget t) = MFmt ''duplicate target ID: {0}'' [MStr t]"
| "error_message (UnknownTarget t) = MFmt ''unknown target ID: {0}'' [MStr t]"
| "error_message (OwnershipRequired t) = MFmt ''frequency target is not durably owned: {0}'' [MStr t]"
| "error_message (DuplicateRequest m) = MFmt ''duplicate request for target ID: {0}'' [m]"
| "error_message (InvalidLimits t mn mx) =
     MFmt ''invalid frequency range for {target}: {minimum}..{maximum} Hz'' [MStr t, u_num mn, u_num mx]"
| "error_message (InvalidScalarValue t m) = MFmt ''invalid scalar value for {target}: {value}'' [MStr t, m]"
| "error_message (InvalidReadback p m) = MFmt ''invalid value read from {path}: {value:?}'' [MPath p, m]"
| "error_message (ScalarOwnershipLost t) = MFmt ''scalar ownership was changed externally: {0}'' [MStr t]"
| "error_message (PlatformFailure e) = MFmt ''platform operation failed: {0}'' [platform_error_message e]"
| "error_message (InvalidJournal m) = MFmt ''journal is invalid: {0}'' [m]"
| "error_message (DegradedError m) = MFmt ''actuator is read-only degraded: {0}'' [m]"
| "error_message RecoveryRequired = MStr ''a durable journal must be recovered before accepting mutations''"
| "error_message (TransactionError t m) = MFmt ''frequency transaction failed for {target}: {reason}'' [t, m]"
| "error_message (RollbackError m) = MFmt ''transaction rollback failed: {0}'' [m]"
| "error_message TaskBackendUnavailable = MStr ''task mutation backends are unavailable''"
| "error_message SystemdBackendUnavailable = MStr ''systemd mutation backend is unavailable''"
| "error_message (ProcessIdentityChanged p) =
     MFmt ''process identity changed or disappeared: {0:?}'' [debug_identity p]"
| "error_message (UnitInstanceChanged u) =
     MFmt ''systemd unit instance changed or disappeared: {0}'' [MStr u]"
| "error_message LockPoisoned = MStr ''actuator state lock was poisoned''"

definition validate_sysfs_path :: "path_buf \<Rightarrow> (actuator_error, unit) result" where
  "validate_sysfs_path path =
     (if \<not> path_is_absolute_buf path \<or> \<not> comps_start_with path (path_of ''/sys'')
         \<or> list_ex (\<lambda>c. c = ParentDir) path
      then Inl (InvalidTarget (MFmt ''path is not an absolute normalized /sys path: {}'' [MPath path]))
      else Inr ())"

section \<open>Frequency targets\<close>

record frequency_target =
  ft_id :: target_id
  ft_min_path :: path_buf
  ft_max_path :: path_buf
  ft_hardware_min :: hertz
  ft_hardware_max :: hertz
  ft_opps :: "hertz list"
  ft_hertz_per_unit :: u64

text \<open>\<open>sort_unstable\<close> followed by \<open>dedup\<close>.\<close>

definition sort_dedup :: "'a::linorder list \<Rightarrow> 'a list" where
  "sort_dedup xs = remdups_adj (sort xs)"

definition FrequencyTarget_new ::
  "target_id \<Rightarrow> path_buf \<Rightarrow> path_buf \<Rightarrow> hertz \<Rightarrow> hertz \<Rightarrow> hertz list
   \<Rightarrow> (actuator_error, frequency_target) result" where
  "FrequencyTarget_new tid min_path max_path hardware_min hardware_max opps =
     rbind (validate_sysfs_path min_path) (\<lambda>_.
     rbind (validate_sysfs_path max_path) (\<lambda>_.
     if min_path = max_path
     then Inl (InvalidTarget (MFmt ''{id}: minimum and maximum attributes must be distinct'' [MStr tid]))
     else if hardware_max < hardware_min then Inl (InvalidLimits tid hardware_min hardware_max)
     else let opps = sort_dedup opps
       in if list_ex (\<lambda>opp. opp < hardware_min \<or> hardware_max < opp) opps
          then Inl (InvalidTarget (MFmt ''{id}: OPP lies outside the hardware range'' [MStr tid]))
          else Inr \<lparr>ft_id = tid, ft_min_path = min_path, ft_max_path = max_path,
                 ft_hardware_min = hardware_min, ft_hardware_max = hardware_max, ft_opps = opps,
                 ft_hertz_per_unit = 1\<rparr>))"

definition with_hertz_per_unit ::
  "frequency_target \<Rightarrow> u64 \<Rightarrow> (actuator_error, frequency_target) result" where
  "with_hertz_per_unit self hertz_per_unit =
     (if hertz_per_unit = 0
      then Inl (InvalidTarget (MFmt ''{}: hertz_per_unit must be non-zero'' [MStr (ft_id self)]))
      else let all_representable =
             (u64_is_multiple_of (ft_hardware_min self) hertz_per_unit
              \<and> u64_is_multiple_of (ft_hardware_max self) hertz_per_unit
              \<and> list_all (\<lambda>f. u64_is_multiple_of f hertz_per_unit) (ft_opps self))
        in if \<not> all_representable
           then Inl (InvalidTarget (MFmt ''{}: frequency is not representable in kernel units'' [MStr (ft_id self)]))
           else Inr (self\<lparr>ft_hertz_per_unit := hertz_per_unit\<rparr>))"

definition validate_limits ::
  "frequency_target \<Rightarrow> frequency_limits \<Rightarrow> (actuator_error, unit) result" where
  "validate_limits self limits =
     (if min_hz limits < ft_hardware_min self \<or> ft_hardware_max self < max_hz limits
         \<or> max_hz limits < min_hz limits \<or> ft_hertz_per_unit self = 0
         \<or> \<not> u64_is_multiple_of (min_hz limits) (ft_hertz_per_unit self)
         \<or> \<not> u64_is_multiple_of (max_hz limits) (ft_hertz_per_unit self)
      then Inl (InvalidLimits (ft_id self) (min_hz limits) (max_hz limits))
      else Inr ())"

definition snap_limits ::
  "frequency_target \<Rightarrow> frequency_limits \<Rightarrow> (actuator_error, frequency_limits) result" where
  "snap_limits self requested =
     rbind (validate_limits self requested) (\<lambda>_.
     if ft_opps self = [] then Inr requested
     else let minimum = unwrap_or (ft_hardware_max self) (List.find (\<lambda>opp. min_hz requested \<le> opp) (ft_opps self));
              maximum = unwrap_or (ft_hardware_min self) (rfind (\<lambda>opp. opp \<le> max_hz requested) (ft_opps self))
       in map_err (\<lambda>_. InvalidLimits (ft_id self) minimum maximum)
            (FrequencyLimits_new (min minimum maximum) maximum))"

definition target_hardware_limits :: "frequency_target \<Rightarrow> frequency_limits" where
  "target_hardware_limits target = \<lparr>min_hz = ft_hardware_min target, max_hz = ft_hardware_max target\<rparr>"

section \<open>Scalar targets\<close>

datatype actuator_value = ValInteger i64 | ValString string | ValCpuList cpu_set

datatype actuator_domain =
    DomIntegerRange i64 i64
  | DomIntegerEnum "i64 list"
  | DomStringEnum "string list"
  | DomCpuList cpu_set bool

text \<open>\<open>value.trim() != value\<close> compares code points.\<close>

definition validate_scalar_string :: "target_id \<Rightarrow> string \<Rightarrow> (actuator_error, unit) result" where
  "validate_scalar_string tid value =
     (if value = [] \<or> MAX_SCALAR_STRING_BYTES < length value \<or> trim (chars value) \<noteq> chars value
         \<or> list_ex is_control (chars value)
      then Inl (InvalidTarget (MFmt ''{id}: invalid scalar string enum value {value:?}'' [MStr tid, MQuoted value]))
      else Inr ())"

fun canonicalize :: "actuator_domain \<Rightarrow> target_id \<Rightarrow> (actuator_error, actuator_domain) result" where
  "canonicalize (DomIntegerRange minimum maximum) tid =
     (if maximum < minimum
      then Inl (InvalidTarget (MFmt ''{id}: scalar integer range is reversed'' [MStr tid]))
      else Inr (DomIntegerRange minimum maximum))"
| "canonicalize (DomIntegerEnum values) tid =
     (let values = sort_dedup values
      in if values = [] then Inl (InvalidTarget (MFmt ''{id}: scalar integer enum is empty'' [MStr tid]))
         else Inr (DomIntegerEnum values))"
| "canonicalize (DomStringEnum values) tid =
     (let values = sort_dedup values
      in if values = [] then Inl (InvalidTarget (MFmt ''{id}: scalar string enum is empty'' [MStr tid]))
         else rbind (try_map (validate_scalar_string tid) values) (\<lambda>_. Inr (DomStringEnum values)))"
| "canonicalize (DomCpuList allowed_cpus allow_empty) tid =
     (if CpuSet_is_empty allowed_cpus
      then Inl (InvalidTarget (MFmt ''{id}: scalar CPU-list domain has no allowed CPUs'' [MStr tid]))
      else if list_ex (\<lambda>cpu. MAX_SCALAR_CPU_ID < cpu) allowed_cpus
      then Inl (InvalidTarget (MFmt ''{id}: scalar CPU-list domain exceeds CPU {MAX_SCALAR_CPU_ID}'' [MStr tid, u_num MAX_SCALAR_CPU_ID]))
      else Inr (DomCpuList allowed_cpus allow_empty))"

definition debug_cpu_set :: "cpu_set \<Rightarrow> message" where
  "debug_cpu_set cpus = MFmt ''CpuSet({{{}}})'' [MJoin '', '' (map (\<lambda>c. MFmt ''CpuId({})'' [u_num c]) cpus)]"

fun debug_value :: "actuator_value \<Rightarrow> message" where
  "debug_value (ValInteger i) = MFmt ''Integer({})'' [MNum i]"
| "debug_value (ValString s) = MFmt ''String({:?})'' [MQuoted s]"
| "debug_value (ValCpuList c) = MFmt ''CpuList({:?})'' [debug_cpu_set c]"

text \<open>
  \<open>binary_search(..).is_ok()\<close> on an enumeration, which a canonical domain keeps sorted, is membership.
\<close>

fun domain_accepts :: "actuator_domain \<Rightarrow> actuator_value \<Rightarrow> bool" where
  "domain_accepts (DomIntegerRange minimum maximum) (ValInteger candidate) =
     (minimum \<le> candidate \<and> candidate \<le> maximum)"
| "domain_accepts (DomIntegerEnum values) (ValInteger candidate) = (candidate \<in> set values)"
| "domain_accepts (DomStringEnum values) (ValString candidate) = (candidate \<in> set values)"
| "domain_accepts (DomCpuList allowed_cpus allow_empty) (ValCpuList candidate) =
     ((allow_empty \<or> \<not> CpuSet_is_empty candidate) \<and> CpuSet_is_subset candidate allowed_cpus)"
| "domain_accepts _ _ = False"

definition domain_validate_value ::
  "actuator_domain \<Rightarrow> target_id \<Rightarrow> actuator_value \<Rightarrow> (actuator_error, unit) result" where
  "domain_validate_value self tid value =
     (if domain_accepts self value then Inr () else Inl (InvalidScalarValue tid (debug_value value)))"

record actuator_scalar_target =
  st_id :: target_id
  st_path :: path_buf
  st_domain :: actuator_domain

definition ScalarTarget_new ::
  "target_id \<Rightarrow> path_buf \<Rightarrow> actuator_domain \<Rightarrow> (actuator_error, actuator_scalar_target) result" where
  "ScalarTarget_new tid path domain =
     rbind (validate_sysfs_path path) (\<lambda>_.
     rbind (canonicalize domain tid) (\<lambda>domain.
     Inr \<lparr>st_id = tid, st_path = path, st_domain = domain\<rparr>))"

definition validate_value :: "actuator_scalar_target \<Rightarrow> actuator_value \<Rightarrow> (actuator_error, unit) result" where
  "validate_value self value = domain_validate_value (st_domain self) (st_id self) value"

section \<open>The registry\<close>

record target_registry =
  rg_targets :: "(target_id, frequency_target) btree"
  rg_scalar_targets :: "(target_id, actuator_scalar_target) btree"

text \<open>The owner of each claimed path; \<open>insert\<close> returns the previous owner.\<close>

type_synonym 'o claims = "(path_buf \<times> 'o) list"

definition claim_path ::
  "('o \<Rightarrow> path_buf \<Rightarrow> 'e) \<Rightarrow> 'o claims \<Rightarrow> path_buf \<Rightarrow> 'o \<Rightarrow> ('e, 'o claims) result" where
  "claim_path err claimed path owner =
     (case map_of claimed path of Some previous \<Rightarrow> Inl (err previous path)
      | None \<Rightarrow> Inr ((path, owner) # claimed))"

definition both_claim :: "target_id \<Rightarrow> target_id \<Rightarrow> path_buf \<Rightarrow> actuator_error" where
  "both_claim tid owner path =
     InvalidTarget (MFmt ''{id} and {owner} both claim {}'' [MStr tid, MStr owner, MPath path])"

definition register_target ::
  "(target_id, frequency_target) btree \<times> target_id claims \<Rightarrow> frequency_target
   \<Rightarrow> (actuator_error, (target_id, frequency_target) btree \<times> target_id claims) result" where
  "register_target = (\<lambda>(targets, claimed) target.
     if bt_contains targets (ft_id target) then Inl (DuplicateTarget (ft_id target))
     else rbind (claim_path (both_claim (ft_id target)) claimed (ft_min_path target) (ft_id target)) (\<lambda>claimed.
       rbind (claim_path (both_claim (ft_id target)) claimed (ft_max_path target) (ft_id target)) (\<lambda>claimed.
       Inr (bt_insert (ft_id target) target targets, claimed))))"

definition TargetRegistry_new ::
  "frequency_target list \<Rightarrow> (actuator_error, target_registry) result" where
  "TargetRegistry_new targets =
     rbind (try_fold register_target ([], []) targets)
       (\<lambda>(registered, _). Inr \<lparr>rg_targets = registered, rg_scalar_targets = []\<rparr>)"

definition registry_get :: "target_registry \<Rightarrow> target_id \<Rightarrow> frequency_target option" where
  "registry_get self tid = bt_get (rg_targets self) tid"

definition registry_get_scalar :: "target_registry \<Rightarrow> target_id \<Rightarrow> actuator_scalar_target option" where
  "registry_get_scalar self tid = bt_get (rg_scalar_targets self) tid"

definition register_scalar ::
  "target_registry \<times> target_id claims \<Rightarrow> actuator_scalar_target
   \<Rightarrow> (actuator_error, target_registry \<times> target_id claims) result" where
  "register_scalar = (\<lambda>(self, claimed) target.
     rbind (ScalarTarget_new (st_id target) (st_path target) (st_domain target)) (\<lambda>canonical.
     if canonical \<noteq> target
     then Inl (InvalidTarget (MFmt ''{}: scalar target is not canonical'' [MStr (st_id target)]))
     else if bt_contains (rg_targets self) (st_id target) \<or> bt_contains (rg_scalar_targets self) (st_id target)
     then Inl (DuplicateTarget (st_id target))
     else rbind (claim_path (both_claim (st_id target)) claimed (st_path target) (st_id target)) (\<lambda>claimed.
       Inr (self\<lparr>rg_scalar_targets := bt_insert (st_id target) target (rg_scalar_targets self)\<rparr>, claimed))))"

definition with_scalar_targets ::
  "target_registry \<Rightarrow> actuator_scalar_target list \<Rightarrow> (actuator_error, target_registry) result" where
  "with_scalar_targets self targets =
     (let claimed = fold (\<lambda>t c. (ft_max_path t, ft_id t) # (ft_min_path t, ft_id t) # c) (bt_values (rg_targets self)) []
      in rbind (try_fold register_scalar (self, claimed) targets) (\<lambda>(self, _). Inr self))"

section \<open>Recovery manifests\<close>

record frequency_manifest =
  fm_id :: target_id
  fm_min_path :: path_buf
  fm_max_path :: path_buf
  fm_hardware_min :: hertz
  fm_hardware_max :: hertz
  fm_opps :: "hertz list"
  fm_hertz_per_unit :: u64

definition recovery_manifest :: "frequency_target \<Rightarrow> frequency_manifest" where
  "recovery_manifest self =
     \<lparr>fm_id = ft_id self, fm_min_path = ft_min_path self, fm_max_path = ft_max_path self,
      fm_hardware_min = ft_hardware_min self, fm_hardware_max = ft_hardware_max self,
      fm_opps = ft_opps self, fm_hertz_per_unit = ft_hertz_per_unit self\<rparr>"

definition to_frequency_target :: "frequency_manifest \<Rightarrow> (actuator_error, frequency_target) result" where
  "to_frequency_target self =
     rbind (FrequencyTarget_new (fm_id self) (fm_min_path self) (fm_max_path self)
             (fm_hardware_min self) (fm_hardware_max self) (fm_opps self)) (\<lambda>target.
     rbind (with_hertz_per_unit target (fm_hertz_per_unit self)) (\<lambda>target.
     if recovery_manifest target \<noteq> self
     then Inl (InvalidTarget (MFmt ''{}: recovery manifest is not canonical'' [MStr (fm_id self)]))
     else Inr target))"

record scalar_manifest =
  sm_id :: target_id
  sm_path :: path_buf
  sm_domain :: actuator_domain

definition scalar_recovery_manifest :: "actuator_scalar_target \<Rightarrow> scalar_manifest" where
  "scalar_recovery_manifest self = \<lparr>sm_id = st_id self, sm_path = st_path self, sm_domain = st_domain self\<rparr>"

definition to_scalar_target :: "scalar_manifest \<Rightarrow> (actuator_error, actuator_scalar_target) result" where
  "to_scalar_target self =
     rbind (ScalarTarget_new (sm_id self) (sm_path self) (sm_domain self)) (\<lambda>target.
     if scalar_recovery_manifest target \<noteq> self
     then Inl (InvalidTarget (MFmt ''{}: scalar recovery manifest is not canonical'' [MStr (sm_id self)]))
     else Inr target)"

datatype resource_manifest = FrequencyPairManifest frequency_manifest | ScalarManifest scalar_manifest


section \<open>Well-formed targets\<close>

lemma sort_dedup_set [simp]: "set (sort_dedup xs) = set xs"
  by (simp add: sort_dedup_def)

lemma sort_dedup_strict: "sorted_wrt (<) (sort_dedup (xs :: 'a::linorder list))"
proof -
  have "sorted_wrt (<) (remdups_adj ys)" if "sorted ys" for ys :: "'a list"
    using that by (induction ys rule: remdups_adj.induct) (auto simp: order_le_less)
  then show ?thesis by (simp add: sort_dedup_def)
qed

lemma sort_dedup_id: "sorted_wrt (<) xs \<Longrightarrow> sort_dedup xs = (xs :: 'a::linorder list)"
  by (metis sort_dedup_set sort_dedup_strict strict_sorted_equal)

definition target_wf :: "frequency_target \<Rightarrow> bool" where
  "target_wf t =
     (validate_sysfs_path (ft_min_path t) = Inr () \<and> validate_sysfs_path (ft_max_path t) = Inr ()
      \<and> ft_min_path t \<noteq> ft_max_path t \<and> ft_hardware_min t \<le> ft_hardware_max t
      \<and> sorted_wrt (<) (ft_opps t)
      \<and> list_all (\<lambda>opp. ft_hardware_min t \<le> opp \<and> opp \<le> ft_hardware_max t) (ft_opps t)
      \<and> ft_hertz_per_unit t \<noteq> 0
      \<and> u64_is_multiple_of (ft_hardware_min t) (ft_hertz_per_unit t)
      \<and> u64_is_multiple_of (ft_hardware_max t) (ft_hertz_per_unit t)
      \<and> list_all (\<lambda>f. u64_is_multiple_of f (ft_hertz_per_unit t)) (ft_opps t))"

lemma FrequencyTarget_new_Inr_iff:
  "FrequencyTarget_new tid p q mn mx opps = Inr t \<longleftrightarrow>
     validate_sysfs_path p = Inr () \<and> validate_sysfs_path q = Inr () \<and> p \<noteq> q \<and> mn \<le> mx
     \<and> list_all (\<lambda>opp. mn \<le> opp \<and> opp \<le> mx) opps
     \<and> t = \<lparr>ft_id = tid, ft_min_path = p, ft_max_path = q, ft_hardware_min = mn, ft_hardware_max = mx,
            ft_opps = sort_dedup opps, ft_hertz_per_unit = 1\<rparr>"
proof -
  have outside: "list_ex (\<lambda>opp. opp < mn \<or> mx < opp) (sort_dedup opps) \<longleftrightarrow>
      \<not> list_all (\<lambda>opp. mn \<le> opp \<and> opp \<le> mx) opps"
    by (auto simp: list_ex_iff list_all_iff not_less not_le)
  show ?thesis
    by (auto simp: FrequencyTarget_new_def rbind_Inr_iff Let_def outside not_less)
qed

lemma with_hertz_per_unit_Inr_iff:
  "with_hertz_per_unit t u = Inr t' \<longleftrightarrow>
     u \<noteq> 0 \<and> u64_is_multiple_of (ft_hardware_min t) u \<and> u64_is_multiple_of (ft_hardware_max t) u
     \<and> list_all (\<lambda>f. u64_is_multiple_of f u) (ft_opps t) \<and> t' = t\<lparr>ft_hertz_per_unit := u\<rparr>"
  by (auto simp: with_hertz_per_unit_def Let_def split: if_splits)

lemma to_frequency_target_Inr_iff:
  "to_frequency_target m = Inr t \<longleftrightarrow> target_wf t \<and> recovery_manifest t = m"
proof
  assume "to_frequency_target m = Inr t"
  then obtain t0 where "FrequencyTarget_new (fm_id m) (fm_min_path m) (fm_max_path m)
      (fm_hardware_min m) (fm_hardware_max m) (fm_opps m) = Inr t0"
    and "with_hertz_per_unit t0 (fm_hertz_per_unit m) = Inr t" and "recovery_manifest t = m"
    by (auto simp: to_frequency_target_def rbind_Inr_iff split: if_splits)
  then show "target_wf t \<and> recovery_manifest t = m"
    by (auto simp: target_wf_def FrequencyTarget_new_Inr_iff with_hertz_per_unit_Inr_iff sort_dedup_strict list_all_iff)
next
  assume *: "target_wf t \<and> recovery_manifest t = m"
  let ?t0 = "t\<lparr>ft_hertz_per_unit := 1\<rparr>"
  from * have m: "m = recovery_manifest t" and wf: "target_wf t" by auto
  from wf have "FrequencyTarget_new (fm_id m) (fm_min_path m) (fm_max_path m)
      (fm_hardware_min m) (fm_hardware_max m) (fm_opps m) = Inr ?t0"
    by (cases t) (simp add: FrequencyTarget_new_Inr_iff m recovery_manifest_def target_wf_def sort_dedup_id)
  moreover from wf have "with_hertz_per_unit ?t0 (fm_hertz_per_unit m) = Inr t"
    by (cases t) (simp add: with_hertz_per_unit_Inr_iff m recovery_manifest_def target_wf_def)
  ultimately show "to_frequency_target m = Inr t"
    using m by (simp add: to_frequency_target_def)
qed

definition scalar_target_wf :: "actuator_scalar_target \<Rightarrow> bool" where
  "scalar_target_wf t = (ScalarTarget_new (st_id t) (st_path t) (st_domain t) = Inr t)"

lemma canonicalize_idem: "canonicalize d tid = Inr d' \<Longrightarrow> canonicalize d' tid = Inr d'"
proof -
  have sd: "sort_dedup (sort_dedup xs) = sort_dedup xs" for xs :: "'a::linorder list"
    by (rule sort_dedup_id) (rule sort_dedup_strict)
  assume "canonicalize d tid = Inr d'"
  then show ?thesis
  proof (cases d)
    case (DomStringEnum vs)
    with \<open>canonicalize d tid = Inr d'\<close> obtain ys where "sort_dedup vs \<noteq> []"
      and "try_map (validate_scalar_string tid) (sort_dedup vs) = Inr ys"
      and d': "d' = DomStringEnum (sort_dedup vs)"
      by (auto simp: Let_def rbind_Inr_iff split: if_splits)
    then show ?thesis by (simp add: d' sd)
  qed (auto simp: Let_def sd split: if_splits)
qed

lemma ScalarTarget_new_wf: "ScalarTarget_new tid p d = Inr t \<Longrightarrow> scalar_target_wf t"
  by (auto simp: scalar_target_wf_def ScalarTarget_new_def rbind_Inr_iff canonicalize_idem)

lemma to_scalar_target_Inr_iff:
  "to_scalar_target m = Inr t \<longleftrightarrow> scalar_target_wf t \<and> scalar_recovery_manifest t = m"
proof
  assume "to_scalar_target m = Inr t"
  then have "ScalarTarget_new (sm_id m) (sm_path m) (sm_domain m) = Inr t" and "scalar_recovery_manifest t = m"
    unfolding to_scalar_target_def by (auto elim!: rbind_InrE split: if_splits)
  then show "scalar_target_wf t \<and> scalar_recovery_manifest t = m" by (simp add: ScalarTarget_new_wf)
next
  assume "scalar_target_wf t \<and> scalar_recovery_manifest t = m"
  then have "ScalarTarget_new (st_id t) (st_path t) (st_domain t) = Inr t" and "m = scalar_recovery_manifest t"
    by (simp_all add: scalar_target_wf_def)
  then show "to_scalar_target m = Inr t" by (simp add: to_scalar_target_def scalar_recovery_manifest_def)
qed

lemma validate_value_Inr_iff: "validate_value t v = Inr () \<longleftrightarrow> domain_accepts (st_domain t) v"
  by (simp add: validate_value_def domain_validate_value_def)

section \<open>Frequency windows\<close>

lemma validate_limits_Inr_iff:
  "validate_limits t l = Inr () \<longleftrightarrow>
     ft_hardware_min t \<le> min_hz l \<and> max_hz l \<le> ft_hardware_max t \<and> min_hz l \<le> max_hz l
     \<and> ft_hertz_per_unit t \<noteq> 0
     \<and> u64_is_multiple_of (min_hz l) (ft_hertz_per_unit t) \<and> u64_is_multiple_of (max_hz l) (ft_hertz_per_unit t)"
  by (auto simp: validate_limits_def not_less)

lemma hardware_limits_valid: "target_wf t \<Longrightarrow> validate_limits t (target_hardware_limits t) = Inr ()"
  by (simp add: target_wf_def validate_limits_Inr_iff target_hardware_limits_def)

lemma snap_limits_cases:
  assumes "target_wf t" and "validate_limits t l = Inr ()" and "ft_opps t \<noteq> []"
  obtains mn mx where "snap_limits t l = Inr \<lparr>min_hz = min mn mx, max_hz = mx\<rparr>"
    and "mx \<le> max_hz l"
    and "mx = ft_hardware_min t \<or> mx \<in> set (ft_opps t)"
    and "mn = ft_hardware_max t \<or> mn \<in> set (ft_opps t) \<and> min_hz l \<le> mn"
    and "\<And>opp. opp \<in> set (ft_opps t) \<Longrightarrow> opp \<le> max_hz l \<Longrightarrow> mx \<in> set (ft_opps t) \<and> opp \<le> mx"
    and "\<And>opp. opp \<in> set (ft_opps t) \<Longrightarrow> min_hz l \<le> opp \<Longrightarrow> mn \<le> opp"
proof -
  define mn where "mn = unwrap_or (ft_hardware_max t) (List.find (\<lambda>opp. min_hz l \<le> opp) (ft_opps t))"
  define mx where "mx = unwrap_or (ft_hardware_min t) (rfind (\<lambda>opp. opp \<le> max_hz l) (ft_opps t))"
  have "sorted_wrt (<) (ft_opps t)" using assms(1) by (simp add: target_wf_def)
  then have sorted: "sorted (map (\<lambda>x. x) (ft_opps t))" by (simp add: strict_sorted_iff)
  have first: "y \<le> x" if "List.find p xs = Some y" "x \<in> set xs" "p x" "sorted xs" for p and x y :: u64 and xs
    using that by (induction xs) (auto split: if_splits)
  have "snap_limits t l = Inr \<lparr>min_hz = min mn mx, max_hz = mx\<rparr>"
    using assms by (simp add: snap_limits_def mn_def [symmetric] mx_def [symmetric] Let_def FrequencyLimits_new_def)
  moreover have "mx \<le> max_hz l"
    using assms(2) by (cases "rfind (\<lambda>opp. opp \<le> max_hz l) (ft_opps t)")
      (auto simp: mx_def validate_limits_Inr_iff dest: rfind_Some_mem)
  moreover have "mx = ft_hardware_min t \<or> mx \<in> set (ft_opps t)"
    by (cases "rfind (\<lambda>opp. opp \<le> max_hz l) (ft_opps t)") (auto simp: mx_def dest: rfind_Some_mem)
  moreover have "mn = ft_hardware_max t \<or> mn \<in> set (ft_opps t) \<and> min_hz l \<le> mn"
    by (cases "List.find (\<lambda>opp. min_hz l \<le> opp) (ft_opps t)") (auto simp: mn_def dest: find_Some_mem)
  moreover have "mx \<in> set (ft_opps t) \<and> opp \<le> mx" if "opp \<in> set (ft_opps t)" "opp \<le> max_hz l" for opp
    using that rfind_last [OF sorted] rfind_None_all [of "\<lambda>opp. opp \<le> max_hz l" "ft_opps t"]
    by (cases "rfind (\<lambda>opp. opp \<le> max_hz l) (ft_opps t)") (auto simp: mx_def dest: rfind_Some_mem)
  moreover have "mn \<le> opp" if "opp \<in> set (ft_opps t)" "min_hz l \<le> opp" for opp
    using that first [of "\<lambda>opp. min_hz l \<le> opp" "ft_opps t" _ opp] sorted find_None_all [of "\<lambda>opp. min_hz l \<le> opp" "ft_opps t"]
    by (cases "List.find (\<lambda>opp. min_hz l \<le> opp) (ft_opps t)") (auto simp: mn_def)
  ultimately show ?thesis by (rule that)
qed

end
