(* ===== verification/Cpu_List.thy ===== *)
theory Cpu_List
  imports Actuator_Targets
begin

text \<open>
  The CPU-list notation of the kernel, as \<open>format_scalar_cpu_list\<close> writes it and
  \<open>parse_scalar_cpu_list\<close> reads it back (\<open>crates/uperf-actuator/src/lib.rs\<close>): runs of consecutive
  identifiers as \<open>first-last\<close>, separated by commas. A set the actuator may write is read back as the
  same set, so a successful write is never reported as a mismatch.
\<close>

section \<open>Formatting\<close>

definition u32_saturating_add :: "u32 \<Rightarrow> u32 \<Rightarrow> u32" where
  "u32_saturating_add a b = (if uint a + uint b < 2 ^ 32 then a + b else - 1)"

text \<open>The inner loop extends the run that starts at \<open>end\<close>; the outer loop collects the runs.\<close>

fun run_end :: "u32 \<Rightarrow> u32 list \<Rightarrow> u32 \<times> u32 list" where
  "run_end e [] = (e, [])"
| "run_end e (c # cs) = (if c = u32_saturating_add e 1 then run_end c cs else (e, c # cs))"

lemma run_end_length: "length (snd (run_end e cs)) \<le> length cs"
  by (induction e cs rule: run_end.induct) auto

function cpu_runs :: "u32 list \<Rightarrow> (u32 \<times> u32) list" where
  "cpu_runs [] = []"
| "cpu_runs (c # cs) = (case run_end c cs of (e, rest) \<Rightarrow> (c, e) # cpu_runs rest)"
  by pat_completeness auto
termination
  by (relation "measure length") (auto, metis le_imp_less_Suc run_end_length snd_conv)

definition show_u32 :: "u32 \<Rightarrow> string" where
  "show_u32 c = show_int (uint c)"

definition show_run :: "u32 \<times> u32 \<Rightarrow> string" where
  "show_run r = (if fst r = snd r then show_u32 (fst r) else show_u32 (fst r) @ ''-'' @ show_u32 (snd r))"

definition format_scalar_cpu_list :: "cpu_set \<Rightarrow> string" where
  "format_scalar_cpu_list cpus = join_with '','' (map show_run (cpu_runs cpus))"

section \<open>Parsing\<close>

definition parse_scalar_cpu_id :: "path_buf \<Rightarrow> string \<Rightarrow> string \<Rightarrow> (actuator_error, u32) result" where
  "parse_scalar_cpu_id path original value =
     ok_or (InvalidReadback path (MStr original))
       (filter_opt (\<lambda>cpu. cpu \<le> MAX_SCALAR_CPU_ID) (parse_u32 value))"

text \<open>\<open>start..=end\<close>.\<close>

definition cpu_range :: "u32 \<Rightarrow> u32 \<Rightarrow> u32 list" where
  "cpu_range s e = map word_of_nat [unat s ..< Suc (unat e)]"

definition parse_cpu_token ::
  "path_buf \<Rightarrow> string \<Rightarrow> cpu_set \<Rightarrow> string \<Rightarrow> (actuator_error, cpu_set) result" where
  "parse_cpu_token path value cpus token =
     rbind
       (case split_once (CHR ''-'') token of
          Some (start, end) \<Rightarrow>
            if CHR ''-'' \<in> set end then Inl (InvalidReadback path (MStr value))
            else rbind (parse_scalar_cpu_id path value start) (\<lambda>s.
                 rbind (parse_scalar_cpu_id path value end) (\<lambda>e. Inr (s, e)))
        | None \<Rightarrow> rbind (parse_scalar_cpu_id path value token) (\<lambda>cpu. Inr (cpu, cpu)))
       (\<lambda>(s, e). if e < s then Inl (InvalidReadback path (MStr value))
                 else Inr (fold CpuSet_insert (cpu_range s e) cpus))"

definition parse_cpu_part ::
  "path_buf \<Rightarrow> string \<Rightarrow> cpu_set \<Rightarrow> string \<Rightarrow> (actuator_error, cpu_set) result" where
  "parse_cpu_part path value cpus comma_part =
     (if trim_str comma_part = [] then Inl (InvalidReadback path (MStr value))
      else try_fold (parse_cpu_token path value) cpus (split_ascii_whitespace comma_part))"

definition parse_scalar_cpu_list :: "path_buf \<Rightarrow> string \<Rightarrow> (actuator_error, cpu_set) result" where
  "parse_scalar_cpu_list path value =
     (if value = [] then Inr [] else try_fold (parse_cpu_part path value) [] (split_char (CHR '','') value))"

section \<open>Plain text\<close>

text \<open>
  A formatted list has only digits, dashes and commas: each byte is one character, none is white
  space, and trimming leaves it as it is.
\<close>

definition plain :: "char \<Rightarrow> bool" where
  "plain c = (is_digit c \<or> c = CHR ''-'')"

lemma plain_byte:
  assumes "plain c"
  shows "byte_of c < 128" and "\<not> is_whitespace (byte_of c)" and "\<not> is_ascii_whitespace c" and "c \<noteq> CHR '',''"
  using assms is_digit_not_special(3-5) [of c]
  by (auto simp: plain_def is_whitespace_def is_ascii_whitespace_def) (auto simp: byte_of_def)

lemma chars_ascii: "list_all (\<lambda>c. byte_of c < 128) s \<Longrightarrow> chars s = map byte_of s"
  by (induction s rule: chars.induct) auto

lemma utf8_encode_ascii: "byte_of c < 128 \<Longrightarrow> utf8_encode (byte_of c) = [c]"
  by (simp add: utf8_encode_def char_of_int_def byte_of_def)

lemma trim_str_ascii:
  assumes "list_all (\<lambda>c. byte_of c < 128 \<and> \<not> is_whitespace (byte_of c)) s"
  shows "trim_str s = s"
proof -
  have "dropWhile is_whitespace (map byte_of u) = map byte_of u"
    if "list_all (\<lambda>c. \<not> is_whitespace (byte_of c)) u" for u
    using that by (cases u) auto
  from this [of s] this [of "rev s"] assms have "trim (map byte_of s) = map byte_of s"
    by (simp add: trim_def list_all_iff rev_map [symmetric])
  moreover have "chars s = map byte_of s"
    using assms by (intro chars_ascii) (simp add: list_all_iff)
  moreover have "concat (map utf8_encode (map byte_of s)) = s"
    using assms by (induction s) (auto simp: utf8_encode_ascii)
  ultimately show ?thesis by (simp add: trim_str_def)
qed

lemma show_u32_digits: "show_u32 c \<noteq> [] \<and> list_all is_digit (show_u32 c)"
  using show_int_digits [of "uint c"] by (simp add: show_u32_def)

lemma show_run_plain: "show_run r \<noteq> [] \<and> list_all plain (show_run r)"
  using show_u32_digits [of "fst r"] show_u32_digits [of "snd r"]
  by (auto simp: show_run_def list_all_iff plain_def)

lemma split_on_fresh: "sep \<notin> set t \<Longrightarrow> split_on sep acc t = [rev acc @ t]"
  by (induction t arbitrary: acc) auto

lemma split_on_append: "sep \<notin> set t \<Longrightarrow> split_on sep acc (t @ sep # s) = (rev acc @ t) # split_on sep [] s"
  by (induction t arbitrary: acc) auto

lemma split_char_join:
  "ts \<noteq> [] \<Longrightarrow> list_all (\<lambda>t. sep \<notin> set t) ts \<Longrightarrow> split_char sep (join_with [sep] ts) = ts"
  unfolding split_char_def
  by (induction "[sep]" ts rule: join_with.induct) (simp_all add: split_on_fresh split_on_append)

lemma words_on_plain: "list_all (\<lambda>c. \<not> is_ascii_whitespace c) t \<Longrightarrow>
    words_on acc t = (if rev acc @ t = [] then [] else [rev acc @ t])"
  by (induction t arbitrary: acc) auto

lemma split_once_none: "sep \<notin> set t \<Longrightarrow> split_once sep t = None"
  by (induction t) auto

lemma split_once_append: "sep \<notin> set t \<Longrightarrow> split_once sep (t @ sep # u) = Some (t, u)"
  by (induction t) auto

section \<open>Reading back\<close>

lemma parse_u32_show: "parse_u32 (show_u32 c) = Some c"
proof -
  have "uint c \<le> 2 ^ 32 - 1" using uint_lt2p [of c] by simp
  then have "parse_unsigned (2 ^ 32 - 1) (show_u32 c) = Some (uint c)"
    unfolding show_u32_def by (intro parse_unsigned_show) simp_all
  then show ?thesis by (simp add: parse_u32_def)
qed

lemma no_dash: "list_all is_digit t \<Longrightarrow> CHR ''-'' \<notin> set t"
  using is_digit_not_special(2) by (auto simp: list_all_iff)

lemma parse_show_run:
  assumes "s \<le> e" and "e \<le> MAX_SCALAR_CPU_ID"
  shows "parse_cpu_token path v cpus (show_run (s, e)) = Inr (fold CpuSet_insert (cpu_range s e) cpus)"
proof -
  have ok: "parse_scalar_cpu_id path v (show_u32 c) = Inr c" if "c \<le> MAX_SCALAR_CPU_ID" for c
    using that by (simp add: parse_scalar_cpu_id_def parse_u32_show filter_opt_def)
  have nd: "CHR ''-'' \<notin> set (show_u32 c)" for c using show_u32_digits [of c] no_dash by blast
  from assms show ?thesis
    by (auto simp: parse_cpu_token_def show_run_def split_once_none split_once_append nd ok)
qed

lemma parse_show_part:
  assumes "s \<le> e" and "e \<le> MAX_SCALAR_CPU_ID"
  shows "parse_cpu_part path v cpus (show_run (s, e)) = Inr (fold CpuSet_insert (cpu_range s e) cpus)"
proof -
  have p: "show_run (s, e) \<noteq> []" "list_all plain (show_run (s, e))" using show_run_plain by auto
  have "trim_str (show_run (s, e)) = show_run (s, e)"
    using p(2) plain_byte by (intro trim_str_ascii) (auto simp: list_all_iff)
  moreover have "split_ascii_whitespace (show_run (s, e)) = [show_run (s, e)]"
    using p plain_byte(3) by (auto simp: split_ascii_whitespace_def words_on_plain list_all_iff)
  ultimately show ?thesis using p(1) parse_show_run [OF assms] by (simp add: parse_cpu_part_def)
qed

lemma saturating_next:
  assumes "e < c"
  shows "c = u32_saturating_add e 1 \<longleftrightarrow> unat c = Suc (unat e)"
proof -
  have b: "unat e < unat c" using assms by (simp add: word_less_nat_alt)
  moreover have "unat c < 2 ^ 32" using unsigned_less [of c] by simp
  ultimately have "unat e + 1 < 2 ^ 32" by simp
  then have "int (unat e + 1) < int (2 ^ 32)" by (simp only: of_nat_less_iff)
  then have "uint e + uint (1 :: u32) < 2 ^ 32" by simp
  moreover have "unat (e + 1) = Suc (unat e)"
    using \<open>unat e + 1 < 2 ^ 32\<close> by (simp add: unat_word_ariths)
  ultimately show ?thesis by (simp add: u32_saturating_add_def word_unat_eq_iff)
qed

lemma run_end_spec:
  assumes "run_end e cs = (e', rest)" and "sorted_wrt (<) (e # cs)"
  shows "e \<le> e' \<and> cpu_range e e' @ rest = e # cs \<and> sorted_wrt (<) rest \<and> e' \<in> set (e # cs) \<and> set rest \<subseteq> set cs"
  using assms
proof (induction e cs rule: run_end.induct)
  case (1 e)
  then show ?case by (simp add: cpu_range_def)
next
  case (2 e c cs)
  from "2.prems"(2) have "e < c" by simp
  show ?case
  proof (cases "c = u32_saturating_add e 1")
    case True
    with "2.prems" "2.IH" have IH: "c \<le> e' \<and> cpu_range c e' @ rest = c # cs \<and> sorted_wrt (<) rest \<and> e' \<in> set (c # cs) \<and> set rest \<subseteq> set cs"
      by simp
    moreover have "unat c = Suc (unat e)" using True saturating_next [OF \<open>e < c\<close>] by blast
    moreover have "unat c \<le> unat e'" using IH by (simp add: word_le_nat_alt)
    ultimately have "cpu_range e e' = e # cpu_range c e'"
      by (simp add: cpu_range_def upt_rec [of "unat e"])
    with IH \<open>e < c\<close> show ?thesis by auto
  next
    case False
    with "2.prems" show ?thesis by (auto simp: cpu_range_def)
  qed
qed

lemma cpu_runs_spec:
  "sorted_wrt (<) cs \<Longrightarrow> concat (map (\<lambda>(s, e). cpu_range s e) (cpu_runs cs)) = cs
   \<and> list_all (\<lambda>(s, e). s \<le> e \<and> e \<in> set cs) (cpu_runs cs)"
proof (induction cs rule: cpu_runs.induct)
  case (2 c cs)
  obtain e rest where r: "run_end c cs = (e, rest)" by fastforce
  note spec = run_end_spec [OF r "2.prems"]
  with "2.IH" [OF r [symmetric]] r show ?case by (auto simp: list_all_iff)
qed simp

lemma fold_insert_append_sorted:
  assumes "sorted_wrt (<) (xs @ ys)"
  shows "fold CpuSet_insert ys xs = xs @ ys"
proof -
  have "set (fold CpuSet_insert ys s) = set ys \<union> set s \<and>
      (cpu_set_wf s \<longrightarrow> cpu_set_wf (fold CpuSet_insert ys s))" for s
    by (induction ys arbitrary: s) (auto simp: CpuSet_insert_set CpuSet_insert_wf)
  from this [of xs] assms show ?thesis
    by (intro strict_sorted_equal) (auto simp: cpu_set_wf_def sorted_wrt_append)
qed

lemma parse_runs:
  "list_all (\<lambda>(s, e). s \<le> e \<and> e \<le> MAX_SCALAR_CPU_ID) rs \<Longrightarrow>
   try_fold (parse_cpu_part path v) cpus (map show_run rs)
     = Inr (fold CpuSet_insert (concat (map (\<lambda>(s, e). cpu_range s e) rs)) cpus)"
  by (induction rs arbitrary: cpus) (auto simp: parse_show_part)

lemma format_nonempty: "cs \<noteq> [] \<Longrightarrow> format_scalar_cpu_list cs \<noteq> []"
proof (cases cs)
  case (Cons c cs')
  then obtain r rs where r: "cpu_runs cs = r # rs" by (cases "run_end c cs'") auto
  show ?thesis using show_run_plain [of r] by (cases rs) (auto simp: format_scalar_cpu_list_def r)
qed simp

lemma format_plain: "list_all (\<lambda>c. plain c \<or> c = CHR '','') (format_scalar_cpu_list cs)"
proof -
  have "list_all (\<lambda>c. plain c \<or> c = CHR '','') (join_with '','' (map show_run rs))" for rs
  proof (induction rs rule: induct_list012)
    case (2 x)
    then show ?case using show_run_plain [of x] by (auto simp: list_all_iff)
  next
    case (3 x y zs)
    then show ?case using show_run_plain [of x] by (auto simp: list_all_iff)
  qed simp
  then show ?thesis by (simp add: format_scalar_cpu_list_def)
qed

lemma trim_format: "trim_str (format_scalar_cpu_list cs) = format_scalar_cpu_list cs"
proof (rule trim_str_ascii)
  have "byte_of (CHR '','') < 128 \<and> \<not> is_whitespace (byte_of (CHR '',''))" by code_simp
  then show "list_all (\<lambda>c. byte_of c < 128 \<and> \<not> is_whitespace (byte_of c)) (format_scalar_cpu_list cs)"
    using format_plain [of cs] plain_byte(1,2) by (auto simp: list_all_iff)
qed

lemma parse_format_cpu_list:
  assumes "cpu_set_wf cpus" and "list_all (\<lambda>c. c \<le> MAX_SCALAR_CPU_ID) cpus"
  shows "parse_scalar_cpu_list path (format_scalar_cpu_list cpus) = Inr cpus"
proof (cases "cpus = []")
  case True
  then show ?thesis by (simp add: parse_scalar_cpu_list_def format_scalar_cpu_list_def)
next
  case False
  let ?rs = "cpu_runs cpus"
  have spec: "concat (map (\<lambda>(s, e). cpu_range s e) ?rs) = cpus"
    and "list_all (\<lambda>(s, e). s \<le> e \<and> e \<in> set cpus) ?rs"
    using cpu_runs_spec assms(1) by (auto simp: cpu_set_wf_def)
  then have rs: "list_all (\<lambda>(s, e). s \<le> e \<and> e \<le> MAX_SCALAR_CPU_ID) ?rs"
    using assms(2) by (auto simp: list_all_iff)
  have "map show_run ?rs \<noteq> []" using False by (cases cpus) (auto split: prod.splits)
  moreover have "list_all (\<lambda>t. CHR '','' \<notin> set t) (map show_run ?rs)"
    using show_run_plain plain_byte(4) by (fastforce simp: list_all_iff)
  ultimately have "split_char (CHR '','') (format_scalar_cpu_list cpus) = map show_run ?rs"
    unfolding format_scalar_cpu_list_def by (rule split_char_join)
  moreover have "fold CpuSet_insert cpus [] = cpus"
    using fold_insert_append_sorted [of "[]" cpus] assms(1) by (simp add: cpu_set_wf_def)
  ultimately show ?thesis
    using parse_runs [OF rs, of path _ "[]"] spec format_nonempty [OF False]
    by (simp add: parse_scalar_cpu_list_def)
qed

end
