(* ===== verification/Actuator_Journal.thy ===== *)
theory Actuator_Journal
  imports Cpu_List
begin

text \<open>
  The recovery journal of the actuator (\<open>crates/uperf-actuator/src/lib.rs\<close>): what is owned, how far
  a transition has got, and what to restore. The masks say which fields of a task or of a unit the
  actuator owns; a frequency entry lists every pair of limits that the ordered writes of its
  transition can leave in the kernel. The JSON codec and the checksum are third-party code
  (\<open>serde_json\<close>, \<open>crc32fast\<close>) and a parameter of encoding and decoding.
\<close>

section \<open>Field masks\<close>

record task_field_mask =
  tm_affinity :: bool
  tm_nice :: bool
  tm_policy :: bool
  tm_uclamp_min :: bool
  tm_uclamp_max :: bool

definition task_mask_default :: task_field_mask where
  "task_mask_default =
     \<lparr>tm_affinity = False, tm_nice = False, tm_policy = False, tm_uclamp_min = False, tm_uclamp_max = False\<rparr>"

definition same_policy_priority :: "scheduling_state \<Rightarrow> scheduling_state \<Rightarrow> bool" where
  "same_policy_priority left right =
     (ss_policy left = ss_policy right \<and> ss_rt_priority left = ss_rt_priority right)"

definition task_mask_changed :: "scheduling_state \<Rightarrow> scheduling_state \<Rightarrow> task_field_mask" where
  "task_mask_changed before after =
     \<lparr>tm_affinity = (ss_affinity before \<noteq> ss_affinity after),
      tm_nice = (ss_nice before \<noteq> ss_nice after),
      tm_policy = (ss_policy before \<noteq> ss_policy after \<or> ss_rt_priority before \<noteq> ss_rt_priority after),
      tm_uclamp_min = (ss_uclamp_min before \<noteq> ss_uclamp_min after),
      tm_uclamp_max = (ss_uclamp_max before \<noteq> ss_uclamp_max after)\<rparr>"

definition task_mask_union :: "task_field_mask \<Rightarrow> task_field_mask \<Rightarrow> task_field_mask" where
  "task_mask_union self other =
     \<lparr>tm_affinity = (tm_affinity self \<or> tm_affinity other), tm_nice = (tm_nice self \<or> tm_nice other),
      tm_policy = (tm_policy self \<or> tm_policy other), tm_uclamp_min = (tm_uclamp_min self \<or> tm_uclamp_min other),
      tm_uclamp_max = (tm_uclamp_max self \<or> tm_uclamp_max other)\<rparr>"

definition task_mask_without :: "task_field_mask \<Rightarrow> task_field_mask \<Rightarrow> task_field_mask" where
  "task_mask_without self other =
     \<lparr>tm_affinity = (tm_affinity self \<and> \<not> tm_affinity other), tm_nice = (tm_nice self \<and> \<not> tm_nice other),
      tm_policy = (tm_policy self \<and> \<not> tm_policy other),
      tm_uclamp_min = (tm_uclamp_min self \<and> \<not> tm_uclamp_min other),
      tm_uclamp_max = (tm_uclamp_max self \<and> \<not> tm_uclamp_max other)\<rparr>"

definition task_mask_is_empty :: "task_field_mask \<Rightarrow> bool" where
  "task_mask_is_empty self = (self = task_mask_default)"

definition task_mask_intersects :: "task_field_mask \<Rightarrow> task_field_mask \<Rightarrow> bool" where
  "task_mask_intersects self other =
     ((tm_affinity self \<and> tm_affinity other) \<or> (tm_nice self \<and> tm_nice other)
      \<or> (tm_policy self \<and> tm_policy other) \<or> (tm_uclamp_min self \<and> tm_uclamp_min other)
      \<or> (tm_uclamp_max self \<and> tm_uclamp_max other))"

definition task_mask_matching ::
  "task_field_mask \<Rightarrow> scheduling_state \<Rightarrow> scheduling_state \<Rightarrow> scheduling_state \<Rightarrow> task_field_mask" where
  "task_mask_matching self current first second =
     \<lparr>tm_affinity = (tm_affinity self \<and> (ss_affinity current = ss_affinity first \<or> ss_affinity current = ss_affinity second)),
      tm_nice = (tm_nice self \<and> (ss_nice current = ss_nice first \<or> ss_nice current = ss_nice second)),
      tm_policy = (tm_policy self \<and> (same_policy_priority current first \<or> same_policy_priority current second)),
      tm_uclamp_min = (tm_uclamp_min self
         \<and> (ss_uclamp_min current = ss_uclamp_min first \<or> ss_uclamp_min current = ss_uclamp_min second)),
      tm_uclamp_max = (tm_uclamp_max self
         \<and> (ss_uclamp_max current = ss_uclamp_max first \<or> ss_uclamp_max current = ss_uclamp_max second))\<rparr>"

definition task_mask_copy ::
  "task_field_mask \<Rightarrow> scheduling_state \<Rightarrow> scheduling_state \<Rightarrow> scheduling_state" where
  "task_mask_copy self destination source =
     \<lparr>ss_affinity = (if tm_affinity self then ss_affinity source else ss_affinity destination),
      ss_nice = (if tm_nice self then ss_nice source else ss_nice destination),
      ss_policy = (if tm_policy self then ss_policy source else ss_policy destination),
      ss_rt_priority = (if tm_policy self then ss_rt_priority source else ss_rt_priority destination),
      ss_uclamp_min = (if tm_uclamp_min self then ss_uclamp_min source else ss_uclamp_min destination),
      ss_uclamp_max = (if tm_uclamp_max self then ss_uclamp_max source else ss_uclamp_max destination)\<rparr>"

definition task_mask_values_equal ::
  "task_field_mask \<Rightarrow> scheduling_state \<Rightarrow> scheduling_state \<Rightarrow> bool" where
  "task_mask_values_equal self left right =
     ((\<not> tm_affinity self \<or> ss_affinity left = ss_affinity right) \<and> (\<not> tm_nice self \<or> ss_nice left = ss_nice right)
      \<and> (\<not> tm_policy self \<or> same_policy_priority left right)
      \<and> (\<not> tm_uclamp_min self \<or> ss_uclamp_min left = ss_uclamp_min right)
      \<and> (\<not> tm_uclamp_max self \<or> ss_uclamp_max left = ss_uclamp_max right))"

definition validate_journal_scheduling_state :: "scheduling_state \<Rightarrow> (message, unit) result" where
  "validate_journal_scheduling_state state =
     (case (ss_policy state, ss_rt_priority state) of
        (Fifo, Some priority) \<Rightarrow>
          if 1 \<le> priority \<and> priority \<le> 99 then Inr ()
          else Inl (MFmt ''FIFO priority {priority} is outside Linux range 1..=99'' [u_num priority])
      | (Fifo, None) \<Rightarrow> Inl (MStr ''FIFO policy is missing its fixed priority'')
      | (_, None) \<Rightarrow> Inr ()
      | (_, Some priority) \<Rightarrow>
          Inl (MFmt ''non-real-time policy carries unexpected priority {priority}'' [u_num priority]))"

record unit_field_mask =
  um_cpu_weight :: bool
  um_allowed_cpus :: bool

definition unit_mask_default :: unit_field_mask where
  "unit_mask_default = \<lparr>um_cpu_weight = False, um_allowed_cpus = False\<rparr>"

definition unit_mask_changed :: "unit_properties \<Rightarrow> unit_properties \<Rightarrow> unit_field_mask" where
  "unit_mask_changed before after =
     \<lparr>um_cpu_weight = (up_cpu_weight before \<noteq> up_cpu_weight after),
      um_allowed_cpus = (up_allowed_cpus before \<noteq> up_allowed_cpus after)\<rparr>"

definition unit_mask_union :: "unit_field_mask \<Rightarrow> unit_field_mask \<Rightarrow> unit_field_mask" where
  "unit_mask_union self other =
     \<lparr>um_cpu_weight = (um_cpu_weight self \<or> um_cpu_weight other),
      um_allowed_cpus = (um_allowed_cpus self \<or> um_allowed_cpus other)\<rparr>"

definition unit_mask_without :: "unit_field_mask \<Rightarrow> unit_field_mask \<Rightarrow> unit_field_mask" where
  "unit_mask_without self other =
     \<lparr>um_cpu_weight = (um_cpu_weight self \<and> \<not> um_cpu_weight other),
      um_allowed_cpus = (um_allowed_cpus self \<and> \<not> um_allowed_cpus other)\<rparr>"

definition unit_mask_is_empty :: "unit_field_mask \<Rightarrow> bool" where
  "unit_mask_is_empty self = (self = unit_mask_default)"

definition unit_mask_intersects :: "unit_field_mask \<Rightarrow> unit_field_mask \<Rightarrow> bool" where
  "unit_mask_intersects self other =
     ((um_cpu_weight self \<and> um_cpu_weight other) \<or> (um_allowed_cpus self \<and> um_allowed_cpus other))"

definition unit_mask_matching ::
  "unit_field_mask \<Rightarrow> unit_properties \<Rightarrow> unit_properties \<Rightarrow> unit_properties \<Rightarrow> unit_field_mask" where
  "unit_mask_matching self current first second =
     \<lparr>um_cpu_weight = (um_cpu_weight self
         \<and> (up_cpu_weight current = up_cpu_weight first \<or> up_cpu_weight current = up_cpu_weight second)),
      um_allowed_cpus = (um_allowed_cpus self
         \<and> (up_allowed_cpus current = up_allowed_cpus first \<or> up_allowed_cpus current = up_allowed_cpus second))\<rparr>"

definition unit_mask_copy :: "unit_field_mask \<Rightarrow> unit_properties \<Rightarrow> unit_properties \<Rightarrow> unit_properties" where
  "unit_mask_copy self destination source =
     \<lparr>up_cpu_weight = (if um_cpu_weight self then up_cpu_weight source else up_cpu_weight destination),
      up_allowed_cpus = (if um_allowed_cpus self then up_allowed_cpus source else up_allowed_cpus destination)\<rparr>"

definition unit_mask_values_equal :: "unit_field_mask \<Rightarrow> unit_properties \<Rightarrow> unit_properties \<Rightarrow> bool" where
  "unit_mask_values_equal self left right =
     ((\<not> um_cpu_weight self \<or> up_cpu_weight left = up_cpu_weight right)
      \<and> (\<not> um_allowed_cpus self \<or> up_allowed_cpus left = up_allowed_cpus right))"

section \<open>Entries\<close>

record journal_entry =
  je_target :: target_id
  je_min_path :: path_buf
  je_max_path :: path_buf
  je_resource_manifest :: resource_manifest
  je_original :: frequency_limits
  je_desired :: frequency_limits
  je_applied :: frequency_limits
  je_legal_pairs :: "frequency_limits list"

record scalar_journal_entry =
  sj_target :: target_id
  sj_path :: path_buf
  sj_manifest :: resource_manifest
  sj_original :: actuator_value
  sj_desired :: actuator_value
  sj_applied :: actuator_value

record task_journal_entry =
  tj_identity :: process_identity
  tj_original :: scheduling_state
  tj_desired :: scheduling_state
  tj_applied :: scheduling_state
  tj_owned :: task_field_mask
  tj_relinquished :: task_field_mask

record unit_journal_entry =
  uj_unit :: string
  uj_instance :: unit_instance
  uj_original :: unit_properties
  uj_desired :: unit_properties
  uj_applied :: unit_properties
  uj_owned :: unit_field_mask
  uj_relinquished :: unit_field_mask

text \<open>
  The source panics (\<open>unreachable!\<close>) on an entry with a manifest of the wrong kind; a journal that
  was decoded or built by the actuator has none, and \<open>None\<close> stands for the panic.
\<close>

definition recovery_frequency_manifest :: "journal_entry \<Rightarrow> frequency_manifest option" where
  "recovery_frequency_manifest self =
     (case je_resource_manifest self of FrequencyPairManifest m \<Rightarrow> Some m | ScalarManifest _ \<Rightarrow> None)"

definition recovery_scalar_manifest :: "scalar_journal_entry \<Rightarrow> scalar_manifest option" where
  "recovery_scalar_manifest self =
     (case sj_manifest self of ScalarManifest m \<Rightarrow> Some m | FrequencyPairManifest _ \<Rightarrow> None)"

record journal =
  jn_schema_version :: u32
  jn_boot_id :: string
  jn_device_fingerprint :: string
  jn_generation :: u64
  jn_entries :: "(target_id, journal_entry) btree"
  jn_scalars :: "(target_id, scalar_journal_entry) btree"
  jn_tasks :: "(string, task_journal_entry) btree"
  jn_units :: "(string, unit_journal_entry) btree"

definition journal_is_empty :: "journal \<Rightarrow> bool" where
  "journal_is_empty self =
     (jn_entries self = [] \<and> jn_scalars self = [] \<and> jn_tasks self = [] \<and> jn_units self = [])"

section \<open>Ordered transitions\<close>

definition push_unique_pair :: "frequency_limits list \<Rightarrow> frequency_limits \<Rightarrow> frequency_limits list" where
  "push_unique_pair pairs pair = (if pair \<in> set pairs then pairs else pairs @ [pair])"

definition ordered_write_states :: "frequency_limits \<Rightarrow> frequency_limits \<Rightarrow> frequency_limits list" where
  "ordered_write_states current desired =
     (let set_min = (\<lambda>(states, next).
            if min_hz desired \<noteq> min_hz next
            then (let next = next\<lparr>min_hz := min_hz desired\<rparr> in (push_unique_pair states next, next))
            else (states, next));
          set_max = (\<lambda>(states, next).
            if max_hz desired \<noteq> max_hz next
            then (let next = next\<lparr>max_hz := max_hz desired\<rparr> in (push_unique_pair states next, next))
            else (states, next))
      in fst (if max_hz desired < min_hz current
              then set_max (set_min ([current], current))
              else set_min (set_max ([current], current))))"

definition transaction_legal_pairs :: "frequency_limits \<Rightarrow> frequency_limits \<Rightarrow> frequency_limits list" where
  "transaction_legal_pairs current desired =
     foldl push_unique_pair (ordered_write_states current desired) (ordered_write_states desired current)"

definition task_journal_key :: "process_identity \<Rightarrow> string" where
  "task_journal_key p =
     show_int (uint (pi_pid p)) @ '':'' @ show_int (uint (pi_start_time_ticks p)) @ '':'' @ show_int (uint (pi_uid p))"

section \<open>Unit names and instances\<close>

definition unit_name_byte :: "char \<Rightarrow> bool" where
  "unit_name_byte c = (is_ascii_alphanumeric c \<or> c \<in> {CHR ''.'', CHR ''_'', CHR ''-'', CHR ''@'', CHR '':'', CHR 0x5C})"

definition validate_unit_name :: "string \<Rightarrow> (actuator_error, unit) result" where
  "validate_unit_name unit =
     (if unit = [] \<or> 255 < length unit \<or> \<not> list_all unit_name_byte unit
      then Inl (InvalidTarget (MFmt ''invalid systemd unit name {unit:?}'' [MQuoted unit]))
      else Inr ())"

definition journal_error :: "actuator_error \<Rightarrow> actuator_error" where
  "journal_error error = InvalidJournal (error_message error)"

definition validate_unit_instance_identity :: "unit_instance \<Rightarrow> (actuator_error, unit) result" where
  "validate_unit_instance_identity ident =
     rbind (map_err journal_error (validate_unit_name (ui_unit ident))) (\<lambda>_.
     case ui_key ident of
       InvocationId bytes \<Rightarrow>
         if list_all (\<lambda>byte. byte = 0) bytes
         then Inl (InvalidJournal (MFmt ''{} has an all-zero systemd invocation ID'' [MStr (ui_unit ident)]))
         else Inr ()
     | ControlGroup path \<Rightarrow>
         if path = [] \<or> \<not> has_root path \<or> list_ex (\<lambda>c. c = ParentDir) (path_components path)
         then Inl (InvalidJournal (MFmt ''{} has an invalid systemd control group identity'' [MStr (ui_unit ident)]))
         else Inr ())"

section \<open>Validation of a decoded journal\<close>

definition require :: "bool \<Rightarrow> 'e \<Rightarrow> ('e, unit) result" where
  "require b e = (if b then Inr () else Inl e)"

lemma require_Inr_iff [simp]: "require b e = Inr u \<longleftrightarrow> b"
  by (simp add: require_def)

definition claim_sysfs :: "string \<Rightarrow> string \<Rightarrow> string claims \<Rightarrow> path_buf \<Rightarrow> (actuator_error, string claims) result" where
  "claim_sysfs kind target claimed path =
     claim_path (\<lambda>owner path. InvalidJournal
         (MFmt ''{owner} and {kind} {target} both claim {path}'' [MStr owner, MStr kind, MStr target, MPath path]))
       claimed path (kind @ '' '' @ target)"

text \<open>The loop over the legal pairs, with the list of those already seen.\<close>

fun check_legal_pairs ::
  "frequency_target \<Rightarrow> target_id \<Rightarrow> frequency_limits list \<Rightarrow> frequency_limits list \<Rightarrow> (actuator_error, unit) result" where
  "check_legal_pairs target tid unique [] = Inr ()"
| "check_legal_pairs target tid unique (pair # pairs) =
     rbind (map_err journal_error (validate_limits target pair)) (\<lambda>_.
     rbind (require (pair \<notin> set unique)
             (InvalidJournal (MFmt ''{} legal frequency pairs contain a duplicate'' [MStr tid]))) (\<lambda>_.
     check_legal_pairs target tid (unique @ [pair]) pairs))"

definition expected_legal_pairs :: "journal_entry \<Rightarrow> frequency_limits list" where
  "expected_legal_pairs entry =
     (if je_desired entry = je_applied entry then [je_applied entry]
      else transaction_legal_pairs (je_applied entry) (je_desired entry))"

definition validate_entry_target :: "journal_entry \<Rightarrow> frequency_target \<Rightarrow> (actuator_error, unit) result" where
  "validate_entry_target entry target =
     rbind (try_map (\<lambda>l. map_err journal_error (validate_limits target l))
             [je_original entry, je_desired entry, je_applied entry]) (\<lambda>_.
     rbind (require (je_original entry = target_hardware_limits target)
             (InvalidJournal (MFmt ''{} original request is not the full hardware range'' [MStr (je_target entry)]))) (\<lambda>_.
     rbind (require (je_legal_pairs entry \<noteq> [])
             (InvalidJournal (MFmt ''{} entry has no legal frequency pairs'' [MStr (je_target entry)]))) (\<lambda>_.
     rbind (check_legal_pairs target (je_target entry) [] (je_legal_pairs entry)) (\<lambda>_.
     require (je_legal_pairs entry = expected_legal_pairs entry)
       (InvalidJournal (MFmt ''{} legal frequency pairs do not match its exact ordered transition''
          [MStr (je_target entry)]))))))"

definition validate_entry ::
  "string claims \<Rightarrow> target_id \<times> journal_entry \<Rightarrow> (actuator_error, string claims) result" where
  "validate_entry claimed = (\<lambda>(key, entry).
     rbind (require (key = je_target entry)
             (InvalidJournal (MFmt ''frequency journal key does not match {}'' [MStr (je_target entry)]))) (\<lambda>_.
     rbind (map_err journal_error (validate_sysfs_path (je_min_path entry))) (\<lambda>_.
     rbind (map_err journal_error (validate_sysfs_path (je_max_path entry))) (\<lambda>_.
     rbind (claim_sysfs ''frequency'' (je_target entry) claimed (je_min_path entry)) (\<lambda>claimed.
     rbind (claim_sysfs ''frequency'' (je_target entry) claimed (je_max_path entry)) (\<lambda>claimed.
     rbind (try_map (\<lambda>(name, limits). require (limits_is_valid limits)
               (InvalidJournal (MFmt ''{} {name} limits are reversed'' [MStr (je_target entry), MStr name])))
             [(''original'', je_original entry), (''desired'', je_desired entry), (''applied'', je_applied entry)]) (\<lambda>_.
     case recovery_frequency_manifest entry of
       None \<Rightarrow> Inl (InvalidJournal (MFmt ''{} frequency entry has a non-frequency manifest'' [MStr (je_target entry)]))
     | Some manifest \<Rightarrow>
         rbind (require (fm_id manifest = je_target entry \<and> fm_min_path manifest = je_min_path entry
                    \<and> fm_max_path manifest = je_max_path entry)
                 (InvalidJournal (MFmt ''{} recovery manifest identity does not match its entry'' [MStr (je_target entry)]))) (\<lambda>_.
         rbind (map_err journal_error (to_frequency_target manifest)) (\<lambda>target.
         rbind (validate_entry_target entry target) (\<lambda>_. Inr claimed))))))))))"

definition validate_scalar_entry ::
  "(target_id, journal_entry) btree \<Rightarrow> string claims \<Rightarrow> target_id \<times> scalar_journal_entry
   \<Rightarrow> (actuator_error, string claims) result" where
  "validate_scalar_entry entries claimed = (\<lambda>(key, entry).
     rbind (require (key = sj_target entry \<and> \<not> bt_contains entries key)
             (InvalidJournal (MFmt ''scalar journal key does not uniquely match {}'' [MStr (sj_target entry)]))) (\<lambda>_.
     rbind (map_err journal_error (validate_sysfs_path (sj_path entry))) (\<lambda>_.
     rbind (claim_sysfs ''scalar'' (sj_target entry) claimed (sj_path entry)) (\<lambda>claimed.
     case recovery_scalar_manifest entry of
       None \<Rightarrow> Inl (InvalidJournal (MFmt ''{} scalar entry has a non-scalar manifest'' [MStr (sj_target entry)]))
     | Some manifest \<Rightarrow>
         rbind (require (sm_id manifest = sj_target entry \<and> sm_path manifest = sj_path entry)
                 (InvalidJournal (MFmt ''{} scalar recovery manifest identity does not match its entry'' [MStr (sj_target entry)]))) (\<lambda>_.
         rbind (map_err journal_error (to_scalar_target manifest)) (\<lambda>target.
         rbind (try_map (\<lambda>v. map_err journal_error (validate_value target v))
                 [sj_original entry, sj_desired entry, sj_applied entry]) (\<lambda>_. Inr claimed)))))))"

definition validate_task_entry :: "task_journal_entry \<Rightarrow> (actuator_error, unit) result" where
  "validate_task_entry entry =
     rbind (try_map (\<lambda>(name, state). map_err (\<lambda>detail. InvalidJournal
               (MFmt ''task journal {name} state for pid {} is invalid: {detail}''
                 [MStr name, u_num (pi_pid (tj_identity entry)), detail]))
               (validate_journal_scheduling_state state))
             [(''original'', tj_original entry), (''desired'', tj_desired entry), (''applied'', tj_applied entry)]) (\<lambda>_.
     require (\<not> task_mask_intersects (tj_owned entry) (tj_relinquished entry))
       (InvalidJournal (MFmt ''task journal masks overlap for pid {}'' [u_num (pi_pid (tj_identity entry))])))"

definition validate_unit_entry :: "string \<times> unit_journal_entry \<Rightarrow> (actuator_error, unit) result" where
  "validate_unit_entry = (\<lambda>(key, entry).
     rbind (require (key = uj_unit entry)
             (InvalidJournal (MFmt ''systemd journal key does not match {}'' [MStr (uj_unit entry)]))) (\<lambda>_.
     rbind (map_err journal_error (validate_unit_name (uj_unit entry))) (\<lambda>_.
     rbind (validate_unit_instance_identity (uj_instance entry)) (\<lambda>_.
     rbind (require (ui_unit (uj_instance entry) = uj_unit entry)
             (InvalidJournal (MFmt ''systemd instance identity does not match {}'' [MStr (uj_unit entry)]))) (\<lambda>_.
     require (\<not> unit_mask_intersects (uj_owned entry) (uj_relinquished entry))
       (InvalidJournal (MFmt ''systemd journal masks overlap for {}'' [MStr (uj_unit entry)])))))))"

definition validate_decoded_journal :: "journal \<Rightarrow> (actuator_error, unit) result" where
  "validate_decoded_journal journal =
     rbind (require (jn_schema_version journal = JOURNAL_SCHEMA_VERSION)
             (InvalidJournal (MFmt ''unsupported schema version {}'' [u_num (jn_schema_version journal)]))) (\<lambda>_.
     rbind (require (jn_boot_id journal \<noteq> [] \<and> jn_device_fingerprint journal \<noteq> [])
             (InvalidJournal (MStr ''boot ID and device fingerprint must be non-empty''))) (\<lambda>_.
     rbind (try_fold validate_entry [] (jn_entries journal)) (\<lambda>claimed.
     rbind (try_fold (validate_scalar_entry (jn_entries journal)) claimed (jn_scalars journal)) (\<lambda>_.
     rbind (require (\<not> list_ex (\<lambda>(key, entry). key \<noteq> task_journal_key (tj_identity entry)) (jn_tasks journal))
             (InvalidJournal (MStr ''task journal key does not match its stable identity''))) (\<lambda>_.
     rbind (try_map validate_task_entry (bt_values (jn_tasks journal))) (\<lambda>_.
     rbind (try_map validate_unit_entry (jn_units journal)) (\<lambda>_. Inr ())))))))"

section \<open>Encoding\<close>

record journal_envelope =
  ev_payload :: string
  ev_checksum :: u32

record journal_codec =
  journal_to_vec :: "journal \<Rightarrow> (string, string) result"
  journal_from_slice :: "string \<Rightarrow> (string, journal) result"
  envelope_to_vec :: "journal_envelope \<Rightarrow> (string, string) result"
  envelope_from_slice :: "string \<Rightarrow> (string, journal_envelope) result"
  crc32 :: "string \<Rightarrow> u32"

definition encode_journal :: "journal_codec \<Rightarrow> journal \<Rightarrow> (actuator_error, string) result" where
  "encode_journal cd journal =
     rbind (map_err (\<lambda>e. InvalidJournal (MStr e)) (journal_to_vec cd journal)) (\<lambda>payload.
     rbind (require (length payload \<le> MAX_JOURNAL_PAYLOAD_BYTES)
             (InvalidJournal (MFmt ''payload exceeds {MAX_JOURNAL_PAYLOAD_BYTES} bytes'' []))) (\<lambda>_.
     rbind (map_err (\<lambda>e. InvalidJournal (MStr e))
             (envelope_to_vec cd \<lparr>ev_payload = payload, ev_checksum = crc32 cd payload\<rparr>)) (\<lambda>encoded.
     rbind (require (length encoded \<le> MAX_JOURNAL_ENVELOPE_BYTES)
             (InvalidJournal (MFmt ''envelope exceeds {MAX_JOURNAL_ENVELOPE_BYTES} bytes'' []))) (\<lambda>_.
     Inr encoded))))"

definition decode_journal :: "journal_codec \<Rightarrow> string \<Rightarrow> (actuator_error, journal) result" where
  "decode_journal cd bytes =
     rbind (require (length bytes \<le> MAX_JOURNAL_ENVELOPE_BYTES)
             (InvalidJournal (MFmt ''envelope exceeds {MAX_JOURNAL_ENVELOPE_BYTES} bytes'' []))) (\<lambda>_.
     rbind (map_err (\<lambda>e. InvalidJournal (MStr e)) (envelope_from_slice cd bytes)) (\<lambda>envelope.
     rbind (require (length (ev_payload envelope) \<le> MAX_JOURNAL_PAYLOAD_BYTES)
             (InvalidJournal (MFmt ''payload exceeds {MAX_JOURNAL_PAYLOAD_BYTES} bytes'' []))) (\<lambda>_.
     rbind (require (crc32 cd (ev_payload envelope) = ev_checksum envelope)
             (InvalidJournal (MStr ''checksum mismatch''))) (\<lambda>_.
     rbind (map_err (\<lambda>e. InvalidJournal (MStr e)) (journal_from_slice cd (ev_payload envelope))) (\<lambda>journal.
     rbind (validate_decoded_journal journal) (\<lambda>_. Inr journal))))))"

text \<open>What the source relies on in \<open>serde_json\<close>: what it wrote it reads back as the same value.\<close>

definition codec_round_trips :: "journal_codec \<Rightarrow> bool" where
  "codec_round_trips cd =
     ((\<forall>j b. journal_to_vec cd j = Inr b \<longrightarrow> journal_from_slice cd b = Inr j)
      \<and> (\<forall>e b. envelope_to_vec cd e = Inr b \<longrightarrow> envelope_from_slice cd b = Inr e))"

end
