(* ===== verification/Journal_Facts.thy ===== *)
theory Journal_Facts
  imports Actuator_Journal
begin

text \<open>
  What the journal is good for: the legal pairs of a transition are exactly the windows its ordered
  writes pass through, forwards and back; the field masks of tasks and units obey one contract (the
  locale \<open>field_mask\<close>), under which giving fields back restores them and touches nothing else; the
  validator accepts exactly the journals whose entries rebuild well-formed targets with disjoint
  paths; and what is encoded is decoded as the same journal.
\<close>

section \<open>Ordered transitions\<close>

definition with_min :: "frequency_limits \<Rightarrow> frequency_limits \<Rightarrow> frequency_limits" where
  "with_min l d = \<lparr>min_hz = min_hz d, max_hz = max_hz l\<rparr>"

definition with_max :: "frequency_limits \<Rightarrow> frequency_limits \<Rightarrow> frequency_limits" where
  "with_max l d = \<lparr>min_hz = min_hz l, max_hz = max_hz d\<rparr>"

definition midpoint :: "frequency_limits \<Rightarrow> frequency_limits \<Rightarrow> frequency_limits" where
  "midpoint c d = (if max_hz d < min_hz c then with_min c d else with_max c d)"

lemma limits_eqI: "min_hz l = min_hz m \<Longrightarrow> max_hz l = max_hz m \<Longrightarrow> l = (m :: frequency_limits)"
  by (cases l; cases m) simp

lemma ordered_write_states_set: "set (ordered_write_states c d) = {c, midpoint c d, d}"
  by (cases c; cases d) (auto simp: ordered_write_states_def push_unique_pair_def midpoint_def with_min_def with_max_def Let_def)

lemma foldl_push_unique:
  "set (foldl push_unique_pair ps qs) = set ps \<union> set qs \<and> (distinct ps \<longrightarrow> distinct (foldl push_unique_pair ps qs))
   \<and> (ps \<noteq> [] \<longrightarrow> foldl push_unique_pair ps qs \<noteq> [])"
  by (induction qs arbitrary: ps) (auto simp: push_unique_pair_def)

lemma ordered_write_states_distinct: "distinct (ordered_write_states c d) \<and> ordered_write_states c d \<noteq> []"
  by (cases c; cases d) (auto simp: ordered_write_states_def push_unique_pair_def Let_def)

lemma legal_pairs_set: "set (transaction_legal_pairs c d) = {c, d, midpoint c d, midpoint d c}"
  by (auto simp: transaction_legal_pairs_def foldl_push_unique ordered_write_states_set)

lemma legal_pairs_distinct: "distinct (transaction_legal_pairs c d) \<and> transaction_legal_pairs c d \<noteq> []"
  by (simp add: transaction_legal_pairs_def foldl_push_unique ordered_write_states_distinct)

lemma legal_pairs_same [simp]: "transaction_legal_pairs c c = [c]"
  by (cases c) (simp add: transaction_legal_pairs_def ordered_write_states_def push_unique_pair_def Let_def)

lemma midpoint_valid:
  assumes "validate_limits t c = Inr ()" and "validate_limits t d = Inr ()"
  shows "validate_limits t (midpoint c d) = Inr ()"
  using assms by (auto simp: midpoint_def with_min_def with_max_def validate_limits_Inr_iff)

lemma legal_pairs_valid:
  assumes "validate_limits t c = Inr ()" and "validate_limits t d = Inr ()" and "p \<in> set (transaction_legal_pairs c d)"
  shows "validate_limits t p = Inr ()"
  using assms midpoint_valid by (auto simp: legal_pairs_set)

section \<open>The contract of a field mask\<close>

locale field_mask =
  fixes has :: "'m \<Rightarrow> 'f \<Rightarrow> bool"
    and same :: "'f \<Rightarrow> 's \<Rightarrow> 's \<Rightarrow> bool"
    and changed :: "'s \<Rightarrow> 's \<Rightarrow> 'm"
    and union :: "'m \<Rightarrow> 'm \<Rightarrow> 'm"
    and without :: "'m \<Rightarrow> 'm \<Rightarrow> 'm"
    and is_empty :: "'m \<Rightarrow> bool"
    and intersects :: "'m \<Rightarrow> 'm \<Rightarrow> bool"
    and matching :: "'m \<Rightarrow> 's \<Rightarrow> 's \<Rightarrow> 's \<Rightarrow> 'm"
    and copy :: "'m \<Rightarrow> 's \<Rightarrow> 's \<Rightarrow> 's"
    and values_equal :: "'m \<Rightarrow> 's \<Rightarrow> 's \<Rightarrow> bool"
  assumes same_refl: "same f a a"
    and same_sym: "same f a b \<Longrightarrow> same f b a"
    and same_trans: "same f a b \<Longrightarrow> same f b c \<Longrightarrow> same f a c"
    and state_ext: "(\<And>f. same f a b) \<Longrightarrow> a = b"
    and has_changed: "has (changed a b) f \<longleftrightarrow> \<not> same f a b"
    and has_union: "has (union m n) f \<longleftrightarrow> has m f \<or> has n f"
    and has_without: "has (without m n) f \<longleftrightarrow> has m f \<and> \<not> has n f"
    and is_empty_iff: "is_empty m \<longleftrightarrow> (\<forall>f. \<not> has m f)"
    and intersects_iff: "intersects m n \<longleftrightarrow> (\<exists>f. has m f \<and> has n f)"
    and has_matching: "has (matching m c a b) f \<longleftrightarrow> has m f \<and> (same f c a \<or> same f c b)"
    and same_copy: "same f (copy m d s) x \<longleftrightarrow> (if has m f then same f s x else same f d x)"
    and values_equal_iff: "values_equal m a b \<longleftrightarrow> (\<forall>f. has m f \<longrightarrow> same f a b)"
begin

lemma copy_values_equal: "values_equal m (copy m d s) s"
  by (simp add: values_equal_iff same_copy same_refl)

lemma copy_idem: "copy m (copy m d s) s = copy m d s"
proof (rule state_ext)
  fix f
  have "same f (copy m d s) (copy m d s)" by (rule same_refl)
  then show "same f (copy m (copy m d s) s) (copy m d s)"
    by (auto simp: same_copy split: if_splits)
qed

lemma copy_empty: "is_empty m \<Longrightarrow> copy m d s = d"
  by (rule state_ext) (simp add: same_copy is_empty_iff same_refl)

text \<open>Giving fields back: what was owned and not touched by others returns to its original.\<close>

lemma give_back_owned:
  "has m f \<Longrightarrow> same f c a \<or> same f c b \<Longrightarrow> same f (copy (matching m c a b) c orig) orig"
  by (simp add: same_copy has_matching same_refl)

lemma give_back_foreign:
  "\<not> has m f \<or> \<not> same f c a \<and> \<not> same f c b \<Longrightarrow> same f (copy (matching m c a b) c orig) c"
  by (auto simp: same_copy has_matching same_refl)

lemma changed_copy: "has (changed c (copy m c s)) f \<Longrightarrow> has m f"
  by (metis has_changed same_copy same_refl same_sym)

lemma changed_empty: "is_empty (changed a b) \<longleftrightarrow> a = b"
  by (auto simp: is_empty_iff has_changed same_refl intro: state_ext)

text \<open>Claiming: owned fields stay disjoint from relinquished ones.\<close>

lemma still_owned_disjoint:
  assumes "\<not> intersects owned rel"
  shows "\<not> intersects (matching owned c a a) (union rel (without owned (matching owned c a a)))"
  using assms by (auto simp: intersects_iff has_union has_without)
    (auto simp: has_matching)

lemma claim_disjoint:
  "\<not> intersects owned rel \<Longrightarrow> \<not> intersects (union owned (without requested rel)) rel"
  by (auto simp: intersects_iff has_union has_without)

end

section \<open>Tasks and units keep it\<close>

datatype task_field = AffinityField | NiceField | PolicyField | UclampMinField | UclampMaxField
datatype unit_field = CpuWeightField | AllowedCpusField

fun task_has :: "task_field_mask \<Rightarrow> task_field \<Rightarrow> bool" where
  "task_has m AffinityField = tm_affinity m"
| "task_has m NiceField = tm_nice m"
| "task_has m PolicyField = tm_policy m"
| "task_has m UclampMinField = tm_uclamp_min m"
| "task_has m UclampMaxField = tm_uclamp_max m"

fun task_same :: "task_field \<Rightarrow> scheduling_state \<Rightarrow> scheduling_state \<Rightarrow> bool" where
  "task_same AffinityField a b = (ss_affinity a = ss_affinity b)"
| "task_same NiceField a b = (ss_nice a = ss_nice b)"
| "task_same PolicyField a b = same_policy_priority a b"
| "task_same UclampMinField a b = (ss_uclamp_min a = ss_uclamp_min b)"
| "task_same UclampMaxField a b = (ss_uclamp_max a = ss_uclamp_max b)"

fun unit_has :: "unit_field_mask \<Rightarrow> unit_field \<Rightarrow> bool" where
  "unit_has m CpuWeightField = um_cpu_weight m"
| "unit_has m AllowedCpusField = um_allowed_cpus m"

fun unit_same :: "unit_field \<Rightarrow> unit_properties \<Rightarrow> unit_properties \<Rightarrow> bool" where
  "unit_same CpuWeightField a b = (up_cpu_weight a = up_cpu_weight b)"
| "unit_same AllowedCpusField a b = (up_allowed_cpus a = up_allowed_cpus b)"

lemma all_task_field: "(\<forall>f. P f) \<longleftrightarrow> P AffinityField \<and> P NiceField \<and> P PolicyField \<and> P UclampMinField \<and> P UclampMaxField"
  by (metis task_field.exhaust)

lemma ex_task_field: "(\<exists>f. P f) \<longleftrightarrow> P AffinityField \<or> P NiceField \<or> P PolicyField \<or> P UclampMinField \<or> P UclampMaxField"
  by (metis task_field.exhaust)

lemma all_unit_field: "(\<forall>f. P f) \<longleftrightarrow> P CpuWeightField \<and> P AllowedCpusField"
  by (metis unit_field.exhaust)

lemma ex_unit_field: "(\<exists>f. P f) \<longleftrightarrow> P CpuWeightField \<or> P AllowedCpusField"
  by (metis unit_field.exhaust)

interpretation tmask: field_mask task_has task_same task_mask_changed task_mask_union task_mask_without
  task_mask_is_empty task_mask_intersects task_mask_matching task_mask_copy task_mask_values_equal
proof
  fix f m n and a b c d s x :: scheduling_state
  show "task_same f a a" by (cases f) (simp_all add: same_policy_priority_def)
  show "task_same f a b \<Longrightarrow> task_same f b a" by (cases f) (simp_all add: same_policy_priority_def)
  show "task_same f a b \<Longrightarrow> task_same f b c \<Longrightarrow> task_same f a c" by (cases f) (simp_all add: same_policy_priority_def)
  show "a = b" if "\<And>f. task_same f a b"
    using that [of AffinityField] that [of NiceField] that [of PolicyField] that [of UclampMinField] that [of UclampMaxField]
    by (cases a; cases b) (simp add: same_policy_priority_def)
  show "task_has (task_mask_changed a b) f \<longleftrightarrow> \<not> task_same f a b"
    by (cases f) (auto simp: task_mask_changed_def same_policy_priority_def)
  show "task_has (task_mask_union m n) f \<longleftrightarrow> task_has m f \<or> task_has n f"
    by (cases f) (simp_all add: task_mask_union_def)
  show "task_has (task_mask_without m n) f \<longleftrightarrow> task_has m f \<and> \<not> task_has n f"
    by (cases f) (simp_all add: task_mask_without_def)
  show "task_mask_is_empty m \<longleftrightarrow> (\<forall>f. \<not> task_has m f)"
    by (cases m) (auto simp: task_mask_is_empty_def task_mask_default_def all_task_field)
  show "task_mask_intersects m n \<longleftrightarrow> (\<exists>f. task_has m f \<and> task_has n f)"
    by (simp add: task_mask_intersects_def ex_task_field)
  show "task_has (task_mask_matching m c a b) f \<longleftrightarrow> task_has m f \<and> (task_same f c a \<or> task_same f c b)"
    by (cases f) (simp_all add: task_mask_matching_def)
  show "task_same f (task_mask_copy m d s) x \<longleftrightarrow> (if task_has m f then task_same f s x else task_same f d x)"
    by (cases f) (simp_all add: task_mask_copy_def same_policy_priority_def)
  show "task_mask_values_equal m a b \<longleftrightarrow> (\<forall>f. task_has m f \<longrightarrow> task_same f a b)"
    by (auto simp: task_mask_values_equal_def all_task_field)
qed

interpretation umask: field_mask unit_has unit_same unit_mask_changed unit_mask_union unit_mask_without
  unit_mask_is_empty unit_mask_intersects unit_mask_matching unit_mask_copy unit_mask_values_equal
proof
  fix f m n and a b c d s x :: unit_properties
  show "unit_same f a a" by (cases f) simp_all
  show "unit_same f a b \<Longrightarrow> unit_same f b a" by (cases f) simp_all
  show "unit_same f a b \<Longrightarrow> unit_same f b c \<Longrightarrow> unit_same f a c" by (cases f) simp_all
  show "a = b" if "\<And>f. unit_same f a b"
    using that [of CpuWeightField] that [of AllowedCpusField] by (cases a; cases b) simp
  show "unit_has (unit_mask_changed a b) f \<longleftrightarrow> \<not> unit_same f a b"
    by (cases f) (simp_all add: unit_mask_changed_def)
  show "unit_has (unit_mask_union m n) f \<longleftrightarrow> unit_has m f \<or> unit_has n f"
    by (cases f) (simp_all add: unit_mask_union_def)
  show "unit_has (unit_mask_without m n) f \<longleftrightarrow> unit_has m f \<and> \<not> unit_has n f"
    by (cases f) (simp_all add: unit_mask_without_def)
  show "unit_mask_is_empty m \<longleftrightarrow> (\<forall>f. \<not> unit_has m f)"
    by (cases m) (auto simp: unit_mask_is_empty_def unit_mask_default_def all_unit_field)
  show "unit_mask_intersects m n \<longleftrightarrow> (\<exists>f. unit_has m f \<and> unit_has n f)"
    by (simp add: unit_mask_intersects_def ex_unit_field)
  show "unit_has (unit_mask_matching m c a b) f \<longleftrightarrow> unit_has m f \<and> (unit_same f c a \<or> unit_same f c b)"
    by (cases f) (simp_all add: unit_mask_matching_def)
  show "unit_same f (unit_mask_copy m d s) x \<longleftrightarrow> (if unit_has m f then unit_same f s x else unit_same f d x)"
    by (cases f) (simp_all add: unit_mask_copy_def)
  show "unit_mask_values_equal m a b \<longleftrightarrow> (\<forall>f. unit_has m f \<longrightarrow> unit_same f a b)"
    by (auto simp: unit_mask_values_equal_def all_unit_field)
qed

section \<open>What the validator accepts\<close>

definition entry_ok :: "target_id \<Rightarrow> journal_entry \<Rightarrow> bool" where
  "entry_ok k e =
     (\<exists>t. target_wf t \<and> ft_id t = k \<and> je_target e = k \<and> je_min_path e = ft_min_path t \<and> je_max_path e = ft_max_path t
        \<and> je_resource_manifest e = FrequencyPairManifest (recovery_manifest t)
        \<and> validate_limits t (je_desired e) = Inr () \<and> validate_limits t (je_applied e) = Inr ()
        \<and> je_original e = target_hardware_limits t
        \<and> je_legal_pairs e = transaction_legal_pairs (je_applied e) (je_desired e))"

definition scalar_entry_ok :: "target_id \<Rightarrow> scalar_journal_entry \<Rightarrow> bool" where
  "scalar_entry_ok k e =
     (\<exists>t. scalar_target_wf t \<and> st_id t = k \<and> sj_target e = k \<and> sj_path e = st_path t
        \<and> sj_manifest e = ScalarManifest (scalar_recovery_manifest t)
        \<and> domain_accepts (st_domain t) (sj_original e) \<and> domain_accepts (st_domain t) (sj_desired e)
        \<and> domain_accepts (st_domain t) (sj_applied e))"

definition entry_paths :: "(target_id, journal_entry) btree \<Rightarrow> path_buf list" where
  "entry_paths es = concat (map (\<lambda>e. [je_min_path (snd e), je_max_path (snd e)]) es)"

definition scalar_paths :: "(target_id, scalar_journal_entry) btree \<Rightarrow> path_buf list" where
  "scalar_paths es = map (\<lambda>e. sj_path (snd e)) es"

definition task_entry_ok :: "string \<Rightarrow> task_journal_entry \<Rightarrow> bool" where
  "task_entry_ok k e = (k = task_journal_key (tj_identity e) \<and> validate_task_entry e = Inr ())"

text \<open>
  A journal the decoder accepts: of the current schema, with an origin, whose entries each rebuild a
  well-formed target and record limits or values that target allows, no path being claimed twice.
\<close>

definition journal_ok :: "journal \<Rightarrow> bool" where
  "journal_ok j =
     (jn_schema_version j = JOURNAL_SCHEMA_VERSION \<and> jn_boot_id j \<noteq> [] \<and> jn_device_fingerprint j \<noteq> []
      \<and> list_all (\<lambda>(k, e). entry_ok k e) (jn_entries j)
      \<and> list_all (\<lambda>(k, e). scalar_entry_ok k e \<and> \<not> bt_contains (jn_entries j) k) (jn_scalars j)
      \<and> distinct (entry_paths (jn_entries j) @ scalar_paths (jn_scalars j))
      \<and> list_all (\<lambda>(k, e). task_entry_ok k e) (jn_tasks j)
      \<and> list_all (\<lambda>e. validate_unit_entry e = Inr ()) (jn_units j))"

lemma check_legal_pairs_Inr_iff:
  "check_legal_pairs t tid u ps = Inr () \<longleftrightarrow>
     (\<forall>p \<in> set ps. validate_limits t p = Inr ()) \<and> distinct ps \<and> set ps \<inter> set u = {}"
  by (induction t tid u ps rule: check_legal_pairs.induct) (auto simp: rbind_Inr_iff)

lemma expected_legal_pairs_eq: "expected_legal_pairs e = transaction_legal_pairs (je_applied e) (je_desired e)"
  by (simp add: expected_legal_pairs_def)

lemma validate_entry_target_Inr_iff:
  assumes "target_wf t"
  shows "validate_entry_target e t = Inr () \<longleftrightarrow>
     validate_limits t (je_desired e) = Inr () \<and> validate_limits t (je_applied e) = Inr ()
     \<and> je_original e = target_hardware_limits t
     \<and> je_legal_pairs e = transaction_legal_pairs (je_applied e) (je_desired e)"
  using hardware_limits_valid [OF assms] legal_pairs_valid [of t "je_applied e" "je_desired e"]
    legal_pairs_distinct [of "je_applied e" "je_desired e"]
  by (auto simp: validate_entry_target_def rbind_Inr_iff check_legal_pairs_Inr_iff expected_legal_pairs_eq)

lemma claim_sysfs_Inr_iff:
  "claim_sysfs kind tid c p = Inr c' \<longleftrightarrow> p \<notin> fst ` set c \<and> c' = (p, kind @ '' '' @ tid) # c"
  by (auto simp: claim_sysfs_def claim_path_def map_of_eq_None_iff split: option.splits)
    (metis domI domIff dom_map_of_conv_image_fst)

lemma limits_valid_of_target: "validate_limits t l = Inr () \<Longrightarrow> limits_is_valid l"
  by (simp add: validate_limits_Inr_iff limits_is_valid_def)

lemma validate_entry_Inr_iff:
  "validate_entry c (k, e) = Inr c' \<longleftrightarrow>
     entry_ok k e \<and> je_min_path e \<notin> fst ` set c \<and> je_max_path e \<notin> fst ` set c
     \<and> c' = (je_max_path e, ''frequency '' @ k) # (je_min_path e, ''frequency '' @ k) # c"
proof
  assume "validate_entry c (k, e) = Inr c'"
  then obtain m t where k: "k = je_target e"
    and paths: "je_min_path e \<notin> fst ` set c" "je_max_path e \<notin> fst ` set c"
      "c' = (je_max_path e, ''frequency '' @ k) # (je_min_path e, ''frequency '' @ k) # c"
    and m: "recovery_frequency_manifest e = Some m" "fm_id m = k" "fm_min_path m = je_min_path e" "fm_max_path m = je_max_path e"
    and t: "to_frequency_target m = Inr t" and v: "validate_entry_target e t = Inr ()"
    by (auto simp: validate_entry_def rbind_Inr_iff claim_sysfs_Inr_iff split: option.splits)
  from t have wf: "target_wf t" and mt: "recovery_manifest t = m" by (auto simp: to_frequency_target_Inr_iff)
  from m(1) have "je_resource_manifest e = FrequencyPairManifest m"
    by (simp add: recovery_frequency_manifest_def split: resource_manifest.splits)
  with wf mt m k v have "entry_ok k e"
    unfolding entry_ok_def
    by (intro exI [of _ t]) (auto simp: validate_entry_target_Inr_iff recovery_manifest_def)
  with paths show "entry_ok k e \<and> je_min_path e \<notin> fst ` set c \<and> je_max_path e \<notin> fst ` set c
     \<and> c' = (je_max_path e, ''frequency '' @ k) # (je_min_path e, ''frequency '' @ k) # c" by blast
next
  assume *: "entry_ok k e \<and> je_min_path e \<notin> fst ` set c \<and> je_max_path e \<notin> fst ` set c
     \<and> c' = (je_max_path e, ''frequency '' @ k) # (je_min_path e, ''frequency '' @ k) # c"
  then obtain t where t: "target_wf t" "ft_id t = k" "je_target e = k" "je_min_path e = ft_min_path t" "je_max_path e = ft_max_path t"
    and m: "je_resource_manifest e = FrequencyPairManifest (recovery_manifest t)"
    and l: "validate_limits t (je_desired e) = Inr ()" "validate_limits t (je_applied e) = Inr ()"
      "je_original e = target_hardware_limits t" "je_legal_pairs e = transaction_legal_pairs (je_applied e) (je_desired e)"
    by (auto simp: entry_ok_def)
  have "to_frequency_target (recovery_manifest t) = Inr t" using t(1) by (simp add: to_frequency_target_Inr_iff)
  moreover have "validate_entry_target e t = Inr ()" using l t(1) by (simp add: validate_entry_target_Inr_iff)
  moreover have "limits_is_valid (je_desired e)" "limits_is_valid (je_applied e)" "limits_is_valid (je_original e)"
    using l hardware_limits_valid [OF t(1)] by (auto intro: limits_valid_of_target)
  moreover have "validate_sysfs_path (ft_min_path t) = Inr ()" "validate_sysfs_path (ft_max_path t) = Inr ()"
      "ft_min_path t \<noteq> ft_max_path t"
    using t(1) by (auto simp: target_wf_def)
  ultimately show "validate_entry c (k, e) = Inr c'"
    using * t by (auto simp: validate_entry_def rbind_Inr_iff claim_sysfs_Inr_iff recovery_frequency_manifest_def m
        recovery_manifest_def)
qed

lemma entry_ok_paths: "entry_ok k e \<Longrightarrow> je_min_path e \<noteq> je_max_path e"
  by (auto simp: entry_ok_def target_wf_def)

lemma entry_paths_Cons [simp]: "entry_paths ((k, e) # es) = je_min_path e # je_max_path e # entry_paths es"
  by (simp add: entry_paths_def)

lemma validate_entries_Inr:
  "try_fold validate_entry c es = Inr c' \<Longrightarrow>
     list_all (\<lambda>(k, e). entry_ok k e) es \<and> distinct (entry_paths es) \<and> set (entry_paths es) \<inter> fst ` set c = {}
     \<and> fst ` set c' = fst ` set c \<union> set (entry_paths es)"
proof (induction es arbitrary: c)
  case Nil
  then show ?case by (simp add: entry_paths_def)
next
  case (Cons x es)
  obtain k e where x: "x = (k, e)" by fastforce
  from Cons.prems obtain d where v: "validate_entry c (k, e) = Inr d" and "try_fold validate_entry d es = Inr c'"
    by (auto simp: x rbind_Inr_iff)
  from Cons.IH [OF this(2)] v entry_ok_paths [of k e] show ?case
    by (auto simp: x validate_entry_Inr_iff)
qed

lemma validate_entries_total:
  "list_all (\<lambda>(k, e). entry_ok k e) es \<Longrightarrow> distinct (entry_paths es) \<Longrightarrow> set (entry_paths es) \<inter> fst ` set c = {} \<Longrightarrow>
   \<exists>c'. try_fold validate_entry c es = Inr c'"
proof (induction es arbitrary: c)
  case (Cons x es)
  obtain k e where x: "x = (k, e)" by fastforce
  let ?d = "(je_max_path e, ''frequency '' @ k) # (je_min_path e, ''frequency '' @ k) # c"
  from Cons.prems have "validate_entry c (k, e) = Inr ?d" by (auto simp: x validate_entry_Inr_iff)
  moreover from Cons.prems have "\<exists>c'. try_fold validate_entry ?d es = Inr c'" by (intro Cons.IH) (auto simp: x)
  ultimately show ?case by (auto simp: x)
qed simp

lemma validate_scalar_entry_Inr_iff:
  "validate_scalar_entry es c (k, e) = Inr c' \<longleftrightarrow>
     scalar_entry_ok k e \<and> \<not> bt_contains es k \<and> sj_path e \<notin> fst ` set c \<and> c' = (sj_path e, ''scalar '' @ k) # c"
proof
  assume "validate_scalar_entry es c (k, e) = Inr c'"
  then obtain m t where k: "k = sj_target e" "\<not> bt_contains es k"
    and paths: "sj_path e \<notin> fst ` set c" "c' = (sj_path e, ''scalar '' @ k) # c"
    and m: "recovery_scalar_manifest e = Some m" "sm_id m = k" "sm_path m = sj_path e"
    and t: "to_scalar_target m = Inr t"
    and v: "validate_value t (sj_original e) = Inr ()" "validate_value t (sj_desired e) = Inr ()" "validate_value t (sj_applied e) = Inr ()"
    by (auto simp: validate_scalar_entry_def rbind_Inr_iff claim_sysfs_Inr_iff split: option.splits)
  from t have wf: "scalar_target_wf t" and mt: "scalar_recovery_manifest t = m" by (auto simp: to_scalar_target_Inr_iff)
  from m(1) have "sj_manifest e = ScalarManifest m"
    by (simp add: recovery_scalar_manifest_def split: resource_manifest.splits)
  with wf mt m k v have "scalar_entry_ok k e"
    unfolding scalar_entry_ok_def
    by (intro exI [of _ t]) (auto simp: validate_value_Inr_iff scalar_recovery_manifest_def)
  with paths k show "scalar_entry_ok k e \<and> \<not> bt_contains es k \<and> sj_path e \<notin> fst ` set c \<and> c' = (sj_path e, ''scalar '' @ k) # c"
    by blast
next
  assume *: "scalar_entry_ok k e \<and> \<not> bt_contains es k \<and> sj_path e \<notin> fst ` set c \<and> c' = (sj_path e, ''scalar '' @ k) # c"
  then obtain t where t: "scalar_target_wf t" "st_id t = k" "sj_target e = k" "sj_path e = st_path t"
    and m: "sj_manifest e = ScalarManifest (scalar_recovery_manifest t)"
    and d: "domain_accepts (st_domain t) (sj_original e)" "domain_accepts (st_domain t) (sj_desired e)" "domain_accepts (st_domain t) (sj_applied e)"
    by (auto simp: scalar_entry_ok_def)
  have "to_scalar_target (scalar_recovery_manifest t) = Inr t" using t(1) by (simp add: to_scalar_target_Inr_iff)
  moreover have "validate_sysfs_path (st_path t) = Inr ()"
    using t(1) by (auto simp: scalar_target_wf_def ScalarTarget_new_def elim: rbind_InrE)
  ultimately show "validate_scalar_entry es c (k, e) = Inr c'"
    using * t d by (auto simp: validate_scalar_entry_def claim_sysfs_Inr_iff rbind_Inr_iff recovery_scalar_manifest_def m
        scalar_recovery_manifest_def validate_value_Inr_iff)
qed

lemma validate_scalars_Inr_iff:
  "(\<exists>c'. try_fold (validate_scalar_entry es) c ss = Inr c') \<longleftrightarrow>
     list_all (\<lambda>(k, e). scalar_entry_ok k e \<and> \<not> bt_contains es k) ss \<and> distinct (scalar_paths ss)
     \<and> set (scalar_paths ss) \<inter> fst ` set c = {}"
proof (induction ss arbitrary: c)
  case Nil
  then show ?case by (simp add: scalar_paths_def)
next
  case (Cons x ss)
  obtain k e where x: "x = (k, e)" by fastforce
  have "(\<exists>c'. try_fold (validate_scalar_entry es) c (x # ss) = Inr c') \<longleftrightarrow>
      (\<exists>d. validate_scalar_entry es c (k, e) = Inr d \<and> (\<exists>c'. try_fold (validate_scalar_entry es) d ss = Inr c'))"
    by (auto simp: x rbind_Inr_iff)
  also have "\<dots> \<longleftrightarrow> scalar_entry_ok k e \<and> \<not> bt_contains es k \<and> sj_path e \<notin> fst ` set c
      \<and> (\<exists>c'. try_fold (validate_scalar_entry es) ((sj_path e, ''scalar '' @ k) # c) ss = Inr c')"
    by (auto simp: validate_scalar_entry_Inr_iff)
  finally show ?case by (auto simp: Cons.IH x scalar_paths_def)
qed

lemma try_map_unit: "(\<exists>ys. try_map f xs = Inr ys) \<longleftrightarrow> (\<forall>x \<in> set xs. \<exists>y. f x = Inr y)"
  by (induction xs) (auto simp: rbind_Inr_iff)

lemma validate_decoded_journal_iff: "validate_decoded_journal j = Inr () \<longleftrightarrow> journal_ok j"
proof -
  have tasks: "(\<not> list_ex (\<lambda>(key, entry). key \<noteq> task_journal_key (tj_identity entry)) ts
        \<and> (\<exists>ys. try_map validate_task_entry (bt_values ts) = Inr ys)) \<longleftrightarrow>
      list_all (\<lambda>(k, e). task_entry_ok k e) ts" for ts
    unfolding try_map_unit bt_values_def task_entry_ok_def by (induction ts) auto
  have units: "(\<exists>ys. try_map validate_unit_entry (jn_units j) = Inr ys) \<longleftrightarrow>
      list_all (\<lambda>e. validate_unit_entry e = Inr ()) (jn_units j)"
    by (auto simp: try_map_unit list_all_iff)
  have paths: "(\<exists>c. try_fold validate_entry [] (jn_entries j) = Inr c
        \<and> (\<exists>c'. try_fold (validate_scalar_entry (jn_entries j)) c (jn_scalars j) = Inr c')) \<longleftrightarrow>
      list_all (\<lambda>(k, e). entry_ok k e) (jn_entries j)
      \<and> list_all (\<lambda>(k, e). scalar_entry_ok k e \<and> \<not> bt_contains (jn_entries j) k) (jn_scalars j)
      \<and> distinct (entry_paths (jn_entries j) @ scalar_paths (jn_scalars j))"
    (is "?L \<longleftrightarrow> ?R")
  proof
    assume ?L
    then show ?R by (auto simp: validate_scalars_Inr_iff dest!: validate_entries_Inr)
  next
    assume r: ?R
    then obtain c where c: "try_fold validate_entry [] (jn_entries j) = Inr c"
      using validate_entries_total [of "jn_entries j" "[]"] by auto
    with validate_entries_Inr [OF c] r show ?L by (auto simp: validate_scalars_Inr_iff)
  qed
  have "validate_decoded_journal j = Inr () \<longleftrightarrow>
      jn_schema_version j = JOURNAL_SCHEMA_VERSION \<and> (jn_boot_id j \<noteq> [] \<and> jn_device_fingerprint j \<noteq> [])
      \<and> (\<exists>c. try_fold validate_entry [] (jn_entries j) = Inr c
        \<and> (\<exists>c'. try_fold (validate_scalar_entry (jn_entries j)) c (jn_scalars j) = Inr c'))
      \<and> (\<not> list_ex (\<lambda>(key, entry). key \<noteq> task_journal_key (tj_identity entry)) (jn_tasks j)
        \<and> (\<exists>ys. try_map validate_task_entry (bt_values (jn_tasks j)) = Inr ys))
      \<and> (\<exists>ys. try_map validate_unit_entry (jn_units j) = Inr ys)"
    by (auto simp: validate_decoded_journal_def rbind_Inr_iff)
  then show ?thesis unfolding paths tasks units journal_ok_def by blast
qed

section \<open>Round trips\<close>

lemma encode_journal_Inr:
  "encode_journal cd j = Inr b \<longleftrightarrow>
     (\<exists>p. journal_to_vec cd j = Inr p \<and> length p \<le> MAX_JOURNAL_PAYLOAD_BYTES
        \<and> envelope_to_vec cd \<lparr>ev_payload = p, ev_checksum = crc32 cd p\<rparr> = Inr b
        \<and> length b \<le> MAX_JOURNAL_ENVELOPE_BYTES)"
  by (auto simp: encode_journal_def rbind_Inr_iff)

lemma decode_encode_journal:
  assumes "codec_round_trips cd" and "encode_journal cd j = Inr b" and "journal_ok j"
  shows "decode_journal cd b = Inr j"
proof -
  from assms(2) obtain p where p: "journal_to_vec cd j = Inr p" "length p \<le> MAX_JOURNAL_PAYLOAD_BYTES"
    and e: "envelope_to_vec cd \<lparr>ev_payload = p, ev_checksum = crc32 cd p\<rparr> = Inr b" "length b \<le> MAX_JOURNAL_ENVELOPE_BYTES"
    by (auto simp: encode_journal_Inr)
  from assms(1) p(1) e(1) have "journal_from_slice cd p = Inr j"
    "envelope_from_slice cd b = Inr \<lparr>ev_payload = p, ev_checksum = crc32 cd p\<rparr>"
    by (simp_all add: codec_round_trips_def)
  with p(2) e(2) assms(3) show ?thesis
    by (simp add: decode_journal_def require_def validate_decoded_journal_iff [symmetric])
qed

lemma decode_journal_ok: "decode_journal cd b = Inr j \<Longrightarrow> journal_ok j"
  by (auto simp: decode_journal_def rbind_Inr_iff validate_decoded_journal_iff)

end
