(* ===== verification/Actuator_IO.thy ===== *)
theory Actuator_IO
  imports Journal_Facts
begin

text \<open>
  The reads and writes of the actuator (\<open>crates/uperf-actuator/src/lib.rs\<close>): decoding an attribute,
  ordered writes of a window, the bounded wait until the kernel shows what was asked, and the
  rollbacks. Each is an operation over the ports and the clock; \<open>clk\<close> is what \<open>Instant::now\<close> sees
  pass.
\<close>

section \<open>Reading\<close>

definition io_call :: "('w, 'a) port \<Rightarrow> ('w, 'z, actuator_error, 'a) io" where
  "io_call p s = (case call p s of (r, t) \<Rightarrow> (map_err PlatformFailure r, t))"

definition parse_hertz :: "path_buf \<Rightarrow> string \<Rightarrow> u64 \<Rightarrow> (actuator_error, hertz) result" where
  "parse_hertz path value hertz_per_unit =
     ok_or (InvalidReadback path (MStr value))
       (Option.bind (parse_u64 (trim_str value)) (\<lambda>raw. u64_checked_mul raw hertz_per_unit))"

definition show_u64 :: "u64 \<Rightarrow> string" where
  "show_u64 v = show_int (uint v)"

definition show_window :: "hertz \<Rightarrow> hertz \<Rightarrow> message" where
  "show_window mn mx = MFmt ''{}..{}'' [u_num mn, u_num mx]"

definition read_limits :: "'w sysfs_io \<Rightarrow> frequency_target \<Rightarrow> ('w, 'z, actuator_error, frequency_limits) io" where
  "read_limits sys target =
     bind_act (io_call (read_string sys (ft_min_path target))) (\<lambda>raw_min.
     bind_act (of_result (parse_hertz (ft_min_path target) raw_min (ft_hertz_per_unit target))) (\<lambda>minimum.
     bind_act (io_call (read_string sys (ft_max_path target))) (\<lambda>raw_max.
     bind_act (of_result (parse_hertz (ft_max_path target) raw_max (ft_hertz_per_unit target))) (\<lambda>maximum.
     of_result (map_err (\<lambda>_. InvalidReadback (ft_min_path target) (show_window minimum maximum))
       (FrequencyLimits_new minimum maximum))))))"

fun decode_scalar :: "path_buf \<Rightarrow> actuator_domain \<Rightarrow> string \<Rightarrow> (actuator_error, actuator_value) result" where
  "decode_scalar path (DomStringEnum _) raw = Inr (ValString (trim_str raw))"
| "decode_scalar path (DomCpuList _ _) raw =
     rbind (parse_scalar_cpu_list path (trim_str raw)) (\<lambda>cpus. Inr (ValCpuList cpus))"
| "decode_scalar path _ raw =
     ok_or (InvalidReadback path (MStr raw)) (map_option ValInteger (parse_i64 (trim_str raw)))"

definition read_scalar :: "'w sysfs_io \<Rightarrow> actuator_scalar_target \<Rightarrow> ('w, 'z, actuator_error, actuator_value) io" where
  "read_scalar sys target =
     bind_act (io_call (read_string sys (st_path target))) (\<lambda>raw.
     bind_act (of_result (decode_scalar (st_path target) (st_domain target) raw)) (\<lambda>value.
     bind_act (of_result (map_err (\<lambda>_. InvalidReadback (st_path target) (MStr raw)) (validate_value target value))) (\<lambda>_.
     ret value)))"

section \<open>Writing\<close>

fun encode_scalar_value :: "actuator_value \<Rightarrow> string" where
  "encode_scalar_value (ValInteger v) = show_int v"
| "encode_scalar_value (ValString v) = v"
| "encode_scalar_value (ValCpuList cpus) = format_scalar_cpu_list cpus"

definition write_scalar ::
  "'w sysfs_io \<Rightarrow> actuator_scalar_target \<Rightarrow> actuator_value \<Rightarrow> ('w, 'z, actuator_error, actuator_value) io" where
  "write_scalar sys target desired =
     bind_act (of_result (validate_value target desired)) (\<lambda>_.
     bind_act (io_call (write_string sys (st_path target) (encode_scalar_value desired))) (\<lambda>_.
     bind_act (read_scalar sys target) (\<lambda>actual.
     if actual \<noteq> desired
     then throw (TransactionError (MStr (st_id target))
            (MFmt ''scalar readback differs: expected {desired:?}, got {actual:?}'' [debug_value desired, debug_value actual]))
     else ret actual)))"

definition encode_frequency :: "frequency_target \<Rightarrow> hertz \<Rightarrow> (actuator_error, string) result" where
  "encode_frequency target frequency =
     ok_or (InvalidTarget (MFmt ''{} has an invalid kernel unit'' [MStr (ft_id target)]))
       (map_option show_u64 (u64_checked_div frequency (ft_hertz_per_unit target)))"

definition when_act :: "bool \<Rightarrow> ('s, 'e, unit) act \<Rightarrow> ('s, 'e, unit) act" where
  "when_act b m = (if b then m else ret ())"

definition write_ordered ::
  "'w sysfs_io \<Rightarrow> frequency_target \<Rightarrow> frequency_limits \<Rightarrow> frequency_limits \<Rightarrow> ('w, 'z, actuator_error, unit) io" where
  "write_ordered sys target current desired =
     bind_act (of_result (encode_frequency target (min_hz desired))) (\<lambda>minimum.
     bind_act (of_result (encode_frequency target (max_hz desired))) (\<lambda>maximum.
     if max_hz desired < min_hz current
     then bind_act (when_act (min_hz desired \<noteq> min_hz current) (io_call (write_string sys (ft_min_path target) minimum)))
            (\<lambda>_. when_act (max_hz desired \<noteq> max_hz current) (io_call (write_string sys (ft_max_path target) maximum)))
     else bind_act (when_act (max_hz desired \<noteq> max_hz current) (io_call (write_string sys (ft_max_path target) maximum)))
            (\<lambda>_. when_act (min_hz desired \<noteq> min_hz current) (io_call (write_string sys (ft_min_path target) minimum)))))"

definition reset_frequency_request ::
  "'w sysfs_io \<Rightarrow> frequency_target \<Rightarrow> frequency_limits \<Rightarrow> ('w, 'z, actuator_error, unit) io" where
  "reset_frequency_request sys target desired =
     bind_act (of_result (encode_frequency target (ft_hardware_min target))) (\<lambda>hardware_minimum.
     bind_act (of_result (encode_frequency target (ft_hardware_max target))) (\<lambda>hardware_maximum.
     bind_act (io_call (write_string sys (ft_min_path target) hardware_minimum)) (\<lambda>_.
     bind_act (io_call (write_string sys (ft_max_path target) hardware_maximum)) (\<lambda>_.
     bind_act (when_act (max_hz desired \<noteq> ft_hardware_max target)
       (bind_act (of_result (encode_frequency target (max_hz desired))) (\<lambda>v.
          io_call (write_string sys (ft_max_path target) v)))) (\<lambda>_.
     when_act (min_hz desired \<noteq> ft_hardware_min target)
       (bind_act (of_result (encode_frequency target (min_hz desired))) (\<lambda>v.
          io_call (write_string sys (ft_min_path target) v))))))))"

section \<open>Waiting for the kernel\<close>

text \<open>
  What one reading of the window decides: return (a match, or an error other than a torn reading), or
  go on with a description of what was seen.
\<close>

fun settle_observation ::
  "frequency_limits \<Rightarrow> (actuator_error, frequency_limits) result
   \<Rightarrow> (actuator_error, frequency_limits) result + message" where
  "settle_observation requested (Inr actual) =
     (if actual = requested then Inl (Inr actual) else Inr (show_window (min_hz actual) (max_hz actual)))"
| "settle_observation requested (Inl error) =
     (case error of InvalidReadback _ _ \<Rightarrow> Inr (error_message error) | _ \<Rightarrow> Inl (Inl error))"

definition not_settled :: "frequency_target \<Rightarrow> frequency_limits \<Rightarrow> message \<Rightarrow> actuator_error" where
  "not_settled target requested observation =
     TransactionError (MStr (ft_id target))
       (MFmt ''readback did not settle at {}..{} within {} ms; last observation: {observation}''
         [u_num (min_hz requested), u_num (max_hz requested), MNum (int FREQUENCY_SETTLE_TIMEOUT div 1000000), observation])"

lemma io_call_now [simp]: "w_now (snd (io_call p s)) = w_now s"
  by (simp add: io_call_def call_def split: prod.splits)

lemma read_limits_now: "read_limits sys target s = (r, t) \<Longrightarrow> w_now t = w_now s"
proof -
  have same: "w_now t = w_now s" if "io_call p s = (x, t)" for p x and s t :: "('w, 'z) world_scheme"
    using io_call_now [of p s] that by simp
  assume "read_limits sys target s = (r, t)"
  then show ?thesis
    unfolding read_limits_def
    by (auto simp: bind_act_def act_simps dest!: same split: prod.splits sum.splits)
qed

lemma instant_now_le: "instant_now clk s = (r, t) \<Longrightarrow> w_now s \<le> w_now t"
  by (auto simp: instant_now_def split: prod.splits)

function settle_loop ::
  "'w sysfs_io \<Rightarrow> ('w \<Rightarrow> nat \<times> 'w) \<Rightarrow> frequency_target \<Rightarrow> frequency_limits \<Rightarrow> nat
   \<Rightarrow> ('w, 'z, actuator_error, frequency_limits) io" where
  "settle_loop sys clk target requested deadline s =
     (case read_limits sys target s of (reading, s1) \<Rightarrow>
      case settle_observation requested reading of
        Inl verdict \<Rightarrow> (verdict, s1)
      | Inr observation \<Rightarrow>
          (case instant_now clk s1 :: (actuator_error, nat) result \<times> _ of (_, s2) \<Rightarrow>
             if deadline \<le> w_now s2 then (Inl (not_settled target requested observation), s2)
             else settle_loop sys clk target requested deadline
                    (snd (sleep_for (min FREQUENCY_SETTLE_POLL_INTERVAL (deadline - w_now s2)) s2
                          :: (actuator_error, unit) result \<times> _))))"
  by pat_completeness auto
termination
  by (relation "measure (\<lambda>(sys, clk, target, requested, deadline, s). deadline - w_now s)")
    (auto simp: sleep_for_def act_simps FREQUENCY_SETTLE_POLL_INTERVAL_def min_def dest!: read_limits_now [OF sym] instant_now_le [OF sym])

declare settle_loop.simps [simp del]

definition wait_for_limits ::
  "'w sysfs_io \<Rightarrow> ('w \<Rightarrow> nat \<times> 'w) \<Rightarrow> frequency_target \<Rightarrow> frequency_limits
   \<Rightarrow> ('w, 'z, actuator_error, frequency_limits) io" where
  "wait_for_limits sys clk target requested =
     bind_act (instant_now clk) (\<lambda>now. settle_loop sys clk target requested (now + FREQUENCY_SETTLE_TIMEOUT))"

section \<open>Requests and rollbacks\<close>

definition apply_requested_limits ::
  "'w sysfs_io \<Rightarrow> ('w \<Rightarrow> nat \<times> 'w) \<Rightarrow> frequency_target \<Rightarrow> frequency_limits \<Rightarrow> frequency_limits
   \<Rightarrow> ('w, 'z, actuator_error, frequency_limits) io" where
  "apply_requested_limits sys clk target current_request desired_request =
     bind_act (of_result (validate_limits target current_request)) (\<lambda>_.
     bind_act (of_result (validate_limits target desired_request)) (\<lambda>_.
     bind_act (write_ordered sys target current_request desired_request) (\<lambda>_.
     wait_for_limits sys clk target desired_request)))"

definition restore_frequency_request ::
  "'w sysfs_io \<Rightarrow> ('w \<Rightarrow> nat \<times> 'w) \<Rightarrow> frequency_target \<Rightarrow> frequency_limits
   \<Rightarrow> ('w, 'z, actuator_error, frequency_limits) io" where
  "restore_frequency_request sys clk target desired_request =
     bind_act (of_result (validate_limits target desired_request)) (\<lambda>_.
     bind_act (reset_frequency_request sys target desired_request) (\<lambda>_.
     wait_for_limits sys clk target desired_request))"

record prepared_frequency =
  pf_target :: frequency_target
  pf_before_effective :: frequency_limits
  pf_previous_request :: frequency_limits
  pf_desired_request :: frequency_limits
  pf_needs_write :: bool

record prepared_scalar =
  ps_target :: actuator_scalar_target
  ps_before :: actuator_value
  ps_desired :: actuator_value
  ps_needs_write :: bool
  ps_needs_journal :: bool

definition report_failures :: "message list \<Rightarrow> ('s, actuator_error, unit) act" where
  "report_failures failures =
     (if failures = [] then ret () else throw (RollbackError (MJoin ''; '' failures)))"

definition rollback_frequency_requests ::
  "'w sysfs_io \<Rightarrow> ('w \<Rightarrow> nat \<times> 'w) \<Rightarrow> prepared_frequency list \<Rightarrow> nat list
   \<Rightarrow> ('w, 'z, actuator_error, unit) io" where
  "rollback_frequency_requests sys clk prepared attempted =
     bind_act (gather (\<lambda>failures index.
         let mutation = prepared ! index
         in bind_act (attempt (restore_frequency_request sys clk (pf_target mutation) (pf_previous_request mutation))) (\<lambda>result.
            case result of
              Inl error \<Rightarrow> ret (failures @ [MFmt ''{}: {error}'' [MStr (ft_id (pf_target mutation)), error_message error]])
            | Inr _ \<Rightarrow> ret failures))
       [] (rev attempted))
     report_failures"

definition rollback_scalars ::
  "'w sysfs_io \<Rightarrow> prepared_scalar list \<Rightarrow> nat list \<Rightarrow> ('w, 'z, actuator_error, unit) io" where
  "rollback_scalars sys prepared attempted =
     bind_act (gather (\<lambda>failures index.
         let mutation = prepared ! index;
             failed = (\<lambda>error. ret (failures @ [MFmt ''{}: {error}'' [MStr (st_id (ps_target mutation)), error_message error]]))
         in bind_act (attempt (read_scalar sys (ps_target mutation))) (\<lambda>current.
            case current of Inl error \<Rightarrow> failed error
            | Inr current \<Rightarrow>
                if current = ps_before mutation \<or> current \<noteq> ps_desired mutation then ret failures
                else bind_act (attempt (write_scalar sys (ps_target mutation) (ps_before mutation))) (\<lambda>result.
                     case result of Inl error \<Rightarrow> failed error | Inr _ \<Rightarrow> ret failures)))
       [] (rev attempted))
     report_failures"

end
