(* ===== verification/Actuator.thy ===== *)
theory Actuator
  imports Actuator_IO
begin

text \<open>
  \<open>FrequencyActuator\<close> of \<open>crates/uperf-actuator/src/lib.rs\<close>: the frequency and scalar transactions,
  their restoration, and the recovery of a journal left by an earlier daemon. The state behind the
  mutex is the record \<open>machine\<close>, which extends the world the operations run in; every method holds the
  lock from its first line to its last (\<open>restore_all\<close> takes it once per step), so a method is one
  operation on the machine.
\<close>

section \<open>State\<close>

datatype actuator_mode = ReadWrite | ReadOnlyDegraded message

record 'w machine = "'w world" +
  m_mode :: actuator_mode
  m_journal :: journal
  m_recovery_required :: bool

record 'w actuator =
  ac_io :: "'w sysfs_io"
  ac_store :: "'w state_store"
  ac_clock :: "'w \<Rightarrow> nat \<times> 'w"
  ac_codec :: journal_codec
  ac_registry :: target_registry
  ac_boot_id :: string
  ac_device_fingerprint :: string
  ac_proc_reader :: "'w proc_reader option"
  ac_process_controller :: "'w process_controller option"
  ac_systemd :: "'w systemd_client option"

type_synonym ('w, 'a) meth = "('w machine, actuator_error, 'a) act"

definition empty_journal :: "'w actuator \<Rightarrow> u64 \<Rightarrow> journal" where
  "empty_journal A generation =
     \<lparr>jn_schema_version = JOURNAL_SCHEMA_VERSION, jn_boot_id = ac_boot_id A,
      jn_device_fingerprint = ac_device_fingerprint A, jn_generation = generation,
      jn_entries = [], jn_scalars = [], jn_tasks = [], jn_units = []\<rparr>"

definition machine_of :: "('w, 'z) world_scheme \<Rightarrow> actuator_mode \<times> journal \<times> bool \<Rightarrow> 'w machine" where
  "machine_of s = (\<lambda>(mode, journal, recovery).
     \<lparr>w_env = w_env s, w_now = w_now s, m_mode = mode, m_journal = journal, m_recovery_required = recovery\<rparr>)"

definition actuator_new :: "'w actuator \<Rightarrow> 'w world \<Rightarrow> 'w machine" where
  "actuator_new A s =
     (case call (store_load (ac_store A)) s of (loaded, s') \<Rightarrow>
      machine_of s'
       (case loaded of
          Inr (Some bytes) \<Rightarrow>
            (case decode_journal (ac_codec A) bytes of
               Inr journal \<Rightarrow>
                 (let recovery_required = (\<not> journal_is_empty journal);
                      journal = (if \<not> recovery_required
                        then journal\<lparr>jn_schema_version := JOURNAL_SCHEMA_VERSION, jn_boot_id := ac_boot_id A,
                               jn_device_fingerprint := ac_device_fingerprint A\<rparr>
                        else journal)
                  in (ReadWrite, journal, recovery_required))
             | Inl error \<Rightarrow> (ReadOnlyDegraded (error_message error), empty_journal A 0, True))
        | Inr None \<Rightarrow> (ReadWrite, empty_journal A 0, False)
        | Inl error \<Rightarrow> (ReadOnlyDegraded (platform_error_message error), empty_journal A 0, True)))"

definition ensure_read_write :: "actuator_mode \<Rightarrow> (actuator_error, unit) result" where
  "ensure_read_write mode = (case mode of ReadWrite \<Rightarrow> Inr () | ReadOnlyDegraded reason \<Rightarrow> Inl (DegradedError reason))"

definition ensure_mutation_ready :: "('w, unit) meth" where
  "ensure_mutation_ready s =
     (rbind (ensure_read_write (m_mode s))
        (\<lambda>_. if m_recovery_required s then Inl RecoveryRequired else Inr ()), s)"

definition degrade_locked :: "message \<Rightarrow> ('w, 'a) meth" where
  "degrade_locked reason =
     bind_act (modify_act (\<lambda>s. s\<lparr>m_mode := ReadOnlyDegraded reason\<rparr>)) (\<lambda>_. throw (DegradedError reason))"

definition upd_journal :: "(journal \<Rightarrow> journal) \<Rightarrow> ('w, unit) meth" where
  "upd_journal f = modify_act (\<lambda>s. s\<lparr>m_journal := f (m_journal s)\<rparr>)"

text \<open>\<open>if let Some(entry) = map.get_mut(&key)\<close>.\<close>

definition bt_get_mut :: "'k \<Rightarrow> ('v \<Rightarrow> 'v) \<Rightarrow> ('k, 'v) btree \<Rightarrow> ('k, 'v) btree" where
  "bt_get_mut k f m = map (\<lambda>(k', v). (k', if k' = k then f v else v)) m"

definition next_generation :: "journal \<Rightarrow> journal" where
  "next_generation j = j\<lparr>jn_generation := u64_saturating_add (jn_generation j) 1\<rparr>"

section \<open>Queries\<close>

definition has_process_backend :: "'w actuator \<Rightarrow> bool" where
  "has_process_backend A = (ac_proc_reader A \<noteq> None \<and> ac_process_controller A \<noteq> None)"

definition has_systemd_backend :: "'w actuator \<Rightarrow> bool" where
  "has_systemd_backend A = (ac_systemd A \<noteq> None)"

definition startup_recovery_failed :: "'w machine \<Rightarrow> bool" where
  "startup_recovery_failed s =
     (m_recovery_required s \<and> (case m_mode s of ReadOnlyDegraded _ \<Rightarrow> True | ReadWrite \<Rightarrow> False))"

definition has_owned_resources :: "'w machine \<Rightarrow> bool" where
  "has_owned_resources s =
     (let tasks_owned = list_ex (\<lambda>e. \<not> task_mask_is_empty (tj_owned e)) (bt_values (jn_tasks (m_journal s)));
          units_owned = list_ex (\<lambda>e. \<not> unit_mask_is_empty (uj_owned e)) (bt_values (jn_units (m_journal s)))
      in jn_entries (m_journal s) \<noteq> [] \<or> jn_scalars (m_journal s) \<noteq> [] \<or> tasks_owned \<or> units_owned)"

definition mark_startup_recovery_failed :: "message \<Rightarrow> ('w, unit) meth" where
  "mark_startup_recovery_failed reason =
     modify_act (\<lambda>s. s\<lparr>m_recovery_required := True, m_mode := ReadOnlyDegraded reason\<rparr>)"

definition actuator_read_limits :: "'w actuator \<Rightarrow> target_id \<Rightarrow> ('w, frequency_limits) meth" where
  "actuator_read_limits A tid =
     bind_act (of_result (ok_or (UnknownTarget tid) (registry_get (ac_registry A) tid))) (\<lambda>target.
     read_limits (ac_io A) target)"

definition actuator_read_scalar :: "'w actuator \<Rightarrow> target_id \<Rightarrow> ('w, actuator_value) meth" where
  "actuator_read_scalar A tid =
     bind_act (of_result (ok_or (UnknownTarget tid) (registry_get_scalar (ac_registry A) tid))) (\<lambda>target.
     read_scalar (ac_io A) target)"

section \<open>Persistence\<close>

definition persist_journal :: "'w actuator \<Rightarrow> ('w, unit) meth" where
  "persist_journal A =
     bind_act (get_act m_journal) (\<lambda>journal.
     bind_act (of_result (encode_journal (ac_codec A) journal)) (\<lambda>bytes.
     io_call (store_durable (ac_store A) bytes)))"

definition persist_or_remove_journal :: "'w actuator \<Rightarrow> ('w, unit) meth" where
  "persist_or_remove_journal A =
     bind_act (get_act m_journal) (\<lambda>journal.
     if journal_is_empty journal then io_call (remove_durable (ac_store A)) else persist_journal A)"

definition persist_or_remove_locked :: "'w actuator \<Rightarrow> string \<Rightarrow> ('w, unit) meth" where
  "persist_or_remove_locked A operation =
     bind_act (attempt (persist_or_remove_journal A)) (\<lambda>result.
     case result of
       Inl error \<Rightarrow> degrade_locked (MFmt ''cannot persist {operation}: {error}'' [MStr operation, error_message error])
     | Inr _ \<Rightarrow> ret ())"

text \<open>
  The end of a failed transaction: roll the machine back, put the journal back and persist it; a
  rollback or a persistence that fails degrades the actuator.
\<close>

definition abort_transaction ::
  "'w actuator \<Rightarrow> ('w, unit) meth \<Rightarrow> journal \<Rightarrow> string \<Rightarrow> (message \<Rightarrow> message) \<Rightarrow> (message \<Rightarrow> message)
   \<Rightarrow> ('w, 'a) meth \<Rightarrow> ('w, 'a) meth" where
  "abort_transaction A rollback journal_before operation rollback_failed persist_failed done_with =
     bind_act (attempt rollback) (\<lambda>result.
     case result of
       Inl error \<Rightarrow> degrade_locked (rollback_failed (error_message error))
     | Inr _ \<Rightarrow>
         bind_act (upd_journal (\<lambda>_. journal_before)) (\<lambda>_.
         bind_act (attempt (persist_or_remove_locked A operation)) (\<lambda>persisted.
         case persisted of
           Inl error \<Rightarrow> degrade_locked (persist_failed (error_message error))
         | Inr _ \<Rightarrow> done_with)))"

section \<open>Frequency transactions\<close>

record frequency_request =
  fr_target :: target_id
  fr_limits :: frequency_limits

type_synonym frequency_outcome = "(target_id, frequency_limits) btree"

definition cannot_claim :: "frequency_target \<Rightarrow> frequency_limits \<Rightarrow> actuator_error" where
  "cannot_claim target effective =
     TransactionError (MStr (ft_id target))
       (MFmt ''cannot safely claim an unowned target while its effective range is {}..{} instead of the hardware default {}..{}''
         [u_num (min_hz effective), u_num (max_hz effective), u_num (ft_hardware_min target), u_num (ft_hardware_max target)])"

definition prepare_frequency ::
  "'w actuator \<Rightarrow> target_id list \<times> prepared_frequency list \<Rightarrow> frequency_request
   \<Rightarrow> ('w, target_id list \<times> prepared_frequency list) meth" where
  "prepare_frequency A = (\<lambda>(seen, prepared) request.
     if fr_target request \<in> set seen then throw (DuplicateRequest (MStr (fr_target request)))
     else
       bind_act (of_result (ok_or (UnknownTarget (fr_target request)) (registry_get (ac_registry A) (fr_target request)))) (\<lambda>target.
       bind_act (of_result (snap_limits target (fr_limits request))) (\<lambda>desired_request.
       bind_act (read_limits (ac_io A) target) (\<lambda>before_effective.
       bind_act (get_act (\<lambda>s. bt_get (jn_entries (m_journal s)) (ft_id target))) (\<lambda>existing_entry.
       let full_hardware_request = target_hardware_limits target;
           previous_request = (case existing_entry of None \<Rightarrow> full_hardware_request | Some entry \<Rightarrow> je_desired entry);
           unclaimed_noop = (existing_entry = None \<and> before_effective = desired_request)
       in if existing_entry = None \<and> \<not> unclaimed_noop \<and> before_effective \<noteq> full_hardware_request
          then throw (cannot_claim target before_effective)
          else ret (fr_target request # seen,
                 prepared @ [\<lparr>pf_target = target, pf_before_effective = before_effective,
                   pf_previous_request = previous_request, pf_desired_request = desired_request,
                   pf_needs_write = (if existing_entry \<noteq> None then previous_request \<noteq> desired_request
                                     else \<not> unclaimed_noop)\<rparr>]))))))"

definition unwritten_outcome :: "prepared_frequency list \<Rightarrow> frequency_outcome" where
  "unwritten_outcome prepared = bt_collect (map (\<lambda>m. (ft_id (pf_target m), pf_before_effective m)) prepared)"

definition new_entry :: "prepared_frequency \<Rightarrow> journal_entry" where
  "new_entry m =
     \<lparr>je_target = ft_id (pf_target m), je_min_path = ft_min_path (pf_target m), je_max_path = ft_max_path (pf_target m),
      je_resource_manifest = FrequencyPairManifest (recovery_manifest (pf_target m)),
      je_original = target_hardware_limits (pf_target m), je_desired = pf_previous_request m,
      je_applied = pf_previous_request m, je_legal_pairs = [pf_previous_request m]\<rparr>"

definition transition :: "frequency_limits \<Rightarrow> frequency_limits \<Rightarrow> journal_entry \<Rightarrow> journal_entry" where
  "transition applied desired entry =
     entry\<lparr>je_applied := applied, je_desired := desired, je_legal_pairs := transaction_legal_pairs applied desired\<rparr>"

definition record_intent :: "prepared_frequency \<Rightarrow> journal \<Rightarrow> journal" where
  "record_intent m j =
     (let entry = unwrap_or (new_entry m) (bt_get (jn_entries j) (ft_id (pf_target m)))
      in j\<lparr>jn_entries := bt_insert (ft_id (pf_target m))
             (transition (pf_previous_request m) (pf_desired_request m) entry) (jn_entries j)\<rparr>)"

definition settled :: "frequency_limits \<Rightarrow> journal_entry \<Rightarrow> journal_entry" where
  "settled actual entry = entry\<lparr>je_applied := actual, je_legal_pairs := [actual]\<rparr>"

text \<open>The write loop: what was applied, the indices attempted, and the failure that broke it.\<close>

type_synonym ('o, 'k) loop_result = "'o \<times> nat list \<times> ('k \<times> actuator_error) option"

fun write_frequencies ::
  "'w actuator \<Rightarrow> frequency_outcome \<Rightarrow> nat list \<Rightarrow> (nat \<times> prepared_frequency) list
   \<Rightarrow> ('w, (frequency_outcome, target_id) loop_result) meth" where
  "write_frequencies A applied attempted [] = ret (applied, attempted, None)"
| "write_frequencies A applied attempted ((index, m) # rest) =
     (if \<not> pf_needs_write m
      then write_frequencies A (bt_insert (ft_id (pf_target m)) (pf_before_effective m) applied) attempted rest
      else bind_act (attempt (apply_requested_limits (ac_io A) (ac_clock A) (pf_target m)
               (pf_previous_request m) (pf_desired_request m))) (\<lambda>result.
           case result of
             Inl error \<Rightarrow> ret (applied, attempted @ [index], Some (ft_id (pf_target m), error))
           | Inr actual \<Rightarrow>
               bind_act (upd_journal (\<lambda>j. j\<lparr>jn_entries := bt_get_mut (ft_id (pf_target m)) (settled actual) (jn_entries j)\<rparr>)) (\<lambda>_.
               write_frequencies A (bt_insert (ft_id (pf_target m)) actual applied) (attempted @ [index]) rest)))"

definition frequency_rollback ::
  "'w actuator \<Rightarrow> prepared_frequency list \<Rightarrow> nat list \<Rightarrow> ('w, unit) meth" where
  "frequency_rollback A prepared attempted = rollback_frequency_requests (ac_io A) (ac_clock A) prepared attempted"

definition finish_batch ::
  "'w actuator \<Rightarrow> prepared_frequency list \<Rightarrow> journal \<Rightarrow> (frequency_outcome, target_id) loop_result
   \<Rightarrow> ('w, frequency_outcome) meth" where
  "finish_batch A prepared journal_before = (\<lambda>(applied, attempted, failure).
     case failure of
       Some (failed_target, error) \<Rightarrow>
         abort_transaction A (frequency_rollback A prepared attempted) journal_before ''frequency rollback''
           (\<lambda>rollback. MFmt ''transaction failed for {failed_target}: {error}; rollback failed: {rollback}''
              [MStr failed_target, error_message error, rollback])
           (\<lambda>persist_error. MFmt ''transaction failed for {failed_target}: {error}; rollback succeeded but journal update failed: {persist_error}''
              [MStr failed_target, error_message error, persist_error])
           (throw (TransactionError (MStr failed_target) (error_message error)))
     | None \<Rightarrow>
         bind_act (attempt (persist_journal A)) (\<lambda>persisted.
         case persisted of
           Inr _ \<Rightarrow> ret applied
         | Inl error \<Rightarrow>
             abort_transaction A (frequency_rollback A prepared attempted) journal_before ''post-mutation frequency rollback''
               (\<lambda>rollback. MFmt ''post-mutation journal failed: {error}; rollback failed: {rollback}'' [error_message error, rollback])
               (\<lambda>persist_error. MFmt ''post-mutation journal failed: {error}; rollback succeeded but journal update failed: {persist_error}''
                  [error_message error, persist_error])
               (degrade_locked (MFmt ''post-mutation journal failed; batch rolled back: {error}'' [error_message error]))))"

definition commit_batch :: "'w actuator \<Rightarrow> prepared_frequency list \<Rightarrow> ('w, frequency_outcome) meth" where
  "commit_batch A prepared =
     bind_act (get_act m_journal) (\<lambda>journal_before.
     bind_act (upd_journal (\<lambda>j. fold record_intent (filter pf_needs_write prepared) (next_generation j))) (\<lambda>_.
     bind_act (attempt (persist_journal A)) (\<lambda>persisted.
     case persisted of
       Inl error \<Rightarrow>
         bind_act (upd_journal (\<lambda>_. journal_before)) (\<lambda>_.
         degrade_locked (MFmt ''cannot persist pre-mutation journal: {error}'' [error_message error]))
     | Inr _ \<Rightarrow>
         bind_act (write_frequencies A [] [] (enumerate_list prepared)) (finish_batch A prepared journal_before))))"

definition apply_batch :: "'w actuator \<Rightarrow> frequency_request list \<Rightarrow> ('w, frequency_outcome) meth" where
  "apply_batch A requests =
     bind_act ensure_mutation_ready (\<lambda>_.
     if requests = [] then ret []
     else bind_act (gather (prepare_frequency A) ([], []) requests) (\<lambda>(_, prepared).
          if list_all (\<lambda>m. \<not> pf_needs_write m) prepared then ret (unwritten_outcome prepared)
          else commit_batch A prepared))"

section \<open>Fast transactions of owned targets\<close>

definition prepare_owned ::
  "'w actuator \<Rightarrow> target_id list \<times> prepared_frequency list \<Rightarrow> frequency_request
   \<Rightarrow> ('w, target_id list \<times> prepared_frequency list) meth" where
  "prepare_owned A = (\<lambda>(seen, prepared) request.
     if fr_target request \<in> set seen then throw (DuplicateRequest (MStr (fr_target request)))
     else
       bind_act (of_result (ok_or (UnknownTarget (fr_target request)) (registry_get (ac_registry A) (fr_target request)))) (\<lambda>target.
       bind_act (get_act (\<lambda>s. bt_get (jn_entries (m_journal s)) (ft_id target))) (\<lambda>existing.
       bind_act (of_result (ok_or (OwnershipRequired (ft_id target)) existing)) (\<lambda>existing_entry.
       bind_act (of_result (snap_limits target (fr_limits request))) (\<lambda>desired_request.
       bind_act (read_limits (ac_io A) target) (\<lambda>before_effective.
       let previous_request = je_desired existing_entry
       in ret (fr_target request # seen,
            prepared @ [\<lparr>pf_target = target, pf_before_effective = before_effective,
              pf_previous_request = previous_request, pf_desired_request = desired_request,
              pf_needs_write = (previous_request \<noteq> desired_request \<or> before_effective \<noteq> desired_request)\<rparr>])))))))"

definition owned_entry :: "prepared_frequency \<Rightarrow> ('w, journal_entry) meth" where
  "owned_entry m =
     bind_act (get_act (\<lambda>s. bt_get (jn_entries (m_journal s)) (ft_id (pf_target m)))) (\<lambda>entry.
     of_result (ok_or (OwnershipRequired (ft_id (pf_target m))) entry))"

definition update_owned :: "prepared_frequency \<Rightarrow> (journal_entry \<Rightarrow> journal_entry) \<Rightarrow> ('w, unit) meth" where
  "update_owned m f =
     bind_act (owned_entry m) (\<lambda>_.
     upd_journal (\<lambda>j. j\<lparr>jn_entries := bt_get_mut (ft_id (pf_target m)) f (jn_entries j)\<rparr>))"

fun write_owned ::
  "'w actuator \<Rightarrow> frequency_outcome \<Rightarrow> nat list \<Rightarrow> (nat \<times> prepared_frequency) list
   \<Rightarrow> ('w, (frequency_outcome, target_id) loop_result) meth" where
  "write_owned A applied attempted [] = ret (applied, attempted, None)"
| "write_owned A applied attempted ((index, m) # rest) =
     (if \<not> pf_needs_write m
      then write_owned A (bt_insert (ft_id (pf_target m)) (pf_before_effective m) applied) attempted rest
      else bind_act (attempt (apply_requested_limits (ac_io A) (ac_clock A) (pf_target m)
               (pf_before_effective m) (pf_desired_request m))) (\<lambda>result.
           case result of
             Inl error \<Rightarrow> ret (applied, attempted @ [index], Some (ft_id (pf_target m), error))
           | Inr actual \<Rightarrow>
               bind_act (update_owned m (settled actual)) (\<lambda>_.
               write_owned A (bt_insert (ft_id (pf_target m)) actual applied) (attempted @ [index]) rest)))"

definition commit_owned :: "'w actuator \<Rightarrow> prepared_frequency list \<Rightarrow> ('w, frequency_outcome) meth" where
  "commit_owned A prepared =
     bind_act (get_act (\<lambda>s. jn_generation (m_journal s))) (\<lambda>generation_before.
     bind_act (gather (\<lambda>acc m. bind_act (owned_entry m) (\<lambda>entry. ret (acc @ [(ft_id (pf_target m), entry)])))
                [] (filter pf_needs_write prepared)) (\<lambda>entries_before.
     bind_act (upd_journal next_generation) (\<lambda>_.
     bind_act (each (\<lambda>m. update_owned m (transition (pf_before_effective m) (pf_desired_request m)))
                (filter pf_needs_write prepared)) (\<lambda>_.
     bind_act (write_owned A [] [] (enumerate_list prepared)) (\<lambda>(applied, attempted, failure).
     case failure of
       None \<Rightarrow> ret applied
     | Some (failed_target, error) \<Rightarrow>
         bind_act (attempt (frequency_rollback A prepared attempted)) (\<lambda>rolled_back.
         case rolled_back of
           Inl rollback \<Rightarrow>
             degrade_locked (MFmt ''fast transaction failed for {failed_target}: {error}; rollback failed: {rollback}''
               [MStr failed_target, error_message error, error_message rollback])
         | Inr _ \<Rightarrow>
             bind_act (upd_journal (\<lambda>j. j\<lparr>jn_generation := generation_before,
                 jn_entries := bt_extend (jn_entries j) entries_before\<rparr>)) (\<lambda>_.
             throw (TransactionError (MStr failed_target) (error_message error)))))))))"

definition apply_owned_batch_fast :: "'w actuator \<Rightarrow> frequency_request list \<Rightarrow> ('w, frequency_outcome) meth" where
  "apply_owned_batch_fast A requests =
     bind_act ensure_mutation_ready (\<lambda>_.
     if requests = [] then ret []
     else bind_act (gather (prepare_owned A) ([], []) requests) (\<lambda>(_, prepared).
          if list_all (\<lambda>m. \<not> pf_needs_write m) prepared then ret (unwritten_outcome prepared)
          else commit_owned A prepared))"

end
