(* ===== verification/Actuator_Scalars.thy ===== *)
theory Actuator_Scalars
  imports Actuator
begin

text \<open>
  Scalar transactions, and giving frequency and scalar targets back
  (\<open>crates/uperf-actuator/src/lib.rs\<close>: \<open>apply_scalars\<close>, \<open>restore_targets\<close>, \<open>restore_scalars\<close>,
  \<open>recover_scalars_locked\<close>).
\<close>

section \<open>Scalar transactions\<close>

record scalar_request =
  sr_target :: target_id
  sr_value :: actuator_value

type_synonym scalar_outcome = "(target_id, actuator_value) btree"

definition scalar_identity_changed :: "scalar_journal_entry \<Rightarrow> actuator_scalar_target \<Rightarrow> bool" where
  "scalar_identity_changed entry target =
     (sj_path entry \<noteq> st_path target \<or> recovery_scalar_manifest entry \<noteq> Some (scalar_recovery_manifest target))"

definition prepare_scalar ::
  "'w actuator \<Rightarrow> target_id list \<times> prepared_scalar list \<Rightarrow> scalar_request
   \<Rightarrow> ('w, target_id list \<times> prepared_scalar list) meth" where
  "prepare_scalar A = (\<lambda>(seen, prepared) request.
     if sr_target request \<in> set seen then throw (DuplicateRequest (MStr (sr_target request)))
     else
       bind_act (of_result (ok_or (UnknownTarget (sr_target request)) (registry_get_scalar (ac_registry A) (sr_target request)))) (\<lambda>target.
       bind_act (of_result (validate_value target (sr_value request))) (\<lambda>_.
       bind_act (read_scalar (ac_io A) target) (\<lambda>before.
       bind_act (get_act (\<lambda>s. bt_get (jn_scalars (m_journal s)) (st_id target))) (\<lambda>existing.
       let needs_write = (before \<noteq> sr_value request);
           accept = (\<lambda>needs_journal. ret (sr_target request # seen,
             prepared @ [\<lparr>ps_target = target, ps_before = before, ps_desired = sr_value request,
               ps_needs_write = needs_write, ps_needs_journal = needs_journal\<rparr>]))
       in case existing of
            None \<Rightarrow> accept needs_write
          | Some entry \<Rightarrow>
              if scalar_identity_changed entry target
              then throw (InvalidTarget (MFmt ''{} scalar journal identity changed'' [MStr (st_id target)]))
              else if before \<noteq> sj_applied entry \<and> before \<noteq> sj_desired entry
              then throw (ScalarOwnershipLost (st_id target))
              else accept (sj_desired entry \<noteq> sr_value request \<or> sj_applied entry \<noteq> before))))))"

definition new_scalar_entry :: "prepared_scalar \<Rightarrow> scalar_journal_entry" where
  "new_scalar_entry m =
     \<lparr>sj_target = st_id (ps_target m), sj_path = st_path (ps_target m),
      sj_manifest = ScalarManifest (scalar_recovery_manifest (ps_target m)),
      sj_original = ps_before m, sj_desired = ps_before m, sj_applied = ps_before m\<rparr>"

definition record_scalar_intent :: "prepared_scalar \<Rightarrow> journal \<Rightarrow> journal" where
  "record_scalar_intent m j =
     (let entry = unwrap_or (new_scalar_entry m) (bt_get (jn_scalars j) (st_id (ps_target m)))
      in j\<lparr>jn_scalars := bt_insert (st_id (ps_target m))
             (entry\<lparr>sj_applied := ps_before m, sj_desired := ps_desired m\<rparr>) (jn_scalars j)\<rparr>)"

fun write_scalars ::
  "'w actuator \<Rightarrow> scalar_outcome \<Rightarrow> nat list \<Rightarrow> (nat \<times> prepared_scalar) list
   \<Rightarrow> ('w, (scalar_outcome, target_id) loop_result) meth" where
  "write_scalars A applied attempted [] = ret (applied, attempted, None)"
| "write_scalars A applied attempted ((index, m) # rest) =
     (if \<not> ps_needs_write m
      then write_scalars A (bt_insert (st_id (ps_target m)) (ps_before m) applied) attempted rest
      else bind_act (attempt (write_scalar (ac_io A) (ps_target m) (ps_desired m))) (\<lambda>result.
           case result of
             Inl error \<Rightarrow> ret (applied, attempted @ [index], Some (st_id (ps_target m), error))
           | Inr actual \<Rightarrow>
               bind_act (upd_journal (\<lambda>j. j\<lparr>jn_scalars := bt_get_mut (st_id (ps_target m))
                   (\<lambda>e. e\<lparr>sj_applied := actual, sj_desired := actual\<rparr>) (jn_scalars j)\<rparr>)) (\<lambda>_.
               write_scalars A (bt_insert (st_id (ps_target m)) actual applied) (attempted @ [index]) rest)))"

definition scalar_rollback :: "'w actuator \<Rightarrow> prepared_scalar list \<Rightarrow> nat list \<Rightarrow> ('w, unit) meth" where
  "scalar_rollback A prepared attempted = rollback_scalars (ac_io A) prepared attempted"

definition finish_scalars ::
  "'w actuator \<Rightarrow> prepared_scalar list \<Rightarrow> journal \<Rightarrow> (scalar_outcome, target_id) loop_result
   \<Rightarrow> ('w, scalar_outcome) meth" where
  "finish_scalars A prepared journal_before = (\<lambda>(applied, attempted, failure).
     case failure of
       Some (failed_target, error) \<Rightarrow>
         abort_transaction A (scalar_rollback A prepared attempted) journal_before ''scalar rollback''
           (\<lambda>rollback. MFmt ''scalar transaction failed for {failed_target}: {error}; rollback failed: {rollback}''
              [MStr failed_target, error_message error, rollback])
           (\<lambda>persist_error. MFmt ''scalar transaction failed for {failed_target}: {error}; rollback succeeded but journal update failed: {persist_error}''
              [MStr failed_target, error_message error, persist_error])
           (throw (TransactionError (MStr failed_target) (error_message error)))
     | None \<Rightarrow>
         if \<not> list_ex ps_needs_write prepared then ret applied
         else bind_act (attempt (persist_journal A)) (\<lambda>persisted.
              case persisted of
                Inr _ \<Rightarrow> ret applied
              | Inl error \<Rightarrow>
                  abort_transaction A (scalar_rollback A prepared attempted) journal_before ''post-mutation scalar rollback''
                    (\<lambda>rollback. MFmt ''post-mutation scalar journal failed: {error}; rollback failed: {rollback}''
                       [error_message error, rollback])
                    (\<lambda>persist_error. MFmt ''post-mutation scalar journal failed: {error}; rollback succeeded but journal update failed: {persist_error}''
                       [error_message error, persist_error])
                    (degrade_locked (MFmt ''post-mutation scalar journal failed; batch rolled back: {error}'' [error_message error]))))"

definition commit_scalars :: "'w actuator \<Rightarrow> prepared_scalar list \<Rightarrow> ('w, scalar_outcome) meth" where
  "commit_scalars A prepared =
     bind_act (get_act m_journal) (\<lambda>journal_before.
     bind_act (upd_journal (\<lambda>j. fold record_scalar_intent (filter ps_needs_journal prepared) (next_generation j))) (\<lambda>_.
     bind_act (attempt (persist_journal A)) (\<lambda>persisted.
     case persisted of
       Inl error \<Rightarrow>
         bind_act (upd_journal (\<lambda>_. journal_before)) (\<lambda>_.
         degrade_locked (MFmt ''cannot persist pre-mutation scalar journal: {error}'' [error_message error]))
     | Inr _ \<Rightarrow>
         bind_act (write_scalars A [] [] (enumerate_list prepared)) (finish_scalars A prepared journal_before))))"

definition apply_scalars :: "'w actuator \<Rightarrow> scalar_request list \<Rightarrow> ('w, scalar_outcome) meth" where
  "apply_scalars A requests =
     bind_act ensure_mutation_ready (\<lambda>_.
     if requests = [] then ret []
     else bind_act (gather (prepare_scalar A) ([], []) requests) (\<lambda>(_, prepared).
          if list_all (\<lambda>m. \<not> ps_needs_write m \<and> \<not> ps_needs_journal m) prepared
          then ret (bt_collect (map (\<lambda>m. (st_id (ps_target m), ps_before m)) prepared))
          else commit_scalars A prepared))"

section \<open>Giving targets back\<close>

definition restore_intent :: "journal_entry \<Rightarrow> ('w, unit) meth" where
  "restore_intent entry =
     upd_journal (\<lambda>j. j\<lparr>jn_entries := bt_get_mut (je_target entry)
       (transition (je_desired entry) (je_original entry)) (jn_entries j)\<rparr>)"

definition plan_restore ::
  "'w actuator \<Rightarrow> (journal_entry \<times> frequency_target) list \<Rightarrow> journal_entry
   \<Rightarrow> ('w, (journal_entry \<times> frequency_target) list) meth" where
  "plan_restore A restoration entry =
     (case registry_get (ac_registry A) (je_target entry) of
        None \<Rightarrow> degrade_locked (MFmt ''restore target {} is not present'' [MStr (je_target entry)])
      | Some target \<Rightarrow>
          if je_original entry \<noteq> target_hardware_limits target
          then degrade_locked (MFmt ''restore target {} was claimed from a constrained effective range; automatic restoration could make a transient cap permanent''
                 [MStr (je_target entry)])
          else bind_act (restore_intent entry) (\<lambda>_. ret (restoration @ [(entry, target)])))"

definition persist_or_degrade :: "'w actuator \<Rightarrow> string \<Rightarrow> ('w, unit) meth" where
  "persist_or_degrade A what =
     bind_act (attempt (persist_journal A)) (\<lambda>persisted.
     case persisted of Inl error \<Rightarrow> degrade_locked (MFmt what [error_message error]) | Inr _ \<Rightarrow> ret ())"

definition restore_one ::
  "'w actuator \<Rightarrow> string \<Rightarrow> journal_entry \<times> frequency_target \<Rightarrow> ('w, unit) meth" where
  "restore_one A what = (\<lambda>(entry, target).
     bind_act (attempt (restore_frequency_request (ac_io A) (ac_clock A) target (je_original entry))) (\<lambda>result.
     case result of
       Inl error \<Rightarrow> degrade_locked (MFmt what [MStr (je_target entry), error_message error])
     | Inr _ \<Rightarrow> ret ()))"

definition restore_targets :: "'w actuator \<Rightarrow> target_id list \<Rightarrow> ('w, unit) meth" where
  "restore_targets A ids =
     bind_act ensure_mutation_ready (\<lambda>_.
     bind_act (get_act (\<lambda>s. List.map_filter (bt_get (jn_entries (m_journal s))) ids)) (\<lambda>entries.
     bind_act (gather (plan_restore A) [] entries) (\<lambda>restoration.
     bind_act (when_act (restoration \<noteq> []) (persist_or_degrade A ''cannot persist frequency restore intent: {error}'')) (\<lambda>_.
     bind_act (each (restore_one A ''restore failed for {}: {error}'') restoration) (\<lambda>_.
     bind_act (upd_journal (\<lambda>j. next_generation
         (j\<lparr>jn_entries := fold (\<lambda>e. bt_remove (je_target e)) entries (jn_entries j)\<rparr>))) (\<lambda>_.
     persist_or_remove_locked A ''frequency restore''))))))"

type_synonym scalar_restoration = "(scalar_journal_entry \<times> actuator_scalar_target \<times> bool) list"

definition scalar_restore_needed :: "scalar_journal_entry \<Rightarrow> actuator_value \<Rightarrow> bool" where
  "scalar_restore_needed entry current =
     ((current = sj_applied entry \<or> current = sj_desired entry) \<and> current \<noteq> sj_original entry)"

definition scalar_restore_intent :: "scalar_journal_entry \<Rightarrow> actuator_value \<Rightarrow> ('w, unit) meth" where
  "scalar_restore_intent entry current =
     when_act (scalar_restore_needed entry current)
       (upd_journal (\<lambda>j. j\<lparr>jn_scalars := bt_get_mut (sj_target entry)
         (\<lambda>e. e\<lparr>sj_applied := current, sj_desired := sj_original entry\<rparr>) (jn_scalars j)\<rparr>))"

definition plan_scalar_restore ::
  "'w actuator \<Rightarrow> scalar_restoration \<Rightarrow> scalar_journal_entry \<Rightarrow> ('w, scalar_restoration) meth" where
  "plan_scalar_restore A restoration entry =
     (case registry_get_scalar (ac_registry A) (sj_target entry) of
        None \<Rightarrow> degrade_locked (MFmt ''restore scalar target {} is not present'' [MStr (sj_target entry)])
      | Some target \<Rightarrow>
          if scalar_identity_changed entry target
          then degrade_locked (MFmt ''restore scalar target identity changed for {}'' [MStr (sj_target entry)])
          else bind_act (attempt (read_scalar (ac_io A) target)) (\<lambda>reading.
               case reading of
                 Inl error \<Rightarrow> degrade_locked (MFmt ''cannot read scalar target {} during restore: {error}''
                     [MStr (sj_target entry), error_message error])
               | Inr current \<Rightarrow>
                   bind_act (scalar_restore_intent entry current) (\<lambda>_.
                   ret (restoration @ [(entry, target, scalar_restore_needed entry current)]))))"

definition restore_scalars :: "'w actuator \<Rightarrow> target_id list \<Rightarrow> ('w, unit) meth" where
  "restore_scalars A ids =
     bind_act ensure_mutation_ready (\<lambda>_.
     bind_act (get_act (\<lambda>s. List.map_filter (bt_get (jn_scalars (m_journal s))) ids)) (\<lambda>entries.
     bind_act (gather (plan_scalar_restore A) [] entries) (\<lambda>restoration.
     bind_act (when_act (list_ex (\<lambda>(_, _, needs_write). needs_write) restoration)
         (persist_or_degrade A ''cannot persist scalar restore intent: {error}'')) (\<lambda>_.
     bind_act (each (\<lambda>(entry, target, needs_write). when_act needs_write
         (bind_act (attempt (write_scalar (ac_io A) target (sj_original entry))) (\<lambda>result.
          case result of
            Inl error \<Rightarrow> degrade_locked (MFmt ''scalar restore failed for {}: {error}'' [MStr (sj_target entry), error_message error])
          | Inr _ \<Rightarrow> ret ()))) restoration) (\<lambda>_.
     bind_act (upd_journal (\<lambda>j. next_generation
         (j\<lparr>jn_scalars := fold (\<lambda>e. bt_remove (sj_target e)) entries (jn_scalars j)\<rparr>))) (\<lambda>_.
     persist_or_remove_locked A ''scalar restore''))))))"

definition plan_scalar_recovery ::
  "'w actuator \<Rightarrow> scalar_restoration \<Rightarrow> scalar_journal_entry \<Rightarrow> ('w, scalar_restoration) meth" where
  "plan_scalar_recovery A restoration entry =
     bind_act (of_result (ok_or
         (InvalidJournal (MFmt ''scalar journal target {} is not present'' [MStr (sj_target entry)]))
         (registry_get_scalar (ac_registry A) (sj_target entry)))) (\<lambda>target.
     if scalar_identity_changed entry target
     then throw (InvalidJournal (MFmt ''scalar journal target identity changed for {}'' [MStr (sj_target entry)]))
     else bind_act (read_scalar (ac_io A) target) (\<lambda>current.
          bind_act (scalar_restore_intent entry current) (\<lambda>_.
          ret (restoration @ [(entry, target, scalar_restore_needed entry current)]))))"

definition recover_scalars_locked :: "'w actuator \<Rightarrow> ('w, unit) meth" where
  "recover_scalars_locked A =
     bind_act (get_act (\<lambda>s. bt_values (jn_scalars (m_journal s)))) (\<lambda>entries.
     if entries = [] then ret ()
     else
       bind_act (gather (plan_scalar_recovery A) [] entries) (\<lambda>restoration.
       bind_act (when_act (list_ex (\<lambda>(_, _, needs_write). needs_write) restoration) (persist_journal A)) (\<lambda>_.
       each (\<lambda>(entry, target, needs_write). when_act needs_write
         (bind_act (write_scalar (ac_io A) target (sj_original entry)) (\<lambda>_. ret ()))) restoration)))"

end
