(* ===== verification/Actuator_Tasks.thy ===== *)
theory Actuator_Tasks
  imports Actuator_Scalars
begin

text \<open>
  Scheduling state of tasks and properties of systemd units
  (\<open>crates/uperf-actuator/src/lib.rs\<close>: \<open>apply_tasks\<close>, \<open>apply_units\<close>, their rollbacks, restoration
  and recovery). A task is a stable identity, not a number: it is checked again around each change. A
  field that somebody else changed is relinquished and never written again.
\<close>

section \<open>Identities\<close>

definition process_identity_is_current ::
  "'w proc_reader \<Rightarrow> process_identity \<Rightarrow> ('w, bool) meth" where
  "process_identity_is_current pr expected =
     bind_act (attempt (call (process_identity_of pr (pi_pid expected)))) (\<lambda>result.
     case result of
       Inr process \<Rightarrow> ret (identity process = expected)
     | Inl (PlatformDisappeared _) \<Rightarrow> ret False
     | Inl error \<Rightarrow> throw (PlatformFailure error))"

definition verify_process_identity :: "'w proc_reader \<Rightarrow> process_identity \<Rightarrow> ('w, unit) meth" where
  "verify_process_identity pr expected =
     bind_act (process_identity_is_current pr expected) (\<lambda>current.
     if current then ret () else throw (ProcessIdentityChanged expected))"

definition unit_instance_is_current :: "'w systemd_client \<Rightarrow> unit_instance \<Rightarrow> ('w, bool) meth" where
  "unit_instance_is_current sd expected =
     bind_act (attempt (call (unit_instance_identity sd (ui_unit expected)))) (\<lambda>result.
     case result of
       Inr current \<Rightarrow> ret (current = expected)
     | Inl (PlatformDisappeared _) \<Rightarrow> ret False
     | Inl error \<Rightarrow> throw (PlatformFailure error))"

definition verify_unit_instance :: "'w systemd_client \<Rightarrow> unit_instance \<Rightarrow> ('w, unit) meth" where
  "verify_unit_instance sd expected =
     bind_act (unit_instance_is_current sd expected) (\<lambda>current.
     if current then ret () else throw (UnitInstanceChanged (ui_unit expected)))"

definition require_some :: "actuator_error \<Rightarrow> 'a option \<Rightarrow> ('w, 'a) meth" where
  "require_some e x = of_result (ok_or e x)"

definition read_task_state :: "'w actuator \<Rightarrow> process_identity \<Rightarrow> ('w, scheduling_state) meth" where
  "read_task_state A ident =
     bind_act (require_some TaskBackendUnavailable (ac_proc_reader A)) (\<lambda>pr.
     bind_act (require_some TaskBackendUnavailable (ac_process_controller A)) (\<lambda>pc.
     bind_act (verify_process_identity pr ident) (\<lambda>_.
     bind_act (io_call (read_scheduling pc (pi_pid ident))) (\<lambda>scheduling.
     bind_act (verify_process_identity pr ident) (\<lambda>_. ret scheduling)))))"

definition unit_for_process :: "'w actuator \<Rightarrow> process_identity \<Rightarrow> ('w, string option) meth" where
  "unit_for_process A ident =
     bind_act (require_some TaskBackendUnavailable (ac_proc_reader A)) (\<lambda>pr.
     bind_act (require_some SystemdBackendUnavailable (ac_systemd A)) (\<lambda>sd.
     bind_act (verify_process_identity pr ident) (\<lambda>_.
     bind_act (io_call (sc_unit_for_process sd (pi_pid ident))) (\<lambda>unit.
     bind_act (verify_process_identity pr ident) (\<lambda>_. ret unit)))))"

definition unit_processes :: "'w actuator \<Rightarrow> string \<Rightarrow> ('w, process_id list) meth" where
  "unit_processes A unit =
     bind_act (of_result (validate_unit_name unit)) (\<lambda>_.
     bind_act (require_some SystemdBackendUnavailable (ac_systemd A)) (\<lambda>sd.
     io_call (sc_unit_processes sd unit)))"

section \<open>Messages\<close>

definition pid_message :: "process_identity \<Rightarrow> message" where
  "pid_message p = MFmt ''pid {}'' [u_num (pi_pid p)]"

fun debug_policy :: "scheduling_class \<Rightarrow> message" where
  "debug_policy Other = MStr ''Other''"
| "debug_policy Batch = MStr ''Batch''"
| "debug_policy IdleClass = MStr ''Idle''"
| "debug_policy Fifo = MStr ''Fifo''"

definition debug_option :: "('a \<Rightarrow> message) \<Rightarrow> 'a option \<Rightarrow> message" where
  "debug_option f x = (case x of None \<Rightarrow> MStr ''None'' | Some a \<Rightarrow> MFmt ''Some({:?})'' [f a])"

definition debug_scheduling :: "scheduling_state \<Rightarrow> message" where
  "debug_scheduling s =
     MFmt ''ProcessSchedulingState {{ affinity: {:?}, nice: {:?}, policy: {:?}, rt_priority: {:?}, uclamp_min: {:?}, uclamp_max: {:?} }}''
       [debug_cpu_set (ss_affinity s), MNum (ss_nice s), debug_policy (ss_policy s),
        debug_option u_num (ss_rt_priority s), debug_option u_num (ss_uclamp_min s), debug_option u_num (ss_uclamp_max s)]"

definition debug_unit :: "unit_properties \<Rightarrow> message" where
  "debug_unit p =
     MFmt ''SystemdUnitProperties {{ cpu_weight: {:?}, allowed_cpus: {:?} }}''
       [debug_option u_num (up_cpu_weight p), debug_option debug_cpu_set (up_allowed_cpus p)]"

section \<open>Rolling tasks back\<close>

record prepared_task =
  pt_before :: scheduling_state
  pt_desired :: scheduling_state
  pt_changed :: task_field_mask
  pt_rollback_entry :: "task_journal_entry option"

definition record_task_rollback_failure_if_present ::
  "'w proc_reader \<Rightarrow> process_identity \<Rightarrow> message \<Rightarrow> message list \<Rightarrow> ('w, message list) meth" where
  "record_task_rollback_failure_if_present pr ident failure failures =
     bind_act (attempt (call (process_identity_of pr (pi_pid ident)))) (\<lambda>result.
     case result of
       Inl (PlatformDisappeared _) \<Rightarrow> ret failures
     | Inr _ \<Rightarrow> ret (failures @ [MFmt ''pid {}: {failure}'' [u_num (pi_pid ident), failure]])
     | Inl error \<Rightarrow> ret (failures @ [MFmt ''pid {}: {failure}; identity recheck failed: {error}''
           [u_num (pi_pid ident), failure, platform_error_message error]]))"

definition rollback_task_write ::
  "'w process_controller \<Rightarrow> 'w proc_reader \<Rightarrow> process_identity \<Rightarrow> task_field_mask \<Rightarrow> scheduling_state
   \<Rightarrow> scheduling_state \<Rightarrow> message list \<Rightarrow> ('w, message list) meth" where
  "rollback_task_write pc pr ident restorable rollback before failures =
     bind_act (attempt (call (write_scheduling pc (pi_pid ident) rollback))) (\<lambda>written.
     case written of
       Inr actual \<Rightarrow>
         if task_mask_values_equal restorable actual before
         then bind_act (attempt (verify_process_identity pr ident)) (\<lambda>verified.
              case verified of
                Inl error \<Rightarrow> record_task_rollback_failure_if_present pr ident
                    (MFmt ''identity changed during rollback: {error}'' [error_message error]) failures
              | Inr _ \<Rightarrow> ret failures)
         else record_task_rollback_failure_if_present pr ident (MFmt ''read back {actual:?}'' [debug_scheduling actual]) failures
     | Inl error \<Rightarrow> record_task_rollback_failure_if_present pr ident (platform_error_message error) failures)"

definition rollback_task ::
  "'w process_controller \<Rightarrow> 'w proc_reader \<Rightarrow> message list \<Rightarrow> process_identity \<times> prepared_task
   \<Rightarrow> ('w, message list) meth" where
  "rollback_task pc pr failures = (\<lambda>(ident, mutation).
     bind_act (attempt (process_identity_is_current pr ident)) (\<lambda>is_current.
     case is_current of
       Inl error \<Rightarrow> ret (failures @ [MFmt ''pid {}: {error}'' [u_num (pi_pid ident), error_message error]])
     | Inr False \<Rightarrow> ret failures
     | Inr True \<Rightarrow>
         bind_act (attempt (call (read_scheduling pc (pi_pid ident)))) (\<lambda>reading.
         case reading of
           Inl error \<Rightarrow> record_task_rollback_failure_if_present pr ident (platform_error_message error) failures
         | Inr current \<Rightarrow>
             bind_act (process_identity_is_current pr ident) (\<lambda>still.
             if \<not> still then ret failures
             else let restorable = task_mask_matching (pt_changed mutation) current (pt_desired mutation) (pt_before mutation);
                      rollback = task_mask_copy restorable current (pt_before mutation)
                  in if task_mask_is_empty restorable \<or> rollback = current then ret failures
                     else rollback_task_write pc pr ident restorable rollback (pt_before mutation) failures))))"

definition rollback_tasks ::
  "'w process_controller \<Rightarrow> 'w proc_reader \<Rightarrow> (process_identity, prepared_task) btree \<Rightarrow> process_identity list
   \<Rightarrow> ('w, unit) meth" where
  "rollback_tasks pc pr prepared attempted =
     bind_act (gather (rollback_task pc pr) [] (filter (\<lambda>(ident, _). ident \<in> set attempted) (rev prepared))) report_failures"

section \<open>Task transactions\<close>

record task_request =
  tr_identity :: process_identity
  tr_desired :: scheduling_state

type_synonym task_outcome = "(process_identity, scheduling_state) btree"

definition observe_task ::
  "'w process_controller \<Rightarrow> 'w proc_reader \<Rightarrow> process_identity list \<times> (process_identity, scheduling_state) btree
   \<Rightarrow> task_request \<Rightarrow> ('w, process_identity list \<times> (process_identity, scheduling_state) btree) meth" where
  "observe_task pc pr = (\<lambda>(seen, observed) request.
     if tr_identity request \<in> set seen
     then throw (DuplicateRequest (MFmt ''pid:{}:{}'' [u_num (pi_pid (tr_identity request)), u_num (pi_start_time_ticks (tr_identity request))]))
     else bind_act (verify_process_identity pr (tr_identity request)) (\<lambda>_.
          bind_act (io_call (read_scheduling pc (pi_pid (tr_identity request)))) (\<lambda>state.
          ret (tr_identity request # seen, bt_insert (tr_identity request) state observed))))"

text \<open>
  An entry that exists is first brought up to what was observed: a field that no longer has the value
  the actuator applied is lost, and relinquished.
\<close>

definition refresh_task_entry :: "scheduling_state \<Rightarrow> task_journal_entry \<Rightarrow> task_journal_entry" where
  "refresh_task_entry current entry =
     (let owned = tj_owned entry;
          still_owned = task_mask_matching owned current (tj_applied entry) (tj_applied entry);
          lost = task_mask_without owned still_owned
      in entry\<lparr>tj_original := task_mask_copy lost (tj_original entry) current, tj_desired := current,
           tj_applied := current, tj_owned := still_owned,
           tj_relinquished := task_mask_union (tj_relinquished entry) lost\<rparr>)"

definition fresh_task_entry :: "process_identity \<Rightarrow> scheduling_state \<Rightarrow> task_journal_entry" where
  "fresh_task_entry ident current =
     \<lparr>tj_identity = ident, tj_original = current, tj_desired = current, tj_applied = current,
      tj_owned = task_mask_default, tj_relinquished = task_mask_default\<rparr>"

definition claim_task_fields :: "scheduling_state \<Rightarrow> scheduling_state \<Rightarrow> task_journal_entry \<Rightarrow> task_journal_entry" where
  "claim_task_fields current wanted entry =
     (let owned = tj_owned entry;
          relinquished = tj_relinquished entry;
          requested = task_mask_changed current wanted;
          next_owned = task_mask_union owned (task_mask_without requested relinquished);
          newly_owned = task_mask_without next_owned owned
      in entry\<lparr>tj_original := task_mask_copy newly_owned (tj_original entry) current,
           tj_desired := task_mask_copy next_owned current wanted, tj_applied := current, tj_owned := next_owned\<rparr>)"

definition prepare_task ::
  "(process_identity, scheduling_state) btree
   \<Rightarrow> journal \<times> (process_identity, prepared_task) btree \<Rightarrow> task_request
   \<Rightarrow> journal \<times> (process_identity, prepared_task) btree" where
  "prepare_task observed = (\<lambda>(j, prepared) request.
     let ident = tr_identity request;
         current = the (bt_get observed ident);
         key = task_journal_key ident;
         existing = bt_get (jn_tasks j) key;
         tasks = bt_remove key (jn_tasks j);
         rollback_entry = map_option (refresh_task_entry current) existing;
         entry = claim_task_fields current (tr_desired request) (unwrap_or (fresh_task_entry ident current) rollback_entry);
         tasks = (if \<not> task_mask_is_empty (tj_owned entry) \<or> \<not> task_mask_is_empty (tj_relinquished entry)
                  then bt_insert key entry tasks else tasks)
     in (j\<lparr>jn_tasks := tasks\<rparr>,
         bt_insert ident \<lparr>pt_before = current, pt_desired = tj_desired entry,
           pt_changed = task_mask_changed current (tj_desired entry), pt_rollback_entry = rollback_entry\<rparr> prepared))"

type_synonym ('o, 'k, 'e) set_loop = "'o \<times> 'k list \<times> ('k \<times> 'e) option"

fun write_tasks ::
  "'w process_controller \<Rightarrow> 'w proc_reader \<Rightarrow> (process_identity, prepared_task) btree \<Rightarrow> task_outcome
   \<Rightarrow> process_identity list \<Rightarrow> task_request list
   \<Rightarrow> ('w, (task_outcome, process_identity, actuator_error) set_loop) meth" where
  "write_tasks pc pr prepared applied attempted [] = ret (applied, attempted, None)"
| "write_tasks pc pr prepared applied attempted (request # rest) =
     (let ident = tr_identity request; mutation = the (bt_get prepared ident)
      in if task_mask_is_empty (pt_changed mutation)
         then write_tasks pc pr prepared (bt_insert ident (pt_before mutation) applied) attempted rest
         else
           bind_act (attempt (verify_process_identity pr ident)) (\<lambda>verified.
           case verified of
             Inl error \<Rightarrow> ret (applied, attempted, Some (ident, error))
           | Inr _ \<Rightarrow>
               bind_act (attempt (call (write_scheduling pc (pi_pid ident) (pt_desired mutation)))) (\<lambda>written.
               case written of
                 Inl error \<Rightarrow> ret (applied, ident # attempted, Some (ident, PlatformFailure error))
               | Inr actual \<Rightarrow>
                   if actual \<noteq> pt_desired mutation
                   then ret (applied, ident # attempted, Some (ident, TransactionError (pid_message ident)
                          (MFmt ''task readback {actual:?} differs from requested {:?}''
                            [debug_scheduling actual, debug_scheduling (pt_desired mutation)])))
                   else
                     bind_act (attempt (verify_process_identity pr ident)) (\<lambda>verified.
                     case verified of
                       Inl error \<Rightarrow> ret (applied, ident # attempted, Some (ident, error))
                     | Inr _ \<Rightarrow>
                         bind_act (upd_journal (\<lambda>j. j\<lparr>jn_tasks := bt_get_mut (task_journal_key ident)
                             (\<lambda>e. e\<lparr>tj_applied := actual, tj_desired := actual\<rparr>) (jn_tasks j)\<rparr>)) (\<lambda>_.
                         write_tasks pc pr prepared (bt_insert ident actual applied) (ident # attempted) rest)))))"

definition undo_task_entries :: "(process_identity, prepared_task) btree \<Rightarrow> journal \<Rightarrow> journal" where
  "undo_task_entries prepared j =
     j\<lparr>jn_tasks := fold (\<lambda>(ident, mutation) tasks.
         let key = task_journal_key ident; tasks = bt_remove key tasks
         in case pt_rollback_entry mutation of None \<Rightarrow> tasks | Some entry \<Rightarrow> bt_insert key entry tasks)
       prepared (jn_tasks j)\<rparr>"

definition finish_tasks ::
  "'w actuator \<Rightarrow> 'w process_controller \<Rightarrow> 'w proc_reader \<Rightarrow> (process_identity, prepared_task) btree
   \<Rightarrow> (task_outcome, process_identity, actuator_error) set_loop \<Rightarrow> ('w, task_outcome) meth" where
  "finish_tasks A pc pr prepared = (\<lambda>(applied, attempted, failure).
     case failure of
       Some (ident, error) \<Rightarrow>
         bind_act (attempt (rollback_tasks pc pr prepared attempted)) (\<lambda>rolled_back.
         case rolled_back of
           Inl rollback \<Rightarrow>
             degrade_locked (MFmt ''task transaction failed for pid {}: {error}; rollback failed: {rollback}''
               [u_num (pi_pid ident), error_message error, error_message rollback])
         | Inr _ \<Rightarrow>
             bind_act (upd_journal (undo_task_entries prepared)) (\<lambda>_.
             bind_act (attempt (persist_or_remove_locked A ''task rollback'')) (\<lambda>persisted.
             case persisted of
               Inl persist_error \<Rightarrow>
                 degrade_locked (MFmt ''task transaction rollback succeeded but journal update failed: {persist_error}''
                   [error_message persist_error])
             | Inr _ \<Rightarrow> throw (TransactionError (pid_message ident) (error_message error)))))
     | None \<Rightarrow>
         bind_act (attempt (persist_or_remove_journal A)) (\<lambda>persisted.
         case persisted of
           Inr _ \<Rightarrow> ret applied
         | Inl error \<Rightarrow>
             bind_act (attempt (rollback_tasks pc pr prepared attempted)) (\<lambda>rolled_back.
             case rolled_back of
               Inl rollback \<Rightarrow>
                 degrade_locked (MFmt ''post-task journal failed: {error}; rollback failed: {rollback}''
                   [error_message error, error_message rollback])
             | Inr _ \<Rightarrow>
                 degrade_locked (MFmt ''post-task journal failed; batch rolled back: {error}'' [error_message error]))))"

definition commit_tasks ::
  "'w actuator \<Rightarrow> 'w process_controller \<Rightarrow> 'w proc_reader \<Rightarrow> task_request list
   \<Rightarrow> (process_identity, scheduling_state) btree \<Rightarrow> ('w, task_outcome) meth" where
  "commit_tasks A pc pr requests observed =
     bind_act (get_act (\<lambda>s. foldl (prepare_task observed) (next_generation (m_journal s), []) requests)) (\<lambda>(j, prepared).
     bind_act (upd_journal (\<lambda>_. j)) (\<lambda>_.
     bind_act (attempt (persist_or_remove_journal A)) (\<lambda>persisted.
     case persisted of
       Inl error \<Rightarrow> degrade_locked (MFmt ''cannot persist pre-task journal: {error}'' [error_message error])
     | Inr _ \<Rightarrow> bind_act (write_tasks pc pr prepared [] [] requests) (finish_tasks A pc pr prepared))))"

definition apply_tasks :: "'w actuator \<Rightarrow> task_request list \<Rightarrow> ('w, task_outcome) meth" where
  "apply_tasks A requests =
     bind_act ensure_mutation_ready (\<lambda>_.
     if requests = [] then ret []
     else
       bind_act (require_some TaskBackendUnavailable (ac_proc_reader A)) (\<lambda>pr.
       bind_act (require_some TaskBackendUnavailable (ac_process_controller A)) (\<lambda>pc.
       bind_act (gather (observe_task pc pr) ([], []) requests) (\<lambda>(_, observed).
       commit_tasks A pc pr requests observed))))"

section \<open>Giving tasks back\<close>

text \<open>What one restoration writes: the original values of the owned fields nobody else changed.\<close>

definition task_restoration :: "task_journal_entry \<Rightarrow> scheduling_state \<Rightarrow> scheduling_state" where
  "task_restoration entry current =
     task_mask_copy (task_mask_matching (tj_owned entry) current (tj_applied entry) (tj_desired entry))
       current (tj_original entry)"

definition degrade_task :: "string \<Rightarrow> task_journal_entry \<Rightarrow> message \<Rightarrow> ('w, 'a) meth" where
  "degrade_task what entry detail =
     degrade_locked (MFmt what [u_num (pi_pid (tj_identity entry)), detail])"

definition restore_task ::
  "'w process_controller \<Rightarrow> 'w proc_reader \<Rightarrow> task_journal_entry \<Rightarrow> ('w, unit) meth" where
  "restore_task pc pr entry =
     bind_act (attempt (process_identity_is_current pr (tj_identity entry))) (\<lambda>is_current.
     case is_current of
       Inl error \<Rightarrow> degrade_task ''cannot verify pid {} during task restore: {error}'' entry (error_message error)
     | Inr False \<Rightarrow> ret ()
     | Inr True \<Rightarrow>
         bind_act (attempt (call (read_scheduling pc (pi_pid (tj_identity entry))))) (\<lambda>reading.
         case reading of
           Inl error \<Rightarrow> degrade_task ''cannot read pid {} during task restore: {error}'' entry (platform_error_message error)
         | Inr current \<Rightarrow>
             let desired = task_restoration entry current; changed = task_mask_changed current desired
             in if task_mask_is_empty changed then ret ()
                else
                  bind_act (attempt (call (write_scheduling pc (pi_pid (tj_identity entry)) desired))) (\<lambda>written.
                  case written of
                    Inl error \<Rightarrow> degrade_task ''cannot restore pid {} scheduling: {error}'' entry (platform_error_message error)
                  | Inr actual \<Rightarrow>
                      bind_act (attempt (verify_process_identity pr (tj_identity entry))) (\<lambda>verified.
                      case verified of
                        Inl error \<Rightarrow> degrade_task ''pid {} identity changed during task restore: {error}'' entry (error_message error)
                      | Inr _ \<Rightarrow>
                          if \<not> task_mask_values_equal changed actual (tj_original entry)
                          then degrade_locked (MFmt ''task restore readback differs for pid {}'' [u_num (pi_pid (tj_identity entry))])
                          else ret ()))))"

definition restore_tasks :: "'w actuator \<Rightarrow> process_identity list \<Rightarrow> ('w, unit) meth" where
  "restore_tasks A ids =
     bind_act ensure_mutation_ready (\<lambda>_.
     bind_act (get_act (\<lambda>s. List.map_filter (\<lambda>i. bt_get (jn_tasks (m_journal s)) (task_journal_key i)) ids)) (\<lambda>entries.
     if entries = [] then ret ()
     else case ac_proc_reader A of
       None \<Rightarrow> degrade_locked (MStr ''task restore requires a proc reader'')
     | Some pr \<Rightarrow>
         (case ac_process_controller A of
            None \<Rightarrow> degrade_locked (MStr ''task restore requires a process controller'')
          | Some pc \<Rightarrow>
              bind_act (each (restore_task pc pr) entries) (\<lambda>_.
              bind_act (upd_journal (\<lambda>j. next_generation
                  (j\<lparr>jn_tasks := fold (\<lambda>e. bt_remove (task_journal_key (tj_identity e))) entries (jn_tasks j)\<rparr>))) (\<lambda>_.
              persist_or_remove_locked A ''task restore'')))))"

definition recover_task ::
  "'w process_controller \<Rightarrow> 'w proc_reader \<Rightarrow> task_journal_entry \<Rightarrow> ('w, unit) meth" where
  "recover_task pc pr entry =
     bind_act (process_identity_is_current pr (tj_identity entry)) (\<lambda>is_current.
     if \<not> is_current then ret ()
     else
       bind_act (io_call (read_scheduling pc (pi_pid (tj_identity entry)))) (\<lambda>current.
       let desired = task_restoration entry current; changed = task_mask_changed current desired
       in if task_mask_is_empty changed then ret ()
          else
            bind_act (io_call (write_scheduling pc (pi_pid (tj_identity entry)) desired)) (\<lambda>actual.
            bind_act (attempt (verify_process_identity pr (tj_identity entry))) (\<lambda>verified.
            case verified of
              Inl error \<Rightarrow> throw (RollbackError (MFmt ''pid {} identity changed during task recovery: {error}''
                  [u_num (pi_pid (tj_identity entry)), error_message error]))
            | Inr _ \<Rightarrow>
                if \<not> task_mask_values_equal changed actual (tj_original entry)
                then throw (RollbackError (MFmt ''pid {} task recovery readback differs'' [u_num (pi_pid (tj_identity entry))]))
                else ret ()))))"

definition recover_tasks_locked :: "'w actuator \<Rightarrow> ('w, unit) meth" where
  "recover_tasks_locked A =
     bind_act (get_act (\<lambda>s. bt_values (jn_tasks (m_journal s)))) (\<lambda>entries.
     if entries = [] then ret ()
     else
       bind_act (require_some TaskBackendUnavailable (ac_proc_reader A)) (\<lambda>pr.
       bind_act (require_some TaskBackendUnavailable (ac_process_controller A)) (\<lambda>pc.
       each (recover_task pc pr) entries)))"

end
