(* ===== verification/Actuator_Units.thy ===== *)
theory Actuator_Units
  imports Actuator_Tasks
begin

text \<open>
  Properties of dedicated systemd units (\<open>crates/uperf-actuator/src/lib.rs\<close>: \<open>apply_units\<close>,
  \<open>rollback_units\<close>, \<open>restore_units\<close>, \<open>recover_units_locked\<close>). A unit is one activation of its name:
  an entry of an earlier activation is dropped, and a change is made only while the activation that
  was observed is the current one.
\<close>

section \<open>Rolling units back\<close>

record prepared_unit =
  pu_instance :: unit_instance
  pu_before :: unit_properties
  pu_desired :: unit_properties
  pu_changed :: unit_field_mask
  pu_rollback_entry :: "unit_journal_entry option"

definition rollback_unit ::
  "'w systemd_client \<Rightarrow> message list \<Rightarrow> string \<times> prepared_unit \<Rightarrow> ('w, message list) meth" where
  "rollback_unit sd failures = (\<lambda>(unit, mutation).
     let failed = (\<lambda>detail. ret (failures @ [MFmt ''{unit}: {error}'' [MStr unit, detail]]))
     in bind_act (attempt (unit_instance_is_current sd (pu_instance mutation))) (\<lambda>is_current.
        case is_current of
          Inr False \<Rightarrow> ret failures
        | Inl error \<Rightarrow> failed (error_message error)
        | Inr True \<Rightarrow>
            bind_act (attempt (call (read_unit_properties sd unit))) (\<lambda>reading.
            case reading of
              Inl error \<Rightarrow> failed (platform_error_message error)
            | Inr current \<Rightarrow>
                let restorable = unit_mask_matching (pu_changed mutation) current (pu_desired mutation) (pu_before mutation);
                    rollback = unit_mask_copy restorable current (pu_before mutation)
                in if unit_mask_is_empty restorable \<or> rollback = current then ret failures
                   else
                     bind_act (attempt (call (write_unit_properties sd unit rollback))) (\<lambda>written.
                     case written of
                       Inl error \<Rightarrow> failed (platform_error_message error)
                     | Inr actual \<Rightarrow>
                         if unit_mask_values_equal restorable actual (pu_before mutation)
                         then bind_act (attempt (verify_unit_instance sd (pu_instance mutation))) (\<lambda>verified.
                              case verified of Inl error \<Rightarrow> failed (error_message error) | Inr _ \<Rightarrow> ret failures)
                         else ret (failures @ [MFmt ''{unit} read back {actual:?}'' [MStr unit, debug_unit actual]])))))"

definition rollback_units ::
  "'w systemd_client \<Rightarrow> (string, prepared_unit) btree \<Rightarrow> string list \<Rightarrow> ('w, unit) meth" where
  "rollback_units sd prepared attempted =
     bind_act (gather (rollback_unit sd) [] (filter (\<lambda>(unit, _). unit \<in> set attempted) (rev prepared))) report_failures"

section \<open>Unit transactions\<close>

record unit_request =
  ur_unit :: string
  ur_desired :: unit_properties

type_synonym unit_outcome = "(string, unit_properties) btree"
type_synonym observed_units = "(string, unit_instance \<times> unit_properties) btree"

definition observe_unit ::
  "'w systemd_client \<Rightarrow> string list \<times> observed_units \<Rightarrow> unit_request \<Rightarrow> ('w, string list \<times> observed_units) meth" where
  "observe_unit sd = (\<lambda>(seen, observed) request.
     bind_act (of_result (validate_unit_name (ur_unit request))) (\<lambda>_.
     if ur_unit request \<in> set seen then throw (DuplicateRequest (MStr (ur_unit request)))
     else
       bind_act (io_call (unit_instance_identity sd (ur_unit request))) (\<lambda>inst.
       bind_act (io_call (read_unit_properties sd (ur_unit request))) (\<lambda>properties.
       bind_act (verify_unit_instance sd inst) (\<lambda>_.
       ret (ur_unit request # seen, bt_insert (ur_unit request) (inst, properties) observed))))))"

definition refresh_unit_entry :: "unit_properties \<Rightarrow> unit_journal_entry \<Rightarrow> unit_journal_entry" where
  "refresh_unit_entry current entry =
     (let owned = uj_owned entry;
          still_owned = unit_mask_matching owned current (uj_applied entry) (uj_applied entry);
          lost = unit_mask_without owned still_owned
      in entry\<lparr>uj_original := unit_mask_copy lost (uj_original entry) current, uj_desired := current,
           uj_applied := current, uj_owned := still_owned,
           uj_relinquished := unit_mask_union (uj_relinquished entry) lost\<rparr>)"

definition fresh_unit_entry :: "string \<Rightarrow> unit_instance \<Rightarrow> unit_properties \<Rightarrow> unit_journal_entry" where
  "fresh_unit_entry unit inst current =
     \<lparr>uj_unit = unit, uj_instance = inst, uj_original = current, uj_desired = current, uj_applied = current,
      uj_owned = unit_mask_default, uj_relinquished = unit_mask_default\<rparr>"

definition claim_unit_fields :: "unit_properties \<Rightarrow> unit_properties \<Rightarrow> unit_journal_entry \<Rightarrow> unit_journal_entry" where
  "claim_unit_fields current wanted entry =
     (let owned = uj_owned entry;
          relinquished = uj_relinquished entry;
          requested = unit_mask_changed current wanted;
          next_owned = unit_mask_union owned (unit_mask_without requested relinquished);
          newly_owned = unit_mask_without next_owned owned
      in entry\<lparr>uj_original := unit_mask_copy newly_owned (uj_original entry) current,
           uj_desired := unit_mask_copy next_owned current wanted, uj_applied := current, uj_owned := next_owned\<rparr>)"

definition prepare_unit ::
  "observed_units \<Rightarrow> journal \<times> (string, prepared_unit) btree \<Rightarrow> unit_request \<Rightarrow> journal \<times> (string, prepared_unit) btree" where
  "prepare_unit observed = (\<lambda>(j, prepared) request.
     let unit = ur_unit request;
         (inst, current) = the (bt_get observed unit);
         existing = filter_opt (\<lambda>e. uj_instance e = inst) (bt_get (jn_units j) unit);
         units = bt_remove unit (jn_units j);
         rollback_entry = map_option (refresh_unit_entry current) existing;
         entry = claim_unit_fields current (ur_desired request) (unwrap_or (fresh_unit_entry unit inst current) rollback_entry);
         units = (if \<not> unit_mask_is_empty (uj_owned entry) \<or> \<not> unit_mask_is_empty (uj_relinquished entry)
                  then bt_insert unit entry units else units)
     in (j\<lparr>jn_units := units\<rparr>,
         bt_insert unit \<lparr>pu_instance = inst, pu_before = current, pu_desired = uj_desired entry,
           pu_changed = unit_mask_changed current (uj_desired entry), pu_rollback_entry = rollback_entry\<rparr> prepared))"

fun write_units ::
  "'w systemd_client \<Rightarrow> (string, prepared_unit) btree \<Rightarrow> unit_outcome \<Rightarrow> string list \<Rightarrow> unit_request list
   \<Rightarrow> ('w, (unit_outcome, string, message) set_loop) meth" where
  "write_units sd prepared applied attempted [] = ret (applied, attempted, None)"
| "write_units sd prepared applied attempted (request # rest) =
     (let unit = ur_unit request; mutation = the (bt_get prepared unit)
      in if unit_mask_is_empty (pu_changed mutation)
         then write_units sd prepared (bt_insert unit (pu_before mutation) applied) attempted rest
         else
           bind_act (attempt (verify_unit_instance sd (pu_instance mutation))) (\<lambda>verified.
           case verified of
             Inl error \<Rightarrow> ret (applied, attempted, Some (unit, error_message error))
           | Inr _ \<Rightarrow>
               bind_act (attempt (call (write_unit_properties sd unit (pu_desired mutation)))) (\<lambda>written.
               case written of
                 Inl error \<Rightarrow> ret (applied, unit # attempted, Some (unit, platform_error_message error))
               | Inr actual \<Rightarrow>
                   if actual \<noteq> pu_desired mutation
                   then ret (applied, unit # attempted, Some (unit,
                          MFmt ''readback {actual:?} differs from requested {:?}'' [debug_unit actual, debug_unit (pu_desired mutation)]))
                   else
                     bind_act (attempt (verify_unit_instance sd (pu_instance mutation))) (\<lambda>verified.
                     case verified of
                       Inl error \<Rightarrow> ret (applied, unit # attempted, Some (unit, error_message error))
                     | Inr _ \<Rightarrow>
                         bind_act (upd_journal (\<lambda>j. j\<lparr>jn_units := bt_get_mut unit
                             (\<lambda>e. e\<lparr>uj_applied := actual, uj_desired := actual\<rparr>) (jn_units j)\<rparr>)) (\<lambda>_.
                         write_units sd prepared (bt_insert unit actual applied) (unit # attempted) rest)))))"

definition undo_unit_entries :: "(string, prepared_unit) btree \<Rightarrow> journal \<Rightarrow> journal" where
  "undo_unit_entries prepared j =
     j\<lparr>jn_units := fold (\<lambda>(unit, mutation) units.
         let units = bt_remove unit units
         in case pu_rollback_entry mutation of None \<Rightarrow> units | Some entry \<Rightarrow> bt_insert unit entry units)
       prepared (jn_units j)\<rparr>"

definition finish_units ::
  "'w actuator \<Rightarrow> 'w systemd_client \<Rightarrow> (string, prepared_unit) btree
   \<Rightarrow> (unit_outcome, string, message) set_loop \<Rightarrow> ('w, unit_outcome) meth" where
  "finish_units A sd prepared = (\<lambda>(applied, attempted, failure).
     case failure of
       Some (unit, reason) \<Rightarrow>
         bind_act (attempt (rollback_units sd prepared attempted)) (\<lambda>rolled_back.
         case rolled_back of
           Inl error \<Rightarrow>
             degrade_locked (MFmt ''systemd transaction failed for {unit}: {reason}; rollback failed: {error}''
               [MStr unit, reason, error_message error])
         | Inr _ \<Rightarrow>
             bind_act (upd_journal (undo_unit_entries prepared)) (\<lambda>_.
             bind_act (attempt (persist_or_remove_locked A ''systemd rollback'')) (\<lambda>persisted.
             case persisted of
               Inl error \<Rightarrow>
                 degrade_locked (MFmt ''systemd transaction rollback succeeded but journal update failed: {error}'' [error_message error])
             | Inr _ \<Rightarrow> throw (TransactionError (MStr unit) reason))))
     | None \<Rightarrow>
         bind_act (attempt (persist_or_remove_journal A)) (\<lambda>persisted.
         case persisted of
           Inr _ \<Rightarrow> ret applied
         | Inl error \<Rightarrow>
             bind_act (attempt (rollback_units sd prepared attempted)) (\<lambda>rolled_back.
             case rolled_back of
               Inl rollback \<Rightarrow>
                 degrade_locked (MFmt ''post-systemd journal failed: {error}; rollback failed: {rollback}''
                   [error_message error, error_message rollback])
             | Inr _ \<Rightarrow>
                 degrade_locked (MFmt ''post-systemd journal failed; batch rolled back: {error}'' [error_message error]))))"

definition commit_units ::
  "'w actuator \<Rightarrow> 'w systemd_client \<Rightarrow> unit_request list \<Rightarrow> observed_units \<Rightarrow> ('w, unit_outcome) meth" where
  "commit_units A sd requests observed =
     bind_act (get_act (\<lambda>s. foldl (prepare_unit observed) (next_generation (m_journal s), []) requests)) (\<lambda>(j, prepared).
     bind_act (upd_journal (\<lambda>_. j)) (\<lambda>_.
     bind_act (attempt (persist_or_remove_journal A)) (\<lambda>persisted.
     case persisted of
       Inl error \<Rightarrow> degrade_locked (MFmt ''cannot persist pre-systemd journal: {error}'' [error_message error])
     | Inr _ \<Rightarrow> bind_act (write_units sd prepared [] [] requests) (finish_units A sd prepared))))"

definition apply_units :: "'w actuator \<Rightarrow> unit_request list \<Rightarrow> ('w, unit_outcome) meth" where
  "apply_units A requests =
     bind_act ensure_mutation_ready (\<lambda>_.
     if requests = [] then ret []
     else
       bind_act (require_some SystemdBackendUnavailable (ac_systemd A)) (\<lambda>sd.
       bind_act (gather (observe_unit sd) ([], []) requests) (\<lambda>(_, observed).
       commit_units A sd requests observed)))"

section \<open>Giving units back\<close>

definition unit_restoration :: "unit_journal_entry \<Rightarrow> unit_properties \<Rightarrow> unit_properties" where
  "unit_restoration entry current =
     unit_mask_copy (unit_mask_matching (uj_owned entry) current (uj_applied entry) (uj_desired entry))
       current (uj_original entry)"

definition degrade_unit :: "string \<Rightarrow> unit_journal_entry \<Rightarrow> message \<Rightarrow> ('w, 'a) meth" where
  "degrade_unit what entry detail = degrade_locked (MFmt what [MStr (uj_unit entry), detail])"

definition restore_unit :: "'w systemd_client \<Rightarrow> unit_journal_entry \<Rightarrow> ('w, unit) meth" where
  "restore_unit sd entry =
     bind_act (attempt (unit_instance_is_current sd (uj_instance entry))) (\<lambda>is_current.
     case is_current of
       Inl error \<Rightarrow> degrade_unit ''cannot verify {} instance during systemd restore: {error}'' entry (error_message error)
     | Inr False \<Rightarrow> ret ()
     | Inr True \<Rightarrow>
         bind_act (attempt (call (read_unit_properties sd (uj_unit entry)))) (\<lambda>reading.
         case reading of
           Inl error \<Rightarrow> degrade_unit ''cannot read {} during systemd restore: {error}'' entry (platform_error_message error)
         | Inr current \<Rightarrow>
             bind_act (attempt (verify_unit_instance sd (uj_instance entry))) (\<lambda>observed.
             case observed of
               Inl error \<Rightarrow> degrade_unit ''{} instance changed during systemd restore observation: {error}'' entry (error_message error)
             | Inr _ \<Rightarrow>
                 let desired = unit_restoration entry current; changed = unit_mask_changed current desired
                 in if unit_mask_is_empty changed then ret ()
                    else
                      bind_act (attempt (call (write_unit_properties sd (uj_unit entry) desired))) (\<lambda>written.
                      case written of
                        Inl error \<Rightarrow> degrade_unit ''cannot restore {} systemd properties: {error}'' entry (platform_error_message error)
                      | Inr actual \<Rightarrow>
                          bind_act (attempt (verify_unit_instance sd (uj_instance entry))) (\<lambda>verified.
                          case verified of
                            Inl error \<Rightarrow> degrade_unit ''{} instance changed during systemd restore write: {error}'' entry (error_message error)
                          | Inr _ \<Rightarrow>
                              if \<not> unit_mask_values_equal changed actual (uj_original entry)
                              then degrade_locked (MFmt ''systemd restore readback differs for {}'' [MStr (uj_unit entry)])
                              else ret ())))))"

definition restore_units :: "'w actuator \<Rightarrow> string list \<Rightarrow> ('w, unit) meth" where
  "restore_units A units =
     bind_act ensure_mutation_ready (\<lambda>_.
     bind_act (get_act (\<lambda>s. List.map_filter (bt_get (jn_units (m_journal s))) units)) (\<lambda>entries.
     if entries = [] then ret ()
     else case ac_systemd A of
       None \<Rightarrow> degrade_locked (MStr ''systemd restore backend is unavailable'')
     | Some sd \<Rightarrow>
         bind_act (each (restore_unit sd) entries) (\<lambda>_.
         bind_act (upd_journal (\<lambda>j. next_generation
             (j\<lparr>jn_units := fold (\<lambda>e. bt_remove (uj_unit e)) entries (jn_units j)\<rparr>))) (\<lambda>_.
         persist_or_remove_locked A ''systemd restore''))))"

definition recover_unit :: "'w systemd_client \<Rightarrow> unit_journal_entry \<Rightarrow> ('w, unit) meth" where
  "recover_unit sd entry =
     bind_act (unit_instance_is_current sd (uj_instance entry)) (\<lambda>is_current.
     if \<not> is_current then ret ()
     else
       bind_act (io_call (read_unit_properties sd (uj_unit entry))) (\<lambda>current.
       bind_act (verify_unit_instance sd (uj_instance entry)) (\<lambda>_.
       let desired = unit_restoration entry current; changed = unit_mask_changed current desired
       in if unit_mask_is_empty changed then ret ()
          else
            bind_act (io_call (write_unit_properties sd (uj_unit entry) desired)) (\<lambda>actual.
            bind_act (verify_unit_instance sd (uj_instance entry)) (\<lambda>_.
            if \<not> unit_mask_values_equal changed actual (uj_original entry)
            then throw (RollbackError (MFmt ''{} systemd recovery readback differs'' [MStr (uj_unit entry)]))
            else ret ())))))"

definition recover_units_locked :: "'w actuator \<Rightarrow> ('w, unit) meth" where
  "recover_units_locked A =
     bind_act (get_act (\<lambda>s. bt_values (jn_units (m_journal s)))) (\<lambda>entries.
     if entries = [] then ret ()
     else bind_act (require_some SystemdBackendUnavailable (ac_systemd A)) (\<lambda>sd. each (recover_unit sd) entries))"

end
