(* ===== verification/Actuator_Recovery.thy ===== *)
theory Actuator_Recovery
  imports Actuator_Units
begin

text \<open>
  Recovery of the journal an earlier daemon left, complete restoration at shutdown, and the inspection
  of a journal without a configuration (\<open>crates/uperf-actuator/src/lib.rs\<close>: \<open>recover_pending\<close>,
  \<open>restore_all\<close>, \<open>inspect_recovery_journal\<close>, \<open>RecoveryManifest\<close>).
\<close>

section \<open>Recovery\<close>

definition plan_recovery ::
  "'w actuator \<Rightarrow> (journal_entry \<times> frequency_target) list \<Rightarrow> journal_entry
   \<Rightarrow> ('w, (journal_entry \<times> frequency_target) list) meth" where
  "plan_recovery A recovery entry =
     (case registry_get (ac_registry A) (je_target entry) of
        None \<Rightarrow> degrade_locked (MFmt ''journal target {} is not present'' [MStr (je_target entry)])
      | Some target \<Rightarrow>
          if ft_min_path target \<noteq> je_min_path entry \<or> ft_max_path target \<noteq> je_max_path entry
          then degrade_locked (MFmt ''journal paths changed for {}'' [MStr (je_target entry)])
          else if Some (recovery_manifest target) \<noteq> recovery_frequency_manifest entry
          then degrade_locked (MFmt ''journal target identity changed for {}'' [MStr (je_target entry)])
          else if je_original entry \<noteq> target_hardware_limits target
          then degrade_locked (MFmt ''journal target {} was claimed from a constrained effective range; automatic recovery could make a transient cap permanent''
                 [MStr (je_target entry)])
          else bind_act (restore_intent entry) (\<lambda>_. ret (recovery @ [(entry, target)])))"

definition or_degrade :: "('w, 'a) meth \<Rightarrow> string \<Rightarrow> ('w, 'a) meth" where
  "or_degrade m what =
     bind_act (attempt m) (\<lambda>result.
     case result of Inl error \<Rightarrow> degrade_locked (MFmt what [error_message error]) | Inr a \<Rightarrow> ret a)"

definition remove_or_degrade :: "'w actuator \<Rightarrow> string \<Rightarrow> ('w, unit) meth" where
  "remove_or_degrade A what =
     bind_act (attempt (call (remove_durable (ac_store A)))) (\<lambda>result.
     case result of Inl error \<Rightarrow> degrade_locked (MFmt what [platform_error_message error]) | Inr _ \<Rightarrow> ret ())"

definition discard_foreign_journal :: "'w actuator \<Rightarrow> ('w, unit) meth" where
  "discard_foreign_journal A =
     bind_act (remove_or_degrade A ''cannot discard journal from another boot: {error}'') (\<lambda>_.
     modify_act (\<lambda>s. s\<lparr>m_journal := empty_journal A (u64_saturating_add (jn_generation (m_journal s)) 1),
       m_recovery_required := False\<rparr>))"

definition complete_recovery :: "'w actuator \<Rightarrow> ('w, unit) meth" where
  "complete_recovery A =
     bind_act (remove_or_degrade A ''cannot remove completed recovery journal: {error}'') (\<lambda>_.
     modify_act (\<lambda>s. s\<lparr>m_journal := next_generation ((m_journal s)\<lparr>jn_entries := [], jn_scalars := [], jn_tasks := [], jn_units := []\<rparr>),
       m_recovery_required := False\<rparr>))"

definition recover_resources :: "'w actuator \<Rightarrow> ('w, unit) meth" where
  "recover_resources A =
     bind_act (get_act (\<lambda>s. bt_values (jn_entries (m_journal s)))) (\<lambda>entries.
     bind_act (gather (plan_recovery A) [] entries) (\<lambda>frequency_recovery.
     bind_act (when_act (frequency_recovery \<noteq> []) (persist_or_degrade A ''cannot persist frequency recovery intent: {error}'')) (\<lambda>_.
     bind_act (each (restore_one A ''recovery failed for {}: {error}'') frequency_recovery) (\<lambda>_.
     bind_act (or_degrade (recover_scalars_locked A) ''scalar recovery failed: {error}'') (\<lambda>_.
     bind_act (or_degrade (recover_tasks_locked A) ''task recovery failed: {error}'') (\<lambda>_.
     bind_act (or_degrade (recover_units_locked A) ''systemd unit recovery failed: {error}'') (\<lambda>_.
     complete_recovery A)))))))"

definition recover_pending :: "'w actuator \<Rightarrow> ('w, unit) meth" where
  "recover_pending A =
     bind_act (get_act m_mode) (\<lambda>mode.
     bind_act (of_result (ensure_read_write mode)) (\<lambda>_.
     bind_act (get_act m_recovery_required) (\<lambda>recovery_required.
     if \<not> recovery_required then ret ()
     else
       bind_act (get_act m_journal) (\<lambda>journal.
       if jn_boot_id journal \<noteq> ac_boot_id A then discard_foreign_journal A
       else if jn_device_fingerprint journal \<noteq> ac_device_fingerprint A
       then degrade_locked (MStr ''journal device fingerprint does not match'')
       else if journal_is_empty journal then modify_act (\<lambda>s. s\<lparr>m_recovery_required := False\<rparr>)
       else if jn_tasks journal \<noteq> [] \<and> (ac_proc_reader A = None \<or> ac_process_controller A = None)
       then degrade_locked (MStr ''task recovery backends are unavailable'')
       else if jn_units journal \<noteq> [] \<and> ac_systemd A = None
       then degrade_locked (MStr ''systemd recovery backend is unavailable'')
       else recover_resources A))))"

section \<open>Restoring everything\<close>

definition restore_all :: "'w actuator \<Rightarrow> ('w, unit) meth" where
  "restore_all A =
     bind_act (get_act (\<lambda>s. bt_keys (jn_entries (m_journal s)))) (\<lambda>ids.
     bind_act (restore_targets A ids) (\<lambda>_.
     bind_act (get_act (\<lambda>s. bt_keys (jn_scalars (m_journal s)))) (\<lambda>scalar_ids.
     bind_act (restore_scalars A scalar_ids) (\<lambda>_.
     bind_act (get_act (\<lambda>s. map tj_identity (bt_values (jn_tasks (m_journal s))))) (\<lambda>task_ids.
     bind_act (restore_tasks A task_ids) (\<lambda>_.
     bind_act (get_act (\<lambda>s. bt_keys (jn_units (m_journal s)))) (\<lambda>units.
     restore_units A units)))))))"

section \<open>Inspection\<close>

datatype resource_target = FrequencyPairTarget frequency_manifest | ScalarResourceTarget scalar_manifest

record recovery_manifest_info =
  rm_schema_version :: u32
  rm_boot_id :: string
  rm_device_fingerprint :: string
  rm_resource_targets :: "resource_target list"
  rm_frequency_targets :: "frequency_manifest list"
  rm_has_tasks :: bool
  rm_has_systemd_units :: bool

definition self_describing_registry :: "recovery_manifest_info \<Rightarrow> (actuator_error, target_registry) result" where
  "self_describing_registry self =
     rbind (try_fold (\<lambda>(frequencies, scalars) target.
         case target of
           FrequencyPairTarget m \<Rightarrow> rbind (to_frequency_target m) (\<lambda>t. Inr (frequencies @ [t], scalars))
         | ScalarResourceTarget m \<Rightarrow> rbind (to_scalar_target m) (\<lambda>t. Inr (frequencies, scalars @ [t])))
       ([], []) (rm_resource_targets self)) (\<lambda>(frequencies, scalars).
     rbind (TargetRegistry_new frequencies) (\<lambda>registry. with_scalar_targets registry scalars))"

definition frequency_write_paths :: "recovery_manifest_info \<Rightarrow> path_buf list" where
  "frequency_write_paths self = concat (map (\<lambda>m. [fm_min_path m, fm_max_path m]) (rm_frequency_targets self))"

definition scalar_write_paths :: "recovery_manifest_info \<Rightarrow> path_buf list" where
  "scalar_write_paths self =
     List.map_filter (\<lambda>t. case t of ScalarResourceTarget m \<Rightarrow> Some (sm_path m) | FrequencyPairTarget _ \<Rightarrow> None)
       (rm_resource_targets self)"

definition resource_write_paths :: "recovery_manifest_info \<Rightarrow> path_buf list" where
  "resource_write_paths self = frequency_write_paths self @ scalar_write_paths self"

definition manifest_of_journal :: "journal \<Rightarrow> recovery_manifest_info" where
  "manifest_of_journal journal =
     (let frequency_targets = List.map_filter recovery_frequency_manifest (bt_values (jn_entries journal))
      in \<lparr>rm_schema_version = jn_schema_version journal, rm_boot_id = jn_boot_id journal,
          rm_device_fingerprint = jn_device_fingerprint journal,
          rm_resource_targets = map FrequencyPairTarget frequency_targets
            @ map ScalarResourceTarget (List.map_filter recovery_scalar_manifest (bt_values (jn_scalars journal))),
          rm_frequency_targets = frequency_targets,
          rm_has_tasks = (jn_tasks journal \<noteq> []), rm_has_systemd_units = (jn_units journal \<noteq> [])\<rparr>)"

definition inspect_recovery_journal ::
  "journal_codec \<Rightarrow> 'w state_store \<Rightarrow> ('w, 'z, actuator_error, recovery_manifest_info option) io" where
  "inspect_recovery_journal cd store =
     bind_act (io_call (store_load store)) (\<lambda>loaded.
     case loaded of
       None \<Rightarrow> ret None
     | Some bytes \<Rightarrow>
         bind_act (of_result (decode_journal cd bytes)) (\<lambda>journal.
         if journal_is_empty journal then ret None else ret (Some (manifest_of_journal journal))))"

end
