(* ===== verification/Actuator_Frames.thy ===== *)
theory Actuator_Frames
  imports Actuator_Recovery
begin

text \<open>
  What the operations of the actuator may change. Input and output move the environment and the clock
  and leave the locked state alone (\<open>io_only\<close>); the write loops change the journal besides, never the
  mode (\<open>journal_only\<close>). Both are frames in the sense of \<open>Effects\<close>; the lemmas on whole methods
  compose them.
\<close>

section \<open>Input and output\<close>

definition io_only :: "'w machine \<Rightarrow> 'w machine \<Rightarrow> bool" where
  "io_only s t = (m_mode t = m_mode s \<and> m_journal t = m_journal s \<and> m_recovery_required t = m_recovery_required s
     \<and> w_now s \<le> w_now t)"

definition journal_only :: "'w machine \<Rightarrow> 'w machine \<Rightarrow> bool" where
  "journal_only s t = (m_mode t = m_mode s \<and> m_recovery_required t = m_recovery_required s)"

interpretation io_frame: frame io_only
  by unfold_locales (auto simp: io_only_def)

interpretation journal_frame: frame journal_only
  by unfold_locales (auto simp: journal_only_def)

lemma stays_journal: "stays io_only m \<Longrightarrow> stays journal_only m"
  by (erule stays_mono) (simp add: io_only_def journal_only_def)

named_theorems io_frames \<open>operations that leave the locked state alone\<close>

lemmas io_rules = io_frame.bind io_frame.pure io_frame.attempt io_frame.each io_frame.gather
lemmas journal_rules = journal_frame.bind journal_frame.pure journal_frame.attempt journal_frame.each journal_frame.gather

lemma io_call_frame [io_frames]: "stays io_only (call p)" "stays io_only (io_call p)"
  by (auto simp: stays_def io_only_def io_call_def call_def split: prod.splits)

lemma instant_now_frame [io_frames]: "stays io_only (instant_now clk)"
  by (auto simp: stays_def io_only_def instant_now_def split: prod.splits)

lemma sleep_frame [io_frames]: "stays io_only (sleep_for d)"
  by (auto simp: stays_def io_only_def sleep_for_def act_simps)

lemma when_frame [io_frames]: "stays io_only m \<Longrightarrow> stays io_only (when_act b m)"
  by (simp add: when_act_def io_rules)

lemma read_frames [io_frames]: "stays io_only (read_limits sys t)" "stays io_only (read_scalar sys st)"
  unfolding read_limits_def read_scalar_def by (intro io_rules io_frames)+

lemma write_ordered_frame [io_frames]: "stays io_only (write_ordered sys t c d)"
  unfolding write_ordered_def by (auto intro!: io_rules io_frames)

lemma write_frames [io_frames]:
  "stays io_only (write_scalar sys st v)" "stays io_only (reset_frequency_request sys t d)"
  unfolding write_scalar_def reset_frequency_request_def by (auto intro!: io_rules io_frames)

lemma settle_loop_frame: "io_only s (snd (settle_loop sys clk t req deadline s))"
proof (induction sys clk t req deadline s rule: settle_loop.induct)
  case (1 sys clk t req deadline s)
  obtain reading s1 where r: "read_limits sys t s = (reading, s1)" by fastforce
  obtain now s2 where n: "(instant_now clk s1 :: (actuator_error, nat) result \<times> _) = (now, s2)" by fastforce
  from r have s1: "io_only s s1" by (rule staysD [OF read_frames(1)])
  from n have "io_only s1 s2" by (rule staysD [OF instant_now_frame])
  with s1 have s2: "io_only s s2" by (rule io_frame.trans)
  show ?case
  proof (cases "settle_observation req reading")
    case (Inl v)
    then show ?thesis by (subst settle_loop.simps) (simp add: r s1)
  next
    case (Inr ob)
    let ?s3 = "snd (sleep_for (min FREQUENCY_SETTLE_POLL_INTERVAL (deadline - w_now s2)) s2 :: (actuator_error, unit) result \<times> _)"
    have "io_only s2 ?s3" by (simp add: io_only_def sleep_for_def act_simps)
    with s2 have s3: "io_only s ?s3" by (rule io_frame.trans)
    show ?thesis
    proof (cases "deadline \<le> w_now s2")
      case True
      then show ?thesis by (subst settle_loop.simps) (simp add: r n Inr s2)
    next
      case False
      from 1 [OF r [symmetric] Inr n [symmetric] False] have "io_only ?s3 (snd (settle_loop sys clk t req deadline ?s3))" .
      with s3 have "io_only s (snd (settle_loop sys clk t req deadline ?s3))" by (rule io_frame.trans)
      with False show ?thesis by (subst settle_loop.simps) (simp add: r n Inr)
    qed
  qed
qed

lemma wait_frame [io_frames]: "stays io_only (wait_for_limits sys clk t req)"
proof -
  have "stays io_only (settle_loop sys clk t req deadline)" for deadline
    by (simp add: stays_def settle_loop_frame)
  then show ?thesis unfolding wait_for_limits_def by (intro io_rules io_frames)
qed

lemma request_frames [io_frames]:
  "stays io_only (apply_requested_limits sys clk t c d)" "stays io_only (restore_frequency_request sys clk t d)"
  unfolding apply_requested_limits_def restore_frequency_request_def by (intro io_rules io_frames)+

lemma report_frame [io_frames]: "stays io_only (report_failures fs)"
  by (simp add: report_failures_def io_rules)

lemma rollback_frequency_frame [io_frames]: "stays io_only (rollback_frequency_requests sys clk prepared attempted)"
  unfolding rollback_frequency_requests_def Let_def
  by (intro io_rules io_frames; auto intro!: io_rules io_frames split: sum.splits)

lemma rollback_scalars_frame [io_frames]: "stays io_only (rollback_scalars sys prepared attempted)"
  unfolding rollback_scalars_def Let_def
  by (intro io_rules io_frames; auto intro!: io_rules io_frames split: sum.splits)

lemma persist_frames [io_frames]: "stays io_only (persist_journal A)" "stays io_only (persist_or_remove_journal A)"
  unfolding persist_or_remove_journal_def persist_journal_def by (auto intro!: io_rules io_frames)

lemma ready_frame [io_frames]: "stays io_only ensure_mutation_ready"
  by (simp add: stays_def ensure_mutation_ready_def io_only_def)

lemma prepare_frequency_frame [io_frames]: "stays io_only (prepare_frequency A acc r)"
  unfolding prepare_frequency_def Let_def by (auto intro!: io_rules io_frames split: prod.splits)

lemma prepare_owned_frame [io_frames]: "stays io_only (prepare_owned A acc r)"
  unfolding prepare_owned_def Let_def by (auto intro!: io_rules io_frames split: prod.splits)

lemma prepare_scalar_frame [io_frames]: "stays io_only (prepare_scalar A acc r)"
  unfolding prepare_scalar_def Let_def by (auto intro!: io_rules io_frames split: prod.splits option.splits)

lemma process_current_frame [io_frames]: "stays io_only (process_identity_is_current pr i)"
  unfolding process_identity_is_current_def
  by (auto intro!: io_rules io_frames split: sum.splits platform_error.splits)

lemma unit_current_frame [io_frames]: "stays io_only (unit_instance_is_current sd u)"
  unfolding unit_instance_is_current_def
  by (auto intro!: io_rules io_frames split: sum.splits platform_error.splits)

lemma verify_frames [io_frames]: "stays io_only (verify_process_identity pr i)" "stays io_only (verify_unit_instance sd u)"
  unfolding verify_process_identity_def verify_unit_instance_def by (auto intro!: io_rules io_frames)

lemma require_some_frame [io_frames]: "stays io_only (require_some e x)"
  by (simp add: require_some_def io_rules)

lemma record_failure_frame [io_frames]: "stays io_only (record_task_rollback_failure_if_present pr i f fs)"
  unfolding record_task_rollback_failure_if_present_def
  by (auto intro!: io_rules io_frames split: sum.splits platform_error.splits)

lemma rollback_task_write_frame [io_frames]: "stays io_only (rollback_task_write pc pr i m r b fs)"
  unfolding rollback_task_write_def by (auto intro!: io_rules io_frames split: sum.splits)

lemma rollback_task_frame [io_frames]: "stays io_only (rollback_task pc pr fs x)"
  unfolding rollback_task_def Let_def by (auto intro!: io_rules io_frames split: sum.splits bool.splits prod.splits)

lemma rollback_unit_frame [io_frames]: "stays io_only (rollback_unit sd fs x)"
  unfolding rollback_unit_def Let_def by (auto intro!: io_rules io_frames split: sum.splits bool.splits prod.splits)

lemma rollback_owned_frames [io_frames]:
  "stays io_only (rollback_tasks pc pr prepared attempted)" "stays io_only (rollback_units sd uprepared uattempted)"
  unfolding rollback_tasks_def rollback_units_def by (intro io_rules io_frames)+

lemma observe_frames [io_frames]: "stays io_only (observe_task pc pr acc r)" "stays io_only (observe_unit sd acc2 r2)"
  unfolding observe_task_def observe_unit_def by (auto intro!: io_rules io_frames split: prod.splits)

lemma recover_owned_frames [io_frames]: "stays io_only (recover_task pc pr e)" "stays io_only (recover_unit sd u)"
  unfolding recover_task_def recover_unit_def Let_def by (auto intro!: io_rules io_frames split: sum.splits)

lemma recover_locked_frames [io_frames]: "stays io_only (recover_tasks_locked A)" "stays io_only (recover_units_locked A)"
  unfolding recover_tasks_locked_def recover_units_locked_def by (auto intro!: io_rules io_frames)

section \<open>Journal updates\<close>

named_theorems journal_frames \<open>operations that leave the mode alone\<close>

lemma upd_journal_frame [journal_frames]: "stays journal_only (upd_journal f)"
  by (simp add: stays_def upd_journal_def journal_only_def act_simps)

lemma runs_upd_journal: "(\<And>s. P s \<Longrightarrow> Q () (s\<lparr>m_journal := f (m_journal s)\<rparr>)) \<Longrightarrow> runs P (upd_journal f) Q E"
  unfolding upd_journal_def by (rule runs_modify)

lemma owned_frames [journal_frames]: "stays journal_only (owned_entry m)" "stays journal_only (update_owned m f)"
  unfolding update_owned_def owned_entry_def by (intro journal_rules journal_frames)+

lemma write_frequencies_frame [journal_frames]: "stays journal_only (write_frequencies A applied attempted ms)"
  by (induction A applied attempted ms rule: write_frequencies.induct)
    (auto intro!: journal_rules journal_frames stays_journal [OF request_frames(1)] split: sum.splits)

lemma write_owned_frame [journal_frames]: "stays journal_only (write_owned A applied attempted ms)"
  by (induction A applied attempted ms rule: write_owned.induct)
    (auto intro!: journal_rules journal_frames stays_journal [OF request_frames(1)] split: sum.splits)

lemma write_scalars_frame [journal_frames]: "stays journal_only (write_scalars A applied attempted ms)"
  by (induction A applied attempted ms rule: write_scalars.induct)
    (auto intro!: journal_rules journal_frames stays_journal [OF write_frames(1)] split: sum.splits)

lemma write_tasks_frame [journal_frames]: "stays journal_only (write_tasks pc pr prepared applied attempted rs)"
  by (induction pc pr prepared applied attempted rs rule: write_tasks.induct)
    (auto simp: Let_def intro!: journal_rules journal_frames stays_journal [OF verify_frames(1)]
       stays_journal [OF io_call_frame(1)] split: sum.splits)

lemma write_units_frame [journal_frames]: "stays journal_only (write_units sd prepared applied attempted rs)"
  by (induction sd prepared applied attempted rs rule: write_units.induct)
    (auto simp: Let_def intro!: journal_rules journal_frames stays_journal [OF verify_frames(2)]
       stays_journal [OF io_call_frame(1)] split: sum.splits)

end
