(* ===== verification/Actuator_Demo.thy ===== *)
theory Actuator_Demo
  imports Actuator_Recovery "HOL-Library.Code_Target_Nat"
begin

text \<open>
  A small machine on which the theorems about the actuator are applied: one frequency target and one scalar
  target, whose attributes are files; a disk that holds at most one journal; a clock that moves by a
  microsecond with every reading; and an encoder of journals that knows the journals of a table by their
  position, as \<open>serde_json\<close> and \<open>crc32fast\<close> are parameters of the model.
\<close>

section \<open>Ports\<close>

record demo_env =
  de_files :: "(path_buf \<times> string) list"
  de_disk :: "string option"
  de_stuck :: bool

definition demo_io :: "demo_env sysfs_io" where
  "demo_io =
     \<lparr>read_string = (\<lambda>p w. (case map_of (de_files w) p of None \<Rightarrow> Inl (PlatformIo ''read'' p ''not found'') | Some v \<Rightarrow> Inr v, w)),
      write_string = (\<lambda>p v w. if de_stuck w then (Inl (PlatformIo ''write'' p ''busy''), w)
        else (Inr (), w\<lparr>de_files := (p, v) # de_files w\<rparr>))\<rparr>"

definition demo_store :: "demo_env state_store" where
  "demo_store =
     \<lparr>store_load = (\<lambda>w. (Inr (de_disk w), w)),
      store_durable = (\<lambda>b w. (Inr (), w\<lparr>de_disk := Some b\<rparr>)),
      remove_durable = (\<lambda>w. (Inr (), w\<lparr>de_disk := None\<rparr>))\<rparr>"

fun table_index :: "'a \<Rightarrow> 'a list \<Rightarrow> nat option" where
  "table_index x [] = None"
| "table_index x (y # ys) = (if y = x then Some 0 else map_option Suc (table_index x ys))"

lemma table_index_Some: "table_index x ys = Some n \<Longrightarrow> n < length ys \<and> ys ! n = x"
  by (induction ys arbitrary: n) (auto split: if_splits)

definition table_codec :: "journal list \<Rightarrow> journal_codec" where
  "table_codec js =
     \<lparr>journal_to_vec = (\<lambda>j. case table_index j js of None \<Rightarrow> Inl ''unknown journal'' | Some n \<Rightarrow> Inr (replicate n CHR ''*'')),
      journal_from_slice = (\<lambda>b. if length b < length js then Inr (js ! length b) else Inl ''no such journal''),
      envelope_to_vec = (\<lambda>e. if ev_checksum e = 0 then Inr (ev_payload e) else Inl ''bad checksum''),
      envelope_from_slice = (\<lambda>b. Inr \<lparr>ev_payload = b, ev_checksum = 0\<rparr>),
      crc32 = (\<lambda>_. 0)\<rparr>"

lemma table_codec_round_trips: "codec_round_trips (table_codec js)"
  by (auto simp: codec_round_trips_def table_codec_def dest: table_index_Some split: option.splits if_splits)

section \<open>The actuator\<close>

definition demo_min_path :: path_buf where "demo_min_path = [RootDir, Normal ''sys'', Normal ''min'']"
definition demo_max_path :: path_buf where "demo_max_path = [RootDir, Normal ''sys'', Normal ''max'']"
definition demo_scalar_path :: path_buf where "demo_scalar_path = [RootDir, Normal ''sys'', Normal ''boost'']"

definition demo_target :: frequency_target where
  "demo_target =
     \<lparr>ft_id = ''cpu0'', ft_min_path = demo_min_path, ft_max_path = demo_max_path, ft_hardware_min = 1, ft_hardware_max = 3,
      ft_opps = [1, 2, 3], ft_hertz_per_unit = 1\<rparr>"

definition demo_scalar :: actuator_scalar_target where
  "demo_scalar = \<lparr>st_id = ''boost'', st_path = demo_scalar_path, st_domain = DomStringEnum [''off'', ''on'']\<rparr>"

definition demo_registry :: target_registry where
  "demo_registry = \<lparr>rg_targets = [(''cpu0'', demo_target)], rg_scalar_targets = [(''boost'', demo_scalar)]\<rparr>"

definition demo_actuator :: "journal list \<Rightarrow> demo_env actuator" where
  "demo_actuator js =
     \<lparr>ac_io = demo_io, ac_store = demo_store, ac_clock = (\<lambda>w. (1000, w)), ac_codec = table_codec js,
      ac_registry = demo_registry, ac_boot_id = ''boot'', ac_device_fingerprint = ''device'',
      ac_proc_reader = None, ac_process_controller = None, ac_systemd = None\<rparr>"

definition demo_files :: "(path_buf \<times> string) list" where
  "demo_files = [(demo_min_path, ''1''), (demo_max_path, ''3''), (demo_scalar_path, ''off'')]"

definition demo_world :: "string option \<Rightarrow> bool \<Rightarrow> demo_env world" where
  "demo_world disk stuck = \<lparr>w_env = \<lparr>de_files = demo_files, de_disk = disk, de_stuck = stuck\<rparr>, w_now = 0\<rparr>"

section \<open>The journals of a transaction\<close>

text \<open>The target is claimed for 1..2 Hz: the journal before and after the attributes are written, and when they are to be given back.\<close>

definition demo_request :: "frequency_request list" where
  "demo_request = [\<lparr>fr_target = ''cpu0'', fr_limits = \<lparr>min_hz = 1, max_hz = 2\<rparr>\<rparr>]"

definition demo_entry :: "frequency_limits \<Rightarrow> frequency_limits \<Rightarrow> frequency_limits list \<Rightarrow> journal_entry" where
  "demo_entry applied desired pairs =
     \<lparr>je_target = ''cpu0'', je_min_path = demo_min_path, je_max_path = demo_max_path,
      je_resource_manifest = FrequencyPairManifest (recovery_manifest demo_target),
      je_original = \<lparr>min_hz = 1, max_hz = 3\<rparr>, je_desired = desired, je_applied = applied, je_legal_pairs = pairs\<rparr>"

definition demo_journal :: "u64 \<Rightarrow> (target_id, journal_entry) btree \<Rightarrow> journal" where
  "demo_journal generation entries =
     \<lparr>jn_schema_version = JOURNAL_SCHEMA_VERSION, jn_boot_id = ''boot'', jn_device_fingerprint = ''device'',
      jn_generation = generation, jn_entries = entries, jn_scalars = [], jn_tasks = [], jn_units = []\<rparr>"

definition demo_journals :: "journal list" where
  "demo_journals =
     (let wide = \<lparr>min_hz = 1, max_hz = 3\<rparr>; narrow = \<lparr>min_hz = 1, max_hz = 2\<rparr>
      in map (\<lambda>e. demo_journal 1 [(''cpu0'', e)])
           [demo_entry wide narrow [wide, narrow], demo_entry narrow narrow [narrow], demo_entry narrow wide [narrow, wide]])"

abbreviation demo :: "demo_env actuator" where
  "demo \<equiv> demo_actuator demo_journals"

definition demo_degraded :: "demo_env machine" where
  "demo_degraded = machine_of (demo_world None False) (ReadOnlyDegraded (MStr ''lost''), empty_journal demo 0, True)"

definition demo_scheduling :: "i8 \<Rightarrow> scheduling_state" where
  "demo_scheduling n =
     \<lparr>ss_affinity = [0], ss_nice = n, ss_policy = Other, ss_rt_priority = None, ss_uclamp_min = None, ss_uclamp_max = None\<rparr>"

text \<open>A task whose nice value the actuator set to 3 and somebody else set to 5.\<close>

definition demo_task :: task_journal_entry where
  "demo_task =
     \<lparr>tj_identity = ProcessIdentity 7 1 0, tj_original = demo_scheduling 0,
      tj_desired = demo_scheduling 3, tj_applied = demo_scheduling 3,
      tj_owned = task_mask_changed (demo_scheduling 0) (demo_scheduling 3), tj_relinquished = task_mask_default\<rparr>"

end
