(* ===== verification/Actuator_Safety.thy ===== *)
theory Actuator_Safety
  imports Actuator_Frames Actuator_Demo
begin

text \<open>
  What the transactions of the actuator promise: a degraded actuator, or one whose startup journal is
  not recovered, changes nothing; a transaction that fails leaves the journal as it was or degrades;
  a window is reported as applied only after the kernel showed it; the ordered writes pass only through
  windows the journal lists; recovery ends in an empty journal or in a degraded actuator.
\<close>

section \<open>Outcomes of a failed method\<close>

definition degraded_by :: "actuator_error \<Rightarrow> 'w machine \<Rightarrow> bool" where
  "degraded_by e t = (\<exists>r. e = DegradedError r \<and> m_mode t = ReadOnlyDegraded r)"

definition locked_state :: "actuator_mode \<Rightarrow> bool \<Rightarrow> journal \<Rightarrow> 'w machine \<Rightarrow> bool" where
  "locked_state M R J t = (m_mode t = M \<and> m_recovery_required t = R \<and> m_journal t = J)"

lemma locked_state_io: "locked_state M R J s \<Longrightarrow> io_only s t \<Longrightarrow> locked_state M R J t"
  by (simp add: locked_state_def io_only_def)

lemma locked_stateI: "locked_state (m_mode s) (m_recovery_required s) (m_journal s) s"
  by (simp add: locked_state_def)

lemma runs_io: "stays io_only m \<Longrightarrow> runs (locked_state M R J) m (\<lambda>_. locked_state M R J) (\<lambda>_. locked_state M R J)"
  by (erule runs_stays) (rule locked_state_io)

lemma runs_io_or:
  "stays io_only m \<Longrightarrow> runs (locked_state M R J) m (\<lambda>_. locked_state M R J) (\<lambda>e t. X e t \<or> locked_state M R J t)"
  by (rule runs_post [OF runs_io]) auto

lemma runs_fact: "(c \<Longrightarrow> runs P m Q E) \<Longrightarrow> runs (\<lambda>s. c \<and> P s) m (\<lambda>a s. c \<and> Q a s) E"
  by (cases c) (auto simp: runs_def split: prod.splits sum.splits)

lemma runs_given: "(c \<Longrightarrow> runs P m Q E) \<Longrightarrow> runs (\<lambda>s. c \<and> P s) m Q E"
  by (cases c) (auto simp: runs_def)

lemma own_rollback_frames [io_frames]:
  "stays io_only (frequency_rollback A prepared attempted)" "stays io_only (scalar_rollback A sprepared attempted)"
  by (simp_all add: frequency_rollback_def scalar_rollback_def io_frames)

lemma runs_degrade: "runs P (degrade_locked r) Q degraded_by"
  by (simp add: runs_def degrade_locked_def degraded_by_def act_simps bind_act_def)

lemma runs_persist_locked:
  "runs (locked_state M R J) (persist_or_remove_locked A op) (\<lambda>_. locked_state M R J) degraded_by"
  unfolding persist_or_remove_locked_def
  apply (rule runs_bind)
   apply (rule runs_attempt [OF runs_io [OF persist_frames(2)], where R = "\<lambda>_. locked_state M R J"])
    apply simp_all
  by (auto intro!: runs_ret runs_degrade split: sum.splits)

lemma runs_abort:
  assumes "stays io_only rb" and "runs (locked_state M R J) fin Q E" and "\<And>e t. degraded_by e t \<Longrightarrow> E e t"
  shows "runs (\<lambda>s. m_mode s = M \<and> m_recovery_required s = R) (abort_transaction A rb J op f g fin) Q E"
proof -
  let ?P = "\<lambda>s. m_mode s = M \<and> m_recovery_required s = R"
  have d: "runs P (degrade_locked r) Q E" for P r
    by (rule runs_post [OF runs_degrade]) (auto intro: assms(3))
  have rb: "runs ?P (attempt rb) (\<lambda>_. ?P) E"
    by (rule runs_attempt [OF runs_stays [OF assms(1), where P = ?P and Q = ?P]]) (auto simp: io_only_def)
  have upd: "runs ?P (upd_journal (\<lambda>_. J)) (\<lambda>_. locked_state M R J) E"
    by (rule runs_upd_journal) (simp add: locked_state_def)
  have per: "runs (locked_state M R J) (attempt (persist_or_remove_locked A op))
      (\<lambda>r s. case r of Inr _ \<Rightarrow> locked_state M R J s | Inl _ \<Rightarrow> True) E"
    by (rule runs_attempt [OF runs_persist_locked]) auto
  show ?thesis
    unfolding abort_transaction_def
    apply (rule runs_bind [OF rb])
    subgoal for r
      apply (cases r)
      subgoal by (simp add: d)
      subgoal
        apply simp
        apply (rule runs_bind [OF upd])
        apply (rule runs_bind [OF per])
        subgoal for _ p by (cases p) (simp_all add: d assms(2))
        done
      done
    done
qed

section \<open>A degraded actuator is inert\<close>

lemma not_ready:
  "m_mode s = ReadOnlyDegraded r \<Longrightarrow> bind_act ensure_mutation_ready f s = (Inl (DegradedError r), s)"
  "m_mode s = ReadWrite \<Longrightarrow> m_recovery_required s \<Longrightarrow> bind_act ensure_mutation_ready f s = (Inl RecoveryRequired, s)"
  by (simp_all add: bind_act_def ensure_mutation_ready_def ensure_read_write_def)

text \<open>
  C17: once the actuator is read-only degraded, every method that could change the machine (the five
  transactions, the restorations and recovery) fails with the reason of the degradation, calls no port
  and changes nothing; so the mode can never return to read-write. Until the journal found at startup is
  recovered, every one of them but recovery fails the same way.
\<close>

theorem unsafe_actuator_is_inert:
  fixes s :: "'w machine"
  assumes "m_mode s = ReadOnlyDegraded r \<and> e = DegradedError r
    \<or> m_mode s = ReadWrite \<and> m_recovery_required s \<and> e = RecoveryRequired"
  shows "apply_batch A fs s = (Inl e, s) \<and> apply_owned_batch_fast A fs s = (Inl e, s)
      \<and> apply_scalars A ss s = (Inl e, s) \<and> apply_tasks A ts s = (Inl e, s)
      \<and> apply_units A us s = (Inl e, s) \<and> restore_targets A fids s = (Inl e, s)
      \<and> restore_scalars A sids s = (Inl e, s) \<and> restore_tasks A tids s = (Inl e, s)
      \<and> restore_units A uids s = (Inl e, s) \<and> restore_all A s = (Inl e, s)
      \<and> (m_mode s \<noteq> ReadWrite \<longrightarrow> recover_pending A s = (Inl e, s))"
proof -
  have refused: "bind_act ensure_mutation_ready f s = (Inl e, s)" for f :: "unit \<Rightarrow> ('w, 'a) meth"
    using assms not_ready [of s] by auto
  have rt: "restore_targets A ids s = (Inl e, s)" for ids
    unfolding restore_targets_def by (rule refused)
  then have "restore_all A s = (Inl e, s)"
    by (simp add: restore_all_def bind_act_def [of "restore_targets A x" for x])
  moreover have "m_mode s \<noteq> ReadWrite \<longrightarrow> recover_pending A s = (Inl e, s)"
    using assms by (auto simp: recover_pending_def bind_of_result ensure_read_write_def)
  ultimately show ?thesis
    using rt by (simp add: apply_batch_def apply_owned_batch_fast_def apply_scalars_def apply_tasks_def apply_units_def
      restore_scalars_def restore_tasks_def restore_units_def refused)
qed

theorem unsafe_actuator_is_inert_witness:
  "apply_batch demo demo_request demo_degraded = (Inl (DegradedError (MStr ''lost'')), demo_degraded)
   \<and> restore_all demo demo_degraded = (Inl (DegradedError (MStr ''lost'')), demo_degraded)
   \<and> recover_pending demo demo_degraded = (Inl (DegradedError (MStr ''lost'')), demo_degraded)"
  using unsafe_actuator_is_inert [of demo_degraded "MStr ''lost''" "DegradedError (MStr ''lost'')" demo demo_request]
  by (simp add: demo_degraded_def machine_of_def)

section \<open>The write loops\<close>

text \<open>
  A write loop never fails by itself: it returns what it applied, what it attempted and the failure
  that broke it. An invariant that every single write keeps is kept by the loop.
\<close>

lemma runs_write_frequencies:
  assumes "\<And>i m. (i, m) \<in> set ms \<Longrightarrow> pf_needs_write m \<Longrightarrow>
    runs I (apply_requested_limits (ac_io A) (ac_clock A) (pf_target m) (pf_previous_request m) (pf_desired_request m))
      (\<lambda>actual s. I (s\<lparr>m_journal := (m_journal s)\<lparr>jn_entries :=
         bt_get_mut (ft_id (pf_target m)) (settled actual) (jn_entries (m_journal s))\<rparr>\<rparr>)) (\<lambda>_. I)"
  shows "runs I (write_frequencies A applied attempted ms) (\<lambda>_. I) E"
  using assms
proof (induction ms arbitrary: applied attempted)
  case Nil
  show ?case by (simp add: runs_ret)
next
  case (Cons x ms)
  obtain i m where x: "x = (i, m)" by fastforce
  have rest: "runs I (write_frequencies A ap att ms) (\<lambda>_. I) E" for ap att
    by (rule Cons.IH, rule Cons.prems) auto
  show ?case
  proof (cases "pf_needs_write m")
    case False
    with rest show ?thesis by (simp add: x)
  next
    case True
    have step: "runs I (attempt (apply_requested_limits (ac_io A) (ac_clock A) (pf_target m) (pf_previous_request m) (pf_desired_request m)))
        (\<lambda>r s. case r of Inr actual \<Rightarrow> I (s\<lparr>m_journal := (m_journal s)\<lparr>jn_entries :=
         bt_get_mut (ft_id (pf_target m)) (settled actual) (jn_entries (m_journal s))\<rparr>\<rparr>) | Inl _ \<Rightarrow> I s) E"
      by (rule runs_attempt [OF Cons.prems [of i m]]) (simp_all add: True x)
    show ?thesis
      unfolding x write_frequencies.simps using True
      by (auto intro!: runs_bind [OF step] runs_ret runs_bind [where Q = "\<lambda>_. I"] rest
          runs_upd_journal split: sum.splits)
  qed
qed

lemma runs_write_scalars:
  assumes "\<And>i m. (i, m) \<in> set ms \<Longrightarrow> ps_needs_write m \<Longrightarrow>
    runs I (write_scalar (ac_io A) (ps_target m) (ps_desired m))
      (\<lambda>actual s. I (s\<lparr>m_journal := (m_journal s)\<lparr>jn_scalars :=
         bt_get_mut (st_id (ps_target m)) (\<lambda>e. e\<lparr>sj_applied := actual, sj_desired := actual\<rparr>) (jn_scalars (m_journal s))\<rparr>\<rparr>)) (\<lambda>_. I)"
  shows "runs I (write_scalars A applied attempted ms) (\<lambda>_. I) E"
  using assms
proof (induction ms arbitrary: applied attempted)
  case Nil
  show ?case by (simp add: runs_ret)
next
  case (Cons x ms)
  obtain i m where x: "x = (i, m)" by fastforce
  have rest: "runs I (write_scalars A ap att ms) (\<lambda>_. I) E" for ap att
    by (rule Cons.IH, rule Cons.prems) auto
  show ?case
  proof (cases "ps_needs_write m")
    case False
    with rest show ?thesis by (simp add: x)
  next
    case True
    have step: "runs I (attempt (write_scalar (ac_io A) (ps_target m) (ps_desired m)))
        (\<lambda>r s. case r of Inr actual \<Rightarrow> I (s\<lparr>m_journal := (m_journal s)\<lparr>jn_scalars :=
         bt_get_mut (st_id (ps_target m)) (\<lambda>e. e\<lparr>sj_applied := actual, sj_desired := actual\<rparr>) (jn_scalars (m_journal s))\<rparr>\<rparr>)
         | Inl _ \<Rightarrow> I s) E"
      by (rule runs_attempt [OF Cons.prems [of i m]]) (simp_all add: True x)
    show ?thesis
      unfolding x write_scalars.simps using True
      by (auto intro!: runs_bind [OF step] runs_ret runs_bind [where Q = "\<lambda>_. I"] rest
          runs_upd_journal split: sum.splits)
  qed
qed

section \<open>Transactions that fail\<close>

definition all_or_nothing :: "'w machine \<Rightarrow> actuator_error \<Rightarrow> 'w machine \<Rightarrow> bool" where
  "all_or_nothing s e t = (degraded_by e t \<or> locked_state (m_mode s) (m_recovery_required s) (m_journal s) t)"

definition mode_is :: "actuator_mode \<Rightarrow> bool \<Rightarrow> 'w machine \<Rightarrow> bool" where
  "mode_is M R s = (m_mode s = M \<and> m_recovery_required s = R)"

lemma mode_rules:
  "runs (mode_is M R) (attempt (persist_journal A)) (\<lambda>_. mode_is M R) E"
  "runs (mode_is M R) (upd_journal f) (\<lambda>_. mode_is M R) E"
  "runs (mode_is M R) (write_frequencies A ap att ms) (\<lambda>_. mode_is M R) E"
  "runs (mode_is M R) (write_scalars A sap att sms) (\<lambda>_. mode_is M R) E"
proof -
  show "runs (mode_is M R) (attempt (persist_journal A)) (\<lambda>_. mode_is M R) E"
    by (rule runs_attempt [OF runs_stays [OF persist_frames(1), where P = "mode_is M R" and Q = "mode_is M R"]])
      (auto simp: io_only_def mode_is_def)
  show "runs (mode_is M R) (upd_journal f) (\<lambda>_. mode_is M R) E"
    by (rule runs_upd_journal) (simp add: mode_is_def)
  show "runs (mode_is M R) (write_frequencies A ap att ms) (\<lambda>_. mode_is M R) E"
    by (rule runs_write_frequencies, rule runs_post [OF runs_stays [OF request_frames(1), where P = "mode_is M R" and Q = "mode_is M R"]])
      (auto simp: io_only_def mode_is_def)
  show "runs (mode_is M R) (write_scalars A sap att sms) (\<lambda>_. mode_is M R) E"
    by (rule runs_write_scalars, rule runs_post [OF runs_stays [OF write_frames(1), where P = "mode_is M R" and Q = "mode_is M R"]])
      (auto simp: io_only_def mode_is_def)
qed

lemma runs_finish_batch:
  "runs (mode_is M R) (finish_batch A prepared J res) (\<lambda>_. mode_is M R) (\<lambda>e t. degraded_by e t \<or> locked_state M R J t)"
proof -
  obtain applied attempted failure where res: "res = (applied, attempted, failure)" by (cases res)
  have rb: "stays io_only (frequency_rollback A prepared attempted)"
    by (simp add: frequency_rollback_def io_frames)
  show ?thesis
    unfolding finish_batch_def res
    by (auto intro!: runs_abort [OF rb, folded mode_is_def] runs_throw runs_bind [OF mode_rules(1)] runs_ret
        runs_post [OF runs_degrade] split: option.splits prod.splits sum.splits)
qed

lemma runs_finish_scalars:
  "runs (mode_is M R) (finish_scalars A prepared J res) (\<lambda>_. mode_is M R) (\<lambda>e t. degraded_by e t \<or> locked_state M R J t)"
proof -
  obtain applied attempted failure where res: "res = (applied, attempted, failure)" by (cases res)
  have rb: "stays io_only (scalar_rollback A prepared attempted)"
    by (simp add: scalar_rollback_def io_frames)
  show ?thesis
    unfolding finish_scalars_def res
    by (auto intro!: runs_abort [OF rb, folded mode_is_def] runs_throw runs_bind [OF mode_rules(1)] runs_ret
        runs_post [OF runs_degrade] split: option.splits prod.splits sum.splits)
qed

lemma locked_mode: "locked_state M R J s \<Longrightarrow> mode_is M R s"
  by (simp add: locked_state_def mode_is_def)

lemma runs_commit_batch:
  "runs (locked_state M R J) (commit_batch A prepared) (\<lambda>_. mode_is M R) (\<lambda>e t. degraded_by e t \<or> locked_state M R J t)"
proof -
  have get: "runs (locked_state M R J) (get_act m_journal) (\<lambda>j s. j = J \<and> mode_is M R s) E" for E
    by (rule runs_get) (simp add: locked_state_def mode_is_def)
  have pre: "runs (\<lambda>s. j = J \<and> mode_is M R s) (upd_journal f) (\<lambda>_ s. j = J \<and> mode_is M R s) E" for f j E
    by (rule runs_upd_journal) (simp add: mode_is_def)
  have per: "runs (\<lambda>s. j = J \<and> mode_is M R s) (attempt (persist_journal A)) (\<lambda>_ s. j = J \<and> mode_is M R s) E"
    for j and E :: "actuator_error \<Rightarrow> _"
    by (rule runs_fact [OF mode_rules(1)])
  have wr: "runs (\<lambda>s. j = J \<and> mode_is M R s) (write_frequencies A [] [] ms) (\<lambda>_ s. j = J \<and> mode_is M R s) E" for j ms E
    by (rule runs_fact [OF mode_rules(3)])
  have fin: "runs (\<lambda>s. j = J \<and> mode_is M R s) (finish_batch A prepared j res) (\<lambda>_. mode_is M R)
      (\<lambda>e t. degraded_by e t \<or> locked_state M R J t)" for j res
    using runs_finish_batch [of M R A prepared J res] by (cases "j = J") (simp_all add: runs_def)
  show ?thesis
    unfolding commit_batch_def
    by (rule runs_bind [OF get], rule runs_bind [OF pre], rule runs_bind [OF per])
      (auto intro!: runs_bind [OF pre] runs_post [OF runs_degrade] runs_bind [OF wr] fin split: sum.splits)
qed

lemma runs_commit_scalars:
  "runs (locked_state M R J) (commit_scalars A prepared) (\<lambda>_. mode_is M R) (\<lambda>e t. degraded_by e t \<or> locked_state M R J t)"
proof -
  have get: "runs (locked_state M R J) (get_act m_journal) (\<lambda>j s. j = J \<and> mode_is M R s) E" for E
    by (rule runs_get) (simp add: locked_state_def mode_is_def)
  have pre: "runs (\<lambda>s. j = J \<and> mode_is M R s) (upd_journal f) (\<lambda>_ s. j = J \<and> mode_is M R s) E" for f j E
    by (rule runs_upd_journal) (simp add: mode_is_def)
  have per: "runs (\<lambda>s. j = J \<and> mode_is M R s) (attempt (persist_journal A)) (\<lambda>_ s. j = J \<and> mode_is M R s) E"
    for j and E :: "actuator_error \<Rightarrow> _"
    by (rule runs_fact [OF mode_rules(1)])
  have wr: "runs (\<lambda>s. j = J \<and> mode_is M R s) (write_scalars A [] [] ms) (\<lambda>_ s. j = J \<and> mode_is M R s) E" for j ms E
    by (rule runs_fact [OF mode_rules(4)])
  have fin: "runs (\<lambda>s. j = J \<and> mode_is M R s) (finish_scalars A prepared j res) (\<lambda>_. mode_is M R)
      (\<lambda>e t. degraded_by e t \<or> locked_state M R J t)" for j res
    using runs_finish_scalars [of M R A prepared J res] by (cases "j = J") (simp_all add: runs_def)
  show ?thesis
    unfolding commit_scalars_def
    by (rule runs_bind [OF get], rule runs_bind [OF pre], rule runs_bind [OF per])
      (auto intro!: runs_bind [OF pre] runs_post [OF runs_degrade] runs_bind [OF wr] fin split: sum.splits)
qed

lemma runs_apply_batch:
  "runs (locked_state M R J) (apply_batch A requests) (\<lambda>_. mode_is M R) (\<lambda>e t. degraded_by e t \<or> locked_state M R J t)"
proof -
  have prep: "stays io_only (gather (prepare_frequency A) ([], []) requests)"
    by (intro io_rules io_frames)
  show ?thesis
    unfolding apply_batch_def
    by (rule runs_bind [OF runs_io_or [OF ready_frame]])
      (auto intro!: runs_ret runs_bind [OF runs_io_or [OF prep]] runs_commit_batch dest: locked_mode split: prod.splits)
qed

lemma runs_apply_scalars:
  "runs (locked_state M R J) (apply_scalars A requests) (\<lambda>_. mode_is M R) (\<lambda>e t. degraded_by e t \<or> locked_state M R J t)"
proof -
  have prep: "stays io_only (gather (prepare_scalar A) ([], []) requests)"
    by (intro io_rules io_frames)
  show ?thesis
    unfolding apply_scalars_def
    by (rule runs_bind [OF runs_io_or [OF ready_frame]])
      (auto intro!: runs_ret runs_bind [OF runs_io_or [OF prep]] runs_commit_scalars dest: locked_mode split: prod.splits)
qed

section \<open>Fast transactions\<close>

text \<open>
  What the fast path may change before it succeeds: the generation and the entries of the targets it
  writes, never which targets are owned.
\<close>

definition same_rest :: "journal \<Rightarrow> journal \<Rightarrow> bool" where
  "same_rest i j =
     (jn_schema_version i = jn_schema_version j \<and> jn_boot_id i = jn_boot_id j
      \<and> jn_device_fingerprint i = jn_device_fingerprint j \<and> jn_scalars i = jn_scalars j
      \<and> jn_tasks i = jn_tasks j \<and> jn_units i = jn_units j)"

definition owned_update :: "target_id set \<Rightarrow> 'w machine \<Rightarrow> 'w machine \<Rightarrow> bool" where
  "owned_update K s t =
     (mode_is (m_mode s) (m_recovery_required s) t \<and> same_rest (m_journal s) (m_journal t)
      \<and> map fst (jn_entries (m_journal t)) = map fst (jn_entries (m_journal s))
      \<and> (\<forall>k. k \<notin> K \<longrightarrow> bt_get (jn_entries (m_journal t)) k = bt_get (jn_entries (m_journal s)) k))"

interpretation owned_frame: frame "owned_update K" for K
  by unfold_locales (auto simp: owned_update_def mode_is_def same_rest_def)

lemma owned_update_io: "io_only s t \<Longrightarrow> owned_update K s t"
  by (simp add: owned_update_def mode_is_def io_only_def same_rest_def)

lemma stays_owned: "stays io_only m \<Longrightarrow> stays (owned_update K) m"
  by (erule stays_mono) (rule owned_update_io)

lemma bt_get_mut_keys: "map fst (bt_get_mut k f m) = map fst m"
  by (auto simp: bt_get_mut_def)

lemma bt_get_get_mut: "bt_get (bt_get_mut k f m) k' = (if k' = k then map_option f (bt_get m k) else bt_get m k')"
  by (induction m) (auto simp: bt_get_mut_def bt_get_Cons)

lemma owned_update_entry:
  "k \<in> K \<Longrightarrow> owned_update K s (s\<lparr>m_journal := (m_journal s)\<lparr>jn_entries := bt_get_mut k f (jn_entries (m_journal s))\<rparr>\<rparr>)"
  by (auto simp: owned_update_def mode_is_def same_rest_def bt_get_mut_keys bt_get_get_mut)

lemma owned_update_generation:
  "owned_update K s (s\<lparr>m_journal := (m_journal s)\<lparr>jn_generation := g\<rparr>\<rparr>)"
  by (simp add: owned_update_def mode_is_def same_rest_def)

definition owns :: "target_id set \<Rightarrow> 'w machine \<Rightarrow> bool" where
  "owns K s = (K \<subseteq> fst ` set (jn_entries (m_journal s)))"

lemma owns_update: "owned_update K s t \<Longrightarrow> owns L s \<Longrightarrow> owns L t"
proof -
  assume "owned_update K s t" and "owns L s"
  then have "map fst (jn_entries (m_journal t)) = map fst (jn_entries (m_journal s))"
    by (auto simp: owned_update_def)
  then have "fst ` set (jn_entries (m_journal t)) = fst ` set (jn_entries (m_journal s))"
    by (metis list.set_map)
  with \<open>owns L s\<close> show ?thesis by (simp add: owns_def)
qed

lemma runs_update_owned:
  assumes "ft_id (pf_target m) \<in> K"
  shows "runs (\<lambda>s. owned_update K s0 s \<and> owns K s0) (update_owned m f) (\<lambda>_ s. owned_update K s0 s \<and> owns K s0) E"
proof (rule runsI)
  fix s r t
  assume I: "owned_update K s0 s \<and> owns K s0"
  then have "owns K s" using owns_update by blast
  then obtain e where e: "bt_get (jn_entries (m_journal s)) (ft_id (pf_target m)) = Some e"
    using assms by (auto simp: owns_def bt_get_def) (metis map_of_eq_None_iff not_None_eq subsetD)
  let ?u = "s\<lparr>m_journal := (m_journal s)\<lparr>jn_entries := bt_get_mut (ft_id (pf_target m)) f (jn_entries (m_journal s))\<rparr>\<rparr>"
  have run: "update_owned m f s = (Inr (), ?u)"
    by (simp add: update_owned_def owned_entry_def upd_journal_def bind_act_def act_simps e)
  have "owned_update K s0 ?u" using I owned_update_entry [OF assms] owned_frame.trans by blast
  { assume "update_owned m f s = (Inr r, t)"
    with run I \<open>owned_update K s0 ?u\<close> show "owned_update K s0 t \<and> owns K s0" by simp }
  { fix e assume "update_owned m f s = (Inl e, t)"
    with run show "E e t" by simp }
qed

lemma runs_write_owned:
  assumes "\<And>i m. (i, m) \<in> set ms \<Longrightarrow> pf_needs_write m \<Longrightarrow> ft_id (pf_target m) \<in> K"
  shows "runs (\<lambda>s. owned_update K s0 s \<and> owns K s0) (write_owned A applied attempted ms)
    (\<lambda>_ s. owned_update K s0 s \<and> owns K s0) E"
  using assms
proof (induction ms arbitrary: applied attempted)
  case Nil
  show ?case by (simp add: runs_ret)
next
  case (Cons x ms)
  let ?I = "\<lambda>s. owned_update K s0 s \<and> owns K s0"
  obtain i m where x: "x = (i, m)" by fastforce
  have rest: "runs ?I (write_owned A ap att ms) (\<lambda>_. ?I) E" for ap att
    by (rule Cons.IH, rule Cons.prems) auto
  have step: "runs ?I (attempt (apply_requested_limits (ac_io A) (ac_clock A) (pf_target m) (pf_before_effective m) (pf_desired_request m)))
      (\<lambda>_. ?I) E"
    by (rule runs_attempt [OF runs_stays [OF stays_owned [OF request_frames(1)], where P = ?I and Q = ?I]])
      (auto intro: owned_frame.trans)
  show ?case
    using Cons.prems [of i m] unfolding x write_owned.simps
    by (auto intro!: runs_bind [OF step] runs_ret runs_bind [OF runs_update_owned] rest split: sum.splits)
qed

lemma bt_eqI:
  assumes "bt_wf m" and "bt_wf n" and "bt_get m = bt_get n"
  shows "m = n"
proof -
  have "map_of m = map_of n" using assms(3) by (simp add: fun_eq_iff bt_get_def)
  then have "set (map fst m) = set (map fst n)" by (simp flip: dom_map_of_conv_image_fst)
  then have keys: "map fst m = map fst n"
    using assms(1,2) by (intro strict_sorted_equal) (simp_all add: bt_wf_def)
  have all: "x = map (\<lambda>k. (k, the (bt_get x k))) (map fst x)" if "bt_wf x" for x :: "('a \<times> 'b) list"
    unfolding map_map comp_def by (rule sym, rule map_idI) (auto dest: bt_wf_mem_get [OF that])
  have "m = map (\<lambda>k. (k, the (bt_get m k))) (map fst m)" using assms(1) by (rule all)
  also have "\<dots> = map (\<lambda>k. (k, the (bt_get n k))) (map fst n)" by (simp only: keys assms(3))
  also have "\<dots> = n" by (rule all [OF assms(2), symmetric])
  finally show ?thesis .
qed

lemma bt_wf_extend: "bt_wf m \<Longrightarrow> bt_wf (bt_extend m es)"
  unfolding bt_extend_def by (induction es arbitrary: m) (auto intro: bt_wf_insert)

lemma bt_get_extend:
  "bt_get (bt_extend m es) k = (case map_of (rev es) k of None \<Rightarrow> bt_get m k | Some v \<Rightarrow> Some v)"
  unfolding bt_extend_def
  by (induction es arbitrary: m) (auto simp: bt_get_insert map_add_def split: option.splits)

lemma restore_owned_entries:
  assumes "owned_update K s t" and "bt_wf (jn_entries (m_journal s))"
    and "\<And>k e. (k, e) \<in> set es \<Longrightarrow> bt_get (jn_entries (m_journal s)) k = Some e"
    and "K \<subseteq> fst ` set es"
  shows "(m_journal t)\<lparr>jn_generation := jn_generation (m_journal s), jn_entries := bt_extend (jn_entries (m_journal t)) es\<rparr> = m_journal s"
proof -
  have "bt_wf (jn_entries (m_journal t))" using assms(1,2) by (simp add: owned_update_def bt_wf_def)
  then have wf: "bt_wf (bt_extend (jn_entries (m_journal t)) es)" by (rule bt_wf_extend)
  have "bt_get (bt_extend (jn_entries (m_journal t)) es) k = bt_get (jn_entries (m_journal s)) k" for k
  proof (cases "map_of (rev es) k")
    case None
    then have "k \<notin> K" using assms(4) by (auto simp: map_of_eq_None_iff)
    with None assms(1) show ?thesis by (simp add: bt_get_extend owned_update_def)
  next
    case (Some e)
    then have "(k, e) \<in> set es" by (metis map_of_SomeD set_rev)
    with Some assms(3) show ?thesis by (simp add: bt_get_extend)
  qed
  then have "bt_extend (jn_entries (m_journal t)) es = jn_entries (m_journal s)"
    using wf assms(2) by (intro bt_eqI) auto
  with assms(1) show ?thesis by (auto simp: owned_update_def same_rest_def)
qed

text \<open>The loop that copies the entries the fast path will restore.\<close>

definition snapshot :: "(target_id \<times> journal_entry) list \<Rightarrow> prepared_frequency \<Rightarrow> ('w, (target_id \<times> journal_entry) list) meth" where
  "snapshot acc m = bind_act (owned_entry m) (\<lambda>entry. ret (acc @ [(ft_id (pf_target m), entry)]))"

lemma snapshot_run:
  "snapshot acc m s =
     (case bt_get (jn_entries (m_journal s)) (ft_id (pf_target m)) of
        None \<Rightarrow> (Inl (OwnershipRequired (ft_id (pf_target m))), s)
      | Some e \<Rightarrow> (Inr (acc @ [(ft_id (pf_target m), e)]), s))"
  by (simp add: snapshot_def owned_entry_def bind_act_def act_simps split: option.splits)

lemma gather_snapshot:
  "gather snapshot acc ms s = (r, t) \<Longrightarrow> t = s \<and> (\<forall>es. r = Inr es \<longrightarrow>
      (\<forall>(k, e) \<in> set es. (k, e) \<in> set acc \<or> bt_get (jn_entries (m_journal s)) k = Some e)
      \<and> fst ` set acc \<union> (\<lambda>m. ft_id (pf_target m)) ` set ms \<subseteq> fst ` set es)"
proof (induction ms arbitrary: acc)
  case Nil
  then show ?case by (auto simp: act_simps)
next
  case (Cons m ms)
  show ?case
  proof (cases "bt_get (jn_entries (m_journal s)) (ft_id (pf_target m))")
    case None
    with Cons.prems show ?thesis by (auto simp: bind_act_def snapshot_run)
  next
    case (Some e)
    with Cons.prems have "gather snapshot (acc @ [(ft_id (pf_target m), e)]) ms s = (r, t)"
      by (simp add: bind_act_def snapshot_run [of acc m s])
    note IH = Cons.IH [OF this]
    show ?thesis
    proof (intro conjI allI impI)
      show "t = s" using IH by blast
      fix es assume "r = Inr es"
      with IH have *: "\<forall>(k, e') \<in> set es. (k, e') \<in> set (acc @ [(ft_id (pf_target m), e)]) \<or> bt_get (jn_entries (m_journal s)) k = Some e'"
        and sub: "fst ` set (acc @ [(ft_id (pf_target m), e)]) \<union> (\<lambda>m. ft_id (pf_target m)) ` set ms \<subseteq> fst ` set es"
        by blast+
      from * Some show "\<forall>(k, e) \<in> set es. (k, e) \<in> set acc \<or> bt_get (jn_entries (m_journal s)) k = Some e" by auto
      from sub show "fst ` set acc \<union> (\<lambda>m. ft_id (pf_target m)) ` set (m # ms) \<subseteq> fst ` set es" by auto
    qed
  qed
qed

lemma runs_at: "(\<And>s0. P s0 \<Longrightarrow> runs (\<lambda>s. s = s0) m Q E) \<Longrightarrow> runs P m Q E"
  by (auto simp: runs_def)

lemma runs_commit_owned:
  assumes "locked_state M R J s0" and wf: "bt_wf (jn_entries J)"
  shows "runs (\<lambda>s. s = s0) (commit_owned A prepared) (\<lambda>_. mode_is M R) (\<lambda>e t. degraded_by e t \<or> locked_state M R J t)"
    (is "runs _ _ _ ?E")
proof -
  let ?ms = "filter pf_needs_write prepared"
  define K where "K = (\<lambda>m. ft_id (pf_target m)) ` set ?ms"
  let ?I = "\<lambda>s. owned_update K s0 s \<and> owns K s0"
  let ?S = "\<lambda>es. (\<forall>(k, e) \<in> set es. bt_get (jn_entries J) k = Some e) \<and> K \<subseteq> fst ` set es"
  have J: "J = m_journal s0" "mode_is M R s0" using assms(1) by (auto simp: locked_state_def mode_is_def)
  have mode: "mode_is M R s" if "?I s" for s using that J by (auto simp: owned_update_def mode_is_def)
  have snap: "runs (\<lambda>s. s = s0) (gather snapshot [] ?ms) (\<lambda>es s. ?S es \<and> ?I s) ?E"
  proof (rule runsI)
    fix s es t assume "s = s0" and "gather snapshot [] ?ms s = (Inr es, t)"
    then have g: "t = s0" "\<forall>(k, e) \<in> set es. bt_get (jn_entries J) k = Some e" "K \<subseteq> fst ` set es"
      using gather_snapshot [of "[]" ?ms s0 "Inr es" t] by (auto simp: J(1) K_def)
    have "owns K s0"
      unfolding owns_def J(1) [symmetric]
    proof
      fix k assume "k \<in> K"
      with g(3) obtain e where "(k, e) \<in> set es" by force
      with g(2) have "(k, e) \<in> set (jn_entries J)" by (auto dest: bt_get_Some_mem)
      then show "k \<in> fst ` set (jn_entries J)" by force
    qed
    with g show "?S es \<and> ?I t" by (auto simp: owned_frame.refl)
  next
    fix s e t assume "s = s0" and "gather snapshot [] ?ms s = (Inl e, t)"
    then show "?E e t" using gather_snapshot [of "[]" ?ms s0 "Inl e" t] assms(1) by simp
  qed
  have gen: "runs ?I (upd_journal next_generation) (\<lambda>_. ?I) ?E"
    by (rule runs_upd_journal)
      (auto intro: owned_frame.trans owned_update_generation simp: next_generation_def)
  have mark: "runs ?I (each (\<lambda>m. update_owned m (transition (pf_before_effective m) (pf_desired_request m))) ?ms) (\<lambda>_. ?I) ?E"
    by (rule runs_each, rule runs_update_owned) (auto simp: K_def)
  have wr: "runs ?I (write_owned A [] [] (enumerate_list prepared)) (\<lambda>_. ?I) ?E"
    by (rule runs_write_owned) (auto simp: enumerate_list_nth K_def)
  have rb: "runs ?I (attempt (frequency_rollback A prepared attempted)) (\<lambda>_. ?I) ?E" for attempted
    by (rule runs_attempt [OF runs_stays [OF stays_owned [OF own_rollback_frames(1)], where P = ?I and Q = ?I]])
      (auto intro: owned_frame.trans)
  have undo: "runs ?I (upd_journal (\<lambda>j. j\<lparr>jn_generation := jn_generation J, jn_entries := bt_extend (jn_entries j) es\<rparr>))
      (\<lambda>_. locked_state M R J) ?E" if "?S es" for es
  proof (rule runs_upd_journal)
    fix s assume "?I s"
    with that wf have "(m_journal s)\<lparr>jn_generation := jn_generation J, jn_entries := bt_extend (jn_entries (m_journal s)) es\<rparr> = J"
      unfolding J(1) by (intro restore_owned_entries [of K s0]) auto
    with mode [OF \<open>?I s\<close>] show "locked_state M R J (s\<lparr>m_journal := (m_journal s)\<lparr>jn_generation := jn_generation J,
        jn_entries := bt_extend (jn_entries (m_journal s)) es\<rparr>\<rparr>)"
      by (simp add: locked_state_def mode_is_def)
  qed
  have fin: "runs ?I (case failure of None \<Rightarrow> ret applied
     | Some (failed_target, error) \<Rightarrow>
         bind_act (attempt (frequency_rollback A prepared attempted)) (\<lambda>rolled_back.
         case rolled_back of
           Inl rollback \<Rightarrow>
             degrade_locked (MFmt ''fast transaction failed for {failed_target}: {error}; rollback failed: {rollback}''
               [MStr failed_target, error_message error, error_message rollback])
         | Inr _ \<Rightarrow>
             bind_act (upd_journal (\<lambda>j. j\<lparr>jn_generation := jn_generation J,
                 jn_entries := bt_extend (jn_entries j) es\<rparr>)) (\<lambda>_.
             throw (TransactionError (MStr failed_target) (error_message error)))))
      (\<lambda>_. mode_is M R) ?E" if "?S es" for es applied attempted failure
    by (auto intro!: runs_ret mode runs_bind [OF rb] runs_post [OF runs_degrade] runs_bind [OF undo [OF that]] runs_throw
        split: option.splits sum.splits)
  show ?thesis
    unfolding commit_owned_def snapshot_def [symmetric]
    apply (rule runs_bind [where Q = "\<lambda>g s. g = jn_generation J \<and> s = s0"])
     apply (rule runs_get)
     apply (simp add: J(1))
    apply (rule runs_given, hypsubst)
    apply (rule runs_bind [OF snap])
    apply (rule runs_given)
    apply (rule runs_bind [OF gen])
    apply (rule runs_bind [OF mark])
    apply (rule runs_bind [OF wr])
    subgoal for g es _ _ res
      by (cases res rule: prod_cases3, simp only: prod.case, rule fin)
    done
qed

lemma runs_apply_owned:
  assumes "locked_state M R J s0" and wf: "bt_wf (jn_entries J)"
  shows "runs (\<lambda>s. s = s0) (apply_owned_batch_fast A requests) (\<lambda>_. mode_is M R) (\<lambda>e t. degraded_by e t \<or> locked_state M R J t)"
proof -
  have prep: "stays io_only (gather (prepare_owned A) ([], []) requests)"
    by (intro io_rules io_frames)
  have com: "runs (locked_state M R J) (commit_owned A prepared) (\<lambda>_. mode_is M R) (\<lambda>e t. degraded_by e t \<or> locked_state M R J t)"
    for prepared by (rule runs_at) (rule runs_commit_owned [OF _ wf])
  have "runs (locked_state M R J) (apply_owned_batch_fast A requests) (\<lambda>_. mode_is M R) (\<lambda>e t. degraded_by e t \<or> locked_state M R J t)"
    unfolding apply_owned_batch_fast_def
    by (rule runs_bind [OF runs_io_or [OF ready_frame]])
      (auto intro!: runs_ret runs_bind [OF runs_io_or [OF prep]] com dest: locked_mode split: prod.splits)
  then show ?thesis using assms(1) by (auto intro: runs_pre)
qed

text \<open>
  C3: a frequency batch, a fast batch of owned targets or a scalar batch that fails is all or nothing:
  either the actuator is now read-only degraded with the reason it returned, or the mode, the pending
  recovery and the whole journal, generation included, are as before the call. (The map of the entries
  is ordered, as every \<open>BTreeMap\<close> is.)
\<close>

theorem failed_transaction_is_all_or_nothing:
  assumes "bt_wf (jn_entries (m_journal s))"
    and "apply_batch A fs s = (Inl e, t) \<or> apply_owned_batch_fast A fs s = (Inl e, t) \<or> apply_scalars A ss s = (Inl e, t)"
  shows "degraded_by e t
    \<or> m_mode t = m_mode s \<and> m_recovery_required t = m_recovery_required s \<and> m_journal t = m_journal s"
proof -
  note here = locked_stateI [of s]
  from assms(2) have "degraded_by e t \<or> locked_state (m_mode s) (m_recovery_required s) (m_journal s) t"
  proof (elim disjE)
    assume "apply_batch A fs s = (Inl e, t)"
    then show ?thesis by (rule runsD(2) [OF runs_apply_batch here])
  next
    assume "apply_owned_batch_fast A fs s = (Inl e, t)"
    then show ?thesis by (rule runsD(2) [OF runs_apply_owned [OF here assms(1)] refl])
  next
    assume "apply_scalars A ss s = (Inl e, t)"
    then show ?thesis by (rule runsD(2) [OF runs_apply_scalars here])
  qed
  then show ?thesis by (simp add: locked_state_def)
qed

theorem failed_transaction_is_all_or_nothing_witness:
  "\<exists>e t. apply_batch demo demo_request (actuator_new demo (demo_world None True)) = (Inl e, t)
     \<and> (degraded_by e t \<or> m_journal t = m_journal (actuator_new demo (demo_world None True)))"
proof -
  have "isl (fst (apply_batch demo demo_request (actuator_new demo (demo_world None True))))" by code_simp
  then obtain e t where e: "apply_batch demo demo_request (actuator_new demo (demo_world None True)) = (Inl e, t)"
    by (metis isl_def prod.collapse)
  have "bt_wf (jn_entries (m_journal (actuator_new demo (demo_world None True))))" by code_simp
  from failed_transaction_is_all_or_nothing [OF this disjI1 [OF e]] e show ?thesis by blast
qed

section \<open>Waiting for the kernel\<close>

lemma settle_loop_outcome:
  "settle_loop sys clk target requested deadline s = (r, t) \<Longrightarrow>
     (\<exists>u. r = Inr requested \<and> read_limits sys target u = (Inr requested, t))
     \<or> (\<exists>m. r = Inl (not_settled target requested m) \<and> deadline \<le> w_now t)
     \<or> (\<exists>e u. r = Inl e \<and> read_limits sys target u = (Inl e, t) \<and> (\<forall>p m. e \<noteq> InvalidReadback p m))"
proof (induction sys clk target requested deadline s rule: settle_loop.induct)
  case (1 sys clk target requested deadline s)
  obtain reading s1 where r: "read_limits sys target s = (reading, s1)" by fastforce
  obtain now s2 where n: "(instant_now clk s1 :: (actuator_error, nat) result \<times> _) = (now, s2)" by fastforce
  show ?case
  proof (cases "settle_observation requested reading")
    case (Inl v)
    with 1(2) r have v: "v = r" "s1 = t" by (simp_all add: settle_loop.simps [of sys clk target requested deadline s])
    show ?thesis
    proof (cases reading)
      case (Inl e)
      with \<open>settle_observation requested reading = Inl v\<close> have "v = Inl e" "\<forall>p m. e \<noteq> InvalidReadback p m"
        by (auto split: actuator_error.splits)
      with v r Inl show ?thesis by blast
    next
      case (Inr a)
      with \<open>settle_observation requested reading = Inl v\<close> have "v = Inr requested" "a = requested"
        by (auto split: if_splits)
      with v r Inr show ?thesis by blast
    qed
  next
    case (Inr ob)
    show ?thesis
    proof (cases "deadline \<le> w_now s2")
      case True
      with 1(2) r n Inr show ?thesis by (auto simp: settle_loop.simps [of sys clk target requested deadline s])
    next
      case False
      with 1(2) r n Inr have "settle_loop sys clk target requested deadline
          (snd (sleep_for (min FREQUENCY_SETTLE_POLL_INTERVAL (deadline - w_now s2)) s2 :: (actuator_error, unit) result \<times> _)) = (r, t)"
        by (simp add: settle_loop.simps [of sys clk target requested deadline s])
      then show ?thesis by (rule 1(1) [OF r [symmetric] Inr n [symmetric] False])
    qed
  qed
qed



section \<open>Recovery\<close>

lemma stays_degrade: "stays R (degrade_locked r) \<longleftrightarrow> (\<forall>s. R s (s\<lparr>m_mode := ReadOnlyDegraded r\<rparr>))"
  by (simp add: stays_def degrade_locked_def bind_act_def act_simps)

lemma scalar_recovery_frames [journal_frames]:
  "stays journal_only (scalar_restore_intent e v)" "stays journal_only (plan_scalar_recovery A acc e)"
  unfolding plan_scalar_recovery_def scalar_restore_intent_def when_act_def
  by (auto intro!: journal_rules journal_frames stays_journal [OF read_frames(2)])

lemma recover_scalars_frame [journal_frames]: "stays journal_only (recover_scalars_locked A)"
  unfolding recover_scalars_locked_def when_act_def
  by (auto intro!: journal_rules journal_frames stays_journal [OF persist_frames(1)] stays_journal [OF write_frames(1)]
      split: prod.splits)

lemma runs_mode: "stays journal_only m \<Longrightarrow> runs (mode_is M R) m (\<lambda>_. mode_is M R) (\<lambda>_. mode_is M R)"
  by (erule runs_stays) (simp add: journal_only_def mode_is_def)

lemma runs_attempt_mode: "stays journal_only m \<Longrightarrow> runs (mode_is M R) (attempt m) (\<lambda>_. mode_is M R) E"
  by (rule runs_attempt [OF runs_mode]) auto

lemma runs_or_degrade: "stays journal_only m \<Longrightarrow> runs (mode_is M R) (or_degrade m what) (\<lambda>_. mode_is M R) degraded_by"
  unfolding or_degrade_def
  by (rule runs_bind [OF runs_attempt_mode]) (auto intro!: runs_ret runs_degrade split: sum.splits)

lemma runs_persist_or_degrade: "runs (mode_is M R) (persist_or_degrade A what) (\<lambda>_. mode_is M R) degraded_by"
  unfolding persist_or_degrade_def
  by (rule runs_bind [OF runs_attempt_mode [OF stays_journal [OF persist_frames(1)]]])
    (auto intro!: runs_ret runs_degrade split: sum.splits)

lemma runs_remove_or_degrade: "runs (mode_is M R) (remove_or_degrade A what) (\<lambda>_. mode_is M R) degraded_by"
  unfolding remove_or_degrade_def
  by (rule runs_bind [OF runs_attempt_mode [OF stays_journal [OF io_call_frame(1)]]])
    (auto intro!: runs_ret runs_degrade split: sum.splits)

lemma runs_restore_one: "runs (mode_is M R) (restore_one A what x) (\<lambda>_. mode_is M R) degraded_by"
  unfolding restore_one_def
  by (cases x, simp only: prod.case,
      rule runs_bind [OF runs_attempt_mode [OF stays_journal [OF request_frames(2)]]])
    (auto intro!: runs_ret runs_degrade split: sum.splits)

lemma runs_plan_recovery: "runs (mode_is M R) (plan_recovery A acc e) (\<lambda>_. mode_is M R) degraded_by"
proof -
  have "runs (mode_is M R) (restore_intent e) (\<lambda>_. mode_is M R) degraded_by"
    unfolding restore_intent_def by (rule runs_upd_journal) (simp add: mode_is_def)
  then show ?thesis
    unfolding plan_recovery_def by (auto intro!: runs_degrade runs_bind runs_ret split: option.splits)
qed

lemma runs_recover_resources:
  "runs (mode_is M R) (recover_resources A) (\<lambda>_ s. mode_is M False s \<and> journal_is_empty (m_journal s)) degraded_by"
proof -
  have get: "runs (mode_is M R) (get_act f) (\<lambda>_. mode_is M R) E" for f E by (rule runs_get)
  have pl: "runs (mode_is M R) (gather (plan_recovery A) [] es) (\<lambda>_. mode_is M R) degraded_by" for es
    by (rule runs_gather) (rule runs_plan_recovery)
  have wh: "runs (mode_is M R) (when_act b (persist_or_degrade A what)) (\<lambda>_. mode_is M R) degraded_by" for b what
    unfolding when_act_def by (auto intro: runs_persist_or_degrade runs_ret)
  have ea: "runs (mode_is M R) (each (restore_one A what) xs) (\<lambda>_. mode_is M R) degraded_by" for what xs
    by (rule runs_each) (rule runs_restore_one)
  have fin: "runs (mode_is M R) (complete_recovery A) (\<lambda>_ s. mode_is M False s \<and> journal_is_empty (m_journal s)) degraded_by"
    unfolding complete_recovery_def
    by (rule runs_bind [OF runs_remove_or_degrade], rule runs_modify)
      (simp add: mode_is_def journal_is_empty_def next_generation_def)
  show ?thesis
    unfolding recover_resources_def
    by (rule runs_bind [OF get], rule runs_bind [OF pl], rule runs_bind [OF wh], rule runs_bind [OF ea],
        rule runs_bind [OF runs_or_degrade [OF recover_scalars_frame]],
        rule runs_bind [OF runs_or_degrade [OF stays_journal [OF recover_locked_frames(1)]]],
        rule runs_bind [OF runs_or_degrade [OF stays_journal [OF recover_locked_frames(2)]]], rule fin)
qed

text \<open>
  C6: startup recovery either completes or fails closed. When it returns successfully the actuator is
  read-write, no recovery is pending and, if one was, the journal is empty; when it returns an error
  the actuator is read-only degraded with that reason, whatever failed: the identity of the journal, a
  missing backend, a target that changed, a restoration, or the removal of the journal.
\<close>

theorem recovery_completes_or_fails_closed:
  assumes "recover_pending A s = (r, t)"
  shows "r = Inr () \<and> m_mode t = ReadWrite \<and> \<not> m_recovery_required t
      \<and> (m_recovery_required s \<longrightarrow> journal_is_empty (m_journal t))
    \<or> (\<exists>e. r = Inl e \<and> degraded_by e t)"
proof (cases "m_mode s")
  case (ReadOnlyDegraded m)
  with assms show ?thesis by (auto simp: recover_pending_def bind_of_result ensure_read_write_def degraded_by_def)
next
  case ReadWrite
  let ?Q = "\<lambda>_ u. mode_is ReadWrite False u \<and> journal_is_empty (m_journal u)"
  have disc: "runs (mode_is ReadWrite True) (discard_foreign_journal A) ?Q degraded_by"
    unfolding discard_foreign_journal_def
    by (rule runs_bind [OF runs_remove_or_degrade], rule runs_modify)
      (simp add: mode_is_def journal_is_empty_def empty_journal_def)
  have em: "runs (\<lambda>u. mode_is ReadWrite True u \<and> journal_is_empty (m_journal u))
      (modify_act (\<lambda>s. s\<lparr>m_recovery_required := False\<rparr>)) ?Q degraded_by"
    by (rule runs_modify) (simp add: mode_is_def)
  show ?thesis
  proof (cases "m_recovery_required s")
    case False
    with assms ReadWrite show ?thesis by (auto simp: recover_pending_def bind_of_result ensure_read_write_def act_simps)
  next
    case True
    then have here: "mode_is ReadWrite True s" using ReadWrite by (simp add: mode_is_def)
    have "runs (mode_is ReadWrite True) (bind_act (get_act m_journal) (\<lambda>journal.
       if jn_boot_id journal \<noteq> ac_boot_id A then discard_foreign_journal A
       else if jn_device_fingerprint journal \<noteq> ac_device_fingerprint A
       then degrade_locked (MStr ''journal device fingerprint does not match'')
       else if journal_is_empty journal then modify_act (\<lambda>s. s\<lparr>m_recovery_required := False\<rparr>)
       else if jn_tasks journal \<noteq> [] \<and> (ac_proc_reader A = None \<or> ac_process_controller A = None)
       then degrade_locked (MStr ''task recovery backends are unavailable'')
       else if jn_units journal \<noteq> [] \<and> ac_systemd A = None
       then degrade_locked (MStr ''systemd recovery backend is unavailable'')
       else recover_resources A)) ?Q degraded_by"
      by (rule runs_bind [where Q = "\<lambda>j u. j = m_journal u \<and> mode_is ReadWrite True u"])
        (auto intro!: runs_get runs_pre [OF disc] runs_degrade runs_pre [OF em] runs_pre [OF runs_recover_resources])
    from runsD [OF this here, of _ t] assms True ReadWrite have "case r of Inr a \<Rightarrow> ?Q a t | Inl e \<Rightarrow> degraded_by e t"
      by (cases r) (simp_all add: recover_pending_def bind_of_result ensure_read_write_def)
    with True show ?thesis by (cases r) (auto simp: mode_is_def)
  qed
qed

theorem recovery_completes_or_fails_closed_witness:
  "\<exists>t. recover_pending demo (actuator_new demo (demo_world (Some ''*'') False)) = (Inr (), t)
     \<and> m_mode t = ReadWrite \<and> journal_is_empty (m_journal t)"
proof -
  let ?s = "actuator_new demo (demo_world (Some ''*'') False)"
  have "\<not> isl (fst (recover_pending demo ?s))" by code_simp
  then obtain t where t: "recover_pending demo ?s = (Inr (), t)" by (cases "recover_pending demo ?s"; cases "fst (recover_pending demo ?s)") auto
  have "m_recovery_required ?s" by code_simp
  with recovery_completes_or_fails_closed [OF t] t show ?thesis by auto
qed

end
