(* ===== verification/Actuator_Ownership.thy ===== *)
theory Actuator_Ownership
  imports Actuator_Safety
begin

text \<open>
  Who owns what: the registry claims no path twice; a manifest rebuilds its target and a journal its
  registry without any configuration; restoring everything empties the journal; a task or a unit is
  given back exactly in the fields that are still the actuator's, and a relinquished field is never
  claimed again.
\<close>

section \<open>The keys of the journal\<close>

definition skeleton ::
  "journal \<Rightarrow> (target_id \<times> target_id) list \<times> (target_id \<times> target_id) list
     \<times> (string \<times> process_identity) list \<times> (string \<times> string) list" where
  "skeleton j =
     (map (\<lambda>(k, e). (k, je_target e)) (jn_entries j), map (\<lambda>(k, e). (k, sj_target e)) (jn_scalars j),
      map (\<lambda>(k, e). (k, tj_identity e)) (jn_tasks j), map (\<lambda>(k, e). (k, uj_unit e)) (jn_units j))"

text \<open>Every entry is filed under the key of its own resource.\<close>

definition well_keyed :: "journal \<Rightarrow> bool" where
  "well_keyed j =
     (list_all (\<lambda>(k, e). je_target e = k) (jn_entries j) \<and> list_all (\<lambda>(k, e). sj_target e = k) (jn_scalars j)
      \<and> list_all (\<lambda>(k, e). task_journal_key (tj_identity e) = k) (jn_tasks j)
      \<and> list_all (\<lambda>(k, e). uj_unit e = k) (jn_units j))"

definition same_keys :: "'w machine \<Rightarrow> 'w machine \<Rightarrow> bool" where
  "same_keys s t = (skeleton (m_journal t) = skeleton (m_journal s))"

interpretation key_frame: frame same_keys
  by unfold_locales (simp_all add: same_keys_def)

lemmas key_rules = key_frame.bind key_frame.pure key_frame.attempt key_frame.each key_frame.gather

named_theorems key_frames \<open>operations that keep the keys of the journal\<close>

lemma stays_keys: "stays io_only m \<Longrightarrow> stays same_keys m"
  by (erule stays_mono) (simp add: io_only_def same_keys_def)

lemma degrade_keys [key_frames]: "stays same_keys (degrade_locked r)"
  by (simp add: stays_degrade same_keys_def)

lemma skeleton_get_mut:
  "(\<And>e. je_target (f e) = je_target e) \<Longrightarrow>
     skeleton (j\<lparr>jn_entries := bt_get_mut k f (jn_entries j)\<rparr>) = skeleton j"
  "(\<And>e. sj_target (g e) = sj_target e) \<Longrightarrow>
     skeleton (j\<lparr>jn_scalars := bt_get_mut k g (jn_scalars j)\<rparr>) = skeleton j"
  by (auto simp: skeleton_def bt_get_mut_def)

lemma intent_keys [key_frames]: "stays same_keys (restore_intent e)" "stays same_keys (scalar_restore_intent se v)"
proof -
  show "stays same_keys (restore_intent e)"
    unfolding restore_intent_def upd_journal_def
    by (rule key_frame.modify) (simp add: same_keys_def skeleton_get_mut transition_def)
  show "stays same_keys (scalar_restore_intent se v)"
    unfolding scalar_restore_intent_def when_act_def upd_journal_def
    by (auto intro!: key_rules key_frame.modify simp: same_keys_def skeleton_get_mut)
qed

lemma restore_step_keys [key_frames]:
  "stays same_keys (plan_restore A acc e)" "stays same_keys (persist_or_degrade A what)" "stays same_keys (restore_one A what x)"
  unfolding plan_restore_def persist_or_degrade_def restore_one_def
  by (auto intro!: key_rules key_frames stays_keys [OF persist_frames(1)] stays_keys [OF request_frames(2)]
      split: option.splits sum.splits prod.splits)

lemma persist_locked_keys [key_frames]: "stays same_keys (persist_or_remove_locked A op)"
  unfolding persist_or_remove_locked_def
  by (auto intro!: key_rules key_frames stays_keys [OF persist_frames(2)] split: sum.splits)

lemma scalar_step_keys [key_frames]: "stays same_keys (plan_scalar_restore A acc e)"
  unfolding plan_scalar_restore_def
  by (auto intro!: key_rules key_frames stays_keys [OF read_frames(2)] split: option.splits sum.splits)

lemma ready_keys [key_frames]: "stays same_keys ensure_mutation_ready"
  by (rule stays_keys [OF ready_frame])

lemma restore_task_keys [key_frames]: "stays same_keys (restore_task pc pr e)" "stays same_keys (restore_unit sd u)"
  unfolding restore_task_def restore_unit_def degrade_task_def degrade_unit_def Let_def
  by (auto intro!: key_rules key_frames stays_keys [OF io_call_frame(1)] stays_keys [OF process_current_frame]
      stays_keys [OF unit_current_frame] stays_keys [OF verify_frames(1)] stays_keys [OF verify_frames(2)]
      split: sum.splits bool.splits)

section \<open>Restoring everything\<close>

lemma fold_remove: "fold (\<lambda>e. bt_remove (f e)) es m = filter (\<lambda>x. fst x \<notin> f ` set es) m"
  by (induction es arbitrary: m) (auto simp: bt_remove_def intro!: filter_cong)

lemma map_filter_set: "set (List.map_filter f xs) = {y. \<exists>x \<in> set xs. f x = Some y}"
  by (force simp: List.map_filter_def)

lemma owners_are_keys:
  assumes "list_all (\<lambda>(k, e). f e = k) m"
  shows "f ` set (List.map_filter (bt_get m) (bt_keys m)) = set (bt_keys m)"
proof
  show "f ` set (List.map_filter (bt_get m) (bt_keys m)) \<subseteq> set (bt_keys m)"
    using assms by (force simp: map_filter_set list_all_iff bt_keys_def dest!: bt_get_Some_mem)
  show "set (bt_keys m) \<subseteq> f ` set (List.map_filter (bt_get m) (bt_keys m))"
  proof
    fix k assume k: "k \<in> set (bt_keys m)"
    then obtain e where e: "bt_get m k = Some e" by (metis bt_contains_def bt_contains_iff not_None_eq)
    then have "f e = k" using assms by (auto simp: list_all_iff dest: bt_get_Some_mem)
    with k e show "k \<in> f ` set (List.map_filter (bt_get m) (bt_keys m))" by (force simp: map_filter_set)
  qed
qed

lemma remove_owners:
  assumes "f ` set es = set (bt_keys m)" and "bt_keys n = bt_keys m"
  shows "fold (\<lambda>e. bt_remove (f e)) es n = []"
  using assms by (auto simp: fold_remove filter_empty_conv bt_keys_def) (metis fst_conv image_eqI list.set_map)

lemma skeleton_empty:
  "skeleton j = ([], [], [], []) \<longleftrightarrow> journal_is_empty j"
  by (auto simp: skeleton_def journal_is_empty_def)

lemma skeleton_keys:
  "skeleton i = skeleton j \<Longrightarrow> bt_keys (jn_entries i) = bt_keys (jn_entries j) \<and> bt_keys (jn_scalars i) = bt_keys (jn_scalars j)
     \<and> bt_keys (jn_tasks i) = bt_keys (jn_tasks j) \<and> bt_keys (jn_units i) = bt_keys (jn_units j)"
proof -
  have "bt_keys m = map fst (map (\<lambda>(k, e). (k, f e)) m)" for m :: "('a \<times> 'b) list" and f :: "'b \<Rightarrow> 'c"
    by (auto simp: bt_keys_def)
  assume "skeleton i = skeleton j"
  then have "map (\<lambda>(k, e). (k, je_target e)) (jn_entries i) = map (\<lambda>(k, e). (k, je_target e)) (jn_entries j)"
    "map (\<lambda>(k, e). (k, sj_target e)) (jn_scalars i) = map (\<lambda>(k, e). (k, sj_target e)) (jn_scalars j)"
    "map (\<lambda>(k, e). (k, tj_identity e)) (jn_tasks i) = map (\<lambda>(k, e). (k, tj_identity e)) (jn_tasks j)"
    "map (\<lambda>(k, e). (k, uj_unit e)) (jn_units i) = map (\<lambda>(k, e). (k, uj_unit e)) (jn_units j)"
    by (simp_all add: skeleton_def)
  from this [THEN arg_cong [where f = "map fst"]] show ?thesis by (simp add: bt_keys_def comp_def case_prod_unfold)
qed

lemma well_keyed_iff:
  "well_keyed j \<longleftrightarrow> (case skeleton j of (es, ss, ts, us) \<Rightarrow> list_all (\<lambda>(k, t). t = k) es \<and> list_all (\<lambda>(k, t). t = k) ss
     \<and> list_all (\<lambda>(k, t). task_journal_key t = k) ts \<and> list_all (\<lambda>(k, t). t = k) us)"
  by (simp add: well_keyed_def skeleton_def list_all_iff case_prod_unfold)

lemma well_keyed_skeleton: "skeleton i = skeleton j \<Longrightarrow> well_keyed i \<longleftrightarrow> well_keyed j"
  by (simp add: well_keyed_iff)

lemma runs_keys:
  assumes "stays same_keys m"
  shows "runs (\<lambda>s. c \<and> skeleton (m_journal s) = K) m (\<lambda>_ s. c \<and> skeleton (m_journal s) = K) (\<lambda>_ _. True)"
proof -
  have "runs (\<lambda>s. skeleton (m_journal s) = K) m (\<lambda>_ s. skeleton (m_journal s) = K) (\<lambda>_ s. skeleton (m_journal s) = K)"
    by (rule runs_stays [OF assms]) (simp add: same_keys_def)
  then show ?thesis by (intro runs_fact) (auto elim: runs_post)
qed

lemma runs_keys_of: "stays same_keys m \<Longrightarrow> runs (\<lambda>s. skeleton (m_journal s) = K) m (\<lambda>_ s. skeleton (m_journal s) = K) (\<lambda>_ _. True)"
  using runs_keys [of m True K] by simp

lemma runs_pick:
  assumes "\<And>j. skeleton j = K \<Longrightarrow> C (pick j)"
  shows "runs (\<lambda>s. skeleton (m_journal s) = K) (get_act (\<lambda>s. pick (m_journal s))) (\<lambda>es s. C es \<and> skeleton (m_journal s) = K) (\<lambda>_ _. True)"
  using assms by (intro runs_get) auto

lemma runs_drop:
  assumes "\<And>j. c \<Longrightarrow> skeleton j = K \<Longrightarrow> skeleton (f j) = K'"
  shows "runs (\<lambda>s. c \<and> skeleton (m_journal s) = K) (upd_journal (\<lambda>j. next_generation (f j))) (\<lambda>_ s. skeleton (m_journal s) = K') (\<lambda>_ _. True)"
  using assms by (intro runs_upd_journal) (auto simp: skeleton_def next_generation_def)

text \<open>The owners of the picked entries are the keys, so removing them empties the map.\<close>

lemma drop_skeleton:
  assumes "skeleton j = skeleton i"
  shows "je_target ` set es = set (bt_keys (jn_entries i)) \<Longrightarrow>
      skeleton (j\<lparr>jn_entries := fold (\<lambda>e. bt_remove (je_target e)) es (jn_entries j)\<rparr>) = ([], snd (skeleton i))"
    and "sj_target ` set ss = set (bt_keys (jn_scalars i)) \<Longrightarrow>
      skeleton (j\<lparr>jn_scalars := fold (\<lambda>e. bt_remove (sj_target e)) ss (jn_scalars j)\<rparr>)
        = (fst (skeleton i), [], snd (snd (skeleton i)))"
    and "(\<lambda>e. task_journal_key (tj_identity e)) ` set ts = set (bt_keys (jn_tasks i)) \<Longrightarrow>
      skeleton (j\<lparr>jn_tasks := fold (\<lambda>e. bt_remove (task_journal_key (tj_identity e))) ts (jn_tasks j)\<rparr>)
        = (fst (skeleton i), fst (snd (skeleton i)), [], snd (snd (snd (skeleton i))))"
    and "uj_unit ` set us = set (bt_keys (jn_units i)) \<Longrightarrow>
      skeleton (j\<lparr>jn_units := fold (\<lambda>e. bt_remove (uj_unit e)) us (jn_units j)\<rparr>)
        = (fst (skeleton i), fst (snd (skeleton i)), fst (snd (snd (skeleton i))), [])"
  using skeleton_keys [OF assms] assms remove_owners [of je_target es "jn_entries i" "jn_entries j"]
    remove_owners [of sj_target ss "jn_scalars i" "jn_scalars j"]
    remove_owners [of "\<lambda>e. task_journal_key (tj_identity e)" ts "jn_tasks i" "jn_tasks j"]
    remove_owners [of uj_unit us "jn_units i" "jn_units j"]
  by (simp_all add: skeleton_def)

lemma pick_owners:
  assumes "well_keyed i" and "skeleton j = skeleton i"
  shows "je_target ` set (List.map_filter (bt_get (jn_entries j)) (bt_keys (jn_entries i))) = set (bt_keys (jn_entries i))"
    and "sj_target ` set (List.map_filter (bt_get (jn_scalars j)) (bt_keys (jn_scalars i))) = set (bt_keys (jn_scalars i))"
    and "uj_unit ` set (List.map_filter (bt_get (jn_units j)) (bt_keys (jn_units i))) = set (bt_keys (jn_units i))"
  using skeleton_keys [OF assms(2)] well_keyed_skeleton [OF assms(2)] assms(1)
    owners_are_keys [of je_target "jn_entries j"] owners_are_keys [of sj_target "jn_scalars j"]
    owners_are_keys [of uj_unit "jn_units j"]
  by (simp_all add: well_keyed_def)

lemma pick_task_owners:
  assumes "well_keyed i" and "skeleton j = skeleton i"
  shows "(\<lambda>e. task_journal_key (tj_identity e)) ` set (List.map_filter (\<lambda>x. bt_get (jn_tasks j) (task_journal_key x))
      (map tj_identity (bt_values (jn_tasks i)))) = set (bt_keys (jn_tasks i))"
proof -
  have "map (\<lambda>x. task_journal_key (tj_identity x)) (bt_values (jn_tasks i)) = bt_keys (jn_tasks i)"
    using assms(1) by (auto simp: bt_values_def bt_keys_def well_keyed_def list_all_iff)
  moreover have "List.map_filter (\<lambda>x. bt_get (jn_tasks j) (task_journal_key x)) (map tj_identity (bt_values (jn_tasks i)))
      = List.map_filter (bt_get (jn_tasks j)) (map (\<lambda>x. task_journal_key (tj_identity x)) (bt_values (jn_tasks i)))"
    by (simp add: List.map_filter_def comp_def filter_map)
  ultimately show ?thesis
    using skeleton_keys [OF assms(2)] well_keyed_skeleton [OF assms(2)] assms(1)
      owners_are_keys [of "\<lambda>e. task_journal_key (tj_identity e)" "jn_tasks j"]
    by (simp add: well_keyed_def)
qed

lemma step_keys:
  "stays same_keys (gather (plan_restore A) [] es)" "stays same_keys (each (restore_one A what) xs)"
  "stays same_keys (when_act b (persist_or_degrade A what))" "stays same_keys (gather (plan_scalar_restore A) [] ses)"
  "stays same_keys (each (restore_task pc pr) ts)" "stays same_keys (each (restore_unit sd) us)"
  by (auto simp: when_act_def intro!: key_rules key_frames)

lemma runs_restore_targets:
  assumes "well_keyed i"
  shows "runs (\<lambda>s. skeleton (m_journal s) = skeleton i) (restore_targets A (bt_keys (jn_entries i)))
    (\<lambda>_ t. skeleton (m_journal t) = ([], snd (skeleton i))) (\<lambda>_ _. True)"
  unfolding restore_targets_def
  by (rule runs_bind [OF runs_keys_of [OF ready_keys]],
      rule runs_bind [OF runs_pick [where C = "\<lambda>es. je_target ` set es = set (bt_keys (jn_entries i))", OF pick_owners(1) [OF assms]]],
      assumption,
      rule runs_bind [OF runs_keys [OF step_keys(1)]], rule runs_bind [OF runs_keys [OF step_keys(3)]],
      rule runs_bind [OF runs_keys [OF step_keys(2)]], rule runs_bind [OF runs_drop [OF drop_skeleton(1)]],
      assumption, assumption, rule runs_keys_of [OF persist_locked_keys])

lemma scalar_write_keys:
  "stays same_keys (each (\<lambda>(entry, target, needs_write). when_act needs_write
         (bind_act (attempt (write_scalar (ac_io A) target (sj_original entry))) (\<lambda>result.
          case result of
            Inl error \<Rightarrow> degrade_locked (MFmt what [MStr (sj_target entry), error_message error])
          | Inr _ \<Rightarrow> ret ()))) xs)"
  by (auto simp: when_act_def intro!: key_rules key_frames stays_keys [OF write_frames(1)] split: prod.splits sum.splits)

lemma runs_restore_scalars:
  assumes "well_keyed i"
  shows "runs (\<lambda>s. skeleton (m_journal s) = skeleton i) (restore_scalars A (bt_keys (jn_scalars i)))
    (\<lambda>_ t. skeleton (m_journal t) = (fst (skeleton i), [], snd (snd (skeleton i)))) (\<lambda>_ _. True)"
  unfolding restore_scalars_def
  by (rule runs_bind [OF runs_keys_of [OF ready_keys]],
      rule runs_bind [OF runs_pick [where C = "\<lambda>es. sj_target ` set es = set (bt_keys (jn_scalars i))", OF pick_owners(2) [OF assms]]],
      assumption,
      rule runs_bind [OF runs_keys [OF step_keys(4)]], rule runs_bind [OF runs_keys [OF step_keys(3)]],
      rule runs_bind [OF runs_keys [OF scalar_write_keys]], rule runs_bind [OF runs_drop [OF drop_skeleton(2)]],
      assumption, assumption, rule runs_keys_of [OF persist_locked_keys])

lemma no_owner_no_keys:
  "f ` set [] = set (bt_keys (jn_tasks i)) \<Longrightarrow> skeleton i = (fst (skeleton i), fst (snd (skeleton i)), [], snd (snd (snd (skeleton i))))"
  "f ` set [] = set (bt_keys (jn_units i)) \<Longrightarrow> skeleton i = (fst (skeleton i), fst (snd (skeleton i)), fst (snd (snd (skeleton i))), [])"
  by (simp_all add: bt_keys_def skeleton_def)

lemma runs_restore_tasks:
  assumes "well_keyed i"
  shows "runs (\<lambda>s. skeleton (m_journal s) = skeleton i) (restore_tasks A (map tj_identity (bt_values (jn_tasks i))))
    (\<lambda>_ t. skeleton (m_journal t) = (fst (skeleton i), fst (snd (skeleton i)), [], snd (snd (snd (skeleton i))))) (\<lambda>_ _. True)"
    (is "runs ?P _ ?Q ?E")
proof -
  let ?C = "\<lambda>es. (\<lambda>e. task_journal_key (tj_identity e)) ` set es = set (bt_keys (jn_tasks i))"
  have deg: "runs P (degrade_locked m) ?Q ?E" for P m by (rule runs_post [OF runs_degrade]) auto
  have tail: "runs (\<lambda>s. ?C es \<and> ?P s) (bind_act (each (restore_task pc pr) es) (\<lambda>_.
      bind_act (upd_journal (\<lambda>j. next_generation
          (j\<lparr>jn_tasks := fold (\<lambda>e. bt_remove (task_journal_key (tj_identity e))) es (jn_tasks j)\<rparr>))) (\<lambda>_.
      persist_or_remove_locked A ''task restore''))) ?Q ?E" for es pc pr
    by (rule runs_bind [OF runs_keys [OF step_keys(5)]], rule runs_bind [OF runs_drop [OF drop_skeleton(3)]],
        assumption, assumption, rule runs_keys_of [OF persist_locked_keys])
  have none: "runs (\<lambda>s. ?C [] \<and> ?P s) (ret ()) ?Q ?E"
    by (rule runs_ret) (use no_owner_no_keys(1) [of _ i] in auto)
  have rest: "runs (\<lambda>s. ?C es \<and> ?P s) (if es = [] then ret () else case ac_proc_reader A of
       None \<Rightarrow> degrade_locked (MStr ''task restore requires a proc reader'')
     | Some pr \<Rightarrow>
         (case ac_process_controller A of
            None \<Rightarrow> degrade_locked (MStr ''task restore requires a process controller'')
          | Some pc \<Rightarrow> bind_act (each (restore_task pc pr) es) (\<lambda>_.
              bind_act (upd_journal (\<lambda>j. next_generation
                  (j\<lparr>jn_tasks := fold (\<lambda>e. bt_remove (task_journal_key (tj_identity e))) es (jn_tasks j)\<rparr>))) (\<lambda>_.
              persist_or_remove_locked A ''task restore'')))) ?Q ?E" for es
  proof (cases "es = []")
    case True
    with none show ?thesis by simp
  next
    case False
    then show ?thesis using tail deg by (simp split: option.splits)
  qed
  show ?thesis
    unfolding restore_tasks_def
    by (rule runs_bind [OF runs_keys_of [OF ready_keys]],
        rule runs_bind [OF runs_pick [where C = ?C, OF pick_task_owners [OF assms]]], assumption, rule rest)
qed

lemma runs_restore_units:
  assumes "well_keyed i"
  shows "runs (\<lambda>s. skeleton (m_journal s) = skeleton i) (restore_units A (bt_keys (jn_units i)))
    (\<lambda>_ t. skeleton (m_journal t) = (fst (skeleton i), fst (snd (skeleton i)), fst (snd (snd (skeleton i))), [])) (\<lambda>_ _. True)"
    (is "runs ?P _ ?Q ?E")
proof -
  let ?C = "\<lambda>es. uj_unit ` set es = set (bt_keys (jn_units i))"
  have deg: "runs P (degrade_locked m) ?Q ?E" for P m by (rule runs_post [OF runs_degrade]) auto
  have tail: "runs (\<lambda>s. ?C es \<and> ?P s) (bind_act (each (restore_unit sd) es) (\<lambda>_.
      bind_act (upd_journal (\<lambda>j. next_generation
          (j\<lparr>jn_units := fold (\<lambda>e. bt_remove (uj_unit e)) es (jn_units j)\<rparr>))) (\<lambda>_.
      persist_or_remove_locked A ''systemd restore''))) ?Q ?E" for es sd
    by (rule runs_bind [OF runs_keys [OF step_keys(6)]], rule runs_bind [OF runs_drop [OF drop_skeleton(4)]],
        assumption, assumption, rule runs_keys_of [OF persist_locked_keys])
  have none: "runs (\<lambda>s. ?C [] \<and> ?P s) (ret ()) ?Q ?E"
    by (rule runs_ret) (use no_owner_no_keys(2) [of _ i] in auto)
  have rest: "runs (\<lambda>s. ?C es \<and> ?P s) (if es = [] then ret () else case ac_systemd A of
       None \<Rightarrow> degrade_locked (MStr ''systemd restore backend is unavailable'')
     | Some sd \<Rightarrow> bind_act (each (restore_unit sd) es) (\<lambda>_.
         bind_act (upd_journal (\<lambda>j. next_generation
             (j\<lparr>jn_units := fold (\<lambda>e. bt_remove (uj_unit e)) es (jn_units j)\<rparr>))) (\<lambda>_.
         persist_or_remove_locked A ''systemd restore''))) ?Q ?E" for es
  proof (cases "es = []")
    case True
    with none show ?thesis by simp
  next
    case False
    then show ?thesis using tail deg by (simp split: option.splits)
  qed
  show ?thesis
    unfolding restore_units_def
    by (rule runs_bind [OF runs_keys_of [OF ready_keys]],
        rule runs_bind [OF runs_pick [where C = ?C, OF pick_owners(3) [OF assms]]], assumption, rule rest)
qed

lemma well_keyed_drop:
  assumes "well_keyed i"
  shows "skeleton j = ([], snd (skeleton i)) \<Longrightarrow> well_keyed j"
    and "skeleton j = (fst (skeleton i), [], snd (snd (skeleton i))) \<Longrightarrow> well_keyed j"
    and "skeleton j = (fst (skeleton i), fst (snd (skeleton i)), [], snd (snd (snd (skeleton i)))) \<Longrightarrow> well_keyed j"
  using assms unfolding well_keyed_iff by (auto split: prod.splits)

text \<open>
  C19: when \<open>restore_all\<close> succeeds, the journal is empty and the actuator owns nothing: every frequency
  target, scalar, task and unit it had claimed was released, provided each entry was filed under its own
  resource (which decoding checks and every transaction keeps).
\<close>

theorem restore_all_releases_everything:
  assumes "well_keyed (m_journal s)" and "restore_all A s = (Inr (), t)"
  shows "journal_is_empty (m_journal t) \<and> \<not> has_owned_resources t"
proof -
  from assms(2) obtain s1 s2 s3 where
      t1: "restore_targets A (bt_keys (jn_entries (m_journal s))) s = (Inr (), s1)"
    and t2: "restore_scalars A (bt_keys (jn_scalars (m_journal s1))) s1 = (Inr (), s2)"
    and t3: "restore_tasks A (map tj_identity (bt_values (jn_tasks (m_journal s2)))) s2 = (Inr (), s3)"
    and t4: "restore_units A (bt_keys (jn_units (m_journal s3))) s3 = (Inr (), t)"
    by (auto simp: restore_all_def bind_act_Inr_iff act_simps)
  from runsD(1) [OF runs_restore_targets [OF assms(1)] refl t1]
  have k1: "skeleton (m_journal s1) = ([], snd (skeleton (m_journal s)))" .
  then have w1: "well_keyed (m_journal s1)" by (rule well_keyed_drop(1) [OF assms(1)])
  from runsD(1) [OF runs_restore_scalars [OF w1] refl t2]
  have k2: "skeleton (m_journal s2) = (fst (skeleton (m_journal s1)), [], snd (snd (skeleton (m_journal s1))))" .
  then have w2: "well_keyed (m_journal s2)" by (rule well_keyed_drop(2) [OF w1])
  from runsD(1) [OF runs_restore_tasks [OF w2] refl t3]
  have k3: "skeleton (m_journal s3) = (fst (skeleton (m_journal s2)), fst (snd (skeleton (m_journal s2))), [], snd (snd (snd (skeleton (m_journal s2)))))" .
  then have w3: "well_keyed (m_journal s3)" by (rule well_keyed_drop(3) [OF w2])
  from runsD(1) [OF runs_restore_units [OF w3] refl t4] k1 k2 k3
  have "skeleton (m_journal t) = ([], [], [], [])" by simp
  then have "journal_is_empty (m_journal t)" by (simp add: skeleton_empty)
  then show ?thesis by (simp add: has_owned_resources_def journal_is_empty_def bt_values_def)
qed

theorem restore_all_releases_everything_witness:
  "\<exists>s t. jn_entries (m_journal s) \<noteq> [] \<and> restore_all demo s = (Inr (), t) \<and> journal_is_empty (m_journal t)"
proof -
  let ?s = "machine_of (demo_world (Some ''*'') False) (ReadWrite, demo_journals ! 1, False)"
  have "\<not> isl (fst (restore_all demo ?s))" by code_simp
  then obtain t where t: "restore_all demo ?s = (Inr (), t)" by (cases "restore_all demo ?s"; cases "fst (restore_all demo ?s)") auto
  have "well_keyed (m_journal ?s)" and "jn_entries (m_journal ?s) \<noteq> []"
    by (simp_all add: well_keyed_def machine_of_def demo_journals_def demo_journal_def demo_entry_def Let_def)
  with restore_all_releases_everything [OF _ t] t show ?thesis by blast
qed

section \<open>The registry\<close>

definition target_paths :: "(target_id, frequency_target) btree \<Rightarrow> path_buf list" where
  "target_paths m = concat (map (\<lambda>x. [ft_min_path (snd x), ft_max_path (snd x)]) m)"

definition registry_paths :: "target_registry \<Rightarrow> path_buf list" where
  "registry_paths r = target_paths (rg_targets r) @ map (\<lambda>x. st_path (snd x)) (rg_scalar_targets r)"

lemma claim_path_Inr_iff: "claim_path err c p o' = Inr c' \<longleftrightarrow> p \<notin> fst ` set c \<and> c' = (p, o') # c"
proof -
  have "map_of c p = None \<longleftrightarrow> p \<notin> fst ` set c" by (rule map_of_eq_None_iff)
  then show ?thesis by (auto simp: claim_path_def split: option.splits)
qed

lemma target_paths_insert:
  "\<not> bt_contains m k \<Longrightarrow> set (target_paths (bt_insert k t m)) = {ft_min_path t, ft_max_path t} \<union> set (target_paths m)
   \<and> (distinct (target_paths m) \<and> ft_min_path t \<noteq> ft_max_path t \<and> {ft_min_path t, ft_max_path t} \<inter> set (target_paths m) = {}
      \<longrightarrow> distinct (target_paths (bt_insert k t m)))"
proof (induction m)
  case (Cons x m)
  from Cons.prems have "fst x \<noteq> k" "\<not> bt_contains m k" by (auto simp: bt_contains_def bt_get_Cons split: if_splits)
  with Cons.IH show ?case by (auto simp: target_paths_def)
qed (auto simp: target_paths_def)

lemma scalar_paths_insert:
  "\<not> bt_contains m k \<Longrightarrow> set (map (\<lambda>x. st_path (snd x)) (bt_insert k t m)) = insert (st_path t) (set (map (\<lambda>x. st_path (snd x)) m))
   \<and> (distinct (map (\<lambda>x. st_path (snd x)) m) \<and> st_path t \<notin> set (map (\<lambda>x. st_path (snd x)) m)
      \<longrightarrow> distinct (map (\<lambda>x. st_path (snd x)) (bt_insert k t m)))"
proof (induction m)
  case (Cons x m)
  from Cons.prems have "fst x \<noteq> k" "\<not> bt_contains m k" by (auto simp: bt_contains_def bt_get_Cons split: if_splits)
  with Cons.IH show ?case by auto
qed auto

definition targets_inv :: "frequency_target set \<Rightarrow> (target_id, frequency_target) btree \<times> target_id claims \<Rightarrow> bool" where
  "targets_inv T = (\<lambda>(m, c). distinct (target_paths m) \<and> set (target_paths m) = fst ` set c
     \<and> (\<forall>k t. bt_get m k = Some t \<longrightarrow> ft_id t = k \<and> t \<in> T))"

lemma register_target_inv:
  assumes "targets_inv T s" and "t \<in> T" and "register_target s t = Inr s'"
  shows "targets_inv T s'"
proof -
  obtain m c where s: "s = (m, c)" by fastforce
  from assms(3) have "\<not> bt_contains m (ft_id t)" and "ft_min_path t \<notin> fst ` set c" and "ft_max_path t \<noteq> ft_min_path t"
    and "ft_max_path t \<notin> fst ` set c"
    and s': "s' = (bt_insert (ft_id t) t m, (ft_max_path t, ft_id t) # (ft_min_path t, ft_id t) # c)"
    by (auto simp: s register_target_def rbind_Inr_iff claim_path_Inr_iff split: if_splits)
  with assms(1,2) target_paths_insert [of m "ft_id t" t] show ?thesis
    by (auto simp: targets_inv_def s bt_get_insert)
qed

definition scalars_inv :: "actuator_scalar_target set \<Rightarrow> target_registry \<Rightarrow> target_registry \<times> target_id claims \<Rightarrow> bool" where
  "scalars_inv T r0 = (\<lambda>(r, c). rg_targets r = rg_targets r0 \<and> distinct (registry_paths r) \<and> set (registry_paths r) = fst ` set c
     \<and> (\<forall>k t. bt_get (rg_scalar_targets r) k = Some t \<longrightarrow> st_id t = k \<and> t \<in> T \<and> scalar_target_wf t \<and> bt_get (rg_targets r0) k = None))"

lemma register_scalar_inv:
  assumes "scalars_inv T r0 s" and "t \<in> T" and "register_scalar s t = Inr s'"
  shows "scalars_inv T r0 s'"
proof -
  obtain r c where s: "s = (r, c)" by fastforce
  from assms(3) have wf: "scalar_target_wf t" and new: "\<not> bt_contains (rg_targets r) (st_id t)" "\<not> bt_contains (rg_scalar_targets r) (st_id t)"
    and path: "st_path t \<notin> fst ` set c"
    and s': "s' = (r\<lparr>rg_scalar_targets := bt_insert (st_id t) t (rg_scalar_targets r)\<rparr>, (st_path t, st_id t) # c)"
    by (auto simp: s register_scalar_def rbind_Inr_iff claim_path_Inr_iff scalar_target_wf_def split: if_splits)
  let ?q = "map (\<lambda>x. st_path (snd x)) (rg_scalar_targets r)"
    and ?q' = "map (\<lambda>x. st_path (snd x)) (bt_insert (st_id t) t (rg_scalar_targets r))"
  have eq: "rg_targets r = rg_targets r0" using assms(1) by (simp add: scalars_inv_def s)
  with assms(1) have paths: "set (target_paths (rg_targets r0)) \<union> set ?q = fst ` set c"
    and dist: "distinct (target_paths (rg_targets r0))" "distinct ?q" "set (target_paths (rg_targets r0)) \<inter> set ?q = {}"
    and get: "\<forall>k t. bt_get (rg_scalar_targets r) k = Some t \<longrightarrow> st_id t = k \<and> t \<in> T \<and> scalar_target_wf t \<and> bt_get (rg_targets r0) k = None"
    by (simp_all add: scalars_inv_def s registry_paths_def)
  have q': "set ?q' = insert (st_path t) (set ?q)" "distinct ?q'"
    using scalar_paths_insert [OF new(2), of t] dist(2) path paths by auto
  have "distinct (target_paths (rg_targets r0) @ ?q')"
    using dist path paths q' by auto
  moreover have "set (target_paths (rg_targets r0) @ ?q') = fst ` set ((st_path t, st_id t) # c)"
    using q'(1) paths by (simp del: set_map)
  moreover have "\<forall>k u. bt_get (bt_insert (st_id t) t (rg_scalar_targets r)) k = Some u \<longrightarrow>
      st_id u = k \<and> u \<in> T \<and> scalar_target_wf u \<and> bt_get (rg_targets r0) k = None"
    using get wf assms(2) new(1) eq by (simp add: bt_get_insert bt_contains_def)
  ultimately show ?thesis using eq by (simp add: scalars_inv_def s' registry_paths_def)
qed

lemma fold_claims: "fst ` set (fold (\<lambda>t c. (ft_max_path t, ft_id t) # (ft_min_path t, ft_id t) # c) (bt_values m) c0)
    = fst ` set c0 \<union> set (target_paths m)"
  by (induction m arbitrary: c0) (auto simp: bt_values_def target_paths_def)

lemma registry_new_inv:
  assumes "TargetRegistry_new ts = Inr r"
  shows "distinct (registry_paths r) \<and> rg_scalar_targets r = []
    \<and> (\<forall>k t. registry_get r k = Some t \<longrightarrow> ft_id t = k \<and> t \<in> set ts)"
proof -
  from assms obtain m c where f: "try_fold register_target ([], []) ts = Inr (m, c)"
    and r: "r = \<lparr>rg_targets = m, rg_scalar_targets = []\<rparr>"
    by (auto simp: TargetRegistry_new_def rbind_Inr_iff)
  have "targets_inv (set ts) (m, c)"
  proof (rule try_fold_inv [OF f])
    show "targets_inv (set ts) ([], [])" by (simp add: targets_inv_def target_paths_def)
  qed (rule register_target_inv)
  then show ?thesis by (simp add: targets_inv_def r registry_paths_def registry_get_def)
qed

lemma registry_built_inv:
  assumes "TargetRegistry_new ts = Inr r0" and "with_scalar_targets r0 ss = Inr r"
  shows "distinct (registry_paths r)
    \<and> (\<forall>k t. registry_get r k = Some t \<longrightarrow> ft_id t = k \<and> t \<in> set ts)
    \<and> (\<forall>k t. registry_get_scalar r k = Some t \<longrightarrow>
         st_id t = k \<and> t \<in> set ss \<and> scalar_target_wf t \<and> registry_get r k = None)"
proof -
  note r0 = registry_new_inv [OF assms(1)]
  let ?c = "fold (\<lambda>t c. (ft_max_path t, ft_id t) # (ft_min_path t, ft_id t) # c) (bt_values (rg_targets r0)) []"
  from assms(2) obtain c where f: "try_fold register_scalar (r0, ?c) ss = Inr (r, c)"
    by (auto simp: with_scalar_targets_def rbind_Inr_iff)
  have "scalars_inv (set ss) r0 (r0, ?c)"
    using r0 by (simp add: scalars_inv_def fold_claims registry_paths_def)
  then have "scalars_inv (set ss) r0 (r, c)"
    by (rule try_fold_inv [OF f]) (auto intro: register_scalar_inv)
  with r0 show ?thesis by (auto simp: scalars_inv_def registry_get_def registry_get_scalar_def)
qed

text \<open>
  C33: in a registry no kernel attribute belongs to two targets and no identifier names two resources:
  the paths of all frequency and scalar targets are distinct, every target is found under its own
  identifier and was given to the constructor, every scalar target is canonical, and an identifier
  of a scalar target is never one of a frequency target.
\<close>

theorem registry_claims_are_disjoint:
  assumes "TargetRegistry_new ts = Inr r0" and "with_scalar_targets r0 ss = Inr r"
  shows "distinct (registry_paths r)
    \<and> (\<forall>k t. registry_get r k = Some t \<longrightarrow> ft_id t = k \<and> t \<in> set ts)
    \<and> (\<forall>k t. registry_get_scalar r k = Some t \<longrightarrow>
         st_id t = k \<and> t \<in> set ss \<and> scalar_target_wf t \<and> registry_get r k = None)"
  by (rule registry_built_inv [OF assms])

theorem registry_claims_are_disjoint_witness:
  "\<exists>r. rbind (TargetRegistry_new [demo_target]) (\<lambda>r. with_scalar_targets r [demo_scalar]) = Inr r \<and> distinct (registry_paths r)
     \<and> registry_get r ''boost'' = None"
proof -
  have a: "TargetRegistry_new [demo_target] = Inr (demo_registry\<lparr>rg_scalar_targets := []\<rparr>)" by code_simp
  have b: "with_scalar_targets (demo_registry\<lparr>rg_scalar_targets := []\<rparr>) [demo_scalar] = Inr demo_registry" by code_simp
  have "registry_get_scalar demo_registry ''boost'' = Some demo_scalar" by code_simp
  with a b registry_claims_are_disjoint [OF a b] show ?thesis by auto
qed

section \<open>Tasks\<close>

text \<open>
  C29: giving a task back, or recovering it, touches exactly the fields that are still the actuator's:
  an owned field whose current value is the last one applied or requested gets its original value, and
  every other field, in particular one that somebody else changed, keeps its current value.
\<close>

theorem task_restoration_is_precise:
  fixes f :: task_field
  shows "task_same f (task_restoration entry current)
     (if task_has (tj_owned entry) f \<and> (task_same f current (tj_applied entry) \<or> task_same f current (tj_desired entry))
      then tj_original entry else current)"
  by (auto simp: task_restoration_def intro: tmask.give_back_owned tmask.give_back_foreign)

text \<open>
  C28: claiming fields of a task that is already in the journal respects what others did. A field is never
  both owned and relinquished; a field that lost the value the actuator applied becomes relinquished; a
  relinquished field is never owned again and the request leaves it at its current value; and the
  original value of a field that stays owned is not overwritten.
\<close>

theorem task_claim_respects_others:
  fixes f :: task_field
  assumes "\<not> task_mask_intersects (tj_owned e) (tj_relinquished e)"
    and "e' = claim_task_fields current wanted (refresh_task_entry current e)"
  shows "\<not> task_mask_intersects (tj_owned e') (tj_relinquished e')
    \<and> (task_has (tj_owned e) f \<and> \<not> task_same f current (tj_applied e) \<longrightarrow> task_has (tj_relinquished e') f)
    \<and> (task_has (tj_relinquished e) f \<longrightarrow> task_has (tj_relinquished e') f)
    \<and> (task_has (tj_relinquished e') f \<longrightarrow> \<not> task_has (tj_owned e') f \<and> task_same f (tj_desired e') current)
    \<and> (task_has (tj_owned e) f \<and> task_same f current (tj_applied e) \<longrightarrow>
         task_has (tj_owned e') f \<and> task_same f (tj_original e') (tj_original e))"
proof -
  let ?r = "refresh_task_entry current e"
  have r: "\<not> task_mask_intersects (tj_owned ?r) (tj_relinquished ?r)"
    using tmask.still_owned_disjoint [OF assms(1)] by (simp add: refresh_task_entry_def Let_def)
  then have disj: "\<not> task_mask_intersects (tj_owned e') (tj_relinquished e')"
    using tmask.claim_disjoint by (simp add: assms(2) claim_task_fields_def Let_def)
  have rel: "tj_relinquished e' = tj_relinquished ?r" by (simp add: assms(2) claim_task_fields_def Let_def)
  have relr: "task_has (tj_relinquished ?r) f \<longleftrightarrow> task_has (tj_relinquished e) f
      \<or> task_has (tj_owned e) f \<and> \<not> task_same f current (tj_applied e)"
    by (auto simp: refresh_task_entry_def Let_def tmask.has_union tmask.has_without tmask.has_matching)
  have ownr: "task_has (tj_owned ?r) f \<longleftrightarrow> task_has (tj_owned e) f \<and> task_same f current (tj_applied e)"
    by (auto simp: refresh_task_entry_def Let_def tmask.has_matching)
  have own: "task_has (tj_owned e') f \<longleftrightarrow> task_has (tj_owned ?r) f
      \<or> \<not> task_same f current wanted \<and> \<not> task_has (tj_relinquished ?r) f"
    by (auto simp: assms(2) claim_task_fields_def Let_def tmask.has_union tmask.has_without tmask.has_changed)
  have des: "task_same f (tj_desired e') current" if "\<not> task_has (tj_owned e') f"
    using that by (auto simp: assms(2) claim_task_fields_def Let_def tmask.same_copy tmask.same_refl)
  have orig: "task_same f (tj_original e') (tj_original e)" if "task_has (tj_owned ?r) f"
  proof -
    have "task_same f (tj_original e') (tj_original ?r)"
      using that by (auto simp: assms(2) claim_task_fields_def Let_def tmask.same_copy tmask.has_without tmask.same_refl)
    moreover have "task_same f (tj_original ?r) (tj_original e)"
      using that by (auto simp: refresh_task_entry_def Let_def tmask.same_copy tmask.has_without tmask.same_refl)
    ultimately show ?thesis by (rule tmask.same_trans)
  qed
  from disj have "\<not> (task_has (tj_owned e') f \<and> task_has (tj_relinquished e') f)"
    by (auto simp: tmask.intersects_iff)
  with disj rel relr ownr own des orig show ?thesis by auto
qed

theorem task_claim_respects_others_witness:
  "task_has (tj_relinquished (claim_task_fields (demo_scheduling 5) (demo_scheduling 3) (refresh_task_entry (demo_scheduling 5) demo_task))) NiceField
   \<and> task_same NiceField (tj_desired (claim_task_fields (demo_scheduling 5) (demo_scheduling 3) (refresh_task_entry (demo_scheduling 5) demo_task)))
        (demo_scheduling 5)"
  using task_claim_respects_others [OF _ refl, of demo_task "demo_scheduling 5" "demo_scheduling 3" NiceField]
  by (simp add: demo_task_def demo_scheduling_def task_mask_changed_def task_mask_default_def task_mask_intersects_def)

section \<open>A journal describes its own recovery\<close>

lemma list_all2_choice: "list_all (\<lambda>x. \<exists>y. R x y) xs \<Longrightarrow> \<exists>ys. list_all2 R xs ys"
  by (induction xs) (auto simp: list_all2_Cons1)

definition path_pair :: "frequency_target \<Rightarrow> path_buf list" where
  "path_pair t = [ft_min_path t, ft_max_path t]"

lemma register_targets_total:
  assumes "distinct (map ft_id ts)" and "\<forall>t \<in> set ts. \<not> bt_contains m (ft_id t)"
    and "distinct (concat (map path_pair ts))" and "set (concat (map path_pair ts)) \<inter> fst ` set c = {}"
  shows "\<exists>m' c'. try_fold register_target (m, c) ts = Inr (m', c')
    \<and> (\<forall>t \<in> set ts. bt_get m' (ft_id t) = Some t) \<and> (\<forall>k. k \<notin> ft_id ` set ts \<longrightarrow> bt_get m' k = bt_get m k)
    \<and> set (target_paths m') = set (target_paths m) \<union> set (concat (map path_pair ts))"
  using assms
proof (induction ts arbitrary: m c)
  case (Cons t ts)
  let ?m = "bt_insert (ft_id t) t m" and ?c = "(ft_max_path t, ft_id t) # (ft_min_path t, ft_id t) # c"
  have new: "\<not> bt_contains m (ft_id t)" using Cons.prems(2) by simp
  have step: "register_target (m, c) t = Inr (?m, ?c)"
    using Cons.prems new by (auto simp: register_target_def rbind_Inr_iff claim_path_Inr_iff path_pair_def)
  have "\<exists>m' c'. try_fold register_target (?m, ?c) ts = Inr (m', c')
    \<and> (\<forall>t \<in> set ts. bt_get m' (ft_id t) = Some t) \<and> (\<forall>k. k \<notin> ft_id ` set ts \<longrightarrow> bt_get m' k = bt_get ?m k)
    \<and> set (target_paths m') = set (target_paths ?m) \<union> set (concat (map path_pair ts))"
  proof (rule Cons.IH)
    show "\<forall>u \<in> set ts. \<not> bt_contains ?m (ft_id u)"
      using Cons.prems(1,2) by (simp add: bt_contains_def bt_get_insert) (metis image_eqI)
  qed (use Cons.prems in \<open>auto simp: path_pair_def\<close>)
  then obtain m' c' where "try_fold register_target (?m, ?c) ts = Inr (m', c')"
    and all: "\<forall>t \<in> set ts. bt_get m' (ft_id t) = Some t" and other: "\<forall>k. k \<notin> ft_id ` set ts \<longrightarrow> bt_get m' k = bt_get ?m k"
    and paths: "set (target_paths m') = set (target_paths ?m) \<union> set (concat (map path_pair ts))"
    by blast
  moreover have "bt_get m' (ft_id t) = Some t"
    using other Cons.prems(1) by (simp add: bt_get_insert)
  moreover have "set (target_paths ?m) = set (path_pair t) \<union> set (target_paths m)"
    using target_paths_insert [OF new, of t] by (simp add: path_pair_def)
  ultimately show ?case using step by (auto simp: bt_get_insert)
qed auto

lemma register_scalars_total:
  assumes "distinct (map st_id ss)" and "\<forall>t \<in> set ss. scalar_target_wf t \<and> \<not> bt_contains (rg_targets r) (st_id t)
      \<and> \<not> bt_contains (rg_scalar_targets r) (st_id t)"
    and "distinct (map st_path ss)" and "set (map st_path ss) \<inter> fst ` set c = {}"
  shows "\<exists>r' c'. try_fold register_scalar (r, c) ss = Inr (r', c') \<and> rg_targets r' = rg_targets r
    \<and> (\<forall>t \<in> set ss. registry_get_scalar r' (st_id t) = Some t)
    \<and> (\<forall>k. k \<notin> st_id ` set ss \<longrightarrow> registry_get_scalar r' k = registry_get_scalar r k)
    \<and> set (registry_paths r') = set (registry_paths r) \<union> set (map st_path ss)"
  using assms
proof (induction ss arbitrary: r c)
  case (Cons t ss)
  let ?r = "r\<lparr>rg_scalar_targets := bt_insert (st_id t) t (rg_scalar_targets r)\<rparr>" and ?c = "(st_path t, st_id t) # c"
  have new: "\<not> bt_contains (rg_scalar_targets r) (st_id t)" using Cons.prems(2) by simp
  have step: "register_scalar (r, c) t = Inr (?r, ?c)"
    using Cons.prems by (auto simp: register_scalar_def rbind_Inr_iff claim_path_Inr_iff scalar_target_wf_def)
  have "\<exists>r' c'. try_fold register_scalar (?r, ?c) ss = Inr (r', c') \<and> rg_targets r' = rg_targets ?r
    \<and> (\<forall>t \<in> set ss. registry_get_scalar r' (st_id t) = Some t)
    \<and> (\<forall>k. k \<notin> st_id ` set ss \<longrightarrow> registry_get_scalar r' k = registry_get_scalar ?r k)
    \<and> set (registry_paths r') = set (registry_paths ?r) \<union> set (map st_path ss)"
  proof (rule Cons.IH)
    show "\<forall>u \<in> set ss. scalar_target_wf u \<and> \<not> bt_contains (rg_targets ?r) (st_id u)
      \<and> \<not> bt_contains (rg_scalar_targets ?r) (st_id u)"
      using Cons.prems(1,2) by (simp add: bt_contains_def bt_get_insert) (metis image_eqI)
  qed (use Cons.prems in auto)
  then obtain r' c' where "try_fold register_scalar (?r, ?c) ss = Inr (r', c')" and "rg_targets r' = rg_targets r"
    and "\<forall>t \<in> set ss. registry_get_scalar r' (st_id t) = Some t"
    and other: "\<forall>k. k \<notin> st_id ` set ss \<longrightarrow> registry_get_scalar r' k = registry_get_scalar ?r k"
    and "set (registry_paths r') = set (registry_paths ?r) \<union> set (map st_path ss)"
    by auto
  moreover have "registry_get_scalar r' (st_id t) = Some t"
    using other Cons.prems(1) by (simp add: registry_get_scalar_def bt_get_insert)
  moreover have "set (registry_paths ?r) = insert (st_path t) (set (registry_paths r))"
    using scalar_paths_insert [OF new, of t] by (simp add: registry_paths_def)
  ultimately show ?case using step by (auto simp: registry_get_scalar_def bt_get_insert)
qed auto

definition describes :: "target_id \<times> journal_entry \<Rightarrow> frequency_target \<Rightarrow> bool" where
  "describes x t = (target_wf t \<and> ft_id t = fst x \<and> je_min_path (snd x) = ft_min_path t \<and> je_max_path (snd x) = ft_max_path t
     \<and> recovery_frequency_manifest (snd x) = Some (recovery_manifest t) \<and> je_original (snd x) = target_hardware_limits t)"

definition describes_scalar :: "target_id \<times> scalar_journal_entry \<Rightarrow> actuator_scalar_target \<Rightarrow> bool" where
  "describes_scalar x t = (scalar_target_wf t \<and> st_id t = fst x \<and> sj_path (snd x) = st_path t
     \<and> recovery_scalar_manifest (snd x) = Some (scalar_recovery_manifest t))"

lemma describe_entries:
  assumes "list_all2 describes es ts"
  shows "List.map_filter recovery_frequency_manifest (bt_values es) = map recovery_manifest ts
    \<and> map ft_id ts = bt_keys es \<and> concat (map path_pair ts) = entry_paths es"
  using assms
  by (induction es ts rule: list_all2_induct)
    (auto simp: List.map_filter_def bt_values_def bt_keys_def entry_paths_def describes_def path_pair_def)

lemma describe_scalars:
  assumes "list_all2 describes_scalar es ts"
  shows "List.map_filter recovery_scalar_manifest (bt_values es) = map scalar_recovery_manifest ts
    \<and> map st_id ts = bt_keys es \<and> map st_path ts = scalar_paths es"
  using assms
  by (induction es ts rule: list_all2_induct)
    (auto simp: List.map_filter_def bt_values_def bt_keys_def scalar_paths_def describes_scalar_def)

lemma rebuild_targets:
  assumes "list_all target_wf ts" and "list_all scalar_target_wf ss"
  shows "try_fold (\<lambda>(frequencies, scalars) target.
         case target of
           FrequencyPairTarget m \<Rightarrow> rbind (to_frequency_target m) (\<lambda>t. Inr (frequencies @ [t], scalars))
         | ScalarResourceTarget m \<Rightarrow> rbind (to_scalar_target m) (\<lambda>t. Inr (frequencies, scalars @ [t])))
       (fs, sc) (map FrequencyPairTarget (map recovery_manifest ts) @ map ScalarResourceTarget (map scalar_recovery_manifest ss))
     = Inr (fs @ ts, sc @ ss)"
  using assms
proof (induction ts arbitrary: fs)
  case Nil
  from Nil.prems(2) show ?case
  proof (induction ss arbitrary: sc)
    case (Cons s ss)
    then have "to_scalar_target (scalar_recovery_manifest s) = Inr s" by (simp add: to_scalar_target_Inr_iff)
    with Cons show ?case by simp
  qed simp
next
  case (Cons t ts)
  then have "to_frequency_target (recovery_manifest t) = Inr t" by (simp add: to_frequency_target_Inr_iff)
  with Cons show ?case by simp
qed

text \<open>
  a journal the decoder accepts is enough to recover from, without any device configuration: its
  manifest rebuilds a registry in which every journalled frequency target and scalar target is present
  with the identity, the paths and the hardware range that recovery checks for, and the paths of that
  registry are exactly the write paths the manifest announces.
\<close>

theorem journal_is_self_describing:
  assumes "journal_ok j" and "bt_wf (jn_entries j)" and "bt_wf (jn_scalars j)"
  shows "\<exists>r. self_describing_registry (manifest_of_journal j) = Inr r
    \<and> list_all (\<lambda>x. \<exists>t. registry_get r (fst x) = Some t \<and> describes x t) (jn_entries j)
    \<and> list_all (\<lambda>x. \<exists>t. registry_get_scalar r (fst x) = Some t \<and> \<not> scalar_identity_changed (snd x) t) (jn_scalars j)
    \<and> set (registry_paths r) = set (resource_write_paths (manifest_of_journal j))"
proof -
  have "list_all (\<lambda>x. \<exists>t. describes x t) (jn_entries j)"
    using assms(1) unfolding journal_ok_def describes_def entry_ok_def list_all_iff recovery_frequency_manifest_def by fastforce
  then obtain ts where ts: "list_all2 describes (jn_entries j) ts" using list_all2_choice by blast
  have "list_all (\<lambda>x. \<exists>t. describes_scalar x t) (jn_scalars j)"
    using assms(1) unfolding journal_ok_def describes_scalar_def scalar_entry_ok_def list_all_iff recovery_scalar_manifest_def by fastforce
  then obtain ss where ss: "list_all2 describes_scalar (jn_scalars j) ss" using list_all2_choice by blast
  note dt = describe_entries [OF ts] and ds = describe_scalars [OF ss]
  have wf: "list_all target_wf ts" "list_all scalar_target_wf ss"
    using ts ss by (auto simp: list_all2_conv_all_nth list_all_length describes_def describes_scalar_def)
  have paths: "distinct (entry_paths (jn_entries j))" "distinct (scalar_paths (jn_scalars j))"
      "set (entry_paths (jn_entries j)) \<inter> set (scalar_paths (jn_scalars j)) = {}"
    using assms(1) by (auto simp: journal_ok_def)
  have ids: "distinct (map ft_id ts)" "distinct (map st_id ss)"
    using dt ds assms(2,3) by (simp_all add: bt_keys_def bt_wf_def strict_sorted_iff)
  obtain m c where m: "try_fold register_target ([], []) ts = Inr (m, c)" "\<forall>t \<in> set ts. bt_get m (ft_id t) = Some t"
      "\<forall>k. k \<notin> ft_id ` set ts \<longrightarrow> bt_get m k = None" "set (target_paths m) = set (concat (map path_pair ts))"
    using register_targets_total [OF ids(1), of "[]" "[]"] dt paths(1) by (auto simp: bt_contains_def target_paths_def)
  let ?r0 = "\<lparr>rg_targets = m, rg_scalar_targets = []\<rparr>"
  let ?c0 = "fold (\<lambda>t c. (ft_max_path t, ft_id t) # (ft_min_path t, ft_id t) # c) (bt_values (rg_targets ?r0)) []"
  have "\<forall>t \<in> set ss. scalar_target_wf t \<and> \<not> bt_contains m (st_id t) \<and> \<not> bt_contains [] (st_id t)"
  proof
    fix t assume t: "t \<in> set ss"
    then have "st_id t \<in> set (bt_keys (jn_scalars j))" using ds by (metis image_eqI list.set_map)
    then have "\<not> bt_contains (jn_entries j) (st_id t)"
      using assms(1) by (force simp: journal_ok_def list_all_iff bt_keys_def)
    then have "st_id t \<notin> ft_id ` set ts" using dt by (metis bt_contains_iff list.set_map)
    with m(3) t wf(2) show "scalar_target_wf t \<and> \<not> bt_contains m (st_id t) \<and> \<not> bt_contains [] (st_id t)"
      by (simp add: bt_contains_def list_all_iff)
  qed
  moreover have "set (map st_path ss) \<inter> fst ` set ?c0 = {}"
    using fold_claims [of m "[]"] m(4) dt ds paths(3) by auto
  moreover have "distinct (map st_path ss)" using ds paths(2) by metis
  ultimately have "\<exists>r c'. try_fold register_scalar (?r0, ?c0) ss = Inr (r, c') \<and> rg_targets r = rg_targets ?r0
    \<and> (\<forall>t \<in> set ss. registry_get_scalar r (st_id t) = Some t)
    \<and> (\<forall>k. k \<notin> st_id ` set ss \<longrightarrow> registry_get_scalar r k = registry_get_scalar ?r0 k)
    \<and> set (registry_paths r) = set (registry_paths ?r0) \<union> set (map st_path ss)"
    by (intro register_scalars_total [OF ids(2)]) simp_all
  then obtain r c' where r: "try_fold register_scalar (?r0, ?c0) ss = Inr (r, c')" "rg_targets r = m"
      "\<forall>t \<in> set ss. registry_get_scalar r (st_id t) = Some t"
      "set (registry_paths r) = set (registry_paths ?r0) \<union> set (map st_path ss)"
    by auto
  have "self_describing_registry (manifest_of_journal j) = Inr r"
    using m(1) r(1) rebuild_targets [OF wf, of "[]" "[]"] dt ds
    by (simp add: self_describing_registry_def manifest_of_journal_def Let_def TargetRegistry_new_def with_scalar_targets_def)
  moreover have "list_all (\<lambda>x. \<exists>t. registry_get r (fst x) = Some t \<and> describes x t) (jn_entries j)"
    unfolding list_all_length
  proof (intro allI impI)
    fix n assume n: "n < length (jn_entries j)"
    with ts have "describes (jn_entries j ! n) (ts ! n)" "ts ! n \<in> set ts" by (auto simp: list_all2_conv_all_nth)
    with m(2) r(2) show "\<exists>t. registry_get r (fst (jn_entries j ! n)) = Some t \<and> describes (jn_entries j ! n) t"
      by (auto simp: registry_get_def describes_def)
  qed
  moreover have "list_all (\<lambda>x. \<exists>t. registry_get_scalar r (fst x) = Some t \<and> \<not> scalar_identity_changed (snd x) t) (jn_scalars j)"
    unfolding list_all_length
  proof (intro allI impI)
    fix n assume n: "n < length (jn_scalars j)"
    with ss have "describes_scalar (jn_scalars j ! n) (ss ! n)" "ss ! n \<in> set ss" by (auto simp: list_all2_conv_all_nth)
    with r(3) show "\<exists>t. registry_get_scalar r (fst (jn_scalars j ! n)) = Some t \<and> \<not> scalar_identity_changed (snd (jn_scalars j ! n)) t"
      by (auto simp: describes_scalar_def scalar_identity_changed_def)
  qed
  moreover have "set (registry_paths r) = set (resource_write_paths (manifest_of_journal j))"
  proof -
    have "frequency_write_paths (manifest_of_journal j) = concat (map path_pair ts)"
      using dt unfolding path_pair_def [abs_def]
      by (simp add: frequency_write_paths_def manifest_of_journal_def Let_def comp_def recovery_manifest_def)
    moreover have "scalar_write_paths (manifest_of_journal j) = map st_path ss"
      using dt ds by (simp add: scalar_write_paths_def manifest_of_journal_def Let_def List.map_filter_def comp_def scalar_recovery_manifest_def)
    ultimately show ?thesis using r(4) m(4) by (simp add: resource_write_paths_def registry_paths_def)
  qed
  ultimately show ?thesis by blast
qed

theorem journal_is_self_describing_witness:
  "\<exists>r. self_describing_registry (manifest_of_journal (demo_journals ! 1)) = Inr r
     \<and> set (registry_paths r) = set (resource_write_paths (manifest_of_journal (demo_journals ! 1)))"
proof -
  have "validate_decoded_journal (demo_journals ! 1) = Inr ()" by code_simp
  then have "journal_ok (demo_journals ! 1)" by (simp add: validate_decoded_journal_iff)
  moreover have "bt_wf (jn_entries (demo_journals ! 1))" and "bt_wf (jn_scalars (demo_journals ! 1))" by code_simp+
  ultimately show ?thesis using journal_is_self_describing by blast
qed

end
