(* ===== verification/Journal_Invariant.thy ===== *)
theory Journal_Invariant
  imports Actuator_Ownership
begin

text \<open>
  The invariant of the journal in memory. While the actuator runs, every entry of the journal belongs
  to the registered target of its key and records windows or values that target allows; such a journal
  is always one the decoder accepts, so whatever is persisted can be recovered from. The updates of the
  transactions and restorations keep the invariant and never lose a claimed path.
\<close>

section \<open>Registries\<close>

definition resource_paths :: "target_registry \<Rightarrow> target_id \<Rightarrow> path_buf set" where
  "resource_paths r k =
     (case registry_get r k of Some t \<Rightarrow> {ft_min_path t, ft_max_path t}
      | None \<Rightarrow> (case registry_get_scalar r k of Some t \<Rightarrow> {st_path t} | None \<Rightarrow> {}))"

definition registry_ok :: "target_registry \<Rightarrow> bool" where
  "registry_ok r =
     ((\<forall>k t. registry_get r k = Some t \<longrightarrow> target_wf t \<and> ft_id t = k)
      \<and> (\<forall>k t. registry_get_scalar r k = Some t \<longrightarrow> scalar_target_wf t \<and> st_id t = k \<and> registry_get r k = None)
      \<and> (\<forall>k k'. k \<noteq> k' \<longrightarrow> resource_paths r k \<inter> resource_paths r k' = {}))"

lemma registry_okD:
  assumes "registry_ok r"
  shows "registry_get r k = Some t \<Longrightarrow> target_wf t \<and> ft_id t = k"
    and "registry_get_scalar r k = Some u \<Longrightarrow> scalar_target_wf u \<and> st_id u = k \<and> registry_get r k = None"
    and "k \<noteq> k' \<Longrightarrow> resource_paths r k \<inter> resource_paths r k' = {}"
  using assms by (auto simp: registry_ok_def)

section \<open>The invariant\<close>

definition entry_of :: "frequency_target \<Rightarrow> journal_entry \<Rightarrow> bool" where
  "entry_of t e =
     (je_target e = ft_id t \<and> je_min_path e = ft_min_path t \<and> je_max_path e = ft_max_path t
      \<and> je_resource_manifest e = FrequencyPairManifest (recovery_manifest t)
      \<and> je_original e = target_hardware_limits t \<and> validate_limits t (je_desired e) = Inr ())"

definition entry_settled :: "frequency_target \<Rightarrow> journal_entry \<Rightarrow> bool" where
  "entry_settled t e =
     (validate_limits t (je_applied e) = Inr () \<and> je_legal_pairs e = transaction_legal_pairs (je_applied e) (je_desired e))"

definition scalar_entry_of :: "actuator_scalar_target \<Rightarrow> scalar_journal_entry \<Rightarrow> bool" where
  "scalar_entry_of t e =
     (sj_target e = st_id t \<and> sj_path e = st_path t \<and> sj_manifest e = ScalarManifest (scalar_recovery_manifest t)
      \<and> domain_accepts (st_domain t) (sj_original e) \<and> domain_accepts (st_domain t) (sj_desired e)
      \<and> domain_accepts (st_domain t) (sj_applied e))"

definition fixed_part :: "journal \<Rightarrow> bool" where
  "fixed_part j =
     (jn_schema_version j = JOURNAL_SCHEMA_VERSION \<and> jn_boot_id j \<noteq> [] \<and> jn_device_fingerprint j \<noteq> []
      \<and> list_all (\<lambda>(k, e). task_entry_ok k e) (jn_tasks j) \<and> list_all (\<lambda>e. validate_unit_entry e = Inr ()) (jn_units j))"

text \<open>
  \<open>fits_but K r j\<close>: the journal fits the registry, but the entries of \<open>K\<close> may be between the two
  windows of a fast transaction.
\<close>

definition fits_but :: "target_id set \<Rightarrow> target_registry \<Rightarrow> journal \<Rightarrow> bool" where
  "fits_but K r j =
     (fixed_part j \<and> bt_wf (jn_entries j) \<and> bt_wf (jn_scalars j)
      \<and> (\<forall>k e. bt_get (jn_entries j) k = Some e \<longrightarrow>
           (\<exists>t. registry_get r k = Some t \<and> entry_of t e \<and> (k \<notin> K \<longrightarrow> entry_settled t e)))
      \<and> (\<forall>k e. bt_get (jn_scalars j) k = Some e \<longrightarrow> (\<exists>t. registry_get_scalar r k = Some t \<and> scalar_entry_of t e)))"

abbreviation fits :: "target_registry \<Rightarrow> journal \<Rightarrow> bool" where
  "fits \<equiv> fits_but {}"

definition claims_of :: "journal \<Rightarrow> path_buf set" where
  "claims_of j = set (entry_paths (jn_entries j)) \<union> set (scalar_paths (jn_scalars j))"

lemma fitsD:
  assumes "fits_but K r j"
  shows "bt_get (jn_entries j) k = Some e \<Longrightarrow> \<exists>t. registry_get r k = Some t \<and> entry_of t e \<and> (k \<notin> K \<longrightarrow> entry_settled t e)"
    and "bt_get (jn_scalars j) k = Some f \<Longrightarrow> \<exists>u. registry_get_scalar r k = Some u \<and> scalar_entry_of u f"
  using assms by (auto simp: fits_but_def)

lemma claims_of_entry:
  "bt_get (jn_entries j) k = Some e \<Longrightarrow> {je_min_path e, je_max_path e} \<subseteq> claims_of j"
  "bt_get (jn_scalars j) k = Some f \<Longrightarrow> sj_path f \<in> claims_of j"
  by (force simp: claims_of_def entry_paths_def scalar_paths_def dest: bt_get_Some_mem)+

lemma claims_of_memD:
  assumes "bt_wf (jn_entries j)" and "bt_wf (jn_scalars j)" and "p \<in> claims_of j"
  shows "(\<exists>k e. bt_get (jn_entries j) k = Some e \<and> p \<in> {je_min_path e, je_max_path e})
    \<or> (\<exists>k f. bt_get (jn_scalars j) k = Some f \<and> p = sj_path f)"
  using assms(3) bt_wf_mem_get [OF assms(1)] bt_wf_mem_get [OF assms(2)]
  by (fastforce simp: claims_of_def entry_paths_def scalar_paths_def)

lemma claims_mono:
  assumes "bt_wf (jn_entries i)" and "bt_wf (jn_scalars i)"
    and "\<And>k e. bt_get (jn_entries i) k = Some e \<Longrightarrow>
      \<exists>e'. bt_get (jn_entries j) k = Some e' \<and> je_min_path e' = je_min_path e \<and> je_max_path e' = je_max_path e"
    and "\<And>k e. bt_get (jn_scalars i) k = Some e \<Longrightarrow> \<exists>e'. bt_get (jn_scalars j) k = Some e' \<and> sj_path e' = sj_path e"
  shows "claims_of i \<subseteq> claims_of j"
proof
  fix p assume "p \<in> claims_of i"
  from claims_of_memD [OF assms(1,2) this] show "p \<in> claims_of j"
    by (elim disjE exE conjE) (use claims_of_entry [of j] in \<open>fastforce dest!: assms(3)\<close>, use claims_of_entry [of j] in \<open>fastforce dest!: assms(4)\<close>)
qed

lemma claims_of_empty: "journal_is_empty j \<Longrightarrow> claims_of j = {}"
  by (simp add: journal_is_empty_def claims_of_def entry_paths_def scalar_paths_def)

section \<open>A journal that fits is one the decoder accepts\<close>

lemma distinct_concat_keys:
  assumes "distinct (map fst es)" and "\<And>k e. (k, e) \<in> set es \<Longrightarrow> distinct (f e) \<and> set (f e) \<subseteq> P k"
    and "\<And>k k'. k \<noteq> k' \<Longrightarrow> P k \<inter> P k' = {}"
  shows "distinct (concat (map (\<lambda>e. f (snd e)) es))"
  using assms(1,2)
proof (induction es)
  case (Cons x es)
  obtain k e where x: "x = (k, e)" by fastforce
  have "set (f e) \<inter> set (f e') = {}" if "(k', e') \<in> set es" for k' e'
  proof -
    have "k' \<noteq> k" using that Cons.prems(1) x by force
    then show ?thesis using Cons.prems(2) [of k e] Cons.prems(2) [of k' e'] that assms(3) [of k k'] x by fastforce
  qed
  moreover have "distinct (concat (map (\<lambda>e. f (snd e)) es))"
    using Cons.prems by (intro Cons.IH) auto
  ultimately show ?case using Cons.prems(2) [of k e] x by fastforce
qed simp

lemma fits_paths:
  assumes "registry_ok r" and "fits_but K r j"
  shows "(k, e) \<in> set (jn_entries j) \<Longrightarrow> je_min_path e \<noteq> je_max_path e \<and> {je_min_path e, je_max_path e} = resource_paths r k \<and> registry_get r k \<noteq> None"
    and "(k, f) \<in> set (jn_scalars j) \<Longrightarrow> {sj_path f} = resource_paths r k \<and> registry_get r k = None"
proof -
  have wf: "bt_wf (jn_entries j)" "bt_wf (jn_scalars j)" using assms(2) by (auto simp: fits_but_def)
  { assume "(k, e) \<in> set (jn_entries j)"
    from bt_wf_mem_get [OF wf(1) this] obtain t where "registry_get r k = Some t" "entry_of t e"
      using fitsD(1) [OF assms(2)] by blast
    then show "je_min_path e \<noteq> je_max_path e \<and> {je_min_path e, je_max_path e} = resource_paths r k \<and> registry_get r k \<noteq> None"
      using registry_okD(1) [OF assms(1)] by (auto simp: resource_paths_def entry_of_def target_wf_def) }
  { assume "(k, f) \<in> set (jn_scalars j)"
    from bt_wf_mem_get [OF wf(2) this] obtain t where "registry_get_scalar r k = Some t" "scalar_entry_of t f"
      using fitsD(2) [OF assms(2)] by blast
    then show "{sj_path f} = resource_paths r k \<and> registry_get r k = None"
      using registry_okD(2) [OF assms(1)] by (auto simp: resource_paths_def scalar_entry_of_def) }
qed

lemma fits_distinct_paths:
  assumes "registry_ok r" and "fits_but K r j"
  shows "distinct (entry_paths (jn_entries j) @ scalar_paths (jn_scalars j))"
proof -
  note paths = fits_paths [OF assms] and apart = registry_okD(3) [OF assms(1)]
  have keys: "distinct (map fst (jn_entries j))" "distinct (map fst (jn_scalars j))"
    using assms(2) by (auto simp: fits_but_def bt_wf_def strict_sorted_iff)
  have "distinct (concat (map (\<lambda>e. [je_min_path (snd e), je_max_path (snd e)]) (jn_entries j)))"
  proof (rule distinct_concat_keys [OF keys(1), where P = "resource_paths r" and f = "\<lambda>e. [je_min_path e, je_max_path e]"])
    fix k e assume "(k, e) \<in> set (jn_entries j)"
    from paths(1) [OF this] have "je_min_path e \<noteq> je_max_path e" "je_min_path e \<in> resource_paths r k" "je_max_path e \<in> resource_paths r k"
      by blast+
    then show "distinct [je_min_path e, je_max_path e] \<and> set [je_min_path e, je_max_path e] \<subseteq> resource_paths r k" by simp
  qed (rule apart)
  moreover have "distinct (concat (map (\<lambda>e. [sj_path (snd e)]) (jn_scalars j)))"
  proof (rule distinct_concat_keys [OF keys(2), where P = "resource_paths r" and f = "\<lambda>e. [sj_path e]"])
    fix k f assume "(k, f) \<in> set (jn_scalars j)"
    from paths(2) [OF this] have "sj_path f \<in> resource_paths r k" by blast
    then show "distinct [sj_path f] \<and> set [sj_path f] \<subseteq> resource_paths r k" by simp
  qed (rule apart)
  moreover have "concat (map (\<lambda>e. [sj_path (snd e)]) (jn_scalars j)) = scalar_paths (jn_scalars j)"
    by (simp add: scalar_paths_def)
  moreover have "p \<noteq> q" if "p \<in> set (entry_paths (jn_entries j))" "q \<in> set (scalar_paths (jn_scalars j))" for p q
  proof -
    from that(1) obtain k e where k: "(k, e) \<in> set (jn_entries j)" "p \<in> {je_min_path e, je_max_path e}"
      by (auto simp: entry_paths_def)
    from that(2) obtain l f where l: "(l, f) \<in> set (jn_scalars j)" "q = sj_path f" by (auto simp: scalar_paths_def)
    have "p \<in> resource_paths r k" "registry_get r k \<noteq> None" using paths(1) [OF k(1)] k(2) by metis+
    moreover have "q \<in> resource_paths r l" "registry_get r l = None" using paths(2) [OF l(1)] l(2) by (metis singletonI)+
    ultimately show ?thesis using apart [of k l] by (metis disjoint_iff)
  qed
  ultimately show ?thesis by (auto simp: entry_paths_def)
qed

lemma fits_journal_ok:
  assumes "registry_ok r" and "fits r j"
  shows "journal_ok j"
proof -
  have wf: "bt_wf (jn_entries j)" "bt_wf (jn_scalars j)" and fixed: "fixed_part j" using assms(2) by (auto simp: fits_but_def)
  have "entry_ok k e" if "(k, e) \<in> set (jn_entries j)" for k e
    using fitsD(1) [OF assms(2) bt_wf_mem_get [OF wf(1) that]] registry_okD(1) [OF assms(1)]
    unfolding entry_ok_def entry_of_def entry_settled_def by (metis empty_iff)
  moreover have "scalar_entry_ok k e \<and> \<not> bt_contains (jn_entries j) k" if "(k, e) \<in> set (jn_scalars j)" for k e
  proof
    from fitsD(2) [OF assms(2) bt_wf_mem_get [OF wf(2) that]] obtain t
      where t: "registry_get_scalar r k = Some t" "scalar_entry_of t e" by blast
    from registry_okD(2) [OF assms(1) t(1)] t(2) show "scalar_entry_ok k e"
      by (auto simp: scalar_entry_ok_def scalar_entry_of_def)
    from registry_okD(2) [OF assms(1) t(1)] show "\<not> bt_contains (jn_entries j) k"
      using fitsD(1) [OF assms(2)] by (fastforce simp: bt_contains_def)
  qed
  ultimately show ?thesis
    using fixed fits_distinct_paths [OF assms] by (auto simp: journal_ok_def fixed_part_def list_all_iff)
qed

section \<open>Updates keep it\<close>

lemma fits_generation [simp]:
  "fits_but K r (j\<lparr>jn_generation := g\<rparr>) = fits_but K r j" "claims_of (j\<lparr>jn_generation := g\<rparr>) = claims_of j"
  "fits_but K r (next_generation j) = fits_but K r j" "claims_of (next_generation j) = claims_of j"
  by (simp_all add: fits_but_def fixed_part_def claims_of_def next_generation_def)

lemma fits_weaken: "fits_but K r j \<Longrightarrow> K \<subseteq> K' \<Longrightarrow> fits_but K' r j"
  unfolding fits_but_def by blast

lemma fits_wf: "fits_but K r j \<Longrightarrow> bt_wf (jn_entries j) \<and> bt_wf (jn_scalars j)"
  by (simp add: fits_but_def)

lemma fits_entries:
  assumes "fits_but K r j" and "bt_wf es"
    and "\<And>k e. bt_get es k = Some e \<Longrightarrow> \<exists>t. registry_get r k = Some t \<and> entry_of t e \<and> (k \<notin> K' \<longrightarrow> entry_settled t e)"
  shows "fits_but K' r (j\<lparr>jn_entries := es\<rparr>)"
  using assms by (simp add: fits_but_def fixed_part_def)

lemma fits_scalars:
  assumes "fits_but K r j" and "bt_wf es"
    and "\<And>k e. bt_get es k = Some e \<Longrightarrow> \<exists>t. registry_get_scalar r k = Some t \<and> scalar_entry_of t e"
  shows "fits_but K r (j\<lparr>jn_scalars := es\<rparr>)"
  using assms by (simp add: fits_but_def fixed_part_def)

lemma fits_old:
  assumes "fits_but K r j" and "K \<subseteq> insert k K'" and "k' \<noteq> k" and "bt_get (jn_entries j) k' = Some e"
  shows "\<exists>t. registry_get r k' = Some t \<and> entry_of t e \<and> (k' \<notin> K' \<longrightarrow> entry_settled t e)"
  using fitsD(1) [OF assms(1,4)] assms(2,3) by blast

lemma fits_insert_entry:
  assumes "fits_but K r j" and "registry_get r k = Some t" and "entry_of t e" and "k \<notin> K' \<Longrightarrow> entry_settled t e" and "K \<subseteq> insert k K'"
  shows "fits_but K' r (j\<lparr>jn_entries := bt_insert k e (jn_entries j)\<rparr>)"
proof (rule fits_entries [OF assms(1)])
  show "bt_wf (bt_insert k e (jn_entries j))" using assms(1) by (simp add: fits_but_def bt_wf_insert)
next
  fix k' e' assume *: "bt_get (bt_insert k e (jn_entries j)) k' = Some e'"
  show "\<exists>t. registry_get r k' = Some t \<and> entry_of t e' \<and> (k' \<notin> K' \<longrightarrow> entry_settled t e')"
  proof (cases "k' = k")
    case True
    with * assms(2-4) show ?thesis by (auto simp: bt_get_insert)
  next
    case False
    with * show ?thesis by (intro fits_old [OF assms(1,5) False]) (simp add: bt_get_insert)
  qed
qed

lemma bt_wf_get_mut: "bt_wf m \<Longrightarrow> bt_wf (bt_get_mut k f m)"
  by (simp add: bt_wf_def bt_get_mut_keys)

lemma fits_mut_entry:
  assumes "fits_but K r j"
    and "\<And>t e. bt_get (jn_entries j) k = Some e \<Longrightarrow> registry_get r k = Some t \<Longrightarrow> entry_of t e \<Longrightarrow>
      entry_of t (f e) \<and> (k \<notin> K' \<longrightarrow> entry_settled t (f e))"
    and "K \<subseteq> insert k K'"
  shows "fits_but K' r (j\<lparr>jn_entries := bt_get_mut k f (jn_entries j)\<rparr>)"
proof (rule fits_entries [OF assms(1)])
  show "bt_wf (bt_get_mut k f (jn_entries j))" using assms(1) by (simp add: fits_but_def bt_wf_get_mut)
next
  fix k' e' assume *: "bt_get (bt_get_mut k f (jn_entries j)) k' = Some e'"
  show "\<exists>t. registry_get r k' = Some t \<and> entry_of t e' \<and> (k' \<notin> K' \<longrightarrow> entry_settled t e')"
  proof (cases "k' = k")
    case True
    with * obtain e where "bt_get (jn_entries j) k = Some e" "e' = f e" by (auto simp: bt_get_get_mut)
    with True fitsD(1) [OF assms(1)] assms(2) show ?thesis by blast
  next
    case False
    with * show ?thesis by (intro fits_old [OF assms(1,3) False]) (simp add: bt_get_get_mut)
  qed
qed

lemma fits_mut_scalar:
  assumes "fits_but K r j"
    and "\<And>t e. bt_get (jn_scalars j) k = Some e \<Longrightarrow> registry_get_scalar r k = Some t \<Longrightarrow> scalar_entry_of t e \<Longrightarrow> scalar_entry_of t (f e)"
  shows "fits_but K r (j\<lparr>jn_scalars := bt_get_mut k f (jn_scalars j)\<rparr>)"
proof (rule fits_scalars [OF assms(1)])
  show "bt_wf (bt_get_mut k f (jn_scalars j))" using assms(1) by (simp add: fits_but_def bt_wf_get_mut)
next
  fix k' e' assume *: "bt_get (bt_get_mut k f (jn_scalars j)) k' = Some e'"
  then obtain e where "bt_get (jn_scalars j) k' = Some e" "e' = (if k' = k then f e else e)"
    by (auto simp: bt_get_get_mut split: if_splits)
  with fitsD(2) [OF assms(1)] assms(2) show "\<exists>t. registry_get_scalar r k' = Some t \<and> scalar_entry_of t e'"
    by metis
qed

lemma fits_insert_scalar:
  assumes "fits_but K r j" and "registry_get_scalar r k = Some t" and "scalar_entry_of t e"
  shows "fits_but K r (j\<lparr>jn_scalars := bt_insert k e (jn_scalars j)\<rparr>)"
proof (rule fits_scalars [OF assms(1)])
  show "bt_wf (bt_insert k e (jn_scalars j))" using assms(1) by (simp add: fits_but_def bt_wf_insert)
next
  fix k' e' assume "bt_get (bt_insert k e (jn_scalars j)) k' = Some e'"
  with fitsD(2) [OF assms(1)] assms(2,3) show "\<exists>t. registry_get_scalar r k' = Some t \<and> scalar_entry_of t e'"
    by (auto simp: bt_get_insert split: if_splits)
qed

lemma claims_mut_entry:
  "(\<And>e. je_min_path (f e) = je_min_path e \<and> je_max_path (f e) = je_max_path e) \<Longrightarrow>
   claims_of (j\<lparr>jn_entries := bt_get_mut k f (jn_entries j)\<rparr>) = claims_of j"
proof -
  assume "\<And>e. je_min_path (f e) = je_min_path e \<and> je_max_path (f e) = je_max_path e"
  then have "entry_paths (bt_get_mut k f m) = entry_paths m" for m
    by (induction m) (auto simp: entry_paths_def bt_get_mut_def)
  then show ?thesis by (simp add: claims_of_def)
qed

lemma claims_mut_scalar:
  "(\<And>e. sj_path (f e) = sj_path e) \<Longrightarrow> claims_of (j\<lparr>jn_scalars := bt_get_mut k f (jn_scalars j)\<rparr>) = claims_of j"
proof -
  assume "\<And>e. sj_path (f e) = sj_path e"
  then have "scalar_paths (bt_get_mut k f m) = scalar_paths m" for m
    by (induction m) (auto simp: scalar_paths_def bt_get_mut_def)
  then show ?thesis by (simp add: claims_of_def)
qed

lemma fits_remove_entry: "fits_but K r j \<Longrightarrow> fits_but K r (j\<lparr>jn_entries := bt_remove k (jn_entries j)\<rparr>)"
  unfolding fits_but_def by (auto simp: bt_get_remove bt_wf_remove fixed_part_def)

lemma fits_remove_scalar: "fits_but K r j \<Longrightarrow> fits_but K r (j\<lparr>jn_scalars := bt_remove k (jn_scalars j)\<rparr>)"
  unfolding fits_but_def by (auto simp: bt_get_remove bt_wf_remove fixed_part_def)

lemma fits_drop_entries:
  "fits_but K r j \<Longrightarrow> fits_but K r (j\<lparr>jn_entries := fold (\<lambda>e. bt_remove (je_target e)) es (jn_entries j)\<rparr>)
    \<and> claims_of (j\<lparr>jn_entries := fold (\<lambda>e. bt_remove (je_target e)) es (jn_entries j)\<rparr>) \<subseteq> claims_of j"
proof (induction es arbitrary: j)
  case (Cons e es)
  let ?j = "j\<lparr>jn_entries := bt_remove (je_target e) (jn_entries j)\<rparr>"
  have "claims_of ?j \<subseteq> claims_of j" by (auto simp: claims_of_def entry_paths_def bt_remove_def)
  with Cons.IH [OF fits_remove_entry [OF Cons.prems, of "je_target e"]] show ?case by auto
qed simp

lemma fits_drop_scalars:
  "fits_but K r j \<Longrightarrow> fits_but K r (j\<lparr>jn_scalars := fold (\<lambda>e. bt_remove (sj_target e)) es (jn_scalars j)\<rparr>)
    \<and> claims_of (j\<lparr>jn_scalars := fold (\<lambda>e. bt_remove (sj_target e)) es (jn_scalars j)\<rparr>) \<subseteq> claims_of j"
proof (induction es arbitrary: j)
  case (Cons e es)
  let ?j = "j\<lparr>jn_scalars := bt_remove (sj_target e) (jn_scalars j)\<rparr>"
  have "claims_of ?j \<subseteq> claims_of j" by (auto simp: claims_of_def scalar_paths_def bt_remove_def)
  with Cons.IH [OF fits_remove_scalar [OF Cons.prems, of "sj_target e"]] show ?case by auto
qed simp

section \<open>Intents\<close>

lemma snap_limits_valid:
  assumes "target_wf t" and "snap_limits t l = Inr d"
  shows "validate_limits t d = Inr ()"
proof -
  from assms(2) have l: "validate_limits t l = Inr ()" by (auto simp: snap_limits_def rbind_Inr_iff)
  show ?thesis
  proof (cases "ft_opps t = []")
    case True
    with assms(2) l show ?thesis by (auto simp: snap_limits_def rbind_Inr_iff)
  next
    case False
    obtain mn mx where "snap_limits t l = Inr \<lparr>min_hz = min mn mx, max_hz = mx\<rparr>"
      and mx: "mx = ft_hardware_min t \<or> mx \<in> set (ft_opps t)"
      and mn': "mn = ft_hardware_max t \<or> mn \<in> set (ft_opps t) \<and> min_hz l \<le> mn"
      by (rule snap_limits_cases [OF assms(1) l False]) blast
    with assms(2) have d: "d = \<lparr>min_hz = min mn mx, max_hz = mx\<rparr>" and mn: "mn = ft_hardware_max t \<or> mn \<in> set (ft_opps t)" by auto
    have ok: "ft_hardware_min t \<le> x \<and> x \<le> ft_hardware_max t \<and> u64_is_multiple_of x (ft_hertz_per_unit t)"
      if "x = ft_hardware_min t \<or> x = ft_hardware_max t \<or> x \<in> set (ft_opps t)" for x
      using that assms(1) by (auto simp: target_wf_def list_all_iff)
    from ok [of mx] ok [of mn] mx mn assms(1) show ?thesis
      by (auto simp: d validate_limits_Inr_iff target_wf_def min_def)
  qed
qed

definition frequency_prepared_for :: "target_registry \<Rightarrow> prepared_frequency \<Rightarrow> bool" where
  "frequency_prepared_for r m =
     (registry_get r (ft_id (pf_target m)) = Some (pf_target m)
      \<and> validate_limits (pf_target m) (pf_previous_request m) = Inr ()
      \<and> validate_limits (pf_target m) (pf_desired_request m) = Inr ())"

definition intended :: "journal \<Rightarrow> prepared_frequency \<Rightarrow> bool" where
  "intended j m = (\<exists>e. bt_get (jn_entries j) (ft_id (pf_target m)) = Some e \<and> je_desired e = pf_desired_request m)"

definition target_paths_of :: "frequency_target \<Rightarrow> path_buf set" where
  "target_paths_of t = {ft_min_path t, ft_max_path t}"

lemma intended_claims:
  assumes "fits_but K r j" and "intended j m" and "frequency_prepared_for r m"
  shows "target_paths_of (pf_target m) \<subseteq> claims_of j"
proof -
  from assms(2) obtain e where e: "bt_get (jn_entries j) (ft_id (pf_target m)) = Some e" by (auto simp: intended_def)
  from fitsD(1) [OF assms(1) e] assms(3) have "entry_of (pf_target m) e" by (auto simp: frequency_prepared_for_def)
  with claims_of_entry(1) [OF e] show ?thesis by (auto simp: target_paths_of_def entry_of_def)
qed

lemma transition_entry:
  "entry_of t e \<Longrightarrow> validate_limits t d = Inr () \<Longrightarrow> entry_of t (transition a d e)"
  "validate_limits t a = Inr () \<Longrightarrow> entry_settled t (transition a d e)"
  by (simp_all add: entry_of_def entry_settled_def transition_def)

lemma fits_record_intent:
  assumes "fits r j" and "frequency_prepared_for r m"
  shows "fits r (record_intent m j)" and "claims_of j \<subseteq> claims_of (record_intent m j)" and "intended (record_intent m j) m"
    and "k \<noteq> ft_id (pf_target m) \<Longrightarrow> bt_get (jn_entries (record_intent m j)) k = bt_get (jn_entries j) k"
proof -
  let ?t = "pf_target m" and ?old = "bt_get (jn_entries j) (ft_id (pf_target m))"
  let ?e = "unwrap_or (new_entry m) ?old"
  have e: "entry_of ?t ?e"
  proof (cases ?old)
    case None
    then show ?thesis using assms(2) by (simp add: new_entry_def entry_of_def frequency_prepared_for_def)
  next
    case (Some e)
    then show ?thesis using fitsD(1) [OF assms(1) Some] assms(2) by (auto simp: frequency_prepared_for_def)
  qed
  show "fits r (record_intent m j)"
    unfolding record_intent_def Let_def
    by (rule fits_insert_entry [OF assms(1)]) (use assms(2) e in \<open>auto simp: frequency_prepared_for_def intro: transition_entry\<close>)
  show "claims_of j \<subseteq> claims_of (record_intent m j)"
    by (rule claims_mono) (use fits_wf [OF assms(1)] in \<open>auto simp: record_intent_def Let_def bt_get_insert transition_def\<close>)
  show "intended (record_intent m j) m"
    by (simp add: intended_def record_intent_def Let_def bt_get_insert transition_def)
  show "k \<noteq> ft_id (pf_target m) \<Longrightarrow> bt_get (jn_entries (record_intent m j)) k = bt_get (jn_entries j) k"
    by (simp add: record_intent_def Let_def bt_get_insert)
qed

lemma fits_record_intents:
  assumes "fits r j" and "\<forall>m \<in> set ms. frequency_prepared_for r m" and "distinct (map (\<lambda>m. ft_id (pf_target m)) ms)"
  shows "fits r (fold record_intent ms j) \<and> claims_of j \<subseteq> claims_of (fold record_intent ms j)
    \<and> (\<forall>m \<in> set ms. intended (fold record_intent ms j) m)
    \<and> (\<forall>k. k \<notin> (\<lambda>m. ft_id (pf_target m)) ` set ms \<longrightarrow> bt_get (jn_entries (fold record_intent ms j)) k = bt_get (jn_entries j) k)"
  using assms
proof (induction ms arbitrary: j)
  case (Cons m ms)
  have m: "frequency_prepared_for r m" using Cons.prems(2) by simp
  note step = fits_record_intent [OF Cons.prems(1) m]
  have rest: "\<forall>m \<in> set ms. frequency_prepared_for r m" "distinct (map (\<lambda>m. ft_id (pf_target m)) ms)"
    and new: "ft_id (pf_target m) \<notin> (\<lambda>m. ft_id (pf_target m)) ` set ms" using Cons.prems(2,3) by auto
  note IH = Cons.IH [OF step(1) rest]
  then have "intended (fold record_intent ms (record_intent m j)) m" using step(3) new by (simp add: intended_def)
  with IH step(2,4) show ?case by auto
qed simp

definition prepared_scalar_for :: "target_registry \<Rightarrow> prepared_scalar \<Rightarrow> bool" where
  "prepared_scalar_for r m =
     (registry_get_scalar r (st_id (ps_target m)) = Some (ps_target m)
      \<and> domain_accepts (st_domain (ps_target m)) (ps_before m) \<and> domain_accepts (st_domain (ps_target m)) (ps_desired m))"

definition intended_scalar :: "journal \<Rightarrow> prepared_scalar \<Rightarrow> bool" where
  "intended_scalar j m = (bt_get (jn_scalars j) (st_id (ps_target m)) \<noteq> None)"

lemma intended_scalar_claims:
  assumes "fits_but K r j" and "intended_scalar j m" and "prepared_scalar_for r m"
  shows "st_path (ps_target m) \<in> claims_of j"
proof -
  from assms(2) obtain e where e: "bt_get (jn_scalars j) (st_id (ps_target m)) = Some e" by (auto simp: intended_scalar_def)
  from fitsD(2) [OF assms(1) e] assms(3) have "scalar_entry_of (ps_target m) e" by (auto simp: prepared_scalar_for_def)
  with claims_of_entry(2) [OF e] show ?thesis by (simp add: scalar_entry_of_def)
qed

lemma fits_record_scalar_intent:
  assumes "fits r j" and "prepared_scalar_for r m"
  shows "fits r (record_scalar_intent m j)" and "claims_of j \<subseteq> claims_of (record_scalar_intent m j)"
    and "intended_scalar (record_scalar_intent m j) n \<longleftrightarrow> intended_scalar j n \<or> st_id (ps_target n) = st_id (ps_target m)"
proof -
  let ?t = "ps_target m" and ?old = "bt_get (jn_scalars j) (st_id (ps_target m))"
  let ?e = "unwrap_or (new_scalar_entry m) ?old"
  have e: "scalar_entry_of ?t ?e"
  proof (cases ?old)
    case None
    then show ?thesis using assms(2) by (simp add: new_scalar_entry_def scalar_entry_of_def prepared_scalar_for_def)
  next
    case (Some e)
    then show ?thesis using fitsD(2) [OF assms(1) Some] assms(2) by (auto simp: prepared_scalar_for_def)
  qed
  show "fits r (record_scalar_intent m j)"
    unfolding record_scalar_intent_def Let_def
    by (rule fits_insert_scalar [OF assms(1)]) (use assms(2) e in \<open>auto simp: prepared_scalar_for_def scalar_entry_of_def\<close>)
  show "claims_of j \<subseteq> claims_of (record_scalar_intent m j)"
    by (rule claims_mono) (use fits_wf [OF assms(1)] in \<open>auto simp: record_scalar_intent_def Let_def bt_get_insert\<close>)
  show "intended_scalar (record_scalar_intent m j) n \<longleftrightarrow> intended_scalar j n \<or> st_id (ps_target n) = st_id (ps_target m)"
    by (auto simp: intended_scalar_def record_scalar_intent_def Let_def bt_get_insert)
qed

lemma fits_record_scalar_intents:
  assumes "fits r j" and "\<forall>m \<in> set ms. prepared_scalar_for r m"
  shows "fits r (fold record_scalar_intent ms j) \<and> claims_of j \<subseteq> claims_of (fold record_scalar_intent ms j)
    \<and> (\<forall>n. intended_scalar j n \<or> n \<in> set ms \<longrightarrow> intended_scalar (fold record_scalar_intent ms j) n)"
  using assms
proof (induction ms arbitrary: j)
  case (Cons m ms)
  have m: "prepared_scalar_for r m" using Cons.prems(2) by simp
  note step = fits_record_scalar_intent [OF Cons.prems(1) m]
  from Cons.IH [OF step(1)] Cons.prems(2) step(2,3) show ?case by fastforce
qed simp

end
