(* ===== verification/Write_Ahead.thy ===== *)
theory Write_Ahead
  imports Journal_Invariant
begin

text \<open>
  The journal is written ahead of the kernel. The ports are observed through a log of what they were
  asked (the locale \<open>recorder\<close>): every write of an attribute, every attempt to store the journal and to
  remove it, with its outcome. A failed store or removal may or may not have reached the disk, so what a
  crash would leave is one of several contents (\<open>on_disk\<close>). A log is write-ahead when every attribute
  was, at the time it was written, claimed by a journal the decoder accepts in each of them.
\<close>

section \<open>Events\<close>

datatype event = SysfsWrite path_buf | JournalStored string bool | JournalRemoved bool

fun disk_step :: "string option list \<Rightarrow> event \<Rightarrow> string option list" where
  "disk_step ds (SysfsWrite _) = ds"
| "disk_step ds (JournalStored b stored) = (if stored then [Some b] else Some b # ds)"
| "disk_step ds (JournalRemoved removed) = (if removed then [None] else None # ds)"

definition on_disk :: "string option list \<Rightarrow> event list \<Rightarrow> string option list" where
  "on_disk ds l = foldl disk_step ds l"

definition disk_claims :: "journal_codec \<Rightarrow> string option \<Rightarrow> path_buf set" where
  "disk_claims cd d =
     (case d of None \<Rightarrow> {} | Some b \<Rightarrow> (case decode_journal cd b of Inr j \<Rightarrow> claims_of j | Inl _ \<Rightarrow> {}))"

fun ahead :: "journal_codec \<Rightarrow> string option list \<Rightarrow> event list \<Rightarrow> bool" where
  "ahead cd ds [] = True"
| "ahead cd ds (SysfsWrite p # l) = (list_all (\<lambda>d. p \<in> disk_claims cd d) ds \<and> ahead cd ds l)"
| "ahead cd ds (ev # l) = ahead cd (disk_step ds ev) l"

lemma on_disk_append: "on_disk ds (l @ m) = on_disk (on_disk ds l) m"
  by (simp add: on_disk_def)

lemma ahead_append: "ahead cd ds (l @ m) \<longleftrightarrow> ahead cd ds l \<and> ahead cd (on_disk ds l) m"
  by (induction cd ds l rule: ahead.induct) (simp_all add: on_disk_def)

lemma on_disk_writes [simp]: "on_disk ds (map SysfsWrite ps) = ds"
  by (induction ps) (simp_all add: on_disk_def)

lemma ahead_writes: "ahead cd ds (map SysfsWrite ps) \<longleftrightarrow> list_all (\<lambda>d. set ps \<subseteq> disk_claims cd d) ds"
  by (induction ps) (auto simp: list_all_iff)

section \<open>Observed ports\<close>

locale recorder =
  fixes A :: "'w actuator" and rec_log :: "'w \<Rightarrow> event list"
  assumes read_log: "rec_log (snd (read_string (ac_io A) p w)) = rec_log w"
    and write_log: "rec_log (snd (write_string (ac_io A) p v w)) = rec_log w @ [SysfsWrite p]"
    and store_log: "rec_log (snd (store_durable (ac_store A) b w))
        = rec_log w @ [JournalStored b (\<not> isl (fst (store_durable (ac_store A) b w)))]"
    and remove_log: "rec_log (snd (remove_durable (ac_store A) w)) = rec_log w @ [JournalRemoved (\<not> isl (fst (remove_durable (ac_store A) w)))]"
    and clock_log: "rec_log (snd (ac_clock A w)) = rec_log w"

definition traced_io :: "'w sysfs_io \<Rightarrow> ('w \<times> event list) sysfs_io" where
  "traced_io io =
     \<lparr>read_string = (\<lambda>p (w, l). case read_string io p w of (r, w') \<Rightarrow> (r, w', l)),
      write_string = (\<lambda>p v (w, l). case write_string io p v w of (r, w') \<Rightarrow> (r, w', l @ [SysfsWrite p]))\<rparr>"

definition traced_store :: "'w state_store \<Rightarrow> ('w \<times> event list) state_store" where
  "traced_store st =
     \<lparr>store_load = (\<lambda>(w, l). case store_load st w of (r, w') \<Rightarrow> (r, w', l)),
      store_durable = (\<lambda>b (w, l). case store_durable st b w of (r, w') \<Rightarrow> (r, w', l @ [JournalStored b (\<not> isl r)])),
      remove_durable = (\<lambda>(w, l). case remove_durable st w of (r, w') \<Rightarrow> (r, w', l @ [JournalRemoved (\<not> isl r)]))\<rparr>"

text \<open>An actuator whose attribute and journal ports are recorded; the process and unit ports play no part.\<close>

definition traced :: "'w actuator \<Rightarrow> ('w \<times> event list) actuator" where
  "traced A =
     \<lparr>ac_io = traced_io (ac_io A), ac_store = traced_store (ac_store A),
      ac_clock = (\<lambda>(w, l). case ac_clock A w of (d, w') \<Rightarrow> (d, w', l)),
      ac_codec = ac_codec A, ac_registry = ac_registry A, ac_boot_id = ac_boot_id A,
      ac_device_fingerprint = ac_device_fingerprint A, ac_proc_reader = None, ac_process_controller = None, ac_systemd = None\<rparr>"

interpretation tr: recorder "traced A" snd for A
  by unfold_locales (auto simp: traced_def traced_io_def traced_store_def split: prod.splits)

section \<open>What the operations add to the log\<close>

definition guarded :: "('w \<Rightarrow> event list) \<Rightarrow> path_buf set \<Rightarrow> 'w machine \<Rightarrow> 'w machine \<Rightarrow> bool" where
  "guarded rec_log P s t =
     (io_only s t \<and> (\<exists>ps. set ps \<subseteq> P \<and> rec_log (w_env t) = rec_log (w_env s) @ map SysfsWrite ps))"

lemma guarded_quiet: "io_only s t \<Longrightarrow> rec_log (w_env t) = rec_log (w_env s) \<Longrightarrow> guarded rec_log P s t"
  unfolding guarded_def by (intro conjI exI [of _ "[]"]) auto

lemma guarded_trans:
  assumes "guarded rec_log P s t" and "guarded rec_log P t u"
  shows "guarded rec_log P s u"
proof -
  from assms obtain ps qs where "set ps \<subseteq> P" "rec_log (w_env t) = rec_log (w_env s) @ map SysfsWrite ps"
    "set qs \<subseteq> P" "rec_log (w_env u) = rec_log (w_env t) @ map SysfsWrite qs" "io_only s t" "io_only t u"
    by (auto simp: guarded_def)
  then have "set (ps @ qs) \<subseteq> P" "rec_log (w_env u) = rec_log (w_env s) @ map SysfsWrite (ps @ qs)" "io_only s u"
    using io_frame.trans by auto
  then show ?thesis unfolding guarded_def by blast
qed

interpretation guarded_frame: frame "guarded rec_log P" for rec_log P
  by unfold_locales (auto intro: guarded_quiet io_frame.refl guarded_trans)

lemmas guarded_rules = guarded_frame.bind guarded_frame.pure guarded_frame.attempt guarded_frame.each guarded_frame.gather

context recorder
begin

lemma guarded_read: "stays (guarded rec_log P) (io_call (read_string (ac_io A) p))"
proof -
  have "rec_log (w_env (snd (io_call (read_string (ac_io A) p) s))) = rec_log (w_env s)" for s
    using read_log [of p "w_env s"] by (auto simp: io_call_def call_def split: prod.splits)
  then show ?thesis unfolding stays_def by (auto intro!: guarded_quiet io_call_frame(2) [unfolded stays_def, rule_format])
qed

lemma guarded_write:
  assumes "p \<in> P"
  shows "stays (guarded rec_log P) (io_call (write_string (ac_io A) p v))"
proof -
  have "rec_log (w_env (snd (io_call (write_string (ac_io A) p v) s))) = rec_log (w_env s) @ map SysfsWrite [p]" for s
    using write_log [of p v "w_env s"] by (auto simp: io_call_def call_def split: prod.splits)
  then show ?thesis
    unfolding stays_def guarded_def using assms io_call_frame(2) [unfolded stays_def, rule_format]
    by (intro allI conjI exI [of _ "[p]"]) auto
qed

lemma guarded_clock: "stays (guarded rec_log P) (instant_now (ac_clock A))"
proof -
  have "rec_log (w_env (snd (instant_now (ac_clock A) s))) = rec_log (w_env s)" for s
    using clock_log [of "w_env s"] by (auto simp: instant_now_def split: prod.splits)
  then show ?thesis unfolding stays_def by (auto intro!: guarded_quiet instant_now_frame [unfolded stays_def, rule_format])
qed

lemma guarded_sleep: "stays (guarded rec_log P) (sleep_for d)"
  unfolding stays_def
  by (intro allI guarded_quiet sleep_frame [unfolded stays_def, rule_format]) (simp add: sleep_for_def act_simps)

lemma guarded_when: "stays (guarded rec_log P) m \<Longrightarrow> stays (guarded rec_log P) (when_act b m)"
  by (simp add: when_act_def guarded_frame.pure)

lemma guarded_reads: "stays (guarded rec_log P) (read_limits (ac_io A) t)" "stays (guarded rec_log P) (read_scalar (ac_io A) u)"
  unfolding read_limits_def read_scalar_def by (intro guarded_rules guarded_read)+

lemma guarded_settle: "guarded rec_log P s (snd (settle_loop (ac_io A) (ac_clock A) t req deadline s))"
proof (induction "ac_io A" "ac_clock A" t req deadline s rule: settle_loop.induct)
  case (1 t req deadline s)
  obtain reading s1 where r: "read_limits (ac_io A) t s = (reading, s1)" by fastforce
  obtain now s2 where n: "(instant_now (ac_clock A) s1 :: (actuator_error, nat) result \<times> _) = (now, s2)" by fastforce
  from r have s1: "guarded rec_log P s s1" by (rule staysD [OF guarded_reads(1)])
  from n have "guarded rec_log P s1 s2" by (rule staysD [OF guarded_clock])
  with s1 have s2: "guarded rec_log P s s2" by (rule guarded_trans)
  show ?case
  proof (cases "settle_observation req reading")
    case (Inl v)
    then show ?thesis by (subst settle_loop.simps) (simp add: r s1)
  next
    case (Inr ob)
    let ?sl = "sleep_for (min FREQUENCY_SETTLE_POLL_INTERVAL (deadline - w_now s2)) s2 :: (actuator_error, unit) result \<times> _"
    have "guarded rec_log P s2 (snd ?sl)" by (rule staysD [OF guarded_sleep]) (rule surjective_pairing)
    with s2 have s3: "guarded rec_log P s (snd ?sl)" by (rule guarded_trans)
    show ?thesis
    proof (cases "deadline \<le> w_now s2")
      case True
      then show ?thesis by (subst settle_loop.simps) (simp add: r n Inr s2)
    next
      case False
      from 1 [OF r [symmetric] Inr n [symmetric] False]
      have "guarded rec_log P (snd ?sl) (snd (settle_loop (ac_io A) (ac_clock A) t req deadline (snd ?sl)))" .
      with s3 have "guarded rec_log P s (snd (settle_loop (ac_io A) (ac_clock A) t req deadline (snd ?sl)))" by (rule guarded_trans)
      with False show ?thesis by (subst settle_loop.simps) (simp add: r n Inr)
    qed
  qed
qed

lemma guarded_wait: "stays (guarded rec_log P) (wait_for_limits (ac_io A) (ac_clock A) t req)"
proof -
  have "stays (guarded rec_log P) (settle_loop (ac_io A) (ac_clock A) t req deadline)" for deadline
    by (simp add: stays_def guarded_settle)
  then show ?thesis unfolding wait_for_limits_def by (intro guarded_rules guarded_clock)
qed

lemma guarded_requests:
  assumes "target_paths_of t \<subseteq> P"
  shows "stays (guarded rec_log P) (apply_requested_limits (ac_io A) (ac_clock A) t c d)"
    and "stays (guarded rec_log P) (restore_frequency_request (ac_io A) (ac_clock A) t d)"
proof -
  have p: "ft_min_path t \<in> P" "ft_max_path t \<in> P" using assms by (auto simp: target_paths_of_def)
  show "stays (guarded rec_log P) (apply_requested_limits (ac_io A) (ac_clock A) t c d)"
    unfolding apply_requested_limits_def write_ordered_def
    by (auto intro!: guarded_rules guarded_when guarded_write p guarded_wait)
  show "stays (guarded rec_log P) (restore_frequency_request (ac_io A) (ac_clock A) t d)"
    unfolding restore_frequency_request_def reset_frequency_request_def
    by (auto intro!: guarded_rules guarded_when guarded_write p guarded_wait)
qed

lemma guarded_write_scalar: "st_path t \<in> P \<Longrightarrow> stays (guarded rec_log P) (write_scalar (ac_io A) t v)"
  unfolding write_scalar_def by (auto intro!: guarded_rules guarded_write guarded_reads)

lemma guarded_report: "stays (guarded rec_log P) (report_failures fs)"
  by (simp add: report_failures_def guarded_frame.pure)

lemma guarded_rollbacks:
  "(\<And>i. i \<in> set attempted \<Longrightarrow> target_paths_of (pf_target (prepared ! i)) \<subseteq> P) \<Longrightarrow>
     stays (guarded rec_log P) (frequency_rollback A prepared attempted)"
  "(\<And>i. i \<in> set attempted \<Longrightarrow> st_path (ps_target (sprepared ! i)) \<in> P) \<Longrightarrow>
     stays (guarded rec_log P) (scalar_rollback A sprepared attempted)"
  unfolding frequency_rollback_def scalar_rollback_def rollback_frequency_requests_def rollback_scalars_def Let_def
  by (intro guarded_rules guarded_report guarded_requests guarded_reads guarded_write_scalar;
      auto intro!: guarded_rules guarded_requests guarded_reads guarded_write_scalar split: sum.splits)+

end

section \<open>States\<close>

definition covered_log :: "'w actuator \<Rightarrow> ('w \<Rightarrow> event list) \<Rightarrow> string option list \<Rightarrow> path_buf set \<Rightarrow> 'w machine \<Rightarrow> bool" where
  "covered_log A rec_log ds C s =
     (ahead (ac_codec A) ds (rec_log (w_env s)) \<and> list_all (\<lambda>d. C \<subseteq> disk_claims (ac_codec A) d) (on_disk ds (rec_log (w_env s))))"

text \<open>
  \<open>staged A rec_log ds C J s\<close>: the actuator is read-write, has the journal \<open>J\<close> in memory, wrote nothing it had
  not claimed on disk, and every content the disk may have claims the paths \<open>C\<close>. \<open>wal\<close> is the invariant
  between two methods: while the actuator runs, the journal fits the registry; until the journal found at
  startup is recovered, it is one the decoder accepted; both ways every content of the disk claims what it claims.
\<close>

definition staged :: "'w actuator \<Rightarrow> ('w \<Rightarrow> event list) \<Rightarrow> string option list \<Rightarrow> path_buf set \<Rightarrow> journal \<Rightarrow> 'w machine \<Rightarrow> bool" where
  "staged A rec_log ds C J s =
     (m_mode s = ReadWrite \<and> \<not> m_recovery_required s \<and> m_journal s = J \<and> ahead (ac_codec A) ds (rec_log (w_env s))
      \<and> list_all (\<lambda>d. C \<subseteq> disk_claims (ac_codec A) d) (on_disk ds (rec_log (w_env s))))"

definition wal :: "'w actuator \<Rightarrow> ('w \<Rightarrow> event list) \<Rightarrow> string option list \<Rightarrow> 'w machine \<Rightarrow> bool" where
  "wal A rec_log ds s =
     (ahead (ac_codec A) ds (rec_log (w_env s))
      \<and> (m_mode s = ReadWrite \<and> \<not> m_recovery_required s \<longrightarrow>
           fits (ac_registry A) (m_journal s)
           \<and> list_all (\<lambda>d. claims_of (m_journal s) \<subseteq> disk_claims (ac_codec A) d) (on_disk ds (rec_log (w_env s))))
      \<and> (m_mode s = ReadWrite \<and> m_recovery_required s \<longrightarrow>
           journal_ok (m_journal s) \<and> bt_wf (jn_entries (m_journal s)) \<and> bt_wf (jn_scalars (m_journal s))
           \<and> list_all (\<lambda>d. claims_of (m_journal s) \<subseteq> disk_claims (ac_codec A) d) (on_disk ds (rec_log (w_env s)))))"

definition sound :: "'w actuator \<Rightarrow> bool" where
  "sound A = (codec_round_trips (ac_codec A) \<and> registry_ok (ac_registry A))"

lemma wal_staged:
  "wal A rec_log ds s \<Longrightarrow> m_mode s = ReadWrite \<Longrightarrow> \<not> m_recovery_required s \<Longrightarrow>
     staged A rec_log ds (claims_of (m_journal s)) (m_journal s) s \<and> fits (ac_registry A) (m_journal s)"
  by (simp add: wal_def staged_def)

lemma staged_wal: "staged A rec_log ds (claims_of J) J s \<Longrightarrow> fits (ac_registry A) J \<Longrightarrow> wal A rec_log ds s"
  by (auto simp: wal_def staged_def)

lemma staged_covered: "staged A rec_log ds C J s \<Longrightarrow> covered_log A rec_log ds C s"
  by (simp add: staged_def covered_log_def)

lemma staged_weaken: "staged A rec_log ds C J s \<Longrightarrow> C' \<subseteq> C \<Longrightarrow> staged A rec_log ds C' J s"
  by (auto simp: staged_def list_all_iff)

lemma staged_journal: "staged A rec_log ds C J s \<Longrightarrow> staged A rec_log ds C (f J) (s\<lparr>m_journal := f (m_journal s)\<rparr>)"
  by (simp add: staged_def)

lemma staged_guarded:
  assumes "staged A rec_log ds C J s" and "guarded rec_log P s t" and "P \<subseteq> C"
  shows "staged A rec_log ds C J t"
proof -
  from assms(2) obtain ps where ps: "set ps \<subseteq> P" "rec_log (w_env t) = rec_log (w_env s) @ map SysfsWrite ps" and io: "io_only s t"
    by (auto simp: guarded_def)
  have "list_all (\<lambda>d. set ps \<subseteq> disk_claims (ac_codec A) d) (on_disk ds (rec_log (w_env s)))"
    using assms(1,3) ps(1) by (auto simp: staged_def list_all_iff)
  with assms(1) ps(2) io show ?thesis
    by (simp add: staged_def io_only_def ahead_append ahead_writes on_disk_append)
qed

lemma runs_staged:
  assumes "stays (guarded rec_log P) m" and "P \<subseteq> C"
  shows "runs (staged A rec_log ds C J) m (\<lambda>_. staged A rec_log ds C J) (\<lambda>_. staged A rec_log ds C J)"
  by (rule runs_stays [OF assms(1)]) (rule staged_guarded [OF _ _ assms(2)])

lemma runs_degrade_wal: "(\<And>s. P s \<Longrightarrow> ahead (ac_codec A) ds (rec_log (w_env s))) \<Longrightarrow> runs P (degrade_locked r) Q (\<lambda>_. wal A rec_log ds)"
  by (simp add: runs_def degrade_locked_def act_simps bind_act_def wal_def)

lemma staged_ahead: "staged A rec_log ds C J s \<Longrightarrow> ahead (ac_codec A) ds (rec_log (w_env s))"
  by (simp add: staged_def)

lemma runs_ex: "(\<And>x. runs (P x) m Q E) \<Longrightarrow> runs (\<lambda>s. \<exists>x. P x s) m Q E"
  by (rule runsI) (auto dest: runsD)

lemma disk_claims_stored:
  assumes "codec_round_trips (ac_codec A)" and "journal_ok J" and "encode_journal (ac_codec A) J = Inr b"
  shows "disk_claims (ac_codec A) (Some b) = claims_of J"
  using decode_encode_journal [OF assms(1,3,2)] by (simp add: disk_claims_def)

context recorder
begin

lemma persist_covered:
  assumes "codec_round_trips (ac_codec A)" and "journal_ok (m_journal s)" and "C \<subseteq> claims_of (m_journal s)"
    and "covered_log A rec_log ds C s" and "persist_journal A s = (r, t)"
  shows "covered_log A rec_log ds (if isl r then C else claims_of (m_journal s)) t \<and> t = s\<lparr>w_env := w_env t\<rparr>"
proof (cases "encode_journal (ac_codec A) (m_journal s)")
  case (Inl e)
  with assms(4,5) show ?thesis by (auto simp: persist_journal_def bind_act_def act_simps)
next
  case (Inr b)
  obtain y w where y: "store_durable (ac_store A) b (w_env s) = (y, w)" by fastforce
  with Inr assms(5) have r: "r = map_err PlatformFailure y" and t: "t = s\<lparr>w_env := w\<rparr>"
    by (auto simp: persist_journal_def bind_act_def act_simps io_call_def call_def)
  have "isl r = isl y" by (cases y) (simp_all add: r map_err_def)
  moreover have "rec_log (w_env t) = rec_log (w_env s) @ [JournalStored b (\<not> isl y)]"
    using store_log [of b "w_env s"] y t by simp
  ultimately show ?thesis
    using assms(3,4) disk_claims_stored [OF assms(1,2) Inr] t
    by (auto simp: covered_log_def ahead_append on_disk_append on_disk_def)
qed

lemma runs_persist:
  assumes "sound A" and "fits (ac_registry A) J" and "C \<subseteq> claims_of J"
  shows "runs (staged A rec_log ds C J) (persist_journal A) (\<lambda>_. staged A rec_log ds (claims_of J) J) (\<lambda>_. staged A rec_log ds C J)"
proof (rule runsI)
  fix s r t
  assume s: "staged A rec_log ds C J s"
  have ok: "codec_round_trips (ac_codec A)" "journal_ok (m_journal s)" "m_journal s = J"
    using assms(1,2) s by (auto simp: sound_def staged_def intro: fits_journal_ok)
  note step = persist_covered [OF ok(1,2) _ staged_covered [OF s], unfolded ok(3), OF assms(3)]
  have keep: "staged A rec_log ds D J t" if "covered_log A rec_log ds D t" "t = s\<lparr>w_env := w_env t\<rparr>" for D t
  proof -
    have "m_mode t = m_mode s" "m_recovery_required t = m_recovery_required s" "m_journal t = m_journal s"
      by (subst that(2), simp)+
    with that(1) s show ?thesis by (simp add: staged_def covered_log_def)
  qed
  show "persist_journal A s = (Inr r, t) \<Longrightarrow> staged A rec_log ds (claims_of J) J t" using step [of "Inr r" t] keep by simp
  show "persist_journal A s = (Inl e, t) \<Longrightarrow> staged A rec_log ds C J t" for e using step [of "Inl e" t] keep by simp
qed

lemma runs_remove_staged:
  "runs (staged A rec_log ds C J) (io_call (remove_durable (ac_store A))) (\<lambda>_. staged A rec_log ds {} J) (\<lambda>_. staged A rec_log ds {} J)"
proof -
  have "staged A rec_log ds {} J (snd (io_call (remove_durable (ac_store A)) s))" if "staged A rec_log ds C J s" for s
    using that remove_log [of "w_env s"]
    by (auto simp: staged_def io_call_def call_def ahead_append on_disk_append on_disk_def list_all_iff split: prod.splits)
  then show ?thesis by (auto intro!: runsI) (metis snd_conv)+
qed

lemma runs_persist_or_remove:
  assumes "sound A" and "fits (ac_registry A) J" and "claims_of J \<subseteq> C"
  shows "runs (staged A rec_log ds C J) (persist_or_remove_locked A op) (\<lambda>_. staged A rec_log ds (claims_of J) J) (\<lambda>_. wal A rec_log ds)"
proof -
  have weak: "runs (staged A rec_log ds C J) (persist_journal A) (\<lambda>_. staged A rec_log ds (claims_of J) J) (\<lambda>_. staged A rec_log ds (claims_of J) J)"
    by (rule runs_pre [OF runs_persist [OF assms(1,2) order_refl]]) (rule staged_weaken [OF _ assms(3)])
  have "runs (staged A rec_log ds C J) (persist_or_remove_journal A) (\<lambda>_. staged A rec_log ds (claims_of J) J) (\<lambda>_. staged A rec_log ds (claims_of J) J)"
    unfolding persist_or_remove_journal_def
  proof (rule runs_bind [where Q = "\<lambda>j s. j = J \<and> staged A rec_log ds C J s"])
    show "runs (staged A rec_log ds C J) (get_act m_journal) (\<lambda>j s. j = J \<and> staged A rec_log ds C J s) (\<lambda>_. staged A rec_log ds (claims_of J) J)"
      by (rule runs_get) (simp add: staged_def)
    show "runs (\<lambda>s. j = J \<and> staged A rec_log ds C J s) (if journal_is_empty j then io_call (remove_durable (ac_store A)) else persist_journal A)
        (\<lambda>_. staged A rec_log ds (claims_of J) J) (\<lambda>_. staged A rec_log ds (claims_of J) J)" for j
      by (rule runs_given) (use weak runs_remove_staged [of ds C J] in \<open>auto simp: claims_of_empty\<close>)
  qed
  then show ?thesis
    unfolding persist_or_remove_locked_def
    by (intro runs_bind [OF runs_attempt [where R = "\<lambda>_. staged A rec_log ds (claims_of J) J"]])
      (auto intro!: runs_ret runs_degrade_wal dest: staged_ahead split: sum.splits)
qed

lemma runs_abort_wal:
  assumes "sound A" and "fits (ac_registry A) J" and "claims_of J \<subseteq> C" and "stays (guarded rec_log C) rb"
    and "runs (staged A rec_log ds (claims_of J) J) fin (\<lambda>_. wal A rec_log ds) (\<lambda>_. wal A rec_log ds)"
  shows "runs (staged A rec_log ds C I) (abort_transaction A rb J op f g fin) (\<lambda>_. wal A rec_log ds) (\<lambda>_. wal A rec_log ds)"
proof -
  have rb: "runs (staged A rec_log ds C I) (attempt rb) (\<lambda>_. staged A rec_log ds C I) E" for E
    by (rule runs_attempt [OF runs_staged [OF assms(4) order_refl]]) auto
  have upd: "runs (staged A rec_log ds C I) (upd_journal (\<lambda>_. J)) (\<lambda>_. staged A rec_log ds C J) E" for E
    by (rule runs_upd_journal) (rule staged_journal)
  have per: "runs (staged A rec_log ds C J) (attempt (persist_or_remove_locked A op))
      (\<lambda>r s. case r of Inr _ \<Rightarrow> staged A rec_log ds (claims_of J) J s | Inl _ \<Rightarrow> wal A rec_log ds s) E" for E
    by (rule runs_attempt [OF runs_persist_or_remove [OF assms(1-3)]]) auto
  have deg: "runs (wal A rec_log ds) (degrade_locked x) (\<lambda>_. wal A rec_log ds) (\<lambda>_. wal A rec_log ds)" for x
    by (rule runs_degrade_wal) (simp add: wal_def)
  show ?thesis
    unfolding abort_transaction_def
    by (rule runs_bind [OF rb])
      (auto intro!: runs_bind [OF upd] runs_bind [OF per] deg assms(5) runs_degrade_wal dest: staged_ahead split: sum.splits)
qed

end

section \<open>Frequency transactions\<close>

lemma runs_and:
  assumes "runs P m Q E" and "\<And>s a t. P s \<Longrightarrow> m s = (Inr a, t) \<Longrightarrow> R a"
  shows "runs P m (\<lambda>a s. R a \<and> Q a s) E"
  by (rule runsI) (auto dest: runsD [OF assms(1)] assms(2))

lemma apply_requested_exact: "apply_requested_limits sys clk t c d s = (Inr a, u) \<Longrightarrow> a = d"
  by (auto simp: apply_requested_limits_def wait_for_limits_def bind_act_Inr_iff act_simps not_settled_def dest!: settle_loop_outcome)

lemma write_frequencies_attempted:
  "write_frequencies A ap att ms s = (Inr (ap', att', f), t) \<Longrightarrow>
     set att' \<subseteq> set att \<union> {i. \<exists>m. (i, m) \<in> set ms \<and> pf_needs_write m}"
proof (induction A ap att ms arbitrary: s rule: write_frequencies.induct)
  case (2 A ap att i m ms)
  show ?case
  proof (cases "pf_needs_write m")
    case False
    with 2(1) [OF False] 2(3) show ?thesis by fastforce
  next
    case True
    obtain r u where r: "apply_requested_limits (ac_io A) (ac_clock A) (pf_target m)
        (pf_previous_request m) (pf_desired_request m) s = (r, u)" by fastforce
    show ?thesis
    proof (cases r)
      case (Inl e)
      with 2(3) True r show ?thesis by (auto simp: bind_attempt act_simps)
    next
      case (Inr a)
      with 2(3) True r obtain v where "write_frequencies A (bt_insert (ft_id (pf_target m)) a ap) (att @ [i]) ms v = (Inr (ap', att', f), t)"
        by (auto simp: bind_attempt upd_journal_def)
      from 2(2) [OF _ this] True show ?thesis by fastforce
    qed
  qed
qed (auto simp: act_simps)

definition prep_ok :: "'w actuator \<Rightarrow> target_id list \<times> prepared_frequency list \<Rightarrow> bool" where
  "prep_ok A = (\<lambda>(seen, prepared). (\<forall>m \<in> set prepared. frequency_prepared_for (ac_registry A) m)
     \<and> distinct (map (\<lambda>m. ft_id (pf_target m)) prepared) \<and> (\<lambda>m. ft_id (pf_target m)) ` set prepared \<subseteq> set seen)"

lemma prep_ok_step:
  assumes "prep_ok A (seen, prepared)" and "frequency_prepared_for (ac_registry A) m" and "ft_id (pf_target m) \<notin> set seen"
  shows "prep_ok A (ft_id (pf_target m) # seen, prepared @ [m])"
  using assms by (auto simp: prep_ok_def)

lemma prepare_frequency_ok:
  assumes "sound A" and "fits (ac_registry A) (m_journal s)" and "prep_ok A acc" and "prepare_frequency A acc q s = (Inr acc', t)"
  shows "prep_ok A acc'"
proof -
  obtain seen prepared where acc: "acc = (seen, prepared)" by fastforce
  from assms(4) have "\<exists>target d b u prev n. fr_target q \<notin> set seen \<and> registry_get (ac_registry A) (fr_target q) = Some target
    \<and> snap_limits target (fr_limits q) = Inr d \<and> read_limits (ac_io A) target s = (Inr b, u)
    \<and> (prev = target_hardware_limits target \<or> (\<exists>e. bt_get (jn_entries (m_journal u)) (ft_id target) = Some e \<and> prev = je_desired e))
    \<and> acc' = (fr_target q # seen, prepared @ [\<lparr>pf_target = target, pf_before_effective = b,
        pf_previous_request = prev, pf_desired_request = d, pf_needs_write = n\<rparr>])"
    by (auto simp: acc prepare_frequency_def Let_def bind_act_Inr_iff act_simps split: if_splits option.splits)
  then obtain target d b u prev n where new: "fr_target q \<notin> set seen" and target: "registry_get (ac_registry A) (fr_target q) = Some target"
    and d: "snap_limits target (fr_limits q) = Inr d" and u: "read_limits (ac_io A) target s = (Inr b, u)"
    and prev: "prev = target_hardware_limits target \<or> (\<exists>e. bt_get (jn_entries (m_journal u)) (ft_id target) = Some e \<and> prev = je_desired e)"
    and acc': "acc' = (fr_target q # seen, prepared @ [\<lparr>pf_target = target, pf_before_effective = b,
        pf_previous_request = prev, pf_desired_request = d, pf_needs_write = n\<rparr>])"
    by blast
  have "m_journal u = m_journal s" using staysD [OF read_frames(1) u] by (simp add: io_only_def)
  moreover have wf: "target_wf target" "ft_id target = fr_target q"
    using assms(1) target by (auto simp: sound_def dest: registry_okD(1))
  moreover have "validate_limits target (je_desired e) = Inr ()" if "bt_get (jn_entries (m_journal s)) (ft_id target) = Some e" for e
    using fitsD(1) [OF assms(2) that] target wf(2) by (auto simp: entry_of_def)
  ultimately have "frequency_prepared_for (ac_registry A) (snd acc' ! length prepared)"
    using target d prev by (auto simp: acc' frequency_prepared_for_def nth_append hardware_limits_valid snap_limits_valid)
  then show ?thesis
    using assms(3) new wf(2) prep_ok_step [of A seen prepared "snd acc' ! length prepared"] by (simp add: acc acc' nth_append)
qed

context recorder
begin

lemma runs_ready:
  "runs (wal A rec_log ds) ensure_mutation_ready
     (\<lambda>_ s. \<exists>J. fits (ac_registry A) J \<and> staged A rec_log ds (claims_of J) J s) (\<lambda>_. wal A rec_log ds)"
  by (rule runsI)
    (auto simp: ensure_mutation_ready_def ensure_read_write_def rbind_Inr_iff dest!: wal_staged split: actuator_mode.splits if_splits)

lemma guarded_prepare:
  "stays (guarded rec_log P) (prepare_frequency A acc q)" "stays (guarded rec_log P) (prepare_owned A acc q)"
  "stays (guarded rec_log P) (prepare_scalar A sacc sq)"
  unfolding prepare_frequency_def prepare_owned_def prepare_scalar_def Let_def
  by (auto intro!: guarded_rules guarded_reads split: prod.splits option.splits)

lemma runs_prepare:
  assumes "sound A" and "fits (ac_registry A) J"
  shows "runs (staged A rec_log ds C J) (gather (prepare_frequency A) ([], []) qs)
    (\<lambda>acc s. prep_ok A acc \<and> staged A rec_log ds C J s) (\<lambda>_. staged A rec_log ds C J)"
proof -
  have "runs (\<lambda>s. prep_ok A acc \<and> staged A rec_log ds C J s) (prepare_frequency A acc q)
      (\<lambda>acc s. prep_ok A acc \<and> staged A rec_log ds C J s) (\<lambda>_. staged A rec_log ds C J)" for acc q
  proof (rule runs_given, rule runs_and)
    show "runs (staged A rec_log ds C J) (prepare_frequency A acc q) (\<lambda>_. staged A rec_log ds C J) (\<lambda>_. staged A rec_log ds C J)"
      by (rule runs_staged [OF guarded_prepare(1), of "{}"]) simp
    show "prep_ok A acc'" if "prep_ok A acc" "staged A rec_log ds C J s" "prepare_frequency A acc q s = (Inr acc', t)" for s acc' t
      using that assms by (intro prepare_frequency_ok [OF assms(1) _ that(1,3)]) (simp add: staged_def)
  qed
  then have "runs (\<lambda>s. prep_ok A ([], []) \<and> staged A rec_log ds C J s) (gather (prepare_frequency A) ([], []) qs)
      (\<lambda>acc s. prep_ok A acc \<and> staged A rec_log ds C J s) (\<lambda>_. staged A rec_log ds C J)"
    by (rule runs_gather)
  then show ?thesis by (rule runs_pre) (simp add: prep_ok_def)
qed

end

definition writing ::
  "'w actuator \<Rightarrow> ('w \<Rightarrow> event list) \<Rightarrow> string option list \<Rightarrow> path_buf set \<Rightarrow> target_id set \<Rightarrow> prepared_frequency list \<Rightarrow> 'w machine \<Rightarrow> bool" where
  "writing A rec_log ds C K prepared s =
     (\<exists>J. staged A rec_log ds C J s \<and> fits_but K (ac_registry A) J \<and> claims_of J = C
        \<and> (\<forall>m \<in> set prepared. pf_needs_write m \<longrightarrow> intended J m))"

lemma settled_entry:
  assumes "entry_of t e" and "je_desired e = d" and "validate_limits t d = Inr ()"
  shows "entry_of t (settled d e) \<and> entry_settled t (settled d e)"
  using assms by (simp add: entry_of_def entry_settled_def settled_def)

lemma writing_settled:
  assumes "writing A rec_log ds C K prepared s" and "m \<in> set prepared" and "pf_needs_write m" and "frequency_prepared_for (ac_registry A) m"
    and "K \<subseteq> insert (ft_id (pf_target m)) K'"
  shows "writing A rec_log ds C K' prepared (s\<lparr>m_journal := (m_journal s)\<lparr>jn_entries :=
     bt_get_mut (ft_id (pf_target m)) (settled (pf_desired_request m)) (jn_entries (m_journal s))\<rparr>\<rparr>)"
proof -
  let ?f = "\<lambda>j. j\<lparr>jn_entries := bt_get_mut (ft_id (pf_target m)) (settled (pf_desired_request m)) (jn_entries j)\<rparr>"
  from assms(1) obtain J where J: "staged A rec_log ds C J s" "fits_but K (ac_registry A) J" "claims_of J = C"
    "\<forall>m \<in> set prepared. pf_needs_write m \<longrightarrow> intended J m" by (auto simp: writing_def)
  from J(4) assms(2,3) obtain e where e: "bt_get (jn_entries J) (ft_id (pf_target m)) = Some e" "je_desired e = pf_desired_request m"
    by (auto simp: intended_def)
  have "fits_but K' (ac_registry A) (?f J)"
    by (rule fits_mut_entry [OF J(2) _ assms(5)])
      (use assms(4) e in \<open>auto simp: frequency_prepared_for_def intro: settled_entry [THEN conjunct1] settled_entry [THEN conjunct2]\<close>)
  moreover have "claims_of (?f J) = C" unfolding J(3) [symmetric] by (rule claims_mut_entry) (simp add: settled_def)
  moreover have "intended (?f J) n" if "n \<in> set prepared" "pf_needs_write n" for n
    using J(4) that by (auto simp: intended_def bt_get_get_mut settled_def)
  moreover have "m_journal s = J" using J(1) by (simp add: staged_def)
  ultimately show ?thesis
    unfolding writing_def using staged_journal [OF J(1), of ?f] by (intro exI [of _ "?f J"]) auto
qed

lemma writing_paths:
  "writing A rec_log ds C K prepared s \<Longrightarrow> m \<in> set prepared \<Longrightarrow> pf_needs_write m \<Longrightarrow> frequency_prepared_for (ac_registry A) m \<Longrightarrow>
   target_paths_of (pf_target m) \<subseteq> C"
  by (auto simp: writing_def dest: intended_claims)

lemma writing_staged: "writing A rec_log ds C {} prepared s \<Longrightarrow> \<exists>J. fits (ac_registry A) J \<and> claims_of J = C \<and> staged A rec_log ds C J s"
  by (auto simp: writing_def)

lemma writing_guarded:
  "writing A rec_log ds C K prepared s \<Longrightarrow> guarded rec_log P s t \<Longrightarrow> P \<subseteq> C \<Longrightarrow> writing A rec_log ds C K prepared t"
  unfolding writing_def using staged_guarded by blast

context recorder
begin

lemma runs_write_batch:
  assumes "\<forall>m \<in> set prepared. frequency_prepared_for (ac_registry A) m"
  shows "runs (writing A rec_log ds C {} prepared) (write_frequencies A [] [] (enumerate_list prepared))
    (\<lambda>(ap, att, f) s. (\<forall>i \<in> set att. i < length prepared \<and> pf_needs_write (prepared ! i)) \<and> writing A rec_log ds C {} prepared s) E"
proof -
  let ?I = "writing A rec_log ds C {} prepared"
  have "runs ?I (write_frequencies A [] [] (enumerate_list prepared)) (\<lambda>_. ?I) E"
  proof (rule runs_write_frequencies, rule runsI)
    fix i m s a t
    assume "(i, m) \<in> set (enumerate_list prepared)" and n: "pf_needs_write m" and I: "?I s"
    then have m: "m \<in> set prepared" by (meson enumerate_list_set)
    have paths: "target_paths_of (pf_target m) \<subseteq> C" using writing_paths [OF I m n] assms m by blast
    note step = staysD [OF guarded_requests(1) [OF paths]]
    { assume *: "apply_requested_limits (ac_io A) (ac_clock A) (pf_target m) (pf_previous_request m) (pf_desired_request m) s = (Inr a, t)"
      have "?I t" by (rule writing_guarded [OF I step [OF *] order_refl])
      from writing_settled [OF this m n, of "{}"] assms m apply_requested_exact [OF *]
      show "?I (t\<lparr>m_journal := (m_journal t)\<lparr>jn_entries := bt_get_mut (ft_id (pf_target m)) (settled a) (jn_entries (m_journal t))\<rparr>\<rparr>)"
        by simp }
    { fix e assume *: "apply_requested_limits (ac_io A) (ac_clock A) (pf_target m) (pf_previous_request m) (pf_desired_request m) s = (Inl e, t)"
      show "?I t" by (rule writing_guarded [OF I step [OF *] order_refl]) }
  qed
  from runs_and [OF this, where R = "\<lambda>(ap, att, f). \<forall>i \<in> set att. i < length prepared \<and> pf_needs_write (prepared ! i)"]
  show ?thesis
    by (rule runs_post) (auto dest!: write_frequencies_attempted simp: enumerate_list_nth)
qed

lemma runs_finish_batch_wal:
  assumes "sound A" and "fits (ac_registry A) J" and "claims_of J \<subseteq> C" and "\<forall>m \<in> set prepared. frequency_prepared_for (ac_registry A) m"
    and "\<forall>i \<in> set att. i < length prepared \<and> pf_needs_write (prepared ! i)"
  shows "runs (writing A rec_log ds C {} prepared) (finish_batch A prepared J (ap, att, f)) (\<lambda>_. wal A rec_log ds) (\<lambda>_. wal A rec_log ds)"
proof (rule runs_at)
  fix s0 assume s0: "writing A rec_log ds C {} prepared s0"
  then obtain I where I: "fits (ac_registry A) I" "claims_of I = C" "staged A rec_log ds C I s0" by (blast dest: writing_staged)
  have rb: "stays (guarded rec_log C) (frequency_rollback A prepared att)"
    using writing_paths [OF s0] assms(4,5) by (intro guarded_rollbacks(1)) auto
  have throws: "runs (staged A rec_log ds (claims_of J) J) (throw x) (\<lambda>_. wal A rec_log ds) (\<lambda>_. wal A rec_log ds)" for x
    by (rule runs_throw) (rule staged_wal [OF _ assms(2)])
  have degrades: "runs (staged A rec_log ds (claims_of J) J) (degrade_locked x) (\<lambda>_. wal A rec_log ds) (\<lambda>_. wal A rec_log ds)" for x
    by (rule runs_degrade_wal) (rule staged_ahead)
  have per: "runs (staged A rec_log ds C I) (attempt (persist_journal A)) (\<lambda>_. staged A rec_log ds C I) E" for E
    by (rule runs_attempt [OF runs_persist [OF assms(1) I(1), of C]]) (simp_all add: I(2))
  have "runs (staged A rec_log ds C I) (finish_batch A prepared J (ap, att, f)) (\<lambda>_. wal A rec_log ds) (\<lambda>_. wal A rec_log ds)"
    unfolding finish_batch_def prod.case
    by (auto intro!: runs_abort_wal [OF assms(1-3) rb] throws degrades runs_bind [OF per] runs_ret staged_wal [OF _ I(1)]
        simp: I(2) split: option.splits prod.splits sum.splits)
  then show "runs (\<lambda>s. s = s0) (finish_batch A prepared J (ap, att, f)) (\<lambda>_. wal A rec_log ds) (\<lambda>_. wal A rec_log ds)"
    by (rule runs_pre) (simp add: I(3))
qed

lemma runs_commit_batch_wal:
  assumes "sound A" and "fits (ac_registry A) J" and "prep_ok A (seen, prepared)"
  shows "runs (staged A rec_log ds (claims_of J) J) (commit_batch A prepared) (\<lambda>_. wal A rec_log ds) (\<lambda>_. wal A rec_log ds)"
proof -
  define J1 where "J1 = fold record_intent (filter pf_needs_write prepared) (next_generation J)"
  have p: "\<forall>m \<in> set prepared. frequency_prepared_for (ac_registry A) m" using assms(3) by (simp add: prep_ok_def)
  have "fits (ac_registry A) (next_generation J)" using assms(2) by simp
  note rec = fits_record_intents [OF this, of "filter pf_needs_write prepared", folded J1_def]
  have J1: "fits (ac_registry A) J1" "claims_of J \<subseteq> claims_of J1" "\<forall>m \<in> set prepared. pf_needs_write m \<longrightarrow> intended J1 m"
    using rec assms(3) by (auto simp: prep_ok_def distinct_map_filter)
  have get: "runs (staged A rec_log ds (claims_of J) J) (get_act m_journal) (\<lambda>j s. j = J \<and> staged A rec_log ds (claims_of J) J s) E" for E
    by (rule runs_get) (simp add: staged_def)
  have upd: "runs (staged A rec_log ds (claims_of J) J) (upd_journal (\<lambda>j. fold record_intent (filter pf_needs_write prepared) (next_generation j)))
      (\<lambda>_. staged A rec_log ds (claims_of J) J1) E" for E
    unfolding J1_def by (rule runs_upd_journal) (rule staged_journal)
  have per: "runs (staged A rec_log ds (claims_of J) J1) (attempt (persist_journal A))
      (\<lambda>r s. case r of Inr _ \<Rightarrow> writing A rec_log ds (claims_of J1) {} prepared s | Inl _ \<Rightarrow> staged A rec_log ds (claims_of J) J1 s) E" for E
    by (rule runs_attempt [OF runs_persist [OF assms(1) J1(1,2)]]) (use J1 in \<open>auto simp: writing_def\<close>)
  have undo: "runs (staged A rec_log ds (claims_of J) J1) (upd_journal (\<lambda>_. J)) (\<lambda>_. staged A rec_log ds (claims_of J) J) E" for E
    by (rule runs_upd_journal) (rule staged_journal)
  have fin: "runs (\<lambda>s. (case res of (ap, att, f) \<Rightarrow> \<forall>i \<in> set att. i < length prepared \<and> pf_needs_write (prepared ! i))
        \<and> writing A rec_log ds (claims_of J1) {} prepared s) (finish_batch A prepared J res) (\<lambda>_. wal A rec_log ds) (\<lambda>_. wal A rec_log ds)" for res
    by (cases res, simp only: prod.case, rule runs_given) (rule runs_finish_batch_wal [OF assms(1,2) J1(2) p])
  show ?thesis
    unfolding commit_batch_def
    apply (rule runs_bind [OF get], rule runs_given, hypsubst)
    apply (rule runs_bind [OF upd], rule runs_bind [OF per])
    subgoal for _ _ r
      apply (cases r)
      subgoal by (auto intro!: runs_bind [OF undo] runs_degrade_wal dest: staged_ahead)
      subgoal
        apply simp
        apply (rule runs_bind [OF runs_write_batch [OF p]])
        apply (rule runs_pre [OF fin])
        apply (simp add: case_prod_unfold)
        done
      done
    done
qed

lemma runs_apply_batch_wal:
  assumes "sound A"
  shows "runs (wal A rec_log ds) (apply_batch A qs) (\<lambda>_. wal A rec_log ds) (\<lambda>_. wal A rec_log ds)"
proof -
  have body: "runs (staged A rec_log ds (claims_of J) J)
     (if qs = [] then ret []
      else bind_act (gather (prepare_frequency A) ([], []) qs) (\<lambda>(_, prepared).
          if list_all (\<lambda>m. \<not> pf_needs_write m) prepared then ret (unwritten_outcome prepared)
          else commit_batch A prepared)) (\<lambda>_. wal A rec_log ds) (\<lambda>_. wal A rec_log ds)" if J: "fits (ac_registry A) J" for J
  proof -
    have "runs (staged A rec_log ds (claims_of J) J) (gather (prepare_frequency A) ([], []) qs)
        (\<lambda>acc s. prep_ok A acc \<and> staged A rec_log ds (claims_of J) J s) (\<lambda>_. wal A rec_log ds)"
      by (rule runs_post [OF runs_prepare [OF assms J]]) (auto intro: staged_wal J)
    then show ?thesis
      by (auto intro!: runs_ret staged_wal [OF _ J] runs_bind runs_given runs_commit_batch_wal [OF assms J] split: prod.splits)
  qed
  show ?thesis
    unfolding apply_batch_def
    by (rule runs_bind [OF runs_ready], rule runs_ex, rule runs_given, rule body)
qed

end

section \<open>Fast transactions\<close>

lemma writing_covered: "writing A rec_log ds C K prepared s \<Longrightarrow> covered_log A rec_log ds C s"
  by (auto simp: writing_def dest: staged_covered)

lemma runs_degrade_covered: "runs (covered_log A rec_log ds C) (degrade_locked r) Q (\<lambda>_. covered_log A rec_log ds C)"
  by (simp add: runs_def degrade_locked_def act_simps bind_act_def covered_log_def)

lemma runs_covered:
  assumes "stays (guarded rec_log P) m" and "P \<subseteq> C"
  shows "runs (covered_log A rec_log ds C) m (\<lambda>_. covered_log A rec_log ds C) (\<lambda>_. covered_log A rec_log ds C)"
proof (rule runs_stays [OF assms(1)])
  fix s t assume "covered_log A rec_log ds C s" and "guarded rec_log P s t"
  with assms(2) show "covered_log A rec_log ds C t"
    by (fastforce simp: covered_log_def guarded_def ahead_append ahead_writes on_disk_append list_all_iff)
qed

lemma runs_each_upto:
  assumes "\<And>x D. x \<in> set xs \<Longrightarrow> D \<subseteq> set xs \<Longrightarrow> runs (I D) (f x) (\<lambda>_. I (insert x D)) E"
  shows "runs (I {}) (each f xs) (\<lambda>_. I (set xs)) E"
proof -
  have "runs (I D) (each f ys) (\<lambda>_. I (D \<union> set ys)) E" if "set ys \<subseteq> set xs" "D \<subseteq> set xs" for D ys
    using that
  proof (induction ys arbitrary: D)
    case (Cons y ys)
    have "runs (I (insert y D)) (each f ys) (\<lambda>_. I (insert y D \<union> set ys)) E"
      using Cons.prems by (intro Cons.IH) auto
    with assms [of y D] Cons.prems show ?case by (auto intro: runs_bind)
  qed (simp add: runs_ret)
  from this [of xs "{}"] show ?thesis by simp
qed

lemma update_owned_run:
  "update_owned m f s =
     (case bt_get (jn_entries (m_journal s)) (ft_id (pf_target m)) of
        None \<Rightarrow> (Inl (OwnershipRequired (ft_id (pf_target m))), s)
      | Some _ \<Rightarrow> (Inr (), s\<lparr>m_journal := (m_journal s)\<lparr>jn_entries := bt_get_mut (ft_id (pf_target m)) f (jn_entries (m_journal s))\<rparr>\<rparr>))"
  by (simp add: update_owned_def owned_entry_def upd_journal_def bind_act_def act_simps split: option.splits)

lemma prepare_owned_ok:
  assumes "sound A" and "fits (ac_registry A) (m_journal s)" and "prep_ok A acc" and "prepare_owned A acc q s = (Inr acc', t)"
  shows "prep_ok A acc'"
proof -
  obtain seen prepared where acc: "acc = (seen, prepared)" by fastforce
  from assms(4) have "\<exists>target d b e n. fr_target q \<notin> set seen \<and> registry_get (ac_registry A) (fr_target q) = Some target
    \<and> snap_limits target (fr_limits q) = Inr d \<and> bt_get (jn_entries (m_journal s)) (ft_id target) = Some e
    \<and> acc' = (fr_target q # seen, prepared @ [\<lparr>pf_target = target, pf_before_effective = b,
        pf_previous_request = je_desired e, pf_desired_request = d, pf_needs_write = n\<rparr>])"
    by (auto simp: acc prepare_owned_def Let_def bind_act_Inr_iff act_simps split: if_splits)
  then obtain target d b e n where new: "fr_target q \<notin> set seen" and target: "registry_get (ac_registry A) (fr_target q) = Some target"
    and d: "snap_limits target (fr_limits q) = Inr d" and e: "bt_get (jn_entries (m_journal s)) (ft_id target) = Some e"
    and acc': "acc' = (fr_target q # seen, prepared @ [\<lparr>pf_target = target, pf_before_effective = b,
        pf_previous_request = je_desired e, pf_desired_request = d, pf_needs_write = n\<rparr>])"
    by blast
  have wf: "target_wf target" "ft_id target = fr_target q"
    using assms(1) target by (auto simp: sound_def dest: registry_okD(1))
  moreover have "validate_limits target (je_desired e) = Inr ()"
    using fitsD(1) [OF assms(2) e] target wf(2) by (auto simp: entry_of_def)
  ultimately have "frequency_prepared_for (ac_registry A) (snd acc' ! length prepared)"
    using target d by (auto simp: acc' frequency_prepared_for_def nth_append snap_limits_valid)
  then show ?thesis
    using assms(3) new wf(2) prep_ok_step [of A seen prepared "snd acc' ! length prepared"] by (simp add: acc acc' nth_append)
qed

definition needing :: "(nat \<times> prepared_frequency) list \<Rightarrow> target_id set" where
  "needing ms = {ft_id (pf_target m) | i m. (i, m) \<in> set ms \<and> pf_needs_write m}"

definition marking ::
  "'w actuator \<Rightarrow> ('w \<Rightarrow> event list) \<Rightarrow> string option list \<Rightarrow> path_buf set \<Rightarrow> target_id set \<Rightarrow> prepared_frequency set \<Rightarrow> 'w machine \<Rightarrow> bool" where
  "marking A rec_log ds C K D s =
     (\<exists>J. staged A rec_log ds C J s \<and> fits_but K (ac_registry A) J \<and> claims_of J = C \<and> (\<forall>m \<in> D. intended J m))"

lemma marking_step:
  assumes "marking A rec_log ds C K D s" and "frequency_prepared_for (ac_registry A) m" and "ft_id (pf_target m) \<in> K"
    and "\<forall>n \<in> D. ft_id (pf_target n) = ft_id (pf_target m) \<longrightarrow> n = m"
    and "update_owned m (transition b (pf_desired_request m)) s = (Inr (), t)"
  shows "marking A rec_log ds C K (insert m D) t"
proof -
  let ?f = "\<lambda>j. j\<lparr>jn_entries := bt_get_mut (ft_id (pf_target m)) (transition b (pf_desired_request m)) (jn_entries j)\<rparr>"
  from assms(1) obtain J where J: "staged A rec_log ds C J s" "fits_but K (ac_registry A) J" "claims_of J = C"
    "\<forall>m \<in> D. intended J m" by (auto simp: marking_def)
  have mem: "m_journal s = J" using J(1) by (simp add: staged_def)
  from assms(5) obtain e where e: "bt_get (jn_entries J) (ft_id (pf_target m)) = Some e" and t: "t = s\<lparr>m_journal := ?f (m_journal s)\<rparr>"
    by (auto simp: update_owned_run mem split: option.splits)
  have "fits_but K (ac_registry A) (?f J)"
    by (rule fits_mut_entry [OF J(2)]) (use assms(2,3) in \<open>auto simp: frequency_prepared_for_def intro: transition_entry\<close>)
  moreover have "claims_of (?f J) = C" unfolding J(3) [symmetric] by (rule claims_mut_entry) (simp add: transition_def)
  moreover have "intended (?f J) n" if "n \<in> insert m D" for n
    using J(4) that e assms(4) by (auto simp: intended_def bt_get_get_mut transition_def)
  ultimately show ?thesis
    unfolding marking_def t mem using staged_journal [OF J(1), of ?f] mem by (intro exI [of _ "?f J"]) auto
qed

context recorder
begin

lemma runs_mark:
  assumes "prep_ok A (seen, prepared)"
  shows "runs (marking A rec_log ds C ((\<lambda>m. ft_id (pf_target m)) ` set (filter pf_needs_write prepared)) {})
    (each (\<lambda>m. update_owned m (transition (pf_before_effective m) (pf_desired_request m))) (filter pf_needs_write prepared))
    (\<lambda>_. marking A rec_log ds C ((\<lambda>m. ft_id (pf_target m)) ` set (filter pf_needs_write prepared)) (set (filter pf_needs_write prepared)))
    (\<lambda>_. covered_log A rec_log ds C)"
proof (rule runs_each_upto, rule runsI)
  fix m D s r t
  let ?K = "(\<lambda>m. ft_id (pf_target m)) ` set (filter pf_needs_write prepared)"
  assume m: "m \<in> set (filter pf_needs_write prepared)" and D: "D \<subseteq> set (filter pf_needs_write prepared)"
    and s: "marking A rec_log ds C ?K D s"
  have inj: "inj_on (\<lambda>m. ft_id (pf_target m)) (set prepared)" and p: "frequency_prepared_for (ac_registry A) m"
    using assms m by (auto simp: prep_ok_def distinct_map)
  have "\<forall>n \<in> D. ft_id (pf_target n) = ft_id (pf_target m) \<longrightarrow> n = m" using inj m D by (auto simp: inj_on_def)
  from marking_step [OF s p _ this]
  show "update_owned m (transition (pf_before_effective m) (pf_desired_request m)) s = (Inr r, t) \<Longrightarrow> marking A rec_log ds C ?K (insert m D) t"
    using m by auto
  show "update_owned m (transition (pf_before_effective m) (pf_desired_request m)) s = (Inl e, t) \<Longrightarrow> covered_log A rec_log ds C t" for e
    using s by (auto simp: update_owned_run marking_def dest: staged_covered split: option.splits)
qed

lemma runs_write_owned_wal:
  assumes "\<forall>m \<in> set prepared. frequency_prepared_for (ac_registry A) m" and "set ms \<subseteq> set (enumerate_list prepared)"
    and "\<forall>i \<in> set att. i < length prepared \<and> pf_needs_write (prepared ! i)"
  shows "runs (writing A rec_log ds C (needing ms) prepared) (write_owned A ap att ms)
    (\<lambda>(ap, att, f) s. (\<forall>i \<in> set att. i < length prepared \<and> pf_needs_write (prepared ! i))
       \<and> (f = None \<longrightarrow> writing A rec_log ds C {} prepared s) \<and> covered_log A rec_log ds C s) (\<lambda>_. covered_log A rec_log ds C)"
    (is "runs _ _ ?Q ?E")
  using assms(2,3)
proof (induction ms arbitrary: ap att)
  case Nil
  then show ?case by (auto intro!: runs_ret simp: needing_def dest: writing_covered)
next
  case (Cons x ms)
  obtain i m where x: "x = (i, m)" by fastforce
  then have i: "i < length prepared" "m = prepared ! i" using Cons.prems(1) by (auto simp: enumerate_list_nth)
  then have m: "m \<in> set prepared" by simp
  show ?case
  proof (cases "pf_needs_write m")
    case False
    then have "needing (x # ms) = needing ms" by (auto simp: needing_def x)
    with False Cons.prems show ?thesis by (simp add: x Cons.IH)
  next
    case True
    then have K: "needing (x # ms) \<subseteq> insert (ft_id (pf_target m)) (needing ms)" by (auto simp: needing_def x)
    let ?op = "apply_requested_limits (ac_io A) (ac_clock A) (pf_target m) (pf_before_effective m) (pf_desired_request m)"
    let ?I = "writing A rec_log ds C (needing (x # ms)) prepared"
    have op: "runs ?I (attempt ?op) (\<lambda>r s. (\<forall>a. r = Inr a \<longrightarrow> a = pf_desired_request m) \<and> ?I s) ?E"
    proof (rule runs_attempt [where Q = "\<lambda>a s. a = pf_desired_request m \<and> ?I s" and E = "\<lambda>_. ?I"], rule runsI)
      fix s a t assume I: "?I s"
      have "target_paths_of (pf_target m) \<subseteq> C" using writing_paths [OF I m True] assms(1) m by blast
      note step = staysD [OF guarded_requests(1) [OF this]]
      show "?op s = (Inr a, t) \<Longrightarrow> a = pf_desired_request m \<and> ?I t"
        using apply_requested_exact writing_guarded [OF I step order_refl] by blast
      show "?op s = (Inl e, t) \<Longrightarrow> ?I t" for e using writing_guarded [OF I step order_refl] by blast
    qed auto
    have upd: "runs ?I (update_owned m (settled (pf_desired_request m))) (\<lambda>_. writing A rec_log ds C (needing ms) prepared) ?E"
    proof (rule runsI)
      fix s r t assume I: "?I s"
      from writing_settled [OF I m True _ K] assms(1) m
      show "update_owned m (settled (pf_desired_request m)) s = (Inr r, t) \<Longrightarrow> writing A rec_log ds C (needing ms) prepared t"
        by (auto simp: update_owned_run split: option.splits)
      show "update_owned m (settled (pf_desired_request m)) s = (Inl e, t) \<Longrightarrow> covered_log A rec_log ds C t" for e
        using writing_covered [OF I] by (auto simp: update_owned_run split: option.splits)
    qed
    have rest: "runs (writing A rec_log ds C (needing ms) prepared) (write_owned A ap' (att @ [i]) ms) ?Q ?E" for ap'
      using Cons.prems True i by (intro Cons.IH) auto
    have "runs (\<lambda>s. (\<forall>a. r = Inr a \<longrightarrow> a = pf_desired_request m) \<and> ?I s)
       (case r of Inl error \<Rightarrow> ret (ap, att @ [i], Some (ft_id (pf_target m), error))
        | Inr actual \<Rightarrow> bind_act (update_owned m (settled actual)) (\<lambda>_. write_owned A (bt_insert (ft_id (pf_target m)) actual ap) (att @ [i]) ms))
       ?Q ?E" for r
    proof (cases r)
      case (Inl e)
      with Cons.prems(2) i True show ?thesis by (auto intro!: runs_ret dest: writing_covered)
    next
      case (Inr a)
      show ?thesis
        unfolding Inr by (rule runs_given) (auto intro: runs_bind [OF upd] rest)
    qed
    with True show ?thesis unfolding x write_owned.simps by (auto intro: runs_bind [OF op [unfolded x]])
  qed
qed

lemma runs_commit_owned_wal:
  assumes "sound A" and "fits (ac_registry A) J" and "prep_ok A (seen, prepared)"
  shows "runs (staged A rec_log ds (claims_of J) J) (commit_owned A prepared)
    (\<lambda>_. wal A rec_log ds) (\<lambda>_. covered_log A rec_log ds (claims_of J))"
proof -
  let ?C = "claims_of J" and ?ms = "filter pf_needs_write prepared"
  let ?K = "(\<lambda>m. ft_id (pf_target m)) ` set ?ms" and ?E = "\<lambda>_. covered_log A rec_log ds (claims_of J)"
  have p: "\<forall>m \<in> set prepared. frequency_prepared_for (ac_registry A) m" using assms(3) by (simp add: prep_ok_def)
  have K: "needing (enumerate_list prepared) = ?K"
    using enumerate_list_set [of _ prepared] by (fastforce simp: needing_def)
  have get: "runs (staged A rec_log ds ?C J) (get_act (\<lambda>s. jn_generation (m_journal s))) (\<lambda>_. staged A rec_log ds ?C J) ?E"
    by (rule runs_get)
  have snap: "runs (staged A rec_log ds ?C J) (gather snapshot [] ?ms)
      (\<lambda>es s. staged A rec_log ds ?C J s \<and> (\<forall>m \<in> set ?ms. target_paths_of (pf_target m) \<subseteq> ?C)) ?E"
  proof (rule runsI)
    fix s es t assume s: "staged A rec_log ds ?C J s" and *: "gather snapshot [] ?ms s = (Inr es, t)"
    from gather_snapshot [OF *] have t: "t = s" and es: "\<forall>(k, e) \<in> set es. bt_get (jn_entries (m_journal s)) k = Some e" "?K \<subseteq> fst ` set es"
      by auto
    have "target_paths_of (pf_target m) \<subseteq> ?C" if "m \<in> set ?ms" for m
    proof -
      from that es obtain e where e: "bt_get (jn_entries J) (ft_id (pf_target m)) = Some e"
        using s by (fastforce simp: staged_def)
      from fitsD(1) [OF assms(2) e] p that have "entry_of (pf_target m) e" by (auto simp: frequency_prepared_for_def)
      with claims_of_entry(1) [OF e] show ?thesis by (auto simp: target_paths_of_def entry_of_def)
    qed
    with s t show "staged A rec_log ds ?C J t \<and> (\<forall>m \<in> set ?ms. target_paths_of (pf_target m) \<subseteq> ?C)" by blast
  next
    fix s e t assume "staged A rec_log ds ?C J s" and "gather snapshot [] ?ms s = (Inl e, t)"
    then show "covered_log A rec_log ds ?C t" using gather_snapshot by (blast dest: staged_covered)
  qed
  have gen: "runs (staged A rec_log ds ?C J) (upd_journal next_generation) (\<lambda>_. marking A rec_log ds ?C ?K {}) ?E"
  proof (rule runs_upd_journal)
    fix s assume "staged A rec_log ds ?C J s"
    from staged_journal [OF this, of next_generation]
    show "marking A rec_log ds ?C ?K {} (s\<lparr>m_journal := next_generation (m_journal s)\<rparr>)"
      unfolding marking_def using assms(2) by (intro exI [of _ "next_generation J"]) (auto intro: fits_weaken)
  qed
  have wr: "runs (marking A rec_log ds ?C ?K (set ?ms)) (write_owned A [] [] (enumerate_list prepared))
     (\<lambda>(ap, att, f) s. (\<forall>i \<in> set att. i < length prepared \<and> pf_needs_write (prepared ! i))
       \<and> (f = None \<longrightarrow> writing A rec_log ds ?C {} prepared s) \<and> covered_log A rec_log ds ?C s) ?E"
    by (rule runs_pre [OF runs_write_owned_wal [OF p order_refl]]) (auto simp: K marking_def writing_def)
  have rb: "runs (covered_log A rec_log ds ?C) (attempt (frequency_rollback A prepared att)) (\<lambda>_. covered_log A rec_log ds ?C) ?E"
    if "\<forall>m \<in> set ?ms. target_paths_of (pf_target m) \<subseteq> ?C" "\<forall>i \<in> set att. i < length prepared \<and> pf_needs_write (prepared ! i)" for att
    by (rule runs_attempt [OF runs_covered [OF guarded_rollbacks(1) order_refl]]) (use that in auto)
  have undo: "runs (covered_log A rec_log ds ?C) (upd_journal f) (\<lambda>_. covered_log A rec_log ds ?C) ?E" for f
    by (rule runs_upd_journal) (simp add: covered_log_def)
  have wal: "wal A rec_log ds s" if "writing A rec_log ds ?C {} prepared s" for s
    using writing_staged [OF that] staged_wal by metis
  have fin: "runs (\<lambda>s. (\<forall>i \<in> set att. i < length prepared \<and> pf_needs_write (prepared ! i))
       \<and> (f = None \<longrightarrow> writing A rec_log ds ?C {} prepared s) \<and> covered_log A rec_log ds ?C s)
     (case f of None \<Rightarrow> ret ap
     | Some (failed_target, error) \<Rightarrow>
         bind_act (attempt (frequency_rollback A prepared att)) (\<lambda>rolled_back.
         case rolled_back of
           Inl rollback \<Rightarrow> degrade_locked (MFmt x [MStr failed_target, error_message error, error_message rollback])
         | Inr _ \<Rightarrow> bind_act (upd_journal h) (\<lambda>_. throw (TransactionError (MStr failed_target) (error_message error)))))
     (\<lambda>_. wal A rec_log ds) ?E" if "\<forall>m \<in> set ?ms. target_paths_of (pf_target m) \<subseteq> ?C" for f ap att x h
    by (rule runs_given)
      (auto intro!: runs_ret wal runs_bind [OF rb [OF that]] runs_degrade_covered runs_bind [OF undo] runs_throw
        split: option.splits sum.splits)
  show ?thesis
    unfolding commit_owned_def snapshot_def [symmetric]
    apply (rule runs_bind [OF get], rule runs_bind [OF snap])
    apply (subst conj_commute, rule runs_given)
    apply (rule runs_bind [OF gen], rule runs_bind [OF runs_mark [OF assms(3)]], rule runs_bind [OF wr])
    subgoal for g es _ _ res
      by (cases res rule: prod_cases3, simp only: prod.case, rule fin)
    done
qed

lemma runs_apply_owned_wal:
  assumes "sound A"
  shows "runs (wal A rec_log ds) (apply_owned_batch_fast A qs) (\<lambda>_. wal A rec_log ds) (\<lambda>_. wal A rec_log ds)"
proof -
  have prep: "runs (staged A rec_log ds C J) (gather (prepare_owned A) ([], []) qs)
      (\<lambda>acc s. prep_ok A acc \<and> staged A rec_log ds C J s) (\<lambda>_. staged A rec_log ds C J)" if J: "fits (ac_registry A) J" for C J
  proof -
    have "runs (\<lambda>s. prep_ok A acc \<and> staged A rec_log ds C J s) (prepare_owned A acc q)
        (\<lambda>acc s. prep_ok A acc \<and> staged A rec_log ds C J s) (\<lambda>_. staged A rec_log ds C J)" for acc q
    proof (rule runs_given, rule runs_and)
      show "runs (staged A rec_log ds C J) (prepare_owned A acc q) (\<lambda>_. staged A rec_log ds C J) (\<lambda>_. staged A rec_log ds C J)"
        by (rule runs_staged [OF guarded_prepare(2), of "{}"]) simp
      show "prep_ok A acc'" if "prep_ok A acc" "staged A rec_log ds C J s" "prepare_owned A acc q s = (Inr acc', t)" for s acc' t
        using that J by (intro prepare_owned_ok [OF assms _ that(1,3)]) (simp add: staged_def)
    qed
    then have "runs (\<lambda>s. prep_ok A ([], []) \<and> staged A rec_log ds C J s) (gather (prepare_owned A) ([], []) qs)
        (\<lambda>acc s. prep_ok A acc \<and> staged A rec_log ds C J s) (\<lambda>_. staged A rec_log ds C J)"
      by (rule runs_gather)
    then show ?thesis by (rule runs_pre) (simp add: prep_ok_def)
  qed
  have body: "runs (staged A rec_log ds (claims_of J) J)
     (if qs = [] then ret []
      else bind_act (gather (prepare_owned A) ([], []) qs) (\<lambda>(_, prepared).
          if list_all (\<lambda>m. \<not> pf_needs_write m) prepared then ret (unwritten_outcome prepared)
          else commit_owned A prepared)) (\<lambda>_. wal A rec_log ds) (\<lambda>_. covered_log A rec_log ds (claims_of J))"
    if J: "fits (ac_registry A) J" for J
  proof -
    have "runs (staged A rec_log ds (claims_of J) J) (gather (prepare_owned A) ([], []) qs)
        (\<lambda>acc s. prep_ok A acc \<and> staged A rec_log ds (claims_of J) J s) (\<lambda>_. covered_log A rec_log ds (claims_of J))"
      by (rule runs_post [OF prep [OF J]]) (auto dest: staged_covered)
    then show ?thesis
      by (auto intro!: runs_ret staged_wal [OF _ J] runs_bind runs_given runs_commit_owned_wal [OF assms J] split: prod.splits)
  qed
  show ?thesis
  proof (rule runsI)
    fix s r t assume s: "wal A rec_log ds s"
    show "wal A rec_log ds t" if run: "apply_owned_batch_fast A qs s = (Inr r, t)"
    proof -
      from run obtain u where "ensure_mutation_ready s = (Inr (), u)"
        and u: "(if qs = [] then ret []
      else bind_act (gather (prepare_owned A) ([], []) qs) (\<lambda>(_, prepared).
          if list_all (\<lambda>m. \<not> pf_needs_write m) prepared then ret (unwritten_outcome prepared)
          else commit_owned A prepared)) u = (Inr r, t)"
        by (auto simp: apply_owned_batch_fast_def bind_act_Inr_iff)
      with runsD(1) [OF runs_ready s] runsD(1) [OF body _ u] show ?thesis by blast
    qed
    fix e assume run: "apply_owned_batch_fast A qs s = (Inl e, t)"
    show "wal A rec_log ds t"
    proof (cases "m_mode s = ReadWrite \<and> \<not> m_recovery_required s")
      case False
      then have "t = s" using run
        by (cases "m_mode s") (auto simp: apply_owned_batch_fast_def bind_act_def ensure_mutation_ready_def ensure_read_write_def)
      with s show ?thesis by simp
    next
      case True
      with wal_staged [OF s] have st: "staged A rec_log ds (claims_of (m_journal s)) (m_journal s) s" and J: "fits (ac_registry A) (m_journal s)"
        by auto
      have "ensure_mutation_ready s = (Inr (), s)" using True by (simp add: ensure_mutation_ready_def ensure_read_write_def)
      then have "covered_log A rec_log ds (claims_of (m_journal s)) t"
        using run by (intro runsD(2) [OF body [OF J] st]) (simp add: apply_owned_batch_fast_def bind_act_def)
      moreover have "degraded_by e t \<or> locked_state (m_mode s) (m_recovery_required s) (m_journal s) t"
        using runsD(2) [OF runs_apply_owned [OF locked_stateI] refl run] J by (simp add: fits_but_def)
      ultimately show ?thesis using J True
        by (auto simp: wal_def covered_log_def degraded_by_def locked_state_def)
    qed
  qed
qed

end

end
