(* ===== verification/Write_Ahead_Methods.thy ===== *)
theory Write_Ahead_Methods
  imports Write_Ahead
begin

text \<open>
  Scalar transactions and the restorations keep the journal ahead of the kernel, and the invariant of
  the actuator over all the methods that write kernel attributes.
\<close>

section \<open>Scalar transactions\<close>

lemma read_scalar_accepts: "read_scalar sys t s = (Inr v, u) \<Longrightarrow> domain_accepts (st_domain t) v"
  by (auto simp: read_scalar_def bind_act_Inr_iff act_simps validate_value_Inr_iff)

lemma write_scalar_exact: "write_scalar sys t v s = (Inr a, u) \<Longrightarrow> a = v"
  by (auto simp: write_scalar_def bind_act_Inr_iff act_simps split: if_splits)

lemma write_scalars_attempted:
  "write_scalars A ap att ms s = (Inr (ap', att', f), t) \<Longrightarrow>
     set att' \<subseteq> set att \<union> {i. \<exists>m. (i, m) \<in> set ms \<and> ps_needs_write m}"
proof (induction A ap att ms arbitrary: s rule: write_scalars.induct)
  case (2 A ap att i m ms)
  show ?case
  proof (cases "ps_needs_write m")
    case False
    with 2(1) [OF False] 2(3) show ?thesis by fastforce
  next
    case True
    obtain r u where r: "write_scalar (ac_io A) (ps_target m) (ps_desired m) s = (r, u)" by fastforce
    show ?thesis
    proof (cases r)
      case (Inl e)
      with 2(3) True r show ?thesis by (auto simp: bind_attempt act_simps)
    next
      case (Inr a)
      with 2(3) True r obtain v where "write_scalars A (bt_insert (st_id (ps_target m)) a ap) (att @ [i]) ms v = (Inr (ap', att', f), t)"
        by (auto simp: bind_attempt upd_journal_def)
      from 2(2) [OF _ this] True show ?thesis by fastforce
    qed
  qed
qed (auto simp: act_simps)

definition scalars_prepared :: "'w actuator \<Rightarrow> journal \<Rightarrow> prepared_scalar list \<Rightarrow> bool" where
  "scalars_prepared A J prepared =
     (\<forall>m \<in> set prepared. prepared_scalar_for (ac_registry A) m \<and> (ps_needs_write m \<longrightarrow> ps_needs_journal m \<or> intended_scalar J m))"

lemma prepare_scalar_ok:
  assumes "sound A" and "scalars_prepared A (m_journal s) (snd acc)" and "prepare_scalar A acc q s = (Inr acc', t)"
  shows "scalars_prepared A (m_journal s) (snd acc')"
proof -
  obtain seen prepared where acc: "acc = (seen, prepared)" by fastforce
  from assms(3) have "\<exists>target b u n j. registry_get_scalar (ac_registry A) (sr_target q) = Some target
    \<and> validate_value target (sr_value q) = Inr () \<and> read_scalar (ac_io A) target s = (Inr b, u)
    \<and> (n \<longrightarrow> j \<or> bt_get (jn_scalars (m_journal u)) (st_id target) \<noteq> None)
    \<and> snd acc' = prepared @ [\<lparr>ps_target = target, ps_before = b, ps_desired = sr_value q, ps_needs_write = n, ps_needs_journal = j\<rparr>]"
    by (auto simp: acc prepare_scalar_def Let_def bind_act_Inr_iff act_simps split: if_splits option.splits)
  then obtain target b u n j where target: "registry_get_scalar (ac_registry A) (sr_target q) = Some target"
    and v: "validate_value target (sr_value q) = Inr ()" and u: "read_scalar (ac_io A) target s = (Inr b, u)"
    and n: "n \<longrightarrow> j \<or> bt_get (jn_scalars (m_journal u)) (st_id target) \<noteq> None"
    and acc': "snd acc' = prepared @ [\<lparr>ps_target = target, ps_before = b, ps_desired = sr_value q, ps_needs_write = n, ps_needs_journal = j\<rparr>]"
    by blast
  have "m_journal u = m_journal s" using staysD [OF read_frames(2) u] by (simp add: io_only_def)
  moreover have "st_id target = sr_target q" using assms(1) target by (auto simp: sound_def dest: registry_okD(2))
  ultimately show ?thesis
    using assms(2) target v n read_scalar_accepts [OF u]
    by (auto simp: acc acc' scalars_prepared_def prepared_scalar_for_def intended_scalar_def validate_value_Inr_iff)
qed

definition writing_scalars ::
  "'w actuator \<Rightarrow> ('w \<Rightarrow> event list) \<Rightarrow> string option list \<Rightarrow> path_buf set \<Rightarrow> prepared_scalar list \<Rightarrow> 'w machine \<Rightarrow> bool" where
  "writing_scalars A rec_log ds C prepared s =
     (\<exists>J. staged A rec_log ds C J s \<and> fits (ac_registry A) J \<and> claims_of J = C
        \<and> (\<forall>m \<in> set prepared. ps_needs_write m \<longrightarrow> intended_scalar J m))"

lemma writing_scalars_settled:
  assumes "writing_scalars A rec_log ds C prepared s" and "prepared_scalar_for (ac_registry A) m"
  shows "writing_scalars A rec_log ds C prepared (s\<lparr>m_journal := (m_journal s)\<lparr>jn_scalars :=
     bt_get_mut (st_id (ps_target m)) (\<lambda>e. e\<lparr>sj_applied := ps_desired m, sj_desired := ps_desired m\<rparr>) (jn_scalars (m_journal s))\<rparr>\<rparr>)"
proof -
  let ?g = "\<lambda>e. e\<lparr>sj_applied := ps_desired m, sj_desired := ps_desired m\<rparr> :: scalar_journal_entry"
  let ?f = "\<lambda>j. j\<lparr>jn_scalars := bt_get_mut (st_id (ps_target m)) ?g (jn_scalars j)\<rparr>"
  from assms(1) obtain J where J: "staged A rec_log ds C J s" "fits (ac_registry A) J" "claims_of J = C"
    "\<forall>m \<in> set prepared. ps_needs_write m \<longrightarrow> intended_scalar J m" by (auto simp: writing_scalars_def)
  have "fits (ac_registry A) (?f J)"
    by (rule fits_mut_scalar [OF J(2)]) (use assms(2) in \<open>auto simp: prepared_scalar_for_def scalar_entry_of_def\<close>)
  moreover have "claims_of (?f J) = C" unfolding J(3) [symmetric] by (rule claims_mut_scalar) simp
  moreover have "intended_scalar (?f J) n" if "n \<in> set prepared" "ps_needs_write n" for n
    using J(4) that by (auto simp: intended_scalar_def bt_get_get_mut)
  moreover have "m_journal s = J" using J(1) by (simp add: staged_def)
  ultimately show ?thesis
    unfolding writing_scalars_def using staged_journal [OF J(1), of ?f] by (intro exI [of _ "?f J"]) auto
qed

lemma writing_scalars_path:
  "writing_scalars A rec_log ds C prepared s \<Longrightarrow> m \<in> set prepared \<Longrightarrow> ps_needs_write m \<Longrightarrow> prepared_scalar_for (ac_registry A) m \<Longrightarrow>
   st_path (ps_target m) \<in> C"
  by (auto simp: writing_scalars_def dest: intended_scalar_claims)

lemma writing_scalars_guarded:
  "writing_scalars A rec_log ds C prepared s \<Longrightarrow> guarded rec_log P s t \<Longrightarrow> P \<subseteq> C \<Longrightarrow> writing_scalars A rec_log ds C prepared t"
  unfolding writing_scalars_def using staged_guarded by blast

context recorder
begin

lemma runs_write_scalar_batch:
  assumes "\<forall>m \<in> set prepared. prepared_scalar_for (ac_registry A) m"
  shows "runs (writing_scalars A rec_log ds C prepared) (write_scalars A [] [] (enumerate_list prepared))
    (\<lambda>(ap, att, f) s. (\<forall>i \<in> set att. i < length prepared \<and> ps_needs_write (prepared ! i)) \<and> writing_scalars A rec_log ds C prepared s) E"
proof -
  let ?I = "writing_scalars A rec_log ds C prepared"
  have "runs ?I (write_scalars A [] [] (enumerate_list prepared)) (\<lambda>_. ?I) E"
  proof (rule runs_write_scalars, rule runsI)
    fix i m s a t
    assume "(i, m) \<in> set (enumerate_list prepared)" and n: "ps_needs_write m" and I: "?I s"
    then have m: "m \<in> set prepared" by (meson enumerate_list_set)
    have path: "st_path (ps_target m) \<in> C" using writing_scalars_path [OF I m n] assms m by blast
    note step = staysD [OF guarded_write_scalar [OF path]]
    { assume *: "write_scalar (ac_io A) (ps_target m) (ps_desired m) s = (Inr a, t)"
      have "?I t" by (rule writing_scalars_guarded [OF I step [OF *] order_refl])
      from writing_scalars_settled [OF this] assms m write_scalar_exact [OF *]
      show "?I (t\<lparr>m_journal := (m_journal t)\<lparr>jn_scalars := bt_get_mut (st_id (ps_target m))
          (\<lambda>e. e\<lparr>sj_applied := a, sj_desired := a\<rparr>) (jn_scalars (m_journal t))\<rparr>\<rparr>)"
        by simp }
    { fix e assume *: "write_scalar (ac_io A) (ps_target m) (ps_desired m) s = (Inl e, t)"
      show "?I t" by (rule writing_scalars_guarded [OF I step [OF *] order_refl]) }
  qed
  from runs_and [OF this, where R = "\<lambda>(ap, att, f). \<forall>i \<in> set att. i < length prepared \<and> ps_needs_write (prepared ! i)"]
  show ?thesis
    by (rule runs_post) (auto dest!: write_scalars_attempted simp: enumerate_list_nth)
qed

lemma runs_finish_scalars_wal:
  assumes "sound A" and "fits (ac_registry A) J" and "claims_of J \<subseteq> C" and "\<forall>m \<in> set prepared. prepared_scalar_for (ac_registry A) m"
    and "\<forall>i \<in> set att. i < length prepared \<and> ps_needs_write (prepared ! i)"
  shows "runs (writing_scalars A rec_log ds C prepared) (finish_scalars A prepared J (ap, att, f)) (\<lambda>_. wal A rec_log ds) (\<lambda>_. wal A rec_log ds)"
proof (rule runs_at)
  fix s0 assume s0: "writing_scalars A rec_log ds C prepared s0"
  then obtain I where I: "fits (ac_registry A) I" "claims_of I = C" "staged A rec_log ds C I s0" by (auto simp: writing_scalars_def)
  have rb: "stays (guarded rec_log C) (scalar_rollback A prepared att)"
    using writing_scalars_path [OF s0] assms(4,5) by (intro guarded_rollbacks(2)) auto
  have throws: "runs (staged A rec_log ds (claims_of J) J) (throw x) (\<lambda>_. wal A rec_log ds) (\<lambda>_. wal A rec_log ds)" for x
    by (rule runs_throw) (rule staged_wal [OF _ assms(2)])
  have degrades: "runs (staged A rec_log ds (claims_of J) J) (degrade_locked x) (\<lambda>_. wal A rec_log ds) (\<lambda>_. wal A rec_log ds)" for x
    by (rule runs_degrade_wal) (rule staged_ahead)
  have per: "runs (staged A rec_log ds C I) (attempt (persist_journal A)) (\<lambda>_. staged A rec_log ds C I) E" for E
    by (rule runs_attempt [OF runs_persist [OF assms(1) I(1), of C]]) (simp_all add: I(2))
  have "runs (staged A rec_log ds C I) (finish_scalars A prepared J (ap, att, f)) (\<lambda>_. wal A rec_log ds) (\<lambda>_. wal A rec_log ds)"
    unfolding finish_scalars_def prod.case
    by (auto intro!: runs_abort_wal [OF assms(1-3) rb] throws degrades runs_bind [OF per] runs_ret staged_wal [OF _ I(1)]
        simp: I(2) split: option.splits prod.splits sum.splits)
  then show "runs (\<lambda>s. s = s0) (finish_scalars A prepared J (ap, att, f)) (\<lambda>_. wal A rec_log ds) (\<lambda>_. wal A rec_log ds)"
    by (rule runs_pre) (simp add: I(3))
qed

lemma runs_commit_scalars_wal:
  assumes "sound A" and "fits (ac_registry A) J" and "scalars_prepared A J prepared"
  shows "runs (staged A rec_log ds (claims_of J) J) (commit_scalars A prepared) (\<lambda>_. wal A rec_log ds) (\<lambda>_. wal A rec_log ds)"
proof -
  define J1 where "J1 = fold record_scalar_intent (filter ps_needs_journal prepared) (next_generation J)"
  have p: "\<forall>m \<in> set prepared. prepared_scalar_for (ac_registry A) m" using assms(3) by (simp add: scalars_prepared_def)
  have "fits (ac_registry A) (next_generation J)" using assms(2) by simp
  note rec = fits_record_scalar_intents [OF this, of "filter ps_needs_journal prepared", folded J1_def]
  have "intended_scalar J m \<Longrightarrow> intended_scalar (next_generation J) m" for m by (simp add: intended_scalar_def next_generation_def)
  then have J1: "fits (ac_registry A) J1" "claims_of J \<subseteq> claims_of J1" "\<forall>m \<in> set prepared. ps_needs_write m \<longrightarrow> intended_scalar J1 m"
    using rec assms(3) by (auto simp: scalars_prepared_def)
  have get: "runs (staged A rec_log ds (claims_of J) J) (get_act m_journal) (\<lambda>j s. j = J \<and> staged A rec_log ds (claims_of J) J s) E" for E
    by (rule runs_get) (simp add: staged_def)
  have upd: "runs (staged A rec_log ds (claims_of J) J) (upd_journal (\<lambda>j. fold record_scalar_intent (filter ps_needs_journal prepared) (next_generation j)))
      (\<lambda>_. staged A rec_log ds (claims_of J) J1) E" for E
    unfolding J1_def by (rule runs_upd_journal) (rule staged_journal)
  have per: "runs (staged A rec_log ds (claims_of J) J1) (attempt (persist_journal A))
      (\<lambda>r s. case r of Inr _ \<Rightarrow> writing_scalars A rec_log ds (claims_of J1) prepared s | Inl _ \<Rightarrow> staged A rec_log ds (claims_of J) J1 s) E" for E
    by (rule runs_attempt [OF runs_persist [OF assms(1) J1(1,2)]]) (use J1 in \<open>auto simp: writing_scalars_def\<close>)
  have undo: "runs (staged A rec_log ds (claims_of J) J1) (upd_journal (\<lambda>_. J)) (\<lambda>_. staged A rec_log ds (claims_of J) J) E" for E
    by (rule runs_upd_journal) (rule staged_journal)
  have fin: "runs (\<lambda>s. (case res of (ap, att, f) \<Rightarrow> \<forall>i \<in> set att. i < length prepared \<and> ps_needs_write (prepared ! i))
        \<and> writing_scalars A rec_log ds (claims_of J1) prepared s) (finish_scalars A prepared J res) (\<lambda>_. wal A rec_log ds) (\<lambda>_. wal A rec_log ds)" for res
    by (cases res, simp only: prod.case, rule runs_given) (rule runs_finish_scalars_wal [OF assms(1,2) J1(2) p])
  show ?thesis
    unfolding commit_scalars_def
    apply (rule runs_bind [OF get], rule runs_given, hypsubst)
    apply (rule runs_bind [OF upd], rule runs_bind [OF per])
    subgoal for _ _ r
      apply (cases r)
      subgoal by (auto intro!: runs_bind [OF undo] runs_degrade_wal dest: staged_ahead)
      subgoal
        apply simp
        apply (rule runs_bind [OF runs_write_scalar_batch [OF p]])
        apply (rule runs_pre [OF fin])
        apply (simp add: case_prod_unfold)
        done
      done
    done
qed

lemma runs_apply_scalars_wal:
  assumes "sound A"
  shows "runs (wal A rec_log ds) (apply_scalars A qs) (\<lambda>_. wal A rec_log ds) (\<lambda>_. wal A rec_log ds)"
proof -
  have prep: "runs (staged A rec_log ds C J) (gather (prepare_scalar A) ([], []) qs)
      (\<lambda>acc s. scalars_prepared A J (snd acc) \<and> staged A rec_log ds C J s) (\<lambda>_. staged A rec_log ds C J)" for C J
  proof -
    have "runs (\<lambda>s. scalars_prepared A J (snd acc) \<and> staged A rec_log ds C J s) (prepare_scalar A acc q)
        (\<lambda>acc s. scalars_prepared A J (snd acc) \<and> staged A rec_log ds C J s) (\<lambda>_. staged A rec_log ds C J)" for acc q
    proof (rule runs_given, rule runs_and)
      show "runs (staged A rec_log ds C J) (prepare_scalar A acc q) (\<lambda>_. staged A rec_log ds C J) (\<lambda>_. staged A rec_log ds C J)"
        by (rule runs_staged [OF guarded_prepare(3), of "{}"]) simp
      show "scalars_prepared A J (snd acc')" if "scalars_prepared A J (snd acc)" "staged A rec_log ds C J s" "prepare_scalar A acc q s = (Inr acc', t)" for s acc' t
        using prepare_scalar_ok [OF assms, of s acc q acc' t] that by (simp add: staged_def)
    qed
    note runs_gather [where I = "\<lambda>acc s. scalars_prepared A J (snd acc) \<and> staged A rec_log ds C J s" and b = "([], [])", OF this]
    then show ?thesis by (rule runs_pre) (simp add: scalars_prepared_def)
  qed
  have body: "runs (staged A rec_log ds (claims_of J) J)
     (if qs = [] then ret []
      else bind_act (gather (prepare_scalar A) ([], []) qs) (\<lambda>(_, prepared).
          if list_all (\<lambda>m. \<not> ps_needs_write m \<and> \<not> ps_needs_journal m) prepared
          then ret (bt_collect (map (\<lambda>m. (st_id (ps_target m), ps_before m)) prepared))
          else commit_scalars A prepared)) (\<lambda>_. wal A rec_log ds) (\<lambda>_. wal A rec_log ds)" if J: "fits (ac_registry A) J" for J
  proof -
    have "runs (staged A rec_log ds (claims_of J) J) (gather (prepare_scalar A) ([], []) qs)
        (\<lambda>acc s. scalars_prepared A J (snd acc) \<and> staged A rec_log ds (claims_of J) J s) (\<lambda>_. wal A rec_log ds)"
      by (rule runs_post [OF prep]) (auto intro: staged_wal J)
    then show ?thesis
      by (auto intro!: runs_ret staged_wal [OF _ J] runs_bind runs_given runs_commit_scalars_wal [OF assms J] split: prod.splits)
  qed
  show ?thesis
    unfolding apply_scalars_def
    by (rule runs_bind [OF runs_ready], rule runs_ex, rule runs_given, rule body)
qed

end

section \<open>Restorations\<close>

text \<open>A journal that fits and claims the paths \<open>C\<close>, which may be written.\<close>

definition restoring :: "'w actuator \<Rightarrow> ('w \<Rightarrow> event list) \<Rightarrow> string option list \<Rightarrow> path_buf set \<Rightarrow> 'w machine \<Rightarrow> bool" where
  "restoring A rec_log ds C s = (\<exists>J. staged A rec_log ds C J s \<and> fits (ac_registry A) J \<and> claims_of J = C)"

lemma restoring_guarded:
  "restoring A rec_log ds C s \<Longrightarrow> guarded rec_log P s t \<Longrightarrow> P \<subseteq> C \<Longrightarrow> restoring A rec_log ds C t"
  unfolding restoring_def using staged_guarded by blast

lemma restoring_ahead: "restoring A rec_log ds C s \<Longrightarrow> ahead (ac_codec A) ds (rec_log (w_env s))"
  by (auto simp: restoring_def staged_def)

lemma runs_restoring:
  assumes "stays (guarded rec_log P) m" and "P \<subseteq> C"
  shows "runs (restoring A rec_log ds C) m (\<lambda>_. restoring A rec_log ds C) (\<lambda>_. restoring A rec_log ds C)"
  by (rule runs_stays [OF assms(1)]) (rule restoring_guarded [OF _ _ assms(2)])

lemma restoring_upd:
  assumes "restoring A rec_log ds C s"
    and "\<And>J. fits (ac_registry A) J \<Longrightarrow> fits (ac_registry A) (f J) \<and> claims_of (f J) = claims_of J"
  shows "restoring A rec_log ds C (s\<lparr>m_journal := f (m_journal s)\<rparr>)"
  using assms(1) unfolding restoring_def
  by (elim exE conjE) (rule exI, intro conjI, erule staged_journal, use assms(2) in auto)

text \<open>What the restorations know of the entries they pick from the journal.\<close>

definition picked :: "'w actuator \<Rightarrow> path_buf set \<Rightarrow> journal_entry \<Rightarrow> bool" where
  "picked A C entry =
     (\<exists>t. registry_get (ac_registry A) (je_target entry) = Some t \<and> entry_of t entry \<and> target_paths_of t \<subseteq> C)"

definition picked_scalar :: "'w actuator \<Rightarrow> path_buf set \<Rightarrow> scalar_journal_entry \<Rightarrow> bool" where
  "picked_scalar A C entry =
     (\<exists>t. registry_get_scalar (ac_registry A) (sj_target entry) = Some t \<and> scalar_entry_of t entry \<and> st_path t \<in> C)"

lemma picked_entries:
  assumes "sound A" and "fits (ac_registry A) J"
  shows "entry \<in> set (List.map_filter (bt_get (jn_entries J)) ids) \<Longrightarrow> picked A (claims_of J) entry"
    and "f \<in> set (List.map_filter (bt_get (jn_scalars J)) ids) \<Longrightarrow> picked_scalar A (claims_of J) f"
proof -
  have reg: "registry_ok (ac_registry A)" using assms(1) by (simp add: sound_def)
  show "picked A (claims_of J) entry" if "entry \<in> set (List.map_filter (bt_get (jn_entries J)) ids)"
  proof -
    from that obtain k where k: "bt_get (jn_entries J) k = Some entry" by (auto simp: List.map_filter_def)
    from fitsD(1) [OF assms(2) k] obtain t where t: "registry_get (ac_registry A) k = Some t" "entry_of t entry" by blast
    from t(1) have "je_target entry = k" using t(2) registry_okD(1) [OF reg] by (auto simp: entry_of_def)
    with t claims_of_entry(1) [OF k] show ?thesis by (auto simp: picked_def target_paths_of_def entry_of_def)
  qed
  show "picked_scalar A (claims_of J) f" if "f \<in> set (List.map_filter (bt_get (jn_scalars J)) ids)"
  proof -
    from that obtain k where k: "bt_get (jn_scalars J) k = Some f" by (auto simp: List.map_filter_def)
    from fitsD(2) [OF assms(2) k] obtain t where t: "registry_get_scalar (ac_registry A) k = Some t" "scalar_entry_of t f" by blast
    from t(1) have "sj_target f = k" using t(2) registry_okD(2) [OF reg] by (auto simp: scalar_entry_of_def)
    with t claims_of_entry(2) [OF k] show ?thesis by (auto simp: picked_scalar_def scalar_entry_of_def)
  qed
qed

lemma restoring_intent:
  assumes "restoring A rec_log ds C s" and "sound A" and "picked A C entry"
  shows "restoring A rec_log ds C (s\<lparr>m_journal := (m_journal s)\<lparr>jn_entries := bt_get_mut (je_target entry)
     (transition (je_desired entry) (je_original entry)) (jn_entries (m_journal s))\<rparr>\<rparr>)"
proof (rule restoring_upd [OF assms(1)])
  fix J assume J: "fits (ac_registry A) J"
  from assms(3) obtain t where t: "registry_get (ac_registry A) (je_target entry) = Some t" "entry_of t entry" by (auto simp: picked_def)
  have "target_wf t" using assms(2) t(1) by (auto simp: sound_def dest: registry_okD(1))
  then have v: "validate_limits t (je_desired entry) = Inr ()" "validate_limits t (je_original entry) = Inr ()"
    using t(2) by (auto simp: entry_of_def hardware_limits_valid)
  have "fits (ac_registry A) (J\<lparr>jn_entries := bt_get_mut (je_target entry) (transition (je_desired entry) (je_original entry)) (jn_entries J)\<rparr>)"
    by (rule fits_mut_entry [OF J]) (use t(1) v in \<open>auto intro: transition_entry\<close>)
  moreover have "claims_of (J\<lparr>jn_entries := bt_get_mut (je_target entry) (transition (je_desired entry) (je_original entry)) (jn_entries J)\<rparr>) = claims_of J"
    by (rule claims_mut_entry) (simp add: transition_def)
  ultimately show "fits (ac_registry A) (J\<lparr>jn_entries := bt_get_mut (je_target entry) (transition (je_desired entry) (je_original entry)) (jn_entries J)\<rparr>)
    \<and> claims_of (J\<lparr>jn_entries := bt_get_mut (je_target entry) (transition (je_desired entry) (je_original entry)) (jn_entries J)\<rparr>) = claims_of J" ..
qed

lemma restoring_scalar_intent:
  assumes "restoring A rec_log ds C s" and "picked_scalar A C entry"
    and "registry_get_scalar (ac_registry A) (sj_target entry) = Some t" and "domain_accepts (st_domain t) current"
  shows "restoring A rec_log ds C (s\<lparr>m_journal := (m_journal s)\<lparr>jn_scalars := bt_get_mut (sj_target entry)
     (\<lambda>e. e\<lparr>sj_applied := current, sj_desired := sj_original entry\<rparr>) (jn_scalars (m_journal s))\<rparr>\<rparr>)"
proof (rule restoring_upd [OF assms(1)])
  fix J assume J: "fits (ac_registry A) J"
  have "domain_accepts (st_domain t) (sj_original entry)" using assms(2,3) by (auto simp: picked_scalar_def scalar_entry_of_def)
  then show "fits (ac_registry A) (J\<lparr>jn_scalars := bt_get_mut (sj_target entry) (\<lambda>e. e\<lparr>sj_applied := current, sj_desired := sj_original entry\<rparr>) (jn_scalars J)\<rparr>)
    \<and> claims_of (J\<lparr>jn_scalars := bt_get_mut (sj_target entry) (\<lambda>e. e\<lparr>sj_applied := current, sj_desired := sj_original entry\<rparr>) (jn_scalars J)\<rparr>) = claims_of J"
    using assms(3,4) by (intro conjI fits_mut_scalar [OF J] claims_mut_scalar) (auto simp: scalar_entry_of_def)
qed

context recorder
begin

lemma runs_plan_restore:
  assumes "sound A" and "picked A C entry"
  shows "runs (\<lambda>s. (\<forall>(e, t) \<in> set acc. target_paths_of t \<subseteq> C) \<and> restoring A rec_log ds C s) (plan_restore A acc entry)
    (\<lambda>acc s. (\<forall>(e, t) \<in> set acc. target_paths_of t \<subseteq> C) \<and> restoring A rec_log ds C s) (\<lambda>_. wal A rec_log ds)"
proof -
  have mark: "runs (restoring A rec_log ds C) (restore_intent entry) (\<lambda>_. restoring A rec_log ds C) (\<lambda>_. wal A rec_log ds)"
    unfolding restore_intent_def by (rule runs_upd_journal) (rule restoring_intent [OF _ assms])
  from assms(2) obtain t where t: "registry_get (ac_registry A) (je_target entry) = Some t" "target_paths_of t \<subseteq> C" by (auto simp: picked_def)
  show ?thesis
    unfolding plan_restore_def t(1) option.case
    by (rule runs_given) (use t(2) in \<open>auto intro!: runs_degrade_wal runs_bind [OF mark] runs_ret dest: restoring_ahead; blast\<close>)
qed

lemma runs_persist_or_degrade_wal:
  assumes "sound A"
  shows "runs (restoring A rec_log ds C) (persist_or_degrade A what) (\<lambda>_. restoring A rec_log ds C) (\<lambda>_. wal A rec_log ds)"
proof -
  have "runs (restoring A rec_log ds C) (attempt (persist_journal A)) (\<lambda>_. restoring A rec_log ds C) (\<lambda>_. wal A rec_log ds)"
  proof (rule runs_attempt, rule runs_at)
    fix s0 assume "restoring A rec_log ds C s0"
    then obtain J where J: "fits (ac_registry A) J" "claims_of J = C" "staged A rec_log ds C J s0" by (auto simp: restoring_def)
    have "runs (staged A rec_log ds C J) (persist_journal A) (\<lambda>_. restoring A rec_log ds C) (\<lambda>_. restoring A rec_log ds C)"
      by (rule runs_post [OF runs_persist [OF assms J(1)]]) (use J in \<open>auto simp: restoring_def\<close>)
    then show "runs (\<lambda>s. s = s0) (persist_journal A) (\<lambda>_. restoring A rec_log ds C) (\<lambda>_. restoring A rec_log ds C)"
      by (rule runs_pre) (simp add: J(3))
  qed auto
  then show ?thesis
    unfolding persist_or_degrade_def
    by (rule runs_bind) (auto intro!: runs_ret runs_degrade_wal dest: restoring_ahead split: sum.splits)
qed

lemma runs_when: "runs P m (\<lambda>_. P) E \<Longrightarrow> runs P (when_act b m) (\<lambda>_. P) E"
  by (simp add: when_act_def runs_ret)

lemma runs_restore_one_wal:
  assumes "target_paths_of t \<subseteq> C"
  shows "runs (restoring A rec_log ds C) (restore_one A what (entry, t)) (\<lambda>_. restoring A rec_log ds C) (\<lambda>_. wal A rec_log ds)"
proof -
  have "runs (restoring A rec_log ds C) (attempt (restore_frequency_request (ac_io A) (ac_clock A) t (je_original entry)))
      (\<lambda>_. restoring A rec_log ds C) (\<lambda>_. wal A rec_log ds)"
    by (rule runs_attempt [OF runs_restoring [OF guarded_requests(2) [OF assms] order_refl]])
  then show ?thesis
    unfolding restore_one_def prod.case
    by (rule runs_bind) (auto intro!: runs_ret runs_degrade_wal dest: restoring_ahead split: sum.splits)
qed

lemma runs_drop_and_persist:
  assumes "sound A" and "\<And>J. fits (ac_registry A) J \<Longrightarrow> fits (ac_registry A) (f J) \<and> claims_of (f J) \<subseteq> claims_of J"
  shows "runs (restoring A rec_log ds C) (bind_act (upd_journal f) (\<lambda>_. persist_or_remove_locked A op)) (\<lambda>_. wal A rec_log ds) (\<lambda>_. wal A rec_log ds)"
proof (rule runs_at)
  fix s0 assume "restoring A rec_log ds C s0"
  then obtain J where J: "fits (ac_registry A) J" "claims_of J = C" "staged A rec_log ds C J s0" by (auto simp: restoring_def)
  from assms(2) [OF J(1)] J(2) have f: "fits (ac_registry A) (f J)" "claims_of (f J) \<subseteq> C" by auto
  have upd: "runs (staged A rec_log ds C J) (upd_journal f) (\<lambda>_. staged A rec_log ds C (f J)) (\<lambda>_. wal A rec_log ds)"
    by (rule runs_upd_journal) (rule staged_journal)
  have "runs (staged A rec_log ds C (f J)) (persist_or_remove_locked A op) (\<lambda>_. wal A rec_log ds) (\<lambda>_. wal A rec_log ds)"
    by (rule runs_post [OF runs_persist_or_remove [OF assms(1) f]]) (auto intro: staged_wal f(1))
  then have "runs (staged A rec_log ds C J) (bind_act (upd_journal f) (\<lambda>_. persist_or_remove_locked A op)) (\<lambda>_. wal A rec_log ds) (\<lambda>_. wal A rec_log ds)"
    by (rule runs_bind [OF upd])
  then show "runs (\<lambda>s. s = s0) (bind_act (upd_journal f) (\<lambda>_. persist_or_remove_locked A op)) (\<lambda>_. wal A rec_log ds) (\<lambda>_. wal A rec_log ds)"
    by (rule runs_pre) (simp add: J(3))
qed

lemma runs_restore_targets_wal:
  assumes "sound A"
  shows "runs (wal A rec_log ds) (restore_targets A ids) (\<lambda>_. wal A rec_log ds) (\<lambda>_. wal A rec_log ds)"
proof -
  let ?drop = "\<lambda>entries j. next_generation (j\<lparr>jn_entries := fold (\<lambda>e. bt_remove (je_target e)) entries (jn_entries j)\<rparr>)"
  have pick: "runs (staged A rec_log ds (claims_of J) J) (get_act (\<lambda>s. List.map_filter (bt_get (jn_entries (m_journal s))) ids))
      (\<lambda>entries s. (\<forall>e \<in> set entries. picked A (claims_of J) e) \<and> restoring A rec_log ds (claims_of J) s) (\<lambda>_. wal A rec_log ds)"
    if "fits (ac_registry A) J" for J
    using that by (intro runs_get) (auto simp: staged_def restoring_def intro: picked_entries(1) [OF assms])
  have plan: "runs (restoring A rec_log ds C) (gather (plan_restore A) [] entries)
      (\<lambda>acc s. (\<forall>(e, t) \<in> set acc. target_paths_of t \<subseteq> C) \<and> restoring A rec_log ds C s) (\<lambda>_. wal A rec_log ds)"
    if "\<forall>e \<in> set entries. picked A C e" for C entries
    by (rule runs_pre [OF runs_gather [where I = "\<lambda>acc s. (\<forall>(e, t) \<in> set acc. target_paths_of t \<subseteq> C) \<and> restoring A rec_log ds C s"]])
      (use that in \<open>auto intro: runs_plan_restore [OF assms]\<close>)
  have ones: "runs (restoring A rec_log ds C) (each (restore_one A what) acc) (\<lambda>_. restoring A rec_log ds C) (\<lambda>_. wal A rec_log ds)"
    if "\<forall>(e, t) \<in> set acc. target_paths_of t \<subseteq> C" for C acc what
    by (rule runs_each) (use that in \<open>auto intro: runs_restore_one_wal\<close>)
  have drop: "fits (ac_registry A) (?drop es J) \<and> claims_of (?drop es J) \<subseteq> claims_of J" if "fits (ac_registry A) J" for es J
    using fits_drop_entries [OF that, of es] by simp
  show ?thesis
    unfolding restore_targets_def
    apply (rule runs_bind [OF runs_ready], rule runs_ex, rule runs_given)
    apply (rule runs_bind [OF pick], assumption, rule runs_given)
    apply (rule runs_bind [OF plan], assumption, rule runs_given)
    apply (rule runs_bind [OF runs_when [OF runs_persist_or_degrade_wal [OF assms]]])
    apply (rule runs_bind [OF ones], assumption)
    apply (rule runs_drop_and_persist [OF assms drop], assumption)
    done
qed

lemma runs_plan_scalar_restore:
  assumes "picked_scalar A C entry"
  shows "runs (\<lambda>s. (\<forall>(e, t, n) \<in> set acc. st_path t \<in> C) \<and> restoring A rec_log ds C s) (plan_scalar_restore A acc entry)
    (\<lambda>acc s. (\<forall>(e, t, n) \<in> set acc. st_path t \<in> C) \<and> restoring A rec_log ds C s) (\<lambda>_. wal A rec_log ds)"
proof -
  from assms obtain t where t: "registry_get_scalar (ac_registry A) (sj_target entry) = Some t" "st_path t \<in> C" by (auto simp: picked_scalar_def)
  have mark: "runs (restoring A rec_log ds C) (scalar_restore_intent entry current) (\<lambda>_. restoring A rec_log ds C) (\<lambda>_. wal A rec_log ds)"
    if "domain_accepts (st_domain t) current" for current
    unfolding scalar_restore_intent_def
    by (intro runs_when runs_upd_journal) (rule restoring_scalar_intent [OF _ assms t(1) that])
  have rd: "runs (restoring A rec_log ds C) (attempt (read_scalar (ac_io A) t))
      (\<lambda>r s. (\<forall>v. r = Inr v \<longrightarrow> domain_accepts (st_domain t) v) \<and> restoring A rec_log ds C s) (\<lambda>_. wal A rec_log ds)"
    by (rule runs_attempt [OF runs_and [OF runs_restoring [OF guarded_reads(2), of "{}"], where R = "domain_accepts (st_domain t)"]])
      (auto dest: read_scalar_accepts)
  have rest: "runs (\<lambda>s. (\<forall>v. r = Inr v \<longrightarrow> domain_accepts (st_domain t) v) \<and> restoring A rec_log ds C s)
     (case r of Inl error \<Rightarrow> degrade_locked (MFmt ''cannot read scalar target {} during restore: {error}'' [MStr (sj_target entry), error_message error])
      | Inr current \<Rightarrow> bind_act (scalar_restore_intent entry current) (\<lambda>_. ret (acc @ [(entry, t, scalar_restore_needed entry current)])))
     (\<lambda>acc s. (\<forall>(e, t, n) \<in> set acc. st_path t \<in> C) \<and> restoring A rec_log ds C s) (\<lambda>_. wal A rec_log ds)"
    if "\<forall>(e, t, n) \<in> set acc. st_path t \<in> C" for r
    by (rule runs_given)
      (use that t(2) in \<open>auto intro!: runs_degrade_wal runs_bind [OF mark] runs_ret dest: restoring_ahead split: sum.splits\<close>)
  show ?thesis
    unfolding plan_scalar_restore_def t(1) option.case
    by (rule runs_given) (auto intro!: runs_degrade_wal runs_bind [OF rd] rest dest: restoring_ahead)
qed

lemma runs_restore_scalars_wal:
  assumes "sound A"
  shows "runs (wal A rec_log ds) (restore_scalars A ids) (\<lambda>_. wal A rec_log ds) (\<lambda>_. wal A rec_log ds)"
proof -
  let ?drop = "\<lambda>entries j. next_generation (j\<lparr>jn_scalars := fold (\<lambda>e. bt_remove (sj_target e)) entries (jn_scalars j)\<rparr>)"
  let ?one = "\<lambda>(entry, target, needs_write). when_act needs_write
         (bind_act (attempt (write_scalar (ac_io A) target (sj_original entry))) (\<lambda>result.
          case result of
            Inl error \<Rightarrow> degrade_locked (MFmt ''scalar restore failed for {}: {error}'' [MStr (sj_target entry), error_message error])
          | Inr _ \<Rightarrow> ret ()))"
  have pick: "runs (staged A rec_log ds (claims_of J) J) (get_act (\<lambda>s. List.map_filter (bt_get (jn_scalars (m_journal s))) ids))
      (\<lambda>entries s. (\<forall>e \<in> set entries. picked_scalar A (claims_of J) e) \<and> restoring A rec_log ds (claims_of J) s) (\<lambda>_. wal A rec_log ds)"
    if "fits (ac_registry A) J" for J
    using that by (intro runs_get) (auto simp: staged_def restoring_def intro: picked_entries(2) [OF assms])
  have plan: "runs (restoring A rec_log ds C) (gather (plan_scalar_restore A) [] entries)
      (\<lambda>acc s. (\<forall>(e, t, n) \<in> set acc. st_path t \<in> C) \<and> restoring A rec_log ds C s) (\<lambda>_. wal A rec_log ds)"
    if "\<forall>e \<in> set entries. picked_scalar A C e" for C entries
    by (rule runs_pre [OF runs_gather [where I = "\<lambda>acc s. (\<forall>(e, t, n) \<in> set acc. st_path t \<in> C) \<and> restoring A rec_log ds C s"]])
      (use that in \<open>auto intro: runs_plan_scalar_restore\<close>)
  have one: "runs (restoring A rec_log ds C) (?one (e, t, n)) (\<lambda>_. restoring A rec_log ds C) (\<lambda>_. wal A rec_log ds)"
    if "st_path t \<in> C" for C e t n
  proof -
    have "runs (restoring A rec_log ds C) (attempt (write_scalar (ac_io A) t (sj_original e))) (\<lambda>_. restoring A rec_log ds C) (\<lambda>_. wal A rec_log ds)"
      by (rule runs_attempt [OF runs_restoring [OF guarded_write_scalar [OF that] order_refl]])
    then show ?thesis unfolding prod.case
      by (intro runs_when) (rule runs_bind, auto intro!: runs_ret runs_degrade_wal dest: restoring_ahead split: sum.splits)
  qed
  have ones: "runs (restoring A rec_log ds C) (each ?one acc) (\<lambda>_. restoring A rec_log ds C) (\<lambda>_. wal A rec_log ds)"
    if "\<forall>(e, t, n) \<in> set acc. st_path t \<in> C" for C acc
    by (rule runs_each) (use that in \<open>auto intro!: one [unfolded prod.case]\<close>)
  have drop: "fits (ac_registry A) (?drop es J) \<and> claims_of (?drop es J) \<subseteq> claims_of J" if "fits (ac_registry A) J" for es J
    using fits_drop_scalars [OF that, of es] by simp
  show ?thesis
    unfolding restore_scalars_def
    apply (rule runs_bind [OF runs_ready], rule runs_ex, rule runs_given)
    apply (rule runs_bind [OF pick], assumption, rule runs_given)
    apply (rule runs_bind [OF plan], assumption, rule runs_given)
    apply (rule runs_bind [OF runs_when [OF runs_persist_or_degrade_wal [OF assms]]])
    apply (rule runs_bind [OF ones], assumption)
    apply (rule runs_drop_and_persist [OF assms drop], assumption)
    done
qed

end

end
