(* ===== verification/Write_Ahead_Recovery.thy ===== *)
theory Write_Ahead_Recovery
  imports Write_Ahead_Methods
begin

text \<open>
  Recovery keeps the journal ahead of the kernel too, from the journal found at startup to the moment it
  is removed; with the other methods this gives the property of every run of the actuator that starts
  with construction.
\<close>

section \<open>A journal that was decoded\<close>

text \<open>The maps of a decoded journal are \<open>BTreeMap\<close>s, whatever the order of the keys in the text.\<close>

definition codec_ordered :: "journal_codec \<Rightarrow> bool" where
  "codec_ordered cd = (\<forall>b j. journal_from_slice cd b = Inr j \<longrightarrow> bt_wf (jn_entries j) \<and> bt_wf (jn_scalars j))"

text \<open>What recovery makes of the journal it found: the same claims by the same targets.\<close>

definition evolved :: "journal \<Rightarrow> journal \<Rightarrow> bool" where
  "evolved J0 J =
     (journal_ok J \<and> bt_wf (jn_entries J) \<and> bt_wf (jn_scalars J) \<and> claims_of J = claims_of J0
      \<and> jn_tasks J = [] \<and> jn_units J = []
      \<and> (\<forall>k. map_option je_resource_manifest (bt_get (jn_entries J) k) = map_option je_resource_manifest (bt_get (jn_entries J0) k))
      \<and> (\<forall>k. map_option sj_manifest (bt_get (jn_scalars J) k) = map_option sj_manifest (bt_get (jn_scalars J0) k)))"

lemma evolved_refl:
  "journal_ok J \<Longrightarrow> bt_wf (jn_entries J) \<Longrightarrow> bt_wf (jn_scalars J) \<Longrightarrow> jn_tasks J = [] \<Longrightarrow> jn_units J = [] \<Longrightarrow> evolved J J"
  by (simp add: evolved_def)

lemma list_all_get_mut:
  "list_all (\<lambda>(k, e). P k e) m \<Longrightarrow> (\<And>e. (k, e) \<in> set m \<Longrightarrow> P k e \<Longrightarrow> P k (f e)) \<Longrightarrow> list_all (\<lambda>(k, e). P k e) (bt_get_mut k f m)"
  by (induction m) (auto simp: bt_get_mut_def)

lemma evolved_entry:
  assumes "evolved J0 J"
    and "\<And>e. bt_get (jn_entries J) k = Some e \<Longrightarrow> entry_ok k e \<Longrightarrow> entry_ok k (f e)"
    and "\<And>e. je_min_path (f e) = je_min_path e \<and> je_max_path (f e) = je_max_path e \<and> je_resource_manifest (f e) = je_resource_manifest e"
  shows "evolved J0 (J\<lparr>jn_entries := bt_get_mut k f (jn_entries J)\<rparr>)"
proof -
  let ?J = "J\<lparr>jn_entries := bt_get_mut k f (jn_entries J)\<rparr>"
  have "entry_paths (bt_get_mut k f m) = entry_paths m" for m
    using assms(3) by (induction m) (auto simp: entry_paths_def bt_get_mut_def)
  moreover have "list_all (\<lambda>(k, e). entry_ok k e) (bt_get_mut k f (jn_entries J))"
    using assms(1) by (intro list_all_get_mut assms(2)) (auto simp: evolved_def journal_ok_def intro: bt_wf_mem_get)
  moreover have "bt_contains (bt_get_mut k f (jn_entries J)) l = bt_contains (jn_entries J) l" for l
    by (simp add: bt_contains_def bt_get_get_mut)
  ultimately have "journal_ok ?J" using assms(1) by (simp add: journal_ok_def evolved_def)
  moreover have "claims_of ?J = claims_of J" by (rule claims_mut_entry) (simp add: assms(3))
  moreover have "map_option je_resource_manifest (bt_get (bt_get_mut k f (jn_entries J)) l)
      = map_option je_resource_manifest (bt_get (jn_entries J) l)" for l
    using assms(3) by (simp add: bt_get_get_mut option.map_comp comp_def)
  ultimately show ?thesis using assms(1) by (simp add: evolved_def bt_wf_get_mut)
qed

lemma evolved_scalar:
  assumes "evolved J0 J"
    and "\<And>e. bt_get (jn_scalars J) k = Some e \<Longrightarrow> scalar_entry_ok k e \<Longrightarrow> scalar_entry_ok k (f e)"
    and "\<And>e. sj_path (f e) = sj_path e \<and> sj_manifest (f e) = sj_manifest e"
  shows "evolved J0 (J\<lparr>jn_scalars := bt_get_mut k f (jn_scalars J)\<rparr>)"
proof -
  let ?J = "J\<lparr>jn_scalars := bt_get_mut k f (jn_scalars J)\<rparr>"
  have "scalar_paths (bt_get_mut k f m) = scalar_paths m" for m
    using assms(3) by (induction m) (auto simp: scalar_paths_def bt_get_mut_def)
  moreover have "list_all (\<lambda>(k, e). scalar_entry_ok k e \<and> \<not> bt_contains (jn_entries J) k) (bt_get_mut k f (jn_scalars J))"
    using assms(1) by (intro list_all_get_mut conjI assms(2)) (auto simp: evolved_def journal_ok_def intro: bt_wf_mem_get)
  ultimately have "journal_ok ?J" using assms(1) by (simp add: journal_ok_def evolved_def)
  moreover have "claims_of ?J = claims_of J" by (rule claims_mut_scalar) (simp add: assms(3))
  moreover have "map_option sj_manifest (bt_get (bt_get_mut k f (jn_scalars J)) l) = map_option sj_manifest (bt_get (jn_scalars J) l)" for l
    using assms(3) by (simp add: bt_get_get_mut option.map_comp comp_def)
  ultimately show ?thesis using assms(1) by (simp add: evolved_def bt_wf_get_mut)
qed

lemma recovery_manifest_inj: "recovery_manifest t = recovery_manifest u \<Longrightarrow> t = u"
  by (cases t; cases u) (simp add: recovery_manifest_def)

lemma scalar_manifest_inj: "scalar_recovery_manifest t = scalar_recovery_manifest u \<Longrightarrow> t = u"
  by (cases t; cases u) (simp add: scalar_recovery_manifest_def)

lemma evolved_intent:
  assumes "evolved J0 J" and "bt_get (jn_entries J0) (je_target entry) = Some entry" and "entry_ok (je_target entry) entry"
  shows "evolved J0 (J\<lparr>jn_entries := bt_get_mut (je_target entry) (transition (je_desired entry) (je_original entry)) (jn_entries J)\<rparr>)"
proof (rule evolved_entry [OF assms(1)])
  fix e assume e: "bt_get (jn_entries J) (je_target entry) = Some e" and ok: "entry_ok (je_target entry) e"
  have "je_resource_manifest e = je_resource_manifest entry"
    using assms(1) e assms(2) unfolding evolved_def by (metis option.map(2) option.inject)
  with ok assms(3) obtain t where t: "target_wf t" "entry_of t e" "ft_id t = je_target entry" "validate_limits t (je_desired entry) = Inr ()"
      "je_original entry = target_hardware_limits t"
    unfolding entry_ok_def entry_of_def by (metis recovery_manifest_inj resource_manifest.inject(1))
  then have v: "validate_limits t (je_original entry) = Inr ()" by (simp add: hardware_limits_valid)
  show "entry_ok (je_target entry) (transition (je_desired entry) (je_original entry) e)"
    unfolding entry_ok_def using t v
    by (intro exI [of _ t]) (auto simp: transition_def entry_of_def)
qed (simp add: transition_def)

lemma evolved_scalar_intent:
  assumes "evolved J0 J" and "bt_get (jn_scalars J0) (sj_target entry) = Some entry" and "scalar_entry_ok (sj_target entry) entry"
    and "recovery_scalar_manifest entry = Some (scalar_recovery_manifest t)" and "domain_accepts (st_domain t) current"
  shows "evolved J0 (J\<lparr>jn_scalars := bt_get_mut (sj_target entry) (\<lambda>e. e\<lparr>sj_applied := current, sj_desired := sj_original entry\<rparr>) (jn_scalars J)\<rparr>)"
proof (rule evolved_scalar [OF assms(1)])
  fix e assume e: "bt_get (jn_scalars J) (sj_target entry) = Some e" and ok: "scalar_entry_ok (sj_target entry) e"
  have "sj_manifest e = sj_manifest entry"
    using assms(1) e assms(2) unfolding evolved_def by (metis option.map(2) option.inject)
  moreover have m: "sj_manifest entry = ScalarManifest (scalar_recovery_manifest t)"
    using assms(4) by (auto simp: recovery_scalar_manifest_def split: resource_manifest.splits)
  ultimately have "scalar_target_wf t" "st_id t = sj_target entry" "sj_target e = sj_target entry" "sj_path e = st_path t"
      "domain_accepts (st_domain t) (sj_original e)" "sj_manifest e = ScalarManifest (scalar_recovery_manifest t)"
    using ok unfolding scalar_entry_ok_def by (metis scalar_manifest_inj resource_manifest.inject(2))+
  moreover have "domain_accepts (st_domain t) (sj_original entry)"
    using assms(3) m unfolding scalar_entry_ok_def by (metis scalar_manifest_inj resource_manifest.inject(2))
  ultimately show "scalar_entry_ok (sj_target entry) (e\<lparr>sj_applied := current, sj_desired := sj_original entry\<rparr>)"
    unfolding scalar_entry_ok_def using assms(5) by (intro exI [of _ t]) simp
qed simp

section \<open>Recovery\<close>

definition recovering :: "'w actuator \<Rightarrow> ('w \<Rightarrow> event list) \<Rightarrow> string option list \<Rightarrow> journal \<Rightarrow> 'w machine \<Rightarrow> bool" where
  "recovering A rec_log ds J0 s = (covered_log A rec_log ds (claims_of J0) s \<and> evolved J0 (m_journal s))"

lemma recovering_ahead: "recovering A rec_log ds J0 s \<Longrightarrow> ahead (ac_codec A) ds (rec_log (w_env s))"
  by (simp add: recovering_def covered_log_def)

lemma recovering_guarded:
  assumes "recovering A rec_log ds J0 s" and "guarded rec_log P s t" and "P \<subseteq> claims_of J0"
  shows "recovering A rec_log ds J0 t"
proof -
  have "covered_log A rec_log ds (claims_of J0) t"
    using assms by (fastforce simp: recovering_def covered_log_def guarded_def ahead_append ahead_writes on_disk_append list_all_iff)
  with assms(1,2) show ?thesis by (auto simp: recovering_def guarded_def io_only_def)
qed

lemma runs_recovering:
  assumes "stays (guarded rec_log P) m" and "P \<subseteq> claims_of J0"
  shows "runs (recovering A rec_log ds J0) m (\<lambda>_. recovering A rec_log ds J0) (\<lambda>_. recovering A rec_log ds J0)"
  by (rule runs_stays [OF assms(1)]) (rule recovering_guarded [OF _ _ assms(2)])

lemma recovering_rebase: "recovering A rec_log ds J0 s \<Longrightarrow> recovering A rec_log ds (m_journal s) s"
  by (simp add: recovering_def evolved_def)

lemma recovering_upd:
  "recovering A rec_log ds J0 s \<Longrightarrow> (\<And>J. evolved J0 J \<Longrightarrow> evolved J0 (f J)) \<Longrightarrow> recovering A rec_log ds J0 (s\<lparr>m_journal := f (m_journal s)\<rparr>)"
  by (simp add: recovering_def covered_log_def)

text \<open>The entries of a journal the decoder accepted, as the loops of recovery meet them.\<close>

lemma journal_ok_entries:
  assumes "evolved J0 J0" and "entry \<in> set (bt_values (jn_entries J0))"
  shows "bt_get (jn_entries J0) (je_target entry) = Some entry \<and> entry_ok (je_target entry) entry"
proof -
  from assms(2) obtain k where k: "(k, entry) \<in> set (jn_entries J0)" by (auto simp: bt_values_def)
  with assms(1) have ok: "entry_ok k entry" by (auto simp: evolved_def journal_ok_def list_all_iff)
  then have "je_target entry = k" by (auto simp: entry_ok_def)
  with ok k assms(1) show ?thesis by (auto simp: evolved_def intro: bt_wf_mem_get)
qed

lemma journal_ok_scalars:
  assumes "evolved J0 J0" and "entry \<in> set (bt_values (jn_scalars J0))"
  shows "bt_get (jn_scalars J0) (sj_target entry) = Some entry \<and> scalar_entry_ok (sj_target entry) entry"
proof -
  from assms(2) obtain k where k: "(k, entry) \<in> set (jn_scalars J0)" by (auto simp: bt_values_def)
  with assms(1) have ok: "scalar_entry_ok k entry" by (auto simp: evolved_def journal_ok_def list_all_iff)
  then have "sj_target entry = k" by (auto simp: scalar_entry_ok_def)
  with ok k assms(1) show ?thesis by (auto simp: evolved_def intro: bt_wf_mem_get)
qed

context recorder
begin

lemma runs_plan_recovery_wal:
  assumes "evolved J0 J0" and "entry \<in> set (bt_values (jn_entries J0))"
  shows "runs (\<lambda>s. (\<forall>(e, t) \<in> set acc. target_paths_of t \<subseteq> claims_of J0) \<and> recovering A rec_log ds J0 s) (plan_recovery A acc entry)
    (\<lambda>acc s. (\<forall>(e, t) \<in> set acc. target_paths_of t \<subseteq> claims_of J0) \<and> recovering A rec_log ds J0 s) (\<lambda>_. wal A rec_log ds)"
proof -
  note entry = journal_ok_entries [OF assms]
  have mark: "runs (recovering A rec_log ds J0) (restore_intent entry) (\<lambda>_. recovering A rec_log ds J0) (\<lambda>_. wal A rec_log ds)"
    unfolding restore_intent_def
    by (intro runs_upd_journal recovering_upd) (auto intro: evolved_intent entry [THEN conjunct1] entry [THEN conjunct2])
  have paths: "{je_min_path entry, je_max_path entry} \<subseteq> claims_of J0" using claims_of_entry(1) entry by blast
  show ?thesis
    unfolding plan_recovery_def
    by (rule runs_given)
      (use paths in \<open>auto simp: target_paths_of_def intro!: runs_degrade_wal runs_bind [OF mark] runs_ret dest: recovering_ahead split: option.splits\<close>)
qed

lemma runs_persist_recovering:
  assumes "codec_round_trips (ac_codec A)"
  shows "runs (recovering A rec_log ds J0) (persist_journal A) (\<lambda>_. recovering A rec_log ds J0) (\<lambda>_. recovering A rec_log ds J0)"
proof -
  have "recovering A rec_log ds J0 t" if s: "recovering A rec_log ds J0 s" and r: "persist_journal A s = (r, t)" for s r t
  proof -
    from s have "journal_ok (m_journal s)" "claims_of (m_journal s) = claims_of J0" "covered_log A rec_log ds (claims_of J0) s"
      by (auto simp: recovering_def evolved_def)
    from persist_covered [OF assms this(1) _ this(3) r] this(2)
    have "covered_log A rec_log ds (claims_of J0) t" and t: "t = s\<lparr>w_env := w_env t\<rparr>" by (auto split: if_splits)
    moreover have "m_journal t = m_journal s" by (subst t) simp
    ultimately show ?thesis using s by (simp add: recovering_def)
  qed
  then show ?thesis by (auto intro: runsI)
qed

lemma runs_recover_frequencies:
  assumes "codec_round_trips (ac_codec A)" and "evolved J0 J0" and "set entries \<subseteq> set (bt_values (jn_entries J0))"
    and "runs (recovering A rec_log ds J0) rest (\<lambda>_. wal A rec_log ds) (\<lambda>_. wal A rec_log ds)"
  shows "runs (recovering A rec_log ds J0)
     (bind_act (gather (plan_recovery A) [] entries) (\<lambda>frequency_recovery.
      bind_act (when_act (frequency_recovery \<noteq> []) (persist_or_degrade A what)) (\<lambda>_.
      bind_act (each (restore_one A what') frequency_recovery) (\<lambda>_. rest))))
     (\<lambda>_. wal A rec_log ds) (\<lambda>_. wal A rec_log ds)"
proof -
  let ?R = "recovering A rec_log ds J0" and ?W = "\<lambda>_. wal A rec_log ds"
  let ?I = "\<lambda>acc s. (\<forall>(e, t) \<in> set acc. target_paths_of t \<subseteq> claims_of J0) \<and> ?R s"
  have plan: "runs ?R (gather (plan_recovery A) [] entries) ?I ?W"
    by (rule runs_pre [OF runs_gather [where I = ?I]])
      (use assms(3) in \<open>auto intro: runs_plan_recovery_wal [OF assms(2)]\<close>)
  have "runs ?R (attempt (persist_journal A)) (\<lambda>_. ?R) ?W"
    by (rule runs_attempt [OF runs_persist_recovering [OF assms(1)]])
  then have per: "runs ?R (persist_or_degrade A what) (\<lambda>_. ?R) ?W"
    unfolding persist_or_degrade_def
    by (rule runs_bind) (auto intro!: runs_ret runs_degrade_wal dest: recovering_ahead split: sum.splits)
  have one: "runs ?R (restore_one A what' (e, t)) (\<lambda>_. ?R) ?W" if "target_paths_of t \<subseteq> claims_of J0" for e t
  proof -
    have "runs ?R (attempt (restore_frequency_request (ac_io A) (ac_clock A) t (je_original e))) (\<lambda>_. ?R) ?W"
      by (rule runs_attempt [OF runs_recovering [OF guarded_requests(2) [OF that] order_refl]])
    then show ?thesis
      unfolding restore_one_def prod.case
      by (rule runs_bind) (auto intro!: runs_ret runs_degrade_wal dest: recovering_ahead split: sum.splits)
  qed
  have ones: "runs ?R (each (restore_one A what') acc) (\<lambda>_. ?R) ?W" if "\<forall>(e, t) \<in> set acc. target_paths_of t \<subseteq> claims_of J0" for acc
    by (rule runs_each) (use that in \<open>auto intro: one\<close>)
  show ?thesis
    by (rule runs_bind [OF plan], rule runs_given, rule runs_bind [OF runs_when [OF per]], rule runs_bind [OF ones], assumption, rule assms(4))
qed

lemma runs_recover_scalars_wal:
  assumes "codec_round_trips (ac_codec A)" and "evolved J0 J0"
  shows "runs (\<lambda>s. m_journal s = J0 \<and> recovering A rec_log ds J0 s) (recover_scalars_locked A)
    (\<lambda>_. recovering A rec_log ds J0) (\<lambda>_. recovering A rec_log ds J0)"
proof -
  let ?R = "recovering A rec_log ds J0" and ?I = "\<lambda>acc s. (\<forall>(e, t, n) \<in> set acc. st_path t \<in> claims_of J0) \<and> recovering A rec_log ds J0 s"
  let ?ws = "\<lambda>(entry, target, needs_write). when_act needs_write
         (bind_act (write_scalar (ac_io A) target (sj_original entry)) (\<lambda>_. ret ()))"
  have mark: "runs ?R (scalar_restore_intent entry current) (\<lambda>_. ?R) (\<lambda>_. ?R)"
    if "entry \<in> set (bt_values (jn_scalars J0))" "\<not> scalar_identity_changed entry t" "domain_accepts (st_domain t) current" for entry t current
    unfolding scalar_restore_intent_def using journal_ok_scalars [OF assms(2) that(1)] that(2,3)
    by (intro runs_when runs_upd_journal recovering_upd) (auto simp: scalar_identity_changed_def intro: evolved_scalar_intent)
  have rd: "runs ?R (read_scalar (ac_io A) t) (\<lambda>v s. domain_accepts (st_domain t) v \<and> ?R s) (\<lambda>_. ?R)" for t
    by (rule runs_and [OF runs_recovering [OF guarded_reads(2), of "{}"]]) (auto dest: read_scalar_accepts)
  have plan: "runs (?I acc) (plan_scalar_recovery A acc entry) ?I (\<lambda>_. ?R)" if entry: "entry \<in> set (bt_values (jn_scalars J0))" for acc entry
  proof (rule runs_given)
    assume acc: "\<forall>(e, t, n) \<in> set acc. st_path t \<in> claims_of J0"
    have path: "st_path t \<in> claims_of J0" if "\<not> scalar_identity_changed entry t" for t
      using that claims_of_entry(2) [OF journal_ok_scalars [OF assms(2) entry, THEN conjunct1]] by (simp add: scalar_identity_changed_def)
    have fin: "runs (\<lambda>s. domain_accepts (st_domain t) v \<and> ?R s)
        (bind_act (scalar_restore_intent entry v) (\<lambda>_. ret (acc @ [(entry, t, scalar_restore_needed entry v)]))) ?I (\<lambda>_. ?R)"
      if "\<not> scalar_identity_changed entry t" for t v
      by (rule runs_given) (use acc path [OF that] in \<open>auto intro!: runs_bind [OF mark [OF entry that]] runs_ret\<close>)
    show "runs ?R (plan_scalar_recovery A acc entry) ?I (\<lambda>_. ?R)"
      unfolding plan_scalar_recovery_def
      by (rule runs_bind [where Q = "\<lambda>_. ?R"])
        (auto intro!: runs_of_result runs_throw runs_bind [OF rd] fin)
  qed
  have plans: "runs ?R (gather (plan_scalar_recovery A) [] entries) ?I (\<lambda>_. ?R)" if "set entries \<subseteq> set (bt_values (jn_scalars J0))" for entries
    by (rule runs_pre [OF runs_gather [where I = ?I]]) (use that in \<open>auto intro: plan\<close>)
  have ones: "runs ?R (each ?ws acc) (\<lambda>_. ?R) (\<lambda>_. ?R)" if acc: "\<forall>(e, t, n) \<in> set acc. st_path t \<in> claims_of J0" for acc
  proof (rule runs_each)
    fix x assume "x \<in> set acc"
    then obtain e t n where x: "x = (e, t, n)" "st_path t \<in> claims_of J0" using acc by (cases x) auto
    have "runs ?R (bind_act (write_scalar (ac_io A) t (sj_original e)) (\<lambda>_. ret ())) (\<lambda>_. ?R) (\<lambda>_. ?R)"
      by (rule runs_bind [OF runs_recovering [OF guarded_write_scalar [OF x(2)] order_refl]]) (rule runs_ret)
    then show "runs ?R (?ws x) (\<lambda>_. ?R) (\<lambda>_. ?R)" unfolding x(1) prod.case by (rule runs_when)
  qed
  have body: "runs ?R (if entries = [] then ret () else bind_act (gather (plan_scalar_recovery A) [] entries) (\<lambda>restoration.
       bind_act (when_act (list_ex (\<lambda>(_, _, needs_write). needs_write) restoration) (persist_journal A)) (\<lambda>_. each ?ws restoration)))
       (\<lambda>_. ?R) (\<lambda>_. ?R)" if "set entries \<subseteq> set (bt_values (jn_scalars J0))" for entries
    by (auto intro!: runs_ret runs_bind [OF plans [OF that]] runs_given runs_bind [OF runs_when [OF runs_persist_recovering [OF assms(1)]]] ones)
  have get: "runs (\<lambda>s. m_journal s = J0 \<and> ?R s) (get_act (\<lambda>s. bt_values (jn_scalars (m_journal s))))
      (\<lambda>es s. es = bt_values (jn_scalars J0) \<and> ?R s) (\<lambda>_. ?R)"
    by (rule runs_get) simp
  show ?thesis
    unfolding recover_scalars_locked_def
    by (rule runs_bind [OF get], rule runs_given, rule body) simp
qed

lemma runs_complete_recovery_wal:
  "runs (recovering A rec_log ds J0) (complete_recovery A) (\<lambda>_. wal A rec_log ds) (\<lambda>_. wal A rec_log ds)"
proof -
  let ?E = "\<lambda>s. covered_log A rec_log ds {} s \<and> fixed_part (m_journal s)"
  have "runs (recovering A rec_log ds J0) (attempt (call (remove_durable (ac_store A)))) (\<lambda>_. ?E) (\<lambda>_. wal A rec_log ds)"
  proof (rule runs_attempt [where Q = "\<lambda>_. ?E" and E = "\<lambda>_. ?E"], rule runsI)
    fix s r t assume s: "recovering A rec_log ds J0 s"
    have "?E (snd (call (remove_durable (ac_store A)) s))"
      using s remove_log [of "w_env s"]
      by (auto simp: recovering_def evolved_def journal_ok_def fixed_part_def covered_log_def call_def ahead_append on_disk_append
          on_disk_def list_all_iff split: prod.splits)
    then show "call (remove_durable (ac_store A)) s = (Inr r, t) \<Longrightarrow> ?E t" "call (remove_durable (ac_store A)) s = (Inl e, t) \<Longrightarrow> ?E t" for e
      by simp_all
  qed auto
  then have rm: "runs (recovering A rec_log ds J0) (remove_or_degrade A what) (\<lambda>_. ?E) (\<lambda>_. wal A rec_log ds)" for what
    unfolding remove_or_degrade_def
    by (rule runs_bind) (auto simp: covered_log_def intro!: runs_ret runs_degrade_wal split: sum.splits)
  show ?thesis
    unfolding complete_recovery_def
    by (rule runs_bind [OF rm], rule runs_modify)
      (auto simp: wal_def covered_log_def fits_but_def fixed_part_def claims_of_def entry_paths_def scalar_paths_def next_generation_def)
qed

lemma runs_recover_resources_wal:
  assumes "codec_round_trips (ac_codec A)"
  shows "runs (\<lambda>s. evolved (m_journal s) (m_journal s) \<and> covered_log A rec_log ds (claims_of (m_journal s)) s) (recover_resources A)
    (\<lambda>_. wal A rec_log ds) (\<lambda>_. wal A rec_log ds)"
proof (rule runs_at)
  fix s0 assume s0: "evolved (m_journal s0) (m_journal s0) \<and> covered_log A rec_log ds (claims_of (m_journal s0)) s0"
  define J0 where "J0 = m_journal s0"
  let ?R = "\<lambda>J. recovering A rec_log ds J" and ?W = "\<lambda>_. wal A rec_log ds"
  have start: "evolved J0 J0" "recovering A rec_log ds J0 s0" using s0 by (auto simp: J0_def recovering_def)
  have deg: "runs (recovering A rec_log ds J) (degrade_locked x) Q ?W" for J x Q
    by (rule runs_degrade_wal) (rule recovering_ahead)
  have idle: "runs (?R J) (or_degrade (recover_tasks_locked A) what) (\<lambda>_. ?R J) ?W"
      "runs (?R J) (or_degrade (recover_units_locked A) what) (\<lambda>_. ?R J) ?W" for J what
  proof -
    have "recover_tasks_locked A s = (Inr (), s)" "recover_units_locked A s = (Inr (), s)" if "?R J s" for s
      using that by (simp_all add: recovering_def evolved_def recover_tasks_locked_def recover_units_locked_def bt_values_def act_simps)
    then have "or_degrade (recover_tasks_locked A) what s = (Inr (), s)" "or_degrade (recover_units_locked A) what s = (Inr (), s)"
      if "?R J s" for s
      using that by (simp_all add: or_degrade_def bind_attempt act_simps)
    then show "runs (?R J) (or_degrade (recover_tasks_locked A) what) (\<lambda>_. ?R J) ?W"
      "runs (?R J) (or_degrade (recover_units_locked A) what) (\<lambda>_. ?R J) ?W"
      by (auto intro: runsI)
  qed
  have scal: "runs (\<lambda>s. s = s1) (or_degrade (recover_scalars_locked A) what) (\<lambda>_. ?R (m_journal s1)) ?W" if "?R J0 s1" for s1 what
  proof -
    let ?J = "m_journal s1"
    have "evolved ?J ?J" using that by (auto simp: recovering_def evolved_def)
    from runs_attempt [OF runs_recover_scalars_wal [OF assms this], where R = "\<lambda>_. ?R ?J" and F = ?W]
    have "runs (\<lambda>s. m_journal s = ?J \<and> ?R ?J s) (or_degrade (recover_scalars_locked A) what) (\<lambda>_. ?R ?J) ?W"
      unfolding or_degrade_def by (rule runs_bind) (auto intro!: runs_ret deg split: sum.splits)
    then show ?thesis by (rule runs_pre) (use recovering_rebase [OF that] in simp)
  qed
  have rest: "runs (?R J0) (bind_act (or_degrade (recover_scalars_locked A) ''scalar recovery failed: {error}'') (\<lambda>_.
     bind_act (or_degrade (recover_tasks_locked A) ''task recovery failed: {error}'') (\<lambda>_.
     bind_act (or_degrade (recover_units_locked A) ''systemd unit recovery failed: {error}'') (\<lambda>_. complete_recovery A)))) ?W ?W"
    by (rule runs_at, rule runs_bind [OF scal], assumption, rule runs_bind [OF idle(1)], rule runs_bind [OF idle(2)],
        rule runs_complete_recovery_wal)
  have get: "runs (\<lambda>s. s = s0) (get_act (\<lambda>s. bt_values (jn_entries (m_journal s)))) (\<lambda>es s. es = bt_values (jn_entries J0) \<and> ?R J0 s) ?W"
    by (rule runs_get) (simp add: J0_def start(2) [unfolded J0_def])
  show "runs (\<lambda>s. s = s0) (recover_resources A) ?W ?W"
    unfolding recover_resources_def
    by (rule runs_bind [OF get], rule runs_given, rule runs_recover_frequencies [OF assms start(1) _ rest]) simp
qed

lemma runs_discard_wal:
  assumes "ac_boot_id A \<noteq> []" and "ac_device_fingerprint A \<noteq> []"
  shows "runs (\<lambda>s. ahead (ac_codec A) ds (rec_log (w_env s))) (discard_foreign_journal A) (\<lambda>_. wal A rec_log ds) (\<lambda>_. wal A rec_log ds)"
proof -
  let ?P = "\<lambda>s. ahead (ac_codec A) ds (rec_log (w_env s))"
  have "runs ?P (attempt (call (remove_durable (ac_store A)))) (\<lambda>_. ?P) (\<lambda>_. wal A rec_log ds)"
  proof (rule runs_attempt [where Q = "\<lambda>_. ?P" and E = "\<lambda>_. ?P"], rule runsI)
    fix s r t assume s: "?P s"
    then have "?P (snd (call (remove_durable (ac_store A)) s))"
      using remove_log [of "w_env s"] by (auto simp: call_def ahead_append split: prod.splits)
    then show "call (remove_durable (ac_store A)) s = (Inr r, t) \<Longrightarrow> ?P t" "call (remove_durable (ac_store A)) s = (Inl e, t) \<Longrightarrow> ?P t" for e
      by simp_all
  qed auto
  then have rm: "runs ?P (remove_or_degrade A what) (\<lambda>_. ?P) (\<lambda>_. wal A rec_log ds)" for what
    unfolding remove_or_degrade_def by (rule runs_bind) (auto intro!: runs_ret runs_degrade_wal split: sum.splits)
  show ?thesis
    unfolding discard_foreign_journal_def
    by (rule runs_bind [OF rm], rule runs_modify)
      (use assms in \<open>auto simp: wal_def fits_but_def fixed_part_def claims_of_def entry_paths_def scalar_paths_def empty_journal_def list_all_iff\<close>)
qed

lemma runs_recover_pending_wal:
  assumes "codec_round_trips (ac_codec A)" and "ac_boot_id A \<noteq> []" and "ac_device_fingerprint A \<noteq> []"
    and "ac_proc_reader A = None" and "ac_systemd A = None"
  shows "runs (wal A rec_log ds) (recover_pending A) (\<lambda>_. wal A rec_log ds) (\<lambda>_. wal A rec_log ds)"
proof -
  have "case recover_pending A s of (r, t) \<Rightarrow> wal A rec_log ds t" if s: "wal A rec_log ds s" for s
  proof (cases "m_mode s = ReadWrite \<and> m_recovery_required s")
    case False
    then have "snd (recover_pending A s) = s"
      by (cases "m_mode s") (auto simp: recover_pending_def bind_of_result ensure_read_write_def bind_act_def act_simps)
    with s show ?thesis by (simp add: case_prod_unfold)
  next
    case True
    let ?J = "m_journal s"
    have J: "journal_ok ?J" "bt_wf (jn_entries ?J)" "bt_wf (jn_scalars ?J)" "covered_log A rec_log ds (claims_of ?J) s"
      using s True by (auto simp: wal_def covered_log_def)
    have ahead: "ahead (ac_codec A) ds (rec_log (w_env s))" using J(4) by (simp add: covered_log_def)
    have run: "recover_pending A s = (if jn_boot_id ?J \<noteq> ac_boot_id A then discard_foreign_journal A s
       else if jn_device_fingerprint ?J \<noteq> ac_device_fingerprint A
       then degrade_locked (MStr ''journal device fingerprint does not match'') s
       else if journal_is_empty ?J then (Inr (), s\<lparr>m_recovery_required := False\<rparr>)
       else if jn_tasks ?J \<noteq> [] then degrade_locked (MStr ''task recovery backends are unavailable'') s
       else if jn_units ?J \<noteq> [] then degrade_locked (MStr ''systemd recovery backend is unavailable'') s
       else recover_resources A s)"
      using True assms(4,5) by (simp add: recover_pending_def bind_of_result ensure_read_write_def bind_act_def act_simps)
    have deg: "case (degrade_locked x s :: (actuator_error, unit) result \<times> _) of (r, t) \<Rightarrow> wal A rec_log ds t" for x
      using ahead by (simp add: degrade_locked_def bind_act_def act_simps wal_def)
    have dis: "case discard_foreign_journal A s of (r, t) \<Rightarrow> wal A rec_log ds t"
      using runs_discard_wal [OF assms(2,3), of ds] ahead by (auto simp: runs_def split: prod.splits sum.splits)
    have empty: "wal A rec_log ds (s\<lparr>m_recovery_required := False\<rparr>)" if "journal_is_empty ?J"
      using that J ahead by (auto simp: wal_def journal_is_empty_def fits_but_def fixed_part_def journal_ok_def claims_of_def
          entry_paths_def scalar_paths_def list_all_iff)
    have res: "case recover_resources A s of (r, t) \<Rightarrow> wal A rec_log ds t" if "jn_tasks ?J = []" "jn_units ?J = []"
      using runs_recover_resources_wal [OF assms(1), of ds] J evolved_refl [OF J(1-3) that]
      by (auto simp: runs_def split: prod.splits sum.splits)
    show ?thesis unfolding run using deg dis empty res by (simp add: case_prod_unfold)
  qed
  then show ?thesis by (auto simp: runs_def split: prod.splits sum.splits)
qed

end

section \<open>Registries the constructors build\<close>

lemma distinct_concat_apart:
  "distinct (concat (map f m)) \<Longrightarrow> x \<in> set m \<Longrightarrow> y \<in> set m \<Longrightarrow> x \<noteq> y \<Longrightarrow> set (f x) \<inter> set (f y) = {}"
proof (induction m)
  case (Cons a m)
  have "set (f a) \<inter> (\<Union>z \<in> set m. set (f z)) = {}" using Cons.prems(1) by simp
  then have apart: "set (f a) \<inter> set (f z) = {}" "set (f z) \<inter> set (f a) = {}" if "z \<in> set m" for z
    using that by blast+
  have "distinct (concat (map f m))" using Cons.prems(1) by simp
  then show ?case
    using Cons.IH Cons.prems(2-4) apart by (cases "x = a"; cases "y = a") (simp_all del: Int_iff)
qed simp

lemma registry_ok_built:
  assumes "TargetRegistry_new ts = Inr r0" and "with_scalar_targets r0 ss = Inr r" and "list_all target_wf ts"
  shows "registry_ok r"
proof -
  note inv = registry_built_inv [OF assms(1,2)]
  have "distinct (concat (map (\<lambda>x. [ft_min_path (snd x), ft_max_path (snd x)]) (rg_targets r)))"
    and "distinct (concat (map (\<lambda>x. [st_path (snd x)]) (rg_scalar_targets r)))"
    and cross: "set (target_paths (rg_targets r)) \<inter> set (map (\<lambda>x. st_path (snd x)) (rg_scalar_targets r)) = {}"
    using inv by (simp_all add: registry_paths_def target_paths_def)
  note apart = distinct_concat_apart [OF this(1)] distinct_concat_apart [OF this(2)]
  have fmem: "(k, t) \<in> set (rg_targets r) \<and> {ft_min_path t, ft_max_path t} \<subseteq> set (target_paths (rg_targets r))"
    if "registry_get r k = Some t" for k t
    using bt_get_Some_mem [OF that [unfolded registry_get_def]] by (force simp: target_paths_def)
  have smem: "(k, t) \<in> set (rg_scalar_targets r) \<and> st_path t \<in> set (map (\<lambda>x. st_path (snd x)) (rg_scalar_targets r))"
    if "registry_get_scalar r k = Some t" for k t
    using bt_get_Some_mem [OF that [unfolded registry_get_scalar_def]] by force
  have "resource_paths r k \<inter> resource_paths r k' = {}" if "k \<noteq> k'" for k k'
  proof -
    have ff: "{ft_min_path t, ft_max_path t} \<inter> {ft_min_path u, ft_max_path u} = {}"
      if "registry_get r k = Some t" "registry_get r k' = Some u" for t u
      using apart(1) [of "(k, t)" "(k', u)"] fmem [OF that(1)] fmem [OF that(2)] \<open>k \<noteq> k'\<close> by simp
    have ss: "st_path t \<noteq> st_path u" if "registry_get_scalar r k = Some t" "registry_get_scalar r k' = Some u" for t u
      using apart(2) [of "(k, t)" "(k', u)"] smem [OF that(1)] smem [OF that(2)] \<open>k \<noteq> k'\<close> by simp
    have fs: "st_path u \<notin> {ft_min_path t, ft_max_path t}" if "registry_get r l = Some t" "registry_get_scalar r l' = Some u" for l l' t u
      using fmem [OF that(1)] smem [OF that(2)] cross by blast
    show ?thesis
      unfolding resource_paths_def
      by (cases "registry_get r k"; cases "registry_get r k'"; cases "registry_get_scalar r k"; cases "registry_get_scalar r k'")
        (use ff ss fs in \<open>fastforce\<close>)+
  qed
  with inv assms(3) show ?thesis by (auto simp: registry_ok_def list_all_iff)
qed

end
