(* ===== verification/Write_Ahead_Runs.thy ===== *)
theory Write_Ahead_Runs
  imports Write_Ahead_Recovery
begin

text \<open>
  The runs of an actuator: it is constructed on whatever journal the store holds, and then serves the
  public methods in any order, with any arguments, while everything else on the machine changes the
  attributes as it likes between two of them. In every run the kernel is written behind the journal only.
\<close>

section \<open>Runs\<close>

datatype command =
    ApplyBatch "frequency_request list"
  | ApplyOwnedBatchFast "frequency_request list"
  | ApplyScalars "scalar_request list"
  | ApplyTasks "task_request list"
  | ApplyUnits "unit_request list"
  | RestoreTargets "target_id list"
  | RestoreScalars "target_id list"
  | RestoreTasks "process_identity list"
  | RestoreUnits "string list"
  | RestoreAll
  | RecoverPending
  | MarkStartupRecoveryFailed message

fun perform :: "'w actuator \<Rightarrow> command \<Rightarrow> 'w machine \<Rightarrow> 'w machine" where
  "perform A (ApplyBatch qs) s = snd (apply_batch A qs s)"
| "perform A (ApplyOwnedBatchFast qs) s = snd (apply_owned_batch_fast A qs s)"
| "perform A (ApplyScalars qs) s = snd (apply_scalars A qs s)"
| "perform A (ApplyTasks qs) s = snd (apply_tasks A qs s)"
| "perform A (ApplyUnits qs) s = snd (apply_units A qs s)"
| "perform A (RestoreTargets ids) s = snd (restore_targets A ids s)"
| "perform A (RestoreScalars ids) s = snd (restore_scalars A ids s)"
| "perform A (RestoreTasks ids) s = snd (restore_tasks A ids s)"
| "perform A (RestoreUnits ids) s = snd (restore_units A ids s)"
| "perform A RestoreAll s = snd (restore_all A s)"
| "perform A RecoverPending s = snd (recover_pending A s)"
| "perform A (MarkStartupRecoveryFailed r) s = snd (mark_startup_recovery_failed r s)"

text \<open>Between two methods the environment moves: any time passes and any attribute changes, but the log stays.\<close>

inductive served :: "('w \<times> event list) actuator \<Rightarrow> ('w \<times> event list) world \<Rightarrow> ('w \<times> event list) machine \<Rightarrow> bool" for A w where
  construct: "served A w (actuator_new A w)"
| method_call: "served A w s \<Longrightarrow> served A w (perform A c s)"
| environment: "served A w s \<Longrightarrow> served A w (s\<lparr>w_env := (e, snd (w_env s)), w_now := n\<rparr>)"

section \<open>Methods\<close>

lemma runs_after: "runs P m (\<lambda>_. P) (\<lambda>_. P) \<Longrightarrow> P s \<Longrightarrow> P (snd (m s))"
  by (cases "m s") (auto simp: runs_def split: sum.splits)

context recorder
begin

lemma runs_refused:
  assumes "\<And>J. runs (staged A rec_log ds (claims_of J) J) (f ()) (\<lambda>_. wal A rec_log ds) (\<lambda>_. wal A rec_log ds)
       \<or> \<not> fits (ac_registry A) J"
  shows "runs (wal A rec_log ds) (bind_act ensure_mutation_ready f) (\<lambda>_. wal A rec_log ds) (\<lambda>_. wal A rec_log ds)"
proof (rule runs_bind [OF runs_ready], rule runs_ex)
  fix a :: unit and J
  show "runs (\<lambda>s. fits (ac_registry A) J \<and> staged A rec_log ds (claims_of J) J s) (f a) (\<lambda>_. wal A rec_log ds) (\<lambda>_. wal A rec_log ds)"
    using assms [of J] by (auto simp: runs_def)
qed

text \<open>Without a process or a systemd backend, tasks and units are refused, or degrade the actuator.\<close>

lemma runs_tasks_units_wal:
  assumes "ac_proc_reader A = None" and "ac_systemd A = None"
  shows "runs (wal A rec_log ds) (apply_tasks A ts) (\<lambda>_. wal A rec_log ds) (\<lambda>_. wal A rec_log ds)"
    and "runs (wal A rec_log ds) (apply_units A us) (\<lambda>_. wal A rec_log ds) (\<lambda>_. wal A rec_log ds)"
    and "runs (wal A rec_log ds) (restore_tasks A ps) (\<lambda>_. wal A rec_log ds) (\<lambda>_. wal A rec_log ds)"
    and "runs (wal A rec_log ds) (restore_units A ns) (\<lambda>_. wal A rec_log ds) (\<lambda>_. wal A rec_log ds)"
proof -
  have keep: "wal A rec_log ds s \<and> ahead (ac_codec A) ds (rec_log (w_env s))"
    if "staged A rec_log ds (claims_of J) J s" "fits (ac_registry A) J" for s J
    using that by (auto intro: staged_wal staged_ahead)
  note opened = runs_def require_some_def bind_act_def act_simps degrade_locked_def assms
  show "runs (wal A rec_log ds) (apply_tasks A ts) (\<lambda>_. wal A rec_log ds) (\<lambda>_. wal A rec_log ds)"
    unfolding apply_tasks_def by (rule runs_refused) (auto simp: opened keep)
  show "runs (wal A rec_log ds) (apply_units A us) (\<lambda>_. wal A rec_log ds) (\<lambda>_. wal A rec_log ds)"
    unfolding apply_units_def by (rule runs_refused) (auto simp: opened keep)
  show "runs (wal A rec_log ds) (restore_tasks A ps) (\<lambda>_. wal A rec_log ds) (\<lambda>_. wal A rec_log ds)"
    unfolding restore_tasks_def by (rule runs_refused) (auto simp: opened keep wal_def [of A rec_log ds "m_mode_update g s" for g s])
  show "runs (wal A rec_log ds) (restore_units A ns) (\<lambda>_. wal A rec_log ds) (\<lambda>_. wal A rec_log ds)"
    unfolding restore_units_def by (rule runs_refused) (auto simp: opened keep wal_def [of A rec_log ds "m_mode_update g s" for g s])
qed

lemma perform_wal:
  assumes "sound A" and "ac_boot_id A \<noteq> []" and "ac_device_fingerprint A \<noteq> []"
    and "ac_proc_reader A = None" and "ac_systemd A = None" and "wal A rec_log ds s"
  shows "wal A rec_log ds (perform A c s)"
proof -
  note after = runs_after [of "wal A rec_log ds", OF _ assms(6)]
  note tu = runs_tasks_units_wal [OF assms(4,5)] and resources = runs_restore_targets_wal [OF assms(1)] runs_restore_scalars_wal [OF assms(1)]
  have codec: "codec_round_trips (ac_codec A)" using assms(1) by (simp add: sound_def)
  have get: "runs (wal A rec_log ds) (get_act f) (\<lambda>_. wal A rec_log ds) (\<lambda>_. wal A rec_log ds)" for f :: "'w machine \<Rightarrow> 'b"
    by (rule runs_get)
  have "runs (wal A rec_log ds) (restore_all A) (\<lambda>_. wal A rec_log ds) (\<lambda>_. wal A rec_log ds)"
    unfolding restore_all_def by (intro runs_bind [OF get] runs_bind [OF resources(1)] runs_bind [OF resources(2)] runs_bind [OF tu(3)] tu(4))
  then show ?thesis
    using assms(6)
    by (cases c)
      (simp_all add: after tu resources runs_apply_batch_wal [OF assms(1)] runs_apply_owned_wal [OF assms(1)]
        runs_apply_scalars_wal [OF assms(1)] runs_recover_pending_wal [OF codec assms(2-5)],
        simp add: mark_startup_recovery_failed_def act_simps wal_def)
qed

end

section \<open>Construction\<close>

lemma traced_simps [simp]:
  "ac_codec (traced A) = ac_codec A" "ac_registry (traced A) = ac_registry A" "ac_boot_id (traced A) = ac_boot_id A"
  "ac_device_fingerprint (traced A) = ac_device_fingerprint A" "ac_proc_reader (traced A) = None" "ac_systemd (traced A) = None"
  by (simp_all add: traced_def)

lemma empty_journal_fits:
  "jn_entries j = [] \<Longrightarrow> jn_scalars j = [] \<Longrightarrow> fixed_part j \<Longrightarrow> fits r j \<and> claims_of j = {}"
  by (simp add: fits_but_def claims_of_def entry_paths_def scalar_paths_def bt_wf_def)

lemma construct_wal:
  assumes "codec_ordered (ac_codec A)" and "ac_boot_id A \<noteq> []" and "ac_device_fingerprint A \<noteq> []"
    and "fst (store_load (ac_store A) w) = Inr d"
  shows "wal (traced A) snd [d] (actuator_new (traced A) \<lparr>w_env = (w, []), w_now = n\<rparr>)"
proof -
  obtain w' where w': "store_load (ac_store A) w = (Inr d, w')" using assms(4) by (cases "store_load (ac_store A) w") auto
  then have load: "call (store_load (ac_store (traced A))) \<lparr>w_env = (w, []), w_now = n\<rparr> = (Inr d, \<lparr>w_env = (w', []), w_now = n\<rparr>)"
    by (simp add: call_def traced_def traced_store_def)
  have fresh: "fits (ac_registry A) (empty_journal (traced A) g) \<and> claims_of (empty_journal (traced A) g) = {}" for g
    using assms(2,3) by (intro empty_journal_fits) (simp_all add: empty_journal_def fixed_part_def)
  show ?thesis
  proof (cases d)
    case None
    with load fresh [of 0] show ?thesis by (simp add: actuator_new_def wal_def machine_of_def on_disk_def)
  next
    case (Some b)
    show ?thesis
    proof (cases "decode_journal (ac_codec A) b")
      case (Inl e)
      with load Some show ?thesis by (simp add: actuator_new_def wal_def machine_of_def on_disk_def)
    next
      case (Inr j)
      let ?j = "j\<lparr>jn_schema_version := JOURNAL_SCHEMA_VERSION, jn_boot_id := ac_boot_id A, jn_device_fingerprint := ac_device_fingerprint A\<rparr>"
      have ok: "journal_ok j" by (rule decode_journal_ok [OF Inr])
      have wf: "bt_wf (jn_entries j)" "bt_wf (jn_scalars j)"
        using assms(1) Inr by (auto simp: codec_ordered_def decode_journal_def rbind_Inr_iff map_err_def split: sum.splits)
      have claims: "disk_claims (ac_codec A) d = claims_of j" by (simp add: disk_claims_def Some Inr)
      have "fits (ac_registry A) ?j \<and> claims_of ?j = {}" if "journal_is_empty j"
        using that assms(2,3) by (intro empty_journal_fits) (simp_all add: journal_is_empty_def fixed_part_def)
      with load Some Inr ok wf claims show ?thesis
        by (simp add: actuator_new_def wal_def machine_of_def on_disk_def Let_def)
    qed
  qed
qed

text \<open>
  C2: the journal is always written ahead of the kernel. In every run of the actuator, from the journal found
  at startup on, through any sequence of its methods (transactions, fast transactions, restorations,
  recovery, failures of any of the ports included), no kernel attribute is ever written that a crash at
  that moment would leave unclaimed: whatever the stores and removals attempted so far left on the disk,
  it decodes to a journal that claims the attribute. The registry is one the constructors accept, the JSON
  library reads back what it wrote, and the actuator has no process or systemd backend.
\<close>

theorem kernel_writes_are_journalled_first:
  assumes "codec_round_trips (ac_codec A)" and "codec_ordered (ac_codec A)"
    and "ac_boot_id A \<noteq> []" and "ac_device_fingerprint A \<noteq> []"
    and "TargetRegistry_new ts = Inr r" and "with_scalar_targets r ss = Inr (ac_registry A)" and "list_all target_wf ts"
    and "fst (store_load (ac_store A) w) = Inr d"
    and "served (traced A) \<lparr>w_env = (w, []), w_now = n\<rparr> s"
  shows "ahead (ac_codec A) [d] (snd (w_env s))"
proof -
  have sound: "sound (traced A)" using assms(1) registry_ok_built [OF assms(5-7)] by (simp add: sound_def)
  from assms(9) have "wal (traced A) snd [d] s"
  proof (induction rule: served.induct)
    case construct
    show ?case by (rule construct_wal [OF assms(2-4,8)])
  next
    case (method_call s c)
    then show ?case using assms(3,4) by (intro tr.perform_wal [OF sound]) simp_all
  next
    case (environment s e n)
    then show ?case by (simp add: wal_def)
  qed
  then show ?thesis by (simp add: wal_def)
qed

lemma table_codec_ordered:
  "list_all (\<lambda>j. bt_wf (jn_entries j) \<and> bt_wf (jn_scalars j)) js \<Longrightarrow> codec_ordered (table_codec js)"
  by (auto simp: codec_ordered_def table_codec_def list_all_length split: if_splits)

theorem kernel_writes_are_journalled_first_witness:
  "\<exists>s. served (traced demo) \<lparr>w_env = (w_env (demo_world None False), []), w_now = 0\<rparr> s
     \<and> SysfsWrite demo_max_path \<in> set (snd (w_env s)) \<and> ahead (ac_codec demo) [None] (snd (w_env s))"
proof -
  let ?w = "\<lparr>w_env = (w_env (demo_world None False), []), w_now = 0\<rparr>"
  let ?s = "perform (traced demo) (ApplyBatch demo_request) (actuator_new (traced demo) ?w)"
  have run: "served (traced demo) ?w ?s" by (intro served.intros)
  have written: "SysfsWrite demo_max_path \<in> set (snd (w_env ?s))" by code_simp
  have codec: "codec_round_trips (ac_codec demo)" "codec_ordered (ac_codec demo)"
    by (simp_all add: demo_actuator_def table_codec_round_trips table_codec_ordered demo_journals_def demo_journal_def bt_wf_def Let_def)
  have registry: "TargetRegistry_new [demo_target] = Inr (demo_registry\<lparr>rg_scalar_targets := []\<rparr>)"
    "with_scalar_targets (demo_registry\<lparr>rg_scalar_targets := []\<rparr>) [demo_scalar] = Inr (ac_registry demo)"
    "list_all target_wf [demo_target]" by code_simp+
  have boot: "ac_boot_id demo \<noteq> []" "ac_device_fingerprint demo \<noteq> []"
      "fst (store_load (ac_store demo) (w_env (demo_world None False))) = Inr None"
    by (simp_all add: demo_actuator_def demo_store_def demo_world_def)
  from kernel_writes_are_journalled_first [OF codec boot(1,2) registry boot(3) run] run written show ?thesis by blast
qed

end
