(* ===== verification/Actuator_Formats.thy ===== *)
theory Actuator_Formats
  imports Journal_Invariant
begin

text \<open>
  What the actuator writes is what it reads back: the decimal frequencies and scalar values of the kernel's
  attributes, the durable journal, and the recovery manifests; and the windows a target goes through while
  its two attributes are written one after the other.
\<close>

section \<open>Numbers\<close>

lemma digits_plain: "0 \<le> n \<Longrightarrow> trim_str (show_int n) = show_int n"
proof (rule trim_str_ascii)
  assume "0 \<le> n"
  then have "list_all is_digit (show_int n)" using show_int_digits by blast
  then show "list_all (\<lambda>c. byte_of c < 128 \<and> \<not> is_whitespace (byte_of c)) (show_int n)"
    by (auto simp: list_all_iff is_whitespace_def dest!: is_digit_not_special(5))
qed

lemma trim_show_int: "trim_str (show_int n) = show_int n"
proof (cases "n < 0")
  case True
  then have "list_all is_digit (show_int (- n))" using show_int_digits [of "- n"] by simp
  then have "list_all (\<lambda>c. byte_of c < 128 \<and> \<not> is_whitespace (byte_of c)) (show_int (- n))"
    by (auto simp: list_all_iff is_whitespace_def dest!: is_digit_not_special(5))
  moreover have "byte_of (CHR ''-'') < 128 \<and> \<not> is_whitespace (byte_of (CHR ''-''))" by code_simp
  ultimately have "list_all (\<lambda>c. byte_of c < 128 \<and> \<not> is_whitespace (byte_of c)) (show_int n)"
    using True by (subst show_int.simps) simp
  then show ?thesis by (rule trim_str_ascii)
qed (simp add: digits_plain)

lemma parse_i64_show: "- (2 ^ 63) \<le> n \<Longrightarrow> n < 2 ^ 63 \<Longrightarrow> parse_i64 (show_int n) = Some n"
proof (cases "n < 0")
  case True
  assume "- (2 ^ 63) \<le> n"
  with True show_int_digits [of "- n"] show ?thesis
    by (subst show_int.simps) (simp add: parse_i64_def parse_digits_def)
next
  case False
  assume "n < 2 ^ 63"
  moreover obtain c cs where s: "show_int n = c # cs" and "is_digit c"
    using show_int_digits [of n] False by (cases "show_int n") auto
  moreover have "parse_unsigned (2 ^ 63 - 1) (show_int n) = Some n"
    using \<open>n < 2 ^ 63\<close> False by (intro parse_unsigned_show) simp_all
  ultimately show ?thesis using is_digit_not_special(2) by (auto simp: parse_i64_def)
qed

lemma parse_u64_show: "parse_u64 (trim_str (show_u64 v)) = Some v"
proof -
  have "uint v \<le> 2 ^ 64 - 1" using uint_lt2p [of v] by simp
  then have "parse_unsigned (2 ^ 64 - 1) (show_int (uint v)) = Some (uint v)" by (intro parse_unsigned_show) simp_all
  then show ?thesis by (simp add: parse_u64_def show_u64_def trim_show_int)
qed

section \<open>Frequencies\<close>

lemma encode_parse_frequency:
  assumes "ft_hertz_per_unit t \<noteq> 0" and "u64_is_multiple_of f (ft_hertz_per_unit t)"
  shows "\<exists>v. encode_frequency t f = Inr v \<and> parse_hertz p v (ft_hertz_per_unit t) = Inr f"
proof -
  let ?u = "ft_hertz_per_unit t"
  have "f mod ?u = 0" using assms by (simp add: u64_is_multiple_of_def)
  then have "uint f mod uint ?u = 0" by (metis uint_mod_distrib unsigned_0)
  then have exact: "uint (f div ?u) * uint ?u = uint f" by (simp add: uint_div_distrib mod_0_imp_dvd)
  moreover from this have "uint (f div ?u) * uint ?u < 2 ^ 64" using uint_lt2p [of f] by simp
  moreover have "f div ?u * ?u = f" using arg_cong [OF exact, of "of_int :: int \<Rightarrow> u64"] by simp
  ultimately show ?thesis
    using assms(1) by (simp add: encode_frequency_def parse_hertz_def u64_checked_div_def u64_checked_mul_def parse_u64_show)
qed

text \<open>
  a window the target accepts survives the trip through the kernel's two attributes: each bound is
  encoded, and the text read back is parsed to exactly that frequency, with no rounding and no overflow,
  whatever unit the kernel counts in.
\<close>

theorem frequency_attributes_round_trip:
  assumes "validate_limits t l = Inr ()"
  shows "\<exists>minimum maximum. encode_frequency t (min_hz l) = Inr minimum \<and> encode_frequency t (max_hz l) = Inr maximum
     \<and> parse_hertz (ft_min_path t) minimum (ft_hertz_per_unit t) = Inr (min_hz l)
     \<and> parse_hertz (ft_max_path t) maximum (ft_hertz_per_unit t) = Inr (max_hz l)"
  using encode_parse_frequency [of t "min_hz l" "ft_min_path t"] encode_parse_frequency [of t "max_hz l" "ft_max_path t"] assms
  by (auto simp: validate_limits_Inr_iff)

theorem frequency_attributes_round_trip_witness:
  "\<exists>minimum. encode_frequency (demo_target\<lparr>ft_hardware_max := 3000, ft_hertz_per_unit := 1000\<rparr>) 2000 = Inr minimum
     \<and> parse_hertz demo_min_path minimum 1000 = Inr 2000"
  using frequency_attributes_round_trip [of "demo_target\<lparr>ft_hardware_max := 3000, ft_hertz_per_unit := 1000\<rparr>" "\<lparr>min_hz = 2000, max_hz = 3000\<rparr>"]
  by (auto simp: demo_target_def validate_limits_Inr_iff u64_is_multiple_of_def)

section \<open>Scalars\<close>

text \<open>A value of the source's type: an \<open>i64\<close>, a \<open>String\<close> (which is valid UTF-8) or a \<open>CpuSet\<close>.\<close>

fun value_wf :: "actuator_value \<Rightarrow> bool" where
  "value_wf (ValInteger i) = (- (2 ^ 63) \<le> i \<and> i < 2 ^ 63)"
| "value_wf (ValString s) = (concat (map utf8_encode (chars s)) = s)"
| "value_wf (ValCpuList c) = cpu_set_wf c"

lemma canonical_strings:
  assumes "scalar_target_wf t" and "st_domain t = DomStringEnum vs" and "v \<in> set vs"
  shows "trim (chars v) = chars v"
proof -
  have "canonicalize (DomStringEnum vs) (st_id t) = Inr (DomStringEnum vs)"
    using assms(1,2) unfolding scalar_target_wf_def ScalarTarget_new_def by (cases t) (auto simp: rbind_Inr_iff simp del: canonicalize.simps)
  then obtain ys where "try_map (validate_scalar_string (st_id t)) vs = Inr ys" by (auto simp: Let_def rbind_Inr_iff split: if_splits)
  with assms(3) obtain y where "validate_scalar_string (st_id t) v = Inr y" by (meson try_map_unit)
  then show ?thesis by (auto simp: validate_scalar_string_def split: if_splits)
qed

lemma canonical_cpus:
  assumes "scalar_target_wf t" and "st_domain t = DomCpuList allowed e"
  shows "list_all (\<lambda>c. c \<le> MAX_SCALAR_CPU_ID) allowed"
  using assms unfolding scalar_target_wf_def ScalarTarget_new_def
  by (cases t) (auto simp: rbind_Inr_iff list_all_iff list_ex_iff not_less split: if_splits)

text \<open>
  C34: a scalar value its target accepts is written as a text that reads back as the same value, whatever
  the domain: integers of either sign, trimmed strings, and CPU lists in the kernel's range syntax.
\<close>

theorem scalar_values_round_trip:
  assumes "scalar_target_wf t" and "domain_accepts (st_domain t) v" and "value_wf v"
  shows "decode_scalar p (st_domain t) (encode_scalar_value v) = Inr v"
proof (cases v)
  case (ValInteger i)
  with assms(2,3) show ?thesis by (cases "st_domain t") (simp_all add: trim_show_int parse_i64_show)
next
  case (ValString s)
  with assms(2) obtain vs where vs: "st_domain t = DomStringEnum vs" "s \<in> set vs" by (cases "st_domain t") auto
  then have "trim (chars s) = chars s" by (rule canonical_strings [OF assms(1)])
  with vs ValString assms(3) show ?thesis by (simp add: trim_str_def)
next
  case (ValCpuList c)
  with assms(2) obtain allowed e where dom: "st_domain t = DomCpuList allowed e" "CpuSet_is_subset c allowed"
    by (cases "st_domain t") auto
  with canonical_cpus [OF assms(1) dom(1)] have "list_all (\<lambda>c. c \<le> MAX_SCALAR_CPU_ID) c"
    by (auto simp: list_all_iff CpuSet_is_subset_def)
  with dom ValCpuList assms(3) show ?thesis by (simp add: trim_format parse_format_cpu_list)
qed

theorem scalar_values_round_trip_witness:
  "\<exists>t. scalar_target_wf t \<and> decode_scalar demo_scalar_path (st_domain t) (encode_scalar_value (ValCpuList [0, 1, 2, 7])) = Inr (ValCpuList [0, 1, 2, 7])"
proof -
  let ?t = "\<lparr>st_id = ''cpus'', st_path = demo_scalar_path, st_domain = DomCpuList [0, 1, 2, 7] False\<rparr>"
  have "scalar_target_wf ?t" and "domain_accepts (st_domain ?t) (ValCpuList [0, 1, 2, 7])" and "value_wf (ValCpuList [0, 1, 2, 7])"
    by code_simp+
  from this(1) scalar_values_round_trip [OF this] show ?thesis by blast
qed

section \<open>The journal and its manifests\<close>

text \<open>
  C20: a journal that fits the registry, as the actuator keeps it through every transaction, is stored as a
  text that the next daemon decodes to exactly the same journal: every check of the decoder (sizes,
  checksum, schema, identities, legal windows, disjoint paths) accepts it.
\<close>

theorem stored_journal_is_decoded:
  assumes "codec_round_trips cd" and "registry_ok r" and "fits r j" and "encode_journal cd j = Inr b"
  shows "decode_journal cd b = Inr j"
  by (rule decode_encode_journal [OF assms(1,4)]) (rule fits_journal_ok [OF assms(2,3)])

theorem stored_journal_is_decoded_witness:
  "\<exists>b. encode_journal (ac_codec demo) (demo_journals ! 1) = Inr b \<and> decode_journal (ac_codec demo) b = Inr (demo_journals ! 1)"
proof -
  have e: "encode_journal (ac_codec demo) (demo_journals ! 1) = Inr ''*''" by code_simp
  have "target_wf demo_target" "scalar_target_wf demo_scalar" by code_simp+
  then have r: "registry_ok demo_registry"
    by (auto simp: registry_ok_def demo_registry_def registry_get_def registry_get_scalar_def bt_get_def resource_paths_def
        demo_target_def demo_scalar_def demo_min_path_def demo_max_path_def demo_scalar_path_def split: if_splits)
  have "validate_limits demo_target \<lparr>min_hz = 1, max_hz = 2\<rparr> = Inr ()" by code_simp
  with \<open>target_wf demo_target\<close> have "fits demo_registry (demo_journals ! 1)"
    by (auto simp: fits_but_def fixed_part_def demo_journals_def demo_journal_def demo_registry_def registry_get_def bt_get_def bt_wf_def
        entry_of_def entry_settled_def demo_entry_def demo_target_def target_hardware_limits_def Let_def)
  from stored_journal_is_decoded [OF _ r this e] e show ?thesis by (auto simp: demo_actuator_def table_codec_round_trips)
qed

text \<open>
  a recovery manifest rebuilds exactly the target it was taken from, and nothing else: it is accepted
  just when it is the manifest of a well-formed target, and then that target is the result.
\<close>

theorem manifests_rebuild_targets:
  "(to_frequency_target m = Inr t \<longleftrightarrow> target_wf t \<and> recovery_manifest t = m)
   \<and> (to_scalar_target n = Inr u \<longleftrightarrow> scalar_target_wf u \<and> scalar_recovery_manifest u = n)"
  using to_frequency_target_Inr_iff to_scalar_target_Inr_iff by blast

section \<open>Snapping a request\<close>

text \<open>
  what the actuator asks of the kernel for a requested window is always a window the hardware has: within
  its bounds, in whole kernel units, not reversed, with a maximum that never exceeds the requested one; and
  with a table of operating points its maximum is the largest point that does not (or the hardware minimum,
  when every point does).
\<close>

theorem snapped_requests_are_supported:
  assumes "target_wf t" and "snap_limits t l = Inr d"
  shows "validate_limits t d = Inr () \<and> max_hz d \<le> max_hz l
     \<and> (ft_opps t \<noteq> [] \<longrightarrow> max_hz d = ft_hardware_min t \<or> max_hz d \<in> set (ft_opps t))
     \<and> (\<forall>opp \<in> set (ft_opps t). opp \<le> max_hz l \<longrightarrow> opp \<le> max_hz d)"
proof -
  have l: "validate_limits t l = Inr ()" using assms(2) by (auto simp: snap_limits_def rbind_Inr_iff)
  show ?thesis
  proof (cases "ft_opps t = []")
    case True
    with assms l show ?thesis by (auto simp: snap_limits_def rbind_Inr_iff)
  next
    case False
    show ?thesis
      by (rule snap_limits_cases [OF assms(1) l False]) (use assms snap_limits_valid [OF assms] in auto)
  qed
qed

theorem snapped_requests_are_supported_witness:
  "\<exists>d. snap_limits (demo_target\<lparr>ft_opps := [1, 3]\<rparr>) \<lparr>min_hz = 1, max_hz = 2\<rparr> = Inr d \<and> max_hz d \<le> 2 \<and> validate_limits demo_target d = Inr ()"
proof -
  have d: "snap_limits (demo_target\<lparr>ft_opps := [1, 3]\<rparr>) \<lparr>min_hz = 1, max_hz = 2\<rparr> = Inr \<lparr>min_hz = 1, max_hz = 1\<rparr>"
    and "target_wf (demo_target\<lparr>ft_opps := [1, 3]\<rparr>)" by code_simp+
  from snapped_requests_are_supported [OF this(2) d] d show ?thesis by (auto simp: validate_limits_Inr_iff)
qed

section \<open>Writing a window\<close>

text \<open>The attempts to write an attribute, with the text, in order; a failed one may have had its effect.\<close>

definition attempts_io :: "'w sysfs_io \<Rightarrow> ('w \<times> (path_buf \<times> string) list) sysfs_io" where
  "attempts_io io =
     \<lparr>read_string = (\<lambda>p (w, l). case read_string io p w of (r, w') \<Rightarrow> (r, w', l)),
      write_string = (\<lambda>p v (w, l). case write_string io p v w of (r, w') \<Rightarrow> (r, w', l @ [(p, v)]))\<rparr>"

definition bound_of :: "frequency_target \<Rightarrow> string \<Rightarrow> hertz \<Rightarrow> hertz" where
  "bound_of t v old = (case parse_hertz [] v (ft_hertz_per_unit t) of Inr f \<Rightarrow> f | Inl _ \<Rightarrow> old)"

fun window_after :: "frequency_target \<Rightarrow> frequency_limits \<Rightarrow> (path_buf \<times> string) list \<Rightarrow> frequency_limits" where
  "window_after t l [] = l"
| "window_after t l ((p, v) # ws) =
     window_after t (if p = ft_min_path t then l\<lparr>min_hz := bound_of t v (min_hz l)\<rparr>
       else if p = ft_max_path t then l\<lparr>max_hz := bound_of t v (max_hz l)\<rparr> else l) ws"

lemma bound_of_encoded:
  assumes "validate_limits t l = Inr ()"
  shows "\<exists>v. encode_frequency t (min_hz l) = Inr v \<and> bound_of t v old = min_hz l"
    and "\<exists>v. encode_frequency t (max_hz l) = Inr v \<and> bound_of t v old = max_hz l"
  using encode_parse_frequency [of t "min_hz l" "[]"] encode_parse_frequency [of t "max_hz l" "[]"] assms
  by (auto simp: validate_limits_Inr_iff bound_of_def)

lemma attempted_write:
  "io_call (write_string (attempts_io io) p v) s = (r, u) \<Longrightarrow> snd (w_env u) = snd (w_env s) @ [(p, v)]"
  by (auto simp: io_call_def call_def attempts_io_def split: prod.splits)

definition ordered_attempts :: "frequency_target \<Rightarrow> frequency_limits \<Rightarrow> frequency_limits \<Rightarrow> string \<Rightarrow> string \<Rightarrow> (path_buf \<times> string) list" where
  "ordered_attempts t c d minimum maximum =
     (let lower = (if min_hz d \<noteq> min_hz c then [(ft_min_path t, minimum)] else []);
          upper = (if max_hz d \<noteq> max_hz c then [(ft_max_path t, maximum)] else [])
      in if max_hz d < min_hz c then lower @ upper else upper @ lower)"

lemma write_ordered_attempts:
  assumes "write_ordered (attempts_io io) t c d s = (r, u)"
    and "encode_frequency t (min_hz d) = Inr minimum" and "encode_frequency t (max_hz d) = Inr maximum"
  shows "\<exists>k. snd (w_env u) = snd (w_env s) @ take k (ordered_attempts t c d minimum maximum)
     \<and> (r = Inr () \<longrightarrow> length (ordered_attempts t c d minimum maximum) \<le> k)"
proof -
  have two: "\<exists>k. snd (w_env u) = snd (w_env s) @ take k ((if a then [(p, v)] else []) @ (if b then [(q, w)] else []))
       \<and> (r = Inr () \<longrightarrow> length ((if a then [(p, v)] else []) @ (if b then [(q, w)] else [])) \<le> k)"
    if run: "bind_act (when_act a (io_call (write_string (attempts_io io) p v)))
        (\<lambda>_. when_act b (io_call (write_string (attempts_io io) q w))) s = (r, u)" for a b p q v w
  proof (cases a)
    case False
    with run show ?thesis
      by (cases b) (auto simp: when_act_def bind_act_def act_simps dest!: attempted_write intro: exI [of _ 1])
  next
    case True
    obtain r1 s1 where first: "io_call (write_string (attempts_io io) p v) s = (r1, s1)" by fastforce
    show ?thesis
    proof (cases r1)
      case (Inl e)
      with run first True attempted_write [OF first] show ?thesis
        by (auto simp: when_act_def bind_act_def intro!: exI [of _ "Suc 0"])
    next
      case (Inr x)
      with run first True attempted_write [OF first] show ?thesis
        by (cases b) (auto simp: when_act_def bind_act_def act_simps dest!: attempted_write intro!: exI [of _ 2])
    qed
  qed
  show ?thesis
  proof (cases "max_hz d < min_hz c")
    case True
    with assms have "bind_act (when_act (min_hz d \<noteq> min_hz c) (io_call (write_string (attempts_io io) (ft_min_path t) minimum)))
        (\<lambda>_. when_act (max_hz d \<noteq> max_hz c) (io_call (write_string (attempts_io io) (ft_max_path t) maximum))) s = (r, u)"
      by (simp add: write_ordered_def bind_of_result)
    from two [OF this] True show ?thesis by (simp only: ordered_attempts_def Let_def if_True)
  next
    case False
    with assms have "bind_act (when_act (max_hz d \<noteq> max_hz c) (io_call (write_string (attempts_io io) (ft_max_path t) maximum)))
        (\<lambda>_. when_act (min_hz d \<noteq> min_hz c) (io_call (write_string (attempts_io io) (ft_min_path t) minimum))) s = (r, u)"
      by (simp add: write_ordered_def bind_of_result)
    from two [OF this] False show ?thesis by (simp only: ordered_attempts_def Let_def if_False)
  qed
qed

lemma window_after_attempts:
  assumes "ft_min_path t \<noteq> ft_max_path t" and "\<And>old. bound_of t minimum old = min_hz d" and "\<And>old. bound_of t maximum old = max_hz d"
  shows "window_after t c (take k (ordered_attempts t c d minimum maximum)) \<in> {c, midpoint c d, d}"
    and "window_after t c (ordered_attempts t c d minimum maximum) = d"
proof -
  have *: "window_after t c (take k (ordered_attempts t c d minimum maximum)) \<in> {c, midpoint c d, d}
      \<and> (length (ordered_attempts t c d minimum maximum) \<le> k \<longrightarrow> window_after t c (take k (ordered_attempts t c d minimum maximum)) = d)" for k
    using assms
    by (cases c; cases d; cases k; cases "k - 1")
      (auto simp: ordered_attempts_def midpoint_def with_min_def with_max_def Let_def)
  from * show "window_after t c (take k (ordered_attempts t c d minimum maximum)) \<in> {c, midpoint c d, d}" by blast
  from * [of "length (ordered_attempts t c d minimum maximum)"] show "window_after t c (ordered_attempts t c d minimum maximum) = d" by simp
qed

text \<open>
  C12: while a window is replaced by another, its two attributes are written one after the other in the order
  that keeps the window valid; so wherever the sequence stops (a write fails, with or without effect,
  or the daemon dies), the window is one of the legal pairs the journal lists for the transition, and it is
  one the hardware accepts; when the sequence ends, it is the window asked for.
\<close>

theorem interrupted_writes_stay_legal:
  assumes "ft_min_path t \<noteq> ft_max_path t" and "validate_limits t c = Inr ()" and "validate_limits t d = Inr ()"
    and "write_ordered (attempts_io io) t c d s = (r, u)" and "snd (w_env s) = []"
  shows "window_after t c (take n (snd (w_env u))) \<in> set (transaction_legal_pairs c d)
     \<and> validate_limits t (window_after t c (take n (snd (w_env u)))) = Inr ()
     \<and> (r = Inr () \<longrightarrow> window_after t c (snd (w_env u)) = d)"
proof -
  obtain minimum maximum where e: "encode_frequency t (min_hz d) = Inr minimum" "encode_frequency t (max_hz d) = Inr maximum"
    and b: "bound_of t minimum old = min_hz d" "bound_of t maximum old = max_hz d" for old
    using bound_of_encoded [OF assms(3)] by (metis sum.inject(2))
  note after = window_after_attempts [OF assms(1) b]
  from write_ordered_attempts [OF assms(4) e] obtain k where
      k: "snd (w_env u) = take k (ordered_attempts t c d minimum maximum)"
      "r = Inr () \<Longrightarrow> length (ordered_attempts t c d minimum maximum) \<le> k"
    using assms(5) by auto
  have "window_after t c (take n (snd (w_env u))) \<in> {c, midpoint c d, d}" unfolding k(1) take_take by (rule after(1))
  then have "window_after t c (take n (snd (w_env u))) \<in> set (transaction_legal_pairs c d)" by (auto simp: legal_pairs_set)
  moreover from legal_pairs_valid [OF assms(2,3) this] have "validate_limits t (window_after t c (take n (snd (w_env u)))) = Inr ()" .
  moreover have "window_after t c (snd (w_env u)) = d" if "r = Inr ()" using k after(2) that by simp
  ultimately show ?thesis by blast
qed

theorem interrupted_writes_stay_legal_witness:
  "\<exists>r u. write_ordered (attempts_io demo_io) demo_target \<lparr>min_hz = 1, max_hz = 1\<rparr> \<lparr>min_hz = 3, max_hz = 3\<rparr>
        \<lparr>w_env = (w_env (demo_world None False), []), w_now = 0\<rparr> = (r, u)
     \<and> validate_limits demo_target (window_after demo_target \<lparr>min_hz = 1, max_hz = 1\<rparr> (take 1 (snd (w_env u)))) = Inr ()"
proof -
  let ?s = "\<lparr>w_env = (w_env (demo_world None False), [] :: (path_buf \<times> string) list), w_now = 0\<rparr>"
  obtain r u where run: "write_ordered (attempts_io demo_io) demo_target \<lparr>min_hz = 1, max_hz = 1\<rparr> \<lparr>min_hz = 3, max_hz = 3\<rparr> ?s = (r, u)"
    by fastforce
  have "ft_min_path demo_target \<noteq> ft_max_path demo_target" and "validate_limits demo_target \<lparr>min_hz = 1, max_hz = 1\<rparr> = Inr ()"
    and "validate_limits demo_target \<lparr>min_hz = 3, max_hz = 3\<rparr> = Inr ()" by code_simp+
  from interrupted_writes_stay_legal [OF this run, of 1] run show ?thesis by auto
qed

end
