(* ===== verification/Decision_Trace.thy ===== *)
theory Decision_Trace
  imports Policy_Engine Platform
begin

text \<open>
  \<open>crates/uperf-daemon/src/decision_trace.rs\<close>: the bounded timeline of completed reconciliations that the
  daemon shows to its clients. The store is a ring of 1024 entries behind a mutex that is used even when
  poisoned, so an operation is one function of the state. What a client pages through is compared with
  the unbounded history of everything recorded.
\<close>

section \<open>Data\<close>

definition TRACE_CAPACITY :: nat where "TRACE_CAPACITY = 1024"

fun profile_name :: "profile_id \<Rightarrow> string" where
  "profile_name Powersave = ''powersave''"
| "profile_name Balance = ''balance''"
| "profile_name Performance = ''performance''"

fun scene_name :: "scene \<Rightarrow> string" where
  "scene_name Idle = ''idle''"
| "scene_name Touch = ''touch''"
| "scene_name Trigger = ''trigger''"
| "scene_name Gesture = ''gesture''"
| "scene_name Junk = ''junk''"
| "scene_name Boost = ''boost''"
| "scene_name Switch = ''switch''"
| "scene_name Wake = ''wake''"

record applied_state =
  as_generation :: u64
  as_frequencies :: "(target_id, frequency_limits) btree"
  as_scalars :: "(target_id, scalar_setting_value) btree"
  as_tasks :: "(process_identity, task_plan) btree"

record decision_frequency =
  df_target_id :: string
  df_min_hz :: u64
  df_max_hz :: u64

record decision_scalar =
  ds_target_id :: string
  ds_value_json :: string

text \<open>
  The diagnostics of the governor are copied and never looked at: \<open>'g\<close>. An empty error string is \<open>None\<close>;
  every other error starts with the name of its lane.
\<close>

record 'g decision_trace_entry =
  te_decision_id :: u64
  te_reconcile_id :: u64
  te_monotonic_ms :: u64
  te_duration_us :: u64
  te_generation :: u64
  te_profile :: string
  te_scene :: string
  te_frequency_attempted :: bool
  te_scheduler_attempted :: bool
  te_desired_frequencies :: "decision_frequency list"
  te_applied_frequencies :: "decision_frequency list"
  te_success :: bool
  te_error :: "message option"
  te_trigger_source :: string
  te_trigger_monotonic_ms :: u64
  te_verified_apply_latency_us :: u64
  te_governor :: 'g
  te_desired_scalars :: "decision_scalar list"
  te_applied_scalars :: "decision_scalar list"

record 'g trace_state =
  ts_next_decision_id :: u64
  ts_next_reconcile_id :: u64
  ts_entries :: "'g decision_trace_entry list"

definition TraceState_default :: "'g trace_state" where
  "TraceState_default = \<lparr>ts_next_decision_id = 0, ts_next_reconcile_id = 0, ts_entries = []\<rparr>"

record 'g decision_trace_context =
  tc_trigger_source :: string
  tc_trigger_monotonic_ms :: u64
  tc_governor :: 'g

section \<open>Operations\<close>

definition frequency_snapshot :: "(target_id, frequency_limits) btree \<Rightarrow> decision_frequency list" where
  "frequency_snapshot frequencies =
     map (\<lambda>(target, limits). \<lparr>df_target_id = target, df_min_hz = min_hz limits, df_max_hz = max_hz limits\<rparr>) frequencies"

definition scalar_snapshot :: "(scalar_setting_value \<Rightarrow> string) \<Rightarrow> (target_id, scalar_setting_value) btree \<Rightarrow> decision_scalar list" where
  "scalar_snapshot to_json scalars =
     map (\<lambda>(target, value). \<lparr>ds_target_id = target, ds_value_json = to_json value\<rparr>) scalars"

fun format_errors :: "message option \<Rightarrow> message option \<Rightarrow> message option" where
  "format_errors None None = None"
| "format_errors (Some e) None = Some (MFmt ''frequency: {error}'' [e])"
| "format_errors None (Some e) = Some (MFmt ''scheduler: {error}'' [e])"
| "format_errors (Some f) (Some s) = Some (MFmt ''frequency: {frequency}; scheduler: {scheduler}'' [f, s])"

text \<open>What one call hands over; \<open>Duration::as_micros\<close> is a \<open>u128\<close>.\<close>

record 'g reconcile_record =
  rr_monotonic_ms :: u64
  rr_duration_micros :: nat
  rr_desired :: desired_plan
  rr_applied :: applied_state
  rr_frequency_attempted :: bool
  rr_scheduler_attempted :: bool
  rr_frequency_error :: "message option"
  rr_scheduler_error :: "message option"
  rr_context :: "'g decision_trace_context"

definition u64_of_micros :: "nat \<Rightarrow> u64" where
  "u64_of_micros n = (if n < 2 ^ 64 then of_nat n else 2 ^ 64 - 1)"

definition trace_entry :: "(scalar_setting_value \<Rightarrow> string) \<Rightarrow> u64 \<Rightarrow> u64 \<Rightarrow> 'g reconcile_record \<Rightarrow> 'g decision_trace_entry" where
  "trace_entry to_json decision_id reconcile_id r =
     (let error = format_errors (rr_frequency_error r) (rr_scheduler_error r)
      in \<lparr>te_decision_id = decision_id, te_reconcile_id = reconcile_id, te_monotonic_ms = rr_monotonic_ms r,
          te_duration_us = u64_of_micros (rr_duration_micros r),
          te_generation = dp_generation (rr_desired r),
          te_profile = profile_name (dp_effective_profile (rr_desired r)),
          te_scene = scene_name (dp_dominant_scene (rr_desired r)),
          te_frequency_attempted = rr_frequency_attempted r,
          te_scheduler_attempted = rr_scheduler_attempted r,
          te_desired_frequencies = frequency_snapshot (dp_frequencies (rr_desired r)),
          te_applied_frequencies = frequency_snapshot (as_frequencies (rr_applied r)),
          te_success = (error = None),
          te_error = error,
          te_trigger_source = tc_trigger_source (rr_context r),
          te_trigger_monotonic_ms = tc_trigger_monotonic_ms (rr_context r),
          te_verified_apply_latency_us =
            u64_saturating_add
              (u64_saturating_mul (u64_saturating_sub (rr_monotonic_ms r) (tc_trigger_monotonic_ms (rr_context r))) 1000)
              (u64_of_micros (rr_duration_micros r)),
          te_governor = tc_governor (rr_context r),
          te_desired_scalars = scalar_snapshot to_json (dp_scalars (rr_desired r)),
          te_applied_scalars = scalar_snapshot to_json (as_scalars (rr_applied r))\<rparr>)"

definition record_reconcile :: "(scalar_setting_value \<Rightarrow> string) \<Rightarrow> 'g trace_state \<Rightarrow> 'g reconcile_record \<Rightarrow> 'g trace_state" where
  "record_reconcile to_json state r =
     (let decision_id = u64_saturating_add (ts_next_decision_id state) 1;
          reconcile_id = u64_saturating_add (ts_next_reconcile_id state) 1;
          entry = trace_entry to_json decision_id reconcile_id r;
          entries = (if length (ts_entries state) = TRACE_CAPACITY then tl (ts_entries state) else ts_entries state)
      in \<lparr>ts_next_decision_id = decision_id, ts_next_reconcile_id = reconcile_id, ts_entries = entries @ [entry]\<rparr>)"

definition trace_page :: "'g trace_state \<Rightarrow> u64 \<Rightarrow> u32 \<Rightarrow> 'g decision_trace_entry list" where
  "trace_page state after_id limit = take (unat limit) (filter (\<lambda>entry. after_id < te_decision_id entry) (ts_entries state))"

section \<open>The history behind the ring\<close>

definition recent :: "nat \<Rightarrow> 'a list \<Rightarrow> 'a list" where
  "recent n xs = drop (length xs - n) xs"

definition trace_history :: "(scalar_setting_value \<Rightarrow> string) \<Rightarrow> 'g reconcile_record list \<Rightarrow> 'g decision_trace_entry list" where
  "trace_history to_json rs = map (\<lambda>(i, r). trace_entry to_json (of_nat (Suc i)) (of_nat (Suc i)) r) (enumerate 0 rs)"

definition trace_run :: "(scalar_setting_value \<Rightarrow> string) \<Rightarrow> 'g reconcile_record list \<Rightarrow> 'g trace_state" where
  "trace_run to_json rs = foldl (record_reconcile to_json) TraceState_default rs"

lemma recent_snoc: "0 < n \<Longrightarrow> recent n (xs @ [x]) = (if length (recent n xs) = n then tl (recent n xs) else recent n xs) @ [x]"
  by (auto simp: recent_def Suc_diff_le tl_drop drop_Suc)

lemma saturating_next_id:
  assumes "Suc n < 2 ^ 64"
  shows "u64_saturating_add (of_nat n) 1 = of_nat (Suc n)"
proof -
  have "uint (of_nat n :: u64) = int n" using assms by (simp add: uint_nat unat_of_nat)
  moreover have "int n + 1 < 2 ^ 64" using assms by simp
  ultimately show ?thesis by (simp add: u64_saturating_add_def)
qed

lemma trace_run_state:
  assumes "length rs < 2 ^ 64"
  shows "trace_run to_json rs =
     \<lparr>ts_next_decision_id = of_nat (length rs), ts_next_reconcile_id = of_nat (length rs),
      ts_entries = recent TRACE_CAPACITY (trace_history to_json rs)\<rparr>"
  using assms
proof (induction rs rule: rev_induct)
  case Nil
  show ?case by (simp add: trace_run_def TraceState_default_def trace_history_def recent_def)
next
  case (snoc r rs)
  then have IH: "foldl (record_reconcile to_json) TraceState_default rs =
     \<lparr>ts_next_decision_id = of_nat (length rs), ts_next_reconcile_id = of_nat (length rs),
      ts_entries = recent TRACE_CAPACITY (trace_history to_json rs)\<rparr>" by (simp add: trace_run_def)
  have "Suc (length rs) < 2 ^ 64" using snoc.prems by simp
  note next_id = saturating_next_id [OF this]
  have history: "trace_history to_json (rs @ [r]) = trace_history to_json rs @ [trace_entry to_json (of_nat (Suc (length rs))) (of_nat (Suc (length rs))) r]"
    by (simp add: trace_history_def enumerate_append_eq)
  have "0 < TRACE_CAPACITY" by (simp add: TRACE_CAPACITY_def)
  then show ?case
    unfolding trace_run_def foldl_append foldl.simps IH record_reconcile_def history
    by (simp add: Let_def next_id recent_snoc del: of_nat_Suc)
qed

lemma history_ids:
  assumes "length rs < 2 ^ 64"
  shows "sorted_wrt (<) (map te_decision_id (trace_history to_json rs))"
proof -
  have "(of_nat (Suc i) :: u64) < of_nat (Suc j)" if "i < j" "j < length rs" for i j
    using that assms by (simp add: word_less_nat_alt unat_of_nat del: of_nat_Suc)
  then show ?thesis
    by (auto simp: sorted_wrt_iff_nth_less trace_history_def trace_entry_def Let_def nth_enumerate_eq simp del: of_nat_Suc)
qed

text \<open>
  C21: the ring is the recent end of the history. After any sequence of fewer than 2^64 recorded reconciliations
  the store holds exactly the last 1024 of them, oldest first, each with the identifier of its position;
  identifiers strictly increase, and a page is the first entries after the client's position.
\<close>

theorem trace_refines_history:
  assumes "length rs < 2 ^ 64"
  shows "ts_entries (trace_run to_json rs) = recent 1024 (trace_history to_json rs)
     \<and> sorted_wrt (<) (map te_decision_id (ts_entries (trace_run to_json rs)))
     \<and> trace_page (trace_run to_json rs) after_id limit
         = take (unat limit) (filter (\<lambda>e. after_id < te_decision_id e) (recent 1024 (trace_history to_json rs)))"
proof -
  note run = trace_run_state [OF assms, of to_json]
  have "sorted_wrt (<) (map te_decision_id (recent 1024 (trace_history to_json rs)))"
    using history_ids [OF assms, of to_json] by (simp add: recent_def drop_map [symmetric] sorted_wrt_drop)
  with run show ?thesis by (simp add: trace_page_def TRACE_CAPACITY_def)
qed

definition demo_record :: "u64 \<Rightarrow> unit reconcile_record" where
  "demo_record generation =
     \<lparr>rr_monotonic_ms = 5, rr_duration_micros = 7,
      rr_desired = \<lparr>dp_generation = generation, dp_effective_profile = Balance, dp_dominant_scene = Idle, dp_frequencies = [], dp_scalars = [], dp_tasks = []\<rparr>,
      rr_applied = \<lparr>as_generation = 0, as_frequencies = [], as_scalars = [], as_tasks = []\<rparr>,
      rr_frequency_attempted = True, rr_scheduler_attempted = False, rr_frequency_error = None, rr_scheduler_error = None,
      rr_context = \<lparr>tc_trigger_source = ''timer'', tc_trigger_monotonic_ms = 4, tc_governor = ()\<rparr>\<rparr>"

theorem trace_refines_history_witness:
  "ts_entries (trace_run (\<lambda>_. []) [demo_record 8, demo_record 9]) = recent 1024 (trace_history (\<lambda>_. []) [demo_record 8, demo_record 9])
   \<and> map te_decision_id (recent 1024 (trace_history (\<lambda>_. []) [demo_record 8, demo_record 9])) = [1, 2]"
  using trace_refines_history [of "[demo_record 8, demo_record 9]" "\<lambda>_. []"]
  by (simp add: recent_def trace_history_def trace_entry_def Let_def)

section \<open>Paging\<close>

text \<open>A client that asks for page after page, each after the last identifier it has.\<close>

fun drain :: "nat \<Rightarrow> 'g trace_state \<Rightarrow> u64 \<Rightarrow> u32 \<Rightarrow> 'g decision_trace_entry list" where
  "drain 0 state after_id limit = []"
| "drain (Suc n) state after_id limit =
     (case trace_page state after_id limit of
        [] \<Rightarrow> []
      | e # es \<Rightarrow> (e # es) @ drain n state (te_decision_id (last (e # es))) limit)"

lemma filter_after:
  assumes "sorted_wrt (<) (map f xs)" and "take n (filter (\<lambda>x. a < f x) xs) = ys" and "ys \<noteq> []"
  shows "filter (\<lambda>x. f (last ys) < f x) xs = drop n (filter (\<lambda>x. a < (f x :: 'b::linorder)) xs)"
proof -
  let ?zs = "filter (\<lambda>x. a < f x) xs"
  have sorted: "sorted_wrt (<) (map f ?zs)" using assms(1) by (simp add: sorted_wrt_map sorted_wrt_filter)
  have split: "?zs = ys @ drop n ?zs" using assms(2) by (metis append_take_drop_id)
  have "last ys \<in> set ys" using assms(3) by simp
  then have "last ys \<in> set ?zs" using assms(2) by (auto dest: in_set_takeD)
  then have low: "a < f (last ys)" by simp
  then have "filter (\<lambda>x. f (last ys) < f x) xs = filter (\<lambda>x. f (last ys) < f x) ?zs"
    by (auto simp: filter_filter intro!: filter_cong)
  also have "\<dots> = filter (\<lambda>x. f (last ys) < f x) ys @ filter (\<lambda>x. f (last ys) < f x) (drop n ?zs)"
    by (subst split) simp
  also have "filter (\<lambda>x. f (last ys) < f x) ys = []"
  proof -
    have "sorted_wrt (<) (map f ys)" using sorted by (subst (asm) split) (simp add: sorted_wrt_append)
    then have "sorted_wrt (<) (map f (butlast ys @ [last ys]))" using assms(3) by simp
    then have "\<forall>x \<in> set (butlast ys @ [last ys]). f x \<le> f (last ys)" by (auto simp: sorted_wrt_append less_imp_le)
    then show ?thesis using assms(3) by (auto simp: filter_empty_conv not_less)
  qed
  also have "filter (\<lambda>x. f (last ys) < f x) (drop n ?zs) = drop n ?zs"
  proof -
    have "sorted_wrt (<) (map f (ys @ drop n ?zs))" using sorted split by metis
    then have "\<forall>x \<in> set (drop n ?zs). f (last ys) < f x" using \<open>last ys \<in> set ys\<close> by (auto simp: sorted_wrt_append)
    then show ?thesis by (simp add: filter_id_conv)
  qed
  finally show ?thesis by simp
qed

lemma drain_complete:
  assumes "sorted_wrt (<) (map te_decision_id (ts_entries state))" and "0 < limit"
    and "length (filter (\<lambda>e. a < te_decision_id e) (ts_entries state)) \<le> n"
  shows "drain n state a limit = filter (\<lambda>e. a < te_decision_id e) (ts_entries state)"
  using assms(3)
proof (induction n arbitrary: a)
  case (Suc n)
  let ?zs = "filter (\<lambda>e. a < te_decision_id e) (ts_entries state)"
  have pos: "0 < unat limit" using assms(2) by (simp add: word_less_nat_alt)
  show ?case
  proof (cases "trace_page state a limit")
    case Nil
    then have "?zs = []" using pos by (simp add: trace_page_def)
    with Nil show ?thesis by simp
  next
    case (Cons e es)
    then have page: "take (unat limit) ?zs = e # es" by (simp add: trace_page_def)
    note rest = filter_after [OF assms(1) page, simplified]
    have "length (drop (unat limit) ?zs) \<le> n" using Suc.prems pos by simp
    then have "drain n state (te_decision_id (last (e # es))) limit = drop (unat limit) ?zs"
      using Suc.IH [of "te_decision_id (last (e # es))"] rest by simp
    then have "drain (Suc n) state a limit = (e # es) @ drop (unat limit) ?zs" using Cons by simp
    also have "\<dots> = ?zs" unfolding page [symmetric] by (rule append_take_drop_id)
    finally show ?thesis .
  qed
qed simp

text \<open>
  C35: paging loses and repeats nothing. A client that keeps asking for pages of any positive size, each after
  the last identifier it received, ends up with exactly the retained entries after its starting point, in
  order, whatever was evicted from the ring before it started.
\<close>

theorem paging_is_complete:
  assumes "length rs < 2 ^ 64" and "0 < limit" and "1024 \<le> n"
  shows "drain n (trace_run to_json rs) after_id limit
     = filter (\<lambda>e. after_id < te_decision_id e) (recent 1024 (trace_history to_json rs))"
proof -
  note run = trace_run_state [OF assms(1), of to_json]
  have sorted: "sorted_wrt (<) (map te_decision_id (ts_entries (trace_run to_json rs)))"
    using history_ids [OF assms(1), of to_json] by (simp add: run recent_def drop_map [symmetric] sorted_wrt_drop)
  have "length (filter (\<lambda>e. after_id < te_decision_id e) (ts_entries (trace_run to_json rs))) \<le> 1024"
    by (rule order_trans [OF length_filter_le]) (simp add: run recent_def TRACE_CAPACITY_def)
  with drain_complete [OF sorted assms(2), of after_id n] assms(3) show ?thesis by (simp add: run TRACE_CAPACITY_def)
qed

theorem paging_is_complete_witness:
  "map te_generation (drain 1024 (trace_run (\<lambda>_. []) [demo_record 8, demo_record 9]) 1 1) = [9]"
  using paging_is_complete [of "[demo_record 8, demo_record 9]" 1 1024 "\<lambda>_. []" 1]
  by (simp add: recent_def trace_history_def trace_entry_def demo_record_def Let_def del: drain.simps)

end
