(* ===== verification/Reconcile.thy ===== *)
theory Reconcile
  imports Decision_Trace Actuator_Recovery
begin

text \<open>
  \<open>crates/uperf-daemon/src/reconcile.rs\<close>: the blocking worker that carries one policy decision out. It
  resolves the scheduler's plan against the threads and the CPUs there are, and then, behind the mutation
  gate, gives back what is no longer wanted and applies what is: frequencies within the published safety
  caps, then scalars, then tasks and the unit. What the worker knows to be applied is updated as it goes,
  also when a later step fails.
\<close>

section \<open>Jobs\<close>

text \<open>\<open>RuntimePlatform\<close>: the clock, the process table and the mask of online CPUs.\<close>

record 'w runtime_platform =
  rp_monotonic_millis :: "'w \<Rightarrow> u64 \<times> 'w"
  rp_list_threads :: "process_id \<Rightarrow> ('w, process_id list) port"
  rp_process_identity :: "process_id \<Rightarrow> ('w, process_info) port"
  rp_online_cpus :: "('w, cpu_set) port"

record scheduler_report =
  sp_workload :: "process_identity option"
  sp_matched_rule :: "string option"
  sp_cgroup_class :: "string option"
  sp_systemd_unit :: "string option"

definition SchedulerReport_default :: scheduler_report where
  "SchedulerReport_default = \<lparr>sp_workload = None, sp_matched_rule = None, sp_cgroup_class = None, sp_systemd_unit = None\<rparr>"

record desired_cgroup =
  dc_unit :: string
  dc_properties :: unit_properties

record scheduler_resolution =
  sr_tasks :: "(process_identity, task_plan) btree"
  sr_cgroup :: "desired_cgroup option"
  sr_warning :: "message option"
  sr_matched_rule :: "string option"
  sr_cgroup_class :: "string option"

text \<open>The envelope behind the fence; a mutex is a flag that says whether it was poisoned.\<close>

record frequency_safety_fence =
  ff_poisoned :: bool
  ff_generation :: u64
  ff_upper_caps :: "(target_id, hertz) btree"

definition FrequencySafetyFence_default :: frequency_safety_fence where
  "FrequencySafetyFence_default = \<lparr>ff_poisoned = False, ff_generation = 0, ff_upper_caps = []\<rparr>"

definition fence_poisoned :: message where
  "fence_poisoned = MStr ''frequency safety fence was poisoned''"

definition replace_upper_caps ::
  "frequency_safety_fence \<Rightarrow> (target_id, hertz) btree \<Rightarrow> (message, u64) result \<times> frequency_safety_fence" where
  "replace_upper_caps self upper_caps =
     (if ff_poisoned self then (Inl fence_poisoned, self)
      else let generation = u64_saturating_add (ff_generation self) 1
        in (Inr generation, self\<lparr>ff_generation := generation, ff_upper_caps := upper_caps\<rparr>))"

text \<open>The state of the worker: the machine behind the actuator, and the snapshots the job owns.\<close>

record 'w lane =
  ln_machine :: "'w machine"
  ln_applied :: applied_state
  ln_units :: "(string, unit_properties) btree"
  ln_warning :: "message option"

type_synonym ('w, 'a) step = "('w lane, message, 'a) act"

definition lane_call :: "('w machine, 'e, 'a) act \<Rightarrow> ('w lane, 'e, 'a) act" where
  "lane_call m s = (case m (ln_machine s) of (r, t) \<Rightarrow> (r, s\<lparr>ln_machine := t\<rparr>))"

text \<open>\<open>.map_err(|error| format!(..))?\<close> after a call of the actuator, and after one of the environment.\<close>

definition described :: "string \<Rightarrow> message list \<Rightarrow> ('w, 'a) meth \<Rightarrow> ('w, 'a) step" where
  "described what args m s =
     (case lane_call m s of (r, t) \<Rightarrow> (map_err (\<lambda>e. MFmt what (args @ [error_message e])) r, t))"

definition observed :: "string \<Rightarrow> message list \<Rightarrow> ('w, 'a) port \<Rightarrow> ('w, 'a) step" where
  "observed what args p s =
     (case lane_call (call p) s of (r, t) \<Rightarrow> (map_err (\<lambda>e. MFmt what (args @ [platform_error_message e])) r, t))"

definition upd_applied :: "(applied_state \<Rightarrow> applied_state) \<Rightarrow> ('w, unit) step" where
  "upd_applied f = modify_act (\<lambda>s. s\<lparr>ln_applied := f (ln_applied s)\<rparr>)"

definition upd_frequencies ::
  "((target_id, frequency_limits) btree \<Rightarrow> (target_id, frequency_limits) btree) \<Rightarrow> ('w, unit) step" where
  "upd_frequencies f = upd_applied (\<lambda>a. a\<lparr>as_frequencies := f (as_frequencies a)\<rparr>)"

definition upd_scalars ::
  "((target_id, scalar_setting_value) btree \<Rightarrow> (target_id, scalar_setting_value) btree) \<Rightarrow> ('w, unit) step" where
  "upd_scalars f = upd_applied (\<lambda>a. a\<lparr>as_scalars := f (as_scalars a)\<rparr>)"

definition upd_tasks ::
  "((process_identity, task_plan) btree \<Rightarrow> (process_identity, task_plan) btree) \<Rightarrow> ('w, unit) step" where
  "upd_tasks f = upd_applied (\<lambda>a. a\<lparr>as_tasks := f (as_tasks a)\<rparr>)"

definition upd_units ::
  "((string, unit_properties) btree \<Rightarrow> (string, unit_properties) btree) \<Rightarrow> ('w, unit) step" where
  "upd_units f = modify_act (\<lambda>s. s\<lparr>ln_units := f (ln_units s)\<rparr>)"

section \<open>Frequencies\<close>

definition apply_upper_cap :: "frequency_limits \<Rightarrow> hertz \<Rightarrow> frequency_limits" where
  "apply_upper_cap limits cap =
     (let mx = min (max_hz limits) cap in \<lparr>min_hz = min (min_hz limits) mx, max_hz = mx\<rparr>)"

definition cap_target ::
  "'w actuator \<Rightarrow> (target_id, frequency_limits) btree \<Rightarrow> target_id \<times> hertz \<Rightarrow> ('w, (target_id, frequency_limits) btree) step" where
  "cap_target A effective = (\<lambda>(tid, cap).
     case bt_get effective tid of
       Some limits \<Rightarrow> ret (bt_insert tid (apply_upper_cap limits cap) effective)
     | None \<Rightarrow>
         bind_act (described ''read safety-capped frequency target {id}: {error}'' [MStr tid] (actuator_read_limits A tid)) (\<lambda>current.
         ret (bt_insert tid (apply_upper_cap current cap) effective)))"

definition frequency_requests ::
  "'w actuator \<Rightarrow> frequency_request list \<Rightarrow> target_id \<times> frequency_limits \<Rightarrow> ('w, frequency_request list) step" where
  "frequency_requests A requests = (\<lambda>(tid, limits).
     bind_act (described ''read frequency target {id}: {error}'' [MStr tid] (actuator_read_limits A tid)) (\<lambda>current.
     if current = limits then bind_act (upd_frequencies (bt_insert tid current)) (\<lambda>_. ret requests)
     else ret (requests @ [\<lparr>fr_target = tid, fr_limits = limits\<rparr>])))"

definition apply_frequency_requests :: "'w actuator \<Rightarrow> frequency_request list \<Rightarrow> ('w, frequency_outcome) step" where
  "apply_frequency_requests A requests =
     bind_act (attempt (lane_call (apply_owned_batch_fast A requests))) (\<lambda>result.
     case result of
       Inr applied \<Rightarrow> ret applied
     | Inl (OwnershipRequired _) \<Rightarrow> described ''durably claim frequency batch: {error}'' [] (apply_batch A requests)
     | Inl error \<Rightarrow> throw (MFmt ''apply owned frequency batch: {error}'' [error_message error]))"

definition reconcile_frequencies :: "'w actuator \<Rightarrow> desired_plan \<Rightarrow> (target_id, hertz) btree \<Rightarrow> ('w, unit) step" where
  "reconcile_frequencies A desired upper_caps =
     bind_act (gather (cap_target A) (dp_frequencies desired) upper_caps) (\<lambda>effective.
     bind_act (get_act (\<lambda>s. filter (\<lambda>tid. \<not> bt_contains effective tid) (bt_keys (as_frequencies (ln_applied s))))) (\<lambda>removed.
     bind_act (described ''restore inactive frequency targets: {error}'' [] (restore_targets A removed)) (\<lambda>_.
     bind_act (upd_frequencies (fold bt_remove removed)) (\<lambda>_.
     bind_act (gather (frequency_requests A) [] effective) (\<lambda>requests.
     if requests = [] then ret ()
     else bind_act (apply_frequency_requests A requests) (\<lambda>applied.
          upd_frequencies (\<lambda>m. bt_extend m applied)))))))"

section \<open>Scalars\<close>

fun actuator_scalar_value :: "scalar_setting_value \<Rightarrow> actuator_value" where
  "actuator_scalar_value (ScalarInteger v) = ValInteger v"
| "actuator_scalar_value (ScalarString v) = ValString v"
| "actuator_scalar_value (ScalarCpuList v) = ValCpuList v"

fun policy_scalar_value :: "actuator_value \<Rightarrow> scalar_setting_value" where
  "policy_scalar_value (ValInteger v) = ScalarInteger v"
| "policy_scalar_value (ValString v) = ScalarString v"
| "policy_scalar_value (ValCpuList v) = ScalarCpuList v"

definition scalar_requests ::
  "'w actuator \<Rightarrow> scalar_request list \<Rightarrow> target_id \<times> scalar_setting_value \<Rightarrow> ('w, scalar_request list) step" where
  "scalar_requests A requests = (\<lambda>(tid, desired_value).
     bind_act (described ''read scalar target {id}: {error}'' [MStr tid] (actuator_read_scalar A tid)) (\<lambda>current.
     let desired_value = actuator_scalar_value desired_value
     in if current = desired_value then bind_act (upd_scalars (bt_insert tid (policy_scalar_value current))) (\<lambda>_. ret requests)
        else ret (requests @ [\<lparr>sr_target = tid, sr_value = desired_value\<rparr>])))"

definition reconcile_scalars :: "'w actuator \<Rightarrow> desired_plan \<Rightarrow> ('w, unit) step" where
  "reconcile_scalars A desired =
     bind_act (get_act (\<lambda>s. filter (\<lambda>tid. \<not> bt_contains (dp_scalars desired) tid) (bt_keys (as_scalars (ln_applied s))))) (\<lambda>removed.
     bind_act (described ''restore inactive scalar targets: {error}'' [] (restore_scalars A removed)) (\<lambda>_.
     bind_act (upd_scalars (fold bt_remove removed)) (\<lambda>_.
     bind_act (gather (scalar_requests A) [] (dp_scalars desired)) (\<lambda>requests.
     if requests = [] then ret ()
     else bind_act (described ''apply scalar batch: {error}'' [] (apply_scalars A requests)) (\<lambda>applied.
          upd_scalars (\<lambda>m. bt_extend m (map (\<lambda>(tid, value). (tid, policy_scalar_value value)) applied)))))))"

section \<open>Resolving the scheduler's plan\<close>

definition append_warning :: "message option \<Rightarrow> message \<Rightarrow> message option" where
  "append_warning existing warning =
     (case existing of Some w \<Rightarrow> Some (MJoin ''; '' [w, warning]) | None \<Rightarrow> Some warning)"

text \<open>\<open>PolicyError\<close> as text; the values of \<open>{0:?}\<close> are kept as numbers.\<close>

fun policy_error_message :: "policy_error \<Rightarrow> message" where
  "policy_error_message (InvalidHardwareLimits l) =
     MFmt ''hardware frequency limits are invalid: {0:?}'' [u_num (min_hz l), u_num (max_hz l)]"
| "policy_error_message InvalidFrequencyModel =
     MStr ''floor, reference, and efficient cap must each lie within the hardware limits''"
| "policy_error_message OppOutsideHardwareLimits = MStr ''an OPP lies outside the hardware limits''"
| "policy_error_message InvalidFrequencyQuantum = MStr ''frequency values are not representable in the kernel target unit''"
| "policy_error_message (NoOppAtOrBelowCap h) = MFmt ''no supported OPP is at or below safety cap {0}'' [u_num h]"
| "policy_error_message (ReversedRequest l) =
     MFmt ''requested frequency limits are reversed: {0:?}'' [u_num (min_hz l), u_num (max_hz l)]"
| "policy_error_message (InvalidLoadInput f) = MFmt ''load-policy input `{field}` must be finite and non-negative'' [MStr f]"
| "policy_error_message (MissingProfile p) = MFmt ''policy configuration has no profile `{0}`'' [MStr (profile_name p)]"
| "policy_error_message (MissingThermalCap t) = MFmt ''thermal-degraded target `{0}` has no sensor-failure cap'' [MStr t]"
| "policy_error_message (MissingTaskProfile p) = MFmt ''scheduler rule references missing task profile `{0}`'' [MStr p]"
| "policy_error_message (InvalidMatcherRegex m) = MFmt ''a validated workload matcher could not be compiled: {0}'' [MStr m]"
| "policy_error_message (InvalidConfiguration issues) =
     MFmt ''configuration is invalid: {0}'' (map (\<lambda>i. MStr (issue_path i)) issues)"
| "policy_error_message (EnergyGovernor m) = MFmt ''energy governor failed: {0}'' [MStr m]"
| "policy_error_message (MissingPowerBudget p) = MFmt ''profile `{0}` has no effective power budget'' [MStr (profile_name p)]"

definition unresolved :: scheduler_resolution where
  "unresolved = \<lparr>sr_tasks = [], sr_cgroup = None, sr_warning = None, sr_matched_rule = None, sr_cgroup_class = None\<rparr>"

definition unit_ownership_warning :: "'w actuator \<Rightarrow> process_identity \<Rightarrow> string \<Rightarrow> ('w, message option) step" where
  "unit_ownership_warning A workload unit =
     bind_act (attempt (lane_call (unit_processes A unit))) (\<lambda>listed.
     case listed of
       Inl error \<Rightarrow> ret (Some (MFmt ''cannot enumerate {unit}: {error}'' [MStr unit, error_message error]))
     | Inr members \<Rightarrow>
         let members = sort_dedup members
         in if members \<noteq> [pi_pid workload]
            then ret (Some (MFmt ''refusing shared or ambiguous unit {unit}; members are {members:?}''
                   [MStr unit, MJoin '', '' (map u_num members)]))
            else
              bind_act (attempt (lane_call (unit_for_process A workload))) (\<lambda>found.
              case found of
                Inr (Some current) \<Rightarrow>
                  if current = unit then ret None
                  else ret (Some (MFmt ''workload unit changed while verifying ownership of {unit}'' [MStr unit]))
              | Inr None \<Rightarrow> ret (Some (MFmt ''workload unit changed while verifying ownership of {unit}'' [MStr unit]))
              | Inl error \<Rightarrow> ret (Some (MFmt ''cannot revalidate ownership of {unit}: {error}'' [MStr unit, error_message error]))))"

definition resolve_cgroup ::
  "'w actuator \<Rightarrow> 'r policy_engine \<Rightarrow> process_identity \<Rightarrow> string \<Rightarrow> cpu_set
   \<Rightarrow> ('w, desired_cgroup option \<times> message option) step" where
  "resolve_cgroup A policy_engine workload class_id online =
     (case List.find (\<lambda>class. cg_id class = class_id) (sc_cgroup_classes (pol_scheduler (pe_config policy_engine))) of
        None \<Rightarrow> ret (None, Some (MFmt ''unknown cgroup class {class_id}'' [MStr class_id]))
      | Some class \<Rightarrow>
          bind_act (attempt (lane_call (unit_for_process A workload))) (\<lambda>found.
          case found of
            Inr None \<Rightarrow> ret (None, Some (MStr ''active workload has no systemd unit''))
          | Inl error \<Rightarrow> ret (None, Some (MFmt ''cannot resolve workload unit: {error}'' [error_message error]))
          | Inr (Some unit) \<Rightarrow>
              bind_act (unit_ownership_warning A workload unit) (\<lambda>warning.
              case warning of
                Some w \<Rightarrow> ret (None, Some w)
              | None \<Rightarrow>
                  let allowed_cpus = CpuSet_intersection (cg_allowed_cpus class) online
                  in if CpuSet_is_empty allowed_cpus
                     then ret (None, Some (MFmt ''cgroup class {class_id} has no configured CPU online; leaving {unit} unchanged''
                            [MStr class_id, MStr unit]))
                     else ret (Some \<lparr>dc_unit = unit, dc_properties =
                            \<lparr>up_cpu_weight = Some (ucast (cg_cpu_weight class)), up_allowed_cpus = Some allowed_cpus\<rparr>\<rparr>, None))))"

text \<open>The threads of the workload: those listed, with the identity of each, less the ones that left meanwhile.\<close>

definition resolve_thread ::
  "'w runtime_platform \<Rightarrow> process_info \<Rightarrow> process_info list \<Rightarrow> process_id \<Rightarrow> ('w, process_info list) step" where
  "resolve_thread environment workload threads thread_id =
     (if thread_id = pi_pid (identity workload) then ret (threads @ [workload])
      else
        bind_act (attempt (lane_call (call (rp_process_identity environment thread_id)))) (\<lambda>found.
        case found of
          Inr thread \<Rightarrow> ret (threads @ [thread])
        | Inl (PlatformDisappeared _) \<Rightarrow> ret threads
        | Inl error \<Rightarrow> throw (MFmt ''resolve workload thread {}: {error}'' [u_num thread_id, platform_error_message error])))"

text \<open>\<open>decision.tasks.retain(..)\<close>: the plans restricted to the CPUs that are online.\<close>

definition restrict_task ::
  "cpu_set \<Rightarrow> process_identity \<times> task_plan \<Rightarrow> (process_identity, task_plan) btree \<times> message option
   \<Rightarrow> (process_identity, task_plan) btree \<times> message option" where
  "restrict_task online = (\<lambda>(ident, plan) (tasks, warning).
     case affinity plan of
       None \<Rightarrow> (tasks @ [(ident, plan)], warning)
     | Some cpus \<Rightarrow>
         let available = CpuSet_intersection cpus online
         in if CpuSet_is_empty available
            then (tasks, append_warning warning
                   (MFmt ''task {} has no configured CPU online; leaving its affinity unchanged'' [u_num (pi_pid ident)]))
            else (tasks @ [(ident, plan\<lparr>affinity := Some available\<rparr>)], warning))"

definition restrict_tasks ::
  "cpu_set \<Rightarrow> (process_identity, task_plan) btree \<Rightarrow> (process_identity, task_plan) btree \<times> message option" where
  "restrict_tasks online tasks = fold (restrict_task online) tasks ([], None)"

definition resolve_scheduler ::
  "('r \<Rightarrow> string \<Rightarrow> bool) \<Rightarrow> 'w runtime_platform \<Rightarrow> 'w actuator \<Rightarrow> 'r policy_engine \<Rightarrow> process_info option
   \<Rightarrow> workload_source \<Rightarrow> scheduler_scene \<Rightarrow> ('w, scheduler_resolution) step" where
  "resolve_scheduler rx_is_match environment A policy_engine workload source scheduler_scene =
     (if \<not> sc_enabled (pol_scheduler (pe_config policy_engine)) then ret unresolved
      else case workload of
        None \<Rightarrow> ret unresolved
      | Some workload \<Rightarrow>
          let pid = pi_pid (identity workload)
          in
          bind_act (observed ''list workload threads: {error}'' [] (rp_list_threads environment pid)) (\<lambda>first_listing.
          bind_act (gather (resolve_thread environment workload) [] first_listing) (\<lambda>threads.
          bind_act (observed ''recheck workload threads: {error}'' [] (rp_list_threads environment pid)) (\<lambda>confirmed.
          if pid \<notin> set confirmed then throw (MStr ''active workload exited during thread classification'')
          else
          let threads = filter (\<lambda>thread. pi_pid (identity thread) \<in> set confirmed) threads
          in
          bind_act (of_result (map_err policy_error_message
             (evaluate_scheduler rx_is_match policy_engine workload threads source scheduler_scene))) (\<lambda>decision.
          bind_act (observed ''read online CPU mask: {error}'' [] (rp_online_cpus environment)) (\<lambda>online.
          case restrict_tasks online (sd_tasks decision) of (tasks, warning) \<Rightarrow>
          bind_act
            (case sd_cgroup_class decision of
               None \<Rightarrow> ret (None, None)
             | Some class_id \<Rightarrow> resolve_cgroup A policy_engine (identity workload) class_id online) (\<lambda>(cgroup, cgroup_warning).
          ret \<lparr>sr_tasks = tasks, sr_cgroup = cgroup,
               sr_warning = (case cgroup_warning of None \<Rightarrow> warning | Some w \<Rightarrow> append_warning warning w),
               sr_matched_rule = sd_matched_rule decision, sr_cgroup_class = sd_cgroup_class decision\<rparr>)))))))"

section \<open>Tasks and units\<close>

fun process_disappeared :: "actuator_error \<Rightarrow> bool" where
  "process_disappeared (ProcessIdentityChanged _) = True"
| "process_disappeared (PlatformFailure (PlatformDisappeared _)) = True"
| "process_disappeared _ = False"

definition apply_task_plan :: "scheduling_state \<Rightarrow> task_plan \<Rightarrow> scheduling_state" where
  "apply_task_plan current desired =
     (let current = (case affinity desired of Some cpus \<Rightarrow> current\<lparr>ss_affinity := cpus\<rparr> | None \<Rightarrow> current);
          current = (case nice desired of Some n \<Rightarrow> current\<lparr>ss_nice := n\<rparr> | None \<Rightarrow> current);
          current = (case tp_scheduling_class desired of
            Some class \<Rightarrow> if class \<noteq> Fifo then current\<lparr>ss_policy := class, ss_rt_priority := None\<rparr> else current\<lparr>ss_policy := class\<rparr>
          | None \<Rightarrow> current);
          current = (case rt_priority desired of Some p \<Rightarrow> current\<lparr>ss_rt_priority := Some p\<rparr> | None \<Rightarrow> current)
      in case (uclamp_min desired, uclamp_max desired) of
           (Some minimum, Some maximum) \<Rightarrow> current\<lparr>ss_uclamp_min := Some minimum, ss_uclamp_max := Some maximum\<rparr>
         | (Some minimum, None) \<Rightarrow>
             current\<lparr>ss_uclamp_min := Some (case ss_uclamp_max current of None \<Rightarrow> minimum | Some maximum \<Rightarrow> min minimum maximum)\<rparr>
         | (None, Some maximum) \<Rightarrow>
             current\<lparr>ss_uclamp_max := Some (case ss_uclamp_min current of None \<Rightarrow> maximum | Some minimum \<Rightarrow> max maximum minimum)\<rparr>
         | (None, None) \<Rightarrow> current)"

definition scheduling_state_as_plan :: "scheduling_state \<Rightarrow> task_plan" where
  "scheduling_state_as_plan state =
     \<lparr>affinity = Some (ss_affinity state), nice = Some (ss_nice state), tp_scheduling_class = Some (ss_policy state),
      rt_priority = ss_rt_priority state, uclamp_min = ss_uclamp_min state, uclamp_max = ss_uclamp_max state\<rparr>"

definition task_requests ::
  "'w actuator \<Rightarrow> task_request list \<times> (process_identity, task_plan) btree \<Rightarrow> process_identity \<times> task_plan
   \<Rightarrow> ('w, task_request list \<times> (process_identity, task_plan) btree) step" where
  "task_requests A = (\<lambda>(requests, verified) (ident, plan).
     bind_act (attempt (lane_call (read_task_state A ident))) (\<lambda>found.
     case found of
       Inl error \<Rightarrow>
         if process_disappeared error then bind_act (upd_tasks (bt_remove ident)) (\<lambda>_. ret (requests, verified))
         else throw (MFmt ''read task {}: {error}'' [u_num (pi_pid ident), error_message error])
     | Inr current \<Rightarrow>
         let desired_state = apply_task_plan current plan
         in if desired_state = current then ret (requests, bt_insert ident (scheduling_state_as_plan current) verified)
            else ret (requests @ [\<lparr>tr_identity = ident, tr_desired = desired_state\<rparr>], verified)))"

definition reconcile_tasks :: "'w actuator \<Rightarrow> desired_plan \<Rightarrow> ('w, unit) step" where
  "reconcile_tasks A desired =
     bind_act (get_act (\<lambda>s. filter (\<lambda>i. \<not> bt_contains (dp_tasks desired) i) (bt_keys (as_tasks (ln_applied s))))) (\<lambda>removed.
     bind_act (described ''restore inactive tasks: {error}'' [] (restore_tasks A removed)) (\<lambda>_.
     bind_act (upd_tasks (fold bt_remove removed)) (\<lambda>_.
     bind_act (gather (task_requests A) ([], []) (dp_tasks desired)) (\<lambda>(requests, verified).
     bind_act (described ''apply task batch: {error}'' [] (apply_tasks A requests)) (\<lambda>applied.
     upd_tasks (\<lambda>m. bt_extend m (bt_extend verified
       (map (\<lambda>(i, scheduling). (i, scheduling_state_as_plan scheduling)) applied))))))))"

definition reconcile_unit :: "'w actuator \<Rightarrow> process_info option \<Rightarrow> desired_cgroup option \<Rightarrow> ('w, unit) step" where
  "reconcile_unit A workload desired_cgroup =
     bind_act (get_act (\<lambda>s. filter (\<lambda>unit. Some unit \<noteq> map_option dc_unit desired_cgroup) (bt_keys (ln_units s)))) (\<lambda>removed.
     bind_act (described ''restore inactive systemd units: {error}'' [] (restore_units A removed)) (\<lambda>_.
     bind_act (upd_units (fold bt_remove removed)) (\<lambda>_.
     case (desired_cgroup, workload) of
       (Some intent, Some workload) \<Rightarrow>
         bind_act (unit_ownership_warning A (identity workload) (dc_unit intent)) (\<lambda>ownership_warning.
         case ownership_warning of
           Some w \<Rightarrow>
             bind_act (modify_act (\<lambda>s. s\<lparr>ln_warning := Some w\<rparr>)) (\<lambda>_.
             bind_act (get_act (\<lambda>s. bt_contains (ln_units s) (dc_unit intent))) (\<lambda>owned.
             if owned
             then bind_act (described ''restore unit after ownership changed: {error}'' [] (restore_units A [dc_unit intent])) (\<lambda>_.
                  upd_units (bt_remove (dc_unit intent)))
             else ret ()))
         | None \<Rightarrow>
             bind_act (get_act (\<lambda>s. bt_get (ln_units s) (dc_unit intent))) (\<lambda>current.
             if current \<noteq> Some (dc_properties intent)
             then bind_act (described ''apply systemd unit policy: {error}'' []
                      (apply_units A [\<lparr>ur_unit = dc_unit intent, ur_desired = dc_properties intent\<rparr>])) (\<lambda>applied.
                  upd_units (\<lambda>m. bt_extend m applied))
             else ret ()))
     | _ \<Rightarrow> ret ())))"

definition reconcile_scheduler ::
  "'w actuator \<Rightarrow> process_info option \<Rightarrow> desired_plan \<Rightarrow> desired_cgroup option \<Rightarrow> ('w, unit) step" where
  "reconcile_scheduler A workload desired desired_cgroup =
     bind_act (reconcile_tasks A desired) (\<lambda>_. reconcile_unit A workload desired_cgroup)"

section \<open>The worker\<close>

record ('w, 'r, 'g) reconcile_job =
  rj_actuator :: "'w actuator"
  rj_environment :: "'w runtime_platform"
  rj_policy_engine :: "'r policy_engine"
  rj_workload :: "process_info option"
  rj_workload_source :: workload_source
  rj_desired :: desired_plan
  rj_applied :: applied_state
  rj_applied_units :: "(string, unit_properties) btree"
  rj_reconcile_frequencies :: bool
  rj_reconcile_scheduler :: bool
  rj_gate_poisoned :: bool
  rj_frequency_safety :: frequency_safety_fence
  rj_context :: "'g decision_trace_context"

record reconcile_outcome =
  ro_desired :: desired_plan
  ro_applied :: applied_state
  ro_applied_units :: "(string, unit_properties) btree"
  ro_frequency_attempted :: bool
  ro_frequency_error :: "message option"
  ro_scheduler_attempted :: bool
  ro_scheduler_error :: "message option"
  ro_scheduler_warning :: "message option"
  ro_scheduler_report :: scheduler_report

fun error_of :: "('e, 'a) result \<Rightarrow> 'e option" where
  "error_of (Inl e) = Some e"
| "error_of (Inr _) = None"

text \<open>The frequency and scalar lane, and the scheduler lane, each with the error it ends with.\<close>

definition frequency_lane ::
  "'w actuator \<Rightarrow> frequency_safety_fence \<Rightarrow> desired_plan \<Rightarrow> ('w, unit) step" where
  "frequency_lane A fence desired =
     (if ff_poisoned fence then throw fence_poisoned
      else bind_act (reconcile_frequencies A desired (ff_upper_caps fence)) (\<lambda>_. reconcile_scalars A desired))"

definition run_lanes ::
  "('w, 'r, 'g) reconcile_job \<Rightarrow> desired_plan \<Rightarrow> scheduler_resolution option \<Rightarrow> message option \<Rightarrow> 'w lane
   \<Rightarrow> (message option \<times> message option) \<times> 'w lane" where
  "run_lanes job desired scheduler scheduler_error s =
     (case (if rj_reconcile_frequencies job then frequency_lane (rj_actuator job) (rj_frequency_safety job) desired s else (Inr (), s))
      of (frequency, s1) \<Rightarrow>
      case scheduler of
        None \<Rightarrow> ((error_of frequency, scheduler_error), s1)
      | Some resolution \<Rightarrow>
          (case reconcile_scheduler (rj_actuator job) (rj_workload job) desired (sr_cgroup resolution) s1 of (result, s2) \<Rightarrow>
           ((error_of frequency, error_of result), s2)))"

definition report_of :: "('w, 'r, 'g) reconcile_job \<Rightarrow> scheduler_resolution \<Rightarrow> scheduler_report" where
  "report_of job resolution =
     \<lparr>sp_workload = map_option identity (rj_workload job), sp_matched_rule = sr_matched_rule resolution,
      sp_cgroup_class = sr_cgroup_class resolution, sp_systemd_unit = map_option dc_unit (sr_cgroup resolution)\<rparr>"

definition resolve_job ::
  "('r \<Rightarrow> string \<Rightarrow> bool) \<Rightarrow> ('w, 'r, 'g) reconcile_job \<Rightarrow> 'w lane
   \<Rightarrow> (scheduler_resolution option \<times> message option) \<times> 'w lane" where
  "resolve_job rx_is_match job s =
     (if rj_reconcile_scheduler job
      then case resolve_scheduler rx_is_match (rj_environment job) (rj_actuator job) (rj_policy_engine job) (rj_workload job)
                  (rj_workload_source job) (scheduler_scene_for (dp_dominant_scene (rj_desired job))) s of
             (Inr resolution, t) \<Rightarrow> ((Some resolution, None), t\<lparr>ln_warning := sr_warning resolution\<rparr>)
           | (Inl error, t) \<Rightarrow> ((None, Some error), t)
      else ((None, None), s))"

definition gate_poisoned :: message where
  "gate_poisoned = MStr ''runtime mutation gate was poisoned''"

definition run_job ::
  "('r \<Rightarrow> string \<Rightarrow> bool) \<Rightarrow> ('w, 'r, 'g) reconcile_job \<Rightarrow> 'w machine \<Rightarrow> reconcile_outcome \<times> 'w machine" where
  "run_job rx_is_match job m =
     (case resolve_job rx_is_match job
             \<lparr>ln_machine = m, ln_applied = rj_applied job, ln_units = rj_applied_units job, ln_warning = None\<rparr>
      of ((scheduler, scheduler_error), s) \<Rightarrow>
      let desired = (case scheduler of None \<Rightarrow> rj_desired job | Some resolution \<Rightarrow> (rj_desired job)\<lparr>dp_tasks := sr_tasks resolution\<rparr>)
      in case (if \<not> rj_reconcile_frequencies job \<and> scheduler = None then ((None, scheduler_error), s)
               else if rj_gate_poisoned job
               then ((if rj_reconcile_frequencies job then Some gate_poisoned else None,
                      if scheduler \<noteq> None then Some gate_poisoned else scheduler_error), s)
               else run_lanes job desired scheduler scheduler_error s)
         of ((frequency_error, scheduler_error), t) \<Rightarrow>
         (\<lparr>ro_desired = desired, ro_applied = ln_applied t, ro_applied_units = ln_units t,
           ro_frequency_attempted = rj_reconcile_frequencies job, ro_frequency_error = frequency_error,
           ro_scheduler_attempted = rj_reconcile_scheduler job, ro_scheduler_error = scheduler_error,
           ro_scheduler_warning = ln_warning t,
           ro_scheduler_report = (case scheduler of None \<Rightarrow> SchedulerReport_default | Some resolution \<Rightarrow> report_of job resolution)\<rparr>,
          ln_machine t))"

definition reconcile_run ::
  "(scalar_setting_value \<Rightarrow> string) \<Rightarrow> ('r \<Rightarrow> string \<Rightarrow> bool) \<Rightarrow> ('w, 'r, 'g) reconcile_job \<Rightarrow> 'w machine \<times> 'g trace_state
   \<Rightarrow> reconcile_outcome \<times> 'w machine \<times> 'g trace_state" where
  "reconcile_run to_json rx_is_match job = (\<lambda>(m, trace).
     case rp_monotonic_millis (rj_environment job) (w_env m) of (started_at, e) \<Rightarrow>
     case instant_now (ac_clock (rj_actuator job)) (m\<lparr>w_env := e\<rparr>) :: (message, nat) result \<times> _ of (_, m1) \<Rightarrow>
     case run_job rx_is_match job m1 of (outcome, m2) \<Rightarrow>
     case instant_now (ac_clock (rj_actuator job)) m2 :: (message, nat) result \<times> _ of (_, m3) \<Rightarrow>
     (outcome, m3, record_reconcile to_json trace
        \<lparr>rr_monotonic_ms = started_at, rr_duration_micros = (w_now m3 - w_now m1) div 1000,
         rr_desired = ro_desired outcome, rr_applied = ro_applied outcome,
         rr_frequency_attempted = ro_frequency_attempted outcome, rr_scheduler_attempted = ro_scheduler_attempted outcome,
         rr_frequency_error = ro_frequency_error outcome, rr_scheduler_error = ro_scheduler_error outcome,
         rr_context = rj_context job\<rparr>))"

end
