(* ===== verification/Reconcile_Scheduler.thy ===== *)
theory Reconcile_Scheduler
  imports Reconcile Actuator_Safety Engine_Safety
begin

text \<open>
  The scheduler side of the worker: what resolution may give to a task or a unit, and what a worker
  that cannot enter the mutation gate leaves behind.
\<close>

section \<open>Plans restricted to the CPUs online\<close>

definition restricted :: "cpu_set \<Rightarrow> task_plan \<Rightarrow> task_plan" where
  "restricted online q = q\<lparr>affinity := map_option (\<lambda>cpus. CpuSet_intersection cpus online) (affinity q)\<rparr>"

lemma restrict_tasks_spec:
  assumes "(i, p) \<in> set (fst (restrict_tasks online tasks))"
  shows "\<exists>q. (i, q) \<in> set tasks \<and> p = restricted online q \<and> affinity p \<noteq> Some []"
proof -
  have "\<exists>q. (i, q) \<in> set tasks \<and> p = restricted online q \<and> affinity p \<noteq> Some []"
    if "(i, p) \<in> set (fst (fold (restrict_task online) tasks acc))" "(i, p) \<notin> set (fst acc)" for acc
    using that
  proof (induction tasks arbitrary: acc)
    case (Cons x tasks)
    obtain j q where x: "x = (j, q)" by fastforce
    have "(i, p) \<in> set (fst acc) \<or> (i = j \<and> p = restricted online q \<and> affinity p \<noteq> Some [])"
      if "(i, p) \<in> set (fst (restrict_task online x acc))"
      using that by (auto simp: x restrict_task_def restricted_def CpuSet_is_empty_def Let_def split: prod.splits option.splits if_splits)
    with Cons show ?case by (fastforce simp: x)
  qed simp
  from this [of "([], None)"] assms show ?thesis by (simp add: restrict_tasks_def)
qed

lemma observed_Inr_iff: "observed what args p s = (Inr a, t) \<longleftrightarrow> (\<exists>u. call p (ln_machine s) = (Inr a, u) \<and> t = s\<lparr>ln_machine := u\<rparr>)"
  by (auto simp: observed_def lane_call_def map_err_def split: prod.splits sum.splits)

text \<open>
  C30: a task is only ever given CPUs that are online. When the worker resolved the scheduler's plan, either there
  was nothing to resolve, or every task it will touch is one the policy engine decided about, with the
  plan it decided, its affinity cut down to the mask of online CPUs the kernel reported; a task with no
  configured CPU online is left out instead of getting an empty affinity.
\<close>

theorem resolved_tasks_are_runnable:
  fixes env :: "'w runtime_platform"
  assumes "resolve_scheduler rx env A pe workload source sc s = (Inr res, t)"
  shows "res = unresolved \<or> (\<exists>w threads decision online (u :: 'w machine) v.
     workload = Some w \<and> evaluate_scheduler rx pe w threads source sc = Inr decision
     \<and> call (rp_online_cpus env) u = (Inr online, v)
     \<and> list_all (\<lambda>(i, p). \<exists>q. (i, q) \<in> set (sd_tasks decision) \<and> p = restricted online q \<and> affinity p \<noteq> Some []) (sr_tasks res))"
proof (cases "sc_enabled (pol_scheduler (pe_config pe)) \<and> workload \<noteq> None")
  case False
  with assms have "res = unresolved" by (auto simp: resolve_scheduler_def act_simps split: if_splits option.splits)
  then show ?thesis ..
next
  case True
  then obtain w where w: "workload = Some w" and on: "sc_enabled (pol_scheduler (pe_config pe))" by blast
  from assms obtain threads decision online and u v :: "'w machine" where d: "evaluate_scheduler rx pe w threads source sc = Inr decision"
    and online: "call (rp_online_cpus env) u = (Inr online, v)" and res: "sr_tasks res = fst (restrict_tasks online (sd_tasks decision))"
    unfolding resolve_scheduler_def
    by (auto simp: w on Let_def bind_act_Inr_iff act_simps observed_Inr_iff map_err_def case_prod_unfold split: sum.splits if_splits)
  have "list_all (\<lambda>(i, p). \<exists>q. (i, q) \<in> set (sd_tasks decision) \<and> p = restricted online q \<and> affinity p \<noteq> Some []) (sr_tasks res)"
    unfolding res list_all_iff using restrict_tasks_spec by blast
  with d online w show ?thesis by blast
qed

definition demo_platform :: "demo_env runtime_platform" where
  "demo_platform =
     \<lparr>rp_monotonic_millis = (\<lambda>w. (5, w)), rp_list_threads = (\<lambda>p w. (Inr [p], w)),
      rp_process_identity = (\<lambda>p w. (Inl (PlatformDisappeared ''thread''), w)), rp_online_cpus = (\<lambda>w. (Inr [0, 1, 2, 3, 4, 5, 6, 7], w))\<rparr>"

definition demo_lane :: "'w machine \<Rightarrow> 'w lane" where
  "demo_lane m =
     \<lparr>ln_machine = m, ln_applied = \<lparr>as_generation = 0, as_frequencies = [], as_scalars = [], as_tasks = []\<rparr>, ln_units = [], ln_warning = None\<rparr>"

theorem resolved_tasks_are_runnable_witness:
  "\<exists>res t. resolve_scheduler (=) demo_platform demo engine_example (Some workload_example) Explicit Foreground (demo_lane demo_degraded) = (Inr res, t)
     \<and> sr_tasks res \<noteq> [] \<and> list_all (\<lambda>(i, p). affinity p \<noteq> Some []) (sr_tasks res)"
proof -
  let ?run = "resolve_scheduler (=) demo_platform demo engine_example (Some workload_example) Explicit Foreground (demo_lane demo_degraded)"
  have "case ?run of (r, t) \<Rightarrow> (case r of Inl _ \<Rightarrow> False | Inr res \<Rightarrow> sr_tasks res \<noteq> [])" by code_simp
  then obtain res t where run: "?run = (Inr res, t)" and some: "sr_tasks res \<noteq> []" by (cases ?run; cases "fst ?run") auto
  then have "res \<noteq> unresolved" by (auto simp: unresolved_def)
  with resolved_tasks_are_runnable [OF run] have "list_all (\<lambda>(i, p). affinity p \<noteq> Some []) (sr_tasks res)"
    by (auto simp: list_all_iff)
  with run some show ?thesis by blast
qed

section \<open>Units\<close>


definition demo_units :: "demo_env actuator" where
  "demo_units = demo
     \<lparr>ac_proc_reader := Some \<lparr>list_processes = (\<lambda>w. (Inr [42], w)), list_threads = (\<lambda>p w. (Inr [p], w)),
        process_identity_of = (\<lambda>p w. (Inr workload_example, w))\<rparr>,
      ac_systemd := Some \<lparr>sc_unit_for_process = (\<lambda>p w. (Inr (Some ''app.service''), w)),
        unit_instance_identity = (\<lambda>u w. (Inr (UnitInstance u (ControlGroup u)), w)), sc_unit_processes = (\<lambda>u w. (Inr [42, 42], w)),
        read_unit_properties = (\<lambda>u w. (Inr \<lparr>up_cpu_weight = None, up_allowed_cpus = None\<rparr>, w)),
        write_unit_properties = (\<lambda>u p w. (Inr p, w))\<rparr>\<rparr>"

definition demo_class_engine :: "string policy_engine" where
  "demo_class_engine = engine_example\<lparr>pe_config := materialized_example\<lparr>pol_scheduler := (pol_scheduler materialized_example)
     \<lparr>sc_cgroup_classes := [\<lparr>cg_id = ''bg'', cg_allowed_cpu_group = None, cg_allowed_cpus = [0, 1], cg_cpu_weight = 50\<rparr>]\<rparr>\<rparr>\<rparr>"


section \<open>A gate that cannot be entered\<close>

definition only_observed :: "'w lane \<Rightarrow> 'w lane \<Rightarrow> bool" where
  "only_observed s t = (io_only (ln_machine s) (ln_machine t) \<and> ln_applied t = ln_applied s \<and> ln_units t = ln_units s)"

interpretation observe_frame: frame only_observed
  by unfold_locales (auto simp: only_observed_def intro: io_frame.refl io_frame.trans)

lemmas observe_rules = observe_frame.bind observe_frame.pure observe_frame.attempt observe_frame.gather

lemma observe_call: "stays io_only m \<Longrightarrow> stays only_observed (lane_call m)"
  by (auto simp: stays_def lane_call_def only_observed_def split: prod.splits) (metis snd_conv)

lemma observe_port: "stays only_observed (observed what args p)"
  using observe_call [OF io_call_frame(1) [of p]] by (auto simp: stays_def observed_def split: prod.splits) (metis snd_conv)

lemma unit_query_frames: "stays io_only (unit_for_process A i)" "stays io_only (unit_processes A u)"
  unfolding unit_for_process_def unit_processes_def by (auto intro!: io_rules io_frames)

lemma observe_cgroup: "stays only_observed (resolve_cgroup A pe w c online)"
  unfolding resolve_cgroup_def unit_ownership_warning_def Let_def
  by (auto intro!: observe_rules observe_call unit_query_frames split: option.splits sum.splits)

lemma observe_scheduler: "stays only_observed (resolve_scheduler rx env A pe workload source sc)"
  unfolding resolve_scheduler_def resolve_thread_def Let_def
  by (auto intro!: observe_rules observe_call observe_port observe_cgroup io_call_frame(1)
      split: option.splits sum.splits prod.splits platform_error.splits)


definition demo_job :: "bool \<Rightarrow> (demo_env, string, unit) reconcile_job" where
  "demo_job poisoned =
     \<lparr>rj_actuator = demo, rj_environment = demo_platform, rj_policy_engine = engine_example, rj_workload = Some workload_example,
      rj_workload_source = Explicit,
      rj_desired = \<lparr>dp_generation = 1, dp_effective_profile = Balance, dp_dominant_scene = Idle, dp_frequencies = [], dp_scalars = [], dp_tasks = []\<rparr>,
      rj_applied = ln_applied (demo_lane demo_degraded), rj_applied_units = [], rj_reconcile_frequencies = True, rj_reconcile_scheduler = False,
      rj_gate_poisoned = poisoned, rj_frequency_safety = FrequencySafetyFence_default,
      rj_context = \<lparr>tc_trigger_source = ''timer'', tc_trigger_monotonic_ms = 4, tc_governor = ()\<rparr>\<rparr>"


end
