(* ===== verification/Reconcile_Safety.thy ===== *)
theory Reconcile_Safety
  imports Reconcile_Scheduler Write_Ahead_Recovery
begin

text \<open>
  What the worker promises about the safety caps: after a successful reconciliation of the frequencies,
  every capped target is known to be at or below its cap. This composes the fence, the reconciliation and
  the outcome of the actuator's transactions.
\<close>

section \<open>Outcomes of the frequency transactions\<close>

text \<open>What a transaction reports for a prepared request.\<close>

definition shown :: "prepared_frequency \<Rightarrow> frequency_limits" where
  "shown m = (if pf_needs_write m then pf_desired_request m else pf_before_effective m)"

definition answers :: "'w actuator \<Rightarrow> frequency_request \<Rightarrow> prepared_frequency \<Rightarrow> bool" where
  "answers A q m =
     (registry_get (ac_registry A) (fr_target q) = Some (pf_target m) \<and> snap_limits (pf_target m) (fr_limits q) = Inr (pf_desired_request m))"

text \<open>A target the journal claims already, with the same request.\<close>

definition standing :: "journal \<Rightarrow> prepared_frequency \<Rightarrow> bool" where
  "standing j m =
     (\<not> pf_needs_write m \<and> (\<exists>e. bt_get (jn_entries j) (ft_id (pf_target m)) = Some e \<and> je_desired e = pf_desired_request m))"

lemma prepare_owned_answers:
  assumes "prepare_owned A (seen, prepared) q s = (Inr acc, t)"
  shows "\<exists>m. acc = (fr_target q # seen, prepared @ [m]) \<and> fr_target q \<notin> set seen \<and> (answers A q m \<and> shown m = pf_desired_request m)"
  using assms
  by (auto simp: prepare_owned_def Let_def bind_act_Inr_iff act_simps answers_def shown_def ok_or_def split: if_splits option.splits)

lemma prepare_frequency_answers:
  assumes "prepare_frequency A (seen, prepared) q s = (Inr acc, t)"
  shows "\<exists>m. acc = (fr_target q # seen, prepared @ [m]) \<and> fr_target q \<notin> set seen
     \<and> (answers A q m \<and> (shown m = pf_desired_request m \<or> standing (m_journal s) m))"
proof -
  from assms have "\<exists>target d b u prev n. fr_target q \<notin> set seen \<and> registry_get (ac_registry A) (fr_target q) = Some target
    \<and> snap_limits target (fr_limits q) = Inr d \<and> read_limits (ac_io A) target s = (Inr b, u)
    \<and> (n \<or> b = d \<or> (\<exists>e. bt_get (jn_entries (m_journal u)) (ft_id target) = Some e \<and> je_desired e = d))
    \<and> acc = (fr_target q # seen, prepared @ [\<lparr>pf_target = target, pf_before_effective = b,
        pf_previous_request = prev, pf_desired_request = d, pf_needs_write = n\<rparr>])"
    by (auto simp: prepare_frequency_def Let_def bind_act_Inr_iff act_simps ok_or_def split: if_splits option.splits)
  then obtain target d b u prev n where facts: "fr_target q \<notin> set seen" "registry_get (ac_registry A) (fr_target q) = Some target"
      "snap_limits target (fr_limits q) = Inr d" and u: "read_limits (ac_io A) target s = (Inr b, u)"
    and n: "n \<or> b = d \<or> (\<exists>e. bt_get (jn_entries (m_journal u)) (ft_id target) = Some e \<and> je_desired e = d)"
    and acc: "acc = (fr_target q # seen, prepared @ [\<lparr>pf_target = target, pf_before_effective = b,
        pf_previous_request = prev, pf_desired_request = d, pf_needs_write = n\<rparr>])"
    by blast
  have "m_journal u = m_journal s" using staysD [OF read_frames(1) u] by (simp add: io_only_def)
  with facts n show ?thesis by (cases n) (auto simp: acc answers_def shown_def standing_def)
qed

lemma gather_answers:
  assumes step: "\<And>seen prepared q s acc t. f (seen, prepared) q s = (Inr acc, t) \<Longrightarrow>
       (\<exists>m. acc = (fr_target q # seen, prepared @ [m]) \<and> fr_target q \<notin> set seen \<and> P (m_journal s) q m) \<and> m_journal t = m_journal s"
    and "gather f (seen0, prepared0) qs s = (Inr (seen, prepared), t)"
  shows "\<exists>ms. prepared = prepared0 @ ms \<and> list_all2 (P (m_journal s)) qs ms \<and> m_journal t = m_journal s
     \<and> distinct (map fr_target qs) \<and> fr_target ` set qs \<inter> set seen0 = {}"
  using assms(2)
proof (induction qs arbitrary: seen0 prepared0 s)
  case (Cons q qs)
  then obtain acc u where u: "f (seen0, prepared0) q s = (Inr acc, u)" and rest: "gather f acc qs u = (Inr (seen, prepared), t)"
    by (auto simp: bind_act_Inr_iff)
  from step [OF u] obtain m where m: "acc = (fr_target q # seen0, prepared0 @ [m])" "fr_target q \<notin> set seen0" "P (m_journal s) q m"
    and j: "m_journal u = m_journal s" by blast
  from Cons.IH [OF rest [unfolded m(1)]] obtain ms where ms: "prepared = (prepared0 @ [m]) @ ms" "list_all2 (P (m_journal s)) qs ms"
      "m_journal t = m_journal s" "distinct (map fr_target qs)" "fr_target ` set qs \<inter> set (fr_target q # seen0) = {}"
    unfolding j by blast
  with m show ?case by (intro exI [of _ "m # ms"]) auto
qed (auto simp: act_simps)

abbreviation show_in :: "prepared_frequency \<Rightarrow> frequency_outcome \<Rightarrow> frequency_outcome" where
  "show_in m \<equiv> bt_insert (ft_id (pf_target m)) (shown m)"

lemma write_owned_outcome:
  "write_owned A applied attempted xs s = (Inr (o', att, None), t) \<Longrightarrow> o' = fold show_in (map snd xs) applied"
proof (induction A applied attempted xs arbitrary: s rule: write_owned.induct)
  case (2 A applied attempted index m rest)
  show ?case
  proof (cases "pf_needs_write m")
    case False
    with 2 show ?thesis by (simp add: shown_def)
  next
    case True
    with 2(3) obtain actual u v where "apply_requested_limits (ac_io A) (ac_clock A) (pf_target m) (pf_before_effective m) (pf_desired_request m) s = (Inr actual, u)"
      and rest: "write_owned A (bt_insert (ft_id (pf_target m)) actual applied) (attempted @ [index]) rest v = (Inr (o', att, None), t)"
      by (auto simp: bind_attempt bind_act_Inr_iff act_simps split: sum.splits)
        (metis prod.collapse)
    from this(1) have "actual = shown m" using True apply_requested_exact by (auto simp: shown_def)
    with 2(2) [OF _ rest] True show ?thesis by simp
  qed
qed (simp add: act_simps)

text \<open>What the journal says of a target that a transaction does not write.\<close>

definition entry_kept :: "target_id \<Rightarrow> 'w machine \<Rightarrow> 'w machine \<Rightarrow> bool" where
  "entry_kept k s t = (bt_get (jn_entries (m_journal t)) k = bt_get (jn_entries (m_journal s)) k)"

interpretation kept_frame: frame "entry_kept k" for k
  by unfold_locales (simp_all add: entry_kept_def)

lemmas kept_rules = kept_frame.bind kept_frame.pure kept_frame.attempt

lemma kept_io: "stays io_only m \<Longrightarrow> stays (entry_kept k) m"
  by (erule stays_mono) (simp add: io_only_def entry_kept_def)

lemma kept_write:
  "k \<notin> (\<lambda>(i, m). ft_id (pf_target m)) ` {x \<in> set xs. pf_needs_write (snd x)} \<Longrightarrow>
     stays (entry_kept k) (write_frequencies A applied attempted xs)"
proof (induction A applied attempted xs rule: write_frequencies.induct)
  case (2 A applied attempted index m rest)
  have one: "stays (entry_kept k) (upd_journal (\<lambda>j. j\<lparr>jn_entries := bt_get_mut (ft_id (pf_target m)) (settled actual) (jn_entries j)\<rparr>))"
    if "pf_needs_write m" for actual
    using 2(3) that by (auto simp: stays_def upd_journal_def act_simps entry_kept_def bt_get_get_mut)
  have "k \<notin> (\<lambda>(i, m). ft_id (pf_target m)) ` {x \<in> set rest. pf_needs_write (snd x)}" using 2(3) by auto
  then show ?case
    using 2(1,2) one
    by (auto intro!: kept_rules kept_io [OF request_frames(1)] split: sum.splits)
qed auto

lemma kept_intents:
  "k \<notin> (\<lambda>m. ft_id (pf_target m)) ` set ms \<Longrightarrow> bt_get (jn_entries (fold record_intent ms j)) k = bt_get (jn_entries j) k"
  by (induction ms arbitrary: j) (auto simp: record_intent_def Let_def bt_get_insert)

lemma write_frequencies_outcome:
  "write_frequencies A applied attempted xs s = (Inr (o', att, None), t) \<Longrightarrow> o' = fold show_in (map snd xs) applied"
proof (induction A applied attempted xs arbitrary: s rule: write_frequencies.induct)
  case (2 A applied attempted index m rest)
  show ?case
  proof (cases "pf_needs_write m")
    case False
    with 2 show ?thesis by (simp add: shown_def)
  next
    case True
    with 2(3) obtain actual u v where "apply_requested_limits (ac_io A) (ac_clock A) (pf_target m) (pf_previous_request m) (pf_desired_request m) s = (Inr actual, u)"
      and rest: "write_frequencies A (bt_insert (ft_id (pf_target m)) actual applied) (attempted @ [index]) rest v = (Inr (o', att, None), t)"
      by (auto simp: bind_attempt bind_act_Inr_iff act_simps split: sum.splits)
        (metis prod.collapse)
    from this(1) have "actual = shown m" using True apply_requested_exact by (auto simp: shown_def)
    with 2(2) [OF _ rest] True show ?thesis by simp
  qed
qed (simp add: act_simps)

lemma unwritten_shown: "list_all (\<lambda>m. \<not> pf_needs_write m) ms \<Longrightarrow> unwritten_outcome ms = fold show_in ms []"
proof -
  have "list_all (\<lambda>m. \<not> pf_needs_write m) ms \<Longrightarrow>
      fold (\<lambda>e. bt_insert (fst e) (snd e)) (map (\<lambda>m. (ft_id (pf_target m), pf_before_effective m)) ms) a = fold show_in ms a" for a
    by (induction ms arbitrary: a) (simp_all add: shown_def)
  then show "list_all (\<lambda>m. \<not> pf_needs_write m) ms \<Longrightarrow> unwritten_outcome ms = fold show_in ms []"
    by (simp add: unwritten_outcome_def bt_collect_def bt_extend_def)
qed

lemma bind_modify: "bind_act (modify_act h) g s = g () (h s)"
  by (simp add: bind_act_def act_simps)

lemma degrade_fails [simp]: "degrade_locked r s \<noteq> (Inr a, t)"
  by (simp add: degrade_locked_def bind_act_def act_simps)

lemma abort_fails:
  assumes "\<And>s t. finish s \<noteq> (Inr a, t)"
  shows "abort_transaction A rollback j op f g finish s \<noteq> (Inr a, t)"
  using assms
  by (auto simp: abort_transaction_def bind_attempt upd_journal_def bind_act_Inr_iff act_simps split: sum.splits)

lemma commit_owned_success:
  assumes "commit_owned A prepared s = (Inr o', t)"
  obtains u att w where "write_owned A [] [] (enumerate_list prepared) u = (Inr (o', att, None), w)"
proof -
  from assms obtain applied attempted failure u w gen before where loop: "write_owned A [] [] (enumerate_list prepared) u = (Inr (applied, attempted, failure), w)"
    and fin: "(case failure of
       None \<Rightarrow> ret applied
     | Some (failed_target, error) \<Rightarrow>
         bind_act (attempt (frequency_rollback A prepared attempted)) (\<lambda>rolled_back.
         case rolled_back of
           Inl rollback \<Rightarrow>
             degrade_locked (MFmt ''fast transaction failed for {failed_target}: {error}; rollback failed: {rollback}''
               [MStr failed_target, error_message error, error_message rollback])
         | Inr _ \<Rightarrow>
             bind_act (upd_journal (\<lambda>j. j\<lparr>jn_generation := gen,
                 jn_entries := bt_extend (jn_entries j) before\<rparr>)) (\<lambda>_.
             throw (TransactionError (MStr failed_target) (error_message error))))) w = (Inr o', t)"
    unfolding commit_owned_def by (elim bind_act_InrE) (auto simp: act_simps split: prod.splits)
  from fin have "failure = None \<and> applied = o'"
    by (cases failure) (auto simp: act_simps bind_attempt upd_journal_def bind_act_Inr_iff split: sum.splits)
  with loop that show ?thesis by blast
qed

lemma commit_batch_success:
  assumes "commit_batch A prepared s = (Inr o', t)"
  obtains w att x where
      "persist_journal A (s\<lparr>m_journal := fold record_intent (filter pf_needs_write prepared) (next_generation (m_journal s))\<rparr>) = (Inr (), w)"
    and "write_frequencies A [] [] (enumerate_list prepared) w = (Inr (o', att, None), x)"
    and "persist_journal A x = (Inr (), t)"
proof -
  let ?v = "s\<lparr>m_journal := fold record_intent (filter pf_needs_write prepared) (next_generation (m_journal s))\<rparr>"
  obtain r w where persist: "persist_journal A ?v = (r, w)" by fastforce
  with assms have "(case r of
       Inl error \<Rightarrow>
         bind_act (upd_journal (\<lambda>_. m_journal s)) (\<lambda>_.
         degrade_locked (MFmt ''cannot persist pre-mutation journal: {error}'' [error_message error]))
     | Inr _ \<Rightarrow>
         bind_act (write_frequencies A [] [] (enumerate_list prepared)) (finish_batch A prepared (m_journal s))) w = (Inr o', t)"
    by (cases r) (simp_all add: commit_batch_def upd_journal_def bind_attempt bind_modify)
  then have r: "r = Inr ()" and "bind_act (write_frequencies A [] [] (enumerate_list prepared)) (finish_batch A prepared (m_journal s)) w = (Inr o', t)"
    by (auto simp: upd_journal_def split: sum.splits)
  then obtain applied att failure x where loop: "write_frequencies A [] [] (enumerate_list prepared) w = (Inr (applied, att, failure), x)"
    and fin: "finish_batch A prepared (m_journal s) (applied, att, failure) x = (Inr o', t)"
    by (auto simp: bind_act_Inr_iff)
  have none: "failure = None"
    using fin by (cases failure) (auto simp: finish_batch_def act_simps abort_fails)
  obtain r2 y where y: "persist_journal A x = (r2, y)" by fastforce
  from fin none y have "r2 = Inr () \<and> applied = o' \<and> y = t"
    by (auto simp: finish_batch_def bind_attempt act_simps abort_fails split: sum.splits)
  with that persist r loop none y show ?thesis by blast
qed

lemma fast_batch_outcome:
  assumes "apply_owned_batch_fast A qs s = (Inr o', t)"
  shows "\<exists>ms. list_all2 (\<lambda>q m. answers A q m \<and> shown m = pf_desired_request m) qs ms \<and> o' = fold show_in ms []"
proof (cases "qs = []")
  case False
  with assms obtain u v seen prepared where ready: "ensure_mutation_ready s = (Inr (), u)"
    and g: "gather (prepare_owned A) ([], []) qs u = (Inr (seen, prepared), v)"
    and rest: "(if list_all (\<lambda>m. \<not> pf_needs_write m) prepared then ret (unwritten_outcome prepared) else commit_owned A prepared) v = (Inr o', t)"
    by (auto simp: apply_owned_batch_fast_def bind_act_Inr_iff)
  have step: "(\<exists>m. acc = (fr_target q # seen, prepared @ [m]) \<and> fr_target q \<notin> set seen \<and> (answers A q m \<and> shown m = pf_desired_request m))
      \<and> m_journal t = m_journal s" if "prepare_owned A (seen, prepared) q s = (Inr acc, t)" for seen prepared q s acc t
    using prepare_owned_answers [OF that] staysD [OF prepare_owned_frame that] by (simp add: io_only_def)
  from gather_answers [where P = "\<lambda>_ q m. answers A q m \<and> shown m = pf_desired_request m", OF step g]
  have all: "list_all2 (\<lambda>q m. answers A q m \<and> shown m = pf_desired_request m) qs prepared" by auto
  have "o' = fold show_in prepared []"
  proof (cases "list_all (\<lambda>m. \<not> pf_needs_write m) prepared")
    case True
    with rest show ?thesis by (simp add: act_simps unwritten_shown)
  next
    case False
    with rest have commit: "commit_owned A prepared v = (Inr o', t)" by simp
    obtain u att w where "write_owned A [] [] (enumerate_list prepared) u = (Inr (o', att, None), w)"
      by (rule commit_owned_success [OF commit])
    from write_owned_outcome [OF this] show ?thesis by simp
  qed
  with all show ?thesis by blast
qed (use assms in \<open>auto simp: apply_owned_batch_fast_def bind_act_Inr_iff act_simps\<close>)

lemma durable_batch_outcome:
  assumes "apply_batch A qs s = (Inr o', t)" and "\<And>k u. registry_get (ac_registry A) k = Some u \<Longrightarrow> ft_id u = k"
  shows "\<exists>ms. list_all2 (\<lambda>q m. answers A q m \<and> (shown m = pf_desired_request m \<or> standing (m_journal t) m)) qs ms \<and> o' = fold show_in ms []"
proof (cases "qs = []")
  case False
  with assms(1) obtain u v seen prepared where ready: "ensure_mutation_ready s = (Inr (), u)"
    and g: "gather (prepare_frequency A) ([], []) qs u = (Inr (seen, prepared), v)"
    and rest: "(if list_all (\<lambda>m. \<not> pf_needs_write m) prepared then ret (unwritten_outcome prepared) else commit_batch A prepared) v = (Inr o', t)"
    by (auto simp: apply_batch_def bind_act_Inr_iff)
  let ?P = "\<lambda>j q m. answers A q m \<and> (shown m = pf_desired_request m \<or> standing j m)"
  have step: "(\<exists>m. acc = (fr_target q # seen, prepared @ [m]) \<and> fr_target q \<notin> set seen \<and> ?P (m_journal s) q m)
      \<and> m_journal t = m_journal s" if "prepare_frequency A (seen, prepared) q s = (Inr acc, t)" for seen prepared q s acc t
    using prepare_frequency_answers [OF that] staysD [OF prepare_frequency_frame that] by (simp add: io_only_def)
  from gather_answers [where P = ?P, OF step g]
  have all: "list_all2 (?P (m_journal v)) qs prepared" and dist: "distinct (map fr_target qs)" by auto
  have ids: "map (\<lambda>m. ft_id (pf_target m)) prepared = map fr_target qs"
    using all assms(2) by (induction rule: list_all2_induct) (auto simp: answers_def)
  have "o' = fold show_in prepared [] \<and> (\<forall>m \<in> set prepared. \<not> pf_needs_write m \<longrightarrow> entry_kept (ft_id (pf_target m)) v t)"
  proof (cases "list_all (\<lambda>m. \<not> pf_needs_write m) prepared")
    case True
    with rest show ?thesis by (simp add: act_simps unwritten_shown entry_kept_def)
  next
    case False
    let ?v = "v\<lparr>m_journal := fold record_intent (filter pf_needs_write prepared) (next_generation (m_journal v))\<rparr>"
    from rest False have commit: "commit_batch A prepared v = (Inr o', t)" by simp
    obtain w att x where persist: "persist_journal A ?v = (Inr (), w)"
      and loop: "write_frequencies A [] [] (enumerate_list prepared) w = (Inr (o', att, None), x)"
      and last: "persist_journal A x = (Inr (), t)"
      by (rule commit_batch_success [OF commit])
    have "entry_kept k v t" if "m \<in> set prepared" "\<not> pf_needs_write m" "k = ft_id (pf_target m)" for m k
    proof -
      have other: "ft_id (pf_target n) \<noteq> k" if "n \<in> set prepared" "pf_needs_write n" for n
        using that \<open>m \<in> set prepared\<close> \<open>\<not> pf_needs_write m\<close> \<open>k = _\<close> dist unfolding ids [symmetric] distinct_map inj_on_def by metis
      have a: "entry_kept k v ?v" using other by (simp add: entry_kept_def) (subst kept_intents, auto simp: next_generation_def)
      have b: "entry_kept k ?v w" by (rule staysD [OF kept_io [OF persist_frames(1)] persist])
      have c: "entry_kept k w x"
        by (rule staysD [OF kept_write loop]) (use other nth_mem in \<open>fastforce simp: enumerate_list_nth\<close>)
      have d: "entry_kept k x t" by (rule staysD [OF kept_io [OF persist_frames(1)] last])
      show ?thesis using kept_frame.trans [OF kept_frame.trans [OF a b] kept_frame.trans [OF c d]] .
    qed
    with write_frequencies_outcome [OF loop] show ?thesis by simp
  qed
  then have o': "o' = fold show_in prepared []" and kept: "\<And>m. m \<in> set prepared \<Longrightarrow> \<not> pf_needs_write m \<Longrightarrow> entry_kept (ft_id (pf_target m)) v t"
    by auto
  have "list_all2 (?P (m_journal t)) qs prepared"
    using all by (rule list.rel_mono_strong) (auto simp: standing_def dest!: kept simp: entry_kept_def)
  with o' show ?thesis by blast
qed (use assms in \<open>auto simp: apply_batch_def bind_act_Inr_iff act_simps\<close>)

section \<open>The lane\<close>

lemma described_Inr_iff: "described w args m s = (Inr a, t) \<longleftrightarrow> (\<exists>u. m (ln_machine s) = (Inr a, u) \<and> t = s\<lparr>ln_machine := u\<rparr>)"
  by (auto simp: described_def lane_call_def map_err_def split: prod.splits sum.splits)

lemma max_upper_cap [simp]: "max_hz (apply_upper_cap l cap) \<le> cap"
  by (simp add: apply_upper_cap_def Let_def)

lemma cap_target_step:
  assumes "cap_target A effective (tid, cap) s = (Inr e, t)"
  shows "\<exists>l. e = bt_insert tid (apply_upper_cap l cap) effective \<and> ln_applied t = ln_applied s"
  using assms by (auto simp: cap_target_def act_simps bind_act_Inr_iff described_Inr_iff split: option.splits)

lemma capped_effective:
  assumes "gather (cap_target A) e0 caps s = (Inr e, t)" and "distinct (map fst caps)" and "bt_wf e0"
  shows "bt_wf e \<and> ln_applied t = ln_applied s \<and> (\<forall>k. k \<notin> fst ` set caps \<longrightarrow> bt_get e k = bt_get e0 k)
     \<and> (\<forall>(k, cap) \<in> set caps. \<exists>l. bt_get e k = Some l \<and> max_hz l \<le> cap)"
  using assms
proof (induction caps arbitrary: e0 s)
  case (Cons x caps)
  obtain tid cap where x: "x = (tid, cap)" by fastforce
  from Cons.prems(1) obtain e1 u where u: "cap_target A e0 (tid, cap) s = (Inr e1, u)" and rest: "gather (cap_target A) e1 caps u = (Inr e, t)"
    by (auto simp: x bind_act_Inr_iff)
  from cap_target_step [OF u] obtain l where l: "e1 = bt_insert tid (apply_upper_cap l cap) e0" "ln_applied u = ln_applied s" by blast
  have "bt_wf e1" using Cons.prems(3) by (simp add: l(1) bt_wf_insert)
  from Cons.IH [OF rest _ this] Cons.prems(2) have IH: "bt_wf e \<and> ln_applied t = ln_applied u \<and> (\<forall>k. k \<notin> fst ` set caps \<longrightarrow> bt_get e k = bt_get e1 k)
     \<and> (\<forall>(k, cap) \<in> set caps. \<exists>l. bt_get e k = Some l \<and> max_hz l \<le> cap)" by simp
  moreover have "bt_get e tid = Some (apply_upper_cap l cap)"
    using IH Cons.prems(2) by (auto simp: x l(1) bt_get_insert)
  ultimately show ?case using l by (auto simp: x bt_get_insert)
qed (auto simp: act_simps)

abbreviation known :: "'w lane \<Rightarrow> target_id \<Rightarrow> frequency_limits option" where
  "known s \<equiv> bt_get (as_frequencies (ln_applied s))"

definition pair_of :: "frequency_request \<Rightarrow> target_id \<times> frequency_limits" where
  "pair_of q = (fr_target q, fr_limits q)"

lemma frequency_requests_step:
  assumes "frequency_requests A requests (tid, l) s = (Inr rs, t)"
  shows "rs = requests \<and> known t = (known s)(tid \<mapsto> l) \<or> (\<exists>q. rs = requests @ [q] \<and> pair_of q = (tid, l) \<and> known t = known s)"
  using assms
  by (auto simp: frequency_requests_def act_simps bind_act_Inr_iff described_Inr_iff upd_frequencies_def upd_applied_def pair_of_def bt_get_insert
      split: if_splits)

lemma frequency_requests_cover:
  assumes "gather (frequency_requests A) r0 es s = (Inr rs, t)" and "distinct (map fst es)"
  shows "\<exists>new. rs = r0 @ new \<and> pair_of ` set new \<subseteq> set es \<and> (\<forall>k. k \<notin> fst ` set es \<longrightarrow> known t k = known s k)
     \<and> (\<forall>(k, l) \<in> set es. (k, l) \<in> pair_of ` set new \<or> known t k = Some l \<and> k \<notin> fr_target ` set new)"
  using assms
proof (induction es arbitrary: r0 s)
  case (Cons x es)
  obtain tid l where x: "x = (tid, l)" by fastforce
  from Cons.prems(1) obtain r1 u where u: "frequency_requests A r0 (tid, l) s = (Inr r1, u)" and rest: "gather (frequency_requests A) r1 es u = (Inr rs, t)"
    by (auto simp: x bind_act_Inr_iff)
  from Cons.IH [OF rest] Cons.prems(2) obtain new where new: "rs = r1 @ new" "pair_of ` set new \<subseteq> set es"
      "\<And>k. k \<notin> fst ` set es \<Longrightarrow> known t k = known u k"
      "\<And>k l. (k, l) \<in> set es \<Longrightarrow> (k, l) \<in> pair_of ` set new \<or> known t k = Some l \<and> k \<notin> fr_target ` set new"
    unfolding Ball_def split_paired_All prod.case by (metis distinct.simps(2) list.simps(9))
  have fresh: "tid \<notin> fst ` set es" using Cons.prems(2) by (simp add: x)
  have "fr_target ` set new \<subseteq> fst ` set es" using new(2) by (force simp: pair_of_def)
  with fresh have absent: "tid \<notin> fr_target ` set new" by blast
  from frequency_requests_step [OF u] show ?case
  proof (elim disjE exE conjE)
    assume u: "r1 = r0" "known u = (known s)(tid \<mapsto> l)"
    have "(k, l') \<in> pair_of ` set new \<or> known t k = Some l' \<and> k \<notin> fr_target ` set new" if "(k, l') \<in> set (x # es)" for k l'
      using that new(4) [of k l'] new(3) [OF fresh] absent by (auto simp: x u(2))
    then have "\<forall>(k, l) \<in> set (x # es). (k, l) \<in> pair_of ` set new \<or> known t k = Some l \<and> k \<notin> fr_target ` set new" by blast
    with new(1-3) u show ?thesis by (intro exI [of _ new] conjI) (auto simp: x)
  next
    fix q assume q: "r1 = r0 @ [q]" "pair_of q = (tid, l)" "known u = known s"
    then have "fr_target q = tid" by (simp add: pair_of_def)
    have other: "k \<noteq> tid" if "(k, l') \<in> set es" for k l' using that fresh by force
    have "(k, l') \<in> pair_of ` set (q # new) \<or> known t k = Some l' \<and> k \<notin> fr_target ` set (q # new)" if "(k, l') \<in> set es" for k l'
      using new(4) [OF that] other [OF that] \<open>fr_target q = tid\<close> by auto
    then have "\<forall>(k, l) \<in> set (x # es). (k, l) \<in> pair_of ` set (q # new) \<or> known t k = Some l \<and> k \<notin> fr_target ` set (q # new)"
      using q(2) by (auto simp: x)
    with new(1-3) q show ?thesis by (intro exI [of _ "q # new"] conjI) (auto simp: x)
  qed
qed (auto simp: act_simps)

lemma fold_show_get:
  "k \<notin> (\<lambda>m. ft_id (pf_target m)) ` set ms \<Longrightarrow> bt_get (fold show_in ms a) k = bt_get a k"
  "k \<in> (\<lambda>m. ft_id (pf_target m)) ` set ms \<Longrightarrow> \<exists>m \<in> set ms. ft_id (pf_target m) = k \<and> bt_get (fold show_in ms a) k = Some (shown m)"
proof -
  show out: "k \<notin> (\<lambda>m. ft_id (pf_target m)) ` set ms \<Longrightarrow> bt_get (fold show_in ms a) k = bt_get a k" for ms a
    by (induction ms arbitrary: a) (auto simp: bt_get_insert)
  show "k \<in> (\<lambda>m. ft_id (pf_target m)) ` set ms \<Longrightarrow> \<exists>m \<in> set ms. ft_id (pf_target m) = k \<and> bt_get (fold show_in ms a) k = Some (shown m)"
  proof (induction ms arbitrary: a)
    case (Cons m ms)
    show ?case
    proof (cases "k \<in> (\<lambda>m. ft_id (pf_target m)) ` set ms")
      case True
      with Cons.IH [of "show_in m a"] show ?thesis by auto
    next
      case False
      with Cons.prems out [OF False, of "show_in m a"] show ?thesis by (auto simp: bt_get_insert)
    qed
  qed simp
qed

lemma bt_wf_show: "bt_wf a \<Longrightarrow> bt_wf (fold show_in ms a)"
  by (induction ms arbitrary: a) (simp_all add: bt_wf_insert)

lemma bt_get_extend_wf:
  assumes "bt_wf xs"
  shows "bt_get (bt_extend m xs) k = (case bt_get xs k of Some v \<Rightarrow> Some v | None \<Rightarrow> bt_get m k)"
proof -
  have "distinct (map fst xs)" using assms by (simp add: bt_wf_def strict_sorted_iff)
  then have "bt_get (fold (\<lambda>e. bt_insert (fst e) (snd e)) xs m) k = (case bt_get xs k of Some v \<Rightarrow> Some v | None \<Rightarrow> bt_get m k)"
  proof (induction xs arbitrary: m)
    case (Cons x xs)
    have "bt_get xs (fst x) = None" using Cons.prems by (auto simp: bt_get_def map_of_eq_None_iff)
    with Cons show ?case by (auto simp: bt_get_Cons bt_get_insert split: option.splits)
  qed simp
  then show ?thesis by (simp add: bt_extend_def)
qed

lemma snap_limits_max:
  assumes "target_wf t" and "snap_limits t l = Inr d"
  shows "max_hz d \<le> max_hz l"
proof -
  have l: "validate_limits t l = Inr ()" using assms(2) by (auto simp: snap_limits_def rbind_Inr_iff)
  show ?thesis
  proof (cases "ft_opps t = []")
    case True
    with assms l show ?thesis by (auto simp: snap_limits_def rbind_Inr_iff)
  next
    case False
    show ?thesis by (rule snap_limits_cases [OF assms(1) l False]) (use assms in auto)
  qed
qed

lemma applied_requests:
  assumes "apply_frequency_requests A rs s = (Inr applied, t)" and "\<And>k u. registry_get (ac_registry A) k = Some u \<Longrightarrow> ft_id u = k"
  shows "ln_applied t = ln_applied s \<and> (\<exists>ms. list_all2 (\<lambda>q m. answers A q m
     \<and> (shown m = pf_desired_request m \<or> standing (m_journal (ln_machine t)) m)) rs ms \<and> applied = fold show_in ms [])"
proof -
  obtain r u where u: "apply_owned_batch_fast A rs (ln_machine s) = (r, u)" by fastforce
  show ?thesis
  proof (cases r)
    case (Inr a)
    with assms(1) u have "applied = a \<and> ln_applied t = ln_applied s"
      by (auto simp: apply_frequency_requests_def bind_attempt lane_call_def act_simps)
    moreover from fast_batch_outcome [OF u [unfolded Inr]] obtain ms where
      "list_all2 (\<lambda>q m. answers A q m \<and> shown m = pf_desired_request m) rs ms" "a = fold show_in ms []" by blast
    ultimately show ?thesis by (auto elim!: list.rel_mono_strong)
  next
    case (Inl e)
    with assms(1) u obtain v where v: "apply_batch A rs u = (Inr applied, v)" "t = s\<lparr>ln_machine := v\<rparr>"
      by (auto simp: apply_frequency_requests_def bind_attempt lane_call_def act_simps described_Inr_iff split: actuator_error.splits)
    from durable_batch_outcome [OF v(1) assms(2)] v(2) show ?thesis by simp
  qed
qed


definition demo_plan :: "(target_id, frequency_limits) btree \<Rightarrow> desired_plan" where
  "demo_plan frequencies =
     \<lparr>dp_generation = 1, dp_effective_profile = Balance, dp_dominant_scene = Idle, dp_frequencies = frequencies, dp_scalars = [], dp_tasks = []\<rparr>"

abbreviation demo_reconciled :: "demo_env actuator" where
  "demo_reconciled \<equiv> demo_actuator (map (\<lambda>j. j\<lparr>jn_generation := 2\<rparr>) demo_journals)"


text \<open>Two targets, of which only the first is claimed; somebody raised its maximum back to 3 Hz.\<close>

definition demo_second :: frequency_target where
  "demo_second = demo_target\<lparr>ft_id := ''cpu1'', ft_min_path := [RootDir, Normal ''sys'', Normal ''low''], ft_max_path := [RootDir, Normal ''sys'', Normal ''high'']\<rparr>"

definition demo_second_entry :: "frequency_limits \<Rightarrow> frequency_limits list \<Rightarrow> journal_entry" where
  "demo_second_entry applied pairs =
     \<lparr>je_target = ''cpu1'', je_min_path = ft_min_path demo_second, je_max_path = ft_max_path demo_second,
      je_resource_manifest = FrequencyPairManifest (recovery_manifest demo_second),
      je_original = \<lparr>min_hz = 1, max_hz = 3\<rparr>, je_desired = \<lparr>min_hz = 1, max_hz = 2\<rparr>, je_applied = applied, je_legal_pairs = pairs\<rparr>"

definition demo_pair :: "demo_env actuator" where
  "demo_pair =
     (let wide = \<lparr>min_hz = 1, max_hz = 3\<rparr>; narrow = \<lparr>min_hz = 1, max_hz = 2\<rparr>; first = (''cpu0'', demo_entry narrow narrow [narrow])
      in (demo_actuator [demo_journal 2 [first], demo_journal 3 [first, (''cpu1'', demo_second_entry wide [wide, narrow])],
            demo_journal 3 [first, (''cpu1'', demo_second_entry narrow [narrow])]])
         \<lparr>ac_registry := \<lparr>rg_targets = [(''cpu0'', demo_target), (''cpu1'', demo_second)], rg_scalar_targets = []\<rparr>\<rparr>)"

definition demo_raised :: "demo_env lane" where
  "demo_raised =
     demo_lane \<lparr>w_env = \<lparr>de_files = demo_files @ [(ft_min_path demo_second, ''1''), (ft_max_path demo_second, ''3'')], de_disk = None, de_stuck = False\<rparr>,
       w_now = 0, m_mode = ReadWrite, m_journal = demo_journal 1 [(''cpu0'', demo_entry \<lparr>min_hz = 1, max_hz = 2\<rparr> \<lparr>min_hz = 1, max_hz = 2\<rparr> [\<lparr>min_hz = 1, max_hz = 2\<rparr>])],
       m_recovery_required = False\<rparr>"




end
