(* ===== verification/Touch_Input.thy ===== *)
theory Touch_Input
  imports Platform Config "HOL-Library.Multiset"
begin

text \<open>
  \<open>crates/uperf-linux/src/input.rs\<close>, the two state machines behind an input device, and the set of
  contacts the daemon keeps (\<open>ActiveTouchContacts\<close> of \<open>runtime.rs\<close>). A touch device speaks the type-B
  multitouch protocol of the kernel, one raw event at a time; the machine collects a frame and commits
  it at the report. A keyboard or pointer only counts as activity, at most once in an interval.
  \<open>f64::hypot\<close>, whose precision Rust leaves open, is the parameter \<open>hypot\<close>. An \<open>i32\<close> is an integer: the
  code compares and converts these values and never computes with them. An \<open>Instant\<close> is a number of
  nanoseconds.
\<close>

section \<open>Normalized events\<close>

type_synonym input_device_id = u64

record touch_contact_id =
  tc_device :: input_device_id
  tc_tracking_id :: u32

datatype input_event =
    InputTouchDown touch_contact_id f64 f64
  | InputTouchUp touch_contact_id f64 f64
  | InputGesture touch_contact_id f64
  | InputInteraction input_device_id
  | InputResync "input_device_id option"

definition TouchContactId_new :: "input_device_id \<Rightarrow> u32 \<Rightarrow> touch_contact_id" where
  "TouchContactId_new device tracking = \<lparr>tc_device = device, tc_tracking_id = tracking\<rparr>"

section \<open>Axes and thresholds\<close>

datatype touch_configuration_error =
    InvalidAxisRange int int
  | InvalidSwipeDistance f64
  | InvalidEdgeWidth f64

record axis_range =
  ar_minimum :: int
  ar_maximum :: int

definition AxisRange_new :: "int \<Rightarrow> int \<Rightarrow> (touch_configuration_error, axis_range) result" where
  "AxisRange_new minimum maximum =
     (if maximum < minimum then Inl (InvalidAxisRange minimum maximum)
      else Inr \<lparr>ar_minimum = minimum, ar_maximum = maximum\<rparr>)"

definition axis_contains :: "axis_range \<Rightarrow> int \<Rightarrow> bool" where
  "axis_contains a v = (ar_minimum a \<le> v \<and> v \<le> ar_maximum a)"

definition axis_normalize :: "axis_range \<Rightarrow> int \<Rightarrow> f64" where
  "axis_normalize a v =
     (if ar_maximum a = ar_minimum a then Fin 0
      else let numerator = f64_sub (f64_of_int v) (f64_of_int (ar_minimum a));
               denominator = f64_sub (f64_of_int (ar_maximum a)) (f64_of_int (ar_minimum a))
           in f64_clamp (Fin 0) (Fin 1) (f64_div numerator denominator))"

record touch_axes =
  ta_x :: axis_range
  ta_y :: axis_range
  ta_slots :: axis_range

record gesture_config =
  gc_swipe_distance :: f64
  gc_edge_width :: f64

definition GestureConfig_new :: "f64 \<Rightarrow> f64 \<Rightarrow> (touch_configuration_error, gesture_config) result" where
  "GestureConfig_new swipe edge =
     (if \<not> (f64_is_finite swipe \<and> f64_lt (Fin 0) swipe \<and> f64_le swipe (Fin 1)) then Inl (InvalidSwipeDistance swipe)
      else if \<not> f64_is_finite edge \<or> \<not> (f64_le (Fin 0) edge \<and> f64_le edge (f64_lit (1 / 2))) then Inl (InvalidEdgeWidth edge)
      else Inr \<lparr>gc_swipe_distance = swipe, gc_edge_width = edge\<rparr>)"

definition from_input_config :: "input_config \<Rightarrow> (touch_configuration_error, gesture_config) result" where
  "from_input_config c = GestureConfig_new (ic_swipe_distance c) (ic_edge_width c)"

definition default_gesture_config :: gesture_config where
  "default_gesture_config = \<lparr>gc_swipe_distance = f64_lit (3 / 100), gc_edge_width = f64_lit (3 / 100)\<rparr>"

section \<open>Contacts\<close>

record point =
  px :: f64
  py :: f64

definition point_distance :: "(f64 \<Rightarrow> f64 \<Rightarrow> f64) \<Rightarrow> point \<Rightarrow> point \<Rightarrow> f64" where
  "point_distance hypot a b = hypot (f64_sub (px a) (px b)) (f64_sub (py a) (py b))"

record contact =
  co_tracking_id :: u32
  co_raw_x :: "int option"
  co_raw_y :: "int option"
  co_start :: "point option"
  co_last :: "point option"
  co_maximum_distance :: f64
  co_maximum_edge_inward :: f64
  co_down_emitted :: bool

definition Contact_new :: "u32 \<Rightarrow> contact" where
  "Contact_new tracking =
     \<lparr>co_tracking_id = tracking, co_raw_x = None, co_raw_y = None, co_start = None, co_last = None,
      co_maximum_distance = Fin 0, co_maximum_edge_inward = Fin 0, co_down_emitted = False\<rparr>"

definition edge_inward_distance :: "point \<Rightarrow> point \<Rightarrow> f64 \<Rightarrow> f64" where
  "edge_inward_distance start current edge_width =
     (if f64_le edge_width (Fin 0) then Fin 0
      else let far = f64_sub (Fin 1) edge_width;
               m0 = Fin 0;
               m1 = (if f64_le (px start) edge_width then f64_max m0 (f64_sub (px current) (px start)) else m0);
               m2 = (if f64_le far (px start) then f64_max m1 (f64_sub (px start) (px current)) else m1);
               m3 = (if f64_le (py start) edge_width then f64_max m2 (f64_sub (py current) (py start)) else m2);
               m4 = (if f64_le far (py start) then f64_max m3 (f64_sub (py start) (py current)) else m3)
           in f64_max m4 (Fin 0))"

definition refresh_point :: "(f64 \<Rightarrow> f64 \<Rightarrow> f64) \<Rightarrow> touch_axes \<Rightarrow> f64 \<Rightarrow> contact \<Rightarrow> contact" where
  "refresh_point hypot axes edge_width c =
     (case (co_raw_x c, co_raw_y c) of
        (Some raw_x, Some raw_y) \<Rightarrow>
          let point = \<lparr>px = axis_normalize (ta_x axes) raw_x, py = axis_normalize (ta_y axes) raw_y\<rparr>;
              start = (case co_start c of None \<Rightarrow> point | Some p \<Rightarrow> p)
          in c\<lparr>co_start := Some start, co_last := Some point,
               co_maximum_distance := f64_max (co_maximum_distance c) (point_distance hypot start point),
               co_maximum_edge_inward :=
                 f64_max (co_maximum_edge_inward c) (edge_inward_distance start point edge_width)\<rparr>
      | _ \<Rightarrow> c)"

definition is_gesture :: "gesture_config \<Rightarrow> contact \<Rightarrow> bool" where
  "is_gesture config c =
     (if f64_le (gc_swipe_distance config) (co_maximum_distance c) then True
      else if f64_le (gc_edge_width config) (Fin 0) then False
      else f64_le (f64_min (gc_swipe_distance config) (gc_edge_width config)) (co_maximum_edge_inward c))"

section \<open>The touch machine\<close>

datatype raw_touch_event =
    RawSlot int
  | RawTrackingId int
  | RawPositionX int
  | RawPositionY int
  | TouchSyncReport
  | TouchSyncDropped

text \<open>A \<open>SlotState\<close> is its one field, the active contact.\<close>

type_synonym slot_state = "contact option"

record touch_machine =
  tm_device_id :: input_device_id
  tm_axes :: touch_axes
  tm_config :: gesture_config
  tm_current_slot :: "int option"
  tm_slots :: "(int, slot_state) btree"
  tm_pending_releases :: "contact list"
  tm_desynchronized :: bool

definition TouchStateMachine_new :: "input_device_id \<Rightarrow> touch_axes \<Rightarrow> gesture_config \<Rightarrow> touch_machine" where
  "TouchStateMachine_new device axes config =
     \<lparr>tm_device_id = device, tm_axes = axes, tm_config = config,
      tm_current_slot = Some (ar_minimum (ta_slots axes)), tm_slots = [], tm_pending_releases = [],
      tm_desynchronized = False\<rparr>"

definition active_contacts :: "touch_machine \<Rightarrow> nat" where
  "active_contacts m = length (filter (\<lambda>s. s \<noteq> None) (bt_values (tm_slots m)))"

definition reset_after_drop :: "touch_machine \<Rightarrow> touch_machine" where
  "reset_after_drop m =
     m\<lparr>tm_slots := [], tm_pending_releases := [],
       tm_current_slot := Some (ar_minimum (ta_slots (tm_axes m))), tm_desynchronized := True\<rparr>"

text \<open>\<open>u32::try_from\<close> of an \<open>i32\<close>.\<close>

definition u32_try_from :: "int \<Rightarrow> u32 option" where
  "u32_try_from i = (if i < 0 \<or> 2 ^ 32 \<le> i then None else Some (word_of_int i))"

text \<open>\<open>entry(..).or_default()\<close> leaves an inactive slot behind even when nothing is done with it.\<close>

definition slot_entry :: "touch_machine \<Rightarrow> int \<Rightarrow> slot_state" where
  "slot_entry m slot = (case bt_get (tm_slots m) slot of None \<Rightarrow> None | Some s \<Rightarrow> s)"

definition put_slot :: "int \<Rightarrow> slot_state \<Rightarrow> touch_machine \<Rightarrow> touch_machine" where
  "put_slot slot s m = m\<lparr>tm_slots := bt_insert slot s (tm_slots m)\<rparr>"

definition release_contact :: "slot_state \<Rightarrow> touch_machine \<Rightarrow> touch_machine" where
  "release_contact s m =
     (case s of None \<Rightarrow> m | Some c \<Rightarrow> m\<lparr>tm_pending_releases := tm_pending_releases m @ [c]\<rparr>)"

definition handle_tracking_id :: "int \<Rightarrow> touch_machine \<Rightarrow> touch_machine" where
  "handle_tracking_id tracking m =
     (case tm_current_slot m of
        None \<Rightarrow> m
      | Some slot \<Rightarrow>
          let s = slot_entry m slot
          in if tracking = - 1 then release_contact s (put_slot slot None m)
             else case u32_try_from tracking of
                 None \<Rightarrow> put_slot slot s m
               | Some t \<Rightarrow>
                   if (case s of None \<Rightarrow> False | Some c \<Rightarrow> co_tracking_id c = t) then put_slot slot s m
                   else release_contact s (put_slot slot (Some (Contact_new t)) m))"

definition update_position ::
  "(f64 \<Rightarrow> f64 \<Rightarrow> f64) \<Rightarrow> int option \<Rightarrow> int option \<Rightarrow> touch_machine \<Rightarrow> touch_machine" where
  "update_position hypot x y m =
     (case tm_current_slot m of
        None \<Rightarrow> m
      | Some slot \<Rightarrow>
          (case bt_get (tm_slots m) slot of
             Some (Some c) \<Rightarrow>
               let c1 = (case x of None \<Rightarrow> c | Some v \<Rightarrow> c\<lparr>co_raw_x := Some v\<rparr>);
                   c2 = (case y of None \<Rightarrow> c1 | Some v \<Rightarrow> c1\<lparr>co_raw_y := Some v\<rparr>)
               in put_slot slot (Some (refresh_point hypot (tm_axes m) (gc_edge_width (tm_config m)) c2)) m
           | _ \<Rightarrow> m))"

definition append_finished_contact :: "input_device_id \<Rightarrow> gesture_config \<Rightarrow> contact \<Rightarrow> input_event list" where
  "append_finished_contact device config c =
     (case co_last c of
        None \<Rightarrow> []
      | Some p \<Rightarrow>
          let contact = TouchContactId_new device (co_tracking_id c)
          in (if co_down_emitted c then [] else [InputTouchDown contact (px p) (py p)])
             @ [InputTouchUp contact (px p) (py p)]
             @ (if is_gesture config c then [InputGesture contact (co_maximum_distance c)] else []))"

text \<open>One slot of the second loop of \<open>commit_frame\<close>: the events pushed and the slot afterwards.\<close>

definition commit_slot ::
  "(f64 \<Rightarrow> f64 \<Rightarrow> f64) \<Rightarrow> touch_machine \<Rightarrow> slot_state \<Rightarrow> input_event list \<times> slot_state" where
  "commit_slot hypot m s =
     (case s of
        None \<Rightarrow> ([], None)
      | Some c0 \<Rightarrow>
          let c = refresh_point hypot (tm_axes m) (gc_edge_width (tm_config m)) c0
          in case (co_down_emitted c, co_last c) of
              (False, Some p) \<Rightarrow>
                ([InputTouchDown (TouchContactId_new (tm_device_id m) (co_tracking_id c)) (px p) (py p)],
                 Some (c\<lparr>co_down_emitted := True\<rparr>))
            | _ \<Rightarrow> ([], Some c))"

definition commit_frame :: "(f64 \<Rightarrow> f64 \<Rightarrow> f64) \<Rightarrow> touch_machine \<Rightarrow> input_event list \<times> touch_machine" where
  "commit_frame hypot m =
     (let released = concat (map (\<lambda>c. append_finished_contact (tm_device_id m) (tm_config m)
                         (refresh_point hypot (tm_axes m) (gc_edge_width (tm_config m)) c)) (tm_pending_releases m));
          slots = map (\<lambda>(k, s). (k, commit_slot hypot m s)) (tm_slots m)
      in (released @ concat (map (\<lambda>(k, es, s). es) slots),
          m\<lparr>tm_pending_releases := [], tm_slots := map (\<lambda>(k, es, s). (k, s)) slots\<rparr>))"

definition touch_handle ::
  "(f64 \<Rightarrow> f64 \<Rightarrow> f64) \<Rightarrow> raw_touch_event \<Rightarrow> touch_machine \<Rightarrow> input_event list \<times> touch_machine" where
  "touch_handle hypot event m =
     (if event = TouchSyncDropped then ([InputResync (Some (tm_device_id m))], reset_after_drop m)
      else if tm_desynchronized m then
        ([], if event = TouchSyncReport then m\<lparr>tm_desynchronized := False\<rparr> else m)
      else case event of
          RawSlot slot \<Rightarrow>
            ([], m\<lparr>tm_current_slot := (if axis_contains (ta_slots (tm_axes m)) slot then Some slot else None)\<rparr>)
        | RawTrackingId tracking \<Rightarrow> ([], handle_tracking_id tracking m)
        | RawPositionX v \<Rightarrow> ([], update_position hypot (Some v) None m)
        | RawPositionY v \<Rightarrow> ([], update_position hypot None (Some v) m)
        | TouchSyncReport \<Rightarrow> commit_frame hypot m
        | TouchSyncDropped \<Rightarrow> ([], m))"

definition rebuild_single_slot ::
  "(f64 \<Rightarrow> f64 \<Rightarrow> f64) \<Rightarrow> int \<Rightarrow> int \<Rightarrow> int \<Rightarrow> touch_machine \<Rightarrow> input_event list \<times> touch_machine" where
  "rebuild_single_slot hypot tracking raw_x raw_y m =
     (let slot = ar_minimum (ta_slots (tm_axes m));
          clean = m\<lparr>tm_slots := [], tm_pending_releases := [], tm_current_slot := Some slot,
                    tm_desynchronized := False\<rparr>
      in case u32_try_from tracking of
          None \<Rightarrow> ([], clean)
        | Some t \<Rightarrow>
            commit_frame hypot
              (put_slot slot (Some ((Contact_new t)\<lparr>co_raw_x := Some raw_x, co_raw_y := Some raw_y\<rparr>)) clean))"

section \<open>Key and pointer activity\<close>

text \<open>The key and axis codes of the kernel that the source names; the others only by number.\<close>

datatype key_code =
    KEY_POWER | KEY_POWER2 | KEY_SLEEP | KEY_WAKEUP | KEY_SUSPEND | KEY_RESTART | KEY_COFFEE
  | KEY_DISPLAY_OFF | KEY_SCREENSAVER | OtherKey nat

datatype relative_axis_code =
    REL_X | REL_Y | REL_WHEEL | REL_HWHEEL | REL_WHEEL_HI_RES | REL_HWHEEL_HI_RES | OtherRelative nat

definition is_interaction_key :: "key_code \<Rightarrow> bool" where
  "is_interaction_key code =
     (code \<notin> {KEY_POWER, KEY_POWER2, KEY_SLEEP, KEY_WAKEUP, KEY_SUSPEND, KEY_RESTART, KEY_COFFEE,
               KEY_DISPLAY_OFF, KEY_SCREENSAVER})"

definition is_interaction_relative_axis :: "relative_axis_code \<Rightarrow> bool" where
  "is_interaction_relative_axis axis =
     (axis \<in> {REL_X, REL_Y, REL_WHEEL, REL_HWHEEL, REL_WHEEL_HI_RES, REL_HWHEEL_HI_RES})"

datatype raw_interaction_event =
    RawKey key_code int
  | RawRelative relative_axis_code int
  | InteractionSyncReport
  | InteractionSyncDropped

type_synonym instant = nat

record interaction_machine =
  im_device_id :: input_device_id
  im_pending :: bool
  im_last_emitted :: "instant option"
  im_coalesce_interval :: nat

definition InteractionStateMachine_new :: "input_device_id \<Rightarrow> nat \<Rightarrow> interaction_machine" where
  "InteractionStateMachine_new device interval =
     \<lparr>im_device_id = device, im_pending = False, im_last_emitted = None, im_coalesce_interval = interval\<rparr>"

definition interaction_handle ::
  "raw_interaction_event \<Rightarrow> instant \<Rightarrow> interaction_machine \<Rightarrow> input_event option \<times> interaction_machine" where
  "interaction_handle event now m =
     (case event of
        RawKey code v \<Rightarrow> (None, if v = 1 \<and> is_interaction_key code then m\<lparr>im_pending := True\<rparr> else m)
      | RawRelative axis v \<Rightarrow>
          (None, if v \<noteq> 0 \<and> is_interaction_relative_axis axis then m\<lparr>im_pending := True\<rparr> else m)
      | InteractionSyncDropped \<Rightarrow> (None, m\<lparr>im_pending := False\<rparr>)
      | InteractionSyncReport \<Rightarrow>
          let taken = m\<lparr>im_pending := False\<rparr>
          in if \<not> im_pending m
                \<or> (case im_last_emitted m of None \<Rightarrow> False | Some l \<Rightarrow> now - l < im_coalesce_interval m)
             then (None, taken)
             else (Some (InputInteraction (im_device_id m)), taken\<lparr>im_last_emitted := Some now\<rparr>))"

section \<open>The contacts of the daemon\<close>

type_synonym active_touch_contacts = "touch_contact_id set"

definition press :: "touch_contact_id \<Rightarrow> active_touch_contacts \<Rightarrow> bool \<times> active_touch_contacts" where
  "press c s = (c \<notin> s \<and> s = {}, insert c s)"

definition release :: "touch_contact_id \<Rightarrow> active_touch_contacts \<Rightarrow> bool \<times> active_touch_contacts" where
  "release c s = (c \<in> s \<and> s - {c} = {}, s - {c})"

definition resync :: "input_device_id option \<Rightarrow> active_touch_contacts \<Rightarrow> bool \<times> active_touch_contacts" where
  "resync device s =
     (let s' = (case device of Some d \<Rightarrow> Set.filter (\<lambda>c. tc_device c \<noteq> d) s | None \<Rightarrow> {})
      in (s \<noteq> {} \<and> s' = {}, s'))"

text \<open>What \<open>reduce_runtime_input\<close> does with the contacts.\<close>

fun reduce_contacts :: "input_event \<Rightarrow> active_touch_contacts \<Rightarrow> active_touch_contacts" where
  "reduce_contacts (InputTouchDown c x y) s = snd (press c s)"
| "reduce_contacts (InputTouchUp c x y) s = snd (release c s)"
| "reduce_contacts (InputGesture c d) s = s"
| "reduce_contacts (InputInteraction d) s = s"
| "reduce_contacts (InputResync d) s = snd (resync d s)"

end
