(* ===== verification/Input_Source.thy ===== *)
theory Input_Source
  imports Touch_Input
begin

text \<open>
  \<open>EvdevInputSource\<close> of \<open>crates/uperf-linux/src/input.rs\<close>: the devices below one directory, discovered,
  opened, read and dropped again as they come and go, with the queue of normalized events; and the
  thread of \<open>crates/uperf-daemon/src/observers.rs\<close> that forwards the events. The \<open>evdev\<close> crate, the
  directory and the clock are the ports of \<open>evdev_ports\<close>, functions of an environment \<open>'w\<close>; a raw device
  is a handle \<open>'d\<close>. Every path of the source is an entry of its root directory, so the maps are keyed by
  the name of the entry. Durations and instants are in nanoseconds.
\<close>

section \<open>The ports\<close>

datatype io_kind = IoNotFound | IoWouldBlock | IoOther

record io_error =
  io_kind :: io_kind
  io_text :: string

datatype absolute_axis_code =
    ABS_MT_SLOT | ABS_MT_TRACKING_ID | ABS_MT_POSITION_X | ABS_MT_POSITION_Y | OtherAbsolute nat

record abs_info =
  ai_value :: int
  ai_minimum :: int
  ai_maximum :: int

datatype evdev_event =
    EvAbsolute absolute_axis_code int
  | EvKey key_code int
  | EvRelative relative_axis_code int
  | EvSynReport
  | EvSynDropped
  | EvOther

record node_identity =
  ni_device :: u64
  ni_inode :: u64

record ('w, 'd) evdev_ports =
  ev_read_dir :: "path_buf \<Rightarrow> 'w \<Rightarrow> (io_error, (io_error, string) result list) result \<times> 'w"
  ev_metadata :: "path_buf \<Rightarrow> 'w \<Rightarrow> (io_error, node_identity) result \<times> 'w"
  ev_open :: "path_buf \<Rightarrow> 'w \<Rightarrow> (io_error, 'd) result \<times> 'w"
  ev_supported_absolute_axes :: "'d \<Rightarrow> absolute_axis_code list option"
  ev_supported_keys :: "'d \<Rightarrow> key_code list option"
  ev_supported_relative_axes :: "'d \<Rightarrow> relative_axis_code list option"
  ev_get_absinfo :: "'d \<Rightarrow> 'w \<Rightarrow> (io_error, (absolute_axis_code \<times> abs_info) list) result \<times> 'w"
  ev_fetch_events :: "'d \<Rightarrow> 'w \<Rightarrow> (io_error, evdev_event list) result \<times> 'w"
  ev_now :: "'w \<Rightarrow> instant \<times> 'w"
  ev_hypot :: "f64 \<Rightarrow> f64 \<Rightarrow> f64"

section \<open>Devices\<close>

definition map_touch_event :: "evdev_event \<Rightarrow> raw_touch_event option" where
  "map_touch_event e =
     (case e of
        EvAbsolute ABS_MT_SLOT v \<Rightarrow> Some (RawSlot v)
      | EvAbsolute ABS_MT_TRACKING_ID v \<Rightarrow> Some (RawTrackingId v)
      | EvAbsolute ABS_MT_POSITION_X v \<Rightarrow> Some (RawPositionX v)
      | EvAbsolute ABS_MT_POSITION_Y v \<Rightarrow> Some (RawPositionY v)
      | EvSynReport \<Rightarrow> Some TouchSyncReport
      | EvSynDropped \<Rightarrow> Some TouchSyncDropped
      | _ \<Rightarrow> None)"

definition map_interaction_event :: "evdev_event \<Rightarrow> raw_interaction_event option" where
  "map_interaction_event e =
     (case e of
        EvKey code v \<Rightarrow> Some (RawKey code v)
      | EvRelative axis v \<Rightarrow> Some (RawRelative axis v)
      | EvSynReport \<Rightarrow> Some InteractionSyncReport
      | EvSynDropped \<Rightarrow> Some InteractionSyncDropped
      | _ \<Rightarrow> None)"

definition supports_interaction :: "('w, 'd) evdev_ports \<Rightarrow> 'd \<Rightarrow> bool" where
  "supports_interaction E d =
     ((case ev_supported_keys E d of None \<Rightarrow> False | Some keys \<Rightarrow> list_ex is_interaction_key keys)
      \<or> (case ev_supported_relative_axes E d of None \<Rightarrow> False | Some axes \<Rightarrow> list_ex is_interaction_relative_axis axes))"

text \<open>The loop over the axes keeps the last range of each; \<open>x.zip(y).zip(slots)\<close> needs all three.\<close>

definition axis_range_of :: "abs_info \<Rightarrow> axis_range option" where
  "axis_range_of info = (case AxisRange_new (ai_minimum info) (ai_maximum info) of Inl _ \<Rightarrow> None | Inr r \<Rightarrow> Some r)"

fun collect_axes ::
  "axis_range option \<times> axis_range option \<times> axis_range option \<Rightarrow> (absolute_axis_code \<times> abs_info) list
     \<Rightarrow> axis_range option \<times> axis_range option \<times> axis_range option" where
  "collect_axes acc [] = acc"
| "collect_axes (x, y, slots) ((axis, info) # rest) =
     collect_axes
       (if axis = ABS_MT_POSITION_X \<and> ai_minimum info < ai_maximum info then (axis_range_of info, y, slots)
        else if axis = ABS_MT_POSITION_Y \<and> ai_minimum info < ai_maximum info then (x, axis_range_of info, slots)
        else if axis = ABS_MT_SLOT then (x, y, axis_range_of info)
        else (x, y, slots)) rest"

definition touch_axes_of ::
  "('w, 'd) evdev_ports \<Rightarrow> 'd \<Rightarrow> 'w \<Rightarrow> (io_error, touch_axes option) result \<times> 'w" where
  "touch_axes_of E d w =
     (case ev_supported_absolute_axes E d of
        None \<Rightarrow> (Inr None, w)
      | Some supported \<Rightarrow>
          if \<not> list_all (\<lambda>a. a \<in> set supported) [ABS_MT_SLOT, ABS_MT_TRACKING_ID, ABS_MT_POSITION_X, ABS_MT_POSITION_Y]
          then (Inr None, w)
          else case ev_get_absinfo E d w of
              (Inl e, w') \<Rightarrow> (Inl e, w')
            | (Inr infos, w') \<Rightarrow>
                (Inr (case collect_axes (None, None, None) infos of
                        (Some x, Some y, Some slots) \<Rightarrow> Some \<lparr>ta_x = x, ta_y = y, ta_slots = slots\<rparr>
                      | _ \<Rightarrow> None), w'))"

datatype observed_device_kind = ObservedTouch touch_axes | ObservedInteraction

definition observed_kind :: "touch_axes option \<Rightarrow> bool \<Rightarrow> observed_device_kind option" where
  "observed_kind axes interaction =
     (case axes of Some a \<Rightarrow> Some (ObservedTouch a) | None \<Rightarrow> if interaction then Some ObservedInteraction else None)"

datatype device_mode = TouchMode touch_machine | InteractionMode interaction_machine

record 'd open_device =
  od_device :: 'd
  od_device_id :: input_device_id
  od_mode :: device_mode

definition is_touch :: "'d open_device \<Rightarrow> bool" where
  "is_touch d = (case od_mode d of TouchMode _ \<Rightarrow> True | InteractionMode _ \<Rightarrow> False)"

definition INTERACTION_COALESCE_INTERVAL :: nat where "INTERACTION_COALESCE_INTERVAL = 16 * 1000000"

definition OpenInputDevice_open ::
  "('w, 'd) evdev_ports \<Rightarrow> path_buf \<Rightarrow> input_device_id \<Rightarrow> gesture_config \<Rightarrow> 'w
     \<Rightarrow> (io_error, 'd open_device option) result \<times> 'w" where
  "OpenInputDevice_open E path device_id config w =
     (case ev_open E path w of
        (Inl e, w1) \<Rightarrow> (Inl e, w1)
      | (Inr d, w1) \<Rightarrow>
          (case touch_axes_of E d w1 of
             (Inl e, w2) \<Rightarrow> (Inl e, w2)
           | (Inr axes, w2) \<Rightarrow>
               (Inr (map_option (\<lambda>kind.
                  \<lparr>od_device = d, od_device_id = device_id,
                   od_mode = (case kind of
                      ObservedTouch a \<Rightarrow> TouchMode (TouchStateMachine_new device_id a config)
                    | ObservedInteraction \<Rightarrow>
                        InteractionMode (InteractionStateMachine_new device_id INTERACTION_COALESCE_INTERVAL))\<rparr>)
                  (observed_kind axes (supports_interaction E d))), w2)))"

text \<open>The last value of each of the three axes, when the device has one slot only.\<close>

fun collect_snapshot ::
  "int option \<times> int option \<times> int option \<Rightarrow> (absolute_axis_code \<times> abs_info) list
     \<Rightarrow> int option \<times> int option \<times> int option" where
  "collect_snapshot acc [] = acc"
| "collect_snapshot (t, x, y) ((axis, info) # rest) =
     collect_snapshot
       (if axis = ABS_MT_TRACKING_ID then (Some (ai_value info), x, y)
        else if axis = ABS_MT_POSITION_X then (t, Some (ai_value info), y)
        else if axis = ABS_MT_POSITION_Y then (t, x, Some (ai_value info))
        else (t, x, y)) rest"

definition single_slot_kernel_snapshot ::
  "('w, 'd) evdev_ports \<Rightarrow> 'd \<Rightarrow> touch_axes \<Rightarrow> 'w \<Rightarrow> (io_error, (int \<times> int \<times> int) option) result \<times> 'w" where
  "single_slot_kernel_snapshot E d axes w =
     (if ar_minimum (ta_slots axes) \<noteq> ar_maximum (ta_slots axes) then (Inr None, w)
      else case ev_get_absinfo E d w of
          (Inl e, w') \<Rightarrow> (Inl e, w')
        | (Inr infos, w') \<Rightarrow>
            (case collect_snapshot (None, None, None) infos of
               (Some t, Some x, Some y) \<Rightarrow> (Inr (Some (t, x, y)), w')
             | _ \<Rightarrow>
                 (Inl \<lparr>io_kind = IoOther, io_text = ''single-slot touch device omitted required absolute-axis state''\<rparr>, w')))"

text \<open>
  One event of a touch device: what is pushed, the machine afterwards, and the error of the snapshot that
  a report after lost frames asks the kernel for.
\<close>

definition touch_event_step ::
  "('w, 'd) evdev_ports \<Rightarrow> 'd \<Rightarrow> raw_touch_event \<Rightarrow> touch_machine \<Rightarrow> 'w
     \<Rightarrow> (io_error, unit) result \<times> input_event list \<times> touch_machine \<times> 'w" where
  "touch_event_step E d event m w =
     (case touch_handle (ev_hypot E) event m of
        (out, m1) \<Rightarrow>
          if tm_desynchronized m \<and> event = TouchSyncReport \<and> \<not> tm_desynchronized m1 then
            (case single_slot_kernel_snapshot E d (tm_axes m1) w of
               (Inl e, w1) \<Rightarrow> (Inl e, out, m1, w1)
             | (Inr None, w1) \<Rightarrow> (Inr (), out, m1, w1)
             | (Inr (Some (t, x, y)), w1) \<Rightarrow>
                 (case rebuild_single_slot (ev_hypot E) t x y m1 of (out', m2) \<Rightarrow> (Inr (), out @ out', m2, w1)))
          else (Inr (), out, m1, w))"

fun read_events ::
  "('w, 'd) evdev_ports \<Rightarrow> 'd \<Rightarrow> evdev_event list \<Rightarrow> device_mode \<Rightarrow> 'w
     \<Rightarrow> (io_error, unit) result \<times> input_event list \<times> device_mode \<times> 'w" where
  "read_events E d [] mode w = (Inr (), [], mode, w)"
| "read_events E d (event # events) (TouchMode m) w =
     (case map_touch_event event of
        None \<Rightarrow> read_events E d events (TouchMode m) w
      | Some raw \<Rightarrow>
          (case touch_event_step E d raw m w of
             (Inl e, out, m', w') \<Rightarrow> (Inl e, out, TouchMode m', w')
           | (Inr _, out, m', w') \<Rightarrow>
               (case read_events E d events (TouchMode m') w' of (r, out', mode, w'') \<Rightarrow> (r, out @ out', mode, w''))))"
| "read_events E d (event # events) (InteractionMode m) w =
     (case map_interaction_event event of
        None \<Rightarrow> read_events E d events (InteractionMode m) w
      | Some raw \<Rightarrow>
          (case ev_now E w of (now, w') \<Rightarrow>
             (case interaction_handle raw now m of (out, m') \<Rightarrow>
                (case read_events E d events (InteractionMode m') w' of
                   (r, out', mode, w'') \<Rightarrow> (r, (case out of None \<Rightarrow> [] | Some ev \<Rightarrow> [ev]) @ out', mode, w'')))))"

definition read_available ::
  "('w, 'd) evdev_ports \<Rightarrow> 'd open_device \<Rightarrow> 'w \<Rightarrow> (io_error, unit) result \<times> input_event list \<times> 'd open_device \<times> 'w" where
  "read_available E dev w =
     (case ev_fetch_events E (od_device dev) w of
        (Inl e, w1) \<Rightarrow> (Inl e, [], dev, w1)
      | (Inr events, w1) \<Rightarrow>
          (case read_events E (od_device dev) events (od_mode dev) w1 of
             (r, out, mode, w2) \<Rightarrow> (r, out, dev\<lparr>od_mode := mode\<rparr>, w2)))"

section \<open>Discovery\<close>

definition is_event_node :: "string \<Rightarrow> bool" where
  "is_event_node name =
     (take 5 name = ''event'' \<and> drop 5 name \<noteq> [] \<and> list_all (\<lambda>c. c \<in> set ''0123456789'') (drop 5 name))"

definition entry_path :: "path_buf \<Rightarrow> string \<Rightarrow> path_buf" where
  "entry_path directory name = directory @ [Normal name]"

fun collect_nodes ::
  "('w, 'd) evdev_ports \<Rightarrow> path_buf \<Rightarrow> (string, node_identity) btree \<Rightarrow> (io_error, string) result list \<Rightarrow> 'w
     \<Rightarrow> (string, node_identity) btree platform_result \<times> 'w" where
  "collect_nodes E directory nodes [] w = (Inr nodes, w)"
| "collect_nodes E directory nodes (Inl e # rest) w =
     (Inl (platform_io ''read evdev input directory entry'' directory (io_text e)), w)"
| "collect_nodes E directory nodes (Inr name # rest) w =
     (if is_event_node name then
        (case ev_metadata E (entry_path directory name) w of
           (Inl e, w') \<Rightarrow> (Inl (platform_io ''stat evdev input node'' (entry_path directory name) (io_text e)), w')
         | (Inr node, w') \<Rightarrow> collect_nodes E directory (bt_insert name node nodes) rest w')
      else collect_nodes E directory nodes rest w)"

definition discover_event_nodes ::
  "('w, 'd) evdev_ports \<Rightarrow> path_buf \<Rightarrow> 'w \<Rightarrow> (string, node_identity) btree platform_result \<times> 'w" where
  "discover_event_nodes E directory w =
     (case ev_read_dir E directory w of
        (Inl e, w') \<Rightarrow>
          if io_kind e = IoNotFound then (Inr [], w')
          else (Inl (platform_io ''enumerate evdev input directory'' directory (io_text e)), w')
      | (Inr entries, w') \<Rightarrow> collect_nodes E directory [] entries w')"

section \<open>The source\<close>

definition DEFAULT_POLL_INTERVAL :: nat where "DEFAULT_POLL_INTERVAL = 4 * 1000000"
definition DEFAULT_SCAN_INTERVAL :: nat where "DEFAULT_SCAN_INTERVAL = 500 * 1000000"
definition MAX_IDLE_POLL_INTERVAL :: nat where "MAX_IDLE_POLL_INTERVAL = 32 * 1000000"
definition MAX_DEVICE_RETRY_INTERVAL :: nat where "MAX_DEVICE_RETRY_INTERVAL = 30 * 1000000000"

record failed_node =
  fn_identity :: node_identity
  fn_retry_at :: instant
  fn_next_delay :: nat

record 'd input_source =
  is_root :: path_buf
  is_config :: gesture_config
  is_devices :: "(string, 'd open_device) btree"
  is_identities :: "(string, node_identity) btree"
  is_ignored :: "(string, node_identity) btree"
  is_failed :: "(string, failed_node) btree"
  is_pending :: "input_event list"
  is_errors :: "(string, string) btree"
  is_poll_interval :: nat
  is_scan_interval :: nat
  is_next_scan :: instant
  is_next_device_id :: u64

text \<open>\<open>devices.remove(path)\<close>, with the event for a touch device that was there.\<close>

definition drop_device :: "string \<Rightarrow> 'd input_source \<Rightarrow> 'd input_source" where
  "drop_device name s =
     (case bt_get (is_devices s) name of
        None \<Rightarrow> s
      | Some dev \<Rightarrow>
          s\<lparr>is_devices := bt_remove name (is_devices s),
            is_pending := is_pending s @ (if is_touch dev then [InputResync (Some (od_device_id dev))] else [])\<rparr>)"

definition forget_node :: "string \<Rightarrow> 'd input_source \<Rightarrow> 'd input_source" where
  "forget_node name s =
     (let s1 = drop_device name s
      in s1\<lparr>is_identities := bt_remove name (is_identities s1), is_ignored := bt_remove name (is_ignored s1),
            is_failed := bt_remove name (is_failed s1), is_errors := bt_remove name (is_errors s1)\<rparr>)"

definition removed_nodes :: "(string, node_identity) btree \<Rightarrow> 'd input_source \<Rightarrow> string list" where
  "removed_nodes discovered s =
     sorted_list_of_set (set (filter (\<lambda>n. \<not> bt_contains discovered n)
       (bt_keys (is_devices s) @ bt_keys (is_ignored s) @ bt_keys (is_failed s))))"

definition retry_delay_after :: "nat \<Rightarrow> nat" where
  "retry_delay_after delay = min (delay * 2) MAX_DEVICE_RETRY_INTERVAL"

text \<open>Opening a node that is new, changed, or due for another attempt.\<close>

definition open_node ::
  "('w, 'd) evdev_ports \<Rightarrow> instant \<Rightarrow> string \<Rightarrow> node_identity \<Rightarrow> nat \<Rightarrow> 'd input_source \<Rightarrow> 'w
     \<Rightarrow> unit platform_result \<times> 'd input_source \<times> 'w" where
  "open_node E now name node retry_delay s w =
     (case OpenInputDevice_open E (entry_path (is_root s) name) (is_next_device_id s) (is_config s) w of
        (Inr (Some dev), w') \<Rightarrow>
          (case u64_checked_add (is_next_device_id s) 1 of
             None \<Rightarrow>
               (Inl (platform_invalid (is_root s) (MStr ''input device identity space was exhausted'')), s, w')
           | Some next_id \<Rightarrow>
               (Inr (), s\<lparr>is_next_device_id := next_id, is_devices := bt_insert name dev (is_devices s),
                  is_identities := bt_insert name node (is_identities s),
                  is_errors := bt_remove name (is_errors s)\<rparr>, w'))
      | (Inr None, w') \<Rightarrow>
          (Inr (), s\<lparr>is_ignored := bt_insert name node (is_ignored s), is_errors := bt_remove name (is_errors s)\<rparr>, w')
      | (Inl e, w') \<Rightarrow>
          (Inr (), s\<lparr>is_errors := bt_insert name (io_text e) (is_errors s),
             is_failed := bt_insert name
               \<lparr>fn_identity = node, fn_retry_at = now + retry_delay, fn_next_delay = retry_delay_after retry_delay\<rparr>
               (is_failed s)\<rparr>, w'))"

definition visit_node ::
  "('w, 'd) evdev_ports \<Rightarrow> instant \<Rightarrow> string \<Rightarrow> node_identity \<Rightarrow> 'd input_source \<Rightarrow> 'w
     \<Rightarrow> unit platform_result \<times> 'd input_source \<times> 'w" where
  "visit_node E now name node s w =
     (if bt_get (is_identities s) name = Some node then (Inr (), s, w)
      else
        let s1 = (if bt_contains (is_identities s) name
                  then drop_device name (s\<lparr>is_identities := bt_remove name (is_identities s)\<rparr>) else s)
        in if bt_get (is_ignored s1) name = Some node then (Inr (), s1, w)
           else
             let s2 = s1\<lparr>is_ignored := bt_remove name (is_ignored s1)\<rparr>;
                 previous = bt_get (is_failed s2) name;
                 s3 = s2\<lparr>is_failed := bt_remove name (is_failed s2)\<rparr>
             in case previous of
                 None \<Rightarrow> open_node E now name node (is_scan_interval s3) s3 w
               | Some failure \<Rightarrow>
                   if fn_identity failure = node \<and> now < fn_retry_at failure
                   then (Inr (), s3\<lparr>is_failed := bt_insert name failure (is_failed s3)\<rparr>, w)
                   else open_node E now name node
                          (if fn_identity failure = node then fn_next_delay failure else is_scan_interval s3) s3 w)"

fun visit_nodes ::
  "('w, 'd) evdev_ports \<Rightarrow> instant \<Rightarrow> (string \<times> node_identity) list \<Rightarrow> 'd input_source \<Rightarrow> 'w
     \<Rightarrow> unit platform_result \<times> 'd input_source \<times> 'w" where
  "visit_nodes E now [] s w = (Inr (), s, w)"
| "visit_nodes E now ((name, node) # rest) s w =
     (case visit_node E now name node s w of
        (Inl e, s', w') \<Rightarrow> (Inl e, s', w')
      | (Inr _, s', w') \<Rightarrow> visit_nodes E now rest s' w')"

definition refresh_devices ::
  "('w, 'd) evdev_ports \<Rightarrow> 'd input_source \<Rightarrow> 'w \<Rightarrow> unit platform_result \<times> 'd input_source \<times> 'w" where
  "refresh_devices E s w =
     (case discover_event_nodes E (is_root s) w of
        (Inl e, w1) \<Rightarrow> (Inl e, s, w1)
      | (Inr discovered, w1) \<Rightarrow>
          let s1 = fold forget_node (removed_nodes discovered s) s
          in case ev_now E w1 of (now, w2) \<Rightarrow>
            (case visit_nodes E now discovered s1 w2 of
               (Inl e, s2, w3) \<Rightarrow> (Inl e, s2, w3)
             | (Inr _, s2, w3) \<Rightarrow> (Inr (), s2\<lparr>is_next_scan := now + is_scan_interval s2\<rparr>, w3)))"

definition nonzero_duration :: "nat \<Rightarrow> nat" where
  "nonzero_duration d = (if d = 0 then 1000000 else d)"

definition with_intervals ::
  "('w, 'd) evdev_ports \<Rightarrow> path_buf \<Rightarrow> gesture_config \<Rightarrow> nat \<Rightarrow> nat \<Rightarrow> 'w
     \<Rightarrow> 'd input_source platform_result \<times> 'w" where
  "with_intervals E directory config poll scan w =
     (case ev_now E w of (now, w1) \<Rightarrow>
        (case refresh_devices E
            \<lparr>is_root = directory, is_config = config, is_devices = [], is_identities = [], is_ignored = [], is_failed = [],
             is_pending = [], is_errors = [], is_poll_interval = nonzero_duration poll,
             is_scan_interval = nonzero_duration scan, is_next_scan = now, is_next_device_id = 1\<rparr> w1 of
           (Inl e, s, w2) \<Rightarrow> (Inl e, w2)
         | (Inr _, s, w2) \<Rightarrow> (Inr (s\<lparr>is_pending := []\<rparr>), w2)))"

definition source_open ::
  "('w, 'd) evdev_ports \<Rightarrow> path_buf \<Rightarrow> gesture_config \<Rightarrow> 'w \<Rightarrow> 'd input_source platform_result \<times> 'w" where
  "source_open E directory config = with_intervals E directory config DEFAULT_POLL_INTERVAL DEFAULT_SCAN_INTERVAL"

section \<open>Polling\<close>

text \<open>The first loop of \<open>poll_devices\<close> reads every device and collects the ones that are gone.\<close>

fun poll_each ::
  "('w, 'd) evdev_ports \<Rightarrow> string list \<Rightarrow> string list \<Rightarrow> 'd input_source \<Rightarrow> 'w
     \<Rightarrow> string list \<times> 'd input_source \<times> 'w" where
  "poll_each E gone [] s w = (gone, s, w)"
| "poll_each E gone (name # names) s w =
     (case bt_get (is_devices s) name of
        None \<Rightarrow> poll_each E gone names s w
      | Some dev \<Rightarrow>
          (case read_available E dev w of
             (r, out, dev', w') \<Rightarrow>
               let s1 = s\<lparr>is_devices := bt_insert name dev' (is_devices s), is_pending := is_pending s @ out\<rparr>
               in (case r of
                     Inr _ \<Rightarrow> poll_each E gone names (s1\<lparr>is_errors := bt_remove name (is_errors s1)\<rparr>) w'
                   | Inl e \<Rightarrow>
                       if io_kind e = IoWouldBlock then poll_each E gone names s1 w'
                       else poll_each E (gone @ [name]) names
                              (s1\<lparr>is_errors := bt_insert name (io_text e) (is_errors s1)\<rparr>) w')))"

definition disconnect ::
  "('w, 'd) evdev_ports \<Rightarrow> string \<Rightarrow> 'd input_source \<times> 'w \<Rightarrow> 'd input_source \<times> 'w" where
  "disconnect E name sw =
     (case sw of (s, w) \<Rightarrow>
        let s1 = drop_device name s
        in case bt_get (is_identities s1) name of
            None \<Rightarrow> (s1, w)
          | Some node \<Rightarrow>
              (case ev_now E w of (now, w') \<Rightarrow>
                 (s1\<lparr>is_identities := bt_remove name (is_identities s1),
                     is_failed := bt_insert name
                       \<lparr>fn_identity = node, fn_retry_at = now + is_scan_interval s1,
                        fn_next_delay = retry_delay_after (is_scan_interval s1)\<rparr> (is_failed s1)\<rparr>, w')))"

definition poll_devices ::
  "('w, 'd) evdev_ports \<Rightarrow> 'd input_source \<Rightarrow> 'w \<Rightarrow> bool \<times> 'd input_source \<times> 'w" where
  "poll_devices E s w =
     (case poll_each E [] (bt_keys (is_devices s)) s w of
        (gone, s1, w1) \<Rightarrow>
          let (s2, w2) = fold (disconnect E) gone (s1, w1);
              (s3, w3) = (if gone = [] then (s2, w2)
                          else case ev_now E w2 of (now, w') \<Rightarrow> (s2\<lparr>is_next_scan := now + is_scan_interval s2\<rparr>, w'))
          in (length (is_pending s3) \<noteq> length (is_pending s) \<or> gone \<noteq> [], s3, w3))"

section \<open>Waiting for an event\<close>

text \<open>
  One round of the loop of \<open>next_event_until_interrupt\<close>: it returns, or goes on after a pause with the
  polling interval of the next round. \<open>stop\<close> is the cancellation flag or the interruption condition as
  read in this round.
\<close>

datatype round_outcome = Returned "input_event option platform_result" | Pause nat nat

definition pop_event :: "'d input_source \<Rightarrow> (input_event \<times> 'd input_source) option" where
  "pop_event s = (case is_pending s of [] \<Rightarrow> None | e # es \<Rightarrow> Some (e, s\<lparr>is_pending := es\<rparr>))"

definition poll_round ::
  "('w, 'd) evdev_ports \<Rightarrow> nat \<Rightarrow> 'd input_source \<Rightarrow> 'w \<Rightarrow> round_outcome \<times> 'd input_source \<times> 'w" where
  "poll_round E idle s w =
     (case poll_devices E s w of
        (active, s1, w1) \<Rightarrow>
          let idle' = (if active then is_poll_interval s1 else min (idle * 2) MAX_IDLE_POLL_INTERVAL)
          in case pop_event s1 of
              Some (event, s2) \<Rightarrow> (Returned (Inr (Some event)), s2, w1)
            | None \<Rightarrow>
                (case ev_now E w1 of (now, w2) \<Rightarrow>
                   let until_scan = is_next_scan s1 - now
                   in (Pause (if is_devices s1 = [] then until_scan else min idle' until_scan) idle', s1, w2)))"

definition next_event_round ::
  "('w, 'd) evdev_ports \<Rightarrow> bool \<Rightarrow> nat \<Rightarrow> 'd input_source \<Rightarrow> 'w \<Rightarrow> round_outcome \<times> 'd input_source \<times> 'w" where
  "next_event_round E stop idle s w =
     (if stop then (Returned (Inr None), s, w)
      else case pop_event s of
          Some (event, s1) \<Rightarrow> (Returned (Inr (Some event)), s1, w)
        | None \<Rightarrow>
            (case ev_now E w of (now, w1) \<Rightarrow>
               if is_next_scan s \<le> now then
                 (case refresh_devices E s w1 of
                    (Inl e, s1, w2) \<Rightarrow> (Returned (Inl e), s1, w2)
                  | (Inr _, s1, w2) \<Rightarrow>
                      (case pop_event s1 of
                         Some (event, s2) \<Rightarrow> (Returned (Inr (Some event)), s2, w2)
                       | None \<Rightarrow> poll_round E idle s1 w2))
               else poll_round E idle s w1))"

section \<open>The observer thread\<close>

text \<open>
  What the thread of \<open>spawn_input_observer\<close> sends for the outcome of one wait: the event itself, or, when
  it gives the source up (changed settings or an error), a resynchronization of all devices. \<open>True\<close> says
  that the source is kept.
\<close>

definition observer_sends :: "input_event option platform_result \<Rightarrow> input_event \<times> bool" where
  "observer_sends outcome =
     (case outcome of
        Inr (Some event) \<Rightarrow> (event, True)
      | Inr None \<Rightarrow> (InputResync None, False)
      | Inl e \<Rightarrow> (InputResync None, False))"

end
