(* ===== verification/Touch_Safety.thy ===== *)
theory Touch_Safety
  imports Touch_Input "HOL-Library.Code_Target_Nat"
begin

text \<open>
  What the input machines report. Downs and ups of contacts are balanced over every stream of raw
  events, dropped frames included, so the daemon never keeps a contact the device no longer has; the
  coordinates of every report are in the unit square; activity of keys and pointers is reported at most
  once in an interval.
\<close>

section \<open>Streams\<close>

fun feed_touch ::
  "(f64 \<Rightarrow> f64 \<Rightarrow> f64) \<Rightarrow> raw_touch_event list \<Rightarrow> touch_machine \<Rightarrow> input_event list \<times> touch_machine" where
  "feed_touch hypot [] m = ([], m)"
| "feed_touch hypot (e # es) m =
     (case touch_handle hypot e m of (out, m') \<Rightarrow> case feed_touch hypot es m' of (out', m'') \<Rightarrow> (out @ out', m''))"

text \<open>The contacts a reader of the reports knows to be down; a report that lifts an unknown contact is wrong.\<close>

fun follow :: "input_event \<Rightarrow> touch_contact_id multiset \<Rightarrow> touch_contact_id multiset option" where
  "follow (InputTouchDown c x y) s = Some (add_mset c s)"
| "follow (InputTouchUp c x y) s = (if c \<in># s then Some (s - {#c#}) else None)"
| "follow (InputGesture c d) s = Some s"
| "follow (InputInteraction d) s = Some s"
| "follow (InputResync (Some d)) s = Some (filter_mset (\<lambda>c. tc_device c \<noteq> d) s)"
| "follow (InputResync None) s = Some {#}"

fun follow_all :: "input_event list \<Rightarrow> touch_contact_id multiset \<Rightarrow> touch_contact_id multiset option" where
  "follow_all [] s = Some s"
| "follow_all (e # es) s = Option.bind (follow e s) (follow_all es)"

lemma follow_all_append: "follow_all (es @ fs) s = Option.bind (follow_all es s) (follow_all fs)"
  by (induction es arbitrary: s) (auto split: Option.bind_splits)

text \<open>The contacts of a machine that were reported as down and not yet as up.\<close>

definition live_contacts :: "touch_machine \<Rightarrow> contact list" where
  "live_contacts m = tm_pending_releases m @ List.map_filter id (bt_values (tm_slots m))"

definition down_ids :: "input_device_id \<Rightarrow> contact list \<Rightarrow> touch_contact_id multiset" where
  "down_ids device cs =
     image_mset (\<lambda>c. TouchContactId_new device (co_tracking_id c)) (filter_mset co_down_emitted (mset cs))"

definition announced :: "touch_machine \<Rightarrow> touch_contact_id multiset" where
  "announced m = down_ids (tm_device_id m) (live_contacts m)"

lemma down_ids_simps [simp]:
  "down_ids d [] = {#}"
  "down_ids d (c # cs) =
     (if co_down_emitted c then {#TouchContactId_new d (co_tracking_id c)#} else {#}) + down_ids d cs"
  "down_ids d (cs @ cs') = down_ids d cs + down_ids d cs'"
  by (simp_all add: down_ids_def)

section \<open>What holds of every contact\<close>

definition slots_all :: "(contact \<Rightarrow> bool) \<Rightarrow> (int, slot_state) btree \<Rightarrow> bool" where
  "slots_all P slots = list_all P (List.map_filter id (bt_values slots))"

definition machine_all :: "(contact \<Rightarrow> bool) \<Rightarrow> touch_machine \<Rightarrow> bool" where
  "machine_all P m = list_all P (live_contacts m)"

lemma machine_all_split: "machine_all P m = (list_all P (tm_pending_releases m) \<and> slots_all P (tm_slots m))"
  by (simp add: machine_all_def slots_all_def live_contacts_def)

abbreviation entry_all :: "(contact \<Rightarrow> bool) \<Rightarrow> slot_state \<Rightarrow> bool" where
  "entry_all P s \<equiv> (case s of None \<Rightarrow> True | Some c \<Rightarrow> P c)"

lemma slots_all_simps [simp]:
  "slots_all P []" "slots_all P ((k, s) # slots) = (entry_all P s \<and> slots_all P slots)"
  by (auto simp: slots_all_def bt_values_def map_filter_def split: option.splits)

lemma slots_all_insert: "slots_all P slots \<Longrightarrow> entry_all P s \<Longrightarrow> slots_all P (bt_insert k s slots)"
  by (induction slots) (auto split: option.splits)

lemma slots_all_get: "slots_all P slots \<Longrightarrow> bt_get slots k = Some (Some c) \<Longrightarrow> P c"
  by (induction slots) (auto simp: bt_get_def split: if_splits)

text \<open>
  The contract of a property of single contacts: it holds of a new contact and survives the updates the
  code makes of one. Then it holds of every contact of a machine, whatever the device sends.
\<close>

locale contact_property =
  fixes P :: "contact \<Rightarrow> bool" and hypot :: "f64 \<Rightarrow> f64 \<Rightarrow> f64" and axes :: touch_axes and edge :: f64
  assumes fresh: "P (Contact_new t)"
    and raw_x: "P c \<Longrightarrow> P (c\<lparr>co_raw_x := Some v\<rparr>)"
    and raw_y: "P c \<Longrightarrow> P (c\<lparr>co_raw_y := Some v\<rparr>)"
    and refresh: "P c \<Longrightarrow> P (refresh_point hypot axes edge c)"
    and shown: "P c \<Longrightarrow> co_last c \<noteq> None \<Longrightarrow> P (c\<lparr>co_down_emitted := True\<rparr>)"
begin

lemma refresh_here:
  "tm_axes m = axes \<Longrightarrow> gc_edge_width (tm_config m) = edge \<Longrightarrow> P c \<Longrightarrow> P (refresh_point hypot (tm_axes m) (gc_edge_width (tm_config m)) c)"
  by (simp add: refresh)

lemma entry_property: "machine_all P m \<Longrightarrow> entry_all P (slot_entry m k)"
  by (auto simp: slot_entry_def machine_all_split intro: slots_all_get split: option.splits)

lemma put_property: "machine_all P m \<Longrightarrow> entry_all P s \<Longrightarrow> machine_all P (put_slot k s m)"
  by (simp add: machine_all_split put_slot_def slots_all_insert)

lemma release_property: "machine_all P m \<Longrightarrow> entry_all P s \<Longrightarrow> machine_all P (release_contact s m)"
  by (auto simp: machine_all_split release_contact_def split: option.splits)

lemma tracking_property: "machine_all P m \<Longrightarrow> machine_all P (handle_tracking_id t m)"
  by (cases "tm_current_slot m"; cases "u32_try_from t")
    (auto simp: handle_tracking_id_def Let_def entry_property fresh intro!: put_property release_property)

lemma position_property:
  assumes "tm_axes m = axes" and "gc_edge_width (tm_config m) = edge" and "machine_all P m"
  shows "machine_all P (update_position hypot x y m)"
  using assms slots_all_get [of P "tm_slots m"]
  by (auto simp: update_position_def Let_def machine_all_split put_slot_def
      intro!: slots_all_insert refresh_here raw_x raw_y split: option.splits)

lemma commit_slot_property:
  assumes "tm_axes m = axes" and "gc_edge_width (tm_config m) = edge" and "entry_all P s"
  shows "entry_all P (snd (commit_slot hypot m s))"
  using assms by (auto simp: commit_slot_def Let_def intro!: refresh_here shown split: option.splits bool.splits)

lemma commit_slots_property:
  assumes "tm_axes m = axes" and "gc_edge_width (tm_config m) = edge" and "slots_all P slots"
  shows "slots_all P (map (\<lambda>(k, es, s). (k, s)) (map (\<lambda>(k, s). (k, commit_slot hypot m s)) slots))"
  using assms(3)
proof (induction slots)
  case (Cons e slots)
  then show ?case using commit_slot_property [OF assms(1,2), of "snd e"]
    by (cases e; cases "commit_slot hypot m (snd e)") auto
qed simp

lemma commit_property:
  "tm_axes m = axes \<Longrightarrow> gc_edge_width (tm_config m) = edge \<Longrightarrow> machine_all P m \<Longrightarrow> machine_all P (snd (commit_frame hypot m))"
  using commit_slots_property [of m "tm_slots m"] by (simp add: commit_frame_def Let_def machine_all_split)

lemma handle_property:
  "tm_axes m = axes \<Longrightarrow> gc_edge_width (tm_config m) = edge \<Longrightarrow> machine_all P m \<Longrightarrow> machine_all P (snd (touch_handle hypot e m))"
  by (cases e)
    (simp_all add: touch_handle_def commit_property tracking_property position_property reset_after_drop_def, simp_all add: machine_all_split)

end

text \<open>A contact that was reported as down had a position.\<close>

definition contact_ok :: "contact \<Rightarrow> bool" where
  "contact_ok c = (co_down_emitted c \<longrightarrow> co_last c \<noteq> None)"

lemma refresh_point_keeps [simp]:
  "co_tracking_id (refresh_point h a w c) = co_tracking_id c"
  "co_down_emitted (refresh_point h a w c) = co_down_emitted c"
  "contact_ok c \<Longrightarrow> contact_ok (refresh_point h a w c)"
  by (auto simp: refresh_point_def contact_ok_def Let_def split: option.splits)

interpretation placed: contact_property contact_ok hypot axes edge for hypot axes edge
  by unfold_locales (simp_all, simp_all add: contact_ok_def Contact_new_def)

section \<open>What is down\<close>

definition slot_ids :: "input_device_id \<Rightarrow> (int, slot_state) btree \<Rightarrow> touch_contact_id multiset" where
  "slot_ids d slots = down_ids d (List.map_filter id (bt_values slots))"

abbreviation entry_ids :: "input_device_id \<Rightarrow> slot_state \<Rightarrow> touch_contact_id multiset" where
  "entry_ids d s \<equiv> (case s of None \<Rightarrow> {#} | Some c \<Rightarrow> down_ids d [c])"

lemma slot_ids_simps [simp]:
  "slot_ids d [] = {#}" "slot_ids d ((k, s) # slots) = entry_ids d s + slot_ids d slots"
  by (auto simp: slot_ids_def bt_values_def map_filter_def split: option.splits)

lemma announced_split: "announced m = down_ids (tm_device_id m) (tm_pending_releases m) + slot_ids (tm_device_id m) (tm_slots m)"
  by (simp add: announced_def live_contacts_def slot_ids_def)

lemma slot_ids_insert:
  assumes "bt_wf slots"
  shows "slot_ids d (bt_insert k s slots) + entry_ids d (Option.bind (bt_get slots k) id) = slot_ids d slots + entry_ids d s"
  using assms
proof (induction slots)
  case Nil
  then show ?case by (simp add: bt_get_def)
next
  case (Cons e slots)
  obtain k' s' where e: "e = (k', s')" by (cases e)
  have wf: "bt_wf slots" and above: "\<forall>j \<in> set (map fst slots). k' < j" using Cons.prems e by (auto simp: bt_wf_def)
  consider "k < k'" | "k = k'" | "k' < k" by (rule linorder_cases)
  then show ?case
  proof cases
    case 1
    then have "bt_get (e # slots) k = None" using above e by (force simp: bt_get_def map_of_eq_None_iff)
    with 1 e show ?thesis by simp
  next
    case 2
    with e show ?thesis by (cases s'; cases s) (auto simp: bt_get_def)
  next
    case 3
    with e Cons.IH [OF wf] show ?thesis by (auto simp: bt_get_def algebra_simps)
  qed
qed

definition touch_ok :: "touch_machine \<Rightarrow> bool" where
  "touch_ok m = (machine_all contact_ok m \<and> bt_wf (tm_slots m))"

section \<open>One raw event\<close>

text \<open>The contacts of other devices (\<open>R\<close>) are not touched by what a machine reports.\<close>

definition elsewhere :: "input_device_id \<Rightarrow> touch_contact_id multiset \<Rightarrow> bool" where
  "elsewhere d R = (\<forall>c \<in># R. tc_device c \<noteq> d)"

definition tracks :: "touch_machine \<Rightarrow> input_event list \<times> touch_machine \<Rightarrow> bool" where
  "tracks m r = (case r of (out, m') \<Rightarrow>
     bt_wf (tm_slots m') \<and> tm_device_id m' = tm_device_id m \<and> tm_axes m' = tm_axes m \<and> tm_config m' = tm_config m
     \<and> (\<forall>R. elsewhere (tm_device_id m) R \<longrightarrow> follow_all out (R + announced m) = Some (R + announced m')))"

lemma tracks_silent:
  "bt_wf (tm_slots m') \<Longrightarrow> tm_device_id m' = tm_device_id m \<Longrightarrow> tm_axes m' = tm_axes m \<Longrightarrow> tm_config m' = tm_config m
    \<Longrightarrow> announced m' = announced m \<Longrightarrow> tracks m ([], m')"
  by (simp add: tracks_def)

lemma tracks_refl: "bt_wf (tm_slots m) \<Longrightarrow> tracks m ([], m)"
  by (simp add: tracks_def)

lemma slot_entry_bind: "slot_entry m k = Option.bind (bt_get (tm_slots m) k) id"
  by (simp add: slot_entry_def split: option.splits)

text \<open>Moving the contact of a slot to the pending releases, or putting it back changed, keeps what is down.\<close>

lemma put_release:
  assumes "bt_wf (tm_slots m)" and "\<And>d. entry_ids d s = {#}"
  shows "tracks m ([], release_contact (slot_entry m k) (put_slot k s m))"
proof (rule tracks_silent)
  let ?m = "release_contact (slot_entry m k) (put_slot k s m)"
  have "slot_ids (tm_device_id m) (bt_insert k s (tm_slots m)) + entry_ids (tm_device_id m) (slot_entry m k) = slot_ids (tm_device_id m) (tm_slots m)"
    using slot_ids_insert [OF assms(1), of "tm_device_id m" k s] assms(2) by (simp add: slot_entry_bind)
  then show "announced ?m = announced m"
    by (cases "slot_entry m k") (auto simp: announced_split release_contact_def put_slot_def algebra_simps)
qed (use assms(1) in \<open>auto simp: release_contact_def put_slot_def bt.wf_ins split: option.splits\<close>)

lemma put_same:
  assumes "bt_wf (tm_slots m)" and "entry_ids (tm_device_id m) s = entry_ids (tm_device_id m) (slot_entry m k)"
  shows "tracks m ([], put_slot k s m)"
proof (rule tracks_silent)
  show "announced (put_slot k s m) = announced m"
    using slot_ids_insert [OF assms(1), of "tm_device_id m" k s] assms(2)
    by (simp add: announced_split put_slot_def slot_entry_bind)
qed (use assms(1) in \<open>simp_all add: put_slot_def bt.wf_ins\<close>)

lemma fresh_unannounced [simp]: "co_down_emitted (Contact_new t) = False"
  by (simp add: Contact_new_def)

lemma tracking_id_tracks: "bt_wf (tm_slots m) \<Longrightarrow> tracks m ([], handle_tracking_id t m)"
  by (cases "tm_current_slot m"; cases "u32_try_from t")
    (auto simp: handle_tracking_id_def Let_def intro!: tracks_refl put_release put_same)

lemma update_position_tracks:
  assumes "bt_wf (tm_slots m)"
  shows "tracks m ([], update_position h x y m)"
  using assms by (auto simp: update_position_def Let_def slot_entry_def intro!: tracks_refl put_same split: option.splits)

section \<open>Committing a frame\<close>

lemma finished_follow:
  assumes "contact_ok c"
  shows "follow_all (append_finished_contact d g c) (S + down_ids d [c]) = Some S"
  using assms by (auto simp: append_finished_contact_def contact_ok_def Let_def split: option.splits)

lemma finished_all_follow:
  "list_all contact_ok cs \<Longrightarrow>
     follow_all (concat (map (\<lambda>c. append_finished_contact d g (refresh_point h a w c)) cs)) (S + down_ids d cs) = Some S"
proof (induction cs)
  case (Cons c cs)
  have "down_ids d [refresh_point h a w c] = down_ids d [c]" by simp
  then have "follow_all (append_finished_contact d g (refresh_point h a w c)) ((S + down_ids d cs) + down_ids d [c]) = Some (S + down_ids d cs)"
    using finished_follow [of "refresh_point h a w c" d g "S + down_ids d cs"] Cons.prems by simp
  with Cons show ?case by (simp add: follow_all_append add.assoc add.commute add.left_commute)
qed simp

lemma commit_slot_follow:
  assumes "commit_slot h m s = (es, s')"
  shows "follow_all es (S + entry_ids (tm_device_id m) s) = Some (S + entry_ids (tm_device_id m) s')"
  using assms by (auto simp: commit_slot_def Let_def split: option.splits bool.splits)

lemma commit_slots_follow:
  "follow_all (concat (map (\<lambda>(k, es, s). es) (map (\<lambda>(k, s). (k, commit_slot h m s)) slots))) (S + slot_ids (tm_device_id m) slots)
     = Some (S + slot_ids (tm_device_id m) (map (\<lambda>(k, es, s). (k, s)) (map (\<lambda>(k, s). (k, commit_slot h m s)) slots)))"
proof (induction slots arbitrary: S)
  case (Cons e slots)
  obtain k s es s' where e: "e = (k, s)" "commit_slot h m s = (es, s')" by (metis surj_pair)
  from commit_slot_follow [OF e(2), of "S + slot_ids (tm_device_id m) slots"] Cons [of "S + entry_ids (tm_device_id m) s'"] e
  show ?case by (simp add: follow_all_append add.assoc add.commute add.left_commute)
qed simp

lemma commit_tracks:
  assumes "touch_ok m"
  shows "tracks m (commit_frame h m)"
proof -
  let ?slots = "map (\<lambda>(k, es, s). (k, s)) (map (\<lambda>(k, s). (k, commit_slot h m s)) (tm_slots m))"
  have keys: "map fst ?slots = map fst (tm_slots m)" by (auto split: prod.splits)
  have "follow_all (fst (commit_frame h m)) (R + announced m) = Some (R + slot_ids (tm_device_id m) ?slots)" for R
    using finished_all_follow [of "tm_pending_releases m" "tm_device_id m" "tm_config m" h "tm_axes m" "gc_edge_width (tm_config m)" "R + slot_ids (tm_device_id m) (tm_slots m)"]
      commit_slots_follow [of h m "tm_slots m" R] assms
    by (simp add: commit_frame_def announced_split follow_all_append touch_ok_def machine_all_split add.assoc add.commute add.left_commute)
  moreover have "bt_wf ?slots" using assms unfolding touch_ok_def bt_wf_def keys by blast
  ultimately show ?thesis by (simp add: tracks_def commit_frame_def Let_def announced_split)
qed

lemma drop_tracks: "tracks m ([InputResync (Some (tm_device_id m))], reset_after_drop m)"
proof -
  have "filter_mset (\<lambda>c. tc_device c \<noteq> tm_device_id m) (announced m) = {#}"
    by (auto simp: announced_def down_ids_def TouchContactId_new_def filter_mset_eq_conv intro!: multiset_eqI)
  moreover have "elsewhere d R \<Longrightarrow> filter_mset (\<lambda>c. tc_device c \<noteq> d) R = R" for d R
    by (auto simp: elsewhere_def filter_mset_eq_conv)
  ultimately show ?thesis by (simp add: tracks_def reset_after_drop_def announced_split bt.wf_empty)
qed

lemma handle_tracks:
  assumes "touch_ok m"
  shows "tracks m (touch_handle h e m)"
proof -
  have "tracks m ([], m\<lparr>tm_desynchronized := b\<rparr>)" "tracks m ([], m\<lparr>tm_current_slot := c\<rparr>)" for b c
    using assms by (auto simp: touch_ok_def announced_split intro!: tracks_silent)
  then show ?thesis using assms
    by (cases e) (simp_all add: touch_handle_def touch_ok_def tracks_refl drop_tracks tracking_id_tracks update_position_tracks commit_tracks)
qed

lemma handle_ok:
  assumes "touch_ok m" and "touch_handle h e m = (out, m')"
  shows "touch_ok m'"
  using handle_tracks [OF assms(1), of h e] placed.handle_property [OF refl refl, of m h e] assms by (simp add: touch_ok_def tracks_def)

interpretation touch: invariant_machine "\<lambda>m e. snd (touch_handle hypot e m)" touch_ok for hypot
  using handle_ok by unfold_locales (metis prod.collapse)

section \<open>Streams of raw events\<close>

lemma feed_tracks: "touch_ok m \<Longrightarrow> tracks m (feed_touch h es m)"
proof (induction es arbitrary: m)
  case (Cons e es)
  obtain out m1 where h: "touch_handle h e m = (out, m1)" by fastforce
  obtain out' m2 where f: "feed_touch h es m1 = (out', m2)" by fastforce
  show ?case using handle_tracks [OF Cons.prems, of h e] Cons.IH [OF handle_ok [OF Cons.prems h]]
    by (simp add: h f tracks_def follow_all_append)
qed (simp add: touch_ok_def tracks_refl)

lemma daemon_follows:
  "follow_all es S = Some S' \<Longrightarrow> T \<subseteq> set_mset S \<Longrightarrow> fold reduce_contacts es T \<subseteq> set_mset S'"
proof (induction es arbitrary: S T)
  case (Cons e es)
  then obtain S1 where S1: "follow e S = Some S1" "follow_all es S1 = Some S'" by (auto split: Option.bind_splits)
  then have "reduce_contacts e T \<subseteq> set_mset S1" using Cons.prems(2)
    by (cases "(e, S)" rule: follow.cases)
      (auto simp: press_def release_def resync_def Let_def in_diff_count split: if_splits)
  with Cons.IH [OF S1(2)] show ?case by simp
qed simp

lemma new_machine: "touch_ok (TouchStateMachine_new d axes config)" "announced (TouchStateMachine_new d axes config) = {#}"
  by (simp_all add: TouchStateMachine_new_def touch_ok_def machine_all_split announced_split bt.wf_empty)

text \<open>
  C23: touch reports are balanced. Whatever raw events a device sends, frames lost by the kernel included,
  the reports never lift a contact that is not down, and at any time the contacts that are down for a
  reader of the reports are exactly those the machine announced and still holds; the daemon's set of
  active contacts has no others, so when the device holds no contact and none waits to be reported as
  lifted, the daemon holds none and the touch scene can end.
\<close>

theorem touch_reports_are_balanced:
  assumes "feed_touch hypot raw (TouchStateMachine_new device axes config) = (reports, m)"
  shows "follow_all reports {#} = Some (announced m)
    \<and> fold reduce_contacts reports {} \<subseteq> set_mset (announced m)
    \<and> (active_contacts m = 0 \<and> tm_pending_releases m = [] \<longrightarrow> fold reduce_contacts reports {} = {})"
proof -
  have follow: "follow_all reports {#} = Some (announced m)"
    using feed_tracks [OF new_machine(1) [of device axes config], of hypot raw] assms
    by (auto simp: tracks_def elsewhere_def new_machine(2))
  then have daemon: "fold reduce_contacts reports {} \<subseteq> set_mset (announced m)" by (rule daemon_follows) simp
  moreover have "announced m = {#}" if "active_contacts m = 0" "tm_pending_releases m = []"
  proof -
    from that(1) have "List.map_filter id (bt_values (tm_slots m)) = []"
      by (auto simp: active_contacts_def map_filter_def filter_empty_conv)
    with that(2) show ?thesis by (simp add: announced_split slot_ids_def)
  qed
  ultimately show ?thesis using follow by auto
qed

definition demo_axes :: touch_axes where
  "demo_axes =
     \<lparr>ta_x = \<lparr>ar_minimum = 3, ar_maximum = 3\<rparr>, ta_y = \<lparr>ar_minimum = 4, ar_maximum = 4\<rparr>,
      ta_slots = \<lparr>ar_minimum = 0, ar_maximum = 1\<rparr>\<rparr>"

definition demo_gesture :: gesture_config where
  "demo_gesture = \<lparr>gc_swipe_distance = Fin (1 / 2), gc_edge_width = Fin 0\<rparr>"

definition demo_frames :: "raw_touch_event list" where
  "demo_frames =
     [RawTrackingId 7, RawPositionX 2, RawPositionY 1, TouchSyncReport, RawTrackingId (- 1), TouchSyncReport]"

abbreviation demo_touched :: "input_event list \<times> touch_machine" where
  "demo_touched \<equiv> feed_touch f64_max demo_frames (TouchStateMachine_new 1 demo_axes demo_gesture)"

theorem touch_reports_are_balanced_witness:
  "\<exists>reports m. demo_touched = (reports, m) \<and> length reports = 2 \<and> active_contacts m = 0
     \<and> fold reduce_contacts reports {} = {}"
proof -
  have "case demo_touched of (reports, m) \<Rightarrow> length reports = 2 \<and> active_contacts m = 0 \<and> tm_pending_releases m = []"
    by code_simp
  then obtain reports m where run: "demo_touched = (reports, m)" "length reports = 2" "active_contacts m = 0" "tm_pending_releases m = []"
    by (auto split: prod.splits)
  from touch_reports_are_balanced [OF run(1)] run show ?thesis by auto
qed

section \<open>Positions\<close>

text \<open>An axis as the kernel describes it: bounds of type \<open>i32\<close>, accepted by \<open>AxisRange::new\<close>.\<close>

definition axis_ok :: "axis_range \<Rightarrow> bool" where
  "axis_ok a = (- (2 ^ 31) \<le> ar_minimum a \<and> ar_minimum a \<le> ar_maximum a \<and> ar_maximum a < 2 ^ 31)"

definition in_unit :: "f64 \<Rightarrow> bool" where
  "in_unit x = (f64_le (Fin 0) x \<and> f64_le x (Fin 1))"

lemma f64_of_int_exact:
  assumes "\<bar>n\<bar> < 2 ^ 53"
  shows "f64_of_int n = Fin (of_int n)"
proof (cases "n = 0")
  case False
  let ?x = "of_int n :: rat"
  have pos: "0 < \<bar>?x\<bar>" using False by simp
  have "\<bar>?x\<bar> < of_int (2 ^ 53)" using assms by (simp only: of_int_abs [symmetric] of_int_less_iff)
  also have "of_int (2 ^ 53) = pow2 53" by (simp add: pow2_def)
  finally have top: "ilog2 \<bar>?x\<bar> < 53" "\<bar>?x\<bar> < pow2 1023"
    using ilog2_spec(1) [OF pos] pow2_less_cancel pow2_mono [of 53 1023] by (metis le_less_trans, simp)
  define k where "k = nat (52 - exponent ?x)"
  have "f64_quantum ?x = 1 / 2 ^ k"
    using top(1) by (auto simp: f64_quantum_def pow2_def k_def nat_eq_iff)
  then have "round_value ?x = ?x"
    using round_half_even_int [of "n * 2 ^ k"] by (simp add: round_value_def)
  moreover obtain r where "f64_round ?x = Fin r" using f64_round_finite [OF top(2)] by blast
  ultimately show ?thesis by (auto simp: f64_of_int_def f64_round_alt split: if_splits)
qed (simp add: f64_of_int_def)

lemma axis_normalize_unit:
  assumes "axis_ok a"
  shows "in_unit (axis_normalize a v)"
proof (cases "ar_maximum a = ar_minimum a")
  case False
  let ?lo = "ar_minimum a" and ?hi = "ar_maximum a"
  have bounds: "\<bar>?lo\<bar> < 2 ^ 53" "\<bar>?hi\<bar> < 2 ^ 53" "\<bar>?hi - ?lo\<bar> < 2 ^ 53" using assms by (auto simp: axis_ok_def)
  have "f64_round (of_int (?hi - ?lo)) = Fin (of_int (?hi - ?lo))"
    using f64_of_int_exact [OF bounds(3)] by (simp add: f64_of_int_def)
  then have den: "f64_sub (f64_of_int ?hi) (f64_of_int ?lo) = Fin (of_int (?hi - ?lo))"
    by (simp add: f64_of_int_exact [OF bounds(1)] f64_of_int_exact [OF bounds(2)] f64_sub_def)
  have num: "f64_sub (f64_of_int v) (f64_of_int ?lo) \<noteq> NaN"
    by (cases "f64_of_int v") (auto simp: f64_of_int_exact [OF bounds(1)] f64_sub_def, simp add: f64_of_int_def)
  have "f64_div (f64_sub (f64_of_int v) (f64_of_int ?lo)) (Fin (of_int (?hi - ?lo))) \<noteq> NaN"
    using num False by (auto simp: f64_div_def f64_inf_of_def f64_sgn_def sgn_if split: f64.splits)
  then show ?thesis using False den
    by (simp add: axis_normalize_def Let_def in_unit_def f64_clamp_bounds)
qed (simp add: axis_normalize_def in_unit_def)

definition point_ok :: "point \<Rightarrow> bool" where
  "point_ok p = (in_unit (px p) \<and> in_unit (py p))"

definition contact_unit :: "touch_axes \<Rightarrow> contact \<Rightarrow> bool" where
  "contact_unit axes c =
     (f64_le (Fin 0) (co_maximum_distance c)
      \<and> (axis_ok (ta_x axes) \<and> axis_ok (ta_y axes) \<longrightarrow> (\<forall>p. co_last c = Some p \<longrightarrow> point_ok p)))"

lemma f64_max_ge: "f64_le (Fin 0) a \<Longrightarrow> f64_le (Fin 0) (f64_max a b)"
  by (auto simp: f64_max_def f64_le_def max_def)

lemma contact_unit_refresh: "contact_unit axes c \<Longrightarrow> contact_unit axes (refresh_point hypot axes edge c)"
  by (auto simp: contact_unit_def refresh_point_def Let_def f64_max_ge point_ok_def axis_normalize_unit split: option.splits)

interpretation unit: contact_property "contact_unit axes" hypot axes edge for axes hypot edge
  by unfold_locales (simp_all add: contact_unit_refresh, simp_all add: contact_unit_def Contact_new_def)

fun report_ok :: "input_event \<Rightarrow> bool" where
  "report_ok (InputTouchDown c x y) = (in_unit x \<and> in_unit y)"
| "report_ok (InputTouchUp c x y) = (in_unit x \<and> in_unit y)"
| "report_ok (InputGesture c d) = f64_le (Fin 0) d"
| "report_ok e = True"

lemma finished_report_ok:
  "axis_ok (ta_x axes) \<Longrightarrow> axis_ok (ta_y axes) \<Longrightarrow> contact_unit axes c \<Longrightarrow> list_all report_ok (append_finished_contact d g c)"
  by (auto simp: append_finished_contact_def contact_unit_def point_ok_def Let_def split: option.splits)

lemma slot_report_ok:
  assumes "axis_ok (ta_x (tm_axes m))" "axis_ok (ta_y (tm_axes m))" and "entry_all (contact_unit (tm_axes m)) s"
  shows "list_all report_ok (fst (commit_slot h m s))"
proof (cases s)
  case (Some c)
  with assms(3) contact_unit_refresh have "contact_unit (tm_axes m) (refresh_point h (tm_axes m) (gc_edge_width (tm_config m)) c)" by simp
  with assms(1,2) Some show ?thesis
    by (auto simp: commit_slot_def Let_def contact_unit_def point_ok_def split: option.splits bool.splits)
qed (simp add: commit_slot_def)

lemma slots_all_iff: "slots_all P slots \<longleftrightarrow> (\<forall>(k, s) \<in> set slots. entry_all P s)"
  by (induction slots) auto

lemma commit_report_ok:
  assumes "axis_ok (ta_x (tm_axes m))" "axis_ok (ta_y (tm_axes m))" and "machine_all (contact_unit (tm_axes m)) m"
  shows "list_all report_ok (fst (commit_frame h m))"
proof -
  let ?refresh = "refresh_point h (tm_axes m) (gc_edge_width (tm_config m))"
  have "list_all report_ok (concat (map (\<lambda>(k, es, s). es) (map (\<lambda>(k, s). (k, commit_slot h m s)) slots)))"
    if "slots_all (contact_unit (tm_axes m)) slots" for slots
    using that
  proof (induction slots)
    case (Cons e slots)
    then show ?case using slot_report_ok [OF assms(1,2), of "snd e" h] by (cases e; cases "commit_slot h m (snd e)") auto
  qed simp
  moreover have "list_all report_ok (concat (map (\<lambda>c. append_finished_contact (tm_device_id m) (tm_config m) (?refresh c)) cs))"
    if "list_all (contact_unit (tm_axes m)) cs" for cs
    using that by (induction cs) (simp_all add: finished_report_ok [OF assms(1,2) contact_unit_refresh])
  ultimately show ?thesis using assms(3) by (simp add: commit_frame_def machine_all_split)
qed

lemma feed_report_ok:
  assumes "touch_ok m" "axis_ok (ta_x (tm_axes m))" "axis_ok (ta_y (tm_axes m))" "machine_all (contact_unit (tm_axes m)) m"
  shows "list_all report_ok (fst (feed_touch h es m))"
  using assms
proof (induction es arbitrary: m)
  case (Cons e es)
  obtain out m1 where h: "touch_handle h e m = (out, m1)" by fastforce
  have "list_all report_ok out"
    using h commit_report_ok [OF Cons.prems(2-4), of h] by (cases e) (auto simp: touch_handle_def split: if_splits)
  moreover have "tm_axes m1 = tm_axes m" using handle_tracks [OF Cons.prems(1), of h e] h by (simp add: tracks_def)
  moreover have "machine_all (contact_unit (tm_axes m)) m1" using unit.handle_property [OF refl refl Cons.prems(4), of h e] h by simp
  ultimately show ?case using Cons.IH [of m1] Cons.prems handle_ok [OF Cons.prems(1) h]
    by (cases "feed_touch h es m1") (simp add: h)
qed simp

text \<open>
  C24: whatever a touch device sends, values outside its own axes included, every position reported is in
  the unit square and every gesture has a distance that is a number and not negative.
\<close>

theorem reported_positions_are_normalized:
  assumes "axis_ok (ta_x axes)" and "axis_ok (ta_y axes)"
  shows "list_all report_ok (fst (feed_touch hypot raw (TouchStateMachine_new device axes config)))"
  by (rule feed_report_ok)
    (simp_all add: assms new_machine, simp_all add: TouchStateMachine_new_def assms machine_all_split)

definition wide_axes :: touch_axes where
  "wide_axes =
     \<lparr>ta_x = \<lparr>ar_minimum = - 100, ar_maximum = 900\<rparr>, ta_y = \<lparr>ar_minimum = 50, ar_maximum = 550\<rparr>,
      ta_slots = \<lparr>ar_minimum = 0, ar_maximum = 9\<rparr>\<rparr>"

theorem reported_positions_are_normalized_witness:
  "axis_ok (ta_x wide_axes) \<and> axis_ok (ta_y wide_axes)
     \<and> list_all report_ok (fst (feed_touch f64_max [RawTrackingId 7, RawPositionX 5000, RawPositionY (- 9), TouchSyncReport]
         (TouchStateMachine_new 1 wide_axes demo_gesture)))"
proof -
  have "axis_ok (ta_x wide_axes)" "axis_ok (ta_y wide_axes)" by (simp_all add: wide_axes_def axis_ok_def)
  with reported_positions_are_normalized [OF this] show ?thesis by blast
qed

section \<open>Activity\<close>

text \<open>What a device sends, with the time each event is read at; the reports with their stamps.\<close>

fun feed_interaction ::
  "(raw_interaction_event \<times> instant) list \<Rightarrow> interaction_machine \<Rightarrow> instant list \<times> interaction_machine" where
  "feed_interaction [] m = ([], m)"
| "feed_interaction ((e, now) # es) m =
     (case interaction_handle e now m of (out, m') \<Rightarrow>
      case feed_interaction es m' of (stamps, m'') \<Rightarrow> ((if out = None then [] else [now]) @ stamps, m''))"

definition spaced :: "nat \<Rightarrow> instant list \<Rightarrow> bool" where
  "spaced gap stamps = sorted_wrt (\<lambda>a b. a + gap \<le> b) stamps"

lemma interaction_handle_cases:
  assumes "interaction_handle e now m = (out, m')"
  shows "im_coalesce_interval m' = im_coalesce_interval m"
    and "out = None \<Longrightarrow> im_last_emitted m' = im_last_emitted m"
    and "out \<noteq> None \<Longrightarrow> im_last_emitted m' = Some now \<and> e = InteractionSyncReport \<and> im_pending m
      \<and> (\<forall>l. im_last_emitted m = Some l \<longrightarrow> im_coalesce_interval m \<le> now - l)"
  using assms by (auto simp: interaction_handle_def Let_def split: raw_interaction_event.splits if_splits option.splits)

lemma interactions_spaced:
  assumes "sorted (map snd es)" and "\<forall>(e, now) \<in> set es. \<forall>l. im_last_emitted m = Some l \<longrightarrow> l \<le> now"
  shows "spaced (im_coalesce_interval m) (fst (feed_interaction es m))
    \<and> (\<forall>t \<in> set (fst (feed_interaction es m)). t \<in> snd ` set es
        \<and> (\<forall>l. im_last_emitted m = Some l \<longrightarrow> l + im_coalesce_interval m \<le> t))"
  using assms
proof (induction es arbitrary: m)
  case (Cons x es)
  obtain e now where x: "x = (e, now)" by (cases x)
  obtain out m1 where h: "interaction_handle e now m = (out, m1)" by fastforce
  obtain stamps m2 where f: "feed_interaction es m1 = (stamps, m2)" by fastforce
  note step = interaction_handle_cases [OF h]
  have later: "\<forall>(e, t) \<in> set es. now \<le> t" using Cons.prems(1) x by auto
  have "\<forall>(e, t) \<in> set es. \<forall>l. im_last_emitted m1 = Some l \<longrightarrow> l \<le> t"
    using later step(2,3) Cons.prems(2) x by (cases out) auto
  with Cons.IH [of m1] Cons.prems(1) x f step(1)
  have IH: "spaced (im_coalesce_interval m) stamps" "\<forall>t \<in> set stamps. t \<in> snd ` set es"
    "\<forall>t \<in> set stamps. \<forall>l. im_last_emitted m1 = Some l \<longrightarrow> l + im_coalesce_interval m \<le> t" by auto
  show ?case
  proof (cases out)
    case None
    with IH step(2) x h f show ?thesis by auto
  next
    case (Some ev)
    with step(3) have now: "im_last_emitted m1 = Some now" "\<forall>l. im_last_emitted m = Some l \<longrightarrow> im_coalesce_interval m \<le> now - l"
      by auto
    have "l + im_coalesce_interval m \<le> now" if "im_last_emitted m = Some l" for l
      using now(2) Cons.prems(2) x that by (auto simp: le_diff_conv2)
    with Some IH now(1) x h f show ?thesis by (fastforce simp: spaced_def)
  qed
qed (simp add: spaced_def)

text \<open>
  activity of keys and pointers is rate limited. While the clock does not go back, two reports of one
  device are at least the coalescing interval apart, however much it sends; and every report is made when a
  frame with activity ends, never later, so a quiet device needs no timer.
\<close>

theorem interaction_reports_are_spaced:
  assumes "sorted (map snd es)"
  shows "spaced interval (fst (feed_interaction es (InteractionStateMachine_new device interval)))
    \<and> (\<forall>e now m ev m'. interaction_handle e now m = (Some ev, m') \<longrightarrow>
         e = InteractionSyncReport \<and> im_pending m \<and> \<not> im_pending m' \<and> ev = InputInteraction (im_device_id m))"
proof
  show "spaced interval (fst (feed_interaction es (InteractionStateMachine_new device interval)))"
    using interactions_spaced [OF assms, of "InteractionStateMachine_new device interval"]
    by (simp add: InteractionStateMachine_new_def)
  show "\<forall>e now m ev m'. interaction_handle e now m = (Some ev, m') \<longrightarrow>
         e = InteractionSyncReport \<and> im_pending m \<and> \<not> im_pending m' \<and> ev = InputInteraction (im_device_id m)"
    by (auto simp: interaction_handle_def Let_def split: raw_interaction_event.splits if_splits option.splits)
qed

theorem interaction_reports_are_spaced_witness:
  "\<exists>t. feed_interaction [(RawKey (OtherKey 30) 1, 0), (InteractionSyncReport, 0), (RawKey (OtherKey 30) 1, 5),
       (InteractionSyncReport, 5), (RawRelative REL_X 3, 20), (InteractionSyncReport, 20)]
       (InteractionStateMachine_new 1 16) = ([0, 20], t) \<and> spaced 16 [0, 20]"
  using interaction_reports_are_spaced [of "[(RawKey (OtherKey 30) 1, 0), (InteractionSyncReport, 0),
      (RawKey (OtherKey 30) 1, 5), (InteractionSyncReport, 5), (RawRelative REL_X 3, 20), (InteractionSyncReport, 20)]" 16 1]
  by (simp add: interaction_handle_def InteractionStateMachine_new_def is_interaction_key_def is_interaction_relative_axis_def)

end
