(* ===== verification/Input_Safety.thy ===== *)
theory Input_Safety
  imports Input_Source Touch_Safety
begin

text \<open>
  No touch outlives its device. Devices come and go, are replaced under the same name, fail to read or
  lose frames, the settings change and the directory becomes unreadable: the contacts the daemon keeps
  after the queued events are delivered are contacts of devices that are open, and announced by them.
\<close>

section \<open>One device\<close>

text \<open>While a machine waits for the report after lost frames it holds no contacts.\<close>

definition lost_is_empty :: "touch_machine \<Rightarrow> bool" where
  "lost_is_empty m = (tm_desynchronized m \<longrightarrow> tm_slots m = [] \<and> tm_pending_releases m = [])"

definition mode_ok :: "input_device_id \<Rightarrow> device_mode \<Rightarrow> bool" where
  "mode_ok dev_id mode =
     (case mode of
        TouchMode m \<Rightarrow> touch_ok m \<and> lost_is_empty m \<and> tm_device_id m = dev_id
      | InteractionMode m \<Rightarrow> True)"

definition mode_down :: "device_mode \<Rightarrow> touch_contact_id multiset" where
  "mode_down mode = (case mode of TouchMode m \<Rightarrow> announced m | InteractionMode m \<Rightarrow> {#})"

lemma mode_simps [simp]:
  "mode_ok dev_id (TouchMode m) = (touch_ok m \<and> lost_is_empty m \<and> tm_device_id m = dev_id)"
  "mode_ok dev_id (InteractionMode i)" "mode_down (TouchMode m) = announced m" "mode_down (InteractionMode i) = {#}"
  by (simp_all add: mode_ok_def mode_down_def)

definition reports :: "input_device_id \<Rightarrow> device_mode \<Rightarrow> input_event list \<Rightarrow> device_mode \<Rightarrow> bool" where
  "reports dev_id mode out mode' =
     (mode_ok dev_id mode \<longrightarrow> mode_ok dev_id mode'
      \<and> (\<forall>R. elsewhere dev_id R \<longrightarrow> follow_all out (R + mode_down mode) = Some (R + mode_down mode')))"

lemma reports_refl: "reports dev_id mode [] mode"
  by (simp add: reports_def)

lemma reports_trans: "reports dev_id a out b \<Longrightarrow> reports dev_id b out' c \<Longrightarrow> reports dev_id a (out @ out') c"
  by (auto simp: reports_def follow_all_append)

lemma handle_lost:
  assumes "lost_is_empty m" and "touch_handle h e m = (out, m')"
  shows "lost_is_empty m'"
proof (cases "tm_desynchronized m \<or> e = TouchSyncDropped")
  case True
  with assms show ?thesis by (auto simp: touch_handle_def lost_is_empty_def reset_after_drop_def split: if_splits)
next
  case False
  then have "\<not> tm_desynchronized (handle_tracking_id t m)" "\<not> tm_desynchronized (update_position h x y m)"
    "\<not> tm_desynchronized (snd (commit_frame h m))" for t x y
    by (auto simp: handle_tracking_id_def update_position_def commit_frame_def Let_def put_slot_def release_contact_def split: option.splits)
  with False assms(2) have "\<not> tm_desynchronized m'" by (cases e) (auto simp: touch_handle_def)
  then show ?thesis by (simp add: lost_is_empty_def)
qed

lemma handle_reports:
  assumes "touch_handle h e m = (out, m')"
  shows "reports dev_id (TouchMode m) out (TouchMode m')"
  using handle_tracks [of m h e] handle_ok [of m h e out m'] handle_lost [OF _ assms] assms
  by (auto simp: reports_def tracks_def)

lemma rebuild_reports:
  assumes "tm_slots m = []" and "tm_pending_releases m = []" and "rebuild_single_slot h t x y m = (out, m')"
  shows "reports dev_id (TouchMode m) out (TouchMode m')"
proof (cases "u32_try_from t")
  case None
  with assms show ?thesis
    by (auto simp: rebuild_single_slot_def reports_def touch_ok_def machine_all_split announced_split lost_is_empty_def bt.wf_empty)
next
  case (Some t')
  define c where "c = (Contact_new t')\<lparr>co_raw_x := Some x, co_raw_y := Some y\<rparr>"
  define n where "n = m\<lparr>tm_pending_releases := [], tm_current_slot := Some (ar_minimum (ta_slots (tm_axes m))),
    tm_desynchronized := False, tm_slots := [(ar_minimum (ta_slots (tm_axes m)), Some c)]\<rparr>"
  have commit: "commit_frame h n = (out, m')"
    using assms(3) Some by (simp add: rebuild_single_slot_def Let_def put_slot_def n_def c_def)
  have c: "contact_ok c" "co_down_emitted c = False" by (simp_all add: c_def contact_ok_def)
  have n: "touch_ok n" using c by (simp add: n_def touch_ok_def machine_all_split bt_wf_def)
  have "announced n = announced m" using assms(1,2) c by (simp add: n_def announced_split)
  moreover have "tracks n (out, m')" using commit_tracks [OF n, of h] commit by simp
  moreover have "machine_all contact_ok m'" using placed.commit_property [OF refl refl, of n h] n commit by (simp add: touch_ok_def)
  moreover have "lost_is_empty m'" using commit by (auto simp: commit_frame_def Let_def n_def lost_is_empty_def)
  ultimately show ?thesis by (auto simp: reports_def tracks_def n_def touch_ok_def)
qed

lemma touch_step_reports:
  assumes "touch_event_step E d e m w = (r, out, m', w')"
  shows "reports dev_id (TouchMode m) out (TouchMode m')"
proof (cases "lost_is_empty m")
  case True
  obtain out1 m1 where h: "touch_handle (ev_hypot E) e m = (out1, m1)" by fastforce
  note first = handle_reports [OF h, of dev_id]
  show ?thesis
  proof (cases "tm_desynchronized m \<and> e = TouchSyncReport \<and> \<not> tm_desynchronized m1")
    case True
    then have empty: "tm_slots m1 = []" "tm_pending_releases m1 = []"
      using \<open>lost_is_empty m\<close> h by (auto simp: touch_handle_def lost_is_empty_def)
    show ?thesis using assms True h first reports_trans [OF first rebuild_reports [OF empty]]
      by (auto simp: touch_event_step_def split: prod.splits sum.splits option.splits)
  next
    case False
    with assms h first show ?thesis by (auto simp: touch_event_step_def split: if_splits)
  qed
qed (simp add: reports_def)

lemma interaction_reports:
  "reports dev_id (InteractionMode m) (case interaction_handle e now m of (out, m') \<Rightarrow> case out of None \<Rightarrow> [] | Some ev \<Rightarrow> [ev]) (InteractionMode m')"
  by (auto simp: reports_def interaction_handle_def Let_def split: raw_interaction_event.splits if_splits option.splits)

lemma read_events_reports:
  "read_events E d events mode w = (r, out, mode', w') \<Longrightarrow> reports dev_id mode out mode'"
proof (induction events arbitrary: mode w r out mode' w')
  case (Cons event events)
  show ?case
  proof (cases mode)
    case (TouchMode m)
    show ?thesis
    proof (cases "map_touch_event event")
      case (Some raw)
      obtain r1 out1 m1 w1 where step: "touch_event_step E d raw m w = (r1, out1, m1, w1)" by (metis prod_cases4)
      obtain r2 out2 mode2 w2 where rest: "read_events E d events (TouchMode m1) w1 = (r2, out2, mode2, w2)" by (metis prod_cases4)
      from touch_step_reports [OF step, of dev_id] reports_trans [OF touch_step_reports [OF step] Cons.IH [OF rest]] Cons.prems
      show ?thesis by (cases r1) (auto simp: TouchMode Some step rest)
    qed (use Cons TouchMode in auto)
  next
    case (InteractionMode m)
    show ?thesis
    proof (cases "map_interaction_event event")
      case (Some raw)
      obtain now w1 where now: "ev_now E w = (now, w1)" by fastforce
      obtain o1 m1 where h: "interaction_handle raw now m = (o1, m1)" by fastforce
      obtain r2 out2 mode2 w2 where rest: "read_events E d events (InteractionMode m1) w1 = (r2, out2, mode2, w2)" by (metis prod_cases4)
      from reports_trans [OF interaction_reports [of dev_id m raw now m1] Cons.IH [OF rest]] Cons.prems
      show ?thesis by (auto simp: InteractionMode Some now h rest)
    qed (use Cons InteractionMode in auto)
  qed
qed (simp add: reports_refl)

lemma read_available_reports:
  assumes "read_available E dev w = (r, out, dev', w')"
  shows "od_device_id dev' = od_device_id dev \<and> reports (od_device_id dev) (od_mode dev) out (od_mode dev')"
  using assms read_events_reports
  by (auto simp: read_available_def reports_refl split: prod.splits sum.splits)

section \<open>All devices\<close>

definition devices_down :: "(string, 'd open_device) btree \<Rightarrow> touch_contact_id multiset" where
  "devices_down devs = sum_list (map (\<lambda>(name, dev). mode_down (od_mode dev)) devs)"

definition device_ok :: "u64 \<Rightarrow> 'd open_device \<Rightarrow> bool" where
  "device_ok next_id dev = (mode_ok (od_device_id dev) (od_mode dev) \<and> od_device_id dev < next_id)"

definition source_ok :: "'d input_source \<Rightarrow> bool" where
  "source_ok s =
     (bt_wf (is_devices s) \<and> list_all (\<lambda>(name, dev). device_ok (is_next_device_id s) dev) (is_devices s)
      \<and> distinct (map (od_device_id \<circ> snd) (is_devices s))
      \<and> (\<forall>name. bt_contains (is_devices s) name \<longrightarrow> bt_contains (is_identities s) name))"

text \<open>
  \<open>S\<close> are the contacts down after everything delivered so far; the queue takes a reader from there to what
  the open devices hold.
\<close>

definition in_step :: "touch_contact_id multiset \<Rightarrow> 'd input_source \<Rightarrow> bool" where
  "in_step S s = (source_ok s \<and> follow_all (is_pending s) S = Some (devices_down (is_devices s)))"

lemma devices_down_simps [simp]:
  "devices_down [] = {#}" "devices_down ((n, d) # devs) = mode_down (od_mode d) + devices_down devs"
  by (simp_all add: devices_down_def)

lemma mode_down_device: "mode_ok i mode \<Longrightarrow> c \<in># mode_down mode \<Longrightarrow> tc_device c = i"
  by (cases mode) (auto simp: announced_def down_ids_def TouchContactId_new_def)

lemma bt_entry:
  assumes "bt_wf m" and "bt_get m k = Some v"
  obtains l r where "m = l @ (k, v) # r" and "bt_remove k m = l @ r" and "\<And>x. bt_insert k x m = l @ (k, x) # r"
    and "k \<notin> fst ` set (l @ r)"
  using assms
proof (induction m arbitrary: thesis)
  case (Cons e m)
  show ?case
  proof (cases "fst e = k")
    case True
    then have "k \<notin> fst ` set m" using Cons.prems(2) by (auto simp: bt_wf_def)
    then have "filter (\<lambda>e. fst e \<noteq> k) m = m" by (intro filter_True) (metis image_eqI)
    then have "bt_remove k (e # m) = m" using True by (simp add: bt_remove_def)
    with True Cons.prems(3) \<open>k \<notin> fst ` set m\<close> show ?thesis
      by (intro Cons.prems(1) [of "[]" m]) (auto simp: bt_get_def prod_eq_iff)
  next
    case False
    from Cons.prems(2,3) False obtain l r where lr: "m = l @ (k, v) # r" "bt_remove k m = l @ r"
      "\<And>x. bt_insert k x m = l @ (k, x) # r" "k \<notin> fst ` set (l @ r)"
      using Cons.IH by (auto simp: bt_wf_def bt_get_def)
    have "\<not> k < fst e" using Cons.prems(2) lr(1) by (auto simp: bt_wf_def)
    with False lr show ?thesis by (intro Cons.prems(1) [of "e # l" r]) (auto simp: bt_remove_def)
  qed
qed (simp add: bt_get_def)

lemma devices_down_append: "devices_down (l @ r) = devices_down l + devices_down r"
  by (simp add: devices_down_def)

lemma elsewhere_devices:
  assumes "list_all (\<lambda>(n, d). device_ok i d) devs" and "j \<notin> set (map (od_device_id \<circ> snd) devs)"
  shows "elsewhere j (devices_down devs)"
  using assms
proof (induction devs)
  case (Cons e devs)
  obtain n d where e: "e = (n, d)" by (cases e)
  with Cons have "mode_ok (od_device_id d) (od_mode d)" "od_device_id d \<noteq> j" by (auto simp: device_ok_def)
  with mode_down_device have "elsewhere j (mode_down (od_mode d))" by (force simp: elsewhere_def)
  with Cons e show ?case by (auto simp: elsewhere_def)
qed (simp add: elsewhere_def)

text \<open>A device with its name taken out: what the others hold is elsewhere.\<close>

lemma source_entry:
  assumes "source_ok s" and "bt_get (is_devices s) name = Some dev"
  obtains l r where "is_devices s = l @ (name, dev) # r" and "bt_remove name (is_devices s) = l @ r"
    and "\<And>x. bt_insert name x (is_devices s) = l @ (name, x) # r"
    and "elsewhere (od_device_id dev) (devices_down (l @ r))"
    and "devices_down (is_devices s) = devices_down (l @ r) + mode_down (od_mode dev)"
    and "device_ok (is_next_device_id s) dev"
proof -
  obtain l r where lr: "is_devices s = l @ (name, dev) # r" "bt_remove name (is_devices s) = l @ r"
    "\<And>x. bt_insert name x (is_devices s) = l @ (name, x) # r"
    by (rule bt_entry [of "is_devices s" name dev]) (use assms in \<open>auto simp: source_ok_def\<close>)
  moreover have "elsewhere (od_device_id dev) (devices_down (l @ r))"
    using assms(1) lr(1) by (intro elsewhere_devices [of "is_next_device_id s"]) (auto simp: source_ok_def)
  moreover have "devices_down (is_devices s) = devices_down (l @ r) + mode_down (od_mode dev)"
    by (simp add: lr(1) devices_down_append add.assoc add.commute add.left_commute)
  moreover have "device_ok (is_next_device_id s) dev" using assms(1) lr(1) by (simp add: source_ok_def)
  ultimately show thesis by (rule that)
qed

section \<open>Dropping and opening devices\<close>

text \<open>What discovery does to a source: it stays in step, and nothing new is down.\<close>

definition renews :: "touch_contact_id multiset \<Rightarrow> 'd input_source \<Rightarrow> 'd input_source \<Rightarrow> bool" where
  "renews S s t = (in_step S s \<longrightarrow> in_step S t \<and> devices_down (is_devices t) \<subseteq># devices_down (is_devices s))"

lemma renews_refl: "renews S s s"
  by (simp add: renews_def)

lemma renews_trans: "renews S s t \<Longrightarrow> renews S t u \<Longrightarrow> renews S s u"
  by (auto simp: renews_def)

lemma renews_fold: "(\<And>x s. renews S s (f x s)) \<Longrightarrow> renews S s (fold f xs s)"
  by (induction xs arbitrary: s) (auto intro: renews_refl renews_trans)

definition same_devices :: "'d input_source \<Rightarrow> 'd input_source \<Rightarrow> bool" where
  "same_devices s t =
     (is_devices t = is_devices s \<and> is_identities t = is_identities s \<and> is_pending t = is_pending s
      \<and> is_next_device_id t = is_next_device_id s)"

lemma renews_same: "same_devices s t \<Longrightarrow> renews S s t"
  by (simp add: same_devices_def renews_def in_step_def source_ok_def)

lemma follow_unplug:
  assumes "mode_ok i mode" and "elsewhere i R"
  shows "filter_mset (\<lambda>c. tc_device c \<noteq> i) (R + mode_down mode) = R"
proof -
  have "filter_mset (\<lambda>c. tc_device c \<noteq> i) (mode_down mode) = {#}" using mode_down_device [OF assms(1)] by (auto simp: filter_mset_eq_conv)
  moreover have "filter_mset (\<lambda>c. tc_device c \<noteq> i) R = R" using assms(2) by (auto simp: elsewhere_def filter_mset_eq_conv)
  ultimately show ?thesis by simp
qed

lemma drop_device_effect:
  assumes "source_ok s" and "follow_all (is_pending s) S = Some (devices_down (is_devices s))"
  shows "follow_all (is_pending (drop_device name s)) S = Some (devices_down (is_devices (drop_device name s)))
    \<and> is_devices (drop_device name s) = bt_remove name (is_devices s)
    \<and> devices_down (bt_remove name (is_devices s)) \<subseteq># devices_down (is_devices s)
    \<and> is_identities (drop_device name s) = is_identities s \<and> is_next_device_id (drop_device name s) = is_next_device_id s"
proof (cases "bt_get (is_devices s) name")
  case None
  then have "bt_remove name (is_devices s) = is_devices s"
    by (auto simp: bt_get_def bt_remove_def map_of_eq_None_iff filter_id_conv)
  with None assms show ?thesis by (simp add: drop_device_def)
next
  case (Some dev)
  obtain l r where e: "bt_remove name (is_devices s) = l @ r" "elsewhere (od_device_id dev) (devices_down (l @ r))"
    "devices_down (is_devices s) = devices_down (l @ r) + mode_down (od_mode dev)" "device_ok (is_next_device_id s) dev"
    using source_entry [OF assms(1) Some] by metis
  have ok: "mode_ok (od_device_id dev) (od_mode dev)" using e(4) by (simp add: device_ok_def)
  show ?thesis using Some assms(2) e follow_unplug [OF ok e(2)]
    by (cases "od_mode dev") (auto simp: drop_device_def is_touch_def follow_all_append)
qed

lemma source_ok_remove:
  assumes "source_ok s" and "is_devices t = bt_remove name (is_devices s)" and "is_next_device_id t = is_next_device_id s"
    and "\<And>n. n \<noteq> name \<Longrightarrow> bt_get (is_identities t) n = bt_get (is_identities s) n"
  shows "source_ok t"
proof -
  have "distinct (map (od_device_id \<circ> snd) (filter P xs))" if "distinct (map (od_device_id \<circ> snd) xs)" for P and xs :: "(string \<times> 'a open_device) list"
    using that by (induction xs) auto
  moreover have "bt_contains (is_identities t) n" if "bt_contains (bt_remove name (is_devices s)) n" for n
    using that assms(1,4) by (cases "n = name") (auto simp: source_ok_def bt_contains_def bt.look_del)
  ultimately show ?thesis using assms(1-3)
    by (auto simp: source_ok_def bt.wf_del, auto simp: bt_remove_def list_all_iff)
qed

lemma drop_renews:
  assumes "\<And>n. n \<noteq> name \<Longrightarrow> bt_get (is_identities t) n = bt_get (is_identities s) n"
    and "is_devices t = is_devices (drop_device name s)" and "is_pending t = is_pending (drop_device name s)"
    and "is_next_device_id t = is_next_device_id s"
  shows "renews S s t"
  unfolding renews_def
proof
  assume s: "in_step S s"
  then have ok: "source_ok s" and f: "follow_all (is_pending s) S = Some (devices_down (is_devices s))" by (simp_all add: in_step_def)
  note d = drop_device_effect [OF ok f, of name]
  have "source_ok t" using source_ok_remove [OF ok, of t name] assms d by auto
  with assms d show "in_step S t \<and> devices_down (is_devices t) \<subseteq># devices_down (is_devices s)"
    by (simp add: in_step_def)
qed

lemma drop_device_keeps: "is_identities (drop_device name s) = is_identities s" "is_next_device_id (drop_device name s) = is_next_device_id s"
  by (simp_all add: drop_device_def split: option.splits)

lemma forget_renews: "renews S s (forget_node name s)"
  by (rule drop_renews [of name]) (simp_all add: forget_node_def Let_def drop_device_keeps bt.look_del)

lemma opened_device:
  assumes "OpenInputDevice_open E path i config w = (Inr (Some dev), w')"
  shows "od_device_id dev = i \<and> mode_ok i (od_mode dev) \<and> mode_down (od_mode dev) = {#}"
proof -
  obtain d kind where "dev = \<lparr>od_device = d, od_device_id = i, od_mode = (case kind of
      ObservedTouch a \<Rightarrow> TouchMode (TouchStateMachine_new i a config)
    | ObservedInteraction \<Rightarrow> InteractionMode (InteractionStateMachine_new i INTERACTION_COALESCE_INTERVAL))\<rparr>"
    using assms by (auto simp: OpenInputDevice_open_def split: prod.splits sum.splits)
  then show ?thesis using new_machine
    by (cases kind) (simp_all add: lost_is_empty_def, simp add: TouchStateMachine_new_def)
qed

lemma bt_insert_new:
  assumes "bt_get m k = None"
  obtains l r where "m = l @ r" and "bt_insert k x m = l @ (k, x) # r"
  using assms
proof (induction m arbitrary: thesis)
  case (Cons e m)
  then have ne: "fst e \<noteq> k" "bt_get m k = None" by (auto simp: bt_get_def split: if_splits)
  show ?case
  proof (cases "k < fst e")
    case True
    with ne show ?thesis by (intro Cons.prems(1) [of "[]" "e # m"]) auto
  next
    case False
    obtain l r where "m = l @ r" "bt_insert k x m = l @ (k, x) # r" using Cons.IH ne(2) by blast
    with ne False show ?thesis by (intro Cons.prems(1) [of "e # l" r]) auto
  qed
qed auto

lemma device_ok_mono: "device_ok i dev \<Longrightarrow> i < j \<Longrightarrow> device_ok j dev"
  by (auto simp: device_ok_def)

lemma insert_renews:
  assumes t: "is_devices t = bt_insert name dev (is_devices s)" "is_identities t = bt_insert name node (is_identities s)"
      "is_pending t = is_pending s" "is_next_device_id t = nid"
    and dev: "od_device_id dev = is_next_device_id s" "mode_ok (is_next_device_id s) (od_mode dev)" "mode_down (od_mode dev) = {#}"
    and less: "is_next_device_id s < nid" and new: "bt_get (is_devices s) name = None"
  shows "renews S s t"
  unfolding renews_def
proof
  assume s: "in_step S s"
  obtain l r where lr: "is_devices s = l @ r" "bt_insert name dev (is_devices s) = l @ (name, dev) # r"
    using bt_insert_new [OF new] by blast
  have old: "list_all (\<lambda>(n, d). device_ok (is_next_device_id s) d) (l @ r)" "distinct (map (od_device_id \<circ> snd) (l @ r))"
    "bt_wf (is_devices s)" "\<forall>n. bt_contains (is_devices s) n \<longrightarrow> bt_contains (is_identities s) n"
    using s lr(1) by (simp_all add: in_step_def source_ok_def)
  have "od_device_id dev \<notin> set (map (od_device_id \<circ> snd) (l @ r))"
    using old(1) dev(1) by (fastforce simp: list_all_iff device_ok_def)
  moreover have "list_all (\<lambda>(n, d). device_ok nid d) (l @ r)"
    using old(1) device_ok_mono less by (fastforce simp: list_all_iff)
  moreover have "device_ok nid dev" using dev less by (simp add: device_ok_def)
  moreover have "\<forall>n. bt_contains (is_devices t) n \<longrightarrow> bt_contains (is_identities t) n"
    using old(4) by (auto simp: t bt_contains_def bt.look_ins)
  ultimately have "source_ok t" using old(2) lr(2) bt.wf_ins [OF old(3), of name dev]
    by (auto simp: source_ok_def t)
  moreover have "devices_down (is_devices t) = devices_down (is_devices s)"
    using lr dev(3) by (simp add: t(1) devices_down_append)
  ultimately show "in_step S t \<and> devices_down (is_devices t) \<subseteq># devices_down (is_devices s)"
    using s by (simp add: in_step_def t(3))
qed

lemma open_node_renews:
  assumes "open_node E now name node delay s w = (r, t, w')" and "bt_get (is_devices s) name = None"
  shows "renews S s t"
proof -
  let ?open = "OpenInputDevice_open E (entry_path (is_root s) name) (is_next_device_id s) (is_config s) w"
  show ?thesis
  proof (cases "\<exists>dev w1 nid. ?open = (Inr (Some dev), w1) \<and> u64_checked_add (is_next_device_id s) 1 = Some nid")
    case True
    then obtain dev w1 nid where o: "?open = (Inr (Some dev), w1)" "u64_checked_add (is_next_device_id s) 1 = Some nid" by blast
    then have "is_next_device_id s < nid"
      by (auto simp: u64_checked_add_def word_less_def uint_plus_if' split: if_splits)
    with assms o opened_device [OF o(1)] show ?thesis
      by (intro insert_renews [of t name dev s node nid]) (auto simp: open_node_def)
  next
    case False
    with assms(1) have "same_devices s t"
      by (auto simp: open_node_def same_devices_def split: prod.splits sum.splits option.splits)
    then show ?thesis by (rule renews_same)
  qed
qed

lemma visit_node_renews:
  assumes "visit_node E now name node s w = (r, t, w')"
  shows "renews S s t"
proof (cases "bt_get (is_identities s) name = Some node")
  case True
  with assms show ?thesis by (simp add: visit_node_def renews_refl)
next
  case False
  define s1 where "s1 = (if bt_contains (is_identities s) name
    then drop_device name (s\<lparr>is_identities := bt_remove name (is_identities s)\<rparr>) else s)"
  have first: "renews S s s1"
    by (auto simp: s1_def renews_refl drop_device_def bt.look_del split: option.splits intro!: drop_renews [of name])
  define s3 where "s3 = s1\<lparr>is_ignored := bt_remove name (is_ignored s1), is_failed := bt_remove name (is_failed s1)\<rparr>"
  have same: "same_devices s1 s3" "\<And>f. same_devices s1 (s3\<lparr>is_failed := f\<rparr>)" by (simp_all add: s3_def same_devices_def)
  show ?thesis
  proof (cases "in_step S s")
    case True
    have gone: "bt_get (is_devices s3) name = None"
      using True by (auto simp: s3_def s1_def in_step_def source_ok_def drop_device_def bt_contains_def bt.look_del split: option.splits)
    have "same_devices s1 t \<or> (\<exists>delay. open_node E now name node delay s3 w = (r, t, w'))"
      using assms False same
      by (auto simp: visit_node_def s1_def [symmetric] Let_def s3_def renews_refl same_devices_def split: option.splits if_splits)
    then show ?thesis
      using first renews_same [of s1 t S] renews_same [OF same(1), of S] open_node_renews [OF _ gone] renews_trans by metis
  qed (simp add: renews_def)
qed

lemma visit_nodes_renews: "visit_nodes E now nodes s w = (r, t, w') \<Longrightarrow> renews S s t"
proof (induction nodes arbitrary: s w)
  case (Cons x nodes)
  obtain name node where x: "x = (name, node)" by (cases x)
  obtain r1 s1 w1 where v: "visit_node E now name node s w = (r1, s1, w1)" by (metis prod_cases3)
  from visit_node_renews [OF v] Cons.IH [of s1 w1] Cons.prems show ?case
    by (cases r1) (auto simp: x v intro: renews_trans)
qed (simp add: renews_refl)

lemma refresh_renews:
  assumes "refresh_devices E s w = (r, t, w')"
  shows "renews S s t"
proof (cases "discover_event_nodes E (is_root s) w")
  case (Pair d w1)
  show ?thesis
  proof (cases d)
    case (Inl e)
    with assms Pair show ?thesis by (auto simp: refresh_devices_def renews_refl)
  next
    case (Inr discovered)
    define s1 where "s1 = fold forget_node (removed_nodes discovered s) s"
    have first: "renews S s s1" unfolding s1_def by (rule renews_fold) (rule forget_renews)
    obtain now w2 where now: "ev_now E w1 = (now, w2)" by fastforce
    obtain r2 s2 w3 where v: "visit_nodes E now discovered s1 w2 = (r2, s2, w3)" by (metis prod_cases3)
    have "same_devices s2 t" using assms Pair Inr now v by (cases r2) (auto simp: refresh_devices_def s1_def same_devices_def)
    then show ?thesis using first visit_nodes_renews [OF v] renews_same renews_trans by metis
  qed
qed

section \<open>Polling\<close>

definition keeps_step :: "touch_contact_id multiset \<Rightarrow> 'd input_source \<Rightarrow> 'd input_source \<Rightarrow> bool" where
  "keeps_step S s t = (in_step S s \<longrightarrow> in_step S t)"

lemma keeps_refl: "keeps_step S s s"
  by (simp add: keeps_step_def)

lemma keeps_trans: "keeps_step S s t \<Longrightarrow> keeps_step S t u \<Longrightarrow> keeps_step S s u"
  by (simp add: keeps_step_def)

lemma renews_keeps: "renews S s t \<Longrightarrow> keeps_step S s t"
  by (simp add: renews_def keeps_step_def)

lemmas same_keeps = renews_keeps [OF renews_same]

lemma read_keeps:
  assumes "read_available E dev w = (r, out, dev', w')" and "bt_get (is_devices s) name = Some dev"
    and "is_devices t = bt_insert name dev' (is_devices s)" and "is_pending t = is_pending s @ out"
    and "is_identities t = is_identities s" and "is_next_device_id t = is_next_device_id s"
  shows "keeps_step S s t"
  unfolding keeps_step_def
proof
  assume s: "in_step S s"
  then have ok: "source_ok s" by (simp add: in_step_def)
  obtain l x where e: "is_devices s = l @ (name, dev) # x" "bt_insert name dev' (is_devices s) = l @ (name, dev') # x"
    "elsewhere (od_device_id dev) (devices_down (l @ x))"
    "devices_down (is_devices s) = devices_down (l @ x) + mode_down (od_mode dev)" "device_ok (is_next_device_id s) dev"
    using source_entry [OF ok assms(2)] by metis
  have dev': "od_device_id dev' = od_device_id dev" "reports (od_device_id dev) (od_mode dev) out (od_mode dev')"
    using read_available_reports [OF assms(1)] by simp_all
  have "mode_ok (od_device_id dev) (od_mode dev)" using e(5) by (simp add: device_ok_def)
  with dev'(2) e(3) have new: "mode_ok (od_device_id dev) (od_mode dev')"
    "follow_all out (devices_down (is_devices s)) = Some (devices_down (l @ x) + mode_down (od_mode dev'))"
    by (simp_all add: reports_def e(4))
  have down: "devices_down (is_devices t) = devices_down (l @ x) + mode_down (od_mode dev')"
    by (simp add: assms(3) e(2) devices_down_append add.assoc add.commute add.left_commute)
  have "map fst (is_devices t) = map fst (is_devices s)" "map (od_device_id \<circ> snd) (is_devices t) = map (od_device_id \<circ> snd) (is_devices s)"
    by (simp_all add: assms(3) e(1,2) [unfolded e(1)] dev'(1), simp_all add: e(1) e(2) [unfolded e(1)] dev'(1))
  moreover have "list_all (\<lambda>(n, d). device_ok (is_next_device_id s) d) (is_devices t)"
    using ok e(1,2,5) new(1) dev'(1) by (auto simp: source_ok_def assms(3) device_ok_def)
  moreover have "bt_contains (is_devices t) n = bt_contains (is_devices s) n" for n
    using assms(2) by (auto simp: assms(3) bt_contains_def bt.look_ins)
  ultimately have "source_ok t" using ok unfolding source_ok_def bt_wf_def assms(5,6) by metis
  with s new(2) down show "in_step S t" by (simp add: in_step_def assms(4) follow_all_append)
qed

lemma poll_each_keeps: "poll_each E gone names s w = (gone', t, w') \<Longrightarrow> keeps_step S s t"
proof (induction names arbitrary: gone s w)
  case (Cons name names)
  show ?case
  proof (cases "bt_get (is_devices s) name")
    case None
    with Cons show ?thesis by simp
  next
    case (Some dev)
    obtain r out dev' w1 where r: "read_available E dev w = (r, out, dev', w1)" by (metis prod_cases4)
    define s1 where "s1 = s\<lparr>is_devices := bt_insert name dev' (is_devices s), is_pending := is_pending s @ out\<rparr>"
    have first: "keeps_step S s (s1\<lparr>is_errors := es\<rparr>)" "keeps_step S s s1" for es
      by (rule read_keeps [OF r Some]; simp add: s1_def)+
    have errors: "is_errors s = is_errors s1" by (simp add: s1_def)
    show ?thesis
    proof (cases r)
      case (Inr u)
      with Cons.prems Some r have "poll_each E gone names (s1\<lparr>is_errors := bt_remove name (is_errors s1)\<rparr>) w1 = (gone', t, w')"
        by (simp add: s1_def [symmetric] errors)
      from Cons.IH [OF this] first(1) show ?thesis by (rule keeps_trans [rotated])
    next
      case (Inl e)
      with Cons.prems Some r have "poll_each E gone names s1 w1 = (gone', t, w')
          \<or> poll_each E (gone @ [name]) names (s1\<lparr>is_errors := bt_insert name (io_text e) (is_errors s1)\<rparr>) w1 = (gone', t, w')"
        by (auto simp: s1_def [symmetric] errors split: if_splits)
      with Cons.IH first show ?thesis by (metis keeps_trans)
    qed
  qed
qed (simp add: keeps_refl)

lemma disconnect_keeps: "keeps_step S s (fst (disconnect E name (s, w)))"
  by (rule renews_keeps, rule drop_renews [of name])
    (simp_all add: disconnect_def Let_def drop_device_keeps bt.look_del split: option.splits prod.splits)

lemma poll_devices_keeps:
  assumes "poll_devices E s w = (active, t, w')"
  shows "keeps_step S s t"
proof -
  obtain gone s1 w1 where p: "poll_each E [] (bt_keys (is_devices s)) s w = (gone, s1, w1)" by (metis prod_cases3)
  have fold: "keeps_step S a (fst (fold (disconnect E) names (a, b)))" for names a b
  proof (induction names arbitrary: a b)
    case (Cons name names)
    show ?case using disconnect_keeps [of S a E name b] Cons [of "fst (disconnect E name (a, b))" "snd (disconnect E name (a, b))"]
      by (simp add: keeps_step_def)
  qed (simp add: keeps_refl)
  have "same_devices (fst (fold (disconnect E) gone (s1, w1))) t"
    using assms p by (auto simp: poll_devices_def same_devices_def split: prod.splits if_splits)
  with poll_each_keeps [OF p] fold [of s1 gone w1] same_keeps show ?thesis by (metis keeps_trans)
qed

section \<open>The observer\<close>

text \<open>
  A run of the observer thread: it opens a source, waits for events and forwards them, and gives the
  source up for a new one when settings change or discovery fails. Whatever happens elsewhere, the
  environment of each call included, is arbitrary. The list holds what the daemon has received.
\<close>

inductive observer_run :: "('w, 'd) evdev_ports \<Rightarrow> 'd input_source option \<Rightarrow> input_event list \<Rightarrow> bool" for E where
  idle: "observer_run E None []"
| opened: "observer_run E None sent \<Longrightarrow> source_open E directory config w = (Inr s, w') \<Longrightarrow> observer_run E (Some s) sent"
| paused: "observer_run E (Some s) sent \<Longrightarrow> next_event_round E stop poll s w = (Pause n poll', s', w') \<Longrightarrow> observer_run E (Some s') sent"
| forwarded: "observer_run E (Some s) sent \<Longrightarrow> next_event_round E stop poll s w = (Returned outcome, s', w')
    \<Longrightarrow> observer_sends outcome = (event, keep) \<Longrightarrow> observer_run E (if keep then Some s' else None) (sent @ [event])"

definition run_ok :: "'d input_source option \<Rightarrow> input_event list \<Rightarrow> bool" where
  "run_ok source sent =
     (\<exists>S. follow_all sent {#} = Some S \<and> (case source of None \<Rightarrow> S = {#} | Some s \<Rightarrow> in_step S s))"

lemma pop_follow:
  assumes "pop_event s = Some (event, s')" and "in_step S s"
  shows "\<exists>S'. follow event S = Some S' \<and> in_step S' s'"
  using assms
  by (auto simp: pop_event_def in_step_def source_ok_def split: list.splits Option.bind_splits)

lemma opened_in_step:
  assumes "source_open E directory config w = (Inr s, w')"
  shows "in_step {#} s"
proof -
  obtain s0 now w1 r s1 where "refresh_devices E s0 w1 = (r, s1, w')" "s = s1\<lparr>is_pending := []\<rparr>"
    "is_devices s0 = []" "is_identities s0 = []" "is_pending s0 = []"
    using assms by (auto simp: source_open_def with_intervals_def split: prod.splits sum.splits)
  note r = this
  have "in_step {#} s0" using r(3-5) by (simp add: in_step_def source_ok_def bt.wf_empty bt_contains_def)
  with refresh_renews [OF r(1), of "{#}"] r(3) have "in_step {#} s1" "devices_down (is_devices s1) = {#}"
    by (auto simp: renews_def)
  with r(2) show ?thesis by (simp add: in_step_def source_ok_def)
qed

definition outcome_ok :: "touch_contact_id multiset \<Rightarrow> round_outcome \<Rightarrow> 'd input_source \<Rightarrow> bool" where
  "outcome_ok S outcome t =
     ((\<forall>event. outcome = Returned (Inr (Some event)) \<longrightarrow> (\<exists>S'. follow event S = Some S' \<and> in_step S' t))
      \<and> (\<forall>n p. outcome = Pause n p \<longrightarrow> in_step S t))"

lemma popped_ok: "pop_event s = Some (event, s') \<Longrightarrow> in_step S s \<Longrightarrow> outcome_ok S (Returned (Inr (Some event))) s'"
  using pop_follow by (simp add: outcome_ok_def)

lemma poll_round_ok:
  assumes "poll_round E poll s w = (outcome, t, w')" and "in_step S s"
  shows "outcome_ok S outcome t"
proof -
  obtain active s1 w1 where p: "poll_devices E s w = (active, s1, w1)" by (metis prod_cases3)
  have s1: "in_step S s1" using poll_devices_keeps [OF p, of S] assms(2) by (simp add: keeps_step_def)
  show ?thesis
  proof (cases "pop_event s1")
    case None
    with assms(1) p s1 show ?thesis by (auto simp: poll_round_def Let_def outcome_ok_def split: prod.splits)
  next
    case (Some es)
    with assms(1) p s1 show ?thesis by (cases es) (auto simp: poll_round_def Let_def intro: popped_ok)
  qed
qed

lemma round_ok:
  assumes "next_event_round E stop poll s w = (outcome, t, w')" and "in_step S s"
  shows "outcome_ok S outcome t"
proof (cases "stop \<or> pop_event s \<noteq> None")
  case True
  with assms show ?thesis
    by (auto simp: next_event_round_def outcome_ok_def split: if_splits intro: pop_follow)
next
  case False
  then have go: "stop = False" "pop_event s = None" by blast+
  obtain now w1 where now: "ev_now E w = (now, w1)" by fastforce
  obtain r s1 w2 where r: "refresh_devices E s w1 = (r, s1, w2)" by (metis prod_cases3)
  have s1: "in_step S s1" using refresh_renews [OF r, of S] assms(2) by (simp add: renews_def)
  show ?thesis
  proof (cases "is_next_scan s \<le> now")
    case True
    show ?thesis
    proof (cases r)
      case (Inl e)
      with assms(1) go now r True show ?thesis by (auto simp: next_event_round_def outcome_ok_def)
    next
      case (Inr u)
      show ?thesis
      proof (cases "pop_event s1")
        case None
        with assms(1) go now r True Inr have "poll_round E poll s1 w2 = (outcome, t, w')" by (simp add: next_event_round_def)
        with s1 show ?thesis by (rule poll_round_ok [rotated])
      next
        case (Some es)
        with assms(1) go now r True Inr s1 show ?thesis by (cases es) (auto simp: next_event_round_def intro: popped_ok)
      qed
    qed
  qed (use assms go now poll_round_ok in \<open>auto simp: next_event_round_def\<close>)
qed

lemma observed_ok: "observer_run E source sent \<Longrightarrow> run_ok source sent"
proof (induction rule: observer_run.induct)
  case idle
  then show ?case by (simp add: run_ok_def)
next
  case (opened sent directory config w s w')
  with opened_in_step show ?case by (auto simp: run_ok_def)
next
  case (paused s sent stop poll w n poll' s' w')
  from paused.IH obtain S where S: "follow_all sent {#} = Some S" "in_step S s" by (auto simp: run_ok_def)
  from round_ok [OF paused.hyps(2) S(2)] S(1) show ?case by (auto simp: run_ok_def outcome_ok_def)
next
  case (forwarded s sent stop poll w outcome s' w' event keep)
  from forwarded.IH obtain S where S: "follow_all sent {#} = Some S" "in_step S s" by (auto simp: run_ok_def)
  have fine: "outcome_ok S (Returned outcome) s'" by (rule round_ok [OF forwarded.hyps(2) S(2)])
  show ?case
  proof (cases keep)
    case True
    with forwarded.hyps(3) have "outcome = Inr (Some event)" by (auto simp: observer_sends_def split: sum.splits option.splits)
    with fine S(1) True show ?thesis by (auto simp: run_ok_def outcome_ok_def follow_all_append)
  next
    case False
    with forwarded.hyps(3) have "event = InputResync None" by (auto simp: observer_sends_def split: sum.splits option.splits)
    with S(1) False show ?thesis by (simp add: run_ok_def follow_all_append)
  qed
qed

text \<open>
  C16: no touch outlives its device. In every run of the observer, with devices that appear, disappear, are
  replaced under their name, fail, lose frames or send nonsense, and with changes of the settings in between:
  once the queue of a source is delivered, every contact the daemon holds is one that an open device announced
  and still holds, under the identity of that device alone; without a source the daemon holds none.
\<close>

theorem daemon_contacts_are_live:
  assumes "observer_run E source sent"
  shows "case source of
      None \<Rightarrow> fold reduce_contacts sent {} = {}
    | Some s \<Rightarrow>
        distinct (map (od_device_id \<circ> snd) (is_devices s))
        \<and> (\<forall>c \<in> fold reduce_contacts (sent @ is_pending s) {}.
             \<exists>name dev m. (name, dev) \<in> set (is_devices s) \<and> od_mode dev = TouchMode m
               \<and> tc_device c = od_device_id dev \<and> c \<in># announced m)"
proof (cases source)
  case None
  with observed_ok [OF assms] have "follow_all sent {#} = Some {#}" by (simp add: run_ok_def)
  from daemon_follows [OF this, of "{}"] None show ?thesis by simp
next
  case (Some s)
  with observed_ok [OF assms] obtain S where S: "follow_all sent {#} = Some S" "in_step S s" by (auto simp: run_ok_def)
  then have "follow_all (sent @ is_pending s) {#} = Some (devices_down (is_devices s))"
    by (simp add: follow_all_append in_step_def)
  from daemon_follows [OF this, of "{}"]
  have sub: "fold reduce_contacts (sent @ is_pending s) {} \<subseteq> set_mset (devices_down (is_devices s))" by simp
  have "\<exists>name dev m. (name, dev) \<in> set devs \<and> od_mode dev = TouchMode m \<and> tc_device c = od_device_id dev \<and> c \<in># announced m"
    if "c \<in># devices_down devs" "list_all (\<lambda>(n, d). device_ok i d) devs" for c i and devs :: "(string \<times> 'b open_device) list"
    using that
  proof (induction devs)
    case (Cons e devs)
    obtain n d where e: "e = (n, d)" by (cases e)
    show ?case
    proof (cases "c \<in># mode_down (od_mode d)")
      case True
      with Cons.prems e mode_down_device [of "od_device_id d" "od_mode d" c] show ?thesis
        by (cases "od_mode d") (auto simp: device_ok_def)
    qed (use Cons e in fastforce)
  qed simp
  with sub S(2) Some show ?thesis by (fastforce simp: in_step_def source_ok_def)
qed

text \<open>One touch panel that sends the events of the environment.\<close>

definition demo_panel :: "(evdev_event list, unit) evdev_ports" where
  "demo_panel =
     \<lparr>ev_read_dir = (\<lambda>p w. (Inr [Inr ''event0'', Inr ''mice''], w)),
      ev_metadata = (\<lambda>p w. (Inr \<lparr>ni_device = 5, ni_inode = 9\<rparr>, w)), ev_open = (\<lambda>p w. (Inr (), w)),
      ev_supported_absolute_axes = (\<lambda>d. Some [ABS_MT_SLOT, ABS_MT_TRACKING_ID, ABS_MT_POSITION_X, ABS_MT_POSITION_Y]),
      ev_supported_keys = (\<lambda>d. None), ev_supported_relative_axes = (\<lambda>d. None),
      ev_get_absinfo = (\<lambda>d w. (Inr (map (\<lambda>a. (a, \<lparr>ai_value = 0, ai_minimum = 0, ai_maximum = 1\<rparr>))
         [ABS_MT_SLOT, ABS_MT_TRACKING_ID, ABS_MT_POSITION_X, ABS_MT_POSITION_Y]), w)),
      ev_fetch_events = (\<lambda>d w. (Inr w, [])), ev_now = (\<lambda>w. (0, w)), ev_hypot = (\<lambda>a b. Fin 0)\<rparr>"

abbreviation demo_contact :: touch_contact_id where
  "demo_contact \<equiv> \<lparr>tc_device = 1, tc_tracking_id = 7\<rparr>"

theorem daemon_contacts_are_live_witness:
  "\<exists>s. observer_run demo_panel (Some s) [InputTouchDown demo_contact (Fin 0) (Fin 0)]
     \<and> (\<exists>name dev m. (name, dev) \<in> set (is_devices s) \<and> od_mode dev = TouchMode m \<and> demo_contact \<in># announced m)"
proof -
  let ?open = "source_open demo_panel [RootDir] demo_gesture []"
  let ?frame = "[EvAbsolute ABS_MT_TRACKING_ID 7, EvAbsolute ABS_MT_POSITION_X 0, EvAbsolute ABS_MT_POSITION_Y 0, EvSynReport]"
  have run: "case ?open of (r, w) \<Rightarrow> (case r of Inl e \<Rightarrow> False | Inr s \<Rightarrow>
      (case next_event_round demo_panel False 1 s ?frame of (outcome, t, w') \<Rightarrow>
         outcome = Returned (Inr (Some (InputTouchDown demo_contact (Fin 0) (Fin 0)))) \<and> is_pending t = []))"
    by code_simp
  then obtain s w where s: "?open = (Inr s, w)" by (cases ?open; cases "fst ?open") auto
  obtain outcome t w' where n: "next_event_round demo_panel False 1 s ?frame = (outcome, t, w')" by (metis prod_cases3)
  from run s n have t: "next_event_round demo_panel False 1 s ?frame = (Returned (Inr (Some (InputTouchDown demo_contact (Fin 0) (Fin 0)))), t, w')"
    and queue: "is_pending t = []"
    by auto
  have "observer_sends (Inr (Some (InputTouchDown demo_contact (Fin 0) (Fin 0)))) = (InputTouchDown demo_contact (Fin 0) (Fin 0), True)"
    by (simp add: observer_sends_def)
  from observer_run.forwarded [OF observer_run.opened [OF observer_run.idle s] t this]
  have obs: "observer_run demo_panel (Some t) [InputTouchDown demo_contact (Fin 0) (Fin 0)]" by simp
  from daemon_contacts_are_live [OF obs] queue have "\<forall>c \<in> {demo_contact}. \<exists>name dev m. (name, dev) \<in> set (is_devices t)
      \<and> od_mode dev = TouchMode m \<and> tc_device c = od_device_id dev \<and> c \<in># announced m"
    by (simp add: press_def)
  with obs show ?thesis by auto
qed

end
