(* ===== verification/Runtime_State.thy ===== *)
theory Runtime_State
  imports Reconcile Touch_Input Load Thermal
begin

text \<open>
  The actor that owns the state of the daemon (\<open>crates/uperf-daemon/src/runtime.rs\<close>): its types. One task
  receives every command, observation, worker result and timer tick in turn; each is a function from the
  actor's state to the next. The fields of \<open>RuntimeActor\<close> are grouped in records by the part they
  belong to: the lanes of the workers (\<open>lane_state\<close>), restoration, sleep and shutdown
  (\<open>restore_state\<close>), the safety fence and the latches of failures (\<open>fence_state\<close>), the workload and its
  leases (\<open>focus_state\<close>), interaction and display (\<open>interaction_state\<close>), observations (\<open>sensing_state\<close>),
  plans (\<open>planning_state\<close>) and what became of them (\<open>outcome_state\<close>). What a handler sends to a task, a thread or a waiting caller is appended to the log
  \<open>ra_effects\<close>; a one-shot reply channel is its number. What the actor asks the outside (the clock, the
  mode of the actuator, whether a channel still has a receiver) are the ports of \<open>runtime_ports\<close>, functions
  of an environment of any type.
\<close>

section \<open>Configuration\<close>

record frequency_target_paths =
  ftp_id :: target_id
  ftp_minimum :: path_buf
  ftp_maximum :: path_buf
  ftp_current :: path_buf
  ftp_hertz_per_unit :: u64

record resolved_target =
  rt_id :: target_id
  rt_kind :: string
  rt_label :: string
  rt_cpus :: cpu_set
  rt_hardware_limits :: frequency_limits
  rt_available_frequencies :: "hertz list"
  rt_paths :: frequency_target_paths
  rt_automatic_policy :: "frequency_policy option"
  rt_energy_model :: "energy_model option"
  rt_administrator_cap :: "hertz option"
  rt_critical_cap :: hertz
  rt_sensor_failure_cap :: hertz

record 'r resolved_configuration =
  rc_device :: device_config
  rc_policy :: policy_config
  rc_apps :: apps_config
  rc_app_rule_engine :: "'r compiled_app_rule list"
  rc_policy_engine :: "'r policy_engine"
  rc_targets :: "(target_id, resolved_target) btree"
  rc_thermal_zones :: "thermal_zone_config list"
  rc_warnings :: "message list"

definition cpu_target_policies :: "'r resolved_configuration \<Rightarrow> (target_id, cpu_target_policy) btree" where
  "cpu_target_policies self =
     bt_collect (List.map_filter (\<lambda>(tid, target).
       map_option (\<lambda>frequency. (tid, \<lparr>ct_cpus = rt_cpus target, ct_frequency = frequency, ct_energy_model = rt_energy_model target\<rparr>))
         (rt_automatic_policy target)) (rc_targets self))"

definition manual_target_policies :: "'r resolved_configuration \<Rightarrow> (target_id, frequency_policy) btree" where
  "manual_target_policies self =
     bt_collect (map (\<lambda>(tid, target).
       (tid, \<lparr>hardware_limits = rt_hardware_limits target, fp_floor = min_hz (rt_hardware_limits target),
              fp_reference = max_hz (rt_hardware_limits target), fp_efficient_cap = max_hz (rt_hardware_limits target),
              hertz_per_unit = ftp_hertz_per_unit (rt_paths target), available_frequencies = rt_available_frequencies target\<rparr>))
       (filter (\<lambda>(tid, target). rt_automatic_policy target = None) (rc_targets self)))"

definition administrator_caps :: "'r resolved_configuration \<Rightarrow> (target_id, hertz) btree" where
  "administrator_caps self =
     bt_collect (List.map_filter (\<lambda>(tid, target). map_option (Pair tid) (rt_administrator_cap target)) (rc_targets self))"

text \<open>What must not change in a reload: where the targets are, and the scalar targets by identifier.\<close>

definition target_signature ::
  "'r resolved_configuration \<Rightarrow> (target_id \<times> path_buf \<times> path_buf \<times> u64) list \<times> scalar_target_config list" where
  "target_signature c =
     (map (\<lambda>(tid, target). (tid, ftp_minimum (rt_paths target), ftp_maximum (rt_paths target), ftp_hertz_per_unit (rt_paths target)))
        (rc_targets c),
      sort_key scalar_target_config.st_id (dc_scalar_targets (rc_device c)))"

section \<open>Messages, replies and effects\<close>

type_synonym reply = nat

datatype runtime_error =
    RtInvalidArgument message
  | RtNotFound message
  | RtNotAuthorized message
  | RtConflict message
  | RtDegraded message
  | RtValidation message
  | RtInternal message

record mutation_receipt =
  mr_generation :: u64
  mr_changed_ids :: "message list"
  mr_message :: message

record reload_report =
  rl_config_generation :: u64
  rl_warnings :: "message list"

record health_issue =
  hi_severity :: string
  hi_component :: string
  hi_message :: message

definition receipt :: "u64 \<Rightarrow> message list \<Rightarrow> message \<Rightarrow> mutation_receipt" where
  "receipt generation changed msg = \<lparr>mr_generation = generation, mr_changed_ids = changed, mr_message = msg\<rparr>"

definition issue :: "string \<Rightarrow> string \<Rightarrow> message \<Rightarrow> health_issue" where
  "issue severity component msg = \<lparr>hi_severity = severity, hi_component = component, hi_message = msg\<rparr>"

datatype answer =
    Receipt mutation_receipt
  | Reloaded reload_report
  | Done
  | Refused runtime_error
  | RefusedText message

record frequency_intent =
  fi_frequencies :: "(target_id, frequency_limits) btree"
  fi_scalars :: "(target_id, scalar_setting_value) btree"

definition frequency_intent_of :: "desired_plan \<Rightarrow> frequency_intent" where
  "frequency_intent_of desired = \<lparr>fi_frequencies = dp_frequencies desired, fi_scalars = dp_scalars desired\<rparr>"

text \<open>
  The part of a \<open>ReconcileJob\<close> the actor decides; the actuator, the gate, the fence and the trace are shared.
  The status of the governor in the trace is rendered from its diagnostics.
\<close>

record submitted_job =
  sj_workload :: "process_info option"
  sj_workload_source :: workload_source
  sj_plan :: desired_plan
  sj_applied_state :: applied_state
  sj_applied_units :: "(string, unit_properties) btree"
  sj_reconcile_frequencies :: bool
  sj_reconcile_scheduler :: bool
  sj_context :: "governor_diagnostics option decision_trace_context"

datatype frequency_worker_command =
    ReconcileCommand u64 submitted_job "(target_id, frequency_limits) btree"
  | QuiesceCommand u64

datatype identity_purpose =
    PurposeSet process_id "profile_id option" user_id reply
  | PurposeClear process_identity user_id reply
  | PurposeRefresh process_identity
  | PurposeFocus process_id user_id "string option" u64 monotonic_millis
  | PurposeRefreshFocus process_identity

fun is_control_request :: "identity_purpose \<Rightarrow> bool" where
  "is_control_request (PurposeSet _ _ _ _) = True"
| "is_control_request (PurposeClear _ _ _) = True"
| "is_control_request _ = False"

datatype effect =
    Answer reply answer
  | FrequencyCommand frequency_worker_command
  | SpawnScheduler u64 submitted_job
  | SpawnRestore u64
  | SpawnSafetyUpdate u64 "(target_id, hertz) btree"
  | SpawnIdentityRead u64 process_id identity_purpose
  | SpawnReload reply
  | SpawnAppPersistence apps_config message message reply

section \<open>The state\<close>

record 'r lane_state =
  wl_app_persist_in_flight :: bool
  wl_reload_in_flight :: bool
  wl_pending_reload :: "(reply \<times> 'r resolved_configuration) option"
  wl_frequency_command_pending :: "u64 option"
  wl_frequency_quiesce_pending :: "u64 option"
  wl_frequency_quiesced :: bool
  wl_next_frequency_command_id :: u64
  wl_frequency_requested :: "frequency_intent option"
  wl_scheduler_in_flight :: "u64 option"
  wl_scheduler_pending :: bool
  wl_next_scheduler_id :: u64

record restore_state =
  rs_restore_in_flight :: "u64 option"
  rs_next_restore_id :: u64
  rs_restore_requested :: bool
  rs_sleep_waiters :: "reply list"
  rs_wake_waiters :: "reply list"
  rs_stop_waiters :: "reply list"
  rs_pending_resume :: bool
  rs_restored_while_suspended :: bool
  rs_suspended :: bool
  rs_mutations_activated :: bool
  rs_accepting_control :: bool
  rs_stop_requested :: bool

record fence_state =
  fe_restore_failure :: "message option"
  fe_safety_update_in_flight :: "u64 option"
  fe_next_safety_update_id :: u64
  fe_requested_upper_caps :: "(target_id, hertz) btree"
  fe_pending_upper_caps :: "(target_id, hertz) btree option"
  fe_safety_failure :: "message option"
  fe_worker_failure :: "message option"
  fe_actuator_read_only :: bool
  fe_startup_recovery_pending :: bool

record focus_lease =
  fl_info :: process_info
  fl_peer :: "string option"
  fl_expires_at :: monotonic_millis

record frame_reporter_lease =
  fr_peer :: string
  fr_uid :: user_id
  fr_expires_at :: monotonic_millis

record pending_focus_report =
  pf_pid :: process_id
  pf_caller_uid :: user_id
  pf_peer :: "string option"
  pf_not_before :: monotonic_millis
  pf_revision :: u64
  pf_trigger_at :: monotonic_millis

record identity_in_flight =
  ii_id :: u64
  ii_control :: bool

record focus_state =
  fo_active_workload :: "process_info option"
  fo_requested_workload_profile :: "profile_id option"
  fo_lease :: "focus_lease option"
  fo_frame_reporter :: "frame_reporter_lease option"
  fo_pending :: "pending_focus_report option"
  fo_revision :: u64
  fo_identity_in_flight :: "identity_in_flight option"
  fo_next_identity_id :: u64
  fo_last_workload_check :: monotonic_millis

datatype session_state = SessionActive | SessionIdle | SessionLocked

record render_idle_deadline =
  rd_generation :: u64
  rd_deadline :: monotonic_millis

record interaction_state =
  ia_generation :: u64
  ia_ended :: bool
  ia_hint_generations :: "(scene, u64) btree"
  ia_render_generation :: "u64 option"
  ia_render_idle_deadline :: "render_idle_deadline option"
  ia_last_deadline_missed :: "(u64 \<times> monotonic_millis) option"
  ia_display_blanked :: bool
  ia_session_state :: session_state
  ia_hints :: hint_set
  ia_contacts :: active_touch_contacts

record cpu_time_snapshot =
  cs_observed_at :: monotonic_millis
  cs_aggregate :: cpu_times
  cs_cpus :: "(cpu_id, cpu_times) btree"

record thermal_sample =
  ts_zone_id :: string
  ts_zone_type :: string
  ts_path :: path_buf
  ts_reading :: thermal_reading

record sensing_state =
  se_observed :: observed_state
  se_thermal_guards :: "(string, thermal_guard) btree"
  se_thermal_state :: thermal_state
  se_thermal_caps :: "(target_id, hertz) btree"
  se_maximum_temperature :: "milli_celsius option"
  se_previous_cpu_times :: "cpu_time_snapshot option"
  se_last_load_success :: "monotonic_millis option"
  se_last_frequency_success :: "monotonic_millis option"
  se_heavy_load :: heavy_load_detector
  se_adaptive_sampler :: sampling_mode
  se_telemetry_sequence :: u64

record timed_override =
  to_limits :: frequency_limits
  to_expires_at :: "monotonic_millis option"

record external_drift_state =
  ed_desired :: frequency_limits
  ed_corrections :: nat
  ed_suppressed :: bool

record planning_state =
  pl_mode :: mode_selection
  pl_overrides :: "(target_id, timed_override) btree"
  pl_desired :: "desired_plan option"
  pl_trigger_source :: string
  pl_trigger_at :: monotonic_millis
  pl_governor_state :: governor_state
  pl_governor_diagnostics :: "governor_diagnostics option"
  pl_integrate_elapsed_time :: bool
  pl_generation :: u64

record outcome_state =
  oc_applied :: applied_state
  oc_applied_units :: "(string, unit_properties) btree"
  oc_scheduler_report :: scheduler_report
  oc_scheduler_dirty :: bool
  oc_last_scheduler_scan :: monotonic_millis
  oc_drift :: "(target_id, external_drift_state) btree"
  oc_frequency_failures :: nat
  oc_frequency_retry_not_before :: monotonic_millis
  oc_scheduler_failures :: nat
  oc_scheduler_retry_not_before :: monotonic_millis

record observer_settings =
  os_generation :: u64
  os_load_interval_ms :: u64
  os_thermal_interval_ms :: u64
  os_thermal_paths :: "path_buf list"
  os_input :: input_config

record ('w, 'r) runtime_actor =
  ra_configuration :: "'r resolved_configuration"
  ra_lanes :: "'r lane_state"
  ra_restore :: restore_state
  ra_fence :: fence_state
  ra_focus :: focus_state
  ra_interaction :: interaction_state
  ra_sensing :: sensing_state
  ra_planning :: planning_state
  ra_outcome :: outcome_state
  ra_config_generation :: u64
  ra_observer_generation :: u64
  ra_observer_settings :: observer_settings
  ra_capabilities_changed :: bool
  ra_health_issues :: "(string, health_issue) btree"
  ra_panicked :: bool
  ra_env :: 'w
  ra_effects :: "effect list"

section \<open>The ports\<close>

record ('w, 'r) runtime_ports =
  rn_monotonic_millis :: "'w \<Rightarrow> u64 \<times> 'w"
  rn_frequency_channel_open :: "'w \<Rightarrow> bool \<times> 'w"
  rn_identity_reader :: "'w \<Rightarrow> message option \<times> 'w"
  rn_actuator :: bool
  rn_actuator_mode :: "'w \<Rightarrow> (message, actuator_mode) result \<times> 'w"
  rn_startup_recovery_required :: "'w \<Rightarrow> (message, bool) result \<times> 'w"
  rn_process_backend :: bool
  rn_systemd_backend :: bool
  rn_exp :: "f64 \<Rightarrow> f64"
  rn_is_match :: "'r \<Rightarrow> string \<Rightarrow> bool"

definition monotonic :: "('w, 'r) runtime_ports \<Rightarrow> ('w, 'r) runtime_actor \<Rightarrow> u64 \<times> ('w, 'r) runtime_actor" where
  "monotonic E a = (case rn_monotonic_millis E (ra_env a) of (now, w) \<Rightarrow> (now, a\<lparr>ra_env := w\<rparr>))"

definition emit :: "effect \<Rightarrow> ('w, 'r) runtime_actor \<Rightarrow> ('w, 'r) runtime_actor" where
  "emit e a = a\<lparr>ra_effects := ra_effects a @ [e]\<rparr>"

definition set_issue :: "string \<Rightarrow> string \<Rightarrow> string \<Rightarrow> message \<Rightarrow> ('w, 'r) runtime_actor \<Rightarrow> ('w, 'r) runtime_actor" where
  "set_issue code severity component msg a =
     a\<lparr>ra_health_issues := bt_insert code (issue severity component msg) (ra_health_issues a)\<rparr>"

definition clear_issue :: "string \<Rightarrow> ('w, 'r) runtime_actor \<Rightarrow> ('w, 'r) runtime_actor" where
  "clear_issue code a = a\<lparr>ra_health_issues := bt_remove code (ra_health_issues a)\<rparr>"

definition bump_generation :: "('w, 'r) runtime_actor \<Rightarrow> ('w, 'r) runtime_actor" where
  "bump_generation a = ra_planning_update (\<lambda>p. p\<lparr>pl_generation := u64_saturating_add (pl_generation p) 1\<rparr>) a"

definition generation_of :: "('w, 'r) runtime_actor \<Rightarrow> u64" where
  "generation_of a = pl_generation (ra_planning a)"

definition mark_decision_trigger :: "('w, 'r) runtime_ports \<Rightarrow> string \<Rightarrow> ('w, 'r) runtime_actor \<Rightarrow> ('w, 'r) runtime_actor" where
  "mark_decision_trigger E source a =
     (case monotonic E a of (now, a1) \<Rightarrow>
        ra_planning_update (\<lambda>p. p\<lparr>pl_trigger_source := source, pl_trigger_at := now\<rparr>) a1)"

definition mark_scheduler_dirty :: "('w, 'r) runtime_actor \<Rightarrow> ('w, 'r) runtime_actor" where
  "mark_scheduler_dirty a = ra_outcome_update (\<lambda>r. r\<lparr>oc_scheduler_dirty := True\<rparr>) a"

end
