(* ===== verification/Runtime_Evaluate.thy ===== *)
theory Runtime_Evaluate
  imports Runtime_State
begin

text \<open>
  Evaluation and submission (\<open>crates/uperf-daemon/src/runtime.rs\<close>): the health of the actuator, the guard
  against external controllers, back-off, the frequency and scheduler lanes, and
  \<open>evaluate_and_reconcile\<close>, which every handler calls after it changed something.
\<close>

section \<open>Health of the actuator\<close>

definition refresh_actuator_health :: "('w, 'r) runtime_ports \<Rightarrow> ('w, 'r) runtime_actor \<Rightarrow> ('w, 'r) runtime_actor" where
  "refresh_actuator_health E a =
     (let a0 = clear_issue ''actuator.degraded'' a
      in if \<not> rn_actuator E
         then ra_fence_update (\<lambda>f. f\<lparr>fe_actuator_read_only := True, fe_startup_recovery_pending := False\<rparr>) a0
         else
           case rn_startup_recovery_required E (ra_env a0) of (recovery, w1) \<Rightarrow>
           case rn_actuator_mode E w1 of (mode, w2) \<Rightarrow>
           let a1 = a0\<lparr>ra_env := w2\<rparr>;
               a2 = (case mode of
                       Inr ReadWrite \<Rightarrow> a1
                     | Inr (ReadOnlyDegraded reason) \<Rightarrow> set_issue ''actuator.degraded'' ''critical'' ''actuator'' reason a1
                     | Inl error \<Rightarrow> set_issue ''actuator.degraded'' ''critical'' ''actuator'' error a1)
           in ra_fence_update (\<lambda>f. f\<lparr>
                fe_startup_recovery_pending := (case recovery of Inl _ \<Rightarrow> True | Inr b \<Rightarrow> b),
                fe_actuator_read_only :=
                  mode \<noteq> Inr ReadWrite \<or> fe_restore_failure f \<noteq> None \<or> fe_safety_failure f \<noteq> None \<or> fe_worker_failure f \<noteq> None\<rparr>) a2)"

definition fail_reconcile_worker :: "message \<Rightarrow> ('w, 'r) runtime_actor \<Rightarrow> ('w, 'r) runtime_actor" where
  "fail_reconcile_worker error a =
     (let barrier_error =
            MFmt ''{error}; mutation progress cannot be proven, so all further mutations are disabled'' [error]
      in set_issue ''reconciler.worker'' ''critical'' ''reconciler'' barrier_error
           (ra_fence_update (\<lambda>f. f\<lparr>fe_worker_failure := Some barrier_error, fe_actuator_read_only := True\<rparr>) a))"

section \<open>Back-off\<close>

definition retry_delay_ms :: "nat \<Rightarrow> u64" where
  "retry_delay_ms failures =
     (let exponent = min (failures - 1) 8
      in min (u64_saturating_mul 100 (push_bit exponent 1)) 30000)"

text \<open>\<open>u32::saturating_add\<close>.\<close>

definition u32_next :: "nat \<Rightarrow> nat" where
  "u32_next n = min (n + 1) (2 ^ 32 - 1)"

definition record_frequency_failure :: "('w, 'r) runtime_ports \<Rightarrow> message \<Rightarrow> ('w, 'r) runtime_actor \<Rightarrow> ('w, 'r) runtime_actor" where
  "record_frequency_failure E msg a =
     (let failures = u32_next (oc_frequency_failures (ra_outcome a));
          delay = retry_delay_ms failures
      in case monotonic E a of (now, a1) \<Rightarrow>
        set_issue ''reconciler.frequency_backoff'' ''error'' ''reconciler''
          (MFmt ''{message}; retrying frequency control in {delay_ms} ms'' [msg, MNum (uint delay)])
          (ra_outcome_update (\<lambda>r. r\<lparr>oc_frequency_failures := failures,
             oc_frequency_retry_not_before := millis_saturating_add now delay\<rparr>) a1))"

definition clear_frequency_failure :: "('w, 'r) runtime_actor \<Rightarrow> ('w, 'r) runtime_actor" where
  "clear_frequency_failure a =
     clear_issue ''reconciler.frequency_backoff''
       (ra_outcome_update (\<lambda>r. r\<lparr>oc_frequency_failures := 0, oc_frequency_retry_not_before := 0\<rparr>) a)"

definition record_scheduler_failure :: "('w, 'r) runtime_ports \<Rightarrow> message \<Rightarrow> ('w, 'r) runtime_actor \<Rightarrow> ('w, 'r) runtime_actor" where
  "record_scheduler_failure E msg a =
     (let failures = u32_next (oc_scheduler_failures (ra_outcome a));
          delay = retry_delay_ms failures
      in case monotonic E a of (now, a1) \<Rightarrow>
        set_issue ''reconciler.scheduler_backoff'' ''error'' ''scheduler''
          (MFmt ''{message}; retrying scheduler control in {delay_ms} ms'' [msg, MNum (uint delay)])
          (ra_outcome_update (\<lambda>r. r\<lparr>oc_scheduler_failures := failures,
             oc_scheduler_retry_not_before := millis_saturating_add now delay\<rparr>) a1))"

definition clear_scheduler_failure :: "('w, 'r) runtime_actor \<Rightarrow> ('w, 'r) runtime_actor" where
  "clear_scheduler_failure a =
     clear_issue ''reconciler.scheduler_backoff''
       (ra_outcome_update (\<lambda>r. r\<lparr>oc_scheduler_failures := 0, oc_scheduler_retry_not_before := 0\<rparr>) a)"

section \<open>External controllers\<close>

definition MAX_EXTERNAL_DRIFT_CORRECTIONS :: nat where "MAX_EXTERNAL_DRIFT_CORRECTIONS = 2"

definition refresh_external_constraint_health :: "('w, 'r) runtime_actor \<Rightarrow> ('w, 'r) runtime_actor" where
  "refresh_external_constraint_health a =
     (let constrained = map fst (filter (\<lambda>(tid, state). ed_suppressed state) (oc_drift (ra_outcome a)))
      in if constrained = [] then clear_issue ''reconciler.external_constraint'' a
         else set_issue ''reconciler.external_constraint'' ''warning'' ''frequency''
           (MFmt ''suspected external constraint on {}; stopped rewriting the unchanged desired limits after {} corrections''
              [MJoin '', '' (map MStr constrained), MNum (int MAX_EXTERNAL_DRIFT_CORRECTIONS)]) a)"

definition prepare_external_drift_state :: "desired_plan \<Rightarrow> ('w, 'r) runtime_actor \<Rightarrow> ('w, 'r) runtime_actor" where
  "prepare_external_drift_state desired a =
     refresh_external_constraint_health
       (ra_outcome_update (\<lambda>r. r\<lparr>oc_drift := bt_retain (\<lambda>tid state.
          bt_get (dp_frequencies desired) tid = Some (ed_desired state)
          \<and> bt_get (as_frequencies (oc_applied r)) tid = Some (ed_desired state)) (oc_drift r)\<rparr>) a)"

definition drift_start :: "frequency_limits \<Rightarrow> external_drift_state" where
  "drift_start target = \<lparr>ed_desired = target, ed_corrections = 0, ed_suppressed = False\<rparr>"

text \<open>One target of the loop of \<open>observe_external_frequency_drift\<close>.\<close>

definition drift_step ::
  "applied_state \<Rightarrow> (target_id, observed_frequency) btree \<Rightarrow> target_id \<times> frequency_limits
     \<Rightarrow> (target_id, external_drift_state) btree \<Rightarrow> (target_id, external_drift_state) btree" where
  "drift_step applied readings = (\<lambda>(tid, target) drift.
     if bt_get (as_frequencies applied) tid \<noteq> Some target then bt_remove tid drift
     else case bt_get readings tid of
         None \<Rightarrow> drift
       | Some reading \<Rightarrow>
           if of_limits reading = target then bt_remove tid drift
           else
             let entry = (case bt_get drift tid of None \<Rightarrow> drift_start target | Some st \<Rightarrow> st);
                 current = (if ed_desired entry \<noteq> target then drift_start target else entry)
             in bt_insert tid (current\<lparr>ed_suppressed := MAX_EXTERNAL_DRIFT_CORRECTIONS \<le> ed_corrections current\<rparr>) drift)"

definition observe_external_frequency_drift :: "('w, 'r) runtime_actor \<Rightarrow> ('w, 'r) runtime_actor" where
  "observe_external_frequency_drift a =
     (case pl_desired (ra_planning a) of
        None \<Rightarrow> refresh_external_constraint_health (ra_outcome_update (\<lambda>r. r\<lparr>oc_drift := []\<rparr>) a)
      | Some desired \<Rightarrow>
          refresh_external_constraint_health (ra_outcome_update (\<lambda>r. r\<lparr>oc_drift :=
            bt_retain (\<lambda>tid _. bt_contains (dp_frequencies desired) tid)
              (fold (drift_step (oc_applied r) (observed_frequencies (se_observed (ra_sensing a))))
                 (dp_frequencies desired) (oc_drift r))\<rparr>) a))"

definition drift_suppressed :: "('w, 'r) runtime_actor \<Rightarrow> target_id \<Rightarrow> frequency_limits \<Rightarrow> bool" where
  "drift_suppressed a tid target =
     (case bt_get (oc_drift (ra_outcome a)) tid of
        None \<Rightarrow> False | Some state \<Rightarrow> ed_desired state = target \<and> ed_suppressed state)"

definition observed_differs :: "('w, 'r) runtime_actor \<Rightarrow> target_id \<Rightarrow> frequency_limits \<Rightarrow> bool" where
  "observed_differs a tid target =
     (case bt_get (observed_frequencies (se_observed (ra_sensing a))) tid of
        None \<Rightarrow> False | Some reading \<Rightarrow> of_limits reading \<noteq> target)"

definition correctable_drift_targets :: "desired_plan \<Rightarrow> ('w, 'r) runtime_actor \<Rightarrow> (target_id, frequency_limits) btree" where
  "correctable_drift_targets desired a =
     bt_collect (filter (\<lambda>(tid, target).
       bt_get (as_frequencies (oc_applied (ra_outcome a))) tid = Some target
       \<and> observed_differs a tid target \<and> \<not> drift_suppressed a tid target) (dp_frequencies desired))"

text \<open>\<open>u8::saturating_add\<close>.\<close>

definition correct_drift ::
  "desired_plan option \<Rightarrow> target_id \<times> frequency_limits \<Rightarrow> (target_id, external_drift_state) btree
     \<Rightarrow> (target_id, external_drift_state) btree" where
  "correct_drift desired = (\<lambda>(tid, target) drift.
     bt_get_mut tid (\<lambda>state.
       if ed_desired state = target \<and> Option.bind desired (\<lambda>d. bt_get (dp_frequencies d) tid) = Some target
       then state\<lparr>ed_corrections := min (ed_corrections state + 1) 255\<rparr> else state) drift)"

definition record_external_drift_corrections ::
  "(target_id, frequency_limits) btree \<Rightarrow> ('w, 'r) runtime_actor \<Rightarrow> ('w, 'r) runtime_actor" where
  "record_external_drift_corrections corrected a =
     ra_outcome_update (\<lambda>r. r\<lparr>oc_drift := fold (correct_drift (pl_desired (ra_planning a))) corrected (oc_drift r)\<rparr>) a"

section \<open>Submission\<close>

definition effective_workload :: "('w, 'r) runtime_actor \<Rightarrow> process_info option" where
  "effective_workload a =
     (case fo_active_workload (ra_focus a) of
        Some info \<Rightarrow> Some info | None \<Rightarrow> map_option fl_info (fo_lease (ra_focus a)))"

definition effective_workload_source :: "('w, 'r) runtime_actor \<Rightarrow> workload_source" where
  "effective_workload_source a = (if fo_active_workload (ra_focus a) \<noteq> None then Explicit else Focus)"

definition frequency_needs_reconcile :: "desired_plan \<Rightarrow> ('w, 'r) runtime_actor \<Rightarrow> bool" where
  "frequency_needs_reconcile desired a =
     (let applied = oc_applied (ra_outcome a)
      in list_ex (\<lambda>(tid, target).
             bt_get (as_frequencies applied) tid \<noteq> Some target
             \<or> observed_differs a tid target \<and> \<not> drift_suppressed a tid target) (dp_frequencies desired)
         \<or> list_ex (\<lambda>tid. \<not> bt_contains (dp_frequencies desired) tid) (bt_keys (as_frequencies applied))
         \<or> as_scalars applied \<noteq> dp_scalars desired)"

definition reconcile_job :: "('w, 'r) runtime_actor \<Rightarrow> desired_plan \<Rightarrow> bool \<Rightarrow> bool \<Rightarrow> submitted_job" where
  "reconcile_job a desired frequencies scheduler =
     \<lparr>sj_workload = effective_workload a, sj_workload_source = effective_workload_source a, sj_plan = desired,
      sj_applied_state = oc_applied (ra_outcome a), sj_applied_units = oc_applied_units (ra_outcome a),
      sj_reconcile_frequencies = frequencies, sj_reconcile_scheduler = scheduler,
      sj_context = \<lparr>tc_trigger_source = pl_trigger_source (ra_planning a), tc_trigger_monotonic_ms = pl_trigger_at (ra_planning a),
                    tc_governor = pl_governor_diagnostics (ra_planning a)\<rparr>\<rparr>"

text \<open>
  \<open>send\<close> on the command channel: a watch channel that keeps the latest command. It fails when the worker
  is gone.
\<close>

definition send_frequency_command ::
  "('w, 'r) runtime_ports \<Rightarrow> frequency_worker_command \<Rightarrow> ('w, 'r) runtime_actor \<Rightarrow> bool \<times> ('w, 'r) runtime_actor" where
  "send_frequency_command E command a =
     (case rn_frequency_channel_open E (ra_env a) of (sent, w) \<Rightarrow>
        let a1 = a\<lparr>ra_env := w\<rparr> in (sent, if sent then emit (FrequencyCommand command) a1 else a1))"

definition submit_frequency_reconcile :: "('w, 'r) runtime_ports \<Rightarrow> desired_plan \<Rightarrow> ('w, 'r) runtime_actor \<Rightarrow> ('w, 'r) runtime_actor" where
  "submit_frequency_reconcile E desired a =
     (let intent = frequency_intent_of desired
      in if wl_frequency_command_pending (ra_lanes a) \<noteq> None \<and> wl_frequency_requested (ra_lanes a) = Some intent then a
         else
           let drift_targets = correctable_drift_targets desired a;
               job = reconcile_job a desired True False;
               cid = u64_saturating_add (wl_next_frequency_command_id (ra_lanes a)) 1;
               a1 = ra_lanes_update (\<lambda>l. l\<lparr>wl_next_frequency_command_id := cid\<rparr>) a
           in case send_frequency_command E (ReconcileCommand cid job drift_targets) a1 of (sent, a2) \<Rightarrow>
              if \<not> sent then
                fail_reconcile_worker (MStr ''frequency worker command channel closed; all further mutations are disabled'') a2
              else ra_lanes_update (\<lambda>l. l\<lparr>wl_frequency_command_pending := Some cid, wl_frequency_quiesce_pending := None,
                     wl_frequency_quiesced := False, wl_frequency_requested := Some intent\<rparr>) a2)"

definition submit_scheduler_reconcile :: "desired_plan \<Rightarrow> ('w, 'r) runtime_actor \<Rightarrow> ('w, 'r) runtime_actor" where
  "submit_scheduler_reconcile desired a =
     (if wl_scheduler_in_flight (ra_lanes a) \<noteq> None then ra_lanes_update (\<lambda>l. l\<lparr>wl_scheduler_pending := True\<rparr>) a
      else
        let sid = u64_saturating_add (wl_next_scheduler_id (ra_lanes a)) 1
        in emit (SpawnScheduler sid (reconcile_job a desired False True))
             (ra_lanes_update (\<lambda>l. l\<lparr>wl_next_scheduler_id := sid, wl_scheduler_in_flight := Some sid, wl_scheduler_pending := False\<rparr>) a))"

section \<open>Evaluation\<close>

definition match_app_profile :: "('w, 'r) runtime_ports \<Rightarrow> ('w, 'r) runtime_actor \<Rightarrow> process_info \<Rightarrow> profile_id option" where
  "match_app_profile E a process = match_profile (rn_is_match E) (rc_app_rule_engine (ra_configuration a)) process"

definition session_profile :: "('w, 'r) runtime_actor \<Rightarrow> profile_id option" where
  "session_profile a =
     Option.bind (pol_session (rc_policy (ra_configuration a))) (\<lambda>session.
       case (if ia_display_blanked (ra_interaction a) then ss_display_blanked_profile session else None) of
         Some p \<Rightarrow> Some p
       | None \<Rightarrow> if ia_session_state (ra_interaction a) = SessionLocked then ss_locked_profile session else None)"

definition app_profile :: "('w, 'r) runtime_ports \<Rightarrow> ('w, 'r) runtime_actor \<Rightarrow> profile_id option" where
  "app_profile E a =
     (case session_profile a of
        Some p \<Rightarrow> Some p
      | None \<Rightarrow>
          (case fo_requested_workload_profile (ra_focus a) of
             Some p \<Rightarrow> Some p
           | None \<Rightarrow> Option.bind (effective_workload a) (match_app_profile E a)))"

definition policy_input_of :: "('w, 'r) runtime_ports \<Rightarrow> ('w, 'r) runtime_actor \<Rightarrow> policy_input" where
  "policy_input_of E a =
     \<lparr>pin_generation = generation_of a, pin_observed = se_observed (ra_sensing a), pin_mode = pl_mode (ra_planning a),
      pin_app_profile = app_profile E a, pin_hints = ia_hints (ra_interaction a),
      pin_cpu_targets = cpu_target_policies (ra_configuration a),
      pin_manual_target_policies = manual_target_policies (ra_configuration a),
      pin_manual_overrides = map (\<lambda>(tid, request). (tid, to_limits request)) (pl_overrides (ra_planning a)),
      pin_administrator_caps = administrator_caps (ra_configuration a),
      pin_thermal_caps = se_thermal_caps (ra_sensing a),
      pin_thermal_degraded = (se_thermal_state (ra_sensing a) = Degraded)\<rparr>"

text \<open>What must be settled before a worker may be given a plan.\<close>

definition mutation_blocked :: "('w, 'r) runtime_actor \<Rightarrow> bool" where
  "mutation_blocked a =
     (rs_suspended (ra_restore a) \<or> \<not> rs_mutations_activated (ra_restore a) \<or> \<not> rs_accepting_control (ra_restore a)
      \<or> rs_restore_requested (ra_restore a) \<or> rs_restore_in_flight (ra_restore a) \<noteq> None
      \<or> wl_pending_reload (ra_lanes a) \<noteq> None \<or> fe_safety_update_in_flight (ra_fence a) \<noteq> None
      \<or> fe_pending_upper_caps (ra_fence a) \<noteq> None)"

definition submit_plan :: "('w, 'r) runtime_ports \<Rightarrow> u64 \<Rightarrow> desired_plan \<Rightarrow> ('w, 'r) runtime_actor \<Rightarrow> ('w, 'r) runtime_actor" where
  "submit_plan E now desired a =
     (if mutation_blocked a then a
      else if \<not> rn_actuator E then ra_outcome_update (\<lambda>r. r\<lparr>oc_scheduler_dirty := False\<rparr>) a
      else if fe_actuator_read_only (ra_fence a) then a
      else
        let frequencies = frequency_needs_reconcile desired a \<and> oc_frequency_retry_not_before (ra_outcome a) \<le> now;
            scheduler = oc_scheduler_dirty (ra_outcome a) \<and> oc_scheduler_retry_not_before (ra_outcome a) \<le> now;
            a1 = (if frequencies then submit_frequency_reconcile E desired a else a)
        in if scheduler then submit_scheduler_reconcile desired a1 else a1)"

definition evaluate_and_reconcile :: "('w, 'r) runtime_ports \<Rightarrow> ('w, 'r) runtime_actor \<Rightarrow> ('w, 'r) runtime_actor" where
  "evaluate_and_reconcile E a0 =
     (case monotonic E a0 of (now, a1) \<Rightarrow>
      let a2 = ra_interaction_update (\<lambda>i. i\<lparr>ia_hints := fst (expire (ia_hints i) now)\<rparr>) a1
      in case evaluate_stateful (pe_config (rc_policy_engine (ra_configuration a2))) (policy_input_of E a2)
                (pl_governor_state (ra_planning a2)) (pl_integrate_elapsed_time (ra_planning a2)) of
          Inl Panicked \<Rightarrow> a2\<lparr>ra_panicked := True\<rparr>
        | Inl (Failed error) \<Rightarrow> set_issue ''policy.evaluate'' ''error'' ''policy'' (policy_error_message error) a2
        | Inr evaluation \<Rightarrow>
            let a3 = ra_planning_update (\<lambda>p. p\<lparr>pl_governor_state := spe_next_governor_state evaluation,
                       pl_governor_diagnostics := spe_governor_diagnostics evaluation, pl_integrate_elapsed_time := True\<rparr>)
                       (clear_issue ''policy.evaluate'' a2);
                previous = pl_desired (ra_planning a3);
                fresh = spe_desired evaluation;
                a4 = (case previous of
                        Some p \<Rightarrow>
                          if dp_dominant_scene p \<noteq> dp_dominant_scene fresh
                             \<and> scheduler_scene_for (dp_dominant_scene p) \<noteq> scheduler_scene_for (dp_dominant_scene fresh)
                          then mark_scheduler_dirty a3 else a3
                      | None \<Rightarrow> a3);
                desired = (case previous of None \<Rightarrow> fresh | Some p \<Rightarrow> fresh\<lparr>dp_tasks := dp_tasks p\<rparr>);
                a5 = ra_planning_update (\<lambda>p. p\<lparr>pl_desired := Some desired\<rparr>) a4
            in submit_plan E now desired (prepare_external_drift_state desired a5))"

end
