(* ===== verification/Runtime_Barriers.thy ===== *)
theory Runtime_Barriers
  imports Runtime_Evaluate "HOL-Library.Sublist"
begin

text \<open>
  The safety caps, interaction hints and mutation barriers of the actor (\<open>crates/uperf-daemon/src/runtime.rs\<close>):
  the safety fence and what feeds it, the hints that an interaction owns, sleep, resume and shutdown, the
  barrier that quiesces the workers before a restoration or a reload, and the results of the workers.
\<close>

definition show_expected :: "u64 option \<Rightarrow> message" where
  "show_expected expected = (case expected of None \<Rightarrow> MStr ''None'' | Some n \<Rightarrow> MFmt ''Some({})'' [MNum (uint n)])"

fun runtime_error_message :: "runtime_error \<Rightarrow> message" where
  "runtime_error_message (RtInvalidArgument msg) = MFmt ''invalid argument: {0}'' [msg]"
| "runtime_error_message (RtNotFound msg) = MFmt ''resource not found: {0}'' [msg]"
| "runtime_error_message (RtNotAuthorized msg) = MFmt ''not authorized: {0}'' [msg]"
| "runtime_error_message (RtConflict msg) = MFmt ''state conflict: {0}'' [msg]"
| "runtime_error_message (RtDegraded msg) = MFmt ''mutation unavailable in degraded mode: {0}'' [msg]"
| "runtime_error_message (RtValidation msg) = MFmt ''configuration validation failed: {0}'' [msg]"
| "runtime_error_message (RtInternal msg) = MFmt ''runtime internal error: {0}'' [msg]"

section \<open>Safety caps\<close>

definition unavailable_reading :: "monotonic_millis \<Rightarrow> thermal_reading" where
  "unavailable_reading now = \<lparr>temperature = None, sampled_at = now, health = Unavailable\<rparr>"

definition update_thermal_health :: "('w, 'r) runtime_actor \<Rightarrow> ('w, 'r) runtime_actor" where
  "update_thermal_health a =
     (let a1 = clear_issue ''thermal.degraded'' a
      in if se_thermal_state (ra_sensing a1) = Degraded
         then set_issue ''thermal.degraded'' ''critical'' ''thermal''
           (MStr ''a trusted thermal sensor is stale or unavailable; boost and new overrides are inhibited'') a1
         else a1)"

definition mark_all_thermal_unavailable :: "monotonic_millis \<Rightarrow> ('w, 'r) runtime_actor \<Rightarrow> ('w, 'r) runtime_actor" where
  "mark_all_thermal_unavailable now a =
     update_thermal_health (ra_sensing_update (\<lambda>s.
       let ids = map tz_id (rc_thermal_zones (ra_configuration a));
           reading = unavailable_reading now
       in s\<lparr>se_observed := (se_observed s)\<lparr>observed_thermal :=
               fold (\<lambda>zone. bt_insert zone reading) ids (observed_thermal (se_observed s))\<rparr>,
            se_thermal_guards := fold (\<lambda>zone. bt_get_mut zone (\<lambda>guard. ThermalGuard_update guard now reading)) ids (se_thermal_guards s),
            se_maximum_temperature := None, se_thermal_state := Degraded\<rparr>) a)"

text \<open>\<open>sort_unstable\<close> on numbers is a sort.\<close>

definition middle_opp :: "resolved_target \<Rightarrow> hertz option" where
  "middle_opp target =
     (if rt_available_frequencies target = []
      then Some (u64_saturating_add (min_hz (rt_hardware_limits target)) (max_hz (rt_hardware_limits target)) div 2)
      else
        let frequencies = sort (rt_available_frequencies target);
            middle = length frequencies div 2
        in if middle < length frequencies then Some (frequencies ! middle) else None)"

definition thermal_cap :: "thermal_state \<Rightarrow> resolved_target \<Rightarrow> hertz option" where
  "thermal_cap state target =
     (case state of
        ThermalNormal \<Rightarrow> None
      | Warning \<Rightarrow> map_option fp_efficient_cap (rt_automatic_policy target)
      | Throttled \<Rightarrow> (case rt_automatic_policy target of
            None \<Rightarrow> middle_opp target
          | Some policy \<Rightarrow> Some (min (fp_reference policy) (fp_efficient_cap policy)))
      | Critical \<Rightarrow> Some (rt_critical_cap target)
      | Degraded \<Rightarrow> Some (rt_sensor_failure_cap target))"

definition start_frequency_safety_update :: "(target_id, hertz) btree \<Rightarrow> ('w, 'r) runtime_actor \<Rightarrow> ('w, 'r) runtime_actor" where
  "start_frequency_safety_update upper_caps a =
     (let uid = u64_saturating_add (fe_next_safety_update_id (ra_fence a)) 1
      in emit (SpawnSafetyUpdate uid upper_caps)
           (ra_fence_update (\<lambda>f. f\<lparr>fe_next_safety_update_id := uid, fe_safety_update_in_flight := Some uid\<rparr>) a))"

definition request_frequency_safety_update :: "(target_id, hertz) btree \<Rightarrow> ('w, 'r) runtime_actor \<Rightarrow> ('w, 'r) runtime_actor" where
  "request_frequency_safety_update upper_caps a =
     (if fe_safety_failure (ra_fence a) \<noteq> None \<or> upper_caps = fe_requested_upper_caps (ra_fence a) then a
      else
        let a1 = ra_fence_update (\<lambda>f. f\<lparr>fe_requested_upper_caps := upper_caps\<rparr>) a
        in if fe_safety_update_in_flight (ra_fence a1) \<noteq> None
           then ra_fence_update (\<lambda>f. f\<lparr>fe_pending_upper_caps := Some upper_caps\<rparr>) a1
           else start_frequency_safety_update upper_caps a1)"

definition thermal_caps_of :: "'r resolved_configuration \<Rightarrow> thermal_state \<Rightarrow> (target_id, hertz) btree" where
  "thermal_caps_of c state =
     fold (\<lambda>(tid, target) caps. case thermal_cap state target of None \<Rightarrow> caps | Some cap \<Rightarrow> bt_insert tid cap caps)
       (rc_targets c) []"

definition join_cap :: "target_id \<times> hertz \<Rightarrow> (target_id, hertz) btree \<Rightarrow> (target_id, hertz) btree" where
  "join_cap = (\<lambda>(tid, cap) caps.
     bt_insert tid (case bt_get caps tid of None \<Rightarrow> cap | Some other \<Rightarrow> min other cap) caps)"

definition tightened :: "(target_id, hertz) btree \<Rightarrow> (target_id, hertz) btree \<Rightarrow> bool" where
  "tightened previous caps =
     list_ex (\<lambda>(tid, cap). case bt_get previous tid of None \<Rightarrow> True | Some old \<Rightarrow> cap < old) caps"

definition update_thermal_caps :: "('w, 'r) runtime_actor \<Rightarrow> ('w, 'r) runtime_actor" where
  "update_thermal_caps a =
     (let previous = se_thermal_caps (ra_sensing a);
          caps = thermal_caps_of (ra_configuration a) (se_thermal_state (ra_sensing a));
          a1 = ra_sensing_update (\<lambda>s. s\<lparr>se_thermal_caps := caps\<rparr>) a;
          upper_caps = fold join_cap caps (administrator_caps (ra_configuration a1));
          a2 = request_frequency_safety_update upper_caps a1
      in if tightened previous caps then clear_frequency_failure a2 else a2)"

definition finish_frequency_safety_update ::
  "('w, 'r) runtime_ports \<Rightarrow> u64 \<Rightarrow> (message, unit) result \<Rightarrow> ('w, 'r) runtime_actor \<Rightarrow> ('w, 'r) runtime_actor" where
  "finish_frequency_safety_update E uid outcome a =
     (let expected = fe_safety_update_in_flight (ra_fence a);
          a1 = ra_fence_update (\<lambda>f. f\<lparr>fe_safety_update_in_flight := None\<rparr>) a;
          result = (if expected = Some uid then outcome
                    else Inl (MFmt ''received frequency safety result {} while waiting for {:?}''
                           [MNum (uint uid), show_expected expected]))
      in case result of
           Inl error \<Rightarrow>
             let msg = MFmt ''{message}; all further mutations are disabled'' [error]
             in refresh_actuator_health E (set_issue ''safety.frequency_fence'' ''critical'' ''actuator'' msg
                  (ra_fence_update (\<lambda>f. f\<lparr>fe_safety_failure := Some msg, fe_pending_upper_caps := None, fe_actuator_read_only := True\<rparr>) a1))
         | Inr _ \<Rightarrow>
             let a2 = clear_issue ''safety.frequency_fence'' a1
             in case fe_pending_upper_caps (ra_fence a2) of
                  Some upper_caps \<Rightarrow>
                    start_frequency_safety_update upper_caps (ra_fence_update (\<lambda>f. f\<lparr>fe_pending_upper_caps := None\<rparr>) a2)
                | None \<Rightarrow> evaluate_and_reconcile E a2)"

section \<open>Interaction\<close>

definition JUNK_HINT_DURATION_MS :: u64 where "JUNK_HINT_DURATION_MS = 60"

definition hint_for :: "scene \<Rightarrow> monotonic_millis \<Rightarrow> u64 \<Rightarrow> hint" where
  "hint_for s now duration = (if duration = 0 then hint_persistent s now else hint_with_ttl s now duration)"

text \<open>One scene of the loop of \<open>clear_interaction_hints\<close>.\<close>

definition clear_hint :: "scene \<Rightarrow> bool \<times> interaction_state \<Rightarrow> bool \<times> interaction_state" where
  "clear_hint s = (\<lambda>(changed, i).
     case deactivate (ia_hints i) s of (hints, removed) \<Rightarrow>
       (changed \<or> removed \<noteq> None, i\<lparr>ia_hint_generations := bt_remove s (ia_hint_generations i), ia_hints := hints\<rparr>))"

definition clear_interaction_hints :: "u64 option \<Rightarrow> ('w, 'r) runtime_actor \<Rightarrow> bool \<times> ('w, 'r) runtime_actor" where
  "clear_interaction_hints generation a =
     (let scenes = map fst (filter (\<lambda>(s, g). case generation of None \<Rightarrow> True | Some v \<Rightarrow> g = v)
                     (ia_hint_generations (ra_interaction a)))
      in case fold clear_hint scenes (False, ra_interaction a) of (changed, i) \<Rightarrow> (changed, a\<lparr>ra_interaction := i\<rparr>))"

definition forget_render :: "('w, 'r) runtime_actor \<Rightarrow> ('w, 'r) runtime_actor" where
  "forget_render a =
     ra_interaction_update (\<lambda>i. i\<lparr>ia_render_generation := None, ia_render_idle_deadline := None, ia_last_deadline_missed := None\<rparr>) a"

definition begin_interaction :: "('w, 'r) runtime_actor \<Rightarrow> ('w, 'r) runtime_actor" where
  "begin_interaction a =
     forget_render (ra_interaction_update (\<lambda>i. i\<lparr>ia_generation := u64_saturating_add (ia_generation i) 1, ia_ended := False\<rparr>)
       (snd (clear_interaction_hints None a)))"

text \<open>The scenes other than these four are \<open>unreachable!\<close>; no caller passes one.\<close>

definition interaction_duration :: "input_config \<Rightarrow> scene \<Rightarrow> u64" where
  "interaction_duration input s =
     (case s of
        Touch \<Rightarrow> 0
      | Trigger \<Rightarrow> ic_trigger_duration_ms input
      | Gesture \<Rightarrow> ic_gesture_duration_ms input
      | _ \<Rightarrow> JUNK_HINT_DURATION_MS)"

definition activate_current_interaction_hint ::
  "('w, 'r) runtime_ports \<Rightarrow> scene \<Rightarrow> ('w, 'r) runtime_actor \<Rightarrow> ('w, 'r) runtime_actor" where
  "activate_current_interaction_hint E s a =
     (let a1 = (if ia_generation (ra_interaction a) = 0 then ra_interaction_update (\<lambda>i. i\<lparr>ia_generation := 1\<rparr>) a else a)
      in case monotonic E a1 of (now, a2) \<Rightarrow>
        let duration = interaction_duration (pol_input (rc_policy (ra_configuration a2))) s
        in ra_interaction_update (\<lambda>i. i\<lparr>ia_hints := activate (ia_hints i) (hint_for s now duration),
             ia_hint_generations := bt_insert s (ia_generation i) (ia_hint_generations i)\<rparr>) a2)"

definition external_duration :: "input_config \<Rightarrow> scene \<Rightarrow> u64" where
  "external_duration input s =
     (case s of
        Junk \<Rightarrow> JUNK_HINT_DURATION_MS
      | Switch \<Rightarrow> ic_switch_duration_ms input
      | Wake \<Rightarrow> ic_wake_duration_ms input
      | _ \<Rightarrow> 0)"

definition activate_external_hint :: "('w, 'r) runtime_ports \<Rightarrow> scene \<Rightarrow> ('w, 'r) runtime_actor \<Rightarrow> ('w, 'r) runtime_actor" where
  "activate_external_hint E s a =
     (if s = Touch \<or> s = Trigger \<or> s = Gesture
      then evaluate_and_reconcile E (activate_current_interaction_hint E s (begin_interaction a))
      else case monotonic E a of (now, a1) \<Rightarrow>
        if s = Idle then a1
        else
          let duration = external_duration (pol_input (rc_policy (ra_configuration a1))) s
          in evaluate_and_reconcile E
               (ra_interaction_update (\<lambda>i. i\<lparr>ia_hints := activate (ia_hints i) (hint_for s now duration)\<rparr>) a1))"

definition current_interaction_active :: "('w, 'r) runtime_actor \<Rightarrow> monotonic_millis \<Rightarrow> bool" where
  "current_interaction_active a now =
     list_ex (\<lambda>(s, generation). generation = ia_generation (ra_interaction a)
                \<and> contains_active (ia_hints (ra_interaction a)) s now)
       (ia_hint_generations (ra_interaction a))"

section \<open>Leases of the compositor\<close>

definition advance_focus_report_revision :: "('w, 'r) runtime_actor \<Rightarrow> u64 \<times> ('w, 'r) runtime_actor" where
  "advance_focus_report_revision a =
     (let revision = u64_saturating_add (fo_revision (ra_focus a)) 1
      in (revision, ra_focus_update (\<lambda>f. f\<lparr>fo_revision := revision\<rparr>) a))"

definition invalidate_focus_reports :: "('w, 'r) runtime_actor \<Rightarrow> ('w, 'r) runtime_actor" where
  "invalidate_focus_reports a =
     ra_focus_update (\<lambda>f. f\<lparr>fo_pending := None\<rparr>) (snd (advance_focus_report_revision a))"

definition reset_frame_reporter_state :: "('w, 'r) runtime_actor \<Rightarrow> ('w, 'r) runtime_actor" where
  "reset_frame_reporter_state a =
     (let a1 = forget_render a
      in if ia_display_blanked (ra_interaction a1)
         then bump_generation (ra_interaction_update (\<lambda>i. i\<lparr>ia_display_blanked := False\<rparr>) a1) else a1)"

definition revoke_frame_reporter :: "string option \<Rightarrow> ('w, 'r) runtime_actor \<Rightarrow> bool \<times> ('w, 'r) runtime_actor" where
  "revoke_frame_reporter peer a =
     (case fo_frame_reporter (ra_focus a) of
        None \<Rightarrow> (False, a)
      | Some lease \<Rightarrow>
          if (case peer of None \<Rightarrow> True | Some expected \<Rightarrow> fr_peer lease = expected)
          then (True, reset_frame_reporter_state (ra_focus_update (\<lambda>f. f\<lparr>fo_frame_reporter := None\<rparr>) a))
          else (False, a))"

section \<open>Health at the start and after a reload\<close>

definition warning_code :: "nat \<Rightarrow> string" where
  "warning_code index = ''discovery.warning.'' @ show_nat index"

definition seed_health :: "('w, 'r) runtime_ports \<Rightarrow> ('w, 'r) runtime_actor \<Rightarrow> ('w, 'r) runtime_actor" where
  "seed_health E a =
     (let a1 = clear_issue ''scheduler.systemd_backend'' (clear_issue ''scheduler.process_backend'' a);
          a2 = fold (\<lambda>(index, warning). set_issue (warning_code index) ''warning'' ''discovery'' warning)
                 (enumerate_list (rc_warnings (ra_configuration a1))) a1;
          a3 = (if \<not> rn_actuator E
                then set_issue ''actuator.read_only'' ''warning'' ''actuator''
                       (MStr ''daemon was started without a mutation actuator'') a2
                else a2);
          scheduler = pol_scheduler (rc_policy (ra_configuration a3));
          a4 = (if sc_enabled scheduler \<and> \<not> (rn_actuator E \<and> rn_process_backend E)
                then set_issue ''scheduler.process_backend'' ''warning'' ''scheduler''
                       (MStr ''task scheduling is configured but its process backend is unavailable'') a3
                else a3);
          a5 = (if sc_enabled scheduler \<and> sc_cgroup_classes scheduler \<noteq> [] \<and> \<not> (rn_actuator E \<and> rn_systemd_backend E)
                then set_issue ''scheduler.systemd_backend'' ''warning'' ''scheduler''
                       (MStr ''cgroup classes are configured but the systemd backend is unavailable'') a4
                else a4)
      in refresh_actuator_health E a5)"

section \<open>Reload\<close>

definition observer_settings_from :: "'r resolved_configuration \<Rightarrow> u64 \<Rightarrow> observer_settings" where
  "observer_settings_from c generation =
     \<lparr>os_generation = generation, os_load_interval_ms = gc_idle_sample_ms (pol_governor (rc_policy c)),
      os_thermal_interval_ms = tpc_sample_interval_ms (pol_thermal (rc_policy c)),
      os_thermal_paths = List.map_filter (\<lambda>zone. map_option path_of (tz_sysfs_path zone)) (rc_thermal_zones c),
      os_input = pol_input (rc_policy c)\<rparr>"

definition thermal_guards_of :: "'r resolved_configuration \<Rightarrow> (string, thermal_guard) btree" where
  "thermal_guards_of c =
     bt_collect (map (\<lambda>zone. (tz_id zone, ThermalGuard_new (thresholds_from_zone zone))) (rc_thermal_zones c))"

definition FOCUS_REJECTED_ISSUE :: string where "FOCUS_REJECTED_ISSUE = ''focus.rejected''"

text \<open>The swap itself: everything up to the fresh thermal state.\<close>

definition swap_configuration :: "'r resolved_configuration \<Rightarrow> ('w, 'r) runtime_actor \<Rightarrow> ('w, 'r) runtime_actor" where
  "swap_configuration candidate a =
     (let next_config = u64_saturating_add (ra_config_generation a) 1;
          next_observer = u64_saturating_add (ra_observer_generation a) 1;
          a1 = invalidate_focus_reports a;
          a2 = (if fc_enabled (sc_focus (pol_scheduler (rc_policy candidate))) then a1
                else clear_issue FOCUS_REJECTED_ISSUE
                       (snd (revoke_frame_reporter None (ra_focus_update (\<lambda>f. f\<lparr>fo_lease := None\<rparr>) a1))))
      in ra_sensing_update (\<lambda>s. s\<lparr>se_thermal_guards := thermal_guards_of candidate, se_thermal_state := Degraded\<rparr>)
           (mark_scheduler_dirty (ra_sensing_update (\<lambda>s. s\<lparr>se_adaptive_sampler := SamplingIdle\<rparr>)
             (ra_planning_update (\<lambda>p. p\<lparr>pl_governor_state := GovernorState_default, pl_governor_diagnostics := None,
                pl_integrate_elapsed_time := False\<rparr>)
               (a2\<lparr>ra_configuration := candidate, ra_config_generation := next_config, ra_observer_generation := next_observer,
                   ra_observer_settings := observer_settings_from candidate next_observer\<rparr>)))))"

definition apply_reload_candidate ::
  "('w, 'r) runtime_ports \<Rightarrow> 'r resolved_configuration \<Rightarrow> ('w, 'r) runtime_actor \<Rightarrow> reload_report \<times> ('w, 'r) runtime_actor" where
  "apply_reload_candidate E candidate a =
     (let a1 = clear_issue ''config.reload_rejected'' (mark_decision_trigger E ''config-reload'' a)
      in case monotonic E (swap_configuration candidate a1) of (now, a2) \<Rightarrow>
        let a3 = bump_generation (update_thermal_caps (mark_all_thermal_unavailable now a2));
            a4 = a3\<lparr>ra_health_issues := bt_retain (\<lambda>code _. \<not> prefix ''discovery.warning.'' code) (ra_health_issues a3)\<rparr>;
            a5 = evaluate_and_reconcile E (seed_health E a4)
        in (\<lparr>rl_config_generation = ra_config_generation a5, rl_warnings = rc_warnings candidate\<rparr>, a5))"

definition complete_reload ::
  "('w, 'r) runtime_ports \<Rightarrow> reply \<Rightarrow> 'r resolved_configuration \<Rightarrow> ('w, 'r) runtime_actor \<Rightarrow> ('w, 'r) runtime_actor" where
  "complete_reload E reply candidate a =
     (case apply_reload_candidate E candidate (ra_lanes_update (\<lambda>l. l\<lparr>wl_reload_in_flight := False\<rparr>) a) of (summary, a1) \<Rightarrow>
        (emit (Answer reply (Reloaded summary)) a1)\<lparr>ra_capabilities_changed := True\<rparr>)"

section \<open>The barrier\<close>

definition request_frequency_quiesce :: "('w, 'r) runtime_ports \<Rightarrow> ('w, 'r) runtime_actor \<Rightarrow> ('w, 'r) runtime_actor" where
  "request_frequency_quiesce E a =
     (if wl_frequency_quiesced (ra_lanes a) \<or> wl_frequency_quiesce_pending (ra_lanes a) \<noteq> None then a
      else
        let cid = u64_saturating_add (wl_next_frequency_command_id (ra_lanes a)) 1;
            a1 = ra_lanes_update (\<lambda>l. l\<lparr>wl_next_frequency_command_id := cid\<rparr>) a
        in case send_frequency_command E (QuiesceCommand cid) a1 of (sent, a2) \<Rightarrow>
           if \<not> sent then
             ra_lanes_update (\<lambda>l. l\<lparr>wl_frequency_command_pending := None, wl_frequency_requested := None, wl_frequency_quiesced := True\<rparr>)
               (fail_reconcile_worker (MStr ''frequency worker stopped before acknowledging the mutation barrier'') a2)
           else ra_lanes_update (\<lambda>l. l\<lparr>wl_frequency_command_pending := Some cid, wl_frequency_quiesce_pending := Some cid,
                  wl_frequency_requested := None\<rparr>) a2)"

definition start_restore_worker :: "('w, 'r) runtime_actor \<Rightarrow> ('w, 'r) runtime_actor" where
  "start_restore_worker a =
     (let rid = u64_saturating_add (rs_next_restore_id (ra_restore a)) 1
      in emit (SpawnRestore rid)
           (ra_restore_update (\<lambda>r. r\<lparr>rs_restore_requested := False, rs_next_restore_id := rid, rs_restore_in_flight := Some rid\<rparr>) a))"

definition drive_mutation_barriers :: "('w, 'r) runtime_ports \<Rightarrow> ('w, 'r) runtime_actor \<Rightarrow> bool \<times> ('w, 'r) runtime_actor" where
  "drive_mutation_barriers E a =
     (if rs_restore_in_flight (ra_restore a) \<noteq> None then (True, a)
      else if \<not> (rs_restore_requested (ra_restore a) \<or> wl_pending_reload (ra_lanes a) \<noteq> None) then (False, a)
      else
        let a1 = request_frequency_quiesce E (ra_lanes_update (\<lambda>l. l\<lparr>wl_scheduler_pending := False\<rparr>) a)
        in if \<not> wl_frequency_quiesced (ra_lanes a1) \<or> wl_frequency_command_pending (ra_lanes a1) \<noteq> None
              \<or> wl_scheduler_in_flight (ra_lanes a1) \<noteq> None then (True, a1)
           else if rs_restore_requested (ra_restore a1) then (True, start_restore_worker a1)
           else case wl_pending_reload (ra_lanes a1) of
                Some (reply, candidate) \<Rightarrow>
                  (True, complete_reload E reply candidate (ra_lanes_update (\<lambda>l. l\<lparr>wl_pending_reload := None\<rparr>) a1))
              | None \<Rightarrow> (False, a1))"

definition reload_rejected :: "runtime_error \<Rightarrow> reply \<Rightarrow> ('w, 'r) runtime_actor \<Rightarrow> ('w, 'r) runtime_actor" where
  "reload_rejected error reply a =
     emit (Answer reply (Refused error))
       (set_issue ''config.reload_rejected'' ''warning'' ''config''
          (MFmt ''configuration reload was rejected; generation {} remains active: {error}''
             [MNum (uint (ra_config_generation a)), runtime_error_message error])
          (ra_lanes_update (\<lambda>l. l\<lparr>wl_reload_in_flight := False\<rparr>) a))"

definition receive_reload ::
  "('w, 'r) runtime_ports \<Rightarrow> reply \<Rightarrow> (runtime_error, 'r resolved_configuration) result \<Rightarrow> ('w, 'r) runtime_actor \<Rightarrow> ('w, 'r) runtime_actor" where
  "receive_reload E reply outcome a =
     (case outcome of
        Inl error \<Rightarrow> reload_rejected error reply a
      | Inr candidate \<Rightarrow>
          if target_signature candidate \<noteq> target_signature (ra_configuration a)
          then reload_rejected (RtValidation (MStr ''device target mapping changed; safely restore and restart the daemon to adopt it'')) reply a
          else snd (drive_mutation_barriers E (ra_lanes_update (\<lambda>l. l\<lparr>wl_pending_reload := Some (reply, candidate)\<rparr>) a)))"

section \<open>Sleep, resume and shutdown\<close>

definition answer_all :: "answer \<Rightarrow> reply list \<Rightarrow> ('w, 'r) runtime_actor \<Rightarrow> ('w, 'r) runtime_actor" where
  "answer_all ans replies a = fold (\<lambda>reply. emit (Answer reply ans)) replies a"

definition drain_sleep :: "answer \<Rightarrow> ('w, 'r) runtime_actor \<Rightarrow> ('w, 'r) runtime_actor" where
  "drain_sleep ans a = answer_all ans (rs_sleep_waiters (ra_restore a)) (ra_restore_update (\<lambda>r. r\<lparr>rs_sleep_waiters := []\<rparr>) a)"

definition drain_wake :: "answer \<Rightarrow> ('w, 'r) runtime_actor \<Rightarrow> ('w, 'r) runtime_actor" where
  "drain_wake ans a = answer_all ans (rs_wake_waiters (ra_restore a)) (ra_restore_update (\<lambda>r. r\<lparr>rs_wake_waiters := []\<rparr>) a)"

definition drain_stop :: "answer \<Rightarrow> ('w, 'r) runtime_actor \<Rightarrow> ('w, 'r) runtime_actor" where
  "drain_stop ans a = answer_all ans (rs_stop_waiters (ra_restore a)) (ra_restore_update (\<lambda>r. r\<lparr>rs_stop_waiters := []\<rparr>) a)"

definition enter_suspended_state :: "('w, 'r) runtime_actor \<Rightarrow> ('w, 'r) runtime_actor" where
  "enter_suspended_state a =
     ra_restore_update (\<lambda>r. r\<lparr>rs_suspended := True, rs_restored_while_suspended := False\<rparr>)
       (ra_lanes_update (\<lambda>l. l\<lparr>wl_scheduler_pending := False\<rparr>)
         (forget_render (ra_interaction_update (\<lambda>i. i\<lparr>ia_hints := HintSet_new, ia_hint_generations := [], ia_ended := True,
            ia_contacts := {}\<rparr>) a)))"

definition resume_from_sleep :: "('w, 'r) runtime_ports \<Rightarrow> ('w, 'r) runtime_actor \<Rightarrow> ('w, 'r) runtime_actor" where
  "resume_from_sleep E a =
     (case monotonic E (ra_sensing_update (\<lambda>s. s\<lparr>se_thermal_state := Degraded\<rparr>)
             (ra_planning_update (\<lambda>p. p\<lparr>pl_integrate_elapsed_time := False\<rparr>)
               (ra_restore_update (\<lambda>r. r\<lparr>rs_suspended := False\<rparr>) a))) of (now, a1) \<Rightarrow>
        activate_external_hint E Wake (mark_scheduler_dirty (update_thermal_caps (mark_all_thermal_unavailable now a1))))"

definition request_sleep_restore :: "('w, 'r) runtime_ports \<Rightarrow> reply \<Rightarrow> ('w, 'r) runtime_actor \<Rightarrow> ('w, 'r) runtime_actor" where
  "request_sleep_restore E completion a =
     (if rs_stop_waiters (ra_restore a) \<noteq> []
      then emit (Answer completion (RefusedText (MStr ''daemon shutdown has started; the sleep transition was superseded''))) a
      else
        let a1 = (if rs_pending_resume (ra_restore a)
                  then drain_wake (RefusedText (MStr ''a newer sleep transition superseded the pending resume''))
                         (ra_restore_update (\<lambda>r. r\<lparr>rs_pending_resume := False\<rparr>) a)
                  else a)
        in case fe_restore_failure (ra_fence a1) of
             Some msg \<Rightarrow>
               emit (Answer completion (RefusedText msg)) (if rs_suspended (ra_restore a1) then a1 else enter_suspended_state a1)
           | None \<Rightarrow>
               if rs_suspended (ra_restore a1)
               then if rs_restored_while_suspended (ra_restore a1) then emit (Answer completion Done) a1
                    else ra_restore_update (\<lambda>r. r\<lparr>rs_sleep_waiters := rs_sleep_waiters r @ [completion]\<rparr>) a1
               else snd (drive_mutation_barriers E
                 (ra_restore_update (\<lambda>r. r\<lparr>rs_sleep_waiters := rs_sleep_waiters r @ [completion], rs_restore_requested := True\<rparr>)
                   (enter_suspended_state a1))))"

definition request_resume :: "('w, 'r) runtime_ports \<Rightarrow> reply \<Rightarrow> ('w, 'r) runtime_actor \<Rightarrow> ('w, 'r) runtime_actor" where
  "request_resume E completion a =
     (if rs_stop_waiters (ra_restore a) \<noteq> [] \<or> \<not> rs_accepting_control (ra_restore a)
      then emit (Answer completion (RefusedText (MStr ''daemon shutdown has started; resume is no longer accepted''))) a
      else if \<not> rs_suspended (ra_restore a) then emit (Answer completion Done) a
      else if rs_restore_requested (ra_restore a) \<or> rs_restore_in_flight (ra_restore a) \<noteq> None
      then ra_restore_update (\<lambda>r. r\<lparr>rs_pending_resume := True, rs_wake_waiters := rs_wake_waiters r @ [completion]\<rparr>) a
      else emit (Answer completion Done)
             (resume_from_sleep E (ra_restore_update (\<lambda>r. r\<lparr>rs_restored_while_suspended := False\<rparr>) a)))"

definition shutdown_supersedes_resume :: message where
  "shutdown_supersedes_resume = MStr ''daemon shutdown superseded the pending resume transition''"

definition request_stop :: "('w, 'r) runtime_ports \<Rightarrow> reply \<Rightarrow> ('w, 'r) runtime_actor \<Rightarrow> ('w, 'r) runtime_actor" where
  "request_stop E reply a =
     (let a1 = ra_restore_update (\<lambda>r. r\<lparr>rs_accepting_control := False\<rparr>) a;
          a2 = (case fo_identity_in_flight (ra_focus a1) of
                  Some request \<Rightarrow> if ii_control request then a1 else ra_focus_update (\<lambda>f. f\<lparr>fo_identity_in_flight := None\<rparr>) a1
                | None \<Rightarrow> a1);
          a3 = drain_wake (RefusedText shutdown_supersedes_resume) (ra_restore_update (\<lambda>r. r\<lparr>rs_pending_resume := False\<rparr>) a2)
      in case fe_restore_failure (ra_fence a3) of
           Some msg \<Rightarrow> emit (Answer reply (Refused (RtDegraded msg))) (ra_restore_update (\<lambda>r. r\<lparr>rs_stop_requested := True\<rparr>) a3)
         | None \<Rightarrow>
             if rs_suspended (ra_restore a3) \<and> rs_restored_while_suspended (ra_restore a3)
             then emit (Answer reply Done) (ra_restore_update (\<lambda>r. r\<lparr>rs_stop_requested := True\<rparr>) a3)
             else
               let a4 = (if rs_suspended (ra_restore a3) then a3 else enter_suspended_state a3)
               in snd (drive_mutation_barriers E
                    (ra_restore_update (\<lambda>r. r\<lparr>rs_stop_waiters := rs_stop_waiters r @ [reply],
                       rs_restore_requested := rs_restore_requested r \<or> rs_restore_in_flight r = None\<rparr>) a4)))"

definition AppliedState_default :: applied_state where
  "AppliedState_default = \<lparr>as_generation = 0, as_frequencies = [], as_scalars = [], as_tasks = []\<rparr>"

text \<open>What the result of a restoration means for the state, before anybody is told.\<close>

definition settle_restore :: "(message, unit) result \<Rightarrow> ('w, 'r) runtime_actor \<Rightarrow> ('w, 'r) runtime_actor" where
  "settle_restore result a =
     (case result of
        Inr _ \<Rightarrow>
          clear_issue ''actuator.sleep_restore''
            (ra_restore_update (\<lambda>r. r\<lparr>rs_restored_while_suspended := True\<rparr>)
              (ra_sensing_update (\<lambda>s. s\<lparr>se_observed := (se_observed s)\<lparr>observed_frequencies := []\<rparr>\<rparr>)
                (ra_outcome_update (\<lambda>c. c\<lparr>oc_applied := AppliedState_default, oc_applied_units := []\<rparr>) a)))
      | Inl msg \<Rightarrow>
          set_issue ''actuator.sleep_restore'' ''critical'' ''actuator'' msg
            (ra_fence_update (\<lambda>f. f\<lparr>fe_restore_failure := Some msg, fe_actuator_read_only := True\<rparr>)
              (ra_restore_update (\<lambda>r. r\<lparr>rs_restored_while_suspended := False\<rparr>) a)))"

definition finish_restore :: "('w, 'r) runtime_ports \<Rightarrow> u64 \<Rightarrow> (message, unit) result \<Rightarrow> ('w, 'r) runtime_actor \<Rightarrow> ('w, 'r) runtime_actor" where
  "finish_restore E rid outcome a =
     (let expected = rs_restore_in_flight (ra_restore a);
          a1 = ra_restore_update (\<lambda>r. r\<lparr>rs_restore_in_flight := None\<rparr>) a;
          result = (if expected = Some rid then outcome
                    else Inl (MFmt ''received restore result {} while waiting for {:?}'' [MNum (uint rid), show_expected expected]));
          a2 = refresh_actuator_health E (settle_restore result a1);
          a3 = drain_sleep (case result of Inr _ \<Rightarrow> Done | Inl msg \<Rightarrow> RefusedText msg) a2
      in if rs_stop_waiters (ra_restore a3) \<noteq> []
         then drain_stop (case result of Inr _ \<Rightarrow> Done | Inl msg \<Rightarrow> Refused (RtDegraded msg))
                (ra_restore_update (\<lambda>r. r\<lparr>rs_stop_requested := True\<rparr>)
                  (drain_wake (RefusedText shutdown_supersedes_resume) (ra_restore_update (\<lambda>r. r\<lparr>rs_pending_resume := False\<rparr>) a3)))
         else
           let a4 = (if rs_pending_resume (ra_restore a3)
                     then drain_wake Done (resume_from_sleep E
                            (ra_restore_update (\<lambda>r. r\<lparr>rs_pending_resume := False, rs_restored_while_suspended := False\<rparr>) a3))
                     else a3)
           in snd (drive_mutation_barriers E a4))"

section \<open>Results of the workers\<close>

datatype frequency_worker_event =
    ReconciledEvent u64 "(target_id, frequency_limits) btree" "(message, reconcile_outcome) result"
  | QuiescedEvent u64
  | FailedEvent message

definition maybe_complete_applied_generation :: "('w, 'r) runtime_actor \<Rightarrow> ('w, 'r) runtime_actor" where
  "maybe_complete_applied_generation a =
     (if \<not> rs_suspended (ra_restore a) \<and> \<not> oc_scheduler_dirty (ra_outcome a)
         \<and> wl_scheduler_in_flight (ra_lanes a) = None \<and> wl_frequency_command_pending (ra_lanes a) = None
      then case pl_desired (ra_planning a) of
          Some desired \<Rightarrow>
            if frequency_needs_reconcile desired a then a
            else ra_outcome_update (\<lambda>c. c\<lparr>oc_applied := (oc_applied c)\<lparr>as_generation := dp_generation desired\<rparr>\<rparr>) a
        | None \<Rightarrow> a
      else a)"

definition finish_worker_transition :: "('w, 'r) runtime_ports \<Rightarrow> ('w, 'r) runtime_actor \<Rightarrow> ('w, 'r) runtime_actor" where
  "finish_worker_transition E a =
     (case drive_mutation_barriers E (maybe_complete_applied_generation (refresh_actuator_health E a)) of (busy, a1) \<Rightarrow>
        if busy then a1
        else if wl_scheduler_pending (ra_lanes a1) \<or> oc_scheduler_dirty (ra_outcome a1)
                \<or> (case pl_desired (ra_planning a1) of None \<Rightarrow> False | Some desired \<Rightarrow> frequency_needs_reconcile desired a1)
        then evaluate_and_reconcile E a1 else a1)"

text \<open>The applied limits are what the kernel is now known to hold.\<close>

definition observe_applied :: "target_id list \<Rightarrow> (target_id, frequency_limits) btree \<Rightarrow> observed_state \<Rightarrow> observed_state" where
  "observe_applied removed applied obs =
     obs\<lparr>observed_frequencies :=
       fold (\<lambda>(tid, limits). bt_insert tid \<lparr>of_limits = limits, of_current = None\<rparr>) applied
         (fold bt_remove removed (observed_frequencies obs))\<rparr>"

definition adopt_frequencies :: "('w, 'r) runtime_ports \<Rightarrow> (target_id, frequency_limits) btree \<Rightarrow> reconcile_outcome
     \<Rightarrow> ('w, 'r) runtime_actor \<Rightarrow> ('w, 'r) runtime_actor" where
  "adopt_frequencies E drift_targets outcome a =
     (let fresh = ro_applied outcome;
          removed = filter (\<lambda>tid. \<not> bt_contains (as_frequencies fresh) tid) (bt_keys (as_frequencies (oc_applied (ra_outcome a))));
          a1 = ra_outcome_update (\<lambda>c. c\<lparr>oc_applied := (oc_applied c)\<lparr>as_frequencies := as_frequencies fresh, as_scalars := as_scalars fresh\<rparr>\<rparr>) a
      in if ro_frequency_attempted outcome \<and> ro_frequency_error outcome = None
         then case monotonic E (record_external_drift_corrections drift_targets
                (ra_sensing_update (\<lambda>s. s\<lparr>se_observed := observe_applied removed (as_frequencies fresh) (se_observed s)\<rparr>) a1)) of
              (now, a2) \<Rightarrow> clear_issue ''observer.frequency.stale'' (ra_sensing_update (\<lambda>s. s\<lparr>se_last_frequency_success := Some now\<rparr>) a2)
         else a1)"

definition finish_frequency_reconcile ::
  "('w, 'r) runtime_ports \<Rightarrow> (message, reconcile_outcome) result \<Rightarrow> (target_id, frequency_limits) btree
     \<Rightarrow> ('w, 'r) runtime_actor \<Rightarrow> ('w, 'r) runtime_actor" where
  "finish_frequency_reconcile E result drift_targets a =
     (case result of
        Inr outcome \<Rightarrow>
          let a1 = (if rs_suspended (ra_restore a) then a else adopt_frequencies E drift_targets outcome a)
          in (case ro_frequency_error outcome of
                Some error \<Rightarrow> record_frequency_failure E error a1
              | None \<Rightarrow> clear_frequency_failure a1)
      | Inl error \<Rightarrow>
          record_frequency_failure E error
            (fail_reconcile_worker (MFmt ''frequency worker stopped with unknown mutation progress: {error}'' [error]) a))"

definition finish_frequency_worker :: "('w, 'r) runtime_ports \<Rightarrow> frequency_worker_event \<Rightarrow> ('w, 'r) runtime_actor \<Rightarrow> ('w, 'r) runtime_actor" where
  "finish_frequency_worker E event a =
     (case event of
        ReconciledEvent cid drift_targets result \<Rightarrow>
          (let waiting = wl_frequency_command_pending (ra_lanes a);
               finish = \<lambda>a1. finish_worker_transition E (finish_frequency_reconcile E result drift_targets a1)
           in if waiting = Some cid
              then finish (ra_lanes_update (\<lambda>l. l\<lparr>wl_frequency_command_pending := None, wl_frequency_requested := None\<rparr>) a)
              else if (case waiting of None \<Rightarrow> False | Some w \<Rightarrow> cid < w) then finish a
              else fail_reconcile_worker
                     (MFmt ''frequency worker returned command {id} while waiting for {waiting:?}'' [MNum (uint cid), show_expected waiting]) a)
      | QuiescedEvent cid \<Rightarrow>
          if wl_frequency_quiesce_pending (ra_lanes a) \<noteq> Some cid \<or> wl_frequency_command_pending (ra_lanes a) \<noteq> Some cid
          then fail_reconcile_worker
                 (MFmt ''frequency worker returned unexpected quiesce {id} while waiting for {:?}''
                    [MNum (uint cid), show_expected (wl_frequency_quiesce_pending (ra_lanes a))]) a
          else finish_worker_transition E (ra_lanes_update (\<lambda>l. l\<lparr>wl_frequency_command_pending := None,
                 wl_frequency_quiesce_pending := None, wl_frequency_requested := None, wl_frequency_quiesced := True\<rparr>) a)
      | FailedEvent error \<Rightarrow>
          finish_worker_transition E (fail_reconcile_worker error
            (ra_lanes_update (\<lambda>l. l\<lparr>wl_frequency_command_pending := None,
                 wl_frequency_quiesce_pending := None, wl_frequency_requested := None, wl_frequency_quiesced := True\<rparr>) a)))"

definition adopt_tasks :: "bool \<Rightarrow> reconcile_outcome \<Rightarrow> ('w, 'r) runtime_actor \<Rightarrow> ('w, 'r) runtime_actor" where
  "adopt_tasks was_pending outcome a =
     (let a1 = ra_outcome_update (\<lambda>c. c\<lparr>oc_applied := (oc_applied c)\<lparr>as_tasks := as_tasks (ro_applied outcome)\<rparr>,
                 oc_applied_units := ro_applied_units outcome\<rparr>) a
      in if \<not> was_pending \<and> ro_scheduler_error outcome = None
         then ra_outcome_update (\<lambda>c. c\<lparr>oc_scheduler_report := ro_scheduler_report outcome, oc_scheduler_dirty := False\<rparr>)
                (ra_planning_update (\<lambda>p. p\<lparr>pl_desired := map_option (\<lambda>d. d\<lparr>dp_tasks := dp_tasks (ro_desired outcome)\<rparr>) (pl_desired p)\<rparr>) a1)
         else a1)"

definition finish_scheduler_worker ::
  "('w, 'r) runtime_ports \<Rightarrow> u64 \<Rightarrow> (message, reconcile_outcome) result \<Rightarrow> ('w, 'r) runtime_actor \<Rightarrow> ('w, 'r) runtime_actor" where
  "finish_scheduler_worker E sid result a =
     (let expected = wl_scheduler_in_flight (ra_lanes a);
          was_pending = wl_scheduler_pending (ra_lanes a);
          a1 = ra_lanes_update (\<lambda>l. l\<lparr>wl_scheduler_in_flight := None, wl_scheduler_pending := False\<rparr>) a
      in if expected \<noteq> Some sid
         then finish_worker_transition E (fail_reconcile_worker
                (MFmt ''scheduler worker returned command {} while waiting for {expected:?}'' [MNum (uint sid), show_expected expected]) a1)
         else finish_worker_transition E
           (case result of
              Inr outcome \<Rightarrow>
                let a2 = (if rs_suspended (ra_restore a1) then a1 else adopt_tasks was_pending outcome a1);
                    a3 = (case ro_scheduler_warning outcome of
                            Some msg \<Rightarrow> set_issue ''scheduler.cgroup_ownership'' ''warning'' ''scheduler'' msg a2
                          | None \<Rightarrow> clear_issue ''scheduler.cgroup_ownership'' a2)
                in (case ro_scheduler_error outcome of
                      Some error \<Rightarrow> record_scheduler_failure E error a3
                    | None \<Rightarrow> clear_scheduler_failure a3)
            | Inl error \<Rightarrow>
                record_scheduler_failure E error
                  (fail_reconcile_worker (MFmt ''scheduler worker stopped with unknown mutation progress: {error}'' [error]) a1)))"

end
