(* ===== verification/Runtime_Observe.thy ===== *)
theory Runtime_Observe
  imports Runtime_Barriers
begin

text \<open>
  Observations (\<open>crates/uperf-daemon/src/runtime.rs\<close>): CPU load, frequencies and temperatures as the
  observer threads report them, what becomes of observations that are too old, and the inputs of the desktop
  (hints, touches, session state, sleep).
\<close>

section \<open>CPU load\<close>

text \<open>\<open>self.observer_settings.send_if_modified(\<dots>)\<close> changes nothing but the interval.\<close>

definition update_load_observer_cadence :: "('w, 'r) runtime_actor \<Rightarrow> ('w, 'r) runtime_actor" where
  "update_load_observer_cadence a =
     (let maximum_load = fold (\<lambda>load m. f64_max m load)
            (filter f64_is_finite (bt_values (cpu_loads (se_observed (ra_sensing a))))) (Fin 0)
      in case AdaptiveSampler_update (se_adaptive_sampler (ra_sensing a)) maximum_load
                (pol_governor (rc_policy (ra_configuration a))) of
         (sampler, interval_ms) \<Rightarrow>
           (ra_sensing_update (\<lambda>s. s\<lparr>se_adaptive_sampler := sampler\<rparr>) a)
             \<lparr>ra_observer_settings := (ra_observer_settings a)\<lparr>os_load_interval_ms := interval_ms\<rparr>\<rparr>)"

definition bump_telemetry :: "('w, 'r) runtime_actor \<Rightarrow> ('w, 'r) runtime_actor" where
  "bump_telemetry a = ra_sensing_update (\<lambda>s. s\<lparr>se_telemetry_sequence := u64_saturating_add (se_telemetry_sequence s) 1\<rparr>) a"

definition deactivate_hint :: "scene \<Rightarrow> ('w, 'r) runtime_actor \<Rightarrow> ('w, 'r) runtime_actor" where
  "deactivate_hint s a = ra_interaction_update (\<lambda>i. i\<lparr>ia_hints := fst (deactivate (ia_hints i) s)\<rparr>) a"

definition activate_hint :: "hint \<Rightarrow> ('w, 'r) runtime_actor \<Rightarrow> ('w, 'r) runtime_actor" where
  "activate_hint h a = ra_interaction_update (\<lambda>i. i\<lparr>ia_hints := activate (ia_hints i) h\<rparr>) a"

definition invalidate_load_state :: "('w, 'r) runtime_actor \<Rightarrow> ('w, 'r) runtime_actor" where
  "invalidate_load_state a =
     bump_telemetry (deactivate_hint Boost (update_load_observer_cadence
       (ra_sensing_update (\<lambda>s. s\<lparr>se_observed := (se_observed s)\<lparr>cpu_loads := []\<rparr>, se_previous_cpu_times := None,
          se_heavy_load := HeavyLoadDetector_default, se_adaptive_sampler := SamplingIdle\<rparr>) a)))"

definition cpu_loads_since :: "cpu_time_snapshot \<Rightarrow> cpu_time_snapshot \<Rightarrow> (cpu_id, f64) btree" where
  "cpu_loads_since previous sample =
     bt_collect (List.map_filter (\<lambda>(cpu, current).
       map_option (\<lambda>u. (cpu, f64_clamp (Fin 0) (Fin 1) u))
         (Option.bind (bt_get (cs_cpus previous) cpu) (utilization_since current))) (cs_cpus sample))"

text \<open>The heavy-load detector of a sample; counters that moved backwards void the load.\<close>

definition detect_heavy_load ::
  "('w, 'r) runtime_ports \<Rightarrow> cpu_time_snapshot \<Rightarrow> cpu_time_snapshot \<Rightarrow> ('w, 'r) runtime_actor \<Rightarrow> ('w, 'r) runtime_actor" where
  "detect_heavy_load E previous sample a =
     (let config = pol_load (rc_policy (ra_configuration a));
          elapsed_ms = saturating_duration_since (cs_observed_at sample) (cs_observed_at previous)
      in if \<not> lc_enabled config
         then ra_sensing_update (\<lambda>s. s\<lparr>se_heavy_load := HeavyLoadDetector_default\<rparr>) (deactivate_hint Boost a)
         else case utilization_since (cs_aggregate sample) (cs_aggregate previous) of
             None \<Rightarrow>
               invalidate_load_state (set_issue ''observer.load_counters'' ''warning'' ''load''
                 (MStr ''aggregate CPU counters moved backwards or had no elapsed time'') a)
           | Some u \<Rightarrow>
               let a1 = clear_issue ''observer.load_counters'' a
               in (case HeavyLoadDetector_update (rn_exp E) (se_heavy_load (ra_sensing a1)) (f64_clamp (Fin 0) (Fin 1) u)
                          elapsed_ms (cs_observed_at sample) config of
                     Inl error \<Rightarrow> set_issue ''policy.heavy_load'' ''error'' ''policy'' (policy_error_message error) a1
                   | Inr (detector, state) \<Rightarrow>
                       let a2 = ra_sensing_update (\<lambda>s. s\<lparr>se_heavy_load := detector\<rparr>) a1
                       in (case state of
                             Heavy \<Rightarrow> activate_hint (hint_persistent Boost (cs_observed_at sample)) a2
                           | LoadIdle \<Rightarrow> deactivate_hint Boost a2)))"

definition reduce_load :: "('w, 'r) runtime_ports \<Rightarrow> (message, cpu_time_snapshot) result \<Rightarrow> ('w, 'r) runtime_actor \<Rightarrow> ('w, 'r) runtime_actor" where
  "reduce_load E observation a0 =
     (let a = mark_decision_trigger E ''load-observer'' a0
      in case observation of
           Inl msg \<Rightarrow> evaluate_and_reconcile E (invalidate_load_state (set_issue ''observer.load'' ''error'' ''load'' msg a))
         | Inr sample \<Rightarrow>
             let a1 = clear_issue ''observer.load_stale'' (clear_issue ''observer.load'' a);
                 previous = se_previous_cpu_times (ra_sensing a1);
                 a2 = ra_sensing_update (\<lambda>s. s\<lparr>se_last_load_success := Some (cs_observed_at sample),
                        se_previous_cpu_times := Some sample,
                        se_observed := (se_observed s)\<lparr>timestamp := cs_observed_at sample\<rparr>\<rparr>) a1
             in (case previous of
                   None \<Rightarrow> a2
                 | Some old \<Rightarrow>
                     let a3 = update_load_observer_cadence (ra_sensing_update (\<lambda>s. s\<lparr>se_observed :=
                                (se_observed s)\<lparr>cpu_loads := cpu_loads_since old sample\<rparr>\<rparr>) a2)
                     in evaluate_and_reconcile E (bump_telemetry (detect_heavy_load E old sample a3))))"

section \<open>Frequencies\<close>

record frequency_observation_batch =
  fb_readings :: "(target_id, observed_frequency) btree"
  fb_errors :: "(target_id, message) btree"

definition reduce_frequencies ::
  "('w, 'r) runtime_ports \<Rightarrow> (message, frequency_observation_batch) result \<Rightarrow> ('w, 'r) runtime_actor \<Rightarrow> ('w, 'r) runtime_actor" where
  "reduce_frequencies E observation a0 =
     (let a = mark_decision_trigger E ''frequency-observer'' a0;
          a1 = a\<lparr>ra_health_issues := bt_retain (\<lambda>code _. \<not> prefix ''observer.frequency.'' code) (ra_health_issues a)\<rparr>;
          a2 = (case observation of
             Inr batch \<Rightarrow>
               let b1 = (if fb_readings batch = [] then a1
                         else case monotonic E a1 of (now, b) \<Rightarrow> ra_sensing_update (\<lambda>s. s\<lparr>se_last_frequency_success := Some now\<rparr>) b);
                   b2 = fold (\<lambda>(tid, msg). set_issue (''observer.frequency.'' @ tid) ''error'' ''frequency'' msg) (fb_errors batch) b1
               in observe_external_frequency_drift (ra_sensing_update (\<lambda>s. s\<lparr>se_observed :=
                    (se_observed s)\<lparr>observed_frequencies := fb_readings batch\<rparr>\<rparr>) b2)
           | Inl msg \<Rightarrow>
               set_issue ''observer.frequency.worker'' ''error'' ''frequency'' msg
                 (ra_sensing_update (\<lambda>s. s\<lparr>se_observed := (se_observed s)\<lparr>observed_frequencies := []\<rparr>\<rparr>) a1))
      in evaluate_and_reconcile E (bump_telemetry a2))"

section \<open>Temperatures\<close>

text \<open>What one pass over the zones accumulates: the sensing state, the states of the guards and the maximum.\<close>

type_synonym zone_scan = "sensing_state \<times> thermal_state list \<times> milli_celsius option"

definition scan_zone :: "monotonic_millis \<Rightarrow> thermal_zone_config \<Rightarrow> thermal_reading \<Rightarrow> zone_scan \<Rightarrow> zone_scan" where
  "scan_zone now zone reading = (\<lambda>(s, states, maximum).
     let maximum' = (case (health reading, temperature reading) of
                       (Healthy, Some t) \<Rightarrow> Some (case maximum of None \<Rightarrow> t | Some old \<Rightarrow> max old t)
                     | _ \<Rightarrow> maximum);
         s1 = s\<lparr>se_observed := (se_observed s)\<lparr>observed_thermal := bt_insert (tz_id zone) reading (observed_thermal (se_observed s))\<rparr>\<rparr>
     in case bt_get (se_thermal_guards s1) (tz_id zone) of
          Some guard \<Rightarrow>
            let guard' = ThermalGuard_update guard now reading
            in (s1\<lparr>se_thermal_guards := bt_get_mut (tz_id zone) (\<lambda>_. guard') (se_thermal_guards s1)\<rparr>, states @ [tg_state guard'], maximum')
        | None \<Rightarrow> (s1, states, maximum'))"

definition sample_of_zone :: "thermal_zone_config \<Rightarrow> thermal_sample list \<Rightarrow> thermal_sample option" where
  "sample_of_zone zone samples =
     List.find (\<lambda>sample. ts_zone_type sample = tz_zone_type zone
                 \<and> (case tz_sysfs_path zone of None \<Rightarrow> True | Some path \<Rightarrow> path_of path = ts_path sample)) samples"

definition settle_thermal :: "zone_scan \<Rightarrow> ('w, 'r) runtime_actor \<Rightarrow> ('w, 'r) runtime_actor" where
  "settle_thermal = (\<lambda>(s, states, maximum) a.
     update_thermal_caps (update_thermal_health
       (a\<lparr>ra_sensing := s\<lparr>se_maximum_temperature := maximum, se_thermal_state := worst_thermal_state states\<rparr>\<rparr>)))"

definition reduce_thermal ::
  "('w, 'r) runtime_ports \<Rightarrow> (message, thermal_sample list) result \<Rightarrow> ('w, 'r) runtime_actor \<Rightarrow> ('w, 'r) runtime_actor" where
  "reduce_thermal E observation a0 =
     (case monotonic E (mark_decision_trigger E ''thermal-observer'' a0) of (now, a) \<Rightarrow>
      let a1 = ra_sensing_update (\<lambda>s. s\<lparr>se_observed := (se_observed s)\<lparr>timestamp := now\<rparr>\<rparr>) a
      in case observation of
           Inl msg \<Rightarrow>
             evaluate_and_reconcile E (update_thermal_caps (mark_all_thermal_unavailable now
               (set_issue ''observer.thermal'' ''critical'' ''thermal'' msg a1)))
         | Inr samples \<Rightarrow>
             let a2 = clear_issue ''observer.thermal'' a1;
                 reading_of = \<lambda>zone. case sample_of_zone zone samples of
                                None \<Rightarrow> unavailable_reading now | Some sample \<Rightarrow> ts_reading sample;
                 scan = fold (\<lambda>zone. scan_zone now zone (reading_of zone)) (rc_thermal_zones (ra_configuration a2))
                          (ra_sensing a2, [], None)
             in evaluate_and_reconcile E (bump_telemetry (settle_thermal scan a2)))"

section \<open>Stale observations\<close>

definition expired_reading :: "monotonic_millis \<Rightarrow> thermal_zone_config \<Rightarrow> thermal_reading \<Rightarrow> bool" where
  "expired_reading now zone reading =
     (health reading = Healthy
      \<and> (now < sampled_at reading \<or> tz_stale_after_ms zone < saturating_duration_since now (sampled_at reading)))"

definition stale_zone :: "monotonic_millis \<Rightarrow> thermal_zone_config \<Rightarrow> bool \<times> zone_scan \<Rightarrow> bool \<times> zone_scan" where
  "stale_zone now zone = (\<lambda>(changed, scan).
     let old = unwrap_or (unavailable_reading now) (bt_get (observed_thermal (se_observed (fst scan))) (tz_id zone));
         stale = expired_reading now zone old
     in (changed \<or> stale, scan_zone now zone (if stale then old\<lparr>health := Stale\<rparr> else old) scan))"

definition refresh_thermal_staleness :: "monotonic_millis \<Rightarrow> ('w, 'r) runtime_actor \<Rightarrow> bool \<times> ('w, 'r) runtime_actor" where
  "refresh_thermal_staleness now a =
     (let previous = se_thermal_state (ra_sensing a)
      in case fold (stale_zone now) (rc_thermal_zones (ra_configuration a)) (False, ra_sensing a, [], None) of
         (reading_changed, scan) \<Rightarrow>
           let a1 = settle_thermal scan a
           in (reading_changed \<or> se_thermal_state (ra_sensing a1) \<noteq> previous, a1))"

definition refresh_load_staleness :: "monotonic_millis \<Rightarrow> ('w, 'r) runtime_actor \<Rightarrow> bool \<times> ('w, 'r) runtime_actor" where
  "refresh_load_staleness now a =
     (case se_last_load_success (ra_sensing a) of
        None \<Rightarrow> (False, a)
      | Some last_success \<Rightarrow>
          let stale_after_ms = max (u64_saturating_mul (lc_sample_interval_ms (pol_load (rc_policy (ra_configuration a)))) 5) 1000
          in if last_success \<le> now \<and> saturating_duration_since now last_success \<le> stale_after_ms then (False, a)
             else
               let a1 = set_issue ''observer.load_stale'' ''warning'' ''load''
                          (MStr ''CPU load telemetry is stale; demand and persistent boost were cleared'') a;
                   changed = cpu_loads (se_observed (ra_sensing a1)) \<noteq> [] \<or> contains_active (ia_hints (ra_interaction a1)) Boost now
               in (changed, if changed then invalidate_load_state a1 else a1))"

definition FREQUENCY_STALE_AFTER_MS :: u64 where "FREQUENCY_STALE_AFTER_MS = 3000"

definition frequency_sample_is_stale :: "monotonic_millis option \<Rightarrow> monotonic_millis \<Rightarrow> bool" where
  "frequency_sample_is_stale last_success now =
     (case last_success of None \<Rightarrow> True
      | Some t \<Rightarrow> now < t \<or> FREQUENCY_STALE_AFTER_MS < saturating_duration_since now t)"

definition frequency_observations_stale :: "monotonic_millis \<Rightarrow> ('w, 'r) runtime_actor \<Rightarrow> bool" where
  "frequency_observations_stale now a =
     (rc_targets (ra_configuration a) \<noteq> [] \<and> frequency_sample_is_stale (se_last_frequency_success (ra_sensing a)) now)"

definition refresh_frequency_staleness :: "monotonic_millis \<Rightarrow> ('w, 'r) runtime_actor \<Rightarrow> ('w, 'r) runtime_actor" where
  "refresh_frequency_staleness now a =
     (if frequency_observations_stale now a
      then set_issue ''observer.frequency.stale'' ''warning'' ''frequency''
             (MStr ''frequency limit telemetry is stale; reported observations may no longer match the kernel'') a
      else clear_issue ''observer.frequency.stale'' a)"

section \<open>Desktop inputs\<close>

definition reduce_session_state :: "('w, 'r) runtime_ports \<Rightarrow> session_state \<Rightarrow> ('w, 'r) runtime_actor \<Rightarrow> ('w, 'r) runtime_actor" where
  "reduce_session_state E state a =
     (if state = ia_session_state (ra_interaction a) then a
      else
        let a1 = bump_generation (ra_interaction_update (\<lambda>i. i\<lparr>ia_session_state := state\<rparr>) a)
        in if state = SessionActive
           then if \<not> ia_display_blanked (ra_interaction a1) then activate_external_hint E Wake a1
                else evaluate_and_reconcile E a1
           else evaluate_and_reconcile E (snd (clear_interaction_hints None
                  (ra_interaction_update (\<lambda>i. i\<lparr>ia_ended := True\<rparr>) (forget_render a1)))))"

datatype runtime_input =
    HintInput scene
  | DesktopInput input_event
  | SessionInput session_state
  | PrepareForSleep bool reply

fun runtime_input_source :: "runtime_input \<Rightarrow> string" where
  "runtime_input_source (HintInput s) = ''external-hint''"
| "runtime_input_source (DesktopInput e) = ''desktop-input''"
| "runtime_input_source (SessionInput s) = ''session-state''"
| "runtime_input_source (PrepareForSleep sleeping completion) = ''sleep-transition''"

definition set_contacts :: "active_touch_contacts \<Rightarrow> ('w, 'r) runtime_actor \<Rightarrow> ('w, 'r) runtime_actor" where
  "set_contacts contacts a = ra_interaction_update (\<lambda>i. i\<lparr>ia_contacts := contacts\<rparr>) a"

definition end_touch :: "('w, 'r) runtime_actor \<Rightarrow> ('w, 'r) runtime_actor" where
  "end_touch a = ra_interaction_update (\<lambda>i. i\<lparr>ia_hint_generations := bt_remove Touch (ia_hint_generations i)\<rparr>) (deactivate_hint Touch a)"

fun reduce_input_event :: "('w, 'r) runtime_ports \<Rightarrow> input_event \<Rightarrow> ('w, 'r) runtime_actor \<Rightarrow> ('w, 'r) runtime_actor" where
  "reduce_input_event E (InputTouchDown contact x y) a =
     (case press contact (ia_contacts (ra_interaction a)) of (first, contacts) \<Rightarrow>
        let a1 = set_contacts contacts a
        in if first then evaluate_and_reconcile E (activate_current_interaction_hint E Touch (begin_interaction a1)) else a1)"
| "reduce_input_event E (InputTouchUp contact x y) a =
     (case release contact (ia_contacts (ra_interaction a)) of (final, contacts) \<Rightarrow>
        let a1 = set_contacts contacts a
        in if final
           then let a2 = end_touch a1
                in evaluate_and_reconcile E
                     (if ia_ended (ra_interaction a2) then a2 else activate_current_interaction_hint E Trigger a2)
           else a1)"
| "reduce_input_event E (InputGesture contact x) a =
     (let a1 = (if ia_generation (ra_interaction a) = 0 then begin_interaction a else a)
      in if ia_ended (ra_interaction a1) then a1
         else evaluate_and_reconcile E (activate_current_interaction_hint E Gesture a1))"
| "reduce_input_event E (InputInteraction device) a =
     evaluate_and_reconcile E (activate_current_interaction_hint E Trigger (begin_interaction a))"
| "reduce_input_event E (InputResync device) a =
     (case resync device (ia_contacts (ra_interaction a)) of (emptied, contacts) \<Rightarrow>
        let a1 = set_contacts contacts a
        in if emptied then evaluate_and_reconcile E (end_touch a1) else a1)"

definition reduce_runtime_input :: "('w, 'r) runtime_ports \<Rightarrow> runtime_input \<Rightarrow> ('w, 'r) runtime_actor \<Rightarrow> ('w, 'r) runtime_actor" where
  "reduce_runtime_input E event a0 =
     (let a = mark_decision_trigger E (runtime_input_source event) a0
      in case event of
           HintInput s \<Rightarrow> activate_external_hint E s a
         | DesktopInput e \<Rightarrow> reduce_input_event E e a
         | SessionInput state \<Rightarrow> reduce_session_state E state a
         | PrepareForSleep sleeping completion \<Rightarrow>
             if sleeping then request_sleep_restore E completion a else request_resume E completion a)"

definition reduce_health :: "string \<Rightarrow> string \<Rightarrow> string \<Rightarrow> (message, unit) result \<Rightarrow> ('w, 'r) runtime_actor \<Rightarrow> ('w, 'r) runtime_actor" where
  "reduce_health code severity component result a =
     (case result of Inr _ \<Rightarrow> clear_issue code a | Inl msg \<Rightarrow> set_issue code severity component msg a)"

definition reduce_logind_health :: "(message, unit) result \<Rightarrow> ('w, 'r) runtime_actor \<Rightarrow> ('w, 'r) runtime_actor" where
  "reduce_logind_health = reduce_health ''observer.logind'' ''error'' ''logind''"

definition reduce_input_health :: "(message, unit) result \<Rightarrow> ('w, 'r) runtime_actor \<Rightarrow> ('w, 'r) runtime_actor" where
  "reduce_input_health = reduce_health ''observer.input'' ''warning'' ''input''"

definition reduce_running_workload_observer_health :: "(message, unit) result \<Rightarrow> ('w, 'r) runtime_actor \<Rightarrow> ('w, 'r) runtime_actor" where
  "reduce_running_workload_observer_health = reduce_health ''observer.running_workloads.stale'' ''warning'' ''process-observer''"

end
