(* ===== verification/Runtime_Control.thy ===== *)
theory Runtime_Control
  imports Runtime_Observe
begin

text \<open>
  Control of the actor (\<open>crates/uperf-daemon/src/runtime.rs\<close>): the workload and the focus of the
  compositor, whose processes are identified by a reader thread, frame hints, overrides, application rules,
  the timer and \<open>handle_command\<close>.
\<close>

section \<open>Evaluation keeps the workload\<close>

lemma ra_focus_steps [simp]:
  "ra_focus (snd (monotonic E a)) = ra_focus a"
  "ra_focus (emit e a) = ra_focus a"
  "ra_focus (set_issue code severity component msg a) = ra_focus a"
  "ra_focus (clear_issue code a) = ra_focus a"
  "ra_focus (bump_generation a) = ra_focus a"
  "ra_focus (mark_scheduler_dirty a) = ra_focus a"
  "ra_focus (forget_render a) = ra_focus a"
  by (simp_all add: monotonic_def emit_def set_issue_def clear_issue_def bump_generation_def mark_scheduler_dirty_def
      forget_render_def split: prod.split)

lemma ra_focus_monotonic: "monotonic E a = (now, b) \<Longrightarrow> ra_focus b = ra_focus a"
  using ra_focus_steps(1) [of E a] by simp

lemma ra_focus_fail [simp]: "ra_focus (fail_reconcile_worker msg a) = ra_focus a"
  by (simp add: fail_reconcile_worker_def Let_def)

lemma ra_focus_send: "send_frequency_command E c a = (sent, b) \<Longrightarrow> ra_focus b = ra_focus a"
  by (auto simp: send_frequency_command_def Let_def split: prod.splits)

lemma ra_focus_submit_frequency [simp]: "ra_focus (submit_frequency_reconcile E desired a) = ra_focus a"
  by (simp add: submit_frequency_reconcile_def Let_def ra_focus_send split: prod.split)

lemma ra_focus_submit_scheduler [simp]: "ra_focus (submit_scheduler_reconcile desired a) = ra_focus a"
  by (simp add: submit_scheduler_reconcile_def Let_def)

lemma ra_focus_submit_plan [simp]: "ra_focus (submit_plan E now desired a) = ra_focus a"
  by (simp add: submit_plan_def Let_def)

lemma ra_focus_evaluate [simp]: "ra_focus (evaluate_and_reconcile E a) = ra_focus a"
proof -
  have "ra_focus (prepare_external_drift_state desired b) = ra_focus b" for desired and b :: "('a, 'b) runtime_actor"
    by (simp add: prepare_external_drift_state_def refresh_external_constraint_health_def Let_def)
  then show ?thesis
    by (auto simp: evaluate_and_reconcile_def Let_def ra_focus_monotonic split: prod.split sum.split evaluation_failure.split option.split)
qed

section \<open>Leases\<close>

definition release_focus_lease :: "('w, 'r) runtime_ports \<Rightarrow> ('w, 'r) runtime_actor \<Rightarrow> bool \<times> ('w, 'r) runtime_actor" where
  "release_focus_lease E a =
     (if fo_lease (ra_focus a) = None then (False, a)
      else (True, evaluate_and_reconcile E (bump_generation (mark_scheduler_dirty (ra_focus_update (\<lambda>f. f\<lparr>fo_lease := None\<rparr>) a)))))"

definition install_frame_reporter :: "string option \<Rightarrow> user_id \<Rightarrow> monotonic_millis \<Rightarrow> ('w, 'r) runtime_actor \<Rightarrow> ('w, 'r) runtime_actor" where
  "install_frame_reporter peer uid expires a =
     (case peer of
        None \<Rightarrow> a
      | Some p \<Rightarrow>
          let a1 = (case fo_frame_reporter (ra_focus a) of
                      Some lease \<Rightarrow> if fr_peer lease \<noteq> p \<or> fr_uid lease \<noteq> uid then reset_frame_reporter_state a else a
                    | None \<Rightarrow> a)
          in ra_focus_update (\<lambda>f. f\<lparr>fo_frame_reporter := Some \<lparr>fr_peer = p, fr_uid = uid, fr_expires_at = expires\<rparr>\<rparr>) a1)"

definition reject_focus :: "('w, 'r) runtime_ports \<Rightarrow> string option \<Rightarrow> message \<Rightarrow> ('w, 'r) runtime_actor \<Rightarrow> ('w, 'r) runtime_actor" where
  "reject_focus E peer msg a =
     (let a1 = set_issue FOCUS_REJECTED_ISSUE ''info'' ''focus'' msg a
      in case fo_lease (ra_focus a1) of
           Some lease \<Rightarrow>
             if fl_peer lease = peer then snd (release_focus_lease E (snd (revoke_frame_reporter peer a1))) else a1
         | None \<Rightarrow> a1)"

definition foreign_process :: "user_id \<Rightarrow> process_info \<Rightarrow> bool" where
  "foreign_process caller info = (caller \<noteq> 0 \<and> (\<not> owner_control_safe info \<or> pi_uid (identity info) \<noteq> caller))"

definition complete_focus_report ::
  "('w, 'r) runtime_ports \<Rightarrow> process_id \<Rightarrow> user_id \<Rightarrow> string option \<Rightarrow> u64 \<Rightarrow> (message, process_info) result
     \<Rightarrow> ('w, 'r) runtime_actor \<Rightarrow> ('w, 'r) runtime_actor" where
  "complete_focus_report E pid caller peer revision result a =
     (let focus = sc_focus (pol_scheduler (rc_policy (ra_configuration a)))
      in if revision \<noteq> fo_revision (ra_focus a) \<or> \<not> fc_enabled focus then a
         else case result of
             Inl error \<Rightarrow> reject_focus E peer error a
           | Inr info \<Rightarrow>
               if pi_pid (identity info) \<noteq> pid
               then reject_focus E peer (MStr ''focused PID changed while its identity was resolved'') a
               else if foreign_process caller info
               then reject_focus E peer (MStr ''non-root reporters may only focus a process whose real/effective/saved/fs UIDs all equal their UID'') a
               else if focus_protects (rn_is_match E) (rc_policy_engine (ra_configuration a)) info
               then reject_focus E peer (MFmt ''process {} is protected from focus leasing'' [MStr (comm info)]) a
               else case monotonic E (clear_issue FOCUS_REJECTED_ISSUE a) of (now, a1) \<Rightarrow>
                 let expires = millis_saturating_add now (fc_lease_ttl_ms focus);
                     unchanged = (case fo_lease (ra_focus a1) of None \<Rightarrow> False | Some lease \<Rightarrow> fl_info lease = info \<and> fl_peer lease = peer);
                     a2 = (if unchanged then a1 else reset_frame_reporter_state a1);
                     a3 = ra_focus_update (\<lambda>f. f\<lparr>fo_lease := Some \<lparr>fl_info = info, fl_peer = peer, fl_expires_at = expires\<rparr>\<rparr>)
                            (install_frame_reporter peer (pi_uid (identity info)) expires a2)
                 in if unchanged then a3 else evaluate_and_reconcile E (bump_generation (mark_scheduler_dirty a3)))"

definition complete_focus_refresh ::
  "('w, 'r) runtime_ports \<Rightarrow> process_identity \<Rightarrow> (message, process_info) result \<Rightarrow> ('w, 'r) runtime_actor \<Rightarrow> ('w, 'r) runtime_actor" where
  "complete_focus_refresh E expected result a =
     (case fo_lease (ra_focus a) of
        None \<Rightarrow> a
      | Some lease \<Rightarrow>
          if identity (fl_info lease) \<noteq> expected then a
          else case result of
              Inr current \<Rightarrow>
                if identity current = expected
                then if current = fl_info lease then a
                     else evaluate_and_reconcile E (bump_generation (mark_scheduler_dirty
                            (ra_focus_update (\<lambda>f. f\<lparr>fo_lease := Some (lease\<lparr>fl_info := current\<rparr>)\<rparr>) a)))
                else snd (release_focus_lease E a)
            | Inl _ \<Rightarrow> snd (release_focus_lease E a))"

section \<open>The active workload\<close>

definition clear_exited_workload :: "('w, 'r) runtime_ports \<Rightarrow> ('w, 'r) runtime_actor \<Rightarrow> ('w, 'r) runtime_actor" where
  "clear_exited_workload E a =
     evaluate_and_reconcile E (set_issue ''workload.exited'' ''info'' ''workload'' (MStr ''the active workload exited or its PID was reused'')
       (bump_generation (mark_scheduler_dirty
         (ra_focus_update (\<lambda>f. f\<lparr>fo_active_workload := None, fo_requested_workload_profile := None\<rparr>) a))))"

definition complete_workload_refresh ::
  "('w, 'r) runtime_ports \<Rightarrow> process_identity \<Rightarrow> (message, process_info) result \<Rightarrow> ('w, 'r) runtime_actor \<Rightarrow> ('w, 'r) runtime_actor" where
  "complete_workload_refresh E expected result a =
     (case fo_active_workload (ra_focus a) of
        None \<Rightarrow> a
      | Some active \<Rightarrow>
          if identity active \<noteq> expected then a
          else case result of
              Inr current \<Rightarrow>
                if identity current = expected
                then if current = active then a
                     else evaluate_and_reconcile E (bump_generation (mark_scheduler_dirty
                            (ra_focus_update (\<lambda>f. f\<lparr>fo_active_workload := Some current\<rparr>) a)))
                else clear_exited_workload E a
            | Inl _ \<Rightarrow> clear_exited_workload E a)"

definition show_u64 :: "'a::len word \<Rightarrow> message" where
  "show_u64 n = MNum (uint n)"

definition complete_set_workload ::
  "('w, 'r) runtime_ports \<Rightarrow> process_id \<Rightarrow> profile_id option \<Rightarrow> user_id \<Rightarrow> process_info
     \<Rightarrow> ('w, 'r) runtime_actor \<Rightarrow> (runtime_error, mutation_receipt) result \<times> ('w, 'r) runtime_actor" where
  "complete_set_workload E pid requested_profile caller info a =
     (if foreign_process caller info
      then (Inl (RtNotAuthorized (MStr ''non-root callers may only select a process whose real/effective/saved/fs UIDs all equal their UID'')), a)
      else if map_option identity (fo_active_workload (ra_focus a)) = Some (identity info)
              \<and> fo_requested_workload_profile (ra_focus a) = requested_profile
      then (Inr (receipt (generation_of a) [] (MStr ''workload was already active'')), a)
      else
        let a1 = mark_scheduler_dirty (clear_issue ''workload.exited''
                   (ra_focus_update (\<lambda>f. f\<lparr>fo_active_workload := Some info, fo_requested_workload_profile := requested_profile\<rparr>) a))
        in case monotonic E a1 of (now, a2) \<Rightarrow>
           let a3 = evaluate_and_reconcile E (bump_generation (activate_hint
                      (hint_with_ttl Switch now (ic_switch_duration_ms (pol_input (rc_policy (ra_configuration a2))))) a2))
           in (Inr (receipt (generation_of a3) [MFmt ''workload:{}'' [show_u64 pid]] (MStr ''active workload selected'')), a3))"

definition complete_clear_workload ::
  "('w, 'r) runtime_ports \<Rightarrow> process_identity \<Rightarrow> user_id \<Rightarrow> process_info
     \<Rightarrow> ('w, 'r) runtime_actor \<Rightarrow> (runtime_error, mutation_receipt) result \<times> ('w, 'r) runtime_actor" where
  "complete_clear_workload E expected caller current a =
     (case fo_active_workload (ra_focus a) of
        None \<Rightarrow> (Inl (RtConflict (MStr ''active workload changed while its identity was being verified'')), a)
      | Some active \<Rightarrow>
          if identity active \<noteq> expected \<or> identity current \<noteq> expected
          then (Inl (RtConflict (MStr ''active workload exited or its PID was reused'')), a)
          else if foreign_process caller current
          then (Inl (RtNotAuthorized (MStr ''non-root callers may only clear a workload owned by their UID'')), a)
          else
            let a1 = evaluate_and_reconcile E (bump_generation (mark_scheduler_dirty
                       (ra_focus_update (\<lambda>f. f\<lparr>fo_active_workload := None, fo_requested_workload_profile := None\<rparr>) a)))
            in (Inr (receipt (generation_of a1) [MFmt ''workload:{}'' [show_u64 (pi_pid (identity active))]] (MStr ''active workload cleared'')), a1))"

section \<open>Reading identities\<close>

definition answer_receipt :: "reply \<Rightarrow> (runtime_error, mutation_receipt) result \<times> ('w, 'r) runtime_actor \<Rightarrow> ('w, 'r) runtime_actor" where
  "answer_receipt reply = (\<lambda>(result, a). emit (Answer reply (case result of Inr r \<Rightarrow> Receipt r | Inl error \<Rightarrow> Refused error)) a)"

text \<open>\<open>finish_process_identity\<close> up to its last step, which drives the focus report that waited.\<close>

definition settle_process_identity ::
  "('w, 'r) runtime_ports \<Rightarrow> identity_purpose \<Rightarrow> (message, process_info) result \<Rightarrow> ('w, 'r) runtime_actor \<Rightarrow> ('w, 'r) runtime_actor" where
  "settle_process_identity E purpose result a0 =
     (let a = ra_focus_update (\<lambda>f. f\<lparr>fo_identity_in_flight := None\<rparr>) a0
      in case purpose of
           PurposeSet pid requested_profile caller reply \<Rightarrow>
             answer_receipt reply (case result of Inl error \<Rightarrow> (Inl (RtNotFound error), a)
               | Inr info \<Rightarrow> complete_set_workload E pid requested_profile caller info a)
         | PurposeClear expected caller reply \<Rightarrow>
             answer_receipt reply (case result of Inl error \<Rightarrow> (Inl (RtConflict error), a)
               | Inr current \<Rightarrow> complete_clear_workload E expected caller current a)
         | PurposeRefresh expected \<Rightarrow> complete_workload_refresh E expected result a
         | PurposeFocus pid caller peer revision trigger_at \<Rightarrow>
             complete_focus_report E pid caller peer revision result
               (ra_planning_update (\<lambda>p. p\<lparr>pl_trigger_source := ''focus-report'', pl_trigger_at := trigger_at\<rparr>) a)
         | PurposeRefreshFocus expected \<Rightarrow> complete_focus_refresh E expected result a)"

definition begin_read :: "identity_purpose \<Rightarrow> ('w, 'r) runtime_actor \<Rightarrow> u64 \<times> ('w, 'r) runtime_actor" where
  "begin_read purpose a =
     (let rid = u64_saturating_add (fo_next_identity_id (ra_focus a)) 1
      in (rid, ra_focus_update (\<lambda>f. f\<lparr>fo_next_identity_id := rid,
                 fo_identity_in_flight := Some \<lparr>ii_id = rid, ii_control = is_control_request purpose\<rparr>\<rparr>) a))"

definition focus_purpose :: "pending_focus_report \<Rightarrow> identity_purpose" where
  "focus_purpose p = PurposeFocus (pf_pid p) (pf_caller_uid p) (pf_peer p) (pf_revision p) (pf_trigger_at p)"

text \<open>
  The port \<open>rn_identity_reader\<close> is \<open>ensure_process_identity_reader\<close> and \<open>try_send\<close>: the error when no
  thread takes the request. Then the request finishes at once; a focus report that
  fails so has left the slot it waited in, which is why the recursion ends.
\<close>

lemma fo_pending_release [simp]: "fo_pending (ra_focus (snd (release_focus_lease E a))) = fo_pending (ra_focus a)"
  by (simp add: release_focus_lease_def)

lemma fo_pending_reporter [simp]:
  "fo_pending (ra_focus (reset_frame_reporter_state a)) = fo_pending (ra_focus a)"
  "fo_pending (ra_focus (snd (revoke_frame_reporter peer a))) = fo_pending (ra_focus a)"
  "fo_pending (ra_focus (install_frame_reporter peer uid expires a)) = fo_pending (ra_focus a)"
  by (simp_all add: reset_frame_reporter_state_def revoke_frame_reporter_def install_frame_reporter_def Let_def split: option.split)

lemma fo_pending_reject [simp]: "fo_pending (ra_focus (reject_focus E peer msg a)) = fo_pending (ra_focus a)"
  by (simp add: reject_focus_def Let_def split: option.split)

lemma fo_pending_complete_focus [simp]:
  "fo_pending (ra_focus (complete_focus_report E pid caller peer revision result a)) = fo_pending (ra_focus a)"
proof -
  have "fo_pending (ra_focus (if b then x else y)) = fo_pending (ra_focus a)"
    if "fo_pending (ra_focus x) = fo_pending (ra_focus a)" "fo_pending (ra_focus y) = fo_pending (ra_focus a)"
    for b and x y :: "('a, 'b) runtime_actor"
    using that by simp
  then show ?thesis
    unfolding complete_focus_report_def Let_def by (simp add: ra_focus_monotonic split: sum.split prod.split)
qed

lemma fo_pending_settle_focus [simp]:
  "fo_pending (ra_focus (settle_process_identity E (focus_purpose p) result a)) = fo_pending (ra_focus a)"
  by (simp add: settle_process_identity_def focus_purpose_def Let_def)

function drive_pending_focus :: "('w, 'r) runtime_ports \<Rightarrow> monotonic_millis \<Rightarrow> ('w, 'r) runtime_actor \<Rightarrow> ('w, 'r) runtime_actor" where
  "drive_pending_focus E now a =
     (if fo_identity_in_flight (ra_focus a) \<noteq> None then a
      else case fo_pending (ra_focus a) of
          None \<Rightarrow> a
        | Some pending \<Rightarrow>
            if now < pf_not_before pending then a
            else
              let purpose = focus_purpose pending
              in case begin_read purpose (ra_focus_update (\<lambda>f. f\<lparr>fo_pending := None\<rparr>) a) of (rid, a1) \<Rightarrow>
                 case rn_identity_reader E (ra_env a1) of (failure, w) \<Rightarrow>
                 let a2 = a1\<lparr>ra_env := w\<rparr>
                 in (case failure of
                       None \<Rightarrow> emit (SpawnIdentityRead rid (pf_pid pending) purpose) a2
                     | Some error \<Rightarrow>
                         case monotonic E (settle_process_identity E purpose (Inl error) a2) of (again, a3) \<Rightarrow>
                           drive_pending_focus E again a3))"
  by pat_completeness auto
termination
proof (relation "measure (\<lambda>(E, now, a). if fo_pending (ra_focus a) = None then 0 else 1)", goal_cases)
  case 1
  show ?case by simp
next
  case 2
  then show ?case
    by (auto simp: ra_focus_monotonic begin_read_def Let_def split: prod.split)
qed

declare drive_pending_focus.simps [simp del]

definition finish_process_identity ::
  "('w, 'r) runtime_ports \<Rightarrow> u64 \<Rightarrow> identity_purpose \<Rightarrow> (message, process_info) result \<Rightarrow> ('w, 'r) runtime_actor \<Rightarrow> ('w, 'r) runtime_actor" where
  "finish_process_identity E rid purpose result a =
     (if map_option ii_id (fo_identity_in_flight (ra_focus a)) \<noteq> Some rid then a
      else case monotonic E (settle_process_identity E purpose result a) of (now, a1) \<Rightarrow> drive_pending_focus E now a1)"

definition start_process_identity_read ::
  "('w, 'r) runtime_ports \<Rightarrow> process_id \<Rightarrow> identity_purpose \<Rightarrow> ('w, 'r) runtime_actor \<Rightarrow> ('w, 'r) runtime_actor" where
  "start_process_identity_read E pid purpose a =
     (case begin_read purpose a of (rid, a1) \<Rightarrow>
      case rn_identity_reader E (ra_env a1) of (failure, w) \<Rightarrow>
      let a2 = a1\<lparr>ra_env := w\<rparr>
      in (case failure of
            None \<Rightarrow> emit (SpawnIdentityRead rid pid purpose) a2
          | Some error \<Rightarrow> finish_process_identity E rid purpose (Inl error) a2))"

end
