(* ===== verification/Runtime_Commands.thy ===== *)
theory Runtime_Commands
  imports Runtime_Control
begin

text \<open>
  The commands of the control interface and the timer (\<open>crates/uperf-daemon/src/runtime.rs\<close>), and
  \<open>actor_step\<close>: what one round of \<open>run\<close> does with the message it selected.
\<close>

section \<open>Arguments\<close>

definition parse_profile :: "string \<Rightarrow> (runtime_error, profile_id) result" where
  "parse_profile value =
     (if value = ''powersave'' then Inr Powersave
      else if value = ''balance'' then Inr Balance
      else if value = ''performance'' then Inr Performance
      else Inl (RtInvalidArgument (MFmt ''unknown profile {value}'' [MStr value])))"

definition parse_mode :: "string \<Rightarrow> (runtime_error, mode_selection) result" where
  "parse_mode value = (if value = ''auto'' then Inr Auto else map_sum id Forced (parse_profile value))"

fun mode_name :: "mode_selection \<Rightarrow> string" where
  "mode_name Auto = ''auto''"
| "mode_name (Forced Powersave) = ''powersave''"
| "mode_name (Forced Balance) = ''balance''"
| "mode_name (Forced Performance) = ''performance''"

record workload_request =
  wr_pid :: u32
  wr_mode :: string
  wr_reason :: string

datatype frame_hint_event = RenderStarted | RenderIdle | DeadlineMissed | DisplayBlanked | DisplayUnblanked

record frequency_override =
  fov_target_id :: string
  fov_min_hz :: u64
  fov_max_hz :: u64
  fov_ttl_ms :: u64

record api_app_rule =
  aar_id :: string
  aar_enabled :: bool
  aar_owner_uid :: u32
  aar_executable :: "string option"
  aar_comm_regex :: "string option"
  aar_mode :: string
  aar_priority :: i32

definition api_rule_to_core :: "api_app_rule \<Rightarrow> (runtime_error, app_rule) result" where
  "api_rule_to_core rule =
     (if aar_owner_uid rule \<noteq> - 1 then Inl (RtInvalidArgument (MStr ''application rules are administrator-owned and global''))
      else if aar_executable rule = None \<and> aar_comm_regex rule = None
      then Inl (RtInvalidArgument (MStr ''an application rule requires executable and/or comm_regex''))
      else rbind (parse_profile (aar_mode rule)) (\<lambda>profile. Inr
        \<lparr>ar_id = aar_id rule, ar_enabled = aar_enabled rule, ar_priority = aar_priority rule,
         ar_matcher = \<lparr>wm_executable = aar_executable rule, wm_desktop_id = None, wm_comm_regex = aar_comm_regex rule\<rparr>,
         ar_profile = profile\<rparr>))"

definition core_rule_to_api :: "app_rule \<Rightarrow> api_app_rule" where
  "core_rule_to_api rule =
     \<lparr>aar_id = ar_id rule, aar_enabled = ar_enabled rule, aar_owner_uid = - 1,
      aar_executable = wm_executable (ar_matcher rule), aar_comm_regex = wm_comm_regex (ar_matcher rule),
      aar_mode = profile_id_to_string (ar_profile rule), aar_priority = ar_priority rule\<rparr>"

section \<open>Mode and workload\<close>

text \<open>A command that answers at once: its result and the state after it.\<close>

type_synonym ('w, 'r) command_result = "(runtime_error, mutation_receipt) result \<times> ('w, 'r) runtime_actor"

definition command_set_mode :: "('w, 'r) runtime_ports \<Rightarrow> string \<Rightarrow> ('w, 'r) runtime_actor \<Rightarrow> ('w, 'r) command_result" where
  "command_set_mode E value a =
     (case parse_mode value of
        Inl error \<Rightarrow> (Inl error, a)
      | Inr mode \<Rightarrow>
          if pl_mode (ra_planning a) = mode then (Inr (receipt (generation_of a) [] (MStr ''mode was already selected'')), a)
          else
            let a1 = evaluate_and_reconcile E (bump_generation (ra_planning_update (\<lambda>p. p\<lparr>pl_mode := mode\<rparr>) a))
            in (Inr (receipt (generation_of a1) [MStr ''mode''] (MFmt ''mode changed to {}'' [MStr (mode_name mode)])), a1))"

definition process_control_request_in_flight :: "('w, 'r) runtime_actor \<Rightarrow> bool" where
  "process_control_request_in_flight a =
     (case fo_identity_in_flight (ra_focus a) of None \<Rightarrow> False | Some request \<Rightarrow> ii_control request)"

definition refuse :: "reply \<Rightarrow> runtime_error \<Rightarrow> ('w, 'r) runtime_actor \<Rightarrow> ('w, 'r) runtime_actor" where
  "refuse reply error a = emit (Answer reply (Refused error)) a"

definition PROCESS_IDENTITY_IN_FLIGHT :: message where
  "PROCESS_IDENTITY_IN_FLIGHT = MStr ''a workload identity lookup is still in progress''"

definition start_set_workload ::
  "('w, 'r) runtime_ports \<Rightarrow> workload_request \<Rightarrow> user_id \<Rightarrow> reply \<Rightarrow> ('w, 'r) runtime_actor \<Rightarrow> ('w, 'r) runtime_actor" where
  "start_set_workload E request caller reply a =
     (if wr_pid request = 0 then refuse reply (RtInvalidArgument (MStr ''workload PID must be non-zero'')) a
      else if 256 < length (wr_reason request)
      then refuse reply (RtInvalidArgument (MStr ''workload audit reason exceeds 256 bytes'')) a
      else case (if wr_mode request = [] then Inr None else map_sum id Some (parse_profile (wr_mode request))) of
          Inl error \<Rightarrow> refuse reply error a
        | Inr requested_profile \<Rightarrow>
            if process_control_request_in_flight a then refuse reply (RtConflict PROCESS_IDENTITY_IN_FLIGHT) a
            else start_process_identity_read E (wr_pid request) (PurposeSet (wr_pid request) requested_profile caller reply) a)"

definition start_clear_workload :: "('w, 'r) runtime_ports \<Rightarrow> user_id \<Rightarrow> reply \<Rightarrow> ('w, 'r) runtime_actor \<Rightarrow> ('w, 'r) runtime_actor" where
  "start_clear_workload E caller reply a =
     (case fo_active_workload (ra_focus a) of
        None \<Rightarrow> answer_receipt reply (Inr (receipt (generation_of a) [] (MStr ''no workload was active'')), a)
      | Some active \<Rightarrow>
          if process_control_request_in_flight a then refuse reply (RtConflict PROCESS_IDENTITY_IN_FLIGHT) a
          else start_process_identity_read E (pi_pid (identity active)) (PurposeClear (identity active) caller reply) a)"

definition check_workload_identity :: "('w, 'r) runtime_ports \<Rightarrow> ('w, 'r) runtime_actor \<Rightarrow> ('w, 'r) runtime_actor" where
  "check_workload_identity E a =
     (if fo_identity_in_flight (ra_focus a) \<noteq> None \<or> fo_pending (ra_focus a) \<noteq> None then a
      else case fo_active_workload (ra_focus a) of
          Some active \<Rightarrow> start_process_identity_read E (pi_pid (identity active)) (PurposeRefresh (identity active)) a
        | None \<Rightarrow>
            (case fo_lease (ra_focus a) of
               Some lease \<Rightarrow>
                 start_process_identity_read E (pi_pid (identity (fl_info lease))) (PurposeRefreshFocus (identity (fl_info lease))) a
             | None \<Rightarrow> a))"

section \<open>Focus and frames\<close>

definition FOCUS_REASON_LIMIT :: nat where "FOCUS_REASON_LIMIT = 256"

definition accept_focus_report ::
  "('w, 'r) runtime_ports \<Rightarrow> u32 \<Rightarrow> string \<Rightarrow> user_id \<Rightarrow> string option \<Rightarrow> ('w, 'r) runtime_actor \<Rightarrow> ('w, 'r) command_result" where
  "accept_focus_report E pid reason caller peer a =
     (let focus = sc_focus (pol_scheduler (rc_policy (ra_configuration a)))
      in if pid = 0 \<or> pid = 1 then (Inl (RtInvalidArgument (MStr ''focused PID must be a real userspace process'')), a)
         else if FOCUS_REASON_LIMIT < length reason then (Inl (RtInvalidArgument (MStr ''focus audit reason exceeds 256 bytes'')), a)
         else if \<not> fc_enabled focus then (Inl (RtDegraded (MStr ''focus-driven scheduling is disabled by configuration'')), a)
         else case monotonic E a of (now, a1) \<Rightarrow>
              case advance_focus_report_revision a1 of (revision, a2) \<Rightarrow>
              let renewed = filter_opt (\<lambda>lease. pi_pid (identity (fl_info lease)) = pid \<and> fl_peer lease = peer) (fo_lease (ra_focus a2))
              in (case renewed of
                    Some lease \<Rightarrow>
                      let expires = millis_saturating_add now (fc_lease_ttl_ms focus);
                          a3 = ra_focus_update (\<lambda>f. f\<lparr>fo_lease := Some (lease\<lparr>fl_expires_at := expires\<rparr>)\<rparr>) a2;
                          a4 = ra_focus_update (\<lambda>f. f\<lparr>fo_pending := None\<rparr>)
                                 (install_frame_reporter (fl_peer lease) (pi_uid (identity (fl_info lease))) expires a3)
                      in (Inr (receipt (generation_of a4) [] (MStr ''focus lease renewed'')), a4)
                  | None \<Rightarrow>
                      let a3 = drive_pending_focus E now (ra_focus_update (\<lambda>f. f\<lparr>fo_pending := Some
                                 \<lparr>pf_pid = pid, pf_caller_uid = caller, pf_peer = peer,
                                  pf_not_before = millis_saturating_add now (fc_debounce_ms focus),
                                  pf_revision = revision, pf_trigger_at = now\<rparr>\<rparr>) a2)
                      in (Inr (receipt (generation_of a3) [MFmt ''focus:{}'' [show_u64 pid]] (MStr ''focus report accepted'')), a3)))"

definition no_change :: "('w, 'r) runtime_actor \<Rightarrow> string \<Rightarrow> ('w, 'r) command_result" where
  "no_change a msg = (Inr (receipt (generation_of a) [] (MStr msg)), a)"

definition command_clear_foreground_from_peer ::
  "('w, 'r) runtime_ports \<Rightarrow> user_id \<Rightarrow> string option \<Rightarrow> ('w, 'r) runtime_actor \<Rightarrow> ('w, 'r) command_result" where
  "command_clear_foreground_from_peer E caller peer a =
     (let owner_uid = map_option pf_caller_uid (fo_pending (ra_focus a));
          proceed =
            (let display_was_blanked = ia_display_blanked (ra_interaction a);
                 a1 = (case peer of
                         None \<Rightarrow> a
                       | Some p \<Rightarrow> case monotonic E a of (now, b) \<Rightarrow>
                           install_frame_reporter (Some p) caller
                             (millis_saturating_add now (fc_lease_ttl_ms (sc_focus (pol_scheduler (rc_policy (ra_configuration b)))))) b)
             in if fo_lease (ra_focus a1) = None \<and> fo_pending (ra_focus a1) = None
                then let a2 = (if display_was_blanked \<and> \<not> ia_display_blanked (ra_interaction a1) then evaluate_and_reconcile E a1 else a1)
                     in no_change a2 ''compositor reporter lease renewed without a focused process''
                else
                  let a2 = invalidate_focus_reports a1;
                      pid = map_option (\<lambda>lease. pi_pid (identity (fl_info lease))) (fo_lease (ra_focus a2))
                  in case release_focus_lease E a2 of (held, a3) \<Rightarrow>
                     if \<not> held then no_change a3 ''pending focus report discarded''
                     else (Inr (receipt (generation_of a3) (case pid of None \<Rightarrow> [] | Some n \<Rightarrow> [MFmt ''focus:{}'' [show_u64 n]])
                                (MStr ''focused process cleared'')), a3))
      in case fo_lease (ra_focus a) of
           Some lease \<Rightarrow>
             if caller \<noteq> 0 \<and> pi_uid (identity (fl_info lease)) \<noteq> caller
             then (Inl (RtNotAuthorized (MStr ''non-root callers may only clear a focus lease owned by their UID'')), a)
             else proceed
         | None \<Rightarrow>
             (case owner_uid of
                Some uid \<Rightarrow>
                  if caller \<noteq> 0 \<and> uid \<noteq> caller
                  then (Inl (RtNotAuthorized (MStr ''non-root callers may only clear their own focus report'')), a)
                  else proceed
              | None \<Rightarrow> if peer = None then no_change a ''no focused process was reported'' else proceed))"

definition forget_focus_peer :: "('w, 'r) runtime_ports \<Rightarrow> string \<Rightarrow> ('w, 'r) runtime_actor \<Rightarrow> ('w, 'r) runtime_actor" where
  "forget_focus_peer E peer a =
     (let a1 = (if map_option pf_peer (fo_pending (ra_focus a)) = Some (Some peer) then invalidate_focus_reports a else a);
          lease_matches = (map_option fl_peer (fo_lease (ra_focus a1)) = Some (Some peer));
          reporter_matches = (map_option fr_peer (fo_frame_reporter (ra_focus a1)) = Some peer);
          display_was_blanked = ia_display_blanked (ra_interaction a1);
          a2 = (if reporter_matches then snd (revoke_frame_reporter (Some peer) a1) else a1)
      in if lease_matches then snd (release_focus_lease E a2)
         else if reporter_matches \<and> display_was_blanked then evaluate_and_reconcile E a2 else a2)"

definition authorize_frame_reporter ::
  "('w, 'r) runtime_ports \<Rightarrow> user_id \<Rightarrow> string option \<Rightarrow> ('w, 'r) runtime_actor \<Rightarrow> (runtime_error, unit) result \<times> ('w, 'r) runtime_actor" where
  "authorize_frame_reporter E caller peer a =
     (case peer of
        None \<Rightarrow> (Inl (RtNotAuthorized (MStr ''frame hint reporter has no D-Bus peer identity'')), a)
      | Some p \<Rightarrow>
          case monotonic E a of (now, a1) \<Rightarrow>
          let ttl = fc_lease_ttl_ms (sc_focus (pol_scheduler (rc_policy (ra_configuration a1))))
          in case filter_opt (\<lambda>lease. fr_peer lease = p \<and> now < fr_expires_at lease \<and> (caller = 0 \<or> fr_uid lease = caller))
                    (fo_frame_reporter (ra_focus a1)) of
               Some lease \<Rightarrow>
                 (Inr (), ra_focus_update (\<lambda>f. f\<lparr>fo_frame_reporter := Some (lease\<lparr>fr_expires_at := millis_saturating_add now ttl\<rparr>)\<rparr>) a1)
             | None \<Rightarrow> (Inl (RtNotAuthorized (MStr ''frame hints require a current compositor reporter lease'')), a1))"

definition RENDER_IDLE_SLACK_MS :: u64 where "RENDER_IDLE_SLACK_MS = 200"
definition DEADLINE_MISS_RATE_LIMIT_MS :: u64 where "DEADLINE_MISS_RATE_LIMIT_MS = 16"

fun apply_frame_hint ::
  "('w, 'r) runtime_ports \<Rightarrow> monotonic_millis \<Rightarrow> frame_hint_event \<Rightarrow> ('w, 'r) runtime_actor \<Rightarrow> ('w, 'r) command_result" where
  "apply_frame_hint E now RenderStarted a =
     (if ia_display_blanked (ra_interaction a) \<or> \<not> current_interaction_active a now
      then no_change a ''render start ignored without a current visible interaction''
      else
        let a1 = ra_interaction_update (\<lambda>i. i\<lparr>ia_render_generation := Some (ia_generation i), ia_render_idle_deadline := None\<rparr>) a
        in (Inr (receipt (generation_of a1) [MFmt ''render:{}'' [show_u64 (ia_generation (ra_interaction a1))]]
                 (MStr ''render generation started'')), a1))"
| "apply_frame_hint E now RenderIdle a =
     (case ia_render_generation (ra_interaction a) of
        None \<Rightarrow> no_change a ''render idle ignored without a render generation''
      | Some generation \<Rightarrow>
          if generation \<noteq> ia_generation (ra_interaction a) \<or> \<not> current_interaction_active a now
          then no_change (ra_interaction_update (\<lambda>i. i\<lparr>ia_render_generation := None, ia_render_idle_deadline := None\<rparr>) a)
                 ''stale render idle ignored''
          else
            let a1 = ra_interaction_update (\<lambda>i. i\<lparr>ia_render_idle_deadline := Some
                       \<lparr>rd_generation = generation, rd_deadline = millis_saturating_add now RENDER_IDLE_SLACK_MS\<rparr>\<rparr>) a
            in (Inr (receipt (generation_of a1) [MFmt ''render-idle:{generation}'' [show_u64 generation]]
                     (MStr ''render idle slack scheduled'')), a1))"
| "apply_frame_hint E now DeadlineMissed a =
     (case ia_render_generation (ra_interaction a) of
        None \<Rightarrow> no_change a ''deadline miss ignored outside a render generation''
      | Some generation \<Rightarrow>
          if ia_display_blanked (ra_interaction a) \<or> generation \<noteq> ia_generation (ra_interaction a)
             \<or> \<not> current_interaction_active a now
          then no_change a ''stale deadline miss ignored''
          else if (case ia_last_deadline_missed (ra_interaction a) of None \<Rightarrow> False
                   | Some (previous_generation, previous) \<Rightarrow> previous_generation = generation
                       \<and> saturating_duration_since now previous < DEADLINE_MISS_RATE_LIMIT_MS)
          then no_change a ''deadline miss rate-limited''
          else
            let a1 = evaluate_and_reconcile E (activate_current_interaction_hint E Junk
                       (ra_interaction_update (\<lambda>i. i\<lparr>ia_last_deadline_missed := Some (generation, now)\<rparr>) a))
            in (Inr (receipt (generation_of a1) [MFmt ''scene:junk:{generation}'' [show_u64 generation]]
                     (MStr ''deadline miss activated junk scene'')), a1))"
| "apply_frame_hint E now DisplayBlanked a =
     (if ia_display_blanked (ra_interaction a) then no_change a ''display was already blanked''
      else
        let a1 = ra_interaction_update (\<lambda>i. i\<lparr>ia_ended := True\<rparr>)
                   (forget_render (ra_interaction_update (\<lambda>i. i\<lparr>ia_display_blanked := True\<rparr>) a));
            a2 = evaluate_and_reconcile E (bump_generation (snd (clear_interaction_hints None a1)))
        in (Inr (receipt (generation_of a2) [MStr ''display:blanked''] (MStr ''physical display blanked'')), a2))"
| "apply_frame_hint E now DisplayUnblanked a =
     (if \<not> ia_display_blanked (ra_interaction a) then no_change a ''display was already visible''
      else
        let a1 = activate_external_hint E Wake (bump_generation (ra_interaction_update (\<lambda>i. i\<lparr>ia_display_blanked := False\<rparr>) a))
        in (Inr (receipt (generation_of a1) [MStr ''display:visible''] (MStr ''physical display became visible'')), a1))"

definition command_report_frame_hint ::
  "('w, 'r) runtime_ports \<Rightarrow> frame_hint_event \<Rightarrow> user_id \<Rightarrow> string option \<Rightarrow> ('w, 'r) runtime_actor \<Rightarrow> ('w, 'r) command_result" where
  "command_report_frame_hint E event caller peer a =
     (case authorize_frame_reporter E caller peer a of
        (Inl error, a1) \<Rightarrow> (Inl error, a1)
      | (Inr _, a1) \<Rightarrow>
          case monotonic E (mark_decision_trigger E ''compositor-frame'' a1) of (now, a2) \<Rightarrow> apply_frame_hint E now event a2)"

section \<open>Overrides\<close>

definition require_writable_actuator :: "('w, 'r) runtime_ports \<Rightarrow> ('w, 'r) runtime_actor \<Rightarrow> (runtime_error, unit) result" where
  "require_writable_actuator E a =
     (if \<not> rn_actuator E then Inl (RtDegraded (MStr ''daemon is running read-only''))
      else if fe_actuator_read_only (ra_fence a) then
        Inl (RtDegraded (unwrap_or
          (case bt_get (ra_health_issues a) ''actuator.degraded'' of
             None \<Rightarrow> MStr ''actuator is read-only degraded'' | Some i \<Rightarrow> hi_message i)
          (or_else (fe_restore_failure (ra_fence a)) (or_else (fe_safety_failure (ra_fence a)) (fe_worker_failure (ra_fence a))))))
      else Inr ())"

definition parse_target :: "string \<Rightarrow> (runtime_error, target_id) result" where
  "parse_target value =
     map_sum (\<lambda>error. case error of InvalidTargetId v \<Rightarrow> RtInvalidArgument
       (MFmt ''invalid target id `{value}`; expected 1..=64 ASCII characters ([A-Za-z0-9] followed by [A-Za-z0-9._-]*)'' [MStr v]))
       id (TargetId_new value)"

fun parse_overrides ::
  "(target_id, resolved_target) btree \<Rightarrow> monotonic_millis \<Rightarrow> target_id list \<Rightarrow> frequency_override list
     \<Rightarrow> (runtime_error, (target_id \<times> timed_override) list) result" where
  "parse_overrides targets now seen [] = Inr []"
| "parse_overrides targets now seen (request # requests) =
     rbind (parse_target (fov_target_id request)) (\<lambda>tid.
       if tid \<in> set seen then Inl (RtInvalidArgument (MFmt ''duplicate target {id}'' [MStr tid]))
       else case bt_get targets tid of
           None \<Rightarrow> Inl (RtNotFound (MStr tid))
         | Some target \<Rightarrow>
             rbind (map_sum (\<lambda>error. case error of Reversed mn mx \<Rightarrow> RtInvalidArgument
                 (MFmt ''frequency minimum {min} exceeds maximum {max}'' [show_u64 mn, show_u64 mx])) id
               (FrequencyLimits_new (fov_min_hz request) (fov_max_hz request))) (\<lambda>limits.
             if min_hz limits < min_hz (rt_hardware_limits target) \<or> max_hz (rt_hardware_limits target) < max_hz limits
             then Inl (RtInvalidArgument (MFmt ''{id}: override lies outside advertised hardware limits'' [MStr tid]))
             else rbind (parse_overrides targets now (tid # seen) requests) (\<lambda>rest.
               Inr ((tid, \<lparr>to_limits = limits,
                 to_expires_at = (if fov_ttl_ms request \<noteq> 0 then Some (millis_saturating_add now (fov_ttl_ms request)) else None)\<rparr>) # rest))))"

definition command_set_overrides :: "('w, 'r) runtime_ports \<Rightarrow> frequency_override list \<Rightarrow> ('w, 'r) runtime_actor \<Rightarrow> ('w, 'r) command_result" where
  "command_set_overrides E requests a =
     (if se_thermal_state (ra_sensing a) = Degraded then (Inl (RtDegraded (MStr ''trusted thermal data is not currently healthy'')), a)
      else if requests = [] then (Inl (RtInvalidArgument (MStr ''at least one override is required'')), a)
      else case require_writable_actuator E a of
          Inl error \<Rightarrow> (Inl error, a)
        | Inr _ \<Rightarrow>
            case monotonic E a of (now, a1) \<Rightarrow>
            (case parse_overrides (rc_targets (ra_configuration a1)) now [] requests of
               Inl error \<Rightarrow> (Inl error, a1)
             | Inr parsed \<Rightarrow>
                 let a2 = evaluate_and_reconcile E (bump_generation (ra_planning_update (\<lambda>p. p\<lparr>pl_overrides :=
                            fold (\<lambda>(tid, request). bt_insert tid request) parsed (pl_overrides p)\<rparr>) a1))
                 in (Inr (receipt (generation_of a2) (map (\<lambda>(tid, _). MStr tid) parsed) (MStr ''frequency override batch accepted'')), a2)))"

definition command_clear_overrides :: "('w, 'r) runtime_ports \<Rightarrow> string list \<Rightarrow> ('w, 'r) runtime_actor \<Rightarrow> ('w, 'r) command_result" where
  "command_clear_overrides E requested_ids a =
     (case require_writable_actuator E a of
        Inl error \<Rightarrow> (Inl error, a)
      | Inr _ \<Rightarrow>
          (case (if requested_ids = [] then Inr (bt_keys (pl_overrides (ra_planning a))) else try_map parse_target requested_ids) of
             Inl error \<Rightarrow> (Inl error, a)
           | Inr ids \<Rightarrow>
               let changed = filter (bt_contains (pl_overrides (ra_planning a))) ids;
                   a1 = ra_planning_update (\<lambda>p. p\<lparr>pl_overrides := fold bt_remove changed (pl_overrides p)\<rparr>) a
               in if changed = [] then no_change a1 ''no matching overrides were active''
                  else
                    let a2 = evaluate_and_reconcile E (bump_generation a1)
                    in (Inr (receipt (generation_of a2) (map MStr changed) (MStr ''frequency overrides cleared'')), a2)))"

section \<open>Configuration\<close>

definition APP_PERSISTENCE_IN_FLIGHT :: message where
  "APP_PERSISTENCE_IN_FLIGHT = MStr ''an application-rule update is still being persisted''"

definition RELOAD_IN_FLIGHT :: message where
  "RELOAD_IN_FLIGHT = MStr ''configuration reload is still being prepared''"

text \<open>The configuration is being read or stored: the conflict the caller is told of.\<close>

definition configuration_busy :: "('w, 'r) runtime_actor \<Rightarrow> runtime_error option" where
  "configuration_busy a =
     (if wl_app_persist_in_flight (ra_lanes a) then Some (RtConflict APP_PERSISTENCE_IN_FLIGHT)
      else if wl_reload_in_flight (ra_lanes a) then Some (RtConflict RELOAD_IN_FLIGHT) else None)"

definition start_reload :: "reply \<Rightarrow> ('w, 'r) runtime_actor \<Rightarrow> ('w, 'r) runtime_actor" where
  "start_reload reply a =
     (case configuration_busy a of
        Some error \<Rightarrow> refuse reply error a
      | None \<Rightarrow> emit (SpawnReload reply) (ra_lanes_update (\<lambda>l. l\<lparr>wl_reload_in_flight := True\<rparr>) a))"

definition start_app_persistence :: "apps_config \<Rightarrow> message \<Rightarrow> message \<Rightarrow> reply \<Rightarrow> ('w, 'r) runtime_actor \<Rightarrow> ('w, 'r) runtime_actor" where
  "start_app_persistence candidate changed_id msg reply a =
     emit (SpawnAppPersistence candidate changed_id msg reply) (ra_lanes_update (\<lambda>l. l\<lparr>wl_app_persist_in_flight := True\<rparr>) a)"

text \<open>\<open>find(|item| item.id == converted.id)\<close> and the assignment through it, or \<open>push\<close>.\<close>

fun replace_rule :: "app_rule \<Rightarrow> app_rule list \<Rightarrow> app_rule list" where
  "replace_rule rule [] = [rule]"
| "replace_rule rule (r # rs) = (if ar_id r = ar_id rule then rule # rs else r # replace_rule rule rs)"

definition start_set_app_rule :: "api_app_rule \<Rightarrow> reply \<Rightarrow> ('w, 'r) runtime_actor \<Rightarrow> ('w, 'r) runtime_actor" where
  "start_set_app_rule rule reply a =
     (case configuration_busy a of
        Some error \<Rightarrow> refuse reply error a
      | None \<Rightarrow>
          (case api_rule_to_core rule of
             Inl error \<Rightarrow> refuse reply error a
           | Inr converted \<Rightarrow>
               let apps = rc_apps (ra_configuration a)
               in start_app_persistence (apps\<lparr>ac_rules := replace_rule converted (ac_rules apps)\<rparr>)
                    (MFmt ''app-rule:{}'' [MStr (aar_id rule)]) (MStr ''application rule stored'') reply a))"

definition start_remove_app_rule :: "string \<Rightarrow> reply \<Rightarrow> ('w, 'r) runtime_actor \<Rightarrow> ('w, 'r) runtime_actor" where
  "start_remove_app_rule rid reply a =
     (case configuration_busy a of
        Some error \<Rightarrow> refuse reply error a
      | None \<Rightarrow>
          let apps = rc_apps (ra_configuration a);
              candidate = apps\<lparr>ac_rules := filter (\<lambda>rule. ar_id rule \<noteq> rid) (ac_rules apps)\<rparr>
          in if length (ac_rules candidate) = length (ac_rules apps)
             then refuse reply (RtNotFound (MFmt ''application rule {id}'' [MStr rid])) a
             else start_app_persistence candidate (MFmt ''app-rule:{id}'' [MStr rid]) (MStr ''application rule removed'') reply a)"

definition finish_app_persistence ::
  "('w, 'r) runtime_ports \<Rightarrow> apps_config \<Rightarrow> message \<Rightarrow> message \<Rightarrow> reply \<Rightarrow> (runtime_error, unit) result
     \<Rightarrow> ('w, 'r) runtime_actor \<Rightarrow> ('w, 'r) runtime_actor" where
  "finish_app_persistence E candidate changed_id msg reply result a =
     (let a1 = mark_decision_trigger E ''app-rule-update'' (ra_lanes_update (\<lambda>l. l\<lparr>wl_app_persist_in_flight := False\<rparr>) a)
      in case result of
           Inl error \<Rightarrow> refuse reply error a1
         | Inr _ \<Rightarrow>
             let a2 = evaluate_and_reconcile E (bump_generation
                        (a1\<lparr>ra_configuration := (ra_configuration a1)\<lparr>rc_apps := candidate\<rparr>,
                            ra_config_generation := u64_saturating_add (ra_config_generation a1) 1\<rparr>))
             in answer_receipt reply (Inr (receipt (generation_of a2) [changed_id] msg), a2))"

section \<open>The timer\<close>

definition expire_focus_lease :: "monotonic_millis \<Rightarrow> ('w, 'r) runtime_actor \<Rightarrow> bool \<times> ('w, 'r) runtime_actor" where
  "expire_focus_lease now a =
     (case fo_lease (ra_focus a) of
        None \<Rightarrow> (False, a)
      | Some lease \<Rightarrow>
          if fl_expires_at lease \<le> now
          then (True, bump_generation (mark_scheduler_dirty (ra_focus_update (\<lambda>f. f\<lparr>fo_lease := None\<rparr>) a)))
          else (False, a))"

definition expire_frame_reporter_lease :: "monotonic_millis \<Rightarrow> ('w, 'r) runtime_actor \<Rightarrow> bool \<times> ('w, 'r) runtime_actor" where
  "expire_frame_reporter_lease now a =
     (case fo_frame_reporter (ra_focus a) of
        None \<Rightarrow> (False, a)
      | Some lease \<Rightarrow> if fr_expires_at lease \<le> now then revoke_frame_reporter None a else (False, a))"

definition finish_render_idle_if_due :: "monotonic_millis \<Rightarrow> ('w, 'r) runtime_actor \<Rightarrow> bool \<times> ('w, 'r) runtime_actor" where
  "finish_render_idle_if_due now a =
     (case ia_render_idle_deadline (ra_interaction a) of
        None \<Rightarrow> (False, a)
      | Some pending \<Rightarrow>
          if now < rd_deadline pending then (False, a)
          else
            let a1 = forget_render a
            in if rd_generation pending \<noteq> ia_generation (ra_interaction a1) then (False, a1)
               else clear_interaction_hints (Some (rd_generation pending))
                      (ra_interaction_update (\<lambda>i. i\<lparr>ia_ended := True\<rparr>) a1))"

definition expire_hints :: "monotonic_millis \<Rightarrow> ('w, 'r) runtime_actor \<Rightarrow> bool \<times> ('w, 'r) runtime_actor" where
  "expire_hints now a =
     (case expire (ia_hints (ra_interaction a)) now of (hints, expired) \<Rightarrow>
        (expired, ra_interaction_update (\<lambda>i. i\<lparr>ia_hints := hints,
           ia_hint_generations := bt_retain (\<lambda>s _. contains_active hints s now) (ia_hint_generations i)\<rparr>) a))"

definition override_expired :: "monotonic_millis \<Rightarrow> timed_override \<Rightarrow> bool" where
  "override_expired now request = (case to_expires_at request of None \<Rightarrow> False | Some expires \<Rightarrow> expires \<le> now)"

definition expire_overrides :: "monotonic_millis \<Rightarrow> ('w, 'r) runtime_actor \<Rightarrow> bool \<times> ('w, 'r) runtime_actor" where
  "expire_overrides now a =
     (let expired = map fst (filter (\<lambda>(_, request). override_expired now request) (pl_overrides (ra_planning a)));
          a1 = ra_planning_update (\<lambda>p. p\<lparr>pl_overrides := fold bt_remove expired (pl_overrides p)\<rparr>) a
      in if expired \<noteq> [] then (True, bump_generation a1) else (False, a1))"

definition WORKLOAD_CHECK_INTERVAL_MS :: u64 where "WORKLOAD_CHECK_INTERVAL_MS = 1000"
definition SCHEDULER_SCAN_INTERVAL_MS :: u64 where "SCHEDULER_SCAN_INTERVAL_MS = 250"

definition scan_scheduler :: "('w, 'r) runtime_ports \<Rightarrow> monotonic_millis \<Rightarrow> ('w, 'r) runtime_actor \<Rightarrow> ('w, 'r) runtime_actor" where
  "scan_scheduler E now a =
     (if effective_workload a \<noteq> None \<and> sc_enabled (pol_scheduler (rc_policy (ra_configuration a)))
         \<and> SCHEDULER_SCAN_INTERVAL_MS \<le> saturating_duration_since now (oc_last_scheduler_scan (ra_outcome a))
      then mark_decision_trigger E ''scheduler-scan''
             (mark_scheduler_dirty (ra_outcome_update (\<lambda>c. c\<lparr>oc_last_scheduler_scan := now\<rparr>) a))
      else a)"

definition on_tick :: "('w, 'r) runtime_ports \<Rightarrow> ('w, 'r) runtime_actor \<Rightarrow> ('w, 'r) runtime_actor" where
  "on_tick E a0 =
     (case monotonic E (mark_decision_trigger E ''timer'' a0) of (now, a) \<Rightarrow>
      case refresh_thermal_staleness now a of (thermal_changed, a1) \<Rightarrow>
      case refresh_load_staleness now a1 of (load_changed, a2) \<Rightarrow>
      case expire_hints now (refresh_frequency_staleness now a2) of (hints_expired, a3) \<Rightarrow>
      case finish_render_idle_if_due now a3 of (render_idle_changed, a4) \<Rightarrow>
      case expire_overrides now a4 of (had_expired_overrides, a5) \<Rightarrow>
      case expire_focus_lease now a5 of (focus_expired, a6) \<Rightarrow>
      case expire_frame_reporter_lease now a6 of (frame_reporter_expired, a7) \<Rightarrow>
      let a8 = drive_pending_focus E now a7;
          a9 = (if WORKLOAD_CHECK_INTERVAL_MS \<le> saturating_duration_since now (fo_last_workload_check (ra_focus a8))
                then check_workload_identity E (ra_focus_update (\<lambda>f. f\<lparr>fo_last_workload_check := now\<rparr>) a8) else a8);
          a10 = scan_scheduler E now a9;
          c = ra_outcome a10
      in if focus_expired \<or> frame_reporter_expired \<or> hints_expired \<or> render_idle_changed \<or> thermal_changed \<or> load_changed
            \<or> had_expired_overrides \<or> pl_desired (ra_planning a10) = None
            \<or> (oc_scheduler_dirty c \<and> \<not> rs_suspended (ra_restore a10))
            \<or> (oc_frequency_failures c \<noteq> 0 \<and> oc_frequency_retry_not_before c \<le> now)
            \<or> (oc_scheduler_failures c \<noteq> 0 \<and> oc_scheduler_retry_not_before c \<le> now)
         then evaluate_and_reconcile E a10 else a10)"

section \<open>Commands\<close>

datatype command =
    SetMode string reply
  | SetActiveWorkload workload_request user_id reply
  | ClearActiveWorkload user_id reply
  | SetForegroundProcess u32 string user_id "string option" reply
  | ClearForegroundProcess user_id "string option" reply
  | ReportFrameHint frame_hint_event user_id "string option" reply
  | ForgetForegroundPeer string
  | SetFrequencyOverrides "frequency_override list" reply
  | ClearFrequencyOverrides "string list" reply
  | Reload reply
  | SetAppRule api_app_rule reply
  | RemoveAppRule string reply
  | RunningWorkloadObserverHealth "(message, unit) result"
  | ActivateMutations reply
  | BeginShutdown reply
  | Stop reply

definition shutdown_started :: runtime_error where
  "shutdown_started = RtConflict (MStr ''daemon shutdown has started; mutation requests are closed'')"

text \<open>\<open>require_accepting_control\<close> before a command.\<close>

definition when_accepting ::
  "reply \<Rightarrow> (('w, 'r) runtime_actor \<Rightarrow> ('w, 'r) runtime_actor) \<Rightarrow> ('w, 'r) runtime_actor \<Rightarrow> ('w, 'r) runtime_actor" where
  "when_accepting reply f a = (if rs_accepting_control (ra_restore a) then f a else refuse reply shutdown_started a)"

definition handle_stop :: "('w, 'r) runtime_ports \<Rightarrow> reply \<Rightarrow> ('w, 'r) runtime_actor \<Rightarrow> ('w, 'r) runtime_actor" where
  "handle_stop E reply a =
     (case configuration_busy a of
        Some error \<Rightarrow> refuse reply error a
      | None \<Rightarrow>
          if process_control_request_in_flight a then refuse reply (RtConflict PROCESS_IDENTITY_IN_FLIGHT) a
          else request_stop E reply a)"

fun dispatch_command :: "('w, 'r) runtime_ports \<Rightarrow> command \<Rightarrow> ('w, 'r) runtime_actor \<Rightarrow> ('w, 'r) runtime_actor" where
  "dispatch_command E (SetMode mode reply) a =
     when_accepting reply (\<lambda>b. answer_receipt reply (command_set_mode E mode b)) a"
| "dispatch_command E (SetActiveWorkload request caller reply) a =
     when_accepting reply (start_set_workload E request caller reply) a"
| "dispatch_command E (ClearActiveWorkload caller reply) a =
     when_accepting reply (start_clear_workload E caller reply) a"
| "dispatch_command E (SetForegroundProcess pid reason caller peer reply) a =
     when_accepting reply (\<lambda>b. answer_receipt reply (accept_focus_report E pid reason caller peer b)) a"
| "dispatch_command E (ClearForegroundProcess caller peer reply) a =
     when_accepting reply (\<lambda>b. answer_receipt reply (command_clear_foreground_from_peer E caller peer b)) a"
| "dispatch_command E (ReportFrameHint event caller peer reply) a =
     when_accepting reply (\<lambda>b. answer_receipt reply (command_report_frame_hint E event caller peer b)) a"
| "dispatch_command E (ForgetForegroundPeer peer) a = forget_focus_peer E peer a"
| "dispatch_command E (SetFrequencyOverrides overrides reply) a =
     when_accepting reply (\<lambda>b. answer_receipt reply (command_set_overrides E overrides b)) a"
| "dispatch_command E (ClearFrequencyOverrides ids reply) a =
     when_accepting reply (\<lambda>b. answer_receipt reply (command_clear_overrides E ids b)) a"
| "dispatch_command E (Reload reply) a = when_accepting reply (start_reload reply) a"
| "dispatch_command E (SetAppRule rule reply) a = when_accepting reply (start_set_app_rule rule reply) a"
| "dispatch_command E (RemoveAppRule rid reply) a = when_accepting reply (start_remove_app_rule rid reply) a"
| "dispatch_command E (RunningWorkloadObserverHealth result) a = reduce_running_workload_observer_health result a"
| "dispatch_command E (ActivateMutations reply) a =
     when_accepting reply (\<lambda>b. emit (Answer reply Done)
       (evaluate_and_reconcile E (ra_restore_update (\<lambda>r. r\<lparr>rs_mutations_activated := True\<rparr>) b))) a"
| "dispatch_command E (BeginShutdown reply) a =
     emit (Answer reply Done) (ra_lanes_update (\<lambda>l. l\<lparr>wl_scheduler_pending := False\<rparr>)
       (ra_restore_update (\<lambda>r. r\<lparr>rs_accepting_control := False\<rparr>) a))"
| "dispatch_command E (Stop reply) a = handle_stop E reply a"

definition handle_command :: "('w, 'r) runtime_ports \<Rightarrow> command \<Rightarrow> ('w, 'r) runtime_actor \<Rightarrow> ('w, 'r) runtime_actor" where
  "handle_command E command a = dispatch_command E command (mark_decision_trigger E ''control'' a)"

section \<open>One round\<close>

datatype 'r actor_message =
    CommandMessage command
  | LoadMessage "(message, cpu_time_snapshot) result"
  | ThermalMessage u64 "(message, thermal_sample list) result"
  | FrequencyMessage "(message, frequency_observation_batch) result"
  | LogindHealthMessage "(message, unit) result"
  | InputHealthMessage "(message, unit) result"
  | InputMessage runtime_input
  | FrequencyWorkerMessage frequency_worker_event
  | SchedulerWorkerMessage u64 "(message, reconcile_outcome) result"
  | RestoreMessage u64 "(message, unit) result"
  | SafetyMessage u64 "(message, unit) result"
  | IdentityMessage u64 identity_purpose "(message, process_info) result"
  | PersistenceMessage apps_config message message reply "(runtime_error, unit) result"
  | ReloadMessage reply "(runtime_error, 'r resolved_configuration) result"
  | TickMessage

fun actor_step :: "('w, 'r) runtime_ports \<Rightarrow> 'r actor_message \<Rightarrow> ('w, 'r) runtime_actor \<Rightarrow> ('w, 'r) runtime_actor" where
  "actor_step E (CommandMessage c) a = handle_command E c a"
| "actor_step E (LoadMessage observation) a = reduce_load E observation a"
| "actor_step E (ThermalMessage generation observation) a =
     (if generation = ra_observer_generation a then reduce_thermal E observation a else a)"
| "actor_step E (FrequencyMessage observation) a = reduce_frequencies E observation a"
| "actor_step E (LogindHealthMessage result) a = reduce_logind_health result a"
| "actor_step E (InputHealthMessage result) a = reduce_input_health result a"
| "actor_step E (InputMessage event) a = reduce_runtime_input E event a"
| "actor_step E (FrequencyWorkerMessage event) a = finish_frequency_worker E event a"
| "actor_step E (SchedulerWorkerMessage sid result) a = finish_scheduler_worker E sid result a"
| "actor_step E (RestoreMessage rid result) a = finish_restore E rid result a"
| "actor_step E (SafetyMessage uid result) a = finish_frequency_safety_update E uid result a"
| "actor_step E (IdentityMessage rid purpose result) a = finish_process_identity E rid purpose result a"
| "actor_step E (PersistenceMessage candidate changed_id msg reply result) a =
     finish_app_persistence E candidate changed_id msg reply result a"
| "actor_step E (ReloadMessage reply outcome) a = receive_reload E reply outcome a"
| "actor_step E TickMessage a = on_tick E a"

text \<open>\<open>RuntimeActor::new\<close>: what the actor holds before the first message.\<close>

definition initial_lanes :: "'r lane_state" where
  "initial_lanes =
     \<lparr>wl_app_persist_in_flight = False, wl_reload_in_flight = False, wl_pending_reload = None,
      wl_frequency_command_pending = None, wl_frequency_quiesce_pending = None, wl_frequency_quiesced = True,
      wl_next_frequency_command_id = 0, wl_frequency_requested = None, wl_scheduler_in_flight = None,
      wl_scheduler_pending = False, wl_next_scheduler_id = 0\<rparr>"

definition initial_restore :: restore_state where
  "initial_restore =
     \<lparr>rs_restore_in_flight = None, rs_next_restore_id = 0, rs_restore_requested = False, rs_sleep_waiters = [],
      rs_wake_waiters = [], rs_stop_waiters = [], rs_pending_resume = False, rs_restored_while_suspended = False,
      rs_suspended = False, rs_mutations_activated = False, rs_accepting_control = True, rs_stop_requested = False\<rparr>"

definition initial_fence :: "bool \<Rightarrow> bool \<Rightarrow> fence_state" where
  "initial_fence read_only recovery =
     \<lparr>fe_restore_failure = None, fe_safety_update_in_flight = None, fe_next_safety_update_id = 0, fe_requested_upper_caps = [],
      fe_pending_upper_caps = None, fe_safety_failure = None, fe_worker_failure = None, fe_actuator_read_only = read_only,
      fe_startup_recovery_pending = recovery\<rparr>"

definition initial_focus :: focus_state where
  "initial_focus =
     \<lparr>fo_active_workload = None, fo_requested_workload_profile = None, fo_lease = None, fo_frame_reporter = None,
      fo_pending = None, fo_revision = 0, fo_identity_in_flight = None, fo_next_identity_id = 0, fo_last_workload_check = 0\<rparr>"

definition initial_interaction :: interaction_state where
  "initial_interaction =
     \<lparr>ia_generation = 0, ia_ended = False, ia_hint_generations = [], ia_render_generation = None,
      ia_render_idle_deadline = None, ia_last_deadline_missed = None, ia_display_blanked = False,
      ia_session_state = SessionActive, ia_hints = HintSet_new, ia_contacts = {}\<rparr>"

definition initial_sensing :: "'r resolved_configuration \<Rightarrow> sensing_state" where
  "initial_sensing c =
     \<lparr>se_observed = \<lparr>timestamp = 0, cpu_loads = [], observed_frequencies = [], observed_thermal = []\<rparr>,
      se_thermal_guards = thermal_guards_of c, se_thermal_state = Degraded, se_thermal_caps = [],
      se_maximum_temperature = None, se_previous_cpu_times = None, se_last_load_success = None,
      se_last_frequency_success = None, se_heavy_load = HeavyLoadDetector_default, se_adaptive_sampler = SamplingIdle,
      se_telemetry_sequence = 0\<rparr>"

definition initial_planning :: planning_state where
  "initial_planning =
     \<lparr>pl_mode = Auto, pl_overrides = [], pl_desired = None, pl_trigger_source = ''startup'', pl_trigger_at = 0,
      pl_governor_state = GovernorState_default, pl_governor_diagnostics = None, pl_integrate_elapsed_time = False,
      pl_generation = 0\<rparr>"

definition initial_outcome :: outcome_state where
  "initial_outcome =
     \<lparr>oc_applied = AppliedState_default, oc_applied_units = [], oc_scheduler_report = SchedulerReport_default,
      oc_scheduler_dirty = False, oc_last_scheduler_scan = 0, oc_drift = [], oc_frequency_failures = 0,
      oc_frequency_retry_not_before = 0, oc_scheduler_failures = 0, oc_scheduler_retry_not_before = 0\<rparr>"

definition actuator_health_snapshot :: "('w, 'r) runtime_ports \<Rightarrow> 'w \<Rightarrow> bool \<times> bool \<times> 'w" where
  "actuator_health_snapshot E w =
     (if \<not> rn_actuator E then (True, False, w)
      else case rn_actuator_mode E w of (mode, w1) \<Rightarrow>
           case rn_startup_recovery_required E w1 of (recovery, w2) \<Rightarrow>
             (mode \<noteq> Inr ReadWrite, (case recovery of Inl _ \<Rightarrow> True | Inr b \<Rightarrow> b), w2))"

definition runtime_actor_new :: "('w, 'r) runtime_ports \<Rightarrow> 'r resolved_configuration \<Rightarrow> 'w \<Rightarrow> ('w, 'r) runtime_actor" where
  "runtime_actor_new E c w =
     (case actuator_health_snapshot E w of (read_only, recovery, w1) \<Rightarrow>
        seed_health E (update_thermal_caps
          \<lparr>ra_configuration = c, ra_lanes = initial_lanes, ra_restore = initial_restore, ra_fence = initial_fence read_only recovery,
           ra_focus = initial_focus, ra_interaction = initial_interaction, ra_sensing = initial_sensing c,
           ra_planning = initial_planning, ra_outcome = initial_outcome, ra_config_generation = 1, ra_observer_generation = 1,
           ra_observer_settings = observer_settings_from c 1, ra_capabilities_changed = False, ra_health_issues = [],
           ra_panicked = False, ra_env = w1, ra_effects = []\<rparr>))"

end
