(* ===== verification/Runtime_Frames.thy ===== *)
theory Runtime_Frames
  imports Runtime_Commands
begin

text \<open>
  The interface between the handlers of the actor and its invariants. \<open>actor_frame\<close> asks of an invariant
  that it survives what nearly every handler does: it reads the clock, changes observations, plans and
  health, answers callers, asks for a tighter fence and submits a plan. It returns that the invariant
  survives the handlers built from these. \<open>actor_invariant\<close> adds the mutation barrier and the results of
  the workers, and returns that the invariant survives every message.
\<close>

text \<open>What was handed to the workers.\<close>

definition frequency_commands :: "('w, 'r) runtime_actor \<Rightarrow> frequency_worker_command list" where
  "frequency_commands a = List.map_filter (\<lambda>e. case e of FrequencyCommand c \<Rightarrow> Some c | _ \<Rightarrow> None) (ra_effects a)"

definition scheduler_spawns :: "('w, 'r) runtime_actor \<Rightarrow> u64 list" where
  "scheduler_spawns a = List.map_filter (\<lambda>e. case e of SpawnScheduler i _ \<Rightarrow> Some i | _ \<Rightarrow> None) (ra_effects a)"

definition restore_spawns :: "('w, 'r) runtime_actor \<Rightarrow> u64 list" where
  "restore_spawns a = List.map_filter (\<lambda>e. case e of SpawnRestore i \<Rightarrow> Some i | _ \<Rightarrow> None) (ra_effects a)"

lemma logs_emit [simp]:
  "frequency_commands (emit e a) = frequency_commands a @ (case e of FrequencyCommand c \<Rightarrow> [c] | _ \<Rightarrow> [])"
  "scheduler_spawns (emit e a) = scheduler_spawns a @ (case e of SpawnScheduler i _ \<Rightarrow> [i] | _ \<Rightarrow> [])"
  "restore_spawns (emit e a) = restore_spawns a @ (case e of SpawnRestore i \<Rightarrow> [i] | _ \<Rightarrow> [])"
  by (cases e; simp add: frequency_commands_def scheduler_spawns_def restore_spawns_def emit_def List.map_filter_def)+

lemma logs_cong:
  assumes "ra_effects b = ra_effects a"
  shows "frequency_commands b = frequency_commands a" "scheduler_spawns b = scheduler_spawns a" "restore_spawns b = restore_spawns a"
  using assms by (simp_all add: frequency_commands_def scheduler_spawns_def restore_spawns_def)

lemma emit_fields [simp]:
  "ra_lanes (emit e a) = ra_lanes a" "ra_restore (emit e a) = ra_restore a" "ra_fence (emit e a) = ra_fence a"
  "ra_env (emit e a) = ra_env a"
  by (simp_all add: emit_def)

lemma answer_all_fields [simp]:
  "ra_lanes (answer_all ans replies a) = ra_lanes a" "ra_restore (answer_all ans replies a) = ra_restore a"
  "ra_fence (answer_all ans replies a) = ra_fence a" "ra_env (answer_all ans replies a) = ra_env a"
  unfolding answer_all_def by (induction replies arbitrary: a) simp_all

lemma logs_updates [simp]:
  "frequency_commands (ra_lanes_update fl a) = frequency_commands a" "scheduler_spawns (ra_lanes_update fl a) = scheduler_spawns a"
  "restore_spawns (ra_lanes_update fl a) = restore_spawns a"
  "frequency_commands (ra_restore_update fr a) = frequency_commands a" "scheduler_spawns (ra_restore_update fr a) = scheduler_spawns a"
  "restore_spawns (ra_restore_update fr a) = restore_spawns a"
  "frequency_commands (ra_fence_update ff a) = frequency_commands a" "scheduler_spawns (ra_fence_update ff a) = scheduler_spawns a"
  "restore_spawns (ra_fence_update ff a) = restore_spawns a"
  "frequency_commands (ra_env_update fe a) = frequency_commands a" "scheduler_spawns (ra_env_update fe a) = scheduler_spawns a"
  "restore_spawns (ra_env_update fe a) = restore_spawns a"
  "frequency_commands (ra_health_issues_update fh a) = frequency_commands a"
  "scheduler_spawns (ra_health_issues_update fh a) = scheduler_spawns a"
  "restore_spawns (ra_health_issues_update fh a) = restore_spawns a"
  by (simp_all add: frequency_commands_def scheduler_spawns_def restore_spawns_def)

definition same_lanes :: "('w, 'r) runtime_actor \<Rightarrow> ('w, 'r) runtime_actor \<Rightarrow> bool" where
  "same_lanes a b =
     (ra_lanes b = ra_lanes a \<and> ra_restore b = ra_restore a \<and> ra_fence b = ra_fence a \<and> ra_env b = ra_env a
      \<and> ra_effects b = ra_effects a)"

text \<open>Effects that hand nothing to a worker that mutates.\<close>

fun plain_effect :: "effect \<Rightarrow> bool" where
  "plain_effect (Answer r x) = True"
| "plain_effect (SpawnIdentityRead i p q) = True"
| "plain_effect (SpawnReload r) = True"
| "plain_effect (SpawnAppPersistence c i m r) = True"
| "plain_effect e = False"

lemma drive_pending_focus_idle: "fo_pending (ra_focus a) = None \<Longrightarrow> drive_pending_focus E now a = a"
  by (subst drive_pending_focus.simps) simp

locale actor_frame =
  fixes E :: "('w, 'r) runtime_ports" and I :: "('w, 'r) runtime_actor \<Rightarrow> bool"
  assumes calm: "I a \<Longrightarrow> same_lanes a b \<Longrightarrow> I b"
    and clock: "I a \<Longrightarrow> I (a\<lparr>ra_env := snd (rn_monotonic_millis E (ra_env a))\<rparr>)"
    and reader: "I a \<Longrightarrow> I (a\<lparr>ra_env := snd (rn_identity_reader E (ra_env a))\<rparr>)"
    and emits: "I a \<Longrightarrow> plain_effect e \<Longrightarrow> I (emit e a)"
    and fenced: "I a \<Longrightarrow> I (request_frequency_safety_update caps a)"
    and failed: "I a \<Longrightarrow> I (fail_reconcile_worker msg a)"
    and refreshed: "I a \<Longrightarrow> I (refresh_actuator_health E a)"
    and submitted: "I a \<Longrightarrow> I (submit_plan E now desired a)"
begin

lemma updates:
  assumes "I a"
  shows "I (ra_configuration_update fc a)" "I (ra_focus_update ff a)" "I (ra_interaction_update fi a)"
    "I (ra_sensing_update fs a)" "I (ra_planning_update fp a)" "I (ra_outcome_update fo a)"
    "I (ra_config_generation_update fg a)" "I (ra_observer_generation_update fg a)"
    "I (ra_observer_settings_update fb a)" "I (ra_capabilities_changed_update fd a)"
    "I (ra_health_issues_update fh a)" "I (ra_panicked_update fd a)"
  by (rule calm [OF assms], simp add: same_lanes_def)+

lemma branches:
  "(c \<Longrightarrow> I x) \<Longrightarrow> (\<not> c \<Longrightarrow> I y) \<Longrightarrow> I (if c then x else y)"
  "(p = None \<Longrightarrow> I x) \<Longrightarrow> (\<And>v. p = Some v \<Longrightarrow> I (f v)) \<Longrightarrow> I (case p of None \<Rightarrow> x | Some v \<Rightarrow> f v)"
  "(\<And>v. r = Inl v \<Longrightarrow> I (g v)) \<Longrightarrow> (\<And>v. r = Inr v \<Longrightarrow> I (h v)) \<Longrightarrow> I (case r of Inl v \<Rightarrow> g v | Inr v \<Rightarrow> h v)"
  by (simp, simp split: option.split, simp split: sum.split)

lemma pair_branches:
  "(c \<Longrightarrow> I (snd x)) \<Longrightarrow> (\<not> c \<Longrightarrow> I (snd y)) \<Longrightarrow> I (snd (if c then x else y))"
  "(p = None \<Longrightarrow> I (snd x)) \<Longrightarrow> (\<And>v. p = Some v \<Longrightarrow> I (snd (f v))) \<Longrightarrow> I (snd (case p of None \<Rightarrow> x | Some v \<Rightarrow> f v))"
  "(\<And>v. r = Inl v \<Longrightarrow> I (snd (g v))) \<Longrightarrow> (\<And>v. r = Inr v \<Longrightarrow> I (snd (h v)))
     \<Longrightarrow> I (snd (case r of Inl v \<Rightarrow> g v | Inr v \<Rightarrow> h v))"
  "I a \<Longrightarrow> I (snd (z, a))"
  by (simp, simp split: option.split, simp split: sum.split, simp)

lemma results:
  fixes p :: "'b \<times> ('w, 'r) runtime_actor"
  shows "I (snd p) \<Longrightarrow> (\<And>x b. I b \<Longrightarrow> I (f x b)) \<Longrightarrow> I (case p of (x, b) \<Rightarrow> f x b)"
    and "I (snd p) \<Longrightarrow> (\<And>x b. I b \<Longrightarrow> I (snd (g x b))) \<Longrightarrow> I (snd (case p of (x, b) \<Rightarrow> g x b))"
  by (cases p, simp)+

lemma clocked: "I a \<Longrightarrow> I (snd (monotonic E a))"
  using clock by (simp add: monotonic_def split_beta)

lemma folds: "I a \<Longrightarrow> (\<And>x b. I b \<Longrightarrow> I (f x b)) \<Longrightarrow> I (fold f xs a)"
  by (induction xs arbitrary: a) simp_all

lemma small_steps:
  assumes "I a"
  shows "I (set_issue code severity component msg a)" "I (clear_issue code a)" "I (bump_generation a)"
    "I (mark_scheduler_dirty a)" "I (forget_render a)" "I (bump_telemetry a)" "I (activate_hint h a)"
    "I (deactivate_hint s a)" "I (set_contacts contacts a)" "I (record_external_drift_corrections corrected a)"
  by (rule calm [OF assms], simp add: same_lanes_def set_issue_def clear_issue_def bump_generation_def mark_scheduler_dirty_def
      forget_render_def bump_telemetry_def activate_hint_def deactivate_hint_def set_contacts_def
      record_external_drift_corrections_def)+

lemmas steps = branches pair_branches results updates clocked emits fenced failed refreshed submitted small_steps folds

lemma trigger: "I a \<Longrightarrow> I (mark_decision_trigger E source a)"
  unfolding mark_decision_trigger_def by (intro steps; assumption)

lemma end_touch_keeps: "I a \<Longrightarrow> I (end_touch a)"
  unfolding end_touch_def by (intro steps; assumption)

lemma failures_keep:
  assumes "I a"
  shows "I (clear_frequency_failure a)" "I (clear_scheduler_failure a)"
    "I (record_frequency_failure E msg a)" "I (record_scheduler_failure E msg a)"
  unfolding clear_frequency_failure_def clear_scheduler_failure_def record_frequency_failure_def record_scheduler_failure_def Let_def
  by (intro steps assms; assumption)+

lemma drift_keeps:
  assumes "I a"
  shows "I (refresh_external_constraint_health a)" "I (prepare_external_drift_state desired a)" "I (observe_external_frequency_drift a)"
  unfolding observe_external_frequency_drift_def prepare_external_drift_state_def refresh_external_constraint_health_def Let_def
  by (intro steps assms; assumption)+

lemmas steps_drift = steps trigger end_touch_keeps failures_keep drift_keeps

lemma evaluation_cases:
  "(\<And>e. f = Failed e \<Longrightarrow> I (g e)) \<Longrightarrow> (f = Panicked \<Longrightarrow> I x) \<Longrightarrow> I (case f of Failed e \<Rightarrow> g e | Panicked \<Rightarrow> x)"
  by (cases f) simp_all

lemma evaluated: "I a \<Longrightarrow> I (evaluate_and_reconcile E a)"
  unfolding evaluate_and_reconcile_def Let_def
  by (intro steps_drift evaluation_cases; assumption)

lemma fence_keeps:
  assumes "I a"
  shows "I (update_thermal_health a)" "I (mark_all_thermal_unavailable now a)" "I (update_thermal_caps a)"
  unfolding mark_all_thermal_unavailable_def update_thermal_health_def update_thermal_caps_def Let_def
  by (intro steps_drift assms; assumption)+

lemma interaction_replaced: "I a \<Longrightarrow> I (snd (case p of (changed, i) \<Rightarrow> (changed, a\<lparr>ra_interaction := i\<rparr>)))"
  by (cases p) (simp add: updates)

lemma interaction_keeps:
  assumes "I a"
  shows "I (snd (clear_interaction_hints generation a))" "I (begin_interaction a)" "I (activate_current_interaction_hint E s a)"
  unfolding begin_interaction_def clear_interaction_hints_def activate_current_interaction_hint_def Let_def
  by (intro steps_drift interaction_replaced assms; assumption)+

lemma hinted: "I a \<Longrightarrow> I (activate_external_hint E s a)"
  unfolding activate_external_hint_def Let_def
  by (intro steps_drift interaction_keeps evaluated; assumption)

lemma leases_keep:
  assumes "I a"
  shows "I (snd (advance_focus_report_revision a))" "I (invalidate_focus_reports a)" "I (reset_frame_reporter_state a)"
    "I (snd (revoke_frame_reporter peer a))" "I (install_frame_reporter peer uid expires a)" "I (snd (release_focus_lease E a))"
  unfolding invalidate_focus_reports_def advance_focus_report_revision_def revoke_frame_reporter_def install_frame_reporter_def
    reset_frame_reporter_state_def release_focus_lease_def Let_def
  by (intro steps_drift evaluated assms; assumption)+

lemmas handler_steps = steps_drift evaluated fence_keeps interaction_keeps hinted leases_keep

lemma warnings_keep: "I b \<Longrightarrow> I ((case x of (index, warning) \<Rightarrow> set_issue (warning_code index) severity component warning) b)"
  by (cases x) (simp add: small_steps)

lemma seeded: "I a \<Longrightarrow> I (seed_health E a)"
  unfolding seed_health_def Let_def by (intro handler_steps warnings_keep; assumption)

lemma swapped: "I a \<Longrightarrow> I (swap_configuration candidate a)"
  unfolding swap_configuration_def Let_def by (intro handler_steps; assumption)

lemma reload_applied: "I a \<Longrightarrow> I (snd (apply_reload_candidate E candidate a))"
  unfolding apply_reload_candidate_def Let_def by (intro handler_steps seeded swapped; assumption)

lemma answered: "I a \<Longrightarrow> I (answer_all ans replies a)"
  unfolding answer_all_def by (intro handler_steps; (assumption | simp))

lemma observed_load: "I a \<Longrightarrow> I (update_load_observer_cadence a)"
  unfolding update_load_observer_cadence_def Let_def by (simp add: updates split: prod.split)

lemma load_cases:
  fixes p :: "heavy_load_detector \<times> heavy_load_state"
  shows "(\<And>d s. I (f d s)) \<Longrightarrow> I (case p of (d, s) \<Rightarrow> f d s)"
    and "I x \<Longrightarrow> I y \<Longrightarrow> I (case s of LoadIdle \<Rightarrow> x | Heavy \<Rightarrow> y)"
  by (cases p, simp, cases s, simp_all)

lemma load_keeps:
  assumes "I a"
  shows "I (invalidate_load_state a)" "I (detect_heavy_load E previous sample a)"
  unfolding detect_heavy_load_def invalidate_load_state_def Let_def
  by (intro handler_steps observed_load load_cases assms; assumption)+

lemma load_reduced: "I a \<Longrightarrow> I (reduce_load E observation a)"
  unfolding reduce_load_def Let_def by (intro handler_steps observed_load load_keeps; assumption)

lemma issues_keep: "I b \<Longrightarrow> I ((case x of (tid, msg) \<Rightarrow> set_issue (code tid) severity component msg) b)"
  by (cases x) (simp add: small_steps)

lemma frequencies_reduced: "I a \<Longrightarrow> I (reduce_frequencies E observation a)"
  unfolding reduce_frequencies_def Let_def by (intro handler_steps issues_keep; assumption)

lemma settled_thermal: "I a \<Longrightarrow> I (settle_thermal scan a)"
  unfolding settle_thermal_def by (cases scan) (simp add: handler_steps)

lemma thermal_reduced: "I a \<Longrightarrow> I (reduce_thermal E observation a)"
  unfolding reduce_thermal_def Let_def by (intro handler_steps settled_thermal; assumption)

lemma staleness_keeps:
  assumes "I a"
  shows "I (snd (refresh_thermal_staleness now a))" "I (snd (refresh_load_staleness now a))" "I (refresh_frequency_staleness now a)"
  unfolding refresh_thermal_staleness_def refresh_load_staleness_def refresh_frequency_staleness_def Let_def
  by (simp add: settled_thermal split_beta assms) (intro handler_steps load_keeps assms; assumption)+

lemma session_reduced: "I a \<Longrightarrow> I (reduce_session_state E state a)"
  unfolding reduce_session_state_def Let_def by (intro handler_steps; assumption)

lemma input_reduced: "I a \<Longrightarrow> I (reduce_input_event E event a)"
  by (cases event) (simp_all add: split_beta Let_def handler_steps)

lemma health_reduced: "I a \<Longrightarrow> I (reduce_health code severity component result a)"
  unfolding reduce_health_def by (intro handler_steps; assumption)

lemma focus_keeps:
  assumes "I a"
  shows "I (reject_focus E peer msg a)" "I (complete_focus_report E pid caller peer revision result a)"
    "I (complete_focus_refresh E expected result a)"
  unfolding complete_focus_report_def reject_focus_def complete_focus_refresh_def Let_def
  by (intro handler_steps assms; assumption)+

lemma workload_keeps:
  assumes "I a"
  shows "I (clear_exited_workload E a)" "I (complete_workload_refresh E expected result a)"
    "I (snd (complete_set_workload E pid profile caller info a))" "I (snd (complete_clear_workload E expected caller info a))"
  unfolding complete_workload_refresh_def clear_exited_workload_def complete_set_workload_def complete_clear_workload_def Let_def
  by (intro handler_steps assms; assumption)+

lemma receipts_keep: "I (snd p) \<Longrightarrow> I (answer_receipt reply p)"
  by (cases p) (simp add: answer_receipt_def emits)

lemma refused: "I a \<Longrightarrow> I (refuse reply error a)"
  by (simp add: refuse_def emits)

lemma identity_settled: "I a \<Longrightarrow> I (settle_process_identity E purpose result a)"
  unfolding settle_process_identity_def Let_def
  by (cases purpose) (simp_all, (intro handler_steps focus_keeps workload_keeps receipts_keep; assumption)+)

lemma read_begun: "I a \<Longrightarrow> I (snd (begin_read purpose a))"
  by (simp add: begin_read_def Let_def updates)

lemma focus_driven:
  assumes "I a"
  shows "I (drive_pending_focus E now a)"
proof -
  define b where "b p = snd (begin_read (focus_purpose p) (ra_focus_update (\<lambda>f. f\<lparr>fo_pending := None\<rparr>) a))" for p
  define c where "c p = (b p)\<lparr>ra_env := snd (rn_identity_reader E (ra_env (b p)))\<rparr>" for p
  have c: "I (c p)" for p
    unfolding c_def b_def by (intro reader read_begun updates assms)
  have "fo_pending (ra_focus (c p)) = None" for p
    by (simp add: c_def b_def begin_read_def Let_def)
  then have idle: "drive_pending_focus E t (snd (monotonic E (settle_process_identity E (focus_purpose p) r (c p))))
      = snd (monotonic E (settle_process_identity E (focus_purpose p) r (c p)))" for t p r
    by (simp add: drive_pending_focus_idle)
  show ?thesis
    by (subst drive_pending_focus.simps, unfold Let_def split_beta b_def [symmetric], unfold c_def [symmetric] idle)
      (intro branches assms clocked identity_settled emits c; simp)
qed

lemma reads_keep:
  assumes "I a"
  shows "I (finish_process_identity E rid purpose result a)" "I (start_process_identity_read E pid purpose a)"
proof -
  have finish: "I (finish_process_identity E i purpose r b)" if "I b" for b i r
    unfolding finish_process_identity_def using that by (intro branches results clocked identity_settled focus_driven)
  then show "I (finish_process_identity E rid purpose result a)"
    using assms by blast
  have c: "I ((snd (begin_read purpose a))\<lparr>ra_env := snd (rn_identity_reader E (ra_env (snd (begin_read purpose a))))\<rparr>)"
    by (intro reader read_begun assms)
  then show "I (start_process_identity_read E pid purpose a)"
    unfolding start_process_identity_read_def Let_def split_beta by (intro branches finish emits) simp_all
qed

lemmas control_steps = handler_steps focus_keeps workload_keeps receipts_keep refused focus_driven reads_keep

lemma overrides_keep:
  assumes "I a"
  shows "I (snd (command_set_overrides E requests a))" "I (snd (command_clear_overrides E ids a))" "I (snd (command_set_mode E mode a))"
  unfolding command_set_overrides_def command_clear_overrides_def command_set_mode_def no_change_def Let_def
  by (intro control_steps assms; assumption)+

lemma workload_started:
  assumes "I a"
  shows "I (start_set_workload E request caller reply a)" "I (start_clear_workload E caller reply a)" "I (check_workload_identity E a)"
  unfolding start_set_workload_def start_clear_workload_def check_workload_identity_def
  by (intro control_steps assms; assumption)+

lemma focus_accepted:
  assumes "I a"
  shows "I (snd (accept_focus_report E pid reason caller peer a))" "I (snd (command_clear_foreground_from_peer E caller peer a))"
    "I (forget_focus_peer E peer' a)"
  unfolding accept_focus_report_def command_clear_foreground_from_peer_def forget_focus_peer_def no_change_def Let_def
  by (intro control_steps assms; assumption)+

lemma authorized_reporter: "I a \<Longrightarrow> I (snd (authorize_frame_reporter E caller peer a))"
  unfolding authorize_frame_reporter_def Let_def by (intro control_steps; assumption)

lemma frame_applied:
  assumes "I a"
  shows "I (snd (apply_frame_hint E now event a))"
  by (cases event; simp only: apply_frame_hint.simps no_change_def Let_def) (intro control_steps assms; assumption)+

lemma frame_reported: "I a \<Longrightarrow> I (snd (command_report_frame_hint E event caller peer a))"
  unfolding command_report_frame_hint_def split_beta
  using authorized_reporter [of a caller peer]
  by (cases "fst (authorize_frame_reporter E caller peer a)") (simp_all add: frame_applied clocked trigger)

lemma ticked_parts:
  assumes "I a"
  shows "I (snd (expire_focus_lease now a))" "I (snd (expire_frame_reporter_lease now a))" "I (snd (finish_render_idle_if_due now a))"
    "I (snd (expire_overrides now a))" "I (scan_scheduler E now a)"
  unfolding expire_focus_lease_def expire_frame_reporter_lease_def finish_render_idle_if_due_def expire_overrides_def
    scan_scheduler_def Let_def
  by (intro control_steps assms; assumption)+

lemma hints_expired_keep: "I a \<Longrightarrow> I (snd (expire_hints now a))"
  by (simp add: expire_hints_def split_beta updates)

lemma ticked: "I a \<Longrightarrow> I (on_tick E a)"
  unfolding on_tick_def Let_def
  by (intro control_steps staleness_keeps ticked_parts hints_expired_keep workload_started; assumption)

lemma resumed: "I (ra_restore_update (\<lambda>r. r\<lparr>rs_suspended := False\<rparr>) a) \<Longrightarrow> I (resume_from_sleep E a)"
  unfolding resume_from_sleep_def by (intro control_steps; assumption)

lemma reload_completed:
  "I (ra_lanes_update (\<lambda>l. l\<lparr>wl_reload_in_flight := False\<rparr>) a) \<Longrightarrow> I (complete_reload E reply candidate a)"
  unfolding complete_reload_def by (intro control_steps reload_applied; simp)

lemma adopted:
  assumes "I a"
  shows "I (adopt_tasks was_pending outcome a)" "I (adopt_frequencies E drift_targets outcome a)"
    "I (finish_frequency_reconcile E result drift_targets a)" "I (maybe_complete_applied_generation a)"
  unfolding finish_frequency_reconcile_def adopt_frequencies_def adopt_tasks_def maybe_complete_applied_generation_def Let_def
  by (intro control_steps assms; assumption)+

end

fun worker_message :: "'r actor_message \<Rightarrow> bool" where
  "worker_message (FrequencyWorkerMessage e) = True"
| "worker_message (SchedulerWorkerMessage i r) = True"
| "worker_message (RestoreMessage i r) = True"
| "worker_message m = False"

locale actor_invariant = actor_frame +
  assumes persisting: "I a \<Longrightarrow> I (ra_lanes_update (\<lambda>l. l\<lparr>wl_app_persist_in_flight := v\<rparr>) a)"
    and reloading: "I a \<Longrightarrow> I (ra_lanes_update (\<lambda>l. l\<lparr>wl_reload_in_flight := True\<rparr>) a)"
    and activated: "I a \<Longrightarrow> I (ra_restore_update (\<lambda>r. r\<lparr>rs_mutations_activated := True\<rparr>) a)"
    and closing: "I a \<Longrightarrow> I (ra_lanes_update (\<lambda>l. l\<lparr>wl_scheduler_pending := False\<rparr>)
                     (ra_restore_update (\<lambda>r. r\<lparr>rs_accepting_control := False\<rparr>) a))"
    and fence_replaced: "I a \<Longrightarrow> I (finish_frequency_safety_update E uid outcome a)"
    and sleeping: "I a \<Longrightarrow> I (request_sleep_restore E reply a)"
    and resuming: "I a \<Longrightarrow> I (request_resume E reply a)"
    and stopping: "I a \<Longrightarrow> I (request_stop E reply a)"
    and reload_received: "I a \<Longrightarrow> I (receive_reload E reply result a)"
begin

lemma input_message: "I a \<Longrightarrow> I (reduce_runtime_input E event a)"
  by (cases event) (simp_all add: reduce_runtime_input_def Let_def hinted input_reduced session_reduced sleeping resuming trigger)

lemma configuration_keeps:
  assumes "I a"
  shows "I (start_reload reply a)" "I (start_set_app_rule rule reply a)" "I (start_remove_app_rule rid reply a)"
    "I (finish_app_persistence E candidate changed_id msg reply result a)" "I (handle_stop E reply a)"
  unfolding start_reload_def start_set_app_rule_def start_remove_app_rule_def start_app_persistence_def
    finish_app_persistence_def handle_stop_def Let_def
  by (intro control_steps persisting reloading stopping assms; simp?)+

lemma accepted: "(I a \<Longrightarrow> I (f a)) \<Longrightarrow> I a \<Longrightarrow> I (when_accepting reply f a)"
  by (simp add: when_accepting_def refused)

lemma dispatched: "I a \<Longrightarrow> I (dispatch_command E command a)"
  by (cases command) (simp_all only: dispatch_command.simps reduce_running_workload_observer_health_def,
    (intro accepted receipts_keep overrides_keep workload_started focus_accepted frame_reported configuration_keeps health_reduced
      emits evaluated activated closing; (assumption | simp))+)

theorem survives: "\<not> worker_message m \<Longrightarrow> I a \<Longrightarrow> I (actor_step E m a)"
  by (cases m) (simp_all add: handle_command_def dispatched trigger load_reduced thermal_reduced frequencies_reduced
      reduce_logind_health_def reduce_input_health_def health_reduced input_message fence_replaced reads_keep configuration_keeps
      reload_received ticked)

end

end
