(* ===== verification/Runtime_Safety.thy ===== *)
theory Runtime_Safety
  imports Runtime_Frames
begin

text \<open>
  The actor together with its workers. The frequency worker is a thread behind a channel that keeps only the
  latest command (\<open>run_frequency_worker\<close>); the scheduler and the restoration are tasks the actor spawns. The
  theory shows that a restoration never runs beside work of the other two, and that a caller who
  waits for a restoration never waits for nothing.
\<close>

section \<open>The workers\<close>

record daemon_world =
  dw_taken :: nat
  dw_running :: "frequency_worker_command option"
  dw_events :: "frequency_worker_event list"
  dw_alive :: bool
  dw_scheduled :: nat
  dw_restored :: nat

text \<open>The command in the channel the worker has not taken yet.\<close>

definition channel_slot :: "daemon_world \<Rightarrow> ('w, 'r) runtime_actor \<Rightarrow> frequency_worker_command option" where
  "channel_slot W a = (if dw_taken W < length (frequency_commands a) then Some (last (frequency_commands a)) else None)"

definition running_schedulers :: "daemon_world \<Rightarrow> ('w, 'r) runtime_actor \<Rightarrow> u64 list" where
  "running_schedulers W a = drop (dw_scheduled W) (scheduler_spawns a)"

definition running_restores :: "daemon_world \<Rightarrow> ('w, 'r) runtime_actor \<Rightarrow> u64 list" where
  "running_restores W a = drop (dw_restored W) (restore_spawns a)"

text \<open>
  One step of the daemon. The actor handles a message; the worker takes the latest command, reports it
  or panics, and once it is gone its channel closes; a task reports; time passes outside.
\<close>

inductive daemon_step ::
  "('w, 'r) runtime_ports \<Rightarrow> ('w \<Rightarrow> bool) \<Rightarrow> ('w, 'r) runtime_actor \<times> daemon_world \<Rightarrow> ('w, 'r) runtime_actor \<times> daemon_world \<Rightarrow> bool"
  for E :: "('w, 'r) runtime_ports" and open_channel :: "'w \<Rightarrow> bool" where
  Handle: "\<not> worker_message m \<Longrightarrow> daemon_step E open_channel (a, W) (actor_step E m a, W)"
| Take: "dw_alive W \<Longrightarrow> dw_running W = None \<Longrightarrow> channel_slot W a = Some c
    \<Longrightarrow> daemon_step E open_channel (a, W) (a, W\<lparr>dw_taken := length (frequency_commands a), dw_running := Some c\<rparr>)"
| Reconciled: "dw_running W = Some (ReconcileCommand cid job drift)
    \<Longrightarrow> daemon_step E open_channel (a, W) (a, W\<lparr>dw_running := None, dw_events := dw_events W @ [ReconciledEvent cid drift (Inr outcome)]\<rparr>)"
| Quiesced: "dw_running W = Some (QuiesceCommand cid)
    \<Longrightarrow> daemon_step E open_channel (a, W) (a, W\<lparr>dw_running := None, dw_events := dw_events W @ [QuiescedEvent cid]\<rparr>)"
| Panicked: "dw_running W = Some (ReconcileCommand cid job drift)
    \<Longrightarrow> daemon_step E open_channel (a, W)
          (a, W\<lparr>dw_running := None, dw_alive := False, dw_events := dw_events W @ [FailedEvent error]\<rparr>)"
| Outside: "open_channel w = open_channel (ra_env a) \<or> \<not> open_channel w \<and> \<not> dw_alive W
    \<Longrightarrow> daemon_step E open_channel (a, W) (a\<lparr>ra_env := w\<rparr>, W)"
| FrequencyReported: "dw_events W = e # es
    \<Longrightarrow> daemon_step E open_channel (a, W) (actor_step E (FrequencyWorkerMessage e) a, W\<lparr>dw_events := es\<rparr>)"
| SchedulerReported: "running_schedulers W a = sid # rest
    \<Longrightarrow> daemon_step E open_channel (a, W)
          (actor_step E (SchedulerWorkerMessage sid result) a, W\<lparr>dw_scheduled := Suc (dw_scheduled W)\<rparr>)"
| RestoreReported: "running_restores W a = rid # rest
    \<Longrightarrow> daemon_step E open_channel (a, W) (actor_step E (RestoreMessage rid outcome) a, W\<lparr>dw_restored := Suc (dw_restored W)\<rparr>)"

definition initial_world :: daemon_world where
  "initial_world = \<lparr>dw_taken = 0, dw_running = None, dw_events = [], dw_alive = True, dw_scheduled = 0, dw_restored = 0\<rparr>"

inductive daemon_reaches ::
  "('w, 'r) runtime_ports \<Rightarrow> ('w \<Rightarrow> bool) \<Rightarrow> 'r resolved_configuration \<Rightarrow> 'w \<Rightarrow> ('w, 'r) runtime_actor \<Rightarrow> daemon_world \<Rightarrow> bool"
  for E :: "('w, 'r) runtime_ports" and open_channel :: "'w \<Rightarrow> bool" and c :: "'r resolved_configuration" and w :: 'w where
  Started: "daemon_reaches E open_channel c w (runtime_actor_new E c w) initial_world"
| Stepped: "daemon_reaches E open_channel c w a W \<Longrightarrow> daemon_step E open_channel (a, W) (a', W')
    \<Longrightarrow> daemon_reaches E open_channel c w a' W'"

section \<open>The invariant\<close>

fun command_token :: "frequency_worker_command \<Rightarrow> bool \<times> u64" where
  "command_token (ReconcileCommand i j d) = (False, i)"
| "command_token (QuiesceCommand i) = (True, i)"

fun event_tokens :: "frequency_worker_event \<Rightarrow> (bool \<times> u64) list" where
  "event_tokens (ReconciledEvent i d r) = [(False, i)]"
| "event_tokens (QuiescedEvent i) = [(True, i)]"
| "event_tokens (FailedEvent m) = []"

fun option_list :: "'a option \<Rightarrow> 'a list" where
  "option_list None = []"
| "option_list (Some x) = [x]"

text \<open>
  How much of the invariant holds: all of it between two messages; not yet that the barrier moves while it is
  being driven; nor that the right callers wait while they are being told.
\<close>

datatype barrier_mode = Settled | Driving | Telling

text \<open>What the worker has taken or reported, and what it still has to take, in the order of the reports.\<close>

definition taken_tokens :: "daemon_world \<Rightarrow> (bool \<times> u64) list" where
  "taken_tokens W = concat (map event_tokens (dw_events W)) @ map command_token (option_list (dw_running W))"

definition slot_tokens :: "daemon_world \<Rightarrow> frequency_worker_command list \<Rightarrow> (bool \<times> u64) list" where
  "slot_tokens W cs = (if dw_taken W < length cs then [command_token (last cs)] else [])"

definition outstanding :: "daemon_world \<Rightarrow> frequency_worker_command list \<Rightarrow> (bool \<times> u64) list" where
  "outstanding W cs = taken_tokens W @ slot_tokens W cs"

text \<open>The commands still to be reported, in increasing order; the last is the one the actor waits for, and a quiesce is last.\<close>

definition queue_ok :: "daemon_world \<Rightarrow> frequency_worker_command list \<Rightarrow> 'r lane_state \<Rightarrow> bool" where
  "queue_ok W cs l =
     (let ts = outstanding W cs
      in (\<forall>e. FailedEvent e \<notin> set (dw_events W))
         \<and> sorted_wrt (<) (map snd ts) \<and> (\<forall>t \<in> set ts. snd t \<le> wl_next_frequency_command_id l)
         \<and> map snd (option_list (if ts = [] then None else Some (last ts))) = option_list (wl_frequency_command_pending l)
         \<and> (\<forall>i. (True, i) \<in> set ts \<longrightarrow> wl_frequency_quiesce_pending l = Some i)
         \<and> (\<forall>q. wl_frequency_quiesce_pending l = Some q \<longrightarrow> last ts = (True, q)))"

definition waiting :: "restore_state \<Rightarrow> 'r lane_state \<Rightarrow> bool" where
  "waiting r l = (rs_restore_requested r \<or> wl_pending_reload l \<noteq> None)"

definition lanes_ok :: "barrier_mode \<Rightarrow> 'r lane_state \<Rightarrow> restore_state \<Rightarrow> bool" where
  "lanes_ok strict l r =
     ((wl_frequency_quiesced l \<longrightarrow> wl_frequency_command_pending l = None \<and> wl_frequency_quiesce_pending l = None)
      \<and> (\<forall>q. wl_frequency_quiesce_pending l = Some q \<longrightarrow> wl_frequency_command_pending l = Some q \<and> waiting r l)
      \<and> (rs_restore_in_flight r \<noteq> None \<longrightarrow>
           wl_frequency_quiesced l \<and> wl_scheduler_in_flight l = None \<and> \<not> rs_restore_requested r)
      \<and> (strict = Settled \<and> \<not> rs_stop_requested r \<and> rs_restore_in_flight r = None \<and> waiting r l \<longrightarrow>
           wl_frequency_quiesce_pending l \<noteq> None \<or> wl_scheduler_in_flight l \<noteq> None))"

text \<open>Whoever waits, waits for a restoration that is requested or runs.\<close>

definition calls_ok :: "restore_state \<Rightarrow> message option \<Rightarrow> bool" where
  "calls_ok r failure =
     (let restoring = rs_restore_requested r \<or> rs_restore_in_flight r \<noteq> None
      in (restoring \<longrightarrow> rs_suspended r) \<and> (rs_restore_in_flight r \<noteq> None \<longrightarrow> \<not> rs_restore_requested r)
         \<and> (rs_sleep_waiters r \<noteq> [] \<or> rs_wake_waiters r \<noteq> [] \<or> rs_stop_waiters r \<noteq> [] \<longrightarrow> restoring)
         \<and> (rs_suspended r \<and> \<not> rs_restored_while_suspended r \<and> failure = None \<longrightarrow> restoring)
         \<and> (rs_wake_waiters r \<noteq> [] \<longrightarrow> rs_pending_resume r))"

definition tasks_ok :: "nat \<Rightarrow> u64 list \<Rightarrow> u64 option \<Rightarrow> bool" where
  "tasks_ok n spawned in_flight = (n \<le> length spawned \<and> drop n spawned = option_list in_flight)"

text \<open>A worker that died has said so, or the actor knows and submits nothing more.\<close>

definition death_known :: "daemon_world \<Rightarrow> 'r lane_state \<Rightarrow> fence_state \<Rightarrow> bool" where
  "death_known W l f =
     (dw_running W = None
      \<and> (\<forall>t \<in> set (taken_tokens W). snd t \<le> wl_next_frequency_command_id l)
      \<and> (\<forall>i. (False, i) \<in> set (taken_tokens W) \<longrightarrow> wl_frequency_quiesce_pending l \<noteq> Some i)
      \<and> ((\<exists>e. FailedEvent e \<in> set (dw_events W))
         \<or> wl_frequency_quiesced l \<and> fe_worker_failure f \<noteq> None \<and> fe_actuator_read_only f))"

definition workers_ok :: "daemon_world \<Rightarrow> frequency_worker_command list \<Rightarrow> 'r lane_state \<Rightarrow> fence_state \<Rightarrow> bool" where
  "workers_ok W cs l f = (if dw_alive W then queue_ok W cs l else death_known W l f)"

definition daemon_ok :: "barrier_mode \<Rightarrow> ('w \<Rightarrow> bool) \<Rightarrow> daemon_world \<Rightarrow> ('w, 'r) runtime_actor \<Rightarrow> bool" where
  "daemon_ok strict open_channel W a =
     (let l = ra_lanes a; r = ra_restore a; f = ra_fence a
      in (strict \<noteq> Telling \<longrightarrow> calls_ok r (fe_restore_failure f))
         \<and> tasks_ok (dw_scheduled W) (scheduler_spawns a) (wl_scheduler_in_flight l)
         \<and> tasks_ok (dw_restored W) (restore_spawns a) (rs_restore_in_flight r)
         \<and> (open_channel (ra_env a) \<or> \<not> dw_alive W) \<and> dw_taken W \<le> length (frequency_commands a)
         \<and> (wl_next_frequency_command_id l < - 1 \<longrightarrow>
              lanes_ok strict l r \<and> workers_ok W (frequency_commands a) l f))"

lemma daemon_okI:
  assumes "strict \<noteq> Telling \<Longrightarrow> calls_ok (ra_restore a) (fe_restore_failure (ra_fence a))"
    and "tasks_ok (dw_scheduled W) (scheduler_spawns a) (wl_scheduler_in_flight (ra_lanes a))"
    and "tasks_ok (dw_restored W) (restore_spawns a) (rs_restore_in_flight (ra_restore a))"
    and "open_channel (ra_env a) \<or> \<not> dw_alive W" "dw_taken W \<le> length (frequency_commands a)"
    and "wl_next_frequency_command_id (ra_lanes a) < - 1 \<Longrightarrow> lanes_ok strict (ra_lanes a) (ra_restore a)"
    and "wl_next_frequency_command_id (ra_lanes a) < - 1 \<Longrightarrow> workers_ok W (frequency_commands a) (ra_lanes a) (ra_fence a)"
  shows "daemon_ok strict open_channel W a"
  using assms by (simp add: daemon_ok_def Let_def)

lemma daemon_okD:
  assumes "daemon_ok strict open_channel W a"
  shows "strict \<noteq> Telling \<Longrightarrow> calls_ok (ra_restore a) (fe_restore_failure (ra_fence a))"
    and "tasks_ok (dw_scheduled W) (scheduler_spawns a) (wl_scheduler_in_flight (ra_lanes a))"
    and "tasks_ok (dw_restored W) (restore_spawns a) (rs_restore_in_flight (ra_restore a))"
    and "open_channel (ra_env a) \<or> \<not> dw_alive W" "dw_taken W \<le> length (frequency_commands a)"
    and "wl_next_frequency_command_id (ra_lanes a) < - 1 \<Longrightarrow> lanes_ok strict (ra_lanes a) (ra_restore a)"
    and "wl_next_frequency_command_id (ra_lanes a) < - 1 \<Longrightarrow> workers_ok W (frequency_commands a) (ra_lanes a) (ra_fence a)"
  using assms by (simp_all add: daemon_ok_def Let_def)

text \<open>What the workers' part depends on.\<close>

lemma workers_ok_moved:
  assumes "workers_ok W cs l f"
    and "wl_next_frequency_command_id l' = wl_next_frequency_command_id l"
      "wl_frequency_command_pending l' = wl_frequency_command_pending l"
      "wl_frequency_quiesce_pending l' = wl_frequency_quiesce_pending l" "wl_frequency_quiesced l' = wl_frequency_quiesced l"
    and "fe_worker_failure f \<noteq> None \<and> fe_actuator_read_only f \<Longrightarrow> fe_worker_failure f' \<noteq> None \<and> fe_actuator_read_only f'"
  shows "workers_ok W cs l' f'"
proof -
  have "queue_ok W cs l \<Longrightarrow> queue_ok W cs l'"
    using assms(2-4) by (simp add: queue_ok_def)
  moreover have "death_known W l f \<Longrightarrow> death_known W l' f'"
    using assms(2,4,5,6) unfolding death_known_def by force
  ultimately show ?thesis
    using assms(1) by (simp add: workers_ok_def split: if_splits)
qed

lemma lanes_ok_request:
  assumes "lanes_ok strict l r" "rs_restore_in_flight r' = rs_restore_in_flight r"
    and "rs_restore_requested r \<Longrightarrow> rs_restore_requested r'" "rs_restore_in_flight r' \<noteq> None \<longrightarrow> \<not> rs_restore_requested r'"
  shows "lanes_ok Driving l r'"
  using assms unfolding lanes_ok_def waiting_def by simp blast

section \<open>What the invariant depends on\<close>

lemma daemon_ok_moved:
  assumes "daemon_ok strict open_channel W a"
    and "ra_lanes b = ra_lanes a" "ra_restore b = ra_restore a"
    and "frequency_commands b = frequency_commands a" "scheduler_spawns b = scheduler_spawns a" "restore_spawns b = restore_spawns a"
    and "fe_restore_failure (ra_fence b) = fe_restore_failure (ra_fence a)"
    and "open_channel (ra_env b) = open_channel (ra_env a)"
    and latch: "fe_worker_failure (ra_fence a) \<noteq> None \<and> fe_actuator_read_only (ra_fence a)
      \<Longrightarrow> fe_worker_failure (ra_fence b) \<noteq> None \<and> fe_actuator_read_only (ra_fence b)"
  shows "daemon_ok strict open_channel W b"
  using assms(1-8) workers_ok_moved [of W "frequency_commands a" "ra_lanes a" "ra_fence a" "ra_lanes a" "ra_fence b"] latch
  by (simp add: daemon_ok_def Let_def)

lemma daemon_ok_lanes:
  assumes ok: "daemon_ok strict open_channel W a"
    and keeps: "wl_next_frequency_command_id (g (ra_lanes a)) = wl_next_frequency_command_id (ra_lanes a)"
      "wl_frequency_command_pending (g (ra_lanes a)) = wl_frequency_command_pending (ra_lanes a)"
      "wl_frequency_quiesce_pending (g (ra_lanes a)) = wl_frequency_quiesce_pending (ra_lanes a)"
      "wl_frequency_quiesced (g (ra_lanes a)) = wl_frequency_quiesced (ra_lanes a)"
      "wl_scheduler_in_flight (g (ra_lanes a)) = wl_scheduler_in_flight (ra_lanes a)"
      "wl_pending_reload (g (ra_lanes a)) = wl_pending_reload (ra_lanes a)"
  shows "daemon_ok strict open_channel W (ra_lanes_update g a)"
proof (rule daemon_okI)
  note old = daemon_okD [OF ok]
  assume "wl_next_frequency_command_id (ra_lanes (ra_lanes_update g a)) < - 1"
  then have room: "wl_next_frequency_command_id (ra_lanes a) < - 1"
    using keeps by simp
  show "lanes_ok strict (ra_lanes (ra_lanes_update g a)) (ra_restore (ra_lanes_update g a))"
    using old(6) [OF room] keeps by (simp add: lanes_ok_def waiting_def)
  show "workers_ok W (frequency_commands (ra_lanes_update g a)) (ra_lanes (ra_lanes_update g a)) (ra_fence (ra_lanes_update g a))"
    using keeps by simp (rule workers_ok_moved [OF old(7) [OF room]], simp_all)
qed (use daemon_okD [OF ok] keeps in simp_all)

section \<open>Preservation\<close>

locale steady_runtime =
  fixes E :: "('w, 'r) runtime_ports" and open_channel :: "'w \<Rightarrow> bool"
  assumes sends: "fst (rn_frequency_channel_open E w) = open_channel w"
    and steady: "open_channel (snd (rn_frequency_channel_open E w)) = open_channel w"
      "open_channel (snd (rn_monotonic_millis E w)) = open_channel w"
      "open_channel (snd (rn_identity_reader E w)) = open_channel w"
      "open_channel (snd (rn_startup_recovery_required E w)) = open_channel w"
      "open_channel (snd (rn_actuator_mode E w)) = open_channel w"
begin

lemma calm_daemon: "daemon_ok strict open_channel W a \<Longrightarrow> same_lanes a b \<Longrightarrow> daemon_ok strict open_channel W b"
proof (erule daemon_ok_moved)
  assume same: "same_lanes a b"
  then have effects: "ra_effects b = ra_effects a"
    by (simp add: same_lanes_def)
  show "frequency_commands b = frequency_commands a" "scheduler_spawns b = scheduler_spawns a" "restore_spawns b = restore_spawns a"
    by (rule logs_cong [OF effects])+
qed (simp_all add: same_lanes_def)

lemma steady_env:
  "daemon_ok strict open_channel W a \<Longrightarrow> open_channel w = open_channel (ra_env a) \<Longrightarrow> daemon_ok strict open_channel W (a\<lparr>ra_env := w\<rparr>)"
  by (erule daemon_ok_moved) simp_all

lemma plain_daemon: "daemon_ok strict open_channel W a \<Longrightarrow> plain_effect e \<Longrightarrow> daemon_ok strict open_channel W (emit e a)"
  by (cases e) (simp_all add: daemon_ok_def Let_def)

lemma fence_fields:
  "ra_lanes (request_frequency_safety_update caps a) = ra_lanes a"
  "ra_restore (request_frequency_safety_update caps a) = ra_restore a"
  "frequency_commands (request_frequency_safety_update caps a) = frequency_commands a"
  "scheduler_spawns (request_frequency_safety_update caps a) = scheduler_spawns a"
  "restore_spawns (request_frequency_safety_update caps a) = restore_spawns a"
  "ra_env (request_frequency_safety_update caps a) = ra_env a"
  "fe_restore_failure (ra_fence (request_frequency_safety_update caps a)) = fe_restore_failure (ra_fence a)"
  "fe_worker_failure (ra_fence (request_frequency_safety_update caps a)) = fe_worker_failure (ra_fence a)"
  "fe_actuator_read_only (ra_fence (request_frequency_safety_update caps a)) = fe_actuator_read_only (ra_fence a)"
  by (simp_all add: request_frequency_safety_update_def start_frequency_safety_update_def Let_def)

lemma fenced_daemon: "daemon_ok strict open_channel W a \<Longrightarrow> daemon_ok strict open_channel W (request_frequency_safety_update caps a)"
  by (erule daemon_ok_moved) (simp_all add: fence_fields)

lemma failed_daemon: "daemon_ok strict open_channel W a \<Longrightarrow> daemon_ok strict open_channel W (fail_reconcile_worker msg a)"
  by (erule daemon_ok_moved) (simp_all add: fail_reconcile_worker_def set_issue_def Let_def)

lemma refresh_fields:
  "ra_lanes (refresh_actuator_health E a) = ra_lanes a" "ra_restore (refresh_actuator_health E a) = ra_restore a"
  "ra_effects (refresh_actuator_health E a) = ra_effects a"
  "fe_restore_failure (ra_fence (refresh_actuator_health E a)) = fe_restore_failure (ra_fence a)"
  "fe_worker_failure (ra_fence (refresh_actuator_health E a)) = fe_worker_failure (ra_fence a)"
  "open_channel (ra_env (refresh_actuator_health E a)) = open_channel (ra_env a)"
  "fe_worker_failure (ra_fence a) \<noteq> None \<Longrightarrow> fe_actuator_read_only (ra_fence (refresh_actuator_health E a))"
  by (simp_all add: refresh_actuator_health_def Let_def clear_issue_def set_issue_def split_beta steady
      split: sum.split actuator_mode.split)

lemma refreshed_daemon: "daemon_ok strict open_channel W a \<Longrightarrow> daemon_ok strict open_channel W (refresh_actuator_health E a)"
  by (erule daemon_ok_moved) (simp_all add: refresh_fields logs_cong [OF refresh_fields(3)])

lemma send_fields:
  "fst (send_frequency_command E c a) = open_channel (ra_env a)"
  "ra_lanes (snd (send_frequency_command E c a)) = ra_lanes a" "ra_restore (snd (send_frequency_command E c a)) = ra_restore a"
  "ra_fence (snd (send_frequency_command E c a)) = ra_fence a"
  "open_channel (ra_env (snd (send_frequency_command E c a))) = open_channel (ra_env a)"
  "frequency_commands (snd (send_frequency_command E c a)) = frequency_commands a @ (if open_channel (ra_env a) then [c] else [])"
  "scheduler_spawns (snd (send_frequency_command E c a)) = scheduler_spawns a"
  "restore_spawns (snd (send_frequency_command E c a)) = restore_spawns a"
  by (simp_all add: send_frequency_command_def split_beta Let_def sends steady)

end

lemma u64_next:
  fixes i n :: u64
  assumes "u64_saturating_add n 1 < - 1"
  shows "n < u64_saturating_add n 1" "n < - 1" "i \<le> n \<Longrightarrow> i < u64_saturating_add n 1"
proof -
  have "unat (- 1 :: u64) = 18446744073709551615"
    by simp
  then show "n < u64_saturating_add n 1" "n < - 1" "i \<le> n \<Longrightarrow> i < u64_saturating_add n 1"
    using assms by (simp_all add: word_less_nat_alt word_le_nat_alt machine_int)
qed

text \<open>A command that replaces the one in the channel.\<close>

lemma queue_sent:
  assumes ok: "queue_ok W cs l" and room: "u64_saturating_add (wl_next_frequency_command_id l) 1 < - 1"
    and fresh: "cid = u64_saturating_add (wl_next_frequency_command_id l) 1" "command_token c = (q, cid)"
    and idle: "wl_frequency_quiesce_pending l = None" and taken: "dw_taken W \<le> length cs"
    and after: "wl_next_frequency_command_id l' = cid" "wl_frequency_command_pending l' = Some cid"
      "wl_frequency_quiesce_pending l' = (if q then Some cid else None)"
  shows "queue_ok W (cs @ [c]) l'"
proof -
  have ts: "outstanding W (cs @ [c]) = taken_tokens W @ [(q, cid)]"
    using taken fresh(2) by (simp add: outstanding_def slot_tokens_def)
  have sorted: "sorted_wrt (<) (map snd (taken_tokens W))"
    and below: "\<forall>t \<in> set (taken_tokens W). snd t \<le> wl_next_frequency_command_id l"
    and plain: "\<forall>i. (True, i) \<notin> set (taken_tokens W)"
    using ok idle by (auto simp: queue_ok_def Let_def outstanding_def sorted_wrt_append)
  have less: "\<forall>t \<in> set (taken_tokens W). snd t < cid"
    using below u64_next(3) [OF room] fresh(1) by blast
  then have "\<forall>t \<in> set (taken_tokens W). snd t \<le> cid"
    using less_imp_le by blast
  then show ?thesis
    using ok sorted less plain after unfolding queue_ok_def Let_def ts by (simp add: sorted_wrt_append)
qed

lemma death_known_sent:
  assumes "death_known W l f" "\<not> fe_actuator_read_only f \<or> \<not> wl_frequency_quiesced l"
    and "wl_next_frequency_command_id l < wl_next_frequency_command_id l'"
    and "\<forall>t \<in> set (taken_tokens W). wl_frequency_quiesce_pending l' \<noteq> Some (snd t)"
  shows "death_known W l' f'"
  using assms by (fastforce simp: death_known_def)

context steady_runtime
begin

lemma failed_fields:
  "ra_lanes (fail_reconcile_worker msg a) = ra_lanes a" "ra_restore (fail_reconcile_worker msg a) = ra_restore a"
  "ra_env (fail_reconcile_worker msg a) = ra_env a" "frequency_commands (fail_reconcile_worker msg a) = frequency_commands a"
  "scheduler_spawns (fail_reconcile_worker msg a) = scheduler_spawns a"
  "restore_spawns (fail_reconcile_worker msg a) = restore_spawns a"
  "fe_restore_failure (ra_fence (fail_reconcile_worker msg a)) = fe_restore_failure (ra_fence a)"
  "fe_worker_failure (ra_fence (fail_reconcile_worker msg a)) \<noteq> None"
  "fe_actuator_read_only (ra_fence (fail_reconcile_worker msg a))"
  by (simp_all add: fail_reconcile_worker_def set_issue_def Let_def)

lemma submit_fields:
  fixes a :: "('w, 'r) runtime_actor" and desired :: desired_plan
  defines "b \<equiv> submit_frequency_reconcile E desired a"
  assumes "\<not> (wl_frequency_command_pending (ra_lanes a) \<noteq> None
              \<and> wl_frequency_requested (ra_lanes a) = Some (frequency_intent_of desired))"
  shows "ra_restore b = ra_restore a" "open_channel (ra_env b) = open_channel (ra_env a)"
    "scheduler_spawns b = scheduler_spawns a" "restore_spawns b = restore_spawns a"
    "fe_restore_failure (ra_fence b) = fe_restore_failure (ra_fence a)"
    "\<exists>job drift. frequency_commands b = frequency_commands a @
       (if open_channel (ra_env a) then [ReconcileCommand (u64_saturating_add (wl_next_frequency_command_id (ra_lanes a)) 1) job drift] else [])"
    "ra_lanes b =
       (let cid = u64_saturating_add (wl_next_frequency_command_id (ra_lanes a)) 1
        in if open_channel (ra_env a)
           then (ra_lanes a)\<lparr>wl_next_frequency_command_id := cid, wl_frequency_command_pending := Some cid,
                  wl_frequency_quiesce_pending := None, wl_frequency_quiesced := False, wl_frequency_requested := Some (frequency_intent_of desired)\<rparr>
           else (ra_lanes a)\<lparr>wl_next_frequency_command_id := cid\<rparr>)"
  unfolding b_def submit_frequency_reconcile_def Let_def if_not_P [OF assms(2)] split_beta
  by (simp_all add: send_fields failed_fields)

lemma submitted_frequency:
  assumes ok: "daemon_ok strict open_channel W a" and go: "\<not> mutation_blocked a" "\<not> fe_actuator_read_only (ra_fence a)"
  shows "daemon_ok strict open_channel W (submit_frequency_reconcile E desired a)"
proof (cases "wl_frequency_command_pending (ra_lanes a) \<noteq> None
              \<and> wl_frequency_requested (ra_lanes a) = Some (frequency_intent_of desired)")
  case True
  then show ?thesis
    using ok by (simp add: submit_frequency_reconcile_def)
next
  case False
  define b where "b = submit_frequency_reconcile E desired a"
  define cid where "cid = u64_saturating_add (wl_next_frequency_command_id (ra_lanes a)) 1"
  note fields = submit_fields [OF False, folded b_def cid_def]
  have lanes: "ra_lanes b = (if open_channel (ra_env a)
      then (ra_lanes a)\<lparr>wl_next_frequency_command_id := cid, wl_frequency_command_pending := Some cid,
             wl_frequency_quiesce_pending := None, wl_frequency_quiesced := False, wl_frequency_requested := Some (frequency_intent_of desired)\<rparr>
      else (ra_lanes a)\<lparr>wl_next_frequency_command_id := cid\<rparr>)"
    using fields(7) by (simp add: Let_def)
  obtain job drift where sent: "frequency_commands b = frequency_commands a @
      (if open_channel (ra_env a) then [ReconcileCommand cid job drift] else [])"
    using fields(6) by blast
  have free: "\<not> waiting (ra_restore a) (ra_lanes a)" "rs_restore_in_flight (ra_restore a) = None"
    using go(1) by (simp_all add: mutation_blocked_def waiting_def)
  have cid_b: "wl_next_frequency_command_id (ra_lanes b) = cid" "wl_scheduler_in_flight (ra_lanes b) = wl_scheduler_in_flight (ra_lanes a)"
    by (simp_all add: lanes)
  note old = daemon_okD [OF ok]
  have room: "wl_next_frequency_command_id (ra_lanes a) < cid" "wl_next_frequency_command_id (ra_lanes a) < - 1" if "cid < - 1"
    using u64_next that unfolding cid_def by blast+
  have idle: "wl_frequency_quiesce_pending (ra_lanes a) = None" if "cid < - 1"
    using old(6) [OF room(2) [OF that]] free by (auto simp: lanes_ok_def)
  show ?thesis
    unfolding b_def [symmetric]
  proof (rule daemon_okI)
    assume small: "wl_next_frequency_command_id (ra_lanes b) < - 1"
    then have cid: "cid < - 1"
      by (simp add: cid_b)
    show "lanes_ok strict (ra_lanes b) (ra_restore b)"
      using old(6) [OF room(2) [OF cid]] free idle [OF cid] by (auto simp: lanes_ok_def lanes fields(1) waiting_def)
    have workers: "workers_ok W (frequency_commands a) (ra_lanes a) (ra_fence a)"
      using old(7) [OF room(2) [OF cid]] .
    have "queue_ok W (frequency_commands b) (ra_lanes b)" if "dw_alive W"
    proof -
      have up: "open_channel (ra_env a)"
        using old(4) that by simp
      show ?thesis
        using workers that up cid idle [OF cid] queue_sent [OF _ _ _ _ idle [OF cid] old(5), of cid "ReconcileCommand cid job drift" False "ra_lanes b"]
        by (simp add: workers_ok_def sent lanes cid_def)
    qed
    moreover have "death_known W (ra_lanes b) (ra_fence b)" if "\<not> dw_alive W"
      by (rule death_known_sent)
        (use go(2) that workers room [OF cid] idle [OF cid] in \<open>auto simp: lanes workers_ok_def\<close>)
    ultimately show "workers_ok W (frequency_commands b) (ra_lanes b) (ra_fence b)"
      by (simp add: workers_ok_def)
  qed (use old in \<open>simp_all add: fields(1-5) cid_b sent\<close>)
qed

lemma submitted_scheduler:
  assumes ok: "daemon_ok strict open_channel W a"
    and go: "\<not> waiting (ra_restore a) (ra_lanes a)" "rs_restore_in_flight (ra_restore a) = None"
  shows "daemon_ok strict open_channel W (submit_scheduler_reconcile desired a)"
proof (cases "wl_scheduler_in_flight (ra_lanes a)")
  case None
  note old = daemon_okD [OF ok]
  show ?thesis
  proof (rule daemon_okI)
    show "tasks_ok (dw_scheduled W) (scheduler_spawns (submit_scheduler_reconcile desired a))
        (wl_scheduler_in_flight (ra_lanes (submit_scheduler_reconcile desired a)))"
      using old(2) None by (simp add: submit_scheduler_reconcile_def Let_def tasks_ok_def)
    assume "wl_next_frequency_command_id (ra_lanes (submit_scheduler_reconcile desired a)) < - 1"
    then have room: "wl_next_frequency_command_id (ra_lanes a) < - 1"
      using None by (simp add: submit_scheduler_reconcile_def Let_def)
    show "lanes_ok strict (ra_lanes (submit_scheduler_reconcile desired a)) (ra_restore (submit_scheduler_reconcile desired a))"
      using old(6) [OF room] go None by (simp add: submit_scheduler_reconcile_def Let_def lanes_ok_def waiting_def)
    show "workers_ok W (frequency_commands (submit_scheduler_reconcile desired a)) (ra_lanes (submit_scheduler_reconcile desired a))
        (ra_fence (submit_scheduler_reconcile desired a))"
      using None by (simp add: submit_scheduler_reconcile_def Let_def) (rule workers_ok_moved [OF old(7) [OF room]], simp_all)
  qed (use old None in \<open>simp_all add: submit_scheduler_reconcile_def Let_def\<close>)
next
  case (Some sid)
  then show ?thesis
    using daemon_ok_lanes [OF ok, of "\<lambda>l. l\<lparr>wl_scheduler_pending := True\<rparr>"] by (simp add: submit_scheduler_reconcile_def)
qed

lemma submitted_daemon:
  assumes ok: "daemon_ok strict open_channel W a"
  shows "daemon_ok strict open_channel W (submit_plan E now desired a)"
proof -
  have calm: "daemon_ok strict open_channel W (ra_outcome_update f a)" for f
    by (rule calm_daemon [OF ok]) (simp add: same_lanes_def)
  have both: "daemon_ok strict open_channel W (submit_scheduler_reconcile desired (submit_frequency_reconcile E desired a))"
    "daemon_ok strict open_channel W (submit_scheduler_reconcile desired a)"
    if go: "\<not> mutation_blocked a" "\<not> fe_actuator_read_only (ra_fence a)"
  proof -
    have free: "\<not> waiting (ra_restore a) (ra_lanes a)" "rs_restore_in_flight (ra_restore a) = None"
      using go(1) by (simp_all add: mutation_blocked_def waiting_def)
    show "daemon_ok strict open_channel W (submit_scheduler_reconcile desired a)"
      by (rule submitted_scheduler [OF ok free])
    have "ra_restore (submit_frequency_reconcile E desired a) = ra_restore a"
      "wl_pending_reload (ra_lanes (submit_frequency_reconcile E desired a)) = wl_pending_reload (ra_lanes a)"
      by (simp_all add: submit_frequency_reconcile_def Let_def split_beta send_fields failed_fields)
    then show "daemon_ok strict open_channel W (submit_scheduler_reconcile desired (submit_frequency_reconcile E desired a))"
      using free by (intro submitted_scheduler submitted_frequency ok go) (simp_all add: waiting_def)
  qed
  then show ?thesis
    using ok calm submitted_frequency [OF ok] by (simp add: submit_plan_def Let_def)
qed

end

sublocale steady_runtime \<subseteq> daemon: actor_frame E "daemon_ok strict open_channel W" for strict W
  by unfold_locales
    (simp_all add: calm_daemon steady_env steady plain_daemon fenced_daemon failed_daemon refreshed_daemon submitted_daemon)

context steady_runtime
begin

lemma daemon_ok_restore:
  assumes ok: "daemon_ok strict open_channel W a"
    and keeps: "rs_restore_requested (g (ra_restore a)) = rs_restore_requested (ra_restore a)"
      "rs_restore_in_flight (g (ra_restore a)) = rs_restore_in_flight (ra_restore a)"
      "rs_stop_requested (ra_restore a) \<Longrightarrow> rs_stop_requested (g (ra_restore a))"
    and calls: "strict \<noteq> Telling \<Longrightarrow> calls_ok (g (ra_restore a)) (fe_restore_failure (ra_fence a))"
  shows "daemon_ok strict open_channel W (ra_restore_update g a)"
proof (rule daemon_okI)
  note old = daemon_okD [OF ok]
  assume "wl_next_frequency_command_id (ra_lanes (ra_restore_update g a)) < - 1"
  then have room: "wl_next_frequency_command_id (ra_lanes a) < - 1"
    by simp
  show "lanes_ok strict (ra_lanes (ra_restore_update g a)) (ra_restore (ra_restore_update g a))"
    using old(6) [OF room] keeps by (auto simp: lanes_ok_def waiting_def)
  show "workers_ok W (frequency_commands (ra_restore_update g a)) (ra_lanes (ra_restore_update g a)) (ra_fence (ra_restore_update g a))"
    using old(7) [OF room] by simp
qed (use daemon_okD [OF ok] keeps calls in simp_all)

text \<open>The barrier has nothing left to wait for, or waits for a report.\<close>

lemma quiesce_fields:
  fixes a :: "('w, 'r) runtime_actor"
  defines "b \<equiv> request_frequency_quiesce E a"
  shows "ra_restore b = ra_restore a" "open_channel (ra_env b) = open_channel (ra_env a)"
    "scheduler_spawns b = scheduler_spawns a" "restore_spawns b = restore_spawns a"
    "fe_restore_failure (ra_fence b) = fe_restore_failure (ra_fence a)"
    "wl_scheduler_in_flight (ra_lanes b) = wl_scheduler_in_flight (ra_lanes a)"
    "wl_pending_reload (ra_lanes b) = wl_pending_reload (ra_lanes a)"
  unfolding b_def by (simp_all add: request_frequency_quiesce_def Let_def split_beta send_fields failed_fields)

lemma quiesced_daemon:
  assumes ok: "daemon_ok Driving open_channel W a" and wait: "waiting (ra_restore a) (ra_lanes a)"
    and calm: "rs_restore_in_flight (ra_restore a) = None"
  shows "daemon_ok Driving open_channel W (request_frequency_quiesce E a)"
    and "wl_next_frequency_command_id (ra_lanes (request_frequency_quiesce E a)) < - 1 \<Longrightarrow>
      wl_frequency_quiesced (ra_lanes (request_frequency_quiesce E a))
      \<or> wl_frequency_quiesce_pending (ra_lanes (request_frequency_quiesce E a)) \<noteq> None"
proof -
  define b where "b = request_frequency_quiesce E a"
  define cid where "cid = u64_saturating_add (wl_next_frequency_command_id (ra_lanes a)) 1"
  note old = daemon_okD [OF ok] and fields = quiesce_fields [of a, folded b_def]
  consider (quiet) "wl_frequency_quiesced (ra_lanes a) \<or> wl_frequency_quiesce_pending (ra_lanes a) \<noteq> None" "b = a"
    | (sent) "\<not> wl_frequency_quiesced (ra_lanes a)" "wl_frequency_quiesce_pending (ra_lanes a) = None" "open_channel (ra_env a)"
        "ra_lanes b = (ra_lanes a)\<lparr>wl_next_frequency_command_id := cid, wl_frequency_command_pending := Some cid,
           wl_frequency_quiesce_pending := Some cid, wl_frequency_requested := None\<rparr>"
        "frequency_commands b = frequency_commands a @ [QuiesceCommand cid]" "ra_fence b = ra_fence a"
    | (closed) "\<not> wl_frequency_quiesced (ra_lanes a)" "wl_frequency_quiesce_pending (ra_lanes a) = None" "\<not> open_channel (ra_env a)"
        "ra_lanes b = (ra_lanes a)\<lparr>wl_next_frequency_command_id := cid, wl_frequency_command_pending := None,
           wl_frequency_requested := None, wl_frequency_quiesced := True\<rparr>"
        "frequency_commands b = frequency_commands a" "fe_worker_failure (ra_fence b) \<noteq> None" "fe_actuator_read_only (ra_fence b)"
    by (cases "wl_frequency_quiesced (ra_lanes a) \<or> wl_frequency_quiesce_pending (ra_lanes a) \<noteq> None"; cases "open_channel (ra_env a)")
      (auto simp: b_def cid_def request_frequency_quiesce_def Let_def split_beta send_fields failed_fields)
  then have "daemon_ok Driving open_channel W b \<and> (wl_next_frequency_command_id (ra_lanes b) < - 1 \<longrightarrow>
      wl_frequency_quiesced (ra_lanes b) \<or> wl_frequency_quiesce_pending (ra_lanes b) \<noteq> None)"
  proof cases
    case quiet
    then show ?thesis
      using ok by simp
  next
    case sent
    have "daemon_ok Driving open_channel W b"
    proof (rule daemon_okI)
      assume "wl_next_frequency_command_id (ra_lanes b) < - 1"
      then have cid: "cid < - 1"
        by (simp add: sent)
      then have room: "wl_next_frequency_command_id (ra_lanes a) < cid" "wl_next_frequency_command_id (ra_lanes a) < - 1"
        using u64_next unfolding cid_def by blast+
      show "lanes_ok Driving (ra_lanes b) (ra_restore b)"
        using old(6) [OF room(2)] wait calm sent(1) by (simp add: lanes_ok_def sent fields waiting_def)
      have workers: "workers_ok W (frequency_commands a) (ra_lanes a) (ra_fence a)"
        using old(7) [OF room(2)] .
      have "queue_ok W (frequency_commands b) (ra_lanes b)" if "dw_alive W"
        using workers that cid queue_sent [OF _ _ _ _ sent(2) old(5), of cid "QuiesceCommand cid" True "ra_lanes b"]
        by (simp add: workers_ok_def sent cid_def)
      moreover have "death_known W (ra_lanes b) (ra_fence b)" if "\<not> dw_alive W"
        by (rule death_known_sent) (use that workers sent(1) room in \<open>auto simp: sent workers_ok_def death_known_def\<close>)
      ultimately show "workers_ok W (frequency_commands b) (ra_lanes b) (ra_fence b)"
        by (simp add: workers_ok_def)
    qed (use old in \<open>simp_all add: fields sent\<close>)
    then show ?thesis
      by (simp add: sent)
  next
    case closed
    have "daemon_ok Driving open_channel W b"
    proof (rule daemon_okI)
      assume "wl_next_frequency_command_id (ra_lanes b) < - 1"
      then have "cid < - 1"
        by (simp add: closed)
      then have room: "wl_next_frequency_command_id (ra_lanes a) < cid" "wl_next_frequency_command_id (ra_lanes a) < - 1"
        using u64_next unfolding cid_def by blast+
      show "lanes_ok Driving (ra_lanes b) (ra_restore b)"
        using old(6) [OF room(2)] calm by (simp add: lanes_ok_def closed fields waiting_def)
      show "workers_ok W (frequency_commands b) (ra_lanes b) (ra_fence b)"
        using old(4) old(7) [OF room(2)] closed(2,3,6,7) room(1) by (fastforce simp: workers_ok_def death_known_def closed(4))
    qed (use old in \<open>simp_all add: fields closed\<close>)
    then show ?thesis
      by (simp add: closed)
  qed
  then show "daemon_ok Driving open_channel W (request_frequency_quiesce E a)"
    and "wl_next_frequency_command_id (ra_lanes (request_frequency_quiesce E a)) < - 1 \<Longrightarrow>
      wl_frequency_quiesced (ra_lanes (request_frequency_quiesce E a))
      \<or> wl_frequency_quiesce_pending (ra_lanes (request_frequency_quiesce E a)) \<noteq> None"
    by (simp_all add: b_def)
qed

lemma strictly:
  assumes "daemon_ok Driving open_channel W a"
    and "wl_next_frequency_command_id (ra_lanes a) < - 1 \<Longrightarrow> \<not> rs_stop_requested (ra_restore a)
      \<Longrightarrow> rs_restore_in_flight (ra_restore a) = None \<Longrightarrow> waiting (ra_restore a) (ra_lanes a)
      \<Longrightarrow> wl_frequency_quiesce_pending (ra_lanes a) \<noteq> None \<or> wl_scheduler_in_flight (ra_lanes a) \<noteq> None"
  shows "daemon_ok Settled open_channel W a"
  using assms by (auto simp: daemon_ok_def Let_def lanes_ok_def)

lemma loosely: "daemon_ok Settled open_channel W a \<Longrightarrow> daemon_ok Driving open_channel W a"
  by (auto simp: daemon_ok_def Let_def lanes_ok_def)

lemma restore_started:
  assumes ok: "daemon_ok Driving open_channel W a" and quiet: "wl_frequency_quiesced (ra_lanes a)" "wl_scheduler_in_flight (ra_lanes a) = None"
    and requested: "rs_restore_requested (ra_restore a)" "rs_restore_in_flight (ra_restore a) = None"
  shows "daemon_ok Settled open_channel W (start_restore_worker a)"
proof (rule daemon_okI)
  note old = daemon_okD [OF ok]
  show "calls_ok (ra_restore (start_restore_worker a)) (fe_restore_failure (ra_fence (start_restore_worker a)))"
    using old(1) requested by (simp add: start_restore_worker_def calls_ok_def Let_def)
  show "tasks_ok (dw_restored W) (restore_spawns (start_restore_worker a)) (rs_restore_in_flight (ra_restore (start_restore_worker a)))"
    using old(3) requested by (simp add: start_restore_worker_def tasks_ok_def Let_def)
  assume "wl_next_frequency_command_id (ra_lanes (start_restore_worker a)) < - 1"
  then have room: "wl_next_frequency_command_id (ra_lanes a) < - 1"
    by (simp add: start_restore_worker_def Let_def)
  show "lanes_ok Settled (ra_lanes (start_restore_worker a)) (ra_restore (start_restore_worker a))"
    using old(6) [OF room] quiet by (simp add: start_restore_worker_def lanes_ok_def Let_def)
  show "workers_ok W (frequency_commands (start_restore_worker a)) (ra_lanes (start_restore_worker a)) (ra_fence (start_restore_worker a))"
    using old(7) [OF room] by (simp add: start_restore_worker_def Let_def)
qed (use daemon_okD [OF ok] in \<open>simp_all add: start_restore_worker_def Let_def\<close>)

text \<open>The candidate leaves the barrier: nobody waits any more.\<close>

lemma reload_taken:
  assumes ok: "daemon_ok Driving open_channel W a" and quiet: "wl_frequency_quiesced (ra_lanes a)"
    and free: "\<not> rs_restore_requested (ra_restore a)"
  shows "daemon_ok Settled open_channel W (ra_lanes_update (\<lambda>l. l\<lparr>wl_reload_in_flight := False\<rparr>)
    (ra_lanes_update (\<lambda>l. l\<lparr>wl_pending_reload := None\<rparr>) a))" (is "daemon_ok _ _ _ ?b")
proof (rule daemon_okI)
  note old = daemon_okD [OF ok]
  assume "wl_next_frequency_command_id (ra_lanes ?b) < - 1"
  then have room: "wl_next_frequency_command_id (ra_lanes a) < - 1"
    by simp
  show "lanes_ok Settled (ra_lanes ?b) (ra_restore ?b)"
    using old(6) [OF room] quiet free by (simp add: lanes_ok_def waiting_def)
  show "workers_ok W (frequency_commands ?b) (ra_lanes ?b) (ra_fence ?b)"
    by simp (rule workers_ok_moved [OF old(7) [OF room]], simp_all)
qed (use daemon_okD [OF ok] in simp_all)

lemma driven:
  assumes ok: "daemon_ok Driving open_channel W a"
  shows "daemon_ok Settled open_channel W (snd (drive_mutation_barriers E a))"
proof (cases "rs_restore_in_flight (ra_restore a) = None \<and> waiting (ra_restore a) (ra_lanes a)")
  case False
  then have "snd (drive_mutation_barriers E a) = a"
    by (auto simp: drive_mutation_barriers_def waiting_def)
  then show ?thesis
    using strictly [OF ok] False by auto
next
  case True
  define a0 where "a0 = ra_lanes_update (\<lambda>l. l\<lparr>wl_scheduler_pending := False\<rparr>) a"
  define b where "b = request_frequency_quiesce E a0"
  have a0: "daemon_ok Driving open_channel W a0" "waiting (ra_restore a0) (ra_lanes a0)" "rs_restore_in_flight (ra_restore a0) = None"
    using daemon_ok_lanes [OF ok, of "\<lambda>l. l\<lparr>wl_scheduler_pending := False\<rparr>"] True by (simp_all add: a0_def waiting_def)
  note b = quiesced_daemon [OF a0, folded b_def] and fields = quiesce_fields [of a0, folded b_def]
  note old = daemon_okD [OF b(1)]
  have in_flight: "rs_restore_in_flight (ra_restore b) = None" and wait: "waiting (ra_restore b) (ra_lanes b)"
    using a0(2,3) by (simp_all add: fields waiting_def)
  have drive: "snd (drive_mutation_barriers E a) =
      (if \<not> wl_frequency_quiesced (ra_lanes b) \<or> wl_frequency_command_pending (ra_lanes b) \<noteq> None
          \<or> wl_scheduler_in_flight (ra_lanes b) \<noteq> None then b
       else if rs_restore_requested (ra_restore b) then start_restore_worker b
       else case wl_pending_reload (ra_lanes b) of
          Some (reply, candidate) \<Rightarrow> complete_reload E reply candidate (ra_lanes_update (\<lambda>l. l\<lparr>wl_pending_reload := None\<rparr>) b)
        | None \<Rightarrow> b)"
    using True by (simp add: drive_mutation_barriers_def waiting_def Let_def a0_def [symmetric] b_def [symmetric] split: option.split)
  have "daemon_ok Settled open_channel W b"
    if "\<not> wl_frequency_quiesced (ra_lanes b) \<or> wl_frequency_command_pending (ra_lanes b) \<noteq> None \<or> wl_scheduler_in_flight (ra_lanes b) \<noteq> None"
    by (rule strictly [OF b(1)]) (use that b(2) old(6) in \<open>auto simp: lanes_ok_def\<close>)
  moreover have "daemon_ok Settled open_channel W (start_restore_worker b)"
    if "wl_frequency_quiesced (ra_lanes b)" "wl_scheduler_in_flight (ra_lanes b) = None" "rs_restore_requested (ra_restore b)"
    by (rule restore_started [OF b(1) that in_flight])
  moreover have "daemon_ok Settled open_channel W (complete_reload E reply candidate (ra_lanes_update (\<lambda>l. l\<lparr>wl_pending_reload := None\<rparr>) b))"
    if "wl_frequency_quiesced (ra_lanes b)" "\<not> rs_restore_requested (ra_restore b)" for reply candidate
    by (rule daemon.reload_completed [OF reload_taken [OF b(1) that]])
  ultimately show ?thesis
    using wait unfolding drive by (auto simp: waiting_def)
qed

lemma worker_transition:
  assumes ok: "daemon_ok Driving open_channel W a"
  shows "daemon_ok Settled open_channel W (finish_worker_transition E a)"
proof -
  have "daemon_ok Settled open_channel W (snd (drive_mutation_barriers E (maybe_complete_applied_generation (refresh_actuator_health E a))))"
    by (intro driven daemon.adopted daemon.refreshed ok)
  then show ?thesis
    unfolding finish_worker_transition_def by (intro daemon.results daemon.branches daemon.evaluated)
qed

lemma daemon_ok_request:
  assumes ok: "daemon_ok strict open_channel W a"
    and keeps: "rs_restore_in_flight (g (ra_restore a)) = rs_restore_in_flight (ra_restore a)"
      "rs_restore_requested (ra_restore a) \<Longrightarrow> rs_restore_requested (g (ra_restore a))"
    and calls: "calls_ok (g (ra_restore a)) (fe_restore_failure (ra_fence a))"
  shows "daemon_ok Driving open_channel W (ra_restore_update g a)"
proof (rule daemon_okI)
  note old = daemon_okD [OF ok]
  assume "wl_next_frequency_command_id (ra_lanes (ra_restore_update g a)) < - 1"
  then have room: "wl_next_frequency_command_id (ra_lanes a) < - 1"
    by simp
  show "lanes_ok Driving (ra_lanes (ra_restore_update g a)) (ra_restore (ra_restore_update g a))"
    using lanes_ok_request [OF old(6) [OF room], of "g (ra_restore a)"] keeps calls by (simp add: calls_ok_def Let_def)
  show "workers_ok W (frequency_commands (ra_restore_update g a)) (ra_lanes (ra_restore_update g a)) (ra_fence (ra_restore_update g a))"
    using old(7) [OF room] by simp
qed (use daemon_okD [OF ok] keeps calls in simp_all)

lemma drained_daemon:
  fixes a :: "('w, 'r) runtime_actor"
  shows "daemon_ok strict open_channel W (ra_restore_update (\<lambda>r. r\<lparr>rs_sleep_waiters := []\<rparr>) a)
     \<Longrightarrow> daemon_ok strict open_channel W (drain_sleep ans a)"
  "daemon_ok strict open_channel W (ra_restore_update (\<lambda>r. r\<lparr>rs_wake_waiters := []\<rparr>) a)
     \<Longrightarrow> daemon_ok strict open_channel W (drain_wake ans a)"
  "daemon_ok strict open_channel W (ra_restore_update (\<lambda>r. r\<lparr>rs_stop_waiters := []\<rparr>) a)
     \<Longrightarrow> daemon_ok strict open_channel W (drain_stop ans a)"
  by (simp_all add: drain_sleep_def drain_wake_def drain_stop_def daemon.answered)

lemma suspended_fields:
  "ra_lanes (enter_suspended_state a) = (ra_lanes a)\<lparr>wl_scheduler_pending := False\<rparr>"
  "ra_restore (enter_suspended_state a) = (ra_restore a)\<lparr>rs_suspended := True, rs_restored_while_suspended := False\<rparr>"
  "ra_fence (enter_suspended_state a) = ra_fence a"
  by (simp_all add: enter_suspended_state_def forget_render_def)

lemma suspended_daemon:
  fixes a :: "('w, 'r) runtime_actor"
  assumes ok: "daemon_ok strict open_channel W a"
    and calls: "calls_ok (g (ra_restore (enter_suspended_state a))) (fe_restore_failure (ra_fence a))"
    and keeps: "rs_restore_in_flight (g (ra_restore (enter_suspended_state a))) = rs_restore_in_flight (ra_restore a)"
      "rs_restore_requested (ra_restore a) \<Longrightarrow> rs_restore_requested (g (ra_restore (enter_suspended_state a)))"
  shows "daemon_ok Driving open_channel W (ra_restore_update g (enter_suspended_state a))"
proof -
  define b where "b = ra_lanes_update (\<lambda>l. l\<lparr>wl_scheduler_pending := False\<rparr>)
    (forget_render (ra_interaction_update (\<lambda>i. i\<lparr>ia_hints := HintSet_new, ia_hint_generations := [], ia_ended := True, ia_contacts := {}\<rparr>) a))"
  have "daemon_ok strict open_channel W b"
    unfolding b_def by (rule daemon_ok_lanes, rule daemon.small_steps, rule daemon.updates, rule ok) simp_all
  moreover have "ra_restore_update g (enter_suspended_state a) =
      ra_restore_update (g \<circ> (\<lambda>r. r\<lparr>rs_suspended := True, rs_restored_while_suspended := False\<rparr>)) b"
    by (simp add: enter_suspended_state_def b_def)
  moreover have "ra_restore b = ra_restore a" "ra_fence b = ra_fence a"
    by (simp_all add: b_def forget_render_def)
  ultimately show ?thesis
    using daemon_ok_request [of strict W b "g \<circ> (\<lambda>r. r\<lparr>rs_suspended := True, rs_restored_while_suspended := False\<rparr>)"] calls keeps
    by (simp add: suspended_fields)
qed

text \<open>A resume that is called off.\<close>

lemma resume_dropped:
  fixes a :: "('w, 'r) runtime_actor"
  assumes ok: "daemon_ok strict open_channel W a"
  shows "daemon_ok strict open_channel W (drain_wake ans (ra_restore_update (\<lambda>r. r\<lparr>rs_pending_resume := False\<rparr>) a))"
    and "ra_restore (drain_wake ans (ra_restore_update (\<lambda>r. r\<lparr>rs_pending_resume := False\<rparr>) a))
      = (ra_restore a)\<lparr>rs_pending_resume := False, rs_wake_waiters := []\<rparr>"
proof -
  have calls: "strict \<noteq> Telling \<Longrightarrow> calls_ok ((ra_restore a)\<lparr>rs_pending_resume := False, rs_wake_waiters := []\<rparr>) (fe_restore_failure (ra_fence a))"
    using daemon_okD(1) [OF ok] by (simp add: calls_ok_def Let_def)
  show "daemon_ok strict open_channel W (drain_wake ans (ra_restore_update (\<lambda>r. r\<lparr>rs_pending_resume := False\<rparr>) a))"
    by (rule drained_daemon)
      (use daemon_ok_restore [OF ok, of "\<lambda>r. r\<lparr>rs_pending_resume := False, rs_wake_waiters := []\<rparr>"] calls in \<open>simp add: comp_def\<close>)
  show "ra_restore (drain_wake ans (ra_restore_update (\<lambda>r. r\<lparr>rs_pending_resume := False\<rparr>) a))
      = (ra_restore a)\<lparr>rs_pending_resume := False, rs_wake_waiters := []\<rparr>"
    by (simp add: drain_wake_def answer_all_fields)
qed

lemma restore_unchanged: "ra_restore_update (\<lambda>r. r) a = a"
  by (cases a) simp

lemma slept:
  assumes ok: "daemon_ok Settled open_channel W a"
  shows "daemon_ok Settled open_channel W (request_sleep_restore E reply a)"
proof -
  define b where "b = (if rs_pending_resume (ra_restore a)
      then drain_wake (RefusedText (MStr ''a newer sleep transition superseded the pending resume''))
             (ra_restore_update (\<lambda>r. r\<lparr>rs_pending_resume := False\<rparr>) a)
      else a)"
  have b: "daemon_ok Settled open_channel W b"
    using ok resume_dropped(1) [OF ok] by (simp add: b_def)
  note calls = daemon_okD(1) [OF b]
  have failed: "daemon_ok Settled open_channel W (enter_suspended_state b)"
    if "fe_restore_failure (ra_fence b) = Some msg" "\<not> rs_suspended (ra_restore b)" for msg
  proof (rule strictly)
    show "daemon_ok Driving open_channel W (enter_suspended_state b)"
      using suspended_daemon [OF b, of "\<lambda>r. r"] calls that unfolding restore_unchanged
      by (auto simp: suspended_fields calls_ok_def Let_def)
    show "wl_frequency_quiesce_pending (ra_lanes (enter_suspended_state b)) \<noteq> None
        \<or> wl_scheduler_in_flight (ra_lanes (enter_suspended_state b)) \<noteq> None"
      if "wl_next_frequency_command_id (ra_lanes (enter_suspended_state b)) < - 1" "\<not> rs_stop_requested (ra_restore (enter_suspended_state b))"
        "rs_restore_in_flight (ra_restore (enter_suspended_state b)) = None" "waiting (ra_restore (enter_suspended_state b)) (ra_lanes (enter_suspended_state b))"
      using daemon_okD(6) [OF b] that by (simp add: suspended_fields lanes_ok_def waiting_def)
  qed
  have asleep: "daemon_ok Settled open_channel W (ra_restore_update (\<lambda>r. r\<lparr>rs_sleep_waiters := rs_sleep_waiters r @ [reply]\<rparr>) b)"
    if "fe_restore_failure (ra_fence b) = None" "rs_suspended (ra_restore b)" "\<not> rs_restored_while_suspended (ra_restore b)"
    by (rule daemon_ok_restore [OF b]) (use calls that in \<open>simp_all add: calls_ok_def Let_def\<close>)
  have fresh: "daemon_ok Driving open_channel W (ra_restore_update (\<lambda>r. r\<lparr>rs_sleep_waiters := rs_sleep_waiters r @ [reply],
      rs_restore_requested := True\<rparr>) (enter_suspended_state b))"
    if "\<not> rs_suspended (ra_restore b)"
    by (rule suspended_daemon [OF b]) (use calls that in \<open>auto simp: suspended_fields calls_ok_def Let_def\<close>)
  show ?thesis
    unfolding request_sleep_restore_def b_def [symmetric] Let_def
    by (intro daemon.branches daemon.emits driven ok failed asleep fresh b; simp)
qed

lemma resumes:
  assumes ok: "daemon_ok Settled open_channel W a"
  shows "daemon_ok Settled open_channel W (request_resume E reply a)"
proof -
  note calls = daemon_okD(1) [OF ok]
  have wait: "daemon_ok Settled open_channel W (ra_restore_update (\<lambda>r. r\<lparr>rs_pending_resume := True, rs_wake_waiters := rs_wake_waiters r @ [reply]\<rparr>) a)"
    if "rs_restore_requested (ra_restore a) \<or> rs_restore_in_flight (ra_restore a) \<noteq> None"
    by (rule daemon_ok_restore [OF ok]) (use calls that in \<open>auto simp: calls_ok_def Let_def\<close>)
  have awake: "daemon_ok Settled open_channel W (resume_from_sleep E (ra_restore_update (\<lambda>r. r\<lparr>rs_restored_while_suspended := False\<rparr>) a))"
    if "\<not> (rs_restore_requested (ra_restore a) \<or> rs_restore_in_flight (ra_restore a) \<noteq> None)"
    using daemon_ok_restore [OF ok, of "\<lambda>r. r\<lparr>rs_restored_while_suspended := False, rs_suspended := False\<rparr>"] calls that
    by (intro daemon.resumed) (simp add: calls_ok_def Let_def comp_def)
  show ?thesis
    unfolding request_resume_def by (intro daemon.branches daemon.emits ok wait awake; simp)
qed

lemma stops:
  assumes ok: "daemon_ok Settled open_channel W a"
  shows "daemon_ok Settled open_channel W (request_stop E reply a)"
proof -
  define a1 where "a1 = ra_restore_update (\<lambda>r. r\<lparr>rs_accepting_control := False\<rparr>) a"
  define a2 where "a2 = (case fo_identity_in_flight (ra_focus a1) of
      Some request \<Rightarrow> if ii_control request then a1 else ra_focus_update (\<lambda>f. f\<lparr>fo_identity_in_flight := None\<rparr>) a1
    | None \<Rightarrow> a1)"
  define b where "b = drain_wake (RefusedText shutdown_supersedes_resume) (ra_restore_update (\<lambda>r. r\<lparr>rs_pending_resume := False\<rparr>) a2)"
  have "daemon_ok Settled open_channel W a1"
    unfolding a1_def by (rule daemon_ok_restore [OF ok]) (use daemon_okD(1) [OF ok] in \<open>simp_all add: calls_ok_def Let_def\<close>)
  then have a2: "daemon_ok Settled open_channel W a2"
    unfolding a2_def by (intro daemon.branches daemon.updates)
  have b: "daemon_ok Settled open_channel W b"
    unfolding b_def by (rule resume_dropped(1) [OF a2])
  note calls = daemon_okD(1) [OF b]
  have ends: "daemon_ok Settled open_channel W (ra_restore_update (\<lambda>r. r\<lparr>rs_stop_requested := True\<rparr>) b)"
    by (rule daemon_ok_restore [OF b]) (use calls in \<open>simp_all add: calls_ok_def Let_def\<close>)
  let ?g = "\<lambda>r. r\<lparr>rs_stop_waiters := rs_stop_waiters r @ [reply],
                rs_restore_requested := rs_restore_requested r \<or> rs_restore_in_flight r = None\<rparr>"
  have "daemon_ok Driving open_channel W (ra_restore_update ?g b)" if "rs_suspended (ra_restore b)"
    by (rule daemon_ok_request [OF b]) (use calls that in \<open>auto simp: calls_ok_def Let_def\<close>)
  moreover have "daemon_ok Driving open_channel W (ra_restore_update ?g (enter_suspended_state b))" if "\<not> rs_suspended (ra_restore b)"
    by (rule suspended_daemon [OF b]) (use calls that in \<open>auto simp: suspended_fields calls_ok_def Let_def\<close>)
  ultimately have waits: "daemon_ok Driving open_channel W
      (ra_restore_update ?g (if rs_suspended (ra_restore b) then b else enter_suspended_state b))"
    by simp
  show ?thesis
    unfolding request_stop_def a1_def [symmetric] Let_def
    unfolding a2_def [symmetric] b_def [symmetric]
    by (intro daemon.branches daemon.emits driven ends waits; simp)
qed

lemma fence_update_daemon:
  fixes a :: "('w, 'r) runtime_actor"
  assumes "daemon_ok strict open_channel W a"
    and "fe_restore_failure (g (ra_fence a)) = fe_restore_failure (ra_fence a) \<or> strict = Telling"
    and "fe_worker_failure (g (ra_fence a)) = fe_worker_failure (ra_fence a)"
    and "fe_actuator_read_only (ra_fence a) \<Longrightarrow> fe_actuator_read_only (g (ra_fence a))"
  shows "daemon_ok strict open_channel W (ra_fence_update g a)"
proof (rule daemon_okI)
  note old = daemon_okD [OF assms(1)]
  assume "wl_next_frequency_command_id (ra_lanes (ra_fence_update g a)) < - 1"
  then have room: "wl_next_frequency_command_id (ra_lanes a) < - 1"
    by simp
  show "lanes_ok strict (ra_lanes (ra_fence_update g a)) (ra_restore (ra_fence_update g a))"
    using old(6) [OF room] by simp
  show "workers_ok W (frequency_commands (ra_fence_update g a)) (ra_lanes (ra_fence_update g a)) (ra_fence (ra_fence_update g a))"
    using workers_ok_moved [OF old(7) [OF room], of "ra_lanes a" "g (ra_fence a)"] assms(3,4) by simp
qed (use daemon_okD [OF assms(1)] assms(2) in auto)

lemma fence_finished:
  assumes ok: "daemon_ok Settled open_channel W a"
  shows "daemon_ok Settled open_channel W (finish_frequency_safety_update E uid outcome a)"
proof -
  have none: "daemon_ok Settled open_channel W (ra_fence_update (\<lambda>f. f\<lparr>fe_safety_update_in_flight := None\<rparr>) a)"
    by (rule fence_update_daemon [OF ok]) simp_all
  have started: "daemon_ok Settled open_channel W (start_frequency_safety_update caps b)"
    if "daemon_ok Settled open_channel W b" for caps and b :: "('w, 'r) runtime_actor"
  proof -
    have "daemon_ok Settled open_channel W (ra_fence_update (\<lambda>f. f\<lparr>fe_next_safety_update_id := i, fe_safety_update_in_flight := Some i\<rparr>) b)" for i
      by (rule fence_update_daemon [OF that]) simp_all
    then show ?thesis
      by (simp add: start_frequency_safety_update_def Let_def daemon_ok_def)
  qed
  have fence: "daemon_ok Settled open_channel W (ra_fence_update (\<lambda>f. f\<lparr>fe_safety_failure := m, fe_pending_upper_caps := None,
      fe_actuator_read_only := True\<rparr>) b)" "daemon_ok Settled open_channel W (ra_fence_update (\<lambda>f. f\<lparr>fe_pending_upper_caps := None\<rparr>) b)"
    if "daemon_ok Settled open_channel W b" for m and b :: "('w, 'r) runtime_actor"
    by (rule fence_update_daemon [OF that], simp_all)+
  show ?thesis
    unfolding finish_frequency_safety_update_def Let_def
    by (intro daemon.branches daemon.refreshed daemon.small_steps daemon.evaluated started fence none)
qed

lemma reload_arrived:
  assumes ok: "daemon_ok Settled open_channel W a"
  shows "daemon_ok Settled open_channel W (receive_reload E reply result a)"
proof -
  have rejected: "daemon_ok Settled open_channel W (reload_rejected error reply a)" for error
    unfolding reload_rejected_def by (intro daemon.emits daemon.small_steps daemon_ok_lanes ok) simp_all
  have taken: "daemon_ok Driving open_channel W (ra_lanes_update (\<lambda>l. l\<lparr>wl_pending_reload := Some c\<rparr>) a)" for c
  proof (rule daemon_okI)
    note old = daemon_okD [OF ok]
    assume "wl_next_frequency_command_id (ra_lanes (ra_lanes_update (\<lambda>l. l\<lparr>wl_pending_reload := Some c\<rparr>) a)) < - 1"
    then have room: "wl_next_frequency_command_id (ra_lanes a) < - 1"
      by simp
    show "lanes_ok Driving (ra_lanes (ra_lanes_update (\<lambda>l. l\<lparr>wl_pending_reload := Some c\<rparr>) a))
        (ra_restore (ra_lanes_update (\<lambda>l. l\<lparr>wl_pending_reload := Some c\<rparr>) a))"
      using old(6) [OF room] by (simp add: lanes_ok_def waiting_def)
    show "workers_ok W (frequency_commands (ra_lanes_update (\<lambda>l. l\<lparr>wl_pending_reload := Some c\<rparr>) a))
        (ra_lanes (ra_lanes_update (\<lambda>l. l\<lparr>wl_pending_reload := Some c\<rparr>) a)) (ra_fence (ra_lanes_update (\<lambda>l. l\<lparr>wl_pending_reload := Some c\<rparr>) a))"
      by simp (rule workers_ok_moved [OF old(7) [OF room]], simp_all)
  qed (use daemon_okD [OF ok] in simp_all)
  show ?thesis
    unfolding receive_reload_def by (intro daemon.branches rejected driven taken)
qed

lemma flags_daemon:
  fixes a :: "('w, 'r) runtime_actor"
  assumes ok: "daemon_ok Settled open_channel W a"
  shows "daemon_ok Settled open_channel W (ra_lanes_update (\<lambda>l. l\<lparr>wl_app_persist_in_flight := v\<rparr>) a)"
    "daemon_ok Settled open_channel W (ra_lanes_update (\<lambda>l. l\<lparr>wl_reload_in_flight := True\<rparr>) a)"
    "daemon_ok Settled open_channel W (ra_restore_update (\<lambda>r. r\<lparr>rs_mutations_activated := True\<rparr>) a)"
    "daemon_ok Settled open_channel W (ra_lanes_update (\<lambda>l. l\<lparr>wl_scheduler_pending := False\<rparr>)
       (ra_restore_update (\<lambda>r. r\<lparr>rs_accepting_control := False\<rparr>) a))"
proof -
  have "calls_ok (r\<lparr>rs_mutations_activated := True\<rparr>) f = calls_ok r f" "calls_ok (r\<lparr>rs_accepting_control := False\<rparr>) f = calls_ok r f" for r f
    by (simp_all add: calls_ok_def)
  then have "daemon_ok Settled open_channel W (ra_restore_update (\<lambda>r. r\<lparr>rs_mutations_activated := True\<rparr>) a)"
    "daemon_ok Settled open_channel W (ra_restore_update (\<lambda>r. r\<lparr>rs_accepting_control := False\<rparr>) a)"
    using daemon_okD(1) [OF ok] by (intro daemon_ok_restore [OF ok]; simp)+
  then show "daemon_ok Settled open_channel W (ra_lanes_update (\<lambda>l. l\<lparr>wl_app_persist_in_flight := v\<rparr>) a)"
    "daemon_ok Settled open_channel W (ra_lanes_update (\<lambda>l. l\<lparr>wl_reload_in_flight := True\<rparr>) a)"
    "daemon_ok Settled open_channel W (ra_restore_update (\<lambda>r. r\<lparr>rs_mutations_activated := True\<rparr>) a)"
    "daemon_ok Settled open_channel W (ra_lanes_update (\<lambda>l. l\<lparr>wl_scheduler_pending := False\<rparr>)
       (ra_restore_update (\<lambda>r. r\<lparr>rs_accepting_control := False\<rparr>) a))"
    using ok by (auto intro!: daemon_ok_lanes)
qed

end

lemma restore_sent:
  "ra_restore (snd (send_frequency_command E c a)) = ra_restore a" "ra_fence (snd (send_frequency_command E c a)) = ra_fence a"
  by (simp_all add: send_frequency_command_def split_beta Let_def)

lemma restore_submitted:
  "ra_restore (submit_frequency_reconcile E desired a) = ra_restore a"
  "fe_restore_failure (ra_fence (submit_frequency_reconcile E desired a)) = fe_restore_failure (ra_fence a)"
  by (simp_all add: submit_frequency_reconcile_def Let_def split_beta restore_sent fail_reconcile_worker_def set_issue_def)

lemma restore_scheduled:
  "ra_restore (submit_scheduler_reconcile desired a) = ra_restore a" "ra_fence (submit_scheduler_reconcile desired a) = ra_fence a"
  by (simp_all add: submit_scheduler_reconcile_def Let_def)

lemma restore_fenced:
  "ra_restore (request_frequency_safety_update caps a) = ra_restore a"
  "fe_restore_failure (ra_fence (request_frequency_safety_update caps a)) = fe_restore_failure (ra_fence a)"
  by (simp_all add: request_frequency_safety_update_def start_frequency_safety_update_def Let_def)

lemma restore_refreshed:
  "ra_restore (refresh_actuator_health E a) = ra_restore a"
  "fe_restore_failure (ra_fence (refresh_actuator_health E a)) = fe_restore_failure (ra_fence a)"
  by (simp_all add: refresh_actuator_health_def Let_def clear_issue_def set_issue_def split_beta split: sum.split actuator_mode.split)

interpretation restore_frame: actor_frame E "\<lambda>a. ra_restore a = r \<and> fe_restore_failure (ra_fence a) = f" for E r f
  by unfold_locales
    (simp_all add: same_lanes_def restore_fenced restore_refreshed fail_reconcile_worker_def set_issue_def Let_def submit_plan_def
      restore_submitted restore_scheduled)

sublocale steady_runtime \<subseteq> settled: actor_invariant E "daemon_ok Settled open_channel W" for W
  by unfold_locales (fact flags_daemon fence_finished slept resumes stops reload_arrived)+

section \<open>Reports\<close>

lemma tasks_reported:
  assumes "tasks_ok n spawned in_flight" "drop n spawned = i # rest"
  shows "in_flight = Some i" "tasks_ok (Suc n) spawned None"
proof -
  show "in_flight = Some i"
    using assms by (cases in_flight) (simp_all add: tasks_ok_def)
  then have "drop n spawned = [i]"
    using assms by (simp add: tasks_ok_def)
  then have "length spawned - n = 1"
    by (metis length_drop length_Cons list.size(3) One_nat_def)
  then show "tasks_ok (Suc n) spawned None"
    by (simp add: tasks_ok_def)
qed

lemma workers_ok_tasks [simp]:
  "workers_ok (W\<lparr>dw_scheduled := n\<rparr>) cs l f = workers_ok W cs l f"
  "workers_ok (W\<lparr>dw_restored := n\<rparr>) cs l f = workers_ok W cs l f"
  by (simp_all add: workers_ok_def queue_ok_def death_known_def outstanding_def taken_tokens_def slot_tokens_def)

context steady_runtime
begin

lemma scheduler_reported:
  assumes ok: "daemon_ok Settled open_channel W a" and running: "running_schedulers W a = sid # rest"
  shows "daemon_ok Settled open_channel (W\<lparr>dw_scheduled := Suc (dw_scheduled W)\<rparr>) (finish_scheduler_worker E sid result a)"
proof -
  let ?W = "W\<lparr>dw_scheduled := Suc (dw_scheduled W)\<rparr>"
  let ?b = "ra_lanes_update (\<lambda>l. l\<lparr>wl_scheduler_in_flight := None, wl_scheduler_pending := False\<rparr>) a"
  note old = daemon_okD [OF ok] and task = tasks_reported [OF daemon_okD(2) [OF ok] running [unfolded running_schedulers_def]]
  have "daemon_ok Driving open_channel ?W ?b"
  proof (rule daemon_okI)
    assume "wl_next_frequency_command_id (ra_lanes ?b) < - 1"
    then have room: "wl_next_frequency_command_id (ra_lanes a) < - 1"
      by simp
    show "lanes_ok Driving (ra_lanes ?b) (ra_restore ?b)"
      using old(6) [OF room] by (simp add: lanes_ok_def waiting_def)
    show "workers_ok ?W (frequency_commands ?b) (ra_lanes ?b) (ra_fence ?b)"
      by simp (rule workers_ok_moved [OF old(7) [OF room]], simp_all)
  qed (use old task in simp_all)
  then show ?thesis
    unfolding finish_scheduler_worker_def Let_def
    by (intro daemon.branches worker_transition daemon.control_steps daemon.adopted)
qed

lemma told:
  assumes "daemon_ok Telling open_channel W a" "calls_ok (ra_restore a) (fe_restore_failure (ra_fence a))"
  shows "daemon_ok Driving open_channel W a"
  using assms by (simp add: daemon_ok_def Let_def lanes_ok_def)

lemma restore_collected:
  assumes ok: "daemon_ok Settled open_channel W a" and running: "running_restores W a = rid # rest"
  shows "daemon_ok Telling open_channel (W\<lparr>dw_restored := Suc (dw_restored W)\<rparr>)
    (ra_restore_update (\<lambda>r. r\<lparr>rs_restore_in_flight := None\<rparr>) a)" (is "daemon_ok _ _ ?W ?b")
    and "rs_restore_in_flight (ra_restore a) = Some rid"
proof -
  note old = daemon_okD [OF ok] and task = tasks_reported [OF daemon_okD(3) [OF ok] running [unfolded running_restores_def]]
  show "rs_restore_in_flight (ra_restore a) = Some rid"
    by (rule task)
  show "daemon_ok Telling open_channel ?W ?b"
  proof (rule daemon_okI)
    assume "wl_next_frequency_command_id (ra_lanes ?b) < - 1"
    then have room: "wl_next_frequency_command_id (ra_lanes a) < - 1"
      by simp
    show "lanes_ok Telling (ra_lanes ?b) (ra_restore ?b)"
      using old(6) [OF room] by (simp add: lanes_ok_def waiting_def)
    show "workers_ok ?W (frequency_commands ?b) (ra_lanes ?b) (ra_fence ?b)"
      using old(7) [OF room] by simp
  qed (use old task in simp_all)
qed

lemma restore_settled:
  fixes a :: "('w, 'r) runtime_actor"
  assumes ok: "daemon_ok Telling open_channel W a"
  shows "daemon_ok Telling open_channel W (settle_restore result a)"
    and "ra_restore (settle_restore result a) = (ra_restore a)\<lparr>rs_restored_while_suspended := (\<exists>u. result = Inr u)\<rparr>"
    and "(\<exists>u. result = Inr u) \<or> fe_restore_failure (ra_fence (settle_restore result a)) \<noteq> None"
proof -
  have flag: "daemon_ok Telling open_channel W (ra_restore_update (\<lambda>r. r\<lparr>rs_restored_while_suspended := v\<rparr>) b)"
    if "daemon_ok Telling open_channel W b" for v and b :: "('w, 'r) runtime_actor"
    by (rule daemon_ok_restore [OF that]) simp_all
  have fence: "daemon_ok Telling open_channel W (ra_fence_update (\<lambda>f. f\<lparr>fe_restore_failure := m, fe_actuator_read_only := True\<rparr>) b)"
    if "daemon_ok Telling open_channel W b" for m and b :: "('w, 'r) runtime_actor"
    by (rule fence_update_daemon [OF that]) simp_all
  show "daemon_ok Telling open_channel W (settle_restore result a)"
    unfolding settle_restore_def by (intro daemon.branches daemon.small_steps daemon.updates flag fence ok)
  show "ra_restore (settle_restore result a) = (ra_restore a)\<lparr>rs_restored_while_suspended := (\<exists>u. result = Inr u)\<rparr>"
    and "(\<exists>u. result = Inr u) \<or> fe_restore_failure (ra_fence (settle_restore result a)) \<noteq> None"
    by (simp_all add: settle_restore_def set_issue_def clear_issue_def split: sum.split)
qed

lemma restore_finished:
  assumes ok: "daemon_ok Settled open_channel W a" and running: "running_restores W a = rid # rest"
  shows "daemon_ok Settled open_channel (W\<lparr>dw_restored := Suc (dw_restored W)\<rparr>) (finish_restore E rid outcome a)"
proof -
  let ?W = "W\<lparr>dw_restored := Suc (dw_restored W)\<rparr>"
  note collected = restore_collected [OF ok running]
  note calls = daemon_okD(1) [OF ok, simplified]
  let ?a1 = "ra_restore_update (\<lambda>r. r\<lparr>rs_restore_in_flight := None\<rparr>) a"
  define a2 where "a2 = refresh_actuator_health E (settle_restore outcome ?a1)"
  define ans where "ans = (case outcome of Inr _ \<Rightarrow> Done | Inl msg \<Rightarrow> RefusedText msg)"
  define a3 where "a3 = drain_sleep ans a2"
  note settled = restore_settled [OF collected(1), where result = outcome]
  have a2: "daemon_ok Telling open_channel ?W a2"
    unfolding a2_def by (intro daemon.refreshed settled)
  have "daemon_ok Telling open_channel ?W (ra_restore_update (\<lambda>r. r\<lparr>rs_sleep_waiters := []\<rparr>) a2)"
    by (rule daemon_ok_restore [OF a2]) simp_all
  then have a3: "daemon_ok Telling open_channel ?W a3"
    unfolding a3_def by (rule drained_daemon)
  have r3: "ra_restore a3 = (ra_restore a)\<lparr>rs_restore_in_flight := None, rs_restored_while_suspended := (\<exists>u. outcome = Inr u),
      rs_sleep_waiters := []\<rparr>"
    and f3: "(\<exists>u. outcome = Inr u) \<or> fe_restore_failure (ra_fence a3) \<noteq> None"
    using settled(2,3) by (simp_all add: a3_def a2_def drain_sleep_def refresh_fields)
  have free: "\<not> rs_restore_requested (ra_restore a)"
    using calls collected(2) by (simp add: calls_ok_def Let_def)
  define b where "b = (if rs_pending_resume (ra_restore a3)
      then drain_wake Done (resume_from_sleep E (ra_restore_update (\<lambda>r. r\<lparr>rs_pending_resume := False, rs_restored_while_suspended := False\<rparr>) a3))
      else a3)"
  have result: "finish_restore E rid outcome a =
      (if rs_stop_waiters (ra_restore a3) \<noteq> []
       then drain_stop (case outcome of Inr _ \<Rightarrow> Done | Inl msg \<Rightarrow> Refused (RtDegraded msg))
              (ra_restore_update (\<lambda>r. r\<lparr>rs_stop_requested := True\<rparr>)
                (drain_wake (RefusedText shutdown_supersedes_resume) (ra_restore_update (\<lambda>r. r\<lparr>rs_pending_resume := False\<rparr>) a3)))
       else snd (drive_mutation_barriers E b))"
    unfolding finish_restore_def Let_def collected(2) a2_def a3_def ans_def b_def by simp
  have flags: "daemon_ok Telling open_channel ?W (ra_restore_update g c)"
    if "daemon_ok Telling open_channel ?W c" "\<And>r. rs_restore_requested (g r) = rs_restore_requested r"
      "\<And>r. rs_restore_in_flight (g r) = rs_restore_in_flight r" "\<And>r. rs_stop_requested r \<Longrightarrow> rs_stop_requested (g r)"
    for g and c :: "('w, 'r) runtime_actor"
    by (rule daemon_ok_restore) (use that in auto)
  show ?thesis
  proof (cases "rs_stop_waiters (ra_restore a3) = []")
    case True
    have "daemon_ok Telling open_channel ?W b"
      unfolding b_def by (intro daemon.branches drained_daemon daemon.resumed flags a3) simp_all
    moreover have "calls_ok (ra_restore b) (fe_restore_failure (ra_fence b))"
    proof (cases "rs_pending_resume (ra_restore a3)")
      case True
      have "ra_restore b = (ra_restore a3)\<lparr>rs_pending_resume := False, rs_restored_while_suspended := False, rs_suspended := False,
          rs_wake_waiters := []\<rparr>"
        using restore_frame.resumed [of "ra_restore_update (\<lambda>r. r\<lparr>rs_pending_resume := False, rs_restored_while_suspended := False\<rparr>) a3"
            "(ra_restore a3)\<lparr>rs_pending_resume := False, rs_restored_while_suspended := False, rs_suspended := False\<rparr>" _ E] True
        by (simp add: b_def drain_wake_def)
      then show ?thesis
        using free \<open>rs_stop_waiters (ra_restore a3) = []\<close> by (simp add: r3 calls_ok_def Let_def)
    next
      case False
      then show ?thesis
        using calls free f3 \<open>rs_stop_waiters (ra_restore a3) = []\<close> by (auto simp: b_def r3 calls_ok_def Let_def)
    qed
    ultimately show ?thesis
      unfolding result using True by (simp add: driven told)
  next
    case False
    define t where "t = drain_stop (case outcome of Inr _ \<Rightarrow> Done | Inl msg \<Rightarrow> Refused (RtDegraded msg))
        (ra_restore_update (\<lambda>r. r\<lparr>rs_stop_requested := True\<rparr>)
          (drain_wake (RefusedText shutdown_supersedes_resume) (ra_restore_update (\<lambda>r. r\<lparr>rs_pending_resume := False\<rparr>) a3)))"
    have telling: "daemon_ok Telling open_channel ?W t"
      unfolding t_def by (intro drained_daemon flags a3) simp_all
    have rt: "ra_restore t = (ra_restore a3)\<lparr>rs_pending_resume := False, rs_wake_waiters := [], rs_stop_requested := True,
        rs_stop_waiters := []\<rparr>" "ra_fence t = ra_fence a3"
      by (simp_all add: t_def drain_stop_def drain_wake_def)
    then have "calls_ok (ra_restore t) (fe_restore_failure (ra_fence t))"
      using free f3 by (auto simp: r3 calls_ok_def Let_def)
    then have "daemon_ok Settled open_channel ?W t"
      using strictly [OF told [OF telling]] rt by simp
    then show ?thesis
      unfolding result using False by (simp add: t_def)
  qed
qed

end

lemma event_taken: "taken_tokens W = event_tokens e @ taken_tokens (W\<lparr>dw_events := es\<rparr>)" if "dw_events W = e # es"
  using that by (simp add: taken_tokens_def)

lemma event_outstanding:
  "outstanding W cs = event_tokens e @ outstanding (W\<lparr>dw_events := es\<rparr>) cs" if "dw_events W = e # es"
  using event_taken [OF that] by (simp add: outstanding_def slot_tokens_def)

lemma death_known_event:
  assumes "death_known W l f" "dw_events W = e # es" "\<forall>m. e \<noteq> FailedEvent m"
    and "wl_next_frequency_command_id l' = wl_next_frequency_command_id l"
    and "wl_frequency_quiesce_pending l' = wl_frequency_quiesce_pending l \<or> wl_frequency_quiesce_pending l' = None"
    and "wl_frequency_quiesced l \<longrightarrow> wl_frequency_quiesced l'"
  shows "death_known (W\<lparr>dw_events := es\<rparr>) l' f"
  using assms event_taken [OF assms(2)] by (auto simp: death_known_def)

text \<open>The report the actor waits for is the last one outstanding; any other leaves it waiting.\<close>

lemma queue_reconciled:
  assumes ok: "queue_ok W cs l" and event: "dw_events W = e # es" and token: "event_tokens e = [(False, cid)]"
  shows "wl_frequency_command_pending l = Some cid \<Longrightarrow> wl_frequency_quiesce_pending l = None
      \<and> queue_ok (W\<lparr>dw_events := es\<rparr>) cs (l\<lparr>wl_frequency_command_pending := None, wl_frequency_requested := None\<rparr>)"
    and "wl_frequency_command_pending l \<noteq> Some cid \<Longrightarrow> queue_ok (W\<lparr>dw_events := es\<rparr>) cs l"
proof -
  define ts where "ts = outstanding (W\<lparr>dw_events := es\<rparr>) cs"
  have tokens: "outstanding W cs = (False, cid) # ts"
    using event_outstanding [OF event, of cs] token by (simp add: ts_def)
  have quiet: "\<forall>m. FailedEvent m \<notin> set es"
    using ok event by (simp add: queue_ok_def Let_def)
  have above: "\<forall>t \<in> set ts. cid < snd t" and sorted: "sorted_wrt (<) (map snd ts)"
    and below: "\<forall>t \<in> set ts. snd t \<le> wl_next_frequency_command_id l"
    using ok by (auto simp: queue_ok_def Let_def tokens)
  have awaited: "option_list (wl_frequency_command_pending l) = [snd (last ((False, cid) # ts))]"
    and marks: "\<forall>i. (True, i) \<in> set ts \<longrightarrow> wl_frequency_quiesce_pending l = Some i"
    and mark: "\<forall>q. wl_frequency_quiesce_pending l = Some q \<longrightarrow> last ((False, cid) # ts) = (True, q)"
    using ok by (simp_all add: queue_ok_def Let_def tokens del: last.simps)
  show "wl_frequency_quiesce_pending l = None
      \<and> queue_ok (W\<lparr>dw_events := es\<rparr>) cs (l\<lparr>wl_frequency_command_pending := None, wl_frequency_requested := None\<rparr>)"
    if "wl_frequency_command_pending l = Some cid"
  proof -
    have "ts = []"
      using awaited above that by (cases "ts = []") (auto dest: last_in_set)
    then have "wl_frequency_quiesce_pending l = None"
      using mark by (cases "wl_frequency_quiesce_pending l") auto
    then show ?thesis
      using \<open>ts = []\<close> quiet by (simp add: queue_ok_def ts_def [symmetric])
  qed
  show "queue_ok (W\<lparr>dw_events := es\<rparr>) cs l" if "wl_frequency_command_pending l \<noteq> Some cid"
  proof -
    have "ts \<noteq> []"
      using awaited that by (cases "wl_frequency_command_pending l") auto
    then show ?thesis
      using awaited marks mark sorted below quiet by (simp add: queue_ok_def Let_def ts_def [symmetric])
  qed
qed

lemma queue_awaits:
  assumes ok: "queue_ok W cs l" and event: "dw_events W = ReconciledEvent cid drift result # es"
  shows "\<exists>w. wl_frequency_command_pending l = Some w \<and> cid \<le> w"
proof -
  obtain ts where tokens: "outstanding W cs = (False, cid) # ts"
    using event_outstanding [OF event, of cs] by simp
  have "option_list (wl_frequency_command_pending l) = [snd (last ((False, cid) # ts))]" "\<forall>t \<in> set ts. cid < snd t"
    using ok by (simp_all add: queue_ok_def Let_def tokens del: last.simps)
  then show ?thesis
    using last_in_set [of ts] by (cases "wl_frequency_command_pending l"; cases "ts = []") (auto simp: less_imp_le)
qed

lemma queue_quiesced:
  assumes ok: "queue_ok W cs l" and event: "dw_events W = QuiescedEvent cid # es"
  shows "wl_frequency_quiesce_pending l = Some cid"
    and "queue_ok (W\<lparr>dw_events := es\<rparr>) cs (l\<lparr>wl_frequency_command_pending := None, wl_frequency_quiesce_pending := None,
      wl_frequency_requested := None, wl_frequency_quiesced := True\<rparr>)"
proof -
  define ts where "ts = outstanding (W\<lparr>dw_events := es\<rparr>) cs"
  have tokens: "outstanding W cs = (True, cid) # ts"
    using event_outstanding [OF event, of cs] by (simp add: ts_def)
  show mark: "wl_frequency_quiesce_pending l = Some cid"
    using ok by (simp add: queue_ok_def Let_def tokens)
  then have "last ((True, cid) # ts) = (True, cid)" and "\<forall>t \<in> set ts. cid < snd t"
    using ok by (auto simp: queue_ok_def Let_def tokens)
  then have "ts = []"
    by (metis last_ConsR last_in_set order_less_irrefl snd_conv)
  then show "queue_ok (W\<lparr>dw_events := es\<rparr>) cs (l\<lparr>wl_frequency_command_pending := None, wl_frequency_quiesce_pending := None,
      wl_frequency_requested := None, wl_frequency_quiesced := True\<rparr>)"
    using ok event by (simp add: queue_ok_def Let_def ts_def [symmetric])
qed

context steady_runtime
begin

lemma lanes_event:
  fixes a :: "('w, 'r) runtime_actor"
  assumes ok: "daemon_ok Settled open_channel W a"
    and keeps: "\<And>l. wl_next_frequency_command_id (g l) = wl_next_frequency_command_id l"
      "\<And>l. wl_scheduler_in_flight (g l) = wl_scheduler_in_flight l"
    and lanes: "lanes_ok Settled (ra_lanes a) (ra_restore a) \<Longrightarrow> workers_ok W (frequency_commands a) (ra_lanes a) (ra_fence a)
      \<Longrightarrow> lanes_ok Driving (g (ra_lanes a)) (ra_restore a)"
    and workers: "lanes_ok Settled (ra_lanes a) (ra_restore a) \<Longrightarrow> workers_ok W (frequency_commands a) (ra_lanes a) (ra_fence a)
      \<Longrightarrow> workers_ok (W\<lparr>dw_events := es\<rparr>) (frequency_commands a) (g (ra_lanes a)) (ra_fence a)"
  shows "daemon_ok Driving open_channel (W\<lparr>dw_events := es\<rparr>) (ra_lanes_update g a)"
  by (rule daemon_okI) (use daemon_okD [OF ok] keeps lanes workers in simp_all)

lemma unexpected_event:
  fixes a :: "('w, 'r) runtime_actor"
  assumes ok: "daemon_ok Settled open_channel W a" and event: "dw_events W = e # es" "\<forall>m. e \<noteq> FailedEvent m"
    and wrong: "dw_alive W \<Longrightarrow> lanes_ok Settled (ra_lanes a) (ra_restore a) \<Longrightarrow> \<not> queue_ok W (frequency_commands a) (ra_lanes a)"
  shows "daemon_ok Settled open_channel (W\<lparr>dw_events := es\<rparr>) (fail_reconcile_worker msg a)"
proof -
  have "daemon_ok Settled open_channel (W\<lparr>dw_events := es\<rparr>) a"
  proof (rule daemon_okI)
    assume room: "wl_next_frequency_command_id (ra_lanes a) < - 1"
    then show "lanes_ok Settled (ra_lanes a) (ra_restore a)"
      using daemon_okD [OF ok] by simp
    show "workers_ok (W\<lparr>dw_events := es\<rparr>) (frequency_commands a) (ra_lanes a) (ra_fence a)"
      using daemon_okD(6,7) [OF ok room] wrong death_known_event [OF _ event, of "ra_lanes a" "ra_fence a" "ra_lanes a"]
      by (auto simp: workers_ok_def split: if_splits)
  qed (use daemon_okD [OF ok] in simp_all)
  then show ?thesis
    by (rule failed_daemon)
qed

lemma reconciled_reported:
  assumes ok: "daemon_ok Settled open_channel W a" and event: "dw_events W = ReconciledEvent cid drift result # es"
  shows "daemon_ok Settled open_channel (W\<lparr>dw_events := es\<rparr>) (finish_frequency_worker E (ReconciledEvent cid drift result) a)"
proof -
  let ?W = "W\<lparr>dw_events := es\<rparr>" and ?l = "ra_lanes a"
  let ?g = "\<lambda>l. l\<lparr>wl_frequency_command_pending := None, wl_frequency_requested := None\<rparr> :: 'r lane_state"
  have awaited: "wl_frequency_quiesce_pending ?l = None \<and> workers_ok ?W (frequency_commands a) (?g ?l) (ra_fence a)"
    if "wl_frequency_command_pending ?l = Some cid" "lanes_ok Settled ?l (ra_restore a)" "workers_ok W (frequency_commands a) ?l (ra_fence a)"
  proof (cases "dw_alive W")
    case True
    then show ?thesis
      using that(3) queue_reconciled(1) [OF _ event _ that(1)] by (simp add: workers_ok_def)
  next
    case False
    then have known: "death_known W ?l (ra_fence a)"
      using that(3) by (simp add: workers_ok_def)
    then have "wl_frequency_quiesce_pending ?l = None"
      using that(1,2) event_taken [OF event] by (cases "wl_frequency_quiesce_pending ?l") (auto simp: death_known_def lanes_ok_def)
    then show ?thesis
      using death_known_event [OF known event, of "?g ?l"] False by (simp add: workers_ok_def)
  qed
  have handled: "daemon_ok Driving open_channel ?W (ra_lanes_update ?g a)" if "wl_frequency_command_pending ?l = Some cid"
  proof (rule lanes_event [OF ok])
    assume lanes: "lanes_ok Settled ?l (ra_restore a)" and workers: "workers_ok W (frequency_commands a) ?l (ra_fence a)"
    show "lanes_ok Driving (?g ?l) (ra_restore a)"
      using lanes awaited [OF that lanes workers] by (simp add: lanes_ok_def waiting_def)
    show "workers_ok ?W (frequency_commands a) (?g ?l) (ra_fence a)"
      using awaited [OF that lanes workers] by blast
  qed simp_all
  have stale: "daemon_ok Driving open_channel ?W (ra_lanes_update (\<lambda>l. l) a)" if "wl_frequency_command_pending ?l \<noteq> Some cid"
  proof (rule lanes_event [OF ok])
    assume lanes: "lanes_ok Settled ?l (ra_restore a)" and workers: "workers_ok W (frequency_commands a) ?l (ra_fence a)"
    show "lanes_ok Driving ?l (ra_restore a)"
      using lanes by (simp add: lanes_ok_def)
    show "workers_ok ?W (frequency_commands a) ?l (ra_fence a)"
      using workers queue_reconciled(2) [OF _ event _ that] death_known_event [OF _ event, of ?l "ra_fence a" ?l]
      by (simp add: workers_ok_def split: if_splits)
  qed simp_all
  have same: "ra_lanes_update (\<lambda>l. l) a = a"
    by (cases a) simp
  have wrong: "\<not> queue_ok W (frequency_commands a) ?l"
    if "wl_frequency_command_pending ?l \<noteq> Some cid" "\<not> (case wl_frequency_command_pending ?l of None \<Rightarrow> False | Some w \<Rightarrow> cid < w)"
    using queue_awaits [OF _ event, of "frequency_commands a" ?l] that by (auto split: option.splits)
  show ?thesis
    unfolding finish_frequency_worker_def Let_def frequency_worker_event.case
    by (intro daemon.branches worker_transition daemon.adopted handled stale [unfolded same] unexpected_event [OF ok event]; ((rule wrong; assumption) | simp))
qed

lemma quiesced_reported:
  assumes ok: "daemon_ok Settled open_channel W a" and event: "dw_events W = QuiescedEvent cid # es"
  shows "daemon_ok Settled open_channel (W\<lparr>dw_events := es\<rparr>) (finish_frequency_worker E (QuiescedEvent cid) a)"
proof -
  let ?W = "W\<lparr>dw_events := es\<rparr>" and ?l = "ra_lanes a"
  let ?g = "\<lambda>l. l\<lparr>wl_frequency_command_pending := None, wl_frequency_quiesce_pending := None, wl_frequency_requested := None,
      wl_frequency_quiesced := True\<rparr> :: 'r lane_state"
  have handled: "daemon_ok Driving open_channel ?W (ra_lanes_update ?g a)"
    if "wl_frequency_quiesce_pending ?l = Some cid"
  proof (rule lanes_event [OF ok])
    assume lanes: "lanes_ok Settled ?l (ra_restore a)" and workers: "workers_ok W (frequency_commands a) ?l (ra_fence a)"
    show "lanes_ok Driving (?g ?l) (ra_restore a)"
      using lanes that by (auto simp: lanes_ok_def)
    show "workers_ok ?W (frequency_commands a) (?g ?l) (ra_fence a)"
      using workers queue_quiesced(2) [OF _ event] death_known_event [OF _ event, of ?l "ra_fence a" "?g ?l"]
      by (simp add: workers_ok_def split: if_splits)
  qed simp_all
  have wrong: "\<not> queue_ok W (frequency_commands a) ?l"
    if "wl_frequency_quiesce_pending ?l \<noteq> Some cid \<or> wl_frequency_command_pending ?l \<noteq> Some cid" "lanes_ok Settled ?l (ra_restore a)"
    using queue_quiesced(1) [OF _ event, of "frequency_commands a" ?l] that by (auto simp: lanes_ok_def)
  show ?thesis
    unfolding finish_frequency_worker_def Let_def frequency_worker_event.case
    by (intro daemon.branches worker_transition handled unexpected_event [OF ok event]; ((rule wrong; assumption) | simp))
qed

lemma failed_reported:
  assumes ok: "daemon_ok Settled open_channel W a" and event: "dw_events W = FailedEvent msg # es"
  shows "daemon_ok Settled open_channel (W\<lparr>dw_events := es\<rparr>) (finish_frequency_worker E (FailedEvent msg) a)"
proof -
  let ?W = "W\<lparr>dw_events := es\<rparr>" and ?b = "fail_reconcile_worker msg a"
  let ?g = "\<lambda>l. l\<lparr>wl_frequency_command_pending := None, wl_frequency_quiesce_pending := None, wl_frequency_requested := None,
      wl_frequency_quiesced := True\<rparr> :: 'r lane_state"
  have "daemon_ok Driving open_channel ?W (ra_lanes_update ?g ?b)"
  proof (rule lanes_event [OF failed_daemon [OF ok]])
    assume lanes: "lanes_ok Settled (ra_lanes ?b) (ra_restore ?b)" and workers: "workers_ok W (frequency_commands ?b) (ra_lanes ?b) (ra_fence ?b)"
    show "lanes_ok Driving (?g (ra_lanes ?b)) (ra_restore ?b)"
      using lanes by (auto simp: lanes_ok_def)
    show "workers_ok ?W (frequency_commands ?b) (?g (ra_lanes ?b)) (ra_fence ?b)"
      using workers event event_taken [OF event] failed_fields(8,9) by (auto simp: workers_ok_def queue_ok_def Let_def death_known_def split: if_splits)
  qed simp_all
  moreover have "ra_lanes_update ?g ?b = fail_reconcile_worker msg (ra_lanes_update ?g a)"
    by (simp add: fail_reconcile_worker_def set_issue_def Let_def)
  ultimately show ?thesis
    unfolding finish_frequency_worker_def frequency_worker_event.case by (intro worker_transition) simp
qed

end

lemma worker_takes:
  assumes ok: "workers_ok W cs l f" and free: "dw_alive W" "dw_running W = None" "dw_taken W < length cs"
  shows "workers_ok (W\<lparr>dw_taken := length cs, dw_running := Some (last cs)\<rparr>) cs l f"
proof -
  have "outstanding (W\<lparr>dw_taken := length cs, dw_running := Some (last cs)\<rparr>) cs = outstanding W cs"
    using free by (simp add: outstanding_def taken_tokens_def slot_tokens_def)
  then show ?thesis
    using ok free by (simp add: workers_ok_def queue_ok_def)
qed

lemma worker_reports:
  assumes ok: "workers_ok W cs l f" and busy: "dw_running W = Some c" and event: "event_tokens e = [command_token c]"
  shows "workers_ok (W\<lparr>dw_running := None, dw_events := dw_events W @ [e]\<rparr>) cs l f"
proof -
  have "outstanding (W\<lparr>dw_running := None, dw_events := dw_events W @ [e]\<rparr>) cs = outstanding W cs"
    using busy event by (simp add: outstanding_def taken_tokens_def slot_tokens_def)
  moreover have "FailedEvent m \<noteq> e" for m
    using event by auto
  ultimately show ?thesis
    using ok busy by (simp add: workers_ok_def queue_ok_def death_known_def Let_def split: if_splits)
qed

lemma worker_panics:
  assumes ok: "workers_ok W cs l f" and busy: "dw_running W = Some c"
  shows "workers_ok (W\<lparr>dw_running := None, dw_alive := False, dw_events := dw_events W @ [FailedEvent m]\<rparr>) cs l f"
proof -
  define ts where "ts = concat (map event_tokens (dw_events W))"
  have queue: "queue_ok W cs l"
    using ok busy by (simp add: workers_ok_def death_known_def split: if_splits)
  have sorted: "sorted_wrt (<) (map snd ts @ map snd (command_token c # slot_tokens W cs))"
    and below: "\<forall>t \<in> set ts. snd t \<le> wl_next_frequency_command_id l"
    and mark: "\<forall>q. wl_frequency_quiesce_pending l = Some q \<longrightarrow> last (ts @ command_token c # slot_tokens W cs) = (True, q)"
    using queue busy by (simp_all add: queue_ok_def Let_def outstanding_def taken_tokens_def ts_def)
  have "wl_frequency_quiesce_pending l \<noteq> Some i" if old: "(False, i) \<in> set ts" for i
  proof
    assume "wl_frequency_quiesce_pending l = Some i"
    then have "(True, i) \<in> set (command_token c # slot_tokens W cs)"
      using mark by (metis last_appendR last_in_set list.discI)
    then have "i \<in> set (map snd (command_token c # slot_tokens W cs))" "i \<in> set (map snd ts)"
      using old by (metis image_eqI list.set_map snd_conv)+
    then show False
      using sorted unfolding sorted_wrt_append by blast
  qed
  then show ?thesis
    using below by (simp add: workers_ok_def death_known_def taken_tokens_def ts_def) blast
qed

context steady_runtime
begin

lemma world_changed:
  fixes a :: "('w, 'r) runtime_actor"
  assumes ok: "daemon_ok Settled open_channel W a"
    and tasks: "dw_scheduled W' = dw_scheduled W" "dw_restored W' = dw_restored W"
    and taken: "dw_taken W' \<le> length (frequency_commands a)" and alive: "dw_alive W' \<longrightarrow> dw_alive W"
    and workers: "workers_ok W (frequency_commands a) (ra_lanes a) (ra_fence a) \<Longrightarrow> workers_ok W' (frequency_commands a) (ra_lanes a) (ra_fence a)"
  shows "daemon_ok Settled open_channel W' a"
  by (rule daemon_okI) (use daemon_okD [OF ok] tasks taken alive workers in auto)

lemma stepped:
  "daemon_step E open_channel s s' \<Longrightarrow> daemon_ok Settled open_channel (snd s) (fst s) \<Longrightarrow> daemon_ok Settled open_channel (snd s') (fst s')"
proof (induction rule: daemon_step.induct)
  case (Handle m a W)
  then show ?case
    using settled.survives [of m W a] by simp
next
  case (Take W a c)
  then have slot: "c = last (frequency_commands a)" "dw_taken W < length (frequency_commands a)"
    by (auto simp: channel_slot_def split: if_splits)
  show ?case
    unfolding fst_conv snd_conv slot(1)
    by (rule world_changed [of W a]) (use Take(4) worker_takes [OF _ Take(1,2) slot(2)] in simp_all)
next
  case (Reconciled W cid job drift a outcome)
  then have ok: "daemon_ok Settled open_channel W a"
    by simp
  show ?case
    unfolding fst_conv snd_conv
    by (rule world_changed [OF ok]) (use daemon_okD(5) [OF ok] worker_reports [OF _ Reconciled(1), where e = "ReconciledEvent cid drift (Inr outcome)"] in simp_all)
next
  case (Quiesced W cid a)
  then have ok: "daemon_ok Settled open_channel W a"
    by simp
  show ?case
    unfolding fst_conv snd_conv
    by (rule world_changed [OF ok]) (use daemon_okD(5) [OF ok] worker_reports [OF _ Quiesced(1), where e = "QuiescedEvent cid"] in simp_all)
next
  case (Panicked W cid job drift a error)
  then have ok: "daemon_ok Settled open_channel W a"
    by simp
  show ?case
    unfolding fst_conv snd_conv
    by (rule world_changed [OF ok]) (use daemon_okD(5) [OF ok] worker_panics [OF _ Panicked(1)] in simp_all)
next
  case (Outside w a W)
  then show ?case
    by (auto simp: daemon_ok_def Let_def)
next
  case (FrequencyReported W e es a)
  then show ?case
    by (cases e) (simp_all add: reconciled_reported quiesced_reported failed_reported)
next
  case (SchedulerReported W a sid rest result)
  then show ?case
    by (simp add: scheduler_reported)
next
  case (RestoreReported W a rid rest outcome)
  then show ?case
    by (simp add: restore_finished)
qed

lemma begun:
  assumes "open_channel w"
  shows "daemon_ok Settled open_channel initial_world (runtime_actor_new E c w)"
proof -
  have env: "open_channel (snd (snd (actuator_health_snapshot E w)))"
    using assms by (simp add: actuator_health_snapshot_def split_beta steady)
  show ?thesis
    unfolding runtime_actor_new_def split_beta
    by (intro daemon.seeded daemon.fence_keeps daemon_okI)
      (use env in \<open>simp_all add: calls_ok_def tasks_ok_def lanes_ok_def waiting_def workers_ok_def queue_ok_def Let_def outstanding_def
        taken_tokens_def slot_tokens_def initial_world_def initial_lanes_def initial_restore_def frequency_commands_def
        scheduler_spawns_def restore_spawns_def List.map_filter_def\<close>)
qed

lemma reached: "daemon_reaches E open_channel c w a W \<Longrightarrow> open_channel w \<Longrightarrow> daemon_ok Settled open_channel W a"
  by (induction rule: daemon_reaches.induct) (auto intro: begun dest: stepped)

end

end
