(* ===== verification/Runtime_Latch.thy ===== *)
theory Runtime_Latch
  imports Runtime_Frames Engine_Safety Actuator_Demo
begin

text \<open>
  Invariants that do not look at the lanes of the workers. \<open>lane_blind\<close> is the interface of such an
  invariant; it gives one of \<open>actor_invariant\<close>, and survives the results of the workers as well. It is
  interpreted three times: a failure that may have left the machine half changed keeps the daemon from
  handing out work for good, every such failure makes the actuator read-only, and the safety fence is never
  behind the caps that were asked for last.
\<close>

text \<open>A run of the actor: before each message anything may have happened outside.\<close>

definition actor_run :: "('w, 'r) runtime_ports \<Rightarrow> ('w \<times> 'r actor_message) list \<Rightarrow> ('w, 'r) runtime_actor \<Rightarrow> ('w, 'r) runtime_actor" where
  "actor_run E ms a = fold (\<lambda>(w, m) b. actor_step E m (b\<lparr>ra_env := w\<rparr>)) ms a"

locale lane_blind = actor_frame +
  assumes lanes: "I a \<Longrightarrow> I (ra_lanes_update fl a)"
    and restores: "I a \<Longrightarrow> I (ra_restore_update fr a)"
    and quiesces: "I a \<Longrightarrow> I (snd (send_frequency_command E (QuiesceCommand cid) a))"
    and restoring: "I a \<Longrightarrow> I (emit (SpawnRestore rid) a)"
    and fence_reported: "I a \<Longrightarrow> I (finish_frequency_safety_update E uid outcome a)"
    and restore_failing: "I a \<Longrightarrow> I (ra_fence_update (\<lambda>f. f\<lparr>fe_restore_failure := Some msg, fe_actuator_read_only := True\<rparr>) a)"
begin

lemmas blind_steps = control_steps lanes restores restoring quiesces

lemma quiesce_asked: "I a \<Longrightarrow> I (request_frequency_quiesce E a)"
  unfolding request_frequency_quiesce_def Let_def by (intro blind_steps; assumption)

lemma restore_begun: "I a \<Longrightarrow> I (start_restore_worker a)"
  unfolding start_restore_worker_def Let_def by (intro blind_steps; assumption)

lemma reload_done: "I a \<Longrightarrow> I (complete_reload E reply candidate a)"
  by (intro reload_completed lanes)

lemma barriers_driven: "I a \<Longrightarrow> I (snd (drive_mutation_barriers E a))"
  unfolding drive_mutation_barriers_def Let_def
  by (intro blind_steps quiesce_asked restore_begun; (assumption | auto intro: reload_done lanes quiesce_asked split: prod.split))

lemma waiters_told:
  assumes "I a"
  shows "I (drain_sleep ans a)" "I (drain_wake ans a)" "I (drain_stop ans a)"
  unfolding drain_sleep_def drain_wake_def drain_stop_def by (intro answered restores assms)+

lemma suspended: "I a \<Longrightarrow> I (enter_suspended_state a)"
  unfolding enter_suspended_state_def by (intro blind_steps; assumption)

lemma resumes_blindly: "I a \<Longrightarrow> I (resume_from_sleep E a)"
  by (intro resumed restores)

lemmas transition_steps = blind_steps barriers_driven waiters_told suspended resumes_blindly restore_failing

lemma transitions:
  assumes "I a"
  shows "I (request_sleep_restore E reply a)" "I (request_resume E reply a)" "I (request_stop E reply a)"
    "I (receive_reload E reply result a)"
  unfolding request_sleep_restore_def request_resume_def request_stop_def receive_reload_def reload_rejected_def Let_def
  by (intro transition_steps assms; (assumption | simp))+

end

sublocale lane_blind \<subseteq> actor_invariant
  by unfold_locales (intro lanes restores fence_reported transitions; assumption)+

context lane_blind
begin

lemma restore_result: "I a \<Longrightarrow> I (settle_restore result a)"
  unfolding settle_restore_def by (intro transition_steps; assumption)

lemma worker_settled: "I a \<Longrightarrow> I (finish_worker_transition E a)"
  unfolding finish_worker_transition_def by (intro transition_steps adopted; assumption)

lemma workers_report:
  assumes "I a"
  shows "I (finish_restore E rid restored a)" "I (finish_scheduler_worker E sid result a)" "I (finish_frequency_worker E event a)"
proof -
  show "I (finish_restore E rid restored a)"
    unfolding finish_restore_def Let_def by (intro transition_steps restore_result assms; assumption)
  show "I (finish_scheduler_worker E sid result a)"
    unfolding finish_scheduler_worker_def Let_def by (intro transition_steps worker_settled adopted assms; assumption)
  show "I (finish_frequency_worker E event a)"
    by (cases event) (simp_all add: finish_frequency_worker_def Let_def transition_steps worker_settled adopted assms)
qed

theorem endures: "I a \<Longrightarrow> I (actor_step E m a)"
  by (cases "worker_message m", cases m) (simp_all add: workers_report survives)

lemma outlasts:
  assumes "\<And>b w. I b \<Longrightarrow> I (b\<lparr>ra_env := w\<rparr>)"
  shows "I a \<Longrightarrow> I (actor_run E ms a)"
  unfolding actor_run_def by (induction ms arbitrary: a) (auto intro: endures assms)

end

section \<open>The latch\<close>

definition reconcile_commands :: "('w, 'r) runtime_actor \<Rightarrow> frequency_worker_command list" where
  "reconcile_commands a = filter (\<lambda>c. case c of ReconcileCommand _ _ _ \<Rightarrow> True | QuiesceCommand _ \<Rightarrow> False) (frequency_commands a)"

text \<open>A restoration, the fence or a worker failed in a way that leaves the state of the machine unknown.\<close>

definition mutation_failure :: "fence_state \<Rightarrow> bool" where
  "mutation_failure f = (fe_restore_failure f \<noteq> None \<or> fe_safety_failure f \<noteq> None \<or> fe_worker_failure f \<noteq> None)"

definition fails_closed :: "fence_state \<Rightarrow> bool" where
  "fails_closed f = (mutation_failure f \<longrightarrow> fe_actuator_read_only f)"

definition latched :: "frequency_worker_command list \<Rightarrow> u64 list \<Rightarrow> ('w, 'r) runtime_actor \<Rightarrow> bool" where
  "latched commands spawns a =
     (mutation_failure (ra_fence a) \<and> fe_actuator_read_only (ra_fence a)
      \<and> reconcile_commands a = commands \<and> scheduler_spawns a = spawns)"

lemma reconcile_commands_updates [simp]:
  "reconcile_commands (ra_lanes_update fl a) = reconcile_commands a" "reconcile_commands (ra_restore_update fr a) = reconcile_commands a"
  "reconcile_commands (ra_fence_update ff a) = reconcile_commands a" "reconcile_commands (ra_env_update fe a) = reconcile_commands a"
  "reconcile_commands (ra_health_issues_update fh a) = reconcile_commands a"
  by (simp_all add: reconcile_commands_def)

lemma latched_same:
  "latched commands spawns a \<Longrightarrow> ra_fence b = ra_fence a \<Longrightarrow> ra_effects b = ra_effects a \<Longrightarrow> latched commands spawns b"
  using logs_cong [of b a] by (simp add: latched_def reconcile_commands_def)

lemma health_keeps_latch:
  "latched commands spawns a \<Longrightarrow> latched commands spawns (refresh_actuator_health E a)"
  by (auto simp: latched_def mutation_failure_def refresh_actuator_health_def Let_def clear_issue_def set_issue_def split_beta
      split: sum.split actuator_mode.split)

lemma submission_latched: "latched commands spawns a \<Longrightarrow> latched commands spawns (submit_plan E now desired a)"
  by (frule latched_same [where b = "submit_plan E now desired a"]) (simp_all add: submit_plan_def latched_def)

interpretation latch_frame: actor_frame E "latched commands spawns" for E commands spawns
proof unfold_locales
  fix a b :: "('w, 'r) runtime_actor" and e caps msg w
  assume ok: "latched commands spawns a"
  show "same_lanes a b \<Longrightarrow> latched commands spawns b"
    using ok by (auto simp: same_lanes_def intro: latched_same)
  show "plain_effect e \<Longrightarrow> latched commands spawns (emit e a)"
    using ok by (cases e) (simp_all add: latched_def reconcile_commands_def)
  show "latched commands spawns (request_frequency_safety_update caps a)"
    using ok by (auto simp: latched_def mutation_failure_def reconcile_commands_def request_frequency_safety_update_def
        start_frequency_safety_update_def Let_def)
  show "latched commands spawns (fail_reconcile_worker msg a)"
    using ok by (simp add: latched_def mutation_failure_def fail_reconcile_worker_def set_issue_def Let_def)
qed (auto intro: health_keeps_latch submission_latched latched_same)

lemma latched_fence:
  "latched commands spawns a \<Longrightarrow> mutation_failure (g (ra_fence a)) \<Longrightarrow> fe_actuator_read_only (g (ra_fence a))
     \<Longrightarrow> latched commands spawns (ra_fence_update g a)"
  by (simp add: latched_def)

lemma fence_keeps_latch:
  assumes ok: "latched commands spawns a"
  shows "latched commands spawns (finish_frequency_safety_update E uid outcome a)"
proof -
  have started: "latched commands spawns (start_frequency_safety_update caps b)" if "latched commands spawns b" for caps b
    using that by (simp add: latched_def mutation_failure_def reconcile_commands_def start_frequency_safety_update_def Let_def)
  show ?thesis
    unfolding finish_frequency_safety_update_def Let_def
    by (intro latch_frame.branches latch_frame.refreshed latch_frame.evaluated started latch_frame.small_steps latched_fence ok)
      (use ok in \<open>simp_all add: latched_def mutation_failure_def clear_issue_def\<close>)
qed

interpretation latch: lane_blind E "latched commands spawns" for E commands spawns
proof unfold_locales
  fix E :: "('w, 'r) runtime_ports" and a :: "('w, 'r) runtime_actor" and fl fr cid rid uid outcome msg
  assume ok: "latched commands spawns a"
  show "latched commands spawns (ra_lanes_update fl a)" "latched commands spawns (ra_restore_update fr a)"
    using ok by (simp_all add: latched_def)
  show "latched commands spawns (snd (send_frequency_command E (QuiesceCommand cid) a))"
    using ok by (simp add: latched_def reconcile_commands_def send_frequency_command_def split_beta Let_def)
  show "latched commands spawns (emit (SpawnRestore rid) a)"
    using ok by (simp add: latched_def reconcile_commands_def)
  show "latched commands spawns (ra_fence_update (\<lambda>f. f\<lparr>fe_restore_failure := Some msg, fe_actuator_read_only := True\<rparr>) a)"
    using ok by (simp add: latched_def mutation_failure_def)
qed (rule fence_keeps_latch)

section \<open>Failing closed\<close>

lemma fails_closed_submit: "fails_closed (ra_fence a) \<Longrightarrow> fails_closed (ra_fence (submit_plan E now desired a))"
  by (cases "mutation_failure (ra_fence a)"; simp add: submit_plan_def submit_frequency_reconcile_def submit_scheduler_reconcile_def
      send_frequency_command_def fail_reconcile_worker_def set_issue_def fails_closed_def Let_def split_beta)

lemma fails_closed_refresh: "fails_closed (ra_fence (refresh_actuator_health E a))"
  by (auto simp: fails_closed_def mutation_failure_def refresh_actuator_health_def Let_def clear_issue_def set_issue_def split_beta
      split: sum.split actuator_mode.split)

interpretation closing_frame: actor_frame E "\<lambda>a. fails_closed (ra_fence a)" for E
proof unfold_locales
  fix a :: "('w, 'r) runtime_actor" and caps msg
  assume "fails_closed (ra_fence a)"
  then show "fails_closed (ra_fence (request_frequency_safety_update caps a))"
    by (simp add: fails_closed_def mutation_failure_def request_frequency_safety_update_def start_frequency_safety_update_def Let_def)
  show "fails_closed (ra_fence (fail_reconcile_worker msg a))"
    by (simp add: fails_closed_def fail_reconcile_worker_def set_issue_def Let_def)
qed (simp_all add: same_lanes_def fails_closed_refresh fails_closed_submit)

lemma fails_closed_fence:
  assumes ok: "fails_closed (ra_fence a)"
  shows "fails_closed (ra_fence (finish_frequency_safety_update E uid outcome a))"
  unfolding finish_frequency_safety_update_def Let_def
  by (intro closing_frame.branches fails_closed_refresh closing_frame.evaluated)
    (use ok in \<open>simp_all add: fails_closed_def mutation_failure_def clear_issue_def start_frequency_safety_update_def Let_def\<close>)

interpretation closing: lane_blind E "\<lambda>a. fails_closed (ra_fence a)" for E
  by unfold_locales
    (simp_all add: fails_closed_fence send_frequency_command_def split_beta Let_def, simp_all add: fails_closed_def)

section \<open>The fence\<close>

definition fence_spawns :: "('w, 'r) runtime_actor \<Rightarrow> (target_id, hertz) btree list" where
  "fence_spawns a = List.map_filter (\<lambda>e. case e of SpawnSafetyUpdate _ caps \<Rightarrow> Some caps | _ \<Rightarrow> None) (ra_effects a)"

text \<open>The caps the fence was given last; it starts with none.\<close>

definition latest_fence_caps :: "('w, 'r) runtime_actor \<Rightarrow> (target_id, hertz) btree" where
  "latest_fence_caps a = last ([] # fence_spawns a)"

definition fence_follows :: "fence_state \<Rightarrow> (target_id, hertz) btree \<Rightarrow> bool" where
  "fence_follows f held =
     (fe_safety_failure f = None \<longrightarrow>
        (case fe_pending_upper_caps f of
           None \<Rightarrow> held = fe_requested_upper_caps f
         | Some caps \<Rightarrow> caps = fe_requested_upper_caps f \<and> fe_safety_update_in_flight f \<noteq> None))"

lemma fence_follows_iff:
  "fence_follows f held \<longleftrightarrow>
     (fe_safety_failure f = None \<longrightarrow>
        (fe_pending_upper_caps f = None \<longrightarrow> held = fe_requested_upper_caps f)
        \<and> (\<forall>caps. fe_pending_upper_caps f = Some caps \<longrightarrow> caps = fe_requested_upper_caps f \<and> fe_safety_update_in_flight f \<noteq> None))"
  by (simp add: fence_follows_def split: option.split)

definition fence_ok :: "('w, 'r) runtime_actor \<Rightarrow> bool" where
  "fence_ok a = fence_follows (ra_fence a) (latest_fence_caps a)"

lemma fence_log [simp]:
  "latest_fence_caps (emit e a) = (case e of SpawnSafetyUpdate _ caps \<Rightarrow> caps | _ \<Rightarrow> latest_fence_caps a)"
  "latest_fence_caps (ra_lanes_update fl a) = latest_fence_caps a" "latest_fence_caps (ra_restore_update fr a) = latest_fence_caps a"
  "latest_fence_caps (ra_fence_update ff a) = latest_fence_caps a" "latest_fence_caps (ra_env_update fe a) = latest_fence_caps a"
  "latest_fence_caps (ra_outcome_update fo a) = latest_fence_caps a"
  "latest_fence_caps (ra_health_issues_update fh a) = latest_fence_caps a"
  by (cases e; simp add: latest_fence_caps_def fence_spawns_def emit_def List.map_filter_def)
    (simp_all add: latest_fence_caps_def fence_spawns_def)

lemma fence_ok_same: "fence_ok a \<Longrightarrow> ra_fence b = ra_fence a \<Longrightarrow> latest_fence_caps b = latest_fence_caps a \<Longrightarrow> fence_ok b"
  by (simp add: fence_ok_def)

lemma fence_ok_submit: "fence_ok a \<Longrightarrow> fence_ok (submit_plan E now desired a)"
  by (simp add: submit_plan_def submit_frequency_reconcile_def submit_scheduler_reconcile_def send_frequency_command_def
      fail_reconcile_worker_def set_issue_def fence_ok_def fence_follows_iff Let_def split_beta)

lemma fence_ok_refresh: "fence_ok a \<Longrightarrow> fence_ok (refresh_actuator_health E a)"
  by (auto simp: fence_ok_def fence_follows_iff refresh_actuator_health_def Let_def clear_issue_def set_issue_def split_beta
      split: sum.split actuator_mode.split)

lemma fence_ok_request: "fence_ok a \<Longrightarrow> fence_ok (request_frequency_safety_update caps a)"
  by (auto simp: fence_ok_def fence_follows_iff request_frequency_safety_update_def start_frequency_safety_update_def Let_def
      split: option.splits)

interpretation fence_frame: actor_frame E fence_ok for E
proof unfold_locales
  fix a b :: "('w, 'r) runtime_actor" and e msg
  assume ok: "fence_ok a"
  show "same_lanes a b \<Longrightarrow> fence_ok b"
    using ok by (simp add: same_lanes_def fence_ok_def latest_fence_caps_def fence_spawns_def)
  show "plain_effect e \<Longrightarrow> fence_ok (emit e a)"
    using ok by (cases e) (simp_all add: fence_ok_def)
  show "fence_ok (fail_reconcile_worker msg a)"
    using ok by (simp add: fence_ok_def fence_follows_iff fail_reconcile_worker_def set_issue_def Let_def)
qed (simp_all add: fence_ok_refresh fence_ok_submit fence_ok_request, simp_all add: fence_ok_def)

lemma fence_ok_reported:
  assumes ok: "fence_ok a"
  shows "fence_ok (finish_frequency_safety_update E uid outcome a)"
  unfolding finish_frequency_safety_update_def Let_def
  by (intro fence_frame.branches fence_ok_refresh fence_frame.evaluated)
    (use ok in \<open>simp_all add: fence_ok_def fence_follows_iff clear_issue_def set_issue_def start_frequency_safety_update_def Let_def\<close>)

interpretation fence: lane_blind E fence_ok for E
  by unfold_locales
    (simp_all add: fence_ok_reported, simp_all add: fence_ok_def fence_follows_iff send_frequency_command_def split_beta Let_def)

section \<open>A daemon to look at\<close>

text \<open>The outside of a daemon: the actuator it owns, a clock, the receiver of its commands and the reader of identities.\<close>

record 'e daemon_host = "'e machine" +
  dh_clock :: u64
  dh_receiver :: bool
  dh_reader :: "message option"

definition daemon_ports ::
  "bool \<Rightarrow> bool \<Rightarrow> (f64 \<Rightarrow> f64) \<Rightarrow> ('r \<Rightarrow> string \<Rightarrow> bool) \<Rightarrow> ('e daemon_host, 'r) runtime_ports" where
  "daemon_ports process_backend systemd_backend exp_f is_match =
     \<lparr>rn_monotonic_millis = (\<lambda>h. (dh_clock h, h)), rn_frequency_channel_open = (\<lambda>h. (dh_receiver h, h)),
      rn_identity_reader = (\<lambda>h. (dh_reader h, h)), rn_actuator = True, rn_actuator_mode = (\<lambda>h. (Inr (m_mode h), h)),
      rn_startup_recovery_required = (\<lambda>h. (Inr (m_recovery_required h), h)), rn_process_backend = process_backend,
      rn_systemd_backend = systemd_backend, rn_exp = exp_f, rn_is_match = is_match\<rparr>"

definition target_demo :: resolved_target where
  "target_demo =
     \<lparr>rt_id = ''cpu0'', rt_kind = ''cpu'', rt_label = ''cpu0'', rt_cpus = [0], rt_hardware_limits = \<lparr>min_hz = 100, max_hz = 400\<rparr>,
      rt_available_frequencies = [100, 200, 400],
      rt_paths = \<lparr>ftp_id = ''cpu0'', ftp_minimum = path_of ''/min'', ftp_maximum = path_of ''/max'', ftp_current = path_of ''/cur'',
        ftp_hertz_per_unit = 1\<rparr>,
      rt_automatic_policy = None, rt_energy_model = None, rt_administrator_cap = Some 300, rt_critical_cap = 100,
      rt_sensor_failure_cap = 200\<rparr>"

definition configuration_demo :: "string resolved_configuration" where
  "configuration_demo =
     \<lparr>rc_device = device_example, rc_policy = materialized_example, rc_apps = apps_example, rc_app_rule_engine = [],
      rc_policy_engine = engine_example, rc_targets = [(''cpu0'', target_demo)], rc_thermal_zones = [], rc_warnings = []\<rparr>"

definition host_demo :: "demo_env daemon_host" where
  "host_demo =
     \<lparr>w_env = w_env (demo_world None False), w_now = 0, m_mode = ReadWrite, m_journal = empty_journal demo 0, m_recovery_required = False,
      dh_clock = 0, dh_receiver = True, dh_reader = None\<rparr>"

definition ports_demo :: "(demo_env daemon_host, string) runtime_ports" where
  "ports_demo = daemon_ports False False (\<lambda>x. x) (=)"

lemma actor_demo:
  "ra_fence (runtime_actor_new ports_demo configuration_demo host_demo) =
     \<lparr>fe_restore_failure = None, fe_safety_update_in_flight = Some 1, fe_next_safety_update_id = 1,
      fe_requested_upper_caps = [(''cpu0'', 200)], fe_pending_upper_caps = None, fe_safety_failure = None,
      fe_worker_failure = None, fe_actuator_read_only = False, fe_startup_recovery_pending = False\<rparr>"
  by code_simp

section \<open>The properties\<close>

lemma fails_closed_new: "fails_closed (ra_fence (runtime_actor_new E c w))"
  unfolding runtime_actor_new_def split_beta
  by (intro closing_frame.seeded closing_frame.fence_keeps) (simp add: fails_closed_def mutation_failure_def initial_fence_def)

lemma fence_ok_new: "fence_ok (runtime_actor_new E c w)"
  unfolding runtime_actor_new_def split_beta
  by (intro fence_frame.seeded fence_frame.fence_keeps)
    (simp add: fence_ok_def fence_follows_def initial_fence_def latest_fence_caps_def fence_spawns_def List.map_filter_def)

lemma fails_closed_run: "fails_closed (ra_fence (actor_run E ms (runtime_actor_new E c w)))"
  by (rule closing.outlasts) (simp_all add: fails_closed_new)

lemma fence_ok_run: "fence_ok (actor_run E ms (runtime_actor_new E c w))"
  by (rule fence.outlasts) (simp_all add: fence_ok_new, simp add: fence_ok_def)

text \<open>
  C8: the daemon fails closed. Whatever messages arrived and whatever happened outside between them: once a
  restoration failed, the safety fence failed or a worker was lost, the actuator is read-only, and no
  sequence of later messages makes the actor hand out another frequency reconciliation or spawn another
  scheduler reconciliation.
\<close>

theorem failure_disables_mutations:
  assumes "a = actor_run E earlier (runtime_actor_new E c w)" and "mutation_failure (ra_fence a)"
  shows "fe_actuator_read_only (ra_fence (actor_run E later a))
    \<and> reconcile_commands (actor_run E later a) = reconcile_commands a
    \<and> scheduler_spawns (actor_run E later a) = scheduler_spawns a"
proof -
  have "latched (reconcile_commands a) (scheduler_spawns a) a"
    using assms fails_closed_run [of E earlier c w] by (simp add: latched_def fails_closed_def)
  then have "latched (reconcile_commands a) (scheduler_spawns a) (actor_run E later a)"
    by (rule latch.outlasts [rotated]) (simp add: latched_def)
  then show ?thesis
    by (simp add: latched_def)
qed

lemma lost_worker_latches:
  "mutation_failure (ra_fence (actor_step E (FrequencyWorkerMessage (FailedEvent error)) a))"
proof -
  define b where "b = fail_reconcile_worker error
    (ra_lanes_update (\<lambda>l. l\<lparr>wl_frequency_command_pending := None, wl_frequency_quiesce_pending := None,
       wl_frequency_requested := None, wl_frequency_quiesced := True\<rparr>) a)"
  have "latched (reconcile_commands b) (scheduler_spawns b) b"
    by (simp add: latched_def b_def fail_reconcile_worker_def set_issue_def mutation_failure_def Let_def)
  from latch.worker_settled [OF this] show ?thesis
    by (simp add: finish_frequency_worker_def b_def latched_def)
qed

theorem failure_disables_mutations_witness:
  "reconcile_commands (actor_run ports_demo [(host_demo, TickMessage), (host_demo, CommandMessage (ActivateMutations 1))]
      (actor_run ports_demo [(host_demo, FrequencyWorkerMessage (FailedEvent (MStr ''lost'')))]
         (runtime_actor_new ports_demo configuration_demo host_demo)))
   = reconcile_commands (actor_run ports_demo [(host_demo, FrequencyWorkerMessage (FailedEvent (MStr ''lost'')))]
         (runtime_actor_new ports_demo configuration_demo host_demo))"
  by (rule failure_disables_mutations [THEN conjunct2, THEN conjunct1, OF refl])
    (simp only: actor_run_def fold.simps prod.case comp_apply id_apply lost_worker_latches)




definition abandoned_demo :: "(demo_env daemon_host, string) runtime_actor" where
  "abandoned_demo =
     \<lparr>ra_configuration = configuration_demo, ra_lanes = initial_lanes, ra_restore = initial_restore\<lparr>rs_mutations_activated := True\<rparr>,
      ra_fence = initial_fence False False, ra_focus = initial_focus, ra_interaction = initial_interaction,
      ra_sensing = initial_sensing configuration_demo, ra_planning = initial_planning,
      ra_outcome = initial_outcome\<lparr>oc_scheduler_dirty := True\<rparr>, ra_config_generation = 1, ra_observer_generation = 1,
      ra_observer_settings = observer_settings_from configuration_demo 1, ra_capabilities_changed = False, ra_health_issues = [],
      ra_panicked = False, ra_env = host_demo\<lparr>dh_receiver := False\<rparr>, ra_effects = []\<rparr>"

definition plan_demo :: desired_plan where
  "plan_demo =
     \<lparr>dp_generation = 1, dp_effective_profile = Balance, dp_dominant_scene = Idle,
      dp_frequencies = [(''cpu0'', \<lparr>min_hz = 100, max_hz = 200\<rparr>)], dp_scalars = [], dp_tasks = []\<rparr>"

lemma abandoned_demo_facts:
  "\<not> mutation_blocked abandoned_demo" "rn_actuator ports_demo" "\<not> fe_actuator_read_only (ra_fence abandoned_demo)"
  "frequency_needs_reconcile plan_demo abandoned_demo" "oc_frequency_retry_not_before (ra_outcome abandoned_demo) \<le> 0"
  "oc_scheduler_dirty (ra_outcome abandoned_demo)" "oc_scheduler_retry_not_before (ra_outcome abandoned_demo) \<le> 0"
  "wl_frequency_command_pending (ra_lanes abandoned_demo) = None" "wl_scheduler_in_flight (ra_lanes abandoned_demo) = None"
  "\<not> fst (rn_frequency_channel_open ports_demo (ra_env abandoned_demo))"
  by (simp_all add: abandoned_demo_def initial_restore_def initial_lanes_def initial_fence_def initial_outcome_def plan_demo_def
      mutation_blocked_def frequency_needs_reconcile_def AppliedState_default_def ports_demo_def daemon_ports_def)


end
