(* ===== verification/Runtime_Properties.thy ===== *)
theory Runtime_Properties
  imports Runtime_Safety Runtime_Latch
begin

text \<open>
  What the runtime guarantees as a whole: restorations run alone, nobody waits for a restoration that cannot
  come, and the caps of the fence are the pointwise minimum of what the administrator and the thermal state allow.
\<close>

section \<open>The daemon and its workers\<close>

interpretation host: steady_runtime "daemon_ports process_backend systemd_backend exp_f is_match" dh_receiver
  for process_backend systemd_backend exp_f is_match
  by unfold_locales (simp_all add: daemon_ports_def)

lemma slot_outstanding: "channel_slot W a = Some c \<Longrightarrow> outstanding W (frequency_commands a) \<noteq> []"
  by (auto simp: channel_slot_def outstanding_def slot_tokens_def split: if_splits)

lemma running_outstanding: "dw_running W = Some c \<Longrightarrow> outstanding W cs \<noteq> []"
  by (simp add: outstanding_def taken_tokens_def)

lemma option_list_iff [simp]: "option_list p = [] \<longleftrightarrow> p = None"
  by (cases p) simp_all

lemma queue_empty: "queue_ok W cs l \<Longrightarrow> wl_frequency_command_pending l = None \<Longrightarrow> outstanding W cs = []"
  by (auto simp: queue_ok_def Let_def split: if_splits)

lemma tasks_ok_iff: "tasks_ok n spawned in_flight \<Longrightarrow> drop n spawned = [] \<longleftrightarrow> in_flight = None"
  by (simp add: tasks_ok_def)

definition sleeping_demo :: "(demo_env daemon_host, string) runtime_actor" where
  "sleeping_demo =
     actor_step ports_demo (InputMessage (PrepareForSleep True 7)) (runtime_actor_new ports_demo configuration_demo host_demo)"

lemma ports_demo_steady: "steady_runtime ports_demo dh_receiver"
  unfolding ports_demo_def by (rule host.steady_runtime_axioms)

lemma sleeping_demo_reached: "daemon_reaches ports_demo dh_receiver configuration_demo host_demo sleeping_demo initial_world"
  unfolding sleeping_demo_def by (rule Stepped [OF Started], rule Handle) simp

lemma issue_fields [simp]:
  "ra_lanes (set_issue code s k m a) = ra_lanes a" "ra_restore (set_issue code s k m a) = ra_restore a"
  "ra_fence (set_issue code s k m a) = ra_fence a" "ra_effects (set_issue code s k m a) = ra_effects a"
  "ra_lanes (clear_issue code a) = ra_lanes a" "ra_restore (clear_issue code a) = ra_restore a"
  "ra_fence (clear_issue code a) = ra_fence a" "ra_effects (clear_issue code a) = ra_effects a"
  by (simp_all add: set_issue_def clear_issue_def)

text \<open>What no handler of health or caps touches.\<close>

definition untouched :: "'r lane_state \<Rightarrow> restore_state \<Rightarrow> u64 list \<Rightarrow> message option \<Rightarrow> ('w, 'r) runtime_actor \<Rightarrow> bool" where
  "untouched l r spawned failure a =
     (ra_lanes a = l \<and> ra_restore a = r \<and> restore_spawns a = spawned \<and> fe_restore_failure (ra_fence a) = failure)"

lemma untouched_steps:
  "untouched l r s f a \<Longrightarrow> untouched l r s f (set_issue code severity component msg a)"
  "untouched l r s f a \<Longrightarrow> untouched l r s f (clear_issue code a)"
  "untouched l r s f a \<Longrightarrow> untouched l r s f b \<Longrightarrow> untouched l r s f (if p then a else b)"
  "untouched l r s f a \<Longrightarrow> untouched l r s f (refresh_actuator_health E a)"
  by (auto simp: untouched_def restore_spawns_def refresh_actuator_health_def Let_def split_beta split: sum.split actuator_mode.split)

lemma untouched_warnings:
  "untouched l r s f a \<Longrightarrow> untouched l r s f (fold (\<lambda>(i, m). set_issue (warning_code i) severity component m) xs a)"
  by (induction xs arbitrary: a) (auto simp: untouched_steps)

lemma untouched_health: "untouched l r s f a \<Longrightarrow> untouched l r s f (seed_health E a)"
  unfolding seed_health_def Let_def by (intro untouched_steps untouched_warnings; assumption)

lemma untouched_caps: "untouched l r s f a \<Longrightarrow> untouched l r s f (update_thermal_caps a)"
  by (simp add: untouched_def update_thermal_caps_def request_frequency_safety_update_def start_frequency_safety_update_def
      clear_frequency_failure_def clear_issue_def restore_spawns_def emit_def List.map_filter_def Let_def)

lemma started_fields: "untouched initial_lanes initial_restore [] None (runtime_actor_new E c w)"
  unfolding runtime_actor_new_def split_beta
  by (intro untouched_health untouched_caps)
    (simp add: untouched_def restore_spawns_def List.map_filter_def initial_fence_def)

lemma sleep_at_once:
  assumes "ra_lanes a = initial_lanes" "ra_restore a = initial_restore" "fe_restore_failure (ra_fence a) = None"
  shows "restore_spawns (request_sleep_restore E reply a) = restore_spawns a @ [1]
    \<and> ra_lanes (request_sleep_restore E reply a) = initial_lanes
    \<and> rs_sleep_waiters (ra_restore (request_sleep_restore E reply a)) = [reply]
    \<and> \<not> rs_stop_requested (ra_restore (request_sleep_restore E reply a))"
  using assms
  by (simp add: request_sleep_restore_def enter_suspended_state_def forget_render_def drive_mutation_barriers_def
      request_frequency_quiesce_def start_restore_worker_def initial_lanes_def initial_restore_def Let_def u64_saturating_add_def
      restore_spawns_def emit_def List.map_filter_def)

lemma sleeping_demo_facts:
  "restore_spawns sleeping_demo = [1]" "wl_next_frequency_command_id (ra_lanes sleeping_demo) < - 1"
  "rs_sleep_waiters (ra_restore sleeping_demo) = [7]" "\<not> rs_stop_requested (ra_restore sleeping_demo)"
proof -
  let ?a = "mark_decision_trigger ports_demo ''sleep-transition'' (runtime_actor_new ports_demo configuration_demo host_demo)"
  have "ra_lanes ?a = initial_lanes" "ra_restore ?a = initial_restore" "fe_restore_failure (ra_fence ?a) = None" and empty: "restore_spawns ?a = []"
    using started_fields [of ports_demo configuration_demo host_demo]
    by (simp_all add: untouched_def mark_decision_trigger_def monotonic_def split_beta restore_spawns_def)
  note asleep = sleep_at_once [OF this(1-3), of ports_demo 7, unfolded empty]
  have demo: "sleeping_demo = request_sleep_restore ports_demo 7 ?a"
    by (simp add: sleeping_demo_def reduce_runtime_input_def)
  show "restore_spawns sleeping_demo = [1]" "rs_sleep_waiters (ra_restore sleeping_demo) = [7]"
    "\<not> rs_stop_requested (ra_restore sleeping_demo)"
    unfolding demo using asleep by simp_all
  have "ra_lanes sleeping_demo = initial_lanes"
    unfolding demo using asleep by blast
  then show "wl_next_frequency_command_id (ra_lanes sleeping_demo) < - 1"
    by (simp add: initial_lanes_def word_gt_0)
qed

lemma host_demo_open: "dh_receiver host_demo"
  by (simp add: host_demo_def)

text \<open>
  C7: restorations run alone. In every state the daemon reaches, however its messages, its workers and the
  outside interleave and even when the worker panics: while a restoration runs, the worker of the frequencies executes nothing, nothing
  waits in its channel for it to take, and no scheduler reconciliation runs.
\<close>

theorem restoration_runs_alone:
  assumes "steady_runtime E open_channel" and "open_channel w" and "daemon_reaches E open_channel c w a W"
    and "wl_next_frequency_command_id (ra_lanes a) < - 1" and "running_restores W a \<noteq> []"
  shows "dw_running W = None \<and> (dw_alive W \<longrightarrow> channel_slot W a = None) \<and> running_schedulers W a = []"
proof -
  note ok = daemon_okD [OF steady_runtime.reached [OF assms(1,3,2)]]
  have "rs_restore_in_flight (ra_restore a) \<noteq> None"
    using assms(5) tasks_ok_iff [OF ok(3)] by (simp add: running_restores_def)
  then have lanes: "wl_frequency_quiesced (ra_lanes a)" "wl_scheduler_in_flight (ra_lanes a) = None"
      "wl_frequency_command_pending (ra_lanes a) = None"
    using ok(6) [OF assms(4)] by (simp_all add: lanes_ok_def)
  have "running_schedulers W a = []"
    using lanes(2) tasks_ok_iff [OF ok(2)] by (simp add: running_schedulers_def)
  moreover have "dw_running W = None \<and> (dw_alive W \<longrightarrow> channel_slot W a = None)"
  proof (cases "dw_alive W")
    case True
    then have "outstanding W (frequency_commands a) = []"
      using ok(7) [OF assms(4)] lanes(3) by (simp add: workers_ok_def queue_empty)
    then show ?thesis
      using running_outstanding [of W] slot_outstanding [of W a] by (metis not_Some_eq)
  next
    case False
    then show ?thesis
      using ok(7) [OF assms(4)] by (simp add: workers_ok_def death_known_def)
  qed
  ultimately show ?thesis
    by blast
qed

theorem restoration_runs_alone_witness:
  "running_restores initial_world sleeping_demo = [1]
   \<and> channel_slot initial_world sleeping_demo = None \<and> running_schedulers initial_world sleeping_demo = []"
proof -
  have restore: "running_restores initial_world sleeping_demo = [1]"
    using sleeping_demo_facts by (simp add: running_restores_def initial_world_def)
  show ?thesis
    using restoration_runs_alone [OF ports_demo_steady host_demo_open sleeping_demo_reached] sleeping_demo_facts restore
    by (simp add: initial_world_def)
qed

text \<open>
  C15: nobody waits for nothing. In every state the daemon reaches while it is not told to stop: when a caller waits for a sleep
  transition, a resume or a shutdown, then a restoration runs, or something that will lead to one is still to
  happen: a scheduler reconciliation runs, or the worker of the frequencies has an event to deliver, a command in
  execution, or one to take.
\<close>

theorem nobody_waits_for_nothing:
  assumes "steady_runtime E open_channel" and "open_channel w" and "daemon_reaches E open_channel c w a W"
    and "wl_next_frequency_command_id (ra_lanes a) < - 1" and "\<not> rs_stop_requested (ra_restore a)"
    and "rs_sleep_waiters (ra_restore a) \<noteq> [] \<or> rs_wake_waiters (ra_restore a) \<noteq> [] \<or> rs_stop_waiters (ra_restore a) \<noteq> []"
  shows "running_restores W a \<noteq> [] \<or> running_schedulers W a \<noteq> [] \<or> dw_events W \<noteq> [] \<or> dw_running W \<noteq> None
    \<or> dw_alive W \<and> channel_slot W a \<noteq> None"
proof (cases "rs_restore_in_flight (ra_restore a) = None \<and> wl_scheduler_in_flight (ra_lanes a) = None")
  note ok = daemon_okD [OF steady_runtime.reached [OF assms(1,3,2)]]
  case False
  then show ?thesis
    using tasks_ok_iff [OF ok(2)] tasks_ok_iff [OF ok(3)] by (auto simp: running_schedulers_def running_restores_def)
next
  note ok = daemon_okD [OF steady_runtime.reached [OF assms(1,3,2)]]
  case True
  then have "rs_restore_requested (ra_restore a)"
    using ok(1) assms(6) by (simp add: calls_ok_def Let_def)
  then obtain q where quiesce: "wl_frequency_quiesce_pending (ra_lanes a) = Some q"
    using ok(6) [OF assms(4)] True assms(5) by (auto simp: lanes_ok_def waiting_def)
  then have pending: "wl_frequency_command_pending (ra_lanes a) \<noteq> None" "\<not> wl_frequency_quiesced (ra_lanes a)"
    using ok(6) [OF assms(4)] by (auto simp: lanes_ok_def)
  show ?thesis
  proof (cases "dw_alive W")
    case True
    then have "outstanding W (frequency_commands a) \<noteq> []"
      using ok(7) [OF assms(4)] pending(1) by (auto simp: workers_ok_def queue_ok_def Let_def)
    then show ?thesis
      using True by (auto simp: outstanding_def taken_tokens_def slot_tokens_def channel_slot_def split: if_splits)
  next
    case False
    then have "\<exists>e. FailedEvent e \<in> set (dw_events W)"
      using ok(7) [OF assms(4)] pending(2) by (simp add: workers_ok_def death_known_def)
    then show ?thesis
      by auto
  qed
qed

theorem nobody_waits_for_nothing_witness:
  "rs_sleep_waiters (ra_restore sleeping_demo) = [7]
   \<and> \<not> (running_restores initial_world sleeping_demo = [] \<and> running_schedulers initial_world sleeping_demo = []
          \<and> dw_events initial_world = [] \<and> dw_running initial_world = None \<and> channel_slot initial_world sleeping_demo = None)"
  using nobody_waits_for_nothing [OF ports_demo_steady host_demo_open sleeping_demo_reached] sleeping_demo_facts by auto

section \<open>The caps of the fence\<close>

text \<open>What the administrator and the thermal state together allow a target.\<close>

definition upper_cap :: "'r resolved_configuration \<Rightarrow> thermal_state \<Rightarrow> target_id \<Rightarrow> hertz option" where
  "upper_cap c state tid =
     Option.bind (bt_get (rc_targets c) tid) (\<lambda>target. list_min (flatten [rt_administrator_cap target, thermal_cap state target]))"

definition put_cap :: "('v \<Rightarrow> hertz option) \<Rightarrow> target_id \<times> 'v \<Rightarrow> (target_id, hertz) btree \<Rightarrow> (target_id, hertz) btree" where
  "put_cap f = (\<lambda>(tid, target) caps. case f target of None \<Rightarrow> caps | Some cap \<Rightarrow> bt_insert tid cap caps)"

lemma put_caps_get:
  "distinct (map fst ts) \<Longrightarrow>
     bt_get (fold (put_cap f) ts m) k = (case Option.bind (bt_get ts k) f of None \<Rightarrow> bt_get m k | Some v \<Rightarrow> Some v)"
proof (induction ts arbitrary: m)
  case (Cons t ts)
  obtain tid target where t: "t = (tid, target)"
    by fastforce
  have "bt_get ts tid = None"
    using Cons.prems t by (auto simp: bt_get_def map_of_eq_None_iff)
  then show ?case
    using Cons by (auto simp: t put_cap_def bt_get_Cons bt_get_insert split: option.split)
qed simp

lemma put_caps_wf: "bt_wf m \<Longrightarrow> bt_wf (fold (put_cap f) ts m)"
  by (induction ts arbitrary: m) (auto simp: put_cap_def bt_wf_insert split: option.split)

lemma join_caps_get:
  "distinct (map fst caps) \<Longrightarrow>
     bt_get (fold join_cap caps m) k =
       (case bt_get caps k of None \<Rightarrow> bt_get m k | Some cap \<Rightarrow> Some (case bt_get m k of None \<Rightarrow> cap | Some other \<Rightarrow> min other cap))"
proof (induction caps arbitrary: m)
  case (Cons e caps)
  obtain tid cap where e: "e = (tid, cap)"
    by fastforce
  have "bt_get caps tid = None"
    using Cons.prems e by (auto simp: bt_get_def map_of_eq_None_iff)
  then show ?case
    using Cons by (auto simp: e join_cap_def bt_get_Cons bt_get_insert split: option.split)
qed simp

lemma administrator_caps_put: "administrator_caps c = fold (put_cap rt_administrator_cap) (rc_targets c) []"
proof -
  have "bt_extend m (List.map_filter (\<lambda>(tid, target). map_option (Pair tid) (rt_administrator_cap target)) ts)
      = fold (put_cap rt_administrator_cap) ts m" for ts m
    by (induction ts arbitrary: m) (auto simp: bt_extend_def List.map_filter_def put_cap_def split: option.split)
  then show ?thesis
    by (simp add: administrator_caps_def bt_collect_def)
qed

lemma thermal_caps_put: "thermal_caps_of c state = fold (put_cap (thermal_cap state)) (rc_targets c) []"
  by (simp add: thermal_caps_of_def put_cap_def)

lemma bt_wf_distinct: "bt_wf m \<Longrightarrow> distinct (map fst m)"
  by (simp add: bt_wf_def strict_sorted_iff)

lemma joined_caps:
  assumes "bt_wf (rc_targets c)"
  shows "bt_get (fold join_cap (thermal_caps_of c state) (administrator_caps c)) tid = upper_cap c state tid"
proof -
  have "bt_wf (thermal_caps_of c state)"
    by (simp add: thermal_caps_put put_caps_wf)
  then show ?thesis
    using put_caps_get [OF bt_wf_distinct [OF assms]]
    by (simp add: join_caps_get bt_wf_distinct)
      (auto simp: thermal_caps_put administrator_caps_put upper_cap_def list_min_def min_by_key.simps min_def
        split: option.split bind_splits)
qed

text \<open>
  C22: the caps the fence is asked for after a thermal update, computed by merging two maps in place, are the
  pointwise minimum of what the administrator and the thermal state allow each target; a target with neither has none.
\<close>

theorem fence_caps_are_pointwise_minimum:
  fixes a :: "('w, 'r) runtime_actor"
  assumes "bt_wf (rc_targets (ra_configuration a))" and "fe_safety_failure (ra_fence a) = None"
  shows "bt_get (fe_requested_upper_caps (ra_fence (update_thermal_caps a))) tid
    = upper_cap (ra_configuration a) (se_thermal_state (ra_sensing a)) tid"
proof -
  have asked: "fe_requested_upper_caps (ra_fence (request_frequency_safety_update caps b)) = caps"
    if "fe_safety_failure (ra_fence b) = None" for caps and b :: "('w, 'r) runtime_actor"
    using that by (simp add: request_frequency_safety_update_def start_frequency_safety_update_def Let_def)
  have "fe_requested_upper_caps (ra_fence (update_thermal_caps a))
      = fold join_cap (thermal_caps_of (ra_configuration a) (se_thermal_state (ra_sensing a))) (administrator_caps (ra_configuration a))"
    using assms(2) by (simp add: update_thermal_caps_def clear_frequency_failure_def clear_issue_def asked Let_def)
  then show ?thesis
    using joined_caps [OF assms(1)] by simp
qed

theorem fence_caps_are_pointwise_minimum_witness:
  "bt_get (fe_requested_upper_caps (ra_fence (update_thermal_caps abandoned_demo))) ''cpu0'' = Some 200"
  using fence_caps_are_pointwise_minimum [of abandoned_demo "''cpu0''"]
  by (simp add: abandoned_demo_def configuration_demo_def initial_fence_def initial_sensing_def bt_wf_def upper_cap_def bt_get_def
      target_demo_def thermal_cap_def list_min_def min_by_key.simps)

section \<open>Stored application rules\<close>

text \<open>
  storing an application rule replaces the document but not the compiled rules: the evaluation that follows at
  once sees the new document and still picks the profile of every process by the old rules.
\<close>

theorem stored_rule_is_not_in_force:
  "\<exists>b. finish_app_persistence E candidate changed_id msg reply (Inr ()) a
         = (let a2 = evaluate_and_reconcile E b in answer_receipt reply (Inr (receipt (generation_of a2) [changed_id] msg), a2))
     \<and> rc_apps (ra_configuration b) = candidate \<and> match_app_profile E b = match_app_profile E a"
proof -
  define b where "b = bump_generation
    (let a1 = mark_decision_trigger E ''app-rule-update'' (ra_lanes_update (\<lambda>l. l\<lparr>wl_app_persist_in_flight := False\<rparr>) a)
     in a1\<lparr>ra_configuration := (ra_configuration a1)\<lparr>rc_apps := candidate\<rparr>,
          ra_config_generation := u64_saturating_add (ra_config_generation a1) 1\<rparr>)"
  have "rc_apps (ra_configuration b) = candidate \<and> match_app_profile E b = match_app_profile E a"
    by (simp add: b_def Let_def match_app_profile_def bump_generation_def mark_decision_trigger_def monotonic_def split_beta fun_eq_iff)
  then show ?thesis
    by (intro exI [of _ b]) (simp add: finish_app_persistence_def b_def Let_def)
qed

end
