(* ===== verification/Spec2Isabelle.thy ===== *)
theory Spec2Isabelle
  imports Load Thermal Engine_Safety Write_Ahead_Runs Actuator_Formats Reconcile_Safety Input_Safety
    Runtime_Properties
begin

text \<open>
  Verification of uperf-linux, a user-space CPU frequency and scheduling controller: its pure policy
  core (\<open>src/crates/uperf-core\<close>), the transactional actuator (\<open>src/crates/uperf-actuator\<close>) with the
  ports it works on (\<open>src/crates/uperf-platform\<close>), of the daemon the actor that owns its state
  (\<open>runtime.rs\<close> of \<open>src/crates/uperf-daemon\<close>) and the worker that carries a decision out and records it
  (\<open>reconcile.rs\<close>, \<open>decision_trace.rs\<close>), and the observer of touch and desktop input (\<open>input.rs\<close> of
  \<open>src/crates/uperf-linux\<close>).

  \<^bold>\<open>The program.\<close> A root daemon samples CPU load, temperatures and workload focus, evaluates
  a policy and writes frequency limits and scheduling attributes through a transactional actuator.
  All decisions are made by the core crate, which performs no I/O: it validates the three
  configuration documents, resolves the operating mode and the active scene, turns temperatures into
  a thermal state, runs the package-wide energy governor and matches scheduler and application
  rules. A blocking worker of the daemon (\<open>reconcile.rs\<close>) takes one decision at a time, lowers the
  limits that exceed a safety cap, claims, updates and releases frequency targets, scalars, tasks and
  systemd units through the actuator, and appends the outcome to a bounded trace that clients page
  through. The actuator owns what it changes: before it writes an attribute it stores a journal with the
  original and every value the attribute can pass through, so that the next daemon can give everything
  back after a crash. One task of the daemon, the actor of \<open>runtime.rs\<close>, owns all of this state: commands of
  clients, samples of the observers, touches, session and sleep transitions, results of the workers and
  timer ticks reach it as messages, it evaluates the policy and hands plans to the workers, and it holds them back
  behind a barrier while resources are being restored for sleep, shutdown or a reload. A safety fence, updated
  before any plan, holds the caps below which the workers keep every frequency. The other crates talk to clients.

  \<^bold>\<open>Layout.\<close> One theory per component, in the order of the calls between them.
  \<^item> \<open>Prelude\<close>: machine integers (\<open>u64\<close> as 64-bit words, with the saturating operations and the
    wrap-around of the release build written out; \<open>i64\<close> as bounded integers), results as sums with
    the error on the left, the iterator functions of the Rust standard library, \<open>BTreeMap\<close> as an
    association list sorted by key, and two interfaces: \<open>ordered_map\<close>, the laws of a map used by its
    clients, and \<open>invariant_machine\<close>, a component that keeps an invariant over a stream of events.
  \<^item> \<open>F64\<close>, \<open>F64_Round\<close>: binary64 arithmetic. A finite value is the rational it stands for; every
    operation rounds its exact result to nearest with ties to even, with subnormals, overflow to
    infinity and NaN. Positive and negative zero are one value. The bounds of rounding (monotone,
    exact on representable values) are what the governor's bounds rest on.
  \<^item> \<open>Text\<close>: UTF-8 length, control characters, trimming, decimal printing and path components as the
    validators use them. A \<open>string\<close> is the byte sequence of a Rust \<open>String\<close>.
  \<^item> \<open>Domain\<close> (\<open>domain.rs\<close>): target identifiers, CPU sets, process identities, frequency limits,
    readings and plans.
  \<^item> \<open>Scenes\<close> (\<open>policy.rs\<close>): profiles, modes, scenes and the set of hints with expiry.
  \<^item> \<open>Frequency\<close> (\<open>policy.rs\<close>): \<open>FrequencyPolicy::validate\<close> and \<open>constrain_frequency_limits\<close>.
  \<^item> \<open>Config\<close> (\<open>config.rs\<close>): the documents as records, their defaults, and the merging of patches.
  \<^item> \<open>Load\<close>, \<open>Thermal\<close> (\<open>policy.rs\<close>): the heavy-load detector and the thermal guard, two state
    machines with hysteresis and dwell.
  \<^item> \<open>Energy_Model\<close>, \<open>Governor_Parts\<close>, \<open>Governor\<close> (\<open>energy.rs\<close>): the energy model expanded onto the
    OPPs of the kernel, the demand predictor, the sampler, the energy bucket, and
    \<open>transition_governor\<close>, cut into the stages its body has in order: \<open>prepare_targets\<close>,
    \<open>apply_burst\<close>, \<open>apply_power_budget\<close>, \<open>budgeted_plan\<close>, \<open>finish_transition\<close>.
    \<open>Governor_Safety\<close> and \<open>Governor_State\<close> hold what is proved of a step and of its successor state.
  \<^item> \<open>Checks\<close>, \<open>Device_Validation\<close>, \<open>Scheduler_Validation\<close>, \<open>Policy_Validation\<close> (\<open>config.rs\<close>): the
    validators, each a function from a document to the list of its issues in the order the code
    pushes them, the cross-document checks and \<open>materialize_cpu_groups\<close>. The interface \<open>unique_keys\<close>
    states the contract shared by the loops that collect identifiers in a set and report duplicates;
    all of these loops are interpretations of it.
  \<^item> \<open>Policy_Engine\<close> (\<open>policy.rs\<close>): compiled rules, \<open>AppRuleEngine\<close> and \<open>PolicyEngine\<close> with
    \<open>evaluate_base\<close>, \<open>evaluate_stateful\<close> and \<open>evaluate_scheduler\<close>. \<open>Engine_Safety\<close> proves what a plan
    guarantees. This theory adds the property that spans documents, engine and decision.
  \<^item> \<open>Effects\<close>: operations on a state that may fail (\<open>act\<close>, with \<open>bind_act\<close> for the operator \<open>?\<close> and
    \<open>attempt\<close> for a \<open>match\<close> on a result); the interface \<open>frame\<close>, a preorder that every operation of a
    group stays within, and \<open>runs\<close>, a Hoare triple with a postcondition for errors. \<open>Parsing\<close>: trimming,
    parsing and splitting as the actuator and the adapters use them. \<open>Platform\<close> (\<open>uperf-platform\<close>): the
    traits of the ports as records of functions on an environment of any type, and their data.
    \<open>Cpu_List\<close>: the CPU-list notation of the kernel.
  \<^item> \<open>Actuator_Targets\<close>, \<open>Actuator_Journal\<close>, \<open>Actuator_IO\<close>, \<open>Actuator\<close>, \<open>Actuator_Scalars\<close>,
    \<open>Actuator_Tasks\<close>, \<open>Actuator_Units\<close>, \<open>Actuator_Recovery\<close> (\<open>uperf-actuator/src/lib.rs\<close>): targets and
    registry, the journal with its validation and codec, reading, writing and settling of attributes,
    and the public methods of \<open>FrequencyActuator\<close> in the order of the file. The state behind the mutex
    (\<open>ActuatorState\<close>) and the environment together are the record \<open>machine\<close>.
  \<^item> \<open>Actuator_Frames\<close> (which operations change which part of the state, by interpretations of
    \<open>frame\<close>), \<open>Actuator_Safety\<close>, \<open>Journal_Facts\<close> (the interface \<open>field_mask\<close>, interpreted for the masks
    of tasks and of units), \<open>Actuator_Ownership\<close>, \<open>Actuator_Formats\<close>: what is proved of single methods.
    \<open>Actuator_Demo\<close> is a small machine on which the theorems are applied.
  \<^item> \<open>Journal_Invariant\<close>, \<open>Write_Ahead\<close>, \<open>Write_Ahead_Methods\<close>, \<open>Write_Ahead_Recovery\<close>,
    \<open>Write_Ahead_Runs\<close>: the write-ahead discipline. The interface \<open>recorder\<close> is an actuator whose ports
    log what they are asked; \<open>traced\<close> gives one for every actuator. \<open>served\<close> is the step relation of
    a run: construction, then any methods with any arguments, with anything happening in between.
  \<^item> \<open>Decision_Trace\<close> (\<open>decision_trace.rs\<close>): the ring of records and its paging. \<open>Reconcile\<close>
    (\<open>reconcile.rs\<close>): one cycle of the worker with its gate, fence, frequency, scalar and scheduler parts;
    \<open>Reconcile_Scheduler\<close> and \<open>Reconcile_Safety\<close> hold what is proved of it.
  \<^item> \<open>Touch_Input\<close>, \<open>Input_Source\<close> (\<open>input.rs\<close>): the state machines of a multitouch device and of keys and
    pointers, and the source that discovers, opens, polls and drops devices, one round of its waiting loop at a time.
    \<open>Touch_Safety\<close> is what is proved of one device, \<open>Input_Safety\<close> of the observer and the runtime together.
  \<^item> \<open>Runtime_State\<close>, \<open>Runtime_Evaluate\<close>, \<open>Runtime_Barriers\<close>, \<open>Runtime_Observe\<close>, \<open>Runtime_Control\<close>,
    \<open>Runtime_Commands\<close> (\<open>runtime.rs\<close>): the actor. The fields of \<open>RuntimeActor\<close> are the record \<open>runtime_actor\<close>,
    grouped by what they serve; what a handler spawns, sends or answers is appended to the log \<open>ra_effects\<close>; \<open>actor_step\<close> is one
    round of the loop of \<open>run\<close>. The theories hold evaluation and submission; caps, fence, barrier,
    sleep, reload and the results of the workers; the observations; workloads and focus leases; and the commands.
  \<^item> \<open>Runtime_Frames\<close>: the interfaces \<open>actor_frame\<close> and \<open>actor_invariant\<close>, what an invariant has to survive so that it survives
    every message. \<open>Runtime_Safety\<close>: the actor beside its workers as a step relation (\<open>daemon_step\<close>: the worker
    thread of \<open>run_frequency_worker\<close> behind its latest-wins channel, which may also panic, and the tasks of scheduler
    and restoration), and its invariant \<open>daemon_ok\<close> in the interface \<open>steady_runtime\<close>. \<open>Runtime_Latch\<close>: the interface
    \<open>lane_blind\<close> of invariants that do not depend on the lanes, interpreted for the failure latch and for the fence.
    \<open>Runtime_Properties\<close>: what follows for the daemon.

  \<^bold>\<open>What is proved.\<close>
  \<^item> Frequency plans: every plan of the engine, from the governor or from a manual override, is in
    order, inside the hardware window and under every administrator and thermal cap; the governor
    step succeeds whenever each target has a model and an OPP under its cap, and its errors are
    exactly the absence of one of these; limits snap to supported frequencies, the highest under
    the cap; manual constraint is idempotent.
  \<^item> Thermal: an unusable reading or a critical temperature takes effect at once, other changes wait
    for the dwell time, recovery for the hysteresis; and a reading that alternates between two
    non-critical bands is never acted on.
  \<^item> Governor state: the energy bucket stays within its capacity, the cursor of the budget path stays
    inside it and moves by at most one place in a step, burst freezes both, the ramp is monotone in
    its progress, and minimum residency delays only upward changes.
  \<^item> Configuration: what a valid document guarantees (identifiers unique, CPU sets disjoint, caps
    ordered, references resolved, scalar values in their domain), that paths stay below their roots,
    and that only validated documents load.
  \<^item> Scheduling: decisions never fail for a validated policy, stay with the user of the workload, and
    real-time plans stay within their opt-in envelope; application rules pick the highest priority.
  \<^item> Actuator: in every run, whatever happens on the machine between two methods and whichever ports
    fail, no attribute is written that a crash at that moment would leave unclaimed on the disk (for
    an actuator with no process or systemd backend); a degraded actuator changes nothing any more; a failed
    transaction puts the journal back or degrades; a window is reported as applied only when the kernel
    showed it; settling ends by its deadline; recovery ends in an empty journal or degraded; fields of
    tasks and units that others changed are left alone and never claimed again.
  \<^item> Formats: frequencies, scalar values, CPU lists, the journal and the recovery manifests are read back
    as they were written.
  \<^item> Worker: after a reconciliation that succeeds, every capped target is known to be at or below its cap,
    as read back from the kernel, or was already claimed at or below it; tasks get online CPUs only; a unit is only changed when the workload has it to
    itself; a poisoned gate changes nothing. The trace refines the plain history of all records cut to
    its newest part, and paging through it misses no record that is still there.
  \<^item> Input: presses and releases of a device are balanced, positions are normalized, and once its queue is delivered the runtime
    holds only contacts that an open device holds, whatever devices do and however the observer is restarted.
  \<^item> Runtime: while resources are being restored nothing else mutates, in every interleaving of messages and workers; no caller
    waits for a restoration that cannot come; after a failure that leaves the machine in an unknown state no plan is handed out
    any more; a plan is only handed out when the fence was given the caps asked for last, and these are the
    pointwise minimum of what administrator and thermal state allow. The exception the proofs showed is stated as
    a property: an evaluation that finds the frequency worker gone still spawns its scheduler job.

  \<^bold>\<open>Parameters.\<close> Code outside the repository is an argument of the definitions that use it: the
  \<open>regex\<close> crate (\<open>rx_new\<close> compiles a pattern or gives the text of an error, \<open>rx_is_match\<close> matches),
  \<open>f64::exp\<close> (\<open>exp_f\<close> in \<open>time_weighted_ema\<close>), and the JSON decoder (\<open>from_str\<close> in
  \<open>parse_validated\<close>). For the actuator and the worker: the ports of the environment (the records of
  \<open>Platform\<close>, functions of an arbitrary environment that may fail at every call), the durable encoding
  of the journal (\<open>journal_codec\<close>: \<open>serde_json\<close> and \<open>crc32fast\<close>), of which \<open>codec_round_trips\<close> and
  \<open>codec_ordered\<close> state the documented behaviour. For the input source: \<open>evdev_ports\<close> (the evdev crate, the
  directory, the clock) and \<open>hypot\<close>. For the runtime: \<open>runtime_ports\<close> (the clock, the mode of the actuator, the reader of
  process identities, whether the worker still holds its channel). \<open>steady_runtime\<close> says that asking one of them
  does not close the channel, and \<open>daemon_step\<close> lets it close only once the worker is gone; \<open>daemon_ports\<close> is such an outside, built on the
  actuator's own state. No property assumes anything of the parameters but where its statement says so.

  \<^bold>\<open>Bounds.\<close> No definition of the program has fuel: every loop of the core crate and of the worker
  runs over a finite collection and is a structural recursion or a fold, and the polling loop of the
  actuator (\<open>settle_loop\<close>) ends by the measure of the time left. A client that pages through the trace
  (\<open>drain\<close>) has fuel, and the ring's capacity is proved to be enough of it. The numbering of the trace
  assumes fewer than \<open>2 ^ 64\<close> records, and the two properties about restorations fewer than \<open>2 ^ 64 - 1\<close>
  frequency commands, where their saturating numbers stay distinct. The waiting loop of the input source has no
  bound and is a relation between its rounds. \<open>usize\<close> is a natural number, since the lengths it counts are of
  collections in memory.

  \<^bold>\<open>Not modelled.\<close> Serialization and schemas (derived code), \<open>Display\<close> of error types beyond the
  messages the engine itself builds (messages of the actuator are kept as template and arguments), log
  lines, and contention for a mutex: a method of the actuator runs as one step, as it does under its
  lock. Of the runtime, what it publishes to readers (snapshots, health, status conversions) and the threads of its
  observers, which are system calls on a schedule. Of the other crates and modules, loading and watching the configuration files, the
  service, the Linux adapters other than input, the D-Bus client and the command-line and graphical clients.
\<close>

section \<open>From the documents to a scheduling decision\<close>

lemma engine_example_new: "PolicyEngine_new literal_rx_new materialized_example = Inr engine_example"
  by code_simp

text \<open>
  C13: from the configuration documents to a scheduling decision: when the policy document is valid,
  its CPU groups are materialized against the device and the engine is built from the result, every
  real-time plan of every decision is for a task of the workload's own user, is opted in to, has a
  priority within the configured maximum, and has an explicit affinity that leaves every
  housekeeping CPU alone.
\<close>

theorem scheduled_fifo_contained:
  assumes "PolicyConfig_validate rx_new (cb_policy b) = Inr ()" and "materialize_cpu_groups b = Inr policy"
    and "PolicyEngine_new rx_new policy = Inr engine"
    and "evaluate_scheduler rx_is_match engine workload threads source scene = Inr d"
    and "bt_get (sd_tasks d) k = Some plan" and "tp_scheduling_class plan = Some Fifo"
  shows "pi_uid k = pi_uid (identity workload)
    \<and> rt_enabled (sc_realtime (pol_scheduler policy))
    \<and> (\<exists>prio. rt_priority plan = Some prio \<and> prio \<le> rt_max_priority (sc_realtime (pol_scheduler policy)))
    \<and> (\<exists>cpus. affinity plan = Some cpus
         \<and> set cpus \<inter> set (rt_housekeeping_cpus (sc_realtime (pol_scheduler policy))) = {})"
proof -
  have cfg: "pe_config engine = policy" using assms(3) by (auto simp: PolicyEngine_new_def rbind_Inr_iff)
  from evaluate_scheduler_entries [OF assms(4)] assms(5)
  obtain p where user: "pi_uid k = pi_uid (identity workload)"
    and p: "p \<in> set (sc_task_profiles (pol_scheduler policy))" "plan \<in> profile_plans p"
    unfolding decision_entry_ok_def cfg by blast
  from materialized_realtime_safe [OF assms(1,2) p] assms(6) user show ?thesis
    by (auto simp: realtime_plan_ok_def)
qed

theorem scheduled_fifo_contained_witness:
  "\<exists>d plan. evaluate_scheduler (=) engine_example workload_example [] Explicit Foreground = Inr d
     \<and> bt_get (sd_tasks d) (ProcessIdentity 42 1 1000) = Some plan
     \<and> pi_uid (ProcessIdentity 42 1 1000) = pi_uid (identity workload_example)
     \<and> rt_enabled (sc_realtime (pol_scheduler materialized_example))
     \<and> (\<exists>prio. rt_priority plan = Some prio
          \<and> prio \<le> rt_max_priority (sc_realtime (pol_scheduler materialized_example)))
     \<and> (\<exists>cpus. affinity plan = Some cpus
          \<and> set cpus \<inter> set (rt_housekeeping_cpus (sc_realtime (pol_scheduler materialized_example))) = {})"
proof -
  obtain d plan where d: "evaluate_scheduler (=) engine_example workload_example [] Explicit Foreground = Inr d"
    and plan: "bt_get (sd_tasks d) (ProcessIdentity 42 1 1000) = Some plan"
    and fifo: "tp_scheduling_class plan = Some Fifo"
    by (simp add: evaluate_scheduler_def engine_example_def materialized_example_def policy_example_def
        scheduler_example_def matcher_is_match_def workload_example_def process_tasks_def find_task_profile_def
        thread_rule_step_def bt_get_def effective_task_plan_def)
  have "PolicyConfig_validate literal_rx_new (cb_policy bundle_example) = Inr ()"
    by (simp add: bundle_example_def policy_example_valid)
  from scheduled_fifo_contained [OF this bundle_example_materializes engine_example_new d plan fifo] d plan
  show ?thesis by blast
qed

end
